(* ===== verification/Prelude.thy ===== *)
theory Prelude
  imports Main "HOL-Library.Word" "HOL-Library.Multiset" "HOL-Library.Sublist"
    "HOL-Library.Char_ord" "HOL-Library.List_Lexorder"
begin

text \<open>
  The vocabulary every component shares: machine integers at Go's widths, the functions of Go's
  \<open>strings\<close>, \<open>strconv\<close>, \<open>sort\<close> and \<open>fmt\<close> packages the operator calls, the early-return loop,
  and the iteration order of a Go map as an explicit argument.  A Go string is a list of bytes,
  here a \<open>char list\<close>; comparison of strings is byte-wise and lexicographic, as in Go.
\<close>

named_theorems go_loop \<open>characterisations of the early-return loops\<close>
named_theorems go_str \<open>facts about the string functions\<close>

type_synonym int32 = "32 word"
type_synonym int64 = "64 word"

section \<open>Loops that return at the first error\<close>

text \<open>
  \<open>for _, x := range xs { if err := f(x); err != nil { return err } }\<close>: the first error wins, and
  \<open>None\<close> is Go's \<open>nil\<close>.
\<close>

fun first_error :: "('a \<Rightarrow> 'e option) \<Rightarrow> 'a list \<Rightarrow> 'e option" where
  "first_error f [] = None"
| "first_error f (x # xs) = (case f x of Some e \<Rightarrow> Some e | None \<Rightarrow> first_error f xs)"

definition or_else :: "'e option \<Rightarrow> 'e option \<Rightarrow> 'e option" where
  "or_else a b = (case a of Some e \<Rightarrow> Some e | None \<Rightarrow> b)"

lemma first_error_None [go_loop]: "first_error f xs = None \<longleftrightarrow> (\<forall>x \<in> set xs. f x = None)"
  by (induction xs) (auto split: option.splits)

lemma first_error_SomeD: "first_error f xs = Some e \<Longrightarrow> \<exists>x \<in> set xs. f x = Some e"
  by (induction xs) (auto split: option.splits)

lemma first_error_at:
  "f x = Some e \<Longrightarrow> \<forall>y \<in> set ys. f y = None \<Longrightarrow> first_error f (ys @ x # zs) = Some e"
  by (induction ys) auto

lemma first_error_split:
  "first_error f xs = Some e \<Longrightarrow>
     \<exists>ys x zs. xs = ys @ x # zs \<and> f x = Some e \<and> (\<forall>y \<in> set ys. f y = None)"
proof (induction xs)
  case Nil
  then show ?case by simp
next
  case (Cons a xs)
  show ?case
  proof (cases "f a")
    case None
    with Cons obtain ys x zs where "xs = ys @ x # zs" "f x = Some e" "\<forall>y \<in> set ys. f y = None"
      by auto
    with None have "a # xs = (a # ys) @ x # zs \<and> f x = Some e \<and> (\<forall>y \<in> set (a # ys). f y = None)"
      by simp
    then show ?thesis by blast
  next
    case (Some b)
    with Cons.prems have "a # xs = [] @ a # xs \<and> f a = Some e" by simp
    then show ?thesis by fastforce
  qed
qed

lemma first_error_append:
  "first_error f (xs @ ys) = or_else (first_error f xs) (first_error f ys)"
  by (induction xs) (auto simp: or_else_def split: option.splits)

lemma or_else_None [simp, go_loop]: "or_else a b = None \<longleftrightarrow> a = None \<and> b = None"
  by (simp add: or_else_def split: option.splits)

lemma or_else_simps [simp]: "or_else None b = b" "or_else (Some e) b = Some e"
  by (simp_all add: or_else_def)

lemma or_else_Some: "or_else a b = Some e \<longleftrightarrow> a = Some e \<or> (a = None \<and> b = Some e)"
  by (cases a) auto

lemma first_error_cong [fundef_cong]:
  "xs = ys \<Longrightarrow> (\<And>x. x \<in> set ys \<Longrightarrow> f x = g x) \<Longrightarrow> first_error f xs = first_error g ys"
  by (induction xs arbitrary: ys) (auto split: option.splits)

section \<open>The iteration order of a Go map\<close>

text \<open>
  \<open>range\<close> over a map visits every key once, in an order the language leaves open.  A component that
  ranges over a map takes the order as an argument: a function that permutes the list of keys.
\<close>

type_synonym range_order = "string list \<Rightarrow> string list"

definition range_ok :: "range_order \<Rightarrow> bool" where
  "range_ok ord \<longleftrightarrow> (\<forall>ks. mset (ord ks) = mset ks)"

lemma range_ok_set [simp]: "range_ok ord \<Longrightarrow> set (ord ks) = set ks"
  by (metis range_ok_def set_mset_mset)

lemma range_ok_Nil [simp]: "range_ok ord \<Longrightarrow> ord [] = []"
  by (metis range_ok_def mset_zero_iff mset.simps(1))

lemma range_ok_id [simp]: "range_ok (\<lambda>ks. ks)"
  by (simp add: range_ok_def)

lemma range_ok_rev [simp]: "range_ok rev"
  by (simp add: range_ok_def)

section \<open>fmt: decimal numbers\<close>

definition digit_char :: "nat \<Rightarrow> char" where
  "digit_char n = char_of (48 + n)"

fun nat_to_string :: "nat \<Rightarrow> string" where
  "nat_to_string n =
     (if n < 10 then [digit_char n] else nat_to_string (n div 10) @ [digit_char (n mod 10)])"

declare nat_to_string.simps [simp del]

definition itoa :: "int \<Rightarrow> string" where
  "itoa i = (if i < 0 then ''-'' @ nat_to_string (nat (- i)) else nat_to_string (nat i))"

definition is_digit :: "char \<Rightarrow> bool" where
  "is_digit c \<longleftrightarrow> 48 \<le> (of_char c :: nat) \<and> (of_char c :: nat) \<le> 57"

definition digit_value :: "char \<Rightarrow> nat" where
  "digit_value c = of_char c - 48"

text \<open>\<open>strconv.ParseUint(s, 10, 64)\<close>: only decimal digits, at least one, at most \<open>2^64 - 1\<close>.\<close>

definition parse_digits :: "string \<Rightarrow> nat" where
  "parse_digits s = foldl (\<lambda>n c. 10 * n + digit_value c) 0 s"

definition parse_uint :: "string \<Rightarrow> nat option" where
  "parse_uint s =
     (if s \<noteq> [] \<and> list_all is_digit s \<and> parse_digits s < 2 ^ 64 then Some (parse_digits s)
      else None)"

text \<open>\<open>strconv.Atoi\<close> on a 64-bit platform: an optional sign, then digits, in the range of \<open>int\<close>.\<close>

definition atoi :: "string \<Rightarrow> int option" where
  "atoi s =
     (let neg = (s \<noteq> [] \<and> hd s = CHR ''-'');
          body = (if s \<noteq> [] \<and> (hd s = CHR ''-'' \<or> hd s = CHR ''+'') then tl s else s)
      in if body = [] \<or> \<not> list_all is_digit body then None
         else let v = (if neg then - int (parse_digits body) else int (parse_digits body))
              in if - (2 ^ 63) \<le> v \<and> v < 2 ^ 63 then Some v else None)"

lemma digit_chars:
  "digit_char 0 = CHR ''0''" "digit_char 1 = CHR ''1''" "digit_char (Suc 0) = CHR ''1''"
  "digit_char 2 = CHR ''2''" "digit_char 3 = CHR ''3''" "digit_char 4 = CHR ''4''"
  "digit_char 5 = CHR ''5''" "digit_char 6 = CHR ''6''" "digit_char 7 = CHR ''7''"
  "digit_char 8 = CHR ''8''" "digit_char 9 = CHR ''9''"
  by code_simp+

lemma of_char_digit_char: "n < 10 \<Longrightarrow> (of_char (digit_char n) :: nat) = 48 + n"
  by (simp add: digit_char_def of_char_of)

lemma is_digit_digit_char: "n < 10 \<Longrightarrow> is_digit (digit_char n)"
  by (simp add: is_digit_def of_char_digit_char)

lemma digit_value_digit_char: "n < 10 \<Longrightarrow> digit_value (digit_char n) = n"
  by (simp add: digit_value_def of_char_digit_char)

lemma nat_to_string_not_Nil [simp]: "nat_to_string n \<noteq> []"
  by (subst nat_to_string.simps) simp

lemma nat_to_string_digits: "list_all is_digit (nat_to_string n)"
proof (induction n rule: nat_to_string.induct)
  case (1 n)
  then show ?case
    by (subst nat_to_string.simps) (auto simp: is_digit_digit_char list_all_iff)
qed

lemma parse_digits_snoc: "parse_digits (s @ [c]) = 10 * parse_digits s + digit_value c"
  by (simp add: parse_digits_def)

lemma parse_nat_to_string [go_str]: "parse_digits (nat_to_string n) = n"
proof (induction n rule: nat_to_string.induct)
  case (1 n)
  show ?case
  proof (cases "n < 10")
    case True
    then show ?thesis
      by (subst nat_to_string.simps) (simp add: parse_digits_def digit_value_digit_char)
  next
    case False
    with 1 show ?thesis
      by (subst nat_to_string.simps) (simp add: parse_digits_snoc digit_value_digit_char)
  qed
qed

lemma nat_to_string_inj: "nat_to_string m = nat_to_string n \<Longrightarrow> m = n"
  by (metis parse_nat_to_string)

lemma digit_not_sign: "is_digit c \<Longrightarrow> c \<noteq> CHR ''-'' \<and> c \<noteq> CHR ''+'' \<and> c \<noteq> CHR '' ''"
  by (auto simp: is_digit_def)

lemma nat_to_string_hd: "is_digit (hd (nat_to_string n))"
  using nat_to_string_digits [of n] by (cases "nat_to_string n") auto

lemma itoa_inj: "itoa i = itoa j \<Longrightarrow> i = j"
proof -
  assume eq: "itoa i = itoa j"
  have hd: "hd (nat_to_string k) \<noteq> CHR ''-''" for k
    using nat_to_string_hd digit_not_sign by blast
  have ne: "nat_to_string k \<noteq> CHR ''-'' # s" for k s
    using hd [of k] by auto
  have ne': "CHR ''-'' # s \<noteq> nat_to_string k" for k s
    using ne [of k s] by metis
  have "(i < 0) = (j < 0)"
    using eq by (auto simp: itoa_def ne ne' split: if_splits)
  with eq show "i = j"
    by (auto simp: itoa_def split: if_splits dest!: nat_to_string_inj)
qed

lemma atoi_itoa [go_str]: "- (2 ^ 63) \<le> i \<Longrightarrow> i < 2 ^ 63 \<Longrightarrow> atoi (itoa i) = Some i"
proof -
  assume lo: "- (2 ^ 63) \<le> i" and hi: "i < 2 ^ 63"
  have d: "hd (nat_to_string k) \<noteq> CHR ''-'' \<and> hd (nat_to_string k) \<noteq> CHR ''+''" for k
    using nat_to_string_hd digit_not_sign by blast
  show ?thesis
    using lo hi d [of "nat i"] d [of "nat (- i)"]
    by (auto simp: atoi_def itoa_def Let_def nat_to_string_digits parse_nat_to_string)
qed

lemma parse_uint_nat_to_string: "n < 2 ^ 64 \<Longrightarrow> parse_uint (nat_to_string n) = Some n"
  by (simp add: parse_uint_def nat_to_string_digits parse_nat_to_string)

end
