(* ===== verification/Conditions.thy ===== *)
theory Conditions
  imports Prelude
begin

text \<open>
  Status conditions: \<open>metav1.Condition\<close>, the condition constants of
  \<open>api/v1beta2/brokercluster_types.go\<close>, \<open>pkg/utils/common/conditions.go\<close> and the comparison of
  condition lists that decides whether a status is written back.

  The four helpers of \<open>k8s.io/apimachinery/pkg/api/meta\<close> are not under \<open>src/\<close>: a definition that
  calls them takes them as the argument \<open>M\<close>, and \<open>meta_ok M\<close> states their documented behaviour.
  \<open>LastTransitionTime\<close> is managed by those helpers alone and is not part of the record.
\<close>

section \<open>Data\<close>

datatype condition_status = ConditionTrue | ConditionFalse | ConditionUnknown

record condition =
  cType :: string
  cStatus :: condition_status
  cReason :: string
  cMessage :: string
  cObservedGeneration :: int

text \<open>A condition literal with its \<open>ObservedGeneration\<close> left at Go's zero value.\<close>

definition mk_condition :: "string \<Rightarrow> condition_status \<Rightarrow> string \<Rightarrow> string \<Rightarrow> condition" where
  "mk_condition t s r m =
     \<lparr>cType = t, cStatus = s, cReason = r, cMessage = m, cObservedGeneration = 0\<rparr>"

lemma mk_condition_sel [simp]:
  "cType (mk_condition t s r m) = t" "cStatus (mk_condition t s r m) = s"
  "cReason (mk_condition t s r m) = r" "cMessage (mk_condition t s r m) = m"
  "cObservedGeneration (mk_condition t s r m) = 0"
  by (simp_all add: mk_condition_def)

abbreviation "DeployedConditionType \<equiv> ''Deployed''"
abbreviation "DeployedConditionReadyReason \<equiv> ''AllPodsReady''"
abbreviation "DeployedConditionNotReadyReason \<equiv> ''PodsNotReady''"
abbreviation "DeployedConditionZeroSizeReason \<equiv> ''ZeroSizeDeployment''"
abbreviation "DeployedConditionValidationFailedReason \<equiv> ''ValidationFailed''"
abbreviation "DeployedConditionCrudKindErrorReason \<equiv> ''ResourceError''"
abbreviation "DeployedConditionNoMatchingServiceReason \<equiv> ''NoMatchingService''"
abbreviation "DeployedConditionNoServiceCapacityReason \<equiv> ''NoServiceCapacity''"
abbreviation "DeployedConditionMatchedServiceNotFoundReason \<equiv> ''MatchedServiceNotFound''"
abbreviation "DeployedConditionProvisioningPendingReason \<equiv> ''ProvisioningPending''"
abbreviation "DeployedConditionProvisionedReason \<equiv> ''Provisioned''"
abbreviation "DeployedConditionSelectorEvaluationError \<equiv> ''AppSelectorEvaluationError''"
abbreviation "AppsProvisionedConditionType \<equiv> ''AppsProvisioned''"
abbreviation "AppsProvisionedConditionSyncedReason \<equiv> ''Synced''"
abbreviation "AppsProvisionedConditionWaitingReason \<equiv> ''WaitingForBroker''"
abbreviation "AppsProvisionedConditionNotReadyReason \<equiv> ''BrokerNotReady''"
abbreviation "ValidConditionType \<equiv> ''Valid''"
abbreviation "ValidConditionSuccessReason \<equiv> ''ValidationSucceded''"
abbreviation "ValidConditionFailureReason \<equiv> ''ValidationFailed''"
abbreviation "ValidConditionUnknownReason \<equiv> ''NonFatalValidationFailure''"
abbreviation "ValidConditionMissingResourcesReason \<equiv> ''MissingDependentResources''"
abbreviation "ValidConditionInvalidVersionReason \<equiv> ''SpecVersionInvalid''"
abbreviation "ValidConditionInvalidResourceName \<equiv> ''InvalidResourceName''"
abbreviation "ValidConditionAddressTypeError \<equiv> ''AddressTypeError''"
abbreviation "ValidConditionSpecSelectorError \<equiv> ''SpecSelectorError''"
abbreviation "ValidConditionPDBNonNilSelectorReason \<equiv> ''PodDisruptionBudgetNonNilSelector''"
abbreviation "ValidConditionFailedReservedLabelReason \<equiv> ''ReservedLabelReference''"
abbreviation "ValidConditionFailedExtraMountReason \<equiv> ''InvalidExtraMount''"
abbreviation "ValidConditionFailedDuplicateAcceptorPort \<equiv> ''DuplicateAcceptorPort''"
abbreviation "ValidConditionFailedInvalidExposeMode \<equiv> ''InvalidExposeMode''"
abbreviation "ValidConditionFailedInvalidIngressSettings \<equiv> ''InvalidIngressSettings''"
abbreviation "ValidConditionInvalidCertSecretReason \<equiv> ''InvalidCertSecret''"
abbreviation "ValidConditionFailedDuplicateBrokerPropertiesKey \<equiv> ''DuplicateBrokerPropertiesKey''"
abbreviation "ValidConditionInvalidInternalVarUsage \<equiv> ''InvalidInternalVarUsage''"
abbreviation "ReadyConditionType \<equiv> ''Ready''"
abbreviation "ReadyConditionReason \<equiv> ''ResourceReady''"
abbreviation "NotReadyConditionReason \<equiv> ''WaitingForAllConditions''"
abbreviation "ConfigAppliedConditionType \<equiv> ''BrokerPropertiesApplied''"
abbreviation "JaasConfigAppliedConditionType \<equiv> ''JaasPropertiesApplied''"
abbreviation "ConfigAppliedConditionSynchedReason \<equiv> ''Applied''"
abbreviation "ConfigAppliedConditionSynchedWithErrorReason \<equiv> ''AppliedWithError''"
abbreviation "ConfigAppliedConditionUnknownReason \<equiv> ''UnableToRetrieveStatus''"
abbreviation "ConfigAppliedConditionOutOfSyncReason \<equiv> ''OutOfSync''"
abbreviation "ConfigAppliedConditionNoJolokiaClientsAvailableReason \<equiv> ''NoJolokiaClientsAvailable''"
abbreviation "BrokerVersionAlignedConditionType \<equiv> ''BrokerVersionAligned''"
abbreviation "BrokerVersionAlignedConditionMatchReason \<equiv> ''VersionMatch''"
abbreviation "BrokerVersionAlignedConditionMismatchReason \<equiv> ''VersionMismatch''"
abbreviation "ScaleDownPendingConditionType \<equiv> ''ScalingDown''"
abbreviation "ScaleDownPendingConditionPendingConfigAppliedReason \<equiv> ''PendingConfigApplied''"
abbreviation "ScaleDownPendingConditionPendingEmptyReason \<equiv> ''PendingEmpty''"
abbreviation "ScaleDownPendingConditionPendingDeleteReason \<equiv> ''PendingDelete''"
abbreviation "ReconcileBlockedType \<equiv> ''ReconcileBlocked''"
abbreviation "ReconcileBlockedReason \<equiv> ''AnnotationPresent''"

abbreviation "NotReadyConditionMessage \<equiv> ''Some conditions are not met''"
abbreviation "DeployedConditionZeroSizeMessage \<equiv> ''Pods not scheduled. Deployment size is 0''"
abbreviation "UnkonwonImageVersionMessage \<equiv>
  ''Unknown image version, set a supported broker version in spec.version when images are specified''"
abbreviation "NotSupportedImageVersionMessage \<equiv>
  ''Invalid image version, set a supported broker version in spec.version when images are specified''"
abbreviation "ImageDependentPairMessage \<equiv>
  ''Init image and broker image must both be configured as an interdependent pair''"
abbreviation "PDBNonNilSelectorMessage \<equiv>
  ''PodDisruptionBudget's selector should not be specified''"

section \<open>The condition helpers of apimachinery\<close>

record meta_api =
  FindStatusCondition :: "condition list \<Rightarrow> string \<Rightarrow> condition option"
  SetStatusCondition :: "condition list \<Rightarrow> condition \<Rightarrow> condition list"
  RemoveStatusCondition :: "condition list \<Rightarrow> string \<Rightarrow> condition list"
  IsStatusConditionTrue :: "condition list \<Rightarrow> string \<Rightarrow> bool"

text \<open>One condition per type: what the list map key of the CRD schema enforces on every stored status.\<close>

definition distinct_types :: "condition list \<Rightarrow> bool" where
  "distinct_types cs \<longleftrightarrow> distinct (map cType cs)"

definition meta_ok :: "meta_api \<Rightarrow> bool" where
  "meta_ok M \<longleftrightarrow>
     (\<forall>cs t. FindStatusCondition M cs t = List.find (\<lambda>c. cType c = t) cs) \<and>
     (\<forall>cs c. distinct_types cs \<longrightarrow> distinct_types (SetStatusCondition M cs c) \<and>
        set (SetStatusCondition M cs c) = insert c {d \<in> set cs. cType d \<noteq> cType c}) \<and>
     (\<forall>cs t. distinct_types cs \<longrightarrow> distinct_types (RemoveStatusCondition M cs t) \<and>
        set (RemoveStatusCondition M cs t) = {d \<in> set cs. cType d \<noteq> t}) \<and>
     (\<forall>cs t. IsStatusConditionTrue M cs t \<longleftrightarrow>
        (\<exists>c. FindStatusCondition M cs t = Some c \<and> cStatus c = ConditionTrue))"

lemma find_type_iff:
  "distinct_types cs \<Longrightarrow> List.find (\<lambda>c. cType c = t) cs = Some c \<longleftrightarrow> c \<in> set cs \<and> cType c = t"
proof (induction cs)
  case Nil
  then show ?case by simp
next
  case (Cons d cs)
  then show ?case by (auto simp: distinct_types_def)
qed

lemma meta_find_eq: "meta_ok M \<Longrightarrow> FindStatusCondition M cs t = List.find (\<lambda>c. cType c = t) cs"
  unfolding meta_ok_def by (elim conjE) (rule spec, erule spec)

lemma meta_find_iff:
  "meta_ok M \<Longrightarrow> distinct_types cs \<Longrightarrow>
     FindStatusCondition M cs t = Some c \<longleftrightarrow> c \<in> set cs \<and> cType c = t"
  by (simp add: meta_find_eq find_type_iff)

lemma meta_find_None:
  "meta_ok M \<Longrightarrow> FindStatusCondition M cs t = None \<longleftrightarrow> (\<forall>c \<in> set cs. cType c \<noteq> t)"
  by (auto simp: meta_find_eq find_None_iff)

lemma meta_set_distinct [simp]:
  "meta_ok M \<Longrightarrow> distinct_types cs \<Longrightarrow> distinct_types (SetStatusCondition M cs c)"
  unfolding meta_ok_def by blast

lemma meta_set_set [simp]:
  "meta_ok M \<Longrightarrow> distinct_types cs \<Longrightarrow>
     set (SetStatusCondition M cs c) = insert c {d \<in> set cs. cType d \<noteq> cType c}"
  unfolding meta_ok_def by blast

lemma meta_remove_distinct [simp]:
  "meta_ok M \<Longrightarrow> distinct_types cs \<Longrightarrow> distinct_types (RemoveStatusCondition M cs t)"
  unfolding meta_ok_def by blast

lemma meta_remove_set [simp]:
  "meta_ok M \<Longrightarrow> distinct_types cs \<Longrightarrow>
     set (RemoveStatusCondition M cs t) = {d \<in> set cs. cType d \<noteq> t}"
  unfolding meta_ok_def by blast

lemma meta_true_find:
  "meta_ok M \<Longrightarrow> IsStatusConditionTrue M cs t \<longleftrightarrow>
     (\<exists>c. FindStatusCondition M cs t = Some c \<and> cStatus c = ConditionTrue)"
  unfolding meta_ok_def by blast

lemma meta_true_iff:
  "meta_ok M \<Longrightarrow> distinct_types cs \<Longrightarrow>
     IsStatusConditionTrue M cs t \<longleftrightarrow> (\<exists>c \<in> set cs. cType c = t \<and> cStatus c = ConditionTrue)"
  by (auto simp: meta_true_find meta_find_iff)

lemma option_ext: "(\<And>y. a = Some y \<longleftrightarrow> b = Some y) \<Longrightarrow> a = b"
  by (cases a; cases b) auto

lemma meta_find_set:
  assumes "meta_ok M" "distinct_types cs"
  shows "FindStatusCondition M (SetStatusCondition M cs c) t =
     (if t = cType c then Some c else FindStatusCondition M cs t)"
  by (rule option_ext) (auto simp: meta_find_iff assms)

lemma meta_find_remove:
  assumes "meta_ok M" "distinct_types cs"
  shows "FindStatusCondition M (RemoveStatusCondition M cs t') t =
     (if t = t' then None else FindStatusCondition M cs t)"
  by (rule option_ext) (auto simp: meta_find_iff assms)

lemmas meta_simps = meta_find_set meta_find_remove meta_set_distinct meta_remove_distinct

text \<open>An instance that behaves as the package documents, used in the witnesses only.\<close>

fun put_condition :: "condition list \<Rightarrow> condition \<Rightarrow> condition list" where
  "put_condition [] c = [c]"
| "put_condition (d # cs) c = (if cType d = cType c then c # cs else d # put_condition cs c)"

definition meta_instance :: meta_api where
  "meta_instance =
     \<lparr>FindStatusCondition = (\<lambda>cs t. List.find (\<lambda>c. cType c = t) cs),
      SetStatusCondition = put_condition,
      RemoveStatusCondition = (\<lambda>cs t. filter (\<lambda>c. cType c \<noteq> t) cs),
      IsStatusConditionTrue = (\<lambda>cs t. case List.find (\<lambda>c. cType c = t) cs of
         None \<Rightarrow> False | Some c \<Rightarrow> cStatus c = ConditionTrue)\<rparr>"

lemma put_condition_types:
  "set (map cType (put_condition cs c)) = insert (cType c) (set (map cType cs))"
  by (induction cs) auto

lemma put_condition_ok:
  "distinct_types cs \<Longrightarrow> distinct_types (put_condition cs c) \<and>
     set (put_condition cs c) = insert c {d \<in> set cs. cType d \<noteq> cType c}"
proof (induction cs)
  case Nil
  then show ?case by (simp add: distinct_types_def)
next
  case (Cons d cs)
  then have IH: "distinct_types (put_condition cs c)"
    "set (put_condition cs c) = insert c {d \<in> set cs. cType d \<noteq> cType c}"
    by (auto simp: distinct_types_def)
  from Cons.prems have d: "cType d \<notin> cType ` set cs" "distinct (map cType cs)"
    by (auto simp: distinct_types_def)
  show ?case
  proof (cases "cType d = cType c")
    case True
    with d(1) have "\<forall>x \<in> set cs. cType x \<noteq> cType c" by (metis imageI)
    then have "{x \<in> set cs. cType x \<noteq> cType c} = set cs" by blast
    with True d show ?thesis by (auto simp: distinct_types_def)
  next
    case False
    with d(1) put_condition_types [of cs c] have "cType d \<notin> cType ` set (put_condition cs c)"
      by simp
    with False d IH show ?thesis
      by (auto simp: distinct_types_def)
  qed
qed

lemma meta_instance_ok: "meta_ok meta_instance"
  unfolding meta_ok_def
proof (intro conjI allI impI)
  show "distinct_types (SetStatusCondition meta_instance cs c)"
    and "set (SetStatusCondition meta_instance cs c) = insert c {d \<in> set cs. cType d \<noteq> cType c}"
    if "distinct_types cs" for cs c
    using put_condition_ok [OF that] by (simp_all add: meta_instance_def)
  show "distinct_types (RemoveStatusCondition meta_instance cs t)" if "distinct_types cs" for cs t
    using that by (simp add: meta_instance_def distinct_types_def distinct_map_filter)
qed (auto simp: meta_instance_def split: option.splits)

section \<open>pkg/utils/common/conditions.go\<close>

definition NewReadyCondition :: condition where
  "NewReadyCondition = mk_condition ReadyConditionType ConditionTrue ReadyConditionReason ''''"

definition ready_over :: "bool \<Rightarrow> condition list \<Rightarrow> bool" where
  "ready_over start cs =
     foldl (\<lambda>ready c. if cType c \<noteq> ReadyConditionType \<and> cStatus c = ConditionFalse then False
                      else ready) start cs"

definition SetReadyCondition :: "meta_api \<Rightarrow> condition list \<Rightarrow> condition list" where
  "SetReadyCondition M conditions =
     (let condition = NewReadyCondition;
          ready = ready_over (IsStatusConditionTrue M conditions DeployedConditionType) conditions
      in SetStatusCondition M conditions
           (if \<not> ready
            then condition\<lparr>cStatus := ConditionFalse, cReason := NotReadyConditionReason,
                           cMessage := NotReadyConditionMessage\<rparr>
            else condition))"

definition IsConditionPresentAndEqual :: "condition list \<Rightarrow> condition \<Rightarrow> bool" where
  "IsConditionPresentAndEqual conditions condition =
     list_ex (\<lambda>c. cType condition = cType c \<and> cMessage condition = cMessage c \<and>
                  cReason condition = cReason c \<and> cStatus condition = cStatus c) conditions"

definition IsConditionPresentAndEqualIgnoringMessage :: "condition list \<Rightarrow> condition \<Rightarrow> bool" where
  "IsConditionPresentAndEqualIgnoringMessage conditions condition =
     list_ex (\<lambda>c. cType condition = cType c \<and> cReason condition = cReason c \<and>
                  cStatus condition = cStatus c) conditions"

definition conditionsModified :: "condition list \<Rightarrow> condition list \<Rightarrow> bool" where
  "conditionsModified desiredConditions currentConditions =
     list_ex (\<lambda>c. \<not> IsConditionPresentAndEqual currentConditions c) desiredConditions"

lemma ready_over_iff:
  "ready_over b cs \<longleftrightarrow>
     b \<and> (\<forall>c \<in> set cs. cType c \<noteq> ReadyConditionType \<longrightarrow> cStatus c \<noteq> ConditionFalse)"
  by (induction cs arbitrary: b) (auto simp: ready_over_def)

text \<open>
  The end of a status computation, shared by the controllers: the condition \<open>Valid\<close> is put back, then
  \<open>Deployed\<close>, then \<open>Ready\<close>.
\<close>

lemma valid_or_default:
  assumes "distinct_types cs"
    and "v = (case List.find (\<lambda>c. cType c = ValidConditionType) cs of
      Some c \<Rightarrow> c | None \<Rightarrow> mk_condition ValidConditionType ConditionTrue r m)"
  shows "cType v = ValidConditionType"
    and "cStatus v \<noteq> ConditionFalse \<longleftrightarrow>
      (\<forall>c \<in> set cs. cType c = ValidConditionType \<longrightarrow> cStatus c \<noteq> ConditionFalse)"
proof -
  have "cType v = ValidConditionType \<and> (cStatus v \<noteq> ConditionFalse \<longleftrightarrow>
      (\<forall>c \<in> set cs. cType c = ValidConditionType \<longrightarrow> cStatus c \<noteq> ConditionFalse))"
  proof (cases "List.find (\<lambda>c. cType c = ValidConditionType) cs")
    case None
    with assms(2) show ?thesis by (auto simp: find_None_iff)
  next
    case (Some w)
    then have "v = w" using assms(2) by simp
    moreover have "c \<in> set cs \<and> cType c = ValidConditionType \<longleftrightarrow> c = w" for c
      using find_type_iff [OF assms(1), of ValidConditionType c] Some by auto
    ultimately show ?thesis by metis
  qed
  then show "cType v = ValidConditionType" "cStatus v \<noteq> ConditionFalse \<longleftrightarrow>
      (\<forall>c \<in> set cs. cType c = ValidConditionType \<longrightarrow> cStatus c \<noteq> ConditionFalse)" by blast+
qed

lemma ball_two_puts:
  "(\<forall>c \<in> insert a {c \<in> insert b {c \<in> S. P c}. P' c}. Q c) \<longleftrightarrow>
     Q a \<and> (P' b \<longrightarrow> Q b) \<and> (\<forall>c \<in> S. P c \<and> P' c \<longrightarrow> Q c)"
  by auto

lemma ready_after_deployment:
  assumes M: "meta_ok M" and d: "distinct_types cs" and v: "cType v = ValidConditionType"
    and valid: "cStatus v \<noteq> ConditionFalse \<longleftrightarrow>
      (\<forall>c \<in> set cs. cType c = ValidConditionType \<longrightarrow> cStatus c \<noteq> ConditionFalse)"
    and dc: "cType dc = DeployedConditionType" "cStatus dc = ConditionTrue \<longrightarrow> cStatus v \<noteq> ConditionFalse"
  shows "IsStatusConditionTrue M
      (SetReadyCondition M (SetStatusCondition M (SetStatusCondition M cs v) dc)) ReadyConditionType \<longleftrightarrow>
    cStatus dc = ConditionTrue \<and>
    (\<forall>c \<in> set cs. cType c \<notin> {DeployedConditionType, ReadyConditionType} \<longrightarrow> cStatus c \<noteq> ConditionFalse)"
proof -
  let ?cs = "SetStatusCondition M (SetStatusCondition M cs v) dc"
  have d1: "distinct_types (SetStatusCondition M cs v)" and d2: "distinct_types ?cs" using M d by simp_all
  have set: "set ?cs = insert dc {c \<in> insert v {c \<in> set cs. cType c \<noteq> ValidConditionType}. cType c \<noteq> DeployedConditionType}"
    using M d d1 v dc by simp
  have "IsStatusConditionTrue M (SetReadyCondition M ?cs) ReadyConditionType \<longleftrightarrow>
      ready_over (IsStatusConditionTrue M ?cs DeployedConditionType) ?cs"
    using M d2 by (simp add: SetReadyCondition_def Let_def meta_true_find meta_find_set NewReadyCondition_def)
  also have "IsStatusConditionTrue M ?cs DeployedConditionType \<longleftrightarrow> cStatus dc = ConditionTrue"
    using M d1 by (simp add: meta_true_find meta_find_set dc(1))
  also have "ready_over (cStatus dc = ConditionTrue) ?cs \<longleftrightarrow> cStatus dc = ConditionTrue \<and> cStatus v \<noteq> ConditionFalse \<and>
      (\<forall>c \<in> set cs. cType c \<notin> {ValidConditionType, DeployedConditionType, ReadyConditionType} \<longrightarrow> cStatus c \<noteq> ConditionFalse)"
    unfolding ready_over_iff set ball_two_puts by (auto simp: dc(1) v)
  finally show ?thesis using valid dc(2) by auto
qed

lemma SetReady_distinct:
  "meta_ok M \<Longrightarrow> distinct_types cs \<Longrightarrow> distinct_types (SetReadyCondition M cs)"
  by (simp add: SetReadyCondition_def Let_def)

text \<open>What the comparison sees of a condition: everything except the generation.\<close>

definition visible :: "condition \<Rightarrow> string \<times> condition_status \<times> string \<times> string" where
  "visible c = (cType c, cStatus c, cReason c, cMessage c)"

lemma present_iff: "IsConditionPresentAndEqual cs c \<longleftrightarrow> visible c \<in> visible ` set cs"
  by (auto simp: IsConditionPresentAndEqual_def visible_def list_ex_iff)

lemma modified_iff: "conditionsModified ds cs \<longleftrightarrow> \<not> visible ` set ds \<subseteq> visible ` set cs"
  by (auto simp: conditionsModified_def list_ex_iff present_iff)

lemma inj_on_visible: "distinct_types cs \<Longrightarrow> inj_on visible (set cs)"
  by (rule inj_onI) (auto simp: distinct_types_def distinct_map inj_on_def visible_def)

lemma card_visible: "distinct_types cs \<Longrightarrow> card (visible ` set cs) = length cs"
  using inj_on_visible [of cs]
  by (simp add: card_image distinct_types_def distinct_map distinct_card)

text \<open>
  With one condition per type the one-sided test plus the test on the lengths is an equality of the
  visible parts.
\<close>

lemma same_length_modified:
  assumes "distinct_types ds" "distinct_types cs" "length ds = length cs"
  shows "\<not> conditionsModified ds cs \<longleftrightarrow> visible ` set ds = visible ` set cs"
  using card_subset_eq [of "visible ` set cs" "visible ` set ds"] assms
  by (auto simp: modified_iff card_visible)

end
