(* ===== verification/Go_Strings.thy ===== *)
theory Go_Strings
  imports Prelude
begin

text \<open>
  The functions of Go's \<open>strings\<close> and \<open>sort\<close> packages the operator uses, on byte strings, with the
  facts about them the component proofs share.  White space is the ASCII white space of
  \<open>unicode.IsSpace\<close>.
\<close>

section \<open>Definitions\<close>

fun str_contains :: "string \<Rightarrow> string \<Rightarrow> bool" where
  "str_contains [] sub = (sub = [])"
| "str_contains (c # s) sub = (prefix sub (c # s) \<or> str_contains s sub)"

text \<open>The text before and after the first occurrence of a separator.\<close>

fun cut :: "string \<Rightarrow> string \<Rightarrow> (string \<times> string) option" where
  "cut [] sep = (if sep = [] then Some ([], []) else None)"
| "cut (c # s) sep =
     (if prefix sep (c # s) then Some ([], drop (length sep) (c # s))
      else map_option (\<lambda>(a, b). (c # a, b)) (cut s sep))"

text \<open>\<open>strings.SplitN(s, sep, n)\<close> and \<open>strings.Split(s, sep)\<close>, for a separator that is not empty.\<close>

fun split_n :: "nat \<Rightarrow> string \<Rightarrow> string \<Rightarrow> string list" where
  "split_n 0 s sep = []"
| "split_n (Suc 0) s sep = [s]"
| "split_n (Suc (Suc n)) s sep =
     (case cut s sep of None \<Rightarrow> [s] | Some (a, b) \<Rightarrow> a # split_n (Suc n) b sep)"

definition split_all :: "string \<Rightarrow> string \<Rightarrow> string list" where
  "split_all s sep = split_n (length s + 2) s sep"

fun split_char :: "char \<Rightarrow> string \<Rightarrow> string list" where
  "split_char c [] = [[]]"
| "split_char c (x # xs) =
     (if x = c then [] # split_char c xs
      else (case split_char c xs of [] \<Rightarrow> [[x]] | p # ps \<Rightarrow> (x # p) # ps))"

text \<open>\<open>strings.SplitAfter\<close>: the pieces keep their separator.\<close>

definition split_after :: "string \<Rightarrow> string \<Rightarrow> string list" where
  "split_after s sep = (let ps = split_all s sep in map (\<lambda>p. p @ sep) (butlast ps) @ [last ps])"

fun join :: "string \<Rightarrow> string list \<Rightarrow> string" where
  "join sep [] = []"
| "join sep [x] = x"
| "join sep (x # y # xs) = x @ sep @ join sep (y # xs)"

fun replace_all :: "string \<Rightarrow> string \<Rightarrow> string \<Rightarrow> string" where
  "replace_all old new [] = []"
| "replace_all old new (c # s) =
     (if old \<noteq> [] \<and> prefix old (c # s)
      then new @ replace_all old new (drop (length old - 1) s)
      else c # replace_all old new s)"

definition replace_first :: "string \<Rightarrow> string \<Rightarrow> string \<Rightarrow> string" where
  "replace_first old new s = (case cut s old of None \<Rightarrow> s | Some (a, b) \<Rightarrow> a @ new @ b)"

definition is_space :: "char \<Rightarrow> bool" where
  "is_space c \<longleftrightarrow> c = CHR '' '' \<or> (9 \<le> (of_char c :: nat) \<and> (of_char c :: nat) \<le> 13)"

definition trim_left :: "string \<Rightarrow> string" where
  "trim_left s = dropWhile is_space s"

definition trim_right :: "string \<Rightarrow> string" where
  "trim_right s = rev (dropWhile is_space (rev s))"

definition trim_space :: "string \<Rightarrow> string" where
  "trim_space s = trim_right (trim_left s)"

lemma length_dropWhile_Suc [termination_simp]: "length (dropWhile P xs) < Suc (length xs)"
  by (simp add: length_dropWhile_le le_imp_less_Suc)

text \<open>\<open>strings.Fields\<close>: the maximal runs of characters that are not white space.\<close>

fun str_fields :: "string \<Rightarrow> string list" where
  "str_fields [] = []"
| "str_fields (c # s) =
     (if is_space c then str_fields s
      else (c # takeWhile (\<lambda>x. \<not> is_space x) s) # str_fields (dropWhile (\<lambda>x. \<not> is_space x) s))"

definition has_prefix :: "string \<Rightarrow> string \<Rightarrow> bool" where
  "has_prefix s p \<longleftrightarrow> prefix p s"

definition has_suffix :: "string \<Rightarrow> string \<Rightarrow> bool" where
  "has_suffix s p \<longleftrightarrow> prefix (rev p) (rev s)"

definition trim_suffix :: "string \<Rightarrow> string \<Rightarrow> string" where
  "trim_suffix s p = (if has_suffix s p then take (length s - length p) s else s)"

definition to_upper_char :: "char \<Rightarrow> char" where
  "to_upper_char c = (if 97 \<le> (of_char c :: nat) \<and> (of_char c :: nat) \<le> 122
                      then char_of ((of_char c :: nat) - 32) else c)"

definition to_upper :: "string \<Rightarrow> string" where
  "to_upper s = map to_upper_char s"

text \<open>
  \<open>sortedKeys\<close> of a map used as a set: every key once, in increasing order.  The result is a function
  of the set of keys only.
\<close>

definition sorted_keys :: "string list \<Rightarrow> string list" where
  "sorted_keys ks = sort (remdups ks)"

section \<open>Containment and cutting\<close>

lemma str_contains_iff [go_str]: "str_contains s sub \<longleftrightarrow> (\<exists>a b. s = a @ sub @ b)"
proof (induction s)
  case Nil
  then show ?case by auto
next
  case (Cons c s)
  have "(\<exists>a b. c # s = a @ sub @ b) \<longleftrightarrow> prefix sub (c # s) \<or> (\<exists>a b. s = a @ sub @ b)"
    by (auto simp: prefix_def Cons_eq_append_conv)
  with Cons show ?case by simp
qed

lemma str_contains_appendI1: "str_contains a sub \<Longrightarrow> str_contains (a @ b) sub"
  by (fastforce simp: str_contains_iff)

lemma str_contains_appendI2: "str_contains b sub \<Longrightarrow> str_contains (a @ b) sub"
  by (metis append.assoc str_contains_iff)

lemma str_contains_char: "str_contains s [c] \<longleftrightarrow> c \<in> set s"
  by (auto simp: str_contains_iff in_set_conv_decomp)

lemma cut_None: "cut s sep = None \<longleftrightarrow> \<not> str_contains s sep"
  by (induction s) auto

lemma cut_SomeD: "cut s sep = Some (a, b) \<Longrightarrow> s = a @ sep @ b"
proof (induction s arbitrary: a b)
  case Nil
  then show ?case by (auto split: if_splits)
next
  case (Cons c s)
  then show ?case by (auto simp: prefix_def split: if_splits)
qed

text \<open>The cut is at the first occurrence: the separator starts nowhere before it.\<close>

lemma cut_first:
  "cut s sep = Some (a, b) \<Longrightarrow> s = a' @ sep @ b' \<Longrightarrow> length a \<le> length a'"
proof (induction s arbitrary: a b a' b')
  case Nil
  then show ?case by (auto split: if_splits)
next
  case (Cons c s)
  show ?case
  proof (cases "prefix sep (c # s)")
    case True
    with Cons.prems(1) show ?thesis by auto
  next
    case False
    with Cons.prems(1) obtain a0 where a: "a = c # a0" and cut: "cut s sep = Some (a0, b)"
      by auto
    from False Cons.prems(2) have "a' \<noteq> []" by (auto simp: prefix_def)
    then obtain x a'' where a': "a' = x # a''" by (cases a') auto
    with Cons.prems(2) have "s = a'' @ sep @ b'" by simp
    from Cons.IH [OF cut this] a a' show ?thesis by simp
  qed
qed

lemma cut_at: "\<not> str_contains (a @ butlast sep) sep \<Longrightarrow> sep \<noteq> [] \<Longrightarrow> cut (a @ sep @ b) sep = Some (a, b)"
proof (induction a)
  case Nil
  then show ?case by (cases sep) auto
next
  case (Cons c a)
  have np: "\<not> prefix sep ((c # a) @ sep @ b)"
  proof
    assume pre: "prefix sep ((c # a) @ sep @ b)"
    have "prefix (butlast sep) (sep @ b)"
      by (rule prefix_order.trans [OF prefixeq_butlast]) simp
    then have bl: "prefix ((c # a) @ butlast sep) ((c # a) @ sep @ b)"
      by simp
    have "length sep \<le> length ((c # a) @ butlast sep)"
      by simp
    from prefix_length_prefix [OF pre bl this] have "prefix sep ((c # a) @ butlast sep)" .
    then have "str_contains ((c # a) @ butlast sep) sep"
      by (simp only: append_Cons str_contains.simps simp_thms)
    with Cons.prems(1) show False ..
  qed
  have "\<not> str_contains (a @ butlast sep) sep"
    using Cons.prems(1) by (simp only: append_Cons str_contains.simps de_Morgan_disj simp_thms)
  from Cons.IH [OF this Cons.prems(2)] np show ?case
    by (simp only: append_Cons cut.simps if_False option.map prod.case)
qed

lemma cut_char: "c \<notin> set a \<Longrightarrow> cut (a @ c # b) [c] = Some (a, b)"
  using cut_at [of a "[c]" b] by (simp add: str_contains_char)

lemma sep_inj:
  assumes eq: "(a :: string) @ c # b = a' @ c # b'" and "c \<notin> set a" and "c \<notin> set a'"
  shows "a = a' \<and> b = b'"
proof -
  have "cut (a @ c # b) [c] = Some (a, b)"
    using assms(2) by (rule cut_char)
  moreover have "cut (a @ c # b) [c] = Some (a', b')"
    unfolding eq using assms(3) by (rule cut_char)
  ultimately show ?thesis by simp
qed

section \<open>Splitting and joining\<close>

lemma split_char_not_Nil [simp]: "split_char c s \<noteq> []"
  by (induction s) (auto split: list.splits)

lemma join_split_char [go_str]: "join [c] (split_char c s) = s"
proof (induction s)
  case Nil
  then show ?case by simp
next
  case (Cons x xs)
  show ?case
  proof (cases "split_char c xs")
    case Nil
    then show ?thesis by simp
  next
    case (Cons p ps)
    with Cons.IH show ?thesis by (cases ps) auto
  qed
qed

lemma split_char_no_sep: "c \<notin> set s \<Longrightarrow> split_char c s = [s]"
  by (induction s) auto

lemma split_char_append: "c \<notin> set a \<Longrightarrow> split_char c (a @ c # s) = a # split_char c s"
  by (induction a) auto

lemma split_char_join [go_str]:
  "xs \<noteq> [] \<Longrightarrow> \<forall>x \<in> set xs. c \<notin> set x \<Longrightarrow> split_char c (join [c] xs) = xs"
  by (induction "[c]" xs rule: join.induct) (auto simp: split_char_no_sep split_char_append)

lemma split_char_pieces: "p \<in> set (split_char c s) \<Longrightarrow> c \<notin> set p"
proof (induction s arbitrary: p)
  case Nil
  then show ?case by simp
next
  case (Cons x xs)
  show ?case
  proof (cases "split_char c xs")
    case Nil
    then show ?thesis by simp
  next
    case (Cons q qs)
    with Cons.IH Cons.prems show ?thesis by (force split: if_splits)
  qed
qed

lemma join_eq_Nil: "(\<forall>x \<in> set xs. x \<noteq> []) \<Longrightarrow> join sep xs = [] \<longleftrightarrow> xs = []"
  by (cases "(sep, xs)" rule: join.cases) auto

section \<open>Replacement\<close>

lemma replace_all_char: "replace_all [c] new s = concat (map (\<lambda>x. if x = c then new else [x]) s)"
  by (induction s) auto

lemma replace_all_absent: "\<not> str_contains s old \<Longrightarrow> replace_all old new s = s"
  by (induction s) auto

lemma replace_all_append_char:
  "replace_all [c] new (a @ b) = replace_all [c] new a @ replace_all [c] new b"
  by (simp add: replace_all_char)

section \<open>Sorted key lists\<close>

lemma set_sorted_keys [simp]: "set (sorted_keys ks) = set ks"
  by (simp add: sorted_keys_def)

lemma sorted_sorted_keys [simp]: "sorted (sorted_keys ks)"
  by (simp add: sorted_keys_def)

lemma distinct_sorted_keys [simp]: "distinct (sorted_keys ks)"
  by (simp add: sorted_keys_def)

lemma sorted_keys_cong: "set ks = set ls \<Longrightarrow> sorted_keys ks = sorted_keys ls"
  by (metis distinct_sorted_keys set_sorted_keys sorted_distinct_set_unique sorted_sorted_keys)

lemma sorted_keys_inj: "sorted_keys ks = sorted_keys ls \<Longrightarrow> set ks = set ls"
  by (metis set_sorted_keys)

lemma has_suffix_append [simp]: "has_suffix (a @ s) s"
  by (simp add: has_suffix_def)

lemma has_suffixD: "has_suffix s p \<Longrightarrow> \<exists>a. s = a @ p"
  by (auto simp: has_suffix_def prefix_def) (metis rev_append rev_rev_ident)

lemma trim_suffix_append [simp]: "trim_suffix (a @ s) s = a"
  by (simp add: trim_suffix_def)

end
