(* ===== verification/Api_Types.thy ===== *)
theory Api_Types
  imports Conditions Go_Strings "HOL-Library.AList"
begin

text \<open>
  The custom resources of \<open>api/v1beta2\<close> the application controllers work on (\<open>BrokerApp\<close>,
  \<open>BrokerService\<close>, the parts of \<open>Broker\<close> a service reads), the error values of
  \<open>controllers/condition_error.go\<close>, and the Kubernetes API server as an argument: the record
  \<open>kube\<close> holds what each read of the client returns during one reconcile.
\<close>

section \<open>Errors (controllers/condition_error.go)\<close>

text \<open>
  \<open>PlainError\<close> is any other Go error, by its text.  The wrapped cause of a transient error is kept by
  its text, the only part the controllers read.
\<close>

datatype go_error =
    ValidationError string string
  | TransientError string string "string option"
  | PlainError string

fun error_text :: "go_error \<Rightarrow> string" where
  "error_text (ValidationError reason message) = message"
| "error_text (TransientError reason message (Some cause)) = message @ '': '' @ cause"
| "error_text (TransientError reason message None) = message"
| "error_text (PlainError message) = message"

fun condition_reason :: "go_error \<Rightarrow> string option" where
  "condition_reason (ValidationError reason message) = Some reason"
| "condition_reason (TransientError reason message cause) = Some reason"
| "condition_reason (PlainError message) = None"

definition NewTransientError :: "string \<Rightarrow> string \<Rightarrow> go_error" where
  "NewTransientError reason message = TransientError reason message None"

definition NewTransientErrorWithCause :: "string \<Rightarrow> string \<Rightarrow> go_error \<Rightarrow> go_error" where
  "NewTransientErrorWithCause reason message cause =
     TransientError reason message (Some (error_text cause))"

fun is_validation_error :: "go_error option \<Rightarrow> bool" where
  "is_validation_error (Some (ValidationError r m)) = True"
| "is_validation_error _ = False"

fun is_transient_error :: "go_error option \<Rightarrow> bool" where
  "is_transient_error (Some (TransientError r m c)) = True"
| "is_transient_error _ = False"

text \<open>What a read of the API server can answer besides the object (\<open>errors.IsNotFound\<close>).\<close>

datatype api_error = NotFound string | ApiError string

fun api_error_text :: "api_error \<Rightarrow> string" where
  "api_error_text (NotFound m) = m"
| "api_error_text (ApiError m) = m"

section \<open>Third-party data\<close>

text \<open>
  \<open>resource.Quantity\<close> as the code reads it: \<open>Value()\<close>, \<open>IsZero()\<close> and \<open>String()\<close>.  A quantity
  that is not set reads as zero.
\<close>

record quantity =
  qValue :: int64
  qIsZero :: bool
  qString :: string

definition zero_quantity :: quantity where
  "zero_quantity = \<lparr>qValue = 0, qIsZero = True, qString = ''0''\<rparr>"

text \<open>\<open>metav1.LabelSelector\<close>, and \<open>labels.Selector\<close> by its \<open>Matches\<close> and \<open>String\<close> methods.\<close>

type_synonym labels = "(string \<times> string) list"

record label_requirement =
  lrKey :: string
  lrOperator :: string
  lrValues :: "string list"

record label_selector =
  matchLabels :: labels
  matchExpressions :: "label_requirement list"

record selector =
  selMatches :: "labels \<Rightarrow> bool"
  selString :: string

text \<open>The data of a secret: one value for a key.\<close>

type_synonym data_map = "(string \<times> string) list"

section \<open>BrokerApp\<close>

record address_type =
  atAddress :: string
  atPubSub :: "bool option"
  atSubscriptions :: "string list"

record address_ref =
  arAddress :: string
  arAppNamespace :: string
  arAppName :: string
  arPubSub :: "bool option"
  arSubscriptions :: "string list"

record app_capability =
  ProducerOf :: "address_ref list"
  ConsumerOf :: "address_ref list"

record service_binding =
  sbName :: string
  sbNamespace :: string
  sbSecret :: string
  sbAssignedPort :: int32

definition binding_key :: "service_binding \<Rightarrow> string" where
  "binding_key s = sbNamespace s @ '':'' @ sbName s"

record app_status =
  asObservedGeneration :: int
  asConditions :: "condition list"
  asService :: "service_binding option"

record broker_app =
  appNamespace :: string
  appName :: string
  appGeneration :: int
  appDeleted :: bool
  appSelector :: "label_selector option"
  appAddresses :: "address_type list"
  appSharedAddresses :: "address_type list"
  appCapabilities :: "app_capability list"
  appMemoryRequest :: quantity
  appStatus :: app_status

section \<open>BrokerService\<close>

record rejected_app =
  rejName :: string
  rejNamespace :: string
  rejReason :: string

record service_status =
  ssConditions :: "condition list"
  ssProvisionedApps :: "string list"
  ssRejectedApps :: "rejected_app list"

record broker_service =
  svcNamespace :: string
  svcName :: string
  svcLabels :: labels
  svcMemoryLimit :: quantity
  svcEnv :: "(string \<times> string) list"
  svcImage :: "string option"
  svcAppSelectorExpression :: string
  svcStatus :: service_status

section \<open>Owned resources\<close>

record secret =
  secName :: string
  secNamespace :: string
  secResourceVersion :: string
  secAnnotations :: data_map
  secData :: data_map

text \<open>
  The fields of a \<open>Broker\<close> and of a \<open>Service\<close> that a broker service writes or reads; \<open>brkLabels\<close> is
  \<open>Spec.Labels\<close>, the labels of the pods, beside the labels of the object itself.
\<close>

record broker =
  brkName :: string
  brkNamespace :: string
  brkMetaLabels :: labels
  brkMetaAnnotations :: data_map
  brkPersistenceEnabled :: bool
  brkLabels :: labels
  brkEnv :: "(string \<times> string) list"
  brkMemoryLimit :: quantity
  brkImage :: string
  brkExtraMountSecrets :: "string list"
  brkConditions :: "condition list"
  brkExternalConfigs :: "(string \<times> string) list"

record kube_service =
  ksName :: string
  ksNamespace :: string
  ksHeadless :: bool
  ksSelector :: labels

record config_map =
  cmName :: string
  cmNamespace :: string
  cmData :: data_map

datatype resource =
  SecretRes secret | BrokerRes broker | ServiceRes kube_service | ConfigMapRes config_map

datatype kind = SecretKind | BrokerKind | ServiceKind | ConfigMapKind

fun kind_of :: "resource \<Rightarrow> kind" where
  "kind_of (SecretRes s) = SecretKind"
| "kind_of (BrokerRes b) = BrokerKind"
| "kind_of (ServiceRes s) = ServiceKind"
| "kind_of (ConfigMapRes c) = ConfigMapKind"

fun res_name :: "resource \<Rightarrow> string" where
  "res_name (SecretRes s) = secName s"
| "res_name (BrokerRes b) = brkName b"
| "res_name (ServiceRes s) = ksName s"
| "res_name (ConfigMapRes c) = cmName c"

section \<open>The API server\<close>

text \<open>
  The Kubernetes client during one reconcile.  \<open>kListApps k\<close> is the indexed list
  \<open>MatchingFields{AppServiceBindingField: k}\<close>.
\<close>

record kube =
  kSelector :: "label_selector option \<Rightarrow> string + selector"
  kListServices :: "selector \<Rightarrow> string + broker_service list"
  kListApps :: "string \<Rightarrow> string + broker_app list"
  kListAllApps :: "string + broker_app list"
  kGetApp :: "string \<Rightarrow> string \<Rightarrow> api_error + broker_app"
  kGetService :: "string \<Rightarrow> string \<Rightarrow> api_error + broker_service"
  kGetSecret :: "string \<Rightarrow> string \<Rightarrow> api_error + secret"

text \<open>
  The index function \<open>SetupWithManager\<close> registers for \<open>AppServiceBindingField\<close>, and what the API
  server's cache makes of it: the list for a key holds the apps indexed under it.
\<close>

definition app_binding_index :: "broker_app \<Rightarrow> string list" where
  "app_binding_index app =
     (case asService (appStatus app) of Some b \<Rightarrow> [binding_key b] | None \<Rightarrow> [])"

definition index_ok :: "kube \<Rightarrow> broker_app list \<Rightarrow> bool" where
  "index_ok K apps \<longleftrightarrow>
     (\<forall>key. kListApps K key = Inr (filter (\<lambda>app. key \<in> set (app_binding_index app)) apps))"

definition same_app :: "broker_app \<Rightarrow> broker_app \<Rightarrow> bool" where
  "same_app a b \<longleftrightarrow> appNamespace a = appNamespace b \<and> appName a = appName b"

end
