(* ===== verification/Resource_Names.thy ===== *)
theory Resource_Names
  imports Api_Types
begin

text \<open>
  The naming conventions the components agree on: the safety check on resource names and the escapes
  of \<open>pkg/utils/common/common.go\<close>, the stateful set and pod names of \<open>pkg/utils/namer/namer.go\<close>,
  and the identities, roles and secret keys of \<open>controllers/brokerservice_controller.go\<close>.
\<close>

section \<open>Name checks and escapes (common.go)\<close>

definition common_ValidateResourceName :: "string \<Rightarrow> string option" where
  "common_ValidateResourceName name =
     (if str_contains name ''/''
      then Some (''resource name contains illegal path separator: '' @ name)
      else if str_contains name ''..''
      then Some (''resource name contains parent directory reference: '' @ name)
      else if has_prefix name ''.''
      then Some (''resource name starts with dot: '' @ name)
      else None)"

definition EscapeForRegex :: "string \<Rightarrow> string" where
  "EscapeForRegex s =
     (let s1 = replace_all ''.'' [CHR 0x5C, CHR ''.''] s;
          s2 = replace_all ''-'' [CHR 0x5C, CHR ''-''] s1
      in s2)"

text \<open>\<open>controllers.ValidateResourceName\<close>: the same check as a validation error of the CR.\<close>

definition ValidateResourceName :: "string \<Rightarrow> go_error option" where
  "ValidateResourceName resourceName =
     (case common_ValidateResourceName resourceName of
        Some err \<Rightarrow> Some (ValidationError ValidConditionInvalidResourceName
                           (''invalid resource name: '' @ err))
      | None \<Rightarrow> None)"

definition GetCertUsersKey :: "string \<Rightarrow> string" where
  "GetCertUsersKey realm = ''_'' @ realm @ ''-'' @ ''cert-users''"

definition GetCertRolesKey :: "string \<Rightarrow> string" where
  "GetCertRolesKey realm = ''_'' @ realm @ ''-'' @ ''cert-roles''"

definition OrdinalStringFQDNS :: "string \<Rightarrow> string \<Rightarrow> string \<Rightarrow> string \<Rightarrow> string" where
  "OrdinalStringFQDNS clusterDomain crName crNamespace ordinal =
     crName @ ''-ss-'' @ ordinal @ ''.'' @ crName @ ''-hdls-svc.'' @ crNamespace @ ''.svc.'' @
     clusterDomain"

definition OrdinalFQDNS :: "string \<Rightarrow> string \<Rightarrow> string \<Rightarrow> int32 \<Rightarrow> string" where
  "OrdinalFQDNS clusterDomain crName crNamespace i =
     OrdinalStringFQDNS clusterDomain crName crNamespace (itoa (sint i))"

definition ClusterDNSWildCard :: "string \<Rightarrow> string \<Rightarrow> string \<Rightarrow> string" where
  "ClusterDNSWildCard clusterDomain crName crNamespace =
     ''*.'' @ crName @ ''-hdls-svc.'' @ crNamespace @ ''.svc.'' @ clusterDomain"

section \<open>Stateful sets and pods (namer.go)\<close>

text \<open>A Go function that can also panic on a slice or an index out of range.\<close>

datatype 'a go_result = Ok 'a | Err string | Panic

definition CrToSS :: "string \<Rightarrow> string" where
  "CrToSS crName = crName @ ''-ss''"

definition CrToSSOrdinal :: "string \<Rightarrow> int \<Rightarrow> string" where
  "CrToSSOrdinal crName ordinal = CrToSS crName @ ''-'' @ itoa ordinal"

definition SSToCr :: "string \<Rightarrow> string" where
  "SSToCr ssName = trim_suffix ssName ''-ss''"

definition OrdinalFromPodName :: "string \<Rightarrow> string \<Rightarrow> int go_result" where
  "OrdinalFromPodName crName podName =
     (let ordinalString = split_after podName (CrToSS crName @ ''-'')
      in if length ordinalString > 1
         then let fs = str_fields (ordinalString ! 1)
              in if length fs > 0
                 then (case atoi (fs ! 0) of
                         Some v \<Rightarrow> Ok v
                       | None \<Rightarrow>
                           if length fs > 1
                           then Err (''ordinal int not found in subtring field '' @ fs ! 1)
                           else Panic)
                 else Err (''ordinal int not found in subtring '' @ ordinalString ! 1)
         else Err (''ordinal not found in '' @ podName))"

definition PodBelongsToStatefulset ::
  "string \<times> string \<Rightarrow> string \<times> string \<Rightarrow> int go_result" where
  "PodBelongsToStatefulset pod ss =
     (let (podNs, podName) = pod; (ssNs, ssName) = ss
      in if ssNs \<noteq> podNs
         then Err (''the pod and statefulset are not in the same namespace, pod ns: '' @ podNs @
                   '', ss ns: '' @ ssNs)
         else if \<not> has_prefix podName ssName
         then Err (''the pod's name doesn't have the statefulset's name as its prefix, pod name: '' @
                   podName @ '', ss name: '' @ ssName)
         else if length ssName + 1 > length podName then Panic
         else case atoi (drop (length ssName + 1) podName) of
                Some i \<Rightarrow>
                  if i < 0 then Err (''failed to convert pod number, pod name: '' @ podName @
                                     '', ss name: '' @ ssName)
                  else Ok i
              | None \<Rightarrow> Err (''failed to convert pod number, pod name: '' @ podName @
                             '', ss name: '' @ ssName))"

text \<open>\<open>NamerData.Generate\<close>, for the three parts the builder methods set.\<close>

definition Generate :: "string \<Rightarrow> string \<Rightarrow> string \<Rightarrow> string" where
  "Generate namePrefix baseName nameSuffix =
     (let name = (if length namePrefix > 0 then namePrefix @ ''-'' @ baseName else baseName)
      in if length nameSuffix > 0 then name @ ''-'' @ nameSuffix else name)"

section \<open>Identities, roles and secret names (brokerservice_controller.go)\<close>

definition DashPrefixValue :: "string \<Rightarrow> string \<Rightarrow> string" where
  "DashPrefixValue pre value = pre @ ''-'' @ value"

definition NameSpacedValue :: "broker_app \<Rightarrow> string \<Rightarrow> string" where
  "NameSpacedValue app v = DashPrefixValue (appNamespace app) v"

definition AppIdentity :: "broker_app \<Rightarrow> string" where
  "AppIdentity app = NameSpacedValue app (appName app)"

definition AppIdentityPrefixed :: "broker_app \<Rightarrow> string \<Rightarrow> string" where
  "AppIdentityPrefixed app v = DashPrefixValue (AppIdentity app) v"

definition UnderscoreAppIdentityPrefixed :: "broker_app \<Rightarrow> string \<Rightarrow> string" where
  "UnderscoreAppIdentityPrefixed app v = ''_'' @ AppIdentityPrefixed app v"

definition producerRole :: "string \<Rightarrow> string" where
  "producerRole pre = pre @ ''-producer''"

definition consumerRole :: "string \<Rightarrow> string" where
  "consumerRole pre = pre @ ''-consumer''"

definition metricsRole :: "string \<Rightarrow> string" where
  "metricsRole pre = pre @ ''-metrics''"

definition AppPropertiesSecretName :: "string \<Rightarrow> string" where
  "AppPropertiesSecretName name = name @ ''-app'' @ ''-bp''"

definition PropertiesSecretName :: "string \<Rightarrow> string" where
  "PropertiesSecretName name = name @ ''-bp''"

definition certSecretName :: "broker_service \<Rightarrow> string" where
  "certSecretName cr = svcName cr @ ''-'' @ ''broker-cert''"

definition controlPlaneOverrideSecretName :: "string \<Rightarrow> string" where
  "controlPlaneOverrideSecretName instance_name = instance_name @ ''-control-plane-override''"

definition BindingsSecretName :: "string \<Rightarrow> string" where
  "BindingsSecretName crName = crName @ ''-binding-secret''"

definition serviceKey :: "broker_service \<Rightarrow> string" where
  "serviceKey service = svcNamespace service @ '':'' @ svcName service"

definition escapeForProperties :: "string \<Rightarrow> string" where
  "escapeForProperties s =
     (let s1 = replace_first ''::'' [CHR 0x5C, CHR '':'', CHR 0x5C, CHR '':''] s;
          s2 = replace_all ''='' [CHR 0x5C, CHR ''=''] s1;
          s3 = replace_all '' '' [CHR 0x5C, CHR '' ''] s2
      in s3)"

section \<open>Facts\<close>

text \<open>A name that passes the check is one path component, and not the parent directory.\<close>

lemma valid_name_iff:
  "common_ValidateResourceName n = None \<longleftrightarrow>
     CHR ''/'' \<notin> set n \<and> \<not> str_contains n ''..'' \<and> \<not> has_prefix n ''.''"
  by (auto simp: common_ValidateResourceName_def str_contains_char)

lemma ValidateResourceName_None:
  "ValidateResourceName n = None \<longleftrightarrow> common_ValidateResourceName n = None"
  by (simp add: ValidateResourceName_def split: option.splits)

lemma ValidateResourceName_kind:
  "ValidateResourceName n = Some e \<Longrightarrow>
     \<exists>m. e = ValidationError ValidConditionInvalidResourceName m"
  by (auto simp: ValidateResourceName_def split: option.splits)

lemma SSToCr_CrToSS: "SSToCr (CrToSS n) = n"
  by (simp add: SSToCr_def CrToSS_def)

lemma serviceKey_binding:
  "CHR '':'' \<notin> set (svcNamespace s) \<Longrightarrow> CHR '':'' \<notin> set (sbNamespace b) \<Longrightarrow>
     binding_key b = serviceKey s \<longleftrightarrow> sbNamespace b = svcNamespace s \<and> sbName b = svcName s"
  using sep_inj [of "sbNamespace b" "CHR '':''" "sbName b" "svcNamespace s" "svcName s"]
  by (auto simp: binding_key_def serviceKey_def)

lemma AppIdentity_same_namespace:
  "appNamespace a = appNamespace b \<Longrightarrow> AppIdentity a = AppIdentity b \<longleftrightarrow> appName a = appName b"
  by (simp add: AppIdentity_def NameSpacedValue_def DashPrefixValue_def)

lemma AppIdentity_no_dash:
  assumes "CHR ''-'' \<notin> set (appNamespace a)" "CHR ''-'' \<notin> set (appNamespace b)"
  shows "AppIdentity a = AppIdentity b \<longleftrightarrow> same_app a b"
  using sep_inj [OF _ assms, of "appName a" "appName b"]
  by (auto simp: AppIdentity_def NameSpacedValue_def DashPrefixValue_def same_app_def)

lemma EscapeForRegex_id:
  "CHR ''.'' \<notin> set s \<Longrightarrow> CHR ''-'' \<notin> set s \<Longrightarrow> EscapeForRegex s = s"
  by (simp add: EscapeForRegex_def Let_def replace_all_absent str_contains_char)

text \<open>The escape of a name character by character.\<close>

definition regex_char :: "char \<Rightarrow> string" where
  "regex_char c = (if c = CHR ''.'' \<or> c = CHR ''-'' then [CHR 0x5C, c] else [c])"

lemma EscapeForRegex_chars: "EscapeForRegex s = concat (map regex_char s)"
proof (induction s)
  case Nil
  then show ?case by (simp add: EscapeForRegex_def)
next
  case (Cons c s)
  then show ?case
    by (auto simp: EscapeForRegex_def Let_def replace_all_char regex_char_def)
qed

section \<open>Pod ordinals\<close>

lemma not_space_digit: "is_digit c \<Longrightarrow> \<not> is_space c"
  by (auto simp: is_digit_def is_space_def)

lemma nat_to_string_no_space: "c \<in> set (nat_to_string n) \<Longrightarrow> \<not> is_space c"
  using nat_to_string_digits not_space_digit by (metis list_all_iff)

lemma str_fields_word: "d \<noteq> [] \<Longrightarrow> \<forall>c \<in> set d. \<not> is_space c \<Longrightarrow> str_fields d = [d]"
  by (cases d) (auto simp: takeWhile_eq_all_conv [THEN iffD2] dropWhile_eq_Nil_conv [THEN iffD2])

lemma str_fields_word_space:
  "d \<noteq> [] \<Longrightarrow> \<forall>c \<in> set d. \<not> is_space c \<Longrightarrow> str_fields (d @ CHR '' '' # t) = d # str_fields t"
proof (cases d)
  case Nil
  assume "d \<noteq> []"
  with Nil show ?thesis by simp
next
  case (Cons c r)
  assume ns: "\<forall>c \<in> set d. \<not> is_space c"
  have sp: "is_space CHR '' ''" by (simp add: is_space_def)
  from ns Cons sp have "takeWhile (\<lambda>x. \<not> is_space x) (r @ CHR '' '' # t) = r"
    and "dropWhile (\<lambda>x. \<not> is_space x) (r @ CHR '' '' # t) = CHR '' '' # t"
    by (simp_all add: takeWhile_append2 dropWhile_append2)
  with ns Cons sp show ?thesis by simp
qed

lemma cut_head: "p \<noteq> [] \<Longrightarrow> cut (p @ r) p = Some ([], r)"
  by (cases p) auto

text \<open>Splitting a text that starts with the separator: the second piece is a prefix of the rest.\<close>

lemma split_after_head:
  assumes "p \<noteq> []"
  obtains piece rest where "split_after (p @ r) p = p # piece # rest"
    and "piece = r \<and> \<not> str_contains r p \<or> (\<exists>a b. cut r p = Some (a, b) \<and> piece = a @ p)"
proof -
  obtain c q where p: "p = c # q" using assms by (cases p) auto
  have len: "length (p @ r) + 2 = Suc (Suc (Suc (length q + length r)))" using p by simp
  have all: "split_all (p @ r) p = [] # split_n (Suc (Suc (length q + length r))) r p"
    unfolding split_all_def len using cut_head [OF assms] by simp
  show thesis
  proof (cases "cut r p")
    case None
    then have "split_after (p @ r) p = p # r # []"
      by (simp add: split_after_def all)
    with None that show ?thesis by (simp add: cut_None)
  next
    case (Some ab)
    then obtain a b where ab: "cut r p = Some (a, b)" by (cases ab) auto
    obtain m where m: "split_n (Suc (length q + length r)) b p = m" "m \<noteq> []"
      by (cases "length q + length r"; auto split: option.splits)
    then have "split_after (p @ r) p =
        p # (a @ p) # (map (\<lambda>p'. p' @ p) (butlast m) @ [last m])"
      by (simp add: split_after_def all ab)
    with ab that show ?thesis by blast
  qed
qed

lemma first_field_of_piece:
  assumes d: "d \<noteq> []" "list_all is_digit d"
    and p: "CHR '' '' \<notin> set p" "CHR ''s'' \<in> set p"
    and cut: "cut (d @ CHR '' '' # t) p = Some (a, b)"
  shows "\<exists>u. a = d @ CHR '' '' # u"
proof -
  have eq: "d @ CHR '' '' # t = a @ p @ b" using cut by (rule cut_SomeD)
  have s: "CHR ''s'' \<notin> set d" using d(2) by (auto simp: list_all_iff is_digit_def)
  have sp: "CHR '' '' \<notin> set d" using d(2) by (auto simp: list_all_iff is_digit_def)
  show ?thesis
  proof (cases "CHR '' '' \<in> set a")
    case True
    then obtain a1 u where a: "a = a1 @ CHR '' '' # u" and a1: "CHR '' '' \<notin> set a1"
      by (metis split_list_first)
    with eq have "d @ CHR '' '' # t = a1 @ CHR '' '' # (u @ p @ b)" by simp
    from sep_inj [OF this sp a1] a show ?thesis by blast
  next
    case False
    with p(1) have ap: "CHR '' '' \<notin> set (a @ p)" by simp
    from eq have "CHR '' '' \<in> set (a @ p @ b)"
      by (metis in_set_conv_decomp)
    with ap have "CHR '' '' \<in> set b" by auto
    then obtain b1 b2 where b: "b = b1 @ CHR '' '' # b2" and b1: "CHR '' '' \<notin> set b1"
      by (metis split_list_first)
    with eq have "d @ CHR '' '' # t = (a @ p @ b1) @ CHR '' '' # b2" by simp
    moreover from ap b1 have "CHR '' '' \<notin> set (a @ p @ b1)" by auto
    ultimately have "d = a @ p @ b1" using sep_inj sp by blast
    with p(2) s show ?thesis by auto
  qed
qed

lemma ordinal_round_trip:
  assumes cr: "CHR '' '' \<notin> set cr" and n: "0 \<le> n" "n < 2 ^ 63"
    and msg: "msg = [] \<or> (\<exists>t. msg = CHR '' '' # t)"
  shows "OrdinalFromPodName cr (CrToSSOrdinal cr n @ msg) = Ok n"
proof -
  define p where "p = CrToSS cr @ ''-''"
  define d where "d = itoa n"
  have p: "p \<noteq> []" "CHR '' '' \<notin> set p" "CHR ''s'' \<in> set p"
    using cr by (auto simp: p_def CrToSS_def)
  have d: "d \<noteq> []" "list_all is_digit d"
    using n(1) nat_to_string_digits by (auto simp: d_def itoa_def)
  have ns: "\<forall>c \<in> set d. \<not> is_space c"
    using d(2) not_space_digit by (auto simp: list_all_iff)
  have atoi: "atoi d = Some n"
    using n by (simp add: d_def atoi_itoa)
  obtain piece rest where sa: "split_after (p @ d @ msg) p = p # piece # rest"
    and piece: "piece = d @ msg \<and> \<not> str_contains (d @ msg) p \<or>
                (\<exists>a b. cut (d @ msg) p = Some (a, b) \<and> piece = a @ p)"
    using split_after_head [OF p(1)] by metis
  have "\<exists>fs. str_fields piece = d # fs"
    using msg
  proof
    assume "msg = []"
    have "CHR ''s'' \<notin> set d" using d(2) by (auto simp: list_all_iff is_digit_def)
    with p(3) have "\<not> str_contains d p" by (auto simp: str_contains_iff)
    with \<open>msg = []\<close> piece have "piece = d" by (auto simp: cut_None [symmetric])
    with str_fields_word [OF d(1) ns] show ?thesis by simp
  next
    assume "\<exists>t. msg = CHR '' '' # t"
    then obtain t where t: "msg = CHR '' '' # t" ..
    from piece have "\<exists>u. piece = d @ CHR '' '' # u"
      using first_field_of_piece [OF d p(2,3)] t by fastforce
    with str_fields_word_space [OF d(1) ns] show ?thesis by auto
  qed
  then obtain fs where "str_fields piece = d # fs" ..
  moreover have "CrToSSOrdinal cr n @ msg = p @ d @ msg"
    by (simp add: CrToSSOrdinal_def p_def d_def)
  ultimately show ?thesis
    using sa atoi by (simp add: OrdinalFromPodName_def p_def [symmetric] Let_def)
qed

end
