(* ===== verification/App_Validation.thy ===== *)
theory App_Validation
  imports Resource_Names
begin

text \<open>
  The validation of a \<open>BrokerApp\<close> spec (\<open>controllers/brokerapp_controller.go\<close>): the routing semantics
  of an address, the addresses an application owns, the structural checks on its capabilities and the
  consistency of declared and used addresses.  The executable checks keep the order of the code and its
  messages; the last section states what they accept.
\<close>

section \<open>Addresses\<close>

abbreviation "FQQNSeparator \<equiv> ''::''"

text \<open>The \<open>'%s'\<close> of a format string.\<close>

definition quoted :: "string \<Rightarrow> string" where
  "quoted s = CHR 0x27 # s @ [CHR 0x27]"

definition isMulticastAddress :: "bool option \<Rightarrow> string list \<Rightarrow> bool" where
  "isMulticastAddress pubSub subscriptions =
     (if pubSub \<noteq> None \<and> \<not> the pubSub then False
      else (pubSub \<noteq> None \<and> the pubSub) \<or> length subscriptions > 0)"

definition extractBaseAddress :: "string \<Rightarrow> string" where
  "extractBaseAddress address =
     (if str_contains address FQQNSeparator then hd (split_n 2 address FQQNSeparator) else address)"

text \<open>A reference with neither an owning namespace nor an owning application is local.\<close>

definition is_local :: "address_ref \<Rightarrow> bool" where
  "is_local r \<longleftrightarrow> arAppNamespace r = '''' \<and> arAppName r = ''''"

definition ref_multicast :: "address_ref \<Rightarrow> bool" where
  "ref_multicast r = isMulticastAddress (arPubSub r) (arSubscriptions r)"

definition type_multicast :: "address_type \<Rightarrow> bool" where
  "type_multicast t = isMulticastAddress (atPubSub t) (atSubscriptions t)"

definition collectOwnedAddresses :: "broker_app \<Rightarrow> string list" where
  "collectOwnedAddresses app =
     (let a1 = foldl (\<lambda>m t. List.insert (atAddress t) m) [] (appAddresses app);
          a2 = foldl (\<lambda>m t. List.insert (atAddress t) m) a1 (appSharedAddresses app)
      in foldl (\<lambda>m capability.
           foldl (\<lambda>m' addrList.
             foldl (\<lambda>m'' r. if is_local r then List.insert (extractBaseAddress (arAddress r)) m''
                            else m'') m' addrList)
             m [ProducerOf capability, ConsumerOf capability])
           a2 (appCapabilities app))"

section \<open>verifyCapabilityAddressType\<close>

definition at_index :: "string \<Rightarrow> nat \<Rightarrow> string" where
  "at_index field index = ''Spec.Capability.'' @ field @ ''['' @ itoa (int index) @ '']''"

text \<open>The checks the producer loop and the consumer loop share, in the order of the code.\<close>

definition checkRef :: "string \<Rightarrow> nat \<Rightarrow> address_ref \<Rightarrow> string option" where
  "checkRef field index r =
     (if arAddress r = '''' then Some (at_index field index @ ''.address must be specified'')
      else if str_contains (arAddress r) FQQNSeparator
      then Some (at_index field index @
        ''.address should not use FQQN format (no '::'). Use plain address name'')
      else if (arAppNamespace r \<noteq> '''') \<noteq> (arAppName r \<noteq> '''')
      then Some (at_index field index @
        '': appNamespace and appName must both be set (for cross-app reference) or both empty (for local reference)'')
      else if arPubSub r = Some False \<and> length (arSubscriptions r) > 0
      then Some (at_index field index @ '': pubSub cannot be false when subscriptions are specified'')
      else None)"

definition checkProducer :: "nat \<Rightarrow> address_ref \<Rightarrow> string option" where
  "checkProducer index r =
     (case checkRef ''ProducerOf'' index r of
        Some e \<Rightarrow> Some e
      | None \<Rightarrow>
          if ref_multicast r \<and> length (arSubscriptions r) > 0
          then Some (at_index ''ProducerOf'' index @
            '': subscriptions cannot contain queue names (producers don't create queues). Use empty array or omit'')
          else None)"

definition checkSubscription :: "nat \<Rightarrow> nat \<Rightarrow> string \<Rightarrow> string option" where
  "checkSubscription index subIdx queueName =
     (let pre = at_index ''ConsumerOf'' index @ ''.subscriptions['' @ itoa (int subIdx) @ '']''
      in if queueName = '''' then Some (pre @ '': queue name cannot be empty'')
         else if str_contains queueName FQQNSeparator
         then Some (pre @ '': queue name should not use FQQN format (no '::')'')
         else None)"

definition checkConsumer :: "nat \<Rightarrow> address_ref \<Rightarrow> string option" where
  "checkConsumer index r =
     (case checkRef ''ConsumerOf'' index r of
        Some e \<Rightarrow> Some e
      | None \<Rightarrow>
          if ref_multicast r
          then if length (arSubscriptions r) = 0
               then Some (at_index ''ConsumerOf'' index @
                 '': pubSub consumers must specify at least one subscription queue name'')
               else first_error (\<lambda>(i, q). checkSubscription index i q)
                      (enumerate 0 (arSubscriptions r))
          else None)"

definition mixed_semantics :: "string \<Rightarrow> string" where
  "mixed_semantics address =
     ''address '' @ quoted address @
     '' is referenced with both pubSub and non pubSub semantics in the same capability. Shared addresses must use consistent semantics''"

text \<open>The two loops over \<open>addressRoutingTypes\<close>.\<close>

fun routingProducers ::
  "address_ref list \<Rightarrow> (string \<Rightarrow> bool option) \<Rightarrow> string + (string \<Rightarrow> bool option)" where
  "routingProducers [] m = Inr m"
| "routingProducers (r # rs) m =
     (if is_local r \<and> ref_multicast r
      then if m (arAddress r) = Some False then Inl (mixed_semantics (arAddress r))
           else routingProducers rs (m(arAddress r := Some True))
      else routingProducers rs m)"

fun routingConsumers ::
  "address_ref list \<Rightarrow> (string \<Rightarrow> bool option) \<Rightarrow> string + (string \<Rightarrow> bool option)" where
  "routingConsumers [] m = Inr m"
| "routingConsumers (r # rs) m =
     (if is_local r
      then if m (arAddress r) = Some (\<not> ref_multicast r) then Inl (mixed_semantics (arAddress r))
           else routingConsumers rs (m(arAddress r := Some (ref_multicast r)))
      else routingConsumers rs m)"

definition checkRouting :: "app_capability \<Rightarrow> string option" where
  "checkRouting capability =
     (case routingProducers (ProducerOf capability) (\<lambda>_. None) of
        Inl e \<Rightarrow> Some e
      | Inr m \<Rightarrow> (case routingConsumers (ConsumerOf capability) m of
                   Inl e \<Rightarrow> Some e
                 | Inr m' \<Rightarrow> None))"

definition checkCapability :: "app_capability \<Rightarrow> string option" where
  "checkCapability capability =
     or_else (first_error (\<lambda>(i, r). checkProducer i r) (enumerate 0 (ProducerOf capability)))
       (or_else (first_error (\<lambda>(i, r). checkConsumer i r) (enumerate 0 (ConsumerOf capability)))
         (checkRouting capability))"

definition verifyCapabilityAddressType :: "broker_app \<Rightarrow> go_error option" where
  "verifyCapabilityAddressType app =
     (case first_error checkCapability (appCapabilities app) of
        Some err \<Rightarrow> Some (ValidationError ValidConditionAddressTypeError err)
      | None \<Rightarrow> None)"

section \<open>Declared addresses\<close>

definition validateAddressesDisjoint :: "broker_app \<Rightarrow> go_error option" where
  "validateAddressesDisjoint app =
     (if length (appAddresses app) = 0 \<or> length (appSharedAddresses app) = 0 then None
      else first_error
        (\<lambda>s. if atAddress s \<in> set (map atAddress (appAddresses app))
             then Some (ValidationError ValidConditionAddressTypeError
               (''address '' @ quoted (atAddress s) @ '' appears in both spec.addresses and spec.sharedAddresses (cannot be both private and public)''))
             else None)
        (appSharedAddresses app))"

definition declaredAddresses :: "broker_app \<Rightarrow> string \<Rightarrow> bool option" where
  "declaredAddresses app =
     foldl (\<lambda>m t. m(atAddress t := Some (type_multicast t))) (\<lambda>_. None)
       (appAddresses app @ appSharedAddresses app)"

definition inconsistent_usage :: "bool \<Rightarrow> string \<Rightarrow> string \<Rightarrow> string" where
  "inconsistent_usage declared field address =
     ''address '' @ quoted address @ '' is declared '' @
     (if declared then ''with'' else ''without'') @
     '' pubSub semantics in spec.addresses or spec.sharedAddresses, but is used '' @
     (if declared then ''without'' else ''with'') @ '' pubSub semantics in capabilities.'' @ field @
     ''. Address declaration and usage must have consistent routing semantics''"

definition checkUsage :: "(string \<Rightarrow> bool option) \<Rightarrow> string \<Rightarrow> address_ref \<Rightarrow> go_error option" where
  "checkUsage declared field r =
     (if is_local r
      then case declared (arAddress r) of
             Some d \<Rightarrow>
               if d \<noteq> ref_multicast r
               then Some (ValidationError ValidConditionAddressTypeError
                            (inconsistent_usage d field (arAddress r)))
               else None
           | None \<Rightarrow> None
      else None)"

definition validateAddressCapabilityConsistency :: "broker_app \<Rightarrow> go_error option" where
  "validateAddressCapabilityConsistency app =
     (if appAddresses app = [] \<and> appSharedAddresses app = [] then None
      else first_error
        (\<lambda>capability.
           or_else
             (first_error (checkUsage (declaredAddresses app) ''producerOf'') (ProducerOf capability))
             (first_error (checkUsage (declaredAddresses app) ''consumerOf'') (ConsumerOf capability)))
        (appCapabilities app))"

definition validateSpec :: "broker_app \<Rightarrow> go_error option" where
  "validateSpec app =
     or_else (ValidateResourceName (appName app))
       (or_else (verifyCapabilityAddressType app)
         (or_else (validateAddressesDisjoint app)
           (validateAddressCapabilityConsistency app)))"

text \<open>Which applications must be reconciled again when an application they reference changes.\<close>

definition hasAddressRefTo :: "broker_app \<Rightarrow> string \<Rightarrow> string \<Rightarrow> bool" where
  "hasAddressRefTo app targetNamespace targetName =
     list_ex (\<lambda>capability.
       list_ex (\<lambda>r. arAppNamespace r = targetNamespace \<and> arAppName r = targetName)
         (ProducerOf capability) \<or>
       list_ex (\<lambda>r. arAppNamespace r = targetNamespace \<and> arAppName r = targetName)
         (ConsumerOf capability)) (appCapabilities app)"

section \<open>What validation accepts\<close>

definition ref_ok :: "address_ref \<Rightarrow> bool" where
  "ref_ok r \<longleftrightarrow> arAddress r \<noteq> '''' \<and> \<not> str_contains (arAddress r) FQQNSeparator \<and>
     (arAppNamespace r \<noteq> '''' \<longleftrightarrow> arAppName r \<noteq> '''') \<and>
     \<not> (arPubSub r = Some False \<and> arSubscriptions r \<noteq> [])"

definition producer_ok :: "address_ref \<Rightarrow> bool" where
  "producer_ok r \<longleftrightarrow> ref_ok r \<and> arSubscriptions r = []"

definition consumer_ok :: "address_ref \<Rightarrow> bool" where
  "consumer_ok r \<longleftrightarrow> ref_ok r \<and>
     (ref_multicast r \<longrightarrow> arSubscriptions r \<noteq> [] \<and>
        (\<forall>q \<in> set (arSubscriptions r). q \<noteq> '''' \<and> \<not> str_contains q FQQNSeparator))"

text \<open>
  The routing semantics of the local addresses of one capability: all consumers of an address agree,
  and a producer that declares publish/subscribe has only publish/subscribe consumers.
\<close>

definition routing_ok :: "app_capability \<Rightarrow> bool" where
  "routing_ok capability \<longleftrightarrow>
     (\<forall>c \<in> set (ConsumerOf capability). is_local c \<longrightarrow>
        (\<forall>p \<in> set (ProducerOf capability). is_local p \<and> ref_multicast p \<and> arAddress p = arAddress c
           \<longrightarrow> ref_multicast c) \<and>
        (\<forall>d \<in> set (ConsumerOf capability). is_local d \<and> arAddress d = arAddress c
           \<longrightarrow> ref_multicast d = ref_multicast c))"

definition capability_ok :: "app_capability \<Rightarrow> bool" where
  "capability_ok capability \<longleftrightarrow>
     (\<forall>r \<in> set (ProducerOf capability). producer_ok r) \<and>
     (\<forall>r \<in> set (ConsumerOf capability). consumer_ok r) \<and> routing_ok capability"

definition app_refs :: "broker_app \<Rightarrow> address_ref list" where
  "app_refs app = concat (map (\<lambda>c. ProducerOf c @ ConsumerOf c) (appCapabilities app))"

definition spec_ok :: "broker_app \<Rightarrow> bool" where
  "spec_ok app \<longleftrightarrow>
     common_ValidateResourceName (appName app) = None \<and>
     (\<forall>c \<in> set (appCapabilities app). capability_ok c) \<and>
     atAddress ` set (appAddresses app) \<inter> atAddress ` set (appSharedAddresses app) = {} \<and>
     (\<forall>r \<in> set (app_refs app). is_local r \<longrightarrow>
        declaredAddresses app (arAddress r) \<in> {None, Some (ref_multicast r)})"

section \<open>Facts\<close>

lemma isMulticast_iff:
  "isMulticastAddress ps subs \<longleftrightarrow> ps = Some True \<or> (ps = None \<and> subs \<noteq> [])"
  by (cases ps) (auto simp: isMulticastAddress_def)

lemma foldl_insert_set:
  "set (foldl (\<lambda>m x. if P x then List.insert (f x) m else m) m xs) =
     set m \<union> f ` {x \<in> set xs. P x}"
  by (induction xs arbitrary: m) auto

lemma foldl_insert_all: "set (foldl (\<lambda>m x. List.insert (f x) m) m xs) = set m \<union> f ` set xs"
  by (induction xs arbitrary: m) auto

lemma foldl_refs_set:
  "set (foldl (\<lambda>m' l. foldl (\<lambda>m'' r. if P r then List.insert (f r) m'' else m'') m' l) m ls) =
     set m \<union> f ` {r \<in> set (concat ls). P r}"
  by (induction ls arbitrary: m) (auto simp: foldl_insert_set)

lemma foldl_caps_set:
  "set (foldl (\<lambda>m c. foldl (\<lambda>m' l. foldl (\<lambda>m'' r. if P r then List.insert (f r) m'' else m'') m' l)
          m [ProducerOf c, ConsumerOf c]) m cs) =
     set m \<union> f ` {r \<in> set (concat (map (\<lambda>c. ProducerOf c @ ConsumerOf c) cs)). P r}"
proof (induction cs arbitrary: m)
  case Nil
  then show ?case by simp
next
  case (Cons c cs)
  show ?case
    by (subst foldl_Cons, subst Cons.IH, subst foldl_refs_set) auto
qed

lemma owned_iff:
  "a \<in> set (collectOwnedAddresses app) \<longleftrightarrow>
     a \<in> atAddress ` set (appAddresses app) \<or> a \<in> atAddress ` set (appSharedAddresses app) \<or>
     (\<exists>r \<in> set (app_refs app). is_local r \<and> a = extractBaseAddress (arAddress r))"
proof -
  have "set (collectOwnedAddresses app) =
      atAddress ` set (appAddresses app) \<union> atAddress ` set (appSharedAddresses app) \<union>
      (\<lambda>r. extractBaseAddress (arAddress r)) ` {r \<in> set (app_refs app). is_local r}"
    unfolding collectOwnedAddresses_def Let_def foldl_caps_set foldl_insert_all app_refs_def by simp
  then show ?thesis by auto
qed

lemma checkRef_None: "checkRef f i r = None \<longleftrightarrow> ref_ok r"
  by (auto simp: checkRef_def ref_ok_def)

lemma checkProducer_None: "checkProducer i r = None \<longleftrightarrow> producer_ok r"
proof (cases "ref_ok r")
  case True
  then have "checkRef ''ProducerOf'' i r = None" by (simp only: checkRef_None)
  then have "checkProducer i r = None \<longleftrightarrow> \<not> (ref_multicast r \<and> length (arSubscriptions r) > 0)"
    by (simp only: checkProducer_def option.case if_split) simp
  with True show ?thesis
    by (auto simp: producer_ok_def ref_multicast_def isMulticast_iff ref_ok_def)
next
  case False
  then have "checkRef ''ProducerOf'' i r \<noteq> None" by (simp only: checkRef_None not_False_eq_True)
  with False show ?thesis by (auto simp: checkProducer_def producer_ok_def)
qed

lemma checkSubscription_None:
  "checkSubscription i j q = None \<longleftrightarrow> q \<noteq> [] \<and> \<not> str_contains q FQQNSeparator"
  by (auto simp: checkSubscription_def Let_def)

lemma enumerate_ball: "(\<forall>x \<in> set (enumerate n xs). P (snd x)) \<longleftrightarrow> (\<forall>x \<in> set xs. P x)"
  by (induction xs arbitrary: n) auto

lemma first_error_enumerate:
  "(\<And>i x. f i x = None \<longleftrightarrow> P x) \<Longrightarrow>
     first_error (\<lambda>(i, x). f i x) (enumerate n xs) = None \<longleftrightarrow> (\<forall>x \<in> set xs. P x)"
  using enumerate_ball [of n xs P] by (auto simp: first_error_None split_beta)

lemma checkConsumer_None: "checkConsumer i r = None \<longleftrightarrow> consumer_ok r"
proof (cases "ref_ok r")
  case True
  then have "checkRef ''ConsumerOf'' i r = None" by (simp only: checkRef_None)
  then have "checkConsumer i r = None \<longleftrightarrow>
      (ref_multicast r \<longrightarrow> arSubscriptions r \<noteq> [] \<and>
         first_error (\<lambda>(j, q). checkSubscription i j q) (enumerate 0 (arSubscriptions r)) = None)"
    by (auto simp: checkConsumer_def)
  with True show ?thesis
    by (simp add: first_error_enumerate [OF checkSubscription_None] consumer_ok_def)
next
  case False
  then have "checkRef ''ConsumerOf'' i r \<noteq> None" by (simp only: checkRef_None not_False_eq_True)
  with False show ?thesis by (auto simp: checkConsumer_def consumer_ok_def)
qed

lemma routingProducers_ok:
  "(\<forall>a. m a \<noteq> Some False) \<Longrightarrow>
     routingProducers rs m =
       Inr (\<lambda>a. if \<exists>r \<in> set rs. is_local r \<and> ref_multicast r \<and> arAddress r = a then Some True else m a)"
proof (induction rs arbitrary: m)
  case Nil
  then show ?case by simp
next
  case (Cons r rs)
  show ?case
  proof (cases "is_local r \<and> ref_multicast r")
    case True
    then have "routingProducers (r # rs) m = routingProducers rs (m(arAddress r := Some True))"
      using Cons.prems by simp
    also have "\<dots> = Inr (\<lambda>a. if \<exists>r \<in> set rs. is_local r \<and> ref_multicast r \<and> arAddress r = a
        then Some True else (m(arAddress r := Some True)) a)"
      by (rule Cons.IH) (simp add: Cons.prems)
    finally show ?thesis using True by (auto simp: fun_eq_iff)
  next
    case False
    then have "routingProducers (r # rs) m = routingProducers rs m" by auto
    with Cons.IH [OF Cons.prems] False show ?thesis by (auto simp: fun_eq_iff)
  qed
qed

lemma conflict_step:
  "m a \<noteq> Some (\<not> b) \<Longrightarrow>
     (\<forall>c \<in> S. L c \<longrightarrow> (A c = a \<longrightarrow> M c = b) \<and> (A c \<noteq> a \<longrightarrow> m (A c) \<noteq> Some (\<not> M c)) \<and> X c) \<longleftrightarrow>
     (\<forall>d \<in> S. L d \<and> A d = a \<longrightarrow> M d = b) \<and>
     (\<forall>c \<in> S. L c \<longrightarrow> m (A c) \<noteq> Some (\<not> M c) \<and> (a = A c \<longrightarrow> b = M c) \<and> X c)"
  unfolding ball_conj_distrib [symmetric] by (rule ball_cong) auto

lemma routingConsumers_ok:
  "(\<exists>m'. routingConsumers rs m = Inr m') \<longleftrightarrow>
     (\<forall>c \<in> set rs. is_local c \<longrightarrow>
        m (arAddress c) \<noteq> Some (\<not> ref_multicast c) \<and>
        (\<forall>d \<in> set rs. is_local d \<and> arAddress d = arAddress c \<longrightarrow> ref_multicast d = ref_multicast c))"
proof (induction rs arbitrary: m)
  case Nil
  then show ?case by simp
next
  case (Cons r rs)
  show ?case
  proof (cases "is_local r")
    case False
    then have "routingConsumers (r # rs) m = routingConsumers rs m" by simp
    with Cons.IH [of m] False show ?thesis by simp
  next
    case True
    show ?thesis
    proof (cases "m (arAddress r) = Some (\<not> ref_multicast r)")
      case conflict: True
      with True show ?thesis by auto
    next
      case False
      with True have "routingConsumers (r # rs) m =
          routingConsumers rs (m(arAddress r := Some (ref_multicast r)))" by simp
      then have step: "(\<exists>m'. routingConsumers (r # rs) m = Inr m') \<longleftrightarrow>
          (\<forall>c \<in> set rs. is_local c \<longrightarrow>
             (arAddress c = arAddress r \<longrightarrow> ref_multicast c = ref_multicast r) \<and>
             (arAddress c \<noteq> arAddress r \<longrightarrow> m (arAddress c) \<noteq> Some (\<not> ref_multicast c)) \<and>
             (\<forall>d \<in> set rs. is_local d \<and> arAddress d = arAddress c \<longrightarrow>
                ref_multicast d = ref_multicast c))"
        by (simp only: Cons.IH) (intro ball_cong refl, auto)
      show ?thesis
        unfolding step conflict_step [of m "arAddress r" "ref_multicast r", OF False]
        using True False by simp
    qed
  qed
qed

lemma checkRouting_None: "checkRouting c = None \<longleftrightarrow> routing_ok c"
proof -
  define m where "m a = (if \<exists>r \<in> set (ProducerOf c). is_local r \<and> ref_multicast r \<and> arAddress r = a
    then Some True else None)" for a
  have p: "routingProducers (ProducerOf c) (\<lambda>_. None) = Inr m"
    using routingProducers_ok [of "\<lambda>_. None" "ProducerOf c"] by (simp add: m_def [abs_def])
  have "checkRouting c = None \<longleftrightarrow> (\<exists>m'. routingConsumers (ConsumerOf c) m = Inr m')"
    by (auto simp: checkRouting_def p split: sum.splits)
  also have "\<dots> \<longleftrightarrow> routing_ok c"
    unfolding routingConsumers_ok routing_ok_def m_def by (auto split: if_splits)
  finally show ?thesis .
qed

lemma checkCapability_None: "checkCapability c = None \<longleftrightarrow> capability_ok c"
  unfolding checkCapability_def or_else_None capability_ok_def checkRouting_None
    first_error_enumerate [OF checkProducer_None] first_error_enumerate [OF checkConsumer_None]
  by simp

lemma verify_None:
  "verifyCapabilityAddressType app = None \<longleftrightarrow> (\<forall>c \<in> set (appCapabilities app). capability_ok c)"
  unfolding verifyCapabilityAddressType_def checkCapability_None [symmetric]
    first_error_None [symmetric]
  by (cases "first_error checkCapability (appCapabilities app)") simp_all

lemma disjoint_None:
  "validateAddressesDisjoint app = None \<longleftrightarrow>
     atAddress ` set (appAddresses app) \<inter> atAddress ` set (appSharedAddresses app) = {}"
proof (cases "appAddresses app = [] \<or> appSharedAddresses app = []")
  case True
  then show ?thesis by (auto simp: validateAddressesDisjoint_def)
next
  case False
  then have "validateAddressesDisjoint app = None \<longleftrightarrow>
      (\<forall>s \<in> set (appSharedAddresses app). atAddress s \<notin> set (map atAddress (appAddresses app)))"
    by (simp add: validateAddressesDisjoint_def first_error_None)
  also have "\<dots> \<longleftrightarrow> set (map atAddress (appAddresses app)) \<inter> atAddress ` set (appSharedAddresses app) = {}"
    by blast
  finally show ?thesis by simp
qed

lemma checkUsage_None:
  "checkUsage d f r = None \<longleftrightarrow> (is_local r \<longrightarrow> d (arAddress r) \<in> {None, Some (ref_multicast r)})"
  by (auto simp: checkUsage_def split: option.splits)

lemma consistency_None:
  "validateAddressCapabilityConsistency app = None \<longleftrightarrow>
     (\<forall>r \<in> set (app_refs app). is_local r \<longrightarrow>
        declaredAddresses app (arAddress r) \<in> {None, Some (ref_multicast r)})"
proof (cases "appAddresses app = [] \<and> appSharedAddresses app = []")
  case True
  then show ?thesis
    by (simp add: validateAddressCapabilityConsistency_def declaredAddresses_def)
next
  case False
  then show ?thesis
    unfolding validateAddressCapabilityConsistency_def app_refs_def if_not_P [OF False]
      first_error_None or_else_None checkUsage_None by auto
qed

lemma validateSpec_None: "validateSpec app = None \<longleftrightarrow> spec_ok app"
  unfolding validateSpec_def or_else_None ValidateResourceName_None verify_None disjoint_None
    consistency_None spec_ok_def ..

lemma validateSpec_kind:
  "validateSpec app = Some e \<Longrightarrow>
     \<exists>reason m. e = ValidationError reason m \<and>
       reason \<in> {ValidConditionInvalidResourceName, ValidConditionAddressTypeError}"
proof -
  assume "validateSpec app = Some e"
  then consider "ValidateResourceName (appName app) = Some e"
    | "verifyCapabilityAddressType app = Some e"
    | "validateAddressesDisjoint app = Some e"
    | "validateAddressCapabilityConsistency app = Some e"
    by (auto simp: validateSpec_def or_else_Some)
  then show ?thesis
  proof cases
    case 1
    then show ?thesis by (auto dest: ValidateResourceName_kind)
  next
    case 2
    then show ?thesis by (auto simp: verifyCapabilityAddressType_def split: option.splits)
  next
    case 3
    then show ?thesis
      by (auto simp: validateAddressesDisjoint_def split: if_splits dest!: first_error_SomeD)
  next
    case 4
    then show ?thesis
      by (auto simp: validateAddressCapabilityConsistency_def or_else_Some checkUsage_def
          split: if_splits option.splits dest!: first_error_SomeD)
  qed
qed

text \<open>Validated references never carry a queue in their address, so the base address is the address.\<close>

lemma extractBase_plain: "\<not> str_contains a FQQNSeparator \<Longrightarrow> extractBaseAddress a = a"
  by (simp add: extractBaseAddress_def)

lemma extractBase_fqqn:
  "\<not> str_contains (a @ '':'') FQQNSeparator \<Longrightarrow> extractBaseAddress (a @ FQQNSeparator @ q) = a"
  using cut_at [of a FQQNSeparator q]
  by (auto simp: extractBaseAddress_def numeral_2_eq_2 str_contains_iff split: option.splits)

lemma spec_ok_refs:
  "spec_ok app \<Longrightarrow> r \<in> set (app_refs app) \<Longrightarrow> ref_ok r"
  by (auto simp: spec_ok_def app_refs_def capability_ok_def producer_ok_def consumer_ok_def)

end
