(* ===== verification/App_Selector.thy ===== *)
theory App_Selector
  imports Api_Types
begin

text \<open>
  \<open>pkg/appselector/cel.go\<close>: does an application match the selector expression of a broker service.
  The CEL compiler and evaluator, the LRU cache, the conversion to unstructured objects and the
  namespace reads are not under \<open>src/\<close>: they are the records \<open>cel_env\<close> and \<open>lru\<close>.  The walk over the
  syntax tree, the memo protocol, the conditional namespace fetch and every error path are the code's.
\<close>

section \<open>Third-party data and functions\<close>

text \<open>The expression kinds of \<open>exprpb.Expr\<close>; \<open>NilExpr\<close> is a nil pointer.\<close>

datatype cel_expr =
    NilExpr
  | ConstExpr
  | IdentExpr string
  | SelectExpr cel_expr string
  | CallExpr cel_expr string "cel_expr list"
  | ListExpr "cel_expr list"
  | StructExpr "struct_entry list"
  | ComprehensionExpr cel_expr cel_expr cel_expr cel_expr cel_expr
and struct_entry = MapEntry cel_expr cel_expr

record cel_ast =
  astExpr :: cel_expr
  astOutputBool :: bool
  astOutputType :: string

datatype json = JNull | JBool bool | JString string | JObject "(string \<times> json) list"

datatype cel_value = CelBool bool | CelOther string

text \<open>The variables of an evaluation; an unused namespace is a nil map.\<close>

record activation =
  actApp :: json
  actService :: json
  actAppNamespace :: "json option"
  actServiceNamespace :: "json option"

type_synonym cel_program = "activation \<Rightarrow> string + cel_value"

record cel_env =
  celCompile :: "string \<Rightarrow> string + cel_ast"
  celProgram :: "cel_ast \<Rightarrow> string + cel_program"
  celApp :: "broker_app \<Rightarrow> string + json"
  celService :: "broker_service \<Rightarrow> string + json"
  celGetNamespace :: "string \<Rightarrow> string + json"
  celNamespace :: "json \<Rightarrow> string + json"
  hasNamespacePermission :: bool

record celProgramMetadata =
  mdProgram :: cel_program
  usesAppNamespace :: bool
  usesServiceNamespace :: bool

text \<open>
  The cache: \<open>lPeek\<close> is its content, \<open>lGet\<close> a lookup that may reorder entries, \<open>lAdd\<close> an insertion
  that may evict.
\<close>

record 'c lru =
  lPeek :: "'c \<Rightarrow> string \<Rightarrow> celProgramMetadata option"
  lGet :: "'c \<Rightarrow> string \<Rightarrow> celProgramMetadata option \<times> 'c"
  lAdd :: "'c \<Rightarrow> string \<Rightarrow> celProgramMetadata \<Rightarrow> 'c"

definition lru_ok :: "'c lru \<Rightarrow> bool" where
  "lru_ok L \<longleftrightarrow>
     (\<forall>c k. fst (lGet L c k) = lPeek L c k) \<and>
     (\<forall>c k k'. lPeek L (snd (lGet L c k)) k' = lPeek L c k') \<and>
     (\<forall>c k m k' m'. lPeek L (lAdd L c k m) k' = Some m' \<longrightarrow>
        (k' = k \<and> m' = m) \<or> lPeek L c k' = Some m')"

section \<open>The code\<close>

definition DefaultExpression :: string where
  "DefaultExpression = ''app.metadata.namespace == service.metadata.namespace''"

definition not_boolean :: "cel_ast \<Rightarrow> string" where
  "not_boolean ast = ''CEL expression must return boolean, got '' @ astOutputType ast"

definition ValidateExpression :: "cel_env \<Rightarrow> string \<Rightarrow> string option" where
  "ValidateExpression E expression =
     (if expression = '''' then None
      else case celCompile E expression of
             Inl err \<Rightarrow> Some (''failed to compile CEL expression: '' @ err)
           | Inr ast \<Rightarrow> if \<not> astOutputBool ast then Some (not_boolean ast) else None)"

text \<open>\<open>walkExpr\<close>: the two flags are the pointers the Go code sets.\<close>

fun walkExpr :: "cel_expr \<Rightarrow> bool \<times> bool \<Rightarrow> bool \<times> bool"
  and walkList :: "cel_expr list \<Rightarrow> bool \<times> bool \<Rightarrow> bool \<times> bool"
  and walkEntries :: "struct_entry list \<Rightarrow> bool \<times> bool \<Rightarrow> bool \<times> bool" where
  "walkExpr NilExpr u = u"
| "walkExpr ConstExpr u = u"
| "walkExpr (IdentExpr n) (a, s) =
     (if n = ''appNamespace'' then (True, s)
      else if n = ''serviceNamespace'' then (a, True) else (a, s))"
| "walkExpr (SelectExpr operand field) u = walkExpr operand u"
| "walkExpr (CallExpr target f args) u = walkList args (walkExpr target u)"
| "walkExpr (ListExpr es) u = walkList es u"
| "walkExpr (StructExpr entries) u = walkEntries entries u"
| "walkExpr (ComprehensionExpr r i c st res) u =
     walkExpr res (walkExpr st (walkExpr c (walkExpr i (walkExpr r u))))"
| "walkList [] u = u"
| "walkList (e # es) u = walkList es (walkExpr e u)"
| "walkEntries [] u = u"
| "walkEntries (MapEntry k v # es) u = walkEntries es (walkExpr v (walkExpr k u))"

definition analyzeVariableUsage :: "cel_ast \<Rightarrow> bool \<times> bool" where
  "analyzeVariableUsage ast = walkExpr (astExpr ast) (False, False)"

definition compileProgram :: "cel_env \<Rightarrow> string \<Rightarrow> string + celProgramMetadata" where
  "compileProgram E expression =
     (case celCompile E expression of
        Inl err \<Rightarrow> Inl (''failed to compile CEL expression: '' @ err)
      | Inr ast \<Rightarrow>
          if \<not> astOutputBool ast then Inl (not_boolean ast)
          else case celProgram E ast of
                 Inl err \<Rightarrow> Inl (''failed to create CEL program: '' @ err)
               | Inr prg \<Rightarrow>
                   let (ua, us) = analyzeVariableUsage ast
                   in Inr \<lparr>mdProgram = prg, usesAppNamespace = ua, usesServiceNamespace = us\<rparr>)"

definition getOrCompileProgram ::
  "cel_env \<Rightarrow> 'c lru \<Rightarrow> 'c \<Rightarrow> string \<Rightarrow> (string + celProgramMetadata) \<times> 'c" where
  "getOrCompileProgram E L cache expression =
     (case lGet L cache expression of
        (Some metadata, cache1) \<Rightarrow> (Inr metadata, cache1)
      | (None, cache1) \<Rightarrow>
          (case compileProgram E expression of
             Inl err \<Rightarrow> (Inl err, cache1)
           | Inr metadata \<Rightarrow> (Inr metadata, lAdd L cache1 expression metadata)))"

definition fetchNamespace :: "cel_env \<Rightarrow> string \<Rightarrow> string + json" where
  "fetchNamespace E namespaceName =
     (if \<not> hasNamespacePermission E then Inl ''operator lacks permission to access namespaces''
      else case celGetNamespace E namespaceName of
             Inl err \<Rightarrow> Inl (''failed to fetch namespace '' @ namespaceName @ '': '' @ err)
           | Inr ns \<Rightarrow>
               (case celNamespace E ns of
                  Inl err \<Rightarrow> Inl (''failed to convert Namespace to unstructured: '' @ err)
                | Inr m \<Rightarrow> Inr m))"

text \<open>A failed fetch reads as an empty map.\<close>

definition namespace_or_empty :: "cel_env \<Rightarrow> string \<Rightarrow> json" where
  "namespace_or_empty E n = (case fetchNamespace E n of Inl err \<Rightarrow> JObject [] | Inr m \<Rightarrow> m)"

definition runProgram ::
  "cel_env \<Rightarrow> celProgramMetadata \<Rightarrow> broker_app \<Rightarrow> broker_service \<Rightarrow> string + bool" where
  "runProgram E metadata app service =
     (case celApp E app of
        Inl err \<Rightarrow> Inl (''failed to convert BrokerApp to unstructured: '' @ err)
      | Inr appMap \<Rightarrow>
          (case celService E service of
             Inl err \<Rightarrow> Inl (''failed to convert BrokerService to unstructured: '' @ err)
           | Inr serviceMap \<Rightarrow>
               (case mdProgram metadata
                       \<lparr>actApp = appMap, actService = serviceMap,
                        actAppNamespace =
                          (if usesAppNamespace metadata
                           then Some (namespace_or_empty E (appNamespace app)) else None),
                        actServiceNamespace =
                          (if usesServiceNamespace metadata
                           then Some (namespace_or_empty E (svcNamespace service)) else None)\<rparr> of
                  Inl err \<Rightarrow> Inl (''failed to evaluate CEL expression: '' @ err)
                | Inr (CelBool b) \<Rightarrow> Inr b
                | Inr (CelOther t) \<Rightarrow>
                    Inl (''CEL expression returned non-boolean type: '' @ t))))"

definition evaluateExpression ::
  "cel_env \<Rightarrow> 'c lru \<Rightarrow> 'c \<Rightarrow> string \<Rightarrow> broker_app \<Rightarrow> broker_service \<Rightarrow> (string + bool) \<times> 'c" where
  "evaluateExpression E L cache expression app service =
     (if expression = '''' then (Inl ''expression cannot be empty'', cache)
      else case getOrCompileProgram E L cache expression of
             (Inl err, cache1) \<Rightarrow> (Inl err, cache1)
           | (Inr metadata, cache1) \<Rightarrow> (runProgram E metadata app service, cache1))"

definition Matches ::
  "cel_env \<Rightarrow> 'c lru \<Rightarrow> 'c \<Rightarrow> broker_app \<Rightarrow> broker_service \<Rightarrow> (string + bool) \<times> 'c" where
  "Matches E L cache app service =
     (let expression = svcAppSelectorExpression service;
          expression = (if expression = '''' then DefaultExpression else expression)
      in evaluateExpression E L cache expression app service)"

section \<open>The walk finds the variables\<close>

text \<open>The specification of the walk: the identifiers that occur in an expression.\<close>

fun idents :: "cel_expr \<Rightarrow> string set"
  and entry_idents :: "struct_entry \<Rightarrow> string set" where
  "idents NilExpr = {}"
| "idents ConstExpr = {}"
| "idents (IdentExpr n) = {n}"
| "idents (SelectExpr operand field) = idents operand"
| "idents (CallExpr target f args) = idents target \<union> (\<Union>e \<in> set args. idents e)"
| "idents (ListExpr es) = (\<Union>e \<in> set es. idents e)"
| "idents (StructExpr entries) = (\<Union>e \<in> set entries. entry_idents e)"
| "entry_idents (MapEntry k v) = idents k \<union> idents v"
| "idents (ComprehensionExpr r i c st res) =
     idents r \<union> idents i \<union> idents c \<union> idents st \<union> idents res"

definition uses :: "string set \<Rightarrow> bool \<times> bool \<Rightarrow> bool \<times> bool" where
  "uses ns u = (fst u \<or> ''appNamespace'' \<in> ns, snd u \<or> ''serviceNamespace'' \<in> ns)"

lemma uses_empty [simp]: "uses {} u = u"
  by (simp add: uses_def)

lemma uses_uses [simp]: "uses ns (uses ms u) = uses (ms \<union> ns) u"
  by (auto simp: uses_def)

lemma walk_uses:
  "walkExpr e u = uses (idents e) u"
  "walkList es u = uses (\<Union>e \<in> set es. idents e) u"
  "walkEntries kvs u = uses (\<Union>e \<in> set kvs. entry_idents e) u"
  by (induction e u and es u and kvs u rule: walkExpr_walkList_walkEntries.induct)
    (auto simp: Un_assoc Un_commute Un_left_commute, auto simp: uses_def)

section \<open>The memo is transparent\<close>

text \<open>What the cache may hold: for an expression, the result of compiling it.\<close>

definition cache_inv :: "cel_env \<Rightarrow> 'c lru \<Rightarrow> 'c \<Rightarrow> bool" where
  "cache_inv E L cache \<longleftrightarrow>
     (\<forall>k m. lPeek L cache k = Some m \<longrightarrow> compileProgram E k = Inr m)"

text \<open>The same matching without a cache: the meaning the callers rely on.\<close>

definition matches_uncached :: "cel_env \<Rightarrow> broker_app \<Rightarrow> broker_service \<Rightarrow> string + bool" where
  "matches_uncached E app service =
     (let expression = (if svcAppSelectorExpression service = '''' then DefaultExpression
                        else svcAppSelectorExpression service)
      in case compileProgram E expression of
           Inl err \<Rightarrow> Inl err
         | Inr metadata \<Rightarrow> runProgram E metadata app service)"

lemma lru_get:
  assumes "lru_ok L" "lGet L c k = (r, c')"
  shows "r = lPeek L c k" and "lPeek L c' k' = lPeek L c k'"
  using assms by (metis fst_conv lru_ok_def, metis lru_ok_def snd_conv)

lemma lru_add:
  "lru_ok L \<Longrightarrow> lPeek L (lAdd L c k m) k' = Some m' \<Longrightarrow> k' = k \<and> m' = m \<or> lPeek L c k' = Some m'"
  unfolding lru_ok_def by blast

lemma getOrCompile_transparent:
  assumes L: "lru_ok L" and inv: "cache_inv E L c"
    and get: "getOrCompileProgram E L c k = (r, c')"
  shows "r = compileProgram E k" and "cache_inv E L c'"
proof -
  obtain g c1 where g: "lGet L c k = (g, c1)" by fastforce
  note peek = lru_get [OF L g]
  have inv1: "cache_inv E L c1" using inv peek(2) by (simp add: cache_inv_def)
  have "r = compileProgram E k \<and> cache_inv E L c'"
  proof (cases g)
    case (Some m)
    with g get have "r = Inr m" "c' = c1" by (auto simp: getOrCompileProgram_def)
    moreover from Some peek(1) inv have "compileProgram E k = Inr m"
      by (simp add: cache_inv_def)
    ultimately show ?thesis using inv1 by simp
  next
    case None
    show ?thesis
    proof (cases "compileProgram E k")
      case (Inl err)
      with None g get inv1 show ?thesis by (auto simp: getOrCompileProgram_def)
    next
      case (Inr m)
      with None g get have r: "r = Inr m" "c' = lAdd L c1 k m"
        by (auto simp: getOrCompileProgram_def)
      have "compileProgram E k' = Inr m'" if "lPeek L c' k' = Some m'" for k' m'
        using lru_add [OF L] that r(2) Inr inv1 by (fastforce simp: cache_inv_def)
      with r(1) Inr show ?thesis by (simp add: cache_inv_def)
    qed
  qed
  then show "r = compileProgram E k" "cache_inv E L c'" by auto
qed

lemma DefaultExpression_not_empty [simp]: "DefaultExpression \<noteq> []"
  by (simp add: DefaultExpression_def)

lemma Matches_transparent:
  assumes "lru_ok L" "cache_inv E L c" "Matches E L c app svc = (r, c')"
  shows "r = matches_uncached E app svc \<and> cache_inv E L c'"
proof -
  define k where "k = (if svcAppSelectorExpression svc = [] then DefaultExpression
                       else svcAppSelectorExpression svc)"
  have k: "k \<noteq> []" by (simp add: k_def)
  obtain m c1 where m: "getOrCompileProgram E L c k = (m, c1)" by fastforce
  have "m = compileProgram E k" "cache_inv E L c1"
    using getOrCompile_transparent [OF assms(1,2) m] by auto
  with assms(3) k m show ?thesis
    by (auto simp: Matches_def evaluateExpression_def matches_uncached_def k_def [symmetric] Let_def
        split: sum.splits)
qed

section \<open>Skipping the namespace fetch\<close>

text \<open>
  Documented behaviour of a CEL program: its value depends only on the variables its expression
  names.
\<close>

definition program_local :: "cel_env \<Rightarrow> bool" where
  "program_local E \<longleftrightarrow>
     (\<forall>k ast prg act x.
        celCompile E k = Inr ast \<longrightarrow> celProgram E ast = Inr prg \<longrightarrow>
        (''appNamespace'' \<notin> idents (astExpr ast) \<longrightarrow>
           prg (act\<lparr>actAppNamespace := x\<rparr>) = prg act) \<and>
        (''serviceNamespace'' \<notin> idents (astExpr ast) \<longrightarrow>
           prg (act\<lparr>actServiceNamespace := x\<rparr>) = prg act))"

text \<open>The metadata of a program that would always fetch both namespaces.\<close>

definition fetch_always :: "celProgramMetadata \<Rightarrow> celProgramMetadata" where
  "fetch_always m =
     \<lparr>mdProgram = mdProgram m, usesAppNamespace = True, usesServiceNamespace = True\<rparr>"

lemma fetch_skip:
  assumes loc: "program_local E" and m: "compileProgram E k = Inr m"
  shows "runProgram E m app svc = runProgram E (fetch_always m) app svc"
proof -
  from m obtain ast prg where ast: "celCompile E k = Inr ast" "celProgram E ast = Inr prg"
    and md: "mdProgram m = prg"
    and ua: "usesAppNamespace m \<longleftrightarrow> ''appNamespace'' \<in> idents (astExpr ast)"
    and us: "usesServiceNamespace m \<longleftrightarrow> ''serviceNamespace'' \<in> idents (astExpr ast)"
    by (auto simp: compileProgram_def analyzeVariableUsage_def walk_uses uses_def
        split: sum.splits if_splits)
  define act where "act a s x y =
    \<lparr>actApp = a, actService = s, actAppNamespace = x, actServiceNamespace = y\<rparr>"
    for a s :: json and x y :: "json option"
  have A: "''appNamespace'' \<notin> idents (astExpr ast) \<Longrightarrow> prg (act a s x y) = prg (act a s x' y)"
    for a s x x' y
  proof -
    assume n: "''appNamespace'' \<notin> idents (astExpr ast)"
    have "prg ((act a s x' y)\<lparr>actAppNamespace := x\<rparr>) = prg (act a s x' y)"
      using loc ast n unfolding program_local_def by blast
    then show ?thesis by (simp add: act_def)
  qed
  have S: "''serviceNamespace'' \<notin> idents (astExpr ast) \<Longrightarrow> prg (act a s x y) = prg (act a s x y')"
    for a s x y y'
  proof -
    assume n: "''serviceNamespace'' \<notin> idents (astExpr ast)"
    have "prg ((act a s x y')\<lparr>actServiceNamespace := y\<rparr>) = prg (act a s x y')"
      using loc ast n unfolding program_local_def by blast
    then show ?thesis by (simp add: act_def)
  qed
  have "prg (act a s (if usesAppNamespace m then Some u else None)
                     (if usesServiceNamespace m then Some v else None)) =
        prg (act a s (Some u) (Some v))" for a s u v
  proof -
    have "prg (act a s (if usesAppNamespace m then Some u else None) y) = prg (act a s (Some u) y)" for y
      using A ua by (cases "usesAppNamespace m") auto
    moreover have "prg (act a s x (if usesServiceNamespace m then Some v else None)) =
        prg (act a s x (Some v))" for x
      using S us by (cases "usesServiceNamespace m") auto
    ultimately show ?thesis by simp
  qed
  note eq = this [unfolded act_def]
  show ?thesis
    by (simp only: runProgram_def fetch_always_def celProgramMetadata.select_convs md eq if_True)
qed

end
