(* ===== verification/Port_Assignment.thy ===== *)
theory Port_Assignment
  imports Api_Types
begin

text \<open>
  \<open>controllers/port_assignment.go\<close>: the ports a broker service hands to its applications.  The loop
  variable is an \<open>int32\<close>; the Go map from ports to \<open>bool\<close> is a predicate (a missing key reads as
  \<open>false\<close>).  The locale \<open>port_pool\<close> is the interface the placement of applications relies on.
\<close>

section \<open>Definitions\<close>

definition UnassignedPort :: int32 where
  "UnassignedPort = 0"

definition DefaultStartPort :: int32 where
  "DefaultStartPort = 61616"

definition MaxValidPort :: int32 where
  "MaxValidPort = 65535"

definition ports_exhausted :: string where
  "ports_exhausted =
     ''all ports exhausted: range ['' @ itoa (sint DefaultStartPort) @ ''-'' @
     itoa (sint MaxValidPort) @ ''] fully allocated''"

text \<open>\<open>for port := start; port <= MaxValidPort; port++\<close>\<close>

lemma sint_succ: "sint (p :: int32) \<le> 65535 \<Longrightarrow> sint (p + 1) = sint p + 1"
proof -
  assume le: "sint p \<le> 65535"
  have ge: "- (2 ^ 31) \<le> sint p"
    using sint_ge [of p] by simp
  have "sint (p + 1) = signed_take_bit 31 (sint p + sint (1 :: int32))"
    by (simp add: sint_word_ariths)
  also have "\<dots> = signed_take_bit 31 (sint p + 1)"
    by simp
  also have "\<dots> = sint p + 1"
    using le ge by (intro signed_take_bit_int_eq_self) auto
  finally show ?thesis .
qed

function assign_from :: "(int32 \<Rightarrow> bool) \<Rightarrow> int32 \<Rightarrow> string + int32" where
  "assign_from usedPorts port =
     (if sint port \<le> sint MaxValidPort
      then if \<not> usedPorts port then Inr port else assign_from usedPorts (port + 1)
      else Inl ports_exhausted)"
  by pat_completeness auto
termination
  by (relation "measure (\<lambda>(usedPorts, port). nat (65536 - sint port))")
    (auto simp: MaxValidPort_def sint_succ)

declare assign_from.simps [simp del]

definition assignNextAvailablePort :: "(int32 \<Rightarrow> bool) \<Rightarrow> string + int32" where
  "assignNextAvailablePort usedPorts = assign_from usedPorts DefaultStartPort"

fun collect_used :: "broker_app list \<Rightarrow> broker_app option \<Rightarrow> (int32 \<Rightarrow> bool) \<Rightarrow> int32 \<Rightarrow> bool" where
  "collect_used [] excludeApp used = used"
| "collect_used (app # apps) excludeApp used =
     (if (case excludeApp of Some x \<Rightarrow> same_app app x | None \<Rightarrow> False)
      then collect_used apps excludeApp used
      else collect_used apps excludeApp
             (case asService (appStatus app) of
                Some b \<Rightarrow> if sbAssignedPort b \<noteq> UnassignedPort then used(sbAssignedPort b := True)
                          else used
              | None \<Rightarrow> used))"

definition collectUsedPorts :: "broker_app list \<Rightarrow> broker_app option \<Rightarrow> int32 \<Rightarrow> bool" where
  "collectUsedPorts apps excludeApp = collect_used apps excludeApp (\<lambda>p. False)"

section \<open>The pool as an interface\<close>

definition port_range :: "int32 set" where
  "port_range = {p. sint DefaultStartPort \<le> sint p \<and> sint p \<le> sint MaxValidPort}"

text \<open>Requests served one after the other, each port marked used before the next request.\<close>

primrec alloc_run :: "(('p \<Rightarrow> bool) \<Rightarrow> 'e + 'p) \<Rightarrow> nat \<Rightarrow> ('p \<Rightarrow> bool) \<Rightarrow> 'p list" where
  "alloc_run assign 0 used = []"
| "alloc_run assign (Suc n) used =
     (case assign used of
        Inl e \<Rightarrow> []
      | Inr p \<Rightarrow> p # alloc_run assign n (used(p := True)))"

locale port_pool =
  fixes assign :: "('p \<Rightarrow> bool) \<Rightarrow> 'e + 'p"
    and pool :: "'p set"
  assumes finite_pool: "finite pool"
    and assign_sound: "assign used = Inr p \<Longrightarrow> p \<in> pool \<and> \<not> used p"
    and assign_complete: "assign used = Inl e \<Longrightarrow> p \<in> pool \<Longrightarrow> used p"
begin

definition free_ports :: "('p \<Rightarrow> bool) \<Rightarrow> 'p set" where
  "free_ports used = {p \<in> pool. \<not> used p}"

lemma finite_free [simp]: "finite (free_ports used)"
  by (simp add: free_ports_def finite_pool)

lemma free_after: "free_ports (used(p := True)) = free_ports used - {p}"
  by (auto simp: free_ports_def)

lemma assign_iff: "(\<exists>p. assign used = Inr p) \<longleftrightarrow> free_ports used \<noteq> {}"
proof
  assume "\<exists>p. assign used = Inr p"
  then show "free_ports used \<noteq> {}" by (auto simp: free_ports_def dest: assign_sound)
next
  assume "free_ports used \<noteq> {}"
  then obtain p where "p \<in> pool" "\<not> used p" by (auto simp: free_ports_def)
  then show "\<exists>p. assign used = Inr p"
    using assign_complete by (cases "assign used") auto
qed

lemma alloc_run_free: "set (alloc_run assign n used) \<subseteq> free_ports used"
proof (induction n arbitrary: used)
  case 0
  then show ?case by simp
next
  case (Suc n)
  show ?case
  proof (cases "assign used")
    case (Inl e)
    then show ?thesis by simp
  next
    case (Inr p)
    have "set (alloc_run assign n (used(p := True))) \<subseteq> free_ports used"
      using Suc [of "used(p := True)"] unfolding free_after by blast
    moreover have "p \<in> free_ports used"
      using assign_sound [OF Inr] by (simp add: free_ports_def)
    ultimately show ?thesis using Inr by simp
  qed
qed

lemma alloc_run_distinct: "distinct (alloc_run assign n used)"
proof (induction n arbitrary: used)
  case 0
  then show ?case by simp
next
  case (Suc n)
  show ?case
  proof (cases "assign used")
    case (Inl e)
    then show ?thesis by simp
  next
    case (Inr p)
    have "p \<notin> set (alloc_run assign n (used(p := True)))"
      using alloc_run_free [of n "used(p := True)"] unfolding free_after by blast
    moreover have "distinct (alloc_run assign n (used(p := True)))" by (rule Suc)
    ultimately show ?thesis using Inr by simp
  qed
qed

lemma alloc_run_length: "length (alloc_run assign n used) = min n (card (free_ports used))"
proof (induction n arbitrary: used)
  case 0
  then show ?case by simp
next
  case (Suc n)
  show ?case
  proof (cases "assign used")
    case (Inl e)
    then have "free_ports used = {}" using assign_iff [of used] by auto
    with Inl show ?thesis by simp
  next
    case (Inr p)
    then have p: "p \<in> free_ports used"
      using assign_sound by (auto simp: free_ports_def)
    have "card (free_ports used) = Suc (card (free_ports used - {p}))"
      using card.remove [OF finite_free p] by simp
    moreover have "length (alloc_run assign n (used(p := True))) = min n (card (free_ports used - {p}))"
      using Suc [of "used(p := True)"] unfolding free_after .
    ultimately show ?thesis using Inr by simp
  qed
qed

end

section \<open>The code's pool\<close>

lemma sint_le_iff: "sint (p :: int32) \<le> sint MaxValidPort \<longleftrightarrow> sint p \<le> 65535"
  by (simp add: MaxValidPort_def)

lemma assign_from_sound:
  "assign_from used start = Inr p \<Longrightarrow>
     sint start \<le> sint p \<and> sint p \<le> sint MaxValidPort \<and> \<not> used p \<and>
     (\<forall>q. sint start \<le> sint q \<and> sint q < sint p \<longrightarrow> used q)"
proof (induction used start rule: assign_from.induct)
  case (1 used port)
  show ?case
  proof (cases "sint port \<le> sint MaxValidPort \<and> used port")
    case True
    with "1.prems" have "assign_from used (port + 1) = Inr p"
      by (subst (asm) assign_from.simps) simp
    with "1.IH" True have IH: "sint (port + 1) \<le> sint p" "sint p \<le> sint MaxValidPort" "\<not> used p"
      "\<forall>q. sint (port + 1) \<le> sint q \<and> sint q < sint p \<longrightarrow> used q"
      by auto
    have s: "sint (port + 1) = sint port + 1"
      using True by (intro sint_succ) (simp add: sint_le_iff)
    have "used q" if "sint port \<le> sint q" "sint q < sint p" for q
    proof (cases "sint q = sint port")
      case eq: True
      then have "q = port" by (simp add: signed_word_eqI)
      with True show ?thesis by simp
    next
      case False
      with that s IH(4) show ?thesis by auto
    qed
    with IH s show ?thesis by auto
  next
    case False
    with "1.prems" have "port = p" "sint port \<le> sint MaxValidPort" "\<not> used port"
      by (subst (asm) assign_from.simps, auto split: if_splits)+
    then show ?thesis by auto
  qed
qed

lemma assign_from_complete:
  "assign_from used start = Inl e \<Longrightarrow> sint start \<le> sint q \<Longrightarrow> sint q \<le> sint MaxValidPort \<Longrightarrow> used q"
proof (induction used start rule: assign_from.induct)
  case (1 used port)
  from "1.prems" have le: "sint port \<le> sint MaxValidPort" by linarith
  with "1.prems"(1) have "used port" and rec: "assign_from used (port + 1) = Inl e"
    by (subst (asm) assign_from.simps, auto split: if_splits)+
  show ?case
  proof (cases "q = port")
    case True
    with \<open>used port\<close> show ?thesis by simp
  next
    case False
    then have "sint q \<noteq> sint port" by (metis signed_word_eqI)
    with "1.prems"(2) sint_succ [of port] le have "sint (port + 1) \<le> sint q"
      by (simp add: sint_le_iff)
    with "1.IH" [OF le _ rec] \<open>used port\<close> "1.prems"(3) show ?thesis by simp
  qed
qed

interpretation ports: port_pool assignNextAvailablePort port_range
proof
  show "finite port_range" by simp
next
  fix used p
  assume "assignNextAvailablePort used = Inr p"
  then show "p \<in> port_range \<and> \<not> used p"
    using assign_from_sound by (auto simp: assignNextAvailablePort_def port_range_def)
next
  fix used e p
  assume "assignNextAvailablePort used = Inl e" "p \<in> port_range"
  then show "used p"
    using assign_from_complete by (auto simp: assignNextAvailablePort_def port_range_def)
qed

lemma collect_used_iff:
  "collect_used apps ex used p \<longleftrightarrow> used p \<or>
     (\<exists>app \<in> set apps. (\<forall>x. ex = Some x \<longrightarrow> \<not> same_app app x) \<and>
        (\<exists>b. asService (appStatus app) = Some b \<and> sbAssignedPort b = p \<and> p \<noteq> UnassignedPort))"
  by (induction apps ex used rule: collect_used.induct)
    (auto split: option.splits if_splits)

lemma collectUsedPorts_iff:
  "collectUsedPorts apps ex p \<longleftrightarrow>
     (\<exists>app \<in> set apps. (\<forall>x. ex = Some x \<longrightarrow> \<not> same_app app x) \<and>
        (\<exists>b. asService (appStatus app) = Some b \<and> sbAssignedPort b = p \<and> p \<noteq> UnassignedPort))"
  by (simp add: collectUsedPorts_def collect_used_iff)

lemma card_port_range: "card port_range = 3920"
proof -
  have "bij_betw sint port_range {61616 .. (65535 :: int)}"
  proof (rule bij_betwI')
    fix x y :: int32
    show "(sint x = sint y) = (x = y)" by (auto intro: signed_word_eqI)
  next
    fix x assume "x \<in> port_range"
    then show "sint x \<in> {61616 .. 65535}"
      by (simp add: port_range_def DefaultStartPort_def MaxValidPort_def)
  next
    fix y :: int assume y: "y \<in> {61616 .. 65535}"
    then have "sint (word_of_int y :: int32) = y"
      by (simp add: signed_take_bit_int_eq_self sint_sbintrunc')
    with y show "\<exists>x \<in> port_range. y = sint x"
      by (intro bexI [of _ "word_of_int y"])
        (auto simp: port_range_def DefaultStartPort_def MaxValidPort_def)
  qed
  then show ?thesis by (simp add: bij_betw_same_card)
qed

text \<open>C-ports: see the root theory for the statements over the whole placement.\<close>

end
