(* ===== verification/App_Placement.thy ===== *)
theory App_Placement
  imports App_Validation App_Selector Port_Assignment
begin

text \<open>
  The placement of an application on a broker service (\<open>controllers/brokerapp_controller.go\<close>): the
  checks a service must pass, the choice of the service with the most memory available, the error
  that explains why none was found, and \<open>resolveBrokerService\<close>, which keeps an existing binding
  while it is valid and replaces it otherwise.

  The reads of the API server during one reconcile, the condition helpers, the CEL environment and
  the iteration order of Go maps are the fields of the record \<open>controller\<close>.  The selector cache is
  left out here: \<open>App_Selector.Matches_transparent\<close> shows that \<open>Matches\<close> returns
  \<open>matches_uncached\<close> on every cache the package can reach.
\<close>

section \<open>The code\<close>

record controller =
  cMeta :: meta_api
  cKube :: kube
  cCel :: cel_env
  cOrder :: range_order

definition matchesServiceSelector :: "controller \<Rightarrow> broker_app \<Rightarrow> broker_service \<Rightarrow> string + bool" where
  "matchesServiceSelector C app service =
     (case matches_uncached (cCel C) app service of
        Inl err \<Rightarrow> Inl (''failed to evaluate appSelectorExpression on service '' @
          svcNamespace service @ ''/'' @ svcName service @ '': '' @ err)
      | Inr matches \<Rightarrow> Inr matches)"

definition isAppRejectedByService :: "broker_app \<Rightarrow> broker_service \<Rightarrow> bool" where
  "isAppRejectedByService app service =
     (let appKey = appNamespace app @ ''/'' @ appName app
      in list_ex (\<lambda>rejected. rejNamespace rejected @ ''/'' @ rejName rejected = appKey)
           (ssRejectedApps (svcStatus service)))"

definition listOtherAppsForService ::
  "controller \<Rightarrow> broker_app \<Rightarrow> broker_service \<Rightarrow> string + broker_app list" where
  "listOtherAppsForService C instance service =
     (case kListApps (cKube C) (serviceKey service) of
        Inl err \<Rightarrow> Inl err
      | Inr apps \<Rightarrow>
          Inr (filter (\<lambda>app. \<not> (appNamespace app = appNamespace instance \<and>
                                 appName app = appName instance)) apps))"

text \<open>\<open>int64(^uint64(0) >> 1)\<close>.\<close>

definition max_int64 :: int64 where
  "max_int64 = drop_bit 1 (not 0)"

definition getAvailableMemory :: "controller \<Rightarrow> broker_app \<Rightarrow> broker_service \<Rightarrow> string + int64" where
  "getAvailableMemory C instance service =
     (if qIsZero (svcMemoryLimit service) then Inr max_int64
      else case listOtherAppsForService C instance service of
        Inl err \<Rightarrow> Inl err
      | Inr apps \<Rightarrow>
          (let usedMemory = foldl (\<lambda>m app. m + qValue (appMemoryRequest app)) 0 apps;
               available = qValue (svcMemoryLimit service) - usedMemory
           in Inr (if sint available < 0 then 0 else available)))"

definition clash_text :: "string \<Rightarrow> broker_app \<Rightarrow> string" where
  "clash_text myAddr otherApp =
     ''address '' @ quoted myAddr @ '' already declared by '' @ appNamespace otherApp @ ''/'' @
     appName otherApp @ '' (use addressRef to share addresses)''"

definition checkAddressClashOnService ::
  "controller \<Rightarrow> broker_app \<Rightarrow> broker_service \<Rightarrow> string option" where
  "checkAddressClashOnService C instance service =
     (let myDirectAddresses = collectOwnedAddresses instance
      in if length myDirectAddresses = 0 then None
         else case listOtherAppsForService C instance service of
           Inl listErr \<Rightarrow> Some (''failed to list apps for clash detection: '' @ listErr)
         | Inr apps \<Rightarrow>
             first_error
               (\<lambda>otherApp. first_error
                  (\<lambda>myAddr. if myAddr \<in> set (collectOwnedAddresses otherApp)
                            then Some (clash_text myAddr otherApp) else None)
                  (cOrder C myDirectAddresses))
               apps)"

text \<open>The address reference an error message names.\<close>

definition ref_name :: "address_ref \<Rightarrow> string" where
  "ref_name r = arAppNamespace r @ ''/'' @ arAppName r"

definition routing_conflict :: "address_ref \<Rightarrow> bool \<Rightarrow> string" where
  "routing_conflict r owner =
     ''referenced app '' @ ref_name r @ '' declares address '' @ quoted (arAddress r) @
     (if owner then '' with pubSub, but this app references it without pubSub. ''
      else '' without pubSub, but this app uses it with pubSub. '') @
     ''Shared addresses must use consistent semantics across all apps''"

definition checkSharedAddress :: "address_ref \<Rightarrow> broker_app \<Rightarrow> string option" where
  "checkSharedAddress r referencedApp =
     (case List.find (\<lambda>t. atAddress t = arAddress r) (appSharedAddresses referencedApp) of
        None \<Rightarrow> Some (''referenced app '' @ ref_name r @ '' does not share address '' @
                   quoted (arAddress r) @ '' (add to spec.sharedAddresses)'')
      | Some t \<Rightarrow>
          (let ownerIsMulticast = type_multicast t; currentIsMulticast = ref_multicast r
           in if currentIsMulticast \<and> \<not> ownerIsMulticast then Some (routing_conflict r False)
              else if \<not> currentIsMulticast \<and> ownerIsMulticast then Some (routing_conflict r True)
              else None))"

definition checkRefOnOther ::
  "controller \<Rightarrow> broker_service \<Rightarrow> address_ref \<Rightarrow> service_binding \<Rightarrow> string" where
  "checkRefOnOther C service r b =
     (case kGetService (cKube C) (sbNamespace b) (sbName b) of
        Inl (NotFound e) \<Rightarrow> ''referenced app '' @ ref_name r @ '' was provisioned on service '' @
          binding_key b @ '' which no longer exists''
      | Inl (ApiError e) \<Rightarrow> ''failed to lookup service '' @ binding_key b @ '' for referenced app '' @
          ref_name r @ '': '' @ e
      | Inr svc \<Rightarrow> ''referenced app '' @ ref_name r @ '' is provisioned on different service '' @
          binding_key b @ '' (this app would bind to: '' @ serviceKey service @ '')'')"

definition checkAddressRef ::
  "controller \<Rightarrow> broker_service \<Rightarrow> address_ref \<Rightarrow> string option" where
  "checkAddressRef C service r =
     (if arAppNamespace r = '''' \<or> arAppName r = '''' then None
      else case kGetApp (cKube C) (arAppNamespace r) (arAppName r) of
        Inl (NotFound e) \<Rightarrow> Some (''referenced app '' @ ref_name r @ '' not found'')
      | Inl (ApiError e) \<Rightarrow> Some (''failed to lookup referenced app '' @ ref_name r @ '': '' @ e)
      | Inr referencedApp \<Rightarrow>
          (case asService (appStatus referencedApp) of
             None \<Rightarrow> Some (''referenced app '' @ ref_name r @ '' not yet provisioned on any service'')
           | Some b \<Rightarrow>
               if binding_key b \<noteq> serviceKey service then Some (checkRefOnOther C service r b)
               else checkSharedAddress r referencedApp))"

definition checkAddressRefCapacity ::
  "controller \<Rightarrow> broker_app \<Rightarrow> broker_service \<Rightarrow> string option" where
  "checkAddressRefCapacity C instance service =
     first_error
       (\<lambda>capability. first_error (first_error (checkAddressRef C service))
          [ProducerOf capability, ConsumerOf capability])
       (appCapabilities instance)"

datatype rejection_category =
    RejectionNotDeployed | RejectionSelector | RejectionSelectorError | RejectionAddressRef
  | RejectionAddressClash | RejectionMemory | RejectionPortPool | RejectionOther

record service_rejection =
  srServiceName :: string
  srCategory :: rejection_category
  srMessage :: string

definition reject :: "broker_service \<Rightarrow> rejection_category \<Rightarrow> string \<Rightarrow> service_rejection" where
  "reject service category message =
     \<lparr>srServiceName = svcName service, srCategory = category, srMessage = message\<rparr>"

text \<open>The body of the loop: why the service is rejected, or its memory available and the port to use.\<close>

definition considerService ::
  "controller \<Rightarrow> broker_app \<Rightarrow> broker_service \<Rightarrow> service_rejection + int64 \<times> int32" where
  "considerService C instance service =
     (case FindStatusCondition (cMeta C) (ssConditions (svcStatus service)) DeployedConditionType of
        None \<Rightarrow> Inl (reject service RejectionNotDeployed
                  ''service not deployed yet (port discovery pending)'')
      | Some deployedCond \<Rightarrow>
        if cStatus deployedCond \<noteq> ConditionTrue
        then Inl (reject service RejectionNotDeployed
                  ''service not deployed yet (port discovery pending)'')
        else case matchesServiceSelector C instance service of
          Inl matchErr \<Rightarrow> Inl (reject service RejectionSelectorError
                            (''selector evaluation failed: '' @ matchErr))
        | Inr False \<Rightarrow> Inl (reject service RejectionSelector ''does not match selector'')
        | Inr True \<Rightarrow>
          (case checkAddressRefCapacity C instance service of
             Some addrRefErr \<Rightarrow> Inl (reject service RejectionAddressRef addrRefErr)
           | None \<Rightarrow>
             (case checkAddressClashOnService C instance service of
                Some clashErr \<Rightarrow> Inl (reject service RejectionAddressClash clashErr)
              | None \<Rightarrow>
                (case getAvailableMemory C instance service of
                   Inl checkErr \<Rightarrow> Inl (reject service RejectionOther
                                     (''error checking capacity: '' @ checkErr))
                 | Inr available \<Rightarrow>
                   if sint available < sint (qValue (appMemoryRequest instance))
                   then Inl (reject service RejectionMemory
                          (''insufficient memory (available: '' @ itoa (sint available) @
                           '', required: '' @ itoa (sint (qValue (appMemoryRequest instance))) @ '')''))
                   else (case listOtherAppsForService C instance service of
                      Inl listErr \<Rightarrow> Inl (reject service RejectionOther
                                       (''error checking port capacity: '' @ listErr))
                    | Inr apps \<Rightarrow>
                        (case assignNextAvailablePort (collectUsedPorts apps (Some instance)) of
                           Inl portErr \<Rightarrow> Inl (reject service RejectionPortPool
                                            (''port pool exhausted: '' @ portErr))
                         | Inr candidatePort \<Rightarrow> Inr (available, candidatePort)))))))"

text \<open>The loop: the best service with its port, its memory, and the rejections so far.\<close>

fun findLoop ::
  "controller \<Rightarrow> broker_app \<Rightarrow> broker_service list \<Rightarrow>
     (broker_service \<times> int32) option \<times> int64 \<times> service_rejection list \<Rightarrow>
     (broker_service \<times> int32) option \<times> int64 \<times> service_rejection list" where
  "findLoop C instance [] st = st"
| "findLoop C instance (service # services) (best, maxAvailable, rejections) =
     (case considerService C instance service of
        Inl rejection \<Rightarrow>
          findLoop C instance services (best, maxAvailable, rejections @ [rejection])
      | Inr (available, candidatePort) \<Rightarrow>
          if sint available > sint maxAvailable
          then findLoop C instance services (Some (service, candidatePort), available, rejections)
          else findLoop C instance services (best, maxAvailable, rejections))"

section \<open>buildCapacityError\<close>

abbreviation (input) "newline \<equiv> CHR 0x0A"

definition in_category :: "rejection_category \<Rightarrow> service_rejection list \<Rightarrow> service_rejection list" where
  "in_category c rejections = filter (\<lambda>r. srCategory r = c) rejections"

definition categoryCount :: "rejection_category \<Rightarrow> service_rejection list \<Rightarrow> nat" where
  "categoryCount c rejections = length (in_category c rejections)"

fun formatServices :: "string list \<Rightarrow> string" where
  "formatServices [s] = s"
| "formatServices ss = ''['' @ join '', '' ss @ '']''"

text \<open>One heading with its services; for some categories the messages follow, one on a line.\<close>

definition category_lines ::
  "service_rejection list \<Rightarrow> rejection_category \<times> string \<times> bool \<Rightarrow> string" where
  "category_lines rejections = (\<lambda>(c, heading, detailed).
     (let rs = in_category c rejections
      in if rs = [] then ''''
         else ''  - '' @ heading @ '': '' @ formatServices (map srServiceName rs) @ [newline] @
              (if detailed
               then concat (map (\<lambda>r. ''      '' @ srServiceName r @ '': '' @ srMessage r @ [newline]) rs)
               else '''')))"

definition primaryMessage :: "service_rejection list \<Rightarrow> quantity \<Rightarrow> string" where
  "primaryMessage rejections appMemoryRequest' =
     (if categoryCount RejectionAddressRef rejections > 0 then ''addressRef dependency not satisfied''
      else if categoryCount RejectionAddressClash rejections > 0
      then ''address clash with existing apps''
      else if categoryCount RejectionMemory rejections > 0
      then ''insufficient memory capacity (app requires '' @
        (if \<not> qIsZero appMemoryRequest' then qString appMemoryRequest' else ''unknown'') @ '')''
      else if categoryCount RejectionPortPool rejections > 0 then ''port pool exhausted''
      else ''other compatibility issues'')"

definition buildCapacityError :: "service_rejection list \<Rightarrow> quantity \<Rightarrow> go_error" where
  "buildCapacityError rejections appMemoryRequest' =
     (if rejections = [] then PlainError ''no services available''
      else
        (let totalServices = length rejections;
             selectorIssues = categoryCount RejectionSelector rejections +
                              categoryCount RejectionSelectorError rejections
         in if selectorIssues = totalServices
            then if categoryCount RejectionSelectorError rejections = totalServices
                 then NewTransientError DeployedConditionSelectorEvaluationError
                        (''no services match app selector: '' @ srMessage (hd rejections))
                 else NewTransientError DeployedConditionNoMatchingServiceReason
                        ''no services match app selector''
            else if categoryCount RejectionPortPool rejections = totalServices
            then PlainError ''all services have exhausted their port pools''
            else PlainError (trim_space
              (''no service available: '' @ primaryMessage rejections appMemoryRequest' @ [newline] @
               concat (map (category_lines rejections)
                 [(RejectionAddressRef, ''AddressRef issues'', True),
                  (RejectionAddressClash, ''Address clashes'', True),
                  (RejectionMemory, ''Insufficient memory'', False),
                  (RejectionPortPool, ''Port pool exhausted'', False),
                  (RejectionSelector, ''Selector mismatch'', False),
                  (RejectionNotDeployed, ''Not deployed'', False),
                  (RejectionOther, ''Other issues'', True)])))))"

definition findServiceWithCapacity ::
  "controller \<Rightarrow> broker_app \<Rightarrow> broker_service list \<Rightarrow> go_error + broker_service \<times> int32" where
  "findServiceWithCapacity C instance services =
     (if services = [] then Inl (PlainError ''no services in list'')
      else case findLoop C instance services (None, -1, []) of
        (None, maxAvailable, rejections) \<Rightarrow>
          Inl (buildCapacityError rejections (appMemoryRequest instance))
      | (Some best, maxAvailable, rejections) \<Rightarrow> Inr best)"

section \<open>resolveBrokerService\<close>

text \<open>The checks on the bound service, in order; \<open>True\<close> when the binding is kept.\<close>

definition binding_holds :: "controller \<Rightarrow> broker_app \<Rightarrow> broker_service \<Rightarrow> bool" where
  "binding_holds C instance service \<longleftrightarrow>
     \<not> isAppRejectedByService instance service \<and>
     matchesServiceSelector C instance service = Inr True \<and>
     checkAddressRefCapacity C instance service = None \<and>
     checkAddressClashOnService C instance service = None"

record resolution =
  rsBinding :: "service_binding option"   \<comment> \<open>\<open>status.Service\<close>\<close>
  rsService :: "broker_service option"    \<comment> \<open>\<open>reconciler.service\<close>\<close>
  rsError :: "go_error option"

text \<open>
  What the inspection of the binding leaves: \<open>status.Service\<close>, the service found, and whether a
  service must be assigned.
\<close>

definition inspectBinding ::
  "controller \<Rightarrow> broker_app \<Rightarrow> broker_service list \<Rightarrow>
     service_binding option \<times> broker_service option \<times> bool" where
  "inspectBinding C instance services =
     (case asService (appStatus instance) of
        None \<Rightarrow> (None, None, True)
      | Some b \<Rightarrow>
          (case List.find (\<lambda>candidate. svcNamespace candidate = sbNamespace b \<and>
                                        svcName candidate = sbName b) services of
             Some service \<Rightarrow>
               if binding_holds C instance service then (Some b, Some service, False)
               else (None, None, True)
           | None \<Rightarrow> (Some b, None, length services > 0)))"

definition resolveBrokerService :: "controller \<Rightarrow> broker_app \<Rightarrow> resolution" where
  "resolveBrokerService C instance =
     (case kSelector (cKube C) (appSelector instance) of
        Inl err \<Rightarrow> \<lparr>rsBinding = asService (appStatus instance), rsService = None,
          rsError = Some (ValidationError ValidConditionSpecSelectorError
                            (''failed to evaluate Spec.Selector: '' @ err))\<rparr>
      | Inr opts \<Rightarrow>
      (case kListServices (cKube C) opts of
         Inl err \<Rightarrow> \<lparr>rsBinding = asService (appStatus instance), rsService = None,
           rsError = Some (NewTransientErrorWithCause DeployedConditionCrudKindErrorReason
                             ''failed to list BrokerServices'' (PlainError err))\<rparr>
       | Inr services \<Rightarrow>
         (case inspectBinding C instance services of (binding, service, needsServiceAssignment) \<Rightarrow>
           if \<not> needsServiceAssignment
           then \<lparr>rsBinding = binding, rsService = service, rsError = None\<rparr>
           else if length services = 0
           then \<lparr>rsBinding = binding, rsService = None,
                  rsError = Some (NewTransientError DeployedConditionNoMatchingServiceReason
                    (''no matching services available for selector '' @ selString opts))\<rparr>
           else (case findServiceWithCapacity C instance services of
              Inl err \<Rightarrow> \<lparr>rsBinding = binding, rsService = None,
                rsError = Some (if is_transient_error (Some err) then err
                  else NewTransientError DeployedConditionNoServiceCapacityReason
                    (''no service with capacity available for selector '' @ selString opts @ '', '' @
                     error_text err))\<rparr>
            | Inr (chosen, assignedPort) \<Rightarrow>
                \<lparr>rsBinding = Some \<lparr>sbName = svcName chosen, sbNamespace = svcNamespace chosen,
                   sbSecret = BindingsSecretName (appName instance), sbAssignedPort = assignedPort\<rparr>,
                 rsService = Some chosen, rsError = None\<rparr>))))"

section \<open>What a considered service satisfies\<close>

text \<open>The other applications bound to a service.\<close>

definition others_on :: "broker_app list \<Rightarrow> broker_app \<Rightarrow> broker_service \<Rightarrow> broker_app list" where
  "others_on apps instance service =
     filter (\<lambda>a. \<not> same_app a instance \<and> serviceKey service \<in> set (app_binding_index a)) apps"

lemma listOther_index:
  "index_ok (cKube C) apps \<Longrightarrow>
     listOtherAppsForService C instance service = Inr (others_on apps instance service)"
  by (simp add: listOtherAppsForService_def index_ok_def others_on_def same_app_def conj_commute)

lemma sint_max_int64: "sint max_int64 = 2 ^ 63 - 1"
  by (simp add: max_int64_def mask_eq_exp_minus_1)

lemma available_nonneg:
  "getAvailableMemory C instance service = Inr available \<Longrightarrow> 0 \<le> sint available"
  by (auto simp: getAvailableMemory_def sint_max_int64 Let_def not_less split: if_splits sum.splits)

lemma considerService_InrD:
  assumes "considerService C instance service = Inr (available, port)"
  shows "\<exists>c. FindStatusCondition (cMeta C) (ssConditions (svcStatus service)) DeployedConditionType
               = Some c \<and> cStatus c = ConditionTrue"
    and "matchesServiceSelector C instance service = Inr True"
    and "checkAddressRefCapacity C instance service = None"
    and "checkAddressClashOnService C instance service = None"
    and "getAvailableMemory C instance service = Inr available"
    and "sint (qValue (appMemoryRequest instance)) \<le> sint available"
    and "\<exists>apps. listOtherAppsForService C instance service = Inr apps \<and>
           assignNextAvailablePort (collectUsedPorts apps (Some instance)) = Inr port"
  using assms
  by (auto simp: considerService_def not_less
      split: option.splits sum.splits bool.splits if_splits)

text \<open>The loop keeps the best accepted service and collects every rejection, in order.\<close>

definition rejections_of ::
  "controller \<Rightarrow> broker_app \<Rightarrow> broker_service list \<Rightarrow> service_rejection list" where
  "rejections_of C instance services =
     concat (map (\<lambda>s. case considerService C instance s of Inl r \<Rightarrow> [r] | Inr x \<Rightarrow> []) services)"

definition best_inv ::
  "controller \<Rightarrow> broker_app \<Rightarrow> broker_service list \<Rightarrow>
     (broker_service \<times> int32) option \<times> int64 \<times> service_rejection list \<Rightarrow> bool" where
  "best_inv C instance seen st \<longleftrightarrow>
     (case st of (best, maxAvailable, rejections) \<Rightarrow>
       rejections = rejections_of C instance seen \<and>
       (case best of
          None \<Rightarrow> maxAvailable = -1 \<and> (\<forall>s \<in> set seen. \<exists>r. considerService C instance s = Inl r)
        | Some (s, p) \<Rightarrow> s \<in> set seen \<and> considerService C instance s = Inr (maxAvailable, p) \<and>
            (\<forall>s' \<in> set seen. \<forall>a p'. considerService C instance s' = Inr (a, p') \<longrightarrow>
               sint a \<le> sint maxAvailable)))"

lemma rejections_snoc:
  "rejections_of C i (seen @ [s]) =
     rejections_of C i seen @ (case considerService C i s of Inl r \<Rightarrow> [r] | Inr x \<Rightarrow> [])"
  by (simp add: rejections_of_def)

lemma best_inv_reject:
  "best_inv C i seen (best, m, rs) \<Longrightarrow> considerService C i s = Inl r \<Longrightarrow>
     best_inv C i (seen @ [s]) (best, m, rs @ [r])"
  by (auto simp: best_inv_def rejections_snoc split: option.splits)

lemma best_inv_better:
  assumes "best_inv C i seen (best, m, rs)" "considerService C i s = Inr (a, p)" "sint m < sint a"
  shows "best_inv C i (seen @ [s]) (Some (s, p), a, rs)"
  using assms by (fastforce simp: best_inv_def rejections_snoc split: option.splits)

lemma best_inv_worse:
  assumes inv: "best_inv C i seen (best, m, rs)" and s: "considerService C i s = Inr (a, p)"
    and le: "\<not> sint m < sint a"
  shows "best_inv C i (seen @ [s]) (best, m, rs)"
proof (cases best)
  case None
  then have "m = -1" using inv by (simp add: best_inv_def)
  moreover have "0 \<le> sint a" using considerService_InrD(5) [OF s] by (rule available_nonneg)
  ultimately show ?thesis using le by simp
next
  case (Some sp)
  with inv s le show ?thesis by (auto simp: best_inv_def rejections_snoc)
qed

lemma findLoop_inv:
  "best_inv C i seen st \<Longrightarrow> best_inv C i (seen @ services) (findLoop C i services st)"
proof (induction C i services st arbitrary: seen rule: findLoop.induct)
  case (1 C i st)
  then show ?case by simp
next
  case (2 C i s services best m rs)
  show ?case
  proof (cases "considerService C i s")
    case (Inl r)
    from "2.IH"(1) [OF Inl best_inv_reject [OF "2.prems" Inl]] Inl show ?thesis by simp
  next
    case (Inr ap)
    obtain a p where ap: "ap = (a, p)" by fastforce
    note s = Inr [unfolded ap]
    show ?thesis
    proof (cases "sint m < sint a")
      case True
      from "2.IH"(2) [OF Inr ap [symmetric] True best_inv_better [OF "2.prems" s True]] s True
      show ?thesis by simp
    next
      case False
      from "2.IH"(3) [OF Inr ap [symmetric] False best_inv_worse [OF "2.prems" s False]] s False
      show ?thesis by simp
    qed
  qed
qed

lemma findLoop_start: "best_inv C i services (findLoop C i services (None, -1, []))"
  using findLoop_inv [of C i "[]" "(None, -1, [])" services]
  by (simp add: best_inv_def rejections_of_def)

lemma find_chosen:
  assumes "findServiceWithCapacity C i services = Inr (s, p)"
  shows "s \<in> set services"
    and "\<exists>a. considerService C i s = Inr (a, p) \<and>
           (\<forall>s' \<in> set services. \<forall>a' p'. considerService C i s' = Inr (a', p') \<longrightarrow> sint a' \<le> sint a)"
  using assms findLoop_start [of C i services]
  by (auto simp: findServiceWithCapacity_def best_inv_def split: if_splits prod.splits option.splits)

lemma find_failed:
  assumes "findServiceWithCapacity C i services = Inl e"
  shows "\<forall>s \<in> set services. \<exists>r. considerService C i s = Inl r"
    and "services \<noteq> [] \<Longrightarrow> e = buildCapacityError (rejections_of C i services) (appMemoryRequest i)"
  using assms findLoop_start [of C i services]
  by (auto simp: findServiceWithCapacity_def best_inv_def split: if_splits prod.splits option.splits)

lemma find_succeeds_iff:
  "(\<exists>sp. findServiceWithCapacity C i services = Inr sp) \<longleftrightarrow>
     (\<exists>s \<in> set services. \<exists>ap. considerService C i s = Inr ap)"
proof
  assume "\<exists>sp. findServiceWithCapacity C i services = Inr sp"
  then obtain s p where "findServiceWithCapacity C i services = Inr (s, p)" by auto
  from find_chosen [OF this] show "\<exists>s \<in> set services. \<exists>ap. considerService C i s = Inr ap" by blast
next
  assume "\<exists>s \<in> set services. \<exists>ap. considerService C i s = Inr ap"
  then show "\<exists>sp. findServiceWithCapacity C i services = Inr sp"
    using find_failed(1) [of C i services] by (cases "findServiceWithCapacity C i services") force+
qed

section \<open>What a resolution satisfies\<close>

lemma Unassigned_not_in_range: "UnassignedPort \<notin> port_range"
  by (simp add: UnassignedPort_def port_range_def DefaultStartPort_def)

lemma considered_port:
  assumes idx: "index_ok (cKube C) apps" and c: "considerService C i s = Inr (a, p)"
  shows "p \<in> port_range"
    and "x \<in> set apps \<Longrightarrow> \<not> same_app x i \<Longrightarrow> asService (appStatus x) = Some b \<Longrightarrow>
           binding_key b = serviceKey s \<Longrightarrow> sbAssignedPort b \<noteq> p"
proof -
  have assign: "assignNextAvailablePort (collectUsedPorts (others_on apps i s) (Some i)) = Inr p"
    using considerService_InrD(7) [OF c] unfolding listOther_index [OF idx] by blast
  from ports.assign_sound [OF this] show r: "p \<in> port_range" by blast
  assume x: "x \<in> set apps" "\<not> same_app x i" "asService (appStatus x) = Some b"
    "binding_key b = serviceKey s"
  then have "x \<in> set (others_on apps i s)" by (simp add: others_on_def app_binding_index_def)
  moreover have "\<not> collectUsedPorts (others_on apps i s) (Some i) p"
    using ports.assign_sound [OF assign] by blast
  moreover have "p \<noteq> UnassignedPort" using r Unassigned_not_in_range by metis
  ultimately show "sbAssignedPort b \<noteq> p"
    using x(2,3) unfolding collectUsedPorts_iff by blast
qed

text \<open>The binding a placement on \<open>service\<close> writes.\<close>

definition new_binding :: "broker_app \<Rightarrow> broker_service \<Rightarrow> int32 \<Rightarrow> service_binding" where
  "new_binding instance service port =
     \<lparr>sbName = svcName service, sbNamespace = svcNamespace service,
      sbSecret = BindingsSecretName (appName instance), sbAssignedPort = port\<rparr>"

lemma binding_key_new [simp]: "binding_key (new_binding i s p) = serviceKey s"
  by (simp add: new_binding_def binding_key_def serviceKey_def)

lemma sbAssignedPort_new [simp]: "sbAssignedPort (new_binding i s p) = p"
  by (simp add: new_binding_def)

text \<open>The services a resolution looks at.\<close>

definition listed_services :: "controller \<Rightarrow> broker_app \<Rightarrow> broker_service list \<Rightarrow> bool" where
  "listed_services C i services \<longleftrightarrow>
     (\<exists>sel. kSelector (cKube C) (appSelector i) = Inr sel \<and> kListServices (cKube C) sel = Inr services)"

lemma resolve_binding_cases:
  obtains (kept) "rsBinding (resolveBrokerService C i) = asService (appStatus i)"
  | (dropped) "rsBinding (resolveBrokerService C i) = None"
  | (placed) services s p where "listed_services C i services"
      "findServiceWithCapacity C i services = Inr (s, p)"
      "resolveBrokerService C i =
         \<lparr>rsBinding = Some (new_binding i s p), rsService = Some s, rsError = None\<rparr>"
proof (cases "kSelector (cKube C) (appSelector i)")
  case (Inl err)
  then show ?thesis by (intro kept) (simp add: resolveBrokerService_def)
next
  case (Inr sel)
  show ?thesis
  proof (cases "kListServices (cKube C) sel")
    case (Inl err)
    with Inr show ?thesis by (intro kept) (simp add: resolveBrokerService_def)
  next
    case services: (Inr services)
    obtain b service needs where ins: "inspectBinding C i services = (b, service, needs)"
      by (cases "inspectBinding C i services")
    have b: "b = asService (appStatus i) \<or> b = None"
      using ins by (auto simp: inspectBinding_def split: option.splits if_splits)
    have old: "rsBinding (resolveBrokerService C i) = b \<Longrightarrow> ?thesis"
      using b kept dropped by auto
    show ?thesis
    proof (cases "needs \<and> services \<noteq> []")
      case False
      with Inr services ins show ?thesis by (intro old) (auto simp: resolveBrokerService_def)
    next
      case True
      show ?thesis
      proof (cases "findServiceWithCapacity C i services")
        case (Inl e)
        with True Inr services ins show ?thesis
          by (intro old) (simp add: resolveBrokerService_def)
      next
        case sp: (Inr sp)
        obtain s p where eq: "sp = (s, p)" by fastforce
        from sp eq have f: "findServiceWithCapacity C i services = Inr (s, p)" by simp
        with True Inr services ins have "resolveBrokerService C i =
            \<lparr>rsBinding = Some (new_binding i s p), rsService = Some s, rsError = None\<rparr>"
          by (simp add: resolveBrokerService_def new_binding_def)
        moreover have "listed_services C i services"
          using Inr services by (simp add: listed_services_def)
        ultimately show ?thesis using f placed by blast
      qed
    qed
  qed
qed

lemma resolve_keeps:
  assumes "listed_services C i services" "asService (appStatus i) = Some b"
    and "List.find (\<lambda>c. svcNamespace c = sbNamespace b \<and> svcName c = sbName b) services = Some s"
    and "binding_holds C i s"
  shows "resolveBrokerService C i = \<lparr>rsBinding = Some b, rsService = Some s, rsError = None\<rparr>"
  using assms by (auto simp: listed_services_def resolveBrokerService_def inspectBinding_def)

lemma resolve_moves:
  assumes "listed_services C i services" "asService (appStatus i) = Some b"
    and "List.find (\<lambda>c. svcNamespace c = sbNamespace b \<and> svcName c = sbName b) services = Some s"
    and "\<not> binding_holds C i s" "findServiceWithCapacity C i services = Inr (s', p)"
  shows "resolveBrokerService C i =
    \<lparr>rsBinding = Some (new_binding i s' p), rsService = Some s', rsError = None\<rparr>"
proof -
  from assms(3) have "services \<noteq> []" by auto
  with assms show ?thesis
    by (auto simp: listed_services_def resolveBrokerService_def inspectBinding_def new_binding_def)
qed

lemma resolve_error_kind:
  "rsError (resolveBrokerService C i) = Some e \<Longrightarrow>
     (\<exists>m. e = ValidationError ValidConditionSpecSelectorError m) \<or> is_transient_error (Some e)"
  by (auto simp: resolveBrokerService_def NewTransientError_def NewTransientErrorWithCause_def
      split: sum.splits prod.splits if_splits)

lemma resolve_error_service: "rsError (resolveBrokerService C i) \<noteq> None \<Longrightarrow> rsService (resolveBrokerService C i) = None"
  by (auto simp: resolveBrokerService_def split: sum.splits prod.splits if_splits)

text \<open>\<open>findServiceWithCapacity\<close> does not read the list of rejected applications.\<close>

lemma consider_ignores_rejections:
  assumes "svcStatus s' = (svcStatus s)\<lparr>ssRejectedApps := rs\<rparr>"
    and "svcNamespace s' = svcNamespace s" "svcName s' = svcName s"
    and "svcMemoryLimit s' = svcMemoryLimit s"
    and "matchesServiceSelector C i s' = matchesServiceSelector C i s"
  shows "considerService C i s' = considerService C i s"
proof -
  have k: "serviceKey s' = serviceKey s" using assms by (simp add: serviceKey_def)
  have l: "listOtherAppsForService C i s' = listOtherAppsForService C i s"
    by (simp add: listOtherAppsForService_def k)
  have r: "checkAddressRef C s' = checkAddressRef C s"
    by (rule ext) (simp only: checkAddressRef_def checkRefOnOther_def k)
  have a: "checkAddressRefCapacity C i s' = checkAddressRefCapacity C i s"
    by (simp only: checkAddressRefCapacity_def r)
  have c: "checkAddressClashOnService C i s' = checkAddressClashOnService C i s"
    by (simp only: checkAddressClashOnService_def l)
  have m: "getAvailableMemory C i s' = getAvailableMemory C i s"
    by (simp only: getAvailableMemory_def l assms(4))
  have j: "reject s' = reject s"
    by (rule ext, rule ext) (simp only: reject_def assms(3))
  have d: "ssConditions (svcStatus s') = ssConditions (svcStatus s)" by (simp add: assms(1))
  show ?thesis
    by (simp only: considerService_def a c m j d l assms(5))
qed

end
