(* ===== verification/Reconciler_Loop.thy ===== *)
theory Reconciler_Loop
  imports Api_Types
begin

text \<open>
  \<open>controllers/reconciler_loop.go\<close> and \<open>pkg/resources/k8s_actions.go\<close>: the resources a controller
  wants (\<open>desired\<close>), the ones it finds (\<open>deployed\<close>), and the synchronisation that creates, updates and
  deletes the difference.

  The API server's client and the comparison library \<open>operator-utils\<close> are arguments; \<open>client_ok\<close> and
  \<open>compare_ok\<close> state what their documentation promises.
\<close>

section \<open>Third-party interfaces\<close>

text \<open>
  The error of a write: a \<open>StatusError\<close> with its status, HTTP code and reason, or any other error,
  each with its text.
\<close>

datatype client_error =
    StatusError string string int string
  | OtherError string

fun client_error_text :: "client_error \<Rightarrow> string" where
  "client_error_text (StatusError text status code reason) = text"
| "client_error_text (OtherError text) = text"

text \<open>The client, over an unspecified state \<open>'s\<close> of the API server.\<close>

record 's client =
  clCreate :: "'s \<Rightarrow> resource \<Rightarrow> client_error option \<times> 's"
  clUpdate :: "'s \<Rightarrow> resource \<Rightarrow> client_error option \<times> 's"
  clDelete :: "'s \<Rightarrow> resource \<Rightarrow> client_error option \<times> 's"
  clStored :: "'s \<Rightarrow> kind \<Rightarrow> string \<Rightarrow> resource option"

definition write_ok ::
  "('s \<Rightarrow> kind \<Rightarrow> string \<Rightarrow> resource option) \<Rightarrow> ('s \<Rightarrow> resource \<Rightarrow> client_error option \<times> 's) \<Rightarrow>
     (resource \<Rightarrow> resource option) \<Rightarrow> bool" where
  "write_ok stored op val \<longleftrightarrow>
     (\<forall>s r s'. op s r = (None, s') \<longrightarrow>
        (\<forall>k n. stored s' k n = (if k = kind_of r \<and> n = res_name r then val r else stored s k n))) \<and>
     (\<forall>s r e s'. op s r = (Some e, s') \<longrightarrow> stored s' = stored s)"

text \<open>A write that succeeds changes the one object it names; one that fails changes nothing.\<close>

definition client_ok :: "'s client \<Rightarrow> bool" where
  "client_ok CL \<longleftrightarrow> write_ok (clStored CL) (clCreate CL) Some \<and>
     write_ok (clStored CL) (clUpdate CL) Some \<and> write_ok (clStored CL) (clDelete CL) (\<lambda>r. None)"

record delta =
  Added :: "resource list"
  Updated :: "resource list"
  Removed :: "resource list"

record compare_api =
  cmpEqualPair :: "data_map \<Rightarrow> data_map \<Rightarrow> bool"   \<comment> \<open>\<open>compare.EqualPairs\<close> of one pair\<close>
  cmpEqualSpec :: "resource \<Rightarrow> resource \<Rightarrow> bool"   \<comment> \<open>\<open>equality.Semantic.DeepEqual\<close> of the specs\<close>
  cmpDeltas :: "(kind \<Rightarrow> resource \<Rightarrow> resource \<Rightarrow> bool) \<Rightarrow> (kind \<Rightarrow> resource list) \<Rightarrow>
                  resource list \<Rightarrow> kind \<Rightarrow> delta option"

text \<open>
  \<open>MapComparator.Compare\<close>: for each type, what is requested and not deployed, what is deployed and
  differs, and what is deployed and not requested, matched by name.
\<close>

definition delta_ok ::
  "(resource \<Rightarrow> resource \<Rightarrow> bool) \<Rightarrow> resource list \<Rightarrow> resource list \<Rightarrow> delta \<Rightarrow> bool" where
  "delta_ok equal deployed requested d \<longleftrightarrow>
     set (Added d) = {r \<in> set requested. res_name r \<notin> res_name ` set deployed} \<and>
     set (Updated d) = {r \<in> set requested. \<exists>x \<in> set deployed. res_name x = res_name r \<and> \<not> equal x r} \<and>
     set (Removed d) = {x \<in> set deployed. res_name x \<notin> res_name ` set requested}"

definition no_delta :: delta where
  "no_delta = \<lparr>Added = [], Updated = [], Removed = []\<rparr>"

definition compare_ok :: "compare_api \<Rightarrow> bool" where
  "compare_ok CMP \<longleftrightarrow>
     (\<forall>equal deployed requested k.
        delta_ok (equal k) (deployed k) (filter (\<lambda>r. kind_of r = k) requested)
          (case cmpDeltas CMP equal deployed requested k of Some d \<Rightarrow> d | None \<Rightarrow> no_delta))"

section \<open>k8s_actions.go\<close>

fun objectTypeString :: "kind \<Rightarrow> string" where
  "objectTypeString SecretKind = ''*v1.Secret''"
| "objectTypeString BrokerKind = ''*v1beta2.Broker''"
| "objectTypeString ServiceKind = ''*v1.Service''"
| "objectTypeString ConfigMapKind = ''*v1.ConfigMap''"

definition wrap_error :: "string \<Rightarrow> resource \<Rightarrow> string \<Rightarrow> string" where
  "wrap_error verb obj err = ''failed to '' @ verb @ '' '' @ objectTypeString (kind_of obj) @ '', '' @ err"

definition Create :: "'s client \<Rightarrow> 's \<Rightarrow> resource \<Rightarrow> string option \<times> 's" where
  "Create CL s obj =
     (case clCreate CL s obj of (err, s') \<Rightarrow>
       (map_option (\<lambda>e. wrap_error ''create new'' obj (client_error_text e)) err, s'))"

definition Delete :: "'s client \<Rightarrow> 's \<Rightarrow> resource \<Rightarrow> string option \<times> 's" where
  "Delete CL s obj =
     (case clDelete CL s obj of (err, s') \<Rightarrow>
       (map_option (\<lambda>e. wrap_error ''delete'' obj (client_error_text e)) err, s'))"

text \<open>An update the server refuses as invalid deletes the object, for the next reconcile to create it.\<close>

definition is_invalid :: "client_error \<Rightarrow> bool" where
  "is_invalid e \<longleftrightarrow> (\<exists>t. e = StatusError t ''Failure'' 422 ''Invalid'')"

definition is_conflict :: "client_error \<Rightarrow> bool" where
  "is_conflict e \<longleftrightarrow> (\<exists>t. e = StatusError t ''Failure'' 409 ''Conflict'')"

lemma is_invalid_code [code, simp]:
  "is_invalid (StatusError t st c r) \<longleftrightarrow> st = ''Failure'' \<and> c = 422 \<and> r = ''Invalid''"
  "is_invalid (OtherError t) \<longleftrightarrow> False"
  by (auto simp: is_invalid_def)

lemma is_conflict_code [code, simp]:
  "is_conflict (StatusError t st c r) \<longleftrightarrow> st = ''Failure'' \<and> c = 409 \<and> r = ''Conflict''"
  "is_conflict (OtherError t) \<longleftrightarrow> False"
  by (auto simp: is_conflict_def)

definition Update :: "'s client \<Rightarrow> 's \<Rightarrow> resource \<Rightarrow> string option \<times> 's" where
  "Update CL s obj =
     (case clUpdate CL s obj of
        (None, s') \<Rightarrow> (None, s')
      | (Some e, s') \<Rightarrow>
          (if is_invalid e
           then (case Delete CL s' obj of (err, s'') \<Rightarrow> (map_option (wrap_error ''update'' obj) err, s''))
           else if is_conflict e
           then (Some (wrap_error ''update'' obj
                   (''failed to update '' @ objectTypeString (kind_of obj) @ '' due to conflict'')), s')
           else (Some (wrap_error ''update'' obj (client_error_text e)), s')))"

section \<open>reconciler_loop.go\<close>

record loop =
  deployed :: "kind \<Rightarrow> resource list"
  desired :: "kind \<Rightarrow> (string \<times> resource) list"

definition new_loop :: loop where
  "new_loop = \<lparr>deployed = (\<lambda>k. []), desired = (\<lambda>k. [])\<rparr>"

definition InitDeployed :: "(string + (kind \<Rightarrow> resource list)) \<Rightarrow> loop \<Rightarrow> go_error option \<times> loop" where
  "InitDeployed listed L =
     (case listed of Inl err \<Rightarrow> (Some (PlainError err), L)
      | Inr objs \<Rightarrow> (None, L\<lparr>deployed := objs\<rparr>))"

definition GetFromDeployed :: "loop \<Rightarrow> kind \<Rightarrow> string \<Rightarrow> resource option" where
  "GetFromDeployed L k n = List.find (\<lambda>obj. res_name obj = n) (deployed L k)"

text \<open>A deep copy is the same value.\<close>

definition CloneOfDeployed :: "loop \<Rightarrow> kind \<Rightarrow> string \<Rightarrow> resource option" where
  "CloneOfDeployed L k n = GetFromDeployed L k n"

text \<open>\<open>secrets.NewSecret(name, nil, nil)\<close>.\<close>

definition NewSecret :: "string \<Rightarrow> string \<Rightarrow> secret" where
  "NewSecret ns n = \<lparr>secName = n, secNamespace = ns, secResourceVersion = [], secAnnotations = [],
     secData = []\<rparr>"

text \<open>The deployed secret of that name, or a new one; only secrets are under \<open>SecretKind\<close>.\<close>

definition secret_or_new :: "loop \<Rightarrow> string \<Rightarrow> string \<Rightarrow> secret" where
  "secret_or_new L ns n =
     (case CloneOfDeployed L SecretKind n of Some (SecretRes s) \<Rightarrow> s | _ \<Rightarrow> NewSecret ns n)"

definition TrackDesired :: "loop \<Rightarrow> resource \<Rightarrow> loop" where
  "TrackDesired L r =
     L\<lparr>desired := (desired L)(kind_of r := AList.update (res_name r) r (desired L (kind_of r)))\<rparr>"

definition lookup_desired :: "loop \<Rightarrow> kind \<Rightarrow> string \<Rightarrow> resource option" where
  "lookup_desired L k n = map_of (desired L k) n"

definition all_kinds :: "kind list" where
  "all_kinds = [SecretKind, BrokerKind, ServiceKind, ConfigMapKind]"

definition ToResourceList :: "loop \<Rightarrow> resource list" where
  "ToResourceList L = concat (map (\<lambda>k. map snd (desired L k)) all_kinds)"

definition CountOfRequested :: "loop \<Rightarrow> nat" where
  "CountOfRequested L = sum_list (map (\<lambda>k. length (desired L k)) all_kinds)"

definition CountOfDeployed :: "loop \<Rightarrow> nat" where
  "CountOfDeployed L = sum_list (map (\<lambda>k. length (deployed L k)) all_kinds)"

fun res_labels :: "resource \<Rightarrow> data_map" where
  "res_labels (BrokerRes b) = brkMetaLabels b"
| "res_labels _ = []"

fun res_annotations :: "resource \<Rightarrow> data_map" where
  "res_annotations (SecretRes s) = secAnnotations s"
| "res_annotations (BrokerRes b) = brkMetaAnnotations b"
| "res_annotations _ = []"

definition equalObjectMeta :: "compare_api \<Rightarrow> resource \<Rightarrow> resource \<Rightarrow> bool" where
  "equalObjectMeta CMP d r \<longleftrightarrow> cmpEqualPair CMP (res_labels d) (res_labels r) \<and>
     cmpEqualPair CMP (res_annotations d) (res_annotations r)"

definition CompareMetaAndSpec :: "compare_api \<Rightarrow> resource \<Rightarrow> resource \<Rightarrow> bool" where
  "CompareMetaAndSpec CMP d r \<longleftrightarrow> equalObjectMeta CMP d r \<and> cmpEqualSpec CMP d r"

fun res_data :: "resource \<Rightarrow> data_map" where
  "res_data (SecretRes s) = secData s"
| "res_data _ = []"

definition CompareSecret :: "compare_api \<Rightarrow> resource \<Rightarrow> resource \<Rightarrow> bool" where
  "CompareSecret CMP d r \<longleftrightarrow> equalObjectMeta CMP d r \<and> cmpEqualPair CMP (res_data d) (res_data r)"

definition CompareConfigMap :: "resource \<Rightarrow> resource \<Rightarrow> bool" where
  "CompareConfigMap d r \<longleftrightarrow> res_name d = res_name r"

definition comparator :: "compare_api \<Rightarrow> kind \<Rightarrow> resource \<Rightarrow> resource \<Rightarrow> bool" where
  "comparator CMP k =
     (case k of SecretKind \<Rightarrow> CompareSecret CMP | ConfigMapKind \<Rightarrow> CompareConfigMap
      | _ \<Rightarrow> CompareMetaAndSpec CMP)"

definition CreateRequestedResource :: "'s client \<Rightarrow> 's \<Rightarrow> resource \<Rightarrow> string option \<times> 's" where
  "CreateRequestedResource CL s r = Create CL s r"

definition UpdateRequestedResource :: "'s client \<Rightarrow> 's \<Rightarrow> resource \<Rightarrow> string option \<times> 's" where
  "UpdateRequestedResource CL s r = Update CL s r"

text \<open>The inner \<open>deleteError :=\<close> declares a new variable; the outer one, never assigned, is returned.\<close>

definition DeleteRequestedResource :: "'s client \<Rightarrow> 's \<Rightarrow> resource \<Rightarrow> string option \<times> 's" where
  "DeleteRequestedResource CL s r =
     (let deleteError = (None :: string option)
      in case Delete CL s r of (shadowed, s') \<Rightarrow> (deleteError, s'))"

text \<open>One loop over a list of the delta, the errors tracked and the loop continued.\<close>

fun apply_each ::
  "('s \<Rightarrow> 'r \<Rightarrow> string option \<times> 's) \<Rightarrow> 'r list \<Rightarrow> string list \<times> 's \<Rightarrow> string list \<times> 's" where
  "apply_each op [] st = st"
| "apply_each op (r # rs) (errs, s) =
     (case op s r of
        (None, s') \<Rightarrow> apply_each op rs (errs, s')
      | (Some e, s') \<Rightarrow> apply_each op rs (errs @ [e], s'))"

definition sync_kind :: "'s client \<Rightarrow> delta \<Rightarrow> string list \<times> 's \<Rightarrow> string list \<times> 's" where
  "sync_kind CL d st =
     apply_each (DeleteRequestedResource CL) (Removed d)
       (apply_each (UpdateRequestedResource CL) (Updated d)
         (apply_each (CreateRequestedResource CL) (Added d) st))"

fun sync_kinds ::
  "'s client \<Rightarrow> (kind \<Rightarrow> delta option) \<Rightarrow> kind list \<Rightarrow> string list \<times> 's \<Rightarrow> string list \<times> 's" where
  "sync_kinds CL deltas [] st = st"
| "sync_kinds CL deltas (k # ks) st =
     (case deltas k of None \<Rightarrow> sync_kinds CL deltas ks st
      | Some d \<Rightarrow> sync_kinds CL deltas ks (sync_kind CL d st))"

text \<open>The verb \<open>%q\<close> on a list of errors: each text quoted as a Go string literal.\<close>

definition quote_char :: "char \<Rightarrow> string" where
  "quote_char c =
     (if c = CHR 0x22 \<or> c = CHR 0x5C then [CHR 0x5C, c]
      else if c = CHR 0x0A then [CHR 0x5C, CHR ''n'']
      else if c = CHR 0x09 then [CHR 0x5C, CHR ''t'']
      else [c])"

definition quote_errors :: "string list \<Rightarrow> string" where
  "quote_errors errs =
     ''['' @ join '' '' (map (\<lambda>e. CHR 0x22 # concat (map quote_char e) @ [CHR 0x22]) errs) @ '']''"

definition SyncDesiredWithDeployed ::
  "'s client \<Rightarrow> compare_api \<Rightarrow> kind list \<Rightarrow> loop \<Rightarrow> 's \<Rightarrow> go_error option \<times> 's" where
  "SyncDesiredWithDeployed CL CMP ordered L s =
     (let deltas = cmpDeltas CMP (comparator CMP) (deployed L) (ToResourceList L)
      in case sync_kinds CL deltas ordered ([], s) of (compositeError, s') \<Rightarrow>
           (if compositeError = [] then None else Some (PlainError (quote_errors compositeError)), s'))"

section \<open>The desired resources as an interface\<close>

text \<open>What a controller relies on when it collects resources: the last one tracked under a name wins.\<close>

locale resource_tracker =
  fixes empty :: 'l
    and track :: "'l \<Rightarrow> 'r \<Rightarrow> 'l"
    and lookup :: "'l \<Rightarrow> 'k \<Rightarrow> 'n \<Rightarrow> 'r option"
    and kind :: "'r \<Rightarrow> 'k"
    and name :: "'r \<Rightarrow> 'n"
  assumes lookup_empty: "lookup empty k n = None"
    and lookup_track: "lookup (track l r) k n =
      (if k = kind r \<and> n = name r then Some r else lookup l k n)"
begin

lemma track_frame: "kind r \<noteq> k \<or> name r \<noteq> n \<Longrightarrow> lookup (track l r) k n = lookup l k n"
  by (auto simp: lookup_track)

lemma track_all:
  "lookup (foldl track l rs) k n =
     (case List.find (\<lambda>r. kind r = k \<and> name r = n) (rev rs) of
        Some r \<Rightarrow> Some r | None \<Rightarrow> lookup l k n)"
proof (induction rs rule: rev_induct)
  case Nil
  then show ?case by simp
next
  case (snoc r rs)
  then show ?case by (auto simp: lookup_track)
qed

lemma track_overwrites:
  "kind r = kind r' \<Longrightarrow> name r = name r' \<Longrightarrow>
     lookup (track (track l r) r') k n = lookup (track l r') k n"
  by (auto simp: lookup_track)

lemma track_commute:
  "kind r \<noteq> kind r' \<or> name r \<noteq> name r' \<Longrightarrow>
     lookup (track (track l r) r') k n = lookup (track (track l r') r) k n"
  by (auto simp: lookup_track)

end

interpretation loop: resource_tracker new_loop TrackDesired lookup_desired kind_of res_name
proof
  fix k n
  show "lookup_desired new_loop k n = None" by (simp add: lookup_desired_def new_loop_def)
next
  fix l r k n
  show "lookup_desired (TrackDesired l r) k n =
      (if k = kind_of r \<and> n = res_name r then Some r else lookup_desired l k n)"
    by (simp add: lookup_desired_def TrackDesired_def update_conv')
qed

lemma TrackDesired_deployed [simp]: "deployed (TrackDesired L r) = deployed L"
  by (simp add: TrackDesired_def)

lemma GetFromDeployed_track [simp]:
  "GetFromDeployed (TrackDesired L r) k n = GetFromDeployed L k n"
  "CloneOfDeployed (TrackDesired L r) k n = CloneOfDeployed L k n"
  by (simp_all add: GetFromDeployed_def CloneOfDeployed_def)

text \<open>The invariant of the desired set: every entry is under its own kind and name, once.\<close>

definition loop_wf :: "loop \<Rightarrow> bool" where
  "loop_wf L \<longleftrightarrow> (\<forall>k. distinct (map fst (desired L k)) \<and>
     (\<forall>(n, r) \<in> set (desired L k). kind_of r = k \<and> res_name r = n))"

lemma loop_wf_new [simp]: "loop_wf new_loop"
  by (simp add: loop_wf_def new_loop_def)

lemma loop_wfD: "loop_wf L \<Longrightarrow> (n, r) \<in> set (desired L k) \<Longrightarrow> kind_of r = k \<and> res_name r = n"
  unfolding loop_wf_def by blast

lemma loop_wf_distinct: "loop_wf L \<Longrightarrow> distinct (map fst (desired L k))"
  unfolding loop_wf_def by blast

lemma loop_wfI:
  "(\<And>k. distinct (map fst (desired L k))) \<Longrightarrow>
     (\<And>k n r. (n, r) \<in> set (desired L k) \<Longrightarrow> kind_of r = k \<and> res_name r = n) \<Longrightarrow> loop_wf L"
  unfolding loop_wf_def by blast

lemma loop_wf_InitDeployed: "InitDeployed listed L = (err, L') \<Longrightarrow> loop_wf L \<Longrightarrow> loop_wf L'"
  by (rule loop_wfI)
    (auto simp: InitDeployed_def dest: loop_wf_distinct loop_wfD split: sum.splits)

lemma loop_wf_track [simp]: "loop_wf L \<Longrightarrow> loop_wf (TrackDesired L r)"
proof -
  assume wf: "loop_wf L"
  show ?thesis
  proof (rule loop_wfI)
    show "distinct (map fst (desired (TrackDesired L r) k))" for k
      by (simp add: TrackDesired_def distinct_update loop_wf_distinct [OF wf])
    fix k n q
    assume q: "(n, q) \<in> set (desired (TrackDesired L r) k)"
    show "kind_of q = k \<and> res_name q = n"
    proof (cases "k = kind_of r")
      case True
      with q have "(n, q) \<in> set (AList.update (res_name r) r (desired L k))"
        by (simp add: TrackDesired_def)
      then have "map_of (AList.update (res_name r) r (desired L k)) n = Some q"
        using loop_wf_distinct [OF wf] by (intro map_of_is_SomeI) (simp_all add: distinct_update)
      with True have "(q = r \<and> n = res_name r) \<or> map_of (desired L k) n = Some q"
        by (auto simp: update_conv' split: if_splits)
      with True loop_wfD [OF wf] show ?thesis by (blast dest: map_of_SomeD)
    next
      case False
      with q loop_wfD [OF wf] show ?thesis by (simp add: TrackDesired_def)
    qed
  qed
qed

lemma requested_iff:
  assumes wf: "loop_wf L"
  shows "r \<in> set (filter (\<lambda>r. kind_of r = k) (ToResourceList L)) \<longleftrightarrow>
    kind_of r = k \<and> lookup_desired L k (res_name r) = Some r"
proof -
  have all: "k \<in> set all_kinds" for k
    by (cases k) (simp_all add: all_kinds_def)
  have "r \<in> set (ToResourceList L) \<longleftrightarrow> (res_name r, r) \<in> set (desired L (kind_of r))"
  proof
    assume "r \<in> set (ToResourceList L)"
    then obtain k n where "(n, r) \<in> set (desired L k)" by (auto simp: ToResourceList_def)
    with loop_wfD [OF wf this] show "(res_name r, r) \<in> set (desired L (kind_of r))" by simp
  next
    assume "(res_name r, r) \<in> set (desired L (kind_of r))"
    with all [of "kind_of r"] show "r \<in> set (ToResourceList L)"
      by (force simp: ToResourceList_def)
  qed
  also have "\<dots> \<longleftrightarrow> lookup_desired L (kind_of r) (res_name r) = Some r"
    using loop_wf_distinct [OF wf] by (simp add: lookup_desired_def)
  finally show ?thesis by auto
qed

lemma lookup_desired_wf:
  "loop_wf L \<Longrightarrow> lookup_desired L k n = Some r \<Longrightarrow> kind_of r = k \<and> res_name r = n"
  by (auto simp: lookup_desired_def dest: map_of_SomeD loop_wfD)

section \<open>Effects of the writes\<close>

text \<open>What \<open>op\<close>, when it reports no error, makes of the store.\<close>

definition writes ::
  "('s \<Rightarrow> kind \<Rightarrow> string \<Rightarrow> resource option) \<Rightarrow> ('s \<Rightarrow> resource \<Rightarrow> string option \<times> 's) \<Rightarrow>
     (resource \<Rightarrow> resource option) \<Rightarrow> bool" where
  "writes stored op val \<longleftrightarrow>
     (\<forall>s r s'. op s r = (None, s') \<longrightarrow>
        (\<forall>k n. stored s' k n = (if k = kind_of r \<and> n = res_name r then val r else stored s k n)))"

lemma writes_create: "client_ok CL \<Longrightarrow> writes (clStored CL) (CreateRequestedResource CL) Some"
  unfolding writes_def CreateRequestedResource_def Create_def client_ok_def write_ok_def
  by (auto split: prod.splits)

text \<open>No update is refused as invalid; no delete fails.\<close>

definition updates_valid :: "'s client \<Rightarrow> bool" where
  "updates_valid CL \<longleftrightarrow> (\<forall>s r e s'. clUpdate CL s r = (Some e, s') \<longrightarrow> \<not> is_invalid e)"

definition deletes_succeed :: "'s client \<Rightarrow> bool" where
  "deletes_succeed CL \<longleftrightarrow> (\<forall>s r. fst (clDelete CL s r) = None)"

lemma writes_update:
  assumes "client_ok CL" "updates_valid CL"
  shows "writes (clStored CL) (UpdateRequestedResource CL) Some"
proof -
  have "clUpdate CL s r = (None, s')" if u: "UpdateRequestedResource CL s r = (None, s')" for s r s'
  proof (cases "clUpdate CL s r")
    case (Pair e s1)
    then have "\<not> is_invalid x" if "e = Some x" for x
      using assms(2) that unfolding updates_valid_def by blast
    with u Pair show ?thesis
      by (auto simp: UpdateRequestedResource_def Update_def split: option.splits if_splits)
  qed
  moreover have "write_ok (clStored CL) (clUpdate CL) Some"
    using assms(1) by (simp add: client_ok_def)
  ultimately show ?thesis unfolding writes_def write_ok_def by blast
qed

lemma writes_delete:
  assumes "client_ok CL" "deletes_succeed CL"
  shows "writes (clStored CL) (DeleteRequestedResource CL) (\<lambda>r. None)"
proof -
  have "clDelete CL s r = (None, s')" if "DeleteRequestedResource CL s r = (None, s')" for s r s'
    using that assms(2) [unfolded deletes_succeed_def, rule_format, of s r]
    by (auto simp: DeleteRequestedResource_def Delete_def Let_def split: prod.splits)
  moreover have "write_ok (clStored CL) (clDelete CL) (\<lambda>r. None)"
    using assms(1) by (simp add: client_ok_def)
  ultimately show ?thesis unfolding writes_def write_ok_def by blast
qed

lemma apply_each_errors: "apply_each op rs (errs, s) = (errs', s') \<Longrightarrow> prefix errs errs'"
proof (induction rs arbitrary: errs s)
  case Nil
  then show ?case by simp
next
  case (Cons r rs)
  then show ?case
    by (auto split: prod.splits option.splits) (metis append_prefixD)
qed

lemma apply_each_stored:
  assumes "writes stored op val"
  shows "apply_each op rs (errs, s) = ([], s') \<Longrightarrow>
    stored s' k n = foldl (\<lambda>v r. if kind_of r = k \<and> res_name r = n then val r else v) (stored s k n) rs"
proof (induction rs arbitrary: errs s)
  case Nil
  then show ?case by simp
next
  case (Cons r rs)
  obtain e s1 where op: "op s r = (e, s1)" by fastforce
  show ?case
  proof (cases e)
    case None
    with op assms have "stored s1 k n = (if k = kind_of r \<and> n = res_name r then val r else stored s k n)"
      unfolding writes_def by blast
    with Cons None op show ?thesis by (simp add: eq_commute)
  next
    case (Some e')
    with Cons.prems op apply_each_errors [of op rs "errs @ [e']" s1 "[]" s'] show ?thesis by simp
  qed
qed

lemma foldl_last_write:
  "foldl (\<lambda>v r. if P r then val r else v) v rs = (case List.find P (rev rs) of Some r \<Rightarrow> val r | None \<Rightarrow> v)"
proof (induction rs rule: rev_induct)
  case Nil
  then show ?case by simp
next
  case (snoc r rs)
  then show ?case by simp
qed

lemma foldl_write:
  assumes "\<And>r r'. r \<in> set rs \<Longrightarrow> r' \<in> set rs \<Longrightarrow> P r \<Longrightarrow> P r' \<Longrightarrow> val r = val r'"
  shows "foldl (\<lambda>v r. if P r then val r else v) v rs =
    (if \<exists>r \<in> set rs. P r then val (hd (filter P rs)) else v)"
proof (cases "\<exists>r \<in> set rs. P r")
  case True
  then have "filter P rs \<noteq> []" by (simp add: filter_empty_conv)
  then have hd: "hd (filter P rs) \<in> set rs" "P (hd (filter P rs))"
    using hd_in_set [of "filter P rs"] by auto
  obtain r where r: "List.find P (rev rs) = Some r"
    using True by (cases "List.find P (rev rs)") (auto simp: find_None_iff)
  then have "r \<in> set rs" "P r" by (auto simp: find_Some_iff nth_mem rev_nth)
  then have "val r = val (hd (filter P rs))" using hd by (intro assms)
  with True r show ?thesis by (simp add: foldl_last_write)
next
  case False
  then have "List.find P (rev rs) = None" by (auto simp: find_None_iff)
  with False show ?thesis by (simp add: foldl_last_write)
qed

section \<open>Synchronisation converges\<close>

text \<open>
  What the listing of the deployed objects promises: each is under its own kind, and the store holds
  it under its name.
\<close>

definition listing_ok ::
  "(kind \<Rightarrow> string \<Rightarrow> resource option) \<Rightarrow> loop \<Rightarrow> kind \<Rightarrow> bool" where
  "listing_ok stored L k \<longleftrightarrow>
     (\<forall>x \<in> set (deployed L k). kind_of x = k \<and> stored k (res_name x) = Some x) \<and>
     (\<forall>n. n \<notin> res_name ` set (deployed L k) \<longrightarrow> stored k n = None)"

text \<open>The goal of a synchronisation, for one kind: what is desired is stored, or an equal object is.\<close>

definition in_sync ::
  "compare_api \<Rightarrow> (kind \<Rightarrow> string \<Rightarrow> resource option) \<Rightarrow> loop \<Rightarrow> kind \<Rightarrow> bool" where
  "in_sync CMP stored L k \<longleftrightarrow>
     (\<forall>n. case lookup_desired L k n of
        None \<Rightarrow> stored k n = None
      | Some r \<Rightarrow> (\<exists>x. stored k n = Some x \<and> (x = r \<or> comparator CMP k x r)))"

lemma delta_kind:
  fixes k :: kind
  assumes ok: "compare_ok CMP" and wf: "loop_wf L"
  defines "D \<equiv> (case cmpDeltas CMP (comparator CMP) (deployed L) (ToResourceList L) k of
                    Some d \<Rightarrow> d | None \<Rightarrow> no_delta)"
  shows "set (Added D) = {r. kind_of r = k \<and> lookup_desired L k (res_name r) = Some r \<and>
            res_name r \<notin> res_name ` set (deployed L k)}"
    and "set (Updated D) = {r. kind_of r = k \<and> lookup_desired L k (res_name r) = Some r \<and>
            (\<exists>x \<in> set (deployed L k). res_name x = res_name r \<and> \<not> comparator CMP k x r)}"
    and "set (Removed D) = {x \<in> set (deployed L k). lookup_desired L k (res_name x) = None}"
proof -
  let ?req = "filter (\<lambda>r. kind_of r = k) (ToResourceList L)"
  have d: "delta_ok (comparator CMP k) (deployed L k) ?req D"
    using ok unfolding compare_ok_def D_def by blast
  note req = requested_iff [OF wf, of _ k]
  have names: "n \<in> res_name ` set ?req \<longleftrightarrow> lookup_desired L k n \<noteq> None" for n
    unfolding image_iff Bex_def req using lookup_desired_wf [OF wf, of k n] by auto
  show "set (Added D) = {r. kind_of r = k \<and> lookup_desired L k (res_name r) = Some r \<and>
            res_name r \<notin> res_name ` set (deployed L k)}"
    using d req unfolding delta_ok_def by blast
  show "set (Updated D) = {r. kind_of r = k \<and> lookup_desired L k (res_name r) = Some r \<and>
            (\<exists>x \<in> set (deployed L k). res_name x = res_name r \<and> \<not> comparator CMP k x r)}"
    using d req unfolding delta_ok_def by blast
  show "set (Removed D) = {x \<in> set (deployed L k). lookup_desired L k (res_name x) = None}"
    using d names unfolding delta_ok_def by blast
qed

lemma last_write_unique:
  assumes "\<forall>r \<in> set rs. kind_of r = k \<and> lookup (res_name r) = Some r"
  shows "foldl (\<lambda>v r. if kind_of r = k \<and> res_name r = n then Some r else v) v rs =
    (case lookup n of Some r \<Rightarrow> if r \<in> set rs \<and> res_name r = n then Some r else v | None \<Rightarrow> v)"
proof (cases "\<exists>r \<in> set rs. res_name r = n")
  case True
  then obtain r where r: "r \<in> set rs" "res_name r = n" by blast
  with assms have l: "lookup n = Some r" by auto
  have u: "q = r" if "q \<in> set rs" "res_name q = n" for q
    using assms that l by auto
  have e: "\<exists>r \<in> set rs. kind_of r = k \<and> res_name r = n" using r assms by blast
  then have "filter (\<lambda>r. kind_of r = k \<and> res_name r = n) rs \<noteq> []" by (simp add: filter_empty_conv)
  then have "hd (filter (\<lambda>r. kind_of r = k \<and> res_name r = n) rs) \<in> set rs \<and>
      res_name (hd (filter (\<lambda>r. kind_of r = k \<and> res_name r = n) rs)) = n"
    using hd_in_set [of "filter (\<lambda>r. kind_of r = k \<and> res_name r = n) rs"] by auto
  then have h: "hd (filter (\<lambda>r. kind_of r = k \<and> res_name r = n) rs) = r" using u by blast
  have "foldl (\<lambda>v r. if kind_of r = k \<and> res_name r = n then Some r else v) v rs = Some r"
    by (subst foldl_write) (use u e h in auto)
  with l r show ?thesis by simp
next
  case False
  then have "foldl (\<lambda>v r. if kind_of r = k \<and> res_name r = n then Some r else v) v rs = v"
    by (subst foldl_write) auto
  with False show ?thesis by (auto split: option.split)
qed

lemma last_delete:
  "foldl (\<lambda>v r. if kind_of r = k \<and> res_name r = n then None else v) v rs =
     (if \<exists>r \<in> set rs. kind_of r = k \<and> res_name r = n then None else v)"
  by (subst foldl_write) auto

lemma sync_kind_errors:
  assumes "sync_kind CL d (errs, s) = (errs', s')"
  shows "prefix errs errs'"
proof -
  obtain e1 s1 e2 s2 where 1: "apply_each (CreateRequestedResource CL) (Added d) (errs, s) = (e1, s1)"
    and 2: "apply_each (UpdateRequestedResource CL) (Updated d) (e1, s1) = (e2, s2)"
    by fastforce
  with assms have 3: "apply_each (DeleteRequestedResource CL) (Removed d) (e2, s2) = (errs', s')"
    by (simp add: sync_kind_def)
  from 1 2 3 show ?thesis by (meson apply_each_errors prefix_order.trans)
qed

lemma sync_kind_stored:
  assumes C: "client_ok CL" and inv: "updates_valid CL"
    and del: "deletes_succeed CL"
    and run: "sync_kind CL d ([], s) = ([], s')"
  shows "clStored CL s' k n =
    foldl (\<lambda>v r. if kind_of r = k \<and> res_name r = n then None else v)
      (foldl (\<lambda>v r. if kind_of r = k \<and> res_name r = n then Some r else v)
        (foldl (\<lambda>v r. if kind_of r = k \<and> res_name r = n then Some r else v)
          (clStored CL s k n) (Added d)) (Updated d)) (Removed d)"
proof -
  obtain e1 s1 e2 s2 where 1: "apply_each (CreateRequestedResource CL) (Added d) ([], s) = (e1, s1)"
    and 2: "apply_each (UpdateRequestedResource CL) (Updated d) (e1, s1) = (e2, s2)"
    by fastforce
  with run have 3: "apply_each (DeleteRequestedResource CL) (Removed d) (e2, s2) = ([], s')"
    by (simp add: sync_kind_def)
  from apply_each_errors [OF 3] have e2: "e2 = []" by simp
  from apply_each_errors [OF 2] e2 have e1: "e1 = []" by simp
  show ?thesis
    unfolding apply_each_stored [OF writes_delete [OF C del] 3]
      apply_each_stored [OF writes_update [OF C inv] 2 [unfolded e2]]
      apply_each_stored [OF writes_create [OF C] 1 [unfolded e1]] ..
qed

text \<open>One kind, from a faithful listing to the desired state.\<close>

lemma sync_kind_in_sync:
  assumes C: "client_ok CL" and inv: "updates_valid CL"
    and del: "deletes_succeed CL"
    and cmp: "compare_ok CMP" and wf: "loop_wf L" and lst: "listing_ok (clStored CL s) L k"
    and d: "d = (case cmpDeltas CMP (comparator CMP) (deployed L) (ToResourceList L) k of
                   Some d \<Rightarrow> d | None \<Rightarrow> no_delta)"
    and run: "sync_kind CL d ([], s) = ([], s')"
  shows "in_sync CMP (clStored CL s') L k"
proof -
  note D = delta_kind [OF cmp wf, of k, folded d]
  have dep: "x \<in> set (deployed L k) \<Longrightarrow> kind_of x = k \<and> clStored CL s k (res_name x) = Some x" for x
    using lst unfolding listing_ok_def by blast
  have none: "n \<notin> res_name ` set (deployed L k) \<Longrightarrow> clStored CL s k n = None" for n
    using lst unfolding listing_ok_def by blast
  have A: "\<forall>r \<in> set (Added d). kind_of r = k \<and> lookup_desired L k (res_name r) = Some r"
    using D(1) by blast
  have U: "\<forall>r \<in> set (Updated d). kind_of r = k \<and> lookup_desired L k (res_name r) = Some r"
    using D(2) by blast
  note stored = sync_kind_stored [OF C inv del run, of k, unfolded
      last_write_unique [OF A] last_write_unique [OF U] last_delete]
  show ?thesis
    unfolding in_sync_def
  proof (rule allI)
    fix n
    show "case lookup_desired L k n of None \<Rightarrow> clStored CL s' k n = None
      | Some r \<Rightarrow> (\<exists>x. clStored CL s' k n = Some x \<and> (x = r \<or> comparator CMP k x r))"
    proof (cases "lookup_desired L k n")
      case None
      then have "clStored CL s' k n = None"
        unfolding stored using none [of n] D(3) dep
        by (cases "n \<in> res_name ` set (deployed L k)") auto
      with None show ?thesis by simp
    next
      case (Some r)
      from lookup_desired_wf [OF wf Some] have r: "kind_of r = k" "res_name r = n" by auto
      have R: "\<not> (\<exists>q \<in> set (Removed d). kind_of q = k \<and> res_name q = n)"
        using D(3) Some by auto
      show ?thesis
      proof (cases "\<exists>x \<in> set (deployed L k). res_name x = n")
        case False
        then have "r \<in> set (Added d)" using D(1) r Some by auto
        with r Some R show ?thesis unfolding stored by simp
      next
        case True
        then obtain x where x: "x \<in> set (deployed L k)" "res_name x = n" by blast
        with dep have sx: "clStored CL s k n = Some x" by blast
        have nA: "r \<notin> set (Added d)" using D(1) r x by (simp add: image_iff) metis
        show ?thesis
        proof (cases "r \<in> set (Updated d)")
          case True
          with r Some R show ?thesis unfolding stored by simp
        next
          case False
          then have "comparator CMP k x r" using D(2) r x Some by auto
          with False nA r Some R sx show ?thesis unfolding stored by simp
        qed
      qed
    qed
  qed
qed

lemma apply_each_frame:
  assumes "writes stored op val" "\<And>r. r \<in> set rs \<Longrightarrow> kind_of r \<noteq> k"
    and "apply_each op rs (errs, s) = ([], s')"
  shows "stored s' k n = stored s k n"
  unfolding apply_each_stored [OF assms(1,3)] using assms(2) by (subst foldl_write) auto

lemma sync_kind_frame:
  assumes C: "client_ok CL" and inv: "updates_valid CL"
    and del: "deletes_succeed CL"
    and kinds: "\<And>r. r \<in> set (Added d) \<union> set (Updated d) \<union> set (Removed d) \<Longrightarrow> kind_of r \<noteq> k"
    and run: "sync_kind CL d ([], s) = ([], s')"
  shows "clStored CL s' k n = clStored CL s k n"
proof -
  have f: "foldl (\<lambda>v r. if kind_of r = k \<and> res_name r = n then val r else v) v rs = v"
    if "\<forall>r \<in> set rs. kind_of r \<noteq> k" for v rs and val :: "resource \<Rightarrow> resource option"
    using that by (subst foldl_write) auto
  have "\<forall>r \<in> set (Added d). kind_of r \<noteq> k" "\<forall>r \<in> set (Updated d). kind_of r \<noteq> k"
    "\<forall>r \<in> set (Removed d). kind_of r \<noteq> k"
    using kinds by auto
  then show ?thesis unfolding sync_kind_stored [OF C inv del run] by (simp only: f)
qed

lemma sync_kinds_errors: "sync_kinds CL deltas ks (errs, s) = (errs', s') \<Longrightarrow> prefix errs errs'"
proof (induction ks arbitrary: errs s)
  case Nil
  then show ?case by simp
next
  case (Cons k ks)
  show ?case
  proof (cases "deltas k")
    case None
    with Cons show ?thesis by simp
  next
    case (Some d)
    obtain e1 s1 where 1: "sync_kind CL d (errs, s) = (e1, s1)" by fastforce
    with Cons Some have "prefix e1 errs'" by simp
    with sync_kind_errors [OF 1] show ?thesis by (rule prefix_order.trans)
  qed
qed

lemma in_sync_cong: "stored k = stored' k \<Longrightarrow> in_sync CMP stored L k = in_sync CMP stored' L k"
  by (simp only: in_sync_def)

lemma listing_ok_cong: "stored k = stored' k \<Longrightarrow> listing_ok stored L k = listing_ok stored' L k"
  by (simp only: listing_ok_def)

lemma sync_kinds_in_sync:
  assumes C: "client_ok CL" and inv: "updates_valid CL"
    and del: "deletes_succeed CL"
    and cmp: "compare_ok CMP" and wf: "loop_wf L"
    and kinds: "\<And>k x. x \<in> set (deployed L k) \<Longrightarrow> kind_of x = k"
  shows "distinct ks \<Longrightarrow> (\<And>k. k \<in> set ks \<Longrightarrow> listing_ok (clStored CL s) L k) \<Longrightarrow>
    sync_kinds CL (cmpDeltas CMP (comparator CMP) (deployed L) (ToResourceList L)) ks ([], s) = ([], s') \<Longrightarrow>
    (\<forall>k \<in> set ks. in_sync CMP (clStored CL s') L k) \<and>
    (\<forall>k n. k \<notin> set ks \<longrightarrow> clStored CL s' k n = clStored CL s k n)"
proof (induction ks arbitrary: s)
  case Nil
  then show ?case by simp
next
  case (Cons k ks)
  let ?D = "cmpDeltas CMP (comparator CMP) (deployed L) (ToResourceList L)"
  define d where "d = (case ?D k of Some d \<Rightarrow> d | None \<Rightarrow> no_delta)"
  obtain e1 s1 where k: "sync_kind CL d ([], s) = (e1, s1)" by fastforce
  have rest: "sync_kinds CL ?D ks (e1, s1) = ([], s')"
  proof (cases "?D k")
    case None
    then have "d = no_delta" by (simp add: d_def)
    with k have "e1 = []" "s1 = s" by (simp_all add: sync_kind_def no_delta_def)
    with None Cons.prems(3) show ?thesis by simp
  next
    case (Some d')
    with k Cons.prems(3) show ?thesis by (simp add: d_def)
  qed
  with sync_kinds_errors [OF this] have e1: "e1 = []" by simp
  note run = k [unfolded e1] and rest = rest [unfolded e1]
  have "in_sync CMP (clStored CL s1) L k"
    by (rule sync_kind_in_sync [OF C inv del cmp wf _ d_def run]) (simp_all add: Cons.prems(2))
  moreover have frame: "clStored CL s1 k' n = clStored CL s k' n" if "k' \<noteq> k" for k' n
  proof (rule sync_kind_frame [OF C inv del _ run])
    fix r assume "r \<in> set (Added d) \<union> set (Updated d) \<union> set (Removed d)"
    with delta_kind [OF cmp wf, of k] kinds have "kind_of r = k" unfolding d_def by blast
    with that show "kind_of r \<noteq> k'" by simp
  qed
  moreover have "(\<forall>k \<in> set ks. in_sync CMP (clStored CL s') L k) \<and>
      (\<forall>k n. k \<notin> set ks \<longrightarrow> clStored CL s' k n = clStored CL s1 k n)"
  proof (rule Cons.IH [OF _ _ rest])
    show "distinct ks" using Cons.prems(1) by simp
    fix k' assume "k' \<in> set ks"
    with Cons.prems have ne: "k' \<noteq> k" and l: "listing_ok (clStored CL s) L k'" by auto
    have "clStored CL s1 k' = clStored CL s k'" by (rule ext) (rule frame [OF ne])
    from listing_ok_cong [of "clStored CL s1" k' "clStored CL s" L, OF this] l show "listing_ok (clStored CL s1) L k'" by blast
  qed
  ultimately have all: "in_sync CMP (clStored CL s1) L k"
    "\<And>k' n. k' \<noteq> k \<Longrightarrow> clStored CL s1 k' n = clStored CL s k' n"
    "\<And>k'. k' \<in> set ks \<Longrightarrow> in_sync CMP (clStored CL s') L k'"
    "\<And>k' n. k' \<notin> set ks \<Longrightarrow> clStored CL s' k' n = clStored CL s1 k' n"
    by blast+
  have k: "k \<notin> set ks" using Cons.prems(1) by simp
  have "clStored CL s' k = clStored CL s1 k" by (rule ext) (rule all(4) [OF k])
  from in_sync_cong [of "clStored CL s'" k "clStored CL s1" CMP L, OF this] all(1)
  have "in_sync CMP (clStored CL s') L k" by blast
  moreover have "clStored CL s' k' n = clStored CL s k' n" if "k' \<notin> set (k # ks)" for k' n
  proof -
    from that have "k' \<noteq> k" "k' \<notin> set ks" by simp_all
    from all(4) [OF this(2)] all(2) [OF this(1)] show ?thesis by (rule trans)
  qed
  ultimately show ?case using all(3) unfolding list.set by blast
qed

lemma ToResourceList_track_mem:
  "loop_wf L \<Longrightarrow> r' \<in> set (ToResourceList (TrackDesired L r)) \<longleftrightarrow>
     r' = r \<or> (r' \<in> set (ToResourceList L) \<and> (kind_of r' \<noteq> kind_of r \<or> res_name r' \<noteq> res_name r))"
  using requested_iff [of L r' "kind_of r'"] requested_iff [of "TrackDesired L r" r' "kind_of r'"]
  by (auto simp: loop.lookup_track split: if_splits)

text \<open>The synchronisation as a whole.\<close>

lemma sync_converges:
  assumes "client_ok CL" "updates_valid CL" "deletes_succeed CL" "compare_ok CMP" "loop_wf L"
    and "\<forall>k. \<forall>x \<in> set (deployed L k). kind_of x = k"
    and "distinct ordered" "\<forall>k \<in> set ordered. listing_ok (clStored CL s) L k"
    and "SyncDesiredWithDeployed CL CMP ordered L s = (None, s')"
  shows "\<forall>k \<in> set ordered. in_sync CMP (clStored CL s') L k"
proof -
  let ?D = "cmpDeltas CMP (comparator CMP) (deployed L) (ToResourceList L)"
  obtain errs s1 where r: "sync_kinds CL ?D ordered ([], s) = (errs, s1)" by fastforce
  with assms(9) have "sync_kinds CL ?D ordered ([], s) = ([], s')"
    by (simp add: SyncDesiredWithDeployed_def split: if_splits)
  with sync_kinds_in_sync [of CL CMP L ordered s s'] assms show ?thesis by blast
qed

end
