(* ===== verification/App_Reconcile.thy ===== *)
theory App_Reconcile
  imports App_Placement Reconciler_Loop
begin

text \<open>
  The reconcile of a \<open>BrokerApp\<close> (\<open>controllers/brokerapp_controller.go\<close>): the binding secret, the
  conditions \<open>Valid\<close>, \<open>Deployed\<close> and \<open>Ready\<close>, the result that decides on a retry, and the watches that
  enqueue the applications a change concerns.
\<close>

section \<open>The binding secret\<close>

text \<open>
  \<open>GetClusterDomain\<close> keeps the first answer of the name server; the cached value is explicit, and
  \<open>lookup\<close> is \<open>net.LookupCNAME(apiSvc)\<close>.
\<close>

definition trim_prefix :: "string \<Rightarrow> string \<Rightarrow> string" where
  "trim_prefix s p = (if has_prefix s p then drop (length p) s else s)"

definition GetClusterDomain :: "(string \<Rightarrow> string + string) \<Rightarrow> string option \<Rightarrow> string \<times> string option" where
  "GetClusterDomain lookup cached =
     (case cached of
        Some d \<Rightarrow> (d, cached)
      | None \<Rightarrow>
          (let apiSvc = ''kubernetes.default.svc''
           in case lookup apiSvc of
                Inr cname \<Rightarrow> (let d = trim_suffix (trim_prefix (trim_prefix cname apiSvc) ''.'') ''.''
                             in (d, Some d))
              | Inl err \<Rightarrow> (''cluster.local'', Some ''cluster.local'')))"

definition binding_data :: "string \<Rightarrow> service_binding \<Rightarrow> data_map" where
  "binding_data domain b =
     (let host = sbName b @ ''.'' @ sbNamespace b @ ''.svc.'' @ domain;
          port = itoa (sint (sbAssignedPort b))
      in [(''host'', host), (''port'', port), (''uri'', ''amqps://'' @ host @ '':'' @ port)])"

definition processBindingSecret ::
  "string \<Rightarrow> broker_app \<Rightarrow> service_binding option \<Rightarrow> loop \<Rightarrow> go_error option \<times> loop" where
  "processBindingSecret domain instance binding L =
     (case binding of
        None \<Rightarrow> (None, L)
      | Some b \<Rightarrow>
          (let desired' = secret_or_new L (appNamespace instance) (BindingsSecretName (appName instance))
           in if sbAssignedPort b = UnassignedPort
              then (Some (PlainError (''no port assigned for app '' @ appName instance)), L)
              else (None, TrackDesired L (SecretRes (desired'\<lparr>secData := binding_data domain b\<rparr>)))))"

section \<open>Conditions\<close>

definition blocked_note :: "int \<Rightarrow> string" where
  "blocked_note generation =
     '' (reconcile blocked, app continues running at generation '' @ itoa generation @ '')''"

definition valid_condition ::
  "meta_api \<Rightarrow> int \<Rightarrow> go_error option \<Rightarrow> condition list \<Rightarrow> condition" where
  "valid_condition M generation err conditions =
     (let condition = \<lparr>cType = ValidConditionType, cStatus = ConditionTrue,
            cReason = ValidConditionSuccessReason, cMessage = '''', cObservedGeneration = generation\<rparr>
      in case err of
           Some (ValidationError reason message) \<Rightarrow>
             condition\<lparr>cStatus := ConditionFalse, cReason := reason,
               cMessage := message @
                 (case FindStatusCondition M conditions DeployedConditionType of
                    Some deployedCond \<Rightarrow>
                      if cStatus deployedCond = ConditionTrue \<and>
                         cObservedGeneration deployedCond < generation
                      then blocked_note (cObservedGeneration deployedCond) else ''''
                  | None \<Rightarrow> '''')\<rparr>
         | _ \<Rightarrow> condition)"

definition setValidCondition ::
  "meta_api \<Rightarrow> int \<Rightarrow> go_error option \<Rightarrow> condition list \<Rightarrow> condition list" where
  "setValidCondition M generation err conditions =
     SetStatusCondition M conditions (valid_condition M generation err conditions)"

definition deployed_condition ::
  "int \<Rightarrow> condition_status \<Rightarrow> string \<Rightarrow> string \<Rightarrow> condition" where
  "deployed_condition generation status reason message =
     \<lparr>cType = DeployedConditionType, cStatus = status, cReason = reason, cMessage = message,
      cObservedGeneration = generation\<rparr>"

text \<open>The condition of a reconcile that passed validation.\<close>

definition deployment_result ::
  "broker_app \<Rightarrow> resolution \<Rightarrow> go_error option \<Rightarrow> condition" where
  "deployment_result instance R err =
     (let mk = deployed_condition (appGeneration instance)
      in case err of
           Some (TransientError reason message cause) \<Rightarrow>
             mk ConditionFalse reason (error_text (TransientError reason message cause))
         | Some e \<Rightarrow> mk ConditionFalse DeployedConditionCrudKindErrorReason (error_text e)
         | None \<Rightarrow>
             (case (rsBinding R, rsService R) of
                (Some b, Some service) \<Rightarrow>
                  if AppIdentity instance \<in> set (ssProvisionedApps (svcStatus service))
                  then mk ConditionTrue DeployedConditionProvisionedReason
                         ''Application provisioned to broker''
                  else mk ConditionFalse DeployedConditionProvisioningPendingReason
                         ''Waiting for broker to provision''
              | (Some b, None) \<Rightarrow>
                  mk ConditionFalse DeployedConditionMatchedServiceNotFoundReason
                    (''matching service '' @ binding_key b @ '' not found'')
              | (None, _) \<Rightarrow>
                  mk ConditionFalse DeployedConditionNoMatchingServiceReason
                    ''No matching BrokerService found''))"

definition setDeployedCondition ::
  "meta_api \<Rightarrow> broker_app \<Rightarrow> resolution \<Rightarrow> go_error option \<Rightarrow> condition list \<Rightarrow> condition list" where
  "setDeployedCondition M instance R err conditions =
     (if is_validation_error err
      then (case FindStatusCondition M conditions DeployedConditionType of
              Some existing \<Rightarrow> conditions
            | None \<Rightarrow> SetStatusCondition M conditions
                (deployed_condition 0 ConditionFalse DeployedConditionValidationFailedReason
                   ''Cannot deploy due to validation failure''))
      else SetStatusCondition M conditions (deployment_result instance R err))"

definition true_at :: "meta_api \<Rightarrow> condition list \<Rightarrow> string \<Rightarrow> int \<Rightarrow> bool" where
  "true_at M conditions t generation =
     (case FindStatusCondition M conditions t of
        None \<Rightarrow> False
      | Some c \<Rightarrow> cStatus c = ConditionTrue \<and> cObservedGeneration c = generation)"

definition setReadyCondition :: "meta_api \<Rightarrow> int \<Rightarrow> condition list \<Rightarrow> condition list" where
  "setReadyCondition M generation conditions =
     SetStatusCondition M conditions
       (if true_at M conditions ValidConditionType generation \<and>
           true_at M conditions DeployedConditionType generation
        then \<lparr>cType = ReadyConditionType, cStatus = ConditionTrue, cReason = ReadyConditionReason,
              cMessage = ''BrokerApp is ready'', cObservedGeneration = generation\<rparr>
        else \<lparr>cType = ReadyConditionType, cStatus = ConditionFalse, cReason = NotReadyConditionReason,
              cMessage = ''Waiting for Valid and Deployed conditions at current generation'',
              cObservedGeneration = generation\<rparr>)"

text \<open>The status a reconcile leaves, to be written when it differs from the stored one.\<close>

definition processStatus ::
  "meta_api \<Rightarrow> broker_app \<Rightarrow> resolution \<Rightarrow> go_error option \<Rightarrow> app_status" where
  "processStatus M instance R err =
     (let conditions = setReadyCondition M (appGeneration instance)
            (setDeployedCondition M instance R err
              (setValidCondition M (appGeneration instance) err
                (asConditions (appStatus instance))))
      in \<lparr>asObservedGeneration = appGeneration instance, asConditions = conditions,
          asService = rsBinding R\<rparr>)"

section \<open>Reconcile\<close>

record 's app_env =
  aeController :: controller
  aeDomain :: string
  aeListed :: "string + (kind \<Rightarrow> resource list)"   \<comment> \<open>the owned objects of the application\<close>
  aeClient :: "'s client"
  aeCompare :: compare_api
  aeUpdateStatus :: "broker_app \<Rightarrow> string option"

record 's app_outcome =
  aoError :: "go_error option"   \<comment> \<open>the error \<open>Reconcile\<close> returns; the queue retries it\<close>
  aoStatus :: app_status         \<comment> \<open>the status computed\<close>
  aoWritten :: bool              \<comment> \<open>whether it was sent to the server\<close>
  aoServer :: 's

text \<open>The chain of steps up to the first error, with the binding and service it leaves.\<close>

definition reconcile_steps ::
  "'s app_env \<Rightarrow> broker_app \<Rightarrow> 's \<Rightarrow> go_error option \<times> resolution \<times> 's" where
  "reconcile_steps E instance s =
     (let R0 = \<lparr>rsBinding = asService (appStatus instance), rsService = None, rsError = None\<rparr>
      in case validateSpec instance of
           Some err \<Rightarrow> (Some err, R0, s)
         | None \<Rightarrow>
             (let R = resolveBrokerService (aeController E) instance
              in case rsError R of
                   Some err \<Rightarrow> (Some err, R, s)
                 | None \<Rightarrow>
                     (case InitDeployed (aeListed E) new_loop of
                        (Some err, L) \<Rightarrow> (Some err, R, s)
                      | (None, L) \<Rightarrow>
                          (case processBindingSecret (aeDomain E) instance (rsBinding R) L of
                             (Some err, L') \<Rightarrow> (Some err, R, s)
                           | (None, L') \<Rightarrow>
                               (case SyncDesiredWithDeployed (aeClient E) (aeCompare E) [SecretKind] L' s of
                                  (err, s') \<Rightarrow> (err, R, s'))))))"

definition Reconcile :: "'s app_env \<Rightarrow> broker_app \<Rightarrow> 's \<Rightarrow> 's app_outcome" where
  "Reconcile E instance s =
     (case reconcile_steps E instance s of
        (err, R, s') \<Rightarrow>
          (let status = processStatus (cMeta (aeController E)) instance R err;
               changed = (appStatus instance \<noteq> status);
               statusErr = (if changed then aeUpdateStatus E (instance\<lparr>appStatus := status\<rparr>) else None)
           in \<lparr>aoError = (case err of
                 Some e \<Rightarrow> if is_validation_error err then None else Some e
               | None \<Rightarrow> (case statusErr of
                   Some m \<Rightarrow> Some (PlainError (''Failed to update status: error '' @ m))
                 | None \<Rightarrow> None)),
               aoStatus = status, aoWritten = changed, aoServer = s'\<rparr>))"

text \<open>The entry point: an application that is gone needs nothing, another read error is retried.\<close>

definition ReconcileRequest ::
  "'s app_env \<Rightarrow> string \<Rightarrow> string \<Rightarrow> 's \<Rightarrow> go_error option \<times> 's app_outcome option" where
  "ReconcileRequest E ns n s =
     (case kGetApp (cKube (aeController E)) ns n of
        Inl (NotFound e) \<Rightarrow> (None, None)
      | Inl (ApiError e) \<Rightarrow> (Some (PlainError e), None)
      | Inr instance \<Rightarrow> (let R = Reconcile E instance s in (aoError R, Some R)))"

section \<open>Watches\<close>

type_synonym request = "string \<times> string"

definition request_of :: "broker_app \<Rightarrow> request" where
  "request_of app = (appNamespace app, appName app)"

definition enqueueAppsForService :: "kube \<Rightarrow> broker_service \<Rightarrow> request list" where
  "enqueueAppsForService K service =
     (case kListApps K (serviceKey service) of
        Inl err \<Rightarrow> []
      | Inr apps \<Rightarrow> map request_of apps)"

definition shouldPropagateWatchForReferencedApp :: "meta_api \<Rightarrow> broker_app \<Rightarrow> bool" where
  "shouldPropagateWatchForReferencedApp M app =
     (if appDeleted app then True
      else true_at M (asConditions (appStatus app)) ValidConditionType (appGeneration app) \<and>
           true_at M (asConditions (appStatus app)) DeployedConditionType (appGeneration app))"

definition enqueueAppsForReferencedApp :: "meta_api \<Rightarrow> kube \<Rightarrow> broker_app \<Rightarrow> request list" where
  "enqueueAppsForReferencedApp M K changedApp =
     (if \<not> shouldPropagateWatchForReferencedApp M changedApp then []
      else case kListAllApps K of
        Inl err \<Rightarrow> []
      | Inr apps \<Rightarrow>
          map request_of
            (filter (\<lambda>app. \<not> (appNamespace app = appNamespace changedApp \<and>
                                  appName app = appName changedApp) \<and>
                           hasAddressRefTo app (appNamespace changedApp) (appName changedApp)) apps))"

section \<open>Facts\<close>

lemma setValid_distinct [simp]:
  "meta_ok M \<Longrightarrow> distinct_types cs \<Longrightarrow> distinct_types (setValidCondition M g err cs)"
  by (simp add: setValidCondition_def)

lemma setDeployed_distinct [simp]:
  "meta_ok M \<Longrightarrow> distinct_types cs \<Longrightarrow> distinct_types (setDeployedCondition M i R err cs)"
  by (simp add: setDeployedCondition_def split: option.splits)

lemma setReady_distinct [simp]:
  "meta_ok M \<Longrightarrow> distinct_types cs \<Longrightarrow> distinct_types (setReadyCondition M g cs)"
  by (simp add: setReadyCondition_def)

lemma deployment_result_type [simp]: "cType (deployment_result i R err) = DeployedConditionType"
  by (auto simp: deployment_result_def deployed_condition_def Let_def
      split: option.splits go_error.splits prod.splits)

lemma deployment_result_generation [simp]:
  "cObservedGeneration (deployment_result i R err) = appGeneration i"
  by (auto simp: deployment_result_def deployed_condition_def Let_def
      split: option.splits go_error.splits prod.splits)

lemma deployment_result_true:
  "cStatus (deployment_result i R err) = ConditionTrue \<longleftrightarrow>
     err = None \<and> rsBinding R \<noteq> None \<and>
     (\<exists>service. rsService R = Some service \<and> AppIdentity i \<in> set (ssProvisionedApps (svcStatus service)))"
  by (auto simp: deployment_result_def deployed_condition_def Let_def
      split: option.splits go_error.splits prod.splits)

lemma is_validation_iff: "is_validation_error err \<longleftrightarrow> (\<exists>r m. err = Some (ValidationError r m))"
  by (cases err rule: is_validation_error.cases) auto

text \<open>Each helper writes the one condition it is named after.\<close>

lemma valid_condition_sel [simp]:
  "cType (valid_condition M g err cs) = ValidConditionType"
  "cObservedGeneration (valid_condition M g err cs) = g"
  "cStatus (valid_condition M g err cs) = ConditionTrue \<longleftrightarrow> \<not> is_validation_error err"
  by (auto simp: valid_condition_def is_validation_iff Let_def split: option.splits go_error.splits)

lemma setValid_find:
  assumes "meta_ok M" "distinct_types cs"
  shows "t \<noteq> ValidConditionType \<Longrightarrow>
      FindStatusCondition M (setValidCondition M g err cs) t = FindStatusCondition M cs t"
    and "FindStatusCondition M (setValidCondition M g err cs) ValidConditionType =
      Some (valid_condition M g err cs)"
  using assms by (simp_all add: setValidCondition_def meta_simps)

lemma setDeployed_find:
  assumes "meta_ok M" "distinct_types cs"
  shows "t \<noteq> DeployedConditionType \<Longrightarrow>
      FindStatusCondition M (setDeployedCondition M i R err cs) t = FindStatusCondition M cs t"
    and "\<not> is_validation_error err \<Longrightarrow>
      FindStatusCondition M (setDeployedCondition M i R err cs) DeployedConditionType =
        Some (deployment_result i R err)"
    and "is_validation_error err \<Longrightarrow>
      FindStatusCondition M (setDeployedCondition M i R err cs) DeployedConditionType =
        (case FindStatusCondition M cs DeployedConditionType of
           Some c \<Rightarrow> Some c
         | None \<Rightarrow> Some (deployed_condition 0 ConditionFalse DeployedConditionValidationFailedReason
                         ''Cannot deploy due to validation failure''))"
  using assms
  by (auto simp: setDeployedCondition_def deployed_condition_def meta_simps split: option.splits)

lemma setReady_find:
  assumes "meta_ok M" "distinct_types cs"
  shows "t \<noteq> ReadyConditionType \<Longrightarrow>
      FindStatusCondition M (setReadyCondition M g cs) t = FindStatusCondition M cs t"
    and "\<exists>c. FindStatusCondition M (setReadyCondition M g cs) ReadyConditionType = Some c \<and>
      (cStatus c = ConditionTrue \<longleftrightarrow>
         true_at M cs ValidConditionType g \<and> true_at M cs DeployedConditionType g) \<and>
      cObservedGeneration c = g"
  using assms by (auto simp: setReadyCondition_def meta_simps)

lemma processStatus_distinct:
  "meta_ok M \<Longrightarrow> distinct_types (asConditions (appStatus i)) \<Longrightarrow>
     distinct_types (asConditions (processStatus M i R err))"
  by (simp add: processStatus_def Let_def)

lemma processStatus_deployed:
  assumes "meta_ok M" "distinct_types (asConditions (appStatus i))"
  shows "FindStatusCondition M (asConditions (processStatus M i R err)) DeployedConditionType =
    (if is_validation_error err
     then case FindStatusCondition M (asConditions (appStatus i)) DeployedConditionType of
            Some c \<Rightarrow> Some c
          | None \<Rightarrow> Some (deployed_condition 0 ConditionFalse DeployedConditionValidationFailedReason
                          ''Cannot deploy due to validation failure'')
     else Some (deployment_result i R err))"
  using assms
  by (simp add: processStatus_def Let_def setReady_find(1) setDeployed_find setValid_find)

lemma processStatus_ready:
  assumes M: "meta_ok M" and d: "distinct_types (asConditions (appStatus i))"
  shows "IsStatusConditionTrue M (asConditions (processStatus M i R err)) ReadyConditionType \<longleftrightarrow>
    err = None \<and> rsBinding R \<noteq> None \<and>
    (\<exists>service. rsService R = Some service \<and> AppIdentity i \<in> set (ssProvisionedApps (svcStatus service)))"
proof -
  define cs1 where "cs1 = setValidCondition M (appGeneration i) err (asConditions (appStatus i))"
  define cs2 where "cs2 = setDeployedCondition M i R err cs1"
  have d1: "distinct_types cs1" and d2: "distinct_types cs2"
    using M d by (simp_all add: cs1_def cs2_def)
  have same: "FindStatusCondition M cs2 ValidConditionType = FindStatusCondition M cs1 ValidConditionType"
    unfolding cs2_def by (rule setDeployed_find(1) [OF M d1]) simp
  have valid: "true_at M cs2 ValidConditionType (appGeneration i) \<longleftrightarrow> \<not> is_validation_error err"
    by (simp add: true_at_def same cs1_def setValid_find(2) [OF M d])
  have deployed: "\<not> is_validation_error err \<Longrightarrow>
      true_at M cs2 DeployedConditionType (appGeneration i) \<longleftrightarrow>
      cStatus (deployment_result i R err) = ConditionTrue"
    by (simp add: true_at_def cs2_def setDeployed_find(2) [OF M d1])
  have "IsStatusConditionTrue M (asConditions (processStatus M i R err)) ReadyConditionType \<longleftrightarrow>
      true_at M cs2 ValidConditionType (appGeneration i) \<and>
      true_at M cs2 DeployedConditionType (appGeneration i)"
    using setReady_find(2) [OF M d2, of "appGeneration i"]
    by (auto simp: meta_true_find [OF M] processStatus_def Let_def cs1_def cs2_def)
  also have "\<dots> \<longleftrightarrow> \<not> is_validation_error err \<and> cStatus (deployment_result i R err) = ConditionTrue"
    using valid deployed by blast
  finally show ?thesis by (auto simp: deployment_result_true)
qed

text \<open>Which references a placement reads.\<close>

lemma hasAddressRefTo_iff:
  "hasAddressRefTo app ns n \<longleftrightarrow> (\<exists>r \<in> set (app_refs app). arAppNamespace r = ns \<and> arAppName r = n)"
  by (auto simp: hasAddressRefTo_def app_refs_def list_ex_iff)

lemma first_error_concat:
  "first_error (\<lambda>x. first_error f (g x)) xs = first_error f (concat (map g xs))"
  by (induction xs) (simp_all add: first_error_append or_else_def split: option.split)

lemma checkCapacity_refs:
  "checkAddressRefCapacity C i s = first_error (checkAddressRef C s) (app_refs i)"
  unfolding checkAddressRefCapacity_def app_refs_def first_error_concat by simp

lemma checkCapacity_local:
  assumes "\<And>ns n. hasAddressRefTo i ns n \<Longrightarrow> kGetApp (cKube C') ns n = kGetApp (cKube C) ns n"
    and "kGetService (cKube C') = kGetService (cKube C)"
  shows "checkAddressRefCapacity C' i s = checkAddressRefCapacity C i s"
  unfolding checkCapacity_refs
proof (rule first_error_cong [OF refl])
  fix r assume "r \<in> set (app_refs i)"
  then have g: "kGetApp (cKube C') (arAppNamespace r) (arAppName r) =
      kGetApp (cKube C) (arAppNamespace r) (arAppName r)"
    by (intro assms(1)) (auto simp: hasAddressRefTo_iff)
  show "checkAddressRef C' s r = checkAddressRef C s r"
    by (simp only: checkAddressRef_def checkRefOnOther_def g assms(2))
qed

text \<open>What a satisfied reference means.\<close>

lemma checkAddressRef_None:
  "checkAddressRef C s r = None \<longleftrightarrow>
     arAppNamespace r = '''' \<or> arAppName r = '''' \<or>
     (\<exists>owner b t. kGetApp (cKube C) (arAppNamespace r) (arAppName r) = Inr owner \<and>
        asService (appStatus owner) = Some b \<and> binding_key b = serviceKey s \<and>
        List.find (\<lambda>t. atAddress t = arAddress r) (appSharedAddresses owner) = Some t \<and>
        type_multicast t = ref_multicast r)"
  by (auto simp: checkAddressRef_def checkSharedAddress_def Let_def
      split: sum.splits api_error.splits option.splits)

end
