(* ===== verification/App_Cluster.thy ===== *)
theory App_Cluster
  imports App_Reconcile
begin

text \<open>
  All applications of a cluster under the application controller, as a transition system: an
  application is created, edited, deleted, or reconciled with an up-to-date index of the bindings
  (\<open>index_ok\<close>) and its new status written.  The invariant is the one \<open>port_assignment.go\<close> promises:
  no two applications bound to one service share a port.
\<close>

section \<open>Steps\<close>

definition set_status :: "broker_app \<Rightarrow> app_status \<Rightarrow> broker_app list \<Rightarrow> broker_app list" where
  "set_status i st apps = map (\<lambda>a. if same_app a i then a\<lparr>appStatus := st\<rparr> else a) apps"

inductive cluster_step :: "broker_app list \<Rightarrow> broker_app list \<Rightarrow> bool" where
  create: "\<forall>a \<in> set apps. \<not> same_app a new \<Longrightarrow> asService (appStatus new) = None \<Longrightarrow>
    cluster_step apps (new # apps)"
| edit: "same_app a a' \<Longrightarrow> appStatus a' = appStatus a \<Longrightarrow>
    cluster_step (xs @ a # ys) (xs @ a' # ys)"
| delete: "cluster_step (xs @ a # ys) (xs @ ys)"
| reconcile: "i \<in> set apps \<Longrightarrow> index_ok (cKube (aeController E)) apps \<Longrightarrow>
    cluster_step apps (set_status i (aoStatus (Reconcile (E :: unit app_env) i ())) apps)"

inductive_cases cluster_stepE: "cluster_step apps apps'"

definition reachable :: "broker_app list \<Rightarrow> bool" where
  "reachable apps \<longleftrightarrow> cluster_step\<^sup>*\<^sup>* [] apps"

section \<open>The invariant\<close>

definition bound_port :: "broker_app \<Rightarrow> (string \<times> int32) option" where
  "bound_port a = map_option (\<lambda>b. (binding_key b, sbAssignedPort b)) (asService (appStatus a))"

text \<open>One object per name, every port in the range, and no port taken twice on a service.\<close>

definition ports_exclusive :: "broker_app list \<Rightarrow> bool" where
  "ports_exclusive apps \<longleftrightarrow>
     distinct (map request_of apps) \<and>
     (\<forall>a \<in> set apps. \<forall>k p. bound_port a = Some (k, p) \<longrightarrow> p \<in> port_range) \<and>
     (\<forall>a \<in> set apps. \<forall>b \<in> set apps. bound_port a \<noteq> None \<and> bound_port a = bound_port b \<longrightarrow>
        same_app a b)"

lemma request_of_same: "request_of a = request_of b \<longleftrightarrow> same_app a b"
  by (auto simp: request_of_def same_app_def)

lemma same_app_refl [simp]: "same_app a a"
  by (simp add: same_app_def)

lemma same_app_sym: "same_app a b \<Longrightarrow> same_app b a"
  by (simp add: same_app_def)

lemma same_app_eq:
  "distinct (map request_of apps) \<Longrightarrow> a \<in> set apps \<Longrightarrow> b \<in> set apps \<Longrightarrow> same_app a b \<Longrightarrow> a = b"
  by (auto simp: distinct_map inj_on_def request_of_same)

lemma exclusiveI:
  assumes "distinct (map request_of apps)"
    and "\<And>a k p. a \<in> set apps \<Longrightarrow> bound_port a = Some (k, p) \<Longrightarrow> p \<in> port_range"
    and "\<And>a b. a \<in> set apps \<Longrightarrow> b \<in> set apps \<Longrightarrow> bound_port a \<noteq> None \<Longrightarrow>
           bound_port a = bound_port b \<Longrightarrow> same_app a b"
  shows "ports_exclusive apps"
  using assms unfolding ports_exclusive_def by blast

lemma exclusiveD:
  assumes "ports_exclusive apps"
  shows "distinct (map request_of apps)"
    and "a \<in> set apps \<Longrightarrow> bound_port a = Some (k, p) \<Longrightarrow> p \<in> port_range"
    and "a \<in> set apps \<Longrightarrow> b \<in> set apps \<Longrightarrow> bound_port a \<noteq> None \<Longrightarrow> bound_port a = bound_port b \<Longrightarrow>
           same_app a b"
  using assms unfolding ports_exclusive_def by blast+

text \<open>The binding a reconcile leaves: the old one, none, or a new one on a service that accepts the app.\<close>

lemma reconcile_binding:
  fixes E :: "'s app_env"
  obtains "asService (aoStatus (Reconcile E i s)) = asService (appStatus i)"
  | "asService (aoStatus (Reconcile E i s)) = None"
  | svc a p where "asService (aoStatus (Reconcile E i s)) = Some (new_binding i svc p)"
      "considerService (aeController E) i svc = Inr (a, p)"
proof -
  obtain err R s' where run: "reconcile_steps E i s = (err, R, s')"
    by (cases "reconcile_steps E i s")
  then have st: "asService (aoStatus (Reconcile E i s)) = rsBinding R"
    by (simp add: Reconcile_def Let_def processStatus_def)
  have R: "rsBinding R = asService (appStatus i) \<or> R = resolveBrokerService (aeController E) i"
    using run
    by (auto simp: reconcile_steps_def Let_def split: option.splits prod.splits)
  show ?thesis
  proof (cases "rsBinding R = asService (appStatus i)")
    case True
    with st that(1) show ?thesis by simp
  next
    case False
    with R have R: "R = resolveBrokerService (aeController E) i" by blast
    from resolve_binding_cases [of "aeController E" i] show ?thesis
    proof cases
      case kept
      with R False show ?thesis by simp
    next
      case dropped
      with R st that(2) show ?thesis by simp
    next
      case (placed services svc p)
      from find_chosen(2) [OF placed(2)] obtain a
        where "considerService (aeController E) i svc = Inr (a, p)" by blast
      with placed(3) R st that(3) show ?thesis by simp
    qed
  qed
qed

lemma set_status_mem:
  assumes "a' \<in> set (set_status i st apps)"
  obtains a where "a \<in> set apps" "same_app a i" "a' = a\<lparr>appStatus := st\<rparr>"
  | "a' \<in> set apps" "\<not> same_app a' i"
  using assms unfolding set_status_def by (auto split: if_splits)

lemma set_status_requests [simp]: "map request_of (set_status i st apps) = map request_of apps"
  by (simp add: set_status_def request_of_def)

lemma bound_port_status: "bound_port (a\<lparr>appStatus := st\<rparr>) =
    map_option (\<lambda>b. (binding_key b, sbAssignedPort b)) (asService st)"
  by (simp add: bound_port_def)

lemma set_status_exclusive:
  assumes inv: "ports_exclusive apps"
    and range: "\<And>k p. map_option (\<lambda>b. (binding_key b, sbAssignedPort b)) (asService st) = Some (k, p) \<Longrightarrow>
                  p \<in> port_range"
    and fresh: "\<And>b. b \<in> set apps \<Longrightarrow> \<not> same_app b i \<Longrightarrow> asService st \<noteq> None \<Longrightarrow>
                  bound_port b \<noteq> map_option (\<lambda>b. (binding_key b, sbAssignedPort b)) (asService st)"
  shows "ports_exclusive (set_status i st apps)"
proof (rule exclusiveI)
  show "distinct (map request_of (set_status i st apps))" using exclusiveD(1) [OF inv] by simp
next
  fix a k p
  assume a: "a \<in> set (set_status i st apps)" and b: "bound_port a = Some (k, p)"
  from a show "p \<in> port_range"
  proof (cases rule: set_status_mem)
    case (1 a0)
    with b show ?thesis by (intro range) (simp add: bound_port_status)
  next
    case 2
    with b exclusiveD(2) [OF inv] show ?thesis by blast
  qed
next
  fix a b
  assume a: "a \<in> set (set_status i st apps)" and b: "b \<in> set (set_status i st apps)"
    and some: "bound_port a \<noteq> None" and eq: "bound_port a = bound_port b"
  from a show "same_app a b"
  proof (cases rule: set_status_mem)
    case a1: (1 a0)
    from b show ?thesis
    proof (cases rule: set_status_mem)
      case (1 b0)
      with a1 show ?thesis by (simp add: same_app_def)
    next
      case 2
      with fresh [of b] a1 some eq show ?thesis by (auto simp: bound_port_status)
    qed
  next
    case a2: 2
    from b show ?thesis
    proof (cases rule: set_status_mem)
      case (1 b0)
      with fresh [of a] a2 some eq show ?thesis by (auto simp: bound_port_status)
    next
      case 2
      with a2 some eq exclusiveD(3) [OF inv] show ?thesis by blast
    qed
  qed
qed

lemma reconcile_exclusive:
  assumes inv: "ports_exclusive apps" and i: "i \<in> set apps"
    and idx: "index_ok (cKube (aeController E)) apps"
  shows "ports_exclusive (set_status i (aoStatus (Reconcile (E :: unit app_env) i ())) apps)"
proof -
  define st where "st = aoStatus (Reconcile E i ())"
  have "ports_exclusive (set_status i st apps)"
  proof (rule reconcile_binding [of E i "()"])
    assume "asService (aoStatus (Reconcile E i ())) = asService (appStatus i)"
    then have same: "map_option (\<lambda>b. (binding_key b, sbAssignedPort b)) (asService st) = bound_port i"
      by (simp add: bound_port_def st_def)
    show ?thesis
    proof (rule set_status_exclusive [OF inv])
      show "p \<in> port_range"
        if "map_option (\<lambda>b. (binding_key b, sbAssignedPort b)) (asService st) = Some (k, p)" for k p
        using that exclusiveD(2) [OF inv i] unfolding same by blast
      show "bound_port b \<noteq> map_option (\<lambda>b. (binding_key b, sbAssignedPort b)) (asService st)"
        if "b \<in> set apps" "\<not> same_app b i" "asService st \<noteq> None" for b
      proof
        assume eq: "bound_port b = map_option (\<lambda>b. (binding_key b, sbAssignedPort b)) (asService st)"
        from that(3) have "bound_port i \<noteq> None" unfolding same [symmetric] by auto
        with eq same have "bound_port b \<noteq> None" "bound_port b = bound_port i" by simp_all
        with exclusiveD(3) [OF inv that(1) i] that(2) show False by blast
      qed
    qed
  next
    assume "asService (aoStatus (Reconcile E i ())) = None"
    then show ?thesis by (intro set_status_exclusive [OF inv]) (auto simp: st_def)
  next
    fix svc a p
    assume st: "asService (aoStatus (Reconcile E i ())) = Some (new_binding i svc p)"
      and c: "considerService (aeController E) i svc = Inr (a, p)"
    show ?thesis
    proof (rule set_status_exclusive [OF inv])
      show "q \<in> port_range"
        if "map_option (\<lambda>b. (binding_key b, sbAssignedPort b)) (asService st) = Some (k, q)" for k q
        using that considered_port(1) [OF idx c] by (simp add: st_def st)
      show "bound_port b \<noteq> map_option (\<lambda>b. (binding_key b, sbAssignedPort b)) (asService st)"
        if "b \<in> set apps" "\<not> same_app b i" "asService st \<noteq> None" for b
        using considered_port(2) [OF idx c that(1,2)] by (auto simp: st_def st bound_port_def)
    qed
  qed
  then show ?thesis by (simp only: st_def)
qed

lemma step_exclusive: "cluster_step apps apps' \<Longrightarrow> ports_exclusive apps \<Longrightarrow> ports_exclusive apps'"
proof (induction rule: cluster_step.induct)
  case (create apps new)
  then have "bound_port new = None" by (simp add: bound_port_def)
  with create show ?case
    by (intro exclusiveI) (auto dest: exclusiveD same_app_sym simp: request_of_same [symmetric])
next
  case (edit a a' xs ys)
  have r: "request_of a' = request_of a" using edit.hyps(1) by (simp add: request_of_same same_app_sym)
  have b: "bound_port a' = bound_port a" using edit.hyps(2) by (simp add: bound_port_def)
  note D = exclusiveD [OF edit.prems]
  show ?case
  proof (rule exclusiveI)
    show "distinct (map request_of (xs @ a' # ys))" using D(1) r by simp
    show "p \<in> port_range" if "x \<in> set (xs @ a' # ys)" "bound_port x = Some (k, p)" for x k p
      using that b D(2) [of x k p] D(2) [of a k p] by auto
    have old: "\<exists>x0 \<in> set (xs @ a # ys). request_of x0 = request_of x \<and> bound_port x0 = bound_port x"
      if "x \<in> set (xs @ a' # ys)" for x
      using that r b by (cases "x = a'") auto
    show "same_app x y" if x: "x \<in> set (xs @ a' # ys)" and y: "y \<in> set (xs @ a' # ys)"
      and eq: "bound_port x \<noteq> None" "bound_port x = bound_port y" for x y
    proof -
      from old [OF x] obtain x0 where x0: "x0 \<in> set (xs @ a # ys)" "request_of x0 = request_of x"
        "bound_port x0 = bound_port x" by blast
      from old [OF y] obtain y0 where y0: "y0 \<in> set (xs @ a # ys)" "request_of y0 = request_of y"
        "bound_port y0 = bound_port y" by blast
      have "same_app x0 y0" by (rule D(3) [OF x0(1) y0(1)]) (use eq x0 y0 in simp_all)
      then have "request_of x = request_of y"
        using x0(2) y0(2) by (simp only: request_of_same [symmetric])
      then show ?thesis by (simp only: request_of_same)
    qed
  qed
next
  case (delete xs a ys)
  note D = exclusiveD [OF delete.prems]
  show ?case by (rule exclusiveI) (use D in auto)
next
  case (reconcile i apps E)
  then show ?case by (intro reconcile_exclusive)
qed

lemma reachable_exclusive: "reachable apps \<Longrightarrow> ports_exclusive apps"
  unfolding reachable_def
proof (induction rule: rtranclp_induct)
  case base
  then show ?case by (simp add: ports_exclusive_def)
next
  case (step a b)
  then show ?case by (blast intro: step_exclusive)
qed

text \<open>The applications bound to one service; the pool bounds their number.\<close>

definition bound_to :: "string \<Rightarrow> broker_app list \<Rightarrow> broker_app list" where
  "bound_to key apps = filter (\<lambda>a. key \<in> set (app_binding_index a)) apps"

lemma bound_to_port:
  "a \<in> set (bound_to key apps) \<Longrightarrow> \<exists>p. bound_port a = Some (key, p)"
  by (cases "asService (appStatus a)") (auto simp: bound_to_def app_binding_index_def bound_port_def)

lemma exclusive_bound:
  assumes inv: "ports_exclusive apps"
  shows "length (bound_to key apps) \<le> card port_range"
proof -
  define port where "port a = snd (the (bound_port a))" for a
  have sub: "set (bound_to key apps) \<subseteq> set apps" by (auto simp: bound_to_def)
  have p: "bound_port a = Some (key, port a)" if "a \<in> set (bound_to key apps)" for a
    using bound_to_port [OF that] by (auto simp: port_def)
  have "inj_on port (set (bound_to key apps))"
  proof (rule inj_onI)
    fix a b assume a: "a \<in> set (bound_to key apps)" and b: "b \<in> set (bound_to key apps)"
      and eq: "port a = port b"
    from p [OF a] p [OF b] eq have "bound_port a \<noteq> None" "bound_port a = bound_port b" by simp_all
    with exclusiveD(3) [OF inv] a b sub have "same_app a b" by blast
    with same_app_eq [OF exclusiveD(1) [OF inv]] a b sub show "a = b" by blast
  qed
  moreover have "port ` set (bound_to key apps) \<subseteq> port_range"
    using p exclusiveD(2) [OF inv] sub by fastforce
  ultimately have "card (set (bound_to key apps)) \<le> card port_range"
    using card_inj_on_le ports.finite_pool by blast
  moreover have "distinct (bound_to key apps)"
    using exclusiveD(1) [OF inv] by (auto simp: bound_to_def distinct_map)
  ultimately show ?thesis by (simp add: distinct_card)
qed

end
