(* ===== verification/Operator_Secrets.thy ===== *)
theory Operator_Secrets
  imports Resource_Names
begin

text \<open>
  The secrets of the operator (\<open>pkg/utils/common/common.go\<close>): names from the environment with a
  default and a legacy default, remembered in package variables, and the lookup that falls back from
  the preferred to the legacy name.  The environment is an argument, the package variables a record
  passed through.
\<close>

type_synonym env = "string \<Rightarrow> string option"

record op_vars =
  operatorCertSecretName :: "string option"
  operatorCASecretName :: "string option"
  prometheusCertSecretName :: "string option"
  operatorNameSpaceFromEnv :: "string option"

abbreviation "DefaultOperatorCertSecretName \<equiv> ''arkmq-org-broker-manager-cert''"
abbreviation "DefaultOperatorCASecretName \<equiv> ''arkmq-org-broker-manager-ca''"
abbreviation "LegacyOperatorCertSecretName \<equiv> ''activemq-artemis-manager-cert''"
abbreviation "LegacyOperatorCASecretName \<equiv> ''activemq-artemis-manager-ca''"
abbreviation "DefaultPrometheusCertSecretName \<equiv> ''prometheus-cert''"
abbreviation "DefaultOperandCertSecretName \<equiv> ''broker-cert''"

section \<open>Names\<close>

text \<open>The first of two environment variables that is set, or a default.\<close>

definition env_or :: "env \<Rightarrow> string \<Rightarrow> string \<Rightarrow> string \<Rightarrow> string" where
  "env_or env v legacy dflt =
     (case env v of Some name \<Rightarrow> name
      | None \<Rightarrow> (case env legacy of Some name \<Rightarrow> name | None \<Rightarrow> dflt))"

definition GetOperatorCertSecretName :: "env \<Rightarrow> op_vars \<Rightarrow> string \<times> op_vars" where
  "GetOperatorCertSecretName env vars =
     (case operatorCertSecretName vars of
        Some name \<Rightarrow> (name, vars)
      | None \<Rightarrow>
          (let name = env_or env ''ARKMQ_ORG_BROKER_MANAGER_CERT_SECRET_NAME''
                        ''ACTIVEMQ_ARTEMIS_MANAGER_CERT_SECRET_NAME'' DefaultOperatorCertSecretName
           in (name, vars\<lparr>operatorCertSecretName := Some name\<rparr>)))"

definition GetOperatorCASecretName :: "env \<Rightarrow> op_vars \<Rightarrow> string \<times> op_vars" where
  "GetOperatorCASecretName env vars =
     (case operatorCASecretName vars of
        Some name \<Rightarrow> (name, vars)
      | None \<Rightarrow>
          (let name = env_or env ''ARKMQ_ORG_BROKER_MANAGER_CA_SECRET_NAME''
                        ''ACTIVEMQ_ARTEMIS_MANAGER_CA_SECRET_NAME'' DefaultOperatorCASecretName
           in (name, vars\<lparr>operatorCASecretName := Some name\<rparr>)))"

definition fromEnv :: "env \<Rightarrow> string \<Rightarrow> string \<Rightarrow> string" where
  "fromEnv env envVarName defaultValue =
     (case env envVarName of Some valueFromEnv \<Rightarrow> valueFromEnv | None \<Rightarrow> defaultValue)"

definition GetOperatorNamespaceFromEnv :: "env \<Rightarrow> op_vars \<Rightarrow> (string + string) \<times> op_vars" where
  "GetOperatorNamespaceFromEnv env vars =
     (case operatorNameSpaceFromEnv vars of
        Some ns \<Rightarrow> (Inr ns, vars)
      | None \<Rightarrow> (case env ''OPERATOR_NAMESPACE'' of
          Some ns \<Rightarrow> (Inr ns, vars\<lparr>operatorNameSpaceFromEnv := Some ns\<rparr>)
        | None \<Rightarrow> (Inl ''failed to get operator namespace from env'', vars)))"

definition legacyOperatorCertSecretNameIfApplicable :: "env \<Rightarrow> string" where
  "legacyOperatorCertSecretNameIfApplicable env =
     (if env ''ARKMQ_ORG_BROKER_MANAGER_CERT_SECRET_NAME'' \<noteq> None then ''''
      else if env ''ACTIVEMQ_ARTEMIS_MANAGER_CERT_SECRET_NAME'' \<noteq> None then ''''
      else LegacyOperatorCertSecretName)"

definition legacyOperatorCASecretNameIfApplicable :: "env \<Rightarrow> string" where
  "legacyOperatorCASecretNameIfApplicable env =
     (if env ''ARKMQ_ORG_BROKER_MANAGER_CA_SECRET_NAME'' \<noteq> None then ''''
      else if env ''ACTIVEMQ_ARTEMIS_MANAGER_CA_SECRET_NAME'' \<noteq> None then ''''
      else LegacyOperatorCASecretName)"

section \<open>Lookups\<close>

definition GetNamespacedSecret :: "kube \<Rightarrow> string \<Rightarrow> string \<Rightarrow> string + secret" where
  "GetNamespacedSecret K secretName secretNamespace =
     (case kGetSecret K secretNamespace secretName of
        Inl err \<Rightarrow> Inl (''failed to get secret '' @ secretNamespace @ ''/'' @ secretName @ '', '' @
                        api_error_text err)
      | Inr s \<Rightarrow> Inr s)"

definition GetOperatorSecretWithFallback ::
  "kube \<Rightarrow> env \<Rightarrow> op_vars \<Rightarrow> string \<Rightarrow> string \<Rightarrow> (string + secret) \<times> op_vars" where
  "GetOperatorSecretWithFallback K env vars preferredName legacyName =
     (case GetOperatorNamespaceFromEnv env vars of
        (Inl err, vars') \<Rightarrow>
          (Inl (''failed to get secret, failed to get operator namespace, '' @ err), vars')
      | (Inr ns, vars') \<Rightarrow>
          ((case GetNamespacedSecret K preferredName ns of
              Inr s \<Rightarrow> Inr s
            | Inl err \<Rightarrow>
                if legacyName \<noteq> '''' \<and> legacyName \<noteq> preferredName
                then (case GetNamespacedSecret K legacyName ns of
                        Inr legacySecret \<Rightarrow> Inr legacySecret
                      | Inl legacyErr \<Rightarrow> Inl (''failed to get secret '' @ preferredName @
                          '' (or legacy '' @ legacyName @ ''), '' @ err))
                else Inl (''failed to get secret '' @ preferredName @ '', '' @ err)), vars'))"

definition GetOperatorCASecret :: "kube \<Rightarrow> env \<Rightarrow> op_vars \<Rightarrow> (string + secret) \<times> op_vars" where
  "GetOperatorCASecret K env vars =
     (case GetOperatorCASecretName env vars of
        (name, vars') \<Rightarrow>
          GetOperatorSecretWithFallback K env vars' name (legacyOperatorCASecretNameIfApplicable env))"

definition GetOperatorClientCertSecret :: "kube \<Rightarrow> env \<Rightarrow> op_vars \<Rightarrow> (string + secret) \<times> op_vars" where
  "GetOperatorClientCertSecret K env vars =
     (case GetOperatorCertSecretName env vars of
        (name, vars') \<Rightarrow>
          GetOperatorSecretWithFallback K env vars' name (legacyOperatorCertSecretNameIfApplicable env))"

text \<open>The loop ranges over a map: \<open>ord\<close> is the order of the keys.\<close>

definition FindFirstDotPemKey :: "range_order \<Rightarrow> secret \<Rightarrow> string + string" where
  "FindFirstDotPemKey ord s =
     (case List.find (\<lambda>key. has_suffix key ''.pem'') (ord (map fst (secData s))) of
        Some key \<Rightarrow> Inr key
      | None \<Rightarrow> Inl (''no keys with the suffix .pem found in the secret '' @ secName s))"

definition GetOperatorCASecretKey ::
  "range_order \<Rightarrow> kube \<Rightarrow> env \<Rightarrow> op_vars \<Rightarrow> secret option \<Rightarrow> (string + string) \<times> op_vars" where
  "GetOperatorCASecretKey ord K env vars bundleSecret =
     (case bundleSecret of
        Some s \<Rightarrow> (FindFirstDotPemKey ord s, vars)
      | None \<Rightarrow>
          (case GetOperatorCASecret K env vars of
             (Inl err, vars') \<Rightarrow>
               (Inl (''failed to get ca bundle secret to find ca key '' @ err), vars')
           | (Inr s, vars') \<Rightarrow> (FindFirstDotPemKey ord s, vars')))"

definition ResolveSecret :: "kube \<Rightarrow> string \<Rightarrow> string \<Rightarrow> string \<Rightarrow> api_error + secret option" where
  "ResolveSecret K crName namespace baseSecretName =
     (case kGetSecret K namespace (crName @ ''-'' @ baseSecretName) of
        Inr s \<Rightarrow> Inr (Some s)
      | Inl (ApiError e) \<Rightarrow> Inl (ApiError e)
      | Inl (NotFound e) \<Rightarrow>
          (case kGetSecret K namespace baseSecretName of
             Inr s \<Rightarrow> Inr (Some s)
           | Inl (NotFound e') \<Rightarrow> Inr None
           | Inl (ApiError e') \<Rightarrow> Inl (ApiError e')))"

definition resolved_name :: "kube \<Rightarrow> string \<Rightarrow> string \<Rightarrow> string \<Rightarrow> string" where
  "resolved_name K crName namespace baseSecretName =
     (case ResolveSecret K crName namespace baseSecretName of
        Inr (Some s) \<Rightarrow> secName s
      | _ \<Rightarrow> baseSecretName)"

definition GetOperandCertSecretName :: "kube \<Rightarrow> string \<Rightarrow> string \<Rightarrow> string" where
  "GetOperandCertSecretName K crName namespace = resolved_name K crName namespace DefaultOperandCertSecretName"

definition GetPrometheusCertSecretName ::
  "kube \<Rightarrow> env \<Rightarrow> op_vars \<Rightarrow> string \<Rightarrow> string \<Rightarrow> string \<times> op_vars" where
  "GetPrometheusCertSecretName K env vars crName namespace =
     (let base = (case prometheusCertSecretName vars of
                    Some n \<Rightarrow> n
                  | None \<Rightarrow> fromEnv env ''BASE_PROMETHEUS_CERT_SECRET_NAME'' DefaultPrometheusCertSecretName)
      in (resolved_name K crName namespace base, vars\<lparr>prometheusCertSecretName := Some base\<rparr>))"

section \<open>Facts\<close>

text \<open>The remembered variables do not change an answer: a second call answers as the first.\<close>

lemma GetOperatorCASecret_memo:
  assumes "GetOperatorCASecret K env vars = (r, vars')"
  shows "GetOperatorCASecret K env vars' = (r, vars')"
proof -
  obtain n v1 where n: "GetOperatorCASecretName env vars = (n, v1)" by fastforce
  then have v1: "operatorCASecretName v1 = Some n"
    by (auto simp: GetOperatorCASecretName_def Let_def split: option.splits)
  from assms n have f: "GetOperatorSecretWithFallback K env v1 n
      (legacyOperatorCASecretNameIfApplicable env) = (r, vars')"
    by (simp add: GetOperatorCASecret_def)
  obtain ns v2 where g: "GetOperatorNamespaceFromEnv env v1 = (ns, v2)" by fastforce
  with f have v2: "v2 = vars'"
    by (auto simp: GetOperatorSecretWithFallback_def split: sum.splits)
  have keep: "operatorCASecretName v2 = Some n" "GetOperatorNamespaceFromEnv env v2 = (ns, v2)"
    using g v1 by (auto simp: GetOperatorNamespaceFromEnv_def split: option.splits)
  then have "GetOperatorCASecretName env v2 = (n, v2)"
    by (simp add: GetOperatorCASecretName_def)
  moreover have "GetOperatorSecretWithFallback K env v2 n
      (legacyOperatorCASecretNameIfApplicable env) = (r, v2)"
    using f g keep(2) v2 by (auto simp: GetOperatorSecretWithFallback_def split: sum.splits)
  ultimately show ?thesis using v2 by (simp add: GetOperatorCASecret_def)
qed

text \<open>The legacy secret is used exactly when no name is configured and the preferred one is missing.\<close>

lemma legacy_disabled:
  "env ''ARKMQ_ORG_BROKER_MANAGER_CA_SECRET_NAME'' \<noteq> None \<Longrightarrow>
     legacyOperatorCASecretNameIfApplicable env = ''''"
  by (simp add: legacyOperatorCASecretNameIfApplicable_def)

lemma fallback_answer:
  "GetOperatorSecretWithFallback K env vars p l = (Inr s, vars') \<Longrightarrow>
     (\<exists>ns. fst (GetOperatorNamespaceFromEnv env vars) = Inr ns \<and>
        (GetNamespacedSecret K p ns = Inr s \<or>
         (\<exists>e. GetNamespacedSecret K p ns = Inl e \<and> l \<noteq> '''' \<and> l \<noteq> p \<and> GetNamespacedSecret K l ns = Inr s)))"
  by (auto simp: GetOperatorSecretWithFallback_def split: prod.splits sum.splits if_splits)

lemma pem_key_sound:
  assumes "range_ok ord" "FindFirstDotPemKey ord s = Inr key"
  shows "key \<in> fst ` set (secData s) \<and> has_suffix key ''.pem''"
proof -
  from assms(2) have "List.find (\<lambda>key. has_suffix key ''.pem'') (ord (map fst (secData s))) = Some key"
    by (auto simp: FindFirstDotPemKey_def split: option.splits)
  then have "key \<in> set (ord (map fst (secData s)))" "has_suffix key ''.pem''"
    by (auto simp: find_Some_iff)
  with assms(1) show ?thesis by simp
qed

text \<open>With one such key the order of the map does not matter.\<close>

lemma pem_key_unique:
  assumes "range_ok ord" "range_ok ord'"
    and one: "\<And>k k'. k \<in> fst ` set (secData s) \<Longrightarrow> k' \<in> fst ` set (secData s) \<Longrightarrow>
        has_suffix k ''.pem'' \<Longrightarrow> has_suffix k' ''.pem'' \<Longrightarrow> k = k'"
  shows "FindFirstDotPemKey ord s = FindFirstDotPemKey ord' s"
proof -
  let ?P = "\<lambda>key. has_suffix key ''.pem''"
  let ?f = "\<lambda>o'. List.find ?P (o' (map fst (secData s)))"
  have "?f ord = ?f ord'"
  proof (cases "\<exists>k \<in> fst ` set (secData s). ?P k")
    case True
    then have "?f ord \<noteq> None" "?f ord' \<noteq> None" using assms(1,2) by (auto simp: find_None_iff)
    then obtain k k' where k: "?f ord = Some k" "?f ord' = Some k'" by blast
    then have "k \<in> set (ord (map fst (secData s)))" "?P k" "k' \<in> set (ord' (map fst (secData s)))" "?P k'"
      by (auto simp: find_Some_iff)
    then have "k = k'" using one assms(1,2) by simp
    with k show ?thesis by simp
  next
    case False
    then have "?f ord = None" "?f ord' = None" using assms(1,2) by (auto simp: find_None_iff)
    then show ?thesis by simp
  qed
  then show ?thesis by (simp add: FindFirstDotPemKey_def)
qed

end
