(* ===== verification/Service_Provisioning.thy ===== *)
theory Service_Provisioning
  imports App_Placement Reconciler_Loop Operator_Secrets
begin

text \<open>
  The broker configuration a \<open>BrokerService\<close> renders for each application it hosts
  (\<open>controllers/brokerservice_controller.go\<close>): the address tracker, the properties of
  \<open>processCapabilities\<close> and \<open>processAcceptor\<close>, and the prometheus configuration.

  Go maps are association lists; the maps of roles, whose keys and values agree, are lists used as
  sets.  Wherever the code ranges over a map, the order is an argument.
\<close>

section \<open>The address tracker\<close>

record address_config =
  senderRoles :: "string list"
  consumerRoles :: "string list"
  subscriberRoles :: "string list"
  isOwned :: bool
  isMulticast :: bool

definition newAddressConfig :: address_config where
  "newAddressConfig =
     \<lparr>senderRoles = [], consumerRoles = [], subscriberRoles = [], isOwned = False, isMulticast = False\<rparr>"

type_synonym tracker = "(string \<times> address_config) list"

definition config_of :: "tracker \<Rightarrow> string \<Rightarrow> address_config" where
  "config_of t a = (case map_of t a of Some e \<Rightarrow> e | None \<Rightarrow> newAddressConfig)"

text \<open>A write through the pointer \<open>track\<close> returned.\<close>

definition on_config :: "string \<Rightarrow> (address_config \<Rightarrow> address_config) \<Rightarrow> tracker \<Rightarrow> tracker" where
  "on_config a f t = AList.update a (f (config_of t a)) t"

definition track :: "address_ref \<Rightarrow> tracker \<Rightarrow> tracker" where
  "track r t = on_config (arAddress r)
     (\<lambda>e. if arAppNamespace r = '''' \<and> arAppName r = '''' then e\<lparr>isOwned := True\<rparr> else e) t"

definition plain_ref :: "string \<Rightarrow> string \<Rightarrow> string \<Rightarrow> address_ref" where
  "plain_ref address ns n =
     \<lparr>arAddress = address, arAppNamespace = ns, arAppName = n, arPubSub = None, arSubscriptions = []\<rparr>"

abbreviation "fqqn_of address queueName \<equiv> address @ FQQNSeparator @ queueName"

definition trackAddressType :: "address_type \<Rightarrow> tracker \<Rightarrow> tracker" where
  "trackAddressType addrType t =
     (let t1 = track (plain_ref (atAddress addrType) '''' '''') t
      in if type_multicast addrType
         then foldl (\<lambda>t' subName.
                let fqqn = fqqn_of (atAddress addrType) subName
                in on_config fqqn (\<lambda>e. e\<lparr>isMulticast := True\<rparr>) (track (plain_ref fqqn '''' '''') t'))
              (on_config (atAddress addrType) (\<lambda>e. e\<lparr>isMulticast := True\<rparr>) t1)
              (atSubscriptions addrType)
         else t1)"

definition trackProducer :: "string \<Rightarrow> tracker \<Rightarrow> address_ref \<Rightarrow> tracker" where
  "trackProducer role t r =
     (let t1 = on_config (arAddress r) (\<lambda>e. e\<lparr>senderRoles := List.insert role (senderRoles e)\<rparr>) (track r t)
      in if ref_multicast r then on_config (arAddress r) (\<lambda>e. e\<lparr>isMulticast := True\<rparr>) t1 else t1)"

definition semantics_conflict :: "string \<Rightarrow> string" where
  "semantics_conflict address =
     ''address '' @ quoted address @
     '' is referenced with both pubSub and non pubSub semantics. This creates a conflict. Use consistent semantics for the same address''"

definition trackConsumer :: "string \<Rightarrow> address_ref \<Rightarrow> tracker \<Rightarrow> string + tracker" where
  "trackConsumer role r t =
     (let t1 = track r t
      in if \<not> ref_multicast r
         then (let t2 = on_config (arAddress r)
                     (\<lambda>e. e\<lparr>consumerRoles := List.insert role (consumerRoles e)\<rparr>) t1;
                   entry = config_of t2 (arAddress r)
               in if isOwned entry \<and> isMulticast entry then Inl (semantics_conflict (arAddress r))
                  else Inr t2)
         else (let entry = config_of t1 (arAddress r)
               in if isOwned entry \<and> length (consumerRoles entry) > 0 \<and> \<not> isMulticast entry
                  then Inl (semantics_conflict (arAddress r))
                  else Inr (foldl (\<lambda>t' queueName.
                         let fqqn = fqqn_of (arAddress r) queueName
                         in on_config fqqn
                              (\<lambda>e. e\<lparr>subscriberRoles := List.insert role (subscriberRoles e),
                                     isMulticast := True\<rparr>)
                              (track (plain_ref fqqn (arAppNamespace r) (arAppName r)) t'))
                       (on_config (arAddress r) (\<lambda>e. e\<lparr>isMulticast := True\<rparr>) t1)
                       (arSubscriptions r))))"

fun trackConsumers :: "string \<Rightarrow> address_ref list \<Rightarrow> tracker \<Rightarrow> string + tracker" where
  "trackConsumers role [] t = Inr t"
| "trackConsumers role (r # rs) t =
     (case trackConsumer role r t of Inl e \<Rightarrow> Inl e | Inr t' \<Rightarrow> trackConsumers role rs t')"

fun trackCapabilities :: "string \<Rightarrow> app_capability list \<Rightarrow> tracker \<Rightarrow> string + tracker" where
  "trackCapabilities role [] t = Inr t"
| "trackCapabilities role (c # cs) t =
     (case trackConsumers role (ConsumerOf c) (foldl (trackProducer role) t (ProducerOf c)) of
        Inl e \<Rightarrow> Inl e
      | Inr t' \<Rightarrow> trackCapabilities role cs t')"

definition trackApp :: "broker_app \<Rightarrow> string + tracker" where
  "trackApp app = trackCapabilities (AppIdentity app) (appCapabilities app)
     (foldl (\<lambda>t a. trackAddressType a t) [] (appAddresses app @ appSharedAddresses app))"

section \<open>The properties\<close>

text \<open>A line without its newline; the code's keys end with it.\<close>

definition dq :: "string \<Rightarrow> string" where
  "dq s = CHR 0x22 # s @ [CHR 0x22]"

definition role_line :: "string \<Rightarrow> string \<Rightarrow> string \<Rightarrow> string" where
  "role_line address role permission =
     ''securityRoles.'' @ dq address @ ''.'' @ dq role @ ''.'' @ permission @ ''=true''"

definition queue_config_lines :: "string \<Rightarrow> string \<Rightarrow> string \<Rightarrow> string list" where
  "queue_config_lines address queueName routing =
     [''addressConfigurations.'' @ dq address @ ''.queueConfigs.'' @ dq queueName @ ''.routingType='' @ routing,
      ''addressConfigurations.'' @ dq address @ ''.queueConfigs.'' @ dq queueName @ ''.address='' @ address]"

definition address_parts :: "string \<Rightarrow> string \<times> string \<times> bool" where
  "address_parts addressName =
     (let fqqn = split_n 2 addressName FQQNSeparator
      in if length fqqn > 1
         then (escapeForProperties (fqqn ! 0), escapeForProperties (fqqn ! 1), True)
         else (escapeForProperties addressName, escapeForProperties addressName, False))"

definition address_lines :: "string \<Rightarrow> address_config \<Rightarrow> string list" where
  "address_lines addressName addr =
     (let escapedAddressName = escapeForProperties addressName;
          (address, queueName, isFQQN) = address_parts addressName
      in (if isOwned addr
          then [''addressConfigurations.'' @ dq address @ ''.routingTypes='' @
                (if isMulticast addr then ''MULTICAST'' else ''ANYCAST'')] else []) @
         (if \<not> isMulticast addr then queue_config_lines address queueName ''ANYCAST'' else []) @
         (if isFQQN then queue_config_lines address queueName ''MULTICAST'' else []) @
         map (\<lambda>role. role_line escapedAddressName (producerRole role) ''send'') (senderRoles addr) @
         map (\<lambda>role. role_line escapedAddressName (consumerRole role) ''consume'') (consumerRoles addr) @
         map (\<lambda>role. role_line escapedAddressName (consumerRole role) ''consume'') (subscriberRoles addr))"

definition metrics_queue :: "string \<Rightarrow> address_config \<Rightarrow> string list" where
  "metrics_queue addressName addr =
     (let (address, queueName, isFQQN) = address_parts addressName
      in if \<not> isMulticast addr \<or> isFQQN then [queueName] else [])"

definition metrics_lines :: "string \<Rightarrow> string \<Rightarrow> string list" where
  "metrics_lines identity queueName =
     concat (map (\<lambda>rbacRole.
       map (\<lambda>attribute. role_line (''mops.queue.'' @ queueName @ attribute) rbacRole ''view'')
         ['''', ''.getMessageCount'', ''.getConsumerCount'', ''.getDeliveringCount'', ''.getPersistentSize''])
       [''metrics'', metricsRole identity])"

text \<open>The keys of the map \<open>props\<close>, in the order they are first written.\<close>

definition prop_keys :: "range_order \<Rightarrow> string \<Rightarrow> tracker \<Rightarrow> string list" where
  "prop_keys ord identity t =
     (let names = ord (map fst t);
          queueNamesForMetrics = remdups (concat (map (\<lambda>n. metrics_queue n (config_of t n)) names))
      in concat (map (\<lambda>n. address_lines n (config_of t n)) names) @
         concat (map (metrics_lines identity) (ord queueNamesForMetrics)))"

definition props_header :: string where
  "props_header = ''# generated by crd'' @ [newline] @ ''#'' @ [newline]"

text \<open>The header and the sorted keys; the sort is on keys that carry their newline.\<close>

definition print_props :: "string list \<Rightarrow> string" where
  "print_props ks = props_header @ concat (sorted_keys (map (\<lambda>k. k @ [newline]) ks))"

definition capabilities_key :: "broker_app \<Rightarrow> string" where
  "capabilities_key app = AppIdentityPrefixed app ''capabilities.properties''"

definition processCapabilities ::
  "range_order \<Rightarrow> broker_app \<Rightarrow> data_map \<Rightarrow> string + data_map" where
  "processCapabilities ord app data =
     (case trackApp app of
        Inl e \<Rightarrow> Inl e
      | Inr t \<Rightarrow> Inr (AList.update (capabilities_key app)
                       (print_props (prop_keys ord (AppIdentity app) t)) data))"

section \<open>processAcceptor\<close>

definition getTrustStorePath ::
  "range_order \<Rightarrow> kube \<Rightarrow> env \<Rightarrow> op_vars \<Rightarrow> string + string" where
  "getTrustStorePath ord K env vars =
     (case GetOperatorCASecret K env vars of
        (Inl err, vars') \<Rightarrow> Inl err
      | (Inr caCertSecret, vars') \<Rightarrow>
          (case fst (GetOperatorCASecretKey ord K env vars' (Some caCertSecret)) of
             Inl err \<Rightarrow> Inl err
           | Inr key \<Rightarrow> Inr (''/amq/extra/secrets/'' @ secName caCertSecret @ ''/'' @ key)))"

definition println :: "string \<Rightarrow> string" where
  "println s = s @ [newline]"

definition makePemCfgProps :: "broker_service \<Rightarrow> string" where
  "makePemCfgProps service =
     props_header @
     println (''source.key=/amq/extra/secrets/'' @ certSecretName service @ ''/tls.key'') @
     println (''source.cert=/amq/extra/secrets/'' @ certSecretName service @ ''/tls.crt'')"

definition jaasConfigRealmName :: "broker_app \<Rightarrow> string" where
  "jaasConfigRealmName app =
     (let port = (case asService (appStatus app) of
                    Some b \<Rightarrow> if sbAssignedPort b \<noteq> UnassignedPort then sbAssignedPort b
                             else DefaultStartPort
                  | None \<Rightarrow> DefaultStartPort)
      in ''port-'' @ itoa (sint port))"

definition pemCfgkey :: "broker_app \<Rightarrow> string" where
  "pemCfgkey app = UnderscoreAppIdentityPrefixed app ''tls.pemcfg''"

definition certUsersCfgKey :: "broker_app \<Rightarrow> string" where
  "certUsersCfgKey app = UnderscoreAppIdentityPrefixed app (GetCertUsersKey (jaasConfigRealmName app))"

definition certRolesCfgKey :: "broker_app \<Rightarrow> string" where
  "certRolesCfgKey app = UnderscoreAppIdentityPrefixed app (GetCertRolesKey (jaasConfigRealmName app))"

definition acceptorCfgKey :: "broker_app \<Rightarrow> string" where
  "acceptorCfgKey app = AppIdentityPrefixed app ''acceptor.properties''"

definition cert_users :: "broker_app \<Rightarrow> string" where
  "cert_users app =
     props_header @ println (AppIdentity app @ ''=/.*'' @ EscapeForRegex (appName app) @ ''.*/'')"

definition cert_role_keys :: "broker_app \<Rightarrow> string list" where
  "cert_role_keys app =
     concat (map (\<lambda>capability.
       (if length (ConsumerOf capability) > 0
        then [consumerRole (AppIdentity app) @ ''='' @ AppIdentity app] else []) @
       (if length (ProducerOf capability) > 0
        then [producerRole (AppIdentity app) @ ''='' @ AppIdentity app] else []))
       (appCapabilities app))"

definition acceptor_props :: "broker_service \<Rightarrow> string \<Rightarrow> broker_app \<Rightarrow> int32 \<Rightarrow> string" where
  "acceptor_props service trustStorePath app port =
     (let name = itoa (sint port);
          realmName = jaasConfigRealmName app;
          acceptor = ''acceptorConfigurations.'' @ dq name;
          jaas = ''jaasConfigs.'' @ dq realmName @ ''.modules.cert'';
          mount = AppPropertiesSecretName (svcName service)
      in props_header @ concat (map println
        [''# tls acceptor'',
         acceptor @ ''.factoryClassName=org.apache.activemq.artemis.core.remoting.impl.netty.NettyAcceptorFactory'',
         acceptor @ ''.params.securityDomain='' @ realmName,
         acceptor @ ''.params.host=${HOSTNAME}'',
         acceptor @ ''.params.port='' @ itoa (sint port),
         acceptor @ ''.params.sslEnabled=true'',
         acceptor @ ''.params.needClientAuth=true'',
         acceptor @ ''.params.saslMechanisms=EXTERNAL'',
         acceptor @ ''.params.keyStoreType=PEMCFG'',
         acceptor @ ''.params.keyStorePath=/amq/extra/secrets/'' @ mount @ ''/'' @ pemCfgkey app,
         acceptor @ ''.params.trustStoreType=PEMCA'',
         acceptor @ ''.params.trustStorePath='' @ trustStorePath,
         jaas @ ''.loginModuleClass=org.apache.activemq.artemis.spi.core.security.jaas.TextFileCertificateLoginModule'',
         jaas @ ''.controlFlag=required'',
         jaas @ ''.params.'' @ dq ''org.apache.activemq.jaas.textfiledn.role'' @ ''='' @ certRolesCfgKey app,
         jaas @ ''.params.'' @ dq ''org.apache.activemq.jaas.textfiledn.user'' @ ''='' @ certUsersCfgKey app,
         jaas @ ''.params.baseDir=/amq/extra/secrets/'' @ mount]))"

text \<open>
  The writes before an error stay: the data is a map the caller shares.  The result is the error and
  the data.
\<close>

definition processAcceptor ::
  "string + string \<Rightarrow> broker_service \<Rightarrow> broker_app \<Rightarrow> data_map \<Rightarrow> string option \<times> data_map" where
  "processAcceptor trustStore service app data =
     (case trustStore of
        Inl err \<Rightarrow> (Some err, data)
      | Inr trustStorePath \<Rightarrow>
          (let d1 = AList.update (pemCfgkey app) (makePemCfgProps service) data;
               d2 = AList.update (certUsersCfgKey app) (cert_users app) d1;
               d3 = AList.update (certRolesCfgKey app) (print_props (cert_role_keys app)) d2
           in case asService (appStatus app) of
                None \<Rightarrow> (Some (''app '' @ AppIdentity app @ '' has no service binding''), d3)
              | Some b \<Rightarrow>
                  if sbAssignedPort b = UnassignedPort
                  then (Some (''app '' @ AppIdentity app @ '' has no assigned port''), d3)
                  else (None, AList.update (acceptorCfgKey app)
                         (acceptor_props service trustStorePath app (sbAssignedPort b)) d3)))"

section \<open>The control-plane override secret\<close>

definition ref_queues :: "address_ref \<Rightarrow> string list" where
  "ref_queues r =
     (if \<not> ref_multicast r then [arAddress r] else map (fqqn_of (arAddress r)) (arSubscriptions r))"

text \<open>The keys of the map \<open>appQueues\<close>.\<close>

definition appQueues :: "broker_app list \<Rightarrow> string list" where
  "appQueues validApps =
     remdups (concat (map (\<lambda>app. concat (map (\<lambda>capability.
       concat (map ref_queues (ConsumerOf capability)) @ concat (map ref_queues (ProducerOf capability)))
       (appCapabilities app))) validApps))"

definition queue_object_lines :: "string \<Rightarrow> string \<Rightarrow> string list" where
  "queue_object_lines brokerName address =
     (let fqqn = split_n 2 address FQQNSeparator;
          object = (\<lambda>a routing q. ''  org.apache.activemq.artemis:broker='' @ dq brokerName @
            '',component=addresses,address='' @ dq a @ '',subcomponent=queues,routing-type='' @ dq routing @
            '',queue='' @ dq q @ '':'')
      in (if length fqqn > 1 then object (fqqn ! 0) ''multicast'' (fqqn ! 1)
          else object address ''anycast'' address) #
         [''    - MessageCount'', ''    - ConsumerCount'', ''    - DeliveringCount'', ''    - PersistentSize''])"

definition prometheus_head :: "string \<Rightarrow> string \<Rightarrow> string \<Rightarrow> string list" where
  "prometheus_head instance_name caSecret caSecretKey =
     [''httpServer:'', ''  authentication:'', ''    plugin:'',
      ''      class: org.apache.activemq.artemis.spi.core.security.jaas.HttpServerAuthenticator'',
      ''      subjectAttributeName: org.jolokia.jaasSubject'',
      ''  ssl:'', ''    mutualTLS: true'', ''    keyStore:'',
      ''      filename: /amq/extra/secrets/'' @ instance_name @ ''-props/_cert.pemcfg'',
      ''      type: PEMCFG'', ''    trustStore:'',
      ''      filename: /amq/extra/secrets/'' @ caSecret @ ''/'' @ caSecretKey,
      ''      type: PEMCA'', ''    certificate:'', ''      alias: alias'',
      ''attrNameSnakeCase: true'', ''includeObjectNames:'',
      ''  - '' @ dq ''org.apache.activemq.artemis:broker=*,component=addresses,address=*,subcomponent=queues,routing-type=*,queue=*'']"

text \<open>The group \<open>([^\"]+)\<close> between escaped quotes, in the pattern of the rule.\<close>

definition quoted_group :: string where
  "quoted_group = [CHR 0x5C, CHR 0x22] @ ''([^'' @ [CHR 0x5C, CHR 0x22] @ '']+)'' @ [CHR 0x5C, CHR 0x22]"

definition prometheus_rules :: "string list" where
  "prometheus_rules =
     [''rules:'',
      ''  - pattern: '' @ dq (''org.apache.activemq.artemis<broker='' @ quoted_group @
         '', component=addresses, address='' @ quoted_group @
         '', subcomponent=queues, routing-type='' @ quoted_group @
         '', queue='' @ quoted_group @ ''><>([^:]+):''),
      ''    name: broker_queue_$5'', ''    help: $5'', ''    attrNameSnakeCase: true'', ''    type: GAUGE'',
      ''    labels:'',
      ''      broker: '' @ dq ''$1'', ''      address: '' @ dq ''$2'',
      ''      routing_type: '' @ dq ''$3'', ''      queue: '' @ dq ''$4'']"

text \<open>The loop ranges over the map \<open>appQueues\<close> without sorting its keys.\<close>

definition generatePrometheusConfig ::
  "range_order \<Rightarrow> string \<Rightarrow> string \<Rightarrow> string \<Rightarrow> string list \<Rightarrow> string" where
  "generatePrometheusConfig ord instance_name caSecret caSecretKey queues =
     props_header @ concat (map println
       (prometheus_head instance_name caSecret caSecretKey @
        (if length queues > 0
         then ''includeObjectNameAttributes:'' # concat (map (queue_object_lines instance_name) (ord queues))
         else []) @
        prometheus_rules))"

definition ca_names :: "range_order \<Rightarrow> kube \<Rightarrow> env \<Rightarrow> op_vars \<Rightarrow> string \<times> string" where
  "ca_names ord K env vars =
     (case GetOperatorCASecret K env vars of
        (Inl err, vars') \<Rightarrow> ('''', '''')
      | (Inr caCertSecret, vars') \<Rightarrow>
          (secName caCertSecret,
           case fst (GetOperatorCASecretKey ord K env vars' (Some caCertSecret)) of
             Inr key \<Rightarrow> key | Inl err \<Rightarrow> ''''))"

abbreviation "PrometheusConfigFileName \<equiv> ''_prometheus_exporter_config''"

definition processControlPlaneOverrideSecret ::
  "range_order \<Rightarrow> kube \<Rightarrow> env \<Rightarrow> op_vars \<Rightarrow> broker_service \<Rightarrow> broker_app list \<Rightarrow> loop \<Rightarrow> loop" where
  "processControlPlaneOverrideSecret ord K env vars instance validApps L =
     (let desired' = secret_or_new L (svcNamespace instance)
            (controlPlaneOverrideSecretName (svcName instance));
          (caSecret, caSecretKey) = ca_names ord K env vars;
          prometheusConfig = generatePrometheusConfig ord (svcName instance) caSecret caSecretKey
            (appQueues validApps)
      in TrackDesired L (SecretRes (desired'\<lparr>secData :=
           AList.update PrometheusConfigFileName prometheusConfig (secData desired')\<rparr>)))"

section \<open>What the tracker holds\<close>

lemma config_of_on [simp]:
  "config_of (on_config a f t) b = (if b = a then f (config_of t a) else config_of t b)"
  by (simp add: config_of_def on_config_def update_conv')

lemma keys_on [simp]: "fst ` set (on_config a f t) = insert a (fst ` set t)"
  by (simp add: on_config_def dom_update)

lemma plain_ref_sel [simp]:
  "arAddress (plain_ref a ns n) = a" "arAppNamespace (plain_ref a ns n) = ns"
  "arAppName (plain_ref a ns n) = n"
  by (simp_all add: plain_ref_def)

text \<open>One role, and the addresses it is recorded for.\<close>

definition roles_are :: "tracker \<Rightarrow> string \<Rightarrow> string set \<Rightarrow> string set \<Rightarrow> string set \<Rightarrow> bool" where
  "roles_are t role S C Q \<longleftrightarrow>
     (\<forall>a. senderRoles (config_of t a) = (if a \<in> S then [role] else []) \<and>
          consumerRoles (config_of t a) = (if a \<in> C then [role] else []) \<and>
          subscriberRoles (config_of t a) = (if a \<in> Q then [role] else []))"

lemma roles_track [simp]:
  "senderRoles (config_of (track r t) a) = senderRoles (config_of t a)"
  "consumerRoles (config_of (track r t) a) = consumerRoles (config_of t a)"
  "subscriberRoles (config_of (track r t) a) = subscriberRoles (config_of t a)"
  by (auto simp: track_def)

lemma roles_are_track [simp]: "roles_are (track r t) role S C Q = roles_are t role S C Q"
  by (simp add: roles_are_def)

lemma roles_are_multicast [simp]:
  "roles_are (on_config a (\<lambda>e. e\<lparr>isMulticast := True\<rparr>) t) role S C Q = roles_are t role S C Q"
proof -
  have "senderRoles (config_of (on_config a (\<lambda>e. e\<lparr>isMulticast := True\<rparr>) t) b) = senderRoles (config_of t b)"
    "consumerRoles (config_of (on_config a (\<lambda>e. e\<lparr>isMulticast := True\<rparr>) t) b) = consumerRoles (config_of t b)"
    "subscriberRoles (config_of (on_config a (\<lambda>e. e\<lparr>isMulticast := True\<rparr>) t) b) = subscriberRoles (config_of t b)"
    for b by auto
  then show ?thesis by (simp only: roles_are_def)
qed

lemma roles_are_type: "roles_are t role S C Q \<Longrightarrow> roles_are (trackAddressType at t) role S C Q"
proof -
  assume "roles_are t role S C Q"
  moreover have "roles_are (foldl (\<lambda>t' subName. let fqqn = fqqn_of (atAddress at) subName
      in on_config fqqn (\<lambda>e. e\<lparr>isMulticast := True\<rparr>) (track (plain_ref fqqn '''' '''') t')) t0 subs) role S C Q
    = roles_are t0 role S C Q" for t0 subs
    by (induction subs arbitrary: t0) (simp_all add: Let_def)
  ultimately show ?thesis by (simp add: trackAddressType_def Let_def)
qed

lemma roles_are_types:
  "roles_are t role S C Q \<Longrightarrow> roles_are (foldl (\<lambda>t a. trackAddressType a t) t as) role S C Q"
  by (induction as arbitrary: t) (simp_all add: roles_are_type)

lemma roles_are_sender:
  "roles_are t role S C Q \<Longrightarrow>
     roles_are (on_config a (\<lambda>e. e\<lparr>senderRoles := List.insert role (senderRoles e)\<rparr>) t) role (insert a S) C Q"
  by (auto simp: roles_are_def)

lemma roles_are_consumer:
  "roles_are t role S C Q \<Longrightarrow>
     roles_are (on_config a (\<lambda>e. e\<lparr>consumerRoles := List.insert role (consumerRoles e)\<rparr>) t) role S (insert a C) Q"
  by (auto simp: roles_are_def)

lemma roles_are_subscriber:
  "roles_are t role S C Q \<Longrightarrow>
     roles_are (on_config a (\<lambda>e. e\<lparr>subscriberRoles := List.insert role (subscriberRoles e),
       isMulticast := True\<rparr>) t) role S C (insert a Q)"
  by (auto simp: roles_are_def)

lemma roles_are_producer:
  "roles_are t role S C Q \<Longrightarrow> roles_are (trackProducer role t r) role (insert (arAddress r) S) C Q"
  by (simp add: trackProducer_def Let_def roles_are_sender)

lemma roles_are_producers:
  "roles_are t role S C Q \<Longrightarrow>
     roles_are (foldl (trackProducer role) t rs) role (S \<union> arAddress ` set rs) C Q"
proof (induction rs arbitrary: t S)
  case Nil
  then show ?case by simp
next
  case (Cons r rs)
  from Cons.IH [OF roles_are_producer [OF Cons.prems]] show ?case by simp
qed

text \<open>The addresses a consumer reads: the address itself, or its subscription queues.\<close>

definition consumed :: "address_ref \<Rightarrow> string set" where
  "consumed r = (if ref_multicast r then {} else {arAddress r})"

definition subscribed :: "address_ref \<Rightarrow> string set" where
  "subscribed r = (if ref_multicast r then fqqn_of (arAddress r) ` set (arSubscriptions r) else {})"

lemma roles_are_subscriptions:
  "roles_are t role S C Q \<Longrightarrow>
     roles_are (foldl (\<lambda>t' queueName. let fqqn = fqqn_of a queueName
       in on_config fqqn (\<lambda>e. e\<lparr>subscriberRoles := List.insert role (subscriberRoles e), isMulticast := True\<rparr>)
            (track (plain_ref fqqn ns n) t')) t qs) role S C (Q \<union> fqqn_of a ` set qs)"
proof (induction qs arbitrary: t Q)
  case Nil
  then show ?case by simp
next
  case (Cons q qs)
  let ?t = "on_config (fqqn_of a q) (\<lambda>e. e\<lparr>subscriberRoles := List.insert role (subscriberRoles e),
       isMulticast := True\<rparr>) (track (plain_ref (fqqn_of a q) ns n) t)"
  have "roles_are ?t role S C (insert (fqqn_of a q) Q)"
    using Cons.prems by (intro roles_are_subscriber) simp
  from Cons.IH [OF this] show ?case by (simp add: Let_def)
qed

lemma trackConsumer_roles:
  assumes "trackConsumer role r t = Inr t'" "roles_are t role S C Q"
  shows "roles_are t' role S (C \<union> consumed r) (Q \<union> subscribed r)"
proof (cases "ref_multicast r")
  case False
  with assms(1) have "t' = on_config (arAddress r)
      (\<lambda>e. e\<lparr>consumerRoles := List.insert role (consumerRoles e)\<rparr>) (track r t)"
    by (auto simp: trackConsumer_def Let_def split: if_splits)
  with roles_are_consumer [of "track r t" role S C Q "arAddress r"] assms(2) False
  show ?thesis by (simp add: consumed_def subscribed_def)
next
  case True
  have "roles_are (on_config (arAddress r) (\<lambda>e. e\<lparr>isMulticast := True\<rparr>) (track r t)) role S C Q"
    using assms(2) by simp
  from roles_are_subscriptions [OF this, of "arAddress r" "arAppNamespace r" "arAppName r" "arSubscriptions r"]
    True assms(1)
  show ?thesis by (auto simp: trackConsumer_def Let_def consumed_def subscribed_def split: if_splits)
qed

lemma trackConsumers_roles:
  "trackConsumers role rs t = Inr t' \<Longrightarrow> roles_are t role S C Q \<Longrightarrow>
     roles_are t' role S (C \<union> \<Union> (consumed ` set rs)) (Q \<union> \<Union> (subscribed ` set rs))"
proof (induction rs arbitrary: t C Q)
  case Nil
  then show ?case by simp
next
  case (Cons r rs)
  from Cons.prems(1) obtain t1 where t1: "trackConsumer role r t = Inr t1" "trackConsumers role rs t1 = Inr t'"
    by (auto split: sum.splits)
  from Cons.IH [OF t1(2) trackConsumer_roles [OF t1(1) Cons.prems(2)]] show ?case
    by (simp add: Un_assoc)
qed

lemma trackCapabilities_roles:
  "trackCapabilities role cs t = Inr t' \<Longrightarrow> roles_are t role S C Q \<Longrightarrow>
     roles_are t' role (S \<union> arAddress ` (\<Union>c \<in> set cs. set (ProducerOf c)))
       (C \<union> \<Union> (consumed ` (\<Union>c \<in> set cs. set (ConsumerOf c))))
       (Q \<union> \<Union> (subscribed ` (\<Union>c \<in> set cs. set (ConsumerOf c))))"
proof (induction cs arbitrary: t S C Q)
  case Nil
  then show ?case by simp
next
  case (Cons c cs)
  from Cons.prems(1) obtain t1
    where t1: "trackConsumers role (ConsumerOf c) (foldl (trackProducer role) t (ProducerOf c)) = Inr t1"
      "trackCapabilities role cs t1 = Inr t'"
    by (auto split: sum.splits)
  from Cons.IH [OF t1(2) trackConsumers_roles [OF t1(1) roles_are_producers [OF Cons.prems(2)]]]
  show ?case by (simp add: Un_assoc image_Un UN_Un)
qed

definition produced_by :: "broker_app \<Rightarrow> string set" where
  "produced_by app = arAddress ` (\<Union>c \<in> set (appCapabilities app). set (ProducerOf c))"

definition consumed_by :: "broker_app \<Rightarrow> string set" where
  "consumed_by app =
     (\<Union>r \<in> (\<Union>c \<in> set (appCapabilities app). set (ConsumerOf c)). consumed r \<union> subscribed r)"

text \<open>The roles the tracker of an application records: what its capabilities name, and nothing else.\<close>

lemma trackApp_roles:
  assumes "trackApp app = Inr t"
  shows "\<exists>C Q. roles_are t (AppIdentity app) (produced_by app) C Q \<and> C \<union> Q = consumed_by app"
proof -
  let ?R = "\<Union>c \<in> set (appCapabilities app). set (ConsumerOf c)"
  have "roles_are [] (AppIdentity app) {} {} {}"
    by (simp add: roles_are_def config_of_def newAddressConfig_def)
  from trackCapabilities_roles [OF assms [unfolded trackApp_def] roles_are_types [OF this]]
  have "roles_are t (AppIdentity app) (produced_by app) (\<Union> (consumed ` ?R)) (\<Union> (subscribed ` ?R))"
    by (simp add: produced_by_def)
  moreover have "\<Union> (consumed ` ?R) \<union> \<Union> (subscribed ` ?R) = consumed_by app"
    by (auto simp: consumed_by_def)
  ultimately show ?thesis by blast
qed

section \<open>What the rendered text grants\<close>

text \<open>
  A text grants a permission when it has the line.  Characters that end a line or a quoted key are
  not escaped by the code; the exactness below is for names without them.
\<close>

definition grants :: "string \<Rightarrow> string \<Rightarrow> string \<Rightarrow> string \<Rightarrow> bool" where
  "grants text address role permission \<longleftrightarrow>
     role_line address role permission \<in> set (split_char newline text)"

definition safe :: "string \<Rightarrow> bool" where
  "safe s \<longleftrightarrow> newline \<notin> set s \<and> CHR 0x22 \<notin> set s"

lemma safe_append [simp]: "safe (a @ b) \<longleftrightarrow> safe a \<and> safe b"
  by (auto simp: safe_def)

lemma safe_Cons: "safe (c # s) \<longleftrightarrow> c \<noteq> newline \<and> c \<noteq> CHR 0x22 \<and> safe s"
  by (auto simp: safe_def)

lemma safe_Nil [simp]: "safe []"
  by (simp add: safe_def)

lemma safe_replace_char: "safe new \<Longrightarrow> safe s \<Longrightarrow> safe (replace_all [c] new s)"
  by (auto simp: replace_all_char safe_def split: if_splits)

lemma safe_replace_first: "safe new \<Longrightarrow> safe s \<Longrightarrow> safe (replace_first old new s)"
  by (auto simp: replace_first_def dest!: cut_SomeD split: option.splits)

lemma safe_escape: "safe s \<Longrightarrow> safe (escapeForProperties s)"
  unfolding escapeForProperties_def Let_def
  by (intro safe_replace_char safe_replace_first) (simp_all add: safe_Cons)

lemma split_lines:
  "\<forall>k \<in> set ks. newline \<notin> set k \<Longrightarrow> split_char newline (concat (map (\<lambda>k. k @ [newline]) ks)) = ks @ [[]]"
  by (induction ks) (simp_all add: split_char_append)

lemma print_props_lines:
  assumes "\<forall>k \<in> set ks. newline \<notin> set k"
  shows "set (split_char newline (print_props ks)) =
    {''# generated by crd'', ''#'', ''''} \<union> set ks"
proof -
  define ls where "ls = map butlast (sorted_keys (map (\<lambda>k. k @ [newline]) ks))"
  have "map (\<lambda>k. k @ [newline]) ls = sorted_keys (map (\<lambda>k. k @ [newline]) ks)"
    by (auto simp: ls_def intro!: map_idI)
  then have eq: "print_props ks = ''# generated by crd'' @ newline # ''#'' @ newline #
      concat (map (\<lambda>k. k @ [newline]) ls)"
    by (simp add: print_props_def props_header_def)
  have ls: "set ls = set ks" by (auto simp: ls_def image_image)
  have "split_char newline (print_props ks) = ''# generated by crd'' # ''#'' # ls @ [[]]"
    unfolding eq using assms ls
    by (subst split_char_append, simp, subst split_char_append, simp, subst split_lines) auto
  with ls show ?thesis by auto
qed

lemma dq_inj:
  assumes "dq a @ x = dq b @ y" "CHR 0x22 \<notin> set a" "CHR 0x22 \<notin> set b"
  shows "a = b \<and> x = y"
  using assms sep_inj [of a "CHR 0x22" x b y] by (simp add: dq_def)

lemma role_line_inj:
  assumes eq: "role_line a r p = role_line a' r' p'" and "safe a" "safe r" "safe a'" "safe r'"
  shows "a = a' \<and> r = r' \<and> p = p'"
proof -
  from eq have "dq a @ ''.'' @ dq r @ ''.'' @ p @ ''=true'' = dq a' @ ''.'' @ dq r' @ ''.'' @ p' @ ''=true''"
    by (simp add: role_line_def)
  from dq_inj [OF this] assms have a: "a = a'" and
    eq2: "''.'' @ dq r @ ''.'' @ p @ ''=true'' = ''.'' @ dq r' @ ''.'' @ p' @ ''=true''"
    by (auto simp: safe_def)
  from eq2 have "dq r @ ''.'' @ p @ ''=true'' = dq r' @ ''.'' @ p' @ ''=true''" by simp
  from dq_inj [OF this] assms a show ?thesis by (auto simp: safe_def)
qed

lemma queue_config_not_role [simp]: "role_line a r p \<notin> set (queue_config_lines b q t)"
  by (simp add: role_line_def queue_config_lines_def)

lemma role_in_address_lines:
  "role_line a r p \<in> set (address_lines n cfg) \<longleftrightarrow>
     role_line a r p \<in> (\<lambda>role. role_line (escapeForProperties n) (producerRole role) ''send'') `
        set (senderRoles cfg) \<union>
       (\<lambda>role. role_line (escapeForProperties n) (consumerRole role) ''consume'') `
        (set (consumerRoles cfg) \<union> set (subscriberRoles cfg))"
  by (auto simp: address_lines_def Let_def split_beta)
    (auto simp: role_line_def)

text \<open>All names, queues and roles of a tracker without a quote or a newline.\<close>

definition tracker_safe :: "tracker \<Rightarrow> bool" where
  "tracker_safe t \<longleftrightarrow> (\<forall>n \<in> fst ` set t. safe n)"

lemma tracker_safeD: "tracker_safe t \<Longrightarrow> n \<in> fst ` set t \<Longrightarrow> safe n"
  unfolding tracker_safe_def by blast

lemma safe_parts:
  "safe n \<Longrightarrow> address_parts n = (a, q, f) \<Longrightarrow> safe a \<and> safe q"
proof -
  assume n: "safe n" and p: "address_parts n = (a, q, f)"
  show ?thesis
  proof (cases "cut n FQQNSeparator")
    case None
    then have "split_n 2 n FQQNSeparator = [n]" by (simp add: numeral_2_eq_2)
    with p n show ?thesis by (auto simp: address_parts_def Let_def safe_escape)
  next
    case (Some xy)
    obtain x y where xy: "xy = (x, y)" by fastforce
    with Some have s: "split_n 2 n FQQNSeparator = [x, y]" by (simp add: numeral_2_eq_2)
    from cut_SomeD [of n FQQNSeparator x y] Some xy n have "safe x" "safe y"
      by (auto simp: safe_Cons)
    with p s show ?thesis by (auto simp: address_parts_def Let_def safe_escape)
  qed
qed

lemma in_concat_map:
  "x \<in> set (concat (map (\<lambda>r. map (g r) as) rs)) \<longleftrightarrow> (\<exists>r \<in> set rs. \<exists>a \<in> set as. x = g r a)"
  by auto

lemma metrics_not_role:
  assumes "safe q" "safe identity" "safe a" "safe r" "p \<noteq> ''view''"
  shows "role_line a r p \<notin> set (metrics_lines identity q)"
proof
  assume "role_line a r p \<in> set (metrics_lines identity q)"
  then obtain attr rr where eq: "role_line a r p = role_line (''mops.queue.'' @ q @ attr) rr ''view''"
    and attr: "attr \<in> set ['''', ''.getMessageCount'', ''.getConsumerCount'', ''.getDeliveringCount'',
      ''.getPersistentSize'']"
    and rr: "rr \<in> set [''metrics'', metricsRole identity]"
    unfolding metrics_lines_def in_concat_map by blast
  from attr rr assms have "safe (''mops.queue.'' @ q @ attr)" "safe rr"
    by (auto simp: safe_Cons metricsRole_def)
  from role_line_inj [OF eq assms(3,4) this] assms(5) show False by simp
qed

lemma role_in_prop_keys:
  assumes ord: "range_ok ord" and t: "tracker_safe t" and i: "safe identity"
    and a: "safe a" and r: "safe r" and p: "p \<noteq> ''view''"
  shows "role_line a r p \<in> set (prop_keys ord identity t) \<longleftrightarrow>
    (\<exists>n \<in> fst ` set t. role_line a r p \<in> set (address_lines n (config_of t n)))"
proof -
  have "role_line a r p \<notin> set (metrics_lines identity q)"
    if "q \<in> set (metrics_queue n (config_of t n))" "n \<in> fst ` set t" for q n
  proof -
    obtain x y f where parts: "address_parts n = (x, y, f)" by (cases "address_parts n")
    with that(1) have "q = y" by (auto simp: metrics_queue_def split: if_splits)
    with safe_parts [OF tracker_safeD [OF t that(2)] parts] have "safe q" by simp
    from metrics_not_role [OF this i a r p] show ?thesis .
  qed
  with ord show ?thesis by (auto simp: prop_keys_def Let_def)
qed

lemma config_of_absent: "a \<notin> fst ` set t \<Longrightarrow> config_of t a = newAddressConfig"
  by (auto simp: config_of_def split: option.splits dest: map_of_SomeD) (metis fst_conv image_eqI map_of_SomeD)

text \<open>The permissions of the lines, for the tracker of an application.\<close>

lemma tracker_grants:
  assumes ord: "range_ok ord" and t: "tracker_safe t" and i: "safe identity"
    and roles: "roles_are t identity S C Q" and a: "safe a" and r: "safe r"
  shows "role_line a r ''send'' \<in> set (prop_keys ord identity t) \<longleftrightarrow>
      r = producerRole identity \<and> (\<exists>n \<in> S. escapeForProperties n = a)"
    and "role_line a r ''consume'' \<in> set (prop_keys ord identity t) \<longleftrightarrow>
      r = consumerRole identity \<and> (\<exists>n \<in> C \<union> Q. escapeForProperties n = a)"
proof -
  have safe_names: "n \<in> fst ` set t \<Longrightarrow> safe (escapeForProperties n)" for n
    by (intro safe_escape tracker_safeD [OF t])
  have pr: "safe (producerRole identity)" "safe (consumerRole identity)"
    using i by (simp_all add: producerRole_def consumerRole_def safe_Cons)
  have inj: "role_line a r p = role_line (escapeForProperties n) r' p' \<longleftrightarrow>
      a = escapeForProperties n \<and> r = r' \<and> p = p'"
    if "n \<in> fst ` set t" "safe r'" for n r' p p'
    using role_line_inj [OF _ a r safe_names [OF that(1)] that(2)] by blast
  have s: "senderRoles (config_of t n) = (if n \<in> S then [identity] else [])"
    "consumerRoles (config_of t n) = (if n \<in> C then [identity] else [])"
    "subscriberRoles (config_of t n) = (if n \<in> Q then [identity] else [])" for n
    using roles by (simp_all add: roles_are_def)
  have in_keys: "n \<in> fst ` set t" if "n \<in> S \<union> C \<union> Q" for n
  proof (rule ccontr)
    assume "n \<notin> fst ` set t"
    from config_of_absent [OF this] s [of n] that show False
      by (auto simp: newAddressConfig_def)
  qed
  have send: "role_line a r ''send'' \<in> set (address_lines n (config_of t n)) \<longleftrightarrow>
      n \<in> S \<and> r = producerRole identity \<and> escapeForProperties n = a" if "n \<in> fst ` set t" for n
    unfolding role_in_address_lines s using inj [OF that] pr by (auto split: if_splits)
  have consume: "role_line a r ''consume'' \<in> set (address_lines n (config_of t n)) \<longleftrightarrow>
      n \<in> C \<union> Q \<and> r = consumerRole identity \<and> escapeForProperties n = a" if "n \<in> fst ` set t" for n
    unfolding role_in_address_lines s using inj [OF that] pr by (auto split: if_splits)
  show "role_line a r ''send'' \<in> set (prop_keys ord identity t) \<longleftrightarrow>
      r = producerRole identity \<and> (\<exists>n \<in> S. escapeForProperties n = a)"
    unfolding role_in_prop_keys [OF ord t i a r, of "''send''", simplified] using send in_keys by blast
  show "role_line a r ''consume'' \<in> set (prop_keys ord identity t) \<longleftrightarrow>
      r = consumerRole identity \<and> (\<exists>n \<in> C \<union> Q. escapeForProperties n = a)"
    unfolding role_in_prop_keys [OF ord t i a r, of "''consume''", simplified] using consume in_keys by blast
qed

end
