(* ===== verification/Service_Authority.thy ===== *)
theory Service_Authority
  imports Service_Provisioning
begin

text \<open>
  What the rendered configuration of one application amounts to: it does not depend on the iteration
  order of Go's maps, it grants exactly the permissions the capabilities name when the names are free
  of quotes and newlines, and its keys in the shared secret are its own when its identity is.
\<close>

section \<open>Independence of the map order\<close>

lemma prop_keys_order:
  assumes "range_ok ord" "range_ok ord'"
  shows "set (prop_keys ord identity t) = set (prop_keys ord' identity t)"
  using assms by (simp add: prop_keys_def Let_def)

lemma print_props_cong: "set ks = set ls \<Longrightarrow> print_props ks = print_props ls"
  by (simp add: print_props_def) (rule arg_cong [where f = concat], rule sorted_keys_cong, simp)

lemma processCapabilities_order:
  assumes "range_ok ord" "range_ok ord'"
  shows "processCapabilities ord app data = processCapabilities ord' app data"
  using print_props_cong [OF prop_keys_order [OF assms]]
  by (simp add: processCapabilities_def split: sum.split)

section \<open>Names without quotes and newlines\<close>

definition app_safe :: "broker_app \<Rightarrow> bool" where
  "app_safe app \<longleftrightarrow> safe (appNamespace app) \<and> safe (appName app) \<and>
     (\<forall>t \<in> set (appAddresses app @ appSharedAddresses app).
        safe (atAddress t) \<and> (\<forall>q \<in> set (atSubscriptions t). safe q)) \<and>
     (\<forall>r \<in> set (app_refs app). safe (arAddress r) \<and> (\<forall>q \<in> set (arSubscriptions r). safe q))"

lemma safe_fqqn [simp]: "safe (fqqn_of a q) \<longleftrightarrow> safe a \<and> safe q"
  by (auto simp: safe_Cons)

lemma safe_identity: "app_safe app \<Longrightarrow> safe (AppIdentity app)"
  by (simp add: app_safe_def AppIdentity_def NameSpacedValue_def DashPrefixValue_def safe_Cons)

lemma tracker_safe_on [simp]: "tracker_safe (on_config a f t) \<longleftrightarrow> safe a \<and> tracker_safe t"
  by (simp only: tracker_safe_def keys_on ball_simps)

lemma tracker_safe_track [simp]: "tracker_safe (track r t) \<longleftrightarrow> safe (arAddress r) \<and> tracker_safe t"
  by (simp add: track_def)

lemma tracker_safe_foldl:
  "(\<And>t q. q \<in> set qs \<Longrightarrow> tracker_safe t \<Longrightarrow> tracker_safe (f t q)) \<Longrightarrow> tracker_safe t \<Longrightarrow>
     tracker_safe (foldl f t qs)"
  by (induction qs arbitrary: t) simp_all

lemma tracker_safe_type:
  "safe (atAddress at) \<Longrightarrow> \<forall>q \<in> set (atSubscriptions at). safe q \<Longrightarrow> tracker_safe t \<Longrightarrow>
     tracker_safe (trackAddressType at t)"
  by (auto simp: trackAddressType_def Let_def safe_Cons intro!: tracker_safe_foldl)

lemma tracker_safe_producer:
  "safe (arAddress r) \<Longrightarrow> tracker_safe t \<Longrightarrow> tracker_safe (trackProducer role t r)"
  by (simp add: trackProducer_def Let_def)

lemma tracker_safe_consumer:
  "trackConsumer role r t = Inr t' \<Longrightarrow> safe (arAddress r) \<Longrightarrow> \<forall>q \<in> set (arSubscriptions r). safe q \<Longrightarrow>
     tracker_safe t \<Longrightarrow> tracker_safe t'"
  by (auto simp: trackConsumer_def Let_def safe_Cons intro!: tracker_safe_foldl split: if_splits)

lemma tracker_safe_consumers:
  "trackConsumers role rs t = Inr t' \<Longrightarrow>
     \<forall>r \<in> set rs. safe (arAddress r) \<and> (\<forall>q \<in> set (arSubscriptions r). safe q) \<Longrightarrow>
     tracker_safe t \<Longrightarrow> tracker_safe t'"
proof (induction rs arbitrary: t)
  case Nil
  then show ?case by simp
next
  case (Cons r rs)
  from Cons.prems(1) obtain t1 where t1: "trackConsumer role r t = Inr t1" "trackConsumers role rs t1 = Inr t'"
    by (auto split: sum.splits)
  from tracker_safe_consumer [OF t1(1)] Cons.prems have "tracker_safe t1" by simp
  with Cons.IH [OF t1(2)] Cons.prems(2) show ?case by simp
qed

lemma tracker_safe_capabilities:
  "trackCapabilities role cs t = Inr t' \<Longrightarrow>
     \<forall>c \<in> set cs. \<forall>r \<in> set (ProducerOf c @ ConsumerOf c).
       safe (arAddress r) \<and> (\<forall>q \<in> set (arSubscriptions r). safe q) \<Longrightarrow>
     tracker_safe t \<Longrightarrow> tracker_safe t'"
proof (induction cs arbitrary: t)
  case Nil
  then show ?case by simp
next
  case (Cons c cs)
  from Cons.prems(1) obtain t1
    where t1: "trackConsumers role (ConsumerOf c) (foldl (trackProducer role) t (ProducerOf c)) = Inr t1"
      "trackCapabilities role cs t1 = Inr t'"
    by (auto split: sum.splits)
  have "tracker_safe (foldl (trackProducer role) t (ProducerOf c))"
    using Cons.prems by (intro tracker_safe_foldl tracker_safe_producer) simp_all
  moreover have "\<forall>r \<in> set (ConsumerOf c). safe (arAddress r) \<and> (\<forall>q \<in> set (arSubscriptions r). safe q)"
    using Cons.prems(2) by auto
  ultimately have "tracker_safe t1" using tracker_safe_consumers [OF t1(1)] by blast
  moreover have "\<forall>c \<in> set cs. \<forall>r \<in> set (ProducerOf c @ ConsumerOf c).
       safe (arAddress r) \<and> (\<forall>q \<in> set (arSubscriptions r). safe q)"
    using Cons.prems(2) by simp
  ultimately show ?case using Cons.IH [OF t1(2)] by blast
qed

lemma trackApp_safe:
  assumes "app_safe app" "trackApp app = Inr t"
  shows "tracker_safe t"
proof -
  have "tracker_safe (foldl (\<lambda>t a. trackAddressType a t) [] (appAddresses app @ appSharedAddresses app))"
    using assms(1)
    by (intro tracker_safe_foldl tracker_safe_type) (simp_all add: app_safe_def tracker_safe_def)
  with tracker_safe_capabilities [OF assms(2) [unfolded trackApp_def]] assms(1)
  show ?thesis by (auto simp: app_safe_def app_refs_def)
qed

text \<open>The lines of a safe tracker hold no newline.\<close>

lemma role_line_newline: "safe a \<Longrightarrow> safe r \<Longrightarrow> newline \<notin> set p \<Longrightarrow> newline \<notin> set (role_line a r p)"
  by (auto simp: role_line_def dq_def safe_def)

lemma queue_lines_newline:
  "safe a \<Longrightarrow> safe q \<Longrightarrow> newline \<notin> set p \<Longrightarrow> l \<in> set (queue_config_lines a q p) \<Longrightarrow> newline \<notin> set l"
  by (auto simp: queue_config_lines_def dq_def safe_def)

lemma address_lines_newline:
  assumes n: "safe n" and i: "safe identity"
    and roles: "set (senderRoles cfg) \<union> set (consumerRoles cfg) \<union> set (subscriberRoles cfg) \<subseteq> {identity}"
    and l: "l \<in> set (address_lines n cfg)"
  shows "newline \<notin> set l"
proof -
  obtain a q f where p: "address_parts n = (a, q, f)" by (cases "address_parts n")
  note aq = safe_parts [OF n p]
  have ident: "role \<in> set (senderRoles cfg) \<or> role \<in> set (consumerRoles cfg) \<or>
      role \<in> set (subscriberRoles cfg) \<Longrightarrow> role = identity" for role
    using roles by blast
  have pr: "safe (producerRole identity)" "safe (consumerRole identity)"
    using i by (simp_all add: producerRole_def consumerRole_def safe_Cons)
  from l consider "l \<in> set [''addressConfigurations.'' @ dq a @ ''.routingTypes='' @
                (if isMulticast cfg then ''MULTICAST'' else ''ANYCAST'')]"
    | "l \<in> set (queue_config_lines a q ''ANYCAST'')" | "l \<in> set (queue_config_lines a q ''MULTICAST'')"
    | role where "role \<in> set (senderRoles cfg)" "l = role_line (escapeForProperties n) (producerRole role) ''send''"
    | role where "role \<in> set (consumerRoles cfg) \<or> role \<in> set (subscriberRoles cfg)"
        "l = role_line (escapeForProperties n) (consumerRole role) ''consume''"
    by (auto simp: address_lines_def Let_def p split: if_splits)
  then show ?thesis
  proof cases
    case 1
    with aq show ?thesis by (auto simp: dq_def safe_def)
  next
    case 2
    from queue_lines_newline [OF _ _ _ this] aq show ?thesis by simp
  next
    case 3
    from queue_lines_newline [OF _ _ _ this] aq show ?thesis by simp
  next
    case (4 role)
    with ident [of role] pr safe_escape [OF n] show ?thesis by (simp add: role_line_newline)
  next
    case (5 role)
    with ident [of role] pr safe_escape [OF n] show ?thesis by (simp add: role_line_newline)
  qed
qed

lemma metrics_lines_newline:
  assumes "safe q" "safe identity" "l \<in> set (metrics_lines identity q)"
  shows "newline \<notin> set l"
proof -
  from assms(3) obtain attr rr where l: "l = role_line (''mops.queue.'' @ q @ attr) rr ''view''"
    and attr: "attr \<in> set ['''', ''.getMessageCount'', ''.getConsumerCount'', ''.getDeliveringCount'',
      ''.getPersistentSize'']"
    and rr: "rr \<in> set [''metrics'', metricsRole identity]"
    unfolding metrics_lines_def in_concat_map by blast
  from attr rr assms have "safe (''mops.queue.'' @ q @ attr)" "safe rr"
    by (auto simp: safe_Cons metricsRole_def)
  then show ?thesis unfolding l by (rule role_line_newline) simp
qed

lemma prop_keys_newline:
  assumes ord: "range_ok ord" and t: "tracker_safe t" and i: "safe identity"
    and roles: "roles_are t identity S C Q"
  shows "\<forall>l \<in> set (prop_keys ord identity t). newline \<notin> set l"
proof
  fix l assume "l \<in> set (prop_keys ord identity t)"
  then consider n where "n \<in> fst ` set t" "l \<in> set (address_lines n (config_of t n))"
    | n q where "n \<in> fst ` set t" "q \<in> set (metrics_queue n (config_of t n))"
        "l \<in> set (metrics_lines identity q)"
    using ord by (auto simp: prop_keys_def Let_def)
  then show "newline \<notin> set l"
  proof cases
    case (1 n)
    have "set (senderRoles (config_of t n)) \<union> set (consumerRoles (config_of t n)) \<union>
        set (subscriberRoles (config_of t n)) \<subseteq> {identity}"
      using roles by (auto simp: roles_are_def)
    from address_lines_newline [OF tracker_safeD [OF t 1(1)] i this 1(2)] show ?thesis .
  next
    case (2 n q)
    obtain x y f where parts: "address_parts n = (x, y, f)" by (cases "address_parts n")
    with 2(2) have "q = y" by (auto simp: metrics_queue_def split: if_splits)
    with safe_parts [OF tracker_safeD [OF t 2(1)] parts] have "safe q" by simp
    from metrics_lines_newline [OF this i 2(3)] show ?thesis .
  qed
qed

section \<open>Exactly the permissions named\<close>

lemma role_line_not_header:
  "role_line a r p \<notin> {''# generated by crd'', ''#'', ''''}"
  by (simp add: role_line_def)

lemma capabilities_text:
  assumes "processCapabilities ord app data = Inr data'"
  obtains t where "trackApp app = Inr t"
    and "map_of data' (capabilities_key app) = Some (print_props (prop_keys ord (AppIdentity app) t))"
  using assms by (auto simp: processCapabilities_def update_conv' split: sum.splits)

lemma capabilities_grants:
  assumes ord: "range_ok ord" and safe: "app_safe app"
    and run: "processCapabilities ord app data = Inr data'"
    and content: "map_of data' (capabilities_key app) = Some content"
    and a: "safe a" and r: "safe r"
  shows "grants content a r ''send'' \<longleftrightarrow>
      r = producerRole (AppIdentity app) \<and> (\<exists>n \<in> produced_by app. escapeForProperties n = a)"
    and "grants content a r ''consume'' \<longleftrightarrow>
      r = consumerRole (AppIdentity app) \<and> (\<exists>n \<in> consumed_by app. escapeForProperties n = a)"
proof -
  obtain t where t: "trackApp app = Inr t"
    and "map_of data' (capabilities_key app) = Some (print_props (prop_keys ord (AppIdentity app) t))"
    using capabilities_text [OF run] .
  with content have eq: "content = print_props (prop_keys ord (AppIdentity app) t)" by simp
  from trackApp_roles [OF t] obtain C Q
    where roles: "roles_are t (AppIdentity app) (produced_by app) C Q" and CQ: "C \<union> Q = consumed_by app"
    by blast
  note ts = trackApp_safe [OF safe t] and i = safe_identity [OF safe]
  have "grants content a r p \<longleftrightarrow> role_line a r p \<in> set (prop_keys ord (AppIdentity app) t)" for p
    unfolding grants_def eq print_props_lines [OF prop_keys_newline [OF ord ts i roles]]
    using role_line_not_header by blast
  with tracker_grants [OF ord ts i roles a r] CQ
  show "grants content a r ''send'' \<longleftrightarrow>
      r = producerRole (AppIdentity app) \<and> (\<exists>n \<in> produced_by app. escapeForProperties n = a)"
    and "grants content a r ''consume'' \<longleftrightarrow>
      r = consumerRole (AppIdentity app) \<and> (\<exists>n \<in> consumed_by app. escapeForProperties n = a)"
    by simp_all
qed

section \<open>Keys in the shared secret\<close>

text \<open>The keys the rendering of an application writes.\<close>

definition app_keys :: "broker_app \<Rightarrow> string set" where
  "app_keys app =
     {capabilities_key app, acceptorCfgKey app, pemCfgkey app, certUsersCfgKey app, certRolesCfgKey app}"

lemma capabilities_frame:
  "processCapabilities ord app data = Inr data' \<Longrightarrow> k \<noteq> capabilities_key app \<Longrightarrow>
     map_of data' k = map_of data k"
  by (auto simp: processCapabilities_def update_conv' split: sum.splits)

lemma acceptor_frame:
  "processAcceptor ts service app data = (err, data') \<Longrightarrow> k \<notin> app_keys app \<Longrightarrow>
     map_of data' k = map_of data k"
  by (auto simp: processAcceptor_def app_keys_def Let_def update_conv'
      split: sum.splits option.splits if_splits)

lemma capabilities_key_inj: "capabilities_key a = capabilities_key b \<longleftrightarrow> AppIdentity a = AppIdentity b"
  by (simp add: capabilities_key_def AppIdentityPrefixed_def DashPrefixValue_def)

lemma acceptorCfgKey_inj: "acceptorCfgKey a = acceptorCfgKey b \<longleftrightarrow> AppIdentity a = AppIdentity b"
  by (simp add: acceptorCfgKey_def AppIdentityPrefixed_def DashPrefixValue_def)

lemma pemCfgkey_inj: "pemCfgkey a = pemCfgkey b \<longleftrightarrow> AppIdentity a = AppIdentity b"
  by (simp add: pemCfgkey_def UnderscoreAppIdentityPrefixed_def AppIdentityPrefixed_def DashPrefixValue_def)

text \<open>Two ports have two realms.\<close>

lemma realm_inj:
  assumes "asService (appStatus a) = Some x" "sbAssignedPort x \<noteq> UnassignedPort"
    and "asService (appStatus b) = Some y" "sbAssignedPort y \<noteq> UnassignedPort"
  shows "jaasConfigRealmName a = jaasConfigRealmName b \<longleftrightarrow> sbAssignedPort x = sbAssignedPort y"
  using assms itoa_inj [of "sint (sbAssignedPort x)" "sint (sbAssignedPort y)"]
  by (auto simp: jaasConfigRealmName_def intro: signed_word_eqI)

end
