(* ===== verification/Service_Reconcile.thy ===== *)
theory Service_Reconcile
  imports Service_Authority
begin

text \<open>
  The reconcile of a \<open>BrokerService\<close> (\<open>controllers/brokerservice_controller.go\<close>): which of the bound
  applications are provisioned, the secrets and the broker that result, the status, and the handler
  that enqueues a service when the binding of an application changes.
\<close>

section \<open>Admission\<close>

definition validateServiceSpec :: "cel_env \<Rightarrow> broker_service \<Rightarrow> go_error option" where
  "validateServiceSpec E instance =
     (case ValidateResourceName (svcName instance) of
        Some err \<Rightarrow> Some err
      | None \<Rightarrow>
          (if svcAppSelectorExpression instance \<noteq> ''''
           then (case ValidateExpression E (svcAppSelectorExpression instance) of
                   Some err \<Rightarrow> Some (ValidationError ValidConditionSpecSelectorError
                                     (''invalid appSelectorExpression: '' @ err))
                 | None \<Rightarrow> None)
           else None))"

definition appMatchesSelector :: "controller \<Rightarrow> broker_service \<Rightarrow> broker_app \<Rightarrow> bool" where
  "appMatchesSelector C instance app =
     (case matches_uncached (cCel C) app instance of Inl err \<Rightarrow> False | Inr matches \<Rightarrow> matches)"

definition validateAppForProvisioning ::
  "controller \<Rightarrow> broker_service \<Rightarrow> broker_app \<Rightarrow> bool \<times> string" where
  "validateAppForProvisioning C instance app =
     (let cel = (if \<not> appMatchesSelector C instance app
                 then (False, ''does not match appSelectorExpression'') else (True, ''''))
      in case appSelector app of
           None \<Rightarrow> cel
         | Some sel \<Rightarrow>
             (case kSelector (cKube C) (Some sel) of
                Inl err \<Rightarrow> (False, ''invalid label selector'')
              | Inr selector \<Rightarrow>
                  if \<not> selMatches selector (svcLabels instance)
                  then (False, ''does not match service labels'') else cel))"

section \<open>The secret of the applications\<close>

record provision =
  pvData :: data_map
  pvRejected :: "rejected_app list"
  pvValid :: "broker_app list"

definition provision_app ::
  "controller \<Rightarrow> string + string \<Rightarrow> broker_service \<Rightarrow> broker_app \<Rightarrow> data_map \<Rightarrow> string option \<times> data_map" where
  "provision_app C trustStore instance app data =
     (case common_ValidateResourceName (appName app) of
        Some err \<Rightarrow> (Some err, data)
      | None \<Rightarrow>
          (case processCapabilities (cOrder C) app data of
             Inl err \<Rightarrow> (Some err, data)
           | Inr data' \<Rightarrow> processAcceptor trustStore instance app data'))"

text \<open>The loop over the bound applications: a rejected one is skipped, an error breaks the loop.\<close>

fun provision_loop ::
  "controller \<Rightarrow> string + string \<Rightarrow> broker_service \<Rightarrow> broker_app list \<Rightarrow> provision \<Rightarrow>
     string option \<times> provision" where
  "provision_loop C ts instance [] p = (None, p)"
| "provision_loop C ts instance (app # apps) p =
     (case validateAppForProvisioning C instance app of
        (False, rejectionReason) \<Rightarrow>
          provision_loop C ts instance apps
            (p\<lparr>pvRejected := pvRejected p @
                 [\<lparr>rejName = appName app, rejNamespace = appNamespace app, rejReason = rejectionReason\<rparr>]\<rparr>)
      | (True, rejectionReason) \<Rightarrow>
          (case provision_app C ts instance app (pvData p) of
             (Some err, data') \<Rightarrow> (Some err, p\<lparr>pvData := data'\<rparr>)
           | (None, data') \<Rightarrow>
               provision_loop C ts instance apps (p\<lparr>pvData := data', pvValid := pvValid p @ [app]\<rparr>)))"

abbreviation "ProvisionedAppsAnnotation \<equiv> ''arkmq.org/provisioned-apps''"

definition appIdentities :: "broker_app list \<Rightarrow> string list" where
  "appIdentities apps = sort (map AppIdentity apps)"

record 's svc_env =
  seController :: controller
  seOsEnv :: env
  seVars :: op_vars
  seListed :: "string + (kind \<Rightarrow> resource list)"   \<comment> \<open>the owned objects of the service\<close>
  seClient :: "'s client"
  seCompare :: compare_api
  seFormat :: "broker \<Rightarrow> string"                  \<comment> \<open>the verb \<open>%v\<close> on a broker's status\<close>
  seUpdateStatus :: "broker_service \<Rightarrow> string option"

definition trust_store :: "'s svc_env \<Rightarrow> string + string" where
  "trust_store E = getTrustStorePath (cOrder (seController E)) (cKube (seController E)) (seOsEnv E) (seVars E)"

text \<open>The error, the rejected applications, and the desired resources tracked so far.\<close>

definition processAppSecrets ::
  "'s svc_env \<Rightarrow> broker_service \<Rightarrow> loop \<Rightarrow> string option \<times> rejected_app list option \<times> loop" where
  "processAppSecrets E instance L =
     (let C = seController E;
          desired' = secret_or_new L (svcNamespace instance) (AppPropertiesSecretName (svcName instance));
          key = svcNamespace instance @ '':'' @ svcName instance
      in case kListApps (cKube C) key of
           Inl err \<Rightarrow> (Some err, None, L)
         | Inr apps \<Rightarrow>
             (case provision_loop C (trust_store E) instance apps
                     \<lparr>pvData = [], pvRejected = [], pvValid = []\<rparr> of
                (err, p) \<Rightarrow>
                  (let filled = desired'\<lparr>secData := pvData p,
                         secAnnotations := AList.update ProvisionedAppsAnnotation
                           (join '','' (appIdentities (pvValid p))) (secAnnotations desired')\<rparr>;
                       L1 = TrackDesired L (SecretRes filled);
                       L2 = (case err of
                               Some e \<Rightarrow> L1
                             | None \<Rightarrow> processControlPlaneOverrideSecret (cOrder C) (cKube C) (seOsEnv E)
                                        (seVars E) instance (pvValid p) L1)
                   in (err, Some (pvRejected p), L2))))"

section \<open>The broker and the service\<close>

definition GenerateBroker :: "string \<Rightarrow> string \<Rightarrow> broker" where
  "GenerateBroker name namespace =
     \<lparr>brkName = name, brkNamespace = namespace, brkMetaLabels = [], brkMetaAnnotations = [],
      brkPersistenceEnabled = False, brkLabels = [], brkEnv = [], brkMemoryLimit = zero_quantity,
      brkImage = '''', brkExtraMountSecrets = [], brkConditions = [], brkExternalConfigs = []\<rparr>"

definition deployed_broker :: "loop \<Rightarrow> string \<Rightarrow> broker option" where
  "deployed_broker L n =
     (case CloneOfDeployed L BrokerKind n of Some (BrokerRes b) \<Rightarrow> Some b | _ \<Rightarrow> None)"

definition desired_broker :: "broker_service \<Rightarrow> loop \<Rightarrow> broker" where
  "desired_broker instance L =
     (let b = (case deployed_broker L (svcName instance) of
                 Some b \<Rightarrow> b | None \<Rightarrow> GenerateBroker (svcName instance) (svcNamespace instance))
      in b\<lparr>brkPersistenceEnabled := False,
           brkLabels :=
             [(''app.kubernetes.io/instance'', svcName instance),
              (''app.kubernetes.io/component'', ''broker-service''),
              (''app.kubernetes.io/managed-by'', ''arkmq-org-broker-operator''),
              (''broker.arkmq.org/service'', svcName instance),
              (''broker.arkmq.org/peer-index'', ''0'')],
           brkEnv := svcEnv instance,
           brkMemoryLimit := svcMemoryLimit instance,
           brkImage := (case svcImage instance of Some i \<Rightarrow> i | None \<Rightarrow> brkImage b),
           brkExtraMountSecrets := [AppPropertiesSecretName (svcName instance)]\<rparr>)"

definition processBroker ::
  "'s svc_env \<Rightarrow> broker_service \<Rightarrow> loop \<Rightarrow> string option \<times> rejected_app list option \<times> loop" where
  "processBroker E instance L =
     (case processAppSecrets E instance L of
        (err, rejected, L') \<Rightarrow> (err, rejected, TrackDesired L' (BrokerRes (desired_broker instance L))))"

definition processService :: "broker_service \<Rightarrow> loop \<Rightarrow> loop" where
  "processService instance L =
     (let s = (case CloneOfDeployed L ServiceKind (svcName instance) of
                 Some (ServiceRes s) \<Rightarrow> s
               | _ \<Rightarrow> \<lparr>ksName = svcName instance, ksNamespace = svcNamespace instance,
                       ksHeadless = True, ksSelector = []\<rparr>)
      in TrackDesired L (ServiceRes (s\<lparr>ksSelector := [(''broker.arkmq.org/service'', svcName instance)]\<rparr>)))"

definition processSpec ::
  "'s svc_env \<Rightarrow> broker_service \<Rightarrow> loop \<Rightarrow> string option \<times> rejected_app list option \<times> loop" where
  "processSpec E instance L =
     (case processBroker E instance L of
        (Some err, rejected, L') \<Rightarrow> (Some err, rejected, L')
      | (None, rejected, L') \<Rightarrow> (None, rejected, processService instance L'))"

section \<open>Status\<close>

definition setServiceValidCondition ::
  "meta_api \<Rightarrow> go_error option \<Rightarrow> condition list \<Rightarrow> condition list" where
  "setServiceValidCondition M err conditions =
     SetStatusCondition M conditions
       (case err of
          Some (ValidationError reason message) \<Rightarrow>
            mk_condition ValidConditionType ConditionFalse reason message
        | _ \<Rightarrow> mk_condition ValidConditionType ConditionTrue ValidConditionSuccessReason '''')"

definition service_deployed_condition ::
  "meta_api \<Rightarrow> (broker \<Rightarrow> string) \<Rightarrow> broker option \<Rightarrow> go_error option \<Rightarrow> condition" where
  "service_deployed_condition M fmt deployed' err =
     (let mk = mk_condition DeployedConditionType
      in case err of
           Some (TransientError reason message cause) \<Rightarrow>
             mk ConditionFalse reason (error_text (TransientError reason message cause))
         | Some (ValidationError reason message) \<Rightarrow> mk ConditionFalse reason message
         | Some (PlainError message) \<Rightarrow>
             mk ConditionUnknown DeployedConditionCrudKindErrorReason (''error on resource crud '' @ message)
         | None \<Rightarrow>
             (case deployed' of
                None \<Rightarrow> mk ConditionFalse DeployedConditionNotReadyReason ''''
              | Some b \<Rightarrow>
                  (case FindStatusCondition M (brkConditions b) DeployedConditionType of
                     None \<Rightarrow> mk ConditionFalse DeployedConditionNotReadyReason ''''
                   | Some c \<Rightarrow>
                       if cStatus c = ConditionTrue then mk ConditionTrue ReadyConditionReason ''''
                       else mk ConditionFalse DeployedConditionNotReadyReason
                              (''not ready broker status '' @ fmt b))))"

text \<open>
  The version of the applications' secret that the ready broker reports as applied, and the secret
  of that version.
\<close>

definition applied_secret :: "meta_api \<Rightarrow> kube \<Rightarrow> broker_service \<Rightarrow> broker option \<Rightarrow> secret option" where
  "applied_secret M K instance deployed' =
     (case deployed' of
        None \<Rightarrow> None
      | Some b \<Rightarrow>
          (case FindStatusCondition M (brkConditions b) ReadyConditionType of
             None \<Rightarrow> None
           | Some c \<Rightarrow>
               if cStatus c \<noteq> ConditionTrue then None
               else (let n = AppPropertiesSecretName (svcName instance);
                         applied = (case List.find (\<lambda>ec. fst ec = n) (brkExternalConfigs b) of
                                      Some ec \<Rightarrow> snd ec | None \<Rightarrow> '''')
                     in if applied = '''' then None
                        else (case kGetSecret K (svcNamespace instance) n of
                                Inl e \<Rightarrow> None
                              | Inr s \<Rightarrow> if secResourceVersion s = applied then Some s else None))))"

definition split_annotation :: "secret \<Rightarrow> string list" where
  "split_annotation s =
     (case map_of (secAnnotations s) ProvisionedAppsAnnotation of
        Some applied \<Rightarrow> if applied \<noteq> '''' then split_char (CHR '','') applied else []
      | None \<Rightarrow> [])"

definition processServiceStatus ::
  "meta_api \<Rightarrow> kube \<Rightarrow> (broker \<Rightarrow> string) \<Rightarrow> broker_service \<Rightarrow> broker option \<Rightarrow>
     rejected_app list option \<Rightarrow> go_error option \<Rightarrow> service_status" where
  "processServiceStatus M K fmt instance deployed' rejected err =
     (let st = svcStatus instance;
          c1 = setServiceValidCondition M err (ssConditions st);
          applied = (if err = None then applied_secret M K instance deployed' else None);
          appsProvisioned = (case applied of
              Some s \<Rightarrow> mk_condition AppsProvisionedConditionType ConditionTrue
                          AppsProvisionedConditionSyncedReason ''''
            | None \<Rightarrow> mk_condition AppsProvisionedConditionType ConditionFalse
                (if err = None then AppsProvisionedConditionWaitingReason
                 else AppsProvisionedConditionNotReadyReason) '''');
          c2 = SetStatusCondition M c1 (service_deployed_condition M fmt deployed' err);
          c3 = SetStatusCondition M c2 appsProvisioned
      in \<lparr>ssConditions = SetReadyCondition M c3,
          ssProvisionedApps = (case applied of Some s \<Rightarrow> split_annotation s
                               | None \<Rightarrow> ssProvisionedApps st),
          ssRejectedApps = (case rejected of Some r \<Rightarrow> r | None \<Rightarrow> ssRejectedApps st)\<rparr>)"

section \<open>Reconcile\<close>

record 's svc_outcome =
  soError :: "go_error option"
  soStatus :: service_status
  soWritten :: bool
  soServer :: 's

definition service_ordered :: "kind list" where
  "service_ordered = [SecretKind, BrokerKind, ServiceKind]"

text \<open>The chain of steps: its error, the rejections recorded, the loop's state and the server's.\<close>

definition service_steps ::
  "'s svc_env \<Rightarrow> broker_service \<Rightarrow> 's \<Rightarrow> go_error option \<times> rejected_app list option \<times> loop \<times> 's" where
  "service_steps E instance s =
     (case validateServiceSpec (cCel (seController E)) instance of
        Some err \<Rightarrow> (Some err, None, new_loop, s)
      | None \<Rightarrow>
          (case InitDeployed (seListed E) new_loop of
             (Some err, L) \<Rightarrow> (Some err, None, L, s)
           | (None, L) \<Rightarrow>
               (case processSpec E instance L of
                  (Some err, rejected, L') \<Rightarrow> (Some (PlainError err), rejected, L', s)
                | (None, rejected, L') \<Rightarrow>
                    (case SyncDesiredWithDeployed (seClient E) (seCompare E) service_ordered L' s of
                       (err, s') \<Rightarrow> (err, rejected, L', s')))))"

text \<open>
  \<open>reflect.DeepEqual\<close> tells a nil slice from an empty one.  The stored status was decoded from JSON that
  omits an empty list, so its \<open>RejectedApps\<close> is then nil, and the loop that found nothing to reject
  left an empty slice: the two differ, and the status is written.
\<close>

definition ReconcileService :: "'s svc_env \<Rightarrow> broker_service \<Rightarrow> 's \<Rightarrow> 's svc_outcome" where
  "ReconcileService E instance s =
     (case service_steps E instance s of
        (err, rejected, L, s') \<Rightarrow>
          (let C = seController E;
               status = processServiceStatus (cMeta C) (cKube C) (seFormat E) instance
                 (deployed_broker L (svcName instance)) rejected err;
               changed = (svcStatus instance \<noteq> status \<or> rejected = Some []);
               statusErr = (if changed then seUpdateStatus E (instance\<lparr>svcStatus := status\<rparr>) else None)
           in \<lparr>soError = (case err of
                 Some e \<Rightarrow> if is_validation_error err then None else Some e
               | None \<Rightarrow> (case statusErr of
                   Some m \<Rightarrow> Some (PlainError (''Failed to update status: error '' @ m))
                 | None \<Rightarrow> None)),
               soStatus = status, soWritten = changed, soServer = s'\<rparr>))"

section \<open>The handler of application events\<close>

definition sameService :: "service_binding option \<Rightarrow> service_binding option \<Rightarrow> bool" where
  "sameService a b =
     (case (a, b) of
        (Some x, Some y) \<Rightarrow> sbNamespace x = sbNamespace y \<and> sbName x = sbName y
      | _ \<Rightarrow> a = None \<and> b = None)"

definition getServiceRequest :: "broker_app \<Rightarrow> (string \<times> string) option" where
  "getServiceRequest app =
     (case asService (appStatus app) of
        Some b \<Rightarrow> Some (sbNamespace b, sbName b) | None \<Rightarrow> None)"

datatype app_event =
  CreateEvent broker_app | UpdateEvent broker_app broker_app | DeleteEvent broker_app | GenericEvent broker_app

fun handle_app_event :: "app_event \<Rightarrow> (string \<times> string) list" where
  "handle_app_event (CreateEvent app) = (case getServiceRequest app of Some r \<Rightarrow> [r] | None \<Rightarrow> [])"
| "handle_app_event (UpdateEvent oldApp newApp) =
     (let oldService = asService (appStatus oldApp); newService = asService (appStatus newApp)
      in (case oldService of Some b \<Rightarrow> [(sbNamespace b, sbName b)] | None \<Rightarrow> []) @
         (case newService of
            Some b \<Rightarrow> if \<not> sameService oldService newService then [(sbNamespace b, sbName b)] else []
          | None \<Rightarrow> []))"
| "handle_app_event (DeleteEvent app) = (case getServiceRequest app of Some r \<Rightarrow> [r] | None \<Rightarrow> [])"
| "handle_app_event (GenericEvent app) = (case getServiceRequest app of Some r \<Rightarrow> [r] | None \<Rightarrow> [])"

section \<open>Facts\<close>

lemma validate_True:
  "fst (validateAppForProvisioning C instance app) \<longleftrightarrow>
     appMatchesSelector C instance app \<and>
     (case appSelector app of None \<Rightarrow> True
      | Some sel \<Rightarrow> \<exists>s. kSelector (cKube C) (Some sel) = Inr s \<and> selMatches s (svcLabels instance))"
  by (auto simp: validateAppForProvisioning_def Let_def split: option.splits sum.splits)

definition rejection :: "controller \<Rightarrow> broker_service \<Rightarrow> broker_app \<Rightarrow> rejected_app" where
  "rejection C instance app =
     \<lparr>rejName = appName app, rejNamespace = appNamespace app,
      rejReason = snd (validateAppForProvisioning C instance app)\<rparr>"

abbreviation admitted :: "controller \<Rightarrow> broker_service \<Rightarrow> broker_app \<Rightarrow> bool" where
  "admitted C instance app \<equiv> fst (validateAppForProvisioning C instance app)"

text \<open>The loop without an error: who is provisioned, who is rejected, and the data of each.\<close>

lemma provision_loop_step:
  "provision_loop C ts instance (app # apps) p =
     (if admitted C instance app
      then (case provision_app C ts instance app (pvData p) of
              (Some err, data') \<Rightarrow> (Some err, p\<lparr>pvData := data'\<rparr>)
            | (None, data') \<Rightarrow>
                provision_loop C ts instance apps (p\<lparr>pvData := data', pvValid := pvValid p @ [app]\<rparr>))
      else provision_loop C ts instance apps (p\<lparr>pvRejected := pvRejected p @ [rejection C instance app]\<rparr>))"
  by (cases "validateAppForProvisioning C instance app") (auto simp: rejection_def split: bool.splits)

lemma provision_loop_valid:
  "provision_loop C ts instance apps p = (None, p') \<Longrightarrow>
     pvValid p' = pvValid p @ filter (admitted C instance) apps \<and>
     pvRejected p' = pvRejected p @ map (rejection C instance) (filter (\<lambda>a. \<not> admitted C instance a) apps)"
proof (induction apps arbitrary: p)
  case Nil
  then show ?case by simp
next
  case (Cons app apps)
  then show ?case
    unfolding provision_loop_step by (auto split: if_splits prod.splits option.splits)
qed

text \<open>An error stops the loop at the first admitted application that cannot be rendered.\<close>

lemma provision_loop_valid_prefix:
  "provision_loop C ts instance apps p = (err, p') \<Longrightarrow>
     set (pvValid p') \<subseteq> set (pvValid p) \<union> {a \<in> set apps. admitted C instance a}"
proof (induction apps arbitrary: p)
  case Nil
  then show ?case by simp
next
  case (Cons app apps)
  show ?case
  proof (cases "admitted C instance app")
    case False
    with Cons.prems Cons.IH show ?thesis unfolding provision_loop_step by fastforce
  next
    case True
    obtain e d where pa: "provision_app C ts instance app (pvData p) = (e, d)" by fastforce
    show ?thesis
    proof (cases e)
      case None
      with Cons.prems True pa have
        "provision_loop C ts instance apps (p\<lparr>pvData := d, pvValid := pvValid p @ [app]\<rparr>) = (err, p')"
        unfolding provision_loop_step by simp
      from Cons.IH [OF this] True show ?thesis by auto
    next
      case (Some x)
      with Cons.prems True pa show ?thesis unfolding provision_loop_step by auto
    qed
  qed
qed

lemma provision_app_frame:
  "provision_app C ts instance app data = (err, data') \<Longrightarrow> k \<notin> app_keys app \<Longrightarrow>
     map_of data' k = map_of data k"
  by (auto simp: provision_app_def app_keys_def capabilities_frame dest: acceptor_frame
      split: option.splits sum.splits)

lemma rev_neqI: "rev x \<noteq> rev y \<Longrightarrow> x \<noteq> y"
  by auto

text \<open>The keys of the capabilities differ from every other key and identify the application.\<close>

lemma capabilities_key_other:
  "capabilities_key a \<in> app_keys b \<longleftrightarrow> AppIdentity a = AppIdentity b"
proof -
  have "capabilities_key a \<noteq> acceptorCfgKey b" "capabilities_key a \<noteq> pemCfgkey b"
    "capabilities_key a \<noteq> certUsersCfgKey b" "capabilities_key a \<noteq> certRolesCfgKey b"
    by (rule rev_neqI, simp add: capabilities_key_def acceptorCfgKey_def pemCfgkey_def certUsersCfgKey_def
        certRolesCfgKey_def AppIdentityPrefixed_def UnderscoreAppIdentityPrefixed_def DashPrefixValue_def
        GetCertUsersKey_def GetCertRolesKey_def)+
  then show ?thesis by (simp add: app_keys_def capabilities_key_inj)
qed

definition app_text :: "controller \<Rightarrow> broker_app \<Rightarrow> string option" where
  "app_text C app =
     (case trackApp app of
        Inl e \<Rightarrow> None | Inr t \<Rightarrow> Some (print_props (prop_keys (cOrder C) (AppIdentity app) t)))"

lemma provision_app_text:
  assumes "provision_app C ts instance app data = (None, data')"
  shows "map_of data' (capabilities_key app) = app_text C app \<and> app_text C app \<noteq> None"
proof -
  from assms obtain d1 where d1: "processCapabilities (cOrder C) app data = Inr d1"
    and a: "processAcceptor ts instance app d1 = (None, data')"
    by (auto simp: provision_app_def split: option.splits sum.splits)
  have "capabilities_key app \<notin> {acceptorCfgKey app, pemCfgkey app, certUsersCfgKey app, certRolesCfgKey app}"
    by (simp, intro conjI) (rule rev_neqI, simp add: capabilities_key_def acceptorCfgKey_def pemCfgkey_def
        certUsersCfgKey_def certRolesCfgKey_def AppIdentityPrefixed_def UnderscoreAppIdentityPrefixed_def
        DashPrefixValue_def GetCertUsersKey_def GetCertRolesKey_def)+
  with a have "map_of data' (capabilities_key app) = map_of d1 (capabilities_key app)"
    by (auto simp: processAcceptor_def Let_def update_conv' split: sum.splits option.splits if_splits)
  with d1 show ?thesis
    by (auto simp: processCapabilities_def app_text_def update_conv' split: sum.splits)
qed

lemma provision_loop_frame:
  "provision_loop C ts instance apps p = (err, p') \<Longrightarrow>
     (\<And>a. a \<in> set apps \<Longrightarrow> admitted C instance a \<Longrightarrow> k \<notin> app_keys a) \<Longrightarrow>
     map_of (pvData p') k = map_of (pvData p) k"
proof (induction apps arbitrary: p)
  case Nil
  then show ?case by simp
next
  case (Cons app apps)
  show ?case
  proof (cases "admitted C instance app")
    case False
    with Cons.prems(1)
    have "provision_loop C ts instance apps (p\<lparr>pvRejected := pvRejected p @ [rejection C instance app]\<rparr>) = (err, p')"
      unfolding provision_loop_step by simp
    from Cons.IH [OF this] Cons.prems(2) show ?thesis by simp
  next
    case True
    obtain e d where pa: "provision_app C ts instance app (pvData p) = (e, d)" by fastforce
    have k: "map_of d k = map_of (pvData p) k"
      by (rule provision_app_frame [OF pa]) (use Cons.prems(2) True in simp)
    show ?thesis
    proof (cases e)
      case None
      with Cons.prems(1) True pa have
        "provision_loop C ts instance apps (p\<lparr>pvData := d, pvValid := pvValid p @ [app]\<rparr>) = (err, p')"
        unfolding provision_loop_step by simp
      from Cons.IH [OF this] Cons.prems(2) k show ?thesis by simp
    next
      case (Some x)
      with Cons.prems(1) True pa k show ?thesis unfolding provision_loop_step by auto
    qed
  qed
qed

text \<open>With distinct identities every admitted application has its own text, whatever the others are.\<close>

lemma provision_loop_text:
  "provision_loop C ts instance apps p = (None, p') \<Longrightarrow>
     distinct (map AppIdentity (filter (admitted C instance) apps)) \<Longrightarrow>
     a \<in> set apps \<Longrightarrow> admitted C instance a \<Longrightarrow>
     map_of (pvData p') (capabilities_key a) = app_text C a \<and> app_text C a \<noteq> None"
proof (induction apps arbitrary: p)
  case Nil
  then show ?case by simp
next
  case (Cons app apps)
  show ?case
  proof (cases "admitted C instance app")
    case False
    with Cons.prems(1)
    have "provision_loop C ts instance apps (p\<lparr>pvRejected := pvRejected p @ [rejection C instance app]\<rparr>) = (None, p')"
      unfolding provision_loop_step by simp
    from Cons.IH [OF this] Cons.prems(2-4) False show ?thesis by auto
  next
    case True
    obtain e d where pa: "provision_app C ts instance app (pvData p) = (e, d)" by fastforce
    with Cons.prems(1) True have e: "e = None" unfolding provision_loop_step by (auto split: option.splits)
    with Cons.prems(1) True pa have rest:
      "provision_loop C ts instance apps (p\<lparr>pvData := d, pvValid := pvValid p @ [app]\<rparr>) = (None, p')"
      unfolding provision_loop_step by simp
    show ?thesis
    proof (cases "a \<in> set apps")
      case in_rest: True
      from Cons.IH [OF rest _ in_rest] Cons.prems(2,4) True show ?thesis by simp
    next
      case False
      with Cons.prems(3) have a: "a = app" by simp
      have "capabilities_key app \<notin> app_keys b" if "b \<in> set apps" "admitted C instance b" for b
        using that Cons.prems(2) True by (force simp: capabilities_key_other)
      with provision_loop_frame [OF rest] provision_app_text [OF pa [unfolded e]] a show ?thesis
        by simp
    qed
  qed
qed

section \<open>The annotation and the status\<close>

lemma annotation_round_trip:
  assumes "\<forall>a \<in> set apps. CHR '','' \<notin> set (appNamespace a) \<and> CHR '','' \<notin> set (appName a)"
    and "map_of (secAnnotations s) ProvisionedAppsAnnotation = Some (join '','' (appIdentities apps))"
  shows "split_annotation s = appIdentities apps"
proof (cases "apps = []")
  case True
  with assms(2) show ?thesis by (simp add: split_annotation_def appIdentities_def)
next
  case False
  have ids: "\<forall>i \<in> set (appIdentities apps). CHR '','' \<notin> set i \<and> i \<noteq> []"
    using assms(1) by (auto simp: appIdentities_def AppIdentity_def NameSpacedValue_def DashPrefixValue_def)
  have ne: "appIdentities apps \<noteq> []"
    using False by (simp add: appIdentities_def) (metis length_sort length_map length_0_conv)
  with ids have "join '','' (appIdentities apps) \<noteq> []" by (subst join_eq_Nil) auto
  with assms(2) split_char_join [OF ne] ids show ?thesis by (simp add: split_annotation_def)
qed

lemma service_deployed_type [simp]: "cType (service_deployed_condition M fmt d err) = DeployedConditionType"
  by (auto simp: service_deployed_condition_def Let_def split: option.splits go_error.splits)

lemma service_deployed_true:
  "cStatus (service_deployed_condition M fmt d err) = ConditionTrue \<longleftrightarrow>
     err = None \<and> (\<exists>b c. d = Some b \<and>
       FindStatusCondition M (brkConditions b) DeployedConditionType = Some c \<and> cStatus c = ConditionTrue)"
  by (auto simp: service_deployed_condition_def Let_def split: option.splits go_error.splits)

lemma appToService_update:
  "set (handle_app_event (UpdateEvent a b)) =
     {r. getServiceRequest a = Some r \<or> getServiceRequest b = Some r}"
  by (auto simp: getServiceRequest_def sameService_def Let_def split: option.splits)

section \<open>When a service is ready\<close>

definition broker_deployed :: "meta_api \<Rightarrow> broker option \<Rightarrow> bool" where
  "broker_deployed M d \<longleftrightarrow>
     (case d of None \<Rightarrow> False | Some b \<Rightarrow> IsStatusConditionTrue M (brkConditions b) DeployedConditionType)"

lemma SetReady_true:
  assumes "meta_ok M" "distinct_types cs"
  shows "IsStatusConditionTrue M (SetReadyCondition M cs) ReadyConditionType \<longleftrightarrow>
    IsStatusConditionTrue M cs DeployedConditionType \<and>
    (\<forall>c \<in> set cs. cType c \<noteq> ReadyConditionType \<longrightarrow> cStatus c \<noteq> ConditionFalse)"
  using assms
  by (auto simp: SetReadyCondition_def Let_def meta_true_find meta_simps NewReadyCondition_def
      ready_over_iff)

lemma SetReady_find:
  assumes "meta_ok M" "distinct_types cs" "t \<noteq> ReadyConditionType"
  shows "FindStatusCondition M (SetReadyCondition M cs) t = FindStatusCondition M cs t"
  using assms by (simp add: SetReadyCondition_def Let_def meta_simps NewReadyCondition_def)

definition service_types :: "string list" where
  "service_types =
     [ValidConditionType, DeployedConditionType, AppsProvisionedConditionType, ReadyConditionType]"

lemma service_ready:
  assumes M: "meta_ok M" and d: "distinct_types (ssConditions (svcStatus i))"
  shows "IsStatusConditionTrue M
      (ssConditions (processServiceStatus M K fmt i dep rej err)) ReadyConditionType \<longleftrightarrow>
    err = None \<and> broker_deployed M dep \<and> applied_secret M K i dep \<noteq> None \<and>
    (\<forall>c \<in> set (ssConditions (svcStatus i)). cType c \<notin> set service_types \<longrightarrow> cStatus c \<noteq> ConditionFalse)"
proof -
  define valid where "valid = (case err of
          Some (ValidationError reason message) \<Rightarrow>
            mk_condition ValidConditionType ConditionFalse reason message
        | _ \<Rightarrow> mk_condition ValidConditionType ConditionTrue ValidConditionSuccessReason '''')"
  define applied where "applied = (if err = None then applied_secret M K i dep else None)"
  define apps where "apps = (case applied of
              Some s \<Rightarrow> mk_condition AppsProvisionedConditionType ConditionTrue
                          AppsProvisionedConditionSyncedReason ''''
            | None \<Rightarrow> mk_condition AppsProvisionedConditionType ConditionFalse
                (if err = None then AppsProvisionedConditionWaitingReason
                 else AppsProvisionedConditionNotReadyReason) '''')"
  define c1 where "c1 = SetStatusCondition M (ssConditions (svcStatus i)) valid"
  define c2 where "c2 = SetStatusCondition M c1 (service_deployed_condition M fmt dep err)"
  define c3 where "c3 = SetStatusCondition M c2 apps"
  have st: "ssConditions (processServiceStatus M K fmt i dep rej err) = SetReadyCondition M c3"
    by (simp add: processServiceStatus_def setServiceValidCondition_def Let_def c1_def c2_def c3_def
        valid_def applied_def apps_def)
  have vt: "cType valid = ValidConditionType"
    by (auto simp: valid_def split: option.splits go_error.splits)
  have at: "cType apps = AppsProvisionedConditionType"
    by (auto simp: apps_def split: option.splits)
  have d1: "distinct_types c1" and d2: "distinct_types c2" and d3: "distinct_types c3"
    using M d by (simp_all add: c1_def c2_def c3_def)
  have dep: "cStatus (service_deployed_condition M fmt dep err) = ConditionTrue \<longleftrightarrow>
      err = None \<and> broker_deployed M dep"
    by (auto simp: service_deployed_true broker_deployed_def meta_true_find [OF M] split: option.splits)
  have "IsStatusConditionTrue M c3 DeployedConditionType \<longleftrightarrow> err = None \<and> broker_deployed M dep"
    using dep by (simp add: meta_true_find [OF M] c3_def c2_def meta_find_set [OF M] d1 d2 [unfolded c2_def] at)
  moreover have "set c3 = {apps, service_deployed_condition M fmt dep err, valid} \<union>
      {c \<in> set (ssConditions (svcStatus i)). cType c \<notin> {ValidConditionType, DeployedConditionType, AppsProvisionedConditionType}}"
    using M d d1 d2 by (auto simp: c3_def c2_def c1_def at vt)
  moreover have "cStatus apps \<noteq> ConditionFalse \<longleftrightarrow> err = None \<and> applied_secret M K i dep \<noteq> None"
    by (auto simp: apps_def applied_def split: option.splits)
  moreover have "err = None \<Longrightarrow> cStatus valid \<noteq> ConditionFalse"
    by (simp add: valid_def)
  ultimately show ?thesis
    unfolding st SetReady_true [OF M d3] using dep at vt
    by (auto simp: service_types_def)
qed

lemma provisioned_of_status:
  "ssProvisionedApps (processServiceStatus M K fmt i dep rej err) =
     (case (if err = None then applied_secret M K i dep else None) of
        Some s \<Rightarrow> split_annotation s | None \<Rightarrow> ssProvisionedApps (svcStatus i))"
  by (simp add: processServiceStatus_def Let_def)

section \<open>When nothing is applied\<close>

text \<open>An error before the synchronisation leaves the server as it was.\<close>

lemma service_steps_error:
  "processSpec E instance L = (Some e, rej, L') \<Longrightarrow> validateServiceSpec (cCel (seController E)) instance = None \<Longrightarrow>
     InitDeployed (seListed E) new_loop = (None, L) \<Longrightarrow>
     service_steps E instance s = (Some (PlainError e), rej, L', s)"
  by (simp add: service_steps_def)

lemma provision_loop_fails:
  assumes "a \<in> set apps" "admitted C instance a" "trackApp a = Inl e" "common_ValidateResourceName (appName a) = None"
  shows "fst (provision_loop C ts instance apps p) \<noteq> None"
proof
  assume none: "fst (provision_loop C ts instance apps p) = None"
  have fails: "fst (provision_app C ts instance a d) \<noteq> None" for d
    using assms by (simp add: provision_app_def processCapabilities_def)
  from none assms(1) show False
  proof (induction apps arbitrary: p)
    case Nil
    then show ?case by simp
  next
    case (Cons b apps)
    show ?case
    proof (cases "b = a")
      case True
      with Cons.prems(1) fails [of "pvData p"] assms(2) show ?thesis
        unfolding provision_loop_step by (auto split: prod.splits option.splits)
    next
      case False
      with Cons show ?thesis
        unfolding provision_loop_step by (auto split: prod.splits option.splits if_splits)
    qed
  qed
qed

lemma processSpec_fails:
  assumes "kListApps (cKube (seController E)) (serviceKey instance) = Inr apps"
    and "a \<in> set apps" "admitted (seController E) instance a" "trackApp a = Inl e"
    and "common_ValidateResourceName (appName a) = None"
  shows "\<exists>e rej L'. processSpec E instance L = (Some e, rej, L')"
proof -
  obtain err p where r: "provision_loop (seController E) (trust_store E) instance apps
      \<lparr>pvData = [], pvRejected = [], pvValid = []\<rparr> = (err, p)" by fastforce
  with provision_loop_fails [OF assms(2-5), of "trust_store E" "\<lparr>pvData = [], pvRejected = [], pvValid = []\<rparr>"]
  obtain x where "err = Some x" by auto
  with r assms(1) show ?thesis
    by (simp add: processSpec_def processBroker_def processAppSecrets_def Let_def serviceKey_def)
qed

end
