(* ===== verification/Sample_Cluster.thy ===== *)
theory Sample_Cluster
  imports App_Cluster Service_Reconcile
begin

text \<open>
  Concrete instances of the third-party code the model takes as arguments (the API server, the client,
  the comparator, the CEL environment, the cache), with proofs that they behave as documented, and a
  small cluster.  The witnesses of the properties are evaluated on them.
\<close>

section \<open>CEL\<close>

text \<open>An environment in which every expression is the identifier \<open>appNamespace\<close> and holds.\<close>

definition sample_ast :: cel_ast where
  "sample_ast = \<lparr>astExpr = IdentExpr ''appNamespace'', astOutputBool = True, astOutputType = ''bool''\<rparr>"

definition sample_cel :: cel_env where
  "sample_cel =
     \<lparr>celCompile = (\<lambda>e. Inr sample_ast), celProgram = (\<lambda>ast. Inr (\<lambda>act. Inr (CelBool True))),
      celApp = (\<lambda>app. Inr (JString (appName app))), celService = (\<lambda>s. Inr (JString (svcName s))),
      celGetNamespace = (\<lambda>n. Inr (JString n)), celNamespace = (\<lambda>ns. Inr ns),
      hasNamespacePermission = True\<rparr>"

definition sample_metadata :: celProgramMetadata where
  "sample_metadata =
     \<lparr>mdProgram = (\<lambda>act. Inr (CelBool True)), usesAppNamespace = True, usesServiceNamespace = False\<rparr>"

lemma sample_compiles [simp]: "compileProgram sample_cel e = Inr sample_metadata"
  by (simp add: compileProgram_def sample_cel_def sample_ast_def analyzeVariableUsage_def
      sample_metadata_def)

lemma sample_local: "program_local sample_cel"
  by (simp add: program_local_def sample_cel_def)

lemma sample_runs [simp]: "runProgram sample_cel sample_metadata app service = Inr True"
  by (simp add: runProgram_def sample_metadata_def sample_cel_def)

lemma sample_matches [simp]: "matches_uncached sample_cel app service = Inr True"
  by (simp add: matches_uncached_def Let_def)

text \<open>A cache that keeps everything.\<close>

definition sample_lru :: "(string \<times> celProgramMetadata) list lru" where
  "sample_lru = \<lparr>lPeek = map_of, lGet = (\<lambda>c k. (map_of c k, c)), lAdd = (\<lambda>c k m. (k, m) # c)\<rparr>"

lemma sample_lru_ok: "lru_ok sample_lru"
  by (simp add: lru_ok_def sample_lru_def)

section \<open>The API server\<close>

definition sample_selector :: "label_selector option \<Rightarrow> selector" where
  "sample_selector s =
     \<lparr>selMatches = (\<lambda>ls. case s of None \<Rightarrow> True | Some x \<Rightarrow> list_all (\<lambda>l. l \<in> set ls) (matchLabels x)),
      selString = ''''\<rparr>"

definition sample_kube :: "broker_service list \<Rightarrow> broker_app list \<Rightarrow> secret list \<Rightarrow> kube" where
  "sample_kube services apps secrets =
     \<lparr>kSelector = (\<lambda>s. Inr (sample_selector s)),
      kListServices = (\<lambda>s. Inr services),
      kListApps = (\<lambda>key. Inr (filter (\<lambda>app. key \<in> set (app_binding_index app)) apps)),
      kListAllApps = Inr apps,
      kGetApp = (\<lambda>ns n. case List.find (\<lambda>a. appNamespace a = ns \<and> appName a = n) apps of
         Some a \<Rightarrow> Inr a | None \<Rightarrow> Inl (NotFound ''not found'')),
      kGetService = (\<lambda>ns n. case List.find (\<lambda>s. svcNamespace s = ns \<and> svcName s = n) services of
         Some s \<Rightarrow> Inr s | None \<Rightarrow> Inl (NotFound ''not found'')),
      kGetSecret = (\<lambda>ns n. case List.find (\<lambda>s. secNamespace s = ns \<and> secName s = n) secrets of
         Some s \<Rightarrow> Inr s | None \<Rightarrow> Inl (NotFound ''not found''))\<rparr>"

lemma sample_index: "index_ok (sample_kube services apps secrets) apps"
  by (simp add: index_ok_def sample_kube_def)

type_synonym store = "kind \<Rightarrow> string \<Rightarrow> resource option"

definition put_resource :: "store \<Rightarrow> resource \<Rightarrow> resource option \<Rightarrow> store" where
  "put_resource s r v = s(kind_of r := (s (kind_of r))(res_name r := v))"

definition sample_client :: "store client" where
  "sample_client =
     \<lparr>clCreate = (\<lambda>s r. (None, put_resource s r (Some r))),
      clUpdate = (\<lambda>s r. (None, put_resource s r (Some r))),
      clDelete = (\<lambda>s r. (None, put_resource s r None)),
      clStored = (\<lambda>s. s)\<rparr>"

lemma sample_client_ok: "client_ok sample_client"
  by (simp add: client_ok_def write_ok_def sample_client_def put_resource_def)

lemma sample_updates: "updates_valid sample_client"
  by (simp add: updates_valid_def sample_client_def)

lemma sample_deletes: "deletes_succeed sample_client"
  by (simp add: deletes_succeed_def sample_client_def)

text \<open>A client that refuses to delete and rejects every update as invalid.\<close>

definition refusing_client :: "store client" where
  "refusing_client =
     \<lparr>clCreate = (\<lambda>s r. (None, put_resource s r (Some r))),
      clUpdate = (\<lambda>s r. (Some (StatusError ''immutable field'' ''Failure'' 422 ''Invalid''), s)),
      clDelete = (\<lambda>s r. (Some (OtherError ''forbidden''), s)),
      clStored = (\<lambda>s. s)\<rparr>"

lemma refusing_client_ok: "client_ok refusing_client"
  by (simp add: client_ok_def write_ok_def refusing_client_def put_resource_def)

definition sample_compare :: compare_api where
  "sample_compare =
     \<lparr>cmpEqualPair = (\<lambda>a b. a = b), cmpEqualSpec = (\<lambda>a b. a = b),
      cmpDeltas = (\<lambda>equal dep requested k.
        (let req = filter (\<lambda>r. kind_of r = k) requested; names = map res_name (dep k)
         in Some \<lparr>Added = filter (\<lambda>r. res_name r \<notin> set names) req,
                  Updated = filter (\<lambda>r. \<exists>x \<in> set (dep k). res_name x = res_name r \<and> \<not> equal k x r) req,
                  Removed = filter (\<lambda>x. res_name x \<notin> set (map res_name req)) (dep k)\<rparr>))\<rparr>"

lemma sample_compare_ok: "compare_ok sample_compare"
  by (simp add: compare_ok_def sample_compare_def delta_ok_def Let_def)

section \<open>A small cluster\<close>

definition quantity_of :: "int64 \<Rightarrow> quantity" where
  "quantity_of n = \<lparr>qValue = n, qIsZero = (n = 0), qString = itoa (sint n)\<rparr>"

definition fresh_app :: "string \<Rightarrow> string \<Rightarrow> app_capability list \<Rightarrow> broker_app" where
  "fresh_app ns n caps =
     \<lparr>appNamespace = ns, appName = n, appGeneration = 1, appDeleted = False, appSelector = None,
      appAddresses = [], appSharedAddresses = [], appCapabilities = caps,
      appMemoryRequest = quantity_of 100,
      appStatus = \<lparr>asObservedGeneration = 0, asConditions = [], asService = None\<rparr>\<rparr>"

definition plain_local :: "string \<Rightarrow> address_ref" where
  "plain_local a = plain_ref a '''' ''''"

text \<open>An application that sends to and receives from its own address.\<close>

definition sample_app :: broker_app where
  "sample_app = fresh_app ''dev'' ''shop''
     [\<lparr>ProducerOf = [plain_local ''orders''], ConsumerOf = [plain_local ''orders'']\<rparr>]"

definition bind :: "service_binding option \<Rightarrow> broker_app \<Rightarrow> broker_app" where
  "bind b app = app\<lparr>appStatus := (appStatus app)\<lparr>asService := b\<rparr>\<rparr>"

definition deployed_true :: condition where
  "deployed_true = mk_condition DeployedConditionType ConditionTrue ReadyConditionReason ''''"

definition sample_service :: "string \<Rightarrow> int64 \<Rightarrow> broker_service" where
  "sample_service n memory =
     \<lparr>svcNamespace = ''dev'', svcName = n, svcLabels = [], svcMemoryLimit = quantity_of memory,
      svcEnv = [], svcImage = None, svcAppSelectorExpression = '''',
      svcStatus = \<lparr>ssConditions = [deployed_true], ssProvisionedApps = [], ssRejectedApps = []\<rparr>\<rparr>"

definition sample_controller :: "broker_service list \<Rightarrow> broker_app list \<Rightarrow> secret list \<Rightarrow> controller" where
  "sample_controller services apps secrets =
     \<lparr>cMeta = meta_instance, cKube = sample_kube services apps secrets, cCel = sample_cel,
      cOrder = (\<lambda>ks. ks)\<rparr>"

lemma sample_controller_sel [simp]:
  "cMeta (sample_controller ss as ks) = meta_instance"
  "cKube (sample_controller ss as ks) = sample_kube ss as ks"
  "cCel (sample_controller ss as ks) = sample_cel"
  "cOrder (sample_controller ss as ks) = (\<lambda>ks. ks)"
  by (simp_all add: sample_controller_def)

text \<open>The requests of one application, on a client whose state is not observed.\<close>

definition unit_client :: "unit client" where
  "unit_client = \<lparr>clCreate = (\<lambda>s r. (None, ())), clUpdate = (\<lambda>s r. (None, ())),
     clDelete = (\<lambda>s r. (None, ())), clStored = (\<lambda>s k n. None)\<rparr>"

definition sample_env :: "broker_service list \<Rightarrow> broker_app list \<Rightarrow> unit app_env" where
  "sample_env services apps =
     \<lparr>aeController = sample_controller services apps [], aeDomain = ''cluster.local'',
      aeListed = Inr (\<lambda>k. []), aeClient = unit_client, aeCompare = sample_compare,
      aeUpdateStatus = (\<lambda>a. None)\<rparr>"

lemma sample_env_sel [simp]: "aeController (sample_env ss as) = sample_controller ss as []"
  by (simp add: sample_env_def)

lemma sample_selected [simp]: "matchesServiceSelector (sample_controller ss as ks) app service = Inr True"
  by (simp add: matchesServiceSelector_def)

lemma sample_kube_sel [simp]:
  "kSelector (sample_kube ss as ks) x = Inr (sample_selector x)"
  "kListServices (sample_kube ss as ks) sel = Inr ss"
  "kListApps (sample_kube ss as ks) key = Inr (filter (\<lambda>app. key \<in> set (app_binding_index app)) as)"
  "kListAllApps (sample_kube ss as ks) = Inr as"
  by (simp_all add: sample_kube_def)

lemma sample_app_sel [simp]:
  "appNamespace sample_app = ''dev''" "appName sample_app = ''shop''" "appGeneration sample_app = 1"
  "appSelector sample_app = None" "appAddresses sample_app = []" "appSharedAddresses sample_app = []"
  "appCapabilities sample_app = [\<lparr>ProducerOf = [plain_local ''orders''], ConsumerOf = [plain_local ''orders'']\<rparr>]"
  "appMemoryRequest sample_app = quantity_of 100"
  "appStatus sample_app = \<lparr>asObservedGeneration = 0, asConditions = [], asService = None\<rparr>"
  by (simp_all add: sample_app_def fresh_app_def)

lemma sample_service_sel [simp]:
  "svcNamespace (sample_service n m) = ''dev''" "svcName (sample_service n m) = n"
  "svcLabels (sample_service n m) = []" "svcMemoryLimit (sample_service n m) = quantity_of m"
  "svcStatus (sample_service n m) =
     \<lparr>ssConditions = [deployed_true], ssProvisionedApps = [], ssRejectedApps = []\<rparr>"
  by (simp_all add: sample_service_def)

lemma plain_local_sel [simp]:
  "arAddress (plain_local a) = a" "arAppNamespace (plain_local a) = ''''"
  "arAppName (plain_local a) = ''''" "arPubSub (plain_local a) = None"
  "arSubscriptions (plain_local a) = []" "is_local (plain_local a)" "\<not> ref_multicast (plain_local a)"
  by (simp_all add: plain_local_def plain_ref_def is_local_def ref_multicast_def isMulticast_iff)

lemma quantity_of_sel [simp]:
  "qValue (quantity_of n) = n" "qIsZero (quantity_of n) \<longleftrightarrow> n = 0"
  by (simp_all add: quantity_of_def)

lemma bind_sel [simp]:
  "appNamespace (bind b app) = appNamespace app" "appName (bind b app) = appName app"
  "appGeneration (bind b app) = appGeneration app" "appSelector (bind b app) = appSelector app"
  "appAddresses (bind b app) = appAddresses app"
  "appSharedAddresses (bind b app) = appSharedAddresses app"
  "appCapabilities (bind b app) = appCapabilities app"
  "appMemoryRequest (bind b app) = appMemoryRequest app"
  "appStatus (bind b app) = (appStatus app)\<lparr>asService := b\<rparr>"
  by (simp_all add: bind_def)

lemma valid_shop [simp]: "common_ValidateResourceName ''shop'' = None"
  by (simp add: common_ValidateResourceName_def has_prefix_def)

lemma sample_spec_ok: "spec_ok (bind b sample_app)"
  by (simp add: spec_ok_def capability_ok_def producer_ok_def consumer_ok_def ref_ok_def routing_ok_def
      app_refs_def declaredAddresses_def)

lemma sample_owned [simp]: "collectOwnedAddresses (bind b sample_app) = [''orders'']"
  by (simp add: collectOwnedAddresses_def extractBaseAddress_def)

lemma sample_refs [simp]: "checkAddressRefCapacity C (bind b sample_app) service = None"
  by (simp add: checkAddressRefCapacity_def checkAddressRef_def)

lemma first_port [simp]: "assignNextAvailablePort (collectUsedPorts [] x) = Inr 61616"
  by (simp add: assignNextAvailablePort_def assign_from.simps MaxValidPort_def DefaultStartPort_def
      collectUsedPorts_def)

lemma sample_others [simp]:
  "listOtherAppsForService (sample_controller ss [bind b sample_app] ks) (bind b' sample_app) service = Inr []"
  by (auto simp: listOtherAppsForService_def)

lemma sample_deployed [simp]:
  "FindStatusCondition meta_instance [deployed_true] DeployedConditionType = Some deployed_true"
  "cStatus deployed_true = ConditionTrue"
  by (simp_all add: meta_instance_def deployed_true_def)

lemma sample_considered:
  "sint m > 100 \<Longrightarrow>
     considerService (sample_controller ss [bind b sample_app] ks) (bind b' sample_app) (sample_service n m) =
       Inr (m, 61616)"
  by (auto simp: considerService_def checkAddressClashOnService_def getAvailableMemory_def)

end
