(* ===== verification/App_Properties.thy ===== *)
theory App_Properties
  imports Sample_Cluster
begin

text \<open>
  The properties of the applications' side: ports over all histories of the cluster, validation,
  placement, the binding, the status and the watches.  Each property is followed by its witness, which
  applies it to the sample cluster.
\<close>

section \<open>Ports\<close>

text \<open>The binding a valid application ends with is the one the resolution chose.\<close>

lemma reconciled_binding:
  "validateSpec i = None \<Longrightarrow>
     asService (aoStatus (Reconcile E i s)) = rsBinding (resolveBrokerService (aeController E) i)"
  by (auto simp: Reconcile_def reconcile_steps_def processStatus_def Let_def
      split: option.splits prod.splits)

lemma sample_found:
  "sint m > 100 \<Longrightarrow>
     findServiceWithCapacity (sample_controller ss [bind b sample_app] ks) (bind b' sample_app)
       [sample_service n m] = Inr (sample_service n m, 61616)"
  by (simp add: findServiceWithCapacity_def sample_considered)

lemma sample_resolved:
  "sint m > 100 \<Longrightarrow>
     resolveBrokerService (sample_controller [sample_service n m] [bind b sample_app] ks) (bind None sample_app) =
       \<lparr>rsBinding = Some (new_binding sample_app (sample_service n m) 61616),
        rsService = Some (sample_service n m), rsError = None\<rparr>"
  by (simp add: resolveBrokerService_def inspectBinding_def sample_found new_binding_def)

lemma sample_reachable:
  obtains a b where "reachable [a]" "asService (appStatus a) = Some b" "sbAssignedPort b = 61616"
    "binding_key b = ''dev:main''"
proof -
  define app where "app = bind None sample_app"
  define E where "E = sample_env [sample_service ''main'' 1000] [app]"
  define st where "st = aoStatus (Reconcile E app ())"
  have "cluster_step [] [app]"
    by (rule cluster_step.create) (simp_all add: app_def)
  moreover have "cluster_step [app] (set_status app st [app])"
    unfolding st_def
    by (rule cluster_step.reconcile) (simp_all add: E_def sample_index)
  ultimately have r: "reachable (set_status app st [app])"
    unfolding reachable_def by (meson r_into_rtranclp rtranclp_trans)
  have "asService st = Some (new_binding sample_app (sample_service ''main'' 1000) 61616)"
    using sample_spec_ok
    by (simp add: st_def app_def reconciled_binding validateSpec_None E_def sample_resolved)
  with r show ?thesis
    using that [of "app\<lparr>appStatus := st\<rparr>"]
    by (simp add: set_status_def serviceKey_def)
qed

text \<open>
  C1: in every state the cluster can reach, by creating, editing, deleting and reconciling
  applications in any order, a bound application has a port of the pool, and no other application
  bound to the same service has that port.
\<close>

theorem reachable_ports_exclusive:
  assumes "reachable apps" "a \<in> set apps" "asService (appStatus a) = Some b"
  shows "61616 \<le> sint (sbAssignedPort b) \<and> sint (sbAssignedPort b) \<le> 65535 \<and>
    (\<forall>c \<in> set apps. \<forall>d. asService (appStatus c) = Some d \<and> binding_key d = binding_key b \<and>
       sbAssignedPort d = sbAssignedPort b \<longrightarrow> same_app c a)"
proof -
  note inv = exclusiveD [OF reachable_exclusive [OF assms(1)]]
  from assms(3) have bp: "bound_port a = Some (binding_key b, sbAssignedPort b)"
    by (simp add: bound_port_def)
  from inv(2) [OF assms(2) bp] have "sbAssignedPort b \<in> port_range" .
  moreover have "same_app c a" if "c \<in> set apps" "asService (appStatus c) = Some d"
    "binding_key d = binding_key b" "sbAssignedPort d = sbAssignedPort b" for c d
  proof -
    from that(2-4) assms(3) have "bound_port c = bound_port a" "bound_port c \<noteq> None"
      by (simp_all add: bound_port_def)
    with inv(3) [OF that(1) assms(2)] show ?thesis by blast
  qed
  ultimately show ?thesis
    by (auto simp: port_range_def DefaultStartPort_def MaxValidPort_def)
qed

theorem reachable_ports_exclusive_witness:
  "\<exists>a b. reachable [a] \<and> asService (appStatus a) = Some b \<and> 61616 \<le> sint (sbAssignedPort b)"
proof -
  from sample_reachable obtain a b where "reachable [a]" "asService (appStatus a) = Some b" by metis
  with reachable_ports_exclusive [of "[a]" a b] show ?thesis by auto
qed

lemma indexed_iff:
  "key \<in> set (app_binding_index a) \<longleftrightarrow> (\<exists>b. asService (appStatus a) = Some b \<and> binding_key b = key)"
  by (cases "asService (appStatus a)") (auto simp: app_binding_index_def)

text \<open>
  C36: a service never holds more applications than the pool has ports, 3920, in any reachable state.
\<close>

theorem service_app_bound:
  assumes "reachable apps"
  shows "length (filter (\<lambda>a. \<exists>b. asService (appStatus a) = Some b \<and> binding_key b = key) apps) \<le> 3920"
proof -
  have "filter (\<lambda>a. \<exists>b. asService (appStatus a) = Some b \<and> binding_key b = key) apps = bound_to key apps"
    by (simp add: bound_to_def indexed_iff)
  with exclusive_bound [OF reachable_exclusive [OF assms], of key] show ?thesis
    by (simp add: card_port_range)
qed

theorem service_app_bound_witness:
  "\<exists>a. reachable [a] \<and>
     length (filter (\<lambda>a. \<exists>b. asService (appStatus a) = Some b \<and> binding_key b = ''dev:main'') [a]) \<in> {1..3920}"
proof -
  from sample_reachable obtain a b where a: "reachable [a]" "asService (appStatus a) = Some b"
    "binding_key b = ''dev:main''" by metis
  with service_app_bound [OF a(1), of "''dev:main''"] show ?thesis by auto
qed

section \<open>Validation\<close>

text \<open>
  C19: the validation of a spec, with its nested loops and maps, accepts exactly the applications
  whose name is safe, whose references are well formed, whose routing is consistent in every capability
  and with the declarations, and whose private and shared addresses are disjoint.
\<close>

theorem validation_exact: "validateSpec app = None \<longleftrightarrow> spec_ok app"
  by (rule validateSpec_None)

section \<open>Placement\<close>

text \<open>
  C2: a service chosen for an application is one of the list that is deployed, selects the
  application, satisfies its address references and has no address of its own declared by another
  application; its available memory covers the request and is the greatest among the acceptable
  services; and the port is in the pool and free on that service.
\<close>

theorem placement_sound:
  assumes idx: "index_ok (cKube C) apps"
    and found: "findServiceWithCapacity C i services = Inr (s, p)"
  shows "s \<in> set services \<and>
    (\<exists>c. FindStatusCondition (cMeta C) (ssConditions (svcStatus s)) DeployedConditionType = Some c \<and>
         cStatus c = ConditionTrue) \<and>
    matchesServiceSelector C i s = Inr True \<and> checkAddressRefCapacity C i s = None \<and>
    checkAddressClashOnService C i s = None \<and>
    (\<exists>available. getAvailableMemory C i s = Inr available \<and>
       sint (qValue (appMemoryRequest i)) \<le> sint available \<and>
       (\<forall>s' \<in> set services. \<forall>a' p'. considerService C i s' = Inr (a', p') \<longrightarrow> sint a' \<le> sint available)) \<and>
    p \<in> port_range \<and>
    (\<forall>x \<in> set apps. \<forall>b. \<not> same_app x i \<and> asService (appStatus x) = Some b \<and>
       binding_key b = serviceKey s \<longrightarrow> sbAssignedPort b \<noteq> p)"
proof -
  from find_chosen [OF found] obtain a where s: "s \<in> set services"
    and c: "considerService C i s = Inr (a, p)"
    and best: "\<forall>s' \<in> set services. \<forall>a' p'. considerService C i s' = Inr (a', p') \<longrightarrow> sint a' \<le> sint a"
    by blast
  note d = considerService_InrD [OF c]
  have mem: "\<exists>available. getAvailableMemory C i s = Inr available \<and>
       sint (qValue (appMemoryRequest i)) \<le> sint available \<and>
       (\<forall>s' \<in> set services. \<forall>a' p'. considerService C i s' = Inr (a', p') \<longrightarrow> sint a' \<le> sint available)"
    using d(5,6) best by blast
  have free: "\<forall>x \<in> set apps. \<forall>b. \<not> same_app x i \<and> asService (appStatus x) = Some b \<and>
       binding_key b = serviceKey s \<longrightarrow> sbAssignedPort b \<noteq> p"
    using considered_port(2) [OF idx c] by blast
  show ?thesis
    by (intro conjI s d(1-4) mem considered_port(1) [OF idx c] free)
qed

theorem placement_sound_witness:
  "\<exists>s. findServiceWithCapacity (sample_controller [] [bind None sample_app] []) (bind None sample_app)
      [sample_service ''main'' 1000] = Inr (s, 61616) \<and> svcName s = ''main'' \<and>
    (61616 :: int32) \<in> port_range"
proof -
  let ?C = "sample_controller [] [bind None sample_app] []"
  have f: "findServiceWithCapacity ?C (bind None sample_app) [sample_service ''main'' 1000] =
      Inr (sample_service ''main'' 1000, 61616)"
    by (rule sample_found) simp
  have "index_ok (cKube ?C) [bind None sample_app]" by (simp add: sample_index)
  from placement_sound [OF this f] f show ?thesis by (intro exI [of _ "sample_service ''main'' 1000"]) simp
qed

text \<open>
  Placement succeeds exactly when some service of the list is acceptable; otherwise the error
  reports the rejection of every service, in the order of the list.
\<close>

theorem placement_complete:
  "case findServiceWithCapacity C i services of
     Inr chosen \<Rightarrow> \<exists>s \<in> set services. \<exists>ap. considerService C i s = Inr ap
   | Inl e \<Rightarrow> (\<forall>s \<in> set services. \<exists>r. considerService C i s = Inl r) \<and>
       e = (if services = [] then PlainError ''no services in list''
            else buildCapacityError (rejections_of C i services) (appMemoryRequest i))"
proof (cases "findServiceWithCapacity C i services")
  case (Inl e)
  with find_failed [OF Inl] show ?thesis by (auto simp: findServiceWithCapacity_def)
next
  case (Inr chosen)
  with find_succeeds_iff [of C i services] show ?thesis by auto
qed

lemma sample_too_small:
  "considerService (sample_controller ss [bind b sample_app] ks) (bind b' sample_app) (sample_service n 50) =
     Inl (reject (sample_service n 50) RejectionMemory
       ''insufficient memory (available: 50, required: 100)'')"
  by (auto simp: considerService_def checkAddressClashOnService_def getAvailableMemory_def itoa_def
      nat_to_string.simps digit_chars)

theorem placement_complete_witness:
  "\<exists>e. findServiceWithCapacity (sample_controller [] [bind None sample_app] []) (bind None sample_app)
      [sample_service ''main'' 50] = Inl e \<and>
    e = buildCapacityError [reject (sample_service ''main'' 50) RejectionMemory
          ''insufficient memory (available: 50, required: 100)''] (quantity_of 100)"
proof -
  let ?C = "sample_controller [] [bind None sample_app] []" and ?i = "bind None sample_app"
  have "\<exists>e. findServiceWithCapacity ?C ?i [sample_service ''main'' 50] = Inl e"
    by (simp add: findServiceWithCapacity_def sample_too_small)
  with placement_complete [where C = ?C and i = ?i and services = "[sample_service ''main'' 50]"] show ?thesis
    by (auto simp: rejections_of_def sample_too_small)
qed

text \<open>
  C29: when the service an application is bound to is in the list, the binding, with its port, is
  kept exactly as long as the service does not reject the application, selects it, satisfies its
  references and has no clash; otherwise it is replaced by a new placement or removed.
\<close>

theorem binding_kept_while_valid:
  assumes listed: "listed_services C i services" and b: "asService (appStatus i) = Some b"
    and find: "List.find (\<lambda>c. svcNamespace c = sbNamespace b \<and> svcName c = sbName b) services = Some s"
  shows "if binding_holds C i s
    then resolveBrokerService C i = \<lparr>rsBinding = Some b, rsService = Some s, rsError = None\<rparr>
    else (case findServiceWithCapacity C i services of
            Inr (s', p) \<Rightarrow> resolveBrokerService C i =
              \<lparr>rsBinding = Some (new_binding i s' p), rsService = Some s', rsError = None\<rparr>
          | Inl e \<Rightarrow> rsBinding (resolveBrokerService C i) = None \<and> rsError (resolveBrokerService C i) \<noteq> None)"
proof (cases "binding_holds C i s")
  case True
  with resolve_keeps [OF listed b find] show ?thesis by simp
next
  case False
  show ?thesis
  proof (cases "findServiceWithCapacity C i services")
    case (Inr sp)
    with False resolve_moves [OF listed b find False, of "fst sp" "snd sp"] show ?thesis
      by (cases sp) simp
  next
    case (Inl e)
    from find have "services \<noteq> []" by auto
    with Inl False listed b find show ?thesis
      by (auto simp: listed_services_def resolveBrokerService_def inspectBinding_def)
  qed
qed

theorem binding_kept_while_valid_witness:
  "\<exists>C i b s. binding_holds C i s \<and> sbAssignedPort b = 61700 \<and>
     resolveBrokerService C i = \<lparr>rsBinding = Some b, rsService = Some s, rsError = None\<rparr>"
proof -
  define s where "s = sample_service ''main'' 1000"
  define b where "b = new_binding sample_app s 61700"
  define i where "i = bind (Some b) sample_app"
  define C where "C = sample_controller [s] [i] []"
  have holds: "binding_holds C i s"
    by (simp add: binding_holds_def C_def i_def s_def isAppRejectedByService_def
        checkAddressClashOnService_def)
  have "listed_services C i [s]" "asService (appStatus i) = Some b"
    "List.find (\<lambda>c. svcNamespace c = sbNamespace b \<and> svcName c = sbName b) [s] = Some s"
    by (simp_all add: listed_services_def C_def i_def b_def new_binding_def)
  from binding_kept_while_valid [OF this] holds show ?thesis
    by (intro exI [of _ C] exI [of _ i] exI [of _ b] exI [of _ s]) (simp add: b_def)
qed

text \<open>
  the search does not do the check on \<open>RejectedApps\<close> that removes a binding: an application its
  service has rejected is placed on the same service again, when no other check fails there.
\<close>

theorem rejected_app_placed_again:
  assumes "listed_services C i [s]" "asService (appStatus i) = Some b"
    and "sbNamespace b = svcNamespace s" "sbName b = svcName s"
    and "isAppRejectedByService i s" "considerService C i s = Inr (available, p)"
    and "0 \<le> sint available"
  shows "rsBinding (resolveBrokerService C i) = Some (new_binding i s p)"
proof -
  have "findServiceWithCapacity C i [s] = Inr (s, p)"
    using assms(6,7) by (simp add: findServiceWithCapacity_def)
  with resolve_moves [OF assms(1,2), of s s p] assms(3-5) show ?thesis
    by (simp add: binding_holds_def)
qed

theorem rejected_app_placed_again_witness:
  "\<exists>C i s. isAppRejectedByService i s \<and>
     rsBinding (resolveBrokerService C i) = Some (new_binding i s 61616)"
proof -
  define s where "s = (sample_service ''main'' 1000)\<lparr>svcStatus :=
    (svcStatus (sample_service ''main'' 1000))\<lparr>ssRejectedApps :=
       [\<lparr>rejName = ''shop'', rejNamespace = ''dev'', rejReason = ''does not match appSelectorExpression''\<rparr>]\<rparr>\<rparr>"
  define b where "b = new_binding sample_app s 61700"
  define i where "i = bind (Some b) sample_app"
  define C where "C = sample_controller [s] [i] []"
  have c: "considerService C i s = Inr (1000, 61616)"
    by (simp add: considerService_def checkAddressClashOnService_def getAvailableMemory_def C_def i_def s_def)
  have r: "isAppRejectedByService i s" by (simp add: isAppRejectedByService_def i_def s_def)
  have "listed_services C i [s]" "asService (appStatus i) = Some b" "sbNamespace b = svcNamespace s"
    "sbName b = svcName s"
    by (simp_all add: listed_services_def C_def i_def b_def new_binding_def)
  from rejected_app_placed_again [OF this r c] r show ?thesis by auto
qed

section \<open>Status\<close>

text \<open>A synchronisation on a client that never fails reports no error.\<close>

lemma unit_ops [simp]:
  "CreateRequestedResource unit_client s r = (None, ())" "UpdateRequestedResource unit_client s r = (None, ())"
  "DeleteRequestedResource unit_client s r = (None, ())"
  by (simp_all add: CreateRequestedResource_def UpdateRequestedResource_def DeleteRequestedResource_def
      Create_def Update_def Delete_def unit_client_def)

lemma unit_sync: "SyncDesiredWithDeployed unit_client CMP ks L s = (None, ())"
proof -
  have each: "apply_each op rs st = (fst st, ())" if "\<And>s r. op s r = (None, ())"
    for op :: "unit \<Rightarrow> resource \<Rightarrow> string option \<times> unit" and rs and st :: "string list \<times> unit"
    using that by (induction rs arbitrary: st) (auto simp: split_paired_all)
  have "sync_kind unit_client d st = (fst st, ())" for d and st :: "string list \<times> unit"
    by (simp add: sync_kind_def each)
  then have "sync_kinds unit_client f ks st = (fst st, ())" for f and st :: "string list \<times> unit"
    by (induction ks arbitrary: st) (auto split: option.split)
  then show ?thesis by (simp add: SyncDesiredWithDeployed_def)
qed

text \<open>The sample application on a service that has provisioned it.\<close>

definition provisioned_service :: broker_service where
  "provisioned_service = (sample_service ''main'' 1000)\<lparr>svcStatus :=
     \<lparr>ssConditions = [deployed_true], ssProvisionedApps = [''dev-shop''], ssRejectedApps = []\<rparr>\<rparr>"

lemma provisioned_steps:
  "reconcile_steps (sample_env [provisioned_service] [bind None sample_app]) (bind None sample_app) s =
     (None, \<lparr>rsBinding = Some (new_binding sample_app provisioned_service 61616),
             rsService = Some provisioned_service, rsError = None\<rparr>, ())"
proof -
  have c: "considerService (sample_controller [provisioned_service] [bind None sample_app] [])
      (bind None sample_app) provisioned_service = Inr (1000, 61616)"
    by (simp add: considerService_def checkAddressClashOnService_def getAvailableMemory_def provisioned_service_def)
  have r: "resolveBrokerService (sample_controller [provisioned_service] [bind None sample_app] [])
      (bind None sample_app) = \<lparr>rsBinding = Some (new_binding sample_app provisioned_service 61616),
        rsService = Some provisioned_service, rsError = None\<rparr>"
    by (simp add: resolveBrokerService_def inspectBinding_def findServiceWithCapacity_def c new_binding_def)
  have v: "validateSpec (bind None sample_app) = None"
    by (simp only: validateSpec_None sample_spec_ok)
  show ?thesis
    by (simp add: reconcile_steps_def v r sample_env_def InitDeployed_def processBindingSecret_def
        UnassignedPort_def unit_sync Let_def)
qed

text \<open>
  C17: after a reconcile an application is Ready exactly when every step succeeded, it is bound to a
  service of the list, and that service reports it among its provisioned applications; readiness of an
  earlier generation or reconcile is never carried over.
\<close>

theorem app_ready_iff_provisioned:
  assumes "meta_ok (cMeta (aeController E))" "distinct_types (asConditions (appStatus i))"
    and "reconcile_steps E i s = (err, R, s')"
  shows "IsStatusConditionTrue (cMeta (aeController E)) (asConditions (aoStatus (Reconcile E i s)))
      ReadyConditionType \<longleftrightarrow>
    err = None \<and> rsBinding R \<noteq> None \<and>
    (\<exists>service. rsService R = Some service \<and> AppIdentity i \<in> set (ssProvisionedApps (svcStatus service)))"
  using processStatus_ready [OF assms(1,2), of R err] assms(3)
  by (simp add: Reconcile_def Let_def)

theorem app_ready_iff_provisioned_witness:
  "IsStatusConditionTrue meta_instance (asConditions (aoStatus
     (Reconcile (sample_env [provisioned_service] [bind None sample_app]) (bind None sample_app) ())))
     ReadyConditionType"
proof -
  let ?E = "sample_env [provisioned_service] [bind None sample_app]"
  have "meta_ok (cMeta (aeController ?E))" "distinct_types (asConditions (appStatus (bind None sample_app)))"
    by (simp_all add: meta_instance_ok distinct_types_def)
  from app_ready_iff_provisioned [OF this provisioned_steps] show ?thesis
    by (simp add: provisioned_service_def AppIdentity_def NameSpacedValue_def DashPrefixValue_def)
qed

text \<open>
  An invalid spec is not retried and changes nothing that runs: the server is not written, the
  binding is kept, and the Deployed condition stays as it was.
\<close>

theorem invalid_spec_changes_nothing:
  assumes M: "meta_ok (cMeta (aeController E))" and d: "distinct_types (asConditions (appStatus i))"
    and invalid: "validateSpec i = Some e"
    and deployed: "FindStatusCondition (cMeta (aeController E)) (asConditions (appStatus i)) DeployedConditionType = Some c"
  shows "aoError (Reconcile E i s) = None \<and> aoServer (Reconcile E i s) = s \<and>
    asService (aoStatus (Reconcile E i s)) = asService (appStatus i) \<and>
    FindStatusCondition (cMeta (aeController E)) (asConditions (aoStatus (Reconcile E i s)))
      DeployedConditionType = Some c"
proof -
  from validateSpec_kind [OF invalid] have e: "is_validation_error (Some e)" by auto
  have steps: "reconcile_steps E i s =
      (Some e, \<lparr>rsBinding = asService (appStatus i), rsService = None, rsError = None\<rparr>, s)"
    using invalid by (simp add: reconcile_steps_def Let_def)
  have "asService (processStatus (cMeta (aeController E)) i R err) = rsBinding R" for R err
    by (simp add: processStatus_def Let_def)
  then show ?thesis
    using processStatus_deployed [OF M d, of _ "Some e"] e deployed
    by (simp add: Reconcile_def steps Let_def)
qed

definition unsafe_app :: broker_app where
  "unsafe_app = (bind (Some (new_binding sample_app (sample_service ''main'' 1000) 61616)) sample_app)
     \<lparr>appName := ''a/b'',
      appStatus := \<lparr>asObservedGeneration = 0, asConditions = [deployed_true],
        asService = Some (new_binding sample_app (sample_service ''main'' 1000) 61616)\<rparr>\<rparr>"

theorem invalid_spec_changes_nothing_witness:
  "asService (aoStatus (Reconcile (sample_env [] []) unsafe_app ())) \<noteq> None \<and>
   aoError (Reconcile (sample_env [] []) unsafe_app ()) = None"
proof -
  have "common_ValidateResourceName ''a/b'' \<noteq> None" by (simp add: common_ValidateResourceName_def has_prefix_def)
  then have "validateSpec unsafe_app \<noteq> None" by (simp add: validateSpec_None spec_ok_def unsafe_app_def)
  then obtain e where e: "validateSpec unsafe_app = Some e" by auto
  have h: "meta_ok (cMeta (aeController (sample_env [] [])))"
    "distinct_types (asConditions (appStatus unsafe_app))"
    "FindStatusCondition (cMeta (aeController (sample_env [] []))) (asConditions (appStatus unsafe_app))
       DeployedConditionType = Some deployed_true"
    by (simp_all add: meta_instance_ok distinct_types_def unsafe_app_def)
  from invalid_spec_changes_nothing [OF h(1,2) e h(3), of "()"] show ?thesis
    by (simp add: unsafe_app_def)
qed

section \<open>Watches\<close>

text \<open>
  C37: the watch on referenced applications misses no one.  When an application changes in a way the
  watch propagates, every other application whose reference check on some service changes with it is
  enqueued.
\<close>

theorem referenced_watch_complete:
  assumes all: "kListAllApps K = Inr apps" "i \<in> set apps" "\<not> same_app i changed"
    and go: "shouldPropagateWatchForReferencedApp M changed"
    and same: "\<forall>ns n. (ns, n) \<noteq> request_of changed \<longrightarrow> kGetApp (cKube C') ns n = kGetApp (cKube C) ns n"
      "kGetService (cKube C') = kGetService (cKube C)"
    and differs: "checkAddressRefCapacity C' i service \<noteq> checkAddressRefCapacity C i service"
  shows "request_of i \<in> set (enqueueAppsForReferencedApp M K changed)"
proof -
  have "hasAddressRefTo i (appNamespace changed) (appName changed)"
  proof (rule ccontr)
    assume no: "\<not> hasAddressRefTo i (appNamespace changed) (appName changed)"
    have "checkAddressRefCapacity C' i service = checkAddressRefCapacity C i service"
    proof (rule checkCapacity_local [OF _ same(2)])
      fix ns n
      assume "hasAddressRefTo i ns n"
      with no have "(ns, n) \<noteq> request_of changed" by (auto simp: request_of_def)
      with same(1) show "kGetApp (cKube C') ns n = kGetApp (cKube C) ns n" by blast
    qed
    with differs show False ..
  qed
  with all go show ?thesis
    by (auto simp: enqueueAppsForReferencedApp_def same_app_def)
qed

text \<open>An application that receives from an address another application shares.\<close>

definition reader_app :: broker_app where
  "reader_app = fresh_app ''dev'' ''reader''
     [\<lparr>ProducerOf = [], ConsumerOf = [plain_ref ''events'' ''dev'' ''owner'']\<rparr>]"

definition owner_app :: "service_binding option \<Rightarrow> broker_app" where
  "owner_app b = (fresh_app ''dev'' ''owner'' [])\<lparr>
     appSharedAddresses := [\<lparr>atAddress = ''events'', atPubSub = None, atSubscriptions = []\<rparr>],
     appStatus := \<lparr>asObservedGeneration = 1,
       asConditions = [mk_condition ValidConditionType ConditionTrue [] [] \<lparr>cObservedGeneration := 1\<rparr>,
                       mk_condition DeployedConditionType ConditionTrue [] [] \<lparr>cObservedGeneration := 1\<rparr>],
       asService = b\<rparr>\<rparr>"

lemma reader_check:
  "checkAddressRefCapacity (sample_controller ss [reader_app, owner_app b] ks) reader_app service =
     (case b of
        None \<Rightarrow> Some ''referenced app dev/owner not yet provisioned on any service''
      | Some x \<Rightarrow> if binding_key x = serviceKey service then None
                 else Some (checkRefOnOther (sample_controller ss [reader_app, owner_app b] ks) service
                              (plain_ref ''events'' ''dev'' ''owner'') x))"
  by (simp add: checkAddressRefCapacity_def checkAddressRef_def checkSharedAddress_def reader_app_def
      owner_app_def fresh_app_def plain_ref_def sample_kube_def ref_name_def type_multicast_def
      ref_multicast_def isMulticast_iff split: option.split)

theorem referenced_watch_complete_witness:
  "request_of reader_app \<in> set (enqueueAppsForReferencedApp meta_instance
     (sample_kube [] [reader_app, owner_app None] []) (owner_app None))"
proof -
  define s where "s = sample_service ''main'' 1000"
  define b where "b = new_binding sample_app s 61616"
  define apps where "apps = [reader_app, owner_app None]"
  define C where "C = sample_controller [s] apps []"
  define C' where "C' = sample_controller [s] [reader_app, owner_app (Some b)] []"
  have diff: "checkAddressRefCapacity C' reader_app s \<noteq> checkAddressRefCapacity C reader_app s"
    by (simp add: C_def C'_def apps_def reader_check b_def)
  have 1: "kListAllApps (sample_kube [] apps []) = Inr apps" by simp
  have 2: "reader_app \<in> set apps" by (simp add: apps_def)
  have 3: "\<not> same_app reader_app (owner_app None)"
    by (simp add: same_app_def reader_app_def owner_app_def fresh_app_def)
  have 4: "shouldPropagateWatchForReferencedApp meta_instance (owner_app None)"
    by (simp add: shouldPropagateWatchForReferencedApp_def owner_app_def fresh_app_def true_at_def
        meta_instance_def)
  have 5: "\<forall>ns n. (ns, n) \<noteq> request_of (owner_app None) \<longrightarrow>
      kGetApp (cKube C') ns n = kGetApp (cKube C) ns n"
    by (auto simp: C_def C'_def apps_def sample_kube_def request_of_def owner_app_def reader_app_def fresh_app_def)
  have 6: "kGetService (cKube C') = kGetService (cKube C)"
    by (simp add: C_def C'_def sample_kube_def)
  from referenced_watch_complete [OF 1 2 3 4 5 6 diff] show ?thesis by (simp add: apps_def)
qed

section \<open>Memory\<close>

lemma sum_of_words:
  assumes "\<forall>v \<in> set vs. 0 \<le> sint (v :: int64)" "0 \<le> sint m" "sint m + sum_list (map sint vs) < 2 ^ 63"
  shows "sint (foldl (+) m vs) = sint m + sum_list (map sint vs)"
  using assms
proof (induction vs arbitrary: m)
  case Nil
  then show ?case by simp
next
  case (Cons v vs)
  have rest: "0 \<le> sum_list (map sint vs)"
    using Cons.prems(1) by (intro sum_list_nonneg) auto
  have "sint (m + v) = signed_take_bit 63 (sint m + sint v)" by (simp add: sint_word_ariths)
  also have "\<dots> = sint m + sint v"
    using Cons.prems rest by (intro signed_take_bit_int_eq_self) auto
  finally have s: "sint (m + v) = sint m + sint v" .
  from Cons.IH [of "m + v"] Cons.prems s show ?case by simp
qed

text \<open>
  When the requests of the other applications on a limited service fit in 64 bits, the memory
  available is the limit less their sum, and zero when they exceed it; the subtraction does not wrap.
\<close>

theorem available_memory_exact:
  assumes "listOtherAppsForService C i s = Inr apps" "\<not> qIsZero (svcMemoryLimit s)"
    and "0 \<le> sint (qValue (svcMemoryLimit s))" "\<forall>a \<in> set apps. 0 \<le> sint (qValue (appMemoryRequest a))"
    and "sum_list (map (\<lambda>a. sint (qValue (appMemoryRequest a))) apps) < 2 ^ 63"
  shows "\<exists>available. getAvailableMemory C i s = Inr available \<and>
    sint available = max 0 (sint (qValue (svcMemoryLimit s)) -
      sum_list (map (\<lambda>a. sint (qValue (appMemoryRequest a))) apps))"
proof -
  define used where "used = foldl (\<lambda>m app. m + qValue (appMemoryRequest app)) (0 :: int64) apps"
  define limit where "limit = qValue (svcMemoryLimit s)"
  have "used = foldl (+) 0 (map (\<lambda>a. qValue (appMemoryRequest a)) apps)"
    by (simp add: used_def foldl_map)
  with sum_of_words [of "map (\<lambda>a. qValue (appMemoryRequest a)) apps" 0] assms(4,5)
  have u: "sint used = sum_list (map (\<lambda>a. sint (qValue (appMemoryRequest a))) apps)"
    by (simp add: comp_def)
  have nonneg: "0 \<le> sint used" unfolding u using assms(4) by (intro sum_list_nonneg) auto
  have "sint limit < 2 ^ 63" using sint_lt [of limit] by simp
  moreover have "sint (limit - used) = signed_take_bit 63 (sint limit - sint used)"
    by (simp add: sint_word_ariths)
  ultimately have "sint (limit - used) = sint limit - sint used"
    using nonneg assms(3,5) u by (simp add: signed_take_bit_int_eq_self limit_def)
  with u show ?thesis
    by (simp add: getAvailableMemory_def assms(1,2) Let_def used_def [symmetric] limit_def [symmetric] max_def)
qed

theorem available_memory_exact_witness:
  "\<exists>available. getAvailableMemory
     (sample_controller [] [owner_app (Some (new_binding sample_app (sample_service ''main'' 1000) 61616))] [])
     sample_app (sample_service ''main'' 1000) = Inr available \<and> sint available = 900"
proof -
  let ?o = "owner_app (Some (new_binding sample_app (sample_service ''main'' 1000) 61616))"
  have "listOtherAppsForService (sample_controller [] [?o] []) sample_app (sample_service ''main'' 1000) = Inr [?o]"
    by (simp add: listOtherAppsForService_def app_binding_index_def owner_app_def fresh_app_def)
  from available_memory_exact [OF this] show ?thesis
    by (simp add: owner_app_def fresh_app_def)
qed

end
