(* ===== verification/Loop_Properties.thy ===== *)
theory Loop_Properties
  imports Sample_Cluster
begin

text \<open>
  The properties of the reconcile loop every controller runs: what a synchronisation without error
  leaves on the server, and the two paths on which success is reported for a resource that is not as
  desired.
\<close>

section \<open>Convergence\<close>

text \<open>
  C18: when the client writes and deletes what it is asked to, a synchronisation that reports no error
  leaves the server in the desired state: of every kind it orders, each tracked resource is stored
  equal to its desired form by the code's comparator, and nothing else is stored.
\<close>

theorem sync_reaches_desired:
  assumes "client_ok CL" "updates_valid CL" "deletes_succeed CL" "compare_ok CMP" "loop_wf L"
    and "\<forall>k. \<forall>x \<in> set (deployed L k). kind_of x = k"
    and "distinct ordered" "\<forall>k \<in> set ordered. listing_ok (clStored CL s) L k"
    and "SyncDesiredWithDeployed CL CMP ordered L s = (None, s')" "k \<in> set ordered"
  shows "case lookup_desired L k n of
      None \<Rightarrow> clStored CL s' k n = None
    | Some r \<Rightarrow> \<exists>x. clStored CL s' k n = Some x \<and> (x = r \<or> comparator CMP k x r)"
  using sync_converges [OF assms(1-9)] assms(10) unfolding in_sync_def by blast

definition sample_secret :: "string \<Rightarrow> string \<Rightarrow> secret" where
  "sample_secret n v = (NewSecret ''dev'' n)\<lparr>secData := [(''host'', v)]\<rparr>"

definition no_store :: store where
  "no_store = (\<lambda>k n. None)"

text \<open>A stale secret is deployed and another one is desired.\<close>

definition stale :: resource where
  "stale = SecretRes (sample_secret ''old'' ''a'')"

definition fresh :: resource where
  "fresh = SecretRes (sample_secret ''new'' ''b'')"

definition stale_loop :: loop where
  "stale_loop = \<lparr>deployed = (\<lambda>k. if k = SecretKind then [stale] else []), desired = (\<lambda>k. [])\<rparr>"

definition stale_store :: store where
  "stale_store = put_resource no_store stale (Some stale)"

lemma stale_sel [simp]:
  "kind_of stale = SecretKind" "kind_of fresh = SecretKind" "res_name stale = ''old''" "res_name fresh = ''new''"
  by (simp_all add: stale_def fresh_def sample_secret_def NewSecret_def)

lemma stale_loop_sel [simp]:
  "deployed stale_loop k = (if k = SecretKind then [stale] else [])" "desired stale_loop k = []"
  by (simp_all add: stale_loop_def)

lemma stale_listing: "listing_ok stale_store stale_loop k" "listing_ok stale_store (TrackDesired stale_loop r) k"
  by (auto simp: listing_ok_def stale_store_def put_resource_def no_store_def)

lemma stale_wf [simp]: "loop_wf stale_loop"
  by (simp add: loop_wf_def)

lemma stale_sync:
  "SyncDesiredWithDeployed sample_client sample_compare [SecretKind] (TrackDesired stale_loop fresh) stale_store =
     (None, put_resource (put_resource stale_store fresh (Some fresh)) stale None)"
  by (auto simp: SyncDesiredWithDeployed_def sample_compare_def ToResourceList_def all_kinds_def
      TrackDesired_def sync_kind_def CreateRequestedResource_def Create_def DeleteRequestedResource_def
      Delete_def sample_client_def)

theorem sync_reaches_desired_witness:
  "\<exists>s'. SyncDesiredWithDeployed sample_client sample_compare [SecretKind] (TrackDesired stale_loop fresh)
      stale_store = (None, s') \<and>
    s' SecretKind ''old'' = None \<and> s' SecretKind ''new'' \<noteq> None"
proof -
  let ?L = "TrackDesired stale_loop fresh"
  note sync = sync_reaches_desired [OF sample_client_ok sample_updates sample_deletes sample_compare_ok, of ?L
    "[SecretKind]", OF _ _ _ _ stale_sync, of SecretKind]
  have stored: "clStored sample_client = (\<lambda>s. s)" by (simp add: sample_client_def)
  have "lookup_desired ?L SecretKind ''old'' = None" "lookup_desired ?L SecretKind ''new'' = Some fresh"
    by (simp_all add: lookup_desired_def TrackDesired_def)
  with sync [of "''old''"] sync [of "''new''"] stale_listing stale_sync show ?thesis
    by (auto simp: stored)
qed

section \<open>Errors that are not reported\<close>

text \<open>
  The error of a delete is lost.  When every delete fails and nothing is desired, the
  synchronisation reports success, and every resource is still on the server.
\<close>

theorem failed_delete_reported_as_success:
  assumes C: "client_ok CL" and fails: "\<forall>s r. fst (clDelete CL s r) \<noteq> None"
    and CMP: "compare_ok CMP" and none: "\<forall>k. desired L k = []"
  shows "\<exists>s'. SyncDesiredWithDeployed CL CMP ordered L s = (None, s') \<and> clStored CL s' = clStored CL s"
proof -
  let ?D = "cmpDeltas CMP (comparator CMP) (deployed L) (ToResourceList L)"
  have req: "ToResourceList L = []" using none by (simp add: ToResourceList_def all_kinds_def)
  have empty: "Added d = []" "Updated d = []" if "?D k = Some d" for k d
  proof -
    have "delta_ok (comparator CMP k) (deployed L k) [] d"
      using CMP [unfolded compare_ok_def, rule_format, of "comparator CMP" k "deployed L" "[]"] that
      by (simp add: req)
    then show "Added d = []" "Updated d = []" by (simp_all add: delta_ok_def)
  qed
  have del: "\<exists>s'. DeleteRequestedResource CL s r = (None, s') \<and> clStored CL s' = clStored CL s" for s r
  proof -
    obtain e s' where d: "clDelete CL s r = (Some e, s')" using fails by (metis prod.collapse option.collapse)
    with C have "clStored CL s' = clStored CL s" unfolding client_ok_def write_ok_def by blast
    with d show ?thesis by (simp add: DeleteRequestedResource_def Delete_def)
  qed
  have each: "\<exists>s'. apply_each (DeleteRequestedResource CL) rs (errs, s) = (errs, s') \<and>
      clStored CL s' = clStored CL s" for rs errs s
  proof (induction rs arbitrary: s)
    case (Cons r rs)
    from del [of s r] obtain s1 where "DeleteRequestedResource CL s r = (None, s1)"
      "clStored CL s1 = clStored CL s" by blast
    with Cons [of s1] show ?case by auto
  qed simp
  have "\<exists>s'. sync_kinds CL ?D ks (errs, s) = (errs, s') \<and> clStored CL s' = clStored CL s" for ks errs s
  proof (induction ks arbitrary: s)
    case (Cons k ks)
    show ?case
    proof (cases "?D k")
      case None
      with Cons show ?thesis by simp
    next
      case (Some d)
      from each [of "Removed d" errs s] obtain s1 where
        "sync_kind CL d (errs, s) = (errs, s1)" "clStored CL s1 = clStored CL s"
        by (auto simp: sync_kind_def empty [OF Some])
      with Some Cons [of s1] show ?thesis by auto
    qed
  qed simp
  from this [of ordered "[]" s] obtain s' where "sync_kinds CL ?D ordered ([], s) = ([], s')"
    "clStored CL s' = clStored CL s" by blast
  then show ?thesis by (simp add: SyncDesiredWithDeployed_def)
qed

theorem failed_delete_reported_as_success_witness:
  "\<exists>s'. SyncDesiredWithDeployed refusing_client sample_compare [SecretKind] stale_loop stale_store =
      (None, s') \<and> s' SecretKind ''old'' = Some stale"
proof -
  have "\<forall>s r. fst (clDelete refusing_client s r) \<noteq> None" by (simp add: refusing_client_def)
  from failed_delete_reported_as_success [OF refusing_client_ok this sample_compare_ok,
      of stale_loop "[SecretKind]" stale_store]
  show ?thesis
    by (simp add: refusing_client_def stale_store_def put_resource_def)
qed

text \<open>
  an update the server rejects as invalid, such as a change to an immutable field, is answered by a
  delete: it counts as a success, the resource is gone, and no other resource is touched; the next
  reconcile creates it again.
\<close>

theorem invalid_update_deletes:
  assumes "client_ok CL" "clUpdate CL s r = (Some e, s1)" "is_invalid e" "clDelete CL s1 r = (None, s2)"
  shows "UpdateRequestedResource CL s r = (None, s2) \<and>
    clStored CL s2 (kind_of r) (res_name r) = None \<and>
    (\<forall>k n. (k, n) \<noteq> (kind_of r, res_name r) \<longrightarrow> clStored CL s2 k n = clStored CL s k n)"
proof -
  have "clStored CL s1 = clStored CL s"
    using assms(1,2) unfolding client_ok_def write_ok_def by blast
  moreover have "\<forall>k n. clStored CL s2 k n =
      (if k = kind_of r \<and> n = res_name r then None else clStored CL s1 k n)"
    using assms(1,4) unfolding client_ok_def write_ok_def by blast
  ultimately show ?thesis
    using assms(2-4) by (simp add: UpdateRequestedResource_def Update_def Delete_def)
qed

definition replacing_client :: "store client" where
  "replacing_client = refusing_client\<lparr>clDelete := clDelete sample_client\<rparr>"

theorem invalid_update_deletes_witness:
  "\<exists>s2. UpdateRequestedResource replacing_client stale_store stale = (None, s2) \<and> s2 SecretKind ''old'' = None"
proof -
  have ok: "client_ok replacing_client"
    by (simp add: client_ok_def write_ok_def replacing_client_def refusing_client_def sample_client_def
        put_resource_def)
  have u: "clUpdate replacing_client stale_store stale =
      (Some (StatusError ''immutable field'' ''Failure'' 422 ''Invalid''), stale_store)"
    by (simp add: replacing_client_def refusing_client_def)
  have d: "clDelete replacing_client stale_store stale = (None, put_resource stale_store stale None)"
    by (simp add: replacing_client_def sample_client_def)
  from invalid_update_deletes [OF ok u _ d] show ?thesis
    by (simp add: replacing_client_def refusing_client_def)
qed

end
