(* ===== verification/Broker_Properties.thy ===== *)
theory Broker_Properties
  imports Api_Types
begin

text \<open>
  Broker properties (\<open>controllers/brokercluster_reconciler.go\<close>): their distribution over the files of a
  secret, the lines a properties loader sees, the checksum compared with the one the broker reports,
  and the search for a duplicate key.
\<close>

abbreviation (input) "nl \<equiv> CHR 0x0A"
abbreviation (input) "backslash \<equiv> CHR 0x5C"
abbreviation "BrokerPropertiesName \<equiv> ''broker.properties''"
abbreviation "OrdinalPrefix \<equiv> ''broker-''"
abbreviation "PropertiesSuffix \<equiv> ''.properties''"
abbreviation "UncheckedPrefix \<equiv> ''_''"
abbreviation "JaasConfigKey \<equiv> ''login.config''"
abbreviation "LoggingConfigKey \<equiv> ''logging.properties''"

section \<open>Files\<close>

text \<open>
  The expression \<open>^(broker-[0-9]+)\.(.*)$\<close>: the ordinal prefix and the rest, when it matches.  A dot
  matches any character except a newline.
\<close>

definition ParseBrokerPropertyWithOrdinal :: "string \<Rightarrow> (string \<times> string) option" where
  "ParseBrokerPropertyWithOrdinal property =
     (if \<not> has_prefix property OrdinalPrefix then None
      else (let rest = drop (length OrdinalPrefix) property;
                digits = takeWhile is_digit rest;
                tail = dropWhile is_digit rest
            in if digits \<noteq> [] \<and> tail \<noteq> [] \<and> hd tail = CHR ''.'' \<and> nl \<notin> set (tl tail)
               then Some (OrdinalPrefix @ digits, tl tail) else None))"

definition properties_header :: string where
  "properties_header = ''# generated by crd'' @ [nl] @ ''#'' @ [nl]"

definition ordinal_key :: "string \<Rightarrow> string" where
  "ordinal_key p = p @ ''.'' @ BrokerPropertiesName"

text \<open>The loop: the buffer of the common file and the map of the others.\<close>

fun properties_loop :: "string list \<Rightarrow> string \<times> data_map \<Rightarrow> string \<times> data_map" where
  "properties_loop [] st = st"
| "properties_loop (propertyKeyVal # props) (buf, contents) =
     (case ParseBrokerPropertyWithOrdinal propertyKeyVal of
        Some (p, value) \<Rightarrow>
          (let existing = (case map_of contents (ordinal_key p) of Some e \<Rightarrow> e | None \<Rightarrow> '''')
           in properties_loop props (buf, AList.update (ordinal_key p) (existing @ value @ [nl]) contents))
      | None \<Rightarrow> properties_loop props (buf @ propertyKeyVal @ [nl], contents))"

definition BrokerPropertiesData :: "string list \<Rightarrow> data_map" where
  "BrokerPropertiesData props =
     (case properties_loop props (properties_header, []) of
        (buf, contents) \<Rightarrow> AList.update BrokerPropertiesName buf contents)"

section \<open>Lines\<close>

definition appendNonEmpty :: "string list \<Rightarrow> string \<Rightarrow> string list" where
  "appendNonEmpty propsKvs data =
     (let keyAndValue = trim_space data in if keyAndValue \<noteq> '''' then propsKvs @ [keyAndValue] else propsKvs)"

definition KeyValuePairs :: "string \<Rightarrow> string list" where
  "KeyValuePairs data =
     foldl (\<lambda>keyValuePairs lineToTrim.
       let line = trim_left lineToTrim
       in if has_prefix line ''#'' \<or> has_prefix line ''!'' then keyValuePairs
          else appendNonEmpty keyValuePairs line)
       [] (split_char nl data)"

definition unescape :: "string \<Rightarrow> string" where
  "unescape s =
     (let s1 = replace_all [backslash, CHR '' ''] '' '' s;
          s2 = replace_all [backslash, CHR '':''] '':'' s1;
          s3 = replace_all [backslash, CHR ''=''] ''='' s2
      in replace_all [backslash, CHR 0x22] [CHR 0x22] s3)"

definition trim_around :: "string \<Rightarrow> string" where
  "trim_around keyAndValue =
     (case split_n 2 keyAndValue ''='' of
        [k, v] \<Rightarrow> trim_right k @ ''='' @ trim_left v
      | _ \<Rightarrow> keyAndValue)"

definition ReadReplaceEscapes :: "string list \<Rightarrow> string list" where
  "ReadReplaceEscapes values = map (\<lambda>kv. unescape (trim_around kv)) values"

section \<open>Checksums\<close>

text \<open>\<open>hash/adler32\<close>.\<close>

definition adler_step :: "nat \<times> nat \<Rightarrow> char \<Rightarrow> nat \<times> nat" where
  "adler_step = (\<lambda>(a, b) c. let a' = (a + of_char c) mod 65521 in (a', (b + a') mod 65521))"

definition adler32 :: "string \<Rightarrow> nat" where
  "adler32 s = (case foldl adler_step (1, 0) s of (a, b) \<Rightarrow> b * 65536 + a)"

text \<open>The digest over the properties one after the other, printed in decimal.\<close>

definition alder32Of :: "string list \<Rightarrow> nat" where
  "alder32Of props = (case foldl (foldl adler_step) (1, 0) props of (a, b) \<Rightarrow> b * 65536 + a)"

definition alder32StringValue :: "nat \<Rightarrow> string" where
  "alder32StringValue n = nat_to_string n"

definition alder32FromData :: "string \<Rightarrow> string" where
  "alder32FromData data = alder32StringValue (alder32Of (ReadReplaceEscapes (KeyValuePairs data)))"

section \<open>Duplicate keys\<close>

text \<open>The text before the first \<open>=\<close> that is not the first character and not escaped.\<close>

fun key_scan :: "char \<Rightarrow> string \<Rightarrow> string \<Rightarrow> string option" where
  "key_scan previous done' [] = None"
| "key_scan previous done' (c # s) =
     (if c = CHR ''='' \<and> done' \<noteq> [] \<and> previous \<noteq> backslash then Some done'
      else key_scan c (done' @ [c]) s)"

definition extractPropertyKey :: "string \<Rightarrow> string" where
  "extractPropertyKey keyAndValue =
     (case key_scan (CHR 0x00) [] keyAndValue of Some k \<Rightarrow> k | None \<Rightarrow> keyAndValue)"

fun duplicate_loop :: "string list \<Rightarrow> string list \<Rightarrow> string" where
  "duplicate_loop keysMap [] = ''''"
| "duplicate_loop keysMap (keyAndValue # kvs) =
     (let key = extractPropertyKey keyAndValue
      in if key \<notin> set keysMap then duplicate_loop (key # keysMap) kvs else key)"

definition DuplicateKeyIn :: "string list \<Rightarrow> string" where
  "DuplicateKeyIn keyValues = duplicate_loop [] keyValues"

definition DuplicateKeyInPropertiesContent :: "string \<Rightarrow> string" where
  "DuplicateKeyInPropertiesContent keyValues = DuplicateKeyIn (KeyValuePairs keyValues)"

section \<open>Facts about the files\<close>

definition ordinal_of :: "string \<Rightarrow> string option" where
  "ordinal_of p = map_option fst (ParseBrokerPropertyWithOrdinal p)"

text \<open>What each file holds: the properties that belong to it, in their order, one on a line.\<close>

definition file_content :: "string option \<Rightarrow> string list \<Rightarrow> string" where
  "file_content o' props =
     concat (map (\<lambda>p. case ParseBrokerPropertyWithOrdinal p of
         Some (k, value) \<Rightarrow> if o' = Some k then value @ [nl] else ''''
       | None \<Rightarrow> if o' = None then p @ [nl] else '''') props)"

lemma file_content_Cons:
  "file_content o' (p # props) =
     (case ParseBrokerPropertyWithOrdinal p of
         Some (k, value) \<Rightarrow> if o' = Some k then value @ [nl] else ''''
       | None \<Rightarrow> if o' = None then p @ [nl] else '''') @ file_content o' props"
  by (simp add: file_content_def)

lemma ordinal_key_inj: "ordinal_key p = ordinal_key q \<longleftrightarrow> p = q"
  by (simp add: ordinal_key_def)

lemma properties_loop_spec:
  "properties_loop props (buf, contents) = (buf', contents') \<Longrightarrow>
     buf' = buf @ file_content None props \<and>
     (\<forall>k. (case map_of contents' (ordinal_key k) of Some e \<Rightarrow> e | None \<Rightarrow> '''') =
          (case map_of contents (ordinal_key k) of Some e \<Rightarrow> e | None \<Rightarrow> '''') @ file_content (Some k) props) \<and>
     (\<forall>k. map_of contents' (ordinal_key k) \<noteq> None \<longleftrightarrow>
          map_of contents (ordinal_key k) \<noteq> None \<or> (\<exists>p \<in> set props. ordinal_of p = Some k)) \<and>
     (\<forall>f. (\<forall>k. f \<noteq> ordinal_key k) \<longrightarrow> map_of contents' f = map_of contents f)"
proof (induction props arbitrary: buf contents)
  case Nil
  then show ?case by (simp add: file_content_def)
next
  case (Cons p props)
  show ?case
  proof (cases "ParseBrokerPropertyWithOrdinal p")
    case None
    with Cons.prems have "properties_loop props (buf @ p @ [nl], contents) = (buf', contents')" by simp
    from Cons.IH [OF this] None show ?thesis by (simp add: file_content_Cons ordinal_of_def)
  next
    case (Some kv)
    obtain k v where kv: "kv = (k, v)" by fastforce
    let ?c = "AList.update (ordinal_key k)
      ((case map_of contents (ordinal_key k) of Some e \<Rightarrow> e | None \<Rightarrow> '''') @ v @ [nl]) contents"
    from Cons.prems Some kv have "properties_loop props (buf, ?c) = (buf', contents')"
      by (simp add: Let_def)
    from Cons.IH [OF this] Some kv show ?thesis
      by (simp add: file_content_Cons ordinal_of_def update_conv' ordinal_key_inj split: if_splits)
  qed
qed

lemma ordinal_key_not_common: "ordinal_key k \<noteq> BrokerPropertiesName \<or> k = []"
  by (auto simp: ordinal_key_def dest: arg_cong [where f = length])

lemma ordinal_not_empty: "ordinal_of p = Some k \<Longrightarrow> has_prefix k OrdinalPrefix"
  by (auto simp: ordinal_of_def ParseBrokerPropertyWithOrdinal_def Let_def has_prefix_def split: if_splits)

section \<open>Facts about the lines\<close>

definition property_line :: "string \<Rightarrow> string list" where
  "property_line l =
     (let line = trim_left l
      in if has_prefix line ''#'' \<or> has_prefix line ''!'' \<or> trim_space line = '''' then []
         else [trim_space line])"

lemma KeyValuePairs_lines: "KeyValuePairs data = concat (map property_line (split_char nl data))"
proof -
  have "foldl (\<lambda>keyValuePairs lineToTrim.
       let line = trim_left lineToTrim
       in if has_prefix line ''#'' \<or> has_prefix line ''!'' then keyValuePairs
          else appendNonEmpty keyValuePairs line) acc ls = acc @ concat (map property_line ls)" for acc ls
    by (induction ls arbitrary: acc) (auto simp: property_line_def appendNonEmpty_def Let_def)
  from this [of "[]"] show ?thesis by (simp add: KeyValuePairs_def)
qed

lemma split_char_nl: "split_char nl (a @ nl # b) = split_char nl a @ split_char nl b"
proof (induction a)
  case Nil
  then show ?case by simp
next
  case (Cons x a)
  show ?case
  proof (cases "x = nl")
    case True
    with Cons show ?thesis by simp
  next
    case False
    with Cons show ?thesis by (cases "split_char nl a") auto
  qed
qed

lemma KeyValuePairs_append: "KeyValuePairs (a @ nl # b) = KeyValuePairs a @ KeyValuePairs b"
  by (simp add: KeyValuePairs_lines split_char_nl)

lemma KeyValuePairs_comment: "nl \<notin> set c \<Longrightarrow> KeyValuePairs (CHR ''#'' # c) = []"
  by (simp add: KeyValuePairs_lines split_char_no_sep property_line_def Let_def trim_left_def
      has_prefix_def is_space_def)

lemma KeyValuePairs_Nil [simp]: "KeyValuePairs [] = []"
  by (simp add: KeyValuePairs_lines property_line_def Let_def trim_left_def trim_space_def trim_right_def)

lemma KeyValuePairs_concat:
  "KeyValuePairs (concat (map (\<lambda>p. p @ [nl]) ps)) = concat (map KeyValuePairs ps)"
  by (induction ps) (simp_all add: KeyValuePairs_append)

lemma KeyValuePairs_header: "KeyValuePairs (properties_header @ b) = KeyValuePairs b"
proof -
  have "KeyValuePairs (properties_header @ b) =
      KeyValuePairs ''# generated by crd'' @ KeyValuePairs ''#'' @ KeyValuePairs b"
    using KeyValuePairs_append [of "''# generated by crd''" "''#'' @ nl # b"]
      KeyValuePairs_append [of "''#''" b]
    by (simp add: properties_header_def)
  then show ?thesis
    using KeyValuePairs_comment [of "'' generated by crd''"] KeyValuePairs_comment [of "[]"] by simp
qed

lemma alder32Of_concat: "alder32Of props = adler32 (concat props)"
proof -
  have "foldl (foldl adler_step) st props = foldl adler_step st (concat props)" for st
    by (induction props arbitrary: st) simp_all
  then show ?thesis by (simp add: alder32Of_def adler32_def)
qed

lemma adler32_bound: "adler32 s < 2 ^ 32"
proof -
  have "fst (foldl adler_step st s) < 65521 \<and> snd (foldl adler_step st s) < 65521"
    if "fst st < 65521" "snd st < 65521" for st
    using that by (induction s arbitrary: st) (auto simp: adler_step_def Let_def split_beta)
  from this [of "(1, 0)"] show ?thesis by (auto simp: adler32_def split_beta)
qed

section \<open>Facts about duplicate keys\<close>

lemma duplicate_loop_iff:
  "duplicate_loop seen kvs = '''' \<longleftrightarrow>
     (distinct (map extractPropertyKey kvs) \<and> set (map extractPropertyKey kvs) \<inter> set seen = {}) \<or>
     (\<exists>xs x ys. kvs = xs @ x # ys \<and> extractPropertyKey x = '''' \<and>
        distinct (map extractPropertyKey xs) \<and> set (map extractPropertyKey xs) \<inter> set seen = {} \<and>
        '''' \<in> set (map extractPropertyKey xs) \<union> set seen)"
proof (induction kvs arbitrary: seen)
  case Nil
  then show ?case by simp
next
  case (Cons a kvs)
  let ?k = "extractPropertyKey a"
  show ?case
  proof (cases "?k \<in> set seen")
    case True
    then have "duplicate_loop seen (a # kvs) = ?k" by (simp add: Let_def)
    moreover have "(\<exists>xs x ys. a # kvs = xs @ x # ys \<and> extractPropertyKey x = '''' \<and>
        distinct (map extractPropertyKey xs) \<and> set (map extractPropertyKey xs) \<inter> set seen = {} \<and>
        '''' \<in> set (map extractPropertyKey xs) \<union> set seen) \<longleftrightarrow> ?k = ''''"
    proof
      assume "\<exists>xs x ys. a # kvs = xs @ x # ys \<and> extractPropertyKey x = '''' \<and>
        distinct (map extractPropertyKey xs) \<and> set (map extractPropertyKey xs) \<inter> set seen = {} \<and>
        '''' \<in> set (map extractPropertyKey xs) \<union> set seen"
      then obtain xs x ys where h: "a # kvs = xs @ x # ys" "extractPropertyKey x = ''''"
        "set (map extractPropertyKey xs) \<inter> set seen = {}" by blast
      with True show "?k = ''''" by (cases xs) auto
    next
      assume "?k = ''''"
      with True show "\<exists>xs x ys. a # kvs = xs @ x # ys \<and> extractPropertyKey x = '''' \<and>
        distinct (map extractPropertyKey xs) \<and> set (map extractPropertyKey xs) \<inter> set seen = {} \<and>
        '''' \<in> set (map extractPropertyKey xs) \<union> set seen"
        by (intro exI [of _ "[]"] exI [of _ a] exI [of _ kvs]) simp
    qed
    ultimately show ?thesis using True by auto
  next
    case False
    have step: "duplicate_loop seen (a # kvs) = duplicate_loop (?k # seen) kvs"
      using False by (simp add: Let_def)
    have shift: "(\<exists>xs x ys. kvs = xs @ x # ys \<and> extractPropertyKey x = '''' \<and>
        distinct (map extractPropertyKey xs) \<and> set (map extractPropertyKey xs) \<inter> set (?k # seen) = {} \<and>
        '''' \<in> set (map extractPropertyKey xs) \<union> set (?k # seen)) \<longleftrightarrow>
      (\<exists>xs x ys. a # kvs = xs @ x # ys \<and> extractPropertyKey x = '''' \<and>
        distinct (map extractPropertyKey xs) \<and> set (map extractPropertyKey xs) \<inter> set seen = {} \<and>
        '''' \<in> set (map extractPropertyKey xs) \<union> set seen)"
      (is "?L \<longleftrightarrow> ?R")
    proof
      assume ?L
      then obtain xs x ys where "kvs = xs @ x # ys" "extractPropertyKey x = ''''"
        "distinct (map extractPropertyKey xs)" "set (map extractPropertyKey xs) \<inter> set (?k # seen) = {}"
        "'''' \<in> set (map extractPropertyKey xs) \<union> set (?k # seen)" by blast
      with False show ?R by (intro exI [of _ "a # xs"] exI [of _ x] exI [of _ ys]) auto
    next
      assume ?R
      then obtain xs x ys where h: "a # kvs = xs @ x # ys" "extractPropertyKey x = ''''"
        "distinct (map extractPropertyKey xs)" "set (map extractPropertyKey xs) \<inter> set seen = {}"
        "'''' \<in> set (map extractPropertyKey xs) \<union> set seen" by blast
      with False obtain xs' where "xs = a # xs'" by (cases xs) auto
      with h show ?L by (intro exI [of _ xs'] exI [of _ x] exI [of _ ys]) auto
    qed
    show ?thesis
      unfolding step Cons.IH shift using False by auto
  qed
qed

lemma key_scan_nonempty: "done' \<noteq> [] \<or> s \<noteq> [] \<Longrightarrow> key_scan previous done' s \<noteq> Some []"
  by (induction previous done' s rule: key_scan.induct) auto

lemma extractPropertyKey_empty [simp]: "extractPropertyKey x = '''' \<longleftrightarrow> x = ''''"
  using key_scan_nonempty [of "[]" x] by (cases x) (auto simp: extractPropertyKey_def split: option.splits)

lemma duplicate_loop_first:
  "(duplicate_loop seen kvs = '''' \<and> distinct (map extractPropertyKey kvs) \<and>
      set (map extractPropertyKey kvs) \<inter> set seen = {}) \<or>
   (\<exists>xs x ys. kvs = xs @ x # ys \<and> extractPropertyKey x = duplicate_loop seen kvs \<and>
      distinct (map extractPropertyKey xs) \<and> set (map extractPropertyKey xs) \<inter> set seen = {} \<and>
      extractPropertyKey x \<in> set (map extractPropertyKey xs) \<union> set seen)"
proof (induction kvs arbitrary: seen)
  case (Cons a kvs)
  let ?k = "extractPropertyKey a"
  show ?case
  proof (cases "?k \<in> set seen")
    case True
    then show ?thesis by (intro disjI2 exI [of _ "[]"] exI [of _ a] exI [of _ kvs]) (simp add: Let_def)
  next
    case False
    have step: "duplicate_loop seen (a # kvs) = duplicate_loop (?k # seen) kvs"
      using False by (simp add: Let_def)
    from Cons.IH [of "?k # seen"] show ?thesis
    proof
      assume "duplicate_loop (?k # seen) kvs = '''' \<and> distinct (map extractPropertyKey kvs) \<and>
        set (map extractPropertyKey kvs) \<inter> set (?k # seen) = {}"
      with False step show ?thesis by auto
    next
      assume "\<exists>xs x ys. kvs = xs @ x # ys \<and> extractPropertyKey x = duplicate_loop (?k # seen) kvs \<and>
        distinct (map extractPropertyKey xs) \<and> set (map extractPropertyKey xs) \<inter> set (?k # seen) = {} \<and>
        extractPropertyKey x \<in> set (map extractPropertyKey xs) \<union> set (?k # seen)"
      then obtain xs x ys where "kvs = xs @ x # ys" "extractPropertyKey x = duplicate_loop (?k # seen) kvs"
        "distinct (map extractPropertyKey xs)" "set (map extractPropertyKey xs) \<inter> set (?k # seen) = {}"
        "extractPropertyKey x \<in> set (map extractPropertyKey xs) \<union> set (?k # seen)" by blast
      with False step show ?thesis
        by (intro disjI2 exI [of _ "a # xs"] exI [of _ x] exI [of _ ys]) auto
    qed
  qed
qed simp

end
