(* ===== verification/Service_Properties.thy ===== *)
theory Service_Properties
  imports Sample_Cluster Broker_Properties
begin

text \<open>
  The properties of the services' side: what the generated properties grant, which applications are
  provisioned, what the status reports, and the events that reach a service; with the defects the model
  shows: a property line can be injected through an address, identities of different applications can
  coincide, the generated exporter configuration depends on the order of a map, and one application can
  keep a whole service from being updated.
\<close>

section \<open>The capabilities of an application\<close>

lemma sample_tracked: "trackApp sample_app = Inr
    [(''orders'', \<lparr>senderRoles = [''dev-shop''], consumerRoles = [''dev-shop''], subscriberRoles = [],
       isOwned = True, isMulticast = False\<rparr>)]"
  by (simp add: trackApp_def trackProducer_def trackConsumer_def track_def on_config_def config_of_def
      newAddressConfig_def AppIdentity_def NameSpacedValue_def DashPrefixValue_def Let_def)

text \<open>
  The properties of an application do not depend on the order in which Go ranges over its maps:
  every run writes the same bytes, so a reconcile without a change updates nothing.
\<close>

theorem capabilities_order_independent:
  assumes "range_ok ord" "range_ok ord'"
  shows "processCapabilities ord app data = processCapabilities ord' app data"
  by (rule processCapabilities_order [OF assms])

theorem capabilities_order_independent_witness:
  "processCapabilities (\<lambda>ks. ks) sample_app [] = processCapabilities rev sample_app []"
  by (rule capabilities_order_independent) simp_all

text \<open>
  C5: for an application whose names hold no quote and no newline, the generated properties grant
  exactly the declared authority: a send permission for the producer role of this application on every
  address it produces to and for nobody else on any other address, and a consume permission
  for its consumer role on every address and queue it consumes from and on no other.
\<close>

theorem capabilities_authority:
  assumes "range_ok ord" "app_safe app" "processCapabilities ord app data = Inr data'"
    and "map_of data' (capabilities_key app) = Some content" "safe address" "safe role"
  shows "(grants content address role ''send'' \<longleftrightarrow>
      role = producerRole (AppIdentity app) \<and> (\<exists>n \<in> produced_by app. escapeForProperties n = address)) \<and>
    (grants content address role ''consume'' \<longleftrightarrow>
      role = consumerRole (AppIdentity app) \<and> (\<exists>n \<in> consumed_by app. escapeForProperties n = address))"
  using capabilities_grants [OF assms(1-6)] by blast

theorem capabilities_authority_witness:
  "\<exists>content. processCapabilities (\<lambda>ks. ks) sample_app [] = Inr [(''dev-shop-capabilities.properties'', content)] \<and>
     grants content ''orders'' ''dev-shop-producer'' ''send'' \<and>
     \<not> grants content ''payments'' ''dev-shop-producer'' ''send''"
proof -
  have key: "capabilities_key sample_app = ''dev-shop-capabilities.properties''"
    by (simp add: capabilities_key_def AppIdentityPrefixed_def AppIdentity_def NameSpacedValue_def
        DashPrefixValue_def)
  obtain content where run: "processCapabilities (\<lambda>ks. ks) sample_app [] =
      Inr [(''dev-shop-capabilities.properties'', content)]"
    by (simp add: processCapabilities_def sample_tracked key)
  have safe: "app_safe sample_app" "safe ''orders''" "safe ''payments''" "safe ''dev-shop-producer''"
    by (simp_all add: app_safe_def safe_def app_refs_def)
  have made: "produced_by sample_app = {''orders''}" by (simp add: produced_by_def)
  have role: "producerRole (AppIdentity sample_app) = ''dev-shop-producer''"
    by (simp add: producerRole_def AppIdentity_def NameSpacedValue_def DashPrefixValue_def)
  have esc: "escapeForProperties ''orders'' = ''orders''"
    by (simp add: escapeForProperties_def replace_first_def)
  note auth = capabilities_authority [OF range_ok_id safe(1) run, of content _ "''dev-shop-producer''"]
  from auth [of "''orders''"] auth [of "''payments''"] safe run show ?thesis
    by (intro exI [of _ content]) (simp add: key made role esc)
qed

text \<open>The lines of a text made of terminated pieces.\<close>

lemma split_char_pieces_set:
  "set (split_char newline (concat (map (\<lambda>k. k @ [newline]) ks))) =
     (\<Union>k \<in> set ks. set (split_char newline k)) \<union> {[]}"
  by (induction ks) (auto simp: split_char_nl)

lemma print_props_pieces:
  assumes "k \<in> set ks" "l \<in> set (split_char newline k)"
  shows "l \<in> set (split_char newline (print_props ks))"
proof -
  define ls where "ls = map butlast (sorted_keys (map (\<lambda>k. k @ [newline]) ks))"
  have "map (\<lambda>k. k @ [newline]) ls = sorted_keys (map (\<lambda>k. k @ [newline]) ks)"
    by (auto simp: ls_def intro!: map_idI)
  then have eq: "print_props ks = ''# generated by crd'' @ newline # ''#'' @ newline #
      concat (map (\<lambda>k. k @ [newline]) ls)"
    by (simp add: print_props_def props_header_def)
  have "set ls = set ks" by (auto simp: ls_def image_image)
  with assms have "l \<in> (\<Union>k \<in> set ls. set (split_char newline k))" by auto
  then show ?thesis by (simp only: eq split_char_nl set_append split_char_pieces_set) blast
qed

definition injected_line :: string where
  "injected_line = ''securityRoles.'' @ dq ''payments'' @ ''.'' @ dq ''dev-shop-producer'' @ ''.send:true''"

definition injecting_address :: string where
  "injecting_address = ''x'' @ newline # injected_line @ newline # ''#''"

definition injecting_app :: broker_app where
  "injecting_app = fresh_app ''dev'' ''shop''
     [\<lparr>ProducerOf = [plain_local injecting_address], ConsumerOf = []\<rparr>]"

lemma injecting_app_sel [simp]:
  "appNamespace injecting_app = ''dev''" "appName injecting_app = ''shop''"
  "appAddresses injecting_app = []" "appSharedAddresses injecting_app = []"
  "appCapabilities injecting_app = [\<lparr>ProducerOf = [plain_local injecting_address], ConsumerOf = []\<rparr>]"
  by (simp_all add: injecting_app_def fresh_app_def)

lemma injecting_identity: "AppIdentity injecting_app = ''dev-shop''"
  "capabilities_key injecting_app = ''dev-shop-capabilities.properties''"
  by (simp_all add: capabilities_key_def AppIdentityPrefixed_def AppIdentity_def NameSpacedValue_def
      DashPrefixValue_def)

lemma injecting_escaped: "escapeForProperties injecting_address = injecting_address"
  by (simp add: escapeForProperties_def replace_first_def replace_all_char injecting_address_def
      injected_line_def dq_def)

lemma injecting_tracked: "trackApp injecting_app = Inr
    [(injecting_address, \<lparr>senderRoles = [''dev-shop''], consumerRoles = [], subscriberRoles = [],
       isOwned = True, isMulticast = False\<rparr>)]"
  by (simp add: trackApp_def trackProducer_def track_def on_config_def config_of_def
      newAddressConfig_def injecting_identity Let_def)

lemma injected_role_line:
  "injected_line \<in> set (split_char newline (role_line injecting_address r p))"
proof -
  have "role_line injecting_address r p =
      (''securityRoles.'' @ CHR 0x22 # ''x'') @ newline # injected_line @ newline #
        (''#'' @ CHR 0x22 # ''.'' @ dq r @ ''.'' @ p @ ''=true'')"
    by (simp add: role_line_def injecting_address_def dq_def)
  moreover have "injected_line \<in> set (split_char newline (injected_line @ newline # b))" for b
    by (simp add: split_char_append injected_line_def dq_def)
  ultimately show ?thesis by (simp only: split_char_nl set_append Un_iff) simp
qed

text \<open>
  C34: an address can inject a property.  The specification of \<open>injecting_app\<close> is valid, it
  produces to one address only, which is not \<open>payments\<close>, and yet a line of its generated properties is
  a property that grants a role the permission to send to \<open>payments\<close>: the escape of an address leaves
  newlines, quotes and the separator \<open>:\<close> as they are.
\<close>

theorem address_injection:
  "validateSpec injecting_app = None \<and> ''payments'' \<notin> produced_by injecting_app \<and>
   (\<exists>content. processCapabilities (\<lambda>ks. ks) injecting_app [] =
        Inr [(''dev-shop-capabilities.properties'', content)] \<and>
      injected_line \<in> set (split_char newline content))"
proof (intro conjI)
  show "validateSpec injecting_app = None"
    by (simp add: validateSpec_None spec_ok_def capability_ok_def producer_ok_def ref_ok_def routing_ok_def
        app_refs_def declaredAddresses_def injecting_address_def injected_line_def dq_def)
  show "''payments'' \<notin> produced_by injecting_app"
    by (simp add: produced_by_def injecting_address_def)
  let ?ks = "prop_keys (\<lambda>ks. ks) ''dev-shop''
    [(injecting_address, \<lparr>senderRoles = [''dev-shop''], consumerRoles = [], subscriberRoles = [],
       isOwned = True, isMulticast = False\<rparr>)]"
  have "role_line injecting_address (producerRole ''dev-shop'') ''send'' \<in>
      set (address_lines injecting_address \<lparr>senderRoles = [''dev-shop''], consumerRoles = [],
        subscriberRoles = [], isOwned = True, isMulticast = False\<rparr>)"
    unfolding role_in_address_lines by (simp add: injecting_escaped)
  then have "role_line injecting_address (producerRole ''dev-shop'') ''send'' \<in> set ?ks"
    by (simp add: prop_keys_def config_of_def Let_def)
  from print_props_pieces [OF this injected_role_line]
  have "injected_line \<in> set (split_char newline (print_props ?ks))" .
  then show "\<exists>content. processCapabilities (\<lambda>ks. ks) injecting_app [] =
        Inr [(''dev-shop-capabilities.properties'', content)] \<and>
      injected_line \<in> set (split_char newline content)"
    by (simp add: processCapabilities_def injecting_tracked injecting_identity)
qed

section \<open>Identities\<close>

lemma provision_loop_admitted:
  assumes "admitted C instance a" "provision_loop C ts instance (a # apps) p = (None, p')"
  shows "\<exists>d. provision_app C ts instance a (pvData p) = (None, d) \<and>
    provision_loop C ts instance apps (p\<lparr>pvData := d, pvValid := pvValid p @ [a]\<rparr>) = (None, p')"
  using assms unfolding provision_loop_step by (auto split: prod.splits option.splits)

text \<open>
  C35: the identity of an application, its namespace and name joined by a dash, does not determine it.
  When two admitted applications share it, the properties of the first are lost: the entry holds what
  the second declares, and the secret names the identity as provisioned for both.
\<close>

theorem identity_collision_overwrites:
  assumes "AppIdentity a = AppIdentity b" "admitted C instance a" "admitted C instance b"
    and run: "provision_loop C ts instance [a, b] p = (None, p')"
  shows "map_of (pvData p') (capabilities_key a) = app_text C b \<and> pvValid p' = pvValid p @ [a, b]"
proof -
  from provision_loop_admitted [OF assms(2) run] obtain d where 1:
    "provision_loop C ts instance [b] (p\<lparr>pvData := d, pvValid := pvValid p @ [a]\<rparr>) = (None, p')"
    by blast
  from provision_loop_admitted [OF assms(3) 1] obtain d' where
    2: "provision_app C ts instance b d = (None, d')" "p' = p\<lparr>pvData := d', pvValid := pvValid p @ [a, b]\<rparr>"
    by auto
  have "capabilities_key a = capabilities_key b" using assms(1) by (simp only: capabilities_key_inj)
  with provision_app_text [OF 2(1)] 2(2) show ?thesis by simp
qed

definition twin_app :: "string \<Rightarrow> string \<Rightarrow> string \<Rightarrow> int32 \<Rightarrow> broker_app" where
  "twin_app ns n address port = bind (Some \<lparr>sbName = ''main'', sbNamespace = ''dev'',
     sbSecret = BindingsSecretName n, sbAssignedPort = port\<rparr>)
     (fresh_app ns n [\<lparr>ProducerOf = [plain_local address], ConsumerOf = []\<rparr>])"

lemma sample_admits: "appSelector app = None \<Longrightarrow> admitted (sample_controller ss as ks) instance app"
  by (simp add: validate_True appMatchesSelector_def)

lemma twin_sel [simp]:
  "appNamespace (twin_app ns n address port) = ns" "appName (twin_app ns n address port) = n"
  "appSelector (twin_app ns n address port) = None"
  "asService (appStatus (twin_app ns n address port)) = Some \<lparr>sbName = ''main'', sbNamespace = ''dev'',
     sbSecret = BindingsSecretName n, sbAssignedPort = port\<rparr>"
  "appCapabilities (twin_app ns n address port) = [\<lparr>ProducerOf = [plain_local address], ConsumerOf = []\<rparr>]"
  "appAddresses (twin_app ns n address port) = []" "appSharedAddresses (twin_app ns n address port) = []"
  by (simp_all add: twin_app_def fresh_app_def)

lemma twin_tracked: "\<exists>t. trackApp (twin_app ns n address port) = Inr t"
  by (simp add: trackApp_def)

lemma twin_provisioned:
  "common_ValidateResourceName n = None \<Longrightarrow> port \<noteq> 0 \<Longrightarrow>
     \<exists>d'. provision_app C (Inr path) instance (twin_app ns n address port) d = (None, d')"
  using twin_tracked [of ns n address port]
  by (auto simp: provision_app_def processCapabilities_def processAcceptor_def UnassignedPort_def Let_def)

lemma twin_loop:
  assumes "common_ValidateResourceName n = None" "common_ValidateResourceName n' = None" "port \<noteq> 0" "port' \<noteq> 0"
  shows "\<exists>p'. provision_loop (sample_controller ss as ks) (Inr path) instance
    [twin_app ns n address port, twin_app ns' n' address' port'] p = (None, p')"
proof -
  let ?a = "twin_app ns n address port" and ?b = "twin_app ns' n' address' port'"
  let ?C = "sample_controller ss as ks"
  have "admitted ?C instance ?a" "admitted ?C instance ?b" by (simp_all add: sample_admits)
  moreover obtain d where "provision_app ?C (Inr path) instance ?a (pvData p) = (None, d)"
    using twin_provisioned [OF assms(1,3)] by blast
  moreover obtain d' where "provision_app ?C (Inr path) instance ?b d = (None, d')"
    using twin_provisioned [OF assms(2,4)] by blast
  ultimately show ?thesis unfolding provision_loop_step by simp
qed

theorem identity_collision_overwrites_witness:
  "\<exists>a b p'. \<not> same_app a b \<and> validateSpec a = None \<and> validateSpec b = None \<and>
     provision_loop (sample_controller [] [] []) (Inr ''/ca.pem'') (sample_service ''main'' 1000) [a, b]
       \<lparr>pvData = [], pvRejected = [], pvValid = []\<rparr> = (None, p') \<and>
     map_of (pvData p') (capabilities_key a) = app_text (sample_controller [] [] []) b"
proof -
  let ?a = "twin_app ''team-a'' ''shop'' ''orders'' 61616"
  let ?b = "twin_app ''team'' ''a-shop'' ''payments'' 61617"
  let ?C = "sample_controller [] [] []" and ?s = "sample_service ''main'' 1000"
  have id: "AppIdentity ?a = AppIdentity ?b"
    by (simp add: AppIdentity_def NameSpacedValue_def DashPrefixValue_def)
  have names: "common_ValidateResourceName ''a-shop'' = None"
    by (simp add: common_ValidateResourceName_def has_prefix_def)
  from twin_loop [OF valid_shop names] obtain p' where
    run: "provision_loop ?C (Inr ''/ca.pem'') ?s [?a, ?b] \<lparr>pvData = [], pvRejected = [], pvValid = []\<rparr> = (None, p')"
    by fastforce
  have ok: "validateSpec ?a = None" "validateSpec ?b = None"
    by (simp_all add: validateSpec_None spec_ok_def names capability_ok_def producer_ok_def ref_ok_def
        routing_ok_def app_refs_def declaredAddresses_def)
  have "\<not> same_app ?a ?b" by (simp add: same_app_def)
  with identity_collision_overwrites [OF id sample_admits sample_admits run] run ok show ?thesis
    by (intro exI [of _ ?a] exI [of _ ?b] exI [of _ p']) simp
qed

section \<open>The exporter configuration\<close>

text \<open>
  The configuration of the metrics exporter ranges over a map without sorting: with two queues,
  two orders of the same map give two different texts, so the override secret can be rewritten by a
  reconcile that changed nothing.
\<close>

theorem prometheus_depends_on_order:
  "range_ok (\<lambda>ks. ks) \<and> range_ok rev \<and>
   generatePrometheusConfig (\<lambda>ks. ks) ''main'' ''ca'' ''ca.pem'' [''orders'', ''payments''] \<noteq>
   generatePrometheusConfig rev ''main'' ''ca'' ''ca.pem'' [''orders'', ''payments'']"
  by (simp add: generatePrometheusConfig_def queue_object_lines_def println_def dq_def Let_def numeral_2_eq_2)

section \<open>Provisioning\<close>

lemma find_holds: "List.find P xs = Some x \<Longrightarrow> P x"
  by (auto simp: find_Some_iff)

lemma secret_or_new_name [simp]: "secName (secret_or_new L ns n) = n"
  by (auto simp: secret_or_new_def CloneOfDeployed_def GetFromDeployed_def NewSecret_def
      dest: find_holds split: option.split resource.split)

lemma override_name: "controlPlaneOverrideSecretName n \<noteq> AppPropertiesSecretName n"
  by (simp add: controlPlaneOverrideSecretName_def AppPropertiesSecretName_def)

text \<open>The secret a successful run tracks, by the run of its loop.\<close>

lemma app_secret_tracked:
  assumes run: "processAppSecrets E instance L = (None, rejected, L')"
    and apps: "kListApps (cKube (seController E)) (serviceKey instance) = Inr apps"
  obtains p s where
    "provision_loop (seController E) (trust_store E) instance apps
       \<lparr>pvData = [], pvRejected = [], pvValid = []\<rparr> = (None, p)"
    "rejected = Some (pvRejected p)"
    "lookup_desired L' SecretKind (AppPropertiesSecretName (svcName instance)) = Some (SecretRes s)"
    "secData s = pvData p"
    "map_of (secAnnotations s) ProvisionedAppsAnnotation = Some (join '','' (appIdentities (pvValid p)))"
proof -
  obtain err p where l: "provision_loop (seController E) (trust_store E) instance apps
       \<lparr>pvData = [], pvRejected = [], pvValid = []\<rparr> = (err, p)" by fastforce
  with run apps have err: "err = None"
    by (auto simp: processAppSecrets_def serviceKey_def Let_def)
  let ?d = "secret_or_new L (svcNamespace instance) (AppPropertiesSecretName (svcName instance))"
  let ?s = "?d\<lparr>secData := pvData p, secAnnotations := AList.update ProvisionedAppsAnnotation
      (join '','' (appIdentities (pvValid p))) (secAnnotations ?d)\<rparr>"
  have L': "L' = processControlPlaneOverrideSecret (cOrder (seController E)) (cKube (seController E))
      (seOsEnv E) (seVars E) instance (pvValid p) (TrackDesired L (SecretRes ?s))"
    and rej: "rejected = Some (pvRejected p)"
    using run apps l err by (auto simp: processAppSecrets_def serviceKey_def Let_def)
  have "lookup_desired L' SecretKind (AppPropertiesSecretName (svcName instance)) = Some (SecretRes ?s)"
    using override_name [of "svcName instance"]
    by (simp add: L' processControlPlaneOverrideSecret_def Let_def lookup_desired_def TrackDesired_def
        update_conv' split: prod.split)
  with l err rej show ?thesis by (intro that [of p ?s]) (simp_all add: update_conv')
qed

text \<open>A run over an application the service admits and one whose selector it does not satisfy.\<close>

definition ca_secret :: secret where
  "ca_secret = \<lparr>secName = DefaultOperatorCASecretName, secNamespace = ''ops'', secResourceVersion = ''1'',
     secAnnotations = [], secData = [(''ca.pem'', ''-'')]\<rparr>"

definition gold_app :: broker_app where
  "gold_app = (twin_app ''dev'' ''gold'' ''offers'' 61617)
     \<lparr>appSelector := Some \<lparr>matchLabels = [(''tier'', ''gold'')], matchExpressions = []\<rparr>\<rparr>"

definition shop_app :: broker_app where
  "shop_app = twin_app ''dev'' ''shop'' ''orders'' 61616"

definition sample_vars :: op_vars where
  "sample_vars = \<lparr>operatorCertSecretName = None, operatorCASecretName = None,
     prometheusCertSecretName = None, operatorNameSpaceFromEnv = Some ''ops''\<rparr>"

definition sample_svc_env :: "broker_app list \<Rightarrow> store svc_env" where
  "sample_svc_env apps =
     \<lparr>seController = sample_controller [sample_service ''main'' 1000] apps [ca_secret],
      seOsEnv = (\<lambda>v. None), seVars = sample_vars, seListed = Inr (\<lambda>k. []), seClient = sample_client,
      seCompare = sample_compare, seFormat = (\<lambda>b. ''''), seUpdateStatus = (\<lambda>s. None)\<rparr>"

lemma sample_svc_env_sel [simp]:
  "seController (sample_svc_env apps) = sample_controller [sample_service ''main'' 1000] apps [ca_secret]"
  "seListed (sample_svc_env apps) = Inr (\<lambda>k. [])" "seClient (sample_svc_env apps) = sample_client"
  by (simp_all add: sample_svc_env_def)

lemma sample_trust: "\<exists>path. trust_store (sample_svc_env apps) = Inr path"
  by (simp add: trust_store_def sample_svc_env_def getTrustStorePath_def GetOperatorCASecret_def
      GetOperatorCASecretName_def env_or_def sample_vars_def GetOperatorSecretWithFallback_def
      GetOperatorNamespaceFromEnv_def GetNamespacedSecret_def sample_kube_def ca_secret_def
      GetOperatorCASecretKey_def FindFirstDotPemKey_def has_suffix_def Let_def)

lemma gold_not_admitted:
  "\<not> admitted (sample_controller ss as ks) (sample_service n m) gold_app"
  by (simp add: validate_True gold_app_def sample_selector_def)

lemma shop_gold_listed:
  "kListApps (cKube (seController (sample_svc_env [shop_app, gold_app]))) (serviceKey (sample_service ''main'' 1000)) =
     Inr [shop_app, gold_app]"
  by (simp add: shop_app_def gold_app_def app_binding_index_def binding_key_def serviceKey_def)

lemma shop_gold_run:
  obtains rejected L' where "processAppSecrets (sample_svc_env [shop_app, gold_app]) (sample_service ''main'' 1000) new_loop =
    (None, rejected, L')"
proof -
  let ?E = "sample_svc_env [shop_app, gold_app]" and ?s = "sample_service ''main'' 1000"
  obtain path where path: "trust_store ?E = Inr path" using sample_trust by blast
  obtain d where "provision_app (seController ?E) (Inr path) ?s shop_app [] = (None, d)"
    using twin_provisioned [OF valid_shop, where port = 61616] unfolding shop_app_def by fastforce
  moreover have "admitted (seController ?E) ?s shop_app" by (simp add: sample_admits shop_app_def)
  moreover have "\<not> admitted (seController ?E) ?s gold_app" by (simp add: gold_not_admitted)
  ultimately have "fst (provision_loop (seController ?E) (trust_store ?E) ?s [shop_app, gold_app]
      \<lparr>pvData = [], pvRejected = [], pvValid = []\<rparr>) = None"
    unfolding provision_loop_step path by simp
  then show ?thesis
    using that shop_gold_listed
    by (cases "provision_loop (seController ?E) (trust_store ?E) ?s [shop_app, gold_app]
      \<lparr>pvData = [], pvRejected = [], pvValid = []\<rparr>") (simp add: processAppSecrets_def serviceKey_def Let_def)
qed

lemma shop_gold_admitted:
  "filter (admitted (seController (sample_svc_env apps)) (sample_service n m)) [shop_app, gold_app] = [shop_app]"
  "filter (\<lambda>a. \<not> admitted (seController (sample_svc_env apps)) (sample_service n m) a) [shop_app, gold_app] = [gold_app]"
  using gold_not_admitted [of "[sample_service ''main'' 1000]" apps "[ca_secret]" n m]
    sample_admits [of shop_app "[sample_service ''main'' 1000]" apps "[ca_secret]" "sample_service n m"]
  by (simp_all add: shop_app_def)

text \<open>
  C28: a successful run reports as rejected exactly the bound applications that are not admitted, by the
  selector of the service or their own, in the order of the list and with the reason; the properties
  secret holds no entry of any other application.
\<close>

theorem rejections_exact:
  assumes run: "processAppSecrets E instance L = (None, rejected, L')"
    and apps: "kListApps (cKube (seController E)) (serviceKey instance) = Inr apps"
  shows "rejected = Some (map (rejection (seController E) instance)
      (filter (\<lambda>a. \<not> admitted (seController E) instance a) apps)) \<and>
    (\<exists>s. lookup_desired L' SecretKind (AppPropertiesSecretName (svcName instance)) = Some (SecretRes s) \<and>
       (\<forall>k. map_of (secData s) k \<noteq> None \<longrightarrow>
          (\<exists>a \<in> set apps. admitted (seController E) instance a \<and> k \<in> app_keys a)))"
proof -
  from app_secret_tracked [OF assms] obtain p s where
    loop: "provision_loop (seController E) (trust_store E) instance apps
       \<lparr>pvData = [], pvRejected = [], pvValid = []\<rparr> = (None, p)"
    and r: "rejected = Some (pvRejected p)"
    and s: "lookup_desired L' SecretKind (AppPropertiesSecretName (svcName instance)) = Some (SecretRes s)"
      "secData s = pvData p" by metis
  have "\<exists>a \<in> set apps. admitted (seController E) instance a \<and> k \<in> app_keys a"
    if "map_of (secData s) k \<noteq> None" for k
  proof (rule ccontr)
    assume "\<not> (\<exists>a \<in> set apps. admitted (seController E) instance a \<and> k \<in> app_keys a)"
    then have "map_of (pvData p) k = None" using provision_loop_frame [OF loop, of k] by auto
    with that s(2) show False by simp
  qed
  with provision_loop_valid [OF loop] r s(1) show ?thesis by auto
qed

theorem rejections_exact_witness:
  "\<exists>rejected L'. processAppSecrets (sample_svc_env [shop_app, gold_app]) (sample_service ''main'' 1000) new_loop =
      (None, Some rejected, L') \<and>
    map rejName rejected = [''gold''] \<and> map rejReason rejected = [''does not match service labels'']"
proof -
  obtain rejected L' where run: "processAppSecrets (sample_svc_env [shop_app, gold_app])
      (sample_service ''main'' 1000) new_loop = (None, rejected, L')" by (rule shop_gold_run)
  from rejections_exact [OF run shop_gold_listed] run show ?thesis
    by (simp only: shop_gold_admitted)
      (simp add: rejection_def gold_app_def validateAppForProvisioning_def sample_selector_def Let_def)
qed

text \<open>
  in a successful run in which identities do not coincide, the properties secret holds for every
  admitted application the properties its capabilities render to.
\<close>

theorem admitted_apps_rendered:
  assumes run: "processAppSecrets E instance L = (None, rejected, L')"
    and apps: "kListApps (cKube (seController E)) (serviceKey instance) = Inr apps"
    and distinct: "distinct (map AppIdentity (filter (admitted (seController E) instance) apps))"
    and a: "a \<in> set apps" "admitted (seController E) instance a"
  shows "\<exists>s t. lookup_desired L' SecretKind (AppPropertiesSecretName (svcName instance)) = Some (SecretRes s) \<and>
    trackApp a = Inr t \<and>
    map_of (secData s) (capabilities_key a) =
      Some (print_props (prop_keys (cOrder (seController E)) (AppIdentity a) t))"
proof -
  from app_secret_tracked [OF run apps] obtain p s where
    loop: "provision_loop (seController E) (trust_store E) instance apps
       \<lparr>pvData = [], pvRejected = [], pvValid = []\<rparr> = (None, p)"
    and s: "lookup_desired L' SecretKind (AppPropertiesSecretName (svcName instance)) = Some (SecretRes s)"
      "secData s = pvData p" by metis
  from provision_loop_text [OF loop distinct a] s show ?thesis
    by (auto simp: app_text_def split: sum.splits)
qed

theorem admitted_apps_rendered_witness:
  "\<exists>rejected L' s content.
     processAppSecrets (sample_svc_env [shop_app, gold_app]) (sample_service ''main'' 1000) new_loop =
       (None, rejected, L') \<and>
     lookup_desired L' SecretKind ''main-app-bp'' = Some (SecretRes s) \<and>
     map_of (secData s) ''dev-shop-capabilities.properties'' = Some content"
proof -
  obtain rejected L' where run: "processAppSecrets (sample_svc_env [shop_app, gold_app])
      (sample_service ''main'' 1000) new_loop = (None, rejected, L')" by (rule shop_gold_run)
  have d: "distinct (map AppIdentity (filter (admitted (seController (sample_svc_env [shop_app, gold_app]))
      (sample_service ''main'' 1000)) [shop_app, gold_app]))"
    and a: "admitted (seController (sample_svc_env [shop_app, gold_app])) (sample_service ''main'' 1000) shop_app"
    by (simp only: shop_gold_admitted, simp) (simp add: sample_admits shop_app_def)
  have k: "capabilities_key shop_app = ''dev-shop-capabilities.properties''"
    by (simp add: capabilities_key_def AppIdentityPrefixed_def AppIdentity_def NameSpacedValue_def
        DashPrefixValue_def shop_app_def)
  from admitted_apps_rendered [OF run shop_gold_listed d _ a] run show ?thesis
    by (auto simp: k AppPropertiesSecretName_def)
qed

text \<open>
  C38: what the service will report as provisioned, read back from the annotation of that secret, is
  the sorted list of the identities of the admitted applications; a Kubernetes name holds no comma.
\<close>

theorem provisioned_round_trip:
  assumes run: "processAppSecrets E instance L = (None, rejected, L')"
    and apps: "kListApps (cKube (seController E)) (serviceKey instance) = Inr apps"
    and names: "\<forall>a \<in> set apps. CHR '','' \<notin> set (appNamespace a) \<and> CHR '','' \<notin> set (appName a)"
  shows "\<exists>s. lookup_desired L' SecretKind (AppPropertiesSecretName (svcName instance)) = Some (SecretRes s) \<and>
    split_annotation s = sort (map AppIdentity (filter (admitted (seController E) instance) apps))"
proof -
  from app_secret_tracked [OF run apps] obtain p s where
    loop: "provision_loop (seController E) (trust_store E) instance apps
       \<lparr>pvData = [], pvRejected = [], pvValid = []\<rparr> = (None, p)"
    and s: "lookup_desired L' SecretKind (AppPropertiesSecretName (svcName instance)) = Some (SecretRes s)"
      "map_of (secAnnotations s) ProvisionedAppsAnnotation = Some (join '','' (appIdentities (pvValid p)))"
    by metis
  from provision_loop_valid [OF loop] have v: "pvValid p = filter (admitted (seController E) instance) apps"
    by simp
  with names annotation_round_trip [of "pvValid p" s] s show ?thesis by (auto simp: appIdentities_def)
qed

theorem provisioned_round_trip_witness:
  "\<exists>rejected L' s.
     processAppSecrets (sample_svc_env [shop_app, gold_app]) (sample_service ''main'' 1000) new_loop =
       (None, rejected, L') \<and>
     lookup_desired L' SecretKind ''main-app-bp'' = Some (SecretRes s) \<and> split_annotation s = [''dev-shop'']"
proof -
  obtain rejected L' where run: "processAppSecrets (sample_svc_env [shop_app, gold_app])
      (sample_service ''main'' 1000) new_loop = (None, rejected, L')" by (rule shop_gold_run)
  have n: "\<forall>a \<in> set [shop_app, gold_app]. CHR '','' \<notin> set (appNamespace a) \<and> CHR '','' \<notin> set (appName a)"
    by (simp add: shop_app_def gold_app_def)
  from provisioned_round_trip [OF run shop_gold_listed n] obtain s where
    s: "lookup_desired L' SecretKind ''main-app-bp'' = Some (SecretRes s)"
      "split_annotation s = sort (map AppIdentity [shop_app])"
    by (simp only: shop_gold_admitted) (auto simp: AppPropertiesSecretName_def)
  then show ?thesis
    using run by (auto simp: AppIdentity_def NameSpacedValue_def DashPrefixValue_def shop_app_def)
qed

section \<open>Readiness\<close>

text \<open>
  a service becomes Ready exactly when the reconcile has no error, its broker is deployed, the
  ready broker reports as applied the version of the applications' secret the server now holds, and no
  other condition on the service is false.
\<close>

theorem service_ready_exact:
  assumes "meta_ok M" "distinct_types (ssConditions (svcStatus i))"
  shows "IsStatusConditionTrue M
      (ssConditions (processServiceStatus M K fmt i dep rejected err)) ReadyConditionType \<longleftrightarrow>
    err = None \<and> broker_deployed M dep \<and> applied_secret M K i dep \<noteq> None \<and>
    (\<forall>c \<in> set (ssConditions (svcStatus i)). cType c \<notin> set service_types \<longrightarrow> cStatus c \<noteq> ConditionFalse)"
  by (rule service_ready [OF assms])

definition ready_broker :: broker where
  "ready_broker = (GenerateBroker ''main'' ''dev'')
     \<lparr>brkConditions := [deployed_true, mk_condition ReadyConditionType ConditionTrue ReadyConditionReason []],
      brkExternalConfigs := [(''main-app-bp'', ''7'')]\<rparr>"

definition app_secret :: secret where
  "app_secret = \<lparr>secName = ''main-app-bp'', secNamespace = ''dev'', secResourceVersion = ''7'',
     secAnnotations = [(ProvisionedAppsAnnotation, ''dev-shop'')], secData = []\<rparr>"

lemma ready_applied:
  "applied_secret meta_instance (sample_kube ss as [app_secret]) (sample_service ''main'' 1000) (Some ready_broker) =
     Some app_secret"
  by (simp add: applied_secret_def ready_broker_def GenerateBroker_def meta_instance_def deployed_true_def
      AppPropertiesSecretName_def sample_kube_def app_secret_def Let_def)

lemma ready_deployed: "broker_deployed meta_instance (Some ready_broker)"
  by (simp add: broker_deployed_def ready_broker_def GenerateBroker_def meta_instance_def deployed_true_def)

theorem service_ready_exact_witness:
  "IsStatusConditionTrue meta_instance (ssConditions (processServiceStatus meta_instance
     (sample_kube [] [] [app_secret]) (\<lambda>b. []) (sample_service ''main'' 1000) (Some ready_broker) (Some []) None))
     ReadyConditionType"
proof -
  have "distinct_types (ssConditions (svcStatus (sample_service ''main'' 1000)))"
    by (simp add: distinct_types_def)
  from service_ready_exact [OF meta_instance_ok this] show ?thesis
    by (simp add: ready_applied ready_deployed service_types_def)
qed

section \<open>One application can block a service\<close>

text \<open>
  Validation looks at one capability at a time, the tracking of a service at all of them.  When an
  admitted application mixes routing semantics across its capabilities, the reconcile of its service
  ends before the synchronisation: nothing of any application is written, and the error is retried.
\<close>

theorem one_app_blocks_service:
  assumes "kListApps (cKube (seController E)) (serviceKey instance) = Inr apps" "a \<in> set apps"
    and "admitted (seController E) instance a" "trackApp a = Inl e"
    and "common_ValidateResourceName (appName a) = None"
    and "validateServiceSpec (cCel (seController E)) instance = None" "seListed E = Inr listed"
  shows "soServer (ReconcileService E instance s) = s \<and> soError (ReconcileService E instance s) \<noteq> None"
proof -
  from processSpec_fails [OF assms(1-5)] obtain err rej L' where
    p: "processSpec E instance (new_loop\<lparr>deployed := listed\<rparr>) = (Some err, rej, L')" by blast
  have "InitDeployed (seListed E) new_loop = (None, new_loop\<lparr>deployed := listed\<rparr>)"
    by (simp add: InitDeployed_def assms(7))
  from service_steps_error [OF p assms(6) this] show ?thesis
    by (simp add: ReconcileService_def Let_def)
qed

definition no_resources :: store where
  "no_resources = (\<lambda>k n. None)"

text \<open>Two capabilities that use one address as a queue and as a topic.\<close>

definition mixed_app :: broker_app where
  "mixed_app = bind (Some (new_binding sample_app (sample_service ''main'' 1000) 61617))
     (fresh_app ''dev'' ''mixed''
       [\<lparr>ProducerOf = [], ConsumerOf = [plain_local ''t'']\<rparr>,
        \<lparr>ProducerOf = [], ConsumerOf = [(plain_local ''t'')\<lparr>arSubscriptions := [''q'']\<rparr>]\<rparr>])"

lemma mixed_sel [simp]:
  "appNamespace mixed_app = ''dev''" "appName mixed_app = ''mixed''" "appSelector mixed_app = None"
  "appAddresses mixed_app = []" "appSharedAddresses mixed_app = []"
  "appCapabilities mixed_app = [\<lparr>ProducerOf = [], ConsumerOf = [plain_local ''t'']\<rparr>,
     \<lparr>ProducerOf = [], ConsumerOf = [(plain_local ''t'')\<lparr>arSubscriptions := [''q'']\<rparr>]\<rparr>]"
  "asService (appStatus mixed_app) = Some (new_binding sample_app (sample_service ''main'' 1000) 61617)"
  by (simp_all add: mixed_app_def fresh_app_def)

lemma topic_sel [simp]:
  "ref_multicast (plain_local a\<lparr>arSubscriptions := [q]\<rparr>)" "is_local (plain_local a\<lparr>arSubscriptions := [q]\<rparr>)"
  by (simp_all add: ref_multicast_def isMulticast_iff is_local_def)

lemma valid_mixed [simp]: "common_ValidateResourceName ''mixed'' = None" "common_ValidateResourceName ''main'' = None"
  by (simp_all add: common_ValidateResourceName_def has_prefix_def)

lemma mixed_spec_ok: "spec_ok mixed_app"
  by (simp add: spec_ok_def capability_ok_def consumer_ok_def ref_ok_def routing_ok_def app_refs_def
      declaredAddresses_def)

lemma mixed_untracked: "\<exists>e. trackApp mixed_app = Inl e"
  by (simp add: trackApp_def trackConsumer_def track_def on_config_def config_of_def newAddressConfig_def Let_def)

theorem one_app_blocks_service_witness:
  "validateSpec mixed_app = None \<and>
   soError (ReconcileService (sample_svc_env [shop_app, mixed_app]) (sample_service ''main'' 1000) no_resources) \<noteq> None \<and>
   soServer (ReconcileService (sample_svc_env [shop_app, mixed_app]) (sample_service ''main'' 1000) no_resources) =
     no_resources"
proof -
  obtain e where e: "trackApp mixed_app = Inl e" using mixed_untracked by blast
  let ?E = "sample_svc_env [shop_app, mixed_app]" and ?s = "sample_service ''main'' 1000"
  have l: "kListApps (cKube (seController ?E)) (serviceKey ?s) = Inr [shop_app, mixed_app]"
    by (simp add: shop_app_def app_binding_index_def binding_key_def serviceKey_def new_binding_def)
  have v: "validateServiceSpec (cCel (seController ?E)) ?s = None"
    by (simp add: validateServiceSpec_def ValidateResourceName_def sample_service_def)
  have "mixed_app \<in> set [shop_app, mixed_app]" "admitted (seController ?E) ?s mixed_app"
    by (simp_all add: sample_admits)
  from one_app_blocks_service [OF l this e _ v, of "\<lambda>k. []" no_resources] show ?thesis
    by (simp add: validateSpec_None mixed_spec_ok)
qed

section \<open>Events\<close>

text \<open>
  The handler of application updates enqueues the service of the old binding and the service of the
  new one, and no other: a service always learns of an application that leaves it.
\<close>

theorem update_reaches_both_services:
  "set (handle_app_event (UpdateEvent oldApp newApp)) =
     {r. getServiceRequest oldApp = Some r \<or> getServiceRequest newApp = Some r}"
  by (rule appToService_update)

end
