(* ===== verification/Broker_Version.thy ===== *)
theory Broker_Version
  imports Operator_Secrets Conditions
begin

text \<open>
  The supported broker versions (\<open>version/version.go\<close>) and the resolution of \<open>spec.version\<close> and of the
  images (\<open>pkg/utils/common/common.go\<close>).  The package \<open>semver\<close> is an argument; \<open>semver_ok\<close> states what
  the resolution relies on.  A resolution works on any custom resource by the three fields it reads.
\<close>

section \<open>version/version.go\<close>

abbreviation "LatestVersion \<equiv> ''2.54.0''"
abbreviation "CompactLatestVersion \<equiv> ''2540''"

definition LatestKubeImage :: string where
  "LatestKubeImage = ''quay.io/arkmq-org/arkmq-org-broker-kubernetes:artemis.'' @ LatestVersion"

definition LatestInitImage :: string where
  "LatestInitImage = ''quay.io/arkmq-org/arkmq-org-broker-init:artemis.'' @ LatestVersion"

text \<open>The defaults are read from the environment once and kept in package variables.\<close>

definition env_default :: "env \<Rightarrow> string \<Rightarrow> string \<Rightarrow> string \<Rightarrow> string" where
  "env_default env v dflt cached =
     (if cached = '''' then (case env v of Some x \<Rightarrow> if x = '''' then dflt else x | None \<Rightarrow> dflt)
      else cached)"

definition GetDefaultVersion :: "env \<Rightarrow> string \<Rightarrow> string" where
  "GetDefaultVersion env cached = env_default env ''DEFAULT_BROKER_VERSION'' LatestVersion cached"

definition GetDefaultCompactVersion :: "env \<Rightarrow> string \<Rightarrow> string" where
  "GetDefaultCompactVersion env cached =
     env_default env ''DEFAULT_BROKER_COMPACT_VERSION'' CompactLatestVersion cached"

definition GetDefaultKubeImage :: "env \<Rightarrow> string \<Rightarrow> string" where
  "GetDefaultKubeImage env cached = env_default env ''DEFAULT_BROKER_KUBE_IMAGE'' LatestKubeImage cached"

definition GetDefaultInitImage :: "env \<Rightarrow> string \<Rightarrow> string" where
  "GetDefaultInitImage env cached = env_default env ''DEFAULT_BROKER_INIT_IMAGE'' LatestInitImage cached"

definition DefaultImageName :: "env \<Rightarrow> string \<Rightarrow> string" where
  "DefaultImageName env archSpecificRelatedImageEnvVarName =
     (if str_contains archSpecificRelatedImageEnvVarName ''_INIT_''
      then GetDefaultInitImage env '''' else GetDefaultKubeImage env '''')"

definition FullVersionFromCompactVersion :: "(string \<times> string) list" where
  "FullVersionFromCompactVersion =
     [
      (''2210'', ''2.21.0''), (''2220'', ''2.22.0''), (''2230'', ''2.23.0''),
      (''2250'', ''2.25.0''), (''2260'', ''2.26.0''), (''2270'', ''2.27.0''),
      (''2271'', ''2.27.1''), (''2280'', ''2.28.0''), (''2290'', ''2.29.0''),
      (''2300'', ''2.30.0''), (''2310'', ''2.31.0''), (''2312'', ''2.31.2''),
      (''2320'', ''2.32.0''), (''2330'', ''2.33.0''), (''2340'', ''2.34.0''),
      (''2350'', ''2.35.0''), (''2360'', ''2.36.0''), (''2370'', ''2.37.0''),
      (''2380'', ''2.38.0''), (''2390'', ''2.39.0''), (''2400'', ''2.40.0''),
      (''2410'', ''2.41.0''), (''2420'', ''2.42.0''), (''2430'', ''2.43.0''),
      (''2440'', ''2.44.0''), (''2500'', ''2.50.0''), (''2510'', ''2.51.0''),
      (''2520'', ''2.52.0''), (''2530'', ''2.53.0''), (''2540'', ''2.54.0'')]"

definition YacfgProfileVersionFromFullVersion :: "(string \<times> string) list" where
  "YacfgProfileVersionFromFullVersion =
     [
      (''2.21.0'', ''2.21.0''), (''2.22.0'', ''2.21.0''), (''2.23.0'', ''2.21.0''),
      (''2.25.0'', ''2.21.0''), (''2.26.0'', ''2.21.0''), (''2.27.0'', ''2.21.0''),
      (''2.27.1'', ''2.21.0''), (''2.28.0'', ''2.21.0''), (''2.29.0'', ''2.21.0''),
      (''2.30.0'', ''2.21.0''), (''2.31.0'', ''2.21.0''), (''2.31.2'', ''2.21.0''),
      (''2.32.0'', ''2.21.0''), (''2.33.0'', ''2.21.0''), (''2.34.0'', ''2.21.0''),
      (''2.35.0'', ''2.21.0''), (''2.36.0'', ''2.21.0''), (''2.37.0'', ''2.21.0''),
      (''2.38.0'', ''2.21.0''), (''2.39.0'', ''2.21.0''), (''2.40.0'', ''2.21.0''),
      (''2.41.0'', ''2.21.0''), (''2.42.0'', ''2.21.0''), (''2.43.0'', ''2.21.0''),
      (''2.44.0'', ''2.21.0''), (''2.50.0'', ''2.21.0''), (''2.51.0'', ''2.21.0''),
      (''2.52.0'', ''2.21.0''), (''2.53.0'', ''2.21.0''), (''2.54.0'', ''2.21.0'')]"

definition SupportedActiveMQArtemisVersions :: "string list" where
  "SupportedActiveMQArtemisVersions =
     [
      ''2.21.0'', ''2.22.0'', ''2.23.0'', ''2.25.0'', ''2.26.0'', ''2.27.0'', ''2.27.1'',
      ''2.28.0'', ''2.29.0'', ''2.30.0'', ''2.31.0'', ''2.31.2'', ''2.32.0'', ''2.33.0'',
      ''2.34.0'', ''2.35.0'', ''2.36.0'', ''2.37.0'', ''2.38.0'', ''2.39.0'', ''2.40.0'',
      ''2.41.0'', ''2.42.0'', ''2.43.0'', ''2.44.0'', ''2.50.0'', ''2.51.0'', ''2.52.0'',
      ''2.53.0'', ''2.54.0'']"

definition CompactActiveMQArtemisVersion :: "string \<Rightarrow> string" where
  "CompactActiveMQArtemisVersion version = replace_all ''.'' '''' version"

definition IsSupportedActiveMQArtemisVersion :: "string \<Rightarrow> bool" where
  "IsSupportedActiveMQArtemisVersion version =
     list_ex (\<lambda>v. v = version) SupportedActiveMQArtemisVersions"

text \<open>The type \<open>semver.Version\<close> by its three numbers, compared in that order.\<close>

record semver =
  svMajor :: nat
  svMinor :: nat
  svPatch :: nat

definition semver_less_eq :: "semver \<Rightarrow> semver \<Rightarrow> bool" where
  "semver_less_eq v w \<longleftrightarrow> svMajor v < svMajor w \<or> (svMajor v = svMajor w \<and>
     (svMinor v < svMinor w \<or> (svMinor v = svMinor w \<and> svPatch v \<le> svPatch w)))"

record semver_api =
  svMustParse :: "string \<Rightarrow> semver"
  svParseTolerant :: "string \<Rightarrow> string option"   \<comment> \<open>the error, if any\<close>
  svSort :: "semver list \<Rightarrow> semver list"
  svString :: "semver \<Rightarrow> string"

definition semver_string :: "semver \<Rightarrow> string" where
  "semver_string v = nat_to_string (svMajor v) @ ''.'' @ nat_to_string (svMinor v) @ ''.'' @
     nat_to_string (svPatch v)"

text \<open>A plain version: three decimal numbers of 64 bits without leading zeros.\<close>

definition plain_version :: "string \<Rightarrow> semver option" where
  "plain_version s =
     (case map parse_uint (split_char (CHR ''.'') s) of
        [Some a, Some b, Some c] \<Rightarrow>
          (let v = \<lparr>svMajor = a, svMinor = b, svPatch = c\<rparr>
           in if semver_string v = s then Some v else None)
      | _ \<Rightarrow> None)"

definition semver_ok :: "semver_api \<Rightarrow> bool" where
  "semver_ok S \<longleftrightarrow>
     (\<forall>s v. plain_version s = Some v \<longrightarrow> svMustParse S s = v \<and> svParseTolerant S s = None) \<and>
     (\<forall>vs. mset (svSort S vs) = mset vs \<and> sorted_wrt semver_less_eq (svSort S vs)) \<and>
     (\<forall>v. svString S v = semver_string v)"

definition SupportedActiveMQArtemisSemanticVersions :: "semver_api \<Rightarrow> semver list" where
  "SupportedActiveMQArtemisSemanticVersions S =
     svSort S (map (svMustParse S) SupportedActiveMQArtemisVersions)"

section \<open>Resolution\<close>

definition resolveVersionComponents :: "string \<Rightarrow> nat option \<times> nat option \<times> nat option" where
  "resolveVersionComponents desired =
     (let parts = split_n 3 desired ''.'';
          part = (\<lambda>i. if i < length parts then parse_uint (parts ! i) else None)
      in (part 0, part 1, part 2))"

definition matches_components :: "nat option \<times> nat option \<times> nat option \<Rightarrow> semver \<Rightarrow> bool" where
  "matches_components = (\<lambda>(major, minor, patch) v.
     (case major of
        None \<Rightarrow> False
      | Some a \<Rightarrow>
          a = svMajor v \<and>
          (case minor of
             None \<Rightarrow> True
           | Some b \<Rightarrow> b = svMinor v \<and> (case patch of None \<Rightarrow> True | Some c \<Rightarrow> c = svPatch v))))"

text \<open>The loop walks the versions from the last to the first and stops at the first match.\<close>

definition ResolveBrokerVersion :: "semver list \<Rightarrow> string \<Rightarrow> semver option" where
  "ResolveBrokerVersion versions desired =
     (if versions = [] then None
      else if desired = '''' then Some (last versions)
      else List.find (matches_components (resolveVersionComponents desired)) (rev versions))"

record image_spec =
  isVersion :: string
  isImage :: string
  isInitImage :: string

definition ResolveBrokerVersionFromCR :: "semver_api \<Rightarrow> image_spec \<Rightarrow> string + string" where
  "ResolveBrokerVersionFromCR S cr =
     (case (if isVersion cr \<noteq> '''' then svParseTolerant S (isVersion cr) else None) of
        Some verr \<Rightarrow> Inl verr
      | None \<Rightarrow>
          (case ResolveBrokerVersion (SupportedActiveMQArtemisSemanticVersions S) (isVersion cr) of
             None \<Rightarrow> Inl (''did not find a matching broker in the supported list for '' @ isVersion cr)
           | Some result \<Rightarrow> Inr (svString S result)))"

definition DetermineCompactVersionToUse :: "semver_api \<Rightarrow> image_spec \<Rightarrow> string + string" where
  "DetermineCompactVersionToUse S cr =
     (case ResolveBrokerVersionFromCR S cr of
        Inl err \<Rightarrow> Inl err
      | Inr resolvedFullVersion \<Rightarrow> Inr (CompactActiveMQArtemisVersion resolvedFullVersion))"

abbreviation "BrokerImageKey \<equiv> ''KUBERNETES''"
abbreviation "InitImageKey \<equiv> ''INIT''"

text \<open>\<open>osruntime.GOARCH\<close> is an argument.\<close>

definition DetermineImageToUse :: "semver_api \<Rightarrow> env \<Rightarrow> string \<Rightarrow> image_spec \<Rightarrow> string \<Rightarrow> string" where
  "DetermineImageToUse S env goarch cr imageTypeKey =
     (let compactVersionToUse = (case DetermineCompactVersionToUse S cr of Inr v \<Rightarrow> v | Inl e \<Rightarrow> '''');
          generic = ''RELATED_IMAGE_BROKER_'' @ imageTypeKey @ ''_'' @ compactVersionToUse;
          arch = (if goarch = ''arm64'' \<or> goarch = ''s390x'' \<or> goarch = ''ppc64le''
                  then generic @ ''_'' @ goarch else generic)
      in case env arch of
           Some imageName \<Rightarrow> imageName
         | None \<Rightarrow> (case env generic of
             Some imageName \<Rightarrow> imageName
           | None \<Rightarrow> DefaultImageName env arch))"

definition isLockedDown :: "string \<Rightarrow> bool" where
  "isLockedDown imageAttribute \<longleftrightarrow> imageAttribute \<noteq> ''placeholder'' \<and> imageAttribute \<noteq> ''''"

definition ResolveImage :: "semver_api \<Rightarrow> env \<Rightarrow> string \<Rightarrow> image_spec \<Rightarrow> string \<Rightarrow> string" where
  "ResolveImage S env goarch cr key =
     (if key = InitImageKey \<and> isLockedDown (isInitImage cr) then isInitImage cr
      else if key = BrokerImageKey \<and> isLockedDown (isImage cr) then isImage cr
      else DetermineImageToUse S env goarch cr key)"

text \<open>The same for a \<open>Broker\<close>, which has no init image (\<open>pkg/broker/version/version.go\<close>).\<close>

definition broker_ResolveImage :: "semver_api \<Rightarrow> env \<Rightarrow> string \<Rightarrow> image_spec \<Rightarrow> string \<Rightarrow> string" where
  "broker_ResolveImage S env goarch cr key =
     (if key = BrokerImageKey \<and> isLockedDown (isImage cr) then isImage cr
      else DetermineImageToUse S env goarch cr key)"

section \<open>Validation and status\<close>

definition version_invalid :: "string \<Rightarrow> condition" where
  "version_invalid err =
     mk_condition ValidConditionType ConditionFalse ValidConditionInvalidVersionReason
       (''.Spec.Version does not resolve to a supported broker version, reason '' @ err)"

definition version_unknown :: "string \<Rightarrow> condition" where
  "version_unknown message =
     mk_condition ValidConditionType ConditionUnknown ValidConditionUnknownReason message"

definition ValidateBrokerImageVersion :: "semver_api \<Rightarrow> image_spec \<Rightarrow> condition option" where
  "ValidateBrokerImageVersion S cr =
     (case ResolveBrokerVersionFromCR S cr of
        Inl err \<Rightarrow> Some (version_invalid err)
      | Inr v \<Rightarrow>
          (if isLockedDown (isImage cr) \<or> isLockedDown (isInitImage cr)
           then if \<not> isLockedDown (isInitImage cr) \<or> \<not> isLockedDown (isImage cr)
                then Some (version_unknown ImageDependentPairMessage)
                else if isVersion cr \<noteq> ''''
                then if \<not> IsSupportedActiveMQArtemisVersion (isVersion cr)
                     then Some (version_unknown NotSupportedImageVersionMessage) else None
                else Some (version_unknown UnkonwonImageVersionMessage)
           else None))"

definition broker_ValidateBrokerImageVersion :: "semver_api \<Rightarrow> image_spec \<Rightarrow> condition option" where
  "broker_ValidateBrokerImageVersion S cr =
     (case ResolveBrokerVersionFromCR S cr of
        Inl err \<Rightarrow> Some (version_invalid err)
      | Inr v \<Rightarrow>
          (if isLockedDown (isImage cr)
           then if isVersion cr \<noteq> ''''
                then if \<not> IsSupportedActiveMQArtemisVersion (isVersion cr)
                     then Some (version_unknown NotSupportedImageVersionMessage) else None
                else Some (version_unknown UnkonwonImageVersionMessage)
           else None))"

record upgrade_status =
  SecurityUpdates :: bool
  MajorUpdates :: bool
  MinorUpdates :: bool
  PatchUpdates :: bool

record version_status =
  vsImage :: string
  vsInitImage :: string
  vsBrokerVersion :: string
  vsUpgrade :: upgrade_status

definition updateVersionStatus :: "semver_api \<Rightarrow> env \<Rightarrow> string \<Rightarrow> image_spec \<Rightarrow> version_status" where
  "updateVersionStatus S env goarch cr =
     \<lparr>vsImage = ResolveImage S env goarch cr BrokerImageKey,
      vsInitImage = ResolveImage S env goarch cr InitImageKey,
      vsBrokerVersion = (case ResolveBrokerVersionFromCR S cr of Inr v \<Rightarrow> v | Inl e \<Rightarrow> ''''),
      vsUpgrade =
        (if isLockedDown (isImage cr) \<or> isLockedDown (isInitImage cr)
         then \<lparr>SecurityUpdates = False, MajorUpdates = False, MinorUpdates = False, PatchUpdates = False\<rparr>
         else if isVersion cr = ''''
         then \<lparr>SecurityUpdates = True, MajorUpdates = True, MinorUpdates = True, PatchUpdates = True\<rparr>
         else (let n = length (split_all (isVersion cr) ''.'')
               in \<lparr>SecurityUpdates = True, MajorUpdates = False, MinorUpdates = (n = 1),
                   PatchUpdates = (n = 1 \<or> n = 2)\<rparr>))\<rparr>"

section \<open>Facts\<close>

lemma semver_parse: "semver_ok S \<Longrightarrow> plain_version s = Some v \<Longrightarrow> svMustParse S s = v"
  unfolding semver_ok_def by blast

lemma semver_tolerant: "semver_ok S \<Longrightarrow> plain_version s = Some v \<Longrightarrow> svParseTolerant S s = None"
  unfolding semver_ok_def by blast

lemma semver_sorted: "semver_ok S \<Longrightarrow> sorted_wrt semver_less_eq (svSort S vs)"
  unfolding semver_ok_def by blast

lemma semver_mset: "semver_ok S \<Longrightarrow> mset (svSort S vs) = mset vs"
  unfolding semver_ok_def by blast

lemma semver_set [simp]: "semver_ok S \<Longrightarrow> set (svSort S vs) = set vs"
  using semver_mset [of S vs] by (metis set_mset_mset)

lemma semver_String: "semver_ok S \<Longrightarrow> svString S v = semver_string v"
  unfolding semver_ok_def by blast

text \<open>The supported versions are plain, in increasing order, and print as they are written.\<close>

abbreviation ver :: "nat \<Rightarrow> nat \<Rightarrow> nat \<Rightarrow> semver" where
  "ver a b c \<equiv> \<lparr>svMajor = a, svMinor = b, svPatch = c\<rparr>"

definition supported_semvers :: "semver list" where
  "supported_semvers =
     [
      ver 2 21 0, ver 2 22 0, ver 2 23 0, ver 2 25 0, ver 2 26 0, ver 2 27 0, ver 2 27 1,
      ver 2 28 0, ver 2 29 0, ver 2 30 0, ver 2 31 0, ver 2 31 2, ver 2 32 0, ver 2 33 0,
      ver 2 34 0, ver 2 35 0, ver 2 36 0, ver 2 37 0, ver 2 38 0, ver 2 39 0, ver 2 40 0,
      ver 2 41 0, ver 2 42 0, ver 2 43 0, ver 2 44 0, ver 2 50 0, ver 2 51 0, ver 2 52 0,
      ver 2 53 0, ver 2 54 0]"

lemma supported_prints: "map semver_string supported_semvers = SupportedActiveMQArtemisVersions"
  by (simp add: supported_semvers_def SupportedActiveMQArtemisVersions_def semver_string_def
      nat_to_string.simps digit_chars)

lemma supported_sorted: "sorted_wrt semver_less_eq supported_semvers"
  by (simp add: supported_semvers_def semver_less_eq_def)

lemma supported_small:
  "v \<in> set supported_semvers \<Longrightarrow> svMajor v < 2 ^ 64 \<and> svMinor v < 2 ^ 64 \<and> svPatch v < 2 ^ 64"
  by (auto simp: supported_semvers_def)

text \<open>A version that fits in 64 bits is read back from its text, by the parser and by the resolution.\<close>

lemma nat_to_string_dot: "CHR ''.'' \<notin> set (nat_to_string n)"
proof
  assume "CHR ''.'' \<in> set (nat_to_string n)"
  with nat_to_string_digits [of n] have "is_digit (CHR ''.'')" by (simp add: list_all_iff)
  then show False by (simp add: is_digit_def)
qed

lemma split_semver:
  "split_char (CHR ''.'') (semver_string v) =
     [nat_to_string (svMajor v), nat_to_string (svMinor v), nat_to_string (svPatch v)]"
  by (simp add: semver_string_def split_char_append split_char_no_sep nat_to_string_dot)

lemma split_n_semver:
  "split_n 3 (semver_string v) ''.'' =
     [nat_to_string (svMajor v), nat_to_string (svMinor v), nat_to_string (svPatch v)]"
  using cut_char [OF nat_to_string_dot]
  by (simp add: semver_string_def numeral_3_eq_3)

lemma plain_semver_string:
  "svMajor v < 2 ^ 64 \<Longrightarrow> svMinor v < 2 ^ 64 \<Longrightarrow> svPatch v < 2 ^ 64 \<Longrightarrow>
     plain_version (semver_string v) = Some v"
  by (cases v) (simp add: plain_version_def split_semver parse_uint_nat_to_string Let_def)

lemma components_semver_string:
  "svMajor v < 2 ^ 64 \<Longrightarrow> svMinor v < 2 ^ 64 \<Longrightarrow> svPatch v < 2 ^ 64 \<Longrightarrow>
     resolveVersionComponents (semver_string v) = (Some (svMajor v), Some (svMinor v), Some (svPatch v))"
  by (simp add: resolveVersionComponents_def split_n_semver parse_uint_nat_to_string)

lemma semver_less_eq_antisym: "semver_less_eq v w \<Longrightarrow> semver_less_eq w v \<Longrightarrow> v = w"
  by (auto simp: semver_less_eq_def)

lemma semver_less_eq_trans: "semver_less_eq u v \<Longrightarrow> semver_less_eq v w \<Longrightarrow> semver_less_eq u w"
  by (auto simp: semver_less_eq_def)

lemma semver_less_eq_total: "semver_less_eq v w \<or> semver_less_eq w v"
  by (auto simp: semver_less_eq_def)

lemma sorted_unique:
  assumes "sorted_wrt semver_less_eq xs" "sorted_wrt semver_less_eq ys" "mset xs = mset ys"
  shows "xs = ys"
  using assms
proof (induction xs arbitrary: ys)
  case Nil
  then show ?case by simp
next
  case (Cons x xs)
  then obtain y ys' where ys: "ys = y # ys'" by (cases ys) auto
  have "x \<in> set ys" "y \<in> set (x # xs)"
    using Cons.prems(3) ys by (metis list.set_intros(1) mset_eq_setD)+
  with Cons.prems(1,2) ys have "x = y" by (auto intro: semver_less_eq_antisym)
  with Cons.prems ys Cons.IH [of ys'] show ?case by simp
qed

lemma supported_list:
  assumes S: "semver_ok S"
  shows "SupportedActiveMQArtemisSemanticVersions S = supported_semvers"
proof -
  have "map (svMustParse S) SupportedActiveMQArtemisVersions = supported_semvers"
    unfolding supported_prints [symmetric] map_map
  proof (rule map_idI, unfold comp_def)
    fix v assume "v \<in> set supported_semvers"
    from supported_small [OF this] have "plain_version (semver_string v) = Some v"
      by (intro plain_semver_string) blast+
    from semver_parse [OF S this] show "svMustParse S (semver_string v) = v" .
  qed
  then show ?thesis
    using sorted_unique [OF semver_sorted [OF S] supported_sorted] semver_mset [OF S]
    by (simp add: SupportedActiveMQArtemisSemanticVersions_def)
qed

text \<open>The result is the last match, which in a sorted list is the greatest.\<close>

lemma resolve_some:
  assumes "ResolveBrokerVersion vs desired = Some v" "desired \<noteq> ''''" "sorted_wrt semver_less_eq vs"
  shows "v \<in> set vs" and "matches_components (resolveVersionComponents desired) v"
    and "\<forall>w \<in> set vs. matches_components (resolveVersionComponents desired) w \<longrightarrow> semver_less_eq w v"
proof -
  from assms have f: "List.find (matches_components (resolveVersionComponents desired)) (rev vs) = Some v"
    by (auto simp: ResolveBrokerVersion_def split: if_splits)
  then obtain i where i: "i < length vs" "rev vs ! i = v"
    "matches_components (resolveVersionComponents desired) v"
    "\<forall>j < i. \<not> matches_components (resolveVersionComponents desired) (rev vs ! j)"
    by (auto simp: find_Some_iff)
  then show "v \<in> set vs" "matches_components (resolveVersionComponents desired) v"
    by (auto simp: rev_nth)
  show "\<forall>w \<in> set vs. matches_components (resolveVersionComponents desired) w \<longrightarrow> semver_less_eq w v"
  proof (intro ballI impI)
    fix w assume w: "w \<in> set vs" "matches_components (resolveVersionComponents desired) w"
    from w(1) obtain j where j: "j < length vs" "rev vs ! j = w"
      by (metis in_set_conv_nth length_rev set_rev)
    with i(4) w(2) have "i \<le> j" by (meson not_le)
    show "semver_less_eq w v"
    proof (cases "i = j")
      case True
      with i(2) j(2) show ?thesis using semver_less_eq_total [of w v] by simp
    next
      case False
      with \<open>i \<le> j\<close> j(1) i(1) have "length vs - Suc j < length vs - Suc i" "length vs - Suc i < length vs"
        by linarith+
      from sorted_wrt_nth_less [OF assms(3) this] i(1,2) j show ?thesis by (simp add: rev_nth)
    qed
  qed
qed

lemma resolve_none_iff:
  "desired \<noteq> '''' \<Longrightarrow> ResolveBrokerVersion vs desired = None \<longleftrightarrow>
     (\<forall>w \<in> set vs. \<not> matches_components (resolveVersionComponents desired) w)"
  by (auto simp: ResolveBrokerVersion_def find_None_iff)

lemma resolve_latest: "vs \<noteq> [] \<Longrightarrow> ResolveBrokerVersion vs '''' = Some (last vs)"
  by (simp add: ResolveBrokerVersion_def)

text \<open>Each supported version, spelled in full, resolves to itself.\<close>

lemma supported_self:
  assumes "v \<in> set supported_semvers"
  shows "ResolveBrokerVersion supported_semvers (semver_string v) = Some v"
proof -
  have ne: "semver_string v \<noteq> ''''" by (simp add: semver_string_def)
  have c: "resolveVersionComponents (semver_string v) = (Some (svMajor v), Some (svMinor v), Some (svPatch v))"
    using supported_small [OF assms] by (intro components_semver_string) blast+
  have m: "matches_components (Some (svMajor v), Some (svMinor v), Some (svPatch v)) w \<longleftrightarrow> w = v" for w
    by (auto simp: matches_components_def)
  have "ResolveBrokerVersion supported_semvers (semver_string v) \<noteq> None"
    unfolding resolve_none_iff [OF ne] c m using assms by blast
  then obtain w where w: "ResolveBrokerVersion supported_semvers (semver_string v) = Some w" by blast
  from resolve_some(2) [OF w ne supported_sorted] w show ?thesis by (simp add: c m)
qed

lemma supported_last: "semver_string (last supported_semvers) = LatestVersion"
  by (simp add: supported_semvers_def semver_string_def nat_to_string.simps digit_chars)

lemma compact_table: "map (\<lambda>v. (CompactActiveMQArtemisVersion v, v)) SupportedActiveMQArtemisVersions =
    FullVersionFromCompactVersion"
  by (simp add: SupportedActiveMQArtemisVersions_def FullVersionFromCompactVersion_def
      CompactActiveMQArtemisVersion_def replace_all_char)

lemma compact_distinct: "distinct (map fst FullVersionFromCompactVersion)"
  by (simp add: FullVersionFromCompactVersion_def)

lemma compact_lookup:
  "v \<in> set SupportedActiveMQArtemisVersions \<Longrightarrow>
     map_of FullVersionFromCompactVersion (CompactActiveMQArtemisVersion v) = Some v"
  using compact_distinct by (intro map_of_is_SomeI) (auto simp: compact_table [symmetric])

lemma yacfg_table: "map fst YacfgProfileVersionFromFullVersion = SupportedActiveMQArtemisVersions"
  by (simp add: YacfgProfileVersionFromFullVersion_def SupportedActiveMQArtemisVersions_def)

text \<open>A concrete instance of the package, for the witnesses.\<close>

fun semver_insert :: "semver \<Rightarrow> semver list \<Rightarrow> semver list" where
  "semver_insert v [] = [v]"
| "semver_insert v (w # ws) = (if semver_less_eq v w then v # w # ws else w # semver_insert v ws)"

definition semver_instance :: semver_api where
  "semver_instance =
     \<lparr>svMustParse = (\<lambda>s. the (plain_version s)),
      svParseTolerant = (\<lambda>s. if plain_version s = None then Some ''invalid version'' else None),
      svSort = (\<lambda>vs. foldr semver_insert vs []), svString = semver_string\<rparr>"

lemma mset_semver_insert [simp]: "mset (semver_insert v ws) = add_mset v (mset ws)"
  by (induction ws) auto

lemma sorted_semver_insert:
  "sorted_wrt semver_less_eq ws \<Longrightarrow> sorted_wrt semver_less_eq (semver_insert v ws)"
proof (induction ws)
  case Nil
  then show ?case by simp
next
  case (Cons w ws)
  have set: "set (semver_insert v ws) = insert v (set ws)"
    using mset_semver_insert [of v ws] by (metis set_mset_add_mset_insert set_mset_mset)
  show ?case
  proof (cases "semver_less_eq v w")
    case True
    with Cons.prems show ?thesis by (auto intro: semver_less_eq_trans)
  next
    case False
    then have "semver_less_eq w v" using semver_less_eq_total by blast
    with False Cons set show ?thesis by auto
  qed
qed

lemma semver_instance_ok: "semver_ok semver_instance"
proof -
  have "mset (foldr semver_insert vs []) = mset vs \<and> sorted_wrt semver_less_eq (foldr semver_insert vs [])" for vs
    by (induction vs) (auto intro: sorted_semver_insert)
  then show ?thesis by (auto simp: semver_ok_def semver_instance_def)
qed

end
