(* ===== verification/Support_Properties.thy ===== *)
theory Support_Properties
  imports Sample_Cluster Broker_Version Broker_Properties Resource_Names
begin

text \<open>
  The properties of the parts the two controllers share: the port pool, the selector of applications,
  the operator's secrets, the broker versions, the broker properties, the names of pods, and the
  comparison of conditions.
\<close>

section \<open>The port pool\<close>

text \<open>
  requests served one after the other get pairwise different ports of the range, and
  exactly as many of them as are asked for and still free: the pool is used up completely before it fails.
\<close>

theorem port_requests_exact:
  "distinct (alloc_run assignNextAvailablePort n used) \<and>
   set (alloc_run assignNextAvailablePort n used) \<subseteq> {p \<in> port_range. \<not> used p} \<and>
   length (alloc_run assignNextAvailablePort n used) = min n (card {p \<in> port_range. \<not> used p})"
  using ports.alloc_run_distinct [of n used] ports.alloc_run_free [of n used]
    ports.alloc_run_length [of n used]
  by (simp add: ports.free_ports_def)

section \<open>The selector\<close>

text \<open>
  the cache of compiled selectors changes no answer: on every content the package can have put in
  it, a match is the match without a cache, and the content stays of that kind.
\<close>

theorem selector_cache_transparent:
  assumes "lru_ok L" "cache_inv E L c" "Matches E L c app service = (r, c')"
  shows "r = matches_uncached E app service \<and> cache_inv E L c'"
  using Matches_transparent [OF assms] .

theorem selector_cache_transparent_witness:
  "\<exists>c1 c2. Matches sample_cel sample_lru [] sample_app (sample_service ''main'' 1000) = (Inr True, c1) \<and>
     Matches sample_cel sample_lru c1 sample_app (sample_service ''main'' 1000) = (Inr True, c2)"
proof -
  let ?s = "sample_service ''main'' 1000"
  obtain r1 c1 where m1: "Matches sample_cel sample_lru [] sample_app ?s = (r1, c1)" by fastforce
  have "cache_inv sample_cel sample_lru []" by (simp add: cache_inv_def sample_lru_def)
  from selector_cache_transparent [OF sample_lru_ok this m1] have r1: "r1 = Inr True"
    and c1: "cache_inv sample_cel sample_lru c1" by simp_all
  obtain r2 c2 where m2: "Matches sample_cel sample_lru c1 sample_app ?s = (r2, c2)" by fastforce
  from selector_cache_transparent [OF sample_lru_ok c1 m2] m1 m2 r1 show ?thesis by simp
qed

text \<open>
  Fetching a namespace only when the walk over the expression finds its variable gives the result
  of fetching both namespaces always.
\<close>

theorem namespace_fetch_only_when_used:
  assumes "program_local E" "compileProgram E expression = Inr metadata"
  shows "runProgram E metadata app service =
    runProgram E \<lparr>mdProgram = mdProgram metadata, usesAppNamespace = True, usesServiceNamespace = True\<rparr> app service"
  using fetch_skip [OF assms] by (simp add: fetch_always_def)

theorem namespace_fetch_only_when_used_witness:
  "\<not> usesServiceNamespace sample_metadata \<and>
   runProgram sample_cel sample_metadata sample_app (sample_service ''main'' 1000) =
   runProgram sample_cel \<lparr>mdProgram = mdProgram sample_metadata, usesAppNamespace = True,
     usesServiceNamespace = True\<rparr> sample_app (sample_service ''main'' 1000)"
  by (intro conjI namespace_fetch_only_when_used [OF sample_local sample_compiles])
    (simp add: sample_metadata_def)

section \<open>Versions\<close>

text \<open>
  A requested version, given by one, two or three components, resolves to the greatest supported
  version that agrees with it on every component that parses, and to none exactly when no supported
  version agrees.
\<close>

theorem version_resolves_to_greatest:
  assumes "semver_ok S" "wanted \<noteq> ''''"
  shows "case ResolveBrokerVersion (SupportedActiveMQArtemisSemanticVersions S) wanted of
      Some v \<Rightarrow> v \<in> set supported_semvers \<and>
        matches_components (resolveVersionComponents wanted) v \<and>
        (\<forall>w \<in> set supported_semvers. matches_components (resolveVersionComponents wanted) w \<longrightarrow> semver_less_eq w v)
    | None \<Rightarrow> \<forall>w \<in> set supported_semvers. \<not> matches_components (resolveVersionComponents wanted) w"
proof (cases "ResolveBrokerVersion supported_semvers wanted")
  case None
  with resolve_none_iff [OF assms(2), of supported_semvers] show ?thesis
    by (simp add: supported_list [OF assms(1)])
next
  case (Some v)
  with resolve_some [OF Some assms(2) supported_sorted] show ?thesis
    by (simp add: supported_list [OF assms(1)])
qed

theorem version_resolves_to_greatest_witness:
  "\<exists>v. ResolveBrokerVersion (SupportedActiveMQArtemisSemanticVersions semver_instance) ''2.27'' = Some v \<and>
     semver_less_eq (ver 2 27 1) v"
proof -
  let ?r = "ResolveBrokerVersion (SupportedActiveMQArtemisSemanticVersions semver_instance) ''2.27''"
  have c: "resolveVersionComponents ''2.27'' = (Some 2, Some 27, None)"
    by (simp add: resolveVersionComponents_def parse_uint_def parse_digits_def digit_value_def is_digit_def
        numeral_3_eq_3)
  have m: "ver 2 27 1 \<in> set supported_semvers" "matches_components (Some 2, Some 27, None) (ver 2 27 1)"
    by (simp_all add: supported_semvers_def matches_components_def)
  have r: "case ?r of Some v \<Rightarrow> v \<in> set supported_semvers \<and> matches_components (Some 2, Some 27, None) v \<and>
        (\<forall>w \<in> set supported_semvers. matches_components (Some 2, Some 27, None) w \<longrightarrow> semver_less_eq w v)
      | None \<Rightarrow> \<forall>w \<in> set supported_semvers. \<not> matches_components (Some 2, Some 27, None) w"
    using version_resolves_to_greatest [OF semver_instance_ok, of "''2.27''"] unfolding c by simp
  show ?thesis
  proof (cases ?r)
    case None
    with r m show ?thesis by simp
  next
    case (Some v)
    with r m show ?thesis by auto
  qed
qed

text \<open>
  The version tables agree: every supported version, written in full, resolves to itself, its
  compact form looks up the same version, and it has a configuration profile; and no version
  means the latest.
\<close>

theorem version_tables_round_trip:
  assumes "semver_ok S"
  shows "(\<forall>v \<in> set SupportedActiveMQArtemisVersions.
      map_option semver_string (ResolveBrokerVersion (SupportedActiveMQArtemisSemanticVersions S) v) = Some v \<and>
      map_of FullVersionFromCompactVersion (CompactActiveMQArtemisVersion v) = Some v \<and>
      map_of YacfgProfileVersionFromFullVersion v \<noteq> None) \<and>
    map_option semver_string (ResolveBrokerVersion (SupportedActiveMQArtemisSemanticVersions S) '''') =
      Some LatestVersion"
proof (intro conjI ballI)
  fix v assume v: "v \<in> set SupportedActiveMQArtemisVersions"
  then obtain w where "w \<in> set supported_semvers" "v = semver_string w"
    unfolding supported_prints [symmetric] by auto
  then show "map_option semver_string (ResolveBrokerVersion (SupportedActiveMQArtemisSemanticVersions S) v) = Some v"
    by (simp add: supported_list [OF assms] supported_self)
  show "map_of FullVersionFromCompactVersion (CompactActiveMQArtemisVersion v) = Some v"
    by (rule compact_lookup [OF v])
  show "map_of YacfgProfileVersionFromFullVersion v \<noteq> None"
    using v unfolding map_of_eq_None_iff yacfg_table [symmetric] by auto
next
  have "supported_semvers \<noteq> []" by (simp add: supported_semvers_def)
  from resolve_latest [OF this] show "map_option semver_string
      (ResolveBrokerVersion (SupportedActiveMQArtemisSemanticVersions S) '''') = Some LatestVersion"
    by (simp only: supported_list [OF assms] option.map supported_last)
qed

theorem version_tables_round_trip_witness:
  "map_option semver_string (ResolveBrokerVersion
     (SupportedActiveMQArtemisSemanticVersions semver_instance) ''2.31.2'') = Some ''2.31.2''"
proof -
  have "''2.31.2'' \<in> set SupportedActiveMQArtemisVersions" by (simp add: SupportedActiveMQArtemisVersions_def)
  with version_tables_round_trip [OF semver_instance_ok] show ?thesis by blast
qed

section \<open>The operator's secrets\<close>

text \<open>
  The lookup of an operator secret answers with the preferred secret of the operator's namespace
  when it can be read, with the legacy one exactly when the preferred one cannot be read and a different
  legacy name applies, and never with a secret of another namespace.
\<close>

theorem secret_lookup_exact:
  "fst (GetOperatorSecretWithFallback K env vars preferred legacy) = Inr s \<longleftrightarrow>
     (\<exists>ns. fst (GetOperatorNamespaceFromEnv env vars) = Inr ns \<and>
        (kGetSecret K ns preferred = Inr s \<or>
         (\<exists>e. kGetSecret K ns preferred = Inl e \<and> legacy \<noteq> '''' \<and> legacy \<noteq> preferred \<and>
            kGetSecret K ns legacy = Inr s)))"
  by (auto simp: GetOperatorSecretWithFallback_def GetNamespacedSecret_def split: prod.splits sum.splits)

section \<open>Broker properties\<close>

lemma ordinal_key_common: "k \<noteq> [] \<Longrightarrow> ordinal_key k \<noteq> BrokerPropertiesName"
  using ordinal_key_not_common by blast

text \<open>
  the properties of a custom resource are distributed over the files without loss: the common file
  holds the properties without an ordinal and the file of an ordinal holds the values of that ordinal, in
  their order, and there is a file for an ordinal exactly when a property names it.
\<close>

theorem properties_distributed:
  "map_of (BrokerPropertiesData props) BrokerPropertiesName = Some (properties_header @ file_content None props) \<and>
   (\<forall>k. k \<noteq> [] \<longrightarrow> map_of (BrokerPropertiesData props) (ordinal_key k) =
      (if \<exists>p \<in> set props. ordinal_of p = Some k then Some (file_content (Some k) props) else None))"
proof -
  obtain buf contents where l: "properties_loop props (properties_header, []) = (buf, contents)" by fastforce
  note spec = properties_loop_spec [OF l]
  have data: "BrokerPropertiesData props = AList.update BrokerPropertiesName buf contents"
    by (simp add: BrokerPropertiesData_def l)
  have "map_of (BrokerPropertiesData props) (ordinal_key k) =
      (if \<exists>p \<in> set props. ordinal_of p = Some k then Some (file_content (Some k) props) else None)"
    if "k \<noteq> []" for k
  proof -
    have "map_of (BrokerPropertiesData props) (ordinal_key k) = map_of contents (ordinal_key k)"
      using ordinal_key_common [OF that] by (simp add: data update_conv')
    moreover have "map_of contents (ordinal_key k) \<noteq> None \<longleftrightarrow> (\<exists>p \<in> set props. ordinal_of p = Some k)"
      and "(case map_of contents (ordinal_key k) of Some e \<Rightarrow> e | None \<Rightarrow> '''') = file_content (Some k) props"
      using spec by simp_all
    ultimately show ?thesis by (cases "map_of contents (ordinal_key k)") auto
  qed
  then show ?thesis using spec by (auto simp: data update_conv')
qed

theorem properties_distributed_witness:
  "map_of (BrokerPropertiesData [''a=1'', ''broker-0.a=2'']) (ordinal_key ''broker-0'') = Some (''a=2'' @ [nl])"
proof -
  have p: "ParseBrokerPropertyWithOrdinal ''broker-0.a=2'' = Some (''broker-0'', ''a=2'')"
    "ParseBrokerPropertyWithOrdinal ''a=1'' = None"
    by (simp_all add: ParseBrokerPropertyWithOrdinal_def has_prefix_def is_digit_def Let_def)
  show ?thesis
    using properties_distributed [of "[''a=1'', ''broker-0.a=2'']"]
    by (simp add: file_content_def ordinal_of_def p)
qed

lemma property_line_id:
  "trim_space p = p \<Longrightarrow> p \<noteq> [] \<Longrightarrow> hd p \<noteq> CHR ''#'' \<Longrightarrow> hd p \<noteq> CHR ''!'' \<Longrightarrow> property_line p = [p]"
proof -
  assume h: "trim_space p = p" "p \<noteq> []" "hd p \<noteq> CHR ''#''" "hd p \<noteq> CHR ''!''"
  have "length (trim_left p) \<ge> length (trim_space p)"
    using length_dropWhile_le [of is_space "rev (trim_left p)"] by (simp add: trim_space_def trim_right_def)
  with h(1) have "length p \<le> length (trim_left p)" by simp
  then have "trim_left p = p"
    unfolding trim_left_def by (metis append_self_conv2 length_append length_dropWhile_le le_antisym
        takeWhile_dropWhile_id add_cancel_right_left length_0_conv)
  with h show ?thesis by (cases p) (auto simp: property_line_def has_prefix_def Let_def)
qed

text \<open>
  the common file reads back as it was written: for properties that are single trimmed lines, not
  comments and without an ordinal, the lines the operator reads from the file, and compares and checksums,
  are the properties.
\<close>

theorem common_file_round_trip:
  assumes "\<forall>p \<in> set props. ordinal_of p = None \<and> nl \<notin> set p \<and> trim_space p = p \<and> p \<noteq> [] \<and>
     hd p \<noteq> CHR ''#'' \<and> hd p \<noteq> CHR ''!''"
  shows "\<exists>content. map_of (BrokerPropertiesData props) BrokerPropertiesName = Some content \<and>
    KeyValuePairs content = props"
proof -
  have "file_content None props = concat (map (\<lambda>p. p @ [nl]) props)"
    using assms by (induction props) (auto simp: file_content_Cons ordinal_of_def file_content_def)
  moreover have "KeyValuePairs p = [p]" if "p \<in> set props" for p
    using assms that by (simp add: KeyValuePairs_lines split_char_no_sep property_line_id)
  then have "concat (map KeyValuePairs props) = props" by (induction props) auto
  ultimately show ?thesis
    using properties_distributed [of props] by (auto simp: KeyValuePairs_header KeyValuePairs_concat)
qed

theorem common_file_round_trip_witness:
  "\<exists>content. map_of (BrokerPropertiesData [''a=1'', ''b=2'']) BrokerPropertiesName = Some content \<and>
    KeyValuePairs content = [''a=1'', ''b=2'']"
proof -
  have "ParseBrokerPropertyWithOrdinal ''a=1'' = None" "ParseBrokerPropertyWithOrdinal ''b=2'' = None"
    by (simp_all add: ParseBrokerPropertyWithOrdinal_def has_prefix_def is_digit_def Let_def)
  then show ?thesis
    by (intro common_file_round_trip)
      (simp add: ordinal_of_def trim_space_def trim_left_def trim_right_def is_space_def)
qed

text \<open>
  The check for duplicate keys reports the first key that repeats an earlier one, and reports
  nothing when no key repeats.
\<close>

theorem first_duplicate_reported:
  "(DuplicateKeyIn kvs = '''' \<and> distinct (map extractPropertyKey kvs)) \<or>
   (\<exists>xs x ys. kvs = xs @ x # ys \<and> distinct (map extractPropertyKey xs) \<and>
      extractPropertyKey x \<in> extractPropertyKey ` set xs \<and> DuplicateKeyIn kvs = extractPropertyKey x)"
  using duplicate_loop_first [of "[]" kvs]
  unfolding DuplicateKeyIn_def set_map list.set(1) Un_empty_right Int_empty_right by metis

text \<open>
  The answer for "no duplicate" is also the answer for a repeated empty entry: a list with a
  duplicate is reported as having none exactly when its first repetition is a second empty entry, so two
  empty entries hide every duplicate after them.
\<close>

theorem empty_entry_hides_duplicates:
  "\<not> distinct (map extractPropertyKey kvs) \<and> DuplicateKeyIn kvs = '''' \<longleftrightarrow>
     (\<exists>xs ys. kvs = xs @ '''' # ys \<and> '''' \<in> set xs \<and> distinct (map extractPropertyKey xs))"
proof -
  have mem: "'''' \<in> set (map extractPropertyKey xs) \<longleftrightarrow> '''' \<in> set xs" for xs
    using extractPropertyKey_empty unfolding set_map image_iff by metis
  have repeat: "\<not> distinct (map extractPropertyKey (xs @ '''' # ys))" if "'''' \<in> set xs" for xs ys
    using that mem [of xs] by auto
  show ?thesis
    unfolding DuplicateKeyIn_def duplicate_loop_iff list.set(1) Un_empty_right Int_empty_right mem
      extractPropertyKey_empty
    using repeat by blast
qed

section \<open>Pod names\<close>

text \<open>
  The ordinal of a pod reads back from its name, and from a status message that begins with the
  name, for every name of a resource without spaces and every ordinal an \<open>int\<close> holds.
\<close>

theorem pod_ordinal_round_trip:
  assumes "CHR '' '' \<notin> set cr" "0 \<le> n" "n < 2 ^ 63" "msg = [] \<or> (\<exists>t. msg = CHR '' '' # t)"
  shows "OrdinalFromPodName cr (CrToSSOrdinal cr n @ msg) = Ok n"
  using ordinal_round_trip [OF assms] .

theorem pod_ordinal_round_trip_witness:
  "OrdinalFromPodName ''amq'' (''amq-ss-3'' @ '' is down'') = Ok 3"
proof -
  have "CrToSSOrdinal ''amq'' 3 = ''amq-ss-3''"
    by (simp add: CrToSSOrdinal_def CrToSS_def itoa_def nat_to_string.simps digit_chars)
  with pod_ordinal_round_trip [of "''amq''" 3 "'' is down''"] show ?thesis by simp
qed

end
