(* ===== verification/Kube_Objects.thy ===== *)
theory Kube_Objects
  imports Api_Types
begin

text \<open>
  The Kubernetes objects the operator builds for a broker, with the fields it reads or writes, and the
  templates of a custom resource.  A part of an object the code only copies is the text of its
  serialisation, so that equal parts have equal texts.
\<close>

section \<open>Environment variables\<close>

text \<open>An environment variable; of \<open>ValueFrom\<close> the code looks only at whether it is there.\<close>

record env_var =
  evName :: string
  evValue :: string
  evValueFrom :: "string option"

section \<open>Containers and pods\<close>

record probe_handler =
  phExec :: "string list option"
  phHTTPGet :: "string option"
  phTCPSocket :: "int option"
  phGRPC :: "string option"

record probe =
  pbInitialDelaySeconds :: int32
  pbTimeoutSeconds :: int32
  pbPeriodSeconds :: int32
  pbSuccessThreshold :: int32
  pbFailureThreshold :: int32
  pbTerminationGracePeriodSeconds :: "int64 option"
  pbHandler :: probe_handler

record key_to_path =
  kpKey :: string
  kpPath :: string

text \<open>\<open>OtherVolume\<close> is any other source of a volume the user gives.\<close>

datatype volume_source =
    ClaimVolume string
  | EmptyDirVolume
  | ConfigMapVolume string "key_to_path list"
  | SecretVolume string "key_to_path list"
  | OtherVolume string

record volume =
  vlName :: string
  vlSource :: volume_source

record volume_mount =
  vmName :: string
  vmMountPath :: string
  vmReadOnly :: bool
  vmSubPath :: string

record container_port =
  cpName :: string
  cpContainerPort :: int32
  cpProtocol :: string

record security_context =
  scAllowPrivilegeEscalation :: "bool option"
  scDropCapabilities :: "string list option"
  scSeccompProfile :: "string option"
  scRunAsNonRoot :: "bool option"
  scReadOnlyRootFilesystem :: "bool option"
  scOther :: string

record pod_security_context =
  pscRunAsUser :: "int64 option"
  pscRunAsNonRoot :: "bool option"
  pscSeccompProfile :: "string option"
  pscOther :: string

record container =
  ctName :: string
  ctImage :: string
  ctCommand :: "string list"
  ctArgs :: "string list"
  ctEnv :: "env_var list"
  ctPorts :: "container_port list"
  ctResources :: string
  ctVolumeMounts :: "volume_mount list"
  ctStartupProbe :: "probe option"
  ctLivenessProbe :: "probe option"
  ctReadinessProbe :: "probe option"
  ctSecurityContext :: "security_context option"
  ctTerminationMessagePolicy :: string

record affinity =
  afPodAffinity :: "string option"
  afPodAntiAffinity :: "string option"
  afNodeAffinity :: "string option"

record pod_spec =
  spContainers :: "container list"
  spInitContainers :: "container list"
  spVolumes :: "volume list"
  spImagePullSecrets :: "string list"
  spNodeSelector :: labels
  spAffinity :: "affinity option"
  spTolerations :: "string list"
  spTopologySpread :: "string list"
  spTerminationGracePeriodSeconds :: "int64 option"
  spServiceAccountName :: string
  spAutomountServiceAccountToken :: "bool option"
  spSecurityContext :: "pod_security_context option"

record pod_template =
  ptLabels :: labels
  ptAnnotations :: data_map
  ptSpec :: pod_spec

section \<open>Objects\<close>

record owner_ref =
  orAPIVersion :: string
  orKind :: string
  orName :: string
  orUID :: string

text \<open>\<open>TypeMeta\<close> as group, version and kind, and the fields of \<open>ObjectMeta\<close> that are read or written.\<close>

record object_meta =
  omGroup :: string
  omVersion :: string
  omKind :: string
  omName :: string
  omNamespace :: string
  omResourceVersion :: string
  omUID :: string
  omLabels :: labels
  omAnnotations :: data_map
  omOwners :: "owner_ref list"

record claim_spec =
  csAccessModes :: "string list"
  csStorage :: string
  csStorageClassName :: "string option"
  csVolumeMode :: "string option"
  csOther :: string

record claim =
  clMeta :: object_meta
  clSpec :: claim_spec

record sts_spec =
  soServiceName :: string
  soSelector :: labels
  soReplicas :: "int32 option"
  soTemplate :: pod_template
  soClaims :: "claim list"
  soRevisionHistoryLimit :: "int32 option"

text \<open>The protocol of a port is always TCP and left out.\<close>

record service_port =
  svpName :: string
  svpPort :: int32
  svpTargetPort :: int32
  svpAppProtocol :: "string option"

record service_spec =
  sePorts :: "service_port list"
  seSelector :: labels
  seType :: string
  seClusterIP :: string
  seSessionAffinity :: string
  sePublishNotReady :: bool
  seOther :: string

text \<open>The port of a backend is a number or, when the number is zero, a name.\<close>

datatype backend_port = PortNumber int32 | PortName string

record ingress_path =
  ipPath :: string
  ipPathType :: string
  ipService :: string
  ipPort :: backend_port

record ingress_rule =
  irHost :: string
  irPaths :: "ingress_path list"

text \<open>\<open>igTLS\<close> lists the hosts of every entry; what the operator does not write is \<open>igOther\<close>.\<close>

record ingress_spec =
  igRules :: "ingress_rule list"
  igTLS :: "string list list"
  igOther :: string

text \<open>\<open>ruTLS\<close> is the termination and the policy for insecure traffic.\<close>

record route_spec =
  ruHost :: string
  ruTargetPort :: "backend_port option"
  ruToKind :: string
  ruToName :: string
  ruTLS :: "(string \<times> string) option"
  ruOther :: string

text \<open>
  \<open>Data\<close> and \<open>StringData\<close> of a secret; a budget by its limits and its selector.
\<close>

record secret_body =
  sbData :: data_map
  sbStringData :: data_map

record budget_spec =
  bgLimits :: string
  bgSelector :: "label_selector option"

text \<open>\<open>BinaryData\<close> of a config map is \<open>nil\<close> or a map; the difference matters when it is written to.\<close>

datatype body =
    SecretBody secret_body
  | ConfigMapBody "data_map option"
  | StatefulSetBody sts_spec
  | ServiceBody service_spec
  | IngressBody ingress_spec
  | RouteBody route_spec
  | BudgetBody budget_spec
  | ClaimBody claim_spec

record k8s_object =
  obMeta :: object_meta
  obBody :: body

text \<open>\<open>reflect.Type\<close> of an object.\<close>

datatype rtype = SecretT | ConfigMapT | StatefulSetT | ServiceT | IngressT | RouteT | BudgetT | ClaimT

fun rtype_of_body :: "body \<Rightarrow> rtype" where
  "rtype_of_body (SecretBody b) = SecretT"
| "rtype_of_body (ConfigMapBody b) = ConfigMapT"
| "rtype_of_body (StatefulSetBody b) = StatefulSetT"
| "rtype_of_body (ServiceBody b) = ServiceT"
| "rtype_of_body (IngressBody b) = IngressT"
| "rtype_of_body (RouteBody b) = RouteT"
| "rtype_of_body (BudgetBody b) = BudgetT"
| "rtype_of_body (ClaimBody b) = ClaimT"

definition rtype_of :: "k8s_object \<Rightarrow> rtype" where
  "rtype_of obj = rtype_of_body (obBody obj)"

definition object_name :: "k8s_object \<Rightarrow> string" where
  "object_name obj = omName (obMeta obj)"

section \<open>Templates of a custom resource\<close>

text \<open>A patch as decoded JSON; a scalar that is not a string is its text.\<close>

datatype patch_value =
    PatchMap "(string \<times> patch_value) list"
  | PatchArray "patch_value list"
  | PatchString string
  | PatchScalar string

record template_selector =
  tsAPIGroup :: "string option"
  tsKind :: "string option"
  tsName :: "string option"

record resource_template =
  rtSelector :: "template_selector option"
  rtAnnotations :: data_map
  rtLabels :: labels
  rtPatch :: string

record claim_template =
  vtName :: string
  vtLabels :: labels
  vtAnnotations :: data_map
  vtSpec :: claim_spec

end
