(* ===== verification/Address_Settings.thy ===== *)
theory Address_Settings
  imports Api_Types
begin

text \<open>
  Address settings (\<open>api/v1beta2/brokercluster_types.go\<close>) and the text the operator makes of them for the
  configuration tool of the init container (\<open>pkg/utils/cr2jinja2\<close>).  A value the tool or YAML would interpret is
  replaced by a key, and the key is listed with the value among the specials.
\<close>

record address_setting =
  adsMatch :: string
  adsDeadLetterAddress :: "string option"
  adsAutoCreateDeadLetterResources :: "bool option"
  adsDeadLetterQueuePrefix :: "string option"
  adsDeadLetterQueueSuffix :: "string option"
  adsExpiryAddress :: "string option"
  adsAutoCreateExpiryResources :: "bool option"
  adsExpiryQueuePrefix :: "string option"
  adsExpiryQueueSuffix :: "string option"
  adsExpiryDelay :: "int32 option"
  adsMinExpiryDelay :: "int32 option"
  adsMaxExpiryDelay :: "int32 option"
  adsRedeliveryDelay :: "int32 option"
  adsMaxRedeliveryDelay :: "int32 option"
  adsMaxDeliveryAttempts :: "int32 option"
  adsMaxSizeBytes :: "string option"
  adsMaxSizeBytesRejectThreshold :: "int32 option"
  adsPageSizeBytes :: "string option"
  adsPageMaxCacheSize :: "int32 option"
  adsAddressFullPolicy :: "string option"
  adsMessageCounterHistoryDayLimit :: "int32 option"
  adsLastValueQueue :: "bool option"
  adsDefaultLastValueQueue :: "bool option"
  adsDefaultLastValueKey :: "string option"
  adsDefaultNonDestructive :: "bool option"
  adsDefaultExclusiveQueue :: "bool option"
  adsDefaultGroupRebalance :: "bool option"
  adsDefaultGroupRebalancePauseDispatch :: "bool option"
  adsDefaultGroupBuckets :: "int32 option"
  adsDefaultGroupFirstKey :: "string option"
  adsDefaultConsumersBeforeDispatch :: "int32 option"
  adsDefaultDelayBeforeDispatch :: "int32 option"
  adsRedistributionDelay :: "int32 option"
  adsSendToDlaOnNoRoute :: "bool option"
  adsSlowConsumerThreshold :: "int32 option"
  adsSlowConsumerPolicy :: "string option"
  adsSlowConsumerCheckPeriod :: "int32 option"
  adsAutoCreateJmsQueues :: "bool option"
  adsAutoDeleteJmsQueues :: "bool option"
  adsAutoCreateJmsTopics :: "bool option"
  adsAutoDeleteJmsTopics :: "bool option"
  adsAutoCreateQueues :: "bool option"
  adsAutoDeleteQueues :: "bool option"
  adsAutoDeleteCreatedQueues :: "bool option"
  adsAutoDeleteQueuesDelay :: "int32 option"
  adsAutoDeleteQueuesMessageCount :: "int32 option"
  adsConfigDeleteQueues :: "string option"
  adsAutoCreateAddresses :: "bool option"
  adsAutoDeleteAddresses :: "bool option"
  adsAutoDeleteAddressesDelay :: "int32 option"
  adsConfigDeleteAddresses :: "string option"
  adsManagementBrowsePageSize :: "int32 option"
  adsDefaultPurgeOnNoConsumers :: "bool option"
  adsDefaultMaxConsumers :: "int32 option"
  adsDefaultQueueRoutingType :: "string option"
  adsDefaultAddressRoutingType :: "string option"
  adsDefaultConsumerWindowSize :: "int32 option"
  adsDefaultRingSize :: "int32 option"
  adsRetroactiveMessageCount :: "int32 option"
  adsEnableMetrics :: "bool option"
  adsManagementMessageAttributeSizeLimit :: "int32 option"
  adsSlowConsumerThresholdMeasurementUnit :: "string option"
  adsEnableIngressTimestamp :: "bool option"
  adsMaxSizeMessages :: "int64 option"
  adsConfigDeleteDiverts :: "string option"

record address_settings =
  ApplyRule :: "string option"
  AddressSetting :: "address_setting list"

section \<open>Values\<close>

definition specials_list :: "string list" where
  "specials_list =
     ['''', ''y'', ''Y'', ''yes'', ''Yes'', ''YES'', ''n'', ''N'', ''no'', ''No'', ''NO'', ''true'', ''True'', ''TRUE'',
      ''false'', ''False'', ''FALSE'', ''on'', ''On'', ''ON'', ''off'', ''Off'', ''OFF'']"

definition isSpecialValue :: "string \<Rightarrow> bool" where
  "isSpecialValue value \<longleftrightarrow> value \<in> set specials_list \<or> CHR ''%'' \<in> set value \<or> CHR ''$'' \<in> set value \<or>
     CHR ''*'' \<in> set value \<or> CHR ''#'' \<in> set value"

text \<open>\<open>fnv.New64a\<close>: the FNV-1a hash of the bytes in 64 bits.\<close>

definition fnv1a :: "string \<Rightarrow> 64 word" where
  "fnv1a s = foldl (\<lambda>h c. xor h (of_nat (of_char c)) * 1099511628211) 14695981039346656037 s"

definition GetUniqueShellSafeSubstution :: "string \<Rightarrow> string" where
  "GetUniqueShellSafeSubstution specialVal = nat_to_string (unat (fnv1a specialVal)) @ ''s''"

definition checkStringSpecial :: "string option \<Rightarrow> data_map \<Rightarrow> string option \<times> data_map" where
  "checkStringSpecial prop specials =
     (case prop of
        None \<Rightarrow> (None, specials)
      | Some value \<Rightarrow>
          (if isSpecialValue value
           then (Some (GetUniqueShellSafeSubstution value),
                 AList.update (GetUniqueShellSafeSubstution value) value specials)
           else (Some value, specials)))"

definition checkBool :: "bool option \<Rightarrow> string option" where
  "checkBool = map_option (\<lambda>b. if b then ''true'' else ''false'')"

definition checkInt32 :: "int32 option \<Rightarrow> string option" where
  "checkInt32 = map_option (\<lambda>n. itoa (sint n))"

definition checkInt64 :: "int64 option \<Rightarrow> string option" where
  "checkInt64 = map_option (\<lambda>n. itoa (sint n))"

section \<open>The text of the settings\<close>

text \<open>One line of a setting: its key in the text, and the property by its kind.\<close>

datatype setting_field =
    TextField "string option"
  | BoolField "bool option"
  | Int32Field "int32 option"
  | Int64Field "int64 option"

definition queue_fields :: "address_setting \<Rightarrow> (string \<times> setting_field) list" where
  "queue_fields s =
     [(''- match'', TextField (Some (adsMatch s))),
      (''  dead_letter_address'', TextField (adsDeadLetterAddress s)),
      (''  auto_create_dead_letter_resources'', BoolField (adsAutoCreateDeadLetterResources s)),
      (''  dead_letter_queue_prefix'', TextField (adsDeadLetterQueuePrefix s)),
      (''  dead_letter_queue_suffix'', TextField (adsDeadLetterQueueSuffix s)),
      (''  expiry_address'', TextField (adsExpiryAddress s)),
      (''  auto_create_expiry_resources'', BoolField (adsAutoCreateExpiryResources s)),
      (''  expiry_queue_prefix'', TextField (adsExpiryQueuePrefix s)),
      (''  expiry_queue_suffix'', TextField (adsExpiryQueueSuffix s)),
      (''  expiry_delay'', Int32Field (adsExpiryDelay s)),
      (''  min_expiry_delay'', Int32Field (adsMinExpiryDelay s)),
      (''  max_expiry_delay'', Int32Field (adsMaxExpiryDelay s)),
      (''  redelivery_delay'', Int32Field (adsRedeliveryDelay s)),
      (''  max_redelivery_delay'', Int32Field (adsMaxRedeliveryDelay s)),
      (''  max_delivery_attempts'', Int32Field (adsMaxDeliveryAttempts s)),
      (''  max_size_bytes'', TextField (adsMaxSizeBytes s)),
      (''  max_size_bytes_reject_threshold'', Int32Field (adsMaxSizeBytesRejectThreshold s)),
      (''  page_size_bytes'', TextField (adsPageSizeBytes s)),
      (''  page_max_cache_size'', Int32Field (adsPageMaxCacheSize s)),
      (''  address_full_policy'', TextField (adsAddressFullPolicy s)),
      (''  message_counter_history_day_limit'', Int32Field (adsMessageCounterHistoryDayLimit s)),
      (''  last_value_queue'', BoolField (adsLastValueQueue s)),
      (''  default_last_value_queue'', BoolField (adsDefaultLastValueQueue s)),
      (''  default_last_value_key'', TextField (adsDefaultLastValueKey s)),
      (''  default_non_destructive'', BoolField (adsDefaultNonDestructive s)),
      (''  default_exclusive_queue'', BoolField (adsDefaultExclusiveQueue s)),
      (''  default_group_rebalance'', BoolField (adsDefaultGroupRebalance s)),
      (''  default_group_rebalance_pause_dispatch'', BoolField (adsDefaultGroupRebalancePauseDispatch s)),
      (''  default_group_buckets'', Int32Field (adsDefaultGroupBuckets s)),
      (''  default_group_first_key'', TextField (adsDefaultGroupFirstKey s)),
      (''  default_consumers_before_dispatch'', Int32Field (adsDefaultConsumersBeforeDispatch s)),
      (''  default_delay_before_dispatch'', Int32Field (adsDefaultDelayBeforeDispatch s)),
      (''  redistribution_delay'', Int32Field (adsRedistributionDelay s))]"

definition consumer_fields :: "address_setting \<Rightarrow> (string \<times> setting_field) list" where
  "consumer_fields s =
     [(''  send_to_dla_on_no_route'', BoolField (adsSendToDlaOnNoRoute s)),
      (''  slow_consumer_threshold'', Int32Field (adsSlowConsumerThreshold s)),
      (''  slow_consumer_policy'', TextField (adsSlowConsumerPolicy s)),
      (''  slow_consumer_check_period'', Int32Field (adsSlowConsumerCheckPeriod s)),
      (''  auto_create_jms_queues'', BoolField (adsAutoCreateJmsQueues s)),
      (''  auto_delete_jms_queues'', BoolField (adsAutoDeleteJmsQueues s)),
      (''  auto_create_jms_topics'', BoolField (adsAutoCreateJmsTopics s)),
      (''  auto_delete_jms_topics'', BoolField (adsAutoDeleteJmsTopics s)),
      (''  auto_create_queues'', BoolField (adsAutoCreateQueues s)),
      (''  auto_delete_queues'', BoolField (adsAutoDeleteQueues s)),
      (''  auto_delete_created_queues'', BoolField (adsAutoDeleteCreatedQueues s)),
      (''  auto_delete_queues_delay'', Int32Field (adsAutoDeleteQueuesDelay s)),
      (''  auto_delete_queues_message_count'', Int32Field (adsAutoDeleteQueuesMessageCount s)),
      (''  config_delete_queues'', TextField (adsConfigDeleteQueues s)),
      (''  auto_create_addresses'', BoolField (adsAutoCreateAddresses s)),
      (''  auto_delete_addresses'', BoolField (adsAutoDeleteAddresses s)),
      (''  auto_delete_addresses_delay'', Int32Field (adsAutoDeleteAddressesDelay s)),
      (''  config_delete_addresses'', TextField (adsConfigDeleteAddresses s)),
      (''  management_browse_page_size'', Int32Field (adsManagementBrowsePageSize s)),
      (''  default_purge_on_no_consumers'', BoolField (adsDefaultPurgeOnNoConsumers s)),
      (''  default_max_consumers'', Int32Field (adsDefaultMaxConsumers s)),
      (''  default_queue_routing_type'', TextField (adsDefaultQueueRoutingType s)),
      (''  default_address_routing_type'', TextField (adsDefaultAddressRoutingType s)),
      (''  default_consumer_window_size'', Int32Field (adsDefaultConsumerWindowSize s)),
      (''  default_ring_size'', Int32Field (adsDefaultRingSize s)),
      (''  retroactive_message_count'', Int32Field (adsRetroactiveMessageCount s)),
      (''  enable_metrics'', BoolField (adsEnableMetrics s)),
      (''  management_message_attribute_size_limit'', Int32Field (adsManagementMessageAttributeSizeLimit s)),
      (''  slow_consumer_threshold_measurement_unit'', TextField (adsSlowConsumerThresholdMeasurementUnit s)),
      (''  enable_ingress_timestamp'', BoolField (adsEnableIngressTimestamp s)),
      (''  max_size_messages'', Int64Field (adsMaxSizeMessages s)),
      (''  config_delete_diverts'', TextField (adsConfigDeleteDiverts s))]"

definition field_value :: "setting_field \<Rightarrow> data_map \<Rightarrow> string option \<times> data_map" where
  "field_value f specials =
     (case f of
        TextField p \<Rightarrow> checkStringSpecial p specials
      | BoolField p \<Rightarrow> (checkBool p, specials)
      | Int32Field p \<Rightarrow> (checkInt32 p, specials)
      | Int64Field p \<Rightarrow> (checkInt64 p, specials))"

definition write_field :: "string \<times> data_map \<Rightarrow> string \<times> setting_field \<Rightarrow> string \<times> data_map" where
  "write_field st kf =
     (case field_value (snd kf) (snd st) of
        (None, specials) \<Rightarrow> (fst st, specials)
      | (Some value, specials) \<Rightarrow> (fst st @ fst kf @ '': '' @ value @ [CHR 0x0A], specials))"

definition write_setting :: "string \<times> data_map \<Rightarrow> address_setting \<Rightarrow> string \<times> data_map" where
  "write_setting st s = foldl write_field st (queue_fields s @ consumer_fields s)"

definition processAddressSettingsV1beta2 :: "address_setting list \<Rightarrow> string \<times> data_map \<Rightarrow> string \<times> data_map" where
  "processAddressSettingsV1beta2 settings st =
     (if settings = [] then st
      else foldl write_setting (fst st @ ''user_address_settings:'' @ [CHR 0x0A], snd st) settings)"

text \<open>The settings of a \<open>BrokerCluster\<close>, with no variable and no file to write to.\<close>

definition MakeBrokerCfgOverrides :: "address_setting list \<Rightarrow> string \<times> data_map" where
  "MakeBrokerCfgOverrides settings = processAddressSettingsV1beta2 settings ('''', [])"

end
