(* ===== verification/Cluster_Types.thy ===== *)
theory Cluster_Types
  imports Kube_Objects Address_Settings Resource_Names Broker_Version Broker_Properties
begin

text \<open>
  The custom resource \<open>BrokerCluster\<close> of \<open>api/v1beta2/brokercluster_types.go\<close>, the objects of the server its
  controller looks up, and the management interface of the brokers, which is outside the repository, as
  a record of functions.
\<close>

section \<open>The specification\<close>

abbreviation "ExposeIngress \<equiv> ''ingress''"
abbreviation "ExposeRoute \<equiv> ''route''"

record acceptor =
  accName :: string
  accPort :: int32
  accProtocols :: string
  accSSLEnabled :: bool
  accSSLSecret :: string
  accEnabledCipherSuites :: string
  accEnabledProtocols :: string
  accNeedClientAuth :: bool
  accWantClientAuth :: bool
  accVerifyHost :: bool
  accSSLProvider :: string
  accSNIHost :: string
  accExpose :: bool
  accExposeMode :: "string option"
  accAnycastPrefix :: string
  accMulticastPrefix :: string
  accConnectionsAllowed :: int
  accAMQPMinLargeMessageSize :: int
  accSupportAdvisory :: "bool option"
  accSuppressInternalManagementObjects :: "bool option"
  accBindToAllInterfaces :: "bool option"
  accKeyStoreProvider :: string
  accTrustStoreType :: string
  accTrustStoreProvider :: string
  accIngressHost :: string
  accTrustSecret :: "string option"

record connector =
  conName :: string
  conType :: string
  conHost :: string
  conPort :: int32
  conSSLEnabled :: bool
  conSSLSecret :: string
  conEnabledCipherSuites :: string
  conEnabledProtocols :: string
  conNeedClientAuth :: bool
  conWantClientAuth :: bool
  conVerifyHost :: bool
  conSSLProvider :: string
  conSNIHost :: string
  conExpose :: bool
  conExposeMode :: "string option"
  conKeyStoreProvider :: string
  conTrustStoreType :: string
  conTrustStoreProvider :: string
  conIngressHost :: string
  conTrustSecret :: "string option"

record console =
  csoleName :: string
  csoleExpose :: bool
  csoleExposeMode :: "string option"
  csoleSSLEnabled :: bool
  csoleSSLSecret :: string
  csoleUseClientAuth :: bool
  csoleIngressHost :: string
  csoleTrustSecret :: "string option"

text \<open>The labels of the plan and of a template are maps.\<close>

record deployment_plan =
  dpImage :: string
  dpInitImage :: string
  dpImagePullSecrets :: "string list"
  dpSize :: "int32 option"
  dpRequireLogin :: bool
  dpPersistenceEnabled :: bool
  dpJournalType :: string
  dpMessageMigration :: "bool option"
  dpResources :: string
  dpStorageSize :: string
  dpStorageClassName :: string
  dpTopologySpread :: "string list"
  dpJolokiaAgentEnabled :: bool
  dpManagementRBACEnabled :: bool
  dpExtraConfigMaps :: "string list"
  dpExtraSecrets :: "string list"
  dpClustered :: "bool option"
  dpServiceAccountName :: "string option"
  dpRunAsUser :: "int64 option"
  dpStartupProbe :: "probe option"
  dpLivenessProbe :: "probe option"
  dpReadinessProbe :: "probe option"
  dpEnableMetricsPlugin :: "bool option"
  dpTolerations :: "string list"
  dpLabels :: labels
  dpNodeSelector :: labels
  dpAffinity :: affinity
  dpPodSecurityContext :: "pod_security_context option"
  dpAnnotations :: data_map
  dpPodDisruptionBudget :: "budget_spec option"
  dpRevisionHistoryLimit :: "int32 option"
  dpContainerSecurityContext :: "security_context option"
  dpExtraVolumes :: "volume list"
  dpExtraVolumeMounts :: "volume_mount list"
  dpExtraClaims :: "claim_template list"

text \<open>The zero values of the structures, from which partial ones are made.\<close>

definition zero_acceptor :: acceptor where
  "zero_acceptor =
     \<lparr>accName = '''', accPort = 0, accProtocols = '''', accSSLEnabled = False, accSSLSecret = '''',
      accEnabledCipherSuites = '''', accEnabledProtocols = '''', accNeedClientAuth = False, accWantClientAuth = False,
      accVerifyHost = False, accSSLProvider = '''', accSNIHost = '''', accExpose = False, accExposeMode = None,
      accAnycastPrefix = '''', accMulticastPrefix = '''', accConnectionsAllowed = 0, accAMQPMinLargeMessageSize = 0,
      accSupportAdvisory = None, accSuppressInternalManagementObjects = None, accBindToAllInterfaces = None,
      accKeyStoreProvider = '''', accTrustStoreType = '''', accTrustStoreProvider = '''', accIngressHost = '''',
      accTrustSecret = None\<rparr>"

definition zero_connector :: connector where
  "zero_connector =
     \<lparr>conName = '''', conType = '''', conHost = '''', conPort = 0, conSSLEnabled = False, conSSLSecret = '''',
      conEnabledCipherSuites = '''', conEnabledProtocols = '''', conNeedClientAuth = False, conWantClientAuth = False,
      conVerifyHost = False, conSSLProvider = '''', conSNIHost = '''', conExpose = False, conExposeMode = None,
      conKeyStoreProvider = '''', conTrustStoreType = '''', conTrustStoreProvider = '''', conIngressHost = '''',
      conTrustSecret = None\<rparr>"

definition zero_console :: console where
  "zero_console =
     \<lparr>csoleName = '''', csoleExpose = False, csoleExposeMode = None, csoleSSLEnabled = False, csoleSSLSecret = '''',
      csoleUseClientAuth = False, csoleIngressHost = '''', csoleTrustSecret = None\<rparr>"

definition zero_plan :: deployment_plan where
  "zero_plan =
     \<lparr>dpImage = '''', dpInitImage = '''', dpImagePullSecrets = [], dpSize = None, dpRequireLogin = False,
      dpPersistenceEnabled = False, dpJournalType = '''', dpMessageMigration = None, dpResources = '''',
      dpStorageSize = '''', dpStorageClassName = '''', dpTopologySpread = [], dpJolokiaAgentEnabled = False,
      dpManagementRBACEnabled = False, dpExtraConfigMaps = [], dpExtraSecrets = [], dpClustered = None,
      dpServiceAccountName = None, dpRunAsUser = None, dpStartupProbe = None, dpLivenessProbe = None,
      dpReadinessProbe = None, dpEnableMetricsPlugin = None, dpTolerations = [], dpLabels = [], dpNodeSelector = [],
      dpAffinity = \<lparr>afPodAffinity = None, afPodAntiAffinity = None, afNodeAffinity = None\<rparr>,
      dpPodSecurityContext = None, dpAnnotations = [], dpPodDisruptionBudget = None, dpRevisionHistoryLimit = None,
      dpContainerSecurityContext = None, dpExtraVolumes = [], dpExtraVolumeMounts = [], dpExtraClaims = []\<rparr>"

section \<open>The status\<close>

text \<open>\<open>olm.DeploymentStatus\<close>: the names of the pods in each state.\<close>

record pod_status =
  psStopped :: "string list"
  psStarting :: "string list"
  psReady :: "string list"

record external_config =
  ecName :: string
  ecResourceVersion :: string

record cluster_status =
  stConditions :: "condition list"
  stPodStatus :: pod_status
  stDeploymentPlanSize :: int32
  stScaleLabelSelector :: string
  stExternalConfigs :: "external_config list"
  stVersion :: version_status

record broker_cluster =
  bcKind :: string
  bcAPIVersion :: string
  bcNamespace :: string
  bcName :: string
  bcUID :: string
  bcGeneration :: int
  bcAnnotations :: data_map
  bcRestricted :: "bool option"
  bcVersion :: string
  bcAdminUser :: string
  bcAdminPassword :: string
  bcPlan :: deployment_plan
  bcAcceptors :: "acceptor list"
  bcConnectors :: "connector list"
  bcConsole :: console
  bcAddressSettings :: address_settings
  bcBrokerProperties :: "string list"
  bcEnv :: "env_var list"
  bcIngressDomain :: string
  bcTemplates :: "resource_template list"
  bcStatus :: cluster_status

abbreviation "bcTemplateLabels cr \<equiv> map rtLabels (bcTemplates cr)"
abbreviation "bcConditions cr \<equiv> stConditions (bcStatus cr)"

definition set_conditions :: "condition list \<Rightarrow> broker_cluster \<Rightarrow> broker_cluster" where
  "set_conditions cs cr = cr\<lparr>bcStatus := (bcStatus cr)\<lparr>stConditions := cs\<rparr>\<rparr>"

lemma set_conditions_sel [simp]:
  "bcConditions (set_conditions cs cr) = cs" "bcName (set_conditions cs cr) = bcName cr"
  "bcNamespace (set_conditions cs cr) = bcNamespace cr" "bcPlan (set_conditions cs cr) = bcPlan cr"
  "bcGeneration (set_conditions cs cr) = bcGeneration cr" "bcVersion (set_conditions cs cr) = bcVersion cr"
  "bcBrokerProperties (set_conditions cs cr) = bcBrokerProperties cr"
  "stDeploymentPlanSize (bcStatus (set_conditions cs cr)) = stDeploymentPlanSize (bcStatus cr)"
  "stPodStatus (bcStatus (set_conditions cs cr)) = stPodStatus (bcStatus cr)"
  "stExternalConfigs (bcStatus (set_conditions cs cr)) = stExternalConfigs (bcStatus cr)"
  "set_conditions cs (set_conditions cs' cr) = set_conditions cs cr"
  by (simp_all add: set_conditions_def)

definition image_spec_of :: "broker_cluster \<Rightarrow> image_spec" where
  "image_spec_of cr = \<lparr>isVersion = bcVersion cr, isImage = dpImage (bcPlan cr), isInitImage = dpInitImage (bcPlan cr)\<rparr>"

definition IsRestricted :: "broker_cluster \<Rightarrow> bool" where
  "IsRestricted customResource \<longleftrightarrow> bcRestricted customResource = Some True"

definition GetDeploymentSize :: "broker_cluster \<Rightarrow> int32" where
  "GetDeploymentSize cr = (case dpSize (bcPlan cr) of None \<Rightarrow> 1 | Some n \<Rightarrow> n)"

definition isClustered :: "broker_cluster \<Rightarrow> bool" where
  "isClustered customResource = (case dpClustered (bcPlan customResource) of Some b \<Rightarrow> b | None \<Rightarrow> True)"

section \<open>Objects of the server\<close>

record stateful_set =
  stsName :: string
  stsSpecReplicas :: "int32 option"
  stsStatusReplicas :: int32
  stsReadyReplicas :: int32

record pod_condition =
  pcType :: string
  pcStatus :: string
  pcReason :: string
  pcMessage :: string

record pod =
  podPhase :: string
  podConditions :: "pod_condition list"

text \<open>The reads of the client, and the domain of the cluster the process resolved when it started.\<close>

record cluster_kube =
  ckClusterDomain :: string
  ckGetSecret :: "string \<Rightarrow> string \<Rightarrow> api_error + secret"
  ckGetConfigMap :: "string \<Rightarrow> string \<Rightarrow> api_error + config_map"
  ckGetStatefulSet :: "string \<Rightarrow> string \<Rightarrow> api_error + stateful_set"
  ckGetPod :: "string \<Rightarrow> string \<Rightarrow> api_error + pod"

section \<open>What a broker reports\<close>

record apply_error =
  aePropKeyValue :: string
  aeReason :: string

record properties_status =
  prAlder32 :: string
  prFileAlder32 :: string
  prApplyErrors :: "apply_error list"

record broker_status =
  bsConfig :: "string \<Rightarrow> properties_status option"
  bsJaas :: "string \<Rightarrow> properties_status option"
  bsVersion :: string

text \<open>
  A management endpoint is named by its host and its ordinal.  The calls over HTTP are functions on the
  state of the brokers: the status as JSON, the number of messages as text, and the request to scale
  down, which changes the brokers.
\<close>

record jk_info =
  jkIP :: string
  jkOrdinal :: string

record 'w broker_api =
  baGetStatus :: "'w \<Rightarrow> jk_info \<Rightarrow> string + string"
  baUnmarshal :: "string \<Rightarrow> string + broker_status"
  baMarshalErrors :: "apply_error list \<Rightarrow> string"
  baGetTotalMessageCount :: "'w \<Rightarrow> jk_info \<Rightarrow> string + string"
  baScaleDown :: "'w \<Rightarrow> jk_info \<Rightarrow> string option \<times> 'w"

section \<open>The endpoints of the brokers (pkg/utils/jolokia\_client)\<close>

text \<open>
  One lookup per ordinal below the size; a pod that is not found is skipped.  The credentials, which are
  resolved from secrets, belong to the endpoint.
\<close>

fun brokers_from :: "cluster_kube \<Rightarrow> string \<Rightarrow> string \<Rightarrow> nat \<Rightarrow> nat \<Rightarrow> jk_info list" where
  "brokers_from K crName ns i 0 = []"
| "brokers_from K crName ns i (Suc n) =
     (case ckGetPod K ns (CrToSS crName @ ''-'' @ itoa (int i)) of
        Inl err \<Rightarrow> brokers_from K crName ns (Suc i) n
      | Inr pod \<Rightarrow>
          \<lparr>jkIP = OrdinalFQDNS (ckClusterDomain K) crName ns (of_nat i), jkOrdinal = itoa (int i)\<rparr> # brokers_from K crName ns (Suc i) n)"

definition GetBrokersFromDNS :: "cluster_kube \<Rightarrow> string \<Rightarrow> string \<Rightarrow> int32 \<Rightarrow> jk_info list" where
  "GetBrokersFromDNS K crName ns replicas = brokers_from K crName ns 0 (nat (sint replicas))"

definition GetBrokers :: "cluster_kube \<Rightarrow> (string \<times> string \<times> int32) list \<Rightarrow> jk_info list" where
  "GetBrokers K ssInfos =
     concat (map (\<lambda>(name, ns, replicas). GetBrokersFromDNS K (SSToCr name) ns replicas) ssInfos)"

end
