(* ===== verification/Broker_Session.thy ===== *)
theory Broker_Session
  imports Cluster_Types Reconciler_Loop
begin

text \<open>
  The conversation of the \<open>BrokerCluster\<close> reconciler with its brokers during one reconcile
  (\<open>brokercluster_reconciler.go\<close>): the errors of a status check and the conditions they become, the
  endpoints that are resolved once, the status of a broker that is fetched once and cached, and the
  comparison of the files of a secret with what every broker says it has loaded.
\<close>

section \<open>Errors of a status check\<close>

text \<open>An \<open>inSyncApplyError\<close> holds the cause and the errors of each file.\<close>

datatype artemis_error =
    ArtemisStatusError string bool
  | JolokiaClientNotFoundError string
  | StatusOutOfSyncError string
  | StatusOutOfSyncMissingKeyError string
  | InSyncApplyError string data_map
  | VersionMismatchError string

text \<open>\<open>fmt\<close> prints a map with its keys sorted.\<close>

definition print_map :: "data_map \<Rightarrow> string" where
  "print_map m =
     ''map['' @ join '' '' (map (\<lambda>k. k @ '':'' @ (case map_of m k of Some v \<Rightarrow> v | None \<Rightarrow> '''')) (sort (map fst m))) @ '']''"

definition print_strings :: "string list \<Rightarrow> string" where
  "print_strings xs = ''['' @ join '' '' xs @ '']''"

fun artemis_text :: "artemis_error \<Rightarrow> string" where
  "artemis_text (ArtemisStatusError cause transient) = cause"
| "artemis_text (JolokiaClientNotFoundError cause) = ''no available Jolokia Clients found: '' @ cause"
| "artemis_text (StatusOutOfSyncError cause) = cause"
| "artemis_text (StatusOutOfSyncMissingKeyError cause) = cause"
| "artemis_text (InSyncApplyError cause detail) = cause @ '' : reasons: '' @ print_map detail"
| "artemis_text (VersionMismatchError cause) = cause"

fun Requeue :: "artemis_error \<Rightarrow> bool" where
  "Requeue (ArtemisStatusError cause transient) = transient"
| "Requeue (JolokiaClientNotFoundError cause) = True"
| "Requeue (StatusOutOfSyncError cause) = True"
| "Requeue (StatusOutOfSyncMissingKeyError cause) = True"
| "Requeue (InSyncApplyError cause detail) = False"
| "Requeue (VersionMismatchError cause) = False"

definition trapErrorAsCondition :: "artemis_error \<Rightarrow> string \<Rightarrow> condition" where
  "trapErrorAsCondition err conditionType =
     (case err of
        JolokiaClientNotFoundError c \<Rightarrow>
          mk_condition conditionType ConditionFalse ConfigAppliedConditionNoJolokiaClientsAvailableReason (artemis_text err)
      | StatusOutOfSyncError c \<Rightarrow>
          mk_condition conditionType ConditionFalse ConfigAppliedConditionOutOfSyncReason (artemis_text err)
      | StatusOutOfSyncMissingKeyError c \<Rightarrow>
          mk_condition conditionType ConditionUnknown ConfigAppliedConditionOutOfSyncReason (artemis_text err)
      | InSyncApplyError c d \<Rightarrow>
          mk_condition conditionType ConditionFalse ConfigAppliedConditionSynchedWithErrorReason (artemis_text err)
      | VersionMismatchError c \<Rightarrow>
          mk_condition conditionType ConditionUnknown BrokerVersionAlignedConditionMismatchReason (artemis_text err)
      | ArtemisStatusError c t \<Rightarrow>
          mk_condition conditionType ConditionUnknown ConfigAppliedConditionUnknownReason (artemis_text err))"

definition ErrorApplyDetail :: "string \<Rightarrow> string \<Rightarrow> data_map \<Rightarrow> data_map" where
  "ErrorApplyDetail container reason detail =
     (case map_of detail container of
        Some existing \<Rightarrow> AList.update container (existing @ '', '' @ reason) detail
      | None \<Rightarrow> AList.update container reason detail)"

section \<open>The state of one reconcile\<close>

text \<open>
  \<open>jolokiaEndpoints\<close>, \<open>nil\<close> until resolved, and \<open>cachedBrokerStatus\<close>, by ordinal; both start empty in
  every reconcile.  \<open>snWorld\<close> is the state of the brokers.
\<close>

record 'w session =
  snWorld :: 'w
  snEndpoints :: "jk_info list option"
  snCache :: "(string \<times> (artemis_error + broker_status)) list"

definition new_session :: "'w \<Rightarrow> 'w session" where
  "new_session w = \<lparr>snWorld = w, snEndpoints = None, snCache = []\<rparr>"

definition resolveJolokiaEndpoints :: "cluster_kube \<Rightarrow> broker_cluster \<Rightarrow> 'w session \<Rightarrow> 'w session" where
  "resolveJolokiaEndpoints K cr S =
     (case snEndpoints S of
        Some eps \<Rightarrow> S
      | None \<Rightarrow> S\<lparr>snEndpoints := Some (GetBrokers K
            [(CrToSS (bcName cr), bcNamespace cr, stDeploymentPlanSize (bcStatus cr))])\<rparr>)"

definition endpoints :: "'w session \<Rightarrow> jk_info list" where
  "endpoints S = (case snEndpoints S of Some eps \<Rightarrow> eps | None \<Rightarrow> [])"

definition GetAndCacheBrokerStatus ::
  "'w broker_api \<Rightarrow> jk_info \<Rightarrow> 'w session \<Rightarrow> (artemis_error + broker_status) \<times> 'w session" where
  "GetAndCacheBrokerStatus B jk S =
     (case map_of (snCache S) (jkOrdinal jk) of
        Some cached \<Rightarrow> (cached, S)
      | None \<Rightarrow>
          let fetched = (case baGetStatus B (snWorld S) jk of
                Inl err \<Rightarrow> Inl (ArtemisStatusError err True)
              | Inr currentJson \<Rightarrow>
                  (case baUnmarshal B currentJson of
                     Inl err \<Rightarrow> Inl (ArtemisStatusError err False)
                   | Inr status \<Rightarrow> Inr status))
          in (fetched, S\<lparr>snCache := (jkOrdinal jk, fetched) # snCache S\<rparr>))"

text \<open>A check looks at the status of one broker; the first error ends the walk over the endpoints.\<close>

type_synonym status_check = "broker_status \<Rightarrow> jk_info \<Rightarrow> artemis_error option"

definition CheckStatusFromJolokia ::
  "'w broker_api \<Rightarrow> status_check \<Rightarrow> jk_info \<Rightarrow> 'w session \<Rightarrow> artemis_error option \<times> 'w session" where
  "CheckStatusFromJolokia B checkBrokerStatus jk S =
     (case GetAndCacheBrokerStatus B jk S of
        (Inl artemisError, S') \<Rightarrow> (Some artemisError, S')
      | (Inr status, S') \<Rightarrow> (checkBrokerStatus status jk, S'))"

fun check_endpoints ::
  "'w broker_api \<Rightarrow> status_check \<Rightarrow> jk_info list \<Rightarrow> 'w session \<Rightarrow> artemis_error option \<times> 'w session" where
  "check_endpoints B check [] S = (None, S)"
| "check_endpoints B check (jk # jks) S =
     (case CheckStatusFromJolokia B check jk S of
        (Some artemisError, S') \<Rightarrow> (Some artemisError, S')
      | (None, S') \<Rightarrow> check_endpoints B check jks S')"

definition CheckStatus ::
  "cluster_kube \<Rightarrow> 'w broker_api \<Rightarrow> broker_cluster \<Rightarrow> status_check \<Rightarrow> 'w session \<Rightarrow>
     artemis_error option \<times> 'w session" where
  "CheckStatus K B cr check S =
     (let S1 = resolveJolokiaEndpoints K cr S
      in if length (endpoints S1) = 0
         then (Some (JolokiaClientNotFoundError ''Waiting for Jolokia Clients to become available''), S1)
         else check_endpoints B check (endpoints S1) S1)"

definition version_check :: "semver_api \<Rightarrow> broker_cluster \<Rightarrow> status_check" where
  "version_check V cr status jk =
     (let resolvedFullVersion = (case ResolveBrokerVersionFromCR V (image_spec_of cr) of Inr v \<Rightarrow> v | Inl e \<Rightarrow> '''')
      in if bsVersion status \<noteq> resolvedFullVersion
         then Some (VersionMismatchError
                (''broker version non aligned on pod '' @ CrToSS (bcName cr) @ ''-'' @ jkOrdinal jk @
                 '', the detected version ['' @ bsVersion status @ ''] doesn't match the spec.version ['' @
                 bcVersion cr @ ''] resolved as ['' @ resolvedFullVersion @ '']''))
         else None)"

definition AssertBrokerImageVersion ::
  "semver_api \<Rightarrow> cluster_kube \<Rightarrow> 'w broker_api \<Rightarrow> broker_cluster \<Rightarrow> 'w session \<Rightarrow>
     artemis_error option \<times> 'w session" where
  "AssertBrokerImageVersion V K B cr S = CheckStatus K B cr (version_check V cr) S"

definition AssertBrokersAvailable :: "meta_api \<Rightarrow> broker_cluster \<Rightarrow> artemis_error option" where
  "AssertBrokersAvailable M cr =
     (case FindStatusCondition M (bcConditions cr) DeployedConditionType of
        None \<Rightarrow> Some (ArtemisStatusError ''no available brokers from deployed condition'' False)
      | Some c \<Rightarrow>
          if cStatus c = ConditionFalse
          then Some (ArtemisStatusError ''no available brokers from deployed condition'' False) else None)"

end
