(* ===== verification/Config_Projection.thy ===== *)
theory Config_Projection
  imports Broker_Session
begin

text \<open>
  Whether the brokers run the configuration of a secret (\<open>brokercluster_reconciler.go\<close>): the secret is
  projected to a checksum per file, every broker reports the checksums it loaded, and the comparison
  decides on the condition \<open>BrokerPropertiesApplied\<close>.
\<close>

section \<open>Projections\<close>

abbreviation "BrokerPropsSuffix \<equiv> ''-bp''"
abbreviation "jaasConfigSuffix \<equiv> ''-jaas-config''"
abbreviation "loggingConfigSuffix \<equiv> ''-logging-config''"
abbreviation "JsonSuffix \<equiv> ''.json''"

record property_file =
  pfAlder32 :: string
  pfFileAlder32 :: string

text \<open>
  The generation and the ordinals in sync, which are only logged, are left out.
\<close>

record projection =
  pjName :: string
  pjResourceVersion :: string
  pjFiles :: "(string \<times> property_file) list"

text \<open>
  JSON as \<open>encoding/json\<close> decodes it, for the code an object or something else, which it prints.  The
  decoder is an argument; a map is ranged over in some order and the pairs are sorted at the end.
\<close>

datatype json_value = JObject "(string \<times> json_value) list" | JOther string

definition quoted_key :: "string \<Rightarrow> string" where
  "quoted_key k = (if str_contains k ''.'' then CHR 0x22 # k @ [CHR 0x22] else k)"

fun KeyValuePairsFromMap :: "string \<Rightarrow> (string \<times> json_value) list \<Rightarrow> string list" where
  "KeyValuePairsFromMap parentKey [] = []"
| "KeyValuePairsFromMap parentKey ((k, JObject m) # dataMap) =
     KeyValuePairsFromMap ((parentKey @ quoted_key k) @ ''.'') m @ KeyValuePairsFromMap parentKey dataMap"
| "KeyValuePairsFromMap parentKey ((k, JOther v) # dataMap) =
     ((parentKey @ quoted_key k) @ ''='' @ v) # KeyValuePairsFromMap parentKey dataMap"

definition SortedKeyValuePairsFromMap :: "(string \<times> json_value) list \<Rightarrow> string list" where
  "SortedKeyValuePairsFromMap dataMap = sort (KeyValuePairsFromMap '''' dataMap)"

type_synonym json_decoder = "string \<Rightarrow> string + (string \<times> json_value) list"

definition project_file :: "json_decoder \<Rightarrow> string \<Rightarrow> string \<Rightarrow> property_file option" where
  "project_file J name data =
     (if has_suffix name JsonSuffix
      then (case J data of
              Inr dataMap \<Rightarrow> Some \<lparr>pfAlder32 = alder32StringValue (alder32Of (SortedKeyValuePairsFromMap dataMap)),
                                 pfFileAlder32 = nat_to_string (adler32 data)\<rparr>
            | Inl err \<Rightarrow> None)
      else Some \<lparr>pfAlder32 = alder32FromData data, pfFileAlder32 = nat_to_string (adler32 data)\<rparr>)"

definition newProjectionFromByteValues :: "json_decoder \<Rightarrow> secret \<Rightarrow> projection" where
  "newProjectionFromByteValues J s =
     \<lparr>pjName = secName s, pjResourceVersion = secResourceVersion s,
      pjFiles = List.map_filter
        (\<lambda>(name, data). map_option (\<lambda>f. (name, f)) (project_file J name data)) (secData s)\<rparr>"

text \<open>The desired content of a secret, when this reconcile tracks it, else what the server holds.\<close>

definition getSecretProjection ::
  "json_decoder \<Rightarrow> (string \<Rightarrow> secret option) \<Rightarrow> cluster_kube \<Rightarrow> string \<times> string \<Rightarrow> string + projection" where
  "getSecretProjection J getFromDesired K nsName =
     (case getFromDesired (snd nsName) of
        Some s \<Rightarrow> Inr (newProjectionFromByteValues J s)
      | None \<Rightarrow>
          (case ckGetSecret K (fst nsName) (snd nsName) of
             Inl err \<Rightarrow> Inl (''unable to retrieve secret projection: '' @ api_error_text err)
           | Inr s \<Rightarrow> Inr (newProjectionFromByteValues J s)))"

section \<open>The check of one broker\<close>

definition file_of :: "projection \<Rightarrow> string \<Rightarrow> property_file" where
  "file_of P name =
     (case map_of (pjFiles P) name of Some f \<Rightarrow> f | None \<Rightarrow> \<lparr>pfAlder32 = '''', pfFileAlder32 = ''''\<rparr>)"

definition may_be_absent :: "string \<Rightarrow> bool" where
  "may_be_absent name \<longleftrightarrow>
     name = JaasConfigKey \<or> has_prefix name UncheckedPrefix \<or> ParseBrokerPropertyWithOrdinal name \<noteq> None"

definition out_of_sync :: "string \<Rightarrow> string \<Rightarrow> artemis_error" where
  "out_of_sync podName message = StatusOutOfSyncError (''out of sync on pod '' @ podName @ '', '' @ message)"

text \<open>The checksum the broker has for a file against the one of the projection.\<close>

definition check_sums :: "string \<Rightarrow> string \<Rightarrow> property_file \<Rightarrow> properties_status \<Rightarrow> artemis_error option" where
  "check_sums podName name file current =
     (if prAlder32 current = '''' \<and> prFileAlder32 current = ''''
      then Some (out_of_sync podName (''property file '' @ name @ '' has an empty checksum''))
      else if prFileAlder32 current \<noteq> ''''
      then (if pfFileAlder32 file \<noteq> prFileAlder32 current
            then Some (out_of_sync podName
              (''mismatched file checksum on property file '' @ name @ '', expected: '' @ pfFileAlder32 file @
               '', current: '' @ prFileAlder32 current @
               ''. A delay can occur before a volume mount projection is refreshed.''))
            else None)
      else if pfAlder32 file \<noteq> prAlder32 current
      then Some (out_of_sync podName
              (''mismatched checksum on property file '' @ name @ '', expected: '' @ pfAlder32 file @
               '', current: '' @ prAlder32 current @
               ''. A delay can occur before a volume mount projection is refreshed.''))
      else None)"

text \<open>
  The loop over the files collects the files the broker does not see and the errors it had applying
  them; a wrong checksum ends it.
\<close>

fun check_files ::
  "('w, 'z) broker_api_scheme \<Rightarrow> string \<Rightarrow> projection \<Rightarrow> (string \<Rightarrow> properties_status option) \<Rightarrow> string list \<Rightarrow>
     string list \<times> data_map option \<Rightarrow> artemis_error + string list \<times> data_map option" where
  "check_files B podName P status [] acc = Inr acc"
| "check_files B podName P status (name # names) (missingKeys, applyError) =
     (case status name of
        None \<Rightarrow>
          check_files B podName P status names
            (if \<not> may_be_absent name then missingKeys @ [name] else missingKeys, applyError)
      | Some current \<Rightarrow>
          (case check_sums podName name (file_of P name) current of
             Some err \<Rightarrow> Inl err
           | None \<Rightarrow>
               check_files B podName P status names
                 (missingKeys,
                  if length (prApplyErrors current) > 0
                  then Some (ErrorApplyDetail name (baMarshalErrors B (prApplyErrors current))
                         (case applyError of Some d \<Rightarrow> d | None \<Rightarrow> []))
                  else applyError)))"

definition missing_keys_error :: "string \<Rightarrow> string \<Rightarrow> string list \<Rightarrow> artemis_error" where
  "missing_keys_error projectionName podName missingKeys =
     (if has_suffix projectionName jaasConfigSuffix
      then StatusOutOfSyncMissingKeyError
        (''out of sync on pod '' @ podName @ '', property files are not visible on the broker: '' @
         print_strings (sort missingKeys) @
         ''. Reloadable JAAS LoginModule property files are only visible after the first login attempt that references them. If the property files are for a third party LoginModule or not reloadable, prefix the property file names with an underscore to exclude them from this condition'')
      else StatusOutOfSyncMissingKeyError
        (''out of sync on pod '' @ podName @ '', configuration property files are not visible on the broker: '' @
         print_strings (sort missingKeys) @
         ''. A delay can occur before a volume mount projection is refreshed.''))"

definition projection_check ::
  "range_order \<Rightarrow> ('w, 'z) broker_api_scheme \<Rightarrow> broker_cluster \<Rightarrow> projection \<Rightarrow>
     (broker_status \<Rightarrow> string \<Rightarrow> properties_status option) \<Rightarrow> status_check" where
  "projection_check ord B cr P extractStatus brokerStatus jk =
     (let podName = CrToSS (bcName cr) @ ''-'' @ jkOrdinal jk
      in case check_files B podName P (extractStatus brokerStatus) (ord (map fst (pjFiles P))) ([], None) of
           Inl err \<Rightarrow> Some err
         | Inr (missingKeys, applyError) \<Rightarrow>
             (case applyError of
                Some detail \<Rightarrow> Some (InSyncApplyError
                  (''some properties from '' @ pjName P @ '' resulted in error on pod '' @ podName) detail)
              | None \<Rightarrow>
                  if length missingKeys > 0 then Some (missing_keys_error (pjName P) podName missingKeys)
                  else None))"

definition checkProjectionStatus ::
  "range_order \<Rightarrow> cluster_kube \<Rightarrow> 'w broker_api \<Rightarrow> broker_cluster \<Rightarrow> projection \<Rightarrow>
     (broker_status \<Rightarrow> string \<Rightarrow> properties_status option) \<Rightarrow> 'w session \<Rightarrow> artemis_error option \<times> 'w session" where
  "checkProjectionStatus ord K B cr P extractStatus S =
     CheckStatus K B cr (projection_check ord B cr P extractStatus) S"

section \<open>The secrets of a cluster\<close>

fun update_config :: "projection \<Rightarrow> external_config list \<Rightarrow> external_config list" where
  "update_config P [] = [\<lparr>ecName = pjName P, ecResourceVersion = pjResourceVersion P\<rparr>]"
| "update_config P (s # cfgs) =
     (if ecName s = pjName P then s\<lparr>ecResourceVersion := pjResourceVersion P\<rparr> # cfgs
      else s # update_config P cfgs)"

definition updateExtraConfigStatus :: "projection \<Rightarrow> broker_cluster \<Rightarrow> broker_cluster" where
  "updateExtraConfigStatus P cr =
     cr\<lparr>bcStatus := (bcStatus cr)\<lparr>stExternalConfigs := update_config P (stExternalConfigs (bcStatus cr))\<rparr>\<rparr>"

definition getPropertiesResourceNsName :: "broker_cluster \<Rightarrow> string \<times> string" where
  "getPropertiesResourceNsName cr = (bcNamespace cr, bcName cr @ ''-props'')"

definition getConfigExtraMount :: "broker_cluster \<Rightarrow> string \<Rightarrow> (string \<times> string) option" where
  "getConfigExtraMount customResource sfx =
     (case List.find (\<lambda>cm. has_suffix cm sfx) (dpExtraConfigMaps (bcPlan customResource)) of
        Some cm \<Rightarrow> Some (''configmaps'', cm)
      | None \<Rightarrow>
          (case List.find (\<lambda>s. has_suffix s sfx) (dpExtraSecrets (bcPlan customResource)) of
             Some s \<Rightarrow> Some (''secrets'', s)
           | None \<Rightarrow> None))"

text \<open>What a check needs of its surroundings, one record for the functions that follow.\<close>

record 'w status_env =
  teMeta :: meta_api
  teOrder :: range_order
  teKube :: cluster_kube
  teBrokers :: "'w broker_api"
  teVersions :: semver_api
  teJson :: json_decoder
  teDesired :: "string \<Rightarrow> secret option"

definition project :: "'w status_env \<Rightarrow> string \<times> string \<Rightarrow> string + projection" where
  "project E nsName = getSecretProjection (teJson E) (teDesired E) (teKube E) nsName"

text \<open>The loop over the extra secrets with the suffix \<open>-bp\<close>.\<close>

fun check_extra_secrets ::
  "'w status_env \<Rightarrow> string list \<Rightarrow> broker_cluster \<Rightarrow> 'w session \<Rightarrow>
     artemis_error option \<times> broker_cluster \<times> 'w session" where
  "check_extra_secrets E [] cr S = (None, cr, S)"
| "check_extra_secrets E (extraSecretName # names) cr S =
     (if has_suffix extraSecretName BrokerPropsSuffix
      then (case project E (bcNamespace cr, extraSecretName) of
              Inl err \<Rightarrow> (Some (ArtemisStatusError err False), cr, S)
            | Inr secretProjection \<Rightarrow>
                (case checkProjectionStatus (teOrder E) (teKube E) (teBrokers E) cr secretProjection bsConfig S of
                   (None, S') \<Rightarrow>
                     check_extra_secrets E names (updateExtraConfigStatus secretProjection cr) S'
                 | (Some errorStatus, S') \<Rightarrow> (Some errorStatus, cr, S')))
      else check_extra_secrets E names cr S)"

definition AssertBrokerPropertiesStatus ::
  "'w status_env \<Rightarrow> broker_cluster \<Rightarrow> 'w session \<Rightarrow> artemis_error option \<times> broker_cluster \<times> 'w session" where
  "AssertBrokerPropertiesStatus E cr S =
     (case project E (getPropertiesResourceNsName cr) of
        Inl err \<Rightarrow> (Some (ArtemisStatusError err False), cr, S)
      | Inr secretProjection \<Rightarrow>
          (case checkProjectionStatus (teOrder E) (teKube E) (teBrokers E) cr secretProjection bsConfig S of
             (Some errorStatus, S') \<Rightarrow> (Some errorStatus, cr, S')
           | (None, S') \<Rightarrow> check_extra_secrets E (dpExtraSecrets (bcPlan cr)) cr S'))"

text \<open>Called only when the mount is there, so the projection is never \<open>nil\<close>.\<close>

definition AssertJaasPropertiesStatus ::
  "'w status_env \<Rightarrow> string \<Rightarrow> broker_cluster \<Rightarrow> 'w session \<Rightarrow>
     artemis_error option \<times> broker_cluster \<times> 'w session" where
  "AssertJaasPropertiesStatus E name cr S =
     (case project E (bcNamespace cr, name) of
        Inl err \<Rightarrow> (Some (ArtemisStatusError err False), cr, S)
      | Inr Projection \<Rightarrow>
          (case checkProjectionStatus (teOrder E) (teKube E) (teBrokers E) cr Projection bsJaas S of
             (None, S') \<Rightarrow> (None, updateExtraConfigStatus Projection cr, S')
           | (Some statusError, S') \<Rightarrow> (Some statusError, cr, S')))"

end
