(* ===== verification/Scale_Down.thy ===== *)
theory Scale_Down
  imports Config_Projection
begin

text \<open>
  Scale down under the control of the operator (\<open>brokercluster_reconciler.go\<close>): a cluster that shrinks
  with message migration loses one pod at a time, and the reason of the condition \<open>ScalingDown\<close> is the
  state of a machine: the configuration for the pod is applied, the pod is empty, the pod is deleted.
\<close>

section \<open>The condition\<close>

abbreviation "ScaleDownConfigTrigger \<equiv> ''HAPolicyConfiguration.scaleDownConfiguration.enabled=false''"
abbreviation "ScaleDownConfigTriggerOn \<equiv> ''HAPolicyConfiguration.scaleDownConfiguration.enabled=true''"

definition CrConfiguredForControllerManagedScaleDown :: "broker_cluster \<Rightarrow> bool" where
  "CrConfiguredForControllerManagedScaleDown cr \<longleftrightarrow> ScaleDownConfigTrigger \<in> set (bcBrokerProperties cr)"

definition ScaleDownConditionMessage :: "broker_cluster \<Rightarrow> int32 \<Rightarrow> string \<Rightarrow> string" where
  "ScaleDownConditionMessage cr ordinal message =
     (let podName = CrToSSOrdinal (bcName cr) (sint ordinal)
      in if message = '''' then podName else podName @ '' '' @ message)"

definition ScaleDownConditionPodNameMessage :: "broker_cluster \<Rightarrow> int32 \<Rightarrow> string" where
  "ScaleDownConditionPodNameMessage cr ordinal = ScaleDownConditionMessage cr ordinal ''''"

definition ordinalFromScaleDownCondition :: "broker_cluster \<Rightarrow> condition \<Rightarrow> int go_result" where
  "ordinalFromScaleDownCondition cr c = OrdinalFromPodName (bcName cr) (cMessage c)"

definition scaleDownOnSigTermPropsKey :: "int \<Rightarrow> string" where
  "scaleDownOnSigTermPropsKey ordinal =
     UncheckedPrefix @ ''scaledown_on_sig_term'' @ ''.'' @ ''for_ordinal_'' @ itoa ordinal @ ''_only''"

definition OrdinalToDrain :: "int32 \<Rightarrow> int32" where
  "OrdinalToDrain replicas = replicas - 1"

text \<open>
  The file that makes the pod migrate its messages when it stops, added to the broker properties while
  a scale down is pending.
\<close>

definition ProcessBrokerProperties :: "meta_api \<Rightarrow> broker_cluster \<Rightarrow> data_map \<Rightarrow> data_map go_result" where
  "ProcessBrokerProperties M cr m =
     (case FindStatusCondition M (bcConditions cr) ScaleDownPendingConditionType of
        None \<Rightarrow> Ok m
      | Some c \<Rightarrow>
          (case ordinalFromScaleDownCondition cr c of
             Ok ordinal \<Rightarrow>
               Ok (AList.update (scaleDownOnSigTermPropsKey ordinal)
                     (properties_header @ ScaleDownConfigTriggerOn @ [nl]) m)
           | Err e \<Rightarrow> Ok m
           | Panic \<Rightarrow> Panic))"

section \<open>The brokers\<close>

definition resolveAndValidateJolokia ::
  "cluster_kube \<Rightarrow> broker_cluster \<Rightarrow> int32 \<Rightarrow> 'w session \<Rightarrow> artemis_error option \<times> 'w session" where
  "resolveAndValidateJolokia K cr ordinalOfInterest S =
     (let S1 = resolveJolokiaEndpoints K cr S
      in (if length (endpoints S1) = 0
          then Some (JolokiaClientNotFoundError ''waiting for jolokia endpoints to become available'')
          else if int (length (endpoints S1)) \<le> sint ordinalOfInterest
          then Some (JolokiaClientNotFoundError
                 (''waiting for jolokia endpoint for ordinal '' @ itoa (sint ordinalOfInterest) @
                  '' to become available''))
          else None, S1))"

text \<open>\<open>strconv.ParseInt(s, 10, 64)\<close> and the text of its error.\<close>

definition ParseInt :: "string \<Rightarrow> string + int" where
  "ParseInt s =
     (case atoi s of
        Some v \<Rightarrow> Inr v
      | None \<Rightarrow>
          (let body = (if s \<noteq> [] \<and> (hd s = CHR ''-'' \<or> hd s = CHR ''+'') then tl s else s)
           in Inl (''strconv.ParseInt: parsing '' @ (CHR 0x22 # concat (map quote_char s) @ [CHR 0x22]) @ '': '' @
                (if body \<noteq> [] \<and> list_all is_digit body then ''value out of range'' else ''invalid syntax''))))"

definition GetTotalMessageCount ::
  "cluster_kube \<Rightarrow> 'w broker_api \<Rightarrow> broker_cluster \<Rightarrow> int32 \<Rightarrow> 'w session \<Rightarrow> (string + int) \<times> 'w session" where
  "GetTotalMessageCount K B cr ordinalToDrain S =
     (case resolveAndValidateJolokia K cr ordinalToDrain S of
        (Some err, S1) \<Rightarrow> (Inl (artemis_text err), S1)
      | (None, S1) \<Rightarrow>
          (case baGetTotalMessageCount B (snWorld S1) (endpoints S1 ! nat (sint ordinalToDrain)) of
             Inl err \<Rightarrow> (Inl (artemis_text (JolokiaClientNotFoundError
                          (''error on get total message count '' @ err @ '' ''))), S1)
           | Inr result \<Rightarrow> (ParseInt result, S1)))"

definition shutdownWithScaledown ::
  "cluster_kube \<Rightarrow> 'w broker_api \<Rightarrow> broker_cluster \<Rightarrow> int32 \<Rightarrow> 'w session \<Rightarrow> string option \<times> 'w session" where
  "shutdownWithScaledown K B cr ordinalToDrain S =
     (case resolveAndValidateJolokia K cr ordinalToDrain S of
        (Some err, S1) \<Rightarrow> (Some (artemis_text err), S1)
      | (None, S1) \<Rightarrow>
          (case baScaleDown B (snWorld S1) (endpoints S1 ! nat (sint ordinalToDrain)) of
             (Some err, w) \<Rightarrow> (Some (''error on scaledown '' @ err @ '' ''), S1\<lparr>snWorld := w\<rparr>)
           | (None, w) \<Rightarrow> (None, S1\<lparr>snWorld := w\<rparr>)))"

section \<open>The machine\<close>

text \<open>The states \<open>PendingEmpty\<close> and \<open>PendingDelete\<close>; the replicas are set only when the pod may go.\<close>

definition pending_empty ::
  "cluster_kube \<Rightarrow> 'w broker_api \<Rightarrow> broker_cluster \<Rightarrow> int32 \<Rightarrow> condition \<times> int32 option \<times> 'w session \<Rightarrow>
     condition \<times> int32 option \<times> 'w session" where
  "pending_empty K B cr ordinalToDrain = (\<lambda>(c, replicas, S).
     case GetTotalMessageCount K B cr ordinalToDrain S of
       (Inl err, S1) \<Rightarrow>
         (c\<lparr>cMessage := ScaleDownConditionMessage cr ordinalToDrain
              (''failed to get total message count, reason: '' @ err)\<rparr>, replicas, S1)
     | (Inr messages, S1) \<Rightarrow>
         if messages = 0
         then (c\<lparr>cReason := ScaleDownPendingConditionPendingDeleteReason,
                 cMessage := ScaleDownConditionPodNameMessage cr ordinalToDrain\<rparr>, Some ordinalToDrain, S1)
         else (case shutdownWithScaledown K B cr ordinalToDrain S1 of
                 (None, S2) \<Rightarrow>
                   (c\<lparr>cMessage := ScaleDownConditionMessage cr ordinalToDrain
                        (''total pending count: '' @ itoa messages)\<rparr>, replicas, S2)
               | (Some err, S2) \<Rightarrow>
                   (c\<lparr>cMessage := ScaleDownConditionMessage cr ordinalToDrain
                        (''failed to migrate messages via scaledown, pending message count '' @ itoa messages @
                         '', reason: '' @ err)\<rparr>, replicas, S2)))"

definition pending_delete ::
  "broker_cluster \<Rightarrow> int32 \<Rightarrow> condition \<times> int32 option \<times> 'w session \<Rightarrow> condition \<times> int32 option \<times> 'w session" where
  "pending_delete cr ordinalToDrain = (\<lambda>(c, replicas, S).
     if cMessage c = ScaleDownConditionPodNameMessage cr ordinalToDrain
     then (c, Some ordinalToDrain, S)
     else (c\<lparr>cReason := ScaleDownPendingConditionPendingConfigAppliedReason,
             cMessage := ScaleDownConditionPodNameMessage cr ordinalToDrain\<rparr>, replicas, S))"

definition scaling_down :: "broker_cluster \<Rightarrow> bool \<Rightarrow> int32 option \<Rightarrow> int32 \<Rightarrow> bool" where
  "scaling_down cr messageMigration replicas requestedReplicas \<longleftrightarrow>
     isClustered cr \<and> messageMigration \<and>
     (case replicas of None \<Rightarrow> False
      | Some n \<Rightarrow> sint n > 1 \<and> sint requestedReplicas < sint n)"

definition controllerManagedScaledownViaConditions ::
  "meta_api \<Rightarrow> cluster_kube \<Rightarrow> 'w broker_api \<Rightarrow> broker_cluster \<Rightarrow> bool \<Rightarrow> int32 option \<Rightarrow> int32 \<Rightarrow> 'w session \<Rightarrow>
     condition list \<times> int32 option \<times> 'w session" where
  "controllerManagedScaledownViaConditions M K B cr messageMigration replicas requestedReplicas S =
     (if scaling_down cr messageMigration replicas requestedReplicas
      then (let ordinalToDrain = OrdinalToDrain (the replicas);
                c = (case FindStatusCondition M (bcConditions cr) ScaleDownPendingConditionType of
                       Some c \<Rightarrow> c
                     | None \<Rightarrow> mk_condition ScaleDownPendingConditionType ConditionTrue
                                 ScaleDownPendingConditionPendingConfigAppliedReason
                                 (ScaleDownConditionPodNameMessage cr ordinalToDrain))
            in case (if cReason c = ScaleDownPendingConditionPendingEmptyReason
                     then pending_empty K B cr ordinalToDrain (c, replicas, S)
                     else if cReason c = ScaleDownPendingConditionPendingDeleteReason
                     then pending_delete cr ordinalToDrain (c, replicas, S)
                     else (c, replicas, S)) of
                 (c', replicas', S') \<Rightarrow> (SetStatusCondition M (bcConditions cr) c', replicas', S'))
      else (RemoveStatusCondition M (bcConditions cr) ScaleDownPendingConditionType,
            Some requestedReplicas, S))"

text \<open>
  The deployment plan sets the replicas.  The message migration defaults to true; the other things the
  plan asks for are returned by name.
\<close>

datatype plan_action = SyncMessageMigration | ApplyPodDisruptionBudget

definition ProcessDeploymentPlan ::
  "meta_api \<Rightarrow> cluster_kube \<Rightarrow> 'w broker_api \<Rightarrow> broker_cluster \<Rightarrow> int32 option \<Rightarrow> 'w session \<Rightarrow>
     broker_cluster \<times> int32 option \<times> plan_action list \<times> 'w session" where
  "ProcessDeploymentPlan M K B cr replicas S =
     (let requestedReplicas = GetDeploymentSize cr;
          migration = (case dpMessageMigration (bcPlan cr) of None \<Rightarrow> True | Some b \<Rightarrow> b);
          cr1 = cr\<lparr>bcPlan := (bcPlan cr)\<lparr>dpMessageMigration := Some migration\<rparr>\<rparr>;
          pdb = (if dpPodDisruptionBudget (bcPlan cr) \<noteq> None then [ApplyPodDisruptionBudget] else [])
      in if CrConfiguredForControllerManagedScaleDown cr
         then (case controllerManagedScaledownViaConditions M K B cr1 migration replicas requestedReplicas S of
                 (cs, replicas', S') \<Rightarrow> (set_conditions cs cr1, replicas', pdb, S'))
         else (cr1, Some requestedReplicas, SyncMessageMigration # pdb, S))"

section \<open>The step from applied configuration to draining\<close>

text \<open>
  The last part of \<open>ProcessBrokerClusterStatus\<close>: once the configuration is applied, and the broker of
  the ordinal reports the file, it is asked to scale down and the machine moves to \<open>PendingEmpty\<close>.  The
  panic of the parser of the ordinal is the result \<open>None\<close>.
\<close>

definition request_scale_down ::
  "'w broker_api \<Rightarrow> broker_cluster \<Rightarrow> int \<Rightarrow> condition \<Rightarrow> 'w session \<Rightarrow> condition \<times> 'w session" where
  "request_scale_down B cr ordinal c S =
     (let jk = endpoints S ! nat ordinal
      in case GetAndCacheBrokerStatus B jk S of
           (Inl err, S1) \<Rightarrow> (c, S1)
         | (Inr status, S1) \<Rightarrow>
             if bsConfig status (scaleDownOnSigTermPropsKey ordinal) \<noteq> None
             then (case baScaleDown B (snWorld S1) jk of
                     (None, w) \<Rightarrow>
                       (c\<lparr>cReason := ScaleDownPendingConditionPendingEmptyReason,
                          cMessage := ScaleDownConditionPodNameMessage cr (word_of_int ordinal)\<rparr>,
                        S1\<lparr>snWorld := w\<rparr>)
                   | (Some err, w) \<Rightarrow>
                       (c\<lparr>cMessage := ScaleDownConditionMessage cr (word_of_int ordinal)
                            (''scaledown to force reload of sig term scaledown properties failed, reason: '' @ err)\<rparr>,
                        S1\<lparr>snWorld := w\<rparr>))
             else (c\<lparr>cMessage := ScaleDownConditionMessage cr (word_of_int ordinal)
                       (''pending presence of '' @ scaleDownOnSigTermPropsKey ordinal @
                        '' key in properties status'')\<rparr>, S1))"

definition scale_down_transition ::
  "meta_api \<Rightarrow> 'w broker_api \<Rightarrow> broker_cluster \<Rightarrow> 'w session \<Rightarrow> (broker_cluster \<times> 'w session) option" where
  "scale_down_transition M B cr S =
     (case FindStatusCondition M (bcConditions cr) ScaleDownPendingConditionType of
        None \<Rightarrow> Some (cr, S)
      | Some c \<Rightarrow>
          let finish = (\<lambda>(c', S'). Some (set_conditions (SetStatusCondition M (bcConditions cr) c') cr, S'))
          in if cReason c = ScaleDownPendingConditionPendingConfigAppliedReason \<and>
                IsStatusConditionTrue M (bcConditions cr) ConfigAppliedConditionType
             then (case ordinalFromScaleDownCondition cr c of
                     Ok ordinal \<Rightarrow>
                       if int (length (endpoints S)) > ordinal
                       then (if ordinal < 0 then None else finish (request_scale_down B cr ordinal c S))
                       else finish (c, S)
                   | Err e \<Rightarrow> finish (c, S)
                   | Panic \<Rightarrow> None)
             else finish (c, S))"

end
