(* ===== verification/Cluster_Status.thy ===== *)
theory Cluster_Status
  imports Scale_Down
begin

text \<open>
  The status of a \<open>BrokerCluster\<close>: what the brokers say about their version and configuration
  (\<open>brokercluster_reconciler.go\<close>), the pods of the stateful set and the condition \<open>Deployed\<close>
  (\<open>pkg/utils/common/common.go\<close>), and when the status is written (\<open>brokercluster_controller.go\<close>).
\<close>

section \<open>Conditions from the brokers\<close>

definition condition_or_error :: "artemis_error option \<Rightarrow> string \<Rightarrow> string \<Rightarrow> condition" where
  "condition_or_error err conditionType reason =
     (case err of
        None \<Rightarrow> mk_condition conditionType ConditionTrue reason ''''
      | Some e \<Rightarrow> trapErrorAsCondition e conditionType)"

definition requeue_of :: "artemis_error option \<Rightarrow> bool" where
  "requeue_of err = (case err of None \<Rightarrow> False | Some e \<Rightarrow> Requeue e)"

definition put_status_condition :: "meta_api \<Rightarrow> condition \<Rightarrow> broker_cluster \<Rightarrow> broker_cluster" where
  "put_status_condition M c cr = set_conditions (SetStatusCondition M (bcConditions cr) c) cr"

text \<open>The checks, in their order, and the conditions they set; the result is whether to retry.\<close>

definition process_jaas ::
  "'w status_env \<Rightarrow> broker_cluster \<Rightarrow> 'w session \<Rightarrow> bool \<times> broker_cluster \<times> 'w session" where
  "process_jaas E cr S =
     (case getConfigExtraMount cr jaasConfigSuffix of
        None \<Rightarrow> (False, cr, S)
      | Some (t, name) \<Rightarrow>
          (case AssertJaasPropertiesStatus E name cr S of
             (err, cr', S') \<Rightarrow>
               (requeue_of err,
                put_status_condition (teMeta E)
                  (condition_or_error err JaasConfigAppliedConditionType ConfigAppliedConditionSynchedReason) cr', S')))"

definition process_checks ::
  "'w status_env \<Rightarrow> broker_cluster \<Rightarrow> 'w session \<Rightarrow> bool \<times> broker_cluster \<times> 'w session" where
  "process_checks E cr S =
     (case AssertBrokerImageVersion (teVersions E) (teKube E) (teBrokers E) cr S of
        (err1, S1) \<Rightarrow>
          (let cr1 = put_status_condition (teMeta E)
                 (condition_or_error err1 BrokerVersionAlignedConditionType BrokerVersionAlignedConditionMatchReason) cr
           in case AssertBrokerPropertiesStatus E cr1 S1 of
                (err2, cr2, S2) \<Rightarrow>
                  (let cr3 = put_status_condition (teMeta E)
                         (condition_or_error err2 ConfigAppliedConditionType ConfigAppliedConditionSynchedReason) cr2
                   in case process_jaas E cr3 S2 of
                        (retry3, cr4, S3) \<Rightarrow> (requeue_of err1 \<or> requeue_of err2 \<or> retry3, cr4, S3))))"

definition ProcessBrokerClusterStatus ::
  "'w status_env \<Rightarrow> broker_cluster \<Rightarrow> 'w session \<Rightarrow> (bool \<times> broker_cluster \<times> 'w session) option" where
  "ProcessBrokerClusterStatus E cr S =
     (let retry = IsStatusConditionTrue (teMeta E) (bcConditions cr) ScaleDownPendingConditionType
      in case AssertBrokersAvailable (teMeta E) cr of
           Some err \<Rightarrow>
             Some (retry \<or> Requeue err,
                   put_status_condition (teMeta E) (trapErrorAsCondition err ConfigAppliedConditionType) cr, S)
         | None \<Rightarrow>
             (case process_checks E cr S of
                (retry', cr', S') \<Rightarrow>
                  map_option (\<lambda>(cr'', S''). (retry \<or> retry', cr'', S''))
                    (scale_down_transition (teMeta E) (teBrokers E) cr' S')))"

section \<open>The pods and the condition Deployed (common.go)\<close>

definition SetStatusConditionWithGeneration :: "meta_api \<Rightarrow> condition \<Rightarrow> broker_cluster \<Rightarrow> broker_cluster" where
  "SetStatusConditionWithGeneration M c cr =
     put_status_condition M (c\<lparr>cObservedGeneration := bcGeneration cr\<rparr>) cr"

abbreviation "BlockReconcileAnnotation \<equiv> ''arkmq.org/block-reconcile''"

definition UpdateBlockedStatus :: "meta_api \<Rightarrow> bool \<Rightarrow> broker_cluster \<Rightarrow> broker_cluster" where
  "UpdateBlockedStatus M blocked cr =
     (if blocked
      then SetStatusConditionWithGeneration M
             (mk_condition ReconcileBlockedType ConditionTrue ReconcileBlockedReason
                (''Reconcile blocked by presence of annotation '' @ BlockReconcileAnnotation)) cr
      else set_conditions (RemoveStatusCondition M (bcConditions cr) ReconcileBlockedType) cr)"

text \<open>The labels of the pods as a selector; the default labels are those of the namer.\<close>

definition default_labels :: "broker_cluster \<Rightarrow> labels" where
  "default_labels cr = [(''application'', bcName cr @ ''-app''), (''ActiveMQArtemis'', bcName cr)]"

definition updateScaleStatus :: "range_order \<Rightarrow> broker_cluster \<Rightarrow> string" where
  "updateScaleStatus ord cr =
     (let pr = (\<lambda>ls. map (\<lambda>k. k @ ''='' @ (case map_of ls k of Some v \<Rightarrow> v | None \<Rightarrow> '''')) (ord (map fst ls)))
      in join '','' (sort (pr (default_labels cr) @ pr (dpLabels (bcPlan cr)))))"

text \<open>The loop over the ordinals below the number of pods of the set.\<close>

fun classify_pods :: "string \<Rightarrow> int32 \<Rightarrow> int32 \<Rightarrow> nat \<Rightarrow> nat \<Rightarrow> pod_status \<Rightarrow> pod_status" where
  "classify_pods name readyCount requestedCount i 0 st = st"
| "classify_pods name readyCount requestedCount i (Suc n) st =
     (let instanceName = name @ ''-'' @ itoa (int i)
      in classify_pods name readyCount requestedCount (Suc i) n
           (if int i < sint readyCount then st\<lparr>psReady := psReady st @ [instanceName]\<rparr>
            else if int i < sint requestedCount then st\<lparr>psStarting := psStarting st @ [instanceName]\<rparr>
            else st\<lparr>psStopped := psStopped st @ [instanceName]\<rparr>))"

definition no_pods :: pod_status where
  "no_pods = \<lparr>psStopped = [], psStarting = [], psReady = []\<rparr>"

definition requested_count :: "stateful_set \<Rightarrow> int32" where
  "requested_count ss = (case stsSpecReplicas ss of Some n \<Rightarrow> n | None \<Rightarrow> 0)"

definition GetSingleStatefulSetStatus :: "stateful_set \<Rightarrow> int32 \<times> pod_status" where
  "GetSingleStatefulSetStatus ss =
     (let requestedCount = requested_count ss; targetCount = stsStatusReplicas ss
      in (requestedCount,
          if requestedCount = 0 \<or> targetCount = 0 then no_pods\<lparr>psStopped := [stsName ss]\<rparr>
          else classify_pods (stsName ss) (stsReadyReplicas ss) requestedCount 0 (nat (sint targetCount)) no_pods))"

text \<open>
  \<open>lastStatus\<close> is the status remembered for the resource; the pods that became ready since are announced
  to the address controller.
\<close>

definition updatePodStatus ::
  "cluster_kube \<Rightarrow> pod_status \<Rightarrow> broker_cluster \<Rightarrow> broker_cluster \<times> string list" where
  "updatePodStatus K lastStatus cr =
     (let (planSize, status) =
        (case ckGetStatefulSet K (bcNamespace cr) (CrToSS (bcName cr)) of
           Inl err \<Rightarrow> (stDeploymentPlanSize (bcStatus cr), no_pods)
         | Inr sfsFound \<Rightarrow> GetSingleStatefulSetStatus sfsFound)
      in (cr\<lparr>bcStatus := (bcStatus cr)\<lparr>stDeploymentPlanSize := planSize, stPodStatus := status\<rparr>\<rparr>,
          drop (length (psReady lastStatus)) (psReady status)))"

definition getValidCondition :: "broker_cluster \<Rightarrow> condition" where
  "getValidCondition cr =
     (case List.find (\<lambda>c. cType c = ValidConditionType) (bcConditions cr) of
        Some c \<Rightarrow> c
      | None \<Rightarrow> mk_condition ValidConditionType ConditionTrue ValidConditionSuccessReason '''')"

definition condition_digest :: "pod_condition \<Rightarrow> string" where
  "condition_digest c =
     ''{'' @ pcType c @ (if pcStatus c \<noteq> '''' then ''='' @ pcStatus c else '''') @
     (if pcReason c \<noteq> '''' then '' '' @ pcReason c else '''') @
     (if pcMessage c \<noteq> '''' then '' '' @ pcMessage c else '''') @ ''}''"

definition PodStartingStatusDigestMessage :: "string \<Rightarrow> pod \<Rightarrow> string" where
  "PodStartingStatusDigestMessage podName status =
     ''{'' @ podName @ (if podPhase status \<noteq> '''' then '': '' @ podPhase status else '''') @
     (if length (podConditions status) > 0 then '' ['' else '''') @
     concat (map condition_digest (podConditions status)) @
     (if length (podConditions status) > 0 then '']'' else '''') @ ''}''"

definition not_ready_message :: "cluster_kube \<Rightarrow> broker_cluster \<Rightarrow> string" where
  "not_ready_message K cr =
     foldl (\<lambda>message startingPodName.
              (case ckGetPod K (bcNamespace cr) startingPodName of
                 Inl err \<Rightarrow> message
               | Inr p \<Rightarrow> message @ '' '' @ PodStartingStatusDigestMessage startingPodName p))
       (itoa (int (length (psReady (stPodStatus (bcStatus cr))))) @ ''/'' @ itoa (sint (GetDeploymentSize cr)) @
        '' pods ready'')
       (psStarting (stPodStatus (bcStatus cr)))"

definition getDeploymentCondition ::
  "cluster_kube \<Rightarrow> broker_cluster \<Rightarrow> bool \<Rightarrow> string option \<Rightarrow> condition" where
  "getDeploymentCondition K cr valid reconcileError =
     (let mk = mk_condition DeployedConditionType
      in if \<not> valid then mk ConditionFalse DeployedConditionValidationFailedReason ''''
         else case reconcileError of
           Some err \<Rightarrow> mk ConditionFalse DeployedConditionCrudKindErrorReason err
         | None \<Rightarrow>
             if GetDeploymentSize cr = 0
             then mk ConditionFalse DeployedConditionZeroSizeReason DeployedConditionZeroSizeMessage
             else if int (length (psReady (stPodStatus (bcStatus cr)))) < sint (GetDeploymentSize cr)
             then mk ConditionFalse DeployedConditionNotReadyReason (not_ready_message K cr)
             else mk ConditionTrue DeployedConditionReadyReason '''')"

text \<open>\<open>os.LookupEnv\<close> and \<open>GOARCH\<close> are arguments, for the images of the version status.\<close>

definition ProcessStatus ::
  "'w status_env \<Rightarrow> env \<Rightarrow> string \<Rightarrow> pod_status \<Rightarrow> broker_cluster \<Rightarrow> string option \<Rightarrow>
     broker_cluster \<times> string list" where
  "ProcessStatus E os goarch lastStatus cr reconcileError =
     (let cr1 = cr\<lparr>bcStatus := (bcStatus cr)
            \<lparr>stVersion := updateVersionStatus (teVersions E) os goarch (image_spec_of cr),
             stScaleLabelSelector := updateScaleStatus (teOrder E) cr\<rparr>\<rparr>
      in case updatePodStatus (teKube E) lastStatus cr1 of
           (cr2, announced) \<Rightarrow>
             (let validCondition = getValidCondition cr2;
                  cr3 = SetStatusConditionWithGeneration (teMeta E) validCondition cr2
              in (put_status_condition (teMeta E)
                    (getDeploymentCondition (teKube E) cr3 (cStatus validCondition \<noteq> ConditionFalse) reconcileError) cr3,
                  announced)))"

section \<open>When the status is written (brokercluster\_controller.go)\<close>

definition brokerClusterExternalConfigsModified :: "external_config list \<Rightarrow> external_config list \<Rightarrow> bool" where
  "brokerClusterExternalConfigsModified desiredExternalConfigs currentExternalConfigs =
     list_ex (\<lambda>cfg. list_ex (\<lambda>curCfg. ecName curCfg = ecName cfg \<and> ecResourceVersion curCfg \<noteq> ecResourceVersion cfg)
       currentExternalConfigs) desiredExternalConfigs"

definition EqualBrokerClusterCRStatus :: "cluster_status \<Rightarrow> cluster_status \<Rightarrow> bool" where
  "EqualBrokerClusterCRStatus s1 s2 \<longleftrightarrow>
     \<not> (stDeploymentPlanSize s1 \<noteq> stDeploymentPlanSize s2 \<or>
        stScaleLabelSelector s1 \<noteq> stScaleLabelSelector s2 \<or>
        \<not> (vsImage (stVersion s1) = vsImage (stVersion s2) \<and> vsInitImage (stVersion s1) = vsInitImage (stVersion s2) \<and>
           vsBrokerVersion (stVersion s1) = vsBrokerVersion (stVersion s2)) \<or>
        length (stExternalConfigs s2) \<noteq> length (stExternalConfigs s1) \<or>
        brokerClusterExternalConfigsModified (stExternalConfigs s2) (stExternalConfigs s1) \<or>
        stPodStatus s1 \<noteq> stPodStatus s2 \<or>
        length (stConditions s1) \<noteq> length (stConditions s2) \<or>
        conditionsModified (stConditions s2) (stConditions s1))"

text \<open>\<open>get\<close> and \<open>update\<close> are the calls on the server; the result is the error, if any.\<close>

definition UpdateBrokerClusterCRStatus ::
  "meta_api \<Rightarrow> (api_error + cluster_status) \<Rightarrow> (broker_cluster \<Rightarrow> string option) \<Rightarrow> broker_cluster \<Rightarrow>
     broker_cluster \<times> bool \<times> string option" where
  "UpdateBrokerClusterCRStatus M current update cr =
     (let cr1 = set_conditions (SetReadyCondition M (bcConditions cr)) cr
      in case current of
           Inl err \<Rightarrow> (cr1, False, Some (api_error_text err))
         | Inr cur \<Rightarrow>
             if \<not> EqualBrokerClusterCRStatus (bcStatus cr1) cur then (cr1, True, update cr1)
             else (cr1, False, None))"

section \<open>Facts about the pods\<close>

text \<open>The three lists, each by the ordinals it takes.\<close>

lemma classify_eq:
  "classify_pods name readyCount requestedCount i n st =
     (let pod = (\<lambda>j. name @ ''-'' @ itoa (int j)); is = [i..<i + n]
      in \<lparr>psStopped = psStopped st @ map pod (filter (\<lambda>j. sint readyCount \<le> int j \<and> sint requestedCount \<le> int j) is),
          psStarting = psStarting st @ map pod (filter (\<lambda>j. sint readyCount \<le> int j \<and> int j < sint requestedCount) is),
          psReady = psReady st @ map pod (filter (\<lambda>j. int j < sint readyCount) is)\<rparr>)"
proof (induction n arbitrary: i st)
  case (Suc n)
  have "[i..<i + Suc n] = i # [Suc i..<Suc i + n]" by (simp add: upt_rec)
  with Suc.IH [of "Suc i"] show ?case by (simp add: Let_def)
qed (simp add: Let_def)

end
