(* ===== verification/Scale_Machine.thy ===== *)
theory Scale_Machine
  imports Cluster_Status
begin

text \<open>
  The scale down of a cluster over many reconciles, as a step relation: reconciles whose writes are stored
  or lost, the one of the stateful set and the one of the status each on its own, edits of the resource,
  and changes of the brokers and of the rest of the status in between.  The invariant is that a pod whose
  deletion is pending has been seen empty, and which of those observations a lost write has made stale.
\<close>

section \<open>What the parts of a reconcile leave alone\<close>

lemma podname_inj:
  "ScaleDownConditionPodNameMessage cr k = ScaleDownConditionPodNameMessage cr' k' \<Longrightarrow> bcName cr = bcName cr' \<Longrightarrow> k = k'"
  by (auto simp: ScaleDownConditionPodNameMessage_def ScaleDownConditionMessage_def CrToSSOrdinal_def
      dest!: itoa_inj) (rule signed_word_eqI)

text \<open>The condition of the scale down, as the code finds it.\<close>

abbreviation "scaling M cr \<equiv> FindStatusCondition M (bcConditions cr) ScaleDownPendingConditionType"

text \<open>Two resources that agree on all the scale down looks at.\<close>

definition same_scale :: "meta_api \<Rightarrow> broker_cluster \<Rightarrow> broker_cluster \<Rightarrow> bool" where
  "same_scale M cr cr' \<longleftrightarrow>
     bcName cr' = bcName cr \<and> bcNamespace cr' = bcNamespace cr \<and> bcBrokerProperties cr' = bcBrokerProperties cr \<and>
     bcPlan cr' = bcPlan cr \<and> stDeploymentPlanSize (bcStatus cr') = stDeploymentPlanSize (bcStatus cr) \<and>
     (distinct_types (bcConditions cr) \<longrightarrow> distinct_types (bcConditions cr')) \<and>
     (distinct_types (bcConditions cr) \<longrightarrow> scaling M cr' = scaling M cr)"

named_theorems scale_frame \<open>the operations that leave the scale down alone\<close>

lemma same_scale_refl [scale_frame]: "same_scale M cr cr"
  by (simp add: same_scale_def)

lemma same_scale_trans: "same_scale M a b \<Longrightarrow> same_scale M b c \<Longrightarrow> same_scale M a c"
  by (auto simp: same_scale_def)

lemma put_other [scale_frame]:
  "meta_ok M \<Longrightarrow> cType c \<noteq> ScaleDownPendingConditionType \<Longrightarrow> same_scale M cr (put_status_condition M c cr)"
  by (auto simp: same_scale_def put_status_condition_def meta_find_set)

lemma trap_type [simp]: "cType (trapErrorAsCondition e t) = t"
  by (cases e) (simp_all add: trapErrorAsCondition_def)

lemma or_error_type [simp]: "cType (condition_or_error err t r) = t"
  by (simp add: condition_or_error_def split: option.split)

lemma update_extra_sel [simp]:
  "bcConditions (updateExtraConfigStatus P cr) = bcConditions cr"
  "bcName (updateExtraConfigStatus P cr) = bcName cr" "bcPlan (updateExtraConfigStatus P cr) = bcPlan cr"
  "bcNamespace (updateExtraConfigStatus P cr) = bcNamespace cr"
  "bcBrokerProperties (updateExtraConfigStatus P cr) = bcBrokerProperties cr"
  "stDeploymentPlanSize (bcStatus (updateExtraConfigStatus P cr)) = stDeploymentPlanSize (bcStatus cr)"
  by (simp_all add: updateExtraConfigStatus_def)

lemma update_extra_frame [scale_frame]: "same_scale M cr (updateExtraConfigStatus P cr)"
  by (simp add: same_scale_def)

lemma check_extra_frame:
  "check_extra_secrets E names cr S = (err, cr', S') \<Longrightarrow> same_scale M cr cr'"
proof (induction E names cr S rule: check_extra_secrets.induct)
  case (2 E name names cr S)
  show ?case
  proof (cases "has_suffix name BrokerPropsSuffix")
    case True
    show ?thesis
    proof (cases "project E (bcNamespace cr, name)")
      case (Inl e)
      with True 2 show ?thesis by (simp add: same_scale_refl)
    next
      case (Inr P)
      obtain e S1 where c: "checkProjectionStatus (teOrder E) (teKube E) (teBrokers E) cr P bsConfig S = (e, S1)"
        by fastforce
      show ?thesis
      proof (cases e)
        case None
        with True 2 Inr c have "same_scale M (updateExtraConfigStatus P cr) cr'" by fastforce
        then show ?thesis by (rule same_scale_trans [OF update_extra_frame])
      next
        case (Some x)
        with True 2 Inr c show ?thesis by (simp add: same_scale_refl)
      qed
    qed
  next
    case False
    with 2 show ?thesis by simp
  qed
qed (simp add: same_scale_refl)

lemma assert_properties_frame:
  "AssertBrokerPropertiesStatus E cr S = (err, cr', S') \<Longrightarrow> same_scale M cr cr'"
  by (auto simp: AssertBrokerPropertiesStatus_def same_scale_refl split: sum.splits prod.splits option.splits
      dest: check_extra_frame)

lemma assert_jaas_frame:
  "AssertJaasPropertiesStatus E n cr S = (err, cr', S') \<Longrightarrow> same_scale M cr cr'"
  by (auto simp: AssertJaasPropertiesStatus_def same_scale_refl update_extra_frame
      split: sum.splits prod.splits option.splits)

lemma process_jaas_frame:
  assumes "meta_ok (teMeta E)" "process_jaas E cr S = (r, cr', S')"
  shows "same_scale (teMeta E) cr cr'"
  using assms(2)
  by (auto simp: process_jaas_def same_scale_refl split: option.splits prod.splits
      intro!: same_scale_trans [OF assert_jaas_frame put_other [OF assms(1)]])

lemma process_checks_frame:
  assumes M: "meta_ok (teMeta E)" and run: "process_checks E cr S = (r, cr', S')"
  shows "same_scale (teMeta E) cr cr'"
proof -
  let ?M = "teMeta E"
  obtain e1 S1 where v: "AssertBrokerImageVersion (teVersions E) (teKube E) (teBrokers E) cr S = (e1, S1)"
    by fastforce
  let ?cr1 = "put_status_condition ?M
    (condition_or_error e1 BrokerVersionAlignedConditionType BrokerVersionAlignedConditionMatchReason) cr"
  obtain e2 cr2 S2 where p: "AssertBrokerPropertiesStatus E ?cr1 S1 = (e2, cr2, S2)"
    by (metis prod_cases3)
  let ?cr3 = "put_status_condition ?M
    (condition_or_error e2 ConfigAppliedConditionType ConfigAppliedConditionSynchedReason) cr2"
  obtain r3 S3 where j: "process_jaas E ?cr3 S2 = (r3, cr', S3)"
    using run by (simp add: process_checks_def v p Let_def split: prod.splits)
  have "same_scale ?M cr ?cr1" by (simp add: put_other [OF M])
  from same_scale_trans [OF this assert_properties_frame [OF p]] have "same_scale ?M cr ?cr3" by (rule same_scale_trans) (simp add: put_other [OF M])
  from same_scale_trans [OF this process_jaas_frame [OF M j]] show ?thesis .
qed

section \<open>The steps of the machine\<close>

text \<open>No part of a reconcile moves the machine to \<open>PendingDelete\<close> but the count of messages.\<close>

abbreviation "PendingDelete \<equiv> ScaleDownPendingConditionPendingDeleteReason"
abbreviation "PendingEmpty \<equiv> ScaleDownPendingConditionPendingEmptyReason"
abbreviation "PendingConfigApplied \<equiv> ScaleDownPendingConditionPendingConfigAppliedReason"

definition same_resource :: "broker_cluster \<Rightarrow> broker_cluster \<Rightarrow> bool" where
  "same_resource cr cr' \<longleftrightarrow>
     bcName cr' = bcName cr \<and> bcNamespace cr' = bcNamespace cr \<and> bcBrokerProperties cr' = bcBrokerProperties cr \<and>
     bcPlan cr' = bcPlan cr \<and> stDeploymentPlanSize (bcStatus cr') = stDeploymentPlanSize (bcStatus cr) \<and>
     (distinct_types (bcConditions cr) \<longrightarrow> distinct_types (bcConditions cr'))"

lemma same_scale_resource: "same_scale M cr cr' \<Longrightarrow> same_resource cr cr'"
  by (simp add: same_scale_def same_resource_def)

lemma request_reason:
  assumes "cReason c = PendingConfigApplied" "request_scale_down B cr n c S = (c', S')"
  shows "cReason c' \<noteq> PendingDelete" "cType c' = cType c"
  using assms
  by (auto simp: request_scale_down_def Let_def split: prod.splits sum.splits option.splits if_splits)

lemma transition_frame:
  assumes M: "meta_ok M" and d: "distinct_types (bcConditions cr)"
    and run: "scale_down_transition M B cr S = Some (cr', S')"
  shows "same_resource cr cr' \<and>
    (\<forall>c. scaling M cr' = Some c \<and> cReason c = PendingDelete \<longrightarrow> scaling M cr = Some c)"
proof (cases "scaling M cr")
  case None
  with run show ?thesis by (simp add: scale_down_transition_def same_resource_def)
next
  case (Some c)
  then have t: "cType c = ScaleDownPendingConditionType" using M d by (simp add: meta_find_iff)
  have put: "same_resource cr (set_conditions (SetStatusCondition M (bcConditions cr) x) cr)" for x
    using M by (simp add: same_resource_def)
  show ?thesis
  proof (cases "\<exists>n. cReason c = PendingConfigApplied \<and>
      set_conditions (SetStatusCondition M (bcConditions cr) (fst (request_scale_down B cr n c S))) cr = cr'")
    case True
    then obtain n where n: "cReason c = PendingConfigApplied"
      "set_conditions (SetStatusCondition M (bcConditions cr) (fst (request_scale_down B cr n c S))) cr = cr'"
      by blast
    obtain c' S2 where r: "request_scale_down B cr n c S = (c', S2)" by fastforce
    from request_reason [OF n(1) r] n(2) r t have "scaling M cr' = Some c'" "cReason c' \<noteq> PendingDelete"
      using M d by (auto simp: meta_find_set)
    with put n(2) show ?thesis by auto
  next
    case False
    with run Some have "cr' = set_conditions (SetStatusCondition M (bcConditions cr) c) cr"
      by (auto simp: scale_down_transition_def Let_def split: if_splits go_result.splits prod.splits)
        (metis fst_conv)+
    with put t M d Some show ?thesis by (auto simp: meta_find_set)
  qed
qed

lemma process_status_frame:
  assumes M: "meta_ok (teMeta E)" and d: "distinct_types (bcConditions cr)"
    and run: "ProcessBrokerClusterStatus E cr S = Some (retry, cr', S')"
  shows "same_resource cr cr' \<and>
    (\<forall>c. scaling (teMeta E) cr' = Some c \<and> cReason c = PendingDelete \<longrightarrow> scaling (teMeta E) cr = Some c)"
proof (cases "AssertBrokersAvailable (teMeta E) cr")
  case (Some err)
  with run have "cr' = put_status_condition (teMeta E) (trapErrorAsCondition err ConfigAppliedConditionType) cr"
    by (simp add: ProcessBrokerClusterStatus_def Let_def)
  then have "same_scale (teMeta E) cr cr'" using M by (simp add: put_other)
  with d show ?thesis by (auto simp: same_scale_def same_resource_def)
next
  case None
  obtain r cr1 S1 where c: "process_checks E cr S = (r, cr1, S1)" by (metis prod_cases3)
  with run None obtain S2 where t: "scale_down_transition (teMeta E) (teBrokers E) cr1 S1 = Some (cr', S2)"
    by (auto simp: ProcessBrokerClusterStatus_def Let_def)
  from process_checks_frame [OF M c] d have f: "same_resource cr cr1" "distinct_types (bcConditions cr1)"
    "scaling (teMeta E) cr1 = scaling (teMeta E) cr"
    by (auto simp: same_scale_def same_resource_def)
  from transition_frame [OF M f(2) t] f(1,3) show ?thesis by (auto simp: same_resource_def)
qed

section \<open>Runs\<close>

text \<open>
  The parts of one reconcile that touch the scale down: the deployment plan sets the replicas, the status
  follows.  Both work on the session of this reconcile.
\<close>

definition plan_scale ::
  "'w status_env \<Rightarrow> broker_cluster \<Rightarrow> int32 \<Rightarrow> 'w \<Rightarrow> broker_cluster \<times> int32 option \<times> plan_action list \<times> 'w session" where
  "plan_scale E cr replicas w =
     ProcessDeploymentPlan (teMeta E) (teKube E) (teBrokers E) cr (Some replicas) (new_session w)"

definition reconcile_scale ::
  "'w status_env \<Rightarrow> broker_cluster \<Rightarrow> int32 \<Rightarrow> 'w \<Rightarrow> (broker_cluster \<times> int32 option \<times> 'w) option" where
  "reconcile_scale E cr replicas w =
     (case plan_scale E cr replicas w of
        (cr1, replicas', actions, S) \<Rightarrow>
          map_option (\<lambda>(retry, cr2, S'). (cr2, replicas', snWorld S')) (ProcessBrokerClusterStatus E cr1 S))"

text \<open>In a reconcile the broker of the last ordinal says that it holds no message.\<close>

definition observed_empty :: "'w status_env \<Rightarrow> broker_cluster \<Rightarrow> int32 \<Rightarrow> 'w \<Rightarrow> bool" where
  "observed_empty E cr ordinal w \<longleftrightarrow>
     fst (GetTotalMessageCount (teKube E) (teBrokers E) cr ordinal (new_session w)) = Inr 0"

record 'w scale_state =
  scCluster :: broker_cluster
  scReplicas :: int32
  scWorld :: 'w
  scSeenEmpty :: "int32 set"
  scStale :: "int32 set"

text \<open>
  Two histories.  \<open>scSeenEmpty\<close> holds the ordinals whose broker reported no message since the set last
  grew.  \<open>scStale\<close> holds those seen empty before a growth whose status was lost: the set is written before
  the status, so it can grow while the server keeps a condition that names a pod of before.  They are
  dropped once a status without the condition is stored.

  The write of the set can be lost, \<open>n' = n\<close>; the status is stored, or lost when its write fails or the
  process dies before it.  A reconcile that is blocked, or fails before its plan, computes the status alone.
  Everything but the name, the trigger and the condition \<open>ScalingDown\<close> may change between reconciles.
\<close>

abbreviation stored_status :: "broker_cluster \<Rightarrow> broker_cluster \<Rightarrow> broker_cluster" where
  "stored_status cr cr' \<equiv> cr\<lparr>bcStatus := bcStatus cr'\<rparr>"

definition seen_now :: "'w status_env \<Rightarrow> broker_cluster \<Rightarrow> int32 \<Rightarrow> 'w \<Rightarrow> int32 set" where
  "seen_now E cr n w = {k. k = OrdinalToDrain n \<and> observed_empty E cr k w}"

definition seen_since :: "int32 \<Rightarrow> int32 \<Rightarrow> int32 set \<Rightarrow> int32 set" where
  "seen_since n n' H = (if sint n' > sint n then {} else H)"

inductive scale_step :: "meta_api \<Rightarrow> 'w scale_state \<Rightarrow> 'w scale_state \<Rightarrow> bool" for M where
  reconcile: "teMeta E = M \<Longrightarrow> reconcile_scale E cr n w = Some (cr', Some r, w') \<Longrightarrow> n' = r \<or> n' = n \<Longrightarrow>
    scale_step M \<lparr>scCluster = cr, scReplicas = n, scWorld = w, scSeenEmpty = H, scStale = G\<rparr>
      \<lparr>scCluster = stored_status cr cr', scReplicas = n', scWorld = w',
       scSeenEmpty = seen_since n n' (H \<union> seen_now E cr n w), scStale = (if scaling M cr' = None then {} else G)\<rparr>"
| status_lost: "teMeta E = M \<Longrightarrow> plan_scale E cr n w = (cr1, Some r, actions, S) \<Longrightarrow> n' = r \<or> n' = n \<Longrightarrow>
    scale_step M \<lparr>scCluster = cr, scReplicas = n, scWorld = w, scSeenEmpty = H, scStale = G\<rparr>
      \<lparr>scCluster = cr, scReplicas = n', scWorld = w',
       scSeenEmpty = seen_since n n' (H \<union> seen_now E cr n w), scStale = (if sint n' > sint n then G \<union> H else G)\<rparr>"
| status_only: "teMeta E = M \<Longrightarrow> ProcessBrokerClusterStatus E cr (new_session w) = Some (retry, cr', S) \<Longrightarrow>
    scale_step M \<lparr>scCluster = cr, scReplicas = n, scWorld = w, scSeenEmpty = H, scStale = G\<rparr>
      \<lparr>scCluster = stored_status cr cr', scReplicas = n, scWorld = snWorld S, scSeenEmpty = H, scStale = G\<rparr>"
| edit: "bcName cr' = bcName cr \<Longrightarrow> CrConfiguredForControllerManagedScaleDown cr' \<Longrightarrow>
    distinct_types (bcConditions cr') \<Longrightarrow> scaling M cr' = scaling M cr \<Longrightarrow>
    scale_step M \<lparr>scCluster = cr, scReplicas = n, scWorld = w, scSeenEmpty = H, scStale = G\<rparr>
      \<lparr>scCluster = cr', scReplicas = n, scWorld = w', scSeenEmpty = H, scStale = G\<rparr>"

definition scale_init :: "meta_api \<Rightarrow> 'w scale_state \<Rightarrow> bool" where
  "scale_init M s \<longleftrightarrow>
     CrConfiguredForControllerManagedScaleDown (scCluster s) \<and> distinct_types (bcConditions (scCluster s)) \<and>
     scaling M (scCluster s) = None \<and> scSeenEmpty s = {} \<and> scStale s = {}"

definition scale_reachable :: "meta_api \<Rightarrow> 'w scale_state \<Rightarrow> bool" where
  "scale_reachable M s \<longleftrightarrow> (\<exists>s0. scale_init M s0 \<and> (scale_step M)\<^sup>*\<^sup>* s0 s)"

inductive_cases scale_stepE: "scale_step M s s'"

section \<open>The invariant\<close>

definition drained_inv :: "meta_api \<Rightarrow> 'w scale_state \<Rightarrow> bool" where
  "drained_inv M s \<longleftrightarrow>
     CrConfiguredForControllerManagedScaleDown (scCluster s) \<and> distinct_types (bcConditions (scCluster s)) \<and>
     (\<forall>c k. scaling M (scCluster s) = Some c \<and> cReason c = PendingDelete \<and>
        cMessage c = ScaleDownConditionPodNameMessage (scCluster s) k \<longrightarrow> k \<in> scSeenEmpty s \<union> scStale s)"

text \<open>What one pass of the machine does to the replicas and to the condition.\<close>

lemma pending_empty_cases:
  assumes "pending_empty K B cr k (c, Some n, S) = (c', r, S')" "cReason c = PendingEmpty"
  shows "(fst (GetTotalMessageCount K B cr k S) = Inr 0 \<and> r = Some k \<and>
      cMessage c' = ScaleDownConditionPodNameMessage cr k) \<or> (r = Some n \<and> cReason c' = PendingEmpty)"
  using assms by (auto simp: pending_empty_def split: prod.splits sum.splits if_splits option.splits)

lemma pending_empty_type: "pending_empty K B cr k (c, n, S) = (c', r, S') \<Longrightarrow> cType c' = cType c"
  by (auto simp: pending_empty_def split: prod.splits sum.splits if_splits option.splits)

lemma message_name:
  "bcName cr' = bcName cr \<Longrightarrow> ScaleDownConditionPodNameMessage cr' k = ScaleDownConditionPodNameMessage cr k"
  by (simp add: ScaleDownConditionPodNameMessage_def ScaleDownConditionMessage_def)

lemma count_name:
  "bcName cr' = bcName cr \<Longrightarrow> bcNamespace cr' = bcNamespace cr \<Longrightarrow>
     stDeploymentPlanSize (bcStatus cr') = stDeploymentPlanSize (bcStatus cr) \<Longrightarrow>
     GetTotalMessageCount K B cr' k S = GetTotalMessageCount K B cr k S"
  by (simp add: GetTotalMessageCount_def resolveAndValidateJolokia_def resolveJolokiaEndpoints_def Let_def
      cong: option.case_cong)

text \<open>
  A pass keeps the replicas, grows them after dropping the condition, or takes one off; the last only
  when the pod was seen empty in this pass or its deletion was already pending.
\<close>

lemma managed_cases:
  assumes M: "meta_ok M" and d: "distinct_types (bcConditions cr)"
    and run: "controllerManagedScaledownViaConditions M K B cr mig (Some n) req S = (cs, r, S')"
  defines "k \<equiv> OrdinalToDrain n"
  defines "seen \<equiv> fst (GetTotalMessageCount K B cr k S) = Inr 0"
  shows "distinct_types cs \<and>
    (if scaling_down cr mig (Some n) req
     then (\<exists>c'. FindStatusCondition M cs ScaleDownPendingConditionType = Some c' \<and>
        (r = Some n \<and> (cReason c' = PendingDelete \<longrightarrow> scaling M cr = Some c') \<or>
         r = Some k \<and> cMessage c' = ScaleDownConditionPodNameMessage cr k \<and>
           (seen \<or> scaling M cr = Some c' \<and> cReason c' = PendingDelete)))
     else FindStatusCondition M cs ScaleDownPendingConditionType = None \<and> r = Some req)"
proof (cases "scaling_down cr mig (Some n) req")
  case False
  with run M d show ?thesis
    by (auto simp: controllerManagedScaledownViaConditions_def meta_find_remove)
next
  case True
  define c where "c = (case scaling M cr of Some c \<Rightarrow> c
    | None \<Rightarrow> mk_condition ScaleDownPendingConditionType ConditionTrue PendingConfigApplied
        (ScaleDownConditionPodNameMessage cr k))"
  have t: "cType c = ScaleDownPendingConditionType"
    using M d by (auto simp: c_def meta_find_iff split: option.split)
  have old: "cReason c = PendingDelete \<Longrightarrow> scaling M cr = Some c"
    by (auto simp: c_def split: option.splits)
  obtain c' where step: "(if cReason c = PendingEmpty then pending_empty K B cr k (c, Some n, S)
      else if cReason c = PendingDelete then pending_delete cr k (c, Some n, S) else (c, Some n, S)) = (c', r, S')"
    and cs: "cs = SetStatusCondition M (bcConditions cr) c'"
    using run True
    unfolding controllerManagedScaledownViaConditions_def Let_def option.sel c_def [symmetric] k_def [symmetric]
    by (auto split: prod.splits)
  have t': "cType c' = ScaleDownPendingConditionType"
    using step t by (auto simp: pending_delete_def split: if_splits dest: pending_empty_type)
  have "r = Some n \<and> (cReason c' = PendingDelete \<longrightarrow> scaling M cr = Some c') \<or>
     r = Some k \<and> cMessage c' = ScaleDownConditionPodNameMessage cr k \<and>
       (seen \<or> scaling M cr = Some c' \<and> cReason c' = PendingDelete)"
  proof (cases "cReason c = PendingEmpty")
    case True
    with step have "pending_empty K B cr k (c, Some n, S) = (c', r, S')" by simp
    from pending_empty_cases [OF this True] show ?thesis by (auto simp: seen_def)
  next
    case False
    with step old show ?thesis by (auto simp: pending_delete_def split: if_splits)
  qed
  with True M d t' cs show ?thesis by (auto simp: meta_find_set)
qed

definition migrates :: "broker_cluster \<Rightarrow> bool" where
  "migrates cr \<longleftrightarrow> (case dpMessageMigration (bcPlan cr) of None \<Rightarrow> True | Some b \<Rightarrow> b)"

definition with_migration :: "broker_cluster \<Rightarrow> broker_cluster" where
  "with_migration cr = cr\<lparr>bcPlan := (bcPlan cr)\<lparr>dpMessageMigration := Some (migrates cr)\<rparr>\<rparr>"

lemma with_migration_sel [simp]:
  "bcName (with_migration cr) = bcName cr" "bcNamespace (with_migration cr) = bcNamespace cr"
  "bcConditions (with_migration cr) = bcConditions cr" "isClustered (with_migration cr) = isClustered cr"
  "stDeploymentPlanSize (bcStatus (with_migration cr)) = stDeploymentPlanSize (bcStatus cr)"
  "bcBrokerProperties (with_migration cr) = bcBrokerProperties cr"
  by (simp_all add: with_migration_def isClustered_def)

lemma plan_managed:
  assumes "CrConfiguredForControllerManagedScaleDown cr"
    and "ProcessDeploymentPlan M K B cr n S = (cr1, r, actions, S1)"
  shows "\<exists>cs. controllerManagedScaledownViaConditions M K B (with_migration cr) (migrates cr) n
      (GetDeploymentSize cr) S = (cs, r, S1) \<and> cr1 = set_conditions cs (with_migration cr)"
  using assms
  by (auto simp: ProcessDeploymentPlan_def Let_def with_migration_def migrates_def split: prod.splits)

text \<open>One plan, from the condition and the replicas before it to those after it.\<close>

abbreviation delete_pending :: "meta_api \<Rightarrow> broker_cluster \<Rightarrow> condition \<Rightarrow> bool" where
  "delete_pending M cr c \<equiv> scaling M cr = Some c \<and> cReason c = PendingDelete"

lemma plan_cases:
  assumes M: "meta_ok (teMeta E)" and d: "distinct_types (bcConditions cr)"
    and trigger: "CrConfiguredForControllerManagedScaleDown cr"
    and plan: "plan_scale E cr n w = (cr1, r, acts, S)"
  defines "k \<equiv> OrdinalToDrain n"
  shows "bcName cr1 = bcName cr \<and> distinct_types (bcConditions cr1) \<and>
    (if scaling_down cr (migrates cr) (Some n) (GetDeploymentSize cr)
     then r = Some n \<and> (\<forall>c. delete_pending (teMeta E) cr1 c \<longrightarrow> delete_pending (teMeta E) cr c) \<or>
          r = Some k \<and> (observed_empty E cr k w \<or>
            (\<exists>c. delete_pending (teMeta E) cr c \<and> cMessage c = ScaleDownConditionPodNameMessage cr k)) \<and>
            (\<forall>c. delete_pending (teMeta E) cr1 c \<longrightarrow> cMessage c = ScaleDownConditionPodNameMessage cr k)
     else r = Some (GetDeploymentSize cr) \<and> scaling (teMeta E) cr1 = None)"
proof -
  let ?M = "teMeta E" and ?cr0 = "with_migration cr"
  from plan_managed [OF trigger plan [unfolded plan_scale_def]] obtain cs where
    man: "controllerManagedScaledownViaConditions ?M (teKube E) (teBrokers E) ?cr0 (migrates cr) (Some n)
      (GetDeploymentSize cr) (new_session w) = (cs, r, S)" and cr1: "cr1 = set_conditions cs ?cr0" by blast
  have d0: "distinct_types (bcConditions ?cr0)" using d by simp
  note cases = managed_cases [OF M d0 man, folded k_def]
  have sd: "scaling_down ?cr0 (migrates cr) (Some n) (GetDeploymentSize cr) =
      scaling_down cr (migrates cr) (Some n) (GetDeploymentSize cr)"
    by (simp add: scaling_down_def)
  have msg: "ScaleDownConditionPodNameMessage ?cr0 k = ScaleDownConditionPodNameMessage cr k"
    by (rule message_name) simp
  have obs: "fst (GetTotalMessageCount (teKube E) (teBrokers E) ?cr0 k (new_session w)) = Inr 0 \<longleftrightarrow>
      observed_empty E cr k w"
    unfolding observed_empty_def by (simp add: count_name [where cr' = ?cr0 and cr = cr])
  show ?thesis
    using cases unfolding sd msg obs with_migration_sel cr1 by (auto split: if_splits)
qed

lemma drain_less: "sint n > 1 \<Longrightarrow> sint (OrdinalToDrain n) = sint n - 1"
  using sint_lt [of n] by (simp add: OrdinalToDrain_def sint_word_ariths signed_take_bit_int_eq_self)

text \<open>
  What a plan leaves pending was seen empty, in this reconcile or before; a plan that grows the set leaves
  nothing pending, and one that lowers it takes off the last pod.
\<close>

lemma plan_inv:
  assumes M: "meta_ok (teMeta E)"
    and inv: "drained_inv (teMeta E) \<lparr>scCluster = cr, scReplicas = n, scWorld = w, scSeenEmpty = H, scStale = G\<rparr>"
    and plan: "plan_scale E cr n w = (cr1, Some r, acts, S)"
  defines "known \<equiv> H \<union> seen_now E cr n w \<union> G"
  shows "distinct_types (bcConditions cr1)"
    and "delete_pending (teMeta E) cr1 c \<Longrightarrow> cMessage c = ScaleDownConditionPodNameMessage cr j \<Longrightarrow>
      \<not> sint r > sint n \<and> j \<in> known"
    and "isClustered cr \<Longrightarrow> migrates cr \<Longrightarrow> sint n > 1 \<Longrightarrow> sint r < sint n \<Longrightarrow>
      r = OrdinalToDrain n \<and> r \<in> known"
proof -
  define k where "k = OrdinalToDrain n"
  from inv have d: "distinct_types (bcConditions cr)" and t: "CrConfiguredForControllerManagedScaleDown cr"
    and old: "\<And>c j. delete_pending (teMeta E) cr c \<Longrightarrow> cMessage c = ScaleDownConditionPodNameMessage cr j \<Longrightarrow> j \<in> known"
    by (auto simp: drained_inv_def known_def)
  note cases = plan_cases [OF M d t plan, folded k_def]
  then show "distinct_types (bcConditions cr1)" by blast
  let ?sd = "scaling_down cr (migrates cr) (Some n) (GetDeploymentSize cr)"
  have down: "sint n > 1 \<and> sint k = sint n - 1" if ?sd
    using that drain_less [of n] by (simp add: scaling_down_def k_def)
  have seen: "observed_empty E cr k w \<Longrightarrow> k \<in> known" by (simp add: known_def seen_now_def k_def)
  have off: "k \<in> known" if ?sd "r \<noteq> n" using cases that old seen by (auto split: if_splits)
  show "\<not> sint r > sint n \<and> j \<in> known"
    if c: "delete_pending (teMeta E) cr1 c" "cMessage c = ScaleDownConditionPodNameMessage cr j"
  proof -
    have ?sd using cases c(1) by (auto split: if_splits)
    with cases consider "r = n" "delete_pending (teMeta E) cr c" |
      "r = k" "cMessage c = ScaleDownConditionPodNameMessage cr k" using c(1) by auto
    then show ?thesis
    proof cases
      case 1
      with old [OF 1(2) c(2)] show ?thesis by simp
    next
      case 2
      from 2(2) c(2) have "j = k" by (metis podname_inj)
      moreover have "\<not> sint r > sint n" "r \<noteq> n" using down [OF \<open>?sd\<close>] 2(1) by auto
      ultimately show ?thesis using off [OF \<open>?sd\<close>] 2(1) by simp
    qed
  qed
  show "r = OrdinalToDrain n \<and> r \<in> known" if "isClustered cr" "migrates cr" "sint n > 1" "sint r < sint n"
  proof -
    have ?sd
    proof (rule ccontr)
      assume no: "\<not> ?sd"
      with cases have "r = GetDeploymentSize cr" by simp
      with no that show False by (simp add: scaling_down_def)
    qed
    with cases that(4) have "r = k" by auto
    moreover have "r \<noteq> n" using that(4) by auto
    ultimately show ?thesis using off [OF \<open>?sd\<close>] by (simp add: k_def)
  qed
qed

text \<open>The trigger, the name and the conditions of what is stored.\<close>

lemma stored_inv:
  assumes inv: "drained_inv M \<lparr>scCluster = cr, scReplicas = n, scWorld = w, scSeenEmpty = H, scStale = G\<rparr>"
    and "distinct_types (bcConditions cr')"
    and "\<And>c j. delete_pending M cr' c \<Longrightarrow> cMessage c = ScaleDownConditionPodNameMessage cr j \<Longrightarrow> j \<in> H' \<union> G'"
  shows "drained_inv M \<lparr>scCluster = stored_status cr cr', scReplicas = n', scWorld = w', scSeenEmpty = H', scStale = G'\<rparr>"
proof -
  have "ScaleDownConditionPodNameMessage (stored_status cr cr') j = ScaleDownConditionPodNameMessage cr j" for j
    by (rule message_name) simp
  with assms show ?thesis by (auto simp: drained_inv_def CrConfiguredForControllerManagedScaleDown_def)
qed

lemma scale_step_inv:
  assumes M: "meta_ok M" and "scale_step M s s'" and inv: "drained_inv M s"
  shows "drained_inv M s'"
  using assms(2)
proof (cases rule: scale_step.cases)
  case (reconcile E cr n w cr' r w' n' H G)
  have ok: "meta_ok (teMeta E)"
    "drained_inv (teMeta E) \<lparr>scCluster = cr, scReplicas = n, scWorld = w, scSeenEmpty = H, scStale = G\<rparr>"
    using M inv reconcile by simp_all
  from reconcile(4) obtain cr1 acts S retry S' where
    plan: "plan_scale E cr n w = (cr1, Some r, acts, S)"
    and stat: "ProcessBrokerClusterStatus E cr1 S = Some (retry, cr', S')"
    by (auto simp: reconcile_scale_def split: prod.splits)
  note p = plan_inv [OF ok plan]
  from process_status_frame [OF ok(1) p(1) stat] p(1)
  have d: "distinct_types (bcConditions cr')" and keep: "\<And>c. delete_pending M cr' c \<Longrightarrow> delete_pending M cr1 c"
    by (auto simp: same_resource_def reconcile(3))
  have "j \<in> seen_since n n' (H \<union> seen_now E cr n w) \<union> (if scaling M cr' = None then {} else G)"
    if "delete_pending M cr' c" "cMessage c = ScaleDownConditionPodNameMessage cr j" for c j
    using p(2) [of c j] keep [OF that(1)] that reconcile(3,5) by (auto simp: seen_since_def)
  then show ?thesis unfolding reconcile(2) by (intro stored_inv [OF inv [unfolded reconcile(1)] d]) blast
next
  case (status_lost E cr n w cr1 r acts S n' H G w')
  with inv show ?thesis by (simp add: drained_inv_def seen_since_def) blast
next
  case (status_only E cr w retry cr' S n H G)
  have ok: "meta_ok (teMeta E)" "distinct_types (bcConditions cr)"
    using M inv status_only by (simp_all add: drained_inv_def)
  from process_status_frame [OF ok status_only(4)] ok(2)
  have d: "distinct_types (bcConditions cr')" and keep: "\<And>c. delete_pending M cr' c \<Longrightarrow> delete_pending M cr c"
    by (auto simp: same_resource_def status_only(3))
  have "j \<in> H \<union> G" if "delete_pending M cr' c" "cMessage c = ScaleDownConditionPodNameMessage cr j" for c j
    using keep [OF that(1)] that(2) inv status_only(1) by (auto simp: drained_inv_def)
  then show ?thesis unfolding status_only(2) by (intro stored_inv [OF inv [unfolded status_only(1)] d]) blast
next
  case (edit cr' cr n w H G w')
  with inv show ?thesis by (simp add: drained_inv_def message_name [OF edit(3)]) blast
qed

lemma scale_reachable_inv:
  assumes M: "meta_ok M" and "scale_reachable M s"
  shows "drained_inv M s"
proof -
  from assms(2) obtain s0 where s0: "scale_init M s0" and run: "(scale_step M)\<^sup>*\<^sup>* s0 s"
    by (auto simp: scale_reachable_def)
  from s0 have "drained_inv M s0" by (simp add: scale_init_def drained_inv_def)
  with run show ?thesis by induction (blast intro: scale_step_inv [OF M])+
qed

end
