(* ===== verification/Scale_Progress.thy ===== *)
theory Scale_Progress
  imports Scale_Machine
begin

text \<open>
  The scale down makes progress: rounds of reconcile and status, with brokers that answer and apply their
  configuration, that may hold messages and refuse to be drained for any number of calls, and pods that
  follow the stateful set.
\<close>

section \<open>Brokers that answer\<close>

text \<open>A status that shows the files of the scale down and no difference from the projected properties.\<close>

definition good_status :: "'w status_env \<Rightarrow> broker_cluster \<Rightarrow> broker_status \<Rightarrow> bool" where
  "good_status E cr st \<longleftrightarrow>
     (\<forall>k. bsConfig st (scaleDownOnSigTermPropsKey k) \<noteq> None) \<and>
     (\<forall>P. project E (getPropertiesResourceNsName cr) = Inr P \<longrightarrow>
        (\<forall>jk. projection_check (teOrder E) (teBrokers E) cr P bsConfig st jk = None))"

definition healthy :: "'w status_env \<Rightarrow> broker_cluster \<Rightarrow> bool" where
  "healthy E cr \<longleftrightarrow>
     meta_ok (teMeta E) \<and> CHR '' '' \<notin> set (bcName cr) \<and>
     dpExtraSecrets (bcPlan cr) = [] \<and> dpExtraConfigMaps (bcPlan cr) = [] \<and>
     (\<forall>p. \<exists>pod. ckGetPod (teKube E) (bcNamespace cr) p = Inr pod) \<and>
     (\<exists>P. project E (getPropertiesResourceNsName cr) = Inr P) \<and>
     (\<forall>w jk. \<exists>js st. baGetStatus (teBrokers E) w jk = Inr js \<and> baUnmarshal (teBrokers E) js = Inr st \<and>
        good_status E cr st)"

lemma healthyD:
  assumes "healthy E cr"
  shows "meta_ok (teMeta E)" "CHR '' '' \<notin> set (bcName cr)" "dpExtraSecrets (bcPlan cr) = []"
    "dpExtraConfigMaps (bcPlan cr) = []" "\<exists>pod. ckGetPod (teKube E) (bcNamespace cr) p = Inr pod"
    "\<exists>P. project E (getPropertiesResourceNsName cr) = Inr P"
    "\<exists>js st. baGetStatus (teBrokers E) w jk = Inr js \<and> baUnmarshal (teBrokers E) js = Inr st \<and> good_status E cr st"
  using assms by (simp_all add: healthy_def)

text \<open>
  Brokers that are drained in the end.  \<open>rank\<close> bounds the calls a broker still needs: it answers the count
  with a number, 0 once its rank is 0, and each call to scale down, which may report an error, lowers a
  positive rank.  \<open>tick\<close> is what happens to the brokers between two rounds, which does not undo this.
\<close>

definition drains :: "'w broker_api \<Rightarrow> ('w \<Rightarrow> 'w) \<Rightarrow> ('w \<Rightarrow> jk_info \<Rightarrow> nat) \<Rightarrow> bool" where
  "drains B tick rank \<longleftrightarrow>
     (\<forall>w jk. (\<exists>answer messages. baGetTotalMessageCount B w jk = Inr answer \<and> ParseInt answer = Inr messages \<and>
          (rank w jk = 0 \<longrightarrow> messages = 0)) \<and>
        rank (tick w) jk \<le> rank w jk \<and>
        (if rank w jk = 0 then fst (baScaleDown B w jk) = None \<and> rank (snd (baScaleDown B w jk)) jk = 0
         else rank (snd (baScaleDown B w jk)) jk < rank w jk))"

lemma drainsD:
  assumes "drains B tick rank"
  shows "\<exists>answer messages. baGetTotalMessageCount B w jk = Inr answer \<and> ParseInt answer = Inr messages \<and>
      (rank w jk = 0 \<longrightarrow> messages = 0)"
    "rank (tick w) jk \<le> rank w jk" "rank w jk = 0 \<Longrightarrow> fst (baScaleDown B w jk) = None"
    "rank (snd (baScaleDown B w jk)) jk \<le> rank w jk"
    "rank w jk > 0 \<Longrightarrow> rank (snd (baScaleDown B w jk)) jk < rank w jk"
proof -
  let ?w' = "snd (baScaleDown B w jk)"
  have all: "(\<exists>answer messages. baGetTotalMessageCount B w jk = Inr answer \<and> ParseInt answer = Inr messages \<and>
          (rank w jk = 0 \<longrightarrow> messages = 0)) \<and>
        rank (tick w) jk \<le> rank w jk \<and>
        (if rank w jk = 0 then fst (baScaleDown B w jk) = None \<and> rank (snd (baScaleDown B w jk)) jk = 0
         else rank (snd (baScaleDown B w jk)) jk < rank w jk)"
    for w jk by (rule spec [OF spec [OF assms [unfolded drains_def]]])
  show "\<exists>answer messages. baGetTotalMessageCount B w jk = Inr answer \<and> ParseInt answer = Inr messages \<and>
      (rank w jk = 0 \<longrightarrow> messages = 0)" and "rank (tick w) jk \<le> rank w jk"
    using all [of w jk] by blast+
  show "fst (baScaleDown B w jk) = None" if "rank w jk = 0" using all [of w jk] that by simp
  show "rank ?w' jk < rank w jk" if "rank w jk > 0" using all [of w jk] that by simp
  then show "rank ?w' jk \<le> rank w jk" using all [of w jk] by (cases "rank w jk = 0") simp_all
qed

text \<open>Health is a matter of the name, the namespace and the mounts.\<close>

lemma healthy_cong:
  assumes "bcName cr' = bcName cr" "bcNamespace cr' = bcNamespace cr"
    "dpExtraSecrets (bcPlan cr') = dpExtraSecrets (bcPlan cr)"
    "dpExtraConfigMaps (bcPlan cr') = dpExtraConfigMaps (bcPlan cr)"
  shows "healthy E cr' \<longleftrightarrow> healthy E cr"
proof -
  have n: "getPropertiesResourceNsName cr' = getPropertiesResourceNsName cr"
    using assms(1,2) by (simp add: getPropertiesResourceNsName_def)
  have "projection_check (teOrder E) (teBrokers E) cr' P f st jk =
      projection_check (teOrder E) (teBrokers E) cr P f st jk" for P f st jk
    using assms(1) by (simp add: projection_check_def)
  with n have "good_status E cr' st = good_status E cr st" for st by (simp add: good_status_def)
  then show ?thesis using assms n by (simp add: healthy_def)
qed

section \<open>The session in a healthy cluster\<close>

definition all_endpoints :: "'w status_env \<Rightarrow> broker_cluster \<Rightarrow> jk_info list" where
  "all_endpoints E cr =
     GetBrokers (teKube E) [(CrToSS (bcName cr), bcNamespace cr, stDeploymentPlanSize (bcStatus cr))]"

lemma brokers_from_length:
  "(\<And>p. \<exists>pod. ckGetPod K ns p = Inr pod) \<Longrightarrow> length (brokers_from K c ns i n) = n"
proof (induction n arbitrary: i)
  case (Suc n)
  obtain pod where "ckGetPod K ns (CrToSS c @ ''-'' @ itoa (int i)) = Inr pod" using Suc.prems by blast
  with Suc show ?case by simp
qed simp

lemma all_endpoints_length:
  "healthy E cr \<Longrightarrow> length (all_endpoints E cr) = nat (sint (stDeploymentPlanSize (bcStatus cr)))"
  by (simp add: all_endpoints_def GetBrokers_def GetBrokersFromDNS_def brokers_from_length healthyD(5))

definition session_ok :: "'w status_env \<Rightarrow> broker_cluster \<Rightarrow> 'w session \<Rightarrow> bool" where
  "session_ok E cr S \<longleftrightarrow>
     (\<forall>eps. snEndpoints S = Some eps \<longrightarrow> eps = all_endpoints E cr) \<and>
     (\<forall>x \<in> snd ` set (snCache S). \<exists>st. x = Inr st \<and> good_status E cr st)"

lemma session_ok_new: "session_ok E cr (new_session w)"
  by (simp add: session_ok_def new_session_def)

lemma resolve_ok:
  "session_ok E cr S \<Longrightarrow> session_ok E cr (resolveJolokiaEndpoints (teKube E) cr S) \<and>
     snEndpoints (resolveJolokiaEndpoints (teKube E) cr S) = Some (all_endpoints E cr) \<and>
     snWorld (resolveJolokiaEndpoints (teKube E) cr S) = snWorld S"
  by (auto simp: session_ok_def resolveJolokiaEndpoints_def all_endpoints_def split: option.split)

lemma get_status_ok:
  assumes "healthy E cr" "session_ok E cr S"
  shows "\<exists>st S'. GetAndCacheBrokerStatus (teBrokers E) jk S = (Inr st, S') \<and> good_status E cr st \<and>
    session_ok E cr S' \<and> snEndpoints S' = snEndpoints S \<and> snWorld S' = snWorld S"
proof (cases "map_of (snCache S) (jkOrdinal jk)")
  case (Some x)
  then have "x \<in> snd ` set (snCache S)" by (force dest: map_of_SomeD)
  with assms(2) obtain st where "x = Inr st" "good_status E cr st" by (auto simp: session_ok_def)
  with Some assms(2) show ?thesis by (simp add: GetAndCacheBrokerStatus_def)
next
  case None
  from healthyD(7) [OF assms(1), of "snWorld S" jk] None assms(2) show ?thesis
    by (auto simp: GetAndCacheBrokerStatus_def session_ok_def Let_def)
qed

lemma check_endpoints_ok:
  assumes "healthy E cr" "session_ok E cr S" "check_endpoints (teBrokers E) chk jks S = (e, S')"
  shows "session_ok E cr S' \<and> snEndpoints S' = snEndpoints S \<and> snWorld S' = snWorld S \<and>
    ((\<forall>st jk. good_status E cr st \<longrightarrow> chk st jk = None) \<longrightarrow> e = None)"
  using assms(2,3)
proof (induction jks arbitrary: S)
  case (Cons jk jks)
  from get_status_ok [OF assms(1) Cons.prems(1), of jk] obtain st S1 where
    g: "GetAndCacheBrokerStatus (teBrokers E) jk S = (Inr st, S1)" "good_status E cr st"
      "session_ok E cr S1" "snEndpoints S1 = snEndpoints S" "snWorld S1 = snWorld S" by blast
  show ?case
  proof (cases "chk st jk")
    case None
    with Cons.prems(2) g(1) have "check_endpoints (teBrokers E) chk jks S1 = (e, S')"
      by (simp add: CheckStatusFromJolokia_def)
    from Cons.IH [OF g(3) this] g(4,5) show ?thesis by simp
  next
    case (Some x)
    with Cons.prems(2) g show ?thesis by (auto simp: CheckStatusFromJolokia_def)
  qed
qed simp

lemma check_status_ok:
  assumes h: "healthy E cr" and S: "session_ok E cr S" and n: "sint (stDeploymentPlanSize (bcStatus cr)) > 0"
    and run: "CheckStatus (teKube E) (teBrokers E) cr chk S = (e, S')"
  shows "session_ok E cr S' \<and> snEndpoints S' = Some (all_endpoints E cr) \<and> snWorld S' = snWorld S \<and>
    ((\<forall>st jk. good_status E cr st \<longrightarrow> chk st jk = None) \<longrightarrow> e = None)"
proof -
  let ?S = "resolveJolokiaEndpoints (teKube E) cr S"
  from resolve_ok [OF S] have ok: "session_ok E cr ?S" "snEndpoints ?S = Some (all_endpoints E cr)"
    "snWorld ?S = snWorld S" by blast+
  then have "length (endpoints ?S) \<noteq> 0"
    using all_endpoints_length [OF h] n by (simp add: endpoints_def)
  with run have "check_endpoints (teBrokers E) chk (endpoints ?S) ?S = (e, S')"
    by (simp add: CheckStatus_def Let_def)
  from check_endpoints_ok [OF h ok(1) this] ok(2,3) show ?thesis by simp
qed

section \<open>The checks in a healthy cluster\<close>

lemma same_scale_healthy: "same_scale M cr cr' \<Longrightarrow> healthy E cr' \<longleftrightarrow> healthy E cr"
  by (rule healthy_cong) (simp_all add: same_scale_def)

lemma same_scale_session:
  assumes "same_scale M cr cr'"
  shows "session_ok E cr' S \<longleftrightarrow> session_ok E cr S" "all_endpoints E cr' = all_endpoints E cr"
proof -
  have n: "bcName cr' = bcName cr" "getPropertiesResourceNsName cr' = getPropertiesResourceNsName cr"
    using assms by (simp_all add: same_scale_def getPropertiesResourceNsName_def)
  have "projection_check (teOrder E) (teBrokers E) cr' P f st jk =
      projection_check (teOrder E) (teBrokers E) cr P f st jk" for P f st jk
    using n(1) by (simp add: projection_check_def)
  with n(2) have "good_status E cr' st = good_status E cr st" for st by (simp add: good_status_def)
  moreover show e: "all_endpoints E cr' = all_endpoints E cr"
    using assms by (simp add: all_endpoints_def same_scale_def)
  ultimately show "session_ok E cr' S \<longleftrightarrow> session_ok E cr S" by (simp add: session_ok_def)
qed

text \<open>What a change of the conditions keeps: the verdicts on the deployment and on the specification.\<close>

definition keeps :: "meta_api \<Rightarrow> condition list \<Rightarrow> condition list \<Rightarrow> bool" where
  "keeps M cs cs' \<longleftrightarrow> distinct_types cs' \<and>
     (\<forall>t \<in> {DeployedConditionType, ValidConditionType}. FindStatusCondition M cs' t = FindStatusCondition M cs t)"

lemma keeps_trans: "keeps M a b \<Longrightarrow> keeps M b c \<Longrightarrow> keeps M a c"
  by (simp add: keeps_def)

lemma keeps_set:
  "meta_ok M \<Longrightarrow> distinct_types cs \<Longrightarrow> cType c = ScaleDownPendingConditionType \<Longrightarrow> keeps M cs (SetStatusCondition M cs c)"
  by (simp add: keeps_def meta_find_set)

lemma process_checks_ok:
  assumes h: "healthy E cr" and S: "session_ok E cr S" and d: "distinct_types (bcConditions cr)"
    and n: "sint (stDeploymentPlanSize (bcStatus cr)) > 0"
    and run: "process_checks E cr S = (r, cr', S')"
  shows "session_ok E cr' S' \<and> snEndpoints S' = Some (all_endpoints E cr') \<and> snWorld S' = snWorld S \<and>
    IsStatusConditionTrue (teMeta E) (bcConditions cr') ConfigAppliedConditionType \<and>
    (\<exists>cs. cr' = set_conditions cs cr \<and> keeps (teMeta E) (bcConditions cr) cs) \<and> same_scale (teMeta E) cr cr'"
proof -
  let ?M = "teMeta E"
  note M = healthyD(1) [OF h]
  obtain e1 S1 where v: "AssertBrokerImageVersion (teVersions E) (teKube E) (teBrokers E) cr S = (e1, S1)"
    by fastforce
  let ?cr1 = "put_status_condition ?M
    (condition_or_error e1 BrokerVersionAlignedConditionType BrokerVersionAlignedConditionMatchReason) cr"
  have f1: "same_scale ?M cr ?cr1" by (simp add: put_other [OF M])
  from check_status_ok [OF h S n v [unfolded AssertBrokerImageVersion_def]] same_scale_session [OF f1]
  have S1: "session_ok E ?cr1 S1" "snWorld S1 = snWorld S" by blast+
  have h1: "healthy E ?cr1" using h same_scale_healthy [OF f1] by blast
  have n1: "sint (stDeploymentPlanSize (bcStatus ?cr1)) > 0" using n f1 by (simp add: same_scale_def)
  from healthyD(6) [OF h1] obtain P where P: "project E (getPropertiesResourceNsName ?cr1) = Inr P" by blast
  obtain e2 S2 where c: "CheckStatus (teKube E) (teBrokers E) ?cr1
      (projection_check (teOrder E) (teBrokers E) ?cr1 P bsConfig) S1 = (e2, S2)" by fastforce
  from check_status_ok [OF h1 S1(1) n1 c] P S1(2)
  have S2: "session_ok E ?cr1 S2" "snEndpoints S2 = Some (all_endpoints E ?cr1)" "e2 = None" "snWorld S2 = snWorld S"
    by (auto simp: good_status_def)
  have p: "AssertBrokerPropertiesStatus E ?cr1 S1 = (None, ?cr1, S2)"
    using P c S2(3) healthyD(3) [OF h1] by (simp add: AssertBrokerPropertiesStatus_def checkProjectionStatus_def)
  let ?cr3 = "put_status_condition ?M
    (condition_or_error None ConfigAppliedConditionType ConfigAppliedConditionSynchedReason) ?cr1"
  have f3: "same_scale ?M cr ?cr3" by (rule same_scale_trans [OF f1]) (simp add: put_other [OF M])
  then have "healthy E ?cr3" using h same_scale_healthy by blast
  from healthyD(3,4) [OF this] have "process_jaas E ?cr3 S2 = (False, ?cr3, S2)"
    by (simp add: process_jaas_def getConfigExtraMount_def)
  with run have cr': "cr' = ?cr3" "S' = S2" by (simp_all add: process_checks_def v p Let_def)
  have d1: "distinct_types (bcConditions ?cr1)" using d M by (simp add: put_status_condition_def)
  have "IsStatusConditionTrue ?M (bcConditions ?cr3) ConfigAppliedConditionType"
    using M d1 by (simp add: meta_true_find put_status_condition_def meta_find_set condition_or_error_def)
  moreover have "session_ok E ?cr3 S2" using S2(1) same_scale_session(1) [OF f1] same_scale_session(1) [OF f3] by blast
  moreover have "all_endpoints E ?cr3 = all_endpoints E ?cr1"
    by (simp only: same_scale_session(2) [OF f1, of E] same_scale_session(2) [OF f3, of E])
  moreover have "\<exists>cs. ?cr3 = set_conditions cs cr \<and> keeps ?M (bcConditions cr) cs"
    using M d by (auto simp: put_status_condition_def keeps_def meta_find_set)
  ultimately show ?thesis using S2(2,4) f3 unfolding cr' by simp
qed

section \<open>The transition in a healthy cluster\<close>

lemma message_ordinal:
  assumes "CHR '' '' \<notin> set (bcName cr)" "sint (k::int32) \<ge> 0"
  shows "OrdinalFromPodName (bcName cr) (ScaleDownConditionMessage cr k m) = Ok (sint k)"
proof -
  have "sint k < 2 ^ 63" using sint_lt [of k] by simp
  from ordinal_round_trip [OF assms this, of "if m = '''' then '''' else CHR '' '' # m"] show ?thesis
    by (cases "m = ''''") (simp_all add: ScaleDownConditionMessage_def Let_def)
qed

lemma message_same: "bcName cr' = bcName cr \<Longrightarrow> ScaleDownConditionMessage cr' k m = ScaleDownConditionMessage cr k m"
  by (simp add: ScaleDownConditionMessage_def)

lemma message_set [simp]:
  "ScaleDownConditionMessage (set_conditions cs cr) k m = ScaleDownConditionMessage cr k m"
  "ScaleDownConditionMessage (with_migration cr) k m = ScaleDownConditionMessage cr k m"
  by (rule message_same, simp)+

text \<open>
  The condition in a state of the scale down of pod \<open>k\<close>: its message names the pod, with a remark on what
  keeps it unless the pod is about to go.
\<close>

definition scale_at :: "meta_api \<Rightarrow> broker_cluster \<Rightarrow> string \<Rightarrow> int32 \<Rightarrow> bool" where
  "scale_at M cr reason k \<longleftrightarrow>
     (\<exists>c m. scaling M cr = Some c \<and> cReason c = reason \<and> cMessage c = ScaleDownConditionMessage cr k m \<and>
        (reason = PendingDelete \<longrightarrow> m = ''''))"

lemma scale_at_set:
  assumes "meta_ok M" "distinct_types (bcConditions cr)" "cType c = ScaleDownPendingConditionType"
    and "cReason c = reason" "cMessage c = ScaleDownConditionMessage cr k m" "reason = PendingDelete \<Longrightarrow> m = ''''"
  shows "scale_at M (set_conditions (SetStatusCondition M (bcConditions cr) c) cr) reason k \<and>
    keeps M (bcConditions cr) (SetStatusCondition M (bcConditions cr) c)"
proof -
  have "\<exists>c' m'. Some c = Some c' \<and> cReason c' = reason \<and> cMessage c' = ScaleDownConditionMessage cr k m' \<and>
      (reason = PendingDelete \<longrightarrow> m' = '''')"
    using assms(4-6) by (intro exI [of _ c] exI [of _ m]) blast
  with assms(1-3) show ?thesis by (simp add: scale_at_def meta_find_set keeps_set)
qed

lemma scale_at_same:
  "bcName cr' = bcName cr \<Longrightarrow> scaling M cr' = scaling M cr \<Longrightarrow> scale_at M cr' reason k \<longleftrightarrow> scale_at M cr reason k"
  using message_same [of cr' cr k] by (simp only: scale_at_def)

text \<open>The broker of a pod, and what the call to scale it down leads to.\<close>

definition pod_broker :: "'w status_env \<Rightarrow> broker_cluster \<Rightarrow> int32 \<Rightarrow> jk_info" where
  "pod_broker E cr k = all_endpoints E cr ! nat (sint k)"

lemma pod_broker_same:
  "bcName cr' = bcName cr \<Longrightarrow> bcNamespace cr' = bcNamespace cr \<Longrightarrow>
     stDeploymentPlanSize (bcStatus cr') = stDeploymentPlanSize (bcStatus cr) \<Longrightarrow>
     pod_broker E cr' k = pod_broker E cr k"
  by (simp add: pod_broker_def all_endpoints_def)

definition next_scale :: "'w status_env \<Rightarrow> jk_info \<Rightarrow> string \<Rightarrow> 'w \<Rightarrow> string \<times> 'w" where
  "next_scale E jk reason w =
     (if reason = PendingConfigApplied
      then (if fst (baScaleDown (teBrokers E) w jk) = None then PendingEmpty else PendingConfigApplied,
            snd (baScaleDown (teBrokers E) w jk))
      else (reason, w))"

lemma request_ok:
  assumes h: "healthy E cr" and S: "session_ok E cr S" and c: "cReason c = PendingConfigApplied"
    and jk: "endpoints S ! nat n = jk"
  shows "\<exists>c' S' m. request_scale_down (teBrokers E) cr n c S = (c', S') \<and> cType c' = cType c \<and>
    cReason c' = fst (next_scale E jk PendingConfigApplied (snWorld S)) \<and>
    snWorld S' = snd (next_scale E jk PendingConfigApplied (snWorld S)) \<and>
    cMessage c' = ScaleDownConditionMessage cr (word_of_int n) m"
proof -
  obtain st S1 where g: "GetAndCacheBrokerStatus (teBrokers E) jk S = (Inr st, S1)"
    "good_status E cr st" "snWorld S1 = snWorld S" using get_status_ok [OF h S] by blast
  obtain err w where call: "baScaleDown (teBrokers E) (snWorld S) jk = (err, w)" by fastforce
  have b: "bsConfig st (scaleDownOnSigTermPropsKey n) \<noteq> None" using g(2) by (simp add: good_status_def)
  show ?thesis
  proof (cases err)
    case None
    with g b call jk show ?thesis
      by (auto simp: request_scale_down_def Let_def next_scale_def ScaleDownConditionPodNameMessage_def)
  next
    case (Some e)
    with g b call jk c show ?thesis by (auto simp: request_scale_down_def Let_def next_scale_def)
  qed
qed

lemma transition_ok:
  assumes h: "healthy E cr" and S: "session_ok E cr S" "snEndpoints S = Some (all_endpoints E cr)"
    and d: "distinct_types (bcConditions cr)"
    and k: "sint k \<ge> 0" "sint k < sint (stDeploymentPlanSize (bcStatus cr))"
    and applied: "IsStatusConditionTrue (teMeta E) (bcConditions cr) ConfigAppliedConditionType"
    and st: "scale_at (teMeta E) cr reason k"
  defines "next \<equiv> next_scale E (pod_broker E cr k) reason (snWorld S)"
  shows "\<exists>cs S'. scale_down_transition (teMeta E) (teBrokers E) cr S = Some (set_conditions cs cr, S') \<and>
    scale_at (teMeta E) (set_conditions cs cr) (fst next) k \<and> keeps (teMeta E) (bcConditions cr) cs \<and>
    snWorld S' = snd next"
proof -
  let ?M = "teMeta E"
  note M = healthyD(1) [OF h]
  from st obtain c m where c: "scaling ?M cr = Some c" "cReason c = reason"
    "cMessage c = ScaleDownConditionMessage cr k m" "reason = PendingDelete \<longrightarrow> m = ''''"
    by (auto simp: scale_at_def)
  have t: "cType c = ScaleDownPendingConditionType" using c(1) M d by (simp add: meta_find_iff)
  show ?thesis
  proof (cases "reason = PendingConfigApplied")
    case False
    then have "scale_down_transition ?M (teBrokers E) cr S =
        Some (set_conditions (SetStatusCondition ?M (bcConditions cr) c) cr, S)"
      using c(1,2) by (auto simp: scale_down_transition_def Let_def)
    with False scale_at_set [OF M d t c(2,3)] c(4) show ?thesis by (auto simp: next_def next_scale_def)
  next
    case True
    have o: "ordinalFromScaleDownCondition cr c = Ok (sint k)"
      using message_ordinal [OF healthyD(2) [OF h] k(1)] c(3) by (simp add: ordinalFromScaleDownCondition_def)
    have "int (length (endpoints S)) > sint k"
      using k all_endpoints_length [OF h] S(2) by (simp add: endpoints_def)
    moreover have "endpoints S ! nat (sint k) = pod_broker E cr k"
      using S(2) by (simp add: endpoints_def pod_broker_def)
    from request_ok [OF h S(1) c(2) [unfolded True] this] obtain c' S' m' where
      r: "request_scale_down (teBrokers E) cr (sint k) c S = (c', S')" "cType c' = cType c"
      "cReason c' = fst next" "snWorld S' = snd next" "cMessage c' = ScaleDownConditionMessage cr k m'"
      by (auto simp: next_def True)
    ultimately have run: "scale_down_transition ?M (teBrokers E) cr S =
        Some (set_conditions (SetStatusCondition ?M (bcConditions cr) c') cr, S')"
      using c(1,2) applied k(1) True o by (simp add: scale_down_transition_def Let_def)
    have nd: "fst next \<noteq> PendingDelete" by (simp add: next_def next_scale_def True)
    from scale_at_set [OF M d _ r(3,5)] nd r(2) t run r(4) show ?thesis by auto
  qed
qed

text \<open>The status of a healthy cluster whose deployment is not refused moves the condition on.\<close>

definition deployed :: "meta_api \<Rightarrow> broker_cluster \<Rightarrow> bool" where
  "deployed M cr \<longleftrightarrow> (\<exists>c. FindStatusCondition M (bcConditions cr) DeployedConditionType = Some c \<and>
     cStatus c \<noteq> ConditionFalse)"

lemma status_ok:
  assumes h: "healthy E cr" and S: "session_ok E cr S" and d: "distinct_types (bcConditions cr)"
    and k: "sint k \<ge> 0" "sint k < sint (stDeploymentPlanSize (bcStatus cr))"
    and dep: "deployed (teMeta E) cr" and st: "scale_at (teMeta E) cr reason k"
  defines "next \<equiv> next_scale E (pod_broker E cr k) reason (snWorld S)"
  shows "\<exists>retry cs S'. ProcessBrokerClusterStatus E cr S = Some (retry, set_conditions cs cr, S') \<and>
    scale_at (teMeta E) (set_conditions cs cr) (fst next) k \<and> keeps (teMeta E) (bcConditions cr) cs \<and>
    snWorld S' = snd next"
proof -
  let ?M = "teMeta E"
  note M = healthyD(1) [OF h]
  obtain r cr1 S1 where c: "process_checks E cr S = (r, cr1, S1)" by (metis prod_cases3)
  from k have "sint (stDeploymentPlanSize (bcStatus cr)) > 0" by simp
  from process_checks_ok [OF h S d this c] obtain cs where
    ok: "session_ok E cr1 S1" "snEndpoints S1 = Some (all_endpoints E cr1)"
      "IsStatusConditionTrue ?M (bcConditions cr1) ConfigAppliedConditionType" "snWorld S1 = snWorld S"
      and cr1: "cr1 = set_conditions cs cr" "keeps ?M (bcConditions cr) cs" "same_scale ?M cr cr1" by blast
  have h1: "healthy E cr1" using h same_scale_healthy [OF cr1(3)] by blast
  have d1: "distinct_types (bcConditions cr1)" and st1: "scale_at ?M cr1 reason k"
    and k1: "sint k < sint (stDeploymentPlanSize (bcStatus cr1))"
    using cr1 d st k by (simp_all add: keeps_def same_scale_def scale_at_def)
  have jk: "pod_broker E cr1 k = pod_broker E cr k" by (rule pod_broker_same) (simp_all add: cr1(1))
  from transition_ok [OF h1 ok(1,2) d1 k(1) k1 ok(3) st1] obtain cs' S2 where
    t: "scale_down_transition ?M (teBrokers E) cr1 S1 = Some (set_conditions cs' cr, S2)"
    "scale_at ?M (set_conditions cs' cr) (fst next) k" "keeps ?M (bcConditions cr1) cs'" "snWorld S2 = snd next"
    by (auto simp: cr1(1) next_def ok(4) jk [unfolded cr1(1)])
  have "AssertBrokersAvailable ?M cr = None" using dep by (auto simp: AssertBrokersAvailable_def deployed_def)
  then have "ProcessBrokerClusterStatus E cr S = Some
      (IsStatusConditionTrue ?M (bcConditions cr) ScaleDownPendingConditionType \<or> r, set_conditions cs' cr, S2)"
    using c t(1) by (simp add: ProcessBrokerClusterStatus_def Let_def)
  moreover have "keeps ?M (bcConditions cr) cs'"
    using keeps_trans [OF cr1(2)] t(3) by (simp add: cr1(1))
  ultimately show ?thesis using t(2,4) by blast
qed

section \<open>The plan in a healthy cluster\<close>

lemma parse_zero: "ParseInt ''0'' = Inr 0"
  using atoi_itoa [of 0] by (simp add: ParseInt_def itoa_def nat_to_string.simps digit_chars)

text \<open>The endpoint of a pod below the size of the set is there to be asked.\<close>

lemma resolve_valid:
  assumes h: "healthy E cr" and S: "session_ok E cr S"
    and k: "sint k \<ge> 0" "sint k < sint (stDeploymentPlanSize (bcStatus cr))"
  shows "\<exists>S'. resolveAndValidateJolokia (teKube E) cr k S = (None, S') \<and> session_ok E cr S' \<and>
    endpoints S' ! nat (sint k) = pod_broker E cr k \<and> snWorld S' = snWorld S"
proof -
  let ?S = "resolveJolokiaEndpoints (teKube E) cr S"
  from resolve_ok [OF S] have ok: "session_ok E cr ?S" "snEndpoints ?S = Some (all_endpoints E cr)"
    "snWorld ?S = snWorld S" by blast+
  have "length (endpoints ?S) = nat (sint (stDeploymentPlanSize (bcStatus cr)))"
    using all_endpoints_length [OF h] ok(2) by (simp add: endpoints_def)
  with k have "resolveAndValidateJolokia (teKube E) cr k S = (None, ?S)"
    by (auto simp: resolveAndValidateJolokia_def Let_def)
  with ok show ?thesis by (auto simp: endpoints_def pod_broker_def)
qed

lemma count_answer:
  assumes h: "healthy E cr" and S: "session_ok E cr S"
    and k: "sint k \<ge> 0" "sint k < sint (stDeploymentPlanSize (bcStatus cr))"
    and answer: "baGetTotalMessageCount (teBrokers E) (snWorld S) (pod_broker E cr k) = Inr a" "ParseInt a = Inr v"
  shows "\<exists>S'. GetTotalMessageCount (teKube E) (teBrokers E) cr k S = (Inr v, S') \<and> session_ok E cr S' \<and>
    snWorld S' = snWorld S"
  using resolve_valid [OF h S k] answer by (auto simp: GetTotalMessageCount_def)

lemma shutdown_answer:
  assumes h: "healthy E cr" and S: "session_ok E cr S"
    and k: "sint k \<ge> 0" "sint k < sint (stDeploymentPlanSize (bcStatus cr))"
  shows "\<exists>err S'. shutdownWithScaledown (teKube E) (teBrokers E) cr k S = (err, S') \<and> session_ok E cr S' \<and>
    snWorld S' = snd (baScaleDown (teBrokers E) (snWorld S) (pod_broker E cr k))"
proof -
  obtain e w where "baScaleDown (teBrokers E) (snWorld S) (pod_broker E cr k) = (e, w)" by fastforce
  with resolve_valid [OF h S k] show ?thesis
    by (cases e) (auto simp: shutdownWithScaledown_def session_ok_def)
qed

text \<open>
  A scale down that has yet to drain its pod: none has begun, the last one is done, or the broker has not
  taken the call.
\<close>

definition waiting :: "meta_api \<Rightarrow> broker_cluster \<Rightarrow> int32 \<Rightarrow> bool" where
  "waiting M cr n \<longleftrightarrow>
     scaling M cr = None \<or> scale_at M cr PendingDelete n \<or> scale_at M cr PendingConfigApplied (OrdinalToDrain n)"

lemma scale_at_type:
  "meta_ok M \<Longrightarrow> distinct_types (bcConditions cr) \<Longrightarrow> scaling M cr = Some c \<Longrightarrow> cType c = ScaleDownPendingConditionType"
  by (simp add: meta_find_iff)

lemma managed_waiting:
  assumes M: "meta_ok M" and d: "distinct_types (bcConditions cr)" and sd: "scaling_down cr mig (Some n) req"
    and st: "waiting M cr n"
  shows "\<exists>cs. controllerManagedScaledownViaConditions M K B cr mig (Some n) req S = (cs, Some n, S) \<and>
    scale_at M (set_conditions cs cr) PendingConfigApplied (OrdinalToDrain n) \<and> keeps M (bcConditions cr) cs"
proof -
  have less: "sint (OrdinalToDrain n) \<noteq> sint n"
    using sd drain_less [of n] by (simp add: scaling_down_def)
  have set: "?thesis" if "cType c = ScaleDownPendingConditionType" "cReason c = PendingConfigApplied"
    "cMessage c = ScaleDownConditionMessage cr (OrdinalToDrain n) m"
    "controllerManagedScaledownViaConditions M K B cr mig (Some n) req S =
       (SetStatusCondition M (bcConditions cr) c, Some n, S)" for c m
    using scale_at_set [OF M d that(1-3)] that(4) by simp
  show ?thesis
  proof (cases "scaling M cr")
    case None
    show ?thesis
      by (rule set [of "mk_condition ScaleDownPendingConditionType ConditionTrue PendingConfigApplied
            (ScaleDownConditionPodNameMessage cr (OrdinalToDrain n))" "''''"])
        (use sd None in \<open>simp_all add: controllerManagedScaledownViaConditions_def Let_def
          ScaleDownConditionPodNameMessage_def\<close>)
  next
    case (Some c)
    note t = scale_at_type [OF M d Some]
    from st Some consider (gone) "cReason c = PendingDelete" "cMessage c = ScaleDownConditionPodNameMessage cr n" |
      (applying) m where "cReason c = PendingConfigApplied" "cMessage c = ScaleDownConditionMessage cr (OrdinalToDrain n) m"
      by (auto simp: waiting_def scale_at_def ScaleDownConditionPodNameMessage_def)
    then show ?thesis
    proof cases
      case gone
      have "ScaleDownConditionPodNameMessage cr n \<noteq> ScaleDownConditionPodNameMessage cr (OrdinalToDrain n)"
        using podname_inj [of cr n cr "OrdinalToDrain n"] less by auto
      then show ?thesis
        by (intro set [of "c\<lparr>cReason := PendingConfigApplied,
              cMessage := ScaleDownConditionPodNameMessage cr (OrdinalToDrain n)\<rparr>" "''''"])
          (use sd Some gone t in \<open>simp_all add: controllerManagedScaledownViaConditions_def Let_def pending_delete_def
            ScaleDownConditionPodNameMessage_def\<close>)
    next
      case applying
      show ?thesis
        by (rule set [OF t applying])
          (use sd Some applying in \<open>simp add: controllerManagedScaledownViaConditions_def Let_def\<close>)
    qed
  qed
qed

text \<open>The pod that is empty goes; one that is not is asked to scale down, and stays.\<close>

lemma managed_draining:
  assumes h: "healthy E cr" and S: "session_ok E cr S"
    and d: "distinct_types (bcConditions cr)" and sd: "scaling_down cr mig (Some n) req"
    and size: "stDeploymentPlanSize (bcStatus cr) = n"
    and st: "scale_at (teMeta E) cr PendingEmpty (OrdinalToDrain n)"
    and answer: "baGetTotalMessageCount (teBrokers E) (snWorld S) (pod_broker E cr (OrdinalToDrain n)) = Inr a"
      "ParseInt a = Inr v"
  shows "\<exists>cs S'. controllerManagedScaledownViaConditions (teMeta E) (teKube E) (teBrokers E) cr mig (Some n) req S =
      (cs, Some (if v = 0 then OrdinalToDrain n else n), S') \<and> session_ok E cr S' \<and>
    snWorld S' = (if v = 0 then snWorld S
      else snd (baScaleDown (teBrokers E) (snWorld S) (pod_broker E cr (OrdinalToDrain n)))) \<and>
    scale_at (teMeta E) (set_conditions cs cr) (if v = 0 then PendingDelete else PendingEmpty) (OrdinalToDrain n) \<and>
    keeps (teMeta E) (bcConditions cr) cs"
proof -
  let ?M = "teMeta E" and ?k = "OrdinalToDrain n"
  let ?managed = "controllerManagedScaledownViaConditions ?M (teKube E) (teBrokers E) cr mig (Some n) req S"
  note M = healthyD(1) [OF h]
  have k: "sint ?k \<ge> 0" "sint ?k < sint (stDeploymentPlanSize (bcStatus cr))"
    using sd drain_less [of n] size by (simp_all add: scaling_down_def)
  from count_answer [OF h S k answer] obtain S1 where
    count: "GetTotalMessageCount (teKube E) (teBrokers E) cr ?k S = (Inr v, S1)" "session_ok E cr S1" "snWorld S1 = snWorld S"
    by blast
  from st obtain c where c: "scaling ?M cr = Some c" "cReason c = PendingEmpty" by (auto simp: scale_at_def)
  note t = scale_at_type [OF M d c(1)]
  show ?thesis
  proof (cases "v = 0")
    case True
    let ?c = "c\<lparr>cReason := PendingDelete, cMessage := ScaleDownConditionPodNameMessage cr ?k\<rparr>"
    have "?managed = (SetStatusCondition ?M (bcConditions cr) ?c, Some ?k, S1)"
      using sd c count True by (simp add: controllerManagedScaledownViaConditions_def Let_def pending_empty_def)
    with scale_at_set [OF M d, of ?c PendingDelete ?k "''''"] t count True show ?thesis
      by (simp add: ScaleDownConditionPodNameMessage_def)
  next
    case False
    from shutdown_answer [OF h count(2) k] obtain err S2 where
      down: "shutdownWithScaledown (teKube E) (teBrokers E) cr ?k S1 = (err, S2)" "session_ok E cr S2"
        "snWorld S2 = snd (baScaleDown (teBrokers E) (snWorld S) (pod_broker E cr ?k))"
      using count(3) by auto
    obtain m where "?managed = (SetStatusCondition ?M (bcConditions cr)
        (c\<lparr>cMessage := ScaleDownConditionMessage cr ?k m\<rparr>), Some n, S2)"
      using sd c count(1) False down(1)
      by (cases err) (auto simp: controllerManagedScaledownViaConditions_def Let_def pending_empty_def)
    with scale_at_set [OF M d, of "c\<lparr>cMessage := ScaleDownConditionMessage cr ?k m\<rparr>" PendingEmpty ?k m] t c down(2,3) False
    show ?thesis by simp
  qed
qed

section \<open>One round\<close>

text \<open>A waiting cluster starts on its last pod; the round that finds the pod empty takes it off.\<close>

definition managed_cluster :: "broker_cluster \<Rightarrow> bool" where
  "managed_cluster cr \<longleftrightarrow> CrConfiguredForControllerManagedScaleDown cr \<and> isClustered cr \<and> migrates cr"

definition shrinking :: "'w status_env \<Rightarrow> broker_cluster \<Rightarrow> int32 \<Rightarrow> bool" where
  "shrinking E cr n \<longleftrightarrow>
     healthy E cr \<and> managed_cluster cr \<and> distinct_types (bcConditions cr) \<and> deployed (teMeta E) cr \<and>
     (\<forall>c. FindStatusCondition (teMeta E) (bcConditions cr) ValidConditionType = Some c \<longrightarrow> cStatus c \<noteq> ConditionFalse) \<and>
     sint (GetDeploymentSize cr) \<ge> 1 \<and> sint (GetDeploymentSize cr) \<le> sint n \<and>
     stDeploymentPlanSize (bcStatus cr) = n"

lemma with_migration_healthy: "healthy E cr \<Longrightarrow> healthy E (with_migration cr)"
  by (subst healthy_cong [of _ cr]) (simp_all add: with_migration_def)

lemma reconcile_step:
  assumes sh: "shrinking E cr n" and less: "sint (GetDeploymentSize cr) < sint n"
    and man: "controllerManagedScaledownViaConditions (teMeta E) (teKube E) (teBrokers E) (with_migration cr) True (Some n)
      (GetDeploymentSize cr) (new_session w) = (cs, Some r, S)"
    and S: "session_ok E (with_migration cr) S" and k: "keeps (teMeta E) (bcConditions cr) cs"
    and st: "scale_at (teMeta E) (set_conditions cs (with_migration cr)) reason (OrdinalToDrain n)"
  defines "next \<equiv> next_scale E (pod_broker E cr (OrdinalToDrain n)) reason (snWorld S)"
  shows "\<exists>cs'. reconcile_scale E cr n w = Some (set_conditions cs' (with_migration cr), Some r, snd next) \<and>
    scale_at (teMeta E) (set_conditions cs' (with_migration cr)) (fst next) (OrdinalToDrain n) \<and>
    keeps (teMeta E) (bcConditions cr) cs'"
proof -
  let ?M = "teMeta E" and ?cr1 = "set_conditions cs (with_migration cr)"
  have h: "healthy E cr" and trigger: "CrConfiguredForControllerManagedScaleDown cr" and mig: "migrates cr"
    and dep: "deployed ?M cr" and ps: "stDeploymentPlanSize (bcStatus cr) = n" and one: "sint (GetDeploymentSize cr) \<ge> 1"
    using sh by (simp_all add: shrinking_def managed_cluster_def)
  obtain acts where plan: "plan_scale E cr n w = (?cr1, Some r, acts, S)"
    using trigger mig man
    by (auto simp: plan_scale_def ProcessDeploymentPlan_def Let_def with_migration_def migrates_def [symmetric])
  have same: "healthy E ?cr1" using with_migration_healthy [OF h] by (subst healthy_cong [of _ "with_migration cr"]) simp_all
  have S1: "session_ok E ?cr1 S"
  proof -
    have "good_status E ?cr1 st = good_status E (with_migration cr) st" for st
      by (simp add: good_status_def projection_check_def getPropertiesResourceNsName_def)
    with S show ?thesis by (simp add: session_ok_def all_endpoints_def)
  qed
  have d1: "distinct_types (bcConditions ?cr1)" and dep1: "deployed ?M ?cr1"
    using k dep by (simp_all add: keeps_def deployed_def)
  have k1: "sint (OrdinalToDrain n) \<ge> 0" "sint (OrdinalToDrain n) < sint (stDeploymentPlanSize (bcStatus ?cr1))"
    using less one drain_less [of n] ps by simp_all
  have jk: "pod_broker E ?cr1 (OrdinalToDrain n) = pod_broker E cr (OrdinalToDrain n)"
    by (rule pod_broker_same) simp_all
  from status_ok [OF same S1 d1 k1 dep1 st] obtain retry cs' S' where
    s: "ProcessBrokerClusterStatus E ?cr1 S = Some (retry, set_conditions cs' ?cr1, S')"
      "scale_at ?M (set_conditions cs' ?cr1) (fst next) (OrdinalToDrain n)"
      "keeps ?M (bcConditions ?cr1) cs'" "snWorld S' = snd next" by (auto simp: next_def jk)
  have "reconcile_scale E cr n w = Some (set_conditions cs' ?cr1, Some r, snWorld S')"
    using plan s(1) by (simp add: reconcile_scale_def)
  moreover have "keeps ?M (bcConditions cr) cs'" using keeps_trans [OF k] s(3) by simp
  ultimately show ?thesis using s(2,4) by auto
qed

lemma scaling_down_of:
  assumes "shrinking E cr n" "sint (GetDeploymentSize cr) < sint n"
  shows "scaling_down (with_migration cr) True (Some n) (GetDeploymentSize cr)"
  using assms by (simp add: scaling_down_def shrinking_def managed_cluster_def)

abbreviation last_broker :: "'w status_env \<Rightarrow> broker_cluster \<Rightarrow> int32 \<Rightarrow> jk_info" where
  "last_broker E cr n \<equiv> pod_broker E cr (OrdinalToDrain n)"

lemma waiting_step:
  fixes w :: 'w
  assumes sh: "shrinking E cr n" and less: "sint (GetDeploymentSize cr) < sint n" and st: "waiting (teMeta E) cr n"
  defines "next \<equiv> next_scale E (last_broker E cr n) PendingConfigApplied w"
  shows "\<exists>cs. reconcile_scale E cr n w = Some (set_conditions cs (with_migration cr), Some n, snd next) \<and>
    scale_at (teMeta E) (set_conditions cs (with_migration cr)) (fst next) (OrdinalToDrain n) \<and>
    keeps (teMeta E) (bcConditions cr) cs"
proof -
  let ?cr = "with_migration cr" and ?M = "teMeta E"
  have M: "meta_ok ?M" and d: "distinct_types (bcConditions ?cr)"
    using sh healthyD(1) by (auto simp: shrinking_def)
  have "waiting ?M ?cr n" using st by (simp add: waiting_def scale_at_def)
  from managed_waiting [OF M d scaling_down_of [OF sh less] this] obtain cs where
    man: "controllerManagedScaledownViaConditions ?M (teKube E) (teBrokers E) ?cr True (Some n) (GetDeploymentSize cr)
        (new_session w) = (cs, Some n, new_session w)"
    and at: "scale_at ?M (set_conditions cs ?cr) PendingConfigApplied (OrdinalToDrain n)"
    and k: "keeps ?M (bcConditions ?cr) cs" by blast
  from reconcile_step [OF sh less man session_ok_new _ at] k show ?thesis
    by (simp add: next_def new_session_def)
qed

lemma draining_step:
  assumes sh: "shrinking E cr n" and less: "sint (GetDeploymentSize cr) < sint n"
    and st: "scale_at (teMeta E) cr PendingEmpty (OrdinalToDrain n)"
    and answer: "baGetTotalMessageCount (teBrokers E) w (last_broker E cr n) = Inr a" "ParseInt a = Inr v"
  shows "\<exists>cs. reconcile_scale E cr n w = Some (set_conditions cs (with_migration cr),
      Some (if v = 0 then OrdinalToDrain n else n),
      if v = 0 then w else snd (baScaleDown (teBrokers E) w (last_broker E cr n))) \<and>
    scale_at (teMeta E) (set_conditions cs (with_migration cr)) (if v = 0 then PendingDelete else PendingEmpty)
      (OrdinalToDrain n) \<and>
    keeps (teMeta E) (bcConditions cr) cs"
proof -
  let ?cr = "with_migration cr" and ?M = "teMeta E"
  have h: "healthy E ?cr" and d: "distinct_types (bcConditions ?cr)" and ps: "stDeploymentPlanSize (bcStatus ?cr) = n"
    using sh with_migration_healthy by (auto simp: shrinking_def)
  have jk: "last_broker E ?cr n = last_broker E cr n" by (rule pod_broker_same) simp_all
  have at: "scale_at ?M ?cr PendingEmpty (OrdinalToDrain n)" using st by (simp add: scale_at_def)
  have "baGetTotalMessageCount (teBrokers E) (snWorld (new_session w)) (last_broker E ?cr n) = Inr a"
    using answer(1) by (simp add: jk new_session_def)
  from managed_draining [OF h session_ok_new d scaling_down_of [OF sh less] ps at this answer(2)] obtain cs S' where
    man: "controllerManagedScaledownViaConditions ?M (teKube E) (teBrokers E) ?cr True (Some n) (GetDeploymentSize cr)
        (new_session w) = (cs, Some (if v = 0 then OrdinalToDrain n else n), S')" and S': "session_ok E ?cr S'"
    and w: "snWorld S' = (if v = 0 then w else snd (baScaleDown (teBrokers E) w (last_broker E cr n)))"
    and at': "scale_at ?M (set_conditions cs ?cr) (if v = 0 then PendingDelete else PendingEmpty) (OrdinalToDrain n)"
    and k: "keeps ?M (bcConditions ?cr) cs" by (auto simp: jk new_session_def)
  have "next_scale E (last_broker E cr n) (if v = 0 then PendingDelete else PendingEmpty) (snWorld S') =
      (if v = 0 then PendingDelete else PendingEmpty, snWorld S')"
    by (simp add: next_scale_def)
  with reconcile_step [OF sh less man S' _ at'] k w show ?thesis by simp
qed

section \<open>Rounds\<close>

text \<open>The pods follow the set: as many exist and are ready as it asks for.\<close>

definition settled :: "int32 \<Rightarrow> 'w status_env \<Rightarrow> 'w status_env" where
  "settled r E = E\<lparr>teKube := (teKube E)\<lparr>ckGetStatefulSet := (\<lambda>ns name. Inr
     \<lparr>stsName = name, stsSpecReplicas = Some r, stsStatusReplicas = r, stsReadyReplicas = r\<rparr>)\<rparr>\<rparr>"

text \<open>
  A round: the plan and the status of the brokers, then the status of the pods, of which the server keeps
  the status; \<open>tick\<close> is what the brokers do until the next round.
\<close>

definition scale_round ::
  "'w status_env \<Rightarrow> ('w \<Rightarrow> 'w) \<Rightarrow> env \<Rightarrow> string \<Rightarrow> broker_cluster \<times> int32 \<times> 'w \<Rightarrow> (broker_cluster \<times> int32 \<times> 'w) option" where
  "scale_round E tick os goarch = (\<lambda>(cr, n, w).
     case reconcile_scale E cr n w of
       Some (cr', Some r, w') \<Rightarrow>
         Some (stored_status cr (fst (ProcessStatus (settled r E) os goarch no_pods cr' None)), r, tick w')
     | _ \<Rightarrow> None)"

fun scale_rounds ::
  "'w status_env \<Rightarrow> ('w \<Rightarrow> 'w) \<Rightarrow> env \<Rightarrow> string \<Rightarrow> nat \<Rightarrow> broker_cluster \<times> int32 \<times> 'w \<Rightarrow>
     (broker_cluster \<times> int32 \<times> 'w) option" where
  "scale_rounds E tick os goarch 0 s = Some s"
| "scale_rounds E tick os goarch (Suc k) s =
     Option.bind (scale_round E tick os goarch s) (scale_rounds E tick os goarch k)"

lemma settled_meta [simp]: "teMeta (settled r E) = teMeta E"
  by (simp add: settled_def)

lemma all_ready: "filter (\<lambda>j. int j < sint r) [0..<nat (sint r)] = [0..<nat (sint (r :: int32))]"
  by (rule filter_True) auto

lemma ready_of_settled:
  "GetSingleStatefulSetStatus \<lparr>stsName = nm, stsSpecReplicas = Some r, stsStatusReplicas = r, stsReadyReplicas = r\<rparr> = (q, ps) \<Longrightarrow>
     sint r \<ge> 1 \<Longrightarrow> q = r \<and> length (psReady ps) = nat (sint r)"
  using all_ready [of r]
  by (auto simp: GetSingleStatefulSetStatus_def requested_count_def classify_eq no_pods_def Let_def)

text \<open>The status of the pods keeps the scale down, takes the size of the set and ends deployed.\<close>

lemma get_valid: "meta_ok M \<Longrightarrow> getValidCondition cr = (case FindStatusCondition M (bcConditions cr) ValidConditionType of
    Some c \<Rightarrow> c | None \<Rightarrow> mk_condition ValidConditionType ConditionTrue ValidConditionSuccessReason '''')"
  by (simp add: getValidCondition_def meta_find_eq)

lemma process_status_settled:
  assumes M: "meta_ok (teMeta E)" and d: "distinct_types (bcConditions cr)"
    and valid: "\<forall>c. FindStatusCondition (teMeta E) (bcConditions cr) ValidConditionType = Some c \<longrightarrow> cStatus c \<noteq> ConditionFalse"
    and r: "sint r \<ge> 1" "sint (GetDeploymentSize cr) \<ge> 1" "sint (GetDeploymentSize cr) \<le> sint r"
    and run: "cr' = fst (ProcessStatus (settled r E) os goarch old cr None)"
  shows "bcName cr' = bcName cr \<and> bcNamespace cr' = bcNamespace cr \<and> bcPlan cr' = bcPlan cr \<and>
    bcBrokerProperties cr' = bcBrokerProperties cr \<and> stDeploymentPlanSize (bcStatus cr') = r \<and>
    distinct_types (bcConditions cr') \<and> scaling (teMeta E) cr' = scaling (teMeta E) cr \<and> deployed (teMeta E) cr' \<and>
    (\<forall>c. FindStatusCondition (teMeta E) (bcConditions cr') ValidConditionType = Some c \<longrightarrow> cStatus c \<noteq> ConditionFalse)"
proof -
  let ?M = "teMeta E" and ?E = "settled r E"
  obtain q ps where g: "GetSingleStatefulSetStatus \<lparr>stsName = CrToSS (bcName cr), stsSpecReplicas = Some r,
      stsStatusReplicas = r, stsReadyReplicas = r\<rparr> = (q, ps)" by fastforce
  from ready_of_settled [OF this r(1)] have q: "q = r" and len: "length (psReady ps) = nat (sint r)" by simp_all
  define cr2 where "cr2 = cr\<lparr>bcStatus := (bcStatus cr)
    \<lparr>stVersion := updateVersionStatus (teVersions ?E) os goarch (image_spec_of cr),
     stScaleLabelSelector := updateScaleStatus (teOrder ?E) cr, stDeploymentPlanSize := r, stPodStatus := ps\<rparr>\<rparr>"
  define v where "v = getValidCondition cr2"
  define cr3 where "cr3 = SetStatusConditionWithGeneration ?M v cr2"
  define dc where "dc = getDeploymentCondition (teKube ?E) cr3 (cStatus v \<noteq> ConditionFalse) None"
  have cr': "cr' = put_status_condition ?M dc cr3"
    using run g q by (simp add: ProcessStatus_def updatePodStatus_def Let_def settled_def cr2_def v_def cr3_def dc_def)
  have v: "cType v = ValidConditionType" "cStatus v \<noteq> ConditionFalse"
    using valid M d by (auto simp: v_def get_valid [OF M] cr2_def meta_find_iff split: option.splits)
  have c3: "bcConditions cr3 = SetStatusCondition ?M (bcConditions cr) (v\<lparr>cObservedGeneration := bcGeneration cr\<rparr>)"
    "stPodStatus (bcStatus cr3) = ps" "stDeploymentPlanSize (bcStatus cr3) = r" "bcPlan cr3 = bcPlan cr"
    "bcName cr3 = bcName cr" "bcNamespace cr3 = bcNamespace cr" "bcBrokerProperties cr3 = bcBrokerProperties cr"
    by (simp_all add: cr3_def SetStatusConditionWithGeneration_def put_status_condition_def cr2_def)
  have "GetDeploymentSize cr3 = GetDeploymentSize cr" "GetDeploymentSize cr \<noteq> 0"
    using c3(4) r(2) by (auto simp: GetDeploymentSize_def)
  with v(2) len r(3) c3(2) have dc: "cType dc = DeployedConditionType" "cStatus dc = ConditionTrue"
    by (simp_all add: dc_def getDeploymentCondition_def Let_def)
  have d3: "distinct_types (bcConditions cr3)" using M d c3(1) by simp
  show ?thesis
    unfolding cr' using M d d3 c3 dc v
    by (simp add: put_status_condition_def meta_find_set deployed_def)
qed

lemma round_step:
  assumes sh: "shrinking E cr n" and r: "sint r \<ge> sint (GetDeploymentSize cr)"
    and run: "reconcile_scale E cr n w = Some (set_conditions cs (with_migration cr), Some r, w')"
    and st: "scale_at (teMeta E) (set_conditions cs (with_migration cr)) reason k"
    and k: "keeps (teMeta E) (bcConditions cr) cs"
  shows "\<exists>cr'. scale_round E tick os goarch (cr, n, w) = Some (cr', r, tick w') \<and> shrinking E cr' r \<and>
    GetDeploymentSize cr' = GetDeploymentSize cr \<and> bcName cr' = bcName cr \<and> bcNamespace cr' = bcNamespace cr \<and>
    scale_at (teMeta E) cr' reason k"
proof -
  let ?M = "teMeta E" and ?cr1 = "set_conditions cs (with_migration cr)"
  define cr2 where "cr2 = fst (ProcessStatus (settled r E) os goarch no_pods ?cr1 None)"
  define cr' where "cr' = stored_status cr cr2"
  have h: "healthy E cr" and size: "sint (GetDeploymentSize cr) \<ge> 1"
    and valid: "\<forall>c. FindStatusCondition ?M (bcConditions cr) ValidConditionType = Some c \<longrightarrow> cStatus c \<noteq> ConditionFalse"
    using sh by (simp_all add: shrinking_def)
  have gs: "GetDeploymentSize ?cr1 = GetDeploymentSize cr" by (simp add: GetDeploymentSize_def with_migration_def)
  have v: "\<forall>c. FindStatusCondition ?M (bcConditions ?cr1) ValidConditionType = Some c \<longrightarrow> cStatus c \<noteq> ConditionFalse"
    "distinct_types (bcConditions ?cr1)" using valid k by (simp_all add: keeps_def)
  have r': "sint r \<ge> 1" "sint (GetDeploymentSize ?cr1) \<ge> 1" "sint (GetDeploymentSize ?cr1) \<le> sint r"
    using r size gs by simp_all
  note p = process_status_settled [OF healthyD(1) [OF h] v(2,1) r' cr2_def]
  have spec: "bcName cr' = bcName cr" "bcNamespace cr' = bcNamespace cr" "bcPlan cr' = bcPlan cr"
    "bcBrokerProperties cr' = bcBrokerProperties cr" "GetDeploymentSize cr' = GetDeploymentSize cr"
    by (simp_all add: cr'_def GetDeploymentSize_def)
  have "healthy E cr'" using h by (subst healthy_cong [of _ cr]) (simp_all add: spec)
  moreover have "managed_cluster cr'"
    using sh spec by (simp add: shrinking_def managed_cluster_def CrConfiguredForControllerManagedScaleDown_def
        isClustered_def migrates_def)
  ultimately have "shrinking E cr' r" using p spec size r by (simp add: shrinking_def cr'_def deployed_def)
  moreover have "scale_at ?M cr' reason k"
    using st p by (subst scale_at_same [where cr = ?cr1]) (simp_all add: cr'_def)
  moreover have "scale_round E tick os goarch (cr, n, w) = Some (cr', r, tick w')"
    using run by (simp add: scale_round_def cr'_def cr2_def)
  ultimately show ?thesis using spec by blast
qed

text \<open>The broker of the last pod is the same in every round that keeps the size of the set.\<close>

lemma last_broker_round:
  assumes "shrinking E cr n" "shrinking E cr' n" "bcName cr' = bcName cr" "bcNamespace cr' = bcNamespace cr"
  shows "last_broker E cr' n = last_broker E cr n"
  using assms by (intro pod_broker_same) (simp_all add: shrinking_def)

lemma rounds_add:
  "scale_rounds E tick os goarch (a + b) s =
     Option.bind (scale_rounds E tick os goarch a s) (scale_rounds E tick os goarch b)"
proof (induction a arbitrary: s)
  case (Suc a)
  show ?case by (cases "scale_round E tick os goarch s") (simp_all add: Suc.IH)
qed simp

lemma rounds_one: "scale_rounds E tick os goarch 1 s = scale_round E tick os goarch s"
  by (cases "scale_round E tick os goarch s") simp_all

lemma rounds_trans:
  "scale_rounds E tick os goarch a s = Some s' \<Longrightarrow> scale_rounds E tick os goarch b s' = Some s'' \<Longrightarrow>
     scale_rounds E tick os goarch (a + b) s = Some s''"
  by (simp add: rounds_add)

text \<open>A run that keeps the resource, with the scale down of its last pod in some state at the end.\<close>

definition reaches ::
  "'w status_env \<Rightarrow> ('w \<Rightarrow> 'w) \<Rightarrow> env \<Rightarrow> string \<Rightarrow> broker_cluster \<Rightarrow> int32 \<Rightarrow> 'w \<Rightarrow> int32 \<Rightarrow>
     (broker_cluster \<Rightarrow> bool) \<Rightarrow> bool" where
  "reaches E tick os goarch cr n w r P \<longleftrightarrow>
     (\<exists>rounds cr' w'. scale_rounds E tick os goarch rounds (cr, n, w) = Some (cr', r, w') \<and> shrinking E cr' r \<and>
        GetDeploymentSize cr' = GetDeploymentSize cr \<and> P cr')"

lemma reaches_round:
  assumes "scale_round E tick os goarch (cr, n, w) = Some (cr1, n, w1)" "GetDeploymentSize cr1 = GetDeploymentSize cr"
    and "reaches E tick os goarch cr1 n w1 r P"
  shows "reaches E tick os goarch cr n w r P"
proof -
  from assms(3) obtain k cr' w' where "scale_rounds E tick os goarch k (cr1, n, w1) = Some (cr', r, w')"
    "shrinking E cr' r" "GetDeploymentSize cr' = GetDeploymentSize cr1" "P cr'" by (auto simp: reaches_def)
  with assms(1,2) have "scale_rounds E tick os goarch (Suc k) (cr, n, w) = Some (cr', r, w') \<and> shrinking E cr' r \<and>
    GetDeploymentSize cr' = GetDeploymentSize cr \<and> P cr'" by simp
  then show ?thesis unfolding reaches_def by blast
qed

lemma reaches_now:
  "scale_round E tick os goarch (cr, n, w) = Some (cr1, r, w1) \<Longrightarrow> shrinking E cr1 r \<Longrightarrow>
     GetDeploymentSize cr1 = GetDeploymentSize cr \<Longrightarrow> P cr1 \<Longrightarrow> reaches E tick os goarch cr n w r P"
  unfolding reaches_def by (metis rounds_one)

text \<open>Draining: as long as messages are counted the broker is asked again, which lowers its rank.\<close>

lemma draining_ends:
  assumes "drains (teBrokers E) tick rank" "shrinking E cr n" "sint (GetDeploymentSize cr) < sint n"
    and "scale_at (teMeta E) cr PendingEmpty (OrdinalToDrain n)"
  shows "reaches E tick os goarch cr n w (OrdinalToDrain n)
    (\<lambda>cr'. scale_at (teMeta E) cr' PendingDelete (OrdinalToDrain n))"
  using assms
proof (induction "rank w (last_broker E cr n)" arbitrary: cr w rule: less_induct)
  case less
  note D = drainsD [OF less.prems(1), where jk = "last_broker E cr n"]
  obtain a v where answer: "baGetTotalMessageCount (teBrokers E) w (last_broker E cr n) = Inr a" "ParseInt a = Inr v"
    "rank w (last_broker E cr n) = 0 \<longrightarrow> v = 0" using D(1) by blast
  from draining_step [OF less.prems(2-4) answer(1,2)] obtain cs where
    step: "reconcile_scale E cr n w = Some (set_conditions cs (with_migration cr), Some (if v = 0 then OrdinalToDrain n else n),
        if v = 0 then w else snd (baScaleDown (teBrokers E) w (last_broker E cr n)))"
      "scale_at (teMeta E) (set_conditions cs (with_migration cr)) (if v = 0 then PendingDelete else PendingEmpty) (OrdinalToDrain n)"
      "keeps (teMeta E) (bcConditions cr) cs" by blast
  have "sint (GetDeploymentSize cr) \<ge> 1" using less.prems(2) by (simp add: shrinking_def)
  with less.prems(3) have "sint (if v = 0 then OrdinalToDrain n else n) \<ge> sint (GetDeploymentSize cr)"
    using drain_less [of n] by simp
  from round_step [OF less.prems(2) this step] obtain cr1 where
    round: "scale_round E tick os goarch (cr, n, w) = Some (cr1, if v = 0 then OrdinalToDrain n else n,
        tick (if v = 0 then w else snd (baScaleDown (teBrokers E) w (last_broker E cr n))))"
      "shrinking E cr1 (if v = 0 then OrdinalToDrain n else n)" "GetDeploymentSize cr1 = GetDeploymentSize cr"
      "bcName cr1 = bcName cr" "bcNamespace cr1 = bcNamespace cr"
      "scale_at (teMeta E) cr1 (if v = 0 then PendingDelete else PendingEmpty) (OrdinalToDrain n)" by blast
  show ?case
  proof (cases "v = 0")
    case True
    with round show ?thesis by (intro reaches_now) simp_all
  next
    case False
    let ?w1 = "tick (snd (baScaleDown (teBrokers E) w (last_broker E cr n)))"
    from False answer(3) have "rank w (last_broker E cr n) > 0" by simp
    from D(5) [OF this] D(2) have low: "rank ?w1 (last_broker E cr n) < rank w (last_broker E cr n)"
      by (rule le_less_trans [rotated])
    have sh1: "shrinking E cr1 n" using round(2) False by simp
    have jk: "last_broker E cr1 n = last_broker E cr n" by (rule last_broker_round [OF less.prems(2) sh1 round(4,5)])
    have "reaches E tick os goarch cr1 n ?w1 (OrdinalToDrain n)
        (\<lambda>cr'. scale_at (teMeta E) cr' PendingDelete (OrdinalToDrain n))"
      using less.hyps [of ?w1 cr1] low jk less.prems(1,3) sh1 round(3,6) False by simp
    then show ?thesis by (rule reaches_round [rotated 2]) (use round False in simp_all)
  qed
qed

text \<open>Starting: a call that fails is made again, and lowers the rank.\<close>

lemma starting_ends:
  assumes "drains (teBrokers E) tick rank" "shrinking E cr n" "sint (GetDeploymentSize cr) < sint n"
    and "waiting (teMeta E) cr n"
  shows "reaches E tick os goarch cr n w (OrdinalToDrain n)
    (\<lambda>cr'. scale_at (teMeta E) cr' PendingDelete (OrdinalToDrain n))"
  using assms
proof (induction "rank w (last_broker E cr n)" arbitrary: cr w rule: less_induct)
  case less
  let ?call = "baScaleDown (teBrokers E) w (last_broker E cr n)"
  note D = drainsD [OF less.prems(1), where jk = "last_broker E cr n"]
  from waiting_step [OF less.prems(2-4), of w] obtain cs where
    step: "reconcile_scale E cr n w = Some (set_conditions cs (with_migration cr), Some n, snd ?call)"
      "scale_at (teMeta E) (set_conditions cs (with_migration cr))
         (if fst ?call = None then PendingEmpty else PendingConfigApplied) (OrdinalToDrain n)"
      "keeps (teMeta E) (bcConditions cr) cs" by (auto simp: next_scale_def)
  from round_step [OF less.prems(2) less_imp_le [OF less.prems(3)] step] obtain cr1 where
    round: "scale_round E tick os goarch (cr, n, w) = Some (cr1, n, tick (snd ?call))"
      "shrinking E cr1 n" "GetDeploymentSize cr1 = GetDeploymentSize cr"
      "bcName cr1 = bcName cr" "bcNamespace cr1 = bcNamespace cr"
      "scale_at (teMeta E) cr1 (if fst ?call = None then PendingEmpty else PendingConfigApplied) (OrdinalToDrain n)" by blast
  have less1: "sint (GetDeploymentSize cr1) < sint n" using less.prems(3) round(3) by simp
  have "reaches E tick os goarch cr1 n (tick (snd ?call)) (OrdinalToDrain n)
      (\<lambda>cr'. scale_at (teMeta E) cr' PendingDelete (OrdinalToDrain n))"
  proof (cases "fst ?call")
    case None
    with round(6) draining_ends [OF less.prems(1) round(2) less1] show ?thesis by simp
  next
    case (Some e)
    then have "rank w (last_broker E cr n) > 0" using D(3) by (metis gr0I option.distinct(1))
    from D(5) [OF this] D(2) have low: "rank (tick (snd ?call)) (last_broker E cr n) < rank w (last_broker E cr n)"
      by (rule le_less_trans [rotated])
    have "waiting (teMeta E) cr1 n" using round(6) Some by (simp add: waiting_def)
    with low less.hyps [of "tick (snd ?call)" cr1] last_broker_round [OF less.prems(2) round(2,4,5)]
      less.prems(1) round(2) less1 show ?thesis by simp
  qed
  then show ?case by (rule reaches_round [rotated 2]) (use round in simp_all)
qed

lemma rounds_complete:
  assumes "drains (teBrokers E) tick rank" "shrinking E cr n" "waiting (teMeta E) cr n"
    and "sint n - sint (GetDeploymentSize cr) = int d"
  shows "reaches E tick os goarch cr n w (GetDeploymentSize cr) (\<lambda>cr'. True)"
  using assms
proof (induction d arbitrary: cr n w)
  case 0
  then have "sint n = sint (GetDeploymentSize cr)" by simp
  then have "n = GetDeploymentSize cr" by (simp only: signed_word_eqI)
  with 0 have "scale_rounds E tick os goarch 0 (cr, n, w) = Some (cr, GetDeploymentSize cr, w) \<and>
    shrinking E cr (GetDeploymentSize cr)" by simp
  then show ?case unfolding reaches_def by blast
next
  case (Suc d)
  have less: "sint (GetDeploymentSize cr) < sint n" using Suc.prems(4) by simp
  have one: "sint (GetDeploymentSize cr) \<ge> 1" using Suc.prems(2) by (simp add: shrinking_def)
  from starting_ends [OF Suc.prems(1,2) less Suc.prems(3)] obtain k cr1 w1 where
    a: "scale_rounds E tick os goarch k (cr, n, w) = Some (cr1, OrdinalToDrain n, w1)" "shrinking E cr1 (OrdinalToDrain n)"
      "GetDeploymentSize cr1 = GetDeploymentSize cr" "scale_at (teMeta E) cr1 PendingDelete (OrdinalToDrain n)"
    unfolding reaches_def by blast
  have "waiting (teMeta E) cr1 (OrdinalToDrain n)" using a(4) by (simp add: waiting_def)
  moreover have "sint (OrdinalToDrain n) - sint (GetDeploymentSize cr1) = int d"
    using Suc.prems(4) drain_less [of n] less one a(3) by simp
  ultimately have "reaches E tick os goarch cr1 (OrdinalToDrain n) w1 (GetDeploymentSize cr1) (\<lambda>cr'. True)"
    by (rule Suc.IH [OF Suc.prems(1) a(2)])
  then show ?case unfolding reaches_def using rounds_trans [OF a(1)] a(3) by metis
qed

end
