(* ===== verification/Cluster_Validation.thy ===== *)
theory Cluster_Validation
  imports Cluster_Status
begin

text \<open>
  The validation of a \<open>BrokerCluster\<close> (\<open>brokercluster_reconciler.go\<close>): the chain of checks in its order,
  each with the condition it fails with and whether to retry, and the condition \<open>Valid\<close> they end in.
\<close>

definition valid_failure :: "string \<Rightarrow> string \<Rightarrow> condition" where
  "valid_failure reason message = mk_condition ValidConditionType ConditionFalse reason message"

lemma valid_failure_sel [simp]:
  "cStatus (valid_failure r m) = ConditionFalse" "cType (valid_failure r m) = ValidConditionType"
  "cReason (valid_failure r m) = r" "cMessage (valid_failure r m) = m"
  by (simp_all add: valid_failure_def)

definition go_quote :: "string \<Rightarrow> string" where
  "go_quote s = CHR 0x22 # concat (map quote_char s) @ [CHR 0x22]"

section \<open>Checks of the specification\<close>

definition validateNoDupKeysInBrokerProperties :: "broker_cluster \<Rightarrow> condition option" where
  "validateNoDupKeysInBrokerProperties cr =
     (if length (bcBrokerProperties cr) > 0
      then (let duplicateKey = DuplicateKeyIn (bcBrokerProperties cr)
            in if duplicateKey \<noteq> ''''
               then Some (valid_failure ValidConditionFailedDuplicateBrokerPropertiesKey
                      (''.Spec.BrokerProperties has a duplicate key for '' @ duplicateKey))
               else None)
      else None)"

abbreviation "LabelAppKey \<equiv> ''application''"
abbreviation "LabelResourceKey \<equiv> ''ActiveMQArtemis''"

definition is_reserved_label :: "string \<Rightarrow> bool" where
  "is_reserved_label key \<longleftrightarrow> key = LabelAppKey \<or> key = LabelResourceKey"

fun reserved_in_templates :: "range_order \<Rightarrow> nat \<Rightarrow> labels list \<Rightarrow> condition option" where
  "reserved_in_templates ord index [] = None"
| "reserved_in_templates ord index (ls # templates) =
     (case List.find is_reserved_label (ord (map fst ls)) of
        Some key \<Rightarrow> Some (valid_failure ValidConditionFailedReservedLabelReason
          (CHR 0x27 # key @ [CHR 0x27] @ '' is a reserved label, it is not allowed in Spec.DeploymentPlan.Templates['' @
           itoa (int index) @ ''].Labels''))
      | None \<Rightarrow> reserved_in_templates ord (Suc index) templates)"

definition validateReservedLabels :: "range_order \<Rightarrow> broker_cluster \<Rightarrow> condition option" where
  "validateReservedLabels ord cr =
     (case List.find is_reserved_label (ord (map fst (dpLabels (bcPlan cr)))) of
        Some key \<Rightarrow> Some (valid_failure ValidConditionFailedReservedLabelReason
          (CHR 0x27 # key @ [CHR 0x27] @ '' is a reserved label, it is not allowed in Spec.DeploymentPlan.Labels''))
      | None \<Rightarrow> reserved_in_templates ord 0 (bcTemplateLabels cr))"

text \<open>The map from a port to the name of the acceptor that has it.\<close>

fun acceptor_ports :: "(int32 \<Rightarrow> string option) \<Rightarrow> acceptor list \<Rightarrow> condition option" where
  "acceptor_ports portMap [] = None"
| "acceptor_ports portMap (a # acceptors) =
     (if sint (accPort a) > 0
      then (case portMap (accPort a) of
              Some existingName \<Rightarrow> Some (valid_failure ValidConditionFailedDuplicateAcceptorPort
                (''.Spec.Acceptors '' @ go_quote (accName a) @ '' and '' @ go_quote existingName @
                 '' contain a duplicate port '' @ itoa (sint (accPort a))))
            | None \<Rightarrow> acceptor_ports (portMap(accPort a := Some (accName a))) acceptors)
      else acceptor_ports portMap acceptors)"

definition validateAcceptorPorts :: "broker_cluster \<Rightarrow> condition option" where
  "validateAcceptorPorts cr = acceptor_ports (\<lambda>p. None) (bcAcceptors cr)"

definition by_route :: "bool \<Rightarrow> string option \<Rightarrow> bool" where
  "by_route exposed mode \<longleftrightarrow> exposed \<and> mode = Some ExposeRoute"

definition ingress_unset :: "bool \<Rightarrow> string \<Rightarrow> bool \<Rightarrow> string option \<Rightarrow> string \<Rightarrow> bool" where
  "ingress_unset isOnOpenShift ingressDomain exposed mode ingressHost \<longleftrightarrow>
     exposed \<and> (mode = Some ExposeIngress \<or> \<not> isOnOpenShift) \<and> ingressDomain = '''' \<and> ingressHost = ''''"

definition route_failure :: "string \<Rightarrow> condition" where
  "route_failure what = valid_failure ValidConditionFailedInvalidExposeMode
     (what @ '' has invalid expose mode route, it is only supported on OpenShift'')"

definition ingress_failure :: "string \<Rightarrow> condition" where
  "ingress_failure what = valid_failure ValidConditionFailedInvalidIngressSettings
     (what @ '' has invalid ingress settings, IngressHost unspecified and no Spec.IngressDomain default domain provided'')"

definition validateExposeModes :: "bool \<Rightarrow> broker_cluster \<Rightarrow> condition option" where
  "validateExposeModes isOnOpenShift cr =
     or_else
       (if \<not> isOnOpenShift
        then or_else
          (first_error (\<lambda>a. if by_route (accExpose a) (accExposeMode a)
             then Some (route_failure (''.Spec.Acceptors '' @ go_quote (accName a))) else None) (bcAcceptors cr))
          (or_else
            (first_error (\<lambda>c. if by_route (conExpose c) (conExposeMode c)
               then Some (route_failure (''.Spec.Connectors '' @ go_quote (conName c))) else None) (bcConnectors cr))
            (if by_route (csoleExpose (bcConsole cr)) (csoleExposeMode (bcConsole cr))
             then Some (route_failure ''.Spec.Console'') else None))
        else None)
       (or_else
          (first_error (\<lambda>a. if ingress_unset isOnOpenShift (bcIngressDomain cr) (accExpose a) (accExposeMode a)
               (accIngressHost a)
             then Some (ingress_failure (''.Spec.Acceptors '' @ go_quote (accName a))) else None) (bcAcceptors cr))
          (or_else
            (first_error (\<lambda>c. if ingress_unset isOnOpenShift (bcIngressDomain cr) (conExpose c) (conExposeMode c)
                 (conIngressHost c)
               then Some (ingress_failure (''.Spec.Connectors '' @ go_quote (conName c))) else None) (bcConnectors cr))
            (if ingress_unset isOnOpenShift (bcIngressDomain cr) (csoleExpose (bcConsole cr))
                  (csoleExposeMode (bcConsole cr)) (csoleIngressHost (bcConsole cr))
             then Some (ingress_failure ''.Spec.Console'') else None)))"

definition internal_var :: "string \<Rightarrow> bool" where
  "internal_var name \<longleftrightarrow> name = ''DEBUG_ARGS'' \<or> name = ''JAVA_OPTS'' \<or> name = ''JAVA_ARGS_APPEND''"

definition validateEnvVars :: "broker_cluster \<Rightarrow> condition option" where
  "validateEnvVars cr =
     (let invalidVars = map evName (filter (\<lambda>e. internal_var (evName e) \<and> evValueFrom e \<noteq> None) (bcEnv cr))
      in if length invalidVars > 0
         then Some (valid_failure ValidConditionInvalidInternalVarUsage
                (''Don't use valueFrom on env vars that the operator can mutate: '' @ print_strings invalidVars @
                 ''. Instead use a different var and refernece it in its value field.''))
         else None)"

text \<open>\<open>resource.ParseQuantity\<close> is an argument; its result is the text of the error.\<close>

definition validateStorage :: "(string \<Rightarrow> string option) \<Rightarrow> broker_cluster \<Rightarrow> condition option" where
  "validateStorage parseQuantity cr =
     (if dpPersistenceEnabled (bcPlan cr) \<and> dpStorageSize (bcPlan cr) \<noteq> ''''
      then (case parseQuantity (dpStorageSize (bcPlan cr)) of
              Some err \<Rightarrow> Some (valid_failure ValidConditionFailureReason
                (''.Spec.DeploymentPlan.Storage.Size quantity string is invalid, '' @ err))
            | None \<Rightarrow> None)
      else None)"

definition validatePodDisruption :: "broker_cluster \<Rightarrow> condition option" where
  "validatePodDisruption cr =
     (case map_option bgSelector (dpPodDisruptionBudget (bcPlan cr)) of
        Some (Some sel) \<Rightarrow> Some (valid_failure ValidConditionPDBNonNilSelectorReason PDBNonNilSelectorMessage)
      | _ \<Rightarrow> None)"

section \<open>Checks of secrets and config maps\<close>

text \<open>\<open>certutil.IsSecretFromCert\<close>: is the secret one of a certificate, and has it the keys of one.\<close>

definition IsSecretFromCert :: "secret \<Rightarrow> bool \<times> bool" where
  "IsSecretFromCert s =
     (if map_of (secData s) ''keyStorePassword'' \<noteq> None \<or> map_of (secData s) ''trustStorePassword'' \<noteq> None
      then (False, True)
      else if has_suffix (secName s) ''-ptls'' then (True, True)
      else (let exist = (map_of (secAnnotations s) ''cert-manager.io/issuer-name'' \<noteq> None)
            in if length (secData s) < 2 \<or> map_of (secData s) ''tls.crt'' = None \<or> map_of (secData s) ''tls.key'' = None
               then (exist, False) else (exist, True)))"

definition AssertSecretContainsKey :: "secret \<Rightarrow> string \<Rightarrow> string \<Rightarrow> condition option" where
  "AssertSecretContainsKey s key contextMessage =
     (let (isCertSecret, isValid) = IsSecretFromCert s
      in if isCertSecret
         then (if isValid then None
               else Some (valid_failure ValidConditionInvalidCertSecretReason
                 (contextMessage @ '' certificate secret '' @ secName s @
                  '' not valid, must have keys ca.crt tls.crt tls.key'')))
         else if map_of (secData s) key = None
         then Some (valid_failure ValidConditionFailedExtraMountReason
                (contextMessage @ '' secret '' @ secName s @ '' must have key '' @ key))
         else None)"

definition AssertSecretContainsOneOf :: "secret \<Rightarrow> string list \<Rightarrow> string \<Rightarrow> condition option" where
  "AssertSecretContainsOneOf s keys contextMessage =
     (let (ok, valid) = IsSecretFromCert s
      in if ok
         then (if valid then None
               else Some (valid_failure ValidConditionInvalidCertSecretReason
                 (contextMessage @ '' secret '' @ secName s @ '' must contain keys ca.crt,tls.crt,tls.key'')))
         else if list_ex (\<lambda>key. map_of (secData s) key \<noteq> None) keys then None
         else Some (valid_failure ValidConditionFailedExtraMountReason
                (contextMessage @ '' secret '' @ secName s @ '' must contain one of following keys '' @
                 print_strings keys)))"

definition AssertConfigMapContainsKey :: "config_map \<Rightarrow> string \<Rightarrow> string \<Rightarrow> condition option" where
  "AssertConfigMapContainsKey configMap key contextMessage =
     (if map_of (cmData configMap) key = None
      then Some (valid_failure ValidConditionFailedExtraMountReason
             (contextMessage @ '' configmap '' @ cmName configMap @ '' must have key '' @ key))
      else None)"

definition AssertNoDupKeyInProperties :: "range_order \<Rightarrow> secret \<Rightarrow> string \<Rightarrow> condition option" where
  "AssertNoDupKeyInProperties ord s contextMessage =
     first_error (\<lambda>key.
       (let data = (case map_of (secData s) key of Some d \<Rightarrow> d | None \<Rightarrow> '''');
            duplicateKey = DuplicateKeyInPropertiesContent data
        in if \<not> has_prefix key UncheckedPrefix \<and> has_suffix key PropertiesSuffix \<and> duplicateKey \<noteq> ''''
           then Some (valid_failure ValidConditionFailedExtraMountReason
                  (contextMessage @ '' properties secret '' @ secName s @ '' entry '' @ key @
                   '' has a duplicate key for '' @ duplicateKey))
           else None)) (ord (map fst (secData s)))"

text \<open>
  \<open>MatchBytesAgainsLoginConfigRegexp\<close>: the configured expression, none when it is empty, over the
  regular expression engine, an argument.
\<close>

definition AssertSyntaxOkOnLoginConfigData ::
  "string \<Rightarrow> (string \<Rightarrow> string \<Rightarrow> bool) \<Rightarrow> string \<Rightarrow> string \<Rightarrow> string \<Rightarrow> condition option" where
  "AssertSyntaxOkOnLoginConfigData syntaxMatchRegEx match data name contextMessage =
     (if \<not> (syntaxMatchRegEx = '''' \<or> match syntaxMatchRegEx data)
      then Some (valid_failure ValidConditionFailedExtraMountReason
             (contextMessage @ '' content of login.config key in secret '' @ name @
              '' does not match supported jaas config file syntax''))
      else None)"

text \<open>The surroundings of the validation.\<close>

record validation_env =
  veMeta :: meta_api
  veOrder :: range_order
  veKube :: cluster_kube
  veVersions :: semver_api
  veOnOpenShift :: bool
  veParseQuantity :: "string \<Rightarrow> string option"
  veLoginRegEx :: string
  veMatch :: "string \<Rightarrow> string \<Rightarrow> bool"

text \<open>
  The loops over the extra mounts carry the numbers of logging and of jaas mounts; the result is the
  failing condition with the retry, or the counts.
\<close>

type_synonym counts = "nat \<times> nat"

definition missing :: "string \<Rightarrow> string \<Rightarrow> string \<Rightarrow> condition" where
  "missing contextMessage what name =
     valid_failure ValidConditionMissingResourcesReason (contextMessage @ '' missing required '' @ what @ '' '' @ name)"

definition check_config_map :: "validation_env \<Rightarrow> string \<Rightarrow> string \<Rightarrow> (condition \<times> bool) option" where
  "check_config_map V ns cm =
     (let contextMessage = ''.Spec.DeploymentPlan.ExtraMounts.ConfigMaps,''
      in case ckGetConfigMap (veKube V) ns cm of
           Inl err \<Rightarrow> Some (missing contextMessage ''configMap'' cm, True)
         | Inr configMap \<Rightarrow>
             if has_suffix cm loggingConfigSuffix
             then map_option (\<lambda>c. (c, True)) (AssertConfigMapContainsKey configMap LoggingConfigKey contextMessage)
             else if has_suffix cm jaasConfigSuffix
             then Some (valid_failure ValidConditionFailedExtraMountReason
                    (contextMessage @ '' entry '' @ cm @ '' with suffix '' @ jaasConfigSuffix @ '' must be a secret''), False)
             else None)"

fun validate_config_maps ::
  "validation_env \<Rightarrow> string \<Rightarrow> string list \<Rightarrow> counts \<Rightarrow> (condition \<times> bool) + counts" where
  "validate_config_maps V ns [] n = Inr n"
| "validate_config_maps V ns (cm # cms) (logging, jaas) =
     (case check_config_map V ns cm of
        Some e \<Rightarrow> Inl e
      | None \<Rightarrow> validate_config_maps V ns cms
                 (if has_suffix cm loggingConfigSuffix then (Suc logging, jaas) else (logging, jaas)))"

definition check_secret :: "validation_env \<Rightarrow> string \<Rightarrow> string \<Rightarrow> condition option" where
  "check_secret V ns s =
     (let contextMessage = ''.Spec.DeploymentPlan.ExtraMounts.Secrets,''
      in case ckGetSecret (veKube V) ns s of
           Inl err \<Rightarrow> Some (missing contextMessage ''secret'' s)
         | Inr sec \<Rightarrow>
             if has_suffix s loggingConfigSuffix
             then AssertSecretContainsKey sec LoggingConfigKey contextMessage
             else if has_suffix s jaasConfigSuffix
             then or_else (AssertSecretContainsKey sec JaasConfigKey contextMessage)
                    (AssertSyntaxOkOnLoginConfigData (veLoginRegEx V) (veMatch V)
                       (case map_of (secData sec) JaasConfigKey of Some d \<Rightarrow> d | None \<Rightarrow> '''') s contextMessage)
             else if has_suffix s BrokerPropsSuffix
             then AssertNoDupKeyInProperties (veOrder V) sec contextMessage
             else None)"

fun validate_secrets ::
  "validation_env \<Rightarrow> string \<Rightarrow> string list \<Rightarrow> counts \<Rightarrow> (condition \<times> bool) + counts" where
  "validate_secrets V ns [] n = Inr n"
| "validate_secrets V ns (s # ss) (logging, jaas) =
     (case check_secret V ns s of
        Some c \<Rightarrow> Inl (c, True)
      | None \<Rightarrow> validate_secrets V ns ss
                 (if has_suffix s loggingConfigSuffix then (Suc logging, jaas)
                  else if has_suffix s jaasConfigSuffix then (logging, Suc jaas) else (logging, jaas)))"

text \<open>The map of counts has an entry for a suffix once it was seen.\<close>

definition AssertInstanceCounts :: "range_order \<Rightarrow> counts \<Rightarrow> condition option" where
  "AssertInstanceCounts ord = (\<lambda>(logging, jaas).
     first_error (\<lambda>key.
       if (if key = loggingConfigSuffix then logging else jaas) > 1
       then Some (valid_failure ValidConditionFailedExtraMountReason
              (''Spec.DeploymentPlan.ExtraMounts, entry with suffix '' @ key @ '' can only be supplied once''))
       else None)
     (ord ((if logging > 0 then [loggingConfigSuffix] else []) @ (if jaas > 0 then [jaasConfigSuffix] else []))))"

definition validateExtraMounts :: "validation_env \<Rightarrow> broker_cluster \<Rightarrow> condition option \<times> bool" where
  "validateExtraMounts V cr =
     (case validate_config_maps V (bcNamespace cr) (dpExtraConfigMaps (bcPlan cr)) (0, 0) of
        Inl (c, retry) \<Rightarrow> (Some c, retry)
      | Inr n1 \<Rightarrow>
          (case validate_secrets V (bcNamespace cr) (dpExtraSecrets (bcPlan cr)) n1 of
             Inl (c, retry) \<Rightarrow> (Some c, retry)
           | Inr n2 \<Rightarrow> (AssertInstanceCounts (veOrder V) n2, False)))"

definition validateSSLEnabledSecrets :: "validation_env \<Rightarrow> broker_cluster \<Rightarrow> condition option \<times> bool" where
  "validateSSLEnabledSecrets V cr =
     (if csoleSSLEnabled (bcConsole cr)
      then (let secretName = (if csoleSSLSecret (bcConsole cr) \<noteq> '''' then csoleSSLSecret (bcConsole cr)
                              else Generate (bcName cr) ''console'' ''secret'');
                contextMessage = ''.Spec.Console.SSLEnabled is true but required''
            in case ckGetSecret (veKube V) (bcNamespace cr) secretName of
                 Inl err \<Rightarrow> (Some (valid_failure ValidConditionMissingResourcesReason
                     (contextMessage @ '' secret '' @ secretName @ '' is not found'')), True)
               | Inr s \<Rightarrow>
                   (let result = or_else (first_error (\<lambda>key. AssertSecretContainsKey s key contextMessage)
                                   [''keyStorePassword'', ''trustStorePassword''])
                          (or_else (AssertSecretContainsOneOf s [''keyStorePath'', ''broker.ks''] contextMessage)
                            (AssertSecretContainsOneOf s [''trustStorePath'', ''client.ts''] contextMessage))
                    in (result, result \<noteq> None)))
      else (None, False))"

section \<open>The chain\<close>

text \<open>
  One link: skipped once a check has failed; a check of the images and labels keeps the retry of the
  link before it.
\<close>

definition link :: "(condition option \<times> bool) \<Rightarrow> condition \<times> bool \<Rightarrow> condition \<times> bool" where
  "link check st =
     (if cStatus (fst st) \<noteq> ConditionFalse
      then (case fst check of Some c \<Rightarrow> c | None \<Rightarrow> fst st, snd check) else st)"

definition link_keep :: "condition option \<Rightarrow> condition \<times> bool \<Rightarrow> condition \<times> bool" where
  "link_keep check st = link (check, snd st) st"

definition validation_chain :: "validation_env \<Rightarrow> broker_cluster \<Rightarrow> condition \<times> bool" where
  "validation_chain V cr =
     (let s0 = (mk_condition ValidConditionType ConditionTrue ValidConditionSuccessReason '''', False);
          s1 = link (validateExtraMounts V cr) s0;
          s2 = link_keep (validatePodDisruption cr) s1;
          s3 = link (validateNoDupKeysInBrokerProperties cr, False) s2;
          s4 = link (validateStorage (veParseQuantity V) cr, False) s3;
          s5 = link (validateAcceptorPorts cr, False) s4;
          s6 = link (validateSSLEnabledSecrets V cr) s5;
          s7 = link_keep (ValidateBrokerImageVersion (veVersions V) (image_spec_of cr)) s6;
          s8 = link_keep (validateReservedLabels (veOrder V) cr) s7;
          s9 = link (validateExposeModes (veOnOpenShift V) cr, False) s8
      in link (validateEnvVars cr, False) s9)"

definition validate :: "validation_env \<Rightarrow> broker_cluster \<Rightarrow> broker_cluster \<times> bool \<times> bool" where
  "validate V cr =
     (if IsRestricted cr
      then (SetStatusConditionWithGeneration (veMeta V)
              (valid_failure ValidConditionInvalidVersionReason
                 ''spec.restricted is deprecated and no longer supported. Use the Broker CR for restricted deployments.'') cr,
            False, False)
      else (case validation_chain V cr of
              (validationCondition, retry) \<Rightarrow>
                (SetStatusConditionWithGeneration (veMeta V) validationCondition cr,
                 cStatus validationCondition \<noteq> ConditionFalse, retry)))"

section \<open>The ports an acceptor without one gets\<close>

text \<open>The pass of \<open>generateAcceptorsString\<close> that fills in the ports, written back to the resource.\<close>

fun assign_acceptor_ports :: "int32 \<Rightarrow> acceptor list \<Rightarrow> acceptor list" where
  "assign_acceptor_ports currentPortIncrement [] = []"
| "assign_acceptor_ports currentPortIncrement (a # acceptors) =
     (if accPort a = 0
      then a\<lparr>accPort := 61626 + currentPortIncrement\<rparr> # assign_acceptor_ports (currentPortIncrement + 10) acceptors
      else a # assign_acceptor_ports currentPortIncrement acceptors)"

section \<open>What each check accepts\<close>

named_theorems fails_false \<open>a check that fails sets the condition to false\<close>

lemma dup_keys_check: "validateNoDupKeysInBrokerProperties cr = None \<longleftrightarrow> DuplicateKeyIn (bcBrokerProperties cr) = ''''"
  by (cases "bcBrokerProperties cr")
    (auto simp: validateNoDupKeysInBrokerProperties_def Let_def DuplicateKeyIn_def)

lemma dup_keys_false [fails_false]: "validateNoDupKeysInBrokerProperties cr = Some c \<Longrightarrow> cStatus c = ConditionFalse"
  by (auto simp: validateNoDupKeysInBrokerProperties_def Let_def split: if_splits)

definition labels_ok :: "labels list \<Rightarrow> bool" where
  "labels_ok lss \<longleftrightarrow> (\<forall>ls \<in> set lss. \<forall>k \<in> fst ` set ls. \<not> is_reserved_label k)"

lemma find_reserved: "range_ok ord \<Longrightarrow> List.find is_reserved_label (ord (map fst ls)) = None \<longleftrightarrow> labels_ok [ls]"
  by (auto simp: labels_ok_def find_None_iff)

lemma reserved_templates_check:
  "range_ok ord \<Longrightarrow> reserved_in_templates ord i lss = None \<longleftrightarrow> labels_ok lss"
proof (induction lss arbitrary: i)
  case (Cons ls lss)
  have "labels_ok (ls # lss) \<longleftrightarrow> labels_ok [ls] \<and> labels_ok lss" by (auto simp: labels_ok_def)
  with Cons find_reserved [OF Cons.prems, of ls] show ?case by (auto split: option.splits)
qed (simp add: labels_ok_def)

lemma reserved_labels_check:
  assumes "range_ok ord"
  shows "validateReservedLabels ord cr = None \<longleftrightarrow> labels_ok (dpLabels (bcPlan cr) # bcTemplateLabels cr)"
proof -
  let ?ls = "dpLabels (bcPlan cr)" and ?lss = "bcTemplateLabels cr"
  have "labels_ok (?ls # ?lss) \<longleftrightarrow> labels_ok [?ls] \<and> labels_ok ?lss" by (auto simp: labels_ok_def)
  with reserved_templates_check [OF assms, of 0 ?lss] find_reserved [OF assms, of ?ls] show ?thesis
    by (auto simp: validateReservedLabels_def split: option.splits)
qed

lemma reserved_templates_false: "reserved_in_templates ord i lss = Some c \<Longrightarrow> cStatus c = ConditionFalse"
  by (induction lss arbitrary: i) (auto split: option.splits)

lemma reserved_labels_false [fails_false]: "validateReservedLabels ord cr = Some c \<Longrightarrow> cStatus c = ConditionFalse"
  by (auto simp: validateReservedLabels_def split: option.splits dest: reserved_templates_false)

definition explicit_ports :: "acceptor list \<Rightarrow> int32 list" where
  "explicit_ports acceptors = filter (\<lambda>p. sint p > 0) (map accPort acceptors)"

lemma acceptor_ports_check:
  "acceptor_ports m as = None \<longleftrightarrow>
     distinct (explicit_ports as) \<and> (\<forall>p \<in> set (explicit_ports as). m p = None)"
proof (induction as arbitrary: m)
  case (Cons a as)
  let ?P = "explicit_ports as"
  show ?case
  proof (cases "sint (accPort a) > 0")
    case True
    then have ps: "explicit_ports (a # as) = accPort a # ?P" by (simp add: explicit_ports_def)
    show ?thesis
    proof (cases "m (accPort a)")
      case None
      define m' where "m' = m(accPort a := Some (accName a))"
      have "acceptor_ports m (a # as) = acceptor_ports m' as" using True None by (simp add: m'_def)
      moreover have "(\<forall>p \<in> set ?P. m' p = None) \<longleftrightarrow> accPort a \<notin> set ?P \<and> (\<forall>p \<in> set ?P. m p = None)"
        unfolding m'_def by (metis fun_upd_apply option.distinct(1))
      ultimately show ?thesis unfolding ps using Cons.IH [of m'] None by auto
    next
      case (Some x)
      with True ps show ?thesis by simp
    qed
  next
    case False
    then have "explicit_ports (a # as) = ?P" by (simp add: explicit_ports_def)
    with Cons.IH [of m] False show ?thesis by simp
  qed
qed (simp add: explicit_ports_def)

lemma acceptor_ports_false: "acceptor_ports m as = Some c \<Longrightarrow> cStatus c = ConditionFalse"
  by (induction m as rule: acceptor_ports.induct) (auto split: option.splits if_splits)

lemma ports_check: "validateAcceptorPorts cr = None \<longleftrightarrow> distinct (explicit_ports (bcAcceptors cr))"
  by (simp add: validateAcceptorPorts_def acceptor_ports_check)

lemma ports_false [fails_false]: "validateAcceptorPorts cr = Some c \<Longrightarrow> cStatus c = ConditionFalse"
  by (simp add: validateAcceptorPorts_def acceptor_ports_false)

text \<open>An exposed endpoint by its flag, its mode and its host.\<close>

definition exposed_endpoints :: "broker_cluster \<Rightarrow> (bool \<times> string option \<times> string) set" where
  "exposed_endpoints cr =
     (\<lambda>a. (accExpose a, accExposeMode a, accIngressHost a)) ` set (bcAcceptors cr) \<union>
     (\<lambda>c. (conExpose c, conExposeMode c, conIngressHost c)) ` set (bcConnectors cr) \<union>
     {(csoleExpose (bcConsole cr), csoleExposeMode (bcConsole cr), csoleIngressHost (bcConsole cr))}"

definition exposure_ok :: "bool \<Rightarrow> broker_cluster \<Rightarrow> bool" where
  "exposure_ok openShift cr \<longleftrightarrow>
     (\<forall>(exposed, mode, host) \<in> exposed_endpoints cr. exposed \<longrightarrow>
        (mode = Some ExposeRoute \<longrightarrow> openShift) \<and>
        (mode = Some ExposeIngress \<or> \<not> openShift \<longrightarrow> bcIngressDomain cr \<noteq> '''' \<or> host \<noteq> ''''))"

lemma expose_check: "validateExposeModes openShift cr = None \<longleftrightarrow> exposure_ok openShift cr"
  by (cases openShift)
    (auto simp: validateExposeModes_def exposure_ok_def exposed_endpoints_def by_route_def ingress_unset_def
      first_error_None split: if_splits)

lemma first_error_false:
  "first_error f xs = Some c \<Longrightarrow> (\<And>x. f x = Some c \<Longrightarrow> cStatus c = ConditionFalse) \<Longrightarrow> cStatus c = ConditionFalse"
  by (blast dest: first_error_SomeD)

lemma expose_false [fails_false]: "validateExposeModes openShift cr = Some c \<Longrightarrow> cStatus c = ConditionFalse"
  by (auto simp: validateExposeModes_def or_else_Some route_failure_def ingress_failure_def
      split: if_splits elim!: first_error_false)

definition env_ok :: "broker_cluster \<Rightarrow> bool" where
  "env_ok cr \<longleftrightarrow> (\<forall>e \<in> set (bcEnv cr). internal_var (evName e) \<longrightarrow> evValueFrom e = None)"

lemma env_check: "validateEnvVars cr = None \<longleftrightarrow> env_ok cr"
  by (auto simp: validateEnvVars_def env_ok_def Let_def filter_empty_conv)

lemma env_false [fails_false]: "validateEnvVars cr = Some c \<Longrightarrow> cStatus c = ConditionFalse"
  by (auto simp: validateEnvVars_def Let_def split: if_splits)

lemma storage_check: "validateStorage pq cr = None \<longleftrightarrow>
    (dpPersistenceEnabled (bcPlan cr) \<and> dpStorageSize (bcPlan cr) \<noteq> '''' \<longrightarrow> pq (dpStorageSize (bcPlan cr)) = None)"
  by (auto simp: validateStorage_def split: option.splits)

lemma storage_false [fails_false]: "validateStorage pq cr = Some c \<Longrightarrow> cStatus c = ConditionFalse"
  by (auto simp: validateStorage_def split: option.splits if_splits)

lemma pdb_check: "validatePodDisruption cr = None \<longleftrightarrow> (\<nexists>sel. map_option bgSelector (dpPodDisruptionBudget (bcPlan cr)) = Some (Some sel))"
  by (auto simp: validatePodDisruption_def split: option.splits)

lemma pdb_false [fails_false]: "validatePodDisruption cr = Some c \<Longrightarrow> cStatus c = ConditionFalse"
  by (auto simp: validatePodDisruption_def split: option.splits)

lemma contains_key_false: "AssertSecretContainsKey s k m = Some c \<Longrightarrow> cStatus c = ConditionFalse"
  by (auto simp: AssertSecretContainsKey_def split: prod.splits if_splits)

lemma contains_one_false: "AssertSecretContainsOneOf s ks m = Some c \<Longrightarrow> cStatus c = ConditionFalse"
  by (auto simp: AssertSecretContainsOneOf_def split: prod.splits if_splits)

lemma config_map_key_false: "AssertConfigMapContainsKey s k m = Some c \<Longrightarrow> cStatus c = ConditionFalse"
  by (auto simp: AssertConfigMapContainsKey_def split: if_splits)

lemma no_dup_false: "AssertNoDupKeyInProperties ord s m = Some c \<Longrightarrow> cStatus c = ConditionFalse"
  unfolding AssertNoDupKeyInProperties_def by (erule first_error_false) (auto simp: Let_def split: if_splits)

lemma syntax_false: "AssertSyntaxOkOnLoginConfigData r m d n t = Some c \<Longrightarrow> cStatus c = ConditionFalse"
  by (auto simp: AssertSyntaxOkOnLoginConfigData_def split: if_splits)

lemmas assert_false = contains_key_false contains_one_false config_map_key_false no_dup_false syntax_false

lemma ssl_false [fails_false]: "fst (validateSSLEnabledSecrets V cr) = Some c \<Longrightarrow> cStatus c = ConditionFalse"
  by (auto simp: validateSSLEnabledSecrets_def Let_def or_else_Some split: if_splits sum.splits option.splits
      dest: assert_false)

section \<open>The extra mounts\<close>

definition is_logging :: "string \<Rightarrow> bool" where
  "is_logging name \<longleftrightarrow> has_suffix name loggingConfigSuffix"

definition is_jaas :: "string \<Rightarrow> bool" where
  "is_jaas name \<longleftrightarrow> has_suffix name jaasConfigSuffix \<and> \<not> is_logging name"

text \<open>A config map is held by the server when it exists with the key its suffix asks for.\<close>

definition config_map_held :: "validation_env \<Rightarrow> string \<Rightarrow> string \<Rightarrow> bool" where
  "config_map_held V ns name \<longleftrightarrow>
     (\<exists>m. ckGetConfigMap (veKube V) ns name = Inr m \<and>
        (is_logging name \<longrightarrow> map_of (cmData m) LoggingConfigKey \<noteq> None))"

definition config_map_ok :: "validation_env \<Rightarrow> string \<Rightarrow> string \<Rightarrow> bool" where
  "config_map_ok V ns name \<longleftrightarrow> \<not> is_jaas name \<and> config_map_held V ns name"

text \<open>A secret holds a key, or is a complete secret of a certificate, which is accepted instead.\<close>

definition holds_key :: "secret \<Rightarrow> string \<Rightarrow> bool" where
  "holds_key s key \<longleftrightarrow>
     (if fst (IsSecretFromCert s) then snd (IsSecretFromCert s) else map_of (secData s) key \<noteq> None)"

definition properties_ok :: "secret \<Rightarrow> bool" where
  "properties_ok s \<longleftrightarrow>
     (\<forall>key \<in> fst ` set (secData s). has_suffix key PropertiesSuffix \<and> \<not> has_prefix key UncheckedPrefix \<longrightarrow>
        DuplicateKeyInPropertiesContent (the (map_of (secData s) key)) = '''')"

definition secret_ok :: "validation_env \<Rightarrow> string \<Rightarrow> string \<Rightarrow> bool" where
  "secret_ok V ns name \<longleftrightarrow>
     (\<exists>s. ckGetSecret (veKube V) ns name = Inr s \<and>
        (is_logging name \<longrightarrow> holds_key s LoggingConfigKey) \<and>
        (is_jaas name \<longrightarrow> holds_key s JaasConfigKey \<and>
           (veLoginRegEx V = '''' \<or> veMatch V (veLoginRegEx V)
              (case map_of (secData s) JaasConfigKey of Some d \<Rightarrow> d | None \<Rightarrow> ''''))) \<and>
        (\<not> is_logging name \<and> \<not> is_jaas name \<and> has_suffix name BrokerPropsSuffix \<longrightarrow> properties_ok s))"

lemma contains_key_check: "AssertSecretContainsKey s key m = None \<longleftrightarrow> holds_key s key"
  by (auto simp: AssertSecretContainsKey_def holds_key_def split: prod.splits)

lemma no_dup_check:
  assumes "range_ok ord"
  shows "AssertNoDupKeyInProperties ord s m = None \<longleftrightarrow> properties_ok s"
proof -
  have "(case map_of (secData s) key of Some d \<Rightarrow> d | None \<Rightarrow> '''') = the (map_of (secData s) key)"
    if "key \<in> fst ` set (secData s)" for key
    using that by (cases "map_of (secData s) key") (auto simp: map_of_eq_None_iff)
  then show ?thesis
    using assms by (auto simp: AssertNoDupKeyInProperties_def first_error_None properties_ok_def Let_def)
qed

lemma config_map_check: "check_config_map V ns cm = None \<longleftrightarrow> config_map_ok V ns cm"
  by (auto simp: check_config_map_def config_map_ok_def config_map_held_def is_logging_def is_jaas_def AssertConfigMapContainsKey_def Let_def
      split: sum.splits)

lemma secret_check: "range_ok (veOrder V) \<Longrightarrow> check_secret V ns s = None \<longleftrightarrow> secret_ok V ns s"
  by (auto simp: check_secret_def secret_ok_def is_logging_def is_jaas_def contains_key_check no_dup_check
      AssertSyntaxOkOnLoginConfigData_def Let_def split: sum.splits)

lemma config_map_retry: "check_config_map V ns cm = Some (c, r) \<Longrightarrow> r \<longleftrightarrow> \<not> config_map_held V ns cm"
  by (auto simp: check_config_map_def config_map_held_def is_logging_def AssertConfigMapContainsKey_def Let_def
      split: sum.splits if_splits)

text \<open>The loops: the first failing mount, or the counts.\<close>

lemma config_maps_loop:
  "validate_config_maps V ns cms (l, j) =
     (case first_error (check_config_map V ns) cms of
        Some e \<Rightarrow> Inl e | None \<Rightarrow> Inr (l + length (filter is_logging cms), j))"
  by (induction cms arbitrary: l j) (auto simp: is_logging_def split: option.splits)

lemma secrets_loop:
  "validate_secrets V ns ss (l, j) =
     (case first_error (check_secret V ns) ss of
        Some c \<Rightarrow> Inl (c, True) | None \<Rightarrow> Inr (l + length (filter is_logging ss), j + length (filter is_jaas ss)))"
  by (induction ss arbitrary: l j) (auto simp: is_logging_def is_jaas_def split: option.splits)

lemmas mounts_loops = config_maps_loop secrets_loop

text \<open>
  What the mounts ask of the server, every one of them held, and what they ask of the resource alone: no
  config map where a secret is due, and at most one logging and one JAAS configuration.
\<close>

definition mounts_held :: "validation_env \<Rightarrow> broker_cluster \<Rightarrow> bool" where
  "mounts_held V cr \<longleftrightarrow>
     (\<forall>cm \<in> set (dpExtraConfigMaps (bcPlan cr)). config_map_held V (bcNamespace cr) cm) \<and>
     (\<forall>s \<in> set (dpExtraSecrets (bcPlan cr)). secret_ok V (bcNamespace cr) s)"

definition mounts_allowed :: "broker_cluster \<Rightarrow> bool" where
  "mounts_allowed cr \<longleftrightarrow>
     (\<forall>cm \<in> set (dpExtraConfigMaps (bcPlan cr)). \<not> is_jaas cm) \<and>
     length (filter is_logging (dpExtraConfigMaps (bcPlan cr) @ dpExtraSecrets (bcPlan cr))) \<le> 1 \<and>
     length (filter is_jaas (dpExtraSecrets (bcPlan cr))) \<le> 1"

text \<open>
  The first mount that fails, config maps before secrets, fails because of the server: the mounts that are
  checked after the first failure do not matter.
\<close>

definition mount_missing :: "validation_env \<Rightarrow> broker_cluster \<Rightarrow> bool" where
  "mount_missing V cr \<longleftrightarrow>
     (case List.find (\<lambda>cm. \<not> config_map_ok V (bcNamespace cr) cm) (dpExtraConfigMaps (bcPlan cr)) of
        Some cm \<Rightarrow> \<not> config_map_held V (bcNamespace cr) cm
      | None \<Rightarrow> \<exists>s \<in> set (dpExtraSecrets (bcPlan cr)). \<not> secret_ok V (bcNamespace cr) s)"

lemma suffixes_differ: "jaasConfigSuffix \<noteq> loggingConfigSuffix"
  by simp

lemma counts_check: "range_ok ord \<Longrightarrow> AssertInstanceCounts ord (l, j) = None \<longleftrightarrow> l \<le> 1 \<and> j \<le> 1"
  unfolding AssertInstanceCounts_def prod.case first_error_None
  by (cases "l = 0"; cases "j = 0") (simp_all add: suffixes_differ linorder_not_less)

lemma counts_false: "AssertInstanceCounts ord n = Some c \<Longrightarrow> cStatus c = ConditionFalse"
  unfolding AssertInstanceCounts_def by (cases n) (auto elim!: first_error_false split: if_splits)

lemma mounts_check:
  assumes ord: "range_ok (veOrder V)"
  shows "fst (validateExtraMounts V cr) = None \<longleftrightarrow> mounts_held V cr \<and> mounts_allowed cr"
proof -
  let ?cms = "dpExtraConfigMaps (bcPlan cr)" and ?ss = "dpExtraSecrets (bcPlan cr)" and ?ns = "bcNamespace cr"
  have "fst (validateExtraMounts V cr) = None \<longleftrightarrow>
      first_error (check_config_map V ?ns) ?cms = None \<and> first_error (check_secret V ?ns) ?ss = None \<and>
      AssertInstanceCounts (veOrder V)
        (length (filter is_logging ?cms) + length (filter is_logging ?ss), length (filter is_jaas ?ss)) = None"
    by (auto simp: validateExtraMounts_def mounts_loops split: option.splits prod.splits)
  then show ?thesis
    by (simp add: first_error_None config_map_check secret_check [OF ord] counts_check [OF ord] mounts_held_def
        mounts_allowed_def config_map_ok_def) blast
qed

lemma first_error_find: "first_error f xs = (case List.find (\<lambda>x. f x \<noteq> None) xs of Some x \<Rightarrow> f x | None \<Rightarrow> None)"
  by (induction xs) (auto split: option.splits)

lemma mounts_retry:
  assumes ord: "range_ok (veOrder V)"
  shows "snd (validateExtraMounts V cr) \<longleftrightarrow> mount_missing V cr"
proof -
  let ?cms = "dpExtraConfigMaps (bcPlan cr)" and ?ss = "dpExtraSecrets (bcPlan cr)" and ?ns = "bcNamespace cr"
  have failing: "(\<lambda>cm. check_config_map V ?ns cm \<noteq> None) = (\<lambda>cm. \<not> config_map_ok V ?ns cm)"
    by (simp add: config_map_check)
  show ?thesis
  proof (cases "List.find (\<lambda>cm. \<not> config_map_ok V ?ns cm) ?cms")
    case None
    then have cms: "first_error (check_config_map V ?ns) ?cms = None"
      by (auto simp: first_error_None config_map_check find_None_iff)
    have "snd (validateExtraMounts V cr) \<longleftrightarrow> first_error (check_secret V ?ns) ?ss \<noteq> None"
      by (auto simp: validateExtraMounts_def mounts_loops cms split: option.splits)
    with None show ?thesis
      by (simp add: mount_missing_def first_error_None secret_check [OF ord] del: not_None_eq)
  next
    case (Some cm)
    then have "\<not> config_map_ok V ?ns cm" by (auto simp: find_Some_iff)
    then obtain c r where e: "check_config_map V ?ns cm = Some (c, r)"
      by (metis config_map_check not_None_eq surj_pair)
    with Some have "first_error (check_config_map V ?ns) ?cms = Some (c, r)"
      by (simp add: first_error_find failing del: not_None_eq)
    with Some config_map_retry [OF e] show ?thesis
      by (simp add: validateExtraMounts_def mounts_loops mount_missing_def)
  qed
qed

lemma missing_unheld: "mount_missing V cr \<Longrightarrow> \<not> mounts_held V cr"
  by (auto simp: mount_missing_def mounts_held_def find_Some_iff split: option.splits)

lemma unheld_missing: "mounts_allowed cr \<Longrightarrow> \<not> mounts_held V cr \<Longrightarrow> mount_missing V cr"
  by (auto simp: mount_missing_def mounts_held_def mounts_allowed_def config_map_ok_def find_Some_iff find_None_iff
      split: option.splits)

lemma config_map_false: "check_config_map V ns cm = Some (c, r) \<Longrightarrow> cStatus c = ConditionFalse"
  by (auto simp: check_config_map_def missing_def Let_def dest: assert_false split: sum.splits if_splits)

lemma secret_false: "check_secret V ns s = Some c \<Longrightarrow> cStatus c = ConditionFalse"
  by (auto simp: check_secret_def missing_def Let_def or_else_Some dest: assert_false split: sum.splits if_splits)

lemma mounts_false [fails_false]: "fst (validateExtraMounts V cr) = Some c \<Longrightarrow> cStatus c = ConditionFalse"
  by (auto simp: validateExtraMounts_def mounts_loops split: option.splits prod.splits
      dest!: first_error_SomeD config_map_false secret_false counts_false)

section \<open>What the chain accepts\<close>

definition ssl_ok :: "validation_env \<Rightarrow> broker_cluster \<Rightarrow> bool" where
  "ssl_ok V cr \<longleftrightarrow> (csoleSSLEnabled (bcConsole cr) \<longrightarrow>
     (\<exists>s. ckGetSecret (veKube V) (bcNamespace cr)
            (if csoleSSLSecret (bcConsole cr) \<noteq> '''' then csoleSSLSecret (bcConsole cr)
             else Generate (bcName cr) ''console'' ''secret'') = Inr s \<and>
        (\<forall>key \<in> {''keyStorePassword'', ''trustStorePassword''}. holds_key s key) \<and>
        (\<exists>key \<in> {''keyStorePath'', ''broker.ks''}. holds_key s key) \<and>
        (\<exists>key \<in> {''trustStorePath'', ''client.ts''}. holds_key s key)))"

lemma contains_one_check:
  "AssertSecretContainsOneOf s keys m = None \<longleftrightarrow>
     (if fst (IsSecretFromCert s) then snd (IsSecretFromCert s) else \<exists>key \<in> set keys. holds_key s key)"
  by (auto simp: AssertSecretContainsOneOf_def holds_key_def list_ex_iff split: prod.splits)

lemma contains_one_holds: "keys \<noteq> [] \<Longrightarrow> AssertSecretContainsOneOf s keys m = None \<longleftrightarrow> (\<exists>key \<in> set keys. holds_key s key)"
  by (cases keys) (auto simp: contains_one_check holds_key_def)

lemma ssl_secret_check:
  "or_else (first_error (\<lambda>key. AssertSecretContainsKey s key m) keys)
     (or_else (AssertSecretContainsOneOf s (k # ks) m) (AssertSecretContainsOneOf s (k' # ks') m)) = None \<longleftrightarrow>
   (\<forall>key \<in> set keys. holds_key s key) \<and> (\<exists>key \<in> set (k # ks). holds_key s key) \<and>
   (\<exists>key \<in> set (k' # ks'). holds_key s key)"
  unfolding or_else_None first_error_None contains_key_check by (simp add: contains_one_holds)

lemma ssl_check: "fst (validateSSLEnabledSecrets V cr) = None \<longleftrightarrow> ssl_ok V cr"
  unfolding validateSSLEnabledSecrets_def ssl_ok_def Let_def
  by (cases "csoleSSLEnabled (bcConsole cr)")
    (simp_all only: if_True if_False fst_conv simp_thms ssl_secret_check list.set split: sum.split, auto)

definition version_ok :: "validation_env \<Rightarrow> broker_cluster \<Rightarrow> bool" where
  "version_ok V cr \<longleftrightarrow> (\<exists>v. ResolveBrokerVersionFromCR (veVersions V) (image_spec_of cr) = Inr v)"

definition accepted :: "condition option \<Rightarrow> bool" where
  "accepted check \<longleftrightarrow> (\<forall>c. check = Some c \<longrightarrow> cStatus c \<noteq> ConditionFalse)"

lemma version_check: "accepted (ValidateBrokerImageVersion S spec) \<longleftrightarrow> (\<exists>v. ResolveBrokerVersionFromCR S spec = Inr v)"
  by (auto simp: accepted_def ValidateBrokerImageVersion_def version_invalid_def version_unknown_def split: sum.splits)

lemma accepted_None: "(\<And>c. check = Some c \<Longrightarrow> cStatus c = ConditionFalse) \<Longrightarrow> accepted check \<longleftrightarrow> check = None"
  by (cases check) (auto simp: accepted_def)

lemma link_accepts:
  "cStatus (fst (link check st)) \<noteq> ConditionFalse \<longleftrightarrow> cStatus (fst st) \<noteq> ConditionFalse \<and> accepted (fst check)"
  by (auto simp: link_def accepted_def split: option.splits)

lemma link_keep_accepts:
  "cStatus (fst (link_keep check st)) \<noteq> ConditionFalse \<longleftrightarrow> cStatus (fst st) \<noteq> ConditionFalse \<and> accepted check"
  by (simp add: link_keep_def link_accepts)

text \<open>What a resource has to satisfy, with no order of checks and no messages.\<close>

text \<open>The part that is checked before the secret of the console.\<close>

definition valid_before_ssl :: "validation_env \<Rightarrow> broker_cluster \<Rightarrow> bool" where
  "valid_before_ssl V cr \<longleftrightarrow>
     mounts_held V cr \<and> mounts_allowed cr \<and>
     (\<nexists>sel. map_option bgSelector (dpPodDisruptionBudget (bcPlan cr)) = Some (Some sel)) \<and>
     DuplicateKeyIn (bcBrokerProperties cr) = '''' \<and>
     (dpPersistenceEnabled (bcPlan cr) \<and> dpStorageSize (bcPlan cr) \<noteq> '''' \<longrightarrow>
        veParseQuantity V (dpStorageSize (bcPlan cr)) = None) \<and>
     distinct (explicit_ports (bcAcceptors cr))"

definition valid_cluster :: "validation_env \<Rightarrow> broker_cluster \<Rightarrow> bool" where
  "valid_cluster V cr \<longleftrightarrow>
     valid_before_ssl V cr \<and> ssl_ok V cr \<and> version_ok V cr \<and>
     labels_ok (dpLabels (bcPlan cr) # bcTemplateLabels cr) \<and> exposure_ok (veOnOpenShift V) cr \<and> env_ok cr"

lemma chain_accepts:
  assumes "range_ok (veOrder V)"
  shows "cStatus (fst (validation_chain V cr)) \<noteq> ConditionFalse \<longleftrightarrow> valid_cluster V cr"
  unfolding validation_chain_def Let_def link_accepts link_keep_accepts
  by (simp add: accepted_None fails_false mounts_check [OF assms] pdb_check dup_keys_check storage_check ports_check
      ssl_check version_check reserved_labels_check [OF assms] expose_check env_check valid_cluster_def
      valid_before_ssl_def version_ok_def)

text \<open>Only the two checks that read other resources ask for a retry, and only as they fail.\<close>

lemma ssl_retry: "snd (validateSSLEnabledSecrets V cr) \<longleftrightarrow> fst (validateSSLEnabledSecrets V cr) \<noteq> None"
  by (auto simp: validateSSLEnabledSecrets_def Let_def split: sum.splits)

lemma link_snd:
  "snd (link check st) = (if cStatus (fst st) \<noteq> ConditionFalse then snd check else snd st)"
  by (simp add: link_def)

lemma link_keep_snd: "snd (link_keep check st) = snd st"
  by (simp add: link_keep_def link_def)

text \<open>Where the retry of the chain comes from.\<close>

lemma link_false: "cStatus (fst st) = ConditionFalse \<Longrightarrow> link check st = st"
  by (simp add: link_def)

lemma link_keep_false: "cStatus (fst st) = ConditionFalse \<Longrightarrow> link_keep check st = st"
  by (simp add: link_keep_def link_def)

lemma chain_retry:
  assumes ord: "range_ok (veOrder V)"
  shows "snd (validation_chain V cr) \<longleftrightarrow> mount_missing V cr \<or> valid_before_ssl V cr \<and> \<not> ssl_ok V cr"
proof -
  define s0 where "s0 = (mk_condition ValidConditionType ConditionTrue ValidConditionSuccessReason '''', False)"
  define s1 where "s1 = link (validateExtraMounts V cr) s0"
  define s2 where "s2 = link_keep (validatePodDisruption cr) s1"
  define s3 where "s3 = link (validateNoDupKeysInBrokerProperties cr, False) s2"
  define s4 where "s4 = link (validateStorage (veParseQuantity V) cr, False) s3"
  define s5 where "s5 = link (validateAcceptorPorts cr, False) s4"
  define s6 where "s6 = link (validateSSLEnabledSecrets V cr) s5"
  define s7 where "s7 = link_keep (ValidateBrokerImageVersion (veVersions V) (image_spec_of cr)) s6"
  define s8 where "s8 = link_keep (validateReservedLabels (veOrder V) cr) s7"
  define s9 where "s9 = link (validateExposeModes (veOnOpenShift V) cr, False) s8"
  note defs = s0_def s1_def s2_def s3_def s4_def s5_def s6_def s7_def s8_def s9_def
  let ?ok = "\<lambda>s. cStatus (fst s) \<noteq> ConditionFalse"
  have s0: "?ok s0" by (simp add: s0_def)
  have missing: "mount_missing V cr \<Longrightarrow> \<not> ?ok s1"
    using mounts_check [OF ord, of cr] missing_unheld [of V cr]
    by (simp add: s1_def link_accepts accepted_None [OF mounts_false])
  have s1: "snd s1 \<longleftrightarrow> mount_missing V cr" using s0 by (simp add: s1_def link_snd mounts_retry [OF ord])
  have plain: "snd (link (check, False) s) \<longleftrightarrow> mount_missing V cr"
    if "snd s \<longleftrightarrow> mount_missing V cr" "mount_missing V cr \<Longrightarrow> \<not> ?ok s" for check s
    using that by (auto simp: link_snd)
  have stays: "\<not> ?ok s \<Longrightarrow> \<not> ?ok (link check s)" "\<not> ?ok s \<Longrightarrow> \<not> ?ok (link_keep check' s)" for check check' s
    by (simp_all add: link_accepts link_keep_accepts)
  have s5: "snd s5 \<longleftrightarrow> mount_missing V cr"
    unfolding s5_def s4_def s3_def s2_def using s1 missing by (intro plain stays) (simp_all add: link_keep_snd)
  have ok5: "?ok s5 \<longleftrightarrow> valid_before_ssl V cr"
    unfolding s5_def s4_def s3_def s2_def s1_def link_accepts link_keep_accepts using s0
    by (simp add: accepted_None fails_false mounts_check [OF ord] pdb_check dup_keys_check storage_check ports_check
        valid_before_ssl_def)
  have s6: "snd s6 \<longleftrightarrow> mount_missing V cr \<or> valid_before_ssl V cr \<and> \<not> ssl_ok V cr"
    using s5 ok5 ssl_check [of V cr] ssl_retry [of V cr] missing_unheld [of V cr]
    by (auto simp: s6_def link_snd valid_before_ssl_def)
  have ok6: "snd s6 \<Longrightarrow> \<not> ?ok s6"
    using s6 ok5 ssl_check [of V cr] missing_unheld [of V cr]
    by (auto simp: s6_def link_accepts accepted_None [OF ssl_false] valid_before_ssl_def)
  have "snd (link (validateEnvVars cr, False) s9) \<longleftrightarrow> snd s6"
  proof (cases "?ok s9")
    case True
    then have "?ok s6" unfolding s9_def s8_def s7_def by (simp add: link_accepts link_keep_accepts)
    with True ok6 show ?thesis by (auto simp: link_snd)
  next
    case False
    have "snd s9 \<longleftrightarrow> snd s6"
      using ok6 unfolding s9_def s8_def s7_def by (auto simp: link_snd link_keep_snd link_keep_accepts)
    with False show ?thesis by (simp add: link_snd)
  qed
  with s6 show ?thesis by (simp add: validation_chain_def Let_def defs)
qed

end
