(* ===== verification/Cluster_Properties.thy ===== *)
theory Cluster_Properties
  imports Scale_Progress Cluster_Validation Sample_Cluster
begin

text \<open>
  The properties of the \<open>BrokerCluster\<close> reconciler: scale down without loss, progress, the meaning of its
  conditions, and validation.
\<close>

section \<open>A cluster of two brokers\<close>

text \<open>
  Brokers that answer every call and report every file, and a server that has all pods: brokers that are
  empty, and brokers that share a number of messages of which every call takes one, with an error as long
  as there are some.
\<close>

definition sample_report :: broker_status where
  "sample_report =
     \<lparr>bsConfig = (\<lambda>f. Some \<lparr>prAlder32 = ''1'', prFileAlder32 = '''', prApplyErrors = []\<rparr>),
      bsJaas = (\<lambda>f. None), bsVersion = ''2.40.0''\<rparr>"

definition sample_brokers :: "unit broker_api" where
  "sample_brokers =
     \<lparr>baGetStatus = (\<lambda>w jk. Inr ''{}''), baUnmarshal = (\<lambda>js. Inr sample_report),
      baMarshalErrors = (\<lambda>es. ''[]''), baGetTotalMessageCount = (\<lambda>w jk. Inr ''0''), baScaleDown = (\<lambda>w jk. (None, w))\<rparr>"

definition busy_brokers :: "nat broker_api" where
  "busy_brokers =
     \<lparr>baGetStatus = (\<lambda>w jk. Inr ''{}''), baUnmarshal = (\<lambda>js. Inr sample_report),
      baMarshalErrors = (\<lambda>es. ''[]''), baGetTotalMessageCount = (\<lambda>w jk. Inr (if w = 0 then ''0'' else ''7'')),
      baScaleDown = (\<lambda>w jk. (if w = 0 then None else Some ''busy'', w - 1))\<rparr>"

definition sample_cluster_kube :: cluster_kube where
  "sample_cluster_kube =
     \<lparr>ckClusterDomain = ''cluster.local'',
      ckGetSecret = (\<lambda>ns n. Inr \<lparr>secName = n, secNamespace = ns, secResourceVersion = ''1'', secAnnotations = [], secData = []\<rparr>),
      ckGetConfigMap = (\<lambda>ns n. Inl (NotFound ''not found'')), ckGetStatefulSet = (\<lambda>ns n. Inl (NotFound ''not found'')),
      ckGetPod = (\<lambda>ns n. Inr \<lparr>podPhase = ''Running'', podConditions = []\<rparr>)\<rparr>"

definition env_with_brokers :: "'w broker_api \<Rightarrow> 'w status_env" where
  "env_with_brokers B =
     \<lparr>teMeta = meta_instance, teOrder = (\<lambda>ks. ks), teKube = sample_cluster_kube, teBrokers = B,
      teVersions = semver_instance, teJson = (\<lambda>d. Inl ''no JSON''), teDesired = (\<lambda>n. None)\<rparr>"

definition sample_status_env :: "unit status_env" where
  "sample_status_env = env_with_brokers sample_brokers"

definition sample_plan :: "int32 \<Rightarrow> deployment_plan" where
  "sample_plan n =
     zero_plan\<lparr>dpSize := Some n\<rparr>"

definition sample_cluster_status :: "int32 \<Rightarrow> cluster_status" where
  "sample_cluster_status n =
     \<lparr>stConditions = [mk_condition DeployedConditionType ConditionTrue DeployedConditionReadyReason ''''],
      stPodStatus = no_pods, stDeploymentPlanSize = n, stScaleLabelSelector = '''', stExternalConfigs = [],
      stVersion = \<lparr>vsImage = '''', vsInitImage = '''', vsBrokerVersion = '''',
        vsUpgrade = \<lparr>SecurityUpdates = False, MajorUpdates = False, MinorUpdates = False, PatchUpdates = False\<rparr>\<rparr>\<rparr>"

text \<open>A cluster that asks for \<open>req\<close> brokers and runs \<open>n\<close>.\<close>

definition sample_broker_cluster :: "int32 \<Rightarrow> int32 \<Rightarrow> broker_cluster" where
  "sample_broker_cluster req n =
     \<lparr>bcKind = ''BrokerCluster'', bcAPIVersion = ''broker.arkmq.org/v1beta2'', bcNamespace = ''dev'', bcName = ''amq'',
      bcUID = ''u'', bcGeneration = 1, bcAnnotations = [], bcRestricted = None,
      bcVersion = '''', bcAdminUser = '''', bcAdminPassword = '''', bcPlan = sample_plan req, bcAcceptors = [], bcConnectors = [],
      bcConsole = zero_console,
      bcAddressSettings = \<lparr>ApplyRule = None, AddressSetting = []\<rparr>,
      bcBrokerProperties = [ScaleDownConfigTrigger], bcEnv = [], bcIngressDomain = '''', bcTemplates = [],
      bcStatus = sample_cluster_status n\<rparr>"

lemma sample_status_env_sel [simp]:
  "teMeta sample_status_env = meta_instance" "teKube sample_status_env = sample_cluster_kube"
  "teBrokers sample_status_env = sample_brokers" "teVersions sample_status_env = semver_instance"
  by (simp_all add: sample_status_env_def env_with_brokers_def)

lemma sample_broker_cluster_sel [simp]:
  "bcName (sample_broker_cluster q n) = ''amq''" "bcNamespace (sample_broker_cluster q n) = ''dev''"
  "bcPlan (sample_broker_cluster q n) = sample_plan q" "bcStatus (sample_broker_cluster q n) = sample_cluster_status n"
  "bcBrokerProperties (sample_broker_cluster q n) = [ScaleDownConfigTrigger]"
  "bcAcceptors (sample_broker_cluster q n) = []" "GetDeploymentSize (sample_broker_cluster q n) = q"
  "isClustered (sample_broker_cluster q n)" "migrates (sample_broker_cluster q n)"
  "CrConfiguredForControllerManagedScaleDown (sample_broker_cluster q n)"
  by (simp_all add: sample_broker_cluster_def GetDeploymentSize_def isClustered_def migrates_def sample_plan_def zero_plan_def
      CrConfiguredForControllerManagedScaleDown_def)

lemma sample_conditions [simp]:
  "stConditions (sample_cluster_status n) = [mk_condition DeployedConditionType ConditionTrue DeployedConditionReadyReason '''']"
  "stDeploymentPlanSize (sample_cluster_status n) = n"
  by (simp_all add: sample_cluster_status_def)

lemma healthy_of:
  assumes "baGetStatus B = (\<lambda>w jk. Inr ''{}'')" "baUnmarshal B = (\<lambda>js. Inr sample_report)"
  shows "healthy (env_with_brokers B) (sample_broker_cluster q n)"
proof -
  have "project (env_with_brokers B) (getPropertiesResourceNsName (sample_broker_cluster q n)) =
      Inr \<lparr>pjName = ''amq-props'', pjResourceVersion = ''1'', pjFiles = []\<rparr>"
    by (simp add: project_def getSecretProjection_def getPropertiesResourceNsName_def env_with_brokers_def
        sample_cluster_kube_def newProjectionFromByteValues_def List.map_filter_def)
  with assms show ?thesis
    by (simp add: healthy_def meta_instance_ok good_status_def sample_cluster_kube_def sample_report_def sample_plan_def zero_plan_def
        projection_check_def env_with_brokers_def Let_def)
qed

lemma sample_healthy: "healthy sample_status_env (sample_broker_cluster q n)"
  unfolding sample_status_env_def by (rule healthy_of) (simp_all add: sample_brokers_def)

lemma shrinking_of:
  assumes "healthy (env_with_brokers B) (sample_broker_cluster q n)" "1 \<le> sint q" "sint q \<le> sint n"
  shows "shrinking (env_with_brokers B) (sample_broker_cluster q n) n"
  using assms by (simp add: shrinking_def managed_cluster_def distinct_types_def deployed_def meta_find_eq meta_instance_ok
      env_with_brokers_def)

lemma sample_shrinking: "1 \<le> sint q \<Longrightarrow> sint q \<le> sint n \<Longrightarrow> shrinking sample_status_env (sample_broker_cluster q n) n"
  using shrinking_of [of sample_brokers] sample_healthy by (simp add: sample_status_env_def)

lemma parse_seven: "ParseInt ''7'' = Inr 7"
  using atoi_itoa [of 7] by (simp add: ParseInt_def itoa_def nat_to_string.simps digit_chars)

text \<open>Between the rounds the busy brokers do nothing by themselves.\<close>

lemma busy_drains: "drains busy_brokers (\<lambda>w. w) (\<lambda>w jk. w)"
  by (simp add: drains_def busy_brokers_def parse_zero parse_seven)

lemma busy_shrinking: "1 \<le> sint q \<Longrightarrow> sint q \<le> sint n \<Longrightarrow> shrinking (env_with_brokers busy_brokers) (sample_broker_cluster q n) n"
  by (rule shrinking_of) (simp_all add: healthy_of busy_brokers_def)

lemma sample_not_scaling [simp]: "FindStatusCondition meta_instance
    [mk_condition DeployedConditionType ConditionTrue DeployedConditionReadyReason ''''] ScaleDownPendingConditionType = None"
  by (simp add: meta_find_eq meta_instance_ok)


lemma shrinking_stored:
  assumes "shrinking E cr n" "keeps (teMeta E) (bcConditions cr) cs"
  shows "shrinking E (stored_status cr (set_conditions cs (with_migration cr))) n"
proof -
  let ?cr = "stored_status cr (set_conditions cs (with_migration cr))"
  have "healthy E ?cr" using assms(1) by (subst healthy_cong [of _ cr]) (simp_all add: shrinking_def)
  then show ?thesis using assms
    by (simp add: shrinking_def keeps_def managed_cluster_def deployed_def GetDeploymentSize_def
        CrConfiguredForControllerManagedScaleDown_def isClustered_def migrates_def)
qed

section \<open>Scale down\<close>


lemma drain_two [simp]: "OrdinalToDrain 2 = 1"
  by (simp add: OrdinalToDrain_def)




text \<open>
  C30: the condition of the scale down outlives its trigger.  A plan without the property that hands the
  scale down to the operator keeps a pending deletion in the status whatever size is asked for; a later plan
  with the property, over a set grown back to that pod, takes the pod off at once: the session, and with it
  every broker, is left as it was, so no message was counted.
\<close>

theorem stale_condition_skips_drain:
  assumes "meta_ok M" "distinct_types (bcConditions cr)" "scaling M cr = Some c"
    and "cReason c = PendingDelete" "cMessage c = ScaleDownConditionPodNameMessage cr (n - 1)"
    and "\<not> CrConfiguredForControllerManagedScaleDown cr"
    and "ProcessDeploymentPlan M K B cr rs S = (cr1, rs1, acts1, S1)"
    and "bcName cr2 = bcName cr1" "bcConditions cr2 = bcConditions cr1"
    and "CrConfiguredForControllerManagedScaleDown cr2" "isClustered cr2" "migrates cr2"
    and "sint n > 1" "sint (GetDeploymentSize cr2) < sint n"
    and "ProcessDeploymentPlan M K B cr2 (Some n) S2 = (cr3, rs3, acts3, S3)"
  shows "rs1 = Some (GetDeploymentSize cr) \<and> rs3 = Some (n - 1) \<and> S3 = S2"
proof -
  have one: "rs1 = Some (GetDeploymentSize cr)" "bcName cr1 = bcName cr" "bcConditions cr1 = bcConditions cr"
    using assms(6,7) by (auto simp: ProcessDeploymentPlan_def Let_def)
  have sc: "scaling M cr2 = Some c" using assms(3,9) one(3) by simp
  have sd: "scaling_down (with_migration cr2) (migrates cr2) (Some n) (GetDeploymentSize cr2)"
    using assms(11-14) by (simp add: scaling_down_def)
  have name: "bcName (with_migration cr2) = bcName cr" using assms(8) one(2) by simp
  from plan_managed [OF assms(10,15)] sd sc assms(4,5) message_name [OF name]
  have "rs3 = Some (n - 1) \<and> S3 = S2"
    by (auto simp: controllerManagedScaledownViaConditions_def Let_def pending_delete_def OrdinalToDrain_def)
  with one(1) show ?thesis by blast
qed

definition stale_cluster :: "string list \<Rightarrow> int32 \<Rightarrow> broker_cluster" where
  "stale_cluster props n = (set_conditions [mk_condition ScaleDownPendingConditionType ConditionTrue PendingDelete
     (ScaleDownConditionPodNameMessage (sample_broker_cluster 1 1) 1)] (sample_broker_cluster n 1))
     \<lparr>bcBrokerProperties := props\<rparr>"

lemma stale_cluster_sel [simp]:
  "bcName (stale_cluster ps n) = ''amq''" "GetDeploymentSize (stale_cluster ps n) = n"
  "bcBrokerProperties (stale_cluster ps n) = ps" "isClustered (stale_cluster ps n)" "migrates (stale_cluster ps n)"
  "bcConditions (stale_cluster ps n) = [mk_condition ScaleDownPendingConditionType ConditionTrue PendingDelete
     (ScaleDownConditionPodNameMessage (sample_broker_cluster 1 1) 1)]"
  by (simp_all add: stale_cluster_def set_conditions_def GetDeploymentSize_def sample_plan_def zero_plan_def isClustered_def migrates_def
      sample_broker_cluster_def)

theorem stale_condition_skips_drain_witness:
  "\<exists>cr1 acts1 cr3 acts3.
     ProcessDeploymentPlan meta_instance sample_cluster_kube sample_brokers (stale_cluster [] 2) (Some 1) (new_session ()) =
       (cr1, Some 2, acts1, new_session ()) \<and>
     ProcessDeploymentPlan meta_instance sample_cluster_kube sample_brokers (stale_cluster [ScaleDownConfigTrigger] 1)
       (Some 2) (new_session ()) = (cr3, Some 1, acts3, new_session ())"
proof -
  let ?c1 = "stale_cluster [] 2" and ?c2 = "stale_cluster [ScaleDownConfigTrigger] 1"
  let ?P = "ProcessDeploymentPlan meta_instance sample_cluster_kube sample_brokers"
  obtain cr1 rs1 acts1 S1 where a: "?P ?c1 (Some 1) (new_session ()) = (cr1, rs1, acts1, S1)" by (metis prod_cases4)
  obtain cr3 rs3 acts3 S3 where b: "?P ?c2 (Some 2) (new_session ()) = (cr3, rs3, acts3, S3)" by (metis prod_cases4)
  let ?c = "mk_condition ScaleDownPendingConditionType ConditionTrue PendingDelete
     (ScaleDownConditionPodNameMessage (sample_broker_cluster 1 1) 1)"
  have t: "\<not> CrConfiguredForControllerManagedScaleDown ?c1" "CrConfiguredForControllerManagedScaleDown ?c2"
    by (simp_all add: CrConfiguredForControllerManagedScaleDown_def)
  have "cr1 = with_migration ?c1 \<and> S1 = new_session ()"
    using a t(1) by (auto simp: ProcessDeploymentPlan_def Let_def with_migration_def migrates_def)
  then have same: "bcName ?c2 = bcName cr1" "bcConditions ?c2 = bcConditions cr1" "S1 = new_session ()" by simp_all
  have c: "scaling meta_instance ?c1 = Some ?c" "distinct_types (bcConditions ?c1)"
    "cMessage ?c = ScaleDownConditionPodNameMessage ?c1 (2 - 1)"
    using message_name [of ?c1 "sample_broker_cluster 1 1"] by (simp_all add: meta_find_eq meta_instance_ok distinct_types_def)
  from stale_condition_skips_drain [OF meta_instance_ok c(2,1) _ c(3) t(1) a same(1,2) t(2) _ _ _ _ b] a b same(3)
  show ?thesis by simp
qed

text \<open>
  the status that is lost.  The set is written before the status, so a reconcile that grows a set whose
  stored condition still names the deletion of a pod can grow it and leave that condition stored; a plan for
  a smaller size then takes the pod that came back off at once: the session is left as it was, so no broker
  was asked for its messages.
\<close>

theorem lost_growth_status_skips_drain:
  assumes M: "meta_ok M" "teMeta E = M" "distinct_types (bcConditions cr)"
    and cond: "scaling M cr = Some c" "cReason c = PendingDelete" "cMessage c = ScaleDownConditionPodNameMessage cr (n - 1)"
    and grow: "CrConfiguredForControllerManagedScaleDown cr" "sint m < sint n"
      "plan_scale E cr m w = (cr1, Some n, actions, S)"
    and later: "bcName cr2 = bcName cr" "bcConditions cr2 = bcConditions cr" "CrConfiguredForControllerManagedScaleDown cr2"
      "isClustered cr2" "migrates cr2" "sint n > 1" "sint (GetDeploymentSize cr2) < sint n"
      "plan_scale E cr2 n w2 = (cr3, rs, actions3, S3)"
  shows "scaling M cr1 = None \<and>
    scale_step M \<lparr>scCluster = cr, scReplicas = m, scWorld = w, scSeenEmpty = H, scStale = G\<rparr>
      \<lparr>scCluster = cr, scReplicas = n, scWorld = w', scSeenEmpty = {}, scStale = G \<union> H\<rparr> \<and>
    rs = Some (n - 1) \<and> S3 = new_session w2"
proof -
  have E: "meta_ok (teMeta E)" using M(1,2) by simp
  have "m - 1 \<noteq> n" if "sint m > 1" using drain_less [OF that] grow(2) by (auto simp: OrdinalToDrain_def)
  with plan_cases [OF E M(3) grow(1,3)] grow(2) have one: "scaling M cr1 = None"
    by (auto simp: M(2) OrdinalToDrain_def scaling_down_def split: if_splits)
  have step: "scale_step M \<lparr>scCluster = cr, scReplicas = m, scWorld = w, scSeenEmpty = H, scStale = G\<rparr>
      \<lparr>scCluster = cr, scReplicas = n, scWorld = w', scSeenEmpty = {}, scStale = G \<union> H\<rparr>"
    using scale_step.status_lost [OF M(2) grow(3), of n H G w'] grow(2) by (simp add: seen_since_def)
  have sc: "scaling M cr2 = Some c" using cond(1) later(2) by simp
  have sd: "scaling_down (with_migration cr2) (migrates cr2) (Some n) (GetDeploymentSize cr2)"
    using later(4-7) by (simp add: scaling_down_def)
  have name: "bcName (with_migration cr2) = bcName cr" using later(1) by simp
  from plan_managed [OF later(3,8) [unfolded plan_scale_def M(2)]] sd sc cond(2,3) message_name [OF name]
  have "rs = Some (n - 1) \<and> S3 = new_session w2"
    by (auto simp: controllerManagedScaledownViaConditions_def Let_def pending_delete_def OrdinalToDrain_def)
  with one step show ?thesis by blast
qed

theorem lost_growth_status_skips_drain_witness:
  "\<exists>cr1 actions1 S1 cr3 actions3.
     plan_scale sample_status_env (stale_cluster [ScaleDownConfigTrigger] 2) 1 () = (cr1, Some 2, actions1, S1) \<and>
     scale_step meta_instance
       \<lparr>scCluster = stale_cluster [ScaleDownConfigTrigger] 2, scReplicas = 1, scWorld = (), scSeenEmpty = {1}, scStale = {}\<rparr>
       \<lparr>scCluster = stale_cluster [ScaleDownConfigTrigger] 2, scReplicas = 2, scWorld = (), scSeenEmpty = {}, scStale = {1}\<rparr> \<and>
     plan_scale sample_status_env (stale_cluster [ScaleDownConfigTrigger] 1) 2 () = (cr3, Some 1, actions3, new_session ())"
proof -
  let ?E = "sample_status_env" and ?c1 = "stale_cluster [ScaleDownConfigTrigger] 2"
    and ?c2 = "stale_cluster [ScaleDownConfigTrigger] 1"
  let ?c = "mk_condition ScaleDownPendingConditionType ConditionTrue PendingDelete
     (ScaleDownConditionPodNameMessage (sample_broker_cluster 1 1) 1)"
  have t: "CrConfiguredForControllerManagedScaleDown ?c1" "CrConfiguredForControllerManagedScaleDown ?c2"
    by (simp_all add: CrConfiguredForControllerManagedScaleDown_def)
  have c: "distinct_types (bcConditions ?c1)" "scaling meta_instance ?c1 = Some ?c"
    "cMessage ?c = ScaleDownConditionPodNameMessage ?c1 (2 - 1)"
    using message_name [of ?c1 "sample_broker_cluster 1 1"] by (simp_all add: meta_find_eq meta_instance_ok distinct_types_def)
  obtain cr1 rs1 a1 S1 where one: "plan_scale ?E ?c1 1 () = (cr1, rs1, a1, S1)" by (metis prod_cases4)
  from plan_cases [OF _ c(1) t(1) one] have "rs1 = Some 2" by (simp add: scaling_down_def meta_instance_ok)
  with one have grow: "plan_scale ?E ?c1 1 () = (cr1, Some 2, a1, S1)" by simp
  obtain cr3 rs3 a3 S3 where two: "plan_scale ?E ?c2 2 () = (cr3, rs3, a3, S3)" by (metis prod_cases4)
  from lost_growth_status_skips_drain [OF meta_instance_ok _ c(1,2) _ c(3) t(1) _ grow _ _ t(2) _ _ _ _ two,
      of "{1}" "{}" "()"] grow two
  show ?thesis by simp
qed

section \<open>The endpoint that is asked\<close>

definition pod_endpoint :: "cluster_kube \<Rightarrow> string \<Rightarrow> string \<Rightarrow> nat \<Rightarrow> jk_info" where
  "pod_endpoint K c ns i = \<lparr>jkIP = OrdinalFQDNS (ckClusterDomain K) c ns (of_nat i), jkOrdinal = itoa (int i)\<rparr>"

lemma brokers_from_le: "length (brokers_from K c ns i n) \<le> n"
  by (induction n arbitrary: i) (auto split: sum.split intro: le_SucI)

lemma brokers_from_all:
  "length (brokers_from K c ns i n) = n \<Longrightarrow> brokers_from K c ns i n = map (pod_endpoint K c ns) [i..<i + n]"
proof (induction n arbitrary: i)
  case (Suc n)
  have "[i..<i + Suc n] = i # [Suc i..<Suc i + n]" by (simp add: upt_rec)
  moreover from Suc.prems brokers_from_le [of K c ns "Suc i" n] have
    "brokers_from K c ns i (Suc n) = pod_endpoint K c ns i # brokers_from K c ns (Suc i) n"
    "length (brokers_from K c ns (Suc i) n) = n"
    by (auto simp: pod_endpoint_def split: sum.splits)
  ultimately show ?case using Suc.IH [of "Suc i"] by (simp only: list.map simp_thms)
qed simp

text \<open>
  the count is the drained pod's.  The endpoints are the pods that were found, by position, so a
  missing pod would shift them; as long as the status has no more pods than the set, a count that is
  returned was asked of the broker of the very ordinal that is about to go.
\<close>

theorem count_from_drained_pod:
  assumes "sint k \<ge> 0" "sint (stDeploymentPlanSize (bcStatus cr)) \<le> sint k + 1"
    and "GetTotalMessageCount K B cr k (new_session w) = (Inr v, S')"
  shows "\<exists>text. baGetTotalMessageCount B w
      \<lparr>jkIP = OrdinalFQDNS (ckClusterDomain K) (SSToCr (CrToSS (bcName cr))) (bcNamespace cr) k, jkOrdinal = itoa (sint k)\<rparr> =
        Inr text \<and> ParseInt text = Inr v"
proof -
  let ?S = "resolveJolokiaEndpoints K cr (new_session w)" and ?c = "SSToCr (CrToSS (bcName cr))"
  let ?m = "nat (sint (stDeploymentPlanSize (bcStatus cr)))"
  have eps: "endpoints ?S = brokers_from K ?c (bcNamespace cr) 0 ?m" "snWorld ?S = w"
    by (simp_all add: resolveJolokiaEndpoints_def new_session_def endpoints_def GetBrokers_def GetBrokersFromDNS_def)
  have more: "sint k < int (length (endpoints ?S))"
    and run: "\<exists>text. baGetTotalMessageCount B w (endpoints ?S ! nat (sint k)) = Inr text \<and> ParseInt text = Inr v"
    using assms(3) eps(2)
    by (auto simp: GetTotalMessageCount_def resolveAndValidateJolokia_def Let_def split: if_splits sum.splits)
  from more assms(1,2) brokers_from_le [of K ?c "bcNamespace cr" 0 ?m] have m: "?m = nat (sint k) + 1"
    "length (brokers_from K ?c (bcNamespace cr) 0 ?m) = ?m"
    unfolding eps(1) by linarith+
  have "(of_nat (nat (sint k)) :: int32) = k"
    using assms(1) by (simp add: of_nat_nat)
  then have "endpoints ?S ! nat (sint k) =
      \<lparr>jkIP = OrdinalFQDNS (ckClusterDomain K) ?c (bcNamespace cr) k, jkOrdinal = itoa (sint k)\<rparr>"
    unfolding eps(1) brokers_from_all [OF m(2)] using m(1) assms(1) by (simp add: pod_endpoint_def del: upt_Suc)
  with run show ?thesis by simp
qed

theorem count_from_drained_pod_witness:
  "\<exists>text. baGetTotalMessageCount sample_brokers ()
     \<lparr>jkIP = OrdinalFQDNS (ckClusterDomain sample_cluster_kube) (SSToCr (CrToSS ''amq'')) ''dev'' 1, jkOrdinal = itoa 1\<rparr> = Inr text"
proof -
  have "\<exists>S'. GetTotalMessageCount sample_cluster_kube sample_brokers (sample_broker_cluster 1 2) 1 (new_session ()) = (Inr 0, S')"
    using count_answer [OF sample_healthy session_ok_new, of 1 1 2 "()" "''0''" 0] parse_zero
    by (auto simp: sample_brokers_def)
  then obtain S' where "GetTotalMessageCount sample_cluster_kube sample_brokers (sample_broker_cluster 1 2) 1 (new_session ()) = (Inr 0, S')"
    by blast
  from count_from_drained_pod [OF _ _ this] show ?thesis by auto
qed

section \<open>What the condition of the configuration means\<close>

text \<open>A broker runs the files of a projection: no file differs, fails to apply, or is missing that must be seen.\<close>

definition runs_files :: "string \<Rightarrow> projection \<Rightarrow> (string \<Rightarrow> properties_status option) \<Rightarrow> bool" where
  "runs_files podName P status \<longleftrightarrow>
     (\<forall>name \<in> fst ` set (pjFiles P).
        case status name of
          None \<Rightarrow> may_be_absent name
        | Some current \<Rightarrow> check_sums podName name (file_of P name) current = None \<and> prApplyErrors current = [])"

lemma check_files_fine:
  "(\<exists>d. check_files B pod P st names (mk, ae) = Inr ([], d) \<and> d = None) \<longleftrightarrow>
     mk = [] \<and> ae = None \<and> (\<forall>name \<in> set names. case st name of
        None \<Rightarrow> may_be_absent name
      | Some cur \<Rightarrow> check_sums pod name (file_of P name) cur = None \<and> prApplyErrors cur = [])"
proof (induction names arbitrary: mk ae)
  case (Cons name names)
  show ?case
  proof (cases "st name")
    case None
    with Cons.IH show ?thesis by simp
  next
    case (Some cur)
    with Cons.IH show ?thesis by (cases "check_sums pod name (file_of P name) cur") auto
  qed
qed auto

lemma projection_check_exact:
  assumes "range_ok ord"
  shows "projection_check ord B cr P ex st jk = None \<longleftrightarrow> runs_files (CrToSS (bcName cr) @ ''-'' @ jkOrdinal jk) P (ex st)"
proof -
  let ?pod = "CrToSS (bcName cr) @ ''-'' @ jkOrdinal jk"
  have "projection_check ord B cr P ex st jk = None \<longleftrightarrow>
      (\<exists>d. check_files B ?pod P (ex st) (ord (map fst (pjFiles P))) ([], None) = Inr ([], d) \<and> d = None)"
    by (auto simp: projection_check_def missing_keys_error_def Let_def split: sum.split option.split)
  also have "\<dots> \<longleftrightarrow> runs_files ?pod P (ex st)"
    unfolding check_files_fine runs_files_def using assms by simp
  finally show ?thesis .
qed

text \<open>What one call to a broker returns, and a cache that holds nothing else.\<close>

definition reports :: "'w broker_api \<Rightarrow> 'w \<Rightarrow> jk_info \<Rightarrow> broker_status \<Rightarrow> bool" where
  "reports B w jk st \<longleftrightarrow> (\<exists>js. baGetStatus B w jk = Inr js \<and> baUnmarshal B js = Inr st)"

definition cache_true :: "'w broker_api \<Rightarrow> 'w \<Rightarrow> jk_info list \<Rightarrow> 'w session \<Rightarrow> bool" where
  "cache_true B w eps S \<longleftrightarrow>
     snWorld S = w \<and> (\<forall>k st. map_of (snCache S) k = Some (Inr st) \<longrightarrow> (\<exists>jk \<in> set eps. jkOrdinal jk = k \<and> reports B w jk st))"

lemma get_status_true:
  assumes c: "cache_true B w eps S" and jk: "jk \<in> set eps" and d: "distinct (map jkOrdinal eps)"
    and run: "GetAndCacheBrokerStatus B jk S = (x, S')"
  shows "cache_true B w eps S' \<and> snEndpoints S' = snEndpoints S \<and> (\<forall>st. x = Inr st \<longrightarrow> reports B w jk st)"
proof (cases "map_of (snCache S) (jkOrdinal jk)")
  case (Some y)
  with run have s: "x = y" "S' = S" by (simp_all add: GetAndCacheBrokerStatus_def)
  have "reports B w jk st" if "x = Inr st" for st
  proof -
    from c Some that s(1) obtain jk' where "jk' \<in> set eps" "jkOrdinal jk' = jkOrdinal jk" "reports B w jk' st"
      by (auto simp: cache_true_def)
    with jk d show ?thesis by (auto simp: distinct_map dest: inj_onD)
  qed
  with c s(2) show ?thesis by blast
next
  case None
  define y where "y = (case baGetStatus B (snWorld S) jk of
                Inl err \<Rightarrow> Inl (ArtemisStatusError err True)
              | Inr currentJson \<Rightarrow>
                  (case baUnmarshal B currentJson of
                     Inl err \<Rightarrow> Inl (ArtemisStatusError err False)
                   | Inr status \<Rightarrow> Inr status))"
  have "x = y" "S' = S\<lparr>snCache := (jkOrdinal jk, y) # snCache S\<rparr>"
    using run None by (auto simp: GetAndCacheBrokerStatus_def y_def Let_def)
  moreover have "reports B w jk st" if "y = Inr st" for st
    using that c by (auto simp: y_def reports_def cache_true_def split: sum.splits)
  ultimately show ?thesis using c jk by (auto simp: cache_true_def)
qed

lemma check_endpoints_true:
  assumes "cache_true B w eps S" "set jks \<subseteq> set eps" "distinct (map jkOrdinal eps)"
    and "check_endpoints B chk jks S = (e, S')"
  shows "cache_true B w eps S' \<and> snEndpoints S' = snEndpoints S \<and>
    (e = None \<longrightarrow> (\<forall>jk \<in> set jks. \<exists>st. reports B w jk st \<and> chk st jk = None))"
  using assms
proof (induction jks arbitrary: S)
  case (Cons jk jks)
  obtain x S1 where g: "GetAndCacheBrokerStatus B jk S = (x, S1)" by fastforce
  from get_status_true [OF Cons.prems(1) _ Cons.prems(3) g] Cons.prems(2)
  have c: "cache_true B w eps S1" "snEndpoints S1 = snEndpoints S" "\<forall>st. x = Inr st \<longrightarrow> reports B w jk st" by auto
  show ?case
  proof (cases "\<exists>st. x = Inr st \<and> chk st jk = None")
    case True
    then obtain st where st: "x = Inr st" "chk st jk = None" by blast
    with Cons.prems(4) g have "check_endpoints B chk jks S1 = (e, S')" by (simp add: CheckStatusFromJolokia_def)
    from Cons.IH [OF c(1) _ Cons.prems(3) this] Cons.prems(2) c st show ?thesis by auto
  next
    case False
    have "e \<noteq> None \<and> S' = S1"
    proof (cases x)
      case (Inl err)
      with Cons.prems(4) g show ?thesis by (auto simp: CheckStatusFromJolokia_def)
    next
      case (Inr st)
      with False obtain err where "chk st jk = Some err" by auto
      with g Inr have "check_endpoints B chk (jk # jks) S = (Some err, S1)" by (simp add: CheckStatusFromJolokia_def)
      with Cons.prems(4) show ?thesis by simp
    qed
    with c show ?thesis by auto
  qed
qed simp

lemma brokers_from_ordinals:
  "distinct (map jkOrdinal (brokers_from K c ns i n)) \<and>
     (\<forall>jk \<in> set (brokers_from K c ns i n). \<exists>j \<ge> i. jkOrdinal jk = itoa (int j))"
proof (induction n arbitrary: i)
  case (Suc n)
  let ?rest = "brokers_from K c ns (Suc i) n"
  from Suc [of "Suc i"] have d: "distinct (map jkOrdinal ?rest)"
    and o: "\<forall>jk \<in> set ?rest. \<exists>j \<ge> Suc i. jkOrdinal jk = itoa (int j)" by blast+
  from o have "itoa (int i) \<notin> jkOrdinal ` set ?rest" by (fastforce dest: itoa_inj)
  moreover from o have "\<forall>jk \<in> set ?rest. \<exists>j \<ge> i. jkOrdinal jk = itoa (int j)" using Suc_leD by blast
  ultimately show ?case using d by (auto split: sum.split)
qed simp

lemma all_endpoints_distinct: "distinct (map jkOrdinal (all_endpoints E cr))"
  using brokers_from_ordinals by (simp add: all_endpoints_def GetBrokers_def GetBrokersFromDNS_def)

text \<open>A session at the start of the status: no status was fetched, the endpoints perhaps resolved.\<close>

definition fresh_session :: "'w status_env \<Rightarrow> broker_cluster \<Rightarrow> 'w session \<Rightarrow> bool" where
  "fresh_session E cr S \<longleftrightarrow> snCache S = [] \<and> (\<forall>eps. snEndpoints S = Some eps \<longrightarrow> eps = all_endpoints E cr)"

lemma resolve_true:
  assumes "cache_true B w (all_endpoints E cr) S" "\<forall>eps. snEndpoints S = Some eps \<longrightarrow> eps = all_endpoints E cr"
  shows "cache_true B w (all_endpoints E cr) (resolveJolokiaEndpoints (teKube E) cr S) \<and>
    snEndpoints (resolveJolokiaEndpoints (teKube E) cr S) = Some (all_endpoints E cr)"
  using assms by (auto simp: cache_true_def resolveJolokiaEndpoints_def all_endpoints_def split: option.split)

lemma check_status_true:
  assumes "cache_true (teBrokers E) w (all_endpoints E cr) S" "\<forall>eps. snEndpoints S = Some eps \<longrightarrow> eps = all_endpoints E cr"
    and "CheckStatus (teKube E) (teBrokers E) cr chk S = (e, S')"
  shows "cache_true (teBrokers E) w (all_endpoints E cr) S' \<and> snEndpoints S' = Some (all_endpoints E cr) \<and>
    (e = None \<longrightarrow> all_endpoints E cr \<noteq> [] \<and> (\<forall>jk \<in> set (all_endpoints E cr). \<exists>st. reports (teBrokers E) w jk st \<and> chk st jk = None))"
proof -
  let ?S = "resolveJolokiaEndpoints (teKube E) cr S"
  from resolve_true [OF assms(1,2)] have r: "cache_true (teBrokers E) w (all_endpoints E cr) ?S"
    "snEndpoints ?S = Some (all_endpoints E cr)" by blast+
  show ?thesis
  proof (cases "all_endpoints E cr = []")
    case True
    with assms(3) r show ?thesis by (auto simp: CheckStatus_def Let_def endpoints_def)
  next
    case False
    with assms(3) r(2) have "check_endpoints (teBrokers E) chk (all_endpoints E cr) ?S = (e, S')"
      by (simp add: CheckStatus_def Let_def endpoints_def)
    from check_endpoints_true [OF r(1) subset_refl all_endpoints_distinct this] r(2) False show ?thesis by simp
  qed
qed

lemma trap_not_true: "cStatus (trapErrorAsCondition e t) \<noteq> ConditionTrue"
  by (cases e) (simp_all add: trapErrorAsCondition_def)

lemma jaas_other:
  assumes M: "meta_ok (teMeta E)" and d: "distinct_types (bcConditions cr)" and run: "process_jaas E cr S = (r, cr', S')"
  shows "FindStatusCondition (teMeta E) (bcConditions cr') ConfigAppliedConditionType =
    FindStatusCondition (teMeta E) (bcConditions cr) ConfigAppliedConditionType"
  using assms
  by (auto simp: process_jaas_def AssertJaasPropertiesStatus_def put_status_condition_def meta_find_set
      split: option.splits prod.splits sum.splits)

text \<open>
  C8: the condition of the configuration means what it says.  When the checks of a status end with the
  condition true, the properties secret was projected, there is at least one endpoint, and every endpoint's
  broker reports, with the matching checksum and without an error, every file that must be seen.
\<close>

theorem config_applied_means:
  assumes M: "meta_ok (teMeta E)" and d: "distinct_types (bcConditions cr)" and ord: "range_ok (teOrder E)"
    and fresh: "fresh_session E cr S" and run: "process_checks E cr S = (r, cr', S')"
    and true: "IsStatusConditionTrue (teMeta E) (bcConditions cr') ConfigAppliedConditionType"
  shows "\<exists>P. project E (getPropertiesResourceNsName cr) = Inr P \<and> all_endpoints E cr \<noteq> [] \<and>
    (\<forall>jk \<in> set (all_endpoints E cr). \<exists>st. reports (teBrokers E) (snWorld S) jk st \<and>
       runs_files (CrToSS (bcName cr) @ ''-'' @ jkOrdinal jk) P (bsConfig st))"
proof -
  let ?M = "teMeta E" and ?w = "snWorld S"
  obtain e1 S1 where v: "AssertBrokerImageVersion (teVersions E) (teKube E) (teBrokers E) cr S = (e1, S1)"
    by fastforce
  let ?cr1 = "put_status_condition ?M
    (condition_or_error e1 BrokerVersionAlignedConditionType BrokerVersionAlignedConditionMatchReason) cr"
  obtain e2 cr2 S2 where p: "AssertBrokerPropertiesStatus E ?cr1 S1 = (e2, cr2, S2)" by (metis prod_cases3)
  let ?cr3 = "put_status_condition ?M (condition_or_error e2 ConfigAppliedConditionType ConfigAppliedConditionSynchedReason) cr2"
  obtain r3 S3 where j: "process_jaas E ?cr3 S2 = (r3, cr', S3)"
    using run by (simp add: process_checks_def v p Let_def split: prod.splits)
  have f1: "same_scale ?M cr ?cr1" by (simp add: put_other [OF M])
  have d2: "distinct_types (bcConditions cr2)"
    using assert_properties_frame [OF p, of ?M] f1 d by (simp add: same_scale_def)
  have "e2 = None"
  proof (rule ccontr)
    assume "e2 \<noteq> None"
    then have "cStatus (condition_or_error e2 ConfigAppliedConditionType ConfigAppliedConditionSynchedReason) \<noteq> ConditionTrue"
      by (auto simp: condition_or_error_def trap_not_true)
    then have "\<not> IsStatusConditionTrue ?M (bcConditions ?cr3) ConfigAppliedConditionType"
      using M d2 by (simp add: put_status_condition_def meta_true_find meta_find_set)
    moreover have "FindStatusCondition ?M (bcConditions cr') ConfigAppliedConditionType =
        FindStatusCondition ?M (bcConditions ?cr3) ConfigAppliedConditionType"
      using jaas_other [OF M _ j] M d2 by (simp add: put_status_condition_def)
    ultimately show False using true M by (simp add: meta_true_find) blast
  qed
  then obtain P S2' where P: "project E (getPropertiesResourceNsName ?cr1) = Inr P"
    and c: "CheckStatus (teKube E) (teBrokers E) ?cr1 (projection_check (teOrder E) (teBrokers E) ?cr1 P bsConfig) S1 = (None, S2')"
    using p by (auto simp: AssertBrokerPropertiesStatus_def checkProjectionStatus_def split: sum.splits prod.splits option.splits)
  have n: "bcName ?cr1 = bcName cr" "getPropertiesResourceNsName ?cr1 = getPropertiesResourceNsName cr"
    "all_endpoints E ?cr1 = all_endpoints E cr"
    using f1 same_scale_session(2) [OF f1, of E] by (simp_all add: same_scale_def getPropertiesResourceNsName_def)
  have "cache_true (teBrokers E) ?w (all_endpoints E cr) S" using fresh by (simp add: cache_true_def fresh_session_def)
  from check_status_true [OF this _ v [unfolded AssertBrokerImageVersion_def]] fresh
  have "cache_true (teBrokers E) ?w (all_endpoints E ?cr1) S1" "snEndpoints S1 = Some (all_endpoints E ?cr1)"
    by (simp_all add: fresh_session_def n(3))
  from check_status_true [OF this(1) _ c] this(2) P show ?thesis
    by (simp add: n projection_check_exact [OF ord])
qed

theorem config_applied_means_witness:
  "\<exists>P. project sample_status_env (''dev'', ''amq-props'') = Inr P \<and>
     all_endpoints sample_status_env (sample_broker_cluster 1 2) \<noteq> []"
proof -
  let ?E = "sample_status_env" and ?cr = "sample_broker_cluster 1 2"
  obtain r cr' S' where run: "process_checks ?E ?cr (new_session ()) = (r, cr', S')" by (metis prod_cases3)
  have d: "distinct_types (bcConditions ?cr)" by (simp add: distinct_types_def)
  have true: "IsStatusConditionTrue (teMeta ?E) (bcConditions cr') ConfigAppliedConditionType"
    using process_checks_ok [OF sample_healthy session_ok_new d _ run] by simp
  have "fresh_session ?E ?cr (new_session ())" by (simp add: fresh_session_def new_session_def)
  from config_applied_means [OF _ d _ this run true] show ?thesis
    by (auto simp: meta_instance_ok sample_status_env_def env_with_brokers_def getPropertiesResourceNsName_def)
qed

section \<open>Validation\<close>

text \<open>
  C20: what a cluster may ask for.  The chain of checks, each skipped once one has failed, accepts exactly
  the resources that satisfy a specification without an order: one logging and one JAAS mount at most, every
  mount present with its key, no budget selector, no duplicate property, a size that parses, distinct ports
  where ports are given, a complete secret for the console, a known version, no reserved label, a host for
  what is exposed and plain values for the operator's variables.  A retry is asked for exactly when the
  check that fails first fails because of the server: a mounted config map or secret that is missing or
  incomplete, or, with everything checked before it in order, the secret of the console.  What is wrong with
  the resource itself, two logging mounts or a JAAS configuration in a config map, never asks for one.
\<close>

theorem cluster_validation_exact:
  assumes "range_ok (veOrder V)" "validate V cr = (cr', valid, retry)"
  shows "(valid \<longleftrightarrow> \<not> IsRestricted cr \<and> valid_cluster V cr) \<and>
    (retry \<longleftrightarrow> \<not> IsRestricted cr \<and> (mount_missing V cr \<or> valid_before_ssl V cr \<and> \<not> ssl_ok V cr)) \<and>
    (retry \<longrightarrow> \<not> valid \<and> \<not> (mounts_held V cr \<and> ssl_ok V cr)) \<and>
    (mounts_allowed cr \<and> \<not> mounts_held V cr \<longrightarrow> \<not> valid \<and> (retry \<longleftrightarrow> \<not> IsRestricted cr))"
proof (cases "IsRestricted cr")
  case True
  with assms(2) show ?thesis by (simp add: validate_def)
next
  case False
  obtain c rt where chain: "validation_chain V cr = (c, rt)" by fastforce
  with False assms(2) have v: "valid = (cStatus c \<noteq> ConditionFalse)" "retry = rt" by (simp_all add: validate_def)
  have "valid \<longleftrightarrow> valid_cluster V cr" using chain_accepts [OF assms(1), of cr] chain v(1) by simp
  moreover have "rt \<longleftrightarrow> mount_missing V cr \<or> valid_before_ssl V cr \<and> \<not> ssl_ok V cr"
    using chain_retry [OF assms(1), of cr] chain by simp
  ultimately show ?thesis
    using False v missing_unheld [of V cr] unheld_missing [of cr V] by (auto simp: valid_cluster_def valid_before_ssl_def)
qed

definition sample_validation_env :: validation_env where
  "sample_validation_env =
     \<lparr>veMeta = meta_instance, veOrder = (\<lambda>ks. ks), veKube = sample_cluster_kube, veVersions = semver_instance,
      veOnOpenShift = False, veParseQuantity = (\<lambda>q. None), veLoginRegEx = '''', veMatch = (\<lambda>re s. True)\<rparr>"

lemma latest_resolves: "isVersion spec = '''' \<Longrightarrow> \<exists>v. ResolveBrokerVersionFromCR semver_instance spec = Inr v"
  by (simp add: ResolveBrokerVersionFromCR_def supported_list semver_instance_ok resolve_latest supported_semvers_def)

lemma sample_valid_cluster: "valid_cluster sample_validation_env (sample_broker_cluster 1 2)"
proof -
  have "DuplicateKeyIn [ScaleDownConfigTrigger] = ''''" by (simp add: DuplicateKeyIn_def Let_def)
  moreover have "version_ok sample_validation_env (sample_broker_cluster 1 2)"
    using latest_resolves by (simp add: version_ok_def sample_validation_env_def image_spec_of_def sample_broker_cluster_def)
  ultimately show ?thesis
    by (simp add: valid_cluster_def valid_before_ssl_def mounts_held_def mounts_allowed_def sample_plan_def zero_plan_def zero_console_def labels_ok_def explicit_ports_def ssl_ok_def env_ok_def
       exposure_ok_def exposed_endpoints_def sample_broker_cluster_def sample_validation_env_def)
qed

text \<open>A cluster that mounts a config map, which the sample server does not have.\<close>

definition mounting :: "string list \<Rightarrow> broker_cluster \<Rightarrow> broker_cluster" where
  "mounting cms cr = cr\<lparr>bcPlan := (bcPlan cr)\<lparr>dpExtraConfigMaps := cms\<rparr>\<rparr>"

theorem cluster_validation_exact_witness:
  "\<exists>cr' cr'' crm. validate sample_validation_env (sample_broker_cluster 1 2) = (cr', True, False) \<and>
     validate sample_validation_env ((sample_broker_cluster 1 2)\<lparr>bcRestricted := Some True\<rparr>) = (cr'', False, False) \<and>
     validate sample_validation_env (mounting [''settings''] (sample_broker_cluster 1 2)) = (crm, False, True)"
proof -
  let ?a = "sample_broker_cluster 1 2" and ?m = "mounting [''settings''] (sample_broker_cluster 1 2)"
  obtain cr' v r where a: "validate sample_validation_env ?a = (cr', v, r)" by (metis prod_cases3)
  have ord: "range_ok (veOrder sample_validation_env)" by (simp add: sample_validation_env_def)
  have "\<not> IsRestricted ?a" by (simp add: IsRestricted_def sample_broker_cluster_def)
  with cluster_validation_exact [OF ord a] sample_valid_cluster have "v" "\<not> r" by blast+
  with a have one: "validate sample_validation_env ?a = (cr', True, False)" by simp
  obtain crm vm rm where m: "validate sample_validation_env ?m = (crm, vm, rm)" by (metis prod_cases3)
  have "\<not> IsRestricted ?m" by (simp add: IsRestricted_def sample_broker_cluster_def mounting_def)
  moreover have "mounts_allowed ?m" "\<not> mounts_held sample_validation_env ?m"
    by (simp_all add: mounting_def mounts_allowed_def mounts_held_def config_map_held_def is_jaas_def is_logging_def
        has_suffix_def sample_plan_def zero_plan_def sample_validation_env_def sample_cluster_kube_def)
  ultimately have "\<not> vm" "rm" using cluster_validation_exact [OF ord m] by auto
  with m have two: "validate sample_validation_env ?m = (crm, False, True)" by simp
  note one two
  moreover have "\<exists>cr''. validate sample_validation_env (?a\<lparr>bcRestricted := Some True\<rparr>) = (cr'', False, False)"
    by (simp add: validate_def IsRestricted_def)
  ultimately show ?thesis using one two by blast
qed

text \<open>
  The ports filled in can repeat a port that was given.  A cluster with an acceptor on 61626 and another
  without a port passes the check of the ports, and the second is then given 61626 as well.
\<close>

theorem default_port_clash:
  fixes given unset :: acceptor
  assumes "accPort given = 61626" "accPort unset = 0" "bcAcceptors cr = [given, unset]"
  shows "validateAcceptorPorts cr = None \<and>
    map accPort (assign_acceptor_ports 0 (bcAcceptors cr)) = [61626, 61626]"
  using assms by (simp add: ports_check explicit_ports_def)

definition sample_acceptor :: "string \<Rightarrow> int32 \<Rightarrow> acceptor" where
  "sample_acceptor name port =
     zero_acceptor\<lparr>accName := name, accPort := port\<rparr>"

theorem default_port_clash_witness:
  "map accPort (assign_acceptor_ports 0 [sample_acceptor ''a'' 61626, sample_acceptor ''b'' 0]) = [61626, 61626]"
  using default_port_clash [of "sample_acceptor ''a'' 61626" "sample_acceptor ''b'' 0"
    "(sample_broker_cluster 1 1)\<lparr>bcAcceptors := [sample_acceptor ''a'' 61626, sample_acceptor ''b'' 0]\<rparr>"]
  by (simp add: sample_acceptor_def zero_acceptor_def)

section \<open>The status\<close>

lemma below_count: "length (filter (\<lambda>j. int j < r) [0..<m]) = nat (min r (int m))"
proof -
  have "length (filter (\<lambda>j. int j < r) [0..<m]) = card {j. j < m \<and> int j < r}"
    by (simp add: length_filter_conv_card) (metis (no_types, lifting) add_0 nth_upt)
  also have "{j. j < m \<and> int j < r} = {..<nat (min r (int m))}" by auto
  finally show ?thesis by simp
qed

text \<open>
  the pods of the status.  When the set asks for pods and has some, the three lists together are the
  pods with the ordinals below the number it has, each once: ready below the ready count, starting up to the
  requested count, stopped above.
\<close>

theorem pods_partition:
  assumes "requested_count ss \<noteq> 0" "stsStatusReplicas ss \<noteq> 0" "GetSingleStatefulSetStatus ss = (n, ps)"
  shows "n = requested_count ss \<and>
    mset (psReady ps @ psStarting ps @ psStopped ps) =
      mset (map (\<lambda>i. stsName ss @ ''-'' @ itoa (int i)) [0..<nat (sint (stsStatusReplicas ss))]) \<and>
    length (psReady ps) = nat (min (sint (stsReadyReplicas ss)) (sint (stsStatusReplicas ss))) \<and>
    distinct (psReady ps @ psStarting ps @ psStopped ps)"
proof -
  let ?m = "nat (sint (stsStatusReplicas ss))" and ?pod = "\<lambda>i. stsName ss @ ''-'' @ itoa (int i)"
  let ?r = "sint (stsReadyReplicas ss)" and ?q = "sint (requested_count ss)"
  have n: "n = requested_count ss" and ps: "ps =
      \<lparr>psStopped = map ?pod (filter (\<lambda>j. ?r \<le> int j \<and> ?q \<le> int j) [0..<?m]),
       psStarting = map ?pod (filter (\<lambda>j. ?r \<le> int j \<and> int j < ?q) [0..<?m]),
       psReady = map ?pod (filter (\<lambda>j. int j < ?r) [0..<?m])\<rparr>"
    using assms by (auto simp: GetSingleStatefulSetStatus_def classify_eq no_pods_def Let_def)
  have split: "mset (filter (\<lambda>j. int j < ?r) xs @ filter (\<lambda>j. ?r \<le> int j \<and> int j < ?q) xs @
      filter (\<lambda>j. ?r \<le> int j \<and> ?q \<le> int j) xs) = mset xs" for xs
    by (induction xs) auto
  have "mset (psReady ps @ psStarting ps @ psStopped ps) = image_mset ?pod (mset
      (filter (\<lambda>j. int j < ?r) [0..<?m] @ filter (\<lambda>j. ?r \<le> int j \<and> int j < ?q) [0..<?m] @
       filter (\<lambda>j. ?r \<le> int j \<and> ?q \<le> int j) [0..<?m]))"
    by (simp add: ps)
  then have eq: "mset (psReady ps @ psStarting ps @ psStopped ps) = mset (map ?pod [0..<?m])" unfolding split by simp
  have "inj ?pod" by (rule injI) (auto dest: itoa_inj)
  then have "inj_on ?pod (set [0..<?m])" by (rule inj_on_subset) simp
  then have "distinct (map ?pod [0..<?m])" by (simp only: distinct_map distinct_upt simp_thms)
  with eq have "distinct (psReady ps @ psStarting ps @ psStopped ps)" by (metis mset_eq_imp_distinct_iff)
  moreover have "length (psReady ps) = nat (min ?r (sint (stsStatusReplicas ss)))" by (simp add: ps below_count)
  ultimately show ?thesis using n eq by blast
qed

theorem pods_partition_witness:
  "\<exists>ps. GetSingleStatefulSetStatus \<lparr>stsName = ''amq-ss'', stsSpecReplicas = Some 2, stsStatusReplicas = 3, stsReadyReplicas = 1\<rparr>
      = (2, ps) \<and> distinct (psReady ps @ psStarting ps @ psStopped ps)"
proof -
  let ?ss = "\<lparr>stsName = ''amq-ss'', stsSpecReplicas = Some 2, stsStatusReplicas = 3, stsReadyReplicas = 1\<rparr>"
  obtain n ps where g: "GetSingleStatefulSetStatus ?ss = (n, ps)" by fastforce
  from pods_partition [OF _ _ g] g show ?thesis by (auto simp: requested_count_def)
qed

text \<open>
  C22: ready from end to end.  After the status of a reconcile the cluster is ready exactly when the
  reconcile had no error, a size is asked for, at least that many pods are ready, and no condition but the
  two that are computed here is false.
\<close>

theorem cluster_ready_exact:
  assumes M: "meta_ok (teMeta E)" and d: "distinct_types (bcConditions cr)"
    and status: "ProcessStatus E os goarch old cr err = (cr1, announced)"
    and written: "UpdateBrokerClusterCRStatus (teMeta E) current upd cr1 = (cr2, wr, failed)"
  shows "IsStatusConditionTrue (teMeta E) (bcConditions cr2) ReadyConditionType \<longleftrightarrow>
    err = None \<and> GetDeploymentSize cr \<noteq> 0 \<and>
    sint (GetDeploymentSize cr) \<le> int (length (psReady (stPodStatus (bcStatus cr1)))) \<and>
    (\<forall>c \<in> set (bcConditions cr). cType c \<notin> {DeployedConditionType, ReadyConditionType} \<longrightarrow> cStatus c \<noteq> ConditionFalse)"
proof -
  let ?M = "teMeta E"
  obtain crp ann where up: "updatePodStatus (teKube E) old (cr\<lparr>bcStatus := (bcStatus cr)
      \<lparr>stVersion := updateVersionStatus (teVersions E) os goarch (image_spec_of cr),
       stScaleLabelSelector := updateScaleStatus (teOrder E) cr\<rparr>\<rparr>) = (crp, ann)" by fastforce
  then have crp: "bcConditions crp = bcConditions cr" "bcPlan crp = bcPlan cr"
    by (auto simp: updatePodStatus_def Let_def split: prod.splits sum.splits)
  define v where "v = getValidCondition crp"
  define cr3 where "cr3 = SetStatusConditionWithGeneration ?M v crp"
  define dc where "dc = getDeploymentCondition (teKube E) cr3 (cStatus v \<noteq> ConditionFalse) err"
  have cr1: "cr1 = put_status_condition ?M dc cr3"
    using status up by (simp add: ProcessStatus_def Let_def v_def cr3_def dc_def)
  have "distinct_types (bcConditions crp)" using d crp(1) by simp
  note v = valid_or_default [OF this v_def [unfolded getValidCondition_def], unfolded crp(1)]
  let ?v = "v\<lparr>cObservedGeneration := bcGeneration crp\<rparr>"
  have c3: "bcConditions cr3 = SetStatusCondition ?M (bcConditions cr) ?v"
    "stPodStatus (bcStatus cr3) = stPodStatus (bcStatus cr1)" "GetDeploymentSize cr3 = GetDeploymentSize cr"
    using crp by (simp_all add: cr3_def SetStatusConditionWithGeneration_def put_status_condition_def cr1 GetDeploymentSize_def)
  have dc: "cType dc = DeployedConditionType" "cStatus dc = ConditionTrue \<longleftrightarrow> cStatus v \<noteq> ConditionFalse \<and> err = None \<and>
      GetDeploymentSize cr \<noteq> 0 \<and> sint (GetDeploymentSize cr) \<le> int (length (psReady (stPodStatus (bcStatus cr1))))"
    by (auto simp: dc_def getDeploymentCondition_def Let_def c3(2,3) split: option.split)
  have "bcConditions cr2 = SetReadyCondition ?M (SetStatusCondition ?M (SetStatusCondition ?M (bcConditions cr) ?v) dc)"
    using written by (auto simp: UpdateBrokerClusterCRStatus_def Let_def cr1 put_status_condition_def c3(1)
        split: sum.splits if_splits)
  with ready_after_deployment [OF M d, of ?v dc] v dc
  have "IsStatusConditionTrue ?M (bcConditions cr2) ReadyConditionType \<longleftrightarrow> cStatus dc = ConditionTrue \<and>
      (\<forall>c \<in> set (bcConditions cr). cType c \<notin> {DeployedConditionType, ReadyConditionType} \<longrightarrow> cStatus c \<noteq> ConditionFalse)"
    by simp
  moreover have "(\<forall>c \<in> set (bcConditions cr). cType c \<notin> {DeployedConditionType, ReadyConditionType} \<longrightarrow>
      cStatus c \<noteq> ConditionFalse) \<Longrightarrow> cStatus v \<noteq> ConditionFalse" unfolding v(2) by simp
  ultimately show ?thesis by (simp only: dc(2)) argo
qed

theorem cluster_ready_exact_witness:
  "\<exists>cr1 announced cr2 wr failed.
     ProcessStatus (settled 2 sample_status_env) (\<lambda>k. None) ''amd64'' no_pods (sample_broker_cluster 2 2) None = (cr1, announced) \<and>
     UpdateBrokerClusterCRStatus meta_instance (Inr (sample_cluster_status 2)) (\<lambda>cr. None) cr1 = (cr2, wr, failed) \<and>
     IsStatusConditionTrue meta_instance (bcConditions cr2) ReadyConditionType"
proof -
  let ?E = "settled 2 sample_status_env" and ?cr = "sample_broker_cluster 2 2"
  obtain cr1 ann where s: "ProcessStatus ?E (\<lambda>k. None) ''amd64'' no_pods ?cr None = (cr1, ann)" by fastforce
  obtain cr2 wr f where u: "UpdateBrokerClusterCRStatus meta_instance (Inr (sample_cluster_status 2)) (\<lambda>cr. None) cr1 = (cr2, wr, f)"
    by (metis prod_cases3)
  have d: "distinct_types (bcConditions ?cr)" by (simp add: distinct_types_def)
  have "length (psReady (stPodStatus (bcStatus cr1))) = 2"
    using s by (auto simp: ProcessStatus_def updatePodStatus_def settled_def Let_def put_status_condition_def set_conditions_def
      SetStatusConditionWithGeneration_def GetSingleStatefulSetStatus_def requested_count_def classify_eq no_pods_def
      split: prod.splits)
  with cluster_ready_exact [OF _ d s, of _ "\<lambda>cr. None"] u s
  show ?thesis by (auto simp: meta_instance_ok)
qed

section \<open>The shape of the status\<close>

text \<open>Conditions and configurations are lists that stand for maps, by type and by name.\<close>

definition wf_cluster :: "broker_cluster \<Rightarrow> bool" where
  "wf_cluster cr \<longleftrightarrow> distinct_types (bcConditions cr) \<and> distinct (map ecName (stExternalConfigs (bcStatus cr)))"

lemma update_config_names: "ecName ` set (update_config P cfgs) = insert (pjName P) (ecName ` set cfgs)"
  by (induction cfgs) auto

lemma update_config_distinct: "distinct (map ecName cfgs) \<Longrightarrow> distinct (map ecName (update_config P cfgs))"
proof (induction cfgs)
  case (Cons c cfgs)
  then have "ecName c \<notin> ecName ` set cfgs" "distinct (map ecName (update_config P cfgs))"
    "distinct (map ecName cfgs)" by simp_all
  then show ?case using update_config_names [of P cfgs] by auto
qed simp

named_theorems wf_status \<open>the operations that keep the status well formed\<close>

lemma wf_set_conditions: "distinct_types cs \<Longrightarrow> wf_cluster cr \<Longrightarrow> wf_cluster (set_conditions cs cr)"
  by (simp add: wf_cluster_def)

lemma wf_put [wf_status]: "meta_ok M \<Longrightarrow> wf_cluster cr \<Longrightarrow> wf_cluster (put_status_condition M c cr)"
  by (simp add: put_status_condition_def wf_cluster_def)

lemma wf_generation [wf_status]: "meta_ok M \<Longrightarrow> wf_cluster cr \<Longrightarrow> wf_cluster (SetStatusConditionWithGeneration M c cr)"
  by (simp add: SetStatusConditionWithGeneration_def wf_put)

lemma wf_update_extra [wf_status]: "wf_cluster cr \<Longrightarrow> wf_cluster (updateExtraConfigStatus P cr)"
  by (simp add: wf_cluster_def updateExtraConfigStatus_def update_config_distinct)

lemma wf_check_extra: "wf_cluster cr \<Longrightarrow> wf_cluster (fst (snd (check_extra_secrets E names cr S)))"
  by (induction E names cr S rule: check_extra_secrets.induct)
    (auto simp: wf_update_extra split: sum.split prod.split option.split)

lemma wf_assert_properties [wf_status]: "wf_cluster cr \<Longrightarrow> wf_cluster (fst (snd (AssertBrokerPropertiesStatus E cr S)))"
  using wf_check_extra by (auto simp: AssertBrokerPropertiesStatus_def split: sum.split prod.split option.split)

lemma wf_jaas [wf_status]: "meta_ok (teMeta E) \<Longrightarrow> wf_cluster cr \<Longrightarrow> wf_cluster (fst (snd (process_jaas E cr S)))"
  by (auto simp: process_jaas_def AssertJaasPropertiesStatus_def wf_status split: sum.splits prod.splits option.splits)

lemma wf_checks [wf_status]:
  assumes "meta_ok (teMeta E)" "wf_cluster cr"
  shows "wf_cluster (fst (snd (process_checks E cr S)))"
proof -
  obtain e1 S1 where v: "AssertBrokerImageVersion (teVersions E) (teKube E) (teBrokers E) cr S = (e1, S1)"
    by fastforce
  let ?c1 = "put_status_condition (teMeta E)
    (condition_or_error e1 BrokerVersionAlignedConditionType BrokerVersionAlignedConditionMatchReason) cr"
  obtain e2 cr2 S2 where p: "AssertBrokerPropertiesStatus E ?c1 S1 = (e2, cr2, S2)" by (metis prod_cases3)
  have "wf_cluster cr2" using wf_assert_properties [OF wf_put [OF assms], of E _ S1] p by (metis fst_conv snd_conv)
  then have "wf_cluster (put_status_condition (teMeta E)
      (condition_or_error e2 ConfigAppliedConditionType ConfigAppliedConditionSynchedReason) cr2)"
    by (rule wf_put [OF assms(1)])
  from wf_jaas [OF assms(1) this, of S2] show ?thesis
    by (auto simp: process_checks_def v p Let_def split: prod.split)
qed

lemma wf_transition:
  assumes "meta_ok M" "wf_cluster cr" "scale_down_transition M B cr S = Some (cr', S')"
  shows "wf_cluster cr'"
proof -
  have s: "wf_cluster (set_conditions (SetStatusCondition M (bcConditions cr) c) cr)" for c
    using wf_put [OF assms(1,2)] by (simp add: put_status_condition_def)
  from assms(3,2) show ?thesis
    by (auto simp: scale_down_transition_def Let_def s split: option.splits if_splits go_result.splits prod.splits)
qed

lemma wf_managed:
  "meta_ok M \<Longrightarrow> distinct_types (bcConditions cr) \<Longrightarrow>
     distinct_types (fst (controllerManagedScaledownViaConditions M K B cr mig rs req S))"
  by (simp add: controllerManagedScaledownViaConditions_def Let_def split: prod.split)

text \<open>
  C33: the status keeps its shape.  Every operation of a reconcile that writes the status, on every branch,
  keeps one condition of each type and one entry for each external configuration.
\<close>

theorem status_well_formed:
  assumes M: "meta_ok (teMeta E)" "veMeta V = teMeta E" and wf: "wf_cluster cr"
  shows "wf_cluster (fst (validate V cr)) \<and>
    wf_cluster (fst (ProcessDeploymentPlan (teMeta E) (teKube E) (teBrokers E) cr rs S)) \<and>
    pred_option (\<lambda>(retry, cr', S'). wf_cluster cr') (ProcessBrokerClusterStatus E cr S) \<and>
    wf_cluster (UpdateBlockedStatus (teMeta E) blocked cr) \<and>
    wf_cluster (fst (ProcessStatus E os goarch old cr err)) \<and>
    wf_cluster (fst (UpdateBrokerClusterCRStatus (teMeta E) current upd cr))"
proof (intro conjI)
  show "wf_cluster (fst (validate V cr))"
    using M wf by (simp add: validate_def wf_status split: prod.split)
  let ?m = "with_migration cr"
  have wm: "wf_cluster ?m" using wf by (simp add: wf_cluster_def with_migration_def)
  show "wf_cluster (fst (ProcessDeploymentPlan (teMeta E) (teKube E) (teBrokers E) cr rs S))"
  proof (cases "CrConfiguredForControllerManagedScaleDown cr")
    case True
    obtain cr1 r acts S1 where p: "ProcessDeploymentPlan (teMeta E) (teKube E) (teBrokers E) cr rs S = (cr1, r, acts, S1)"
      by (metis prod_cases4)
    from plan_managed [OF True p] wf_managed [OF M(1), of ?m "teKube E" "teBrokers E"] wm show ?thesis
      by (auto simp: p wf_cluster_def) (metis fst_conv)
  next
    case False
    then show ?thesis
      using wm by (simp add: ProcessDeploymentPlan_def Let_def with_migration_def migrates_def)
  qed
  show "pred_option (\<lambda>(retry, cr', S'). wf_cluster cr') (ProcessBrokerClusterStatus E cr S)"
  proof (cases "AssertBrokersAvailable (teMeta E) cr")
    case None
    obtain r cr1 S1 where c: "process_checks E cr S = (r, cr1, S1)" by (metis prod_cases3)
    with wf_checks [OF M(1) wf, of S] have "wf_cluster cr1" by simp
    from wf_transition [OF M(1) this] None c show ?thesis
      by (cases "scale_down_transition (teMeta E) (teBrokers E) cr1 S1") (auto simp: ProcessBrokerClusterStatus_def Let_def)
  qed (simp add: ProcessBrokerClusterStatus_def Let_def wf_put [OF M(1) wf])
  show "wf_cluster (UpdateBlockedStatus (teMeta E) blocked cr)"
    using wf_generation [OF M(1) wf] wf_set_conditions [OF _ wf] M wf
    by (simp add: UpdateBlockedStatus_def) (simp add: wf_cluster_def)
  show "wf_cluster (fst (ProcessStatus E os goarch old cr err))"
  proof -
    have "wf_cluster (fst (updatePodStatus K old (cr\<lparr>bcStatus := (bcStatus cr)\<lparr>stVersion := v, stScaleLabelSelector := s\<rparr>\<rparr>)))" for K v s
      using wf by (simp add: updatePodStatus_def wf_cluster_def split: prod.split)
    then show ?thesis
      using M(1) by (auto simp: ProcessStatus_def Let_def split: prod.split intro!: wf_put wf_generation) (metis fst_conv)
  qed
  show "wf_cluster (fst (UpdateBrokerClusterCRStatus (teMeta E) current upd cr))"
    using M(1) wf by (simp add: UpdateBrokerClusterCRStatus_def Let_def wf_cluster_def SetReady_distinct split: sum.split)
qed

lemma sample_wf: "wf_cluster (sample_broker_cluster q n)"
  by (simp add: wf_cluster_def distinct_types_def sample_cluster_status_def)

theorem status_well_formed_witness:
  "wf_cluster (UpdateBlockedStatus meta_instance True (sample_broker_cluster 1 2))"
  using status_well_formed [of sample_status_env sample_validation_env "sample_broker_cluster 1 2"]
  by (simp add: meta_instance_ok sample_validation_env_def sample_wf)

text \<open>
  What a user sees of a status, and what the comparison before the write leaves out: the flags on upgrades,
  the generations, and the names of the external configurations.
\<close>

definition same_view :: "cluster_status \<Rightarrow> cluster_status \<Rightarrow> bool" where
  "same_view s t \<longleftrightarrow>
     stDeploymentPlanSize s = stDeploymentPlanSize t \<and> stScaleLabelSelector s = stScaleLabelSelector t \<and>
     stPodStatus s = stPodStatus t \<and> vsImage (stVersion s) = vsImage (stVersion t) \<and>
     vsInitImage (stVersion s) = vsInitImage (stVersion t) \<and> vsBrokerVersion (stVersion s) = vsBrokerVersion (stVersion t) \<and>
     visible ` set (stConditions s) = visible ` set (stConditions t) \<and>
     length (stExternalConfigs s) = length (stExternalConfigs t) \<and>
     (\<forall>x \<in> set (stExternalConfigs s). \<forall>y \<in> set (stExternalConfigs t). ecName x = ecName y \<longrightarrow>
        ecResourceVersion x = ecResourceVersion y)"

text \<open>
  what makes the status be written.  For well-formed statuses the comparison before the write is that
  equality: a configuration that took the place of another goes unnoticed.
\<close>

theorem status_write_exact:
  assumes "wf_cluster a" "wf_cluster b"
  shows "EqualBrokerClusterCRStatus (bcStatus a) (bcStatus b) \<longleftrightarrow> same_view (bcStatus a) (bcStatus b)"
proof -
  define s t where "s = bcStatus a" and "t = bcStatus b"
  have d: "distinct_types (stConditions s)" "distinct_types (stConditions t)"
    using assms by (simp_all add: wf_cluster_def s_def t_def)
  have "visible ` set (stConditions s) = visible ` set (stConditions t) \<Longrightarrow> length (stConditions s) = length (stConditions t)"
    using card_visible [OF d(1)] card_visible [OF d(2)] by simp
  then have conds: "length (stConditions s) = length (stConditions t) \<and> \<not> conditionsModified (stConditions t) (stConditions s) \<longleftrightarrow>
      visible ` set (stConditions s) = visible ` set (stConditions t)"
    using same_length_modified [OF d(2,1)] by metis
  have confs: "\<not> brokerClusterExternalConfigsModified (stExternalConfigs t) (stExternalConfigs s) \<longleftrightarrow>
      (\<forall>x \<in> set (stExternalConfigs s). \<forall>y \<in> set (stExternalConfigs t). ecName x = ecName y \<longrightarrow>
         ecResourceVersion x = ecResourceVersion y)"
    by (auto simp: brokerClusterExternalConfigsModified_def list_ex_iff)
  show ?thesis
    unfolding EqualBrokerClusterCRStatus_def same_view_def s_def [symmetric] t_def [symmetric] confs [symmetric]
      conds [symmetric] by auto
qed

theorem status_write_exact_witness:
  "EqualBrokerClusterCRStatus
     (sample_cluster_status 1\<lparr>stExternalConfigs := [\<lparr>ecName = ''old-bp'', ecResourceVersion = ''1''\<rparr>]\<rparr>)
     (sample_cluster_status 1\<lparr>stExternalConfigs := [\<lparr>ecName = ''new-bp'', ecResourceVersion = ''2''\<rparr>]\<rparr>)"
proof -
  let ?c = "\<lambda>n v. (sample_broker_cluster 1 1)\<lparr>bcStatus :=
    sample_cluster_status 1\<lparr>stExternalConfigs := [\<lparr>ecName = n, ecResourceVersion = v\<rparr>]\<rparr>\<rparr>"
  have wf: "wf_cluster (?c n v)" for n v
    by (simp add: wf_cluster_def distinct_types_def sample_cluster_status_def)
  from status_write_exact [OF wf [of "''old-bp''" "''1''"] wf [of "''new-bp''" "''2''"]] show ?thesis
    by (simp add: same_view_def)
qed

section \<open>The controller settles\<close>

text \<open>
  The part of \<open>Reconcile\<close> that computes and writes the status: the validation, the verdicts of the checks
  of the brokers and of the resources, the blocked flag, the pods and the deployment with the error of the
  reconcile, and the write.
\<close>

definition put_all :: "meta_api \<Rightarrow> condition list \<Rightarrow> broker_cluster \<Rightarrow> broker_cluster" where
  "put_all M verdicts cr = foldl (\<lambda>cr c. put_status_condition M c cr) cr verdicts"

definition status_run ::
  "validation_env \<Rightarrow> 'w status_env \<Rightarrow> env \<Rightarrow> string \<Rightarrow> bool \<Rightarrow> string option \<Rightarrow> condition list \<Rightarrow> cluster_status \<Rightarrow>
     (broker_cluster \<Rightarrow> string option) \<Rightarrow> pod_status \<Rightarrow> broker_cluster \<Rightarrow> broker_cluster \<times> bool \<times> string option" where
  "status_run V E os goarch blocked err verdicts current update lastStatus cr =
     UpdateBrokerClusterCRStatus (teMeta E) (Inr current) update
       (fst (ProcessStatus E os goarch lastStatus
          (UpdateBlockedStatus (teMeta E) blocked (put_all (teMeta E) verdicts (fst (validate V cr)))) err))"

definition pods_of :: "cluster_kube \<Rightarrow> broker_cluster \<Rightarrow> int32 \<times> pod_status" where
  "pods_of K cr =
     (case ckGetStatefulSet K (bcNamespace cr) (CrToSS (bcName cr)) of
        Inl err \<Rightarrow> (stDeploymentPlanSize (bcStatus cr), no_pods)
      | Inr ss \<Rightarrow> GetSingleStatefulSetStatus ss)"

text \<open>The status without its conditions is a function of the resource and the server.\<close>

definition status_base :: "'w status_env \<Rightarrow> env \<Rightarrow> string \<Rightarrow> broker_cluster \<Rightarrow> broker_cluster" where
  "status_base E os goarch cr = cr\<lparr>bcStatus := (bcStatus cr)
     \<lparr>stVersion := updateVersionStatus (teVersions E) os goarch (image_spec_of cr),
      stScaleLabelSelector := updateScaleStatus (teOrder E) cr,
      stDeploymentPlanSize := fst (pods_of (teKube E) cr), stPodStatus := snd (pods_of (teKube E) cr)\<rparr>\<rparr>"

lemma put_all_set:
  "\<exists>cs. put_all M vs cr = set_conditions cs cr \<and> (meta_ok M \<and> distinct_types (bcConditions cr) \<longrightarrow> distinct_types cs \<and>
     (\<forall>t. FindStatusCondition M cs t = (case List.find (\<lambda>c. cType c = t) (rev vs) of
        Some c \<Rightarrow> Some c | None \<Rightarrow> FindStatusCondition M (bcConditions cr) t)))"
proof (induction vs rule: rev_induct)
  case Nil
  show ?case by (intro exI [of _ "bcConditions cr"]) (simp add: put_all_def set_conditions_def)
next
  case (snoc v vs)
  then obtain cs where "put_all M vs cr = set_conditions cs cr"
    "meta_ok M \<and> distinct_types (bcConditions cr) \<longrightarrow> distinct_types cs \<and>
     (\<forall>t. FindStatusCondition M cs t = (case List.find (\<lambda>c. cType c = t) (rev vs) of
        Some c \<Rightarrow> Some c | None \<Rightarrow> FindStatusCondition M (bcConditions cr) t))" by blast
  then show ?case
    by (intro exI [of _ "SetStatusCondition M cs v"]) (auto simp: put_all_def put_status_condition_def meta_find_set)
qed

definition valid_verdict :: "validation_env \<Rightarrow> broker_cluster \<Rightarrow> condition" where
  "valid_verdict V cr =
     (if IsRestricted cr
      then valid_failure ValidConditionInvalidVersionReason
             ''spec.restricted is deprecated and no longer supported. Use the Broker CR for restricted deployments.''
      else fst (validation_chain V cr))\<lparr>cObservedGeneration := bcGeneration cr\<rparr>"

lemma validate_puts: "fst (validate V cr) = put_status_condition (veMeta V) (valid_verdict V cr) cr"
  by (simp add: validate_def valid_verdict_def SetStatusConditionWithGeneration_def split: prod.split)

lemma valid_verdict_status: "valid_verdict V (cr\<lparr>bcStatus := st\<rparr>) = valid_verdict V cr"
proof -
  let ?cr = "cr\<lparr>bcStatus := st\<rparr>"
  have "bcNamespace ?cr = bcNamespace cr" "bcPlan ?cr = bcPlan cr" by simp_all
  then have "validateExtraMounts V ?cr = validateExtraMounts V cr" by (simp only: validateExtraMounts_def)
  moreover have "validatePodDisruption ?cr = validatePodDisruption cr" by (simp add: validatePodDisruption_def)
  moreover have "validateNoDupKeysInBrokerProperties ?cr = validateNoDupKeysInBrokerProperties cr"
    by (simp add: validateNoDupKeysInBrokerProperties_def)
  moreover have "validateStorage q ?cr = validateStorage q cr" for q by (simp add: validateStorage_def)
  moreover have "validateAcceptorPorts ?cr = validateAcceptorPorts cr" by (simp add: validateAcceptorPorts_def)
  moreover have "validateSSLEnabledSecrets V ?cr = validateSSLEnabledSecrets V cr" by (simp add: validateSSLEnabledSecrets_def)
  moreover have "image_spec_of ?cr = image_spec_of cr" by (simp add: image_spec_of_def)
  moreover have "validateReservedLabels ord ?cr = validateReservedLabels ord cr" for ord
    by (simp add: validateReservedLabels_def cong: option.case_cong)
  moreover have "validateExposeModes b ?cr = validateExposeModes b cr" for b by (simp add: validateExposeModes_def)
  moreover have "validateEnvVars ?cr = validateEnvVars cr" by (simp add: validateEnvVars_def)
  ultimately have "validation_chain V ?cr = validation_chain V cr" by (simp only: validation_chain_def)
  moreover have "IsRestricted ?cr = IsRestricted cr" "bcGeneration ?cr = bcGeneration cr" by (simp_all add: IsRestricted_def)
  ultimately show ?thesis unfolding valid_verdict_def by simp
qed

text \<open>The conditions before the summary, as a map from types: what is put, over what was there.\<close>

definition blocked_condition :: "bool \<Rightarrow> broker_cluster \<Rightarrow> condition option" where
  "blocked_condition blocked cr =
     (if blocked
      then Some ((mk_condition ReconcileBlockedType ConditionTrue ReconcileBlockedReason
             (''Reconcile blocked by presence of annotation '' @ BlockReconcileAnnotation))
           \<lparr>cObservedGeneration := bcGeneration cr\<rparr>)
      else None)"

definition before_pods :: "condition list \<Rightarrow> condition option \<Rightarrow> (string \<Rightarrow> condition option) \<Rightarrow> string \<Rightarrow> condition option" where
  "before_pods verdicts blocked g t =
     (if t = ReconcileBlockedType then blocked
      else case List.find (\<lambda>c. cType c = t) (rev verdicts) of Some c \<Rightarrow> Some c | None \<Rightarrow> g t)"

definition valid_found :: "int \<Rightarrow> (string \<Rightarrow> condition option) \<Rightarrow> condition" where
  "valid_found generation g =
     (case g ValidConditionType of
        Some c \<Rightarrow> c
      | None \<Rightarrow> mk_condition ValidConditionType ConditionTrue ValidConditionSuccessReason '''')
     \<lparr>cObservedGeneration := generation\<rparr>"

definition before_summary ::
  "int \<Rightarrow> (bool \<Rightarrow> condition) \<Rightarrow> (string \<Rightarrow> condition option) \<Rightarrow> string \<Rightarrow> condition option" where
  "before_summary generation deployment g t =
     (if t = DeployedConditionType then Some (deployment (cStatus (valid_found generation g) \<noteq> ConditionFalse))
      else if t = ValidConditionType then Some (valid_found generation g) else g t)"

lemma put_before_pods:
  assumes M: "meta_ok M" and d: "distinct_types (bcConditions cr)"
  shows "\<exists>cs. UpdateBlockedStatus M blocked (put_all M vs cr) = set_conditions cs cr \<and> distinct_types cs \<and>
    FindStatusCondition M cs = before_pods vs (blocked_condition blocked cr) (FindStatusCondition M (bcConditions cr))"
proof -
  from put_all_set [of M vs cr] M d obtain cs where
    cs: "put_all M vs cr = set_conditions cs cr" "distinct_types cs"
      "\<And>t. FindStatusCondition M cs t = (case List.find (\<lambda>c. cType c = t) (rev vs) of
        Some c \<Rightarrow> Some c | None \<Rightarrow> FindStatusCondition M (bcConditions cr) t)" by blast
  let ?c = "the (blocked_condition True cr)"
  show ?thesis
  proof (cases blocked)
    case True
    have "UpdateBlockedStatus M True (put_all M vs cr) = set_conditions (SetStatusCondition M cs ?c) cr"
      by (simp add: UpdateBlockedStatus_def SetStatusConditionWithGeneration_def put_status_condition_def cs(1)
          blocked_condition_def)
    moreover have "FindStatusCondition M (SetStatusCondition M cs ?c) t = before_pods vs (blocked_condition True cr)
        (FindStatusCondition M (bcConditions cr)) t" for t
      using M cs(2) by (simp add: meta_find_set cs(3) before_pods_def blocked_condition_def)
    ultimately show ?thesis using True M cs(2) by (intro exI [of _ "SetStatusCondition M cs ?c"]) (simp add: fun_eq_iff)
  next
    case False
    have "UpdateBlockedStatus M False (put_all M vs cr) = set_conditions (RemoveStatusCondition M cs ReconcileBlockedType) cr"
      by (simp add: UpdateBlockedStatus_def cs(1))
    moreover have "FindStatusCondition M (RemoveStatusCondition M cs ReconcileBlockedType) t =
        before_pods vs (blocked_condition False cr) (FindStatusCondition M (bcConditions cr)) t" for t
      using M cs(2) by (simp add: meta_find_remove cs(3) before_pods_def blocked_condition_def)
    ultimately show ?thesis using False M cs(2)
      by (intro exI [of _ "RemoveStatusCondition M cs ReconcileBlockedType"]) (simp add: fun_eq_iff)
  qed
qed

lemma deployment_of_set: "getDeploymentCondition K (set_conditions cs cr) = getDeploymentCondition K cr"
  by (simp add: getDeploymentCondition_def not_ready_message_def GetDeploymentSize_def fun_eq_iff Let_def
      cong: option.case_cong if_cong)

lemma base_of_set: "status_base E os goarch (set_conditions cs cr) = set_conditions cs (status_base E os goarch cr)"
proof -
  have "pods_of K (set_conditions cs cr) = pods_of K cr" for K
    by (simp add: pods_of_def cong: sum.case_cong)
  moreover have "updateScaleStatus ord (set_conditions cs cr) = updateScaleStatus ord cr" for ord
    by (simp add: updateScaleStatus_def default_labels_def)
  moreover have "image_spec_of (set_conditions cs cr) = image_spec_of cr" by (simp add: image_spec_of_def)
  ultimately show ?thesis unfolding status_base_def by (simp add: set_conditions_def)
qed

lemma process_before_summary:
  assumes M: "meta_ok (teMeta E)" and d: "distinct_types cs"
    and K: "K = teKube E" and base_def: "base = status_base E os goarch cr"
  shows "\<exists>cs'. fst (ProcessStatus E os goarch lastStatus (set_conditions cs cr) err) = set_conditions cs' base \<and>
    distinct_types cs' \<and> FindStatusCondition (teMeta E) cs' =
      before_summary (bcGeneration cr) (\<lambda>valid. getDeploymentCondition K base valid err) (FindStatusCondition (teMeta E) cs)"
proof -
  let ?M = "teMeta E" and ?C = "set_conditions cs base"
  note K_def = K
  have up: "fst (updatePodStatus K lastStatus ((set_conditions cs cr)\<lparr>bcStatus := (bcStatus (set_conditions cs cr))
      \<lparr>stVersion := updateVersionStatus (teVersions E) os goarch (image_spec_of (set_conditions cs cr)),
       stScaleLabelSelector := updateScaleStatus (teOrder E) (set_conditions cs cr)\<rparr>\<rparr>)) = ?C"
    unfolding base_def base_of_set [symmetric]
    by (simp add: updatePodStatus_def status_base_def pods_of_def K_def split: sum.split prod.split)
  define v where "v = valid_found (bcGeneration cr) (FindStatusCondition ?M cs)"
  have gen: "bcGeneration ?C = bcGeneration cr" by (simp add: base_def status_base_def)
  have v: "v = (getValidCondition ?C)\<lparr>cObservedGeneration := bcGeneration ?C\<rparr>"
    unfolding gen by (simp add: v_def valid_found_def get_valid [OF M])
  have types: "cType v = ValidConditionType"
    using M d by (auto simp: v_def valid_found_def meta_find_iff split: option.split)
  have status: "cStatus v = cStatus (getValidCondition ?C)" by (simp add: v)
  have put: "SetStatusConditionWithGeneration ?M (getValidCondition ?C) ?C = set_conditions (SetStatusCondition ?M cs v) base"
    unfolding SetStatusConditionWithGeneration_def v [symmetric] put_status_condition_def by simp
  define dc where "dc = getDeploymentCondition K base (cStatus v \<noteq> ConditionFalse) err"
  have dct: "cType dc = DeployedConditionType"
    by (simp add: dc_def getDeploymentCondition_def Let_def split: option.split)
  obtain C' ann where u: "updatePodStatus K lastStatus ((set_conditions cs cr)\<lparr>bcStatus := (bcStatus (set_conditions cs cr))
      \<lparr>stVersion := updateVersionStatus (teVersions E) os goarch (image_spec_of (set_conditions cs cr)),
       stScaleLabelSelector := updateScaleStatus (teOrder E) (set_conditions cs cr)\<rparr>\<rparr>) = (C', ann)" by fastforce
  with up have C': "C' = ?C" by simp
  let ?cs = "SetStatusCondition ?M (SetStatusCondition ?M cs v) dc"
  have "fst (ProcessStatus E os goarch lastStatus (set_conditions cs cr) err) = set_conditions ?cs base"
    unfolding ProcessStatus_def Let_def K_def [symmetric] u prod.case C'
    by (simp add: put status [symmetric] put_status_condition_def deployment_of_set dc_def)
  moreover have "distinct_types ?cs" using M d by simp
  moreover have "FindStatusCondition ?M ?cs t = before_summary (bcGeneration cr)
      (\<lambda>valid. getDeploymentCondition K base valid err) (FindStatusCondition ?M cs) t" for t
    using M d types dct by (simp add: meta_find_set before_summary_def dc_def v_def)
  ultimately show ?thesis by (intro exI [of _ ?cs]) (simp add: fun_eq_iff)
qed

text \<open>The summary looks at the other conditions only, so it is the same for the same map.\<close>

lemma same_conditions:
  assumes M: "meta_ok M" and d: "distinct_types cs" "distinct_types cs'"
    and same: "\<And>t. t \<noteq> ReadyConditionType \<Longrightarrow> FindStatusCondition M cs' t = FindStatusCondition M cs t"
  shows "set (SetReadyCondition M cs') = set (SetReadyCondition M cs)"
proof -
  let ?rest = "\<lambda>cs. {c \<in> set cs. cType c \<noteq> ReadyConditionType}"
  have rest: "?rest cs' = ?rest cs" using same meta_find_iff [OF M d(1)] meta_find_iff [OF M d(2)] by metis
  have "ready_over b cs' = ready_over b cs" for b
    unfolding ready_over_iff using rest by blast
  moreover have "IsStatusConditionTrue M cs' DeployedConditionType = IsStatusConditionTrue M cs DeployedConditionType"
    using same [of DeployedConditionType] by (simp add: meta_true_find [OF M])
  ultimately show ?thesis
    using M d rest by (simp add: SetReadyCondition_def Let_def NewReadyCondition_def)
qed

text \<open>A second computation over the map of the first one gives it again.\<close>

lemma before_summary_idem:
  assumes "g2 = before_summary n D (before_pods vs b g1)" "\<And>t. t \<noteq> ReadyConditionType \<Longrightarrow> g3 t = g2 t"
    "t \<noteq> ReadyConditionType"
  shows "before_summary n D (before_pods vs b g3) t = g2 t"
proof -
  have "before_pods vs b g3 ValidConditionType = before_pods vs b g1 ValidConditionType \<or>
      before_pods vs b g3 ValidConditionType = Some (valid_found n (before_pods vs b g1))"
    using assms(2) [of ValidConditionType]
    by (auto simp: before_pods_def assms(1) before_summary_def split: option.split)
  then have v: "valid_found n (before_pods vs b g3) = valid_found n (before_pods vs b g1)"
    by (auto simp: valid_found_def)
  show ?thesis
    using assms(2) [OF assms(3)]
    by (auto simp: before_summary_def v assms(1)) (auto simp: before_pods_def before_summary_def split: option.split)
qed

lemma base_stored:
  "status_base E os goarch (cr\<lparr>bcStatus := bcStatus (set_conditions cs (status_base E os goarch cr))\<rparr>) =
     set_conditions cs (status_base E os goarch cr)"
proof -
  let ?cr = "cr\<lparr>bcStatus := bcStatus (set_conditions cs (status_base E os goarch cr))\<rparr>"
  have "pods_of (teKube E) ?cr = pods_of (teKube E) cr"
    by (simp add: pods_of_def status_base_def split: sum.split)
  moreover have "updateScaleStatus (teOrder E) ?cr = updateScaleStatus (teOrder E) cr"
    by (simp add: updateScaleStatus_def default_labels_def)
  moreover have "image_spec_of ?cr = image_spec_of cr" by (simp add: image_spec_of_def)
  ultimately show ?thesis unfolding status_base_def [of E os goarch ?cr] by (simp add: set_conditions_def status_base_def)
qed

lemma run_shape:
  assumes M: "meta_ok (teMeta E)" "veMeta V = teMeta E" and d: "distinct_types (bcConditions cr)"
    and base: "base = status_base E os goarch cr"
  shows "\<exists>cs. distinct_types cs \<and>
    status_run V E os goarch blocked err verdicts current upd lastStatus cr =
      UpdateBrokerClusterCRStatus (teMeta E) (Inr current) upd (set_conditions cs base) \<and>
    FindStatusCondition (teMeta E) cs =
      before_summary (bcGeneration cr) (\<lambda>valid. getDeploymentCondition (teKube E) base valid err)
        (before_pods (valid_verdict V cr # verdicts) (blocked_condition blocked cr)
          (FindStatusCondition (teMeta E) (bcConditions cr)))"
proof -
  let ?vs = "valid_verdict V cr # verdicts"
  have "put_all (teMeta E) verdicts (fst (validate V cr)) = put_all (teMeta E) ?vs cr"
    by (simp add: put_all_def validate_puts M(2))
  moreover obtain cs1 where c1: "UpdateBlockedStatus (teMeta E) blocked (put_all (teMeta E) ?vs cr) = set_conditions cs1 cr"
    "distinct_types cs1" "FindStatusCondition (teMeta E) cs1 =
      before_pods ?vs (blocked_condition blocked cr) (FindStatusCondition (teMeta E) (bcConditions cr))"
    using put_before_pods [OF M(1) d] by blast
  moreover obtain cs where "fst (ProcessStatus E os goarch lastStatus (set_conditions cs1 cr) err) = set_conditions cs base"
    "distinct_types cs" "FindStatusCondition (teMeta E) cs =
      before_summary (bcGeneration cr) (\<lambda>valid. getDeploymentCondition (teKube E) base valid err)
        (FindStatusCondition (teMeta E) cs1)"
    using process_before_summary [OF M(1) c1(2) refl base] by blast
  ultimately show ?thesis by (intro exI [of _ cs]) (simp add: status_run_def)
qed

text \<open>
  C40: the controller settles.  A computed status is written exactly when a user would see a difference to
  the status that is stored.  Once it is stored, the next computation, over the resource with that status,
  the same server and the same verdicts of the brokers and of the resources, gives the same view again,
  whatever conditions the first one started from, and writes nothing: the event of the write is the last one.
\<close>

theorem status_settles:
  assumes M: "meta_ok (teMeta E)" "veMeta V = teMeta E" and wf: "wf_cluster cr" "wf_cluster current"
    and run: "status_run V E os goarch blocked err verdicts (bcStatus current) update lastStatus cr = (cr1, written, failed)"
  shows "(written \<longleftrightarrow> \<not> same_view (bcStatus cr1) (bcStatus current)) \<and>
    (\<exists>cr2. status_run V E os goarch blocked err verdicts (bcStatus cr1) update' lastStatus' (stored_status cr cr1) =
        (cr2, False, None) \<and> same_view (bcStatus cr2) (bcStatus cr1))"
proof -
  let ?M = "teMeta E" and ?cr = "stored_status cr cr1"
  define base where "base = status_base E os goarch cr"
  have d: "distinct_types (bcConditions cr)" and confs: "distinct (map ecName (stExternalConfigs (bcStatus base)))"
    using wf(1) by (simp_all add: wf_cluster_def base_def status_base_def)
  from run_shape [OF M d base_def] run obtain cs where
    cs: "distinct_types cs" "UpdateBrokerClusterCRStatus ?M (Inr (bcStatus current)) update (set_conditions cs base) =
        (cr1, written, failed)"
      "FindStatusCondition ?M cs = before_summary (bcGeneration cr) (\<lambda>valid. getDeploymentCondition (teKube E) base valid err)
        (before_pods (valid_verdict V cr # verdicts) (blocked_condition blocked cr) (FindStatusCondition ?M (bcConditions cr)))"
    by (metis (no_types, lifting))
  from cs(2) have c1: "cr1 = set_conditions (SetReadyCondition ?M cs) base"
    and wr: "written \<longleftrightarrow> \<not> EqualBrokerClusterCRStatus (bcStatus cr1) (bcStatus current)"
    by (auto simp: UpdateBrokerClusterCRStatus_def Let_def split: if_splits)
  have wf_set: "wf_cluster (set_conditions (SetReadyCondition ?M x) base)" if "distinct_types x" for x
    using M(1) that confs by (simp add: wf_cluster_def SetReady_distinct)
  have base2: "set_conditions (SetReadyCondition ?M cs) base = status_base E os goarch ?cr"
    unfolding c1 base_def by (rule base_stored [symmetric])
  have d2: "distinct_types (bcConditions ?cr)" using M(1) cs(1) by (simp add: c1 SetReady_distinct)
  have same: "valid_verdict V ?cr = valid_verdict V cr" "blocked_condition blocked ?cr = blocked_condition blocked cr"
    "bcGeneration ?cr = bcGeneration cr"
    by (simp_all add: valid_verdict_status blocked_condition_def)
  have conds: "bcConditions ?cr = SetReadyCondition ?M cs" by (simp add: c1)
  from run_shape [OF M d2 base2, of blocked err verdicts "bcStatus cr1" update' lastStatus',
      unfolded same conds deployment_of_set] obtain cs'' where
    "distinct_types cs''" "status_run V E os goarch blocked err verdicts (bcStatus cr1) update' lastStatus' ?cr =
      UpdateBrokerClusterCRStatus ?M (Inr (bcStatus cr1)) update' (set_conditions cs'' (set_conditions (SetReadyCondition ?M cs) base))"
    "FindStatusCondition ?M cs'' = before_summary (bcGeneration cr) (\<lambda>valid. getDeploymentCondition (teKube E) base valid err)
        (before_pods (valid_verdict V cr # verdicts) (blocked_condition blocked cr)
          (FindStatusCondition ?M (SetReadyCondition ?M cs)))" by blast
  then obtain cs' where
    cs': "distinct_types cs'" "status_run V E os goarch blocked err verdicts (bcStatus cr1) update' lastStatus' ?cr =
      UpdateBrokerClusterCRStatus ?M (Inr (bcStatus cr1)) update' (set_conditions cs' base)"
      "FindStatusCondition ?M cs' = before_summary (bcGeneration cr) (\<lambda>valid. getDeploymentCondition (teKube E) base valid err)
        (before_pods (valid_verdict V cr # verdicts) (blocked_condition blocked cr)
          (FindStatusCondition ?M (SetReadyCondition ?M cs)))"
    by (simp add: that)
  have "FindStatusCondition ?M (SetReadyCondition ?M cs) t = FindStatusCondition ?M cs t" if "t \<noteq> ReadyConditionType" for t
    using M(1) cs(1) that by (simp add: SetReadyCondition_def Let_def NewReadyCondition_def meta_find_set)
  note idem = before_summary_idem [OF cs(3) this]
  have sets: "set (SetReadyCondition ?M cs') = set (SetReadyCondition ?M cs)"
    by (rule same_conditions [OF M(1) cs(1) cs'(1)]) (unfold cs'(3), rule idem)
  let ?cr2 = "set_conditions (SetReadyCondition ?M cs') base"
  have "x = y" if "x \<in> set (stExternalConfigs (bcStatus base))" "y \<in> set (stExternalConfigs (bcStatus base))"
    "ecName x = ecName y" for x y
    using that confs by (auto simp: distinct_map dest: inj_onD)
  then have view: "same_view (bcStatus ?cr2) (bcStatus cr1)"
    using sets by (auto simp: same_view_def c1 set_conditions_def)
  have "EqualBrokerClusterCRStatus (bcStatus ?cr2) (bcStatus cr1)"
    using status_write_exact [OF wf_set [OF cs'(1)] wf_set [OF cs(1)]] view by (simp only: c1)
  then have "UpdateBrokerClusterCRStatus ?M (Inr (bcStatus cr1)) update' (set_conditions cs' base) = (?cr2, False, None)"
    by (simp add: UpdateBrokerClusterCRStatus_def Let_def)
  with cs'(2) view have "status_run V E os goarch blocked err verdicts (bcStatus cr1) update' lastStatus' ?cr = (?cr2, False, None) \<and>
    same_view (bcStatus ?cr2) (bcStatus cr1)" by simp
  moreover have "written \<longleftrightarrow> \<not> same_view (bcStatus cr1) (bcStatus current)"
    using wr status_write_exact [OF wf_set [OF cs(1)] wf(2)] by (simp only: c1)
  ultimately show ?thesis by blast
qed

text \<open>A status of before with another size: the first computation writes, the second does not.\<close>

theorem status_settles_witness:
  "\<exists>cr1 cr2 failed. status_run sample_validation_env sample_status_env (\<lambda>k. None) ''amd64'' True None [] (sample_cluster_status 1)
      (\<lambda>c. None) no_pods (sample_broker_cluster 1 2) = (cr1, True, failed) \<and>
    status_run sample_validation_env sample_status_env (\<lambda>k. None) ''amd64'' True None [] (bcStatus cr1)
      (\<lambda>c. None) no_pods (stored_status (sample_broker_cluster 1 2) cr1) = (cr2, False, None)"
proof -
  let ?run = "status_run sample_validation_env sample_status_env (\<lambda>k. None) ''amd64'' True None []"
  let ?cr = "sample_broker_cluster 1 2"
  obtain cr1 wr f where run: "?run (bcStatus (sample_broker_cluster 1 1)) (\<lambda>c. None) no_pods ?cr = (cr1, wr, f)"
    by (metis prod_cases3)
  have M: "meta_ok (teMeta sample_status_env)" "veMeta sample_validation_env = teMeta sample_status_env"
    by (simp_all add: meta_instance_ok sample_validation_env_def)
  note settles = status_settles [OF M sample_wf sample_wf run, of "\<lambda>c. None" no_pods]
  obtain cs where "cr1 = set_conditions cs (status_base sample_status_env (\<lambda>k. None) ''amd64'' ?cr)"
    using run_shape [OF M _ refl, of ?cr "\<lambda>k. None" "''amd64''" True None "[]" "bcStatus (sample_broker_cluster 1 1)" "\<lambda>c. None" no_pods]
      run sample_wf [of 1 2] by (auto simp: wf_cluster_def UpdateBrokerClusterCRStatus_def Let_def split: if_splits)
  then have "stDeploymentPlanSize (bcStatus cr1) = 2"
    by (simp add: status_base_def pods_of_def sample_cluster_kube_def)
  then have "\<not> same_view (bcStatus cr1) (bcStatus (sample_broker_cluster 1 1))" by (simp add: same_view_def)
  with settles have "wr" by blast
  with run have "?run (sample_cluster_status 1) (\<lambda>c. None) no_pods ?cr = (cr1, True, f)" by simp
  with settles show ?thesis by blast
qed

section \<open>The order of the files\<close>

definition mismatched :: "string \<Rightarrow> projection \<Rightarrow> (string \<Rightarrow> properties_status option) \<Rightarrow> string \<Rightarrow> bool" where
  "mismatched pod P st name \<longleftrightarrow> (\<exists>cur. st name = Some cur \<and> check_sums pod name (file_of P name) cur \<noteq> None)"

lemma check_sums_error: "check_sums pod name f cur = Some e \<Longrightarrow> \<exists>m. e = StatusOutOfSyncError m"
  by (auto simp: check_sums_def out_of_sync_def split: if_splits)

lemma check_files_mismatch:
  "(\<exists>name \<in> set names. mismatched pod P st name) \<longleftrightarrow> (\<exists>m. check_files B pod P st names acc = Inl (StatusOutOfSyncError m))"
proof (induction names arbitrary: acc)
  case (Cons name names)
  obtain mk ae where acc: "acc = (mk, ae)" by fastforce
  show ?case
  proof (cases "mismatched pod P st name")
    case True
    then obtain cur e where "st name = Some cur" "check_sums pod name (file_of P name) cur = Some e"
      by (auto simp: mismatched_def)
    with check_sums_error True show ?thesis by (fastforce simp: acc)
  next
    case False
    then have "(\<exists>cur. st name = Some cur \<and> check_sums pod name (file_of P name) cur = None) \<or> st name = None"
      by (auto simp: mismatched_def)
    then have "\<exists>acc'. check_files B pod P st (name # names) acc = check_files B pod P st names acc'"
      unfolding acc by (elim disjE exE conjE) (simp_all only: check_files.simps option.case, rule exI, rule refl, rule exI, rule refl)
    then obtain acc' where "check_files B pod P st (name # names) acc = check_files B pod P st names acc'" ..
    with Cons.IH [of acc'] False show ?thesis by simp
  qed
qed simp

lemma check_files_all:
  assumes "\<forall>name \<in> set names. \<not> mismatched pod P st name"
  shows "\<exists>mk' ae'. check_files B pod P st names (mk, ae) = Inr (mk', ae') \<and>
    (mk' = [] \<longleftrightarrow> mk = [] \<and> (\<forall>name \<in> set names. st name = None \<longrightarrow> may_be_absent name)) \<and>
    (ae' = None \<longleftrightarrow> ae = None \<and> (\<forall>name \<in> set names. \<forall>cur. st name = Some cur \<longrightarrow> prApplyErrors cur = []))"
  using assms
proof (induction names arbitrary: mk ae)
  case (Cons name names)
  have rest: "\<forall>name \<in> set names. \<not> mismatched pod P st name" using Cons.prems by simp
  show ?case
  proof (cases "st name")
    case None
    with Cons.IH [OF rest, of "if \<not> may_be_absent name then mk @ [name] else mk" ae] show ?thesis by auto
  next
    case (Some cur)
    with Cons.prems have "check_sums pod name (file_of P name) cur = None" by (auto simp: mismatched_def)
    with Some Cons.IH [OF rest, of mk "if length (prApplyErrors cur) > 0
      then Some (ErrorApplyDetail name (baMarshalErrors B (prApplyErrors cur)) (case ae of Some d \<Rightarrow> d | None \<Rightarrow> []))
      else ae"] show ?thesis by auto
  qed
qed simp

text \<open>The verdict on one broker: the kind of error, with no message.\<close>

definition verdict :: "artemis_error option \<Rightarrow> condition_status \<times> string" where
  "verdict e = (let c = condition_or_error e ConfigAppliedConditionType ConfigAppliedConditionSynchedReason in (cStatus c, cReason c))"

lemma verdict_of_check:
  assumes "range_ok ord"
  shows "verdict (projection_check ord B cr P ex st jk) =
    (let pod = CrToSS (bcName cr) @ ''-'' @ jkOrdinal jk; names = fst ` set (pjFiles P)
     in if \<exists>name \<in> names. mismatched pod P (ex st) name
        then (ConditionFalse, ConfigAppliedConditionOutOfSyncReason)
        else if \<exists>name \<in> names. \<exists>cur. ex st name = Some cur \<and> prApplyErrors cur \<noteq> []
        then (ConditionFalse, ConfigAppliedConditionSynchedWithErrorReason)
        else if \<exists>name \<in> names. ex st name = None \<and> \<not> may_be_absent name
        then (ConditionUnknown, ConfigAppliedConditionOutOfSyncReason)
        else (ConditionTrue, ConfigAppliedConditionSynchedReason))"
proof -
  let ?pod = "CrToSS (bcName cr) @ ''-'' @ jkOrdinal jk" and ?names = "ord (map fst (pjFiles P))"
  have names: "set ?names = fst ` set (pjFiles P)" using assms by simp
  show ?thesis
  proof (cases "\<exists>name \<in> set ?names. mismatched ?pod P (ex st) name")
    case True
    with check_files_mismatch [of ?names ?pod P "ex st" B "([], None)"] obtain m where
      "check_files B ?pod P (ex st) ?names ([], None) = Inl (StatusOutOfSyncError m)" by blast
    then have "projection_check ord B cr P ex st jk = Some (StatusOutOfSyncError m)"
      by (simp add: projection_check_def Let_def)
    with True show ?thesis
      by (simp add: names Let_def verdict_def condition_or_error_def trapErrorAsCondition_def)
  next
    case False
    with check_files_all [of ?names ?pod P "ex st" B "[]" None] obtain mk ae where
      c: "check_files B ?pod P (ex st) ?names ([], None) = Inr (mk, ae)"
        "mk = [] \<longleftrightarrow> (\<forall>name \<in> set ?names. ex st name = None \<longrightarrow> may_be_absent name)"
        "ae = None \<longleftrightarrow> (\<forall>name \<in> set ?names. \<forall>cur. ex st name = Some cur \<longrightarrow> prApplyErrors cur = [])" by auto
    have "verdict (projection_check ord B cr P ex st jk) =
        (if ae \<noteq> None then (ConditionFalse, ConfigAppliedConditionSynchedWithErrorReason)
         else if mk \<noteq> [] then (ConditionUnknown, ConfigAppliedConditionOutOfSyncReason)
         else (ConditionTrue, ConfigAppliedConditionSynchedReason))"
      using c(1) by (auto simp: projection_check_def Let_def verdict_def condition_or_error_def trapErrorAsCondition_def
          missing_keys_error_def split: option.split)
    with False show ?thesis by (simp add: names c(2,3) [unfolded names] Let_def)
  qed
qed

text \<open>
  the verdict does not depend on the order of a map.  Whatever order Go ranges over the files in, the
  condition for one broker has the same status and the same reason.
\<close>

theorem verdict_stable:
  assumes "range_ok ord" "range_ok ord'"
  shows "verdict (projection_check ord B cr P ex st jk) = verdict (projection_check ord' B cr P ex st jk)"
  by (simp only: verdict_of_check [OF assms(1)] verdict_of_check [OF assms(2)])

definition two_files :: projection where
  "two_files = \<lparr>pjName = ''amq-props'', pjResourceVersion = ''1'',
     pjFiles = [(''a.properties'', \<lparr>pfAlder32 = ''1'', pfFileAlder32 = ''1''\<rparr>), (''b.properties'', \<lparr>pfAlder32 = ''1'', pfFileAlder32 = ''1''\<rparr>)]\<rparr>"

definition old_status :: broker_status where
  "old_status = \<lparr>bsConfig = (\<lambda>f. Some \<lparr>prAlder32 = ''2'', prFileAlder32 = '''', prApplyErrors = []\<rparr>),
     bsJaas = (\<lambda>f. None), bsVersion = ''''\<rparr>"

theorem verdict_stable_witness:
  "verdict (projection_check (\<lambda>ks. ks) sample_brokers (sample_broker_cluster 1 1) two_files bsConfig old_status
      \<lparr>jkIP = '''', jkOrdinal = ''0''\<rparr>) =
   verdict (projection_check rev sample_brokers (sample_broker_cluster 1 1) two_files bsConfig old_status
      \<lparr>jkIP = '''', jkOrdinal = ''0''\<rparr>)"
  by (rule verdict_stable) simp_all

text \<open>
  The message does.  With two files that differ, two orders give two messages, so two reconciles of an
  unchanged cluster write the status twice, which the sorting of the missing files is there to avoid.
\<close>

theorem mismatch_message_unstable:
  "\<exists>ord ord'. range_ok ord \<and> range_ok ord' \<and>
     (let c = (\<lambda>o'. condition_or_error (projection_check o' sample_brokers (sample_broker_cluster 1 1) two_files bsConfig
          old_status \<lparr>jkIP = '''', jkOrdinal = ''0''\<rparr>) ConfigAppliedConditionType ConfigAppliedConditionSynchedReason)
      in conditionsModified [c ord] [c ord'])"
proof (intro exI conjI)
  show "range_ok (\<lambda>ks. ks)" "range_ok rev" by simp_all
  show "let c = (\<lambda>o'. condition_or_error (projection_check o' sample_brokers (sample_broker_cluster 1 1) two_files bsConfig
          old_status \<lparr>jkIP = '''', jkOrdinal = ''0''\<rparr>) ConfigAppliedConditionType ConfigAppliedConditionSynchedReason)
      in conditionsModified [c (\<lambda>ks. ks)] [c rev]"
    by (simp add: projection_check_def two_files_def old_status_def check_sums_def out_of_sync_def file_of_def
        condition_or_error_def trapErrorAsCondition_def conditionsModified_def IsConditionPresentAndEqual_def)
qed

end
