(* ===== verification/Pod_Types.thy ===== *)
theory Pod_Types
  imports Cluster_Types
begin

text \<open>
  The custom resource \<open>Broker\<close> of \<open>api/v1beta2/broker_types.go\<close>.
\<close>

section \<open>Broker\<close>

record broker_cr_status =
  rsConditions :: "condition list"
  rsPodStatus :: pod_status
  rsScaleLabelSelector :: string
  rsExternalConfigs :: "external_config list"
  rsVersion :: version_status

record broker_cr =
  rbKind :: string
  rbAPIVersion :: string
  rbNamespace :: string
  rbName :: string
  rbUID :: string
  rbGeneration :: int
  rbMetaAnnotations :: data_map
  rbImage :: string
  rbVersion :: string
  rbResources :: string
  rbEnv :: "env_var list"
  rbPersistenceEnabled :: bool
  rbStorageSize :: string
  rbStorageClassName :: string
  rbBrokerProperties :: "string list"
  rbTemplates :: "resource_template list"
  rbExtraConfigMaps :: "string list"
  rbExtraSecrets :: "string list"
  rbImagePullSecrets :: "string list"
  rbLabels :: labels
  rbAnnotations :: data_map
  rbNodeSelector :: labels
  rbAffinity :: affinity
  rbTolerations :: "string list"
  rbTopologySpread :: "string list"
  rbServiceAccountName :: "string option"
  rbRunAsUser :: "int64 option"
  rbPodSecurityContext :: "pod_security_context option"
  rbContainerSecurityContext :: "security_context option"
  rbStartupProbe :: "probe option"
  rbLivenessProbe :: "probe option"
  rbReadinessProbe :: "probe option"
  rbEnableMetricsPlugin :: "bool option"
  rbBudget :: "budget_spec option"
  rbRevisionHistoryLimit :: "int32 option"
  rbExtraVolumes :: "volume list"
  rbExtraVolumeMounts :: "volume_mount list"
  rbExtraClaims :: "claim_template list"
  rbStatus :: broker_cr_status

abbreviation "rbConditions cr \<equiv> rsConditions (rbStatus cr)"

definition set_broker_conditions :: "condition list \<Rightarrow> broker_cr \<Rightarrow> broker_cr" where
  "set_broker_conditions cs cr = cr\<lparr>rbStatus := (rbStatus cr)\<lparr>rsConditions := cs\<rparr>\<rparr>"

definition broker_image_spec :: "broker_cr \<Rightarrow> image_spec" where
  "broker_image_spec cr = \<lparr>isVersion = rbVersion cr, isImage = rbImage cr, isInitImage = ''''\<rparr>"

end
