(* ===== verification/Environments.thy ===== *)
theory Environments
  imports Pod_Types
begin

text \<open>
  \<open>pkg/resources/environments/environment.go\<close> and the environment helpers of
  \<open>brokercluster_reconciler.go\<close>: the variables of the broker container, and how the variables of the
  custom resource are merged with the ones the operator generates.
\<close>

section \<open>Generated variables\<close>

abbreviation "NameEnvVar \<equiv> ''AMQ_NAME''"
abbreviation "jdkJavaOptionsEnvVarName \<equiv> ''JDK_JAVA_OPTIONS''"
abbreviation "javaArgsAppendEnvVarName \<equiv> ''JAVA_ARGS_APPEND''"
abbreviation "debugArgsEnvVarName \<equiv> ''DEBUG_ARGS''"

definition plain_var :: "string \<times> string \<Rightarrow> env_var" where
  "plain_var = (\<lambda>(n, v). \<lparr>evName = n, evValue = v, evValueFrom = None\<rparr>)"

definition ResolveBrokerNameFromEnvs :: "env_var list \<Rightarrow> string \<Rightarrow> string" where
  "ResolveBrokerNameFromEnvs envs defaultValue =
     (case List.find (\<lambda>v. evName v = NameEnvVar) envs of Some v \<Rightarrow> evValue v | None \<Rightarrow> defaultValue)"

definition AddEnvVarForBasic :: "string \<Rightarrow> string \<Rightarrow> string \<Rightarrow> env_var list" where
  "AddEnvVarForBasic requireLogin journalType svcPingName = map plain_var
     [(''AMQ_ROLE'', ''admin''), (NameEnvVar, ''amq-broker''), (''AMQ_TRANSPORTS'', ''''),
      (''AMQ_QUEUES'', ''''), (''AMQ_ADDRESSES'', ''''), (''AMQ_GLOBAL_MAX_SIZE'', ''100 mb''),
      (''AMQ_REQUIRE_LOGIN'', requireLogin), (''AMQ_EXTRA_ARGS'', ''--no-autotune''),
      (''AMQ_ANYCAST_PREFIX'', ''''), (''AMQ_MULTICAST_PREFIX'', ''''), (''POD_NAMESPACE'', ''''),
      (''AMQ_JOURNAL_TYPE'', journalType), (''TRIGGERED_ROLL_COUNT'', ''0''),
      (''PING_SVC_NAME'', svcPingName), (''OPENSHIFT_DNS_PING_SERVICE_PORT'', ''7800'')]"

definition AddEnvVarForPersistent :: "string \<Rightarrow> env_var list" where
  "AddEnvVarForPersistent customResourceName = map plain_var
     [(''AMQ_DATA_DIR'', ''/opt/'' @ customResourceName @ ''/data''), (''AMQ_DATA_DIR_LOGGING'', ''true'')]"

definition FormatBool :: "bool \<Rightarrow> string" where
  "FormatBool b = (if b then ''true'' else ''false'')"

definition AddEnvVarForCluster :: "bool \<Rightarrow> env_var list" where
  "AddEnvVarForCluster clustered = [plain_var (''AMQ_CLUSTERED'', FormatBool clustered)]"

definition AddEnvVarForJolokia :: "string \<Rightarrow> env_var list" where
  "AddEnvVarForJolokia enabled = [plain_var (''AMQ_ENABLE_JOLOKIA_AGENT'', enabled)]"

definition AddEnvVarForManagement :: "string \<Rightarrow> env_var list" where
  "AddEnvVarForManagement enabled = [plain_var (''AMQ_ENABLE_MANAGEMENT_RBAC'', enabled)]"

definition AddEnvVarForMetricsPlugin :: "string \<Rightarrow> env_var list" where
  "AddEnvVarForMetricsPlugin enabled = [plain_var (''AMQ_ENABLE_METRICS_PLUGIN'', enabled)]"

section \<open>Lookups and updates\<close>

text \<open>\<open>Find\<close> returns a pointer into the slice: here the index of the first variable of that name.\<close>

fun Find :: "env_var list \<Rightarrow> string \<Rightarrow> nat option" where
  "Find [] name = None"
| "Find (v # envs) name = (if evName v = name then Some 0 else map_option Suc (Find envs name))"

definition find_var :: "env_var list \<Rightarrow> string \<Rightarrow> env_var option" where
  "find_var envs name = map_option (nth envs) (Find envs name)"

definition set_value :: "nat \<Rightarrow> string \<Rightarrow> env_var list \<Rightarrow> env_var list" where
  "set_value i value envs = envs[i := (envs ! i)\<lparr>evValue := value\<rparr>]"

definition RetrieveFrom :: "container \<Rightarrow> string \<Rightarrow> nat option" where
  "RetrieveFrom ct name = Find (ctEnv ct) name"

definition Create_env :: "env_var \<Rightarrow> container list \<Rightarrow> container list" where
  "Create_env v = map (\<lambda>ct. ct\<lparr>ctEnv := ctEnv ct @ [v]\<rparr>)"

definition CreateOrAppend :: "env_var \<Rightarrow> container list \<Rightarrow> container list" where
  "CreateOrAppend v = map (\<lambda>ct.
     (case RetrieveFrom ct (evName v) of
        None \<Rightarrow> ct\<lparr>ctEnv := ctEnv ct @ [v]\<rparr>
      | Some i \<Rightarrow> ct\<lparr>ctEnv := set_value i (evValue (ctEnv ct ! i) @ '' '' @ evValue v) (ctEnv ct)\<rparr>))"

definition Update_env :: "env_var \<Rightarrow> container list \<Rightarrow> container list" where
  "Update_env v = map (\<lambda>ct. ct\<lparr>ctEnv := map (\<lambda>w. if evName v = evName w then v else w) (ctEnv ct)\<rparr>)"

text \<open>The last variable of the name in the first container that has one.\<close>

definition Retrieve :: "container list \<Rightarrow> string \<Rightarrow> env_var option" where
  "Retrieve cts name =
     (case List.find (\<lambda>ct. \<exists>w \<in> set (ctEnv ct). evName w = name) cts of
        None \<Rightarrow> None
      | Some ct \<Rightarrow> List.find (\<lambda>w. evName w = name) (rev (ctEnv ct)))"

text \<open>\<open>remove\<close> moves the last element into the gap; \<open>Delete\<close> walks down from the end.\<close>

definition remove_at :: "nat \<Rightarrow> env_var list \<Rightarrow> env_var list" where
  "remove_at i s = butlast (s[i := last s])"

fun delete_loop :: "string \<Rightarrow> nat \<Rightarrow> env_var list \<Rightarrow> env_var list" where
  "delete_loop name 0 s = s"
| "delete_loop name (Suc j) s =
     delete_loop name j (if evName (s ! j) = name then remove_at j s else s)"

definition Delete_env :: "string \<Rightarrow> container list \<Rightarrow> container list" where
  "Delete_env name = map (\<lambda>ct. ct\<lparr>ctEnv := delete_loop name (length (ctEnv ct)) (ctEnv ct)\<rparr>)"

definition TrackSecretCheckSumInRollCount :: "string \<Rightarrow> container list \<Rightarrow> container list" where
  "TrackSecretCheckSumInRollCount checkSum = Update_env (plain_var (''TRIGGERED_ROLL_COUNT'', checkSum))"

text \<open>The value to set when the variable is absent or one of its occurrences differs.\<close>

definition StringSyncCausedUpdateOn :: "container list \<Rightarrow> string \<Rightarrow> string \<Rightarrow> env_var option" where
  "StringSyncCausedUpdateOn cts name value =
     (let vs = filter (\<lambda>v. evName v = name) (ctEnv (hd cts))
      in if vs = [] \<or> list_ex (\<lambda>v. evValue v \<noteq> value) vs then Some (plain_var (name, value)) else None)"

section \<open>Merging the variables of the custom resource\<close>

text \<open>
  \<open>ReplaceOrAppend\<close> on Go slices.  The result starts as the slice it is given; an append writes into
  the spare capacity of the array as long as there is some, and moves the result to a new array when
  there is none, while \<open>Find\<close> keeps looking at, and writing to, the original array.  \<open>spare\<close> is that
  capacity, which the runtime chooses.  \<open>src\<close> is the content of the original array, \<open>moved\<close> that of
  the prefix of the new one, once there is one, and \<open>extra\<close> what was appended.
\<close>

fun replace_or_append ::
  "nat \<Rightarrow> env_var list \<Rightarrow> env_var list option \<Rightarrow> env_var list \<Rightarrow> env_var list \<Rightarrow> env_var list" where
  "replace_or_append spare src moved extra [] =
     (case moved of None \<Rightarrow> src | Some p \<Rightarrow> p) @ extra"
| "replace_or_append spare src moved extra (newElem # elems) =
     (case Find src (evName newElem) of
        Some i \<Rightarrow> replace_or_append spare (set_value i (evValue newElem) src) moved extra elems
      | None \<Rightarrow>
          replace_or_append spare src
            (if moved = None \<and> length extra \<ge> spare then Some src else moved) (extra @ [newElem]) elems)"

definition ReplaceOrAppend :: "nat \<Rightarrow> env_var list \<Rightarrow> env_var list \<Rightarrow> env_var list" where
  "ReplaceOrAppend spare envs elems = replace_or_append spare envs None [] elems"

section \<open>Ordinals in Java options\<close>

abbreviation "ordinal_reference \<equiv> ''${STATEFUL_SET_ORDINAL}''"

definition supportsOrdinalReplacement :: "env_var \<Rightarrow> bool" where
  "supportsOrdinalReplacement v \<longleftrightarrow>
     (evName v = jdkJavaOptionsEnvVarName \<or> evName v = javaArgsAppendEnvVarName) \<and>
     str_contains (evValue v) ordinal_reference"

definition generateReEvalOrdinaEnvReplacement :: "env_var list \<Rightarrow> string" where
  "generateReEvalOrdinaEnvReplacement envVars =
     concat (map (\<lambda>v.
       ''export '' @ evName v @ ''=${'' @ evName v @ ''//'' @ [CHR 0x5C] @ ''$'' @ [CHR 0x5C] @
       ''{STATEFUL_SET_ORDINAL'' @ [CHR 0x5C] @ ''}/${HOSTNAME##*-}}; '')
       (filter supportsOrdinalReplacement envVars))"

section \<open>Facts about the merge\<close>

text \<open>The variables that are not among the generated ones, and the replacement of those that are.\<close>

definition new_vars :: "env_var list \<Rightarrow> env_var list \<Rightarrow> env_var list" where
  "new_vars src elems = filter (\<lambda>e. evName e \<notin> evName ` set src) elems"

fun set_values :: "env_var list \<Rightarrow> env_var list \<Rightarrow> env_var list" where
  "set_values src [] = src"
| "set_values src (e # elems) =
     set_values (case Find src (evName e) of Some i \<Rightarrow> set_value i (evValue e) src | None \<Rightarrow> src) elems"

lemma Find_None [simp]: "Find envs name = None \<longleftrightarrow> name \<notin> evName ` set envs"
  by (induction envs) auto

lemma Find_SomeD:
  "Find envs name = Some i \<Longrightarrow> i < length envs \<and> evName (envs ! i) = name"
  by (induction envs arbitrary: i) (auto split: if_splits)

lemma Find_Some_in: "Find envs name = Some i \<Longrightarrow> name \<in> evName ` set envs"
  by (metis Find_None option.distinct(1))

lemma Find_names: "map evName a = map evName b \<Longrightarrow> Find a name = Find b name"
proof (induction a arbitrary: b)
  case (Cons x a)
  then show ?case by (cases b) auto
qed simp

lemma map_evName_set_value [simp]: "map evName (set_value i v envs) = map evName envs"
proof (rule nth_equalityI)
  fix j assume "j < length (map evName (set_value i v envs))"
  then show "map evName (set_value i v envs) ! j = map evName envs ! j"
    by (cases "j = i") (simp_all add: set_value_def nth_list_update)
qed (simp add: set_value_def)

lemma names_set_value [simp]: "evName ` set (set_value i v envs) = evName ` set envs"
  by (metis list.set_map map_evName_set_value)

lemma Find_set_value [simp]: "Find (set_value i v envs) name = Find envs name"
  by (rule Find_names) simp

lemma new_vars_set_value [simp]: "new_vars (set_value i v src) elems = new_vars src elems"
  by (simp add: new_vars_def)

lemma new_vars_Cons:
  "new_vars src (e # elems) =
     (if Find src (evName e) = None then e # new_vars src elems else new_vars src elems)"
  by (simp add: new_vars_def)

lemma set_values_append: "set_values src (xs @ ys) = set_values (set_values src xs) ys"
  by (induction xs arbitrary: src) simp_all

lemma map_evName_set_values [simp]: "map evName (set_values src elems) = map evName src"
  by (induction elems arbitrary: src) (auto split: option.splits)

lemma length_set_values [simp]: "length (set_values src elems) = length src"
  by (metis length_map map_evName_set_values)

lemma replace_or_append_moved:
  "replace_or_append spare src (Some p) extra elems = p @ extra @ new_vars src elems"
proof (induction elems arbitrary: src extra)
  case (Cons e elems)
  then show ?case
    by (cases "Find src (evName e)") (auto simp: new_vars_Cons dest: Find_Some_in simp del: Find_None)
qed (simp add: new_vars_def)

lemma replace_or_append_in_place:
  "length extra + length (new_vars src elems) \<le> spare \<Longrightarrow>
     replace_or_append spare src None extra elems = set_values src elems @ extra @ new_vars src elems"
proof (induction elems arbitrary: src extra)
  case (Cons e elems)
  show ?case
  proof (cases "Find src (evName e)")
    case None
    with Cons.prems show ?thesis
      by (simp add: Cons.IH new_vars_Cons del: Find_None)
  next
    case (Some i)
    with Cons.prems show ?thesis
      by (simp add: Cons.IH new_vars_Cons del: Find_None)
  qed
qed (simp add: new_vars_def)

text \<open>The element that does not fit moves the result; later replacements no longer reach it.\<close>

lemma replace_or_append_grown:
  "length extra + length (new_vars src pre) = spare \<Longrightarrow> evName e \<notin> evName ` set src \<Longrightarrow>
     replace_or_append spare src None extra (pre @ e # post) =
       set_values src pre @ extra @ new_vars src pre @ e # new_vars src post"
proof (induction pre arbitrary: src extra)
  case Nil
  then have "Find src (evName e) = None" by simp
  with Nil show ?case by (simp add: replace_or_append_moved new_vars_def del: Find_None)
next
  case (Cons d pre)
  show ?case
  proof (cases "Find src (evName d)")
    case None
    with Cons.prems show ?thesis by (simp add: Cons.IH new_vars_Cons del: Find_None)
  next
    case (Some i)
    with Cons.prems show ?thesis by (simp add: Cons.IH new_vars_Cons del: Find_None)
  qed
qed

text \<open>The value a replacement leaves under a name: the last one given.\<close>

lemma nth_set_values:
  "distinct (map evName src) \<Longrightarrow> i < length src \<Longrightarrow>
     set_values src elems ! i =
       (src ! i)\<lparr>evValue :=
          (case List.find (\<lambda>e. evName e = evName (src ! i)) (rev elems) of
             Some e \<Rightarrow> evValue e | None \<Rightarrow> evValue (src ! i))\<rparr>"
proof (induction elems arbitrary: src rule: rev_induct)
  case (snoc e elems)
  let ?s = "set_values src elems"
  have n: "evName (?s ! i) = evName (src ! i)"
    using snoc.prems by (metis length_set_values map_evName_set_values nth_map)
  show ?case
  proof (cases "Find ?s (evName e)")
    case None
    then have "evName e \<noteq> evName (?s ! i)" using snoc.prems by (auto simp del: map_evName_set_values)
    with None n snoc show ?thesis by (simp add: set_values_append del: Find_None)
  next
    case (Some j)
    then have j: "j < length src" "evName (?s ! j) = evName e" using Find_SomeD by fastforce+
    have "evName (?s ! j) = evName (src ! j)"
      using j by (metis length_set_values map_evName_set_values nth_map)
    then have "i = j \<longleftrightarrow> evName e = evName (src ! i)"
      using j snoc.prems by (metis length_map nth_eq_iff_index_eq nth_map)
    with Some snoc n show ?thesis
      by (cases "i = j") (auto simp: set_values_append set_value_def)
  qed
qed simp

text \<open>The replacement as a map over the variables.\<close>

definition overridden :: "env_var list \<Rightarrow> env_var list \<Rightarrow> env_var list" where
  "overridden src elems = map (\<lambda>g. g\<lparr>evValue :=
     (case List.find (\<lambda>e. evName e = evName g) (rev elems) of Some e \<Rightarrow> evValue e | None \<Rightarrow> evValue g)\<rparr>) src"

lemma set_values_overridden: "distinct (map evName src) \<Longrightarrow> set_values src elems = overridden src elems"
  by (rule nth_equalityI) (simp_all add: overridden_def nth_set_values)

end
