(* ===== verification/Pod_Parts.thy ===== *)
theory Pod_Parts
  imports Environments Config_Projection
begin

text \<open>
  The parts of a pod: volumes and mounts (\<open>pkg/resources/volumes\<close>, \<open>pkg/brokervolumes\<close>), the container
  and the template it is put in, probes, security settings and affinity (\<open>broker_controller.go\<close>, and
  \<open>brokercluster_reconciler.go\<close> where its version differs), services and persistent volume claims.
  Default file modes are constants and left out.
\<close>

section \<open>Volumes\<close>

abbreviation "SecretPathBase \<equiv> ''/amq/extra/secrets/''"
abbreviation "cfgMapPathBase \<equiv> ''/amq/extra/configmaps/''"
abbreviation "DataMountPath \<equiv> ''/app''"

definition mount_at :: "string \<Rightarrow> string \<Rightarrow> bool \<Rightarrow> volume_mount" where
  "mount_at name path readOnly = \<lparr>vmName = name, vmMountPath = path, vmReadOnly = readOnly, vmSubPath = ''''\<rparr>"

definition MakeVolumeMount :: "string \<Rightarrow> volume_mount" where
  "MakeVolumeMount volumeMountName = mount_at volumeMountName (''/etc/'' @ volumeMountName) True"

definition MakeVolume :: "string \<Rightarrow> volume" where
  "MakeVolume secretName = \<lparr>vlName = secretName @ ''-volume'', vlSource = SecretVolume secretName []\<rparr>"

definition MakePersistentVolume :: "string \<Rightarrow> volume list" where
  "MakePersistentVolume customResourceName = [\<lparr>vlName = customResourceName, vlSource = ClaimVolume customResourceName\<rparr>]"

definition MakePersistentVolumeMount :: "string \<Rightarrow> string \<Rightarrow> volume_mount list" where
  "MakePersistentVolumeMount customResourceName mountPath = [mount_at customResourceName mountPath False]"

definition MakeEmptyDirVolumeFor :: "string \<Rightarrow> volume" where
  "MakeEmptyDirVolumeFor name = \<lparr>vlName = name, vlSource = EmptyDirVolume\<rparr>"

definition MakeVolumeMountForCfg :: "string \<Rightarrow> string \<Rightarrow> bool \<Rightarrow> volume_mount" where
  "MakeVolumeMountForCfg name path readOnly = mount_at name path readOnly"

definition MakeRwVolumeMountForCfg :: "string \<Rightarrow> string \<Rightarrow> volume_mount" where
  "MakeRwVolumeMountForCfg name path = MakeVolumeMountForCfg name path False"

definition MakeVolumeForConfigMap :: "string \<Rightarrow> volume" where
  "MakeVolumeForConfigMap cfgmapName = \<lparr>vlName = ''configmap-'' @ cfgmapName, vlSource = ConfigMapVolume cfgmapName []\<rparr>"

definition MakeVolumeForSecret :: "string \<Rightarrow> volume" where
  "MakeVolumeForSecret secretName = \<lparr>vlName = ''secret-'' @ secretName, vlSource = SecretVolume secretName []\<rparr>"

definition GetDefaultMountPath :: "volume \<Rightarrow> string" where
  "GetDefaultMountPath vol = ''/amq/extra/volumes/'' @ vlName vol"

definition MakeVolumeMountForVolume :: "volume \<Rightarrow> volume_mount" where
  "MakeVolumeMountForVolume vol = mount_at (vlName vol) (GetDefaultMountPath vol) False"

definition GetDefaultExternalPVCMountPath :: "string \<Rightarrow> string" where
  "GetDefaultExternalPVCMountPath nameBase = ''/opt/'' @ nameBase @ ''/data''"

definition NewVolumeMountForPVC :: "string \<Rightarrow> volume_mount" where
  "NewVolumeMountForPVC name = mount_at name (GetDefaultExternalPVCMountPath name) False"

section \<open>The volumes and mounts of a broker (pkg/brokervolumes)\<close>

definition MakeVolumes :: "string \<Rightarrow> bool \<Rightarrow> volume list \<Rightarrow> claim_template list \<Rightarrow> volume list" where
  "MakeVolumes name persistent extras epvcs =
     (if persistent then MakePersistentVolume name else []) @ extras @
     concat (map (\<lambda>epvc. MakePersistentVolume (vtName epvc)) epvcs)"

definition extra_mount :: "volume_mount list \<Rightarrow> volume \<Rightarrow> volume_mount" where
  "extra_mount mounts volume =
     (case List.find (\<lambda>vm. vmName vm = vlName volume) mounts of
        Some vm \<Rightarrow> if vmMountPath vm = '''' then vm\<lparr>vmMountPath := GetDefaultMountPath volume\<rparr> else vm
      | None \<Rightarrow> MakeVolumeMountForVolume volume)"

definition claim_mount :: "volume_mount list \<Rightarrow> claim_template \<Rightarrow> volume_mount" where
  "claim_mount mounts epvc =
     (case List.find (\<lambda>vm. vtName epvc = vmName vm) mounts of
        Some vm \<Rightarrow> vm
      | None \<Rightarrow> NewVolumeMountForPVC (vtName epvc))"

definition MakeExtraVolumeMounts ::
  "volume list \<Rightarrow> volume_mount list \<Rightarrow> claim_template list \<Rightarrow> volume_mount list" where
  "MakeExtraVolumeMounts extras mounts epvcs = map (extra_mount mounts) extras @ map (claim_mount mounts) epvcs"

definition MakeVolumeMounts ::
  "string \<Rightarrow> volume list \<Rightarrow> volume_mount list \<Rightarrow> claim_template list \<Rightarrow> volume_mount list" where
  "MakeVolumeMounts name extras mounts epvcs =
     MakePersistentVolumeMount name DataMountPath @ MakeExtraVolumeMounts extras mounts epvcs"

text \<open>
  \<open>RemovePVCOwnerRef\<close>: the claim the read returned, with its owners, and what is written back, if
  anything; both errors are only logged.
\<close>

definition RemovePVCOwnerRef :: "(api_error + claim) \<Rightarrow> string \<Rightarrow> claim option" where
  "RemovePVCOwnerRef got uid =
     (case got of
        Inl err \<Rightarrow> None
      | Inr pvc \<Rightarrow>
          (let owners = omOwners (clMeta pvc); newOwners = filter (\<lambda>oref. orUID oref \<noteq> uid) owners
           in if owners = [] then None
              else if list_ex (\<lambda>oref. orUID oref = uid) owners
              then Some (pvc\<lparr>clMeta := (clMeta pvc)\<lparr>omOwners := newOwners\<rparr>\<rparr>) else None))"

section \<open>Mounted configuration\<close>

definition hasOrdinalPropertieKeyInData :: "data_map \<Rightarrow> bool" where
  "hasOrdinalPropertieKeyInData data \<longleftrightarrow> list_ex (\<lambda>(k, v). ParseBrokerPropertyWithOrdinal k \<noteq> None) data"

text \<open>Where each key of a secret is projected: the files of an ordinal in a directory of their own.\<close>

definition ordinal_items :: "data_map \<Rightarrow> key_to_path list" where
  "ordinal_items data = map (\<lambda>key.
     \<lparr>kpKey = key, kpPath = (case ParseBrokerPropertyWithOrdinal key of
        Some (subPath, rest) \<Rightarrow> subPath @ ''/'' @ key | None \<Rightarrow> key)\<rparr>) (sort (map fst data))"

definition add_items :: "key_to_path list \<Rightarrow> volume \<Rightarrow> volume" where
  "add_items items vol =
     vol\<lparr>vlSource := (case vlSource vol of SecretVolume s is \<Rightarrow> SecretVolume s (is @ items) | src \<Rightarrow> src)\<rparr>"

text \<open>\<open>K\<close> reads a secret of the namespace, for the secrets with the suffix \<open>-bp\<close>.\<close>

definition secret_volume ::
  "(string \<Rightarrow> api_error + secret) \<Rightarrow> string \<Rightarrow> data_map \<Rightarrow> string \<Rightarrow> string + volume" where
  "secret_volume K propertiesName propertiesData s =
     (let vol0 = MakeVolumeForSecret s;
          vol1 = (if s = propertiesName \<and> hasOrdinalPropertieKeyInData propertiesData
                  then add_items (ordinal_items propertiesData) vol0 else vol0)
      in if has_suffix s BrokerPropsSuffix
         then (case K s of
                 Inl err \<Rightarrow> Inl (api_error_text err)
               | Inr bpSecret \<Rightarrow>
                   Inr (if length (secData bpSecret) > 0 \<and> hasOrdinalPropertieKeyInData (secData bpSecret)
                        then add_items (ordinal_items (secData bpSecret)) vol1 else vol1))
         else Inr vol1)"

fun secret_volumes ::
  "(string \<Rightarrow> api_error + secret) \<Rightarrow> string \<Rightarrow> data_map \<Rightarrow> string list \<Rightarrow>
     string + (volume \<times> volume_mount) list" where
  "secret_volumes K propertiesName propertiesData [] = Inr []"
| "secret_volumes K propertiesName propertiesData (s # ss) =
     (if s = '''' then secret_volumes K propertiesName propertiesData ss
      else (case secret_volume K propertiesName propertiesData s of
              Inl err \<Rightarrow> Inl err
            | Inr vol \<Rightarrow>
                (case secret_volumes K propertiesName propertiesData ss of
                   Inl err \<Rightarrow> Inl err
                 | Inr rest \<Rightarrow>
                     Inr ((vol, MakeVolumeMountForCfg (vlName vol) (SecretPathBase @ s) True) # rest))))"

definition createExtraConfigmapsAndSecretsVolumeMounts ::
  "(string \<Rightarrow> api_error + secret) \<Rightarrow> string list \<Rightarrow> string list \<Rightarrow> string \<Rightarrow> data_map \<Rightarrow>
     string + volume list \<times> volume_mount list" where
  "createExtraConfigmapsAndSecretsVolumeMounts K configMaps secrets propertiesName propertiesData =
     (let cfgs = map (\<lambda>cm. (MakeVolumeForConfigMap cm,
                    MakeVolumeMountForCfg (vlName (MakeVolumeForConfigMap cm)) (cfgMapPathBase @ cm) True))
                   (filter (\<lambda>cm. cm \<noteq> '''') configMaps)
      in case secret_volumes K propertiesName propertiesData secrets of
           Inl err \<Rightarrow> Inl err
         | Inr secs \<Rightarrow> Inr (map fst (cfgs @ secs), map snd (cfgs @ secs)))"

section \<open>The container and its pod\<close>

definition no_container :: "string \<Rightarrow> container" where
  "no_container name =
     \<lparr>ctName = name, ctImage = '''', ctCommand = [], ctArgs = [], ctEnv = [], ctPorts = [], ctResources = '''',
      ctVolumeMounts = [], ctStartupProbe = None, ctLivenessProbe = None, ctReadinessProbe = None,
      ctSecurityContext = None, ctTerminationMessagePolicy = ''''\<rparr>"

text \<open>The launch command of a new container; the caller may replace it.\<close>

definition launch_command :: "string list" where
  "launch_command =
     [''/bin/bash'', ''-c'',
      ''export STATEFUL_SET_ORDINAL=${HOSTNAME##*-}; export JDK_JAVA_OPTIONS=${JDK_JAVA_OPTIONS//'' @
      [CHR 0x5C] @ ''$'' @ [CHR 0x5C] @ ''{STATEFUL_SET_ORDINAL'' @ [CHR 0x5C] @
      ''}/${HOSTNAME##*-}}; export FQ_HOST_NAME=$(hostname -f); export JAVA_ARGS_APPEND=$( echo ${JAVA_ARGS_APPEND} | sed '' @
      [CHR 0x22] @ ''s/FQ_HOST_NAME/${FQ_HOST_NAME}/'' @ [CHR 0x22] @ ''); exec /opt/amq/bin/launch.sh'',
      ''start'']"

definition MakeContainer :: "pod_spec \<Rightarrow> string \<Rightarrow> string \<Rightarrow> env_var list \<Rightarrow> container" where
  "MakeContainer hostingPodSpec customResourceName imageName envVarArray =
     (let name = customResourceName @ ''-container'';
          ct = (case List.find (\<lambda>existing. ctName existing = name) (spContainers hostingPodSpec) of
                  Some existing \<Rightarrow> existing
                | None \<Rightarrow> (no_container name)\<lparr>ctCommand := launch_command\<rparr>)
      in ct\<lparr>ctImage := imageName, ctEnv := envVarArray\<rparr>)"

definition MakeInitContainer :: "pod_spec \<Rightarrow> string \<Rightarrow> string \<Rightarrow> env_var list \<Rightarrow> container" where
  "MakeInitContainer hostingPodSpec customResourceName imageName envVarArray =
     (let name = customResourceName @ ''-container-init'';
          ct = (case List.find (\<lambda>existing. ctName existing = name) (spInitContainers hostingPodSpec) of
                  Some existing \<Rightarrow> existing
                | None \<Rightarrow> (no_container name)\<lparr>ctCommand := [''/bin/bash'']\<rparr>)
      in ct\<lparr>ctImage := imageName, ctEnv := envVarArray\<rparr>)"

text \<open>Annotations are only ever added; a range over a map with distinct keys in any order.\<close>

definition ApplyAnnotations :: "data_map \<Rightarrow> data_map \<Rightarrow> data_map" where
  "ApplyAnnotations annotations existing = foldl (\<lambda>m (k, v). AList.update k v m) existing annotations"

definition MakePodTemplateSpec :: "pod_template \<Rightarrow> labels \<Rightarrow> data_map \<Rightarrow> pod_template" where
  "MakePodTemplateSpec current ls annotations =
     current\<lparr>ptLabels := ls, ptAnnotations := ApplyAnnotations annotations (ptAnnotations current)\<rparr>"

section \<open>Probes\<close>

abbreviation "TCPLivenessPort \<equiv> 8161"

definition no_handler :: probe_handler where
  "no_handler = \<lparr>phExec = None, phHTTPGet = None, phTCPSocket = None, phGRPC = None\<rparr>"

definition new_probe :: probe where
  "new_probe = \<lparr>pbInitialDelaySeconds = 0, pbTimeoutSeconds = 0, pbPeriodSeconds = 0, pbSuccessThreshold = 0,
     pbFailureThreshold = 0, pbTerminationGracePeriodSeconds = None, pbHandler = no_handler\<rparr>"

text \<open>Values that are set replace those of the existing probe, so that server side defaults survive.\<close>

definition conditionallyApplyValuesToPreserveDefaults :: "probe \<Rightarrow> probe \<Rightarrow> probe" where
  "conditionallyApplyValuesToPreserveDefaults existing fromCr =
     existing
       \<lparr>pbInitialDelaySeconds := (if 0 <s pbInitialDelaySeconds fromCr then pbInitialDelaySeconds fromCr
                                  else pbInitialDelaySeconds existing),
        pbTimeoutSeconds := (if 0 <s pbTimeoutSeconds fromCr then pbTimeoutSeconds fromCr else pbTimeoutSeconds existing),
        pbPeriodSeconds := (if 0 <s pbPeriodSeconds fromCr then pbPeriodSeconds fromCr else pbPeriodSeconds existing),
        pbTerminationGracePeriodSeconds :=
          (if pbTerminationGracePeriodSeconds fromCr \<noteq> None then pbTerminationGracePeriodSeconds fromCr
           else pbTerminationGracePeriodSeconds existing),
        pbSuccessThreshold := (if 0 <s pbSuccessThreshold fromCr then pbSuccessThreshold fromCr
                               else pbSuccessThreshold existing),
        pbFailureThreshold := (if 0 <s pbFailureThreshold fromCr then pbFailureThreshold fromCr
                               else pbFailureThreshold existing)\<rparr>"

definition probe_or_new :: "probe option \<Rightarrow> probe" where
  "probe_or_new existing = (case existing of Some p \<Rightarrow> p | None \<Rightarrow> new_probe)"

definition has_handler :: "probe \<Rightarrow> bool" where
  "has_handler p \<longleftrightarrow> \<not> (phGRPC (pbHandler p) = None \<and> phExec (pbHandler p) = None \<and>
     phHTTPGet (pbHandler p) = None \<and> phTCPSocket (pbHandler p) = None)"

definition tcp_check :: probe_handler where
  "tcp_check = no_handler\<lparr>phTCPSocket := Some TCPLivenessPort\<rparr>"

definition configureStartupProbe :: "container \<Rightarrow> probe option \<Rightarrow> probe option" where
  "configureStartupProbe ct probeFromCr =
     (case probeFromCr of
        Some p \<Rightarrow> Some ((conditionallyApplyValuesToPreserveDefaults (probe_or_new (ctStartupProbe ct)) p)
                       \<lparr>pbHandler := pbHandler p\<rparr>)
      | None \<Rightarrow> None)"

definition liveness_from :: "probe option \<Rightarrow> probe \<Rightarrow> probe" where
  "liveness_from existing p =
     (conditionallyApplyValuesToPreserveDefaults (probe_or_new existing) p)
       \<lparr>pbHandler := (if has_handler p then pbHandler p else tcp_check)\<rparr>"

definition configureLivenessProbe :: "container \<Rightarrow> probe option \<Rightarrow> probe" where
  "configureLivenessProbe ct probeFromCr =
     (case probeFromCr of
        Some p \<Rightarrow> liveness_from (ctLivenessProbe ct) p
      | None \<Rightarrow> probe_or_new (ctLivenessProbe ct))"

text \<open>The version of the cluster has a default of its own.\<close>

definition cluster_configureLivenessProbe :: "container \<Rightarrow> probe option \<Rightarrow> probe" where
  "cluster_configureLivenessProbe ct probeFromCr =
     (case probeFromCr of
        Some p \<Rightarrow> liveness_from (ctLivenessProbe ct) p
      | None \<Rightarrow> (probe_or_new (ctLivenessProbe ct))
                  \<lparr>pbInitialDelaySeconds := 5, pbTimeoutSeconds := 5, pbHandler := tcp_check\<rparr>)"

definition readiness_command :: "string list" where
  "readiness_command = [''/bin/bash'', ''-c'', ''/opt/amq/bin/readinessProbe.sh'']"

definition betterCommand :: "string list" where
  "betterCommand = [''/bin/bash'', ''-c'', ''/opt/amq/bin/readinessProbe.sh 1'']"

text \<open>The command of an existing deployment is kept.\<close>

definition default_readiness_handler :: "probe \<Rightarrow> probe_handler" where
  "default_readiness_handler existing =
     (if phExec (pbHandler existing) = Some readiness_command then pbHandler existing
      else no_handler\<lparr>phExec := Some betterCommand\<rparr>)"

definition readiness_from :: "probe option \<Rightarrow> probe \<Rightarrow> probe" where
  "readiness_from existing p =
     (let q = conditionallyApplyValuesToPreserveDefaults (probe_or_new existing) p
      in q\<lparr>pbHandler := (if has_handler p then pbHandler p else default_readiness_handler q)\<rparr>)"

definition configureReadinessProbe :: "container \<Rightarrow> probe option \<Rightarrow> probe option" where
  "configureReadinessProbe ct probeFromCr = map_option (readiness_from (ctReadinessProbe ct)) probeFromCr"

definition cluster_configureReadinessProbe :: "container \<Rightarrow> probe option \<Rightarrow> probe" where
  "cluster_configureReadinessProbe ct probeFromCr =
     (case probeFromCr of
        Some p \<Rightarrow> readiness_from (ctReadinessProbe ct) p
      | None \<Rightarrow> (let q = probe_or_new (ctReadinessProbe ct)
                in q\<lparr>pbInitialDelaySeconds := 5, pbTimeoutSeconds := 5, pbHandler := default_readiness_handler q\<rparr>))"

section \<open>Security and affinity\<close>

abbreviation "RuntimeDefault \<equiv> ''RuntimeDefault''"

definition configureAffinity :: "affinity \<Rightarrow> pod_spec \<Rightarrow> pod_spec" where
  "configureAffinity a sp = sp\<lparr>spAffinity := Some \<lparr>afPodAffinity = afPodAffinity a,
     afPodAntiAffinity = afPodAntiAffinity a, afNodeAffinity = afNodeAffinity a\<rparr>\<rparr>"

definition default_pod_security :: pod_security_context where
  "default_pod_security = \<lparr>pscRunAsUser = None, pscRunAsNonRoot = Some True, pscSeccompProfile = Some RuntimeDefault,
     pscOther = ''''\<rparr>"

definition configurePodSecurityContext :: "pod_security_context option \<Rightarrow> pod_spec \<Rightarrow> pod_spec" where
  "configurePodSecurityContext context sp =
     sp\<lparr>spSecurityContext := Some (case context of Some c \<Rightarrow> c | None \<Rightarrow> default_pod_security)\<rparr>"

definition default_container_security :: security_context where
  "default_container_security =
     \<lparr>scAllowPrivilegeEscalation = Some False, scDropCapabilities = Some [''ALL''],
      scSeccompProfile = Some RuntimeDefault, scRunAsNonRoot = Some True, scReadOnlyRootFilesystem = Some True,
      scOther = ''''\<rparr>"

definition configureContainerSecurityContext :: "security_context option \<Rightarrow> container \<Rightarrow> container" where
  "configureContainerSecurityContext context ct =
     ct\<lparr>ctSecurityContext := Some (case context of Some c \<Rightarrow> c | None \<Rightarrow> default_container_security)\<rparr>"

definition configPodSecurity :: "string option \<Rightarrow> int64 option \<Rightarrow> pod_spec \<Rightarrow> pod_spec" where
  "configPodSecurity serviceAccountName runAsUser sp =
     (let sp1 = (case serviceAccountName of
                   Some n \<Rightarrow> sp\<lparr>spServiceAccountName := n\<rparr>
                 | None \<Rightarrow> sp\<lparr>spAutomountServiceAccountToken := Some False\<rparr>)
      in case runAsUser of
           None \<Rightarrow> sp1
         | Some u \<Rightarrow>
             sp1\<lparr>spSecurityContext := Some
               (case spSecurityContext sp1 of
                  None \<Rightarrow> default_pod_security\<lparr>pscRunAsUser := Some u\<rparr>
                | Some c \<Rightarrow> c\<lparr>pscRunAsUser := Some u\<rparr>)\<rparr>)"

section \<open>Services, the stateful set and claims\<close>

definition tcp_port :: "string \<Rightarrow> int32 \<Rightarrow> string option \<Rightarrow> service_port" where
  "tcp_port name port protocol =
     \<lparr>svpName = name, svpPort = port, svpTargetPort = port, svpAppProtocol = protocol\<rparr>"

definition GetDefaultPorts :: "bool \<Rightarrow> service_port list" where
  "GetDefaultPorts restricted =
     (if restricted then []
      else [tcp_port ''jgroups'' 7800 (Some ''tcp''), tcp_port ''console-jolokia'' 8161 (Some ''http''),
            tcp_port ''jolokia'' 8778 (Some ''http''), tcp_port ''all'' 61616 None])"

definition named_meta :: "string \<Rightarrow> string \<Rightarrow> string \<Rightarrow> string \<Rightarrow> string \<Rightarrow> object_meta" where
  "named_meta g v k name ns = \<lparr>omGroup = g, omVersion = v, omKind = k, omName = name, omNamespace = ns,
     omResourceVersion = '''', omUID = '''', omLabels = [], omAnnotations = [], omOwners = []\<rparr>"

definition new_service :: "object_meta \<times> service_spec" where
  "new_service = (named_meta '''' ''v1'' ''Service'' '''' '''',
     \<lparr>sePorts = [], seSelector = [], seType = '''', seClusterIP = '''', seSessionAffinity = '''',
      sePublishNotReady = False, seOther = ''''\<rparr>)"

definition NewHeadlessServiceForCR2 ::
  "string \<Rightarrow> string \<Rightarrow> service_port list \<Rightarrow> labels \<Rightarrow> (object_meta \<times> service_spec) option \<Rightarrow>
     object_meta \<times> service_spec" where
  "NewHeadlessServiceForCR2 serviceName namespace ports ls svc =
     (case (case svc of Some s \<Rightarrow> s | None \<Rightarrow> new_service) of (m, spec) \<Rightarrow>
        (m\<lparr>omLabels := ls, omName := serviceName, omNamespace := namespace\<rparr>,
         spec\<lparr>sePorts := ports, seSelector := ls, seType := ''ClusterIP'', seClusterIP := ''None'',
              sePublishNotReady := True\<rparr>))"

definition NewServiceDefinitionForCR ::
  "string \<Rightarrow> string \<Rightarrow> string \<Rightarrow> int32 \<Rightarrow> labels \<Rightarrow> labels \<Rightarrow> (object_meta \<times> service_spec) option \<Rightarrow>
     object_meta \<times> service_spec" where
  "NewServiceDefinitionForCR namespace name nameSuffix portNumber selectorLabels ls svc =
     (case (case svc of Some s \<Rightarrow> s | None \<Rightarrow> new_service) of (m, spec) \<Rightarrow>
        (m\<lparr>omLabels := ls, omName := name, omNamespace := namespace\<rparr>,
         spec\<lparr>sePorts := [tcp_port nameSuffix portNumber None], seSelector := selectorLabels,
              seType := ''ClusterIP'', seSessionAffinity := ''None'', sePublishNotReady := True\<rparr>))"

definition empty_pod_spec :: pod_spec where
  "empty_pod_spec = \<lparr>spContainers = [], spInitContainers = [], spVolumes = [], spImagePullSecrets = [],
     spNodeSelector = [], spAffinity = None, spTolerations = [], spTopologySpread = [],
     spTerminationGracePeriodSeconds = None, spServiceAccountName = '''', spAutomountServiceAccountToken = None,
     spSecurityContext = None\<rparr>"

definition new_stateful_set :: "string \<Rightarrow> string \<Rightarrow> string \<Rightarrow> labels \<Rightarrow> object_meta \<times> sts_spec" where
  "new_stateful_set ssName svcHeadlessName namespace ls =
     (named_meta ''apps'' ''v1'' ''StatefulSet'' ssName namespace,
      \<lparr>soServiceName = svcHeadlessName, soSelector = ls, soReplicas = None,
       soTemplate = \<lparr>ptLabels = [], ptAnnotations = [], ptSpec = empty_pod_spec\<rparr>, soClaims = [],
       soRevisionHistoryLimit = None\<rparr>)"

text \<open>The name, the service name and the selector of a deployed set are immutable and kept.\<close>

definition MakeStatefulSet ::
  "(object_meta \<times> sts_spec) option \<Rightarrow> string \<Rightarrow> string \<Rightarrow> string \<Rightarrow> data_map \<Rightarrow> labels \<Rightarrow> object_meta \<times> sts_spec" where
  "MakeStatefulSet current ssName svcHeadlessName namespace annotations ls =
     (case (case current of Some s \<Rightarrow> s | None \<Rightarrow> new_stateful_set ssName svcHeadlessName namespace ls) of
        (m, spec) \<Rightarrow>
          (m\<lparr>omLabels := ls, omAnnotations := ApplyAnnotations annotations (omAnnotations m)\<rparr>,
           spec\<lparr>soTemplate := MakePodTemplateSpec (soTemplate spec) ls []\<rparr>))"

definition PersistentVolumeClaim :: "string \<Rightarrow> claim option \<Rightarrow> claim_template \<Rightarrow> claim" where
  "PersistentVolumeClaim namespace existing templateFromCr =
     (let desired0 = (case existing of Some c \<Rightarrow> c
                      | None \<Rightarrow> \<lparr>clMeta = named_meta '''' ''v1'' ''PersistentVolumeClaim'' (vtName templateFromCr) namespace,
                                clSpec = vtSpec templateFromCr\<rparr>);
          meta = clMeta desired0;
          spec = vtSpec templateFromCr
      in \<lparr>clMeta = meta\<lparr>omLabels := vtLabels templateFromCr,
                        omAnnotations := ApplyAnnotations (vtAnnotations templateFromCr) (omAnnotations meta)\<rparr>,
          clSpec = spec\<lparr>csVolumeMode :=
            (case csVolumeMode spec of None \<Rightarrow> Some ''Filesystem'' | m \<Rightarrow> m)\<rparr>\<rparr>)"

definition findExistingByName :: "claim list \<Rightarrow> claim_template \<Rightarrow> claim option" where
  "findExistingByName claims tempateClaim =
     List.find (\<lambda>c. omName (clMeta c) = vtName tempateClaim) claims"

end
