(* ===== verification/Resource_Templates.thy ===== *)
theory Resource_Templates
  imports Pod_Types
begin

text \<open>
  The templates of a custom resource, which change labels, annotations and, by a strategic merge patch,
  the rest of the objects the operator generates (\<open>broker_controller.go\<close> and the shared part of
  \<open>brokercluster_reconciler.go\<close>).

  Outside the repository are the parser of a group and version, the regular expressions, the decoder of
  a patch, and the conversion and merge of an object with a patch, which returns an error, if any, with
  the object as the calls leave it.
\<close>

record template_api =
  taParseGroupVersion :: "string \<Rightarrow> string \<times> string"
  taCompile :: "string \<Rightarrow> (string \<Rightarrow> bool) option"
  taUnmarshal :: "string \<Rightarrow> string + (string \<times> patch_value) list"
  taMergePatch :: "k8s_object \<Rightarrow> (string \<times> patch_value) list \<Rightarrow> string option \<times> k8s_object"

section \<open>Which objects a template applies to\<close>

abbreviation "PodNameLabelKey \<equiv> ''statefulset.kubernetes.io/pod-name''"

definition extractItemName :: "k8s_object \<Rightarrow> string" where
  "extractItemName target = object_name target"

definition extractResType :: "k8s_object \<Rightarrow> string" where
  "extractResType target =
     (case rtype_of target of ServiceT \<Rightarrow> ''svc'' | IngressT \<Rightarrow> ''ing'' | RouteT \<Rightarrow> ''rte'' | _ \<Rightarrow> ''undefined-res-type'')"

text \<open>The text after the last dash, or all of it.\<close>

definition ordinalFromPodName :: "string \<Rightarrow> string" where
  "ordinalFromPodName podName = rev (takeWhile (\<lambda>c. c \<noteq> CHR ''-'') (rev podName))"

definition ordinal_from :: "labels \<Rightarrow> string" where
  "ordinal_from ls =
     (case map_of ls PodNameLabelKey of Some podName \<Rightarrow> ordinalFromPodName podName | None \<Rightarrow> ''undefined-ordinal'')"

definition extractOrdinal :: "k8s_object \<Rightarrow> string" where
  "extractOrdinal target =
     (case obBody target of
        ServiceBody spec \<Rightarrow> ordinal_from (seSelector spec)
      | IngressBody b \<Rightarrow> ordinal_from (omLabels (obMeta target))
      | RouteBody b \<Rightarrow> ordinal_from (omLabels (obMeta target))
      | _ \<Rightarrow> ''undefined-ordinal'')"

definition string_or_empty :: "string option \<Rightarrow> string" where
  "string_or_empty s = (case s of Some t \<Rightarrow> t | None \<Rightarrow> '''')"

text \<open>The error of the compiler is dropped; matching with the \<open>nil\<close> expression it returns panics.\<close>

definition match :: "template_api \<Rightarrow> resource_template \<Rightarrow> k8s_object \<Rightarrow> bool go_result" where
  "match T template target =
     (case rtSelector template of
        None \<Rightarrow> Ok True
      | Some sel \<Rightarrow>
          (let (group, version) = taParseGroupVersion T (string_or_empty (tsAPIGroup sel));
               kind = string_or_empty (tsKind sel);
               meta = obMeta target
           in if group \<noteq> '''' \<and> group \<noteq> omGroup meta then Ok False
              else if version \<noteq> '''' \<and> version \<noteq> omVersion meta then Ok False
              else if kind \<noteq> '''' \<and> kind \<noteq> omKind meta then Ok False
              else case tsName sel of
                None \<Rightarrow> Ok True
              | Some pattern \<Rightarrow>
                  (case taCompile T pattern of
                     None \<Rightarrow> Panic
                   | Some nameMatcher \<Rightarrow> Ok (nameMatcher (omName meta)))))"

section \<open>Formatting\<close>

record template_scope =
  scpName :: string
  scpNamespace :: string
  scpOrdinal :: string
  scpItem :: string
  scpType :: string

definition formatTemplatedStringForBroker :: "template_scope \<Rightarrow> string \<Rightarrow> string" where
  "formatTemplatedStringForBroker C template =
     (if template \<noteq> ''''
      then replace_all ''$(RES_TYPE)'' (scpType C)
        (replace_all ''$(ITEM_NAME)'' (scpItem C)
          (replace_all ''$(BROKER_ORDINAL)'' (scpOrdinal C)
            (replace_all ''$(CR_NAMESPACE)'' (scpNamespace C)
              (replace_all ''$(CR_NAME)'' (scpName C) template))))
      else template)"

definition formatTemplatedString :: "template_scope \<Rightarrow> string \<Rightarrow> string \<Rightarrow> string" where
  "formatTemplatedString C ingressDomain template =
     (if template \<noteq> ''''
      then replace_all ''$(INGRESS_DOMAIN)'' ingressDomain
        (replace_all ''$(RES_TYPE)'' (scpType C)
          (replace_all ''$(ITEM_NAME)'' (scpItem C)
            (replace_all ''$(BROKER_ORDINAL)'' (scpOrdinal C)
              (replace_all ''$(CR_NAMESPACE)'' (scpNamespace C)
                (replace_all ''$(CR_NAME)'' (scpName C) template)))))
      else template)"

text \<open>Only the strings of a patch are formatted, not its keys.\<close>

fun formatTemplatedObjectForBroker :: "template_scope \<Rightarrow> patch_value \<Rightarrow> patch_value" where
  "formatTemplatedObjectForBroker C (PatchMap m) =
     PatchMap (map (\<lambda>(k, v). (k, formatTemplatedObjectForBroker C v)) m)"
| "formatTemplatedObjectForBroker C (PatchArray vs) = PatchArray (map (formatTemplatedObjectForBroker C) vs)"
| "formatTemplatedObjectForBroker C (PatchString s) = PatchString (formatTemplatedStringForBroker C s)"
| "formatTemplatedObjectForBroker C (PatchScalar s) = PatchScalar s"

abbreviation "RemoveKeySpecialValue \<equiv> ''-''"

definition applyFormattedKeyValue :: "template_scope \<Rightarrow> string \<Rightarrow> string \<Rightarrow> data_map \<Rightarrow> data_map" where
  "applyFormattedKeyValue C key value collection =
     (let formattedKey = formatTemplatedStringForBroker C key
      in if value = RemoveKeySpecialValue then AList.delete formattedKey collection
         else AList.update formattedKey (formatTemplatedStringForBroker C value) collection)"

definition apply_entries :: "range_order \<Rightarrow> template_scope \<Rightarrow> data_map \<Rightarrow> data_map \<Rightarrow> data_map" where
  "apply_entries ord C entries existing =
     foldl (\<lambda>m key. applyFormattedKeyValue C key (case map_of entries key of Some v \<Rightarrow> v | None \<Rightarrow> '''') m)
       existing (ord (map fst entries))"

section \<open>Applying the templates\<close>

definition scope_of :: "broker_cr \<Rightarrow> k8s_object \<Rightarrow> template_scope" where
  "scope_of cr target = \<lparr>scpName = rbName cr, scpNamespace = rbNamespace cr,
     scpOrdinal = extractOrdinal target, scpItem = extractItemName target, scpType = extractResType target\<rparr>"

definition apply_metadata ::
  "range_order \<Rightarrow> broker_cr \<Rightarrow> resource_template \<Rightarrow> k8s_object \<Rightarrow> k8s_object" where
  "apply_metadata ord cr template target =
     (let C = scope_of cr target; meta = obMeta target;
          as = (if length (rtAnnotations template) > 0
                then apply_entries ord C (rtAnnotations template) (omAnnotations meta) else omAnnotations meta);
          ls = (if length (rtLabels template) > 0
                then apply_entries ord C (rtLabels template) (omLabels meta) else omLabels meta)
      in target\<lparr>obMeta := meta\<lparr>omAnnotations := as, omLabels := ls\<rparr>\<rparr>)"

definition apply_patch ::
  "template_api \<Rightarrow> template_scope \<Rightarrow> nat \<Rightarrow> string \<Rightarrow> k8s_object \<Rightarrow> string option \<times> k8s_object" where
  "apply_patch T C index raw target =
     (if length raw > 0
      then (case taUnmarshal T raw of
              Inl err \<Rightarrow> (Some (''error unmarshalling patch from template['' @ itoa (int index) @ ''], got '' @ err), target)
            | Inr patchMap \<Rightarrow>
                (case taMergePatch T target (map (\<lambda>(k, v). (k, formatTemplatedObjectForBroker C v)) patchMap) of
                   (None, target') \<Rightarrow> (None, target')
                 | (Some err, target') \<Rightarrow>
                     (Some (''error applying strategic merge patch from template['' @ itoa (int index) @ ''] to '' @
                            object_name target' @ '', got '' @ err), target')))
      else (None, target))"

text \<open>
  The result of the application of one template: the object and whether it matched, or the error with
  the object as it is left.
\<close>

definition applyTemplate ::
  "template_api \<Rightarrow> range_order \<Rightarrow> broker_cr \<Rightarrow> nat \<Rightarrow> resource_template \<Rightarrow> k8s_object \<Rightarrow>
     (string option \<times> bool \<times> k8s_object) go_result" where
  "applyTemplate T ord cr index template target =
     (case match T template target of
        Ok True \<Rightarrow>
          (case apply_patch T (scope_of cr target) index (rtPatch template) (apply_metadata ord cr template target) of
             (err, target') \<Rightarrow> Ok (err, True, target'))
      | Ok False \<Rightarrow> Ok (None, False, target)
      | Err e \<Rightarrow> Err e
      | Panic \<Rightarrow> Panic)"

text \<open>\<open>matched\<close> is \<open>matchedTemplates\<close>, the indices recorded so far; an error ends the loop.\<close>

fun apply_from ::
  "template_api \<Rightarrow> range_order \<Rightarrow> broker_cr \<Rightarrow> nat \<Rightarrow> resource_template list \<Rightarrow> nat set \<Rightarrow> k8s_object \<Rightarrow>
     (string option \<times> nat set \<times> k8s_object) go_result" where
  "apply_from T ord cr index [] matched target = Ok (None, matched, target)"
| "apply_from T ord cr index (template # templates) matched target =
     (case applyTemplate T ord cr index template target of
        Ok (err, hit, target') \<Rightarrow>
          (let matched' = (if hit then insert index matched else matched)
           in case err of
                Some e \<Rightarrow> Ok (Some e, matched', target')
              | None \<Rightarrow> apply_from T ord cr (Suc index) templates matched' target')
      | Err e \<Rightarrow> Err e
      | Panic \<Rightarrow> Panic)"

definition applyTemplates ::
  "template_api \<Rightarrow> range_order \<Rightarrow> broker_cr \<Rightarrow> nat set \<Rightarrow> k8s_object \<Rightarrow>
     (string option \<times> nat set \<times> k8s_object) go_result" where
  "applyTemplates T ord cr matched target = apply_from T ord cr 0 (rbTemplates cr) matched target"

section \<open>Formatting as one substitution\<close>

text \<open>
  The reference: one scan from the left that replaces every placeholder where it stands, and never looks
  at the text it put in.
\<close>

definition placeholder_at :: "(string \<times> string) list \<Rightarrow> string \<Rightarrow> (string \<times> string) option" where
  "placeholder_at ps s = List.find (\<lambda>(p, v). prefix p s) ps"

fun substitute :: "(string \<times> string) list \<Rightarrow> string \<Rightarrow> string" where
  "substitute ps [] = []"
| "substitute ps (c # s) =
     (case placeholder_at ps (c # s) of
        Some (p, v) \<Rightarrow> v @ substitute ps (drop (length p - 1) s)
      | None \<Rightarrow> c # substitute ps s)"

definition placeholder_char :: "char \<Rightarrow> bool" where
  "placeholder_char c \<longleftrightarrow> c \<in> set ''$()_CRNAMESPOKDILTYBGQ''"

text \<open>A placeholder is a dollar sign and then placeholder characters other than a dollar sign.\<close>

definition placeholder :: "string \<Rightarrow> bool" where
  "placeholder p \<longleftrightarrow> p \<noteq> [] \<and> hd p = CHR ''$'' \<and> CHR ''$'' \<notin> set (tl p) \<and> list_all placeholder_char p"

definition plain_value :: "string \<Rightarrow> bool" where
  "plain_value v \<longleftrightarrow> v \<noteq> [] \<and> list_all (\<lambda>c. \<not> placeholder_char c) v"

definition independent :: "string list \<Rightarrow> bool" where
  "independent ps \<longleftrightarrow> list_all placeholder ps \<and> (\<forall>p \<in> set ps. \<forall>q \<in> set ps. prefix p q \<longrightarrow> p = q)"

lemma substitute_Nil [simp]: "substitute [] s = s"
  by (induction s) (simp_all add: placeholder_at_def)

lemma placeholder_dollar: "placeholder p \<Longrightarrow> prefix p (c # s) \<Longrightarrow> c = CHR ''$''"
  by (cases p) (auto simp: placeholder_def)

lemma placeholder_atD: "placeholder_at ps s = Some (p, v) \<Longrightarrow> (p, v) \<in> set ps \<and> prefix p s"
  by (metis (mono_tags, lifting) case_prodD find_Some_iff nth_mem placeholder_at_def)

lemma placeholder_at_None:
  "placeholder_at ps s = None \<longleftrightarrow> (\<forall>(p, v) \<in> set ps. \<not> prefix p s)"
  by (auto simp: placeholder_at_def find_None_iff)

lemma no_placeholder_at:
  "list_all placeholder (map fst ps) \<Longrightarrow> c \<noteq> CHR ''$'' \<Longrightarrow> placeholder_at ps (c # s) = None"
  using placeholder_dollar by (fastforce simp: placeholder_at_None list_all_iff)

lemma substitute_skip:
  "list_all placeholder (map fst ps) \<Longrightarrow> CHR ''$'' \<notin> set v \<Longrightarrow> substitute ps (v @ s) = v @ substitute ps s"
  by (induction v) (auto simp: no_placeholder_at)

lemma plain_no_dollar: "plain_value v \<Longrightarrow> CHR ''$'' \<notin> set v"
  by (auto simp: plain_value_def list_all_iff placeholder_char_def)

text \<open>Replacing one placeholder does not make another appear.\<close>

lemma prefix_replace_all:
  "list_all placeholder_char q \<Longrightarrow> CHR ''$'' \<notin> set q \<Longrightarrow> plain_value new \<Longrightarrow>
     prefix q (replace_all old new s) \<Longrightarrow> prefix q s"
proof (induction q arbitrary: s)
  case (Cons a q)
  show ?case
  proof (cases s)
    case Nil
    with Cons.prems show ?thesis by simp
  next
    case s: (Cons c s1)
    show ?thesis
    proof (cases "old \<noteq> [] \<and> prefix old (c # s1)")
      case True
      with Cons.prems s show ?thesis by (cases new) (auto simp: plain_value_def)
    next
      case False
      with Cons s show ?thesis by simp
    qed
  qed
qed simp

lemma replace_all_keep:
  "placeholder old \<Longrightarrow> CHR ''$'' \<notin> set v \<Longrightarrow> replace_all old new (v @ s) = v @ replace_all old new s"
  by (induction v) (auto dest: placeholder_dollar)

lemma replace_all_other:
  assumes "placeholder old" "placeholder p" "\<not> prefix old (p @ rest)"
  shows "replace_all old new (p @ rest) = p @ replace_all old new rest"
proof -
  obtain q where p: "p = CHR ''$'' # q" "CHR ''$'' \<notin> set q"
    using assms(2) by (cases p) (auto simp: placeholder_def)
  with assms(3) have "replace_all old new (p @ rest) = CHR ''$'' # replace_all old new (q @ rest)" by simp
  with p assms(1) show ?thesis by (simp add: replace_all_keep)
qed

lemma placeholder_at_replaced:
  assumes "list_all placeholder (map fst ps)" "placeholder old" "plain_value new"
    and "\<not> prefix old (c # s)" "placeholder_at ps (c # s) = None"
  shows "placeholder_at ps (c # replace_all old new s) = None"
proof -
  have "\<not> prefix p (c # replace_all old new s)" if "(p, v) \<in> set ps" for p v
  proof
    assume pre: "prefix p (c # replace_all old new s)"
    have pl: "placeholder p" using assms(1) that by (force simp: list_all_iff)
    then obtain q where q: "p = c # q" "CHR ''$'' \<notin> set q" "list_all placeholder_char q"
      using pre by (cases p) (auto simp: placeholder_def)
    then have "prefix q s" using prefix_replace_all [OF q(3,2) assms(3)] pre by simp
    then have "prefix p (c # s)" using q(1) by simp
    with assms(5) that show False by (auto simp: placeholder_at_def find_None_iff)
  qed
  then show ?thesis by (auto simp: placeholder_at_def find_None_iff)
qed

lemma placeholder_at_hit:
  assumes "independent (map fst ps)" "(p, v) \<in> set ps" "distinct (map fst ps)"
  shows "placeholder_at ps (p @ rest) = Some (p, v)"
proof -
  obtain x where x: "placeholder_at ps (p @ rest) = Some x"
    using assms(2) by (cases "placeholder_at ps (p @ rest)") (auto simp: placeholder_at_def find_None_iff)
  then have x': "x \<in> set ps" "prefix (fst x) (p @ rest)"
    using placeholder_atD [of ps "p @ rest" "fst x" "snd x"] by simp_all
  have "prefix (fst x) p \<or> prefix p (fst x)"
    using x'(2) by (metis prefixI prefix_same_cases)
  then have "fst x = p" using assms(1,2) x'(1) by (force simp: independent_def)
  then have "x = (p, v)" using assms(2,3) x'(1) by (metis eq_key_imp_eq_value prod.collapse)
  with x show ?thesis by simp
qed

lemma substitute_Cons:
  assumes "independent (old # map fst ps)" "distinct (old # map fst ps)" "plain_value new"
  shows "substitute ((old, new) # ps) s = substitute ps (replace_all old new s)"
proof (induction "length s" arbitrary: s rule: less_induct)
  case less
  have pl: "placeholder old" "list_all placeholder (map fst ps)" and ind: "independent (map fst ps)"
    using assms(1) by (auto simp: independent_def)
  show ?case
  proof (cases s)
    case s: (Cons c s1)
    show ?thesis
    proof (cases "prefix old s")
      case True
      then obtain r where r: "s = old @ r" by (auto simp: prefix_def)
      have o: "old \<noteq> []" using pl(1) by (simp add: placeholder_def)
      have d: "drop (length old - 1) s1 = r" using r s o by (cases old) auto
      have "substitute ((old, new) # ps) s = new @ substitute ((old, new) # ps) r"
        using True d s by (simp add: placeholder_at_def)
      also have "\<dots> = new @ substitute ps (replace_all old new r)" using less r o by simp
      also have "\<dots> = substitute ps (new @ replace_all old new r)"
        using substitute_skip [OF pl(2) plain_no_dollar [OF assms(3)]] by simp
      also have "new @ replace_all old new r = replace_all old new s" using True d s o by simp
      finally show ?thesis .
    next
      case no: False
      show ?thesis
      proof (cases "placeholder_at ps s")
        case None
        have "substitute ((old, new) # ps) s = c # substitute ((old, new) # ps) s1"
          using no None s by (simp add: placeholder_at_def)
        also have "\<dots> = c # substitute ps (replace_all old new s1)" using less s by simp
        also have "\<dots> = substitute ps (c # replace_all old new s1)"
          using placeholder_at_replaced [OF pl(2,1) assms(3)] no None s by simp
        also have "c # replace_all old new s1 = replace_all old new s" using no s by simp
        finally show ?thesis .
      next
        case (Some x)
        then obtain p v where x: "x = (p, v)" "(p, v) \<in> set ps" "prefix p s"
          using placeholder_atD by (cases x) blast
        then obtain r where r: "s = p @ r" by (auto simp: prefix_def)
        have pp: "placeholder p" using pl(2) x(2) by (force simp: list_all_iff)
        then have pn: "p \<noteq> []" by (simp add: placeholder_def)
        have d: "drop (length p - 1) s1 = r" using r s pn by (cases p) auto
        have "substitute ((old, new) # ps) s = v @ substitute ((old, new) # ps) r"
          using no Some x d s by (simp add: placeholder_at_def)
        also have "\<dots> = v @ substitute ps (replace_all old new r)" using less r pn by simp
        also have "\<dots> = substitute ps (p @ replace_all old new r)"
        proof (cases "p @ replace_all old new r")
          case Nil
          with pn show ?thesis by simp
        next
          case (Cons e es)
          then have "drop (length p - 1) es = replace_all old new r" using pn by (cases p) auto
          moreover have "placeholder_at ps (e # es) = Some (p, v)"
            using placeholder_at_hit [OF ind x(2)] assms(2) Cons by (metis distinct.simps(2))
          ultimately show ?thesis using Cons by simp
        qed
        also have "p @ replace_all old new r = replace_all old new s"
          using replace_all_other [OF pl(1) pp] no r by simp
        finally show ?thesis .
      qed
    qed
  qed simp
qed

definition broker_placeholders :: "template_scope \<Rightarrow> (string \<times> string) list" where
  "broker_placeholders C =
     [(''$(CR_NAME)'', scpName C), (''$(CR_NAMESPACE)'', scpNamespace C), (''$(BROKER_ORDINAL)'', scpOrdinal C),
      (''$(ITEM_NAME)'', scpItem C), (''$(RES_TYPE)'', scpType C)]"

definition plain_scope :: "template_scope \<Rightarrow> bool" where
  "plain_scope C \<longleftrightarrow> list_all (\<lambda>(p, v). plain_value v) (broker_placeholders C)"

lemma independent_placeholders:
  "independent [''$(CR_NAME)'', ''$(CR_NAMESPACE)'', ''$(BROKER_ORDINAL)'', ''$(ITEM_NAME)'', ''$(RES_TYPE)'',
     ''$(INGRESS_DOMAIN)'']"
  by (simp add: independent_def placeholder_def placeholder_char_def)

lemma independent_tl: "independent (p # ps) \<Longrightarrow> independent ps"
  by (simp add: independent_def)

lemma formatTemplatedString_substitute:
  assumes "plain_scope C" "plain_value ingressDomain"
  shows "formatTemplatedString C ingressDomain template =
           substitute (broker_placeholders C @ [(''$(INGRESS_DOMAIN)'', ingressDomain)]) template"
proof -
  note i1 = independent_placeholders
  note i2 = independent_tl [OF i1]
  note i3 = independent_tl [OF i2]
  note i4 = independent_tl [OF i3]
  note i5 = independent_tl [OF i4]
  note i6 = independent_tl [OF i5]
  have v: "plain_value (scpName C)" "plain_value (scpNamespace C)" "plain_value (scpOrdinal C)"
    "plain_value (scpItem C)" "plain_value (scpType C)"
    using assms(1) by (simp_all add: plain_scope_def broker_placeholders_def)
  show ?thesis
    using i1 i2 i3 i4 i5 i6 v assms(2)
    by (cases "template = []") (simp_all add: formatTemplatedString_def broker_placeholders_def substitute_Cons)
qed

lemma independent_five:
  "independent [''$(CR_NAME)'', ''$(CR_NAMESPACE)'', ''$(BROKER_ORDINAL)'', ''$(ITEM_NAME)'', ''$(RES_TYPE)'']"
  by (simp add: independent_def placeholder_def placeholder_char_def)

lemma formatTemplatedStringForBroker_substitute:
  assumes "plain_scope C"
  shows "formatTemplatedStringForBroker C template = substitute (broker_placeholders C) template"
proof -
  note i1 = independent_five
  note i2 = independent_tl [OF i1]
  note i3 = independent_tl [OF i2]
  note i4 = independent_tl [OF i3]
  note i5 = independent_tl [OF i4]
  have v: "plain_value (scpName C)" "plain_value (scpNamespace C)" "plain_value (scpOrdinal C)"
    "plain_value (scpItem C)" "plain_value (scpType C)"
    using assms by (simp_all add: plain_scope_def broker_placeholders_def)
  show ?thesis
    using i1 i2 i3 i4 i5 v
    by (cases "template = []") (simp_all add: formatTemplatedStringForBroker_def broker_placeholders_def substitute_Cons)
qed

text \<open>A function on the strings of a patch.\<close>

fun map_strings :: "(string \<Rightarrow> string) \<Rightarrow> patch_value \<Rightarrow> patch_value" where
  "map_strings f (PatchMap m) = PatchMap (map (\<lambda>(k, v). (k, map_strings f v)) m)"
| "map_strings f (PatchArray vs) = PatchArray (map (map_strings f) vs)"
| "map_strings f (PatchString s) = PatchString (f s)"
| "map_strings f (PatchScalar s) = PatchScalar s"

end
