(* ===== verification/Broker_Validation.thy ===== *)
theory Broker_Validation
  imports Cluster_Validation Pod_Parts Resource_Templates Operator_Secrets
begin

text \<open>
  The validation of a \<open>Broker\<close> (\<open>broker_controller.go\<close>): the twin of the validation of a
  \<open>BrokerCluster\<close>, without endpoints and with the secrets a restricted broker needs.
\<close>

section \<open>Surroundings\<close>

text \<open>\<open>crypto/tls\<close> and \<open>crypto/x509\<close>: the first certificate of a key pair, and the common name of its subject.\<close>

record tls_api =
  tlX509KeyPair :: "string \<Rightarrow> string \<Rightarrow> string + string"
  tlCommonName :: "string \<Rightarrow> string + string"

type_synonym requested = "((rtype \<times> string) \<times> k8s_object) list"

text \<open>
  The process and the server as a reconcile of a \<open>Broker\<close> sees them.  \<open>beRange\<close> is the order of a range
  over the requested resources, \<open>beSpare\<close> the spare capacity of the slice of environment variables.
\<close>

record 'w broker_env =
  beMeta :: meta_api
  beOrder :: range_order
  beCluster :: cluster_kube
  beVersions :: semver_api
  beOs :: env
  beGoarch :: string
  beOnOpenShift :: bool
  beParseQuantity :: "string \<Rightarrow> string option"
  beLoginRegEx :: string
  beMatch :: "string \<Rightarrow> string \<Rightarrow> bool"
  beBrokers :: "'w broker_api"
  beJson :: json_decoder
  beTemplates :: template_api
  beTls :: tls_api
  beRange :: "requested \<Rightarrow> requested"
  beSpare :: nat

text \<open>The reads of the operator's secrets, the only function of the client they use.\<close>

definition secret_reader :: "cluster_kube \<Rightarrow> kube" where
  "secret_reader K = \<lparr>kSelector = (\<lambda>s. Inl ''''), kListServices = (\<lambda>s. Inl ''''), kListApps = (\<lambda>k. Inl ''''),
     kListAllApps = Inl '''', kGetApp = (\<lambda>ns n. Inl (NotFound '''')), kGetService = (\<lambda>ns n. Inl (NotFound '''')),
     kGetSecret = ckGetSecret K\<rparr>"

definition put_broker_condition :: "meta_api \<Rightarrow> condition \<Rightarrow> broker_cr \<Rightarrow> broker_cr" where
  "put_broker_condition M c cr = set_broker_conditions (SetStatusCondition M (rbConditions cr) c) cr"

definition broker_SetStatusConditionWithGeneration :: "meta_api \<Rightarrow> condition \<Rightarrow> broker_cr \<Rightarrow> broker_cr" where
  "broker_SetStatusConditionWithGeneration M c cr =
     put_broker_condition M (c\<lparr>cObservedGeneration := rbGeneration cr\<rparr>) cr"

section \<open>Checks of the specification\<close>

definition validateNoDupKeysInBrokerPropertiesForBroker :: "broker_cr \<Rightarrow> condition option" where
  "validateNoDupKeysInBrokerPropertiesForBroker cr =
     (if length (rbBrokerProperties cr) > 0
      then (let duplicateKey = DuplicateKeyIn (rbBrokerProperties cr)
            in if duplicateKey \<noteq> ''''
               then Some (valid_failure ValidConditionFailedDuplicateBrokerPropertiesKey
                      (''.Spec.BrokerProperties has a duplicate key for '' @ duplicateKey))
               else None)
      else None)"

definition reserved_label_failure :: "string \<Rightarrow> string \<Rightarrow> condition" where
  "reserved_label_failure key where' = valid_failure ValidConditionFailedReservedLabelReason
     (CHR 0x27 # key @ [CHR 0x27] @ '' is a reserved label, it is not allowed in '' @ where')"

fun reserved_in_broker_templates :: "range_order \<Rightarrow> nat \<Rightarrow> resource_template list \<Rightarrow> condition option" where
  "reserved_in_broker_templates ord index [] = None"
| "reserved_in_broker_templates ord index (template # templates) =
     (case List.find is_reserved_label (ord (map fst (rtLabels template))) of
        Some key \<Rightarrow> Some (reserved_label_failure key (''Spec.ResourceTemplates['' @ itoa (int index) @ ''].Labels''))
      | None \<Rightarrow> reserved_in_broker_templates ord (Suc index) templates)"

definition validateReservedLabelsForBroker :: "range_order \<Rightarrow> broker_cr \<Rightarrow> condition option" where
  "validateReservedLabelsForBroker ord cr =
     (case List.find is_reserved_label (ord (map fst (rbLabels cr))) of
        Some key \<Rightarrow> Some (reserved_label_failure key ''Spec.Labels'')
      | None \<Rightarrow> reserved_in_broker_templates ord 0 (rbTemplates cr))"

definition validateEnvVarsForBroker :: "broker_cr \<Rightarrow> condition option" where
  "validateEnvVarsForBroker cr =
     (let invalidVars = map evName (filter (\<lambda>e. internal_var (evName e) \<and> evValueFrom e \<noteq> None) (rbEnv cr))
      in if length invalidVars > 0
         then Some (valid_failure ValidConditionInvalidInternalVarUsage
                (''Don't use valueFrom on env vars that the operator can mutate: '' @ print_strings invalidVars @
                 ''. Instead use a different var and refernece it in its value field.''))
         else None)"

definition broker_validateStorage :: "(string \<Rightarrow> string option) \<Rightarrow> broker_cr \<Rightarrow> condition option" where
  "broker_validateStorage parseQuantity cr =
     (if rbPersistenceEnabled cr \<and> rbStorageSize cr \<noteq> ''''
      then (case parseQuantity (rbStorageSize cr) of
              Some err \<Rightarrow> Some (valid_failure ValidConditionFailureReason
                (''.Spec.Storage.Size quantity string is invalid, '' @ err))
            | None \<Rightarrow> None)
      else None)"

definition validatePodDisruptionForBroker :: "budget_spec \<Rightarrow> condition option" where
  "validatePodDisruptionForBroker pdb =
     (if bgSelector pdb \<noteq> None
      then Some (valid_failure ValidConditionPDBNonNilSelectorReason PDBNonNilSelectorMessage) else None)"

section \<open>Checks of the server\<close>

text \<open>
  The operator's own secrets and the certificate of the broker; the package variables are passed
  through.  A failure is always retried.
\<close>

definition validateRequiredSecrets ::
  "'w broker_env \<Rightarrow> op_vars \<Rightarrow> broker_cr \<Rightarrow> condition option \<times> bool \<times> op_vars" where
  "validateRequiredSecrets E vars cr =
     (let K = secret_reader (beCluster E);
          failure = (\<lambda>what err. valid_failure ValidConditionMissingResourcesReason
            (''operator failed to locate necessary '' @ what @ '', '' @ err))
      in case GetOperatorClientCertSecret K (beOs E) vars of
           (Inl err, vars1) \<Rightarrow> (Some (failure ''operator client certificate secret'' err), True, vars1)
         | (Inr s, vars1) \<Rightarrow>
             (case GetOperatorCASecret K (beOs E) vars1 of
                (Inl err, vars2) \<Rightarrow> (Some (failure ''operator ca secret'' err), True, vars2)
              | (Inr s, vars2) \<Rightarrow>
                  (case GetNamespacedSecret K (GetOperandCertSecretName K (rbName cr) (rbNamespace cr)) (rbNamespace cr) of
                     Inl err \<Rightarrow> (Some (failure ''operand cert secret'' err), True, vars2)
                   | Inr s \<Rightarrow> (None, False, vars2))))"

text \<open>The loops over the extra mounts; the result is the failing condition with the retry, or the counts.\<close>

definition broker_check_config_map :: "'w broker_env \<Rightarrow> string \<Rightarrow> string \<Rightarrow> (condition \<times> bool) option" where
  "broker_check_config_map E ns cm =
     (let contextMessage = ''.Spec.ExtraMounts.ConfigMaps,''
      in case ckGetConfigMap (beCluster E) ns cm of
           Inl err \<Rightarrow> Some (missing contextMessage ''configMap'' cm, True)
         | Inr configMap \<Rightarrow>
             if has_suffix cm loggingConfigSuffix
             then map_option (\<lambda>c. (c, True)) (AssertConfigMapContainsKey configMap LoggingConfigKey contextMessage)
             else if has_suffix cm jaasConfigSuffix
             then Some (valid_failure ValidConditionFailedExtraMountReason
                    (contextMessage @ '' entry '' @ cm @ '' with suffix '' @ jaasConfigSuffix @ '' must be a secret''), False)
             else None)"

fun broker_config_maps ::
  "'w broker_env \<Rightarrow> string \<Rightarrow> string list \<Rightarrow> counts \<Rightarrow> (condition \<times> bool) + counts" where
  "broker_config_maps E ns [] n = Inr n"
| "broker_config_maps E ns (cm # cms) (logging, jaas) =
     (case broker_check_config_map E ns cm of
        Some e \<Rightarrow> Inl e
      | None \<Rightarrow> broker_config_maps E ns cms
                 (if has_suffix cm loggingConfigSuffix then (Suc logging, jaas) else (logging, jaas)))"

definition broker_check_secret :: "'w broker_env \<Rightarrow> string \<Rightarrow> string \<Rightarrow> condition option" where
  "broker_check_secret E ns s =
     (let contextMessage = ''.Spec.ExtraMounts.Secrets,''
      in case ckGetSecret (beCluster E) ns s of
           Inl err \<Rightarrow> Some (missing contextMessage ''secret'' s)
         | Inr sec \<Rightarrow>
             if has_suffix s loggingConfigSuffix
             then AssertSecretContainsKey sec LoggingConfigKey contextMessage
             else if has_suffix s jaasConfigSuffix
             then or_else (AssertSecretContainsKey sec JaasConfigKey contextMessage)
                    (AssertSyntaxOkOnLoginConfigData (beLoginRegEx E) (beMatch E)
                       (case map_of (secData sec) JaasConfigKey of Some d \<Rightarrow> d | None \<Rightarrow> '''') s contextMessage)
             else if has_suffix s BrokerPropsSuffix
             then AssertNoDupKeyInProperties (beOrder E) sec contextMessage
             else None)"

fun broker_secrets ::
  "'w broker_env \<Rightarrow> string \<Rightarrow> string list \<Rightarrow> counts \<Rightarrow> (condition \<times> bool) + counts" where
  "broker_secrets E ns [] n = Inr n"
| "broker_secrets E ns (s # ss) (logging, jaas) =
     (case broker_check_secret E ns s of
        Some c \<Rightarrow> Inl (c, True)
      | None \<Rightarrow> broker_secrets E ns ss
                 (if has_suffix s loggingConfigSuffix then (Suc logging, jaas)
                  else if has_suffix s jaasConfigSuffix then (logging, Suc jaas) else (logging, jaas)))"

definition validateExtraMountsForBroker :: "'w broker_env \<Rightarrow> broker_cr \<Rightarrow> condition option \<times> bool" where
  "validateExtraMountsForBroker E cr =
     (case broker_config_maps E (rbNamespace cr) (rbExtraConfigMaps cr) (0, 0) of
        Inl (c, retry) \<Rightarrow> (Some c, retry)
      | Inr n1 \<Rightarrow>
          (case broker_secrets E (rbNamespace cr) (rbExtraSecrets cr) n1 of
             Inl (c, retry) \<Rightarrow> (Some c, retry)
           | Inr n2 \<Rightarrow> (AssertInstanceCounts (beOrder E) n2, False)))"

section \<open>The chain\<close>

definition broker_chain :: "'w broker_env \<Rightarrow> op_vars \<Rightarrow> broker_cr \<Rightarrow> (condition \<times> bool) \<times> op_vars" where
  "broker_chain E vars cr =
     (let s0 = (mk_condition ValidConditionType ConditionTrue ValidConditionSuccessReason '''', False);
          s1 = link (validateExtraMountsForBroker E cr) s0;
          s2 = (case rbBudget cr of None \<Rightarrow> s1 | Some pdb \<Rightarrow> link_keep (validatePodDisruptionForBroker pdb) s1);
          s3 = link (validateNoDupKeysInBrokerPropertiesForBroker cr, False) s2;
          s4 = link (broker_validateStorage (beParseQuantity E) cr, False) s3;
          s5 = link_keep (broker_ValidateBrokerImageVersion (beVersions E) (broker_image_spec cr)) s4;
          s6 = link_keep (validateReservedLabelsForBroker (beOrder E) cr) s5;
          s7 = link (validateEnvVarsForBroker cr, False) s6
      in if cStatus (fst s7) \<noteq> ConditionFalse
         then (case validateRequiredSecrets E vars cr of
                 (check, retry, vars') \<Rightarrow> (link (check, retry) s7, vars'))
         else (s7, vars))"

definition broker_validate ::
  "'w broker_env \<Rightarrow> op_vars \<Rightarrow> broker_cr \<Rightarrow> (broker_cr \<times> bool \<times> bool) \<times> op_vars" where
  "broker_validate E vars cr =
     (case broker_chain E vars cr of
        ((validationCondition, retry), vars') \<Rightarrow>
          ((broker_SetStatusConditionWithGeneration (beMeta E) validationCondition cr,
            cStatus validationCondition \<noteq> ConditionFalse, retry), vars'))"

section \<open>What the chain accepts\<close>

text \<open>The surroundings of a cluster's validation, so that the specifications of mounts are shared.\<close>

definition as_validation_env :: "'w broker_env \<Rightarrow> validation_env" where
  "as_validation_env E = \<lparr>veMeta = beMeta E, veOrder = beOrder E, veKube = beCluster E, veVersions = beVersions E,
     veOnOpenShift = beOnOpenShift E, veParseQuantity = beParseQuantity E, veLoginRegEx = beLoginRegEx E,
     veMatch = beMatch E\<rparr>"

lemma as_validation_env_sel [simp]:
  "veOrder (as_validation_env E) = beOrder E" "veKube (as_validation_env E) = beCluster E"
  "veLoginRegEx (as_validation_env E) = beLoginRegEx E" "veMatch (as_validation_env E) = beMatch E"
  by (simp_all add: as_validation_env_def)

lemma broker_config_map_check:
  "broker_check_config_map E ns cm = None \<longleftrightarrow> config_map_ok (as_validation_env E) ns cm"
  by (auto simp: broker_check_config_map_def config_map_ok_def config_map_held_def is_logging_def is_jaas_def
      AssertConfigMapContainsKey_def Let_def split: sum.splits)

lemma broker_secret_check:
  "range_ok (beOrder E) \<Longrightarrow> broker_check_secret E ns s = None \<longleftrightarrow> secret_ok (as_validation_env E) ns s"
  by (auto simp: broker_check_secret_def secret_ok_def is_logging_def is_jaas_def contains_key_check no_dup_check
      AssertSyntaxOkOnLoginConfigData_def Let_def split: sum.splits)

lemma broker_config_maps_loop:
  "broker_config_maps E ns cms (l, j) =
     (case first_error (broker_check_config_map E ns) cms of
        Some e \<Rightarrow> Inl e | None \<Rightarrow> Inr (l + length (filter is_logging cms), j))"
  by (induction cms arbitrary: l j) (auto simp: is_logging_def split: option.splits)

lemma broker_secrets_loop:
  "broker_secrets E ns ss (l, j) =
     (case first_error (broker_check_secret E ns) ss of
        Some c \<Rightarrow> Inl (c, True) | None \<Rightarrow> Inr (l + length (filter is_logging ss), j + length (filter is_jaas ss)))"
  by (induction ss arbitrary: l j) (auto simp: is_logging_def is_jaas_def split: option.splits)

lemmas broker_mounts_loops = broker_config_maps_loop broker_secrets_loop

definition broker_mounts_ok :: "'w broker_env \<Rightarrow> broker_cr \<Rightarrow> bool" where
  "broker_mounts_ok E cr \<longleftrightarrow>
     (\<forall>cm \<in> set (rbExtraConfigMaps cr). config_map_ok (as_validation_env E) (rbNamespace cr) cm) \<and>
     (\<forall>s \<in> set (rbExtraSecrets cr). secret_ok (as_validation_env E) (rbNamespace cr) s) \<and>
     length (filter is_logging (rbExtraConfigMaps cr @ rbExtraSecrets cr)) \<le> 1 \<and>
     length (filter is_jaas (rbExtraSecrets cr)) \<le> 1"

lemma broker_mounts_check:
  assumes ord: "range_ok (beOrder E)"
  shows "fst (validateExtraMountsForBroker E cr) = None \<longleftrightarrow> broker_mounts_ok E cr"
proof -
  let ?cms = "rbExtraConfigMaps cr" and ?ss = "rbExtraSecrets cr" and ?ns = "rbNamespace cr"
  have "fst (validateExtraMountsForBroker E cr) = None \<longleftrightarrow>
      first_error (broker_check_config_map E ?ns) ?cms = None \<and> first_error (broker_check_secret E ?ns) ?ss = None \<and>
      AssertInstanceCounts (beOrder E)
        (length (filter is_logging ?cms) + length (filter is_logging ?ss), length (filter is_jaas ?ss)) = None"
    by (auto simp: validateExtraMountsForBroker_def broker_mounts_loops split: option.splits prod.splits)
  then show ?thesis
    by (simp add: first_error_None broker_config_map_check broker_secret_check [OF ord] counts_check [OF ord]
        broker_mounts_ok_def)
qed

lemma broker_mounts_retry:
  "fst (validateExtraMountsForBroker E cr) = None \<Longrightarrow> \<not> snd (validateExtraMountsForBroker E cr)"
  by (auto simp: validateExtraMountsForBroker_def broker_mounts_loops split: option.splits prod.splits)

named_theorems broker_fails_false \<open>a check of a broker that fails sets the condition to false\<close>

lemma broker_config_map_false: "broker_check_config_map E ns cm = Some (c, r) \<Longrightarrow> cStatus c = ConditionFalse"
  by (auto simp: broker_check_config_map_def missing_def Let_def dest: assert_false split: sum.splits if_splits)

lemma broker_secret_false: "broker_check_secret E ns s = Some c \<Longrightarrow> cStatus c = ConditionFalse"
  by (auto simp: broker_check_secret_def missing_def Let_def or_else_Some dest: assert_false split: sum.splits if_splits)

lemma broker_mounts_false [broker_fails_false]:
  "fst (validateExtraMountsForBroker E cr) = Some c \<Longrightarrow> cStatus c = ConditionFalse"
  by (auto simp: validateExtraMountsForBroker_def broker_mounts_loops split: option.splits prod.splits
      dest!: first_error_SomeD broker_config_map_false broker_secret_false counts_false)

lemma broker_dup_keys_check:
  "validateNoDupKeysInBrokerPropertiesForBroker cr = None \<longleftrightarrow> DuplicateKeyIn (rbBrokerProperties cr) = ''''"
  by (cases "rbBrokerProperties cr")
    (auto simp: validateNoDupKeysInBrokerPropertiesForBroker_def Let_def DuplicateKeyIn_def)

lemma broker_dup_keys_false [broker_fails_false]:
  "validateNoDupKeysInBrokerPropertiesForBroker cr = Some c \<Longrightarrow> cStatus c = ConditionFalse"
  by (auto simp: validateNoDupKeysInBrokerPropertiesForBroker_def Let_def split: if_splits)

lemma reserved_broker_templates_check:
  "range_ok ord \<Longrightarrow> reserved_in_broker_templates ord i ts = None \<longleftrightarrow> labels_ok (map rtLabels ts)"
proof (induction ts arbitrary: i)
  case (Cons t ts)
  have "labels_ok (rtLabels t # map rtLabels ts) \<longleftrightarrow> labels_ok [rtLabels t] \<and> labels_ok (map rtLabels ts)"
    by (auto simp: labels_ok_def)
  with Cons find_reserved [OF Cons.prems, of "rtLabels t"] show ?case by (auto split: option.splits)
qed (simp add: labels_ok_def)

lemma broker_labels_check:
  assumes "range_ok ord"
  shows "validateReservedLabelsForBroker ord cr = None \<longleftrightarrow> labels_ok (rbLabels cr # map rtLabels (rbTemplates cr))"
proof -
  let ?ls = "rbLabels cr" and ?lss = "map rtLabels (rbTemplates cr)"
  have "labels_ok (?ls # ?lss) \<longleftrightarrow> labels_ok [?ls] \<and> labels_ok ?lss" by (auto simp: labels_ok_def)
  with reserved_broker_templates_check [OF assms, of 0 "rbTemplates cr"] find_reserved [OF assms, of ?ls]
  show ?thesis by (auto simp: validateReservedLabelsForBroker_def split: option.splits)
qed

lemma reserved_broker_templates_false:
  "reserved_in_broker_templates ord i ts = Some c \<Longrightarrow> cStatus c = ConditionFalse"
  by (induction ts arbitrary: i) (auto simp: reserved_label_failure_def split: option.splits)

lemma broker_labels_false [broker_fails_false]:
  "validateReservedLabelsForBroker ord cr = Some c \<Longrightarrow> cStatus c = ConditionFalse"
  by (auto simp: validateReservedLabelsForBroker_def reserved_label_failure_def split: option.splits
      dest: reserved_broker_templates_false)

definition broker_vars_ok :: "broker_cr \<Rightarrow> bool" where
  "broker_vars_ok cr \<longleftrightarrow> (\<forall>e \<in> set (rbEnv cr). internal_var (evName e) \<longrightarrow> evValueFrom e = None)"

lemma broker_env_check: "validateEnvVarsForBroker cr = None \<longleftrightarrow> broker_vars_ok cr"
  by (auto simp: validateEnvVarsForBroker_def broker_vars_ok_def Let_def filter_empty_conv)

lemma broker_env_false [broker_fails_false]: "validateEnvVarsForBroker cr = Some c \<Longrightarrow> cStatus c = ConditionFalse"
  by (auto simp: validateEnvVarsForBroker_def Let_def split: if_splits)

lemma broker_storage_check:
  "broker_validateStorage pq cr = None \<longleftrightarrow>
     (rbPersistenceEnabled cr \<and> rbStorageSize cr \<noteq> '''' \<longrightarrow> pq (rbStorageSize cr) = None)"
  by (auto simp: broker_validateStorage_def split: option.splits)

lemma broker_storage_false [broker_fails_false]: "broker_validateStorage pq cr = Some c \<Longrightarrow> cStatus c = ConditionFalse"
  by (auto simp: broker_validateStorage_def split: option.splits if_splits)

lemma broker_pdb_check: "validatePodDisruptionForBroker pdb = None \<longleftrightarrow> bgSelector pdb = None"
  by (simp add: validatePodDisruptionForBroker_def)

lemma broker_pdb_false [broker_fails_false]: "validatePodDisruptionForBroker pdb = Some c \<Longrightarrow> cStatus c = ConditionFalse"
  by (auto simp: validatePodDisruptionForBroker_def split: if_splits)

lemma broker_version_check:
  "accepted (broker_ValidateBrokerImageVersion S spec) \<longleftrightarrow> (\<exists>v. ResolveBrokerVersionFromCR S spec = Inr v)"
  by (auto simp: accepted_def broker_ValidateBrokerImageVersion_def version_invalid_def version_unknown_def
      split: sum.splits)

section \<open>The secrets of the operator\<close>

text \<open>The lookup of one secret leaves the answer of the other as it is.\<close>

lemma namespace_memo:
  "GetOperatorNamespaceFromEnv env vars = (r, vars') \<Longrightarrow> fst (GetOperatorNamespaceFromEnv env vars') = r"
  by (auto simp: GetOperatorNamespaceFromEnv_def split: option.splits)

lemma fallback_vars: "snd (GetOperatorSecretWithFallback K env vars n l) = snd (GetOperatorNamespaceFromEnv env vars)"
  by (auto simp: GetOperatorSecretWithFallback_def split: prod.splits sum.splits)

lemma fallback_cong:
  "fst (GetOperatorNamespaceFromEnv env a) = fst (GetOperatorNamespaceFromEnv env b) \<Longrightarrow>
     fst (GetOperatorSecretWithFallback K env a n l) = fst (GetOperatorSecretWithFallback K env b n l)"
  by (cases "GetOperatorNamespaceFromEnv env a"; cases "GetOperatorNamespaceFromEnv env b")
    (auto simp: GetOperatorSecretWithFallback_def split: sum.splits)

lemma namespace_of_vars:
  "operatorNameSpaceFromEnv a = operatorNameSpaceFromEnv b \<Longrightarrow>
     fst (GetOperatorNamespaceFromEnv env a) = fst (GetOperatorNamespaceFromEnv env b)"
  by (auto simp: GetOperatorNamespaceFromEnv_def split: option.splits)

lemma client_cert_frame:
  assumes "GetOperatorClientCertSecret K env vars = (r, vars1)"
  shows "fst (GetOperatorCASecret K env vars1) = fst (GetOperatorCASecret K env vars)"
proof -
  obtain n v where n: "GetOperatorCertSecretName env vars = (n, v)" by fastforce
  then have v: "operatorNameSpaceFromEnv v = operatorNameSpaceFromEnv vars" "operatorCASecretName v = operatorCASecretName vars"
    by (auto simp: GetOperatorCertSecretName_def Let_def split: option.splits)
  from assms n have v1: "vars1 = snd (GetOperatorNamespaceFromEnv env v)"
    by (metis GetOperatorClientCertSecret_def fallback_vars old.prod.case snd_conv)
  have ns: "fst (GetOperatorNamespaceFromEnv env vars1) = fst (GetOperatorNamespaceFromEnv env vars)"
    using namespace_memo [of env v] namespace_of_vars [OF v(1), of env] v1 by (metis prod.collapse)
  have ca: "operatorCASecretName vars1 = operatorCASecretName vars"
    using v1 v(2) by (auto simp: GetOperatorNamespaceFromEnv_def split: option.splits)
  show ?thesis
  proof (cases "operatorCASecretName vars")
    case None
    have up: "fst (GetOperatorNamespaceFromEnv env (w\<lparr>operatorCASecretName := Some c\<rparr>)) =
        fst (GetOperatorNamespaceFromEnv env w)" for w c
      by (rule namespace_of_vars) simp
    from None ca show ?thesis
      by (simp add: GetOperatorCASecret_def GetOperatorCASecretName_def Let_def) (rule fallback_cong, simp add: up ns)
  next
    case (Some c)
    with ca show ?thesis
      by (simp add: GetOperatorCASecret_def GetOperatorCASecretName_def) (rule fallback_cong, rule ns)
  qed
qed

definition required_secrets_ok :: "'w broker_env \<Rightarrow> op_vars \<Rightarrow> broker_cr \<Rightarrow> bool" where
  "required_secrets_ok E vars cr \<longleftrightarrow>
     (let K = secret_reader (beCluster E)
      in (\<exists>s. fst (GetOperatorClientCertSecret K (beOs E) vars) = Inr s) \<and>
         (\<exists>s. fst (GetOperatorCASecret K (beOs E) vars) = Inr s) \<and>
         (\<exists>s. GetNamespacedSecret K (GetOperandCertSecretName K (rbName cr) (rbNamespace cr)) (rbNamespace cr) = Inr s))"

lemma required_secrets_check:
  "fst (validateRequiredSecrets E vars cr) = None \<longleftrightarrow> required_secrets_ok E vars cr"
proof -
  let ?K = "secret_reader (beCluster E)"
  obtain r1 v1 where 1: "GetOperatorClientCertSecret ?K (beOs E) vars = (r1, v1)" by fastforce
  obtain r2 v2 where 2: "GetOperatorCASecret ?K (beOs E) v1 = (r2, v2)" by fastforce
  have "fst (GetOperatorCASecret ?K (beOs E) vars) = r2" using client_cert_frame [OF 1] 2 by simp
  with 1 2 show ?thesis
    by (auto simp: validateRequiredSecrets_def required_secrets_ok_def Let_def split: sum.splits)
qed

lemma required_secrets_retry:
  "fst (snd (validateRequiredSecrets E vars cr)) \<longleftrightarrow> fst (validateRequiredSecrets E vars cr) \<noteq> None"
  by (auto simp: validateRequiredSecrets_def Let_def split: sum.splits prod.splits)

lemma required_secrets_false:
  "fst (validateRequiredSecrets E vars cr) = Some c \<Longrightarrow> cStatus c = ConditionFalse"
  by (auto simp: validateRequiredSecrets_def Let_def split: sum.splits prod.splits)

text \<open>What a \<open>Broker\<close> has to satisfy by itself, and with the secrets it needs.\<close>

definition valid_broker_spec :: "'w broker_env \<Rightarrow> broker_cr \<Rightarrow> bool" where
  "valid_broker_spec E cr \<longleftrightarrow>
     broker_mounts_ok E cr \<and> (\<forall>pdb. rbBudget cr = Some pdb \<longrightarrow> bgSelector pdb = None) \<and>
     DuplicateKeyIn (rbBrokerProperties cr) = '''' \<and>
     (rbPersistenceEnabled cr \<and> rbStorageSize cr \<noteq> '''' \<longrightarrow> beParseQuantity E (rbStorageSize cr) = None) \<and>
     (\<exists>v. ResolveBrokerVersionFromCR (beVersions E) (broker_image_spec cr) = Inr v) \<and>
     labels_ok (rbLabels cr # map rtLabels (rbTemplates cr)) \<and> broker_vars_ok cr"

definition valid_broker :: "'w broker_env \<Rightarrow> op_vars \<Rightarrow> broker_cr \<Rightarrow> bool" where
  "valid_broker E vars cr \<longleftrightarrow> valid_broker_spec E cr \<and> required_secrets_ok E vars cr"

definition broker_links :: "'w broker_env \<Rightarrow> broker_cr \<Rightarrow> condition \<times> bool" where
  "broker_links E cr =
     link (validateEnvVarsForBroker cr, False)
       (link_keep (validateReservedLabelsForBroker (beOrder E) cr)
         (link_keep (broker_ValidateBrokerImageVersion (beVersions E) (broker_image_spec cr))
           (link (broker_validateStorage (beParseQuantity E) cr, False)
             (link (validateNoDupKeysInBrokerPropertiesForBroker cr, False)
               (link_keep (case rbBudget cr of None \<Rightarrow> None | Some pdb \<Rightarrow> validatePodDisruptionForBroker pdb)
                 (link (validateExtraMountsForBroker E cr)
                   (mk_condition ValidConditionType ConditionTrue ValidConditionSuccessReason '''', False)))))))"

lemma link_keep_None [simp]: "link_keep None st = st"
  by (simp add: link_keep_def link_def)

lemma broker_chain_eq:
  "broker_chain E vars cr =
     (if cStatus (fst (broker_links E cr)) \<noteq> ConditionFalse
      then (case validateRequiredSecrets E vars cr of
              (check, retry, vars') \<Rightarrow> (link (check, retry) (broker_links E cr), vars'))
      else (broker_links E cr, vars))"
  by (simp add: broker_chain_def broker_links_def Let_def split: option.split)

lemma broker_links_accept:
  assumes "range_ok (beOrder E)"
  shows "cStatus (fst (broker_links E cr)) \<noteq> ConditionFalse \<longleftrightarrow> valid_broker_spec E cr"
proof -
  have pdb: "accepted (case rbBudget cr of None \<Rightarrow> None | Some pdb \<Rightarrow> validatePodDisruptionForBroker pdb) \<longleftrightarrow>
      (\<forall>pdb. rbBudget cr = Some pdb \<longrightarrow> bgSelector pdb = None)"
    by (auto simp: accepted_def validatePodDisruptionForBroker_def split: option.split)
  show ?thesis
    unfolding broker_links_def link_accepts link_keep_accepts pdb
    by (simp add: accepted_None broker_fails_false broker_mounts_check [OF assms] broker_dup_keys_check
        broker_storage_check broker_version_check broker_labels_check [OF assms] broker_env_check valid_broker_spec_def)
qed

lemma broker_links_retry:
  assumes ord: "range_ok (beOrder E)"
  shows "snd (broker_links E cr) \<longrightarrow>
    cStatus (fst (broker_links E cr)) = ConditionFalse \<and> \<not> broker_mounts_ok E cr"
proof -
  let ?bad = "\<lambda>s. snd s \<longrightarrow> cStatus (fst s) = ConditionFalse \<and> \<not> broker_mounts_ok E cr"
  have keep: "?bad (link_keep check s)" if "?bad s" for check s
    using that by (cases "cStatus (fst s) = ConditionFalse") (simp_all add: link_keep_false link_keep_snd)
  have plain: "?bad (link (check, False) s)" if "?bad s" for check s
    using that by (cases "cStatus (fst s) = ConditionFalse") (simp_all add: link_false link_snd)
  have "?bad (link (validateExtraMountsForBroker E cr)
      (mk_condition ValidConditionType ConditionTrue ValidConditionSuccessReason '''', False))"
    using broker_mounts_check [OF ord, of cr] broker_mounts_false [of E cr] broker_mounts_retry [of E cr]
    by (auto simp: link_def split: option.split)
  then show ?thesis unfolding broker_links_def by (intro plain keep)
qed

lemma broker_chain_accepts:
  assumes "range_ok (beOrder E)"
  shows "cStatus (fst (fst (broker_chain E vars cr))) \<noteq> ConditionFalse \<longleftrightarrow> valid_broker E vars cr"
proof -
  have "accepted (fst (validateRequiredSecrets E vars cr)) \<longleftrightarrow> required_secrets_ok E vars cr"
    by (simp add: accepted_None required_secrets_false required_secrets_check)
  then show ?thesis
    using broker_links_accept [OF assms, of cr]
    by (auto simp: broker_chain_eq valid_broker_def link_accepts split: prod.splits)
qed

text \<open>A retry means a mount or a secret is not as it should be; a missing secret alone always means a retry.\<close>

lemma broker_chain_retry:
  assumes "range_ok (beOrder E)"
  shows "snd (fst (broker_chain E vars cr)) \<longrightarrow>
      \<not> valid_broker E vars cr \<and> (\<not> broker_mounts_ok E cr \<or> \<not> required_secrets_ok E vars cr)"
    and "valid_broker_spec E cr \<Longrightarrow> \<not> required_secrets_ok E vars cr \<Longrightarrow> snd (fst (broker_chain E vars cr))"
  using broker_links_retry [OF assms, of cr] broker_links_accept [OF assms, of cr]
    required_secrets_check [of E vars cr] required_secrets_retry [of E vars cr]
  by (auto simp: broker_chain_eq valid_broker_def link_snd split: prod.splits)

end
