(* ===== verification/Broker_Status.thy ===== *)
theory Broker_Status
  imports Broker_Validation Cluster_Status
begin

text \<open>
  The status of a \<open>Broker\<close>: the checks of its one broker (\<open>broker_controller.go\<close>), its pod and the
  condition \<open>Deployed\<close> (\<open>pkg/broker/status/status.go\<close>), and when the status is written.  The checks of
  one broker refine those of a \<open>BrokerCluster\<close> with one pod.
\<close>

section \<open>The conversation with the broker\<close>

definition GetMinimalJolokiaAgentsForBroker :: "cluster_kube \<Rightarrow> broker_cr \<Rightarrow> jk_info list" where
  "GetMinimalJolokiaAgentsForBroker K cr =
     [\<lparr>jkIP = OrdinalFQDNS (ckClusterDomain K) (rbName cr) (rbNamespace cr) 0, jkOrdinal = ''0''\<rparr>]"

definition broker_resolveJolokiaEndpoints :: "cluster_kube \<Rightarrow> broker_cr \<Rightarrow> 'w session \<Rightarrow> 'w session" where
  "broker_resolveJolokiaEndpoints K cr S =
     (case snEndpoints S of
        Some eps \<Rightarrow> S
      | None \<Rightarrow> S\<lparr>snEndpoints := Some (GetMinimalJolokiaAgentsForBroker K cr)\<rparr>)"

text \<open>Only the first endpoint is asked.\<close>

definition broker_CheckStatus ::
  "cluster_kube \<Rightarrow> 'w broker_api \<Rightarrow> broker_cr \<Rightarrow> status_check \<Rightarrow> 'w session \<Rightarrow>
     artemis_error option \<times> 'w session" where
  "broker_CheckStatus K B cr check S =
     (let S1 = broker_resolveJolokiaEndpoints K cr S
      in if length (endpoints S1) = 0
         then (Some (JolokiaClientNotFoundError ''Waiting for Jolokia Clients to become available''), S1)
         else CheckStatusFromJolokia B check (endpoints S1 ! 0) S1)"

definition broker_version_check :: "semver_api \<Rightarrow> broker_cr \<Rightarrow> status_check" where
  "broker_version_check V cr status jk =
     (let resolvedFullVersion =
        (case ResolveBrokerVersionFromCR V (broker_image_spec cr) of Inr v \<Rightarrow> v | Inl e \<Rightarrow> '''')
      in if bsVersion status \<noteq> resolvedFullVersion
         then Some (VersionMismatchError
                (''broker version non aligned on pod '' @ CrToSS (rbName cr) @ ''-'' @ jkOrdinal jk @
                 '', the detected version ['' @ bsVersion status @ ''] doesn't match the spec.version ['' @
                 rbVersion cr @ ''] resolved as ['' @ resolvedFullVersion @ '']''))
         else None)"

definition broker_AssertBrokerImageVersion ::
  "'w broker_env \<Rightarrow> broker_cr \<Rightarrow> 'w session \<Rightarrow> artemis_error option \<times> 'w session" where
  "broker_AssertBrokerImageVersion E cr S =
     broker_CheckStatus (beCluster E) (beBrokers E) cr (broker_version_check (beVersions E) cr) S"

definition AssertBrokersAvailableForBroker :: "meta_api \<Rightarrow> broker_cr \<Rightarrow> artemis_error option" where
  "AssertBrokersAvailableForBroker M cr =
     (case FindStatusCondition M (rbConditions cr) DeployedConditionType of
        None \<Rightarrow> Some (ArtemisStatusError ''no available brokers from deployed condition'' False)
      | Some c \<Rightarrow>
          if cStatus c = ConditionFalse
          then Some (ArtemisStatusError ''no available brokers from deployed condition'' False) else None)"

section \<open>The configuration the broker runs\<close>

definition broker_projection_check ::
  "range_order \<Rightarrow> ('w, 'z) broker_api_scheme \<Rightarrow> broker_cr \<Rightarrow> projection \<Rightarrow>
     (broker_status \<Rightarrow> string \<Rightarrow> properties_status option) \<Rightarrow> status_check" where
  "broker_projection_check ord B cr P extractStatus brokerStatus jk =
     (let podName = CrToSS (rbName cr) @ ''-'' @ jkOrdinal jk
      in case check_files B podName P (extractStatus brokerStatus) (ord (map fst (pjFiles P))) ([], None) of
           Inl err \<Rightarrow> Some err
         | Inr (missingKeys, applyError) \<Rightarrow>
             (case applyError of
                Some detail \<Rightarrow> Some (InSyncApplyError
                  (''some properties from '' @ pjName P @ '' resulted in error on pod '' @ podName) detail)
              | None \<Rightarrow>
                  if length missingKeys > 0 then Some (missing_keys_error (pjName P) podName missingKeys)
                  else None))"

definition broker_checkProjectionStatus ::
  "'w broker_env \<Rightarrow> broker_cr \<Rightarrow> projection \<Rightarrow> (broker_status \<Rightarrow> string \<Rightarrow> properties_status option) \<Rightarrow>
     'w session \<Rightarrow> artemis_error option \<times> 'w session" where
  "broker_checkProjectionStatus E cr P extractStatus S =
     broker_CheckStatus (beCluster E) (beBrokers E) cr
       (broker_projection_check (beOrder E) (beBrokers E) cr P extractStatus) S"

definition updateExtraConfigStatusForBroker :: "projection \<Rightarrow> broker_cr \<Rightarrow> broker_cr" where
  "updateExtraConfigStatusForBroker P cr =
     cr\<lparr>rbStatus := (rbStatus cr)\<lparr>rsExternalConfigs := update_config P (rsExternalConfigs (rbStatus cr))\<rparr>\<rparr>"

definition getPropertiesResourceNsNameForBroker :: "broker_cr \<Rightarrow> string \<times> string" where
  "getPropertiesResourceNsNameForBroker cr = (rbNamespace cr, rbName cr @ ''-props'')"

definition getConfigExtraMountForBroker :: "broker_cr \<Rightarrow> string \<Rightarrow> (string \<times> string) option" where
  "getConfigExtraMountForBroker customResource sfx =
     (case List.find (\<lambda>cm. has_suffix cm sfx) (rbExtraConfigMaps customResource) of
        Some cm \<Rightarrow> Some (''configmaps'', cm)
      | None \<Rightarrow>
          (case List.find (\<lambda>s. has_suffix s sfx) (rbExtraSecrets customResource) of
             Some s \<Rightarrow> Some (''secrets'', s)
           | None \<Rightarrow> None))"

text \<open>\<open>tracked\<close> is the lookup of a secret among the resources this reconcile tracks.\<close>

definition broker_getSecretProjection ::
  "'w broker_env \<Rightarrow> (string \<Rightarrow> secret option) \<Rightarrow> string \<times> string \<Rightarrow> string + projection" where
  "broker_getSecretProjection E tracked nsName =
     (case tracked (snd nsName) of
        Some s \<Rightarrow> Inr (newProjectionFromByteValues (beJson E) s)
      | None \<Rightarrow>
          (case ckGetSecret (beCluster E) (fst nsName) (snd nsName) of
             Inl err \<Rightarrow> Inl (''unable to retrieve secret projection: '' @ api_error_text err)
           | Inr s \<Rightarrow> Inr (newProjectionFromByteValues (beJson E) s)))"

fun broker_extra_secrets ::
  "'w broker_env \<Rightarrow> (string \<Rightarrow> secret option) \<Rightarrow> string list \<Rightarrow> broker_cr \<Rightarrow> 'w session \<Rightarrow>
     artemis_error option \<times> broker_cr \<times> 'w session" where
  "broker_extra_secrets E tracked [] cr S = (None, cr, S)"
| "broker_extra_secrets E tracked (extraSecretName # names) cr S =
     (if has_suffix extraSecretName BrokerPropsSuffix
      then (case broker_getSecretProjection E tracked (rbNamespace cr, extraSecretName) of
              Inl err \<Rightarrow> (Some (ArtemisStatusError err False), cr, S)
            | Inr secretProjection \<Rightarrow>
                (case broker_checkProjectionStatus E cr secretProjection bsConfig S of
                   (None, S') \<Rightarrow>
                     broker_extra_secrets E tracked names (updateExtraConfigStatusForBroker secretProjection cr) S'
                 | (Some errorStatus, S') \<Rightarrow> (Some errorStatus, cr, S')))
      else broker_extra_secrets E tracked names cr S)"

definition broker_AssertBrokerPropertiesStatus ::
  "'w broker_env \<Rightarrow> (string \<Rightarrow> secret option) \<Rightarrow> broker_cr \<Rightarrow> 'w session \<Rightarrow>
     artemis_error option \<times> broker_cr \<times> 'w session" where
  "broker_AssertBrokerPropertiesStatus E tracked cr S =
     (case broker_getSecretProjection E tracked (getPropertiesResourceNsNameForBroker cr) of
        Inl err \<Rightarrow> (Some (ArtemisStatusError err False), cr, S)
      | Inr secretProjection \<Rightarrow>
          (case broker_checkProjectionStatus E cr secretProjection bsConfig S of
             (Some errorStatus, S') \<Rightarrow> (Some errorStatus, cr, S')
           | (None, S') \<Rightarrow> broker_extra_secrets E tracked (rbExtraSecrets cr) cr S'))"

text \<open>Called only when the mount is there, so the projection is never \<open>nil\<close>.\<close>

definition broker_AssertJaasPropertiesStatus ::
  "'w broker_env \<Rightarrow> (string \<Rightarrow> secret option) \<Rightarrow> string \<Rightarrow> broker_cr \<Rightarrow> 'w session \<Rightarrow>
     artemis_error option \<times> broker_cr \<times> 'w session" where
  "broker_AssertJaasPropertiesStatus E tracked name cr S =
     (case broker_getSecretProjection E tracked (rbNamespace cr, name) of
        Inl err \<Rightarrow> (Some (ArtemisStatusError err False), cr, S)
      | Inr Projection \<Rightarrow>
          (case broker_checkProjectionStatus E cr Projection bsJaas S of
             (None, S') \<Rightarrow> (None, updateExtraConfigStatusForBroker Projection cr, S')
           | (Some statusError, S') \<Rightarrow> (Some statusError, cr, S')))"

section \<open>Conditions from the broker\<close>

definition broker_process_jaas ::
  "'w broker_env \<Rightarrow> (string \<Rightarrow> secret option) \<Rightarrow> broker_cr \<Rightarrow> 'w session \<Rightarrow> bool \<times> broker_cr \<times> 'w session" where
  "broker_process_jaas E tracked cr S =
     (case getConfigExtraMountForBroker cr jaasConfigSuffix of
        None \<Rightarrow> (False, cr, S)
      | Some (t, name) \<Rightarrow>
          (case broker_AssertJaasPropertiesStatus E tracked name cr S of
             (err, cr', S') \<Rightarrow>
               (requeue_of err,
                put_broker_condition (beMeta E)
                  (condition_or_error err JaasConfigAppliedConditionType ConfigAppliedConditionSynchedReason) cr', S')))"

definition broker_process_checks ::
  "'w broker_env \<Rightarrow> (string \<Rightarrow> secret option) \<Rightarrow> broker_cr \<Rightarrow> 'w session \<Rightarrow> bool \<times> broker_cr \<times> 'w session" where
  "broker_process_checks E tracked cr S =
     (case broker_AssertBrokerImageVersion E cr S of
        (err1, S1) \<Rightarrow>
          (let cr1 = put_broker_condition (beMeta E)
                 (condition_or_error err1 BrokerVersionAlignedConditionType BrokerVersionAlignedConditionMatchReason) cr
           in case broker_AssertBrokerPropertiesStatus E tracked cr1 S1 of
                (err2, cr2, S2) \<Rightarrow>
                  (let cr3 = put_broker_condition (beMeta E)
                         (condition_or_error err2 ConfigAppliedConditionType ConfigAppliedConditionSynchedReason) cr2
                   in case broker_process_jaas E tracked cr3 S2 of
                        (retry3, cr4, S3) \<Rightarrow> (requeue_of err1 \<or> requeue_of err2 \<or> retry3, cr4, S3))))"

definition ProcessBrokerStatus ::
  "'w broker_env \<Rightarrow> (string \<Rightarrow> secret option) \<Rightarrow> broker_cr \<Rightarrow> 'w session \<Rightarrow> bool \<times> broker_cr \<times> 'w session" where
  "ProcessBrokerStatus E tracked cr S =
     (case AssertBrokersAvailableForBroker (beMeta E) cr of
        Some err \<Rightarrow>
          (Requeue err, put_broker_condition (beMeta E) (trapErrorAsCondition err ConfigAppliedConditionType) cr, S)
      | None \<Rightarrow> broker_process_checks E tracked cr S)"

section \<open>The pod and the condition Deployed (pkg/broker/status/status.go)\<close>

definition broker_UpdateBlockedStatus :: "meta_api \<Rightarrow> bool \<Rightarrow> broker_cr \<Rightarrow> broker_cr" where
  "broker_UpdateBlockedStatus M blocked cr =
     (if blocked
      then broker_SetStatusConditionWithGeneration M
             (mk_condition ReconcileBlockedType ConditionTrue ReconcileBlockedReason
                (''Reconcile blocked by presence of annotation '' @ BlockReconcileAnnotation)) cr
      else set_broker_conditions (RemoveStatusCondition M (rbConditions cr) ReconcileBlockedType) cr)"

text \<open>A \<open>Broker\<close> has no init image.\<close>

definition broker_updateVersionStatus :: "semver_api \<Rightarrow> env \<Rightarrow> string \<Rightarrow> image_spec \<Rightarrow> version_status" where
  "broker_updateVersionStatus S os goarch cr =
     \<lparr>vsImage = broker_ResolveImage S os goarch cr BrokerImageKey,
      vsInitImage = '''',
      vsBrokerVersion = (case ResolveBrokerVersionFromCR S cr of Inr v \<Rightarrow> v | Inl e \<Rightarrow> ''''),
      vsUpgrade =
        (if isLockedDown (isImage cr)
         then \<lparr>SecurityUpdates = False, MajorUpdates = False, MinorUpdates = False, PatchUpdates = False\<rparr>
         else if isVersion cr = ''''
         then \<lparr>SecurityUpdates = True, MajorUpdates = True, MinorUpdates = True, PatchUpdates = True\<rparr>
         else (let n = length (split_all (isVersion cr) ''.'')
               in \<lparr>SecurityUpdates = True, MajorUpdates = False, MinorUpdates = (n = 1),
                   PatchUpdates = (n = 1 \<or> n = 2)\<rparr>))\<rparr>"

text \<open>The labels of the namer of a broker, \<open>GetDefaultLabelsForBroker\<close>.\<close>

definition broker_labels :: "broker_cr \<Rightarrow> labels" where
  "broker_labels cr = [(''application'', rbName cr @ ''-app''), (''ActiveMQArtemis'', rbName cr)]"

definition broker_updateScaleStatus :: "range_order \<Rightarrow> broker_cr \<Rightarrow> string" where
  "broker_updateScaleStatus ord cr =
     (let pr = (\<lambda>ls. map (\<lambda>k. k @ ''='' @ (case map_of ls k of Some v \<Rightarrow> v | None \<Rightarrow> '''')) (ord (map fst ls)))
      in join '','' (sort (pr (broker_labels cr) @ pr (rbLabels cr))))"

text \<open>
  One pod.  \<open>lastStatus\<close> is what the process remembers of the last reconcile; a pod that has become
  ready since is announced.
\<close>

definition broker_updatePodStatus :: "cluster_kube \<Rightarrow> pod_status \<Rightarrow> broker_cr \<Rightarrow> pod_status \<times> string list" where
  "broker_updatePodStatus K lastStatus cr =
     (let status =
        (case ckGetStatefulSet K (rbNamespace cr) (CrToSS (rbName cr)) of
           Inl err \<Rightarrow> no_pods
         | Inr sfsFound \<Rightarrow>
             (let podName = stsName sfsFound @ ''-0''
              in if stsReadyReplicas sfsFound = 0 then no_pods\<lparr>psStarting := [podName]\<rparr>
                 else no_pods\<lparr>psReady := [podName]\<rparr>))
      in (status, if length (psReady status) = 1 \<and> length (psReady lastStatus) = 0 then psReady status else []))"

definition broker_getValidCondition :: "broker_cr \<Rightarrow> condition" where
  "broker_getValidCondition cr =
     (case List.find (\<lambda>c. cType c = ValidConditionType) (rbConditions cr) of
        Some c \<Rightarrow> c
      | None \<Rightarrow> mk_condition ValidConditionType ConditionTrue ValidConditionSuccessReason '''')"

definition broker_not_ready_message :: "cluster_kube \<Rightarrow> broker_cr \<Rightarrow> string" where
  "broker_not_ready_message K cr =
     (case psStarting (rsPodStatus (rbStatus cr)) of
        [startingPodName] \<Rightarrow>
          (case ckGetPod K (rbNamespace cr) startingPodName of
             Inl err \<Rightarrow> ''0/1 pods ready''
           | Inr p \<Rightarrow> ''0/1 pods ready'' @ '' '' @ PodStartingStatusDigestMessage startingPodName p)
      | _ \<Rightarrow> ''0/1 pods ready'')"

definition broker_getDeploymentCondition ::
  "cluster_kube \<Rightarrow> broker_cr \<Rightarrow> bool \<Rightarrow> string option \<Rightarrow> condition" where
  "broker_getDeploymentCondition K cr valid reconcileError =
     (let mk = mk_condition DeployedConditionType
      in if \<not> valid then mk ConditionFalse DeployedConditionValidationFailedReason ''''
         else case reconcileError of
           Some err \<Rightarrow> mk ConditionFalse DeployedConditionCrudKindErrorReason err
         | None \<Rightarrow>
             if length (psReady (rsPodStatus (rbStatus cr))) = 0
             then mk ConditionFalse DeployedConditionNotReadyReason (broker_not_ready_message K cr)
             else mk ConditionTrue DeployedConditionReadyReason '''')"

definition broker_ProcessStatus ::
  "'w broker_env \<Rightarrow> pod_status \<Rightarrow> broker_cr \<Rightarrow> string option \<Rightarrow> broker_cr \<times> string list" where
  "broker_ProcessStatus E lastStatus cr reconcileError =
     (case broker_updatePodStatus (beCluster E) lastStatus cr of
        (status, announced) \<Rightarrow>
          (let cr1 = cr\<lparr>rbStatus := (rbStatus cr)
                 \<lparr>rsVersion := broker_updateVersionStatus (beVersions E) (beOs E) (beGoarch E) (broker_image_spec cr),
                  rsScaleLabelSelector := broker_updateScaleStatus (beOrder E) cr, rsPodStatus := status\<rparr>\<rparr>;
               validCondition = broker_getValidCondition cr1;
               cr2 = broker_SetStatusConditionWithGeneration (beMeta E) validCondition cr1
           in (put_broker_condition (beMeta E)
                 (broker_getDeploymentCondition (beCluster E) cr2 (cStatus validCondition \<noteq> ConditionFalse) reconcileError) cr2,
               announced)))"

section \<open>When the status is written (broker\_controller.go)\<close>

definition brokerExternalConfigsModified :: "external_config list \<Rightarrow> external_config list \<Rightarrow> bool" where
  "brokerExternalConfigsModified desiredExternalConfigs currentExternalConfigs =
     list_ex (\<lambda>cfg. list_ex (\<lambda>curCfg. ecName curCfg = ecName cfg \<and> ecResourceVersion curCfg \<noteq> ecResourceVersion cfg)
       currentExternalConfigs) desiredExternalConfigs"

text \<open>\<open>Status.Version\<close> holds the three texts; \<open>Status.Upgrade\<close> is not compared.\<close>

definition EqualBrokerCRStatus :: "broker_cr_status \<Rightarrow> broker_cr_status \<Rightarrow> bool" where
  "EqualBrokerCRStatus s1 s2 \<longleftrightarrow>
     \<not> (rsScaleLabelSelector s1 \<noteq> rsScaleLabelSelector s2 \<or>
        \<not> (vsImage (rsVersion s1) = vsImage (rsVersion s2) \<and> vsInitImage (rsVersion s1) = vsInitImage (rsVersion s2) \<and>
           vsBrokerVersion (rsVersion s1) = vsBrokerVersion (rsVersion s2)) \<or>
        length (rsExternalConfigs s2) \<noteq> length (rsExternalConfigs s1) \<or>
        brokerExternalConfigsModified (rsExternalConfigs s2) (rsExternalConfigs s1) \<or>
        rsPodStatus s1 \<noteq> rsPodStatus s2 \<or>
        length (rsConditions s1) \<noteq> length (rsConditions s2) \<or>
        conditionsModified (rsConditions s2) (rsConditions s1))"

definition UpdateBrokerCRStatus ::
  "meta_api \<Rightarrow> (api_error + broker_cr_status) \<Rightarrow> (broker_cr \<Rightarrow> string option) \<Rightarrow> broker_cr \<Rightarrow>
     broker_cr \<times> bool \<times> string option" where
  "UpdateBrokerCRStatus M current update cr =
     (let cr1 = set_broker_conditions (SetReadyCondition M (rbConditions cr)) cr
      in case current of
           Inl err \<Rightarrow> (cr1, False, Some (api_error_text err))
         | Inr cur \<Rightarrow>
             if \<not> EqualBrokerCRStatus (rbStatus cr1) cur then (cr1, True, update cr1)
             else (cr1, False, None))"

section \<open>One broker as a cluster of one\<close>

text \<open>
  The \<open>BrokerCluster\<close> a \<open>Broker\<close> stands for: one pod, no endpoints, no init image.  Its checks are the
  checks of the broker, with the same conversation, as long as the pod is there for the cluster to find.
\<close>

definition status_of_cluster :: "broker_cr_status \<Rightarrow> cluster_status" where
  "status_of_cluster s =
     \<lparr>stConditions = rsConditions s, stPodStatus = rsPodStatus s, stDeploymentPlanSize = 1,
      stScaleLabelSelector = rsScaleLabelSelector s, stExternalConfigs = rsExternalConfigs s,
      stVersion = rsVersion s\<rparr>"

definition cluster_of :: "broker_cr \<Rightarrow> broker_cluster" where
  "cluster_of cr =
     \<lparr>bcKind = rbKind cr, bcAPIVersion = rbAPIVersion cr, bcNamespace = rbNamespace cr, bcName = rbName cr,
      bcUID = rbUID cr, bcGeneration = rbGeneration cr, bcAnnotations = rbMetaAnnotations cr, bcRestricted = Some True, bcVersion = rbVersion cr,
      bcAdminUser = '''', bcAdminPassword = '''',
      bcPlan = zero_plan\<lparr>dpImage := rbImage cr, dpSize := Some 1, dpPersistenceEnabled := rbPersistenceEnabled cr,
        dpStorageSize := rbStorageSize cr, dpClustered := Some False, dpLabels := rbLabels cr,
        dpPodDisruptionBudget := rbBudget cr, dpExtraConfigMaps := rbExtraConfigMaps cr,
        dpExtraSecrets := rbExtraSecrets cr\<rparr>,
      bcAcceptors = [], bcConnectors = [], bcConsole = zero_console,
      bcAddressSettings = \<lparr>ApplyRule = None, AddressSetting = []\<rparr>, bcBrokerProperties = rbBrokerProperties cr, bcEnv = rbEnv cr, bcIngressDomain = '''',
      bcTemplates = rbTemplates cr, bcStatus = status_of_cluster (rbStatus cr)\<rparr>"

definition status_env_of :: "'w broker_env \<Rightarrow> (string \<Rightarrow> secret option) \<Rightarrow> 'w status_env" where
  "status_env_of E tracked =
     \<lparr>teMeta = beMeta E, teOrder = beOrder E, teKube = beCluster E, teBrokers = beBrokers E,
      teVersions = beVersions E, teJson = beJson E, teDesired = tracked\<rparr>"

lemma cluster_of_sel [simp]:
  "bcName (cluster_of cr) = rbName cr" "bcNamespace (cluster_of cr) = rbNamespace cr"
  "bcConditions (cluster_of cr) = rbConditions cr" "bcVersion (cluster_of cr) = rbVersion cr"
  "bcGeneration (cluster_of cr) = rbGeneration cr"
  "dpExtraSecrets (bcPlan (cluster_of cr)) = rbExtraSecrets cr"
  "dpExtraConfigMaps (bcPlan (cluster_of cr)) = rbExtraConfigMaps cr"
  "stDeploymentPlanSize (bcStatus (cluster_of cr)) = 1"
  "image_spec_of (cluster_of cr) = broker_image_spec cr"
  by (simp_all add: cluster_of_def status_of_cluster_def image_spec_of_def broker_image_spec_def zero_plan_def)

lemma status_env_of_sel [simp]:
  "teMeta (status_env_of E t) = beMeta E" "teOrder (status_env_of E t) = beOrder E"
  "teKube (status_env_of E t) = beCluster E" "teBrokers (status_env_of E t) = beBrokers E"
  "teVersions (status_env_of E t) = beVersions E" "teJson (status_env_of E t) = beJson E"
  "teDesired (status_env_of E t) = t"
  by (simp_all add: status_env_of_def)

lemma cluster_put_condition [simp]:
  "put_status_condition M c (cluster_of cr) = cluster_of (put_broker_condition M c cr)"
  by (simp add: put_status_condition_def put_broker_condition_def set_conditions_def set_broker_conditions_def
      cluster_of_def status_of_cluster_def)

lemma cluster_extra_config [simp]:
  "updateExtraConfigStatus P (cluster_of cr) = cluster_of (updateExtraConfigStatusForBroker P cr)"
  by (simp add: updateExtraConfigStatus_def updateExtraConfigStatusForBroker_def cluster_of_def status_of_cluster_def)

lemma cluster_extra_mount [simp]:
  "getConfigExtraMount (cluster_of cr) s = getConfigExtraMountForBroker cr s"
  by (simp add: getConfigExtraMount_def getConfigExtraMountForBroker_def cong: option.case_cong)

lemma cluster_resource_name [simp]:
  "getPropertiesResourceNsName (cluster_of cr) = getPropertiesResourceNsNameForBroker cr"
  by (simp add: getPropertiesResourceNsName_def getPropertiesResourceNsNameForBroker_def)

lemma cluster_projection [simp]:
  "project (status_env_of E t) nsName = broker_getSecretProjection E t nsName"
  by (simp add: project_def getSecretProjection_def broker_getSecretProjection_def split: option.splits)

lemma cluster_checks [simp]:
  "version_check V (cluster_of cr) = broker_version_check V cr"
  "projection_check ord B (cluster_of cr) P x = broker_projection_check ord B cr P x"
  by (auto simp: fun_eq_iff version_check_def broker_version_check_def projection_check_def
      broker_projection_check_def Let_def)

text \<open>The status of both is written when the same comparison finds a change.\<close>

lemma cluster_status_equal:
  "EqualBrokerClusterCRStatus (status_of_cluster s1) (status_of_cluster s2) = EqualBrokerCRStatus s1 s2"
  by (simp add: EqualBrokerClusterCRStatus_def EqualBrokerCRStatus_def status_of_cluster_def
      brokerClusterExternalConfigsModified_def brokerExternalConfigsModified_def)

lemma cluster_status_write:
  "UpdateBrokerClusterCRStatus M (map_sum id status_of_cluster current) update (cluster_of cr) =
     (case UpdateBrokerCRStatus M current (\<lambda>c. update (cluster_of c)) cr of (cr', written, err) \<Rightarrow> (cluster_of cr', written, err))"
proof -
  have c: "set_conditions cs (cluster_of cr) = cluster_of (set_broker_conditions cs cr)" for cs
    by (simp add: set_conditions_def set_broker_conditions_def cluster_of_def status_of_cluster_def)
  have b: "bcStatus (cluster_of c) = status_of_cluster (rbStatus c)" "stConditions (status_of_cluster s) = rsConditions s"
    for c s by (simp_all add: cluster_of_def status_of_cluster_def)
  show ?thesis
    by (cases current) (simp_all add: UpdateBrokerClusterCRStatus_def UpdateBrokerCRStatus_def Let_def b c cluster_status_equal)
qed

text \<open>Both ask the one endpoint, whether it is resolved already or not.\<close>

definition one_endpoint :: "cluster_kube \<Rightarrow> broker_cr \<Rightarrow> 'w session \<Rightarrow> bool" where
  "one_endpoint K cr S \<longleftrightarrow> (\<exists>p. ckGetPod K (rbNamespace cr) (CrToSS (rbName cr) @ ''-0'') = Inr p) \<and>
     (snEndpoints S = None \<or> snEndpoints S = Some (GetMinimalJolokiaAgentsForBroker K cr))"

lemma itoa_0 [simp]: "itoa 0 = ''0''"
  by (simp add: itoa_def nat_to_string.simps digit_chars)

lemma one_endpoint_sel [simp]:
  "one_endpoint K (put_broker_condition M c cr) S = one_endpoint K cr S"
  "one_endpoint K (updateExtraConfigStatusForBroker P cr) S = one_endpoint K cr S"
  by (simp_all add: one_endpoint_def GetMinimalJolokiaAgentsForBroker_def put_broker_condition_def
      set_broker_conditions_def updateExtraConfigStatusForBroker_def)

lemma cluster_endpoint:
  "one_endpoint K cr S \<Longrightarrow>
     resolveJolokiaEndpoints K (cluster_of cr) S = broker_resolveJolokiaEndpoints K cr S \<and>
     snEndpoints (broker_resolveJolokiaEndpoints K cr S) = Some (GetMinimalJolokiaAgentsForBroker K cr)"
  by (auto simp: one_endpoint_def resolveJolokiaEndpoints_def broker_resolveJolokiaEndpoints_def GetBrokers_def
      GetBrokersFromDNS_def GetMinimalJolokiaAgentsForBroker_def SSToCr_CrToSS split: option.splits)

lemma one_answer:
  "check_endpoints B check [jk] S = CheckStatusFromJolokia B check jk S"
  by (auto split: prod.splits option.splits)

lemma asked_endpoints [simp]:
  "snEndpoints (snd (CheckStatusFromJolokia B check jk S)) = snEndpoints S"
  by (auto simp: CheckStatusFromJolokia_def GetAndCacheBrokerStatus_def Let_def
      split: prod.splits sum.splits option.splits)

lemma cluster_CheckStatus:
  assumes "one_endpoint K cr S"
  shows "CheckStatus K B (cluster_of cr) check S = broker_CheckStatus K B cr check S"
    and "one_endpoint K cr (snd (broker_CheckStatus K B cr check S))"
proof -
  note r = cluster_endpoint [OF assms]
  have e: "endpoints (broker_resolveJolokiaEndpoints K cr S) = GetMinimalJolokiaAgentsForBroker K cr"
    using r by (simp add: endpoints_def)
  then show "CheckStatus K B (cluster_of cr) check S = broker_CheckStatus K B cr check S"
    using r by (simp add: CheckStatus_def broker_CheckStatus_def GetMinimalJolokiaAgentsForBroker_def one_answer
        del: check_endpoints.simps)
  show "one_endpoint K cr (snd (broker_CheckStatus K B cr check S))"
    using assms r e by (auto simp: broker_CheckStatus_def one_endpoint_def Let_def)
qed

definition as_cluster :: "'a \<times> broker_cr \<times> 'w session \<Rightarrow> 'a \<times> broker_cluster \<times> 'w session" where
  "as_cluster = (\<lambda>(r, cr, S). (r, cluster_of cr, S))"

definition stays_one :: "cluster_kube \<Rightarrow> 'a \<times> broker_cr \<times> 'w session \<Rightarrow> bool" where
  "stays_one K = (\<lambda>(r, cr, S). one_endpoint K cr S)"

lemma as_cluster_simps [simp]: "as_cluster (r, cr, S) = (r, cluster_of cr, S)"
  by (simp add: as_cluster_def)

lemma stays_one_simps [simp]: "stays_one K (r, cr, S) = one_endpoint K cr S"
  by (simp add: stays_one_def)

lemma cluster_checkProjection:
  assumes "one_endpoint (beCluster E) cr S"
  shows "checkProjectionStatus (beOrder E) (beCluster E) (beBrokers E) (cluster_of cr) P x S =
           broker_checkProjectionStatus E cr P x S"
    and "one_endpoint (beCluster E) cr (snd (broker_checkProjectionStatus E cr P x S))"
  using cluster_CheckStatus [OF assms]
  by (simp_all add: checkProjectionStatus_def broker_checkProjectionStatus_def)

lemma checkProjection_stays:
  "one_endpoint (beCluster E) cr S \<Longrightarrow> broker_checkProjectionStatus E cr P x S = (r, S') \<Longrightarrow>
     one_endpoint (beCluster E) cr S'"
  using cluster_checkProjection(2) [of E cr S P x] by simp

lemma cluster_extra_secrets:
  "one_endpoint (beCluster E) cr S \<Longrightarrow>
     check_extra_secrets (status_env_of E t) names (cluster_of cr) S =
       as_cluster (broker_extra_secrets E t names cr S) \<and>
     stays_one (beCluster E) (broker_extra_secrets E t names cr S)"
proof (induction names arbitrary: cr S)
  case (Cons n names)
  show ?case
  proof (cases "has_suffix n BrokerPropsSuffix")
    case False
    with Cons show ?thesis by simp
  next
    case suf: True
    show ?thesis
    proof (cases "broker_getSecretProjection E t (rbNamespace cr, n)")
      case (Inl e)
      with Cons.prems suf show ?thesis by simp
    next
      case (Inr P)
      obtain r S' where c: "broker_checkProjectionStatus E cr P bsConfig S = (r, S')" by fastforce
      note stays = checkProjection_stays [OF Cons.prems c]
      with Cons.IH [of "updateExtraConfigStatusForBroker P cr" S'] Inr suf c
        cluster_checkProjection(1) [OF Cons.prems, of P bsConfig]
      show ?thesis by (cases r) simp_all
    qed
  qed
qed simp

lemma cluster_properties_status:
  assumes "one_endpoint (beCluster E) cr S"
  shows "AssertBrokerPropertiesStatus (status_env_of E t) (cluster_of cr) S =
           as_cluster (broker_AssertBrokerPropertiesStatus E t cr S) \<and>
         stays_one (beCluster E) (broker_AssertBrokerPropertiesStatus E t cr S)"
proof (cases "broker_getSecretProjection E t (getPropertiesResourceNsNameForBroker cr)")
  case (Inl e)
  with assms show ?thesis by (simp add: AssertBrokerPropertiesStatus_def broker_AssertBrokerPropertiesStatus_def)
next
  case (Inr P)
  obtain r S' where c: "broker_checkProjectionStatus E cr P bsConfig S = (r, S')" by fastforce
  note stays = checkProjection_stays [OF assms c]
  with Inr c cluster_checkProjection(1) [OF assms, of P bsConfig] cluster_extra_secrets [OF stays]
  show ?thesis
    by (cases r) (simp_all add: AssertBrokerPropertiesStatus_def broker_AssertBrokerPropertiesStatus_def)
qed

lemma cluster_jaas_status:
  assumes "one_endpoint (beCluster E) cr S"
  shows "AssertJaasPropertiesStatus (status_env_of E t) n (cluster_of cr) S =
           as_cluster (broker_AssertJaasPropertiesStatus E t n cr S)"
proof (cases "broker_getSecretProjection E t (rbNamespace cr, n)")
  case (Inl e)
  then show ?thesis by (simp add: AssertJaasPropertiesStatus_def broker_AssertJaasPropertiesStatus_def)
next
  case (Inr P)
  obtain r S' where c: "broker_checkProjectionStatus E cr P bsJaas S = (r, S')" by fastforce
  with Inr cluster_checkProjection(1) [OF assms, of P bsJaas]
  show ?thesis
    by (cases r) (simp_all add: AssertJaasPropertiesStatus_def broker_AssertJaasPropertiesStatus_def)
qed

lemma cluster_process_jaas:
  assumes "one_endpoint (beCluster E) cr S"
  shows "process_jaas (status_env_of E t) (cluster_of cr) S = as_cluster (broker_process_jaas E t cr S)"
proof (cases "getConfigExtraMountForBroker cr jaasConfigSuffix")
  case (Some m)
  obtain k n where m: "m = (k, n)" by fastforce
  obtain r cr' S' where a: "broker_AssertJaasPropertiesStatus E t n cr S = (r, cr', S')" by (metis prod_cases3)
  with Some m cluster_jaas_status [OF assms, of t n] show ?thesis
    by (simp add: process_jaas_def broker_process_jaas_def)
qed (simp add: process_jaas_def broker_process_jaas_def)

lemma cluster_process_checks:
  assumes "one_endpoint (beCluster E) cr S"
  shows "process_checks (status_env_of E t) (cluster_of cr) S = as_cluster (broker_process_checks E t cr S)"
proof -
  note v = cluster_CheckStatus [OF assms, of "beBrokers E" "broker_version_check (beVersions E) cr"]
  obtain e1 S1 where i: "broker_AssertBrokerImageVersion E cr S = (e1, S1)" by fastforce
  define cr1 where "cr1 = put_broker_condition (beMeta E)
      (condition_or_error e1 BrokerVersionAlignedConditionType BrokerVersionAlignedConditionMatchReason) cr"
  have one: "one_endpoint (beCluster E) cr1 S1"
    using v(2) i by (simp add: cr1_def broker_AssertBrokerImageVersion_def)
  obtain e2 cr2 S2 where p: "broker_AssertBrokerPropertiesStatus E t cr1 S1 = (e2, cr2, S2)" by (metis prod_cases3)
  define cr3 where "cr3 = put_broker_condition (beMeta E)
      (condition_or_error e2 ConfigAppliedConditionType ConfigAppliedConditionSynchedReason) cr2"
  note ps = cluster_properties_status [OF one, of t]
  have two: "one_endpoint (beCluster E) cr3 S2" using ps p by (simp add: cr3_def)
  obtain r3 cr4 S3 where j: "broker_process_jaas E t cr3 S2 = (r3, cr4, S3)" by (metis prod_cases3)
  show ?thesis
    using i p j v(1) ps cluster_process_jaas [OF two, of t]
    by (simp add: process_checks_def broker_process_checks_def AssertBrokerImageVersion_def
        broker_AssertBrokerImageVersion_def cr1_def cr3_def)
qed

end
