(* ===== verification/Control_Plane.thy ===== *)
theory Control_Plane
  imports Broker_Status Service_Provisioning
begin

text \<open>
  The control plane of a restricted broker (\<open>broker_controller.go\<close>, \<open>PodTemplateSpecForCR\<close>): the
  certificates it is built from, the files the operator writes next to the broker properties, the
  secret or config map that carries them, and the overrides a user may supply.
\<close>

section \<open>The resources of a reconcile\<close>

text \<open>
  \<open>deployed\<close>, \<open>requestedResources\<close> and \<open>matchedTemplates\<close> of the reconciler.  The requested resources
  are a map of maps, here one list with the type and the name as the key.
\<close>

record broker_loop =
  blDeployed :: "rtype \<Rightarrow> k8s_object list"
  blRequested :: requested
  blMatched :: "nat set"

definition NewBrokerReconcilerImpl :: broker_loop where
  "NewBrokerReconcilerImpl = \<lparr>blDeployed = (\<lambda>t. []), blRequested = [], blMatched = {}\<rparr>"

definition trackDesired :: "broker_loop \<Rightarrow> k8s_object \<Rightarrow> broker_loop" where
  "trackDesired L obj = L\<lparr>blRequested := AList.update (rtype_of obj, object_name obj) obj (blRequested L)\<rparr>"

definition getFromDesired :: "broker_loop \<Rightarrow> rtype \<Rightarrow> string \<Rightarrow> k8s_object option" where
  "getFromDesired L kind name = map_of (blRequested L) (kind, name)"

definition getFromDeployed :: "broker_loop \<Rightarrow> rtype \<Rightarrow> string \<Rightarrow> k8s_object option" where
  "getFromDeployed L kind name = List.find (\<lambda>obj. object_name obj = name) (blDeployed L kind)"

definition cloneOfDeployed :: "broker_loop \<Rightarrow> rtype \<Rightarrow> string \<Rightarrow> k8s_object option" where
  "cloneOfDeployed L kind name = getFromDeployed L kind name"

interpretation tracked: resource_tracker NewBrokerReconcilerImpl trackDesired getFromDesired rtype_of object_name
proof
  fix k n
  show "getFromDesired NewBrokerReconcilerImpl k n = None"
    by (simp add: getFromDesired_def NewBrokerReconcilerImpl_def)
next
  fix l r k n
  show "getFromDesired (trackDesired l r) k n =
      (if k = rtype_of r \<and> n = object_name r then Some r else getFromDesired l k n)"
    by (auto simp: getFromDesired_def trackDesired_def update_conv')
qed

lemma trackDesired_sel [simp]:
  "blDeployed (trackDesired L obj) = blDeployed L" "blMatched (trackDesired L obj) = blMatched L"
  "getFromDeployed (trackDesired L obj) k n = getFromDeployed L k n"
  "cloneOfDeployed (trackDesired L obj) k n = cloneOfDeployed L k n"
  by (simp_all add: trackDesired_def getFromDeployed_def cloneOfDeployed_def)

section \<open>Certificates (pkg/utils/common)\<close>

definition data_value :: "secret \<Rightarrow> string \<Rightarrow> string" where
  "data_value s key = (case map_of (secData s) key of Some v \<Rightarrow> v | None \<Rightarrow> '''')"

definition ExtractCertFromSecret :: "tls_api \<Rightarrow> secret \<Rightarrow> string + string" where
  "ExtractCertFromSecret T certSecret =
     (case tlX509KeyPair T (data_value certSecret ''tls.crt'') (data_value certSecret ''tls.key'') of
        Inl err \<Rightarrow> Inl (''invalid key pair in secret '' @ secName certSecret @ '', '' @ err)
      | Inr cert \<Rightarrow> Inr cert)"

definition ExtractCertSubject :: "tls_api \<Rightarrow> string \<Rightarrow> string + string" where
  "ExtractCertSubject T cert =
     (case tlCommonName T cert of Inl err \<Rightarrow> Inl (''failed to parse tls.cert  '' @ err) | Inr cn \<Rightarrow> Inr cn)"

definition ExtractCertSubjectFromSecret :: "tls_api \<Rightarrow> secret \<Rightarrow> string + string" where
  "ExtractCertSubjectFromSecret T s =
     (case ExtractCertFromSecret T s of
        Inl err \<Rightarrow> Inl (''failed to extract subject from secret '' @ secName s @ '', '' @ err)
      | Inr cert \<Rightarrow> ExtractCertSubject T cert)"

definition GetOperatorClientCertificate ::
  "tls_api \<Rightarrow> kube \<Rightarrow> env \<Rightarrow> op_vars \<Rightarrow> (string + string) \<times> op_vars" where
  "GetOperatorClientCertificate T K os vars =
     (case GetOperatorClientCertSecret K os vars of
        (Inl err, vars') \<Rightarrow> (Inl err, vars')
      | (Inr s, vars') \<Rightarrow> (ExtractCertFromSecret T s, vars'))"

text \<open>What the files are made of: names of secrets, the key of the bundle, and common names.\<close>

record control_inputs =
  ciOperandCertSecret :: string
  ciOperandSubject :: string
  ciCaSecret :: string
  ciCaSecretKey :: string
  ciOperatorSubject :: string
  ciPrometheusSubject :: "string option"

text \<open>
  The lookups in their order.  The name of the bundle that is mounted is the configured one, also when
  the bundle was found under the legacy name.
\<close>

definition prometheus_subject ::
  "'w broker_env \<Rightarrow> op_vars \<Rightarrow> broker_cr \<Rightarrow> (string + string option) \<times> op_vars" where
  "prometheus_subject E vars cr =
     (let K = secret_reader (beCluster E)
      in case GetPrometheusCertSecretName K (beOs E) vars (rbName cr) (rbNamespace cr) of
           (certSecret, vars1) \<Rightarrow>
             (case GetNamespacedSecret K certSecret (rbNamespace cr) of
                Inl err \<Rightarrow> (Inr None, vars1)
              | Inr prometheusCertSecret \<Rightarrow>
                  (case ExtractCertSubjectFromSecret (beTls E) prometheusCertSecret of
                     Inl err \<Rightarrow> (Inl err, vars1)
                   | Inr prometheusCertSubject \<Rightarrow> (Inr (Some prometheusCertSubject), vars1))))"

definition operator_subject :: "'w broker_env \<Rightarrow> op_vars \<Rightarrow> (string + string) \<times> op_vars" where
  "operator_subject E vars =
     (case GetOperatorClientCertificate (beTls E) (secret_reader (beCluster E)) (beOs E) vars of
        (Inl err, vars') \<Rightarrow> (Inl (''failed to get operator client cert, '' @ err), vars')
      | (Inr operatorCert, vars') \<Rightarrow>
          (case ExtractCertSubject (beTls E) operatorCert of
             Inl err \<Rightarrow> (Inl (''failed to extract operator subject from client cert, '' @ err), vars')
           | Inr operatorCertSubject \<Rightarrow> (Inr operatorCertSubject, vars')))"

definition ca_secret_key :: "'w broker_env \<Rightarrow> op_vars \<Rightarrow> (string + string) \<times> op_vars" where
  "ca_secret_key E vars =
     (case GetOperatorCASecret (secret_reader (beCluster E)) (beOs E) vars of
        (Inl err, vars1) \<Rightarrow> (Inl (''failed to get operator ca secret, '' @ err), vars1)
      | (Inr caCertSecret, vars1) \<Rightarrow>
          (case GetOperatorCASecretKey (beOrder E) (secret_reader (beCluster E)) (beOs E) vars1 (Some caCertSecret) of
             (Inl err, vars2) \<Rightarrow> (Inl (''failed to get operator ca secret key, '' @ err), vars2)
           | (Inr caSecretKey, vars2) \<Rightarrow> (Inr caSecretKey, vars2)))"

definition operand_subject :: "'w broker_env \<Rightarrow> broker_cr \<Rightarrow> string \<Rightarrow> string + string" where
  "operand_subject E cr operandCertSecretName =
     (case GetNamespacedSecret (secret_reader (beCluster E)) operandCertSecretName (rbNamespace cr) of
        Inl err \<Rightarrow> Inl err
      | Inr operandCertSecret \<Rightarrow>
          (case ExtractCertSubjectFromSecret (beTls E) operandCertSecret of
             Inl err \<Rightarrow> Inl (''failed to extract operand subject from certificate, '' @ err)
           | Inr subject \<Rightarrow> Inr subject))"

definition collect_inputs ::
  "'w broker_env \<Rightarrow> op_vars \<Rightarrow> broker_cr \<Rightarrow> (string + control_inputs) \<times> op_vars" where
  "collect_inputs E vars cr =
     (let operandCertSecretName = GetOperandCertSecretName (secret_reader (beCluster E)) (rbName cr) (rbNamespace cr)
      in case operand_subject E cr operandCertSecretName of
           Inl err \<Rightarrow> (Inl err, vars)
         | Inr operandCertSubject \<Rightarrow>
             (case ca_secret_key E vars of
                (Inl err, vars1) \<Rightarrow> (Inl err, vars1)
              | (Inr caSecretKey, vars1) \<Rightarrow>
                  (case operator_subject E vars1 of
                     (Inl err, vars2) \<Rightarrow> (Inl err, vars2)
                   | (Inr operatorCertSubject, vars2) \<Rightarrow>
                       (case prometheus_subject E vars2 cr of
                          (Inl err, vars3) \<Rightarrow> (Inl err, vars3)
                        | (Inr prometheusCertSubject, vars3) \<Rightarrow>
                            (case GetOperatorCASecretName (beOs E) vars3 of
                               (caSecret, vars4) \<Rightarrow>
                                 (Inr \<lparr>ciOperandCertSecret = operandCertSecretName, ciOperandSubject = operandCertSubject,
                                       ciCaSecret = caSecret, ciCaSecretKey = caSecretKey,
                                       ciOperatorSubject = operatorCertSubject,
                                       ciPrometheusSubject = prometheusCertSubject\<rparr>, vars4))))))"

section \<open>The files\<close>

abbreviation "HttpAuthenticatorRealm \<equiv> ''http_server_authenticator''"

definition newBufferWithHeader :: "string \<Rightarrow> string" where
  "newBufferWithHeader commentChars = println (commentChars @ '' generated by crd'') @ println commentChars"

definition props_file :: "string list \<Rightarrow> string" where
  "props_file ls = newBufferWithHeader ''#'' @ concat (map println ls)"

definition mount_root :: "broker_cr \<Rightarrow> string" where
  "mount_root cr = SecretPathBase @ snd (getPropertiesResourceNsNameForBroker cr)"

definition security_config :: "string \<Rightarrow> string" where
  "security_config mountPathRoot = props_file
     [''login.config.url.1=file:'' @ mountPathRoot @ ''/login.config'',
      ''security.provider.13=de.dentrassi.crypto.pem.PemKeyStoreProvider'',
      ''fips.provider.8=de.dentrassi.crypto.pem.PemKeyStoreProvider'']"

definition login_config :: "string \<Rightarrow> string" where
  "login_config mountPathRoot = newBufferWithHeader ''//'' @ concat (map println
     [HttpAuthenticatorRealm @ '' {'',
      ''  org.apache.activemq.artemis.spi.core.security.jaas.TextFileCertificateLoginModule required'',
      ''   reload=true'',
      ''   debug=true'',
      ''   org.apache.activemq.jaas.textfiledn.user='' @ GetCertUsersKey HttpAuthenticatorRealm,
      ''   org.apache.activemq.jaas.textfiledn.role='' @ GetCertRolesKey HttpAuthenticatorRealm,
      ''   baseDir='' @ dq mountPathRoot,
      ''  ;'',
      ''};''])"

text \<open>A user of the control plane is a name and a regular expression on the subject.\<close>

definition subject_line :: "string \<Rightarrow> string \<Rightarrow> string" where
  "subject_line user commonName = user @ ''=/.*'' @ commonName @ ''.*/''"

definition control_cert_users :: "control_inputs \<Rightarrow> string" where
  "control_cert_users I = props_file
     ([''hawtio=/CN = hawtio-online'' @ [CHR 0x5C] @ ''.hawtio'' @ [CHR 0x5C] @ ''.svc.*/'',
       subject_line ''operator'' (ciOperatorSubject I),
       subject_line ''probe'' (ciOperandSubject I)] @
      (case ciPrometheusSubject I of Some cn \<Rightarrow> [subject_line ''prometheus'' cn] | None \<Rightarrow> []))"

definition control_cert_roles :: string where
  "control_cert_roles = props_file [''status=operator,probe'', ''metrics=operator,prometheus'', ''hawtio=hawtio'']"

definition broker_name :: "broker_cr \<Rightarrow> string" where
  "broker_name cr = ResolveBrokerNameFromEnvs (rbEnv cr) (rbName cr)"

definition foundational_props :: "broker_cr \<Rightarrow> string" where
  "foundational_props cr = props_file
     [''name='' @ broker_name cr, ''criticalAnalyzer=false'', ''literalMatchMarkers=()'',
      ''authenticationCacheSize=0'', ''messageCounterEnabled=false'', ''journalDirectory=/app/data'',
      ''bindingsDirectory=/app/data/bindings'', ''largeMessagesDirectory=/app/data/largemessages'',
      ''pagingDirectory=/app/data/paging'']"

definition security_role :: "string \<Rightarrow> string \<Rightarrow> string" where
  "security_role match' permission = ''securityRoles.'' @ dq match' @ ''.'' @ permission @ ''.view=true''"

definition rbac_props :: string where
  "rbac_props = props_file
     [security_role ''mops.broker.getStatus'' ''status'',
      security_role ''mops.mbeanserver.queryMBeans'' ''metrics'',
      security_role ''mops.broker'' ''metrics'',
      security_role ''mops.broker.getTotalMessageCount'' ''metrics'',
      security_role ''mops.broker.getTotalMessagesAcknowledged'' ''metrics'',
      security_role ''mops.broker.getTotalMessagesAdded'' ''metrics'']"

definition ca_path :: "control_inputs \<Rightarrow> string" where
  "ca_path I = SecretPathBase @ ciCaSecret I @ ''/'' @ ciCaSecretKey I"

definition cert_path :: "control_inputs \<Rightarrow> string \<Rightarrow> string" where
  "cert_path I file = SecretPathBase @ ciOperandCertSecret I @ ''/'' @ file"

definition jolokia_config :: "control_inputs \<Rightarrow> string" where
  "jolokia_config I = props_file
     [''protocol=https'',
      ''authClass=org.apache.activemq.artemis.spi.core.security.jaas.HttpServerAuthenticator'',
      ''caCert='' @ ca_path I, ''serverCert='' @ cert_path I ''tls.crt'', ''serverKey='' @ cert_path I ''tls.key'',
      ''port=8778'', ''useSslClientAuthentication=true'',
      ''disabledServices=org.jolokia.service.history.HistoryMBeanRequestInterceptor'',
      ''disableDetectors=true'', ''debug=false'']"

definition pem_config :: "control_inputs \<Rightarrow> string" where
  "pem_config I = props_file
     [''alias=alias'', ''source.cert='' @ cert_path I ''tls.crt'', ''source.key='' @ cert_path I ''tls.key'']"

definition prometheus_rule :: "string \<Rightarrow> string \<Rightarrow> string \<Rightarrow> string \<Rightarrow> string \<Rightarrow> string list" where
  "prometheus_rule brokerName attribute help' metric kind =
     [''  - pattern: '' @ [CHR 0x27] @ ''org.apache.activemq.artemis<broker='' @ dq brokerName @ ''><>'' @ attribute @
      [CHR 0x27],
      ''    help: '' @ help', ''    name: '' @ metric, ''    type: '' @ kind]"

definition prometheus_config :: "broker_cr \<Rightarrow> control_inputs \<Rightarrow> string" where
  "prometheus_config cr I =
     (let brokerName = broker_name cr; mountPathRoot = mount_root cr
      in props_file
     ([''httpServer:'', ''  authentication:'', ''    plugin:'',
       ''      class: org.apache.activemq.artemis.spi.core.security.jaas.HttpServerAuthenticator'',
       ''      subjectAttributeName: org.jolokia.jaasSubject'',
       ''  ssl:'', ''    mutualTLS: true'', ''    keyStore:'',
       ''      filename: '' @ mountPathRoot @ ''/_cert.pemcfg'', ''      type: PEMCFG'',
       ''    trustStore:'', ''      filename: '' @ ca_path I, ''      type: PEMCA'',
       ''    certificate:'', ''      alias: alias'',
       ''lowercaseOutputName: true'', ''lowercaseOutputLabelNames: true'',
       ''includeObjectNames: [org.apache.activemq.artemis:broker='' @ dq brokerName @ '']'',
       ''includeObjectNameAttributes:'',
       ''  '' @ [CHR 0x27] @ ''org.apache.activemq.artemis:broker='' @ dq brokerName @ [CHR 0x27] @ '':'',
       ''    - '' @ dq ''TotalMessageCount'', ''    - '' @ dq ''TotalMessagesAdded'',
       ''    - '' @ dq ''TotalMessagesAcknowledged'', ''rules:''] @
      prometheus_rule brokerName ''TotalMessageCount'' ''Number of pending messages''
        ''artemis_total_pending_message_count'' ''GAUGE'' @
      prometheus_rule brokerName ''TotalMessagesAcknowledged'' ''Number of messages consumed since start''
        ''artemis_total_consumed_message_count'' ''COUNTER'' @
      prometheus_rule brokerName ''TotalMessagesAdded'' ''Number of messages produced since start''
        ''artemis_total_produced_message_count'' ''COUNTER''))"

text \<open>The files that need no certificate are written first and stay when a certificate is missing.\<close>

definition early_files :: "broker_cr \<Rightarrow> data_map" where
  "early_files cr = [(''_security.config'', security_config (mount_root cr)),
     (''login.config'', login_config (mount_root cr))]"

definition late_files :: "broker_cr \<Rightarrow> control_inputs \<Rightarrow> data_map" where
  "late_files cr I =
     [(GetCertUsersKey HttpAuthenticatorRealm, control_cert_users I),
      (GetCertRolesKey HttpAuthenticatorRealm, control_cert_roles),
      (''aa_restricted.properties'', foundational_props cr), (''aa_rbac.properties'', rbac_props),
      (''_jolokia.config'', jolokia_config I), (''_cert.pemcfg'', pem_config I),
      (PrometheusConfigFileName, prometheus_config cr I)]"

text \<open>Writes of a list of files into a map, in order; \<open>maps.Copy\<close> is one too.\<close>

definition put_files :: "data_map \<Rightarrow> data_map \<Rightarrow> data_map" where
  "put_files files data = foldl (\<lambda>m (k, v). AList.update k v m) data files"

section \<open>Overrides\<close>

definition applyControlPlaneOverridesForBroker ::
  "cluster_kube \<Rightarrow> broker_cr \<Rightarrow> data_map \<Rightarrow> string option \<times> data_map" where
  "applyControlPlaneOverridesForBroker K cr data =
     (case ckGetSecret K (rbNamespace cr) (rbName cr @ ''-control-plane-override'') of
        Inr overrideSecret \<Rightarrow> (None, put_files (secData overrideSecret) data)
      | Inl (ApiError err) \<Rightarrow> (Some (api_error_text (ApiError err)), data)
      | Inl (NotFound err) \<Rightarrow>
          (case ckGetSecret K (rbNamespace cr) ''control-plane-override'' of
             Inr overrideSecret \<Rightarrow> (None, put_files (secData overrideSecret) data)
           | Inl (NotFound err') \<Rightarrow> (None, data)
           | Inl (ApiError err') \<Rightarrow> (Some (api_error_text (ApiError err')), data)))"

text \<open>The whole block: the error, or the inputs, with the data as it is left.\<close>

definition control_plane ::
  "'w broker_env \<Rightarrow> op_vars \<Rightarrow> broker_cr \<Rightarrow> data_map \<Rightarrow> (string + control_inputs) \<times> data_map \<times> op_vars" where
  "control_plane E vars cr data =
     (let d1 = put_files (early_files cr) data
      in case collect_inputs E vars cr of
           (Inl err, vars') \<Rightarrow> (Inl err, d1, vars')
         | (Inr I, vars') \<Rightarrow>
             (case applyControlPlaneOverridesForBroker (beCluster E) cr (put_files (late_files cr I) d1) of
                (Some err, d2) \<Rightarrow> (Inl err, d2, vars')
              | (None, d2) \<Rightarrow> (Inr I, d2, vars')))"

section \<open>The secret with the properties\<close>

definition hex_digit :: "nat \<Rightarrow> char" where
  "hex_digit n = ''0123456789abcdef'' ! n"

text \<open>\<open>hex.EncodeToString\<close> of the four bytes of a checksum.\<close>

definition hex32 :: "nat \<Rightarrow> string" where
  "hex32 n = map (\<lambda>i. hex_digit (n div 16 ^ i mod 16)) [7, 6, 5, 4, 3, 2, 1, 0]"

definition MakeSecret :: "string \<Rightarrow> string \<Rightarrow> data_map \<Rightarrow> labels \<Rightarrow> k8s_object" where
  "MakeSecret namespace name data ls =
     \<lparr>obMeta = (named_meta '''' ''v1'' ''Secret'' name namespace)\<lparr>omLabels := ls\<rparr>,
      obBody = SecretBody \<lparr>sbData = data, sbStringData = []\<rparr>\<rparr>"

definition set_data :: "data_map \<Rightarrow> k8s_object \<Rightarrow> k8s_object" where
  "set_data data obj =
     (case obBody obj of
        SecretBody b \<Rightarrow> obj\<lparr>obBody := SecretBody (b\<lparr>sbData := data\<rparr>)\<rparr>
      | ConfigMapBody b \<Rightarrow> obj\<lparr>obBody := ConfigMapBody (Some data)\<rparr>
      | _ \<Rightarrow> obj)"

definition immutable_map_name :: "broker_cr \<Rightarrow> string" where
  "immutable_map_name cr = rbName cr @ ''-props-'' @ hex32 (alder32Of (rbBrokerProperties cr))"

text \<open>
  An immutable config map of an older operator is kept while the properties do not change.  The data is
  \<open>None\<close> for a \<open>nil\<close> map, and shared with the tracked object.
\<close>

definition addResourceForBrokerProperties ::
  "broker_cr \<Rightarrow> broker_loop \<Rightarrow> string \<times> bool \<times> data_map option \<times> broker_loop" where
  "addResourceForBrokerProperties cr L =
     (case cloneOfDeployed L ConfigMapT (immutable_map_name cr) of
        Some existing \<Rightarrow>
          (immutable_map_name cr, False,
           (case obBody existing of ConfigMapBody data \<Rightarrow> data | _ \<Rightarrow> None), trackDesired L existing)
      | None \<Rightarrow>
          (let (namespace, name) = getPropertiesResourceNsNameForBroker cr;
               data = BrokerPropertiesData (rbBrokerProperties cr)
           in (name, True, Some data, trackDesired L
                (case cloneOfDeployed L SecretT name of
                   None \<Rightarrow> MakeSecret namespace name data (broker_labels cr)
                 | Some existing \<Rightarrow> set_data data existing))))"

text \<open>What the later writes to the shared map do to the tracked object.\<close>

definition write_back :: "bool \<Rightarrow> string \<Rightarrow> data_map \<Rightarrow> broker_loop \<Rightarrow> broker_loop" where
  "write_back isSecret name data L =
     L\<lparr>blRequested := map (\<lambda>(key, obj).
       (key, if key = (if isSecret then SecretT else ConfigMapT, name) then set_data data obj else obj)) (blRequested L)\<rparr>"

end
