(* ===== verification/Broker_Resources.thy ===== *)
theory Broker_Resources
  imports Control_Plane
begin

text \<open>
  The objects of a \<open>Broker\<close> (\<open>broker_controller.go\<close>): the pod template, the stateful set with its
  claims, the headless service and the disruption budget, built from the custom resource and from what
  is already deployed.
\<close>

section \<open>Environment, ports and commands\<close>

definition MakeContainerPortsForBroker :: "container_port list" where
  "MakeContainerPortsForBroker =
     [\<lparr>cpName = ''jolokia'', cpContainerPort = 8778, cpProtocol = ''TCP''\<rparr>,
      \<lparr>cpName = ''wconsj'', cpContainerPort = 8161, cpProtocol = ''TCP''\<rparr>]"

text \<open>\<open>spare\<close> is the capacity the runtime leaves in the slice of the generated variables.\<close>

definition generated_env :: "broker_cr \<Rightarrow> env_var list" where
  "generated_env cr =
     AddEnvVarForBasic ''false'' ''nio'' (Generate (rbName cr) ''ping'' ''svc'') @
     (if rbPersistenceEnabled cr then AddEnvVarForPersistent (rbName cr) else []) @
     AddEnvVarForCluster False @ AddEnvVarForJolokia ''true'' @ AddEnvVarForManagement ''true'' @
     AddEnvVarForMetricsPlugin (case rbEnableMetricsPlugin cr of Some b \<Rightarrow> FormatBool b | None \<Rightarrow> '''')"

definition MakeEnvVarArrayForCRForBroker :: "nat \<Rightarrow> broker_cr \<Rightarrow> env_var list" where
  "MakeEnvVarArrayForCRForBroker spare cr = ReplaceOrAppend spare (generated_env cr) (rbEnv cr)"

text \<open>A map with one file has one path; the control plane adds files, so that a broker always has two.\<close>

definition broker_brokerPropertiesConfigSystemPropValue ::
  "broker_cr \<Rightarrow> string \<Rightarrow> string \<Rightarrow> data_map \<Rightarrow> string" where
  "broker_brokerPropertiesConfigSystemPropValue cr mountPoint resourceName data =
     (let ordinals = (\<lambda>root name. root @ name @ ''/,'' @ root @ name @ ''/'' @ OrdinalPrefix @ ''${STATEFUL_SET_ORDINAL}/'')
      in (if length data = 1
          then ''-Dbroker.properties='' @ mountPoint @ resourceName @ ''/'' @ BrokerPropertiesName
          else ''-Dbroker.properties='' @ ordinals mountPoint resourceName) @
         concat (map (\<lambda>s. '','' @ ordinals SecretPathBase s)
           (filter (\<lambda>s. has_suffix s BrokerPropsSuffix) (rbExtraSecrets cr))))"

definition getJaasConfigExtraMountPathForBroker :: "broker_cr \<Rightarrow> string option" where
  "getJaasConfigExtraMountPathForBroker cr =
     map_option (\<lambda>(t, name). ''/amq/extra/'' @ t @ ''/'' @ name @ ''/login.config'')
       (getConfigExtraMountForBroker cr jaasConfigSuffix)"

definition getLoggingConfigExtraMountPathForBroker :: "broker_cr \<Rightarrow> string option" where
  "getLoggingConfigExtraMountPathForBroker cr =
     map_option (\<lambda>(t, name). ''/amq/extra/'' @ t @ ''/'' @ name @ ''/logging.properties'')
       (getConfigExtraMountForBroker cr loggingConfigSuffix)"

definition system_props :: "string \<Rightarrow> string list" where
  "system_props mountPathRoot =
     [''-Djava.security.properties='' @ mountPathRoot @ ''/_security.config'',
      ''-DhttpServerAuthenticator.requestSubjectAttribute=org.jolokia.jaasSubject'',
      ''-Dlog4j2.disableJmx=true -Djavax.management.builder.initial=org.apache.activemq.artemis.core.server.management.ArtemisRbacMBeanServerBuilder'',
      ''-javaagent:/opt/agents/jolokia.jar=host=$HOSTNAME,config='' @ mountPathRoot @ ''/_jolokia.config'',
      ''-javaagent:/opt/agents/prometheus.jar=$HOSTNAME:8888:'' @ mountPathRoot @ ''/'' @ PrometheusConfigFileName,
      ''-classpath /opt/amq/lib/*:/opt/amq/lib/extra/*'',
      ''-Djava.io.tmpdir=/app/tmp'',
      ''-XX:InitialRAMPercentage=70.0 -XX:MaxRAMPercentage=70.0 -XX:AutoBoxCacheMax=20000 -XX:+PrintClassHistogram -XX:+UseG1GC -XX:+UseStringDeduplication -Djava.net.preferIPv4Stack=true'']"

definition broker_command :: "broker_cr \<Rightarrow> string list" where
  "broker_command cr =
     [''/bin/bash'', ''-c'',
      ''export STATEFUL_SET_ORDINAL=${HOSTNAME##*-}; '' @ generateReEvalOrdinaEnvReplacement (rbEnv cr) @
      '' exec java '' @ join '' '' (system_props (mount_root cr)) @
      '' $JAVA_ARGS_APPEND org.apache.activemq.artemis.core.server.embedded.Main'']"

definition status_query :: "string \<Rightarrow> broker_cr \<Rightarrow> control_inputs \<Rightarrow> string" where
  "status_query clusterDomain cr I =
     ''export STATEFUL_SET_ORDINAL=${HOSTNAME##*-};curl --cacert '' @ ca_path I @ '' --cert '' @ cert_path I ''tls.crt'' @
     '' --key '' @ cert_path I ''tls.key'' @ ''  https://'' @
     OrdinalStringFQDNS clusterDomain (rbName cr) (rbNamespace cr) ''$STATEFUL_SET_ORDINAL'' @
     '':8778/jolokia/read/org.apache.activemq.artemis:broker=%22'' @ broker_name cr @
     ''%22/Status | grep -w -P '' @ dq ''(START|STOPP)(ED|ING)''"

definition default_liveness :: "string \<Rightarrow> broker_cr \<Rightarrow> control_inputs \<Rightarrow> probe" where
  "default_liveness clusterDomain cr I =
     \<lparr>pbInitialDelaySeconds = 1, pbTimeoutSeconds = 5, pbPeriodSeconds = 5, pbSuccessThreshold = 1,
      pbFailureThreshold = 2, pbTerminationGracePeriodSeconds = Some 60,
      pbHandler = no_handler\<lparr>phExec := Some [''/bin/bash'', ''-c'', status_query clusterDomain cr I]\<rparr>\<rparr>"

section \<open>The pod template\<close>

text \<open>The container before the mounts: what it is built from, and its probes, ports and resources.\<close>

definition base_container :: "'w broker_env \<Rightarrow> broker_cr \<Rightarrow> pod_spec \<Rightarrow> container" where
  "base_container E cr podSpec =
     (configureContainerSecurityContext (rbContainerSecurityContext cr)
       ((MakeContainer podSpec (rbName cr)
          (broker_ResolveImage (beVersions E) (beOs E) (beGoarch E) (broker_image_spec cr) BrokerImageKey)
          (MakeEnvVarArrayForCRForBroker (beSpare E) cr))\<lparr>ctResources := rbResources cr\<rparr>))
       \<lparr>ctTerminationMessagePolicy := ''FallbackToLogsOnError'', ctPorts := MakeContainerPortsForBroker\<rparr>"

definition probed_container ::
  "'w broker_env \<Rightarrow> broker_cr \<Rightarrow> control_inputs \<Rightarrow> volume_mount list \<Rightarrow> container \<Rightarrow> container" where
  "probed_container E cr I mounts ct =
     (let ct1 = ct\<lparr>ctLivenessProbe := Some
            (case rbLivenessProbe cr of
               None \<Rightarrow> default_liveness (ckClusterDomain (beCluster E)) cr I
             | Some p \<Rightarrow> configureLivenessProbe ct (Some p))\<rparr>;
          ct2 = ct1\<lparr>ctVolumeMounts :=
            MakeVolumeMounts (rbName cr) (rbExtraVolumes cr) (rbExtraVolumeMounts cr) (rbExtraClaims cr) @ mounts\<rparr>;
          ct3 = ct2\<lparr>ctStartupProbe := configureStartupProbe ct2 (rbStartupProbe cr)\<rparr>
      in ct3\<lparr>ctReadinessProbe := configureReadinessProbe ct3 (rbReadinessProbe cr)\<rparr>)"

text \<open>Node selector and tolerations are only set when there are some, over what is deployed.\<close>

definition placed :: "broker_cr \<Rightarrow> pod_spec \<Rightarrow> pod_spec" where
  "placed cr podSpec =
     (let sp1 = (if length (rbNodeSelector cr) > 0 then podSpec\<lparr>spNodeSelector := rbNodeSelector cr\<rparr> else podSpec);
          sp2 = configureAffinity (rbAffinity cr) sp1
      in if length (rbTolerations cr) > 0 then sp2\<lparr>spTolerations := rbTolerations cr\<rparr> else sp2)"

definition broker_volumes :: "broker_cr \<Rightarrow> volume list \<Rightarrow> volume list" where
  "broker_volumes cr extraVolumes =
     (if \<not> rbPersistenceEnabled cr then [MakeEmptyDirVolumeFor (rbName cr)] else []) @
     MakeVolumes (rbName cr) (rbPersistenceEnabled cr) (rbExtraVolumes cr) (rbExtraClaims cr) @ extraVolumes"

definition optional_java_options :: "string \<Rightarrow> string option \<Rightarrow> container list \<Rightarrow> container list" where
  "optional_java_options option' path cts =
     (case path of
        Some p \<Rightarrow> CreateOrAppend (plain_var (jdkJavaOptionsEnvVarName, option' @ p)) cts
      | None \<Rightarrow> cts)"

definition broker_environment :: "broker_cr \<Rightarrow> string \<Rightarrow> container list \<Rightarrow> container list" where
  "broker_environment cr brokerPropsValue cts =
     (let c1 = Create_env (plain_var (''CONFIG_BROKER'', ''false'')) cts;
          c2 = Create_env (plain_var (''CONFIG_INSTANCE_DIR'', ''/amq/init/config'')) c1;
          c3 = optional_java_options ''-Djava.security.auth.login.config='' (getJaasConfigExtraMountPathForBroker cr) c2;
          c4 = CreateOrAppend (plain_var (jdkJavaOptionsEnvVarName,
                 (case getLoggingConfigExtraMountPathForBroker cr of
                    Some p \<Rightarrow> ''-Dlog4j2.configurationFile='' @ p
                  | None \<Rightarrow> ''-Dlog4j2.level=INFO''))) c3
      in CreateOrAppend (plain_var (jdkJavaOptionsEnvVarName, brokerPropsValue)) c4)"

definition finish_template ::
  "'w broker_env \<Rightarrow> broker_cr \<Rightarrow> control_inputs \<Rightarrow> string \<Rightarrow> volume list \<times> volume_mount list \<Rightarrow>
     pod_template \<Rightarrow> pod_template" where
  "finish_template E cr I brokerPropsValue extra pts =
     (let podSpec0 = (ptSpec pts)\<lparr>spImagePullSecrets := rbImagePullSecrets cr\<rparr>;
          ct = probed_container E cr I (snd extra) (base_container E cr podSpec0);
          podSpec1 = (placed cr podSpec0)
            \<lparr>spContainers := broker_environment cr brokerPropsValue [ct],
             spVolumes := broker_volumes cr (fst extra), spTerminationGracePeriodSeconds := Some 60,
             spTopologySpread := rbTopologySpread cr\<rparr>;
          podSpec2 = configurePodSecurityContext (rbPodSecurityContext cr)
            (configPodSecurity (rbServiceAccountName cr) (rbRunAsUser cr) podSpec1)
      in pts\<lparr>ptSpec := podSpec2\<lparr>spInitContainers := [],
           spContainers := map (\<lambda>c. c\<lparr>ctCommand := broker_command cr\<rparr>) (spContainers podSpec2)\<rparr>\<rparr>)"

text \<open>
  The result, the resources with what was written to the shared data, and the package variables.  An
  error leaves the properties of the tracked secret as far as they were written.
\<close>

definition secrets_to_mount :: "broker_cr \<Rightarrow> bool \<Rightarrow> string \<Rightarrow> control_inputs \<Rightarrow> string list" where
  "secrets_to_mount cr isSecret resourceName I =
     rbExtraSecrets cr @ (if isSecret then [resourceName] else []) @ [ciOperandCertSecret I, ciCaSecret I]"

definition config_maps_to_mount :: "broker_cr \<Rightarrow> bool \<Rightarrow> string \<Rightarrow> string list" where
  "config_maps_to_mount cr isSecret resourceName =
     rbExtraConfigMaps cr @ (if isSecret then [] else [resourceName])"

definition template_from ::
  "'w broker_env \<Rightarrow> broker_cr \<Rightarrow> control_inputs \<Rightarrow> bool \<Rightarrow> string \<Rightarrow> data_map \<Rightarrow> pod_template \<Rightarrow>
     pod_template go_result" where
  "template_from E cr I isSecret resourceName data pts =
     (case createExtraConfigmapsAndSecretsVolumeMounts (ckGetSecret (beCluster E) (rbNamespace cr))
             (config_maps_to_mount cr isSecret resourceName) (secrets_to_mount cr isSecret resourceName I)
             resourceName data of
        Inl err \<Rightarrow> Err (''failed to createExtraConfigmapsAndSecretsVolumeMounts, '' @ err)
      | Inr extra \<Rightarrow>
          (case DetermineCompactVersionToUse (beVersions E) (broker_image_spec cr) of
             Inl verr \<Rightarrow> Err verr
           | Inr compactVersionToUse \<Rightarrow>
               Ok (finish_template E cr I
                     (broker_brokerPropertiesConfigSystemPropValue cr (if isSecret then SecretPathBase else cfgMapPathBase)
                        resourceName data) extra pts)))"

definition pod_labels :: "broker_cr \<Rightarrow> labels" where
  "pod_labels cr = put_files (rbLabels cr) (broker_labels cr)"

definition PodTemplateSpecForCR ::
  "'w broker_env \<Rightarrow> op_vars \<Rightarrow> broker_cr \<Rightarrow> pod_template \<Rightarrow> broker_loop \<Rightarrow>
     pod_template go_result \<times> broker_loop \<times> op_vars" where
  "PodTemplateSpecForCR E vars cr current L =
     (let pts = MakePodTemplateSpec current (pod_labels cr) (rbAnnotations cr)
      in case addResourceForBrokerProperties cr L of
           (resourceName, isSecret, None, L1) \<Rightarrow> (Panic, L1, vars)
         | (resourceName, isSecret, Some data, L1) \<Rightarrow>
             (case control_plane E vars cr data of
                (Inl err, data', vars') \<Rightarrow> (Err err, write_back isSecret resourceName data' L1, vars')
              | (Inr I, data', vars') \<Rightarrow>
                  (template_from E cr I isSecret resourceName data' pts,
                   write_back isSecret resourceName data' L1, vars')))"

section \<open>Claims and the stateful set\<close>

definition storage_template :: "broker_cr \<Rightarrow> string \<Rightarrow> claim_template" where
  "storage_template cr capacity =
     \<lparr>vtName = rbName cr, vtLabels = broker_labels cr, vtAnnotations = [],
      vtSpec = \<lparr>csAccessModes = [''ReadWriteOnce''], csStorage = capacity,
        csStorageClassName = (if rbStorageClassName cr \<noteq> '''' then Some (rbStorageClassName cr) else None),
        csVolumeMode = None, csOther = ''''\<rparr>\<rparr>"

definition claim_for :: "broker_cr \<Rightarrow> claim list \<Rightarrow> claim_template \<Rightarrow> claim" where
  "claim_for cr deployedClaims t = PersistentVolumeClaim (rbNamespace cr) (findExistingByName deployedClaims t) t"

definition storage_capacity :: "broker_cr \<Rightarrow> string" where
  "storage_capacity cr = (if rbStorageSize cr \<noteq> '''' then rbStorageSize cr else ''2Gi'')"

definition claim_templates :: "broker_cr \<Rightarrow> claim_template list" where
  "claim_templates cr =
     (if rbPersistenceEnabled cr then [storage_template cr (storage_capacity cr)] else []) @ rbExtraClaims cr"

definition claim_object :: "claim \<Rightarrow> k8s_object" where
  "claim_object c = \<lparr>obMeta = clMeta c, obBody = ClaimBody (clSpec c)\<rparr>"

definition object_claim :: "claim \<Rightarrow> k8s_object \<Rightarrow> claim" where
  "object_claim c obj =
     (case obBody obj of ClaimBody s \<Rightarrow> \<lparr>clMeta = obMeta obj, clSpec = s\<rparr> | _ \<Rightarrow> c\<lparr>clMeta := obMeta obj\<rparr>)"

fun template_claims ::
  "'w broker_env \<Rightarrow> broker_cr \<Rightarrow> claim list \<Rightarrow> nat set \<Rightarrow> (claim list \<times> nat set) go_result" where
  "template_claims E cr [] matched = Ok ([], matched)"
| "template_claims E cr (c # cs) matched =
     (case applyTemplates (beTemplates E) (beOrder E) cr matched (claim_object c) of
        Ok (None, matched', obj) \<Rightarrow>
          (case template_claims E cr cs matched' of
             Ok (cs', matched'') \<Rightarrow> Ok (object_claim c obj # cs', matched'')
           | Err e \<Rightarrow> Err e
           | Panic \<Rightarrow> Panic)
      | Ok (Some err, matched', obj) \<Rightarrow> Err err
      | Err e \<Rightarrow> Err e
      | Panic \<Rightarrow> Panic)"

text \<open>\<open>resource.MustParse\<close> panics on a quantity that does not parse.\<close>

definition PersistentVolumeClaimArrayForCR ::
  "'w broker_env \<Rightarrow> broker_cr \<Rightarrow> claim list \<Rightarrow> nat set \<Rightarrow> (claim list \<times> nat set) go_result" where
  "PersistentVolumeClaimArrayForCR E cr deployedClaims matched =
     (if rbPersistenceEnabled cr \<and> beParseQuantity E (storage_capacity cr) \<noteq> None then Panic
      else template_claims E cr (map (claim_for cr deployedClaims) (claim_templates cr)) matched)"

definition sts_of :: "k8s_object \<Rightarrow> (object_meta \<times> sts_spec) option" where
  "sts_of obj = (case obBody obj of StatefulSetBody s \<Rightarrow> Some (obMeta obj, s) | _ \<Rightarrow> None)"

definition service_of :: "k8s_object \<Rightarrow> (object_meta \<times> service_spec) option" where
  "service_of obj = (case obBody obj of ServiceBody s \<Rightarrow> Some (obMeta obj, s) | _ \<Rightarrow> None)"

definition headless_name :: "broker_cr \<Rightarrow> string" where
  "headless_name cr = Generate (rbName cr) ''hdls'' ''svc''"

definition set_name :: "broker_cr \<Rightarrow> string" where
  "set_name cr = Generate '''' (rbName cr) ''ss''"

definition StatefulSetForCR ::
  "'w broker_env \<Rightarrow> op_vars \<Rightarrow> broker_cr \<Rightarrow> (object_meta \<times> sts_spec) option \<Rightarrow> broker_loop \<Rightarrow>
     (object_meta \<times> sts_spec) go_result \<times> broker_loop \<times> op_vars" where
  "StatefulSetForCR E vars cr current L =
     (case MakeStatefulSet current (set_name cr) (headless_name cr) (rbNamespace cr) [] (broker_labels cr) of
        (meta, spec) \<Rightarrow>
          (case PodTemplateSpecForCR E vars cr (soTemplate spec) L of
             (Panic, L1, vars1) \<Rightarrow> (Panic, L1, vars1)
           | (Err err, L1, vars1) \<Rightarrow> (Err (''error creating pod template, '' @ err), L1, vars1)
           | (Ok podTemplateSpec, L1, vars1) \<Rightarrow>
               (case PersistentVolumeClaimArrayForCR E cr (soClaims spec) (blMatched L1) of
                  Panic \<Rightarrow> (Panic, L1, vars1)
                | Err err \<Rightarrow> (Err (''error creating volume claim templates, '' @ err), L1, vars1)
                | Ok (pvcTemplates, matched) \<Rightarrow>
                    (Ok (meta, spec\<lparr>soTemplate := podTemplateSpec, soClaims := pvcTemplates\<rparr>),
                     L1\<lparr>blMatched := matched\<rparr>, vars1))))"

definition service_object :: "object_meta \<times> service_spec \<Rightarrow> k8s_object" where
  "service_object = (\<lambda>(m, s). \<lparr>obMeta = m, obBody = ServiceBody s\<rparr>)"

definition ProcessStatefulSet ::
  "'w broker_env \<Rightarrow> op_vars \<Rightarrow> broker_cr \<Rightarrow> broker_loop \<Rightarrow>
     (object_meta \<times> sts_spec) go_result \<times> broker_loop \<times> op_vars" where
  "ProcessStatefulSet E vars cr L =
     (case StatefulSetForCR E vars cr (Option.bind (cloneOfDeployed L StatefulSetT (set_name cr)) sts_of) L of
        (Panic, L1, vars1) \<Rightarrow> (Panic, L1, vars1)
      | (Err err, L1, vars1) \<Rightarrow> (Err (''error creating stateful set, '' @ err), L1, vars1)
      | (Ok (meta, spec), L1, vars1) \<Rightarrow>
          (Ok (meta, case rbRevisionHistoryLimit cr of
                       Some n \<Rightarrow> spec\<lparr>soRevisionHistoryLimit := Some n\<rparr> | None \<Rightarrow> spec),
           trackDesired L1 (service_object (NewHeadlessServiceForCR2 (headless_name cr) (rbNamespace cr)
             (GetDefaultPorts True) (broker_labels cr)
             (Option.bind (cloneOfDeployed L1 ServiceT (headless_name cr)) service_of))), vars1))"

definition budget_object :: "broker_cr \<Rightarrow> k8s_object option \<Rightarrow> budget_spec \<Rightarrow> k8s_object" where
  "budget_object cr existing limits =
     \<lparr>obMeta = (case existing of Some obj \<Rightarrow> obMeta obj
        | None \<Rightarrow> named_meta ''policy'' ''v1'' ''PodDisruptionBudget'' (rbName cr @ ''-pdb'') (rbNamespace cr)),
      obBody = BudgetBody (limits\<lparr>bgSelector := Some \<lparr>matchLabels = [(rbKind cr, rbName cr)], matchExpressions = []\<rparr>\<rparr>)\<rparr>"

definition applyPodDisruptionBudget :: "broker_cr \<Rightarrow> budget_spec \<Rightarrow> broker_loop \<Rightarrow> broker_loop" where
  "applyPodDisruptionBudget cr limits L =
     trackDesired L (budget_object cr (cloneOfDeployed L BudgetT (rbName cr @ ''-pdb'')) limits)"

section \<open>The checksum of the secrets\<close>

definition value_of :: "data_map \<Rightarrow> string \<Rightarrow> string" where
  "value_of m k = (case map_of m k of Some v \<Rightarrow> v | None \<Rightarrow> '''')"

definition secret_values :: "secret_body \<Rightarrow> string list" where
  "secret_values b =
     (let m = (if length (sbStringData b) > 0 then sbStringData b else sbData b)
      in map (value_of m) (sort (map fst m)))"

fun checksum_values :: "k8s_object \<Rightarrow> string list" where
  "checksum_values obj =
     (case obBody obj of
        SecretBody b \<Rightarrow> if has_suffix (object_name obj) ''-secret'' then secret_values b else []
      | _ \<Rightarrow> [])"

definition trackSecretCheckSumInEnvVar :: "k8s_object list \<Rightarrow> container list \<Rightarrow> container list" where
  "trackSecretCheckSumInEnvVar requestedResources cts =
     TrackSecretCheckSumInRollCount
       (hex32 (alder32Of (concat (map checksum_values (sort_key object_name requestedResources))))) cts"

end
