(* ===== verification/Control_Plane_Facts.thy ===== *)
theory Control_Plane_Facts
  imports Broker_Resources
begin

text \<open>
  What the secret with the properties of a broker holds, what its container mounts, and which parts of
  the custom resource reach the pod template.
\<close>

section \<open>The content of the secret\<close>

lemma put_files_Cons: "put_files ((k, v) # files) data = put_files files (AList.update k v data)"
  by (simp add: put_files_def)

lemma put_files_lookup:
  "distinct (map fst files) \<Longrightarrow>
     map_of (put_files files data) k = (case map_of files k of Some v \<Rightarrow> Some v | None \<Rightarrow> map_of data k)"
proof (induction files arbitrary: data)
  case Nil
  then show ?case by (simp add: put_files_def)
next
  case (Cons f files)
  obtain a v where f: "f = (a, v)" by fastforce
  with Cons.prems have "a \<notin> fst ` set files" by simp
  then have "map_of files a = None" by (simp add: map_of_eq_None_iff)
  with Cons f show ?case by (auto simp: put_files_Cons update_conv' split: option.splits)
qed

text \<open>The override that applies, as a map; \<open>None\<close> when the lookup fails.\<close>

definition override_data :: "cluster_kube \<Rightarrow> broker_cr \<Rightarrow> data_map option" where
  "override_data K cr =
     (case ckGetSecret K (rbNamespace cr) (rbName cr @ ''-control-plane-override'') of
        Inr s \<Rightarrow> Some (secData s)
      | Inl (ApiError err) \<Rightarrow> None
      | Inl (NotFound err) \<Rightarrow>
          (case ckGetSecret K (rbNamespace cr) ''control-plane-override'' of
             Inr s \<Rightarrow> Some (secData s) | Inl (NotFound e) \<Rightarrow> Some [] | Inl (ApiError e) \<Rightarrow> None))"

lemma apply_override:
  "applyControlPlaneOverridesForBroker K cr data = (None, data') \<longleftrightarrow>
     (\<exists>over. override_data K cr = Some over \<and> data' = put_files over data)"
  by (auto simp: applyControlPlaneOverridesForBroker_def override_data_def put_files_def
      split: sum.splits api_error.splits)

lemma distinct_files [simp]:
  "distinct (map fst (early_files cr))" "distinct (map fst (late_files cr I))"
  by (simp_all add: early_files_def late_files_def GetCertUsersKey_def GetCertRolesKey_def)

definition over :: "data_map \<Rightarrow> data_map \<Rightarrow> string \<Rightarrow> string option" where
  "over files data k = (case map_of files k of Some v \<Rightarrow> Some v | None \<Rightarrow> map_of data k)"

lemma map_of_put [simp]: "distinct (map fst files) \<Longrightarrow> map_of (put_files files data) = over files data"
  by (rule ext) (simp add: put_files_lookup over_def)

lemma control_plane_data:
  assumes "control_plane E vars cr data = (Inr I, data', vars')"
  obtains ov where "override_data (beCluster E) cr = Some ov" "collect_inputs E vars cr = (Inr I, vars')"
    "data' = put_files ov (put_files (late_files cr I) (put_files (early_files cr) data))"
  using assms
  by (auto simp: control_plane_def Let_def apply_override split: prod.splits sum.splits option.splits)

text \<open>The lists of the server hold objects of their type.\<close>

definition well_typed :: "broker_loop \<Rightarrow> bool" where
  "well_typed L \<longleftrightarrow> (\<forall>t. \<forall>obj \<in> set (blDeployed L t). rtype_of obj = t)"

lemma deployed_typed:
  "well_typed L \<Longrightarrow> cloneOfDeployed L t n = Some obj \<Longrightarrow> rtype_of obj = t \<and> object_name obj = n"
  by (auto simp: well_typed_def cloneOfDeployed_def getFromDeployed_def find_Some_iff)

lemma secret_typed: "rtype_of obj = SecretT \<longleftrightarrow> (\<exists>b. obBody obj = SecretBody b)"
  by (cases "obBody obj") (simp_all add: rtype_of_def)

lemma set_data_sel [simp]:
  "object_name (set_data d obj) = object_name obj" "rtype_of (set_data d obj) = rtype_of obj"
  by (simp_all add: set_data_def object_name_def rtype_of_def split: body.split)

lemma MakeSecret_sel [simp]:
  "object_name (MakeSecret ns n d ls) = n" "rtype_of (MakeSecret ns n d ls) = SecretT"
  by (simp_all add: MakeSecret_def object_name_def rtype_of_def named_meta_def)

definition data_of :: "k8s_object \<Rightarrow> data_map option" where
  "data_of obj = (case obBody obj of SecretBody b \<Rightarrow> Some (sbData b) | ConfigMapBody b \<Rightarrow> b | _ \<Rightarrow> None)"

lemma data_of_set: "rtype_of obj = SecretT \<Longrightarrow> data_of (set_data d obj) = Some d"
  by (auto simp: secret_typed data_of_def set_data_def)

lemma write_back_lookup:
  "getFromDesired (write_back True n d L) SecretT n = map_option (set_data d) (getFromDesired L SecretT n)"
proof -
  have "map_of (map (\<lambda>(key, obj). (key, if key = (SecretT, n) then set_data d obj else obj)) xs) (SecretT, n) =
      map_option (set_data d) (map_of xs (SecretT, n))" for xs
    by (induction xs) auto
  then show ?thesis by (simp add: getFromDesired_def write_back_def)
qed

lemma properties_secret_tracked:
  assumes "cloneOfDeployed L ConfigMapT (immutable_map_name cr) = None" "well_typed L"
  obtains obj where "addResourceForBrokerProperties cr L =
      (rbName cr @ ''-props'', True, Some (BrokerPropertiesData (rbBrokerProperties cr)), trackDesired L obj)"
    "rtype_of obj = SecretT" "object_name obj = rbName cr @ ''-props''"
proof (cases "cloneOfDeployed L SecretT (rbName cr @ ''-props'')")
  case None
  with assms show ?thesis
    by (intro that) (auto simp: addResourceForBrokerProperties_def getPropertiesResourceNsNameForBroker_def Let_def)
next
  case (Some e)
  with assms deployed_typed [OF assms(2) Some] show ?thesis
    by (intro that) (auto simp: addResourceForBrokerProperties_def getPropertiesResourceNsNameForBroker_def Let_def)
qed

lemma template_ok:
  assumes "PodTemplateSpecForCR E vars cr current L = (Ok t, L', vars')"
  obtains n isSecret data L1 I data' where
    "addResourceForBrokerProperties cr L = (n, isSecret, Some data, L1)"
    "control_plane E vars cr data = (Inr I, data', vars')" "L' = write_back isSecret n data' L1"
    "template_from E cr I isSecret n data' (MakePodTemplateSpec current (pod_labels cr) (rbAnnotations cr)) = Ok t"
  using assms
  by (auto simp: PodTemplateSpecForCR_def Let_def split: prod.splits sum.splits option.splits)

section \<open>Volumes and mounts\<close>

lemma mount_at_sel [simp]: "vmName (mount_at n p r) = n"
  by (simp add: mount_at_def)

lemma secret_volumes_names:
  "secret_volumes K pn pd ss = Inr vs \<Longrightarrow> map (vmName \<circ> snd) vs = map (vlName \<circ> fst) vs"
proof (induction ss arbitrary: vs)
  case (Cons s ss)
  then show ?case
    by (auto simp: MakeVolumeMountForCfg_def split: if_splits sum.splits)
qed simp

lemma extra_mount_names:
  assumes "createExtraConfigmapsAndSecretsVolumeMounts K cms ss pn pd = Inr (vols, mounts)"
  shows "map vmName mounts = map vlName vols"
proof -
  obtain vs where v: "secret_volumes K pn pd ss = Inr vs"
    using assms by (auto simp: createExtraConfigmapsAndSecretsVolumeMounts_def Let_def split: sum.splits)
  note n = secret_volumes_names [OF v]
  from assms v n show ?thesis
    by (auto simp: createExtraConfigmapsAndSecretsVolumeMounts_def Let_def MakeVolumeMountForCfg_def)
qed

lemma extra_mount_name [simp]: "vmName (extra_mount mounts vol) = vlName vol"
  by (auto simp: extra_mount_def MakeVolumeMountForVolume_def find_Some_iff split: option.split)

lemma claim_mount_name [simp]: "vmName (claim_mount mounts c) = vtName c"
  by (auto simp: claim_mount_def NewVolumeMountForPVC_def find_Some_iff split: option.split)

lemma claim_volumes: "vlName ` set (concat (map (\<lambda>c. MakePersistentVolume (vtName c)) cs)) = vtName ` set cs"
  by (induction cs) (simp_all add: MakePersistentVolume_def)

lemma volume_names:
  "vlName ` set (broker_volumes cr extra) =
     insert (rbName cr) (vlName ` set (rbExtraVolumes cr) \<union> vtName ` set (rbExtraClaims cr) \<union> vlName ` set extra)"
  using claim_volumes [of "rbExtraClaims cr"]
  by (cases "rbPersistenceEnabled cr")
    (simp_all add: broker_volumes_def MakeVolumes_def MakeEmptyDirVolumeFor_def MakePersistentVolume_def
      image_Un Un_assoc)

lemma own_mounts_declared:
  "vmName ` set (MakeVolumeMounts (rbName cr) (rbExtraVolumes cr) ms (rbExtraClaims cr)) \<subseteq>
     vlName ` set (broker_volumes cr extra)"
  unfolding volume_names
  by (auto simp: MakeVolumeMounts_def MakePersistentVolumeMount_def MakeExtraVolumeMounts_def)

lemma env_keeps_mounts [simp]:
  "map ctVolumeMounts (Create_env v cts) = map ctVolumeMounts cts"
  "map ctVolumeMounts (CreateOrAppend v cts) = map ctVolumeMounts cts"
  by (simp_all add: Create_env_def CreateOrAppend_def split: option.split)

lemma environment_mounts:
  "map ctVolumeMounts (broker_environment cr v cts) = map ctVolumeMounts cts"
  by (simp add: broker_environment_def optional_java_options_def Let_def split: option.split)

lemma probed_mounts:
  "ctVolumeMounts (probed_container E cr I mounts ct) =
     MakeVolumeMounts (rbName cr) (rbExtraVolumes cr) (rbExtraVolumeMounts cr) (rbExtraClaims cr) @ mounts"
  by (simp add: probed_container_def Let_def)

lemma security_sel [simp]:
  "spContainers (configurePodSecurityContext c sp) = spContainers sp"
  "spVolumes (configurePodSecurityContext c sp) = spVolumes sp"
  "spContainers (configPodSecurity a u sp) = spContainers sp" "spVolumes (configPodSecurity a u sp) = spVolumes sp"
  "spNodeSelector (configurePodSecurityContext c sp) = spNodeSelector sp"
  "spTolerations (configurePodSecurityContext c sp) = spTolerations sp"
  "spNodeSelector (configPodSecurity a u sp) = spNodeSelector sp" "spTolerations (configPodSecurity a u sp) = spTolerations sp"
  by (simp_all add: configurePodSecurityContext_def configPodSecurity_def Let_def split: option.split)

lemma finished_mounts:
  "map ctVolumeMounts (spContainers (ptSpec (finish_template E cr I v extra pts))) =
     [MakeVolumeMounts (rbName cr) (rbExtraVolumes cr) (rbExtraVolumeMounts cr) (rbExtraClaims cr) @ snd extra]"
  "spVolumes (ptSpec (finish_template E cr I v extra pts)) = broker_volumes cr (fst extra)"
  using environment_mounts by (simp_all add: finish_template_def Let_def probed_mounts comp_def)

lemma template_from_ok:
  assumes "template_from E cr I isSecret n data pts = Ok t"
  obtains v extra where
    "createExtraConfigmapsAndSecretsVolumeMounts (ckGetSecret (beCluster E) (rbNamespace cr))
       (config_maps_to_mount cr isSecret n) (secrets_to_mount cr isSecret n I) n data = Inr extra"
    "t = finish_template E cr I v extra pts"
  using assms by (auto simp: template_from_def split: sum.splits)

lemma template_container:
  assumes "PodTemplateSpecForCR E vars cr current L = (Ok t, L', vars')"
  obtains ct where "ct \<in> set (spContainers (ptSpec t))"
proof -
  obtain n b data L1 I d where t: "template_from E cr I b n d (MakePodTemplateSpec current (pod_labels cr) (rbAnnotations cr)) = Ok t"
    by (rule template_ok [OF assms])
  from template_from_ok [OF t] have "map ctVolumeMounts (spContainers (ptSpec t)) \<noteq> []"
    by (metis finished_mounts(1) not_Cons_self2)
  then show ?thesis by (cases "spContainers (ptSpec t)") (auto intro: that)
qed

section \<open>What does not reach the pod\<close>

text \<open>The security context of the pod is assigned after the user to run as is put into it.\<close>

lemma security_overwritten:
  "configurePodSecurityContext c (configPodSecurity a u sp) = configurePodSecurityContext c (configPodSecurity a None sp)"
  by (simp add: configurePodSecurityContext_def configPodSecurity_def Let_def split: option.split)

text \<open>Simplification inside the branches of a case.\<close>

lemmas case_congs = option.case_cong sum.case_cong prod.case_cong api_error.case_cong

lemma run_as_parts:
  fixes u :: "int64 option" and cr :: broker_cr
  defines "cr' \<equiv> cr\<lparr>rbRunAsUser := u\<rparr>"
  shows "getConfigExtraMountForBroker cr' s = getConfigExtraMountForBroker cr s"
    "broker_image_spec cr' = broker_image_spec cr"
    "getPropertiesResourceNsNameForBroker cr' = getPropertiesResourceNsNameForBroker cr"
    "broker_labels cr' = broker_labels cr" "broker_name cr' = broker_name cr" "generated_env cr' = generated_env cr"
    "immutable_map_name cr' = immutable_map_name cr" "placed cr' sp = placed cr sp"
    "secrets_to_mount cr' b n I = secrets_to_mount cr b n I" "config_maps_to_mount cr' b n = config_maps_to_mount cr b n"
    "broker_volumes cr' vs = broker_volumes cr vs"
    "broker_brokerPropertiesConfigSystemPropValue cr' m n d = broker_brokerPropertiesConfigSystemPropValue cr m n d"
    "applyControlPlaneOverridesForBroker K cr' d = applyControlPlaneOverridesForBroker K cr d"
    "operand_subject E cr' n = operand_subject E cr n" "prometheus_subject E vars cr' = prometheus_subject E vars cr"
  by (simp_all add: cr'_def getConfigExtraMountForBroker_def broker_image_spec_def placed_def
      getPropertiesResourceNsNameForBroker_def broker_labels_def broker_name_def generated_env_def
      immutable_map_name_def secrets_to_mount_def config_maps_to_mount_def broker_volumes_def
      broker_brokerPropertiesConfigSystemPropValue_def applyControlPlaneOverridesForBroker_def
      operand_subject_def prometheus_subject_def Let_def cong: case_congs)

lemma run_as_files:
  fixes u :: "int64 option" and cr :: broker_cr
  defines "cr' \<equiv> cr\<lparr>rbRunAsUser := u\<rparr>"
  shows "mount_root cr' = mount_root cr" "foundational_props cr' = foundational_props cr"
    "prometheus_config cr' I = prometheus_config cr I" "early_files cr' = early_files cr"
    "late_files cr' I = late_files cr I" "pod_labels cr' = pod_labels cr" "broker_command cr' = broker_command cr"
    "status_query d cr' I = status_query d cr I" "default_liveness d cr' I = default_liveness d cr I"
    "collect_inputs E vars cr' = collect_inputs E vars cr"
    "addResourceForBrokerProperties cr' L = addResourceForBrokerProperties cr L"
    "broker_environment cr' v cts = broker_environment cr v cts"
    "base_container E cr' sp = base_container E cr sp"
    "probed_container E cr' I ms ct = probed_container E cr I ms ct"
  by (simp_all add: cr'_def run_as_parts mount_root_def foundational_props_def prometheus_config_def early_files_def
      late_files_def pod_labels_def broker_command_def status_query_def default_liveness_def collect_inputs_def
      addResourceForBrokerProperties_def broker_environment_def getJaasConfigExtraMountPathForBroker_def
      getLoggingConfigExtraMountPathForBroker_def base_container_def MakeEnvVarArrayForCRForBroker_def
      probed_container_def Let_def cong: case_congs)

lemma run_as_template:
  "PodTemplateSpecForCR E vars (cr\<lparr>rbRunAsUser := u\<rparr>) current L = PodTemplateSpecForCR E vars cr current L"
proof -
  have f: "finish_template E (cr\<lparr>rbRunAsUser := u\<rparr>) I v x pts = finish_template E cr I v x pts" for I v x pts
    by (simp add: finish_template_def run_as_parts run_as_files Let_def security_overwritten [of _ _ u]
        security_overwritten [of _ _ "rbRunAsUser cr"])
  then have t: "template_from E (cr\<lparr>rbRunAsUser := u\<rparr>) I b n d pts = template_from E cr I b n d pts" for I b n d pts
    by (simp add: template_from_def run_as_parts cong: case_congs)
  have "control_plane E vars (cr\<lparr>rbRunAsUser := u\<rparr>) d = control_plane E vars cr d" for d
    by (simp add: control_plane_def run_as_parts run_as_files Let_def cong: case_congs)
  with t show ?thesis by (simp add: PodTemplateSpecForCR_def run_as_files cong: case_congs)
qed

lemma run_as_claims:
  "PersistentVolumeClaimArrayForCR E (cr\<lparr>rbRunAsUser := u\<rparr>) cs m = PersistentVolumeClaimArrayForCR E cr cs m"
proof -
  let ?cr = "cr\<lparr>rbRunAsUser := u\<rparr>"
  have sc: "scope_of ?cr obj = scope_of cr obj" for obj by (simp add: scope_of_def)
  have md: "apply_metadata ord ?cr t obj = apply_metadata ord cr t obj" for ord t obj
    unfolding apply_metadata_def sc ..
  have "applyTemplate T ord ?cr i t obj = applyTemplate T ord cr i t obj" for T ord i t obj
    unfolding applyTemplate_def sc md ..
  then have "apply_from T ord ?cr i ts mm obj = apply_from T ord cr i ts mm obj" for T ord i ts mm obj
    by (induction ts arbitrary: i mm obj) (simp_all cong: case_congs go_result.case_cong)
  then have "applyTemplates T ord ?cr mm obj = applyTemplates T ord cr mm obj" for T ord mm obj
    by (simp add: applyTemplates_def)
  then have "template_claims E ?cr xs mm = template_claims E cr xs mm" for xs mm
    by (induction xs arbitrary: mm) (simp_all cong: case_congs go_result.case_cong)
  moreover have "claim_for ?cr cs = claim_for cr cs" "claim_templates ?cr = claim_templates cr"
    "storage_capacity ?cr = storage_capacity cr"
    by (simp_all add: fun_eq_iff claim_for_def claim_templates_def storage_template_def storage_capacity_def broker_labels_def)
  ultimately show ?thesis by (simp add: PersistentVolumeClaimArrayForCR_def del: not_None_eq)
qed

lemma placed_sel:
  "rbNodeSelector cr = [] \<Longrightarrow> spNodeSelector (placed cr sp) = spNodeSelector sp"
  "rbTolerations cr = [] \<Longrightarrow> spTolerations (placed cr sp) = spTolerations sp"
  by (simp_all add: placed_def configureAffinity_def Let_def)

lemma finished_placement:
  "rbNodeSelector cr = [] \<Longrightarrow>
     spNodeSelector (ptSpec (finish_template E cr I v extra pts)) = spNodeSelector (ptSpec pts)"
  "rbTolerations cr = [] \<Longrightarrow>
     spTolerations (ptSpec (finish_template E cr I v extra pts)) = spTolerations (ptSpec pts)"
  "ptAnnotations (finish_template E cr I v extra pts) = ptAnnotations pts"
  by (simp_all add: finish_template_def Let_def placed_sel)

lemma annotations_kept:
  "k \<notin> fst ` set annotations \<Longrightarrow> map_of (ApplyAnnotations annotations existing) k = map_of existing k"
proof (induction annotations arbitrary: existing)
  case (Cons a annotations)
  then show ?case by (cases a) (simp add: ApplyAnnotations_def update_conv')
qed (simp add: ApplyAnnotations_def)

section \<open>The mounted bundle\<close>

definition ca_name :: "env \<Rightarrow> op_vars \<Rightarrow> string" where
  "ca_name os vars = fst (GetOperatorCASecretName os vars)"

lemma ca_name_alt:
  "ca_name os vars = (case operatorCASecretName vars of Some n \<Rightarrow> n
     | None \<Rightarrow> env_or os ''ARKMQ_ORG_BROKER_MANAGER_CA_SECRET_NAME'' ''ACTIVEMQ_ARTEMIS_MANAGER_CA_SECRET_NAME''
         DefaultOperatorCASecretName)"
  by (simp add: ca_name_def GetOperatorCASecretName_def Let_def split: option.split)

lemma ca_name_kept:
  "GetOperatorCASecretName os vars = (n, v) \<Longrightarrow> ca_name os v = ca_name os vars"
  "GetOperatorCertSecretName os vars = (n, v) \<Longrightarrow> ca_name os v = ca_name os vars"
  "GetOperatorNamespaceFromEnv os vars = (r, v) \<Longrightarrow> ca_name os v = ca_name os vars"
  "GetPrometheusCertSecretName K os vars c ns = (n, v) \<Longrightarrow> ca_name os v = ca_name os vars"
  by (auto simp: ca_name_alt GetOperatorCASecretName_def GetOperatorCertSecretName_def GetOperatorNamespaceFromEnv_def
      GetPrometheusCertSecretName_def Let_def split: option.splits)

lemma ca_name_fallback:
  "GetOperatorSecretWithFallback K os vars p l = (r, v) \<Longrightarrow> ca_name os v = ca_name os vars"
  by (auto simp: GetOperatorSecretWithFallback_def dest: ca_name_kept split: prod.splits sum.splits)

lemma ca_name_secrets:
  "GetOperatorCASecret K os vars = (r, v) \<Longrightarrow> ca_name os v = ca_name os vars"
  "GetOperatorClientCertSecret K os vars = (r, v) \<Longrightarrow> ca_name os v = ca_name os vars"
  by (auto simp: GetOperatorCASecret_def GetOperatorClientCertSecret_def dest!: ca_name_fallback
      split: prod.splits dest: ca_name_kept)

lemma ca_name_steps:
  "ca_secret_key E vars = (r, v) \<Longrightarrow> ca_name (beOs E) v = ca_name (beOs E) vars"
  "operator_subject E vars = (r, v) \<Longrightarrow> ca_name (beOs E) v = ca_name (beOs E) vars"
  "prometheus_subject E vars cr = (p, v) \<Longrightarrow> ca_name (beOs E) v = ca_name (beOs E) vars"
  by (auto simp: ca_secret_key_def operator_subject_def prometheus_subject_def GetOperatorCASecretKey_def
      GetOperatorClientCertificate_def Let_def dest: ca_name_secrets ca_name_kept split: prod.splits sum.splits)

lemma inputs_ca_name:
  "collect_inputs E vars cr = (Inr I, vars') \<Longrightarrow> ciCaSecret I = ca_name (beOs E) vars"
  by (auto simp: collect_inputs_def Let_def dest!: ca_name_steps split: prod.splits sum.splits)
    (metis ca_name_def fst_conv)

section \<open>The generated variables\<close>

lemma distinct_generated: "distinct (map evName (generated_env cr))"
  by (cases "rbPersistenceEnabled cr")
    (simp_all add: generated_env_def AddEnvVarForBasic_def AddEnvVarForPersistent_def AddEnvVarForCluster_def
      AddEnvVarForJolokia_def AddEnvVarForManagement_def AddEnvVarForMetricsPlugin_def plain_var_def)

end
