(* ===== verification/Broker_Reconcile.thy ===== *)
theory Broker_Reconcile
  imports Broker_Resources
begin

text \<open>
  The reconcile of a \<open>Broker\<close> (\<open>broker_controller.go\<close>): what is deployed, what is requested after the
  templates, the writes that make up the difference, and the request as a whole.

  The client and the comparison library are arguments.  The client's calls are functions of a state of
  the server of unspecified type; the reads other parts use are \<open>oclReads\<close>.
\<close>

section \<open>Third-party interfaces\<close>

record object_delta =
  odAdded :: "k8s_object list"
  odUpdated :: "k8s_object list"
  odRemoved :: "k8s_object list"

record object_compare =
  ocEqualPair :: "data_map \<Rightarrow> data_map \<Rightarrow> bool"
  ocEqualSpec :: "body \<Rightarrow> body \<Rightarrow> bool"
  ocDeltas :: "(rtype \<Rightarrow> k8s_object \<Rightarrow> k8s_object \<Rightarrow> bool) \<Rightarrow> (rtype \<Rightarrow> k8s_object list) \<Rightarrow>
                 k8s_object list \<Rightarrow> rtype \<Rightarrow> object_delta option"

record 's object_client =
  oclReads :: "'s \<Rightarrow> cluster_kube"
  oclGetBroker :: "'s \<Rightarrow> string \<Rightarrow> string \<Rightarrow> api_error + broker_cr"
  oclGetClaim :: "'s \<Rightarrow> string \<Rightarrow> string \<Rightarrow> api_error + claim"
  oclListAll :: "'s \<Rightarrow> rtype list \<Rightarrow> broker_cr \<Rightarrow> string + (rtype \<Rightarrow> k8s_object list)"
  oclCreate :: "'s \<Rightarrow> k8s_object \<Rightarrow> client_error option \<times> 's"
  oclUpdate :: "'s \<Rightarrow> k8s_object \<Rightarrow> client_error option \<times> 's"
  oclDelete :: "'s \<Rightarrow> k8s_object \<Rightarrow> client_error option \<times> 's"
  oclUpdateStatus :: "'s \<Rightarrow> broker_cr \<Rightarrow> string option \<times> 's"

section \<open>Writes (pkg/resources/k8s\_actions.go)\<close>

fun rtype_text :: "rtype \<Rightarrow> string" where
  "rtype_text SecretT = ''*v1.Secret''"
| "rtype_text ConfigMapT = ''*v1.ConfigMap''"
| "rtype_text StatefulSetT = ''*v1.StatefulSet''"
| "rtype_text ServiceT = ''*v1.Service''"
| "rtype_text IngressT = ''*v1.Ingress''"
| "rtype_text RouteT = ''*v1.Route''"
| "rtype_text BudgetT = ''*v1.PodDisruptionBudget''"
| "rtype_text ClaimT = ''*v1.PersistentVolumeClaim''"

definition failed_to :: "string \<Rightarrow> k8s_object \<Rightarrow> string \<Rightarrow> string" where
  "failed_to verb obj err = ''failed to '' @ verb @ '' '' @ rtype_text (rtype_of obj) @ '', '' @ err"

definition SetOwnerAndController :: "broker_cr \<Rightarrow> k8s_object \<Rightarrow> k8s_object" where
  "SetOwnerAndController cr obj =
     obj\<lparr>obMeta := (obMeta obj)\<lparr>omOwners :=
       [\<lparr>orAPIVersion = rbAPIVersion cr, orKind = rbKind cr, orName = rbName cr, orUID = rbUID cr\<rparr>]\<rparr>\<rparr>"

definition createRequestedResource :: "'s object_client \<Rightarrow> broker_cr \<Rightarrow> 's \<Rightarrow> k8s_object \<Rightarrow> string option \<times> 's" where
  "createRequestedResource CL cr s obj =
     (case oclCreate CL s (SetOwnerAndController cr obj) of (err, s') \<Rightarrow>
       (map_option (\<lambda>e. failed_to ''create new'' obj (client_error_text e)) err, s'))"

definition delete_object :: "'s object_client \<Rightarrow> 's \<Rightarrow> k8s_object \<Rightarrow> string option \<times> 's" where
  "delete_object CL s obj =
     (case oclDelete CL s obj of (err, s') \<Rightarrow>
       (map_option (\<lambda>e. failed_to ''delete'' obj (client_error_text e)) err, s'))"

definition updateRequestedResource :: "'s object_client \<Rightarrow> 's \<Rightarrow> k8s_object \<Rightarrow> string option \<times> 's" where
  "updateRequestedResource CL s obj =
     (case oclUpdate CL s obj of
        (None, s') \<Rightarrow> (None, s')
      | (Some e, s') \<Rightarrow>
          (if is_invalid e
           then (case delete_object CL s' obj of (err, s'') \<Rightarrow> (map_option (failed_to ''update'' obj) err, s''))
           else if is_conflict e
           then (Some (failed_to ''update'' obj
                   (''failed to update '' @ rtype_text (rtype_of obj) @ '' due to conflict'')), s')
           else (Some (failed_to ''update'' obj (client_error_text e)), s')))"

text \<open>The error of the delete is assigned to a variable of the inner scope; the outer one is returned.\<close>

definition deleteRequestedResource :: "'s object_client \<Rightarrow> 's \<Rightarrow> k8s_object \<Rightarrow> string option \<times> 's" where
  "deleteRequestedResource CL s obj =
     (let deleteError = (None :: string option)
      in case delete_object CL s obj of (shadowed, s') \<Rightarrow> (deleteError, s'))"

section \<open>Comparison\<close>

text \<open>
  An owner of the kind \<open>ActiveMQArtemis\<close> with another version is brought up to date, the first one of
  them; the object then counts as changed.
\<close>

fun stale_owner :: "broker_cr \<Rightarrow> owner_ref list \<Rightarrow> owner_ref list option" where
  "stale_owner cr [] = None"
| "stale_owner cr (r # rs) =
     (if orKind r = ''ActiveMQArtemis'' \<and> orName r = rbName cr \<and> orAPIVersion r \<noteq> rbAPIVersion cr
      then Some (r\<lparr>orAPIVersion := rbAPIVersion cr\<rparr> # rs)
      else map_option ((#) r) (stale_owner cr rs))"

definition ensureOwnerReferenceAPIVersion :: "broker_cr \<Rightarrow> k8s_object \<Rightarrow> k8s_object \<Rightarrow> bool \<times> k8s_object" where
  "ensureOwnerReferenceAPIVersion cr existing candidate =
     (case stale_owner cr (omOwners (obMeta existing)) of
        None \<Rightarrow> (True, candidate)
      | Some ownerRefs \<Rightarrow> (False, candidate\<lparr>obMeta := (obMeta candidate)\<lparr>omOwners := ownerRefs\<rparr>\<rparr>))"

definition object_equalMeta :: "object_compare \<Rightarrow> k8s_object \<Rightarrow> k8s_object \<Rightarrow> bool" where
  "object_equalMeta CMP d r \<longleftrightarrow> ocEqualPair CMP (omLabels (obMeta d)) (omLabels (obMeta r)) \<and>
     ocEqualPair CMP (omAnnotations (obMeta d)) (omAnnotations (obMeta r))"

definition mergeSecretStringDataToData :: "k8s_object \<Rightarrow> data_map" where
  "mergeSecretStringDataToData obj =
     (case obBody obj of SecretBody b \<Rightarrow> put_files (sbStringData b) (sbData b) | _ \<Rightarrow> [])"

text \<open>Each comparison returns whether the objects are equal, and the requested one as it leaves it.\<close>

definition broker_CompareMetaAndSpec ::
  "object_compare \<Rightarrow> broker_cr \<Rightarrow> k8s_object \<Rightarrow> k8s_object \<Rightarrow> bool \<times> k8s_object" where
  "broker_CompareMetaAndSpec CMP cr d r =
     (if object_equalMeta CMP d r \<and> ocEqualSpec CMP (obBody d) (obBody r)
      then ensureOwnerReferenceAPIVersion cr d r else (False, r))"

definition broker_CompareSecret ::
  "object_compare \<Rightarrow> broker_cr \<Rightarrow> k8s_object \<Rightarrow> k8s_object \<Rightarrow> bool \<times> k8s_object" where
  "broker_CompareSecret CMP cr d r =
     (if object_equalMeta CMP d r
      then (case ensureOwnerReferenceAPIVersion cr d r of
              (True, r') \<Rightarrow> (ocEqualPair CMP (mergeSecretStringDataToData d) (mergeSecretStringDataToData r'), r')
            | (False, r') \<Rightarrow> (False, r'))
      else (False, r))"

definition broker_CompareConfigMap :: "broker_cr \<Rightarrow> k8s_object \<Rightarrow> k8s_object \<Rightarrow> bool \<times> k8s_object" where
  "broker_CompareConfigMap cr d r =
     (if object_name d = object_name r then ensureOwnerReferenceAPIVersion cr d r else (False, r))"

definition broker_comparator ::
  "object_compare \<Rightarrow> broker_cr \<Rightarrow> rtype \<Rightarrow> k8s_object \<Rightarrow> k8s_object \<Rightarrow> bool \<times> k8s_object" where
  "broker_comparator CMP cr t =
     (case t of SecretT \<Rightarrow> broker_CompareSecret CMP cr | ConfigMapT \<Rightarrow> broker_CompareConfigMap cr
      | _ \<Rightarrow> broker_CompareMetaAndSpec CMP cr)"

text \<open>A requested object after it was compared with the deployed one of its name.\<close>

definition compared :: "object_compare \<Rightarrow> broker_cr \<Rightarrow> broker_loop \<Rightarrow> k8s_object \<Rightarrow> k8s_object" where
  "compared CMP cr L r =
     (case getFromDeployed L (rtype_of r) (object_name r) of
        Some d \<Rightarrow> snd (broker_comparator CMP cr (rtype_of r) d r)
      | None \<Rightarrow> r)"

section \<open>ProcessResources\<close>

definition ordered_types :: "rtype list" where
  "ordered_types = [SecretT, ConfigMapT, StatefulSetT, ServiceT, IngressT, RouteT, BudgetT]"

definition in_namespace :: "string \<Rightarrow> k8s_object \<Rightarrow> k8s_object" where
  "in_namespace ns obj = obj\<lparr>obMeta := (obMeta obj)\<lparr>omNamespace := ns\<rparr>\<rparr>"

text \<open>The first error, with the resources and the matches as they are left by then.\<close>

fun template_all ::
  "'w broker_env \<Rightarrow> broker_cr \<Rightarrow> requested \<Rightarrow> nat set \<Rightarrow> (string option \<times> requested \<times> nat set) go_result" where
  "template_all E cr [] matched = Ok (None, [], matched)"
| "template_all E cr ((key, obj) # rest) matched =
     (case applyTemplates (beTemplates E) (beOrder E) cr matched (in_namespace (rbNamespace cr) obj) of
        Ok (None, matched', obj') \<Rightarrow>
          (case template_all E cr rest matched' of
             Ok (err, rest', matched'') \<Rightarrow> Ok (err, (key, obj') # rest', matched'')
           | Err e \<Rightarrow> Err e
           | Panic \<Rightarrow> Panic)
      | Ok (Some err, matched', obj') \<Rightarrow> Ok (Some err, (key, obj') # rest, matched')
      | Err e \<Rightarrow> Err e
      | Panic \<Rightarrow> Panic)"

definition sync_type ::
  "'s object_client \<Rightarrow> object_compare \<Rightarrow> broker_cr \<Rightarrow> broker_loop \<Rightarrow> object_delta \<Rightarrow>
     string list \<times> 's \<Rightarrow> string list \<times> 's" where
  "sync_type CL CMP cr L d st =
     apply_each (deleteRequestedResource CL) (odRemoved d)
       (apply_each (updateRequestedResource CL) (map (compared CMP cr L) (odUpdated d))
         (apply_each (createRequestedResource CL cr) (odAdded d) st))"

fun sync_types ::
  "'s object_client \<Rightarrow> object_compare \<Rightarrow> broker_cr \<Rightarrow> broker_loop \<Rightarrow> (rtype \<Rightarrow> object_delta option) \<Rightarrow>
     rtype list \<Rightarrow> string list \<times> 's \<Rightarrow> string list \<times> 's" where
  "sync_types CL CMP cr L deltas [] st = st"
| "sync_types CL CMP cr L deltas (t # ts) st =
     sync_types CL CMP cr L deltas ts (case deltas t of None \<Rightarrow> st | Some d \<Rightarrow> sync_type CL CMP cr L d st)"

definition unmatched_templates :: "broker_cr \<Rightarrow> nat set \<Rightarrow> nat list" where
  "unmatched_templates cr matched = filter (\<lambda>i. i \<notin> matched) [0..<length (rbTemplates cr)]"

definition report_unmatched :: "meta_api \<Rightarrow> nat set \<Rightarrow> broker_cr \<Rightarrow> broker_cr" where
  "report_unmatched M matched cr =
     (case unmatched_templates cr matched of
        [] \<Rightarrow> cr
      | i # rest \<Rightarrow>
          (if (case FindStatusCondition M (rbConditions cr) ValidConditionType of
                 None \<Rightarrow> True | Some c \<Rightarrow> cStatus c \<noteq> ConditionFalse)
           then broker_SetStatusConditionWithGeneration M
                  (mk_condition ValidConditionType ConditionUnknown ValidConditionUnknownReason
                    (''ResourceTemplate at index '' @ itoa (int i) @ '' did not match any operator-generated resources'')) cr
           else cr))"

definition composite_error :: "string list \<Rightarrow> string option" where
  "composite_error errs = (if errs = [] then None else Some (quote_errors errs))"

definition ProcessResources ::
  "'w broker_env \<Rightarrow> 's object_client \<Rightarrow> object_compare \<Rightarrow> broker_cr \<Rightarrow> broker_loop \<Rightarrow> 's \<Rightarrow>
     (string option \<times> broker_cr \<times> broker_loop \<times> 's) go_result" where
  "ProcessResources E CL CMP cr L s =
     (case template_all E cr (beRange E (blRequested L)) (blMatched L) of
        Panic \<Rightarrow> Panic
      | Err e \<Rightarrow> Err e
      | Ok (Some err, requested, matched) \<Rightarrow> Ok (Some err, cr, L\<lparr>blRequested := requested, blMatched := matched\<rparr>, s)
      | Ok (None, requested, matched) \<Rightarrow>
          (let L1 = L\<lparr>blRequested := requested, blMatched := matched\<rparr>;
               deltas = ocDeltas CMP (\<lambda>t d r. fst (broker_comparator CMP cr t d r)) (blDeployed L1)
                          (map snd (beRange E requested))
           in case sync_types CL CMP cr L1 deltas ordered_types ([], s) of
                (compositeError, s') \<Rightarrow>
                  Ok (composite_error compositeError, report_unmatched (beMeta E) matched cr, L1, s')))"

section \<open>Process\<close>

definition listed_types :: "bool \<Rightarrow> rtype list" where
  "listed_types onOpenShift =
     (if onOpenShift then [ServiceT, StatefulSetT, RouteT, SecretT, ConfigMapT, BudgetT, IngressT]
      else [ServiceT, StatefulSetT, IngressT, SecretT, ConfigMapT, BudgetT])"

definition GetDeployedResources ::
  "'w broker_env \<Rightarrow> 's object_client \<Rightarrow> 's \<Rightarrow> broker_cr \<Rightarrow> string + (rtype \<Rightarrow> k8s_object list)" where
  "GetDeployedResources E CL s cr = oclListAll CL s (listed_types (beOnOpenShift E)) cr"

definition release_claim :: "'s object_client \<Rightarrow> broker_cr \<Rightarrow> 's \<Rightarrow> 's" where
  "release_claim CL cr s =
     (if rbPersistenceEnabled cr
      then (case RemovePVCOwnerRef
                   (oclGetClaim CL s (rbNamespace cr) (rbName cr @ ''-'' @ CrToSS (rbName cr) @ ''-0'')) (rbUID cr) of
              Some pvc \<Rightarrow> snd (oclUpdate CL s (claim_object pvc))
            | None \<Rightarrow> s)
      else s)"

text \<open>
  When the resources cannot be listed, the error is logged and nothing counts as deployed.  Secrets with
  the prefix of persisted custom resources are requested as they are.
\<close>

definition CurrentDeployedResources ::
  "'w broker_env \<Rightarrow> 's object_client \<Rightarrow> broker_cr \<Rightarrow> broker_loop \<Rightarrow> 's \<Rightarrow> broker_loop \<times> 's" where
  "CurrentDeployedResources E CL cr L s =
     (let s1 = release_claim CL cr s
      in case GetDeployedResources E CL s1 cr of
           Inl err \<Rightarrow> (L\<lparr>blDeployed := (\<lambda>t. [])\<rparr>, s1)
         | Inr objs \<Rightarrow>
             (foldl trackDesired (L\<lparr>blDeployed := objs\<rparr>)
                (filter (\<lambda>obj. has_prefix (object_name obj) ''secret-broker-'') (objs SecretT)), s1))"

definition set_object :: "object_meta \<Rightarrow> sts_spec \<Rightarrow> k8s_object" where
  "set_object meta spec = \<lparr>obMeta = meta, obBody = StatefulSetBody spec\<rparr>"

text \<open>The requested stateful set: one replica, and the checksum of the secrets in its environment.\<close>

definition finish_set :: "k8s_object list \<Rightarrow> sts_spec \<Rightarrow> sts_spec" where
  "finish_set requestedResources spec =
     (let t = soTemplate spec
      in spec\<lparr>soReplicas := Some 1,
           soTemplate := t\<lparr>ptSpec := (ptSpec t)\<lparr>spContainers :=
             trackSecretCheckSumInEnvVar requestedResources (spContainers (ptSpec t))\<rparr>\<rparr>\<rparr>)"

definition request_all :: "'w broker_env \<Rightarrow> broker_cr \<Rightarrow> object_meta \<Rightarrow> sts_spec \<Rightarrow> broker_loop \<Rightarrow> broker_loop" where
  "request_all E cr meta spec L =
     (let L1 = (case rbBudget cr of Some limits \<Rightarrow> applyPodDisruptionBudget cr limits L | None \<Rightarrow> L)
      in trackDesired L1 (set_object meta (finish_set (map snd (beRange E (blRequested L1))) spec)))"

definition Process ::
  "'w broker_env \<Rightarrow> 's object_client \<Rightarrow> object_compare \<Rightarrow> op_vars \<Rightarrow> broker_cr \<Rightarrow> 's \<Rightarrow>
     (string option \<times> broker_cr \<times> broker_loop \<times> op_vars \<times> 's) go_result" where
  "Process E CL CMP vars cr s =
     (case CurrentDeployedResources E CL cr NewBrokerReconcilerImpl s of
        (L0, s0) \<Rightarrow>
          (case ProcessStatefulSet (E\<lparr>beCluster := oclReads CL s0\<rparr>) vars cr L0 of
             (Panic, L1, vars1) \<Rightarrow> Panic
           | (Err err, L1, vars1) \<Rightarrow> Ok (Some (''failed to process stateful set, '' @ err), cr, L1, vars1, s0)
           | (Ok (meta, spec), L1, vars1) \<Rightarrow>
               (case ProcessResources E CL CMP cr (request_all E cr meta spec L1) s0 of
                  Panic \<Rightarrow> Panic
                | Err e \<Rightarrow> Err e
                | Ok (err, cr', L2, s1) \<Rightarrow> Ok (err, cr', L2, vars1, s1))))"

section \<open>Reconcile\<close>

text \<open>\<open>strconv.ParseBool\<close>.\<close>

definition ParseBool :: "string \<Rightarrow> bool option" where
  "ParseBool s =
     (if s \<in> set [''1'', ''t'', ''T'', ''TRUE'', ''true'', ''True''] then Some True
      else if s \<in> set [''0'', ''f'', ''F'', ''FALSE'', ''false'', ''False''] then Some False
      else None)"

definition reconcile_blocked :: "broker_cr \<Rightarrow> bool" where
  "reconcile_blocked cr =
     (case map_of (rbMetaAnnotations cr) BlockReconcileAnnotation of
        None \<Rightarrow> False
      | Some val \<Rightarrow> (case ParseBool val of Some b \<Rightarrow> b | None \<Rightarrow> False))"

definition hasExtraMountsForBroker :: "broker_cr \<Rightarrow> bool" where
  "hasExtraMountsForBroker cr \<longleftrightarrow> length (rbExtraConfigMaps cr) > 0 \<or> length (rbExtraSecrets cr) > 0"

definition object_secret :: "k8s_object \<Rightarrow> secret option" where
  "object_secret obj =
     (case obBody obj of
        SecretBody b \<Rightarrow> Some \<lparr>secName = object_name obj, secNamespace = omNamespace (obMeta obj),
          secResourceVersion = omResourceVersion (obMeta obj), secAnnotations = omAnnotations (obMeta obj),
          secData = sbData b\<rparr>
      | _ \<Rightarrow> None)"

definition tracked_secret :: "broker_loop \<Rightarrow> string \<Rightarrow> secret option" where
  "tracked_secret L name = Option.bind (getFromDesired L SecretT name) object_secret"

text \<open>
  The outcome of a request: the result (whether it is queued again) and the error, the resource as the
  last write left it, the pods announced, and the states of the process, of the server and of the broker.
\<close>

record ('w, 's) outcome =
  ouRequeue :: bool
  ouError :: "string option"
  ouResource :: "broker_cr option"
  ouAnnounced :: "string list"
  ouVars :: op_vars
  ouServer :: 's
  ouBrokers :: 'w

definition current_status :: "'s object_client \<Rightarrow> 's \<Rightarrow> broker_cr \<Rightarrow> api_error + broker_cr_status" where
  "current_status CL s cr =
     (case oclGetBroker CL s (rbNamespace cr) (rbName cr) of Inl err \<Rightarrow> Inl err | Inr b \<Rightarrow> Inr (rbStatus b))"

text \<open>What follows the resources and the checks: the status, and whether to look again.\<close>

definition finish_reconcile ::
  "'w broker_env \<Rightarrow> 's object_client \<Rightarrow> pod_status \<Rightarrow> bool \<Rightarrow> bool \<Rightarrow> string option \<Rightarrow> broker_cr \<Rightarrow> op_vars \<Rightarrow>
     's \<Rightarrow> 'w \<Rightarrow> ('w, 's) outcome" where
  "finish_reconcile E CL lastStatus blocked requeueRequest err cr vars s w =
     (case broker_ProcessStatus (E\<lparr>beCluster := oclReads CL s\<rparr>) lastStatus
             (broker_UpdateBlockedStatus (beMeta E) blocked cr) err of
        (cr1, announced) \<Rightarrow>
          (case UpdateBrokerCRStatus (beMeta E) (current_status CL s cr1) (\<lambda>c. fst (oclUpdateStatus CL s c)) cr1 of
             (cr2, written, crStatusUpdateErr) \<Rightarrow>
               \<lparr>ouRequeue = requeueRequest \<or> crStatusUpdateErr \<noteq> None \<or> (\<not> blocked \<and> hasExtraMountsForBroker cr2),
                ouError = err, ouResource = Some cr2, ouAnnounced = announced, ouVars = vars,
                ouServer = (if written then snd (oclUpdateStatus CL s cr2) else s), ouBrokers = w\<rparr>))"

definition check_broker ::
  "'w broker_env \<Rightarrow> 's object_client \<Rightarrow> broker_loop \<Rightarrow> 's \<Rightarrow> 'w \<Rightarrow> broker_cr \<Rightarrow> bool \<times> broker_cr \<times> 'w" where
  "check_broker E CL L s w cr =
     (case ProcessBrokerStatus (E\<lparr>beCluster := oclReads CL s\<rparr>) (tracked_secret L) cr (new_session w) of
        (retry, cr', S) \<Rightarrow> (retry, cr', snWorld S))"

definition no_outcome :: "string option \<Rightarrow> op_vars \<Rightarrow> 's \<Rightarrow> 'w \<Rightarrow> ('w, 's) outcome" where
  "no_outcome err vars s w =
     \<lparr>ouRequeue = False, ouError = err, ouResource = None, ouAnnounced = [], ouVars = vars, ouServer = s,
      ouBrokers = w\<rparr>"

definition reconcile_resource ::
  "'w broker_env \<Rightarrow> 's object_client \<Rightarrow> object_compare \<Rightarrow> op_vars \<Rightarrow> pod_status \<Rightarrow> broker_cr \<Rightarrow> 's \<Rightarrow> 'w \<Rightarrow>
     ('w, 's) outcome go_result" where
  "reconcile_resource E CL CMP vars lastStatus cr s w =
     (let blocked = reconcile_blocked cr
      in case broker_validate (E\<lparr>beCluster := oclReads CL s\<rparr>) vars cr of
           ((cr1, valid, requeueRequest), vars1) \<Rightarrow>
             (if \<not> valid
              then Ok (finish_reconcile E CL lastStatus blocked requeueRequest None cr1 vars1 s w)
              else if blocked
              then (case check_broker E CL NewBrokerReconcilerImpl s w cr1 of
                      (retry, cr2, w1) \<Rightarrow>
                        Ok (finish_reconcile E CL lastStatus blocked (requeueRequest \<or> retry) None cr2 vars1 s w1))
              else (case Process E CL CMP vars1 cr1 s of
                      Panic \<Rightarrow> Panic
                    | Err e \<Rightarrow> Err e
                    | Ok (err, cr2, L, vars2, s1) \<Rightarrow>
                        (case check_broker E CL L s1 w cr2 of
                           (retry, cr3, w1) \<Rightarrow>
                             Ok (finish_reconcile E CL lastStatus blocked (requeueRequest \<or> retry) err cr3 vars2 s1 w1)))))"

definition broker_Reconcile ::
  "'w broker_env \<Rightarrow> 's object_client \<Rightarrow> object_compare \<Rightarrow> op_vars \<Rightarrow> pod_status \<Rightarrow> string \<times> string \<Rightarrow> 's \<Rightarrow> 'w \<Rightarrow>
     ('w, 's) outcome go_result" where
  "broker_Reconcile E CL CMP vars lastStatus request s w =
     (case oclGetBroker CL s (fst request) (snd request) of
        Inl (NotFound err) \<Rightarrow> Ok (no_outcome None vars s w)
      | Inl (ApiError err) \<Rightarrow> Ok (no_outcome (Some (api_error_text (ApiError err))) vars s w)
      | Inr cr \<Rightarrow> reconcile_resource E CL CMP vars lastStatus cr s w)"

end
