(* ===== verification/Object_Sync.thy ===== *)
theory Object_Sync
  imports Broker_Reconcile Control_Plane_Facts
begin

text \<open>
  What the writes of a reconcile leave on the server, as a list of writes by type and name, for every kind of
  custom resource whose reconciler keeps the promises of the locale \<open>object_sync\<close>.
\<close>

section \<open>Documented behaviour\<close>

definition okey :: "k8s_object \<Rightarrow> rtype \<times> string" where
  "okey obj = (rtype_of obj, object_name obj)"

text \<open>
  A write that succeeds changes the one object it names; \<open>stored\<close> is what the server holds.  An update that
  is refused as invalid changes nothing, and a delete that reports an error has been done or not.
\<close>

definition object_write_ok ::
  "('s \<Rightarrow> rtype \<times> string \<Rightarrow> k8s_object option) \<Rightarrow> ('s \<Rightarrow> k8s_object \<Rightarrow> client_error option \<times> 's) \<Rightarrow>
     (k8s_object \<Rightarrow> k8s_object option) \<Rightarrow> bool" where
  "object_write_ok stored op val \<longleftrightarrow>
     (\<forall>s r s'. op s r = (None, s') \<longrightarrow> stored s' = (stored s)(okey r := val r))"

definition object_client_ok :: "('s \<Rightarrow> rtype \<times> string \<Rightarrow> k8s_object option) \<Rightarrow> 's object_client \<Rightarrow> bool" where
  "object_client_ok stored CL \<longleftrightarrow> object_write_ok stored (oclCreate CL) Some \<and>
     object_write_ok stored (oclUpdate CL) Some \<and> object_write_ok stored (oclDelete CL) (\<lambda>r. None) \<and>
     (\<forall>s r e s'. oclUpdate CL s r = (Some e, s') \<longrightarrow> is_invalid e \<longrightarrow> stored s' = stored s) \<and>
     (\<forall>s r e s'. oclDelete CL s r = (Some e, s') \<longrightarrow> stored s' = stored s \<or> stored s' = (stored s)(okey r := None))"

text \<open>
  The two failures a reconcile does not report: an update that is refused as invalid, after which the object
  is deleted, and a delete that fails.
\<close>

definition update_refused :: "'s object_client \<Rightarrow> rtype \<times> string \<Rightarrow> bool" where
  "update_refused CL k \<longleftrightarrow> (\<exists>s r e. okey r = k \<and> fst (oclUpdate CL s r) = Some e \<and> is_invalid e)"

definition delete_fails :: "'s object_client \<Rightarrow> rtype \<times> string \<Rightarrow> bool" where
  "delete_fails CL k \<longleftrightarrow> (\<exists>s r. okey r = k \<and> fst (oclDelete CL s r) \<noteq> None)"

definition object_delta_ok ::
  "(k8s_object \<Rightarrow> k8s_object \<Rightarrow> bool) \<Rightarrow> k8s_object list \<Rightarrow> k8s_object list \<Rightarrow> object_delta \<Rightarrow> bool" where
  "object_delta_ok equal found requested d \<longleftrightarrow>
     set (odAdded d) = {r \<in> set requested. object_name r \<notin> object_name ` set found} \<and>
     set (odUpdated d) =
       {r \<in> set requested. \<exists>x \<in> set found. object_name x = object_name r \<and> \<not> equal x r} \<and>
     set (odRemoved d) = {x \<in> set found. object_name x \<notin> object_name ` set requested}"

definition no_object_delta :: object_delta where
  "no_object_delta = \<lparr>odAdded = [], odUpdated = [], odRemoved = []\<rparr>"

definition object_compare_ok :: "object_compare \<Rightarrow> bool" where
  "object_compare_ok CMP \<longleftrightarrow>
     (\<forall>equal found requested t.
        object_delta_ok (equal t) (found t) (filter (\<lambda>r. rtype_of r = t) requested)
          (case ocDeltas CMP equal found requested t of Some d \<Rightarrow> d | None \<Rightarrow> no_object_delta))"

section \<open>Writes as a log\<close>

datatype object_op = CreateOp k8s_object | UpdateOp k8s_object | DeleteOp

fun op_value :: "object_op \<Rightarrow> k8s_object option" where
  "op_value (CreateOp obj) = Some obj"
| "op_value (UpdateOp obj) = Some obj"
| "op_value DeleteOp = None"

text \<open>
  What a log of operations that report no error can do to what is stored: each is done, or is an update that
  is refused and leads to a delete, or a delete that fails and leaves the object.
\<close>

inductive carried_out ::
  "'s object_client \<Rightarrow> ((rtype \<times> string) \<times> object_op) list \<Rightarrow> (rtype \<times> string \<Rightarrow> k8s_object option) \<Rightarrow>
     (rtype \<times> string \<Rightarrow> k8s_object option) \<Rightarrow> bool" for CL where
  nothing: "carried_out CL [] m m"
| performed: "carried_out CL ws (m(k := op_value op)) m' \<Longrightarrow> carried_out CL ((k, op) # ws) m m'"
| refused: "update_refused CL k \<Longrightarrow> carried_out CL ws (m(k := None)) m' \<Longrightarrow> carried_out CL ((k, UpdateOp obj) # ws) m m'"
| kept: "delete_fails CL k \<Longrightarrow> carried_out CL ws m m' \<Longrightarrow> carried_out CL ((k, DeleteOp) # ws) m m'"

lemma written_append: "carried_out CL xs m m1 \<Longrightarrow> carried_out CL ys m1 m2 \<Longrightarrow> carried_out CL (xs @ ys) m m2"
  by (induction rule: carried_out.induct) (auto intro: carried_out.intros)

lemma written_one: "m' = m(k := op_value op) \<Longrightarrow> carried_out CL [(k, op)] m m'"
  using carried_out.performed [OF carried_out.nothing] by blast

text \<open>What a log with one operation of a key leaves there, beside the value of the operation.\<close>

definition spared :: "'s object_client \<Rightarrow> rtype \<times> string \<Rightarrow> object_op \<Rightarrow> k8s_object option \<Rightarrow> k8s_object option \<Rightarrow> bool" where
  "spared CL k op before after \<longleftrightarrow>
     (case op of
        CreateOp obj \<Rightarrow> False
      | UpdateOp obj \<Rightarrow> update_refused CL k \<and> after = None
      | DeleteOp \<Rightarrow> delete_fails CL k \<and> after = before)"

lemma written_lookup:
  assumes "carried_out CL ws m m'" "\<forall>(k', op') \<in> set ws. k' = k \<longrightarrow> op' = op"
  shows "(if k \<in> fst ` set ws then m' k = op_value op \<or> spared CL k op (m k) (m' k) else m' k = m k)"
  using assms
proof (induction rule: carried_out.induct)
  case (performed ws m k' op' m')
  then show ?case by (auto simp: spared_def split: if_splits object_op.splits)
next
  case (refused k' ws m m' obj)
  then show ?case by (auto simp: spared_def split: if_splits object_op.splits)
next
  case (kept k' ws m m')
  then show ?case by (auto simp: spared_def split: if_splits object_op.splits)
qed simp

lemma apply_each_log:
  assumes "\<And>s r s'. op s r = (None, s') \<Longrightarrow> carried_out CL [(key r, f r)] (st s) (st s')"
  shows "apply_each op rs (errs, s) = ([], s') \<Longrightarrow>
     errs = [] \<and> carried_out CL (map (\<lambda>r. (key r, f r)) rs) (st s) (st s')"
proof (induction rs arbitrary: errs s)
  case (Cons r rs)
  obtain e s1 where op: "op s r = (e, s1)" by fastforce
  show ?case
  proof (cases e)
    case None
    with Cons op have "errs = []" "carried_out CL (map (\<lambda>r. (key r, f r)) rs) (st s1) (st s')" by simp_all
    with written_append [OF assms [OF op [unfolded None]]] show ?thesis by simp
  next
    case (Some e')
    with Cons op show ?thesis by fastforce
  qed
qed (simp add: carried_out.nothing)

lemma update_effect:
  assumes "object_client_ok stored CL" "updateRequestedResource CL s r = (None, s')"
  shows "carried_out CL [(okey r, UpdateOp r)] (stored s) (stored s')"
proof -
  obtain e s1 where u: "oclUpdate CL s r = (e, s1)" by fastforce
  show ?thesis
  proof (cases e)
    case None
    with assms(2) u have "oclUpdate CL s r = (None, s')" by (simp add: updateRequestedResource_def)
    with assms(1) show ?thesis by (intro written_one) (simp add: object_client_ok_def object_write_ok_def)
  next
    case (Some x)
    with assms(2) u have inv: "is_invalid x" by (auto simp: updateRequestedResource_def split: if_splits)
    with assms(2) u Some have "oclDelete CL s1 r = (None, s')"
      by (auto simp: updateRequestedResource_def delete_object_def split: prod.splits)
    with assms(1) have "stored s' = (stored s1)(okey r := None)" by (simp add: object_client_ok_def object_write_ok_def)
    moreover from assms(1) u Some inv have "stored s1 = stored s" unfolding object_client_ok_def by blast
    moreover have "update_refused CL (okey r)"
      unfolding update_refused_def using u Some inv by (intro exI [of _ s] exI [of _ r] exI [of _ x]) simp
    ultimately show ?thesis by (auto intro: carried_out.intros)
  qed
qed

lemma delete_effect:
  assumes "object_client_ok stored CL" "deleteRequestedResource CL s r = (None, s')"
  shows "carried_out CL [(okey r, DeleteOp)] (stored s) (stored s')"
proof -
  obtain e s1 where d: "oclDelete CL s r = (e, s1)" by fastforce
  with assms(2) have s1: "s1 = s'" by (simp add: deleteRequestedResource_def delete_object_def)
  show ?thesis
  proof (cases e)
    case None
    with d s1 assms(1) show ?thesis by (intro written_one) (simp add: object_client_ok_def object_write_ok_def)
  next
    case (Some x)
    with d s1 assms(1) have "stored s' = stored s \<or> stored s' = (stored s)(okey r := None)"
      unfolding object_client_ok_def by blast
    moreover have "delete_fails CL (okey r)"
      unfolding delete_fails_def using d Some by (intro exI [of _ s] exI [of _ r]) simp
    ultimately show ?thesis using carried_out.kept [OF _ carried_out.nothing] written_one [of _ _ _ DeleteOp] by fastforce
  qed
qed

text \<open>
  The writes of one kind of custom resource, by how it owns an object and how it compares a requested
  object with the deployed one of its name.
\<close>

definition create_owned ::
  "(k8s_object \<Rightarrow> k8s_object) \<Rightarrow> 's object_client \<Rightarrow> 's \<Rightarrow> k8s_object \<Rightarrow> string option \<times> 's" where
  "create_owned own CL s obj =
     (case oclCreate CL s (own obj) of (err, s') \<Rightarrow>
       (map_option (\<lambda>e. failed_to ''create new'' obj (client_error_text e)) err, s'))"

definition compared_with :: "(rtype \<Rightarrow> k8s_object \<Rightarrow> k8s_object \<Rightarrow> bool \<times> k8s_object) \<Rightarrow> broker_loop \<Rightarrow> k8s_object \<Rightarrow> k8s_object" where
  "compared_with compare L r =
     (case getFromDeployed L (rtype_of r) (object_name r) of
        Some d \<Rightarrow> snd (compare (rtype_of r) d r)
      | None \<Rightarrow> r)"

definition type_writes ::
  "(k8s_object \<Rightarrow> k8s_object) \<Rightarrow> (rtype \<Rightarrow> k8s_object \<Rightarrow> k8s_object \<Rightarrow> bool \<times> k8s_object) \<Rightarrow>
      broker_loop \<Rightarrow> object_delta \<Rightarrow> ((rtype \<times> string) \<times> object_op) list" where
  "type_writes own compare L d =
     map (\<lambda>r. (okey r, CreateOp (own r))) (odAdded d) @
     map (\<lambda>r. (okey r, UpdateOp r)) (map (compared_with compare L) (odUpdated d)) @
     map (\<lambda>r. (okey r, DeleteOp)) (odRemoved d)"

definition all_writes ::
  "(k8s_object \<Rightarrow> k8s_object) \<Rightarrow> (rtype \<Rightarrow> k8s_object \<Rightarrow> k8s_object \<Rightarrow> bool \<times> k8s_object) \<Rightarrow>
      broker_loop \<Rightarrow> (rtype \<Rightarrow> object_delta option) \<Rightarrow> rtype list \<Rightarrow>
     ((rtype \<times> string) \<times> object_op) list" where
  "all_writes own compare L deltas ts =
     concat (map (\<lambda>t. case deltas t of None \<Rightarrow> [] | Some d \<Rightarrow> type_writes own compare L d) ts)"

section \<open>Requested and deployed resources\<close>

text \<open>
  The requested resources under their own keys, the deployed ones under their type with distinct names.
\<close>

definition well_keyed :: "broker_loop \<Rightarrow> bool" where
  "well_keyed L \<longleftrightarrow> distinct (map fst (blRequested L)) \<and> (\<forall>(k, r) \<in> set (blRequested L). k = okey r)"

definition well_listed :: "broker_loop \<Rightarrow> bool" where
  "well_listed L \<longleftrightarrow>
     (\<forall>t. distinct (map object_name (blDeployed L t)) \<and> (\<forall>x \<in> set (blDeployed L t). rtype_of x = t))"

lemma deployed_lookup:
  assumes "well_listed L"
  shows "getFromDeployed L t n = Some x \<longleftrightarrow> x \<in> set (blDeployed L t) \<and> object_name x = n"
proof -
  have d: "distinct (map object_name (blDeployed L t))" using assms by (simp add: well_listed_def)
  have "List.find (\<lambda>x. object_name x = n) xs = Some x \<longleftrightarrow> x \<in> set xs \<and> object_name x = n"
    if "distinct (map object_name xs)" for xs
    using that by (induction xs) (auto simp: image_iff)
  with d show ?thesis by (simp add: getFromDeployed_def)
qed

lemma deployed_none: "getFromDeployed L t n = None \<longleftrightarrow> n \<notin> object_name ` set (blDeployed L t)"
  by (auto simp: getFromDeployed_def find_None_iff)

lemma desired_lookup:
  assumes "well_keyed L"
  shows "getFromDesired L t n = Some r \<longleftrightarrow> r \<in> snd ` set (blRequested L) \<and> rtype_of r = t \<and> object_name r = n"
proof -
  have d: "distinct (map fst (blRequested L))" and k: "\<And>k r. (k, r) \<in> set (blRequested L) \<Longrightarrow> k = okey r"
    using assms by (auto simp: well_keyed_def)
  from d have "getFromDesired L t n = Some r \<longleftrightarrow> ((t, n), r) \<in> set (blRequested L)"
    by (simp add: getFromDesired_def)
  also have "\<dots> \<longleftrightarrow> r \<in> snd ` set (blRequested L) \<and> rtype_of r = t \<and> object_name r = n"
    using k by (force simp: okey_def)
  finally show ?thesis .
qed

text \<open>What the server should hold of a type and a name, given what it held before.\<close>

definition sync_result ::
  "(k8s_object \<Rightarrow> k8s_object) \<Rightarrow> (rtype \<Rightarrow> k8s_object \<Rightarrow> k8s_object \<Rightarrow> bool \<times> k8s_object) \<Rightarrow>
      broker_loop \<Rightarrow> k8s_object option \<Rightarrow> rtype \<Rightarrow> string \<Rightarrow> k8s_object option" where
  "sync_result own compare L before t n =
     (case getFromDesired L t n of
        Some r \<Rightarrow>
          (case getFromDeployed L t n of
             None \<Rightarrow> Some (own r)
           | Some d \<Rightarrow> if fst (compare t d r) then before else Some (compared_with compare L r))
      | None \<Rightarrow> if getFromDeployed L t n = None then before else None)"

text \<open>
  What an object of the deployed list can be left as without an error: gone, when its update is refused, or
  there, when it is no longer requested and its delete fails.
\<close>

definition left_over ::
  "'s object_client \<Rightarrow> broker_loop \<Rightarrow> k8s_object option \<Rightarrow> rtype \<Rightarrow> string \<Rightarrow> k8s_object option \<Rightarrow> bool" where
  "left_over CL L before t n after \<longleftrightarrow>
     getFromDeployed L t n \<noteq> None \<and>
     (case getFromDesired L t n of
        Some r \<Rightarrow> update_refused CL (t, n) \<and> after = None
      | None \<Rightarrow> delete_fails CL (t, n) \<and> after = before)"

text \<open>The differences of one type, in terms of the lookups.\<close>

definition delta_of ::
  "object_compare \<Rightarrow> (rtype \<Rightarrow> k8s_object \<Rightarrow> k8s_object \<Rightarrow> bool \<times> k8s_object) \<Rightarrow> broker_loop \<Rightarrow> k8s_object list \<Rightarrow>
     rtype \<Rightarrow> object_delta" where
  "delta_of CMP compare L objs t =
     (case ocDeltas CMP (\<lambda>t d r. fst (compare t d r)) (blDeployed L) objs t of
        Some d \<Rightarrow> d | None \<Rightarrow> no_object_delta)"

lemma delta_lookup:
  assumes "object_compare_ok CMP" "well_keyed L" "well_listed L" "set objs = snd ` set (blRequested L)"
  shows "r \<in> set (odAdded (delta_of CMP compare L objs t)) \<longleftrightarrow> rtype_of r = t \<and>
           getFromDesired L t (object_name r) = Some r \<and> getFromDeployed L t (object_name r) = None"
    and "r \<in> set (odUpdated (delta_of CMP compare L objs t)) \<longleftrightarrow> rtype_of r = t \<and>
           getFromDesired L t (object_name r) = Some r \<and>
           (\<exists>x. getFromDeployed L t (object_name r) = Some x \<and> \<not> fst (compare t x r))"
    and "r \<in> set (odRemoved (delta_of CMP compare L objs t)) \<longleftrightarrow> rtype_of r = t \<and>
           getFromDeployed L t (object_name r) = Some r \<and> getFromDesired L t (object_name r) = None"
proof -
  let ?eq = "\<lambda>t d r. fst (compare t d r)"
  have ok: "object_delta_ok (?eq t) (blDeployed L t) (filter (\<lambda>r. rtype_of r = t) objs) (delta_of CMP compare L objs t)"
    using assms(1) [unfolded object_compare_ok_def, rule_format, of ?eq t "blDeployed L" objs] by (simp add: delta_of_def)
  have req: "r \<in> set (filter (\<lambda>r. rtype_of r = t) objs) \<longleftrightarrow>
      rtype_of r = t \<and> getFromDesired L t (object_name r) = Some r" for r
    unfolding desired_lookup [OF assms(2)] using assms(4) by auto
  have dep: "x \<in> set (blDeployed L t) \<and> object_name x = n \<longleftrightarrow> getFromDeployed L t n = Some x" for x n
    unfolding deployed_lookup [OF assms(3)] ..
  have typed: "x \<in> set (blDeployed L t) \<Longrightarrow> rtype_of x = t" for x
    using assms(3) by (simp add: well_listed_def)
  have gone: "n \<notin> object_name ` set (filter (\<lambda>r. rtype_of r = t) objs) \<longleftrightarrow> getFromDesired L t n = None" for n
  proof -
    have "getFromDesired L t n = None \<longleftrightarrow> (\<forall>r. getFromDesired L t n \<noteq> Some r)" by simp
    also have "\<dots> \<longleftrightarrow> n \<notin> object_name ` set (filter (\<lambda>r. rtype_of r = t) objs)"
      unfolding desired_lookup [OF assms(2)] using assms(4) by auto
    finally show ?thesis by simp
  qed
  have "set (odAdded (delta_of CMP compare L objs t)) =
      {r \<in> set (filter (\<lambda>r. rtype_of r = t) objs). object_name r \<notin> object_name ` set (blDeployed L t)}"
    using ok unfolding object_delta_ok_def by blast
  then show "r \<in> set (odAdded (delta_of CMP compare L objs t)) \<longleftrightarrow> rtype_of r = t \<and>
      getFromDesired L t (object_name r) = Some r \<and> getFromDeployed L t (object_name r) = None"
    unfolding deployed_none using req by blast
  have "set (odUpdated (delta_of CMP compare L objs t)) = {r \<in> set (filter (\<lambda>r. rtype_of r = t) objs).
      \<exists>x \<in> set (blDeployed L t). object_name x = object_name r \<and> \<not> ?eq t x r}"
    using ok unfolding object_delta_ok_def by blast
  then show "r \<in> set (odUpdated (delta_of CMP compare L objs t)) \<longleftrightarrow> rtype_of r = t \<and>
      getFromDesired L t (object_name r) = Some r \<and>
      (\<exists>x. getFromDeployed L t (object_name r) = Some x \<and> \<not> ?eq t x r)"
    unfolding dep [symmetric] using req by blast
  have "set (odRemoved (delta_of CMP compare L objs t)) =
      {x \<in> set (blDeployed L t). object_name x \<notin> object_name ` set (filter (\<lambda>r. rtype_of r = t) objs)}"
    using ok unfolding object_delta_ok_def by blast
  then show "r \<in> set (odRemoved (delta_of CMP compare L objs t)) \<longleftrightarrow> rtype_of r = t \<and>
      getFromDeployed L t (object_name r) = Some r \<and> getFromDesired L t (object_name r) = None"
    unfolding gone dep [symmetric] using typed by blast
qed

lemma nothing_deployed_deltas:
  assumes "object_compare_ok CMP" "\<forall>t. blDeployed L t = []"
  shows "odUpdated (delta_of CMP compare L objs t) = [] \<and> odRemoved (delta_of CMP compare L objs t) = []"
proof -
  let ?eq = "\<lambda>t d r. fst (compare t d r)"
  have "object_delta_ok (?eq t) [] (filter (\<lambda>r. rtype_of r = t) objs) (delta_of CMP compare L objs t)"
    using assms(1) [unfolded object_compare_ok_def, rule_format, of ?eq t "blDeployed L" objs] assms(2)
    by (simp add: delta_of_def)
  then show ?thesis by (simp add: object_delta_ok_def)
qed

lemma all_writes_mem:
  "(k, v) \<in> set (all_writes own compare L (ocDeltas CMP (\<lambda>t d r. fst (compare t d r)) (blDeployed L) objs) ts) \<longleftrightarrow>
     (\<exists>t \<in> set ts. (k, v) \<in> set (type_writes own compare L (delta_of CMP compare L objs t)))"
proof -
  have "(case ocDeltas CMP (\<lambda>t d r. fst (compare t d r)) (blDeployed L) objs t of
      None \<Rightarrow> [] | Some d \<Rightarrow> type_writes own compare L d) = type_writes own compare L (delta_of CMP compare L objs t)" for t
    by (simp add: delta_of_def type_writes_def no_object_delta_def split: option.split)
  then show ?thesis by (simp add: all_writes_def)
qed

lemma owners_only_key [simp]: "okey (obj\<lparr>obMeta := (obMeta obj)\<lparr>omOwners := rs\<rparr>\<rparr>) = okey obj"
  by (simp add: okey_def rtype_of_def object_name_def)

lemma apply_each_accepts: "\<forall>s r. fst (op s r) = None \<Longrightarrow> fst (apply_each op rs st) = fst st"
proof (induction rs arbitrary: st)
  case (Cons r rs)
  obtain errs s where st: "st = (errs, s)" by fastforce
  obtain e s' where op: "op s r = (e, s')" by fastforce
  then have "e = None" using Cons.prems by (metis fst_conv)
  with Cons st op show ?case by simp
qed simp

section \<open>The synchronisation as an interface\<close>

text \<open>
  What both reconcilers promise: to own an object or to compare it keeps its type and name, one type is created,
  updated and deleted in this order, and the types follow one another.
\<close>

locale object_sync =
  fixes own :: "k8s_object \<Rightarrow> k8s_object"
    and compare :: "rtype \<Rightarrow> k8s_object \<Rightarrow> k8s_object \<Rightarrow> bool \<times> k8s_object"
    and sync_one :: "'s object_client \<Rightarrow> broker_loop \<Rightarrow> object_delta \<Rightarrow> string list \<times> 's \<Rightarrow> string list \<times> 's"
    and sync_all :: "'s object_client \<Rightarrow> broker_loop \<Rightarrow> (rtype \<Rightarrow> object_delta option) \<Rightarrow> rtype list \<Rightarrow>
                       string list \<times> 's \<Rightarrow> string list \<times> 's"
  assumes own_key: "okey (own r) = okey r"
    and compare_key: "okey (snd (compare t x r)) = okey r"
    and sync_one: "sync_one CL L d st =
      apply_each (deleteRequestedResource CL) (odRemoved d)
        (apply_each (updateRequestedResource CL) (map (compared_with compare L) (odUpdated d))
          (apply_each (create_owned own CL) (odAdded d) st))"
    and sync_none: "sync_all CL L deltas [] st = st"
    and sync_more: "sync_all CL L deltas (t # ts) st =
      sync_all CL L deltas ts (case deltas t of None \<Rightarrow> st | Some d \<Rightarrow> sync_one CL L d st)"
begin


lemma compared_key [simp]: "okey (compared_with compare L r) = okey r"
  by (simp add: compared_with_def compare_key split: option.split)

lemma create_effect:
  assumes "object_client_ok stored CL" "create_owned own CL s r = (None, s')"
  shows "carried_out CL [(okey r, CreateOp (own r))] (stored s) (stored s')"
proof -
  obtain e where "oclCreate CL s (own r) = (e, s')" "e = None"
    using assms(2) by (auto simp: create_owned_def split: prod.splits)
  with assms(1) show ?thesis by (intro written_one) (simp add: object_client_ok_def object_write_ok_def own_key)
qed

lemma sync_one_log:
  assumes "object_client_ok stored CL" "sync_one CL L d (errs, s) = ([], s')"
  shows "errs = [] \<and> carried_out CL (type_writes own compare L d) (stored s) (stored s')"
proof -
  obtain e1 s1 where 1: "apply_each (create_owned own CL) (odAdded d) (errs, s) = (e1, s1)" by fastforce
  obtain e2 s2 where 2: "apply_each (updateRequestedResource CL) (map (compared_with compare L) (odUpdated d)) (e1, s1) = (e2, s2)"
    by fastforce
  from assms(2) 1 2 have 3: "apply_each (deleteRequestedResource CL) (odRemoved d) (e2, s2) = ([], s')"
    by (simp add: sync_one)
  note d = apply_each_log [where st = stored, OF delete_effect [OF assms(1)] 3]
  with 2 have 2: "apply_each (updateRequestedResource CL) (map (compared_with compare L) (odUpdated d)) (e1, s1) = ([], s2)" by simp
  note u = apply_each_log [where st = stored, OF update_effect [OF assms(1)] 2]
  with 1 have 1: "apply_each (create_owned own CL) (odAdded d) (errs, s) = ([], s1)" by simp
  note c = apply_each_log [where st = stored, OF create_effect [OF assms(1)] 1]
  from c written_append [OF conjunct2 [OF c] written_append [OF conjunct2 [OF u] conjunct2 [OF d]]] show ?thesis
    by (simp add: type_writes_def)
qed

lemma sync_all_log:
  assumes "object_client_ok stored CL"
  shows "sync_all CL L deltas ts (errs, s) = ([], s') \<Longrightarrow>
     errs = [] \<and> carried_out CL (all_writes own compare L deltas ts) (stored s) (stored s')"
proof (induction ts arbitrary: errs s)
  case (Cons t ts)
  obtain e1 s1 where 1: "(case deltas t of None \<Rightarrow> (errs, s) | Some d \<Rightarrow> sync_one CL L d (errs, s)) = (e1, s1)"
    by fastforce
  with Cons sync_more have r: "e1 = []" "carried_out CL (all_writes own compare L deltas ts) (stored s1) (stored s')" by auto
  with 1 have "errs = [] \<and> carried_out CL (case deltas t of None \<Rightarrow> [] | Some d \<Rightarrow> type_writes own compare L d) (stored s) (stored s1)"
    using sync_one_log [OF assms, of L _ errs s s1] by (cases "deltas t") (auto intro: carried_out.nothing)
  with written_append [OF _ r(2)] show ?case by (simp add: all_writes_def)
qed (simp add: sync_none all_writes_def carried_out.nothing)

lemma type_write_mem:
  assumes "object_compare_ok CMP" "well_keyed L" "well_listed L" "set objs = snd ` set (blRequested L)"
  shows "((t, n), v) \<in> set (type_writes own compare L (delta_of CMP compare L objs t')) \<longleftrightarrow> t' = t \<and>
     (case getFromDesired L t n of
        Some r \<Rightarrow>
          (case getFromDeployed L t n of
             None \<Rightarrow> v = CreateOp (own r)
           | Some d \<Rightarrow> \<not> fst (compare t d r) \<and> v = UpdateOp (compared_with compare L r))
      | None \<Rightarrow> getFromDeployed L t n \<noteq> None \<and> v = DeleteOp)" (is "?l \<longleftrightarrow> t' = t \<and> ?r")
proof -
  note mem = delta_lookup [OF assms, where compare = compare]
  have key: "(t, n) = okey r \<longleftrightarrow> rtype_of r = t \<and> object_name r = n" for r by (auto simp: okey_def)
  have want: "rtype_of r = t \<and> object_name r = n" if "getFromDesired L t n = Some r" for r
    using that desired_lookup [OF assms(2)] by blast
  have got: "rtype_of r = t \<and> object_name r = n" if "getFromDeployed L t n = Some r" for r
    using that deployed_lookup [OF assms(3)] assms(3) by (auto simp: well_listed_def)
  have w: "?l \<longleftrightarrow>
      (\<exists>r \<in> set (odAdded (delta_of CMP compare L objs t')). (t, n) = okey r \<and> v = CreateOp (own r)) \<or>
      (\<exists>r \<in> set (odUpdated (delta_of CMP compare L objs t')). (t, n) = okey r \<and> v = UpdateOp (compared_with compare L r)) \<or>
      (\<exists>r \<in> set (odRemoved (delta_of CMP compare L objs t')). (t, n) = okey r \<and> v = DeleteOp)"
    by (auto simp: type_writes_def image_iff)
  show ?thesis
  proof (cases "t' = t")
    case False
    then show ?thesis unfolding w Bex_def mem key by auto
  next
    case True
    note m = mem [where t = t]
    have a: "x \<in> set (odAdded (delta_of CMP compare L objs t)) \<and> (t, n) = okey x \<longleftrightarrow>
        getFromDesired L t n = Some x \<and> getFromDeployed L t n = None" for x
      unfolding m(1) key by (metis want)
    have u: "x \<in> set (odUpdated (delta_of CMP compare L objs t)) \<and> (t, n) = okey x \<longleftrightarrow> getFromDesired L t n = Some x \<and>
        (\<exists>d. getFromDeployed L t n = Some d \<and> \<not> fst (compare t d x))" for x
      unfolding m(2) key by (metis want)
    have d: "x \<in> set (odRemoved (delta_of CMP compare L objs t)) \<and> (t, n) = okey x \<longleftrightarrow>
        getFromDeployed L t n = Some x \<and> getFromDesired L t n = None" for x
      unfolding m(3) key by (metis got)
    show ?thesis
      unfolding w [unfolded True] True Bex_def conj_assoc [symmetric] a u d
      by (auto split: option.split)
  qed
qed

lemma writes_synced:
  assumes "object_compare_ok CMP" "well_keyed L" "well_listed L" "set objs = snd ` set (blRequested L)" "t \<in> set ts"
    and "carried_out CL (all_writes own compare L (ocDeltas CMP (\<lambda>t d r. fst (compare t d r)) (blDeployed L) objs) ts) m m'"
  shows "m' (t, n) = sync_result own compare L (m (t, n)) t n \<or> left_over CL L (m (t, n)) t n (m' (t, n))"
proof -
  let ?ws = "all_writes own compare L (ocDeltas CMP (\<lambda>t d r. fst (compare t d r)) (blDeployed L) objs) ts"
  note mem = type_write_mem [OF assms(1-4)]
  have w: "((t, n), v) \<in> set ?ws \<longleftrightarrow> ((t, n), v) \<in> set (type_writes own compare L (delta_of CMP compare L objs t))" for v
    using assms(5) unfolding all_writes_mem mem by blast
  have dom: "(t, n) \<in> fst ` set ?ws \<longleftrightarrow> (\<exists>v. ((t, n), v) \<in> set ?ws)" by force
  show ?thesis
  proof (cases "\<exists>v. ((t, n), v) \<in> set ?ws")
    case False
    with written_lookup [OF assms(6), of "(t, n)" DeleteOp] have "m' (t, n) = m (t, n)"
      unfolding dom by auto
    with False [unfolded w mem] show ?thesis by (auto simp: sync_result_def split: option.splits)
  next
    case True
    then obtain op where op: "((t, n), op) \<in> set ?ws" by blast
    have "\<forall>(k', op') \<in> set ?ws. k' = (t, n) \<longrightarrow> op' = op"
      using op w unfolding mem by (auto split: option.splits)
    from written_lookup [OF assms(6) this] True have "m' (t, n) = op_value op \<or> spared CL (t, n) op (m (t, n)) (m' (t, n))"
      unfolding dom by (simp only: if_True)
    with op [unfolded w mem] show ?thesis
      by (auto simp: sync_result_def left_over_def spared_def split: option.splits)
  qed
qed

text \<open>A client that accepts every write leaves no error.\<close>

lemma accepts:
  assumes "\<forall>s r. fst (oclCreate CL s r) = None" "\<forall>s r. fst (oclUpdate CL s r) = None"
  shows "fst (sync_all CL L deltas ts st) = fst st"
proof -
  have "\<forall>s r. fst (create_owned own CL s r) = None"
    using assms(1) by (simp add: create_owned_def case_prod_beta)
  moreover have "\<forall>s r. fst (updateRequestedResource CL s r) = None"
  proof (intro allI)
    fix s r
    obtain e s' where "oclUpdate CL s r = (e, s')" by fastforce
    with assms(2) have "oclUpdate CL s r = (None, s')" by (metis fst_conv)
    then show "fst (updateRequestedResource CL s r) = None" by (simp add: updateRequestedResource_def)
  qed
  moreover have "\<forall>s r. fst (deleteRequestedResource CL s r) = None"
    by (simp add: deleteRequestedResource_def Let_def case_prod_beta)
  ultimately have one: "fst (sync_one CL L d st) = fst st" for d st
    by (simp add: sync_one apply_each_accepts)
  show ?thesis by (induction ts arbitrary: st) (simp_all add: sync_none sync_more one split: option.split)
qed

text \<open>Requested and compared objects are what the server holds after a synchronisation without an error.\<close>

lemma synced:
  assumes "object_client_ok stored CL" "object_compare_ok CMP"
    and "well_keyed L" "well_listed L" "set objs = snd ` set (blRequested L)"
    and "sync_all CL L (ocDeltas CMP (\<lambda>t d r. fst (compare t d r)) (blDeployed L) objs) ts ([], s) = ([], s')"
    and "t \<in> set ts"
  shows "stored s' (t, n) = sync_result own compare L (stored s (t, n)) t n \<or>
    left_over CL L (stored s (t, n)) t n (stored s' (t, n))"
  using sync_all_log [OF assms(1,6)] by (intro writes_synced [OF assms(2-5,7)]) simp

end

end
