(* ===== verification/Broker_Sync.thy ===== *)
theory Broker_Sync
  imports Object_Sync
begin

text \<open>
  The synchronisation of a \<open>Broker\<close> as an \<open>object_sync\<close>, and which calls of the client a reconcile does not
  depend on.
\<close>

section \<open>The interface\<close>

lemma owner_key [simp]: "okey (SetOwnerAndController cr obj) = okey obj"
  by (simp add: okey_def SetOwnerAndController_def rtype_of_def object_name_def)

lemma ensure_key: "okey (snd (ensureOwnerReferenceAPIVersion cr d r)) = okey r"
  by (simp add: ensureOwnerReferenceAPIVersion_def split: option.split)

lemma comparator_key: "okey (snd (broker_comparator CMP cr t d r)) = okey r"
  using ensure_key [of cr d r]
  by (cases t; cases "ensureOwnerReferenceAPIVersion cr d r")
    (auto simp: broker_comparator_def broker_CompareSecret_def broker_CompareConfigMap_def broker_CompareMetaAndSpec_def
      split: bool.split)

lemma broker_creates: "createRequestedResource CL cr = create_owned (SetOwnerAndController cr) CL"
  by (simp add: fun_eq_iff createRequestedResource_def create_owned_def)

lemma broker_compares: "compared CMP cr = compared_with (broker_comparator CMP cr)"
  by (simp add: fun_eq_iff compared_def compared_with_def)

interpretation broker_sync: object_sync "SetOwnerAndController cr" "broker_comparator CMP cr"
  "\<lambda>CL. sync_type CL CMP cr" "\<lambda>CL. sync_types CL CMP cr" for CMP cr
  by unfold_locales (simp_all add: comparator_key sync_type_def broker_creates broker_compares)

text \<open>What the server should hold of a type and a name, given what it held before.\<close>

definition synced ::
  "object_compare \<Rightarrow> broker_cr \<Rightarrow> broker_loop \<Rightarrow> k8s_object option \<Rightarrow> rtype \<Rightarrow> string \<Rightarrow> k8s_object option" where
  "synced CMP cr L before t n =
     (case getFromDesired L t n of
        Some r \<Rightarrow>
          (case getFromDeployed L t n of
             None \<Rightarrow> Some (SetOwnerAndController cr r)
           | Some d \<Rightarrow> if fst (broker_comparator CMP cr t d r) then before else Some (compared CMP cr L r))
      | None \<Rightarrow> if getFromDeployed L t n = None then before else None)"

lemma synced_result: "synced CMP cr = sync_result (SetOwnerAndController cr) (broker_comparator CMP cr)"
  by (intro ext) (auto simp: synced_def sync_result_def broker_compares split: option.split)

lemma resources_synced:
  assumes "object_client_ok stored CL" "object_compare_ok CMP"
    and "\<forall>rs. mset (beRange E rs) = mset rs" "well_listed L"
    and "ProcessResources E CL CMP cr L s = Ok (None, cr', L', s')" "well_keyed L'" "t \<in> set ordered_types"
  shows "stored s' (t, n) = synced CMP cr L' (stored s (t, n)) t n \<or>
    left_over CL L' (stored s (t, n)) t n (stored s' (t, n))"
proof -
  obtain R M where R: "template_all E cr (beRange E (blRequested L)) (blMatched L) = Ok (None, R, M)"
    and L': "L' = L\<lparr>blRequested := R, blMatched := M\<rparr>"
    using assms(5) by (auto simp: ProcessResources_def Let_def split: go_result.splits prod.splits option.splits)
  let ?D = "ocDeltas CMP (\<lambda>t d r. fst (broker_comparator CMP cr t d r)) (blDeployed L') (map snd (beRange E R))"
  have s: "sync_types CL CMP cr L' ?D ordered_types ([], s) = ([], s')"
    using assms(5) R L'
    by (auto simp: ProcessResources_def Let_def composite_error_def split: go_result.splits prod.splits if_splits)
  have "set (beRange E R) = set R" using assms(3) by (metis set_mset_mset)
  then have objs: "set (map snd (beRange E R)) = snd ` set (blRequested L')" using L' by simp
  have wl: "well_listed L'" using assms(4) L' by (simp add: well_listed_def)
  show ?thesis unfolding synced_result by (rule broker_sync.synced [OF assms(1,2,6) wl objs s assms(7)])
qed

section \<open>Requested resources under their keys\<close>

lemma update_mem: "x \<in> set (AList.update k v xs) \<Longrightarrow> x = (k, v) \<or> x \<in> set xs"
  by (induction xs) (auto split: if_splits)

lemma well_keyed_track [intro]: "well_keyed L \<Longrightarrow> well_keyed (trackDesired L obj)"
  by (auto simp: well_keyed_def trackDesired_def okey_def distinct_update dest!: update_mem)

lemma well_keyed_tracks [intro]: "well_keyed L \<Longrightarrow> well_keyed (foldl trackDesired L objs)"
  by (induction objs arbitrary: L) auto

lemma well_keyed_write_back [intro]: "well_keyed L \<Longrightarrow> well_keyed (write_back b n d L)"
  by (auto simp: well_keyed_def write_back_def okey_def comp_def case_prod_beta')



lemma well_keyed_template:
  "PodTemplateSpecForCR E vars cr current L = (r, L', vars') \<Longrightarrow> well_keyed L \<Longrightarrow> well_keyed L'"
  by (auto simp: PodTemplateSpecForCR_def addResourceForBrokerProperties_def Let_def
      split: prod.splits sum.splits option.splits)

lemma well_keyed_matched [simp]: "well_keyed (L\<lparr>blMatched := m\<rparr>) = well_keyed L"
  by (simp add: well_keyed_def)

lemma well_keyed_set:
  "ProcessStatefulSet E vars cr L = (r, L', vars') \<Longrightarrow> well_keyed L \<Longrightarrow> well_keyed L'"
  by (auto simp: ProcessStatefulSet_def StatefulSetForCR_def dest!: well_keyed_template
      split: prod.splits go_result.splits)

lemma well_keyed_request: "well_keyed L \<Longrightarrow> well_keyed (request_all E cr meta spec L)"
  by (auto simp: request_all_def applyPodDisruptionBudget_def Let_def split: option.split)

lemma template_all_none:
  "rbTemplates cr = [] \<Longrightarrow>
     template_all E cr rs m = Ok (None, map (\<lambda>(k, obj). (k, in_namespace (rbNamespace cr) obj)) rs, m)"
proof (induction rs)
  case (Cons r rs)
  then show ?case by (cases r) (simp add: applyTemplates_def)
qed simp

lemma well_keyed_untemplated:
  assumes "rbTemplates cr = []" "\<forall>rs. mset (beRange E rs) = mset rs" "well_keyed L"
    and "ProcessResources E CL CMP cr L s = Ok (err, cr', L', s')"
  shows "well_keyed L'"
proof -
  let ?f = "\<lambda>(k, obj). (k :: rtype \<times> string, in_namespace (rbNamespace cr) obj)"
  have L': "L' = L\<lparr>blRequested := map ?f (beRange E (blRequested L))\<rparr>"
    using assms(4) by (auto simp: ProcessResources_def template_all_none [OF assms(1)] Let_def split: prod.splits)
  have m: "mset (beRange E (blRequested L)) = mset (blRequested L)" using assms(2) by blast
  then have "distinct (map fst (beRange E (blRequested L)))"
    using assms(3) unfolding well_keyed_def by (metis mset_map mset_eq_imp_distinct_iff)
  moreover have "set (beRange E (blRequested L)) = set (blRequested L)" using m by (metis set_mset_mset)
  moreover have "okey (in_namespace ns obj) = okey obj" for ns obj
    by (simp add: okey_def in_namespace_def rtype_of_def object_name_def)
  ultimately show ?thesis
    using assms(3) by (auto simp: L' well_keyed_def comp_def case_prod_beta')
qed

text \<open>Without templates the requested resources keep their keys through a whole process.\<close>

lemma well_keyed_Process:
  assumes "rbTemplates cr = []" "\<forall>rs. mset (beRange E rs) = mset rs"
    and "Process E CL CMP vars cr s = Ok (None, cr', L', vars', s')"
  shows "well_keyed L'"
proof -
  obtain L0 s0 where c: "CurrentDeployedResources E CL cr NewBrokerReconcilerImpl s = (L0, s0)" by fastforce
  have n: "well_keyed (NewBrokerReconcilerImpl\<lparr>blDeployed := x\<rparr>)" for x
    by (simp add: well_keyed_def NewBrokerReconcilerImpl_def)
  have "well_keyed L0"
    using c n by (auto simp: CurrentDeployedResources_def Let_def split: sum.splits)
  moreover obtain m spec L1 v1 s1 where p: "ProcessStatefulSet (E\<lparr>beCluster := oclReads CL s0\<rparr>) vars cr L0 = (Ok (m, spec), L1, v1)"
    and r: "ProcessResources E CL CMP cr (request_all E cr m spec L1) s0 = Ok (None, cr', L', s')"
    using assms(3) c by (auto simp: Process_def split: prod.splits go_result.splits)
  ultimately have "well_keyed (request_all E cr m spec L1)" by (intro well_keyed_request well_keyed_set [OF p])
  from well_keyed_untemplated [OF assms(1,2) this r] show ?thesis .
qed

section \<open>Calls a reconcile does not make\<close>

text \<open>The client with other writes: what does not depend on them does not call them.\<close>

definition with_writes ::
  "('s \<Rightarrow> k8s_object \<Rightarrow> client_error option \<times> 's) \<Rightarrow> ('s \<Rightarrow> k8s_object \<Rightarrow> client_error option \<times> 's) \<Rightarrow>
     ('s \<Rightarrow> k8s_object \<Rightarrow> client_error option \<times> 's) \<Rightarrow> 's object_client \<Rightarrow> 's object_client" where
  "with_writes c u d CL = CL\<lparr>oclCreate := c, oclUpdate := u, oclDelete := d\<rparr>"

lemma with_writes_sel [simp]:
  "oclReads (with_writes c u d CL) = oclReads CL" "oclGetBroker (with_writes c u d CL) = oclGetBroker CL"
  "oclUpdateStatus (with_writes c u d CL) = oclUpdateStatus CL" "oclCreate (with_writes c u d CL) = c"
  "oclUpdate (with_writes c u d CL) = u" "oclDelete (with_writes c u d CL) = d"
  "oclListAll (with_writes c u d CL) = oclListAll CL" "oclGetClaim (with_writes c u d CL) = oclGetClaim CL"
  by (simp_all add: with_writes_def)

lemma finish_no_writes [simp]:
  "finish_reconcile E (with_writes c u d CL) ls b rq err cr vars s w = finish_reconcile E CL ls b rq err cr vars s w"
  by (simp add: finish_reconcile_def current_status_def cong: prod.case_cong if_cong)

lemma check_no_writes [simp]:
  "check_broker E (with_writes c u d CL) L s w cr = check_broker E CL L s w cr"
  by (simp add: check_broker_def)

lemma create_with_writes [simp]:
  "createRequestedResource (with_writes (oclCreate CL) u d CL) cr = createRequestedResource CL cr"
  by (simp add: fun_eq_iff createRequestedResource_def)

lemma nothing_deployed_sync:
  assumes "object_compare_ok CMP" "\<forall>t. blDeployed L t = []"
  shows "sync_types (with_writes (oclCreate CL) u d CL) CMP cr L
      (ocDeltas CMP (\<lambda>t d r. fst (broker_comparator CMP cr t d r)) (blDeployed L) objs) ts st =
    sync_types CL CMP cr L (ocDeltas CMP (\<lambda>t d r. fst (broker_comparator CMP cr t d r)) (blDeployed L) objs) ts st"
proof (induction ts arbitrary: st)
  case (Cons t ts)
  let ?D = "ocDeltas CMP (\<lambda>t d r. fst (broker_comparator CMP cr t d r)) (blDeployed L) objs"
  have "(case ?D t of None \<Rightarrow> st | Some x \<Rightarrow> sync_type (with_writes (oclCreate CL) u d CL) CMP cr L x st) =
      (case ?D t of None \<Rightarrow> st | Some x \<Rightarrow> sync_type CL CMP cr L x st)"
    using nothing_deployed_deltas [OF assms, of "broker_comparator CMP cr" objs t]
    by (auto simp: delta_of_def sync_type_def split: option.split)
  with Cons show ?case by simp
qed simp

lemma nothing_deployed_resources:
  assumes "object_compare_ok CMP" "\<forall>t. blDeployed L t = []"
  shows "ProcessResources E (with_writes (oclCreate CL) u d CL) CMP cr L s = ProcessResources E CL CMP cr L s"
proof (cases "template_all E cr (beRange E (blRequested L)) (blMatched L)")
  case (Ok x)
  obtain e R M where x: "x = (e, R, M)" by (metis prod_cases3)
  have "\<forall>t. blDeployed (L\<lparr>blRequested := R, blMatched := M\<rparr>) t = []" using assms(2) by simp
  from nothing_deployed_sync [OF assms(1) this, of CL] Ok x show ?thesis
    by (cases e) (simp_all add: ProcessResources_def Let_def)
qed (simp_all add: ProcessResources_def)

section \<open>What is deployed stays as it was listed\<close>

lemma template_deployed:
  "PodTemplateSpecForCR E vars cr current L = (r, L', vars') \<Longrightarrow> blDeployed L' = blDeployed L"
  by (auto simp: PodTemplateSpecForCR_def addResourceForBrokerProperties_def write_back_def Let_def
      split: prod.splits sum.splits option.splits)

lemma set_deployed:
  "StatefulSetForCR E vars cr current L = (r, L', vars') \<Longrightarrow> blDeployed L' = blDeployed L"
  by (auto simp: StatefulSetForCR_def dest!: template_deployed split: prod.splits go_result.splits)

lemma ProcessStatefulSet_deployed:
  "ProcessStatefulSet E vars cr L = (r, L', vars') \<Longrightarrow> blDeployed L' = blDeployed L"
  by (auto simp: ProcessStatefulSet_def dest!: set_deployed split: prod.splits go_result.splits)

lemma request_all_deployed [simp]: "blDeployed (request_all E cr meta spec L) = blDeployed L"
  by (simp add: request_all_def applyPodDisruptionBudget_def Let_def split: option.split)

end
