(* ===== verification/Sample_Broker.thy ===== *)
theory Sample_Broker
  imports Control_Plane_Facts Broker_Sync Cluster_Properties
begin

text \<open>
  A small \<open>Broker\<close> and its surroundings, on which the hypotheses of the properties of the restricted
  broker are shown to be satisfiable: a server that has every secret asked for, certificates that parse,
  a client that does what it is asked and a comparison by equality.
\<close>

section \<open>Surroundings\<close>

text \<open>Every secret exists with a bundle in it; the override of \<open>amq\<close> replaces the login configuration.\<close>

definition sample_secret :: "string \<Rightarrow> string \<Rightarrow> secret" where
  "sample_secret ns n =
     \<lparr>secName = n, secNamespace = ns, secResourceVersion = ''1'', secAnnotations = [],
      secData = (if has_suffix n ''-control-plane-override'' then [(''login.config'', ''own'')]
                 else [(''ca.pem'', ''bundle'')])\<rparr>"

definition full_kube :: cluster_kube where
  "full_kube = sample_cluster_kube\<lparr>ckGetSecret := (\<lambda>ns n. Inr (sample_secret ns n))\<rparr>"

definition sample_os :: env where
  "sample_os v = (if v = ''OPERATOR_NAMESPACE'' then Some ''ops'' else None)"

definition sample_tls :: tls_api where
  "sample_tls = \<lparr>tlX509KeyPair = (\<lambda>c k. Inr c), tlCommonName = (\<lambda>c. Inr ''amq'')\<rparr>"

definition sample_templates :: template_api where
  "sample_templates =
     \<lparr>taParseGroupVersion = (\<lambda>s. ('''', s)), taCompile = (\<lambda>p. Some (\<lambda>n. n = p)),
      taUnmarshal = (\<lambda>s. Inl ''no JSON''), taMergePatch = (\<lambda>obj p. (None, obj))\<rparr>"

definition sample_broker_env :: "unit broker_env" where
  "sample_broker_env =
     \<lparr>beMeta = meta_instance, beOrder = (\<lambda>ks. ks), beCluster = full_kube, beVersions = semver_instance,
      beOs = sample_os, beGoarch = ''amd64'', beOnOpenShift = False, beParseQuantity = (\<lambda>q. None),
      beLoginRegEx = '''', beMatch = (\<lambda>p s. True), beBrokers = sample_brokers, beJson = (\<lambda>d. Inl ''no JSON''),
      beTemplates = sample_templates, beTls = sample_tls, beRange = (\<lambda>rs. rs), beSpare = 1\<rparr>"

definition no_vars :: op_vars where
  "no_vars = \<lparr>operatorCertSecretName = None, operatorCASecretName = None, prometheusCertSecretName = None,
     operatorNameSpaceFromEnv = None\<rparr>"

lemma sample_broker_env_sel [simp]:
  "beMeta sample_broker_env = meta_instance" "beOrder sample_broker_env = (\<lambda>ks. ks)"
  "beCluster sample_broker_env = full_kube" "beVersions sample_broker_env = semver_instance"
  "beOs sample_broker_env = sample_os" "beTemplates sample_broker_env = sample_templates"
  "beTls sample_broker_env = sample_tls" "beRange sample_broker_env = (\<lambda>rs. rs)" "beSpare sample_broker_env = 1"
  "beBrokers sample_broker_env = sample_brokers" "beParseQuantity sample_broker_env = (\<lambda>q. None)"
  "beOnOpenShift sample_broker_env = False" "beJson sample_broker_env = (\<lambda>d. Inl ''no JSON'')"
  by (simp_all add: sample_broker_env_def)

lemma full_kube_sel [simp]:
  "ckGetSecret full_kube ns n = Inr (sample_secret ns n)" "kGetSecret (secret_reader full_kube) ns n = Inr (sample_secret ns n)"
  "ckClusterDomain full_kube = ''cluster.local''" "ckGetStatefulSet full_kube ns n = Inl (NotFound ''not found'')"
  "ckGetPod full_kube ns n = Inr \<lparr>podPhase = ''Running'', podConditions = []\<rparr>"
  by (simp_all add: full_kube_def sample_cluster_kube_def secret_reader_def)

section \<open>The broker\<close>

definition sample_broker_cr :: broker_cr where
  "sample_broker_cr =
     \<lparr>rbKind = ''Broker'', rbAPIVersion = ''broker.arkmq.org/v1beta2'', rbNamespace = ''dev'', rbName = ''amq'',
      rbUID = ''u1'', rbGeneration = 1, rbMetaAnnotations = [], rbImage = '''', rbVersion = '''', rbResources = '''',
      rbEnv = [], rbPersistenceEnabled = False, rbStorageSize = '''', rbStorageClassName = '''',
      rbBrokerProperties = [''a=b''], rbTemplates = [], rbExtraConfigMaps = [], rbExtraSecrets = [],
      rbImagePullSecrets = [], rbLabels = [], rbAnnotations = [], rbNodeSelector = [],
      rbAffinity = \<lparr>afPodAffinity = None, afPodAntiAffinity = None, afNodeAffinity = None\<rparr>, rbTolerations = [],
      rbTopologySpread = [], rbServiceAccountName = None, rbRunAsUser = None, rbPodSecurityContext = None,
      rbContainerSecurityContext = None, rbStartupProbe = None, rbLivenessProbe = None, rbReadinessProbe = None,
      rbEnableMetricsPlugin = None, rbBudget = None, rbRevisionHistoryLimit = None, rbExtraVolumes = [],
      rbExtraVolumeMounts = [], rbExtraClaims = [],
      rbStatus = \<lparr>rsConditions = [], rsPodStatus = no_pods, rsScaleLabelSelector = '''', rsExternalConfigs = [],
        rsVersion = \<lparr>vsImage = '''', vsInitImage = '''', vsBrokerVersion = '''',
          vsUpgrade = \<lparr>SecurityUpdates = False, MajorUpdates = False, MinorUpdates = False, PatchUpdates = False\<rparr>\<rparr>\<rparr>\<rparr>"

definition empty_template :: pod_template where
  "empty_template = \<lparr>ptLabels = [], ptAnnotations = [], ptSpec = empty_pod_spec\<rparr>"

lemma sample_inputs: "\<exists>I vars. collect_inputs sample_broker_env no_vars cr = (Inr I, vars)"
  by (simp add: collect_inputs_def operand_subject_def ca_secret_key_def operator_subject_def prometheus_subject_def
      GetNamespacedSecret_def ExtractCertSubjectFromSecret_def ExtractCertFromSecret_def ExtractCertSubject_def
      GetOperatorCASecret_def GetOperatorCASecretName_def GetOperatorSecretWithFallback_def GetOperatorCASecretKey_def
      FindFirstDotPemKey_def GetOperatorClientCertificate_def GetOperatorClientCertSecret_def GetOperatorCertSecretName_def
      GetOperatorNamespaceFromEnv_def GetPrometheusCertSecretName_def env_or_def fromEnv_def sample_tls_def sample_os_def
      no_vars_def sample_secret_def has_suffix_def Let_def)

text \<open>Every secret can be mounted.\<close>

lemma full_kube_volumes: "\<exists>vs. \<forall>ns p d ss. secret_volumes (ckGetSecret full_kube ns) p d ss = Inr (vs ns p d ss)"
proof -
  let ?K = "\<lambda>ns n. Inr (sample_secret ns n)"
  have vol: "\<exists>vol. secret_volume (?K ns) p d s = Inr vol" for ns p d s
    by (simp add: secret_volume_def Let_def)
  have "\<exists>vs. secret_volumes (?K ns) p d ss = Inr vs" for ns p d ss
  proof (induction ss)
    case (Cons s ss)
    obtain vol where "secret_volume (?K ns) p d s = Inr vol" using vol by blast
    with Cons show ?case by auto
  qed simp
  moreover have "ckGetSecret full_kube ns = ?K ns" for ns by (rule ext) simp
  ultimately show ?thesis by metis
qed

lemma sample_template:
  assumes "rbVersion cr = ''''" "rbExtraSecrets cr = []" "cloneOfDeployed L ConfigMapT (immutable_map_name cr) = None"
    "well_typed L"
  shows "\<exists>t L' vars. PodTemplateSpecForCR sample_broker_env no_vars cr current L = (Ok t, L', vars)"
proof -
  obtain I v where I: "collect_inputs sample_broker_env no_vars cr = (Inr I, v)" using sample_inputs by blast
  obtain obj where a: "addResourceForBrokerProperties cr L =
      (rbName cr @ ''-props'', True, Some (BrokerPropertiesData (rbBrokerProperties cr)), trackDesired L obj)"
    by (rule properties_secret_tracked [OF assms(3,4)])
  obtain ver where v: "ResolveBrokerVersionFromCR semver_instance (broker_image_spec cr) = Inr ver"
    using latest_resolves assms(1) by (fastforce simp: broker_image_spec_def)
  obtain vs where s: "\<And>ns p d ss. secret_volumes (ckGetSecret full_kube ns) p d ss = Inr (vs ns p d ss)"
    using full_kube_volumes by blast
  show ?thesis
    by (simp add: PodTemplateSpecForCR_def a control_plane_def I Let_def applyControlPlaneOverridesForBroker_def
        template_from_def createExtraConfigmapsAndSecretsVolumeMounts_def s DetermineCompactVersionToUse_def v)
qed

lemma fresh_loop [simp]:
  "cloneOfDeployed NewBrokerReconcilerImpl t n = None" "getFromDeployed NewBrokerReconcilerImpl t n = None"
  "well_typed NewBrokerReconcilerImpl" "blDeployed NewBrokerReconcilerImpl t = []"
  by (simp_all add: cloneOfDeployed_def getFromDeployed_def NewBrokerReconcilerImpl_def well_typed_def)

lemma sample_fresh_template:
  obtains t L' vars' where "PodTemplateSpecForCR sample_broker_env no_vars sample_broker_cr empty_template
    NewBrokerReconcilerImpl = (Ok t, L', vars')"
  using sample_template [of sample_broker_cr NewBrokerReconcilerImpl empty_template]
  by (auto simp: sample_broker_cr_def intro: that)

text \<open>A deployed stateful set whose pods are bound to nodes with a label.\<close>

definition placed_set :: sts_spec where
  "placed_set = (snd (new_stateful_set ''amq-ss'' ''amq-hdls-svc'' ''dev'' []))\<lparr>soTemplate :=
     empty_template\<lparr>ptAnnotations := [(''old'', ''x'')], ptSpec := empty_pod_spec\<lparr>spNodeSelector := [(''disk'', ''ssd'')]\<rparr>\<rparr>\<rparr>"

definition placed_object :: k8s_object where
  "placed_object = \<lparr>obMeta = named_meta ''apps'' ''v1'' ''StatefulSet'' ''amq-ss'' ''dev'', obBody = StatefulSetBody placed_set\<rparr>"

definition placed_loop :: broker_loop where
  "placed_loop = NewBrokerReconcilerImpl\<lparr>blDeployed := (\<lambda>t. if t = StatefulSetT then [placed_object] else [])\<rparr>"

lemma placed_loop_sel [simp]:
  "cloneOfDeployed placed_loop StatefulSetT ''amq-ss'' = Some placed_object" "well_typed placed_loop"
  "cloneOfDeployed placed_loop ConfigMapT n = None"
  by (simp_all add: cloneOfDeployed_def getFromDeployed_def placed_loop_def well_typed_def placed_object_def
      object_name_def named_meta_def rtype_of_def)

lemma sample_set:
  assumes "cloneOfDeployed L ConfigMapT (immutable_map_name sample_broker_cr) = None" "well_typed L"
  shows "\<exists>m spec L' vars. ProcessStatefulSet sample_broker_env no_vars sample_broker_cr L = (Ok (m, spec), L', vars)"
proof -
  obtain m0 s0 where m: "MakeStatefulSet (Option.bind (cloneOfDeployed L StatefulSetT (set_name sample_broker_cr)) sts_of)
      (set_name sample_broker_cr) (headless_name sample_broker_cr) (rbNamespace sample_broker_cr) []
      (broker_labels sample_broker_cr) = (m0, s0)" by fastforce
  obtain t L1 v where p: "PodTemplateSpecForCR sample_broker_env no_vars sample_broker_cr (soTemplate s0) L = (Ok t, L1, v)"
    using sample_template [OF _ _ assms, of "soTemplate s0"] by (auto simp: sample_broker_cr_def)
  show ?thesis
    by (simp add: ProcessStatefulSet_def StatefulSetForCR_def m p PersistentVolumeClaimArrayForCR_def claim_templates_def)
      (simp add: sample_broker_cr_def)
qed

lemma sample_broker_accepted:
  "broker_mounts_ok sample_broker_env sample_broker_cr" "rbBudget sample_broker_cr = None"
  "DuplicateKeyIn (rbBrokerProperties sample_broker_cr) = ''''" "\<not> rbPersistenceEnabled sample_broker_cr"
  "\<exists>v. ResolveBrokerVersionFromCR semver_instance (broker_image_spec sample_broker_cr) = Inr v"
  "labels_ok (rbLabels sample_broker_cr # map rtLabels (rbTemplates sample_broker_cr))" "broker_vars_ok sample_broker_cr"
  using latest_resolves [of "broker_image_spec sample_broker_cr"]
  by (simp_all add: sample_broker_cr_def broker_mounts_ok_def labels_ok_def broker_vars_ok_def broker_image_spec_def)
    (simp_all add: DuplicateKeyIn_def)

lemma sample_secrets: "required_secrets_ok sample_broker_env no_vars cr"
  by (simp add: required_secrets_ok_def Let_def GetNamespacedSecret_def GetOperatorClientCertSecret_def
      GetOperatorCertSecretName_def GetOperatorCASecret_def GetOperatorCASecretName_def GetOperatorSecretWithFallback_def
      GetOperatorNamespaceFromEnv_def env_or_def sample_os_def no_vars_def)

text \<open>The same with the stateful set running.\<close>

definition running_env :: "unit broker_env" where
  "running_env = sample_broker_env\<lparr>beCluster := full_kube\<lparr>ckGetStatefulSet := (\<lambda>ns n. Inr
     \<lparr>stsName = n, stsSpecReplicas = Some 1, stsStatusReplicas = 1, stsReadyReplicas = 1\<rparr>)\<rparr>\<rparr>"

section \<open>The client\<close>

type_synonym object_store = "rtype \<times> string \<Rightarrow> k8s_object option"

definition sample_object_client :: "broker_cr \<Rightarrow> (rtype \<Rightarrow> k8s_object list) \<Rightarrow> object_store object_client" where
  "sample_object_client cr objs =
     \<lparr>oclReads = (\<lambda>s. full_kube), oclGetBroker = (\<lambda>s ns n. Inr cr), oclGetClaim = (\<lambda>s ns n. Inl (NotFound ''not found'')),
      oclListAll = (\<lambda>s ts c. Inr objs), oclCreate = (\<lambda>s r. (None, s(okey r := Some r))),
      oclUpdate = (\<lambda>s r. (None, s(okey r := Some r))), oclDelete = (\<lambda>s r. (None, s(okey r := None))),
      oclUpdateStatus = (\<lambda>s c. (None, s))\<rparr>"

definition sample_object_compare :: object_compare where
  "sample_object_compare =
     \<lparr>ocEqualPair = (\<lambda>a b. a = b), ocEqualSpec = (\<lambda>a b. a = b),
      ocDeltas = (\<lambda>equal found requested t.
        (let req = filter (\<lambda>r. rtype_of r = t) requested; names = map object_name (found t)
         in Some \<lparr>odAdded = filter (\<lambda>r. object_name r \<notin> set names) req,
                  odUpdated = filter (\<lambda>r. \<exists>x \<in> set (found t). object_name x = object_name r \<and> \<not> equal t x r) req,
                  odRemoved = filter (\<lambda>x. object_name x \<notin> set (map object_name req)) (found t)\<rparr>))\<rparr>"

lemma sample_object_client_ok: "object_client_ok (\<lambda>s. s) (sample_object_client cr objs)"
  by (simp add: object_client_ok_def object_write_ok_def sample_object_client_def)

lemma sample_never_fails:
  "\<not> delete_fails (sample_object_client cr objs) k" "\<not> update_refused (sample_object_client cr objs) k"
  by (simp_all add: delete_fails_def update_refused_def sample_object_client_def)

lemma sample_object_compare_ok: "object_compare_ok sample_object_compare"
  by (simp add: object_compare_ok_def object_delta_ok_def sample_object_compare_def Let_def)

text \<open>A process of the sample broker, whatever is deployed.\<close>

lemma sample_process:
  assumes "\<And>n. getFromDeployed (NewBrokerReconcilerImpl\<lparr>blDeployed := objs\<rparr>) ConfigMapT n = None" "objs SecretT = []"
    and "well_typed (NewBrokerReconcilerImpl\<lparr>blDeployed := objs\<rparr>)"
  shows "\<exists>L' vars' s'. Process sample_broker_env (sample_object_client sample_broker_cr objs) sample_object_compare no_vars
    sample_broker_cr s = Ok (None, sample_broker_cr, L', vars', s')"
proof -
  let ?CL = "sample_object_client sample_broker_cr objs" and ?L = "NewBrokerReconcilerImpl\<lparr>blDeployed := objs\<rparr>"
  have c: "CurrentDeployedResources sample_broker_env ?CL sample_broker_cr NewBrokerReconcilerImpl s = (?L, s)"
    using assms(2) sample_broker_accepted(4)
    by (simp add: CurrentDeployedResources_def release_claim_def GetDeployedResources_def sample_object_client_def)
  have E: "sample_broker_env\<lparr>beCluster := oclReads ?CL s\<rparr> = sample_broker_env"
    by (simp add: sample_broker_env_def sample_object_client_def)
  obtain m spec L1 v where p: "ProcessStatefulSet sample_broker_env no_vars sample_broker_cr ?L = (Ok (m, spec), L1, v)"
    using sample_set [of ?L] assms by (auto simp: cloneOfDeployed_def)
  have t: "rbTemplates sample_broker_cr = []" by (simp add: sample_broker_cr_def)
  have r: "fst (sync_types ?CL sample_object_compare sample_broker_cr L deltas ts ([], s)) = []" for L deltas ts
    by (subst broker_sync.accepts) (simp_all add: sample_object_client_def)
  obtain L2 s' where "ProcessResources sample_broker_env ?CL sample_object_compare sample_broker_cr
      (request_all sample_broker_env sample_broker_cr m spec L1) s = Ok (None, sample_broker_cr, L2, s')"
    using r by (simp add: ProcessResources_def template_all_none [OF t] Let_def case_prod_beta composite_error_def
        report_unmatched_def unmatched_templates_def t)
  with p show ?thesis by (simp add: Process_def c E)
qed

text \<open>A client that cannot list, and a broker whose reconcile is blocked.\<close>

definition unlisted_client :: "object_store object_client" where
  "unlisted_client = (sample_object_client sample_broker_cr (\<lambda>t. []))\<lparr>oclListAll := (\<lambda>s ts c. Inl ''timeout'')\<rparr>"

definition blocked_broker :: broker_cr where
  "blocked_broker = sample_broker_cr\<lparr>rbMetaAnnotations := [(BlockReconcileAnnotation, ''true'')]\<rparr>"

lemma blocked_broker_blocked: "reconcile_blocked blocked_broker"
  by (simp add: reconcile_blocked_def blocked_broker_def ParseBool_def)

end
