(* ===== verification/Restricted_Properties.thy ===== *)
theory Restricted_Properties
  imports Sample_Broker
begin

text \<open>
  The properties of the controller of a restricted \<open>Broker\<close>: what reaches its pod, where the writes of a
  reconcile lead, when nothing is written, and what its validation and its status mean.
\<close>

section \<open>The pod\<close>

text \<open>
  C16: the content of the secret with the properties.  When the pod template is built, the secret
  \<open>name-props\<close> is requested; under every key it holds the value of the override secret, else that of the
  files of the control plane, else what the broker properties are distributed to.
\<close>

theorem properties_secret_content:
  assumes "PodTemplateSpecForCR E vars cr current L = (Ok t, L', vars')"
    and "well_typed L" "cloneOfDeployed L ConfigMapT (immutable_map_name cr) = None"
    and "override_data (beCluster E) cr = Some ov" "distinct (map fst ov)"
  shows "\<exists>I obj d. collect_inputs E vars cr = (Inr I, vars') \<and>
    getFromDesired L' SecretT (rbName cr @ ''-props'') = Some obj \<and> data_of obj = Some d \<and>
    map_of d = map_of (BrokerPropertiesData (rbBrokerProperties cr)) ++ map_of (early_files cr) ++
      map_of (late_files cr I) ++ map_of ov"
proof -
  obtain obj where a: "addResourceForBrokerProperties cr L =
      (rbName cr @ ''-props'', True, Some (BrokerPropertiesData (rbBrokerProperties cr)), trackDesired L obj)"
    and obj: "rtype_of obj = SecretT" "object_name obj = rbName cr @ ''-props''"
    by (rule properties_secret_tracked [OF assms(3,2)])
  obtain n b data L1 I d where t: "addResourceForBrokerProperties cr L = (n, b, Some data, L1)"
    "control_plane E vars cr data = (Inr I, d, vars')" "L' = write_back b n d L1"
    by (rule template_ok [OF assms(1)])
  with a have L': "L' = write_back True (rbName cr @ ''-props'') d (trackDesired L obj)"
    and cp: "control_plane E vars cr (BrokerPropertiesData (rbBrokerProperties cr)) = (Inr I, d, vars')" by auto
  from control_plane_data [OF cp] assms(4) have d: "collect_inputs E vars cr = (Inr I, vars')"
    "d = put_files ov (put_files (late_files cr I)
      (put_files (early_files cr) (BrokerPropertiesData (rbBrokerProperties cr))))" by auto
  have "getFromDesired L' SecretT (rbName cr @ ''-props'') = Some (set_data d obj)"
    unfolding L' write_back_lookup by (simp add: tracked.lookup_track obj)
  moreover have "map_of d = map_of (BrokerPropertiesData (rbBrokerProperties cr)) ++ map_of (early_files cr) ++
      map_of (late_files cr I) ++ map_of ov"
    using assms(5) by (simp add: d(2) fun_eq_iff over_def map_add_def split: option.split)
  ultimately show ?thesis using d(1) data_of_set [OF obj(1)] by blast
qed

theorem properties_secret_content_witness:
  "\<exists>t L' vars' obj d.
     PodTemplateSpecForCR sample_broker_env no_vars sample_broker_cr empty_template NewBrokerReconcilerImpl = (Ok t, L', vars') \<and>
     getFromDesired L' SecretT ''amq-props'' = Some obj \<and> data_of obj = Some d \<and>
     map_of d ''login.config'' = Some ''own''"
proof -
  have o: "override_data (beCluster sample_broker_env) sample_broker_cr = Some [(''login.config'', ''own'')]"
    by (simp add: override_data_def sample_secret_def has_suffix_def sample_broker_cr_def)
  obtain t L' vars' where p: "PodTemplateSpecForCR sample_broker_env no_vars sample_broker_cr empty_template
      NewBrokerReconcilerImpl = (Ok t, L', vars')" by (rule sample_fresh_template)
  from properties_secret_content [OF p fresh_loop(3,1) o] p show ?thesis by (auto simp: sample_broker_cr_def)
qed

text \<open>
  Every mount of every container names a volume of the pod, whatever the user adds in volumes,
  claims, secrets and config maps.
\<close>

theorem mounts_declared:
  assumes "PodTemplateSpecForCR E vars cr current L = (Ok t, L', vars')" "ct \<in> set (spContainers (ptSpec t))"
  shows "vmName ` set (ctVolumeMounts ct) \<subseteq> vlName ` set (spVolumes (ptSpec t))"
proof -
  obtain n b data L1 I d where t: "template_from E cr I b n d (MakePodTemplateSpec current (pod_labels cr) (rbAnnotations cr)) = Ok t"
    by (rule template_ok [OF assms(1)])
  obtain v x where x: "createExtraConfigmapsAndSecretsVolumeMounts (ckGetSecret (beCluster E) (rbNamespace cr))
       (config_maps_to_mount cr b n) (secrets_to_mount cr b n I) n d = Inr x"
    and t': "t = finish_template E cr I v x (MakePodTemplateSpec current (pod_labels cr) (rbAnnotations cr))"
    by (rule template_from_ok [OF t])
  note f = finished_mounts [of E cr I v x "MakePodTemplateSpec current (pod_labels cr) (rbAnnotations cr)", folded t']
  have "ctVolumeMounts ct \<in> set (map ctVolumeMounts (spContainers (ptSpec t)))" using assms(2) by simp
  then have ct: "ctVolumeMounts ct =
      MakeVolumeMounts (rbName cr) (rbExtraVolumes cr) (rbExtraVolumeMounts cr) (rbExtraClaims cr) @ snd x"
    by (simp add: f(1))
  obtain vols ms where xs: "x = (vols, ms)" by fastforce
  with extra_mount_names x have "vmName ` set (snd x) = vlName ` set (fst x)" by (metis fst_conv list.set_map snd_conv)
  then have "vmName ` set (snd x) \<subseteq> vlName ` set (broker_volumes cr (fst x))" unfolding volume_names by auto
  with own_mounts_declared [of cr "rbExtraVolumeMounts cr" "fst x"] show ?thesis by (simp add: ct f(2) image_Un)
qed

theorem mounts_declared_witness:
  "\<exists>t L' vars'.
     PodTemplateSpecForCR sample_broker_env no_vars sample_broker_cr empty_template NewBrokerReconcilerImpl = (Ok t, L', vars') \<and>
     (\<exists>ct. ct \<in> set (spContainers (ptSpec t)) \<and> vmName ` set (ctVolumeMounts ct) \<subseteq> vlName ` set (spVolumes (ptSpec t)))"
proof -
  obtain t L' vars' where p: "PodTemplateSpecForCR sample_broker_env no_vars sample_broker_cr empty_template
      NewBrokerReconcilerImpl = (Ok t, L', vars')" by (rule sample_fresh_template)
  obtain ct where "ct \<in> set (spContainers (ptSpec t))" by (rule template_container [OF p])
  with mounts_declared [OF p] p show ?thesis by blast
qed

section \<open>What the pod does not follow\<close>

text \<open>
  The user to run as has no effect on the stateful set: the security context of the pod is assigned
  afterwards, from another field.
\<close>

theorem run_as_user_ignored:
  "ProcessStatefulSet E vars (cr\<lparr>rbRunAsUser := u\<rparr>) L = ProcessStatefulSet E vars cr L"
proof -
  have v: "PersistentVolumeClaimArrayForCR E (cr\<lparr>rbRunAsUser := u\<rparr>) cs m = PersistentVolumeClaimArrayForCR E cr cs m"
    for cs m by (rule run_as_claims)
  show ?thesis
    by (simp add: ProcessStatefulSet_def StatefulSetForCR_def run_as_template v run_as_parts set_name_def
        headless_name_def cong: case_congs go_result.case_cong)
qed

text \<open>
  What is taken out of the custom resource stays on the pod.  With no node selector, no tolerations
  and without an annotation, the template keeps those of the deployed set.
\<close>

theorem removed_placement_stays:
  assumes "ProcessStatefulSet E vars cr L = (Ok (m, spec), L', vars')"
    and "cloneOfDeployed L StatefulSetT (set_name cr) = Some obj" "sts_of obj = Some (m0, s0)"
    and "rbNodeSelector cr = []" "rbTolerations cr = []" "k \<notin> fst ` set (rbAnnotations cr)"
  shows "spNodeSelector (ptSpec (soTemplate spec)) = spNodeSelector (ptSpec (soTemplate s0)) \<and>
    spTolerations (ptSpec (soTemplate spec)) = spTolerations (ptSpec (soTemplate s0)) \<and>
    map_of (ptAnnotations (soTemplate spec)) k = map_of (ptAnnotations (soTemplate s0)) k"
proof -
  obtain t L1 vars1 where p: "PodTemplateSpecForCR E vars cr (MakePodTemplateSpec (soTemplate s0) (broker_labels cr) []) L =
      (Ok t, L1, vars1)" and t: "soTemplate spec = t"
    using assms(1-3)
    by (auto simp: ProcessStatefulSet_def StatefulSetForCR_def MakeStatefulSet_def
        split: prod.splits go_result.splits option.splits)
  let ?pts = "MakePodTemplateSpec (MakePodTemplateSpec (soTemplate s0) (broker_labels cr) []) (pod_labels cr) (rbAnnotations cr)"
  obtain n b data I d where f: "template_from E cr I b n d ?pts = Ok t" by (rule template_ok [OF p])
  obtain v x where x: "t = finish_template E cr I v x ?pts" by (rule template_from_ok [OF f])
  have "map_of (ptAnnotations ?pts) k = map_of (ptAnnotations (soTemplate s0)) k"
    using annotations_kept [OF assms(6)] by (simp add: MakePodTemplateSpec_def ApplyAnnotations_def)
  then show ?thesis
    unfolding t x finished_placement(1) [OF assms(4)] finished_placement(2) [OF assms(5)] finished_placement(3)
    by (simp add: MakePodTemplateSpec_def)
qed

theorem removed_placement_stays_witness:
  "\<exists>m spec L' vars'.
     ProcessStatefulSet sample_broker_env no_vars sample_broker_cr placed_loop = (Ok (m, spec), L', vars') \<and>
     rbNodeSelector sample_broker_cr = [] \<and> spNodeSelector (ptSpec (soTemplate spec)) = [(''disk'', ''ssd'')] \<and>
     map_of (ptAnnotations (soTemplate spec)) ''old'' = Some ''x''"
proof -
  obtain m spec L' vars' where p: "ProcessStatefulSet sample_broker_env no_vars sample_broker_cr placed_loop =
      (Ok (m, spec), L', vars')"
    using sample_set [of placed_loop] by auto
  have d: "cloneOfDeployed placed_loop StatefulSetT (set_name sample_broker_cr) = Some placed_object"
    by (simp add: set_name_def Generate_def sample_broker_cr_def)
  have s: "sts_of placed_object = Some (named_meta ''apps'' ''v1'' ''StatefulSet'' ''amq-ss'' ''dev'', placed_set)"
    by (simp add: sts_of_def placed_object_def)
  have "soTemplate placed_set = empty_template\<lparr>ptAnnotations := [(''old'', ''x'')],
      ptSpec := empty_pod_spec\<lparr>spNodeSelector := [(''disk'', ''ssd'')]\<rparr>\<rparr>" by (simp add: placed_set_def)
  with removed_placement_stays [OF p d s, of "''old''"] p show ?thesis by (auto simp: sample_broker_cr_def)
qed

section \<open>Validation\<close>

text \<open>
  C21: the chain of checks of a \<open>Broker\<close> accepts exactly the resources that satisfy a specification
  without an order, and a retry is asked for only when a mount or a secret is not as it should be; then
  the missing secret alone always asks for one.
\<close>

theorem broker_validation_exact:
  assumes "range_ok (beOrder E)" "broker_validate E vars cr = ((cr', valid, retry), vars')"
  shows "(valid \<longleftrightarrow> valid_broker E vars cr) \<and>
    (retry \<longrightarrow> \<not> broker_mounts_ok E cr \<or> \<not> required_secrets_ok E vars cr) \<and>
    (valid_broker_spec E cr \<and> \<not> required_secrets_ok E vars cr \<longrightarrow> retry)"
  using assms(2) broker_chain_accepts [OF assms(1), of vars cr]
    broker_chain_retry(1) [OF assms(1), of vars cr] broker_chain_retry(2) [OF assms(1), of cr vars]
  by (auto simp: broker_validate_def split: prod.splits)

theorem broker_validation_exact_witness:
  "fst (snd (fst (broker_validate sample_broker_env no_vars sample_broker_cr)))"
proof -
  obtain cr' valid retry vars' where v: "broker_validate sample_broker_env no_vars sample_broker_cr = ((cr', valid, retry), vars')"
    by (metis prod_cases3 prod.collapse)
  have "valid_broker sample_broker_env no_vars sample_broker_cr"
    by (simp add: valid_broker_def valid_broker_spec_def sample_broker_accepted sample_secrets)
  with broker_validation_exact [OF _ v] v show ?thesis by (simp add: range_ok_def)
qed

section \<open>Status\<close>

text \<open>
  C23: the checks of a \<open>Broker\<close> refine those of a \<open>BrokerCluster\<close> with one pod: the same conversation with
  the broker, the same conditions and the same retry; and the status of both is written in the same cases.
\<close>

theorem restricted_checks_refine:
  assumes "ckGetPod (beCluster E) (rbNamespace cr) (CrToSS (rbName cr) @ ''-0'') = Inr p" "snEndpoints S = None"
  shows "process_checks (status_env_of E tracked) (cluster_of cr) S = as_cluster (broker_process_checks E tracked cr S) \<and>
    UpdateBrokerClusterCRStatus M (map_sum id status_of_cluster current) update (cluster_of cr) =
      (case UpdateBrokerCRStatus M current (\<lambda>c. update (cluster_of c)) cr of
         (cr', written, err) \<Rightarrow> (cluster_of cr', written, err))"
  using assms by (intro conjI cluster_process_checks cluster_status_write) (auto simp: one_endpoint_def)

theorem restricted_checks_refine_witness:
  "process_checks (status_env_of sample_broker_env (\<lambda>n. None)) (cluster_of sample_broker_cr) (new_session ()) =
     as_cluster (broker_process_checks sample_broker_env (\<lambda>n. None) sample_broker_cr (new_session ()))"
  by (rule restricted_checks_refine [THEN conjunct1]) (simp_all add: new_session_def)

text \<open>
  Ready from end to end.  After the status of a reconcile a \<open>Broker\<close> is ready exactly when the
  reconcile had no error, its stateful set is found with a ready pod, and no condition but the two that
  are computed here is false.
\<close>

theorem restricted_ready_exact:
  assumes M: "meta_ok (beMeta E)" and d: "distinct_types (rbConditions cr)"
    and status: "broker_ProcessStatus E old cr err = (cr1, announced)"
    and written: "UpdateBrokerCRStatus (beMeta E) current upd cr1 = (cr2, wr, failed)"
  shows "IsStatusConditionTrue (beMeta E) (rbConditions cr2) ReadyConditionType \<longleftrightarrow>
    err = None \<and>
    (\<exists>sts. ckGetStatefulSet (beCluster E) (rbNamespace cr) (CrToSS (rbName cr)) = Inr sts \<and> stsReadyReplicas sts \<noteq> 0) \<and>
    (\<forall>c \<in> set (rbConditions cr). cType c \<notin> {DeployedConditionType, ReadyConditionType} \<longrightarrow> cStatus c \<noteq> ConditionFalse)"
proof -
  let ?M = "beMeta E"
  obtain ps ann where up: "broker_updatePodStatus (beCluster E) old cr = (ps, ann)" by fastforce
  then have ready: "length (psReady ps) \<noteq> 0 \<longleftrightarrow> (\<exists>sts. ckGetStatefulSet (beCluster E) (rbNamespace cr) (CrToSS (rbName cr)) =
      Inr sts \<and> stsReadyReplicas sts \<noteq> 0)"
    by (auto simp: broker_updatePodStatus_def Let_def no_pods_def split: sum.splits if_splits)
  define crp where "crp = cr\<lparr>rbStatus := (rbStatus cr)
      \<lparr>rsVersion := broker_updateVersionStatus (beVersions E) (beOs E) (beGoarch E) (broker_image_spec cr),
       rsScaleLabelSelector := broker_updateScaleStatus (beOrder E) cr, rsPodStatus := ps\<rparr>\<rparr>"
  have crp: "rbConditions crp = rbConditions cr" "rsPodStatus (rbStatus crp) = ps" by (simp_all add: crp_def)
  define v where "v = broker_getValidCondition crp"
  define cr3 where "cr3 = broker_SetStatusConditionWithGeneration ?M v crp"
  define dc where "dc = broker_getDeploymentCondition (beCluster E) cr3 (cStatus v \<noteq> ConditionFalse) err"
  have cr1: "cr1 = put_broker_condition ?M dc cr3"
    using status up by (simp add: broker_ProcessStatus_def Let_def v_def cr3_def dc_def crp_def)
  have "distinct_types (rbConditions crp)" using d crp(1) by simp
  note v = valid_or_default [OF this v_def [unfolded broker_getValidCondition_def], unfolded crp(1)]
  let ?v = "v\<lparr>cObservedGeneration := rbGeneration crp\<rparr>"
  have c3: "rbConditions cr3 = SetStatusCondition ?M (rbConditions cr) ?v" "rsPodStatus (rbStatus cr3) = ps"
    using crp by (simp_all add: cr3_def broker_SetStatusConditionWithGeneration_def put_broker_condition_def
        set_broker_conditions_def)
  have dc: "cType dc = DeployedConditionType" "cStatus dc = ConditionTrue \<longleftrightarrow> cStatus v \<noteq> ConditionFalse \<and> err = None \<and>
      length (psReady ps) \<noteq> 0"
    by (auto simp: dc_def broker_getDeploymentCondition_def Let_def c3(2) split: option.split)
  have "rbConditions cr2 = SetReadyCondition ?M (SetStatusCondition ?M (SetStatusCondition ?M (rbConditions cr) ?v) dc)"
    using written by (auto simp: UpdateBrokerCRStatus_def Let_def cr1 put_broker_condition_def set_broker_conditions_def c3(1)
        split: sum.splits if_splits)
  with ready_after_deployment [OF M d, of ?v dc] v dc
  have "IsStatusConditionTrue ?M (rbConditions cr2) ReadyConditionType \<longleftrightarrow> cStatus dc = ConditionTrue \<and>
      (\<forall>c \<in> set (rbConditions cr). cType c \<notin> {DeployedConditionType, ReadyConditionType} \<longrightarrow> cStatus c \<noteq> ConditionFalse)"
    by simp
  moreover have "(\<forall>c \<in> set (rbConditions cr). cType c \<notin> {DeployedConditionType, ReadyConditionType} \<longrightarrow>
      cStatus c \<noteq> ConditionFalse) \<Longrightarrow> cStatus v \<noteq> ConditionFalse" unfolding v(2) by simp
  ultimately show ?thesis by (simp only: dc(2) ready) argo
qed

theorem restricted_ready_exact_witness:
  "\<exists>cr1 announced cr2 wr failed.
     broker_ProcessStatus running_env no_pods sample_broker_cr None = (cr1, announced) \<and>
     UpdateBrokerCRStatus meta_instance (Inr (rbStatus sample_broker_cr)) (\<lambda>cr. None) cr1 = (cr2, wr, failed) \<and>
     IsStatusConditionTrue meta_instance (rbConditions cr2) ReadyConditionType"
proof -
  obtain cr1 ann where s: "broker_ProcessStatus running_env no_pods sample_broker_cr None = (cr1, ann)" by fastforce
  obtain cr2 wr f where u: "UpdateBrokerCRStatus meta_instance (Inr (rbStatus sample_broker_cr)) (\<lambda>cr. None) cr1 = (cr2, wr, f)"
    by (metis prod_cases3)
  have c: "rbConditions sample_broker_cr = []" by (simp add: sample_broker_cr_def)
  have m: "beMeta running_env = meta_instance" by (simp add: running_env_def)
  from restricted_ready_exact [OF _ _ s, of "Inr (rbStatus sample_broker_cr)" "\<lambda>cr. None"] s u c show ?thesis
    by (auto simp: m meta_instance_ok distinct_types_def running_env_def)
qed

section \<open>Writes\<close>



text \<open>
  When the deployed resources cannot be listed the error is only logged, and the reconcile goes on as
  if nothing were deployed: it never updates and never deletes, whatever those calls would do.
\<close>

theorem failed_listing_only_creates:
  assumes "object_compare_ok CMP" "\<not> rbPersistenceEnabled cr" "oclListAll CL s (listed_types (beOnOpenShift E)) cr = Inl err"
  shows "Process E (with_writes (oclCreate CL) u d CL) CMP vars cr s = Process E CL CMP vars cr s"
proof -
  have c: "CurrentDeployedResources E (with_writes (oclCreate CL) u' d' CL) cr NewBrokerReconcilerImpl s =
      (NewBrokerReconcilerImpl\<lparr>blDeployed := (\<lambda>t. [])\<rparr>, s)" for u' d'
    using assms(2,3) by (simp add: CurrentDeployedResources_def release_claim_def GetDeployedResources_def)
  have c0: "CurrentDeployedResources E CL cr NewBrokerReconcilerImpl s = (NewBrokerReconcilerImpl\<lparr>blDeployed := (\<lambda>t. [])\<rparr>, s)"
    using assms(2,3) by (simp add: CurrentDeployedResources_def release_claim_def GetDeployedResources_def)
  obtain r L1 v1 where p: "ProcessStatefulSet (E\<lparr>beCluster := oclReads CL s\<rparr>) vars cr
      (NewBrokerReconcilerImpl\<lparr>blDeployed := (\<lambda>t. [])\<rparr>) = (r, L1, v1)" by (metis prod_cases3)
  have "\<forall>t. blDeployed (request_all E cr m spec L1) t = []" for m spec
    using ProcessStatefulSet_deployed [OF p] by (simp add: request_all_deployed)
  from nothing_deployed_resources [OF assms(1) this, of E CL u d cr] p show ?thesis
    by (cases r) (simp_all add: Process_def c c0 split: prod.split)
qed

theorem failed_listing_only_creates_witness:
  "Process sample_broker_env (with_writes (oclCreate unlisted_client) (\<lambda>s r. (None, s)) (\<lambda>s r. (None, s)) unlisted_client)
       sample_object_compare no_vars sample_broker_cr (\<lambda>k. None) =
     Process sample_broker_env unlisted_client sample_object_compare no_vars sample_broker_cr (\<lambda>k. None)"
  by (rule failed_listing_only_creates) (simp_all add: sample_object_compare_ok unlisted_client_def sample_broker_accepted)

text \<open>
  C26: a reconcile that is blocked by the annotation, or whose resource is not valid, writes nothing but
  the status: its result does not depend on what creating, updating and deleting would do.
\<close>

theorem blocked_or_invalid_writes_status_only:
  assumes "reconcile_blocked cr \<or> \<not> fst (snd (fst (broker_validate (E\<lparr>beCluster := oclReads CL s\<rparr>) vars cr)))"
  shows "reconcile_resource E (with_writes c u d CL) CMP vars lastStatus cr s w =
    reconcile_resource E CL CMP vars lastStatus cr s w"
  using assms by (auto simp: reconcile_resource_def Let_def split: prod.split)

theorem blocked_or_invalid_writes_status_only_witness:
  "reconcile_resource sample_broker_env (with_writes (\<lambda>s r. (None, s(okey r := None))) (\<lambda>s r. (None, s)) (\<lambda>s r. (None, s))
       (sample_object_client blocked_broker (\<lambda>t. []))) sample_object_compare no_vars no_pods blocked_broker (\<lambda>k. None) () =
     reconcile_resource sample_broker_env (sample_object_client blocked_broker (\<lambda>t. [])) sample_object_compare no_vars no_pods
       blocked_broker (\<lambda>k. None) ()"
  by (rule blocked_or_invalid_writes_status_only) (simp add: blocked_broker_blocked)

section \<open>Templates and variables\<close>

text \<open>
  C27: the replacements of the placeholders of a template, one after the other, are one substitution that
  replaces every placeholder where it stands, in every string of a patch and nowhere else.
\<close>

theorem templates_substitute:
  assumes "plain_scope C"
  shows "formatTemplatedObjectForBroker C p = map_strings (substitute (broker_placeholders C)) p \<and>
    formatTemplatedStringForBroker C s = substitute (broker_placeholders C) s"
proof (intro conjI)
  show "formatTemplatedObjectForBroker C p = map_strings (substitute (broker_placeholders C)) p"
    using assms
  proof (induction C p rule: formatTemplatedObjectForBroker.induct)
    case (1 C m)
    then show ?case by (auto simp: case_prod_beta)
  qed (simp_all add: formatTemplatedStringForBroker_substitute)
qed (rule formatTemplatedStringForBroker_substitute [OF assms])

theorem templates_substitute_witness:
  "formatTemplatedObjectForBroker \<lparr>scpName = ''amq'', scpNamespace = ''dev'', scpOrdinal = ''0'', scpItem = ''x'', scpType = ''svc''\<rparr>
     (PatchMap [(''a'', PatchString ''$(CR_NAME)-$(RES_TYPE)'')]) = PatchMap [(''a'', PatchString ''amq-svc'')]"
proof -
  let ?C = "\<lparr>scpName = ''amq'', scpNamespace = ''dev'', scpOrdinal = ''0'', scpItem = ''x'', scpType = ''svc''\<rparr>"
  have "plain_scope ?C"
    by (simp add: plain_scope_def broker_placeholders_def plain_value_def placeholder_char_def)
  from templates_substitute [OF this, of "PatchMap [(''a'', PatchString ''$(CR_NAME)-$(RES_TYPE)'')]"]
  show ?thesis by (simp add: broker_placeholders_def placeholder_at_def)
qed

text \<open>
  the variables of a custom resource.  While those that are not generated fit into the spare capacity
  of the slice, a generated variable has the last value given for it, and the others follow in order.
\<close>

theorem custom_env_merged:
  assumes "length (new_vars (generated_env cr) (rbEnv cr)) \<le> spare"
  shows "MakeEnvVarArrayForCRForBroker spare cr =
    overridden (generated_env cr) (rbEnv cr) @ new_vars (generated_env cr) (rbEnv cr)"
  using assms
  by (simp add: MakeEnvVarArrayForCRForBroker_def ReplaceOrAppend_def replace_or_append_in_place set_values_overridden
      distinct_generated)

theorem custom_env_merged_witness:
  "\<exists>v. find_var (MakeEnvVarArrayForCRForBroker 0 (sample_broker_cr\<lparr>rbEnv := [plain_var (''AMQ_ROLE'', ''user'')]\<rparr>)) ''AMQ_ROLE'' = Some v \<and>
     evValue v = ''user''"
proof -
  let ?cr = "sample_broker_cr\<lparr>rbEnv := [plain_var (''AMQ_ROLE'', ''user'')]\<rparr>"
  have n: "new_vars (generated_env ?cr) (rbEnv ?cr) = []"
    by (simp add: new_vars_def plain_var_def generated_env_def AddEnvVarForBasic_def)
  then have "length (new_vars (generated_env ?cr) (rbEnv ?cr)) \<le> 0" by simp
  from custom_env_merged [OF this] show ?thesis
    by (simp add: n overridden_def generated_env_def AddEnvVarForBasic_def plain_var_def find_var_def)
qed

text \<open>
  The first variable that does not fit moves the result to a new array, and every later override of a
  generated variable is lost: the value the custom resource gives does not reach the container.
\<close>

theorem custom_env_lost:
  assumes "rbEnv cr = pre @ e # post" "length (new_vars (generated_env cr) pre) = spare"
    and "evName e \<notin> evName ` set (generated_env cr)"
  shows "MakeEnvVarArrayForCRForBroker spare cr =
    overridden (generated_env cr) pre @ new_vars (generated_env cr) (rbEnv cr)"
proof -
  have n: "new_vars src (pre @ e # post) = new_vars src pre @ new_vars src [e] @ new_vars src post" for src
    by (simp add: new_vars_def)
  have "new_vars (generated_env cr) [e] = [e]" using assms(3) by (simp add: new_vars_def)
  with replace_or_append_grown [of "[]" "generated_env cr" pre spare e post] assms(2,3)
  show ?thesis
    by (simp add: MakeEnvVarArrayForCRForBroker_def ReplaceOrAppend_def assms(1) n set_values_overridden distinct_generated)
qed

theorem custom_env_lost_witness:
  "\<exists>v. find_var (MakeEnvVarArrayForCRForBroker 0 (sample_broker_cr\<lparr>rbEnv :=
      [plain_var (''MINE'', ''x''), plain_var (''AMQ_ROLE'', ''user'')]\<rparr>)) ''AMQ_ROLE'' = Some v \<and> evValue v = ''admin''"
proof -
  let ?vs = "[plain_var (''MINE'', ''x''), plain_var (''AMQ_ROLE'', ''user'')]"
  let ?cr = "sample_broker_cr\<lparr>rbEnv := ?vs\<rparr>"
  have m: "evName (plain_var (''MINE'', ''x'')) \<notin> evName ` set (generated_env ?cr)"
    by (simp add: plain_var_def generated_env_def AddEnvVarForBasic_def AddEnvVarForPersistent_def AddEnvVarForCluster_def
        AddEnvVarForJolokia_def AddEnvVarForManagement_def AddEnvVarForMetricsPlugin_def sample_broker_cr_def)
  have "rbEnv ?cr = [] @ plain_var (''MINE'', ''x'') # [plain_var (''AMQ_ROLE'', ''user'')]"
    "length (new_vars (generated_env ?cr) []) = 0" by (simp_all add: new_vars_def)
  from custom_env_lost [OF this m] show ?thesis
    by (simp add: overridden_def generated_env_def AddEnvVarForBasic_def plain_var_def find_var_def)
qed

end
