(* ===== verification/Security_Config.thy ===== *)
theory Security_Config
  imports Environments
begin

text \<open>
  The deprecated security resource (\<open>activemqartemissecurity_controller.go\<close>) and the registry of its handlers
  (\<open>activemqartemis_controller.go\<close>): a handler applies to brokers of its namespace by name, and adds commands
  and variables to the init container of a broker it applies to.
\<close>

text \<open>The name of the resource, the namespace it is registered under, and the brokers it names.\<close>

record security_handler =
  shName :: string
  shNamespace :: string
  shApplyTo :: "string list"

abbreviation GetCRName :: "security_handler \<Rightarrow> string" where
  "GetCRName h \<equiv> shName h"

definition IsApplicableFor :: "security_handler \<Rightarrow> string \<times> string \<Rightarrow> bool" where
  "IsApplicableFor h broker \<longleftrightarrow>
     shNamespace h = fst broker \<and>
     (shApplyTo h = [] \<or> list_ex (\<lambda>crName. crName = ''*'' \<or> crName = '''' \<or> crName = snd broker) (shApplyTo h))"

text \<open>The registry is a map; the list holds its handlers in the order of the range.\<close>

definition GetBrokerConfigHandler :: "security_handler list \<Rightarrow> string \<times> string \<Rightarrow> security_handler option" where
  "GetBrokerConfigHandler handlers broker = List.find (\<lambda>h. IsApplicableFor h broker) handlers"

definition security_volume_name :: "security_handler \<Rightarrow> string" where
  "security_volume_name h = ''secret-security-'' @ GetCRName h"

definition security_file :: "string \<Rightarrow> string" where
  "security_file outputDirRoot = outputDirRoot @ ''/security/security-config.yaml''"

definition security_commands :: "security_handler \<Rightarrow> string \<Rightarrow> string list" where
  "security_commands h outputDirRoot =
     (let outputDir = outputDirRoot @ ''/security''
      in [''echo '' @ [CHR 0x22] @ ''making dir '' @ outputDir @ [CHR 0x22], ''mkdir -p '' @ outputDir,
          ''cp /etc/'' @ security_volume_name h @ ''-volume/Data '' @ security_file outputDirRoot,
          ''/opt/amq-broker/script/cfg/config-security.sh''])"

definition Config ::
  "security_handler \<Rightarrow> container list \<Rightarrow> string \<Rightarrow> string \<Rightarrow> string \<Rightarrow> string list \<times> container list" where
  "Config h initContainers outputDirRoot yacfgProfileVersion yacfgProfileName =
     (security_commands h outputDirRoot,
      Create_env (plain_var (''YACFG_PROFILE_NAME'', yacfgProfileName))
        (Create_env (plain_var (''YACFG_PROFILE_VERSION'', yacfgProfileVersion))
          (Create_env (plain_var (''SECURITY_CFG_YAML'', security_file outputDirRoot)) initContainers)))"

end
