(* ===== verification/Cluster_Exposure.thy ===== *)
theory Cluster_Exposure
  imports Broker_Reconcile Security_Config
begin

text \<open>
  How the brokers of a \<open>BrokerCluster\<close> are reached: for every ordinal a service per acceptor, per connector
  and for the console, and where it is asked for an ingress or a route (\<open>brokercluster_reconciler.go\<close>,
  \<open>pkg/resources/ingresses\<close>, \<open>pkg/resources/routes\<close>).
\<close>

section \<open>The surroundings of a reconcile of a cluster\<close>

text \<open>
  What the reconcile of a \<open>Broker\<close> has, and the read of an object by type, namespace and name, the random
  strings it asks for by their position, and the registered handlers of security resources in the order the
  range over their map has.
\<close>

record 'w cluster_env =
  ceBase :: "'w broker_env"
  ceGetObject :: "rtype \<Rightarrow> string \<Rightarrow> string \<Rightarrow> api_error + k8s_object"
  ceRandom :: "nat \<Rightarrow> string"
  ceHandlers :: "security_handler list"

section \<open>Names (MakeNamers)\<close>

definition cluster_set_name :: "broker_cluster \<Rightarrow> string" where
  "cluster_set_name cr = Generate '''' (bcName cr) ''ss''"

definition cluster_headless_name :: "broker_cluster \<Rightarrow> string" where
  "cluster_headless_name cr = Generate (bcName cr) ''hdls'' ''svc''"

definition ping_name :: "broker_cluster \<Rightarrow> string" where
  "ping_name cr = Generate (bcName cr) ''ping'' ''svc''"

definition credentials_name :: "broker_cluster \<Rightarrow> string" where
  "credentials_name cr = Generate (bcName cr) ''credentials'' ''secret''"

definition netty_name :: "broker_cluster \<Rightarrow> string" where
  "netty_name cr = Generate (bcName cr) ''netty'' ''secret''"

definition console_secret_name :: "broker_cluster \<Rightarrow> string" where
  "console_secret_name cr =
     (if csoleSSLSecret (bcConsole cr) \<noteq> '''' then csoleSSLSecret (bcConsole cr)
      else Generate (bcName cr) ''console'' ''secret'')"

definition cluster_labels :: "broker_cluster \<Rightarrow> labels" where
  "cluster_labels cr = [(''application'', bcName cr @ ''-app''), (''ActiveMQArtemis'', bcName cr)]"

definition global_data_path :: "broker_cluster \<Rightarrow> string" where
  "global_data_path cr = ''/opt/'' @ bcName cr @ ''/data''"

section \<open>Ingresses and routes\<close>

definition ingress_of :: "k8s_object \<Rightarrow> (object_meta \<times> ingress_spec) option" where
  "ingress_of obj = (case obBody obj of IngressBody s \<Rightarrow> Some (obMeta obj, s) | _ \<Rightarrow> None)"

definition route_of :: "k8s_object \<Rightarrow> (object_meta \<times> route_spec) option" where
  "route_of obj = (case obBody obj of RouteBody s \<Rightarrow> Some (obMeta obj, s) | _ \<Rightarrow> None)"

definition new_ingress :: "object_meta \<times> ingress_spec" where
  "new_ingress = (named_meta ''networking.k8s.io'' ''v1'' ''Ingress'' '''' '''',
     \<lparr>igRules = [], igTLS = [], igOther = ''''\<rparr>)"

definition new_route :: "object_meta \<times> route_spec" where
  "new_route = (named_meta '''' ''v1'' ''Route'' '''' '''',
     \<lparr>ruHost = '''', ruTargetPort = None, ruToKind = '''', ruToName = '''', ruTLS = None, ruOther = ''''\<rparr>)"

text \<open>\<open>IntValue\<close> of a text: the number it is, and zero when it is none; zero means the port has a name.\<close>

definition port_of_name :: "string \<Rightarrow> backend_port" where
  "port_of_name targetPortName =
     (case atoi targetPortName of
        Some n \<Rightarrow> if n = 0 then PortName targetPortName else PortNumber (word_of_int n)
      | None \<Rightarrow> PortName targetPortName)"

definition exposed_host :: "string \<Rightarrow> string \<Rightarrow> string \<Rightarrow> string \<Rightarrow> string \<Rightarrow> string" where
  "exposed_host name namespace domain brokerHost default' =
     (if brokerHost \<noteq> '''' then brokerHost
      else if domain \<noteq> '''' then name @ ''-'' @ namespace @ ''.'' @ domain
      else default')"

text \<open>Without TLS, the annotation and the hosts of an existing ingress are left as they are.\<close>

definition NewIngressForCRWithSSL ::
  "(object_meta \<times> ingress_spec) option \<Rightarrow> string \<Rightarrow> labels \<Rightarrow> string \<Rightarrow> string \<Rightarrow> bool \<Rightarrow> string \<Rightarrow> string \<Rightarrow>
     bool \<Rightarrow> object_meta \<times> ingress_spec" where
  "NewIngressForCRWithSSL existing namespace ls targetServiceName targetPortName sslEnabled domain brokerHost isOpenshift =
     (case (case existing of Some i \<Rightarrow> i | None \<Rightarrow> new_ingress) of (m0, spec) \<Rightarrow>
        (let m = m0\<lparr>omLabels := ls, omName := targetServiceName @ ''-ing'', omNamespace := namespace\<rparr>;
             host = exposed_host (omName m) namespace domain brokerHost '''';
             specific = sslEnabled \<and> isOpenshift;
             path = \<lparr>ipPath = (if specific then '''' else ''/''),
               ipPathType = (if specific then ''ImplementationSpecific'' else ''Prefix''),
               ipService = targetServiceName, ipPort = port_of_name targetPortName\<rparr>;
             spec1 = spec\<lparr>igRules := [\<lparr>irHost = host, irPaths = [path]\<rparr>]\<rparr>
         in if \<not> sslEnabled then (m, spec1)
            else if isOpenshift
            then (m\<lparr>omAnnotations := AList.update ''route.openshift.io/termination'' ''passthrough'' (omAnnotations m)\<rparr>,
                  spec1)
            else (m\<lparr>omAnnotations :=
                     AList.update ''nginx.ingress.kubernetes.io/ssl-passthrough'' ''true'' (omAnnotations m)\<rparr>,
                  spec1\<lparr>igTLS := [[host]]\<rparr>)))"

definition NewRouteDefinitionForCR ::
  "(object_meta \<times> route_spec) option \<Rightarrow> string \<Rightarrow> labels \<Rightarrow> string \<Rightarrow> string \<Rightarrow> bool \<Rightarrow> string \<Rightarrow> string \<Rightarrow>
     object_meta \<times> route_spec" where
  "NewRouteDefinitionForCR existing namespace ls targetServiceName targetPortName passthroughTLS domain brokerHost =
     (case (case existing of Some r \<Rightarrow> r | None \<Rightarrow> new_route) of (m0, spec) \<Rightarrow>
        (let m = m0\<lparr>omLabels := ls, omName := targetServiceName @ ''-rte'', omNamespace := namespace\<rparr>
         in (m, spec\<lparr>ruHost := exposed_host (omName m) namespace domain brokerHost (ruHost spec),
                     ruTargetPort := Some (PortName targetPortName), ruToKind := ''Service'',
                     ruToName := targetServiceName,
                     ruTLS := (if passthroughTLS then Some (''passthrough'', ''None'') else None)\<rparr>)))"

section \<open>Services\<close>

definition ServiceDefinitionForCR ::
  "string \<Rightarrow> string \<Rightarrow> string \<Rightarrow> int32 \<Rightarrow> labels \<Rightarrow> labels \<Rightarrow> broker_loop \<Rightarrow> object_meta \<times> service_spec" where
  "ServiceDefinitionForCR namespace serviceName nameSuffix portNumber selectorLabels ls L =
     NewServiceDefinitionForCR namespace serviceName nameSuffix portNumber selectorLabels ls
       (Option.bind (cloneOfDeployed L ServiceT serviceName) service_of)"

definition NewPingServiceDefinitionForCR2 ::
  "string \<Rightarrow> string \<Rightarrow> labels \<Rightarrow> labels \<Rightarrow> (object_meta \<times> service_spec) option \<Rightarrow> object_meta \<times> service_spec" where
  "NewPingServiceDefinitionForCR2 serviceName namespace ls selectorLabels svc =
     (case (case svc of Some s \<Rightarrow> s | None \<Rightarrow> new_service) of (m, spec) \<Rightarrow>
        (m\<lparr>omLabels := ls, omName := serviceName, omNamespace := namespace\<rparr>,
         spec\<lparr>sePorts := [tcp_port '''' 8888 None], seSelector := selectorLabels, seType := ''ClusterIP'',
              seClusterIP := ''None'', sePublishNotReady := True\<rparr>))"

definition cluster_SetOwnerAndController :: "broker_cluster \<Rightarrow> k8s_object \<Rightarrow> k8s_object" where
  "cluster_SetOwnerAndController cr obj =
     obj\<lparr>obMeta := (obMeta obj)\<lparr>omOwners :=
       [\<lparr>orAPIVersion = bcAPIVersion cr, orKind = bcKind cr, orName = bcName cr, orUID = bcUID cr\<rparr>]\<rparr>\<rparr>"

text \<open>The existing object is given its owner, and the candidate what an update of it needs.\<close>

definition updateOwnerReferencesAndMatchVersion ::
  "broker_cluster \<Rightarrow> k8s_object \<Rightarrow> k8s_object \<Rightarrow> k8s_object \<times> k8s_object" where
  "updateOwnerReferencesAndMatchVersion cr existing candidate =
     (let existing' = cluster_SetOwnerAndController cr existing; m = obMeta existing'
      in (existing', candidate\<lparr>obMeta := (obMeta candidate)\<lparr>omOwners := omOwners m,
            omResourceVersion := omResourceVersion m, omUID := omUID m\<rparr>\<rparr>))"

definition addToDeployed :: "rtype \<Rightarrow> k8s_object \<Rightarrow> broker_loop \<Rightarrow> broker_loop" where
  "addToDeployed kind obj L = L\<lparr>blDeployed := (blDeployed L)(kind := blDeployed L kind @ [obj])\<rparr>"

text \<open>An object of that name with no owner is adopted; one that belongs to something else is left alone.\<close>

definition adopt ::
  "rtype \<Rightarrow> 'w cluster_env \<Rightarrow> broker_cluster \<Rightarrow> k8s_object \<Rightarrow> broker_loop \<Rightarrow> k8s_object \<times> broker_loop" where
  "adopt kind E cr candidate L =
     (case ceGetObject E kind (omNamespace (obMeta candidate)) (object_name candidate) of
        Inl err \<Rightarrow> (candidate, L)
      | Inr existing \<Rightarrow>
          (if omOwners (obMeta existing) = []
           then (case updateOwnerReferencesAndMatchVersion cr existing candidate of
                   (existing', candidate') \<Rightarrow> (candidate', addToDeployed kind existing' L))
           else (candidate, L)))"

definition checkExistingService ::
  "'w cluster_env \<Rightarrow> broker_cluster \<Rightarrow> k8s_object \<Rightarrow> broker_loop \<Rightarrow> k8s_object \<times> broker_loop" where
  "checkExistingService E cr candidate L =
     (case getFromDeployed L ServiceT (object_name candidate) of
        Some obj \<Rightarrow> (candidate, L)
      | None \<Rightarrow> adopt ServiceT E cr candidate L)"

definition adoptExistingSecretWithNoOwnerRefForUpdate ::
  "'w cluster_env \<Rightarrow> broker_cluster \<Rightarrow> k8s_object \<Rightarrow> broker_loop \<Rightarrow> k8s_object \<times> broker_loop" where
  "adoptExistingSecretWithNoOwnerRefForUpdate E cr candidate L = adopt SecretT E cr candidate L"

section \<open>Exposure\<close>

definition expose_with_route :: "'w cluster_env \<Rightarrow> string option \<Rightarrow> bool" where
  "expose_with_route E exposeMode \<longleftrightarrow>
     (case exposeMode of None \<Rightarrow> beOnOpenShift (ceBase E) | Some m \<Rightarrow> m = ExposeRoute)"

definition exposure_scope :: "broker_cluster \<Rightarrow> string \<Rightarrow> string \<Rightarrow> string \<Rightarrow> template_scope" where
  "exposure_scope cr ordinal itemName resType =
     \<lparr>scpName = bcName cr, scpNamespace = bcNamespace cr, scpOrdinal = ordinal, scpItem = itemName, scpType = resType\<rparr>"

definition exposed_as_route ::
  "broker_cluster \<Rightarrow> labels \<Rightarrow> bool \<Rightarrow> string \<Rightarrow> string \<Rightarrow> string \<Rightarrow> string \<Rightarrow> string \<Rightarrow> broker_loop \<Rightarrow> k8s_object" where
  "exposed_as_route cr ls tls ingressHost ordinal itemName targetServiceName targetPortName L =
     (case NewRouteDefinitionForCR (Option.bind (cloneOfDeployed L RouteT (targetServiceName @ ''-rte'')) route_of)
             (bcNamespace cr) ls targetServiceName targetPortName tls (bcIngressDomain cr)
             (formatTemplatedString (exposure_scope cr ordinal itemName ''rte'') (bcIngressDomain cr) ingressHost) of
        (m, spec) \<Rightarrow> \<lparr>obMeta = m, obBody = RouteBody spec\<rparr>)"

definition exposed_as_ingress ::
  "'w cluster_env \<Rightarrow> broker_cluster \<Rightarrow> labels \<Rightarrow> bool \<Rightarrow> string \<Rightarrow> string \<Rightarrow> string \<Rightarrow> string \<Rightarrow> string \<Rightarrow> broker_loop \<Rightarrow>
     k8s_object" where
  "exposed_as_ingress E cr ls tls ingressHost ordinal itemName targetServiceName targetPortName L =
     (case NewIngressForCRWithSSL (Option.bind (cloneOfDeployed L IngressT (targetServiceName @ ''-ing'')) ingress_of)
             (bcNamespace cr) ls targetServiceName targetPortName tls (bcIngressDomain cr)
             (formatTemplatedString (exposure_scope cr ordinal itemName ''ing'') (bcIngressDomain cr) ingressHost)
             (beOnOpenShift (ceBase E)) of
        (m, spec) \<Rightarrow> \<lparr>obMeta = m, obBody = IngressBody spec\<rparr>)"

definition ExposureDefinitionForCR ::
  "'w cluster_env \<Rightarrow> broker_cluster \<Rightarrow> labels \<Rightarrow> bool \<Rightarrow> string \<Rightarrow> string \<Rightarrow> string \<Rightarrow> string option \<Rightarrow> broker_loop \<Rightarrow>
     k8s_object" where
  "ExposureDefinitionForCR E cr ls tls ingressHost ordinal itemName exposeMode L =
     (let targetPortName = itemName @ ''-'' @ ordinal;
          targetServiceName = bcName cr @ ''-'' @ targetPortName @ ''-svc''
      in if expose_with_route E exposeMode
         then exposed_as_route cr ls tls ingressHost ordinal itemName targetServiceName targetPortName L
         else exposed_as_ingress E cr ls tls ingressHost ordinal itemName targetServiceName targetPortName L)"

definition ordinal_labels :: "broker_cluster \<Rightarrow> nat \<Rightarrow> labels" where
  "ordinal_labels cr i =
     AList.update PodNameLabelKey (cluster_set_name cr @ ''-'' @ itoa (int i)) (cluster_labels cr)"

text \<open>What acceptors and connectors have in common for the loops over them.\<close>

record endpoint =
  epName :: string
  epPort :: int32
  epExpose :: bool
  epTLS :: bool
  epHost :: string
  epMode :: "string option"

definition acceptor_endpoint :: "acceptor \<Rightarrow> endpoint" where
  "acceptor_endpoint a = \<lparr>epName = accName a, epPort = accPort a, epExpose = accExpose a, epTLS = accSSLEnabled a,
     epHost = accIngressHost a, epMode = accExposeMode a\<rparr>"

definition connector_endpoint :: "connector \<Rightarrow> endpoint" where
  "connector_endpoint c = \<lparr>epName = conName c, epPort = conPort c, epExpose = conExpose c, epTLS = conSSLEnabled c,
     epHost = conIngressHost c, epMode = conExposeMode c\<rparr>"

definition service_name :: "broker_cluster \<Rightarrow> string \<Rightarrow> nat \<Rightarrow> string" where
  "service_name cr item i = bcName cr @ ''-'' @ item @ ''-'' @ itoa (int i) @ ''-svc''"

definition expose_endpoint ::
  "'w cluster_env \<Rightarrow> broker_cluster \<Rightarrow> nat \<Rightarrow> broker_loop \<Rightarrow> endpoint \<Rightarrow> broker_loop" where
  "expose_endpoint E cr i L e =
     (let ls = ordinal_labels cr i;
          svc = service_object (ServiceDefinitionForCR (bcNamespace cr) (service_name cr (epName e) i)
                  (epName e @ ''-'' @ itoa (int i)) (epPort e) ls (cluster_labels cr) L)
      in case checkExistingService E cr svc L of
           (svc', L1) \<Rightarrow>
             (let L2 = trackDesired L1 svc'
              in if epExpose e
                 then trackDesired L2 (ExposureDefinitionForCR E cr ls (epTLS e) (epHost e) (itoa (int i)) (epName e)
                        (epMode e) L2)
                 else L2))"

definition cluster_ordinals :: "broker_cluster \<Rightarrow> nat list" where
  "cluster_ordinals cr = [0..<nat (sint (GetDeploymentSize cr))]"

definition expose_endpoints ::
  "'w cluster_env \<Rightarrow> broker_cluster \<Rightarrow> endpoint list \<Rightarrow> broker_loop \<Rightarrow> broker_loop" where
  "expose_endpoints E cr es L =
     foldl (\<lambda>L1 i. foldl (expose_endpoint E cr i) L1 es) L (cluster_ordinals cr)"

definition configureAcceptorsExposure :: "'w cluster_env \<Rightarrow> broker_cluster \<Rightarrow> broker_loop \<Rightarrow> broker_loop" where
  "configureAcceptorsExposure E cr L = expose_endpoints E cr (map acceptor_endpoint (bcAcceptors cr)) L"

definition configureConnectorsExposure :: "'w cluster_env \<Rightarrow> broker_cluster \<Rightarrow> broker_loop \<Rightarrow> broker_loop" where
  "configureConnectorsExposure E cr L = expose_endpoints E cr (map connector_endpoint (bcConnectors cr)) L"

section \<open>The console\<close>

definition console_name :: "broker_cluster \<Rightarrow> string" where
  "console_name cr = (if csoleName (bcConsole cr) = '''' then ''wconsj'' else csoleName (bcConsole cr))"

text \<open>The service of the console has a second port, whose target is the first.\<close>

definition console_service :: "broker_cluster \<Rightarrow> nat \<Rightarrow> broker_loop \<Rightarrow> k8s_object" where
  "console_service cr i L =
     (case ServiceDefinitionForCR (bcNamespace cr) (service_name cr (console_name cr) i) (console_name cr) 8161
             (ordinal_labels cr i) (cluster_labels cr) L of
        (m, spec) \<Rightarrow> service_object (m, spec\<lparr>sePorts := sePorts spec @
          [\<lparr>svpName = console_name cr @ ''-'' @ itoa (int i), svpPort = 8162, svpTargetPort = 8161,
            svpAppProtocol = None\<rparr>]\<rparr>))"

definition expose_console :: "'w cluster_env \<Rightarrow> broker_cluster \<Rightarrow> broker_loop \<Rightarrow> nat \<Rightarrow> broker_loop" where
  "expose_console E cr L i =
     (let co = bcConsole cr; svc = console_service cr i L
      in if csoleExpose co
         then (case checkExistingService E cr svc L of
                 (svc', L1) \<Rightarrow>
                   (let L2 = trackDesired L1 svc'
                    in trackDesired L2 (ExposureDefinitionForCR E cr (ordinal_labels cr i) (csoleSSLEnabled co)
                         (csoleIngressHost co) (itoa (int i)) (console_name cr) (csoleExposeMode co) L2)))
         else L)"

definition configureConsoleExposure :: "'w cluster_env \<Rightarrow> broker_cluster \<Rightarrow> broker_loop \<Rightarrow> broker_loop" where
  "configureConsoleExposure E cr L = foldl (expose_console E cr) L (cluster_ordinals cr)"

end
