(* ===== verification/Cluster_Templates.thy ===== *)
theory Cluster_Templates
  imports Cluster_Exposure
begin

text \<open>
  The resource templates of a \<open>BrokerCluster\<close> (\<open>brokercluster_reconciler.go\<close>): as those of a \<open>Broker\<close>, with one more
  placeholder, the domain of its ingresses.
\<close>

record cluster_scope =
  csScope :: template_scope
  csIngressDomain :: string

definition cluster_format :: "cluster_scope \<Rightarrow> string \<Rightarrow> string" where
  "cluster_format C template = formatTemplatedString (csScope C) (csIngressDomain C) template"

fun formatTemplatedObject :: "cluster_scope \<Rightarrow> patch_value \<Rightarrow> patch_value" where
  "formatTemplatedObject C (PatchMap m) = PatchMap (map (\<lambda>(k, v). (k, formatTemplatedObject C v)) m)"
| "formatTemplatedObject C (PatchArray vs) = PatchArray (map (formatTemplatedObject C) vs)"
| "formatTemplatedObject C (PatchString s) = PatchString (cluster_format C s)"
| "formatTemplatedObject C (PatchScalar s) = PatchScalar s"

definition cluster_applyFormattedKeyValue :: "cluster_scope \<Rightarrow> string \<Rightarrow> string \<Rightarrow> data_map \<Rightarrow> data_map" where
  "cluster_applyFormattedKeyValue C key value collection =
     (let formattedKey = cluster_format C key
      in if value = RemoveKeySpecialValue then AList.delete formattedKey collection
         else AList.update formattedKey (cluster_format C value) collection)"

definition cluster_apply_entries :: "range_order \<Rightarrow> cluster_scope \<Rightarrow> data_map \<Rightarrow> data_map \<Rightarrow> data_map" where
  "cluster_apply_entries ord C entries existing =
     foldl (\<lambda>m key. cluster_applyFormattedKeyValue C key (case map_of entries key of Some v \<Rightarrow> v | None \<Rightarrow> '''') m)
       existing (ord (map fst entries))"

definition cluster_scope_of :: "broker_cluster \<Rightarrow> k8s_object \<Rightarrow> cluster_scope" where
  "cluster_scope_of cr target =
     \<lparr>csScope = exposure_scope cr (extractOrdinal target) (extractItemName target) (extractResType target),
      csIngressDomain = bcIngressDomain cr\<rparr>"

definition cluster_apply_metadata ::
  "range_order \<Rightarrow> broker_cluster \<Rightarrow> resource_template \<Rightarrow> k8s_object \<Rightarrow> k8s_object" where
  "cluster_apply_metadata ord cr template target =
     (let C = cluster_scope_of cr target; meta = obMeta target;
          as = (if length (rtAnnotations template) > 0
                then cluster_apply_entries ord C (rtAnnotations template) (omAnnotations meta) else omAnnotations meta);
          ls = (if length (rtLabels template) > 0
                then cluster_apply_entries ord C (rtLabels template) (omLabels meta) else omLabels meta)
      in target\<lparr>obMeta := meta\<lparr>omAnnotations := as, omLabels := ls\<rparr>\<rparr>)"

definition cluster_apply_patch ::
  "template_api \<Rightarrow> cluster_scope \<Rightarrow> nat \<Rightarrow> string \<Rightarrow> k8s_object \<Rightarrow> string option \<times> k8s_object" where
  "cluster_apply_patch T C index raw target =
     (if length raw > 0
      then (case taUnmarshal T raw of
              Inl err \<Rightarrow> (Some (''error unmarshalling patch from template['' @ itoa (int index) @ ''], got '' @ err), target)
            | Inr patchMap \<Rightarrow>
                (case taMergePatch T target (map (\<lambda>(k, v). (k, formatTemplatedObject C v)) patchMap) of
                   (None, target') \<Rightarrow> (None, target')
                 | (Some err, target') \<Rightarrow>
                     (Some (''error applying strategic merge patch from template['' @ itoa (int index) @ ''] to '' @
                            object_name target' @ '', got '' @ err), target')))
      else (None, target))"

definition cluster_applyTemplate ::
  "template_api \<Rightarrow> range_order \<Rightarrow> broker_cluster \<Rightarrow> nat \<Rightarrow> resource_template \<Rightarrow> k8s_object \<Rightarrow>
     (string option \<times> bool \<times> k8s_object) go_result" where
  "cluster_applyTemplate T ord cr index template target =
     (case match T template target of
        Ok True \<Rightarrow>
          (case cluster_apply_patch T (cluster_scope_of cr target) index (rtPatch template)
                  (cluster_apply_metadata ord cr template target) of
             (err, target') \<Rightarrow> Ok (err, True, target'))
      | Ok False \<Rightarrow> Ok (None, False, target)
      | Err e \<Rightarrow> Err e
      | Panic \<Rightarrow> Panic)"

fun cluster_apply_from ::
  "template_api \<Rightarrow> range_order \<Rightarrow> broker_cluster \<Rightarrow> nat \<Rightarrow> resource_template list \<Rightarrow> nat set \<Rightarrow> k8s_object \<Rightarrow>
     (string option \<times> nat set \<times> k8s_object) go_result" where
  "cluster_apply_from T ord cr index [] matched target = Ok (None, matched, target)"
| "cluster_apply_from T ord cr index (template # templates) matched target =
     (case cluster_applyTemplate T ord cr index template target of
        Ok (err, hit, target') \<Rightarrow>
          (let matched' = (if hit then insert index matched else matched)
           in case err of
                Some e \<Rightarrow> Ok (Some e, matched', target')
              | None \<Rightarrow> cluster_apply_from T ord cr (Suc index) templates matched' target')
      | Err e \<Rightarrow> Err e
      | Panic \<Rightarrow> Panic)"

definition cluster_applyTemplates ::
  "template_api \<Rightarrow> range_order \<Rightarrow> broker_cluster \<Rightarrow> nat set \<Rightarrow> k8s_object \<Rightarrow>
     (string option \<times> nat set \<times> k8s_object) go_result" where
  "cluster_applyTemplates T ord cr matched target = cluster_apply_from T ord cr 0 (bcTemplates cr) matched target"

end
