(* ===== verification/Ssl_Arguments.thy ===== *)
theory Ssl_Arguments
  imports Control_Plane
begin

text \<open>
  The arguments for TLS the operator derives from a secret (\<open>pkg/utils/certutil\<close>): for a certificate in PEM
  format a configuration file that names key and certificate, for an older user secret the key store and
  trust store it names, and the two texts made of them.  The separator is escaped for the acceptors, whose
  text goes through an editor of the init container.
\<close>

record ssl_arguments =
  saKeyStoreType :: string
  saKeyStorePath :: string
  saKeyStorePassword :: "string option"
  saTrustStoreType :: string
  saTrustStorePath :: string
  saTrustStorePassword :: "string option"
  saPemCfgs :: "string list"
  saIsConsole :: bool
  saNeedClientAuth :: bool

abbreviation "Console_web_prefix \<equiv> ''webconfig.bindings.artemis.''"
abbreviation "Cert_provided_secret_suffix \<equiv> ''-ptls''"
abbreviation "defaultKeyStorePassword \<equiv> ''password''"

definition backslash :: string where
  "backslash = [CHR 0x5C]"

definition CfgToSecretName :: "string \<Rightarrow> string" where
  "CfgToSecretName cfgFileName = replace_all ''.'' ''-'' cfgFileName"

section \<open>The texts\<close>

definition pem_path :: "ssl_arguments \<Rightarrow> string" where
  "pem_path s = ''/etc/secret-'' @ CfgToSecretName (saKeyStorePath s) @ ''/'' @ saKeyStorePath s"

definition optional_flag :: "string \<Rightarrow> string option \<Rightarrow> string" where
  "optional_flag prefix' value = (case value of Some v \<Rightarrow> prefix' @ v | None \<Rightarrow> '''')"

definition nonempty_flag :: "string \<Rightarrow> string \<Rightarrow> string" where
  "nonempty_flag prefix' value = (if value \<noteq> '''' then prefix' @ value else '''')"

definition getConsoleUri :: string where
  "getConsoleUri = ''https://FQ_HOST_NAME:8161''"

definition web_property :: "string \<Rightarrow> string" where
  "web_property name = ''-D'' @ Console_web_prefix @ name @ ''=''"

text \<open>The first property has no space in front, also when there is none.\<close>

definition ToSystemProperties :: "ssl_arguments \<Rightarrow> string" where
  "ToSystemProperties s =
     (if saKeyStorePath s \<noteq> ''''
      then web_property ''keyStorePath'' @ (if saKeyStoreType s = ''PEM'' then pem_path s else saKeyStorePath s)
      else '''') @
     optional_flag ('' '' @ web_property ''keyStorePassword'') (saKeyStorePassword s) @
     (if saKeyStoreType s = ''PEM'' then '' '' @ web_property ''keyStoreType'' @ ''PEMCFG''
      else nonempty_flag ('' '' @ web_property ''keyStoreType'') (saKeyStoreType s)) @
     nonempty_flag ('' '' @ web_property ''trustStorePath'') (saTrustStorePath s) @
     optional_flag ('' '' @ web_property ''trustStorePassword'') (saTrustStorePassword s) @
     nonempty_flag ('' '' @ web_property ''trustStoreType'') (saTrustStoreType s) @
     (if saNeedClientAuth s then '' '' @ web_property ''clientAuth'' @ ''true'' else '''') @
     '' '' @ web_property ''uri'' @ getConsoleUri"

definition escape_slashes :: "string \<Rightarrow> string" where
  "escape_slashes s = replace_all ''/'' (backslash @ ''/'') s"

definition console_flags :: "ssl_arguments \<Rightarrow> string" where
  "console_flags s =
     '' --ssl-key '' @ saKeyStorePath s @ optional_flag '' --ssl-key-password '' (saKeyStorePassword s) @
     nonempty_flag '' --ssl-trust '' (saTrustStorePath s) @
     optional_flag '' --ssl-trust-password '' (saTrustStorePassword s)"

definition ToFlags :: "ssl_arguments \<Rightarrow> string" where
  "ToFlags s =
     (if saIsConsole s then console_flags s
      else
        ''sslEnabled=true'' @
        (if saKeyStorePath s \<noteq> ''''
         then '';keyStorePath='' @
           (if saKeyStoreType s = ''PEM'' then escape_slashes (pem_path s) else saKeyStorePath s)
         else '''') @
        optional_flag '';keyStorePassword='' (saKeyStorePassword s) @
        (if saKeyStoreType s = ''PEM'' then '';keyStoreType=PEMCFG''
         else nonempty_flag '';keyStoreType='' (saKeyStoreType s)) @
        nonempty_flag '';trustStorePath='' (saTrustStorePath s) @
        optional_flag '';trustStorePassword='' (saTrustStorePassword s) @
        nonempty_flag '';trustStoreType='' (saTrustStoreType s))"

section \<open>The arguments of a secret\<close>

definition isSecretFromBundle :: "secret \<Rightarrow> bool" where
  "isSecretFromBundle s \<longleftrightarrow> map_of (secAnnotations s) ''trust.cert-manager.io/hash'' \<noteq> None"

definition no_arguments :: "bool \<Rightarrow> ssl_arguments" where
  "no_arguments isConsole =
     \<lparr>saKeyStoreType = '''', saKeyStorePath = '''', saKeyStorePassword = None, saTrustStoreType = '''',
      saTrustStorePath = '''', saTrustStorePassword = None, saPemCfgs = [], saIsConsole = isConsole,
      saNeedClientAuth = False\<rparr>"

definition path_separator :: "bool \<Rightarrow> string" where
  "path_separator isConsole = (if isConsole then ''/'' else backslash @ ''/'')"

definition volume_dir :: "bool \<Rightarrow> secret \<Rightarrow> string" where
  "volume_dir isConsole s =
     path_separator isConsole @ ''etc'' @ path_separator isConsole @ secName s @ ''-volume''"

text \<open>A value of the secret when it is not empty, escaped for an acceptor; else the default.\<close>

definition value_or :: "bool \<Rightarrow> secret \<Rightarrow> string \<Rightarrow> string \<Rightarrow> string" where
  "value_or isConsole s key default' =
     (if data_value s key \<noteq> ''''
      then (if isConsole then data_value s key else replace_all ''/'' (path_separator isConsole) (data_value s key))
      else default')"

definition key_store :: "bool \<Rightarrow> bool \<Rightarrow> secret \<Rightarrow> ssl_arguments" where
  "key_store isCertSecret isConsole s =
     (let args = no_arguments isConsole; uniqueName = secName s @ ''.pemcfg''
      in if isCertSecret
         then args\<lparr>saKeyStoreType := ''PEM'', saKeyStorePath := uniqueName,
                   saPemCfgs := [uniqueName, ''/etc/'' @ secName s @ ''-volume/tls.key'',
                     ''/etc/'' @ secName s @ ''-volume/tls.crt'']\<rparr>
         else args\<lparr>saKeyStorePassword := Some (value_or isConsole s ''keyStorePassword'' defaultKeyStorePassword),
                   saKeyStorePath := value_or isConsole s ''keyStorePath''
                     (volume_dir isConsole s @ path_separator isConsole @ ''broker.ks'')\<rparr>)"

definition secret_trust_store ::
  "range_order \<Rightarrow> string \<Rightarrow> secret \<Rightarrow> bool \<Rightarrow> ssl_arguments \<Rightarrow> string + ssl_arguments" where
  "secret_trust_store ord trustStoreType trustSecret isConsole args =
     (if isSecretFromBundle trustSecret
      then (if trustStoreType \<noteq> '''' \<and> trustStoreType \<noteq> ''PEMCA''
            then Inl ''ca bundle secret must have PEMCA trust store type''
            else (case FindFirstDotPemKey ord trustSecret of
                    Inl bundleErr \<Rightarrow> Inl bundleErr
                  | Inr bundleName \<Rightarrow>
                      Inr (args\<lparr>saTrustStoreType := ''PEMCA'',
                        saTrustStorePath := volume_dir isConsole trustSecret @ path_separator isConsole @ bundleName\<rparr>)))
      else Inr (args\<lparr>saTrustStoreType := trustStoreType,
             saTrustStorePassword := Some (value_or isConsole trustSecret ''trustStorePassword'' defaultKeyStorePassword),
             saTrustStorePath := value_or isConsole trustSecret ''trustStorePath''
               (volume_dir isConsole trustSecret @ path_separator isConsole @ ''client.ts'')\<rparr>))"

definition GetSslArgumentsFromSecret ::
  "range_order \<Rightarrow> secret \<Rightarrow> string \<Rightarrow> secret option \<Rightarrow> bool \<Rightarrow> string + ssl_arguments" where
  "GetSslArgumentsFromSecret ord sslSecret trustStoreType trustSecret isConsole =
     (let (isCertSecret, isValid) = IsSecretFromCert sslSecret;
          args = key_store isCertSecret isConsole sslSecret
      in if isCertSecret \<and> \<not> isValid then Inl ''certificate secret not have correct keys''
         else case trustSecret of
           Some s \<Rightarrow> secret_trust_store ord trustStoreType s isConsole args
         | None \<Rightarrow> if isCertSecret then Inr args else secret_trust_store ord trustStoreType sslSecret isConsole args)"

end
