(* ===== verification/Acceptor_Text.thy ===== *)
theory Acceptor_Text
  imports Cluster_Exposure Ssl_Arguments
begin

text \<open>
  The text of the acceptors and connectors of a \<open>BrokerCluster\<close> (\<open>brokercluster_reconciler.go\<close>), which an
  editor of the init container puts into the configuration of the broker, with the secrets TLS needs: the
  secret of the user is tracked when the cluster owns it, and the configuration file of a certificate is
  put into a secret of its own that is mounted into the container.
\<close>

section \<open>Secrets for TLS\<close>

definition cluster_owns :: "broker_cluster \<Rightarrow> owner_ref \<Rightarrow> bool" where
  "cluster_owns cr r \<longleftrightarrow> (orKind r = ''ActiveMQArtemis'' \<or> orKind r = ''BrokerCluster'') \<and> orName r = bcName cr"

text \<open>The name of the secret; one that a controller provides is not looked up.\<close>

definition processSSLSecret ::
  "'w cluster_env \<Rightarrow> broker_cluster \<Rightarrow> string \<Rightarrow> broker_loop \<Rightarrow> (string + string) \<times> broker_loop" where
  "processSSLSecret E cr secretName L =
     (if has_suffix secretName Cert_provided_secret_suffix then (Inr secretName, L)
      else (case ceGetObject E SecretT (bcNamespace cr) secretName of
              Inl (NotFound err) \<Rightarrow> (Inl (''required secret not exist '' @ secretName), L)
            | Inl (ApiError err) \<Rightarrow> (Inl (api_error_text (ApiError err)), L)
            | Inr obj \<Rightarrow>
                (Inr (object_name obj),
                 if list_ex (cluster_owns cr) (omOwners (obMeta obj)) then trackDesired L obj else L)))"

definition provided_secret :: "string \<Rightarrow> secret" where
  "provided_secret name =
     \<lparr>secName = name, secNamespace = '''', secResourceVersion = '''', secAnnotations = [], secData = []\<rparr>"

definition generateCommonSSLFlags ::
  "'w cluster_env \<Rightarrow> broker_cluster \<Rightarrow> string \<Rightarrow> string option \<Rightarrow> string \<Rightarrow> bool \<Rightarrow> string + ssl_arguments" where
  "generateCommonSSLFlags E cr secretName caSecretName trustStoreType isConsole =
     (let K = ckGetSecret (beCluster (ceBase E)) (bcNamespace cr)
      in case (if has_suffix secretName Cert_provided_secret_suffix then Inr (provided_secret secretName) else K secretName) of
           Inl err \<Rightarrow> Inl (api_error_text err)
         | Inr sslSecret \<Rightarrow>
             (case caSecretName of
                None \<Rightarrow> GetSslArgumentsFromSecret (beOrder (ceBase E)) sslSecret trustStoreType None isConsole
              | Some ca \<Rightarrow>
                  (case K ca of
                     Inl err \<Rightarrow> Inl (api_error_text err)
                   | Inr caSecret \<Rightarrow>
                       GetSslArgumentsFromSecret (beOrder (ceBase E)) sslSecret trustStoreType (Some caSecret) isConsole)))"

section \<open>The configuration file of a certificate\<close>

definition HasVolumeInStatefulset :: "sts_spec \<Rightarrow> string \<Rightarrow> bool" where
  "HasVolumeInStatefulset spec volumeName \<longleftrightarrow>
     list_ex (\<lambda>v. vlName v = volumeName) (spVolumes (ptSpec (soTemplate spec)))"

definition HasVolumeMount :: "container \<Rightarrow> string \<Rightarrow> bool" where
  "HasVolumeMount ct mountName \<longleftrightarrow> list_ex (\<lambda>vm. vmName vm = mountName) (ctVolumeMounts ct)"

definition update_pod_spec :: "(pod_spec \<Rightarrow> pod_spec) \<Rightarrow> sts_spec \<Rightarrow> sts_spec" where
  "update_pod_spec f spec =
     spec\<lparr>soTemplate := (soTemplate spec)\<lparr>ptSpec := f (ptSpec (soTemplate spec))\<rparr>\<rparr>"

definition add_volume :: "volume \<Rightarrow> sts_spec \<Rightarrow> sts_spec" where
  "add_volume v spec =
     (if HasVolumeInStatefulset spec (vlName v) then spec
      else update_pod_spec (\<lambda>sp. sp\<lparr>spVolumes := spVolumes sp @ [v]\<rparr>) spec)"

text \<open>The first container gets the mount; the template has one whenever this is reached.\<close>

fun mount_first :: "volume_mount \<Rightarrow> container list \<Rightarrow> container list" where
  "mount_first m [] = []"
| "mount_first m (ct # cts) =
     (if HasVolumeMount ct (vmName m) then ct # cts
      else ct\<lparr>ctVolumeMounts := ctVolumeMounts ct @ [m]\<rparr> # cts)"

definition pem_file :: "string list \<Rightarrow> string" where
  "pem_file configs = println (''source.key= '' @ configs ! 1) @ println (''source.cert= '' @ configs ! 2)"

text \<open>
  \<open>Fprintln\<close> puts a space between its operands.  An existing secret keeps all but its data.  The namespace is
  that of the stateful set, the cluster's own.
\<close>

definition pem_secret :: "string \<Rightarrow> string list \<Rightarrow> broker_loop \<Rightarrow> k8s_object" where
  "pem_secret namespace configs L =
     (let name = CfgToSecretName (configs ! 0); contents = [(configs ! 0, pem_file configs)]
      in case cloneOfDeployed L SecretT name of
           Some obj \<Rightarrow> set_data contents obj
         | None \<Rightarrow> MakeSecret namespace name contents [])"

definition addPemConfigFileSecret ::
  "string \<Rightarrow> string list \<Rightarrow> sts_spec \<times> broker_loop \<Rightarrow> sts_spec \<times> broker_loop" where
  "addPemConfigFileSecret namespace configs st =
     (case st of (spec, L) \<Rightarrow>
       (let desired = pem_secret namespace configs L;
            vol = MakeVolumeForSecret (object_name desired)
        in (update_pod_spec (\<lambda>sp. sp\<lparr>spContainers := mount_first (MakeVolumeMount (vlName vol)) (spContainers sp)\<rparr>)
              (add_volume vol spec), trackDesired L desired)))"

definition add_pem_secret :: "string \<Rightarrow> ssl_arguments \<Rightarrow> sts_spec \<times> broker_loop \<Rightarrow> sts_spec \<times> broker_loop" where
  "add_pem_secret namespace args st =
     (if length (saPemCfgs args) > 2 then addPemConfigFileSecret namespace (saPemCfgs args) st else st)"

section \<open>Optional arguments\<close>

text \<open>The first has no semicolon in front; the others have one, also when the first is missing.\<close>

definition switch_flag :: "string \<Rightarrow> bool \<Rightarrow> string" where
  "switch_flag name b = (if b then '';'' @ name @ ''=true'' else '''')"

definition common_ssl_arguments ::
  "string \<Rightarrow> string \<Rightarrow> bool \<Rightarrow> bool \<Rightarrow> bool \<Rightarrow> string \<Rightarrow> string \<Rightarrow> string \<Rightarrow> string" where
  "common_ssl_arguments suites protocols need want verify provider sni keyStoreProvider =
     nonempty_flag ''enabledCipherSuites='' suites @ nonempty_flag '';enabledProtocols='' protocols @
     switch_flag ''needClientAuth'' need @ switch_flag ''wantClientAuth'' want @ switch_flag ''verifyHost'' verify @
     nonempty_flag '';sslProvider='' provider @ nonempty_flag '';sniHost='' sni @
     nonempty_flag '';keyStoreProvider='' keyStoreProvider"

definition generateAcceptorSSLOptionalArguments :: "acceptor \<Rightarrow> string" where
  "generateAcceptorSSLOptionalArguments a =
     common_ssl_arguments (accEnabledCipherSuites a) (accEnabledProtocols a) (accNeedClientAuth a) (accWantClientAuth a)
       (accVerifyHost a) (accSSLProvider a) (accSNIHost a) (accKeyStoreProvider a) @
     nonempty_flag '';trustStoreProvider='' (accTrustStoreProvider a)"

definition generateConnectorSSLOptionalArguments :: "connector \<Rightarrow> string" where
  "generateConnectorSSLOptionalArguments c =
     common_ssl_arguments (conEnabledCipherSuites c) (conEnabledProtocols c) (conNeedClientAuth c) (conWantClientAuth c)
       (conVerifyHost c) (conSSLProvider c) (conSNIHost c) (conKeyStoreProvider c) @
     nonempty_flag '';trustStoreType='' (conTrustStoreType c) @
     nonempty_flag '';trustStoreProvider='' (conTrustStoreProvider c)"

section \<open>Acceptors\<close>

definition to_lower_char :: "char \<Rightarrow> char" where
  "to_lower_char c = (if CHR ''A'' \<le> c \<and> c \<le> CHR ''Z'' then char_of (of_char c + 32 :: nat) else c)"

definition to_lower :: "string \<Rightarrow> string" where
  "to_lower s = map to_lower_char s"

definition defaultArgs :: string where
  "defaultArgs = ''tcpSendBufferSize=1048576;tcpReceiveBufferSize=1048576;useEpoll=true;amqpCredits=1000;amqpMinCredits=300''"

definition acceptor_protocols :: "acceptor \<Rightarrow> string" where
  "acceptor_protocols a =
     (if accProtocols a = '''' \<or> to_lower (accProtocols a) = ''all'' then ''AMQP,CORE,HORNETQ,MQTT,OPENWIRE,STOMP''
      else accProtocols a)"

text \<open>What stands in front of the TLS arguments, and what follows them.\<close>

definition xml_open :: "string \<Rightarrow> string \<Rightarrow> string" where
  "xml_open tag name = ''<'' @ tag @ '' name='' @ dq name @ ''>''"

definition xml_close :: "string \<Rightarrow> string" where
  "xml_close tag = ''<'' @ backslash @ ''/'' @ tag @ ''>''"

definition escaped_scheme :: "string \<Rightarrow> string" where
  "escaped_scheme scheme = scheme @ '':'' @ backslash @ ''/'' @ backslash @ ''/''"

definition served_protocols :: "acceptor \<Rightarrow> string" where
  "served_protocols a =
     (let upper = to_upper (acceptor_protocols a)
      in upper @ (if accPort a = 61616 \<and> \<not> str_contains upper ''CORE'' then '',CORE'' else ''''))"

definition acceptor_head :: "acceptor \<Rightarrow> string" where
  "acceptor_head a =
     xml_open ''acceptor'' (accName a) @ escaped_scheme ''tcp'' @
     (if accBindToAllInterfaces a = Some True then ''0.0.0.0'' else ''ACCEPTOR_IP'') @ '':'' @
     itoa (sint (accPort a)) @ ''?protocols='' @ served_protocols a"

definition bool_argument :: "string \<Rightarrow> bool option \<Rightarrow> string" where
  "bool_argument name value = optional_flag ('';'' @ name @ ''='') (map_option FormatBool value)"

definition acceptor_tail :: "acceptor \<Rightarrow> string" where
  "acceptor_tail a =
     nonempty_flag '';anycastPrefix='' (escape_slashes (accAnycastPrefix a)) @
     nonempty_flag '';multicastPrefix='' (escape_slashes (accMulticastPrefix a)) @
     (if accConnectionsAllowed a > 0 then '';connectionsAllowed='' @ itoa (accConnectionsAllowed a) else '''') @
     (if accAMQPMinLargeMessageSize a > 0 \<or> accAMQPMinLargeMessageSize a = -1
      then '';amqpMinLargeMessageSize='' @ itoa (accAMQPMinLargeMessageSize a) else '''') @
     bool_argument ''supportAdvisory'' (accSupportAdvisory a) @
     bool_argument ''suppressInternalManagementObjects'' (accSuppressInternalManagementObjects a) @
     '';'' @ defaultArgs @ xml_close ''acceptor''"

definition item_secret :: "broker_cluster \<Rightarrow> string \<Rightarrow> string \<Rightarrow> string" where
  "item_secret cr item sslSecret = (if sslSecret \<noteq> '''' then sslSecret else bcName cr @ ''-'' @ item @ ''-secret'')"

definition with_semicolon :: "string \<Rightarrow> string" where
  "with_semicolon s = (if s \<noteq> '''' then '';'' @ s else '''')"

text \<open>The TLS arguments, with the secrets tracked on the way; they are tracked also when an error follows.\<close>

definition ssl_text ::
  "'w cluster_env \<Rightarrow> broker_cluster \<Rightarrow> string \<Rightarrow> string option \<Rightarrow> string \<Rightarrow> sts_spec \<times> broker_loop \<Rightarrow>
     (string + string) \<times> sts_spec \<times> broker_loop" where
  "ssl_text E cr secretName trustSecret trustStoreType st =
     (case processSSLSecret E cr secretName (snd st) of
        (Inl err, L1) \<Rightarrow> (Inl err, fst st, L1)
      | (Inr secretToUse, L1) \<Rightarrow>
          (case generateCommonSSLFlags E cr secretToUse trustSecret trustStoreType False of
             Inl err \<Rightarrow> (Inl err, fst st, L1)
           | Inr sslArgs \<Rightarrow> (Inr (ToFlags sslArgs), add_pem_secret (bcNamespace cr) sslArgs (fst st, L1))))"

definition acceptor_ssl ::
  "'w cluster_env \<Rightarrow> broker_cluster \<Rightarrow> acceptor \<Rightarrow> sts_spec \<times> broker_loop \<Rightarrow>
     (string + string) \<times> sts_spec \<times> broker_loop" where
  "acceptor_ssl E cr a st =
     (if \<not> accSSLEnabled a then (Inr '''', st)
      else (case ssl_text E cr (item_secret cr (accName a) (accSSLSecret a)) (accTrustSecret a) (accTrustStoreType a) st of
              (Inl err, st') \<Rightarrow> (Inl err, st')
            | (Inr sslFlags, st') \<Rightarrow>
                (Inr ('';'' @ sslFlags @ with_semicolon (generateAcceptorSSLOptionalArguments a)), st')))"

definition acceptor_entry ::
  "'w cluster_env \<Rightarrow> broker_cluster \<Rightarrow> acceptor \<Rightarrow> sts_spec \<times> broker_loop \<Rightarrow>
     (string + string) \<times> sts_spec \<times> broker_loop" where
  "acceptor_entry E cr a st =
     (case acceptor_ssl E cr a st of
        (Inl err, st') \<Rightarrow> (Inl err, st')
      | (Inr ssl, st') \<Rightarrow> (Inr (acceptor_head a @ ssl @ acceptor_tail a), st'))"

text \<open>
  The loop: the acceptors with the ports filled in so far, the text, and the stateful set and the
  resources.  An error ends it.
\<close>

fun acceptor_entries ::
  "'w cluster_env \<Rightarrow> broker_cluster \<Rightarrow> int32 \<Rightarrow> acceptor list \<Rightarrow> sts_spec \<times> broker_loop \<Rightarrow>
     (string + string) \<times> acceptor list \<times> sts_spec \<times> broker_loop" where
  "acceptor_entries E cr currentPortIncrement [] st = (Inr '''', [], st)"
| "acceptor_entries E cr currentPortIncrement (a # acceptors) st =
     (let a' = (if accPort a = 0 then a\<lparr>accPort := 61626 + currentPortIncrement\<rparr> else a);
          increment = (if accPort a = 0 then currentPortIncrement + 10 else currentPortIncrement)
      in case acceptor_entry E cr a' st of
           (Inl err, st1) \<Rightarrow> (Inl err, a' # acceptors, st1)
         | (Inr entry, st1) \<Rightarrow>
             (case acceptor_entries E cr increment acceptors st1 of
                (Inl err, as, st2) \<Rightarrow> (Inl err, a' # as, st2)
              | (Inr rest, as, st2) \<Rightarrow> (Inr (entry @ rest), a' # as, st2)))"

definition scale_down_acceptor :: string where
  "scale_down_acceptor =
     xml_open ''acceptor'' ''scaleDown'' @ escaped_scheme ''tcp'' @ ''ACCEPTOR_IP:61616?protocols=CORE;'' @ defaultArgs @
     xml_close ''acceptor''"

definition generateAcceptorsString ::
  "'w cluster_env \<Rightarrow> broker_cluster \<Rightarrow> sts_spec \<times> broker_loop \<Rightarrow>
     (string + string) \<times> broker_cluster \<times> sts_spec \<times> broker_loop" where
  "generateAcceptorsString E cr st =
     (case acceptor_entries E cr 0 (bcAcceptors cr) st of
        (Inl err, as, st') \<Rightarrow> (Inl err, cr\<lparr>bcAcceptors := as\<rparr>, st')
      | (Inr entries, as, st') \<Rightarrow>
          (Inr (entries @ (if \<not> list_ex (\<lambda>a. accPort a = 61616) as then scale_down_acceptor else '''')),
           cr\<lparr>bcAcceptors := as\<rparr>, st'))"

section \<open>Connectors\<close>

definition connector_head :: "connector \<Rightarrow> string" where
  "connector_head c =
     xml_open ''connector'' (conName c) @
     escaped_scheme (to_lower (if conType c = '''' then ''tcp'' else conType c)) @ to_lower (conHost c) @ '':'' @
     itoa (sint (conPort c))"

definition connector_ssl ::
  "'w cluster_env \<Rightarrow> broker_cluster \<Rightarrow> connector \<Rightarrow> sts_spec \<times> broker_loop \<Rightarrow>
     (string + string) \<times> sts_spec \<times> broker_loop" where
  "connector_ssl E cr c st =
     (if \<not> conSSLEnabled c then (Inr '''', st)
      else (case ssl_text E cr (item_secret cr (conName c) (conSSLSecret c)) (conTrustSecret c) (conTrustStoreType c) st of
              (Inl err, st') \<Rightarrow> (Inl err, st')
            | (Inr sslOpts, st') \<Rightarrow>
                (Inr (''?'' @ sslOpts @ with_semicolon (generateConnectorSSLOptionalArguments c)), st')))"

fun connector_entries ::
  "'w cluster_env \<Rightarrow> broker_cluster \<Rightarrow> connector list \<Rightarrow> sts_spec \<times> broker_loop \<Rightarrow>
     (string + string) \<times> sts_spec \<times> broker_loop" where
  "connector_entries E cr [] st = (Inr '''', st)"
| "connector_entries E cr (c # connectors) st =
     (case connector_ssl E cr c st of
        (Inl err, st1) \<Rightarrow> (Inl err, st1)
      | (Inr ssl, st1) \<Rightarrow>
          (case connector_entries E cr connectors st1 of
             (Inl err, st2) \<Rightarrow> (Inl err, st2)
           | (Inr rest, st2) \<Rightarrow> (Inr (connector_head c @ ssl @ xml_close ''connector'' @ rest), st2)))"

definition generateConnectorsString ::
  "'w cluster_env \<Rightarrow> broker_cluster \<Rightarrow> sts_spec \<times> broker_loop \<Rightarrow>
     (string + string) \<times> sts_spec \<times> broker_loop" where
  "generateConnectorsString E cr st = connector_entries E cr (bcConnectors cr) st"

end
