(* ===== verification/Cluster_Pod.thy ===== *)
theory Cluster_Pod
  imports Cluster_Templates Acceptor_Text
begin

text \<open>
  The pods of a \<open>BrokerCluster\<close> (\<open>brokercluster_reconciler.go\<close>): volumes and mounts with the secrets TLS needs,
  the environment, the init container that writes the configuration of the broker, the stateful set with its
  claims, the services every cluster has, and the disruption budget.
\<close>

section \<open>Volumes and mounts\<close>

text \<open>
  The secrets of the items with TLS, in the order of the loops over acceptors, connectors and the console.
\<close>

definition trusted :: "string option \<Rightarrow> string list" where
  "trusted s = (case s of Some n \<Rightarrow> [n] | None \<Rightarrow> [])"

definition acceptor_secrets :: "broker_cluster \<Rightarrow> acceptor \<Rightarrow> string list" where
  "acceptor_secrets cr a =
     (if accSSLEnabled a then item_secret cr (accName a) (accSSLSecret a) # trusted (accTrustSecret a) else [])"

definition connector_secrets :: "broker_cluster \<Rightarrow> connector \<Rightarrow> string list" where
  "connector_secrets cr c =
     (if conSSLEnabled c then item_secret cr (conName c) (conSSLSecret c) # trusted (conTrustSecret c) else [])"

definition console_secrets :: "broker_cluster \<Rightarrow> string list" where
  "console_secrets cr =
     (if csoleSSLEnabled (bcConsole cr) then console_secret_name cr # trusted (csoleTrustSecret (bcConsole cr)) else [])"

definition tls_secrets :: "broker_cluster \<Rightarrow> string list" where
  "tls_secrets cr = concat (map (acceptor_secrets cr) (bcAcceptors cr)) @
     concat (map (connector_secrets cr) (bcConnectors cr)) @ console_secrets cr"

text \<open>A name is added once; the names that were not added here do not count.\<close>

definition addNewVolumes :: "string list \<times> volume list \<Rightarrow> string \<Rightarrow> string list \<times> volume list" where
  "addNewVolumes st newVolumeName =
     (if newVolumeName \<in> set (fst st) then st
      else (fst st @ [newVolumeName], snd st @ [MakeVolume newVolumeName]))"

definition cluster_MakeVolumes :: "broker_cluster \<Rightarrow> volume list" where
  "cluster_MakeVolumes cr =
     (let dp = bcPlan cr
      in snd (foldl addNewVolumes
           ([], MakeVolumes (bcName cr) (dpPersistenceEnabled dp) (dpExtraVolumes dp) (dpExtraClaims dp)) (tls_secrets cr)))"

definition addNewVolumeMounts :: "string list \<times> volume_mount list \<Rightarrow> string \<Rightarrow> string list \<times> volume_mount list" where
  "addNewVolumeMounts st newVolumeMountName =
     (if newVolumeMountName \<in> set (fst st) then st
      else (fst st @ [newVolumeMountName], snd st @ [MakeVolumeMount newVolumeMountName]))"

definition cluster_MakeExtraVolumeMounts :: "broker_cluster \<Rightarrow> volume_mount list" where
  "cluster_MakeExtraVolumeMounts cr =
     (let dp = bcPlan cr in MakeExtraVolumeMounts (dpExtraVolumes dp) (dpExtraVolumeMounts dp) (dpExtraClaims dp))"

definition cluster_MakeVolumeMounts :: "broker_cluster \<Rightarrow> volume_mount list" where
  "cluster_MakeVolumeMounts cr =
     snd (foldl addNewVolumeMounts
       ([], (if dpPersistenceEnabled (bcPlan cr) then MakePersistentVolumeMount (bcName cr) (global_data_path cr) else []) @
            cluster_MakeExtraVolumeMounts cr)
       (map (\<lambda>s. s @ ''-volume'') (tls_secrets cr)))"

section \<open>Ports, environment and security\<close>

definition MakeContainerPorts :: "broker_cluster \<Rightarrow> container_port list" where
  "MakeContainerPorts cr =
     (if dpJolokiaAgentEnabled (bcPlan cr)
      then [\<lparr>cpName = ''jolokia'', cpContainerPort = 8778, cpProtocol = ''TCP''\<rparr>] else []) @
     [\<lparr>cpName = ''wconsj'', cpContainerPort = 8161, cpProtocol = ''TCP''\<rparr>]"

definition cluster_generated_env :: "broker_cluster \<Rightarrow> env_var list" where
  "cluster_generated_env cr =
     (let dp = bcPlan cr
      in AddEnvVarForBasic (FormatBool (dpRequireLogin dp))
           (if to_lower (dpJournalType dp) = ''aio'' then ''aio'' else ''nio'') (ping_name cr) @
         (if dpPersistenceEnabled dp then AddEnvVarForPersistent (bcName cr) else []) @
         AddEnvVarForCluster (isClustered cr) @ AddEnvVarForJolokia (FormatBool (dpJolokiaAgentEnabled dp)) @
         AddEnvVarForManagement (FormatBool (dpManagementRBACEnabled dp)) @
         AddEnvVarForMetricsPlugin (case dpEnableMetricsPlugin dp of Some b \<Rightarrow> FormatBool b | None \<Rightarrow> ''false''))"

definition MakeEnvVarArrayForCR :: "nat \<Rightarrow> broker_cluster \<Rightarrow> env_var list" where
  "MakeEnvVarArrayForCR spare cr = ReplaceOrAppend spare (cluster_generated_env cr) (bcEnv cr)"

definition configureContianerSecurityContext :: "security_context option \<Rightarrow> container \<Rightarrow> container" where
  "configureContianerSecurityContext context ct =
     ct\<lparr>ctSecurityContext := Some (case context of
       Some c \<Rightarrow> c | None \<Rightarrow> default_container_security\<lparr>scReadOnlyRootFilesystem := Some False\<rparr>)\<rparr>"

definition cluster_configPodSecurity :: "string option \<Rightarrow> int64 option \<Rightarrow> pod_spec \<Rightarrow> pod_spec" where
  "cluster_configPodSecurity serviceAccountName runAsUser sp =
     (let sp1 = (case serviceAccountName of
                   Some n \<Rightarrow> sp\<lparr>spServiceAccountName := n\<rparr>
                 | None \<Rightarrow> sp\<lparr>spAutomountServiceAccountToken := Some True\<rparr>)
      in case runAsUser of
           None \<Rightarrow> sp1
         | Some u \<Rightarrow>
             sp1\<lparr>spSecurityContext := Some
               (case spSecurityContext sp1 of
                  None \<Rightarrow> default_pod_security\<lparr>pscRunAsUser := Some u\<rparr>
                | Some c \<Rightarrow> c\<lparr>pscRunAsUser := Some u\<rparr>)\<rparr>)"

section \<open>Broker properties\<close>

definition cluster_map_name :: "broker_cluster \<Rightarrow> string" where
  "cluster_map_name cr = bcName cr @ ''-props-'' @ hex32 (alder32Of (bcBrokerProperties cr))"

text \<open>As for a \<open>Broker\<close>, with the file of a pending scale down; a \<open>nil\<close> map of a config map is only read.\<close>

definition cluster_addResourceForBrokerProperties ::
  "meta_api \<Rightarrow> broker_cluster \<Rightarrow> broker_loop \<Rightarrow> (string \<times> bool \<times> data_map \<times> broker_loop) go_result" where
  "cluster_addResourceForBrokerProperties M cr L =
     (case cloneOfDeployed L ConfigMapT (cluster_map_name cr) of
        Some existing \<Rightarrow>
          Ok (cluster_map_name cr, False,
              (case obBody existing of ConfigMapBody (Some data) \<Rightarrow> data | _ \<Rightarrow> []), trackDesired L existing)
      | None \<Rightarrow>
          (let (namespace, name) = getPropertiesResourceNsName cr
           in case ProcessBrokerProperties M cr (BrokerPropertiesData (bcBrokerProperties cr)) of
                Ok data \<Rightarrow>
                  Ok (name, True, data, trackDesired L
                    (case cloneOfDeployed L SecretT name of
                       None \<Rightarrow> MakeSecret namespace name data (cluster_labels cr)
                     | Some existing \<Rightarrow> set_data data existing))
              | Err e \<Rightarrow> Err e
              | Panic \<Rightarrow> Panic))"

definition brokerPropertiesConfigSystemPropValue :: "broker_cluster \<Rightarrow> string \<Rightarrow> string \<Rightarrow> data_map \<Rightarrow> string" where
  "brokerPropertiesConfigSystemPropValue cr mountPoint resourceName data =
     (let ordinals = (\<lambda>root name. root @ name @ ''/,'' @ root @ name @ ''/'' @ OrdinalPrefix @ ''${STATEFUL_SET_ORDINAL}/'');
          managed = CrConfiguredForControllerManagedScaleDown cr
      in (if length data = 1 \<and> \<not> managed
          then ''-Dbroker.properties='' @ mountPoint @ resourceName @ ''/'' @ BrokerPropertiesName
          else ''-Dbroker.properties='' @ ordinals mountPoint resourceName) @
         concat (map (\<lambda>s. '','' @ ordinals SecretPathBase s)
           (filter (\<lambda>s. has_suffix s BrokerPropsSuffix) (dpExtraSecrets (bcPlan cr)))) @
         (if managed
          then '','' @ mountPoint @ resourceName @ ''/?filter=.*'' @ [CHR 0x5C] @ ''.for_ordinal_${STATEFUL_SET_ORDINAL}_only''
          else ''''))"

definition getJaasConfigExtraMountPath :: "broker_cluster \<Rightarrow> string option" where
  "getJaasConfigExtraMountPath cr =
     map_option (\<lambda>(t, name). ''/amq/extra/'' @ t @ ''/'' @ name @ ''/login.config'')
       (getConfigExtraMount cr jaasConfigSuffix)"

definition getLoggingConfigExtraMountPath :: "broker_cluster \<Rightarrow> string option" where
  "getLoggingConfigExtraMountPath cr =
     map_option (\<lambda>(t, name). ''/amq/extra/'' @ t @ ''/'' @ name @ ''/logging.properties'')
       (getConfigExtraMount cr loggingConfigSuffix)"

section \<open>The container of the broker\<close>

abbreviation "brokerConfigRoot \<equiv> ''/amq/init/config''"
abbreviation "cfgVolumeName \<equiv> ''amq-cfg-dir''"
abbreviation "initCfgRootDir \<equiv> ''/init_cfg_root''"
abbreviation "javaOptsEnvVarName \<equiv> ''JAVA_OPTS''"

definition resolved_image :: "'w cluster_env \<Rightarrow> broker_cluster \<Rightarrow> string \<Rightarrow> string" where
  "resolved_image E cr key =
     ResolveImage (beVersions (ceBase E)) (beOs (ceBase E)) (beGoarch (ceBase E)) (image_spec_of cr) key"

definition main_container ::
  "'w cluster_env \<Rightarrow> broker_cluster \<Rightarrow> volume_mount list \<Rightarrow> pod_spec \<Rightarrow> container" where
  "main_container E cr extraVolumeMounts podSpec =
     (let dp = bcPlan cr;
          ct = (configureContianerSecurityContext (dpContainerSecurityContext dp)
                 ((MakeContainer podSpec (bcName cr) (resolved_image E cr BrokerImageKey)
                    (MakeEnvVarArrayForCR (beSpare (ceBase E)) cr))\<lparr>ctResources := dpResources dp\<rparr>))
               \<lparr>ctTerminationMessagePolicy := ''FallbackToLogsOnError'', ctPorts := MakeContainerPorts cr,
                ctVolumeMounts := cluster_MakeVolumeMounts cr @ extraVolumeMounts\<rparr>
      in ct\<lparr>ctStartupProbe := configureStartupProbe ct (dpStartupProbe dp),
            ctLivenessProbe := Some (cluster_configureLivenessProbe ct (dpLivenessProbe dp)),
            ctReadinessProbe := Some (cluster_configureReadinessProbe ct (dpReadinessProbe dp))\<rparr>)"

definition cluster_environment :: "broker_cluster \<Rightarrow> container list \<Rightarrow> container list" where
  "cluster_environment cr cts =
     (let c1 = Create_env (plain_var (''CONFIG_BROKER'', ''false'')) cts;
          c2 = Create_env (plain_var (''CONFIG_INSTANCE_DIR'', brokerConfigRoot)) c1;
          c3 = (case getJaasConfigExtraMountPath cr of
                  Some p \<Rightarrow> CreateOrAppend (plain_var (debugArgsEnvVarName, ''-Djava.security.auth.login.config='' @ p)) c2
                | None \<Rightarrow> c2)
      in case getLoggingConfigExtraMountPath cr of
           Some p \<Rightarrow> CreateOrAppend (plain_var (javaArgsAppendEnvVarName, ''-Dlog4j2.configurationFile='' @ p)) c3
         | None \<Rightarrow> c3)"

definition add_mount :: "volume_mount \<Rightarrow> container \<Rightarrow> container" where
  "add_mount m ct = ct\<lparr>ctVolumeMounts := ctVolumeMounts ct @ [m]\<rparr>"

definition cfg_mount :: volume_mount where
  "cfg_mount = MakeRwVolumeMountForCfg cfgVolumeName brokerConfigRoot"

definition cluster_placed :: "deployment_plan \<Rightarrow> pod_spec \<Rightarrow> pod_spec" where
  "cluster_placed dp podSpec =
     (let sp1 = (if length (dpNodeSelector dp) > 0 then podSpec\<lparr>spNodeSelector := dpNodeSelector dp\<rparr> else podSpec);
          sp2 = configureAffinity (dpAffinity dp) sp1
      in if length (dpTolerations dp) > 0 then sp2\<lparr>spTolerations := dpTolerations dp\<rparr> else sp2)"

text \<open>The specification up to the init container.\<close>

definition main_pod ::
  "'w cluster_env \<Rightarrow> broker_cluster \<Rightarrow> volume list \<times> volume_mount list \<Rightarrow> pod_spec \<Rightarrow> pod_spec" where
  "main_pod E cr extra podSpec =
     (let sp = podSpec\<lparr>spImagePullSecrets := dpImagePullSecrets (bcPlan cr)\<rparr>;
          cts = cluster_environment cr [main_container E cr (snd extra) sp];
          brokerVolumes = cluster_MakeVolumes cr @ fst extra;
          sp1 = cluster_placed (bcPlan cr) sp
      in sp1\<lparr>spContainers := map (add_mount cfg_mount) cts,
             spVolumes := (if length brokerVolumes > 0 then brokerVolumes else spVolumes sp1) @
               [MakeEmptyDirVolumeFor cfgVolumeName],
             spTerminationGracePeriodSeconds := Some 60, spTopologySpread := dpTopologySpread (bcPlan cr)\<rparr>)"

section \<open>The init container\<close>

text \<open>\<open>json.Marshal\<close> of a map of texts: sorted keys, and the characters the encoder escapes in UTF-8 text.\<close>

definition json_escape :: "char \<Rightarrow> string" where
  "json_escape c =
     (if c = CHR 0x22 \<or> c = CHR 0x5C then [CHR 0x5C, c]
      else if c = CHR 0x08 then [CHR 0x5C, CHR ''b'']
      else if c = CHR 0x0C then [CHR 0x5C, CHR ''f'']
      else if c = CHR 0x0A then [CHR 0x5C, CHR ''n'']
      else if c = CHR 0x0D then [CHR 0x5C, CHR ''r'']
      else if c = CHR 0x09 then [CHR 0x5C, CHR ''t'']
      else if (of_char c :: nat) < 32 \<or> c \<in> set ''<>&''
      then CHR 0x5C # ''u00'' @ [hex_digit (of_char c div 16), hex_digit (of_char c mod 16)]
      else [c])"

text \<open>The line and the paragraph separator of Unicode are escaped too.\<close>

fun json_chars :: "string \<Rightarrow> string" where
  "json_chars [] = []"
| "json_chars (c # cs) =
     (if c = CHR 0xE2 \<and> take 2 cs = [CHR 0x80, CHR 0xA8] then CHR 0x5C # ''u2028'' @ json_chars (drop 2 cs)
      else if c = CHR 0xE2 \<and> take 2 cs = [CHR 0x80, CHR 0xA9] then CHR 0x5C # ''u2029'' @ json_chars (drop 2 cs)
      else json_escape c @ json_chars cs)"

definition json_text :: "string \<Rightarrow> string" where
  "json_text s = dq (json_chars s)"

definition marshal_map :: "data_map \<Rightarrow> string" where
  "marshal_map m = ''{'' @ join '','' (map (\<lambda>(k, v). json_text k @ '':'' @ json_text v) (sort_key fst m)) @ ''}''"

abbreviation "YacfgProfileName \<equiv> ''artemis''"
abbreviation "yacfgOutputDir \<equiv> ''/init_cfg_root/yacfg_etc''"

definition yacfg_profile_version :: "string \<Rightarrow> string" where
  "yacfg_profile_version compactVersion =
     value_of YacfgProfileVersionFromFullVersion (value_of FullVersionFromCompactVersion compactVersion)"

definition address_command :: "broker_cluster \<Rightarrow> string \<Rightarrow> string" where
  "address_command cr profileVersion =
     (case MakeBrokerCfgOverrides (AddressSetting (bcAddressSettings cr)) of
        (brokerYaml, specials) \<Rightarrow>
          ''mkdir -p '' @ yacfgOutputDir @ ''; echo '' @ dq brokerYaml @ '' > '' @ yacfgOutputDir @ ''/broker.yaml; cat '' @
          yacfgOutputDir @ ''/broker.yaml; yacfg --profile '' @ YacfgProfileName @ ''/'' @ profileVersion @
          ''/default_with_user_address_settings.yaml.jinja2  --tune '' @ yacfgOutputDir @
          ''/broker.yaml --extra-properties '' @ [CHR 0x27] @ marshal_map specials @ [CHR 0x27] @ '' --output '' @
          yacfgOutputDir)"

definition has_settings :: "broker_cluster \<Rightarrow> bool" where
  "has_settings cr \<longleftrightarrow> length (AddressSetting (bcAddressSettings cr)) > 0"

definition address_environment :: "broker_cluster \<Rightarrow> container list \<Rightarrow> container list" where
  "address_environment cr cts =
     (if has_settings cr
      then Create_env (plain_var (''TUNE_PATH'', yacfgOutputDir))
             (Create_env (plain_var (''MERGE_BROKER_AS'', ''true''))
               (Create_env (plain_var (''APPLY_RULE'',
                  (case ApplyRule (bcAddressSettings cr) of Some r \<Rightarrow> r | None \<Rightarrow> ''merge_all''))) cts))
      else cts)"

definition init_base :: "'w cluster_env \<Rightarrow> broker_cluster \<Rightarrow> pod_spec \<Rightarrow> container" where
  "init_base E cr podSpec =
     (configureContianerSecurityContext (dpContainerSecurityContext (bcPlan cr))
       ((MakeInitContainer podSpec (bcName cr) (resolved_image E cr InitImageKey)
          (MakeEnvVarArrayForCR (beSpare (ceBase E)) cr))\<lparr>ctResources := dpResources (bcPlan cr)\<rparr>))
       \<lparr>ctTerminationMessagePolicy := ''FallbackToLogsOnError''\<rparr>"

definition tool_mount :: volume_mount where
  "tool_mount = MakeRwVolumeMountForCfg ''tool-dir'' initCfgRootDir"

definition handler_of :: "'w cluster_env \<Rightarrow> broker_cluster \<Rightarrow> security_handler option" where
  "handler_of E cr = GetBrokerConfigHandler (ceHandlers E) (bcNamespace cr, bcName cr)"

definition init_commands :: "broker_cluster \<Rightarrow> string \<Rightarrow> string list \<Rightarrow> string list" where
  "init_commands cr profileVersion handlerCmds =
     (if has_settings cr then [address_command cr profileVersion] else []) @ [''/opt/amq/bin/launch.sh''] @ handlerCmds @
     [''/opt/amq-broker/script/default.sh'']"

text \<open>The commands of the security handler and the containers after it, with its secret mounted.\<close>

definition handled :: "'w cluster_env \<Rightarrow> broker_cluster \<Rightarrow> string \<Rightarrow> container list \<Rightarrow> string list \<times> container list" where
  "handled E cr profileVersion cts =
     (case handler_of E cr of
        None \<Rightarrow> ([], cts)
      | Some h \<Rightarrow>
          (case Config h cts (initCfgRootDir @ ''/security'') profileVersion YacfgProfileName of
             (cmds, cts') \<Rightarrow>
               (cmds, if length cmds > 0
                      then map (add_mount (MakeVolumeMount (security_volume_name h @ ''-volume''))) cts' else cts')))"

text \<open>The secret of the handler is a volume of the pod when the handler has commands.\<close>

definition handler_volumes :: "'w cluster_env \<Rightarrow> broker_cluster \<Rightarrow> string list \<Rightarrow> volume list" where
  "handler_volumes E cr handlerCmds =
     (case handler_of E cr of
        None \<Rightarrow> []
      | Some h \<Rightarrow> if length handlerCmds > 0 then [MakeVolume (security_volume_name h)] else [])"

text \<open>The init container as the handler finds it.\<close>

definition before_handler :: "broker_cluster \<Rightarrow> string option \<Rightarrow> container \<Rightarrow> container list" where
  "before_handler cr javaOpts ct =
     (let c1 = map (\<lambda>c. c\<lparr>ctVolumeMounts := [cfg_mount, tool_mount]\<rparr>) (address_environment cr [ct])
      in case javaOpts of Some v \<Rightarrow> CreateOrAppend (plain_var (javaOptsEnvVarName, v)) c1 | None \<Rightarrow> c1)"

definition init_containers ::
  "broker_cluster \<Rightarrow> string \<Rightarrow> volume_mount list \<Rightarrow> string list \<times> container list \<Rightarrow> container list" where
  "init_containers cr profileVersion extraVolumeMounts = (\<lambda>(cmds, cts).
     Create_env (plain_var (''CONFIG_INSTANCE_DIR'', brokerConfigRoot))
       (Create_env (plain_var (''RUN_BROKER'', ''false''))
         (map (\<lambda>c. c\<lparr>ctArgs := [''-c'', join '' && '' (init_commands cr profileVersion cmds)],
            ctVolumeMounts := ctVolumeMounts c @ extraVolumeMounts @ cluster_MakeExtraVolumeMounts cr\<rparr>) cts)))"

section \<open>The template\<close>

definition isExistingDeploymentWithJavaOpts :: "pod_template \<Rightarrow> bool" where
  "isExistingDeploymentWithJavaOpts current \<longleftrightarrow> Retrieve (spInitContainers (ptSpec current)) javaOptsEnvVarName \<noteq> None"

text \<open>
  A deployment that has its options in the init container keeps them there; others have them in the broker's.
\<close>

definition finish_pod ::
  "'w cluster_env \<Rightarrow> broker_cluster \<Rightarrow> string \<Rightarrow> bool \<Rightarrow> string \<Rightarrow> volume_mount list \<Rightarrow> pod_spec \<Rightarrow> pod_spec" where
  "finish_pod E cr profileVersion respectExisting brokerPropsValue extraVolumeMounts sp =
     (let init = handled E cr profileVersion
            (before_handler cr (if respectExisting then Some brokerPropsValue else None) (init_base E cr sp))
      in configurePodSecurityContext (dpPodSecurityContext (bcPlan cr))
       (cluster_configPodSecurity (dpServiceAccountName (bcPlan cr)) (dpRunAsUser (bcPlan cr))
         (sp\<lparr>spInitContainers := init_containers cr profileVersion extraVolumeMounts init,
             spContainers := (if respectExisting then spContainers sp
               else CreateOrAppend (plain_var (jdkJavaOptionsEnvVarName, brokerPropsValue)) (spContainers sp)),
             spVolumes := spVolumes sp @ [MakeEmptyDirVolumeFor ''tool-dir''] @ handler_volumes E cr (fst init)\<rparr>)))"

definition cluster_pod_labels :: "broker_cluster \<Rightarrow> labels" where
  "cluster_pod_labels cr = put_files (dpLabels (bcPlan cr)) (cluster_labels cr)"

definition cluster_template_from ::
  "'w cluster_env \<Rightarrow> broker_cluster \<Rightarrow> bool \<Rightarrow> string \<times> bool \<times> data_map \<Rightarrow> pod_template \<Rightarrow> pod_template go_result" where
  "cluster_template_from E cr respectExisting props pts =
     (case props of (resourceName, isSecret, data) \<Rightarrow>
       case createExtraConfigmapsAndSecretsVolumeMounts (ckGetSecret (beCluster (ceBase E)) (bcNamespace cr))
              (dpExtraConfigMaps (bcPlan cr) @ (if isSecret then [] else [resourceName]))
              (dpExtraSecrets (bcPlan cr) @ (if isSecret then [resourceName] else [])) resourceName data of
         Inl err \<Rightarrow> Err (''failed to createExtraConfigmapsAndSecretsVolumeMounts, '' @ err)
       | Inr extra \<Rightarrow>
           (case DetermineCompactVersionToUse (beVersions (ceBase E)) (image_spec_of cr) of
              Inl verr \<Rightarrow> Err verr
            | Inr compactVersionToUse \<Rightarrow>
                Ok (pts\<lparr>ptSpec := finish_pod E cr (yacfg_profile_version compactVersionToUse) respectExisting
                  (brokerPropertiesConfigSystemPropValue cr (if isSecret then SecretPathBase else cfgMapPathBase)
                    resourceName data) (snd extra) (main_pod E cr extra (ptSpec pts))\<rparr>)))"

definition cluster_PodTemplateSpecForCR ::
  "'w cluster_env \<Rightarrow> broker_cluster \<Rightarrow> pod_template \<Rightarrow> broker_loop \<Rightarrow> pod_template go_result \<times> broker_loop" where
  "cluster_PodTemplateSpecForCR E cr current L =
     (case cluster_addResourceForBrokerProperties (beMeta (ceBase E)) cr L of
        Panic \<Rightarrow> (Panic, L)
      | Err e \<Rightarrow> (Err e, L)
      | Ok (resourceName, isSecret, data, L1) \<Rightarrow>
          (cluster_template_from E cr (isExistingDeploymentWithJavaOpts current) (resourceName, isSecret, data)
             (MakePodTemplateSpec current (cluster_pod_labels cr) (dpAnnotations (bcPlan cr))), L1))"

section \<open>Claims and the stateful set\<close>

definition cluster_storage_capacity :: "broker_cluster \<Rightarrow> string" where
  "cluster_storage_capacity cr = (if dpStorageSize (bcPlan cr) \<noteq> '''' then dpStorageSize (bcPlan cr) else ''2Gi'')"

definition cluster_storage_template :: "broker_cluster \<Rightarrow> claim_template" where
  "cluster_storage_template cr =
     \<lparr>vtName = bcName cr, vtLabels = cluster_labels cr, vtAnnotations = [],
      vtSpec = \<lparr>csAccessModes = [''ReadWriteOnce''], csStorage = cluster_storage_capacity cr,
        csStorageClassName = (if dpStorageClassName (bcPlan cr) \<noteq> '''' then Some (dpStorageClassName (bcPlan cr)) else None),
        csVolumeMode = None, csOther = ''''\<rparr>\<rparr>"

definition cluster_claim_templates :: "broker_cluster \<Rightarrow> claim_template list" where
  "cluster_claim_templates cr =
     (if dpPersistenceEnabled (bcPlan cr) then [cluster_storage_template cr] else []) @ dpExtraClaims (bcPlan cr)"

definition cluster_claim_for :: "broker_cluster \<Rightarrow> claim list \<Rightarrow> claim_template \<Rightarrow> claim" where
  "cluster_claim_for cr deployedClaims t =
     PersistentVolumeClaim (bcNamespace cr) (findExistingByName deployedClaims t) t"

text \<open>The error of a template is dropped; the claim stays as far as the templates came.\<close>

fun cluster_template_claims ::
  "'w cluster_env \<Rightarrow> broker_cluster \<Rightarrow> claim list \<Rightarrow> nat set \<Rightarrow> (claim list \<times> nat set) go_result" where
  "cluster_template_claims E cr [] matched = Ok ([], matched)"
| "cluster_template_claims E cr (c # cs) matched =
     (case cluster_applyTemplates (beTemplates (ceBase E)) (beOrder (ceBase E)) cr matched (claim_object c) of
        Ok (ignored, matched', obj) \<Rightarrow>
          (case cluster_template_claims E cr cs matched' of
             Ok (cs', matched'') \<Rightarrow> Ok (object_claim c obj # cs', matched'')
           | Err e \<Rightarrow> Err e
           | Panic \<Rightarrow> Panic)
      | Err e \<Rightarrow> Err e
      | Panic \<Rightarrow> Panic)"

definition cluster_PersistentVolumeClaimArrayForCR ::
  "'w cluster_env \<Rightarrow> broker_cluster \<Rightarrow> claim list \<Rightarrow> nat set \<Rightarrow> (claim list \<times> nat set) go_result" where
  "cluster_PersistentVolumeClaimArrayForCR E cr deployedClaims matched =
     (if dpPersistenceEnabled (bcPlan cr) \<and> beParseQuantity (ceBase E) (cluster_storage_capacity cr) \<noteq> None then Panic
      else cluster_template_claims E cr (map (cluster_claim_for cr deployedClaims) (cluster_claim_templates cr)) matched)"

definition cluster_StatefulSetForCR ::
  "'w cluster_env \<Rightarrow> broker_cluster \<Rightarrow> (object_meta \<times> sts_spec) option \<Rightarrow> broker_loop \<Rightarrow>
     (object_meta \<times> sts_spec) go_result \<times> broker_loop" where
  "cluster_StatefulSetForCR E cr current L =
     (case MakeStatefulSet current (cluster_set_name cr) (cluster_headless_name cr) (bcNamespace cr) [] (cluster_labels cr) of
        (meta, spec) \<Rightarrow>
          (case cluster_PodTemplateSpecForCR E cr (soTemplate spec) L of
             (Panic, L1) \<Rightarrow> (Panic, L1)
           | (Err err, L1) \<Rightarrow> (Err (''error creating pod template, '' @ err), L1)
           | (Ok podTemplateSpec, L1) \<Rightarrow>
               (case cluster_PersistentVolumeClaimArrayForCR E cr (soClaims spec) (blMatched L1) of
                  Panic \<Rightarrow> (Panic, L1)
                | Err err \<Rightarrow> (Err err, L1)
                | Ok (claims, matched) \<Rightarrow>
                    (Ok (meta, spec\<lparr>soTemplate := podTemplateSpec, soClaims := claims\<rparr>), L1\<lparr>blMatched := matched\<rparr>))))"

section \<open>Services of the cluster and the budget\<close>

definition track_headless :: "broker_cluster \<Rightarrow> broker_loop \<Rightarrow> broker_loop" where
  "track_headless cr L =
     trackDesired L (service_object (NewHeadlessServiceForCR2 (cluster_headless_name cr) (bcNamespace cr)
       (GetDefaultPorts False) (cluster_labels cr)
       (Option.bind (cloneOfDeployed L ServiceT (cluster_headless_name cr)) service_of)))"

definition track_ping :: "broker_cluster \<Rightarrow> broker_loop \<Rightarrow> broker_loop" where
  "track_ping cr L =
     (if isClustered cr
      then trackDesired L (service_object (NewPingServiceDefinitionForCR2 (ping_name cr) (bcNamespace cr)
             (cluster_labels cr) (cluster_labels cr)
             (Option.bind (cloneOfDeployed L ServiceT (ping_name cr)) service_of)))
      else L)"

definition cluster_ProcessStatefulSet ::
  "'w cluster_env \<Rightarrow> broker_cluster \<Rightarrow> broker_loop \<Rightarrow> (object_meta \<times> sts_spec) go_result \<times> broker_loop" where
  "cluster_ProcessStatefulSet E cr L =
     (case cluster_StatefulSetForCR E cr (Option.bind (cloneOfDeployed L StatefulSetT (cluster_set_name cr)) sts_of) L of
        (Panic, L1) \<Rightarrow> (Panic, L1)
      | (Err err, L1) \<Rightarrow> (Err (''error creating stateful set, '' @ err), L1)
      | (Ok (meta, spec), L1) \<Rightarrow>
          (Ok (meta, case dpRevisionHistoryLimit (bcPlan cr) of
                       Some n \<Rightarrow> spec\<lparr>soRevisionHistoryLimit := Some n\<rparr> | None \<Rightarrow> spec),
           track_ping cr (track_headless cr L1)))"

definition cluster_budget_object :: "broker_cluster \<Rightarrow> k8s_object option \<Rightarrow> budget_spec \<Rightarrow> k8s_object" where
  "cluster_budget_object cr existing limits =
     \<lparr>obMeta = (case existing of Some obj \<Rightarrow> obMeta obj
        | None \<Rightarrow> named_meta ''policy'' ''v1'' ''PodDisruptionBudget'' (bcName cr @ ''-pdb'') (bcNamespace cr)),
      obBody = BudgetBody (limits\<lparr>bgSelector := Some \<lparr>matchLabels = [(bcKind cr, bcName cr)], matchExpressions = []\<rparr>\<rparr>)\<rparr>"

definition cluster_applyPodDisruptionBudget :: "broker_cluster \<Rightarrow> budget_spec \<Rightarrow> broker_loop \<Rightarrow> broker_loop" where
  "cluster_applyPodDisruptionBudget cr limits L =
     trackDesired L (cluster_budget_object cr (cloneOfDeployed L BudgetT (bcName cr @ ''-pdb'')) limits)"

end
