(* ===== verification/Secret_Variables.thy ===== *)
theory Secret_Variables
  imports Acceptor_Text
begin

text \<open>
  Environment variables whose values live in secrets (\<open>sourceEnvVarFromSecret\<close> of
  \<open>brokercluster_reconciler.go\<close>): the credentials of the administrator and of the cluster, the text of acceptors
  and connectors, and the arguments of the console.
\<close>

text \<open>A generated value gives way to the one a secret holds; an internal one has a secret of its own.\<close>

record value_info =
  viValue :: string
  viAutoGen :: bool
  viInternal :: bool

type_synonym value_map = "(string \<times> value_info) list"

definition given_value :: "string \<Rightarrow> value_info" where
  "given_value v = \<lparr>viValue = v, viAutoGen = False, viInternal = False\<rparr>"

definition generated_value :: "string \<Rightarrow> value_info" where
  "generated_value v = \<lparr>viValue = v, viAutoGen = True, viInternal = False\<rparr>"

definition public_values :: "value_map \<Rightarrow> value_map" where
  "public_values envVars = filter (\<lambda>(k, v). \<not> viInternal v) envVars"

definition plain_values :: "value_map \<Rightarrow> data_map" where
  "plain_values envVars = map (\<lambda>(k, v). (k, viValue v)) envVars"

definition internal_values :: "value_map \<Rightarrow> data_map" where
  "internal_values envVars = plain_values (filter (\<lambda>(k, v). viInternal v) envVars)"

section \<open>The secret\<close>

text \<open>
  A value of an existing secret: it is replaced when it differs, unless it was generated and the secret
  has one.  A secret without data is read with a \<open>nil\<close> map, and writing to it panics.
\<close>

definition replaces :: "data_map \<Rightarrow> string \<times> value_info \<Rightarrow> bool" where
  "replaces data kv =
     (let elem = value_of data (fst kv)
      in (elem \<noteq> viValue (snd kv) \<or> map_of data (fst kv) = None) \<and> (\<not> viAutoGen (snd kv) \<or> elem = ''''))"

definition merge_value :: "data_map \<Rightarrow> string \<times> value_info \<Rightarrow> data_map" where
  "merge_value data kv =
     (if replaces data kv then AList.update (fst kv) (viValue (snd kv)) data else data)"

definition merge_values :: "data_map \<Rightarrow> value_map \<Rightarrow> data_map go_result" where
  "merge_values data envVars =
     (if data = [] \<and> list_ex (replaces data) envVars then Panic
      else Ok (foldl merge_value data envVars))"

text \<open>
  What is tracked of the secret.  An error of the read other than that there is none is logged, and the
  secret is then requested with the values given, as if there were none.
\<close>

definition secret_definition ::
  "'w cluster_env \<Rightarrow> broker_cluster \<Rightarrow> value_map \<Rightarrow> string \<Rightarrow> k8s_object option go_result" where
  "secret_definition E cr envVars secretName =
     (let public = public_values envVars
      in case ceGetObject E SecretT (bcNamespace cr) secretName of
           Inl err \<Rightarrow>
             Ok (if length public > 0
                 then Some (MakeSecret (bcNamespace cr) secretName (plain_values public) (cluster_labels cr)) else None)
         | Inr obj \<Rightarrow>
             (case obBody obj of
                SecretBody b \<Rightarrow>
                  (case merge_values (sbData b) public of
                     Ok data \<Rightarrow> Ok (if list_ex (cluster_owns cr) (omOwners (obMeta obj))
                                   then Some (set_data data obj) else None)
                   | Err e \<Rightarrow> Err e
                   | Panic \<Rightarrow> Panic)
              | _ \<Rightarrow> Ok None))"

section \<open>The internal secret\<close>

definition internal_secret ::
  "'w cluster_env \<Rightarrow> broker_cluster \<Rightarrow> string \<Rightarrow> data_map \<Rightarrow> broker_loop \<Rightarrow> k8s_object \<times> broker_loop" where
  "internal_secret E cr name data L =
     (case (case cloneOfDeployed L SecretT name of
              Some obj \<Rightarrow> (obj, L)
            | None \<Rightarrow> adoptExistingSecretWithNoOwnerRefForUpdate E cr
                       (MakeSecret (bcNamespace cr) name data (cluster_labels cr)) L) of
        (obj, L1) \<Rightarrow> (set_data data (obj\<lparr>obMeta := (obMeta obj)\<lparr>omLabels := cluster_labels cr\<rparr>\<rparr>), L1))"

definition track_internal ::
  "'w cluster_env \<Rightarrow> broker_cluster \<Rightarrow> value_map \<Rightarrow> string \<Rightarrow> broker_loop \<Rightarrow> broker_loop" where
  "track_internal E cr envVars secretName L =
     (if length (internal_values envVars) > 0
      then (case internal_secret E cr (secretName @ ''-internal'') (internal_values envVars) L of
              (obj, L1) \<Rightarrow> trackDesired L1 obj)
      else L)"

section \<open>The references\<close>

definition secret_key_ref :: "string \<Rightarrow> string \<Rightarrow> string" where
  "secret_key_ref name key = ''secretKeyRef '' @ name @ '' '' @ key"

definition secret_var :: "string \<Rightarrow> string \<times> value_info \<Rightarrow> env_var" where
  "secret_var secretName kv =
     \<lparr>evName = fst kv, evValue = '''',
      evValueFrom = Some (secret_key_ref (if viInternal (snd kv) then secretName @ ''-internal'' else secretName) (fst kv))\<rparr>"

definition create_missing :: "env_var \<Rightarrow> container list \<Rightarrow> container list" where
  "create_missing v cts = (if Retrieve cts (evName v) = None then Create_env v cts else cts)"

definition reference_value :: "string \<Rightarrow> pod_spec \<Rightarrow> string \<times> value_info \<Rightarrow> pod_spec" where
  "reference_value secretName sp kv =
     (let v = secret_var secretName kv;
          sp1 = sp\<lparr>spContainers := create_missing v (spContainers sp)\<rparr>
      in if length (spInitContainers sp1) > 0
         then sp1\<lparr>spInitContainers := create_missing v (spInitContainers sp1)\<rparr> else sp1)"

definition reference_values :: "string \<Rightarrow> value_map \<Rightarrow> pod_spec \<Rightarrow> pod_spec" where
  "reference_values secretName envVars sp = foldl (reference_value secretName) sp (sort_key fst envVars)"

definition sourceEnvVarFromSecret ::
  "'w cluster_env \<Rightarrow> broker_cluster \<Rightarrow> value_map \<Rightarrow> string \<Rightarrow> sts_spec \<times> broker_loop \<Rightarrow>
     (sts_spec \<times> broker_loop) go_result" where
  "sourceEnvVarFromSecret E cr envVars secretName st =
     (case secret_definition E cr envVars secretName of
        Panic \<Rightarrow> Panic
      | Err e \<Rightarrow> Err e
      | Ok tracked \<Rightarrow>
          (let L1 = (case tracked of Some obj \<Rightarrow> trackDesired (snd st) obj | None \<Rightarrow> snd st)
           in Ok (update_pod_spec (reference_values secretName envVars) (fst st),
                  track_internal E cr envVars secretName L1)))"

section \<open>Credentials\<close>

text \<open>
  The value of the custom resource, else the one a variable of the container has, else a random one, which
  is marked as generated.
\<close>

definition credential :: "string \<Rightarrow> container list \<Rightarrow> string \<Rightarrow> string \<Rightarrow> value_info" where
  "credential fromCr cts name random =
     (if fromCr \<noteq> '''' then given_value fromCr
      else (case Retrieve cts name of
              Some v \<Rightarrow> if evValue v \<noteq> '''' then given_value (evValue v) else generated_value random
            | None \<Rightarrow> generated_value random))"

definition credential_values :: "(nat \<Rightarrow> string) \<Rightarrow> broker_cluster \<Rightarrow> container list \<Rightarrow> value_map" where
  "credential_values random cr cts =
     [(''AMQ_USER'', credential (bcAdminUser cr) cts ''AMQ_USER'' (random 0)),
      (''AMQ_PASSWORD'', credential (bcAdminPassword cr) cts ''AMQ_PASSWORD'' (random 1)),
      (''AMQ_CLUSTER_USER'', generated_value (random 2)),
      (''AMQ_CLUSTER_PASSWORD'', generated_value (random 3))]"

definition ProcessCredentials ::
  "'w cluster_env \<Rightarrow> broker_cluster \<Rightarrow> sts_spec \<times> broker_loop \<Rightarrow> (sts_spec \<times> broker_loop) go_result" where
  "ProcessCredentials E cr st =
     sourceEnvVarFromSecret E cr
       (credential_values (ceRandom E) cr (spContainers (ptSpec (soTemplate (fst st))))) (credentials_name cr) st"

section \<open>Acceptors, connectors and the console\<close>

definition netty_values :: "string \<Rightarrow> string \<Rightarrow> value_map" where
  "netty_values acceptorEntry connectorEntry =
     [(''AMQ_ACCEPTORS'', given_value acceptorEntry), (''AMQ_CONNECTORS'', given_value connectorEntry)]"

text \<open>
  The error, and the set and the resources as far as they came; the custom resource has the ports filled in also
  when an error follows.
\<close>

definition sourced ::
  "(sts_spec \<times> broker_loop) go_result \<Rightarrow> (string option \<times> sts_spec \<times> broker_loop) go_result" where
  "sourced r = (case r of Ok st \<Rightarrow> Ok (None, st) | Err e \<Rightarrow> Err e | Panic \<Rightarrow> Panic)"

definition ProcessAcceptorsAndConnectors ::
  "'w cluster_env \<Rightarrow> broker_cluster \<Rightarrow> sts_spec \<times> broker_loop \<Rightarrow>
     (string option \<times> sts_spec \<times> broker_loop) go_result \<times> broker_cluster" where
  "ProcessAcceptorsAndConnectors E cr st =
     (case generateAcceptorsString E cr st of
        (Inl err, cr1, st1) \<Rightarrow> (Ok (Some err, st1), cr1)
      | (Inr acceptorEntry, cr1, st1) \<Rightarrow>
          (case generateConnectorsString E cr1 st1 of
             (Inl err, st2) \<Rightarrow> (Ok (Some err, st2), cr1)
           | (Inr connectorEntry, spec, L) \<Rightarrow>
               (sourced (sourceEnvVarFromSecret E cr1 (netty_values acceptorEntry connectorEntry) (netty_name cr1)
                  (spec, configureConnectorsExposure E cr1 (configureAcceptorsExposure E cr1 L))), cr1)))"

definition console_values :: "string \<Rightarrow> value_map" where
  "console_values sslFlags =
     [(''AMQ_CONSOLE_ARGS'', \<lparr>viValue = sslFlags, viAutoGen = True, viInternal = True\<rparr>)]"

definition appendSystemPropertiesForConsole :: "string \<Rightarrow> sts_spec \<Rightarrow> sts_spec" where
  "appendSystemPropertiesForConsole systemArgs =
     update_pod_spec (\<lambda>sp. sp\<lparr>spContainers :=
       CreateOrAppend (plain_var (javaArgsAppendEnvVarName, systemArgs)) (spContainers sp)\<rparr>)"

text \<open>The text of the flags is made before the need for client authentication is added to the arguments.\<close>

definition ProcessConsole ::
  "'w cluster_env \<Rightarrow> broker_cluster \<Rightarrow> sts_spec \<times> broker_loop \<Rightarrow>
     (string option \<times> sts_spec \<times> broker_loop) go_result" where
  "ProcessConsole E cr st =
     (let L = configureConsoleExposure E cr (snd st); co = bcConsole cr; secretName = console_secret_name cr
      in if \<not> csoleSSLEnabled co then Ok (None, fst st, L)
         else case generateCommonSSLFlags E cr secretName (csoleTrustSecret co) '''' True of
           Inl err \<Rightarrow> Ok (Some err, fst st, L)
         | Inr args \<Rightarrow>
             (let sslFlags = ToFlags args @ (if csoleUseClientAuth co then '' --use-client-auth'' else '''');
                  sslArgs = (if csoleUseClientAuth co then args\<lparr>saNeedClientAuth := True\<rparr> else args)
              in if length (saPemCfgs sslArgs) > 2
                 then (case addPemConfigFileSecret (bcNamespace cr) (saPemCfgs sslArgs) (fst st, L) of
                         (spec, L1) \<Rightarrow>
                           Ok (None, appendSystemPropertiesForConsole (ToSystemProperties sslArgs) spec, L1))
                 else sourced (sourceEnvVarFromSecret E cr (console_values sslFlags) secretName (fst st, L))))"

end
