(* ===== verification/Cluster_Reconcile.thy ===== *)
theory Cluster_Reconcile
  imports Cluster_Pod Secret_Variables Cluster_Status
begin

text \<open>
  The reconcile of a \<open>BrokerCluster\<close> (\<open>brokercluster_reconciler.go\<close>, \<open>brokercluster_controller.go\<close>): the
  resource for message migration, what is deployed, what is requested, the writes that make up the difference,
  and the request as a whole.  The calls of the client are functions of a state of the server.
\<close>

section \<open>The client\<close>

text \<open>The drainer of a cluster (\<open>ActiveMQArtemisScaledown\<close>).\<close>

record scaledown =
  sdName :: string
  sdNamespace :: string
  sdLabels :: labels
  sdAnnotations :: data_map
  sdOwners :: "owner_ref list"
  sdLocalOnly :: bool
  sdResources :: string

text \<open>Reads, creates, updates and deletes of objects are those of the client of a \<open>Broker\<close>.\<close>

record 's cluster_client =
  ccObjects :: "'s object_client"
  ccGetCluster :: "'s \<Rightarrow> string \<Rightarrow> string \<Rightarrow> api_error + broker_cluster"
  ccGetObject :: "'s \<Rightarrow> rtype \<Rightarrow> string \<Rightarrow> string \<Rightarrow> api_error + k8s_object"
  ccListAll :: "'s \<Rightarrow> rtype list \<Rightarrow> broker_cluster \<Rightarrow> string + (rtype \<Rightarrow> k8s_object list)"
  ccUpdateStatus :: "'s \<Rightarrow> broker_cluster \<Rightarrow> string option \<times> 's"
  ccGetScaledown :: "'s \<Rightarrow> string \<Rightarrow> string \<Rightarrow> api_error + scaledown"
  ccCreateScaledown :: "'s \<Rightarrow> scaledown \<Rightarrow> string option \<times> 's"
  ccDeleteScaledown :: "'s \<Rightarrow> scaledown \<Rightarrow> string option \<times> 's"

text \<open>The surroundings with the reads of a state of the server.\<close>

definition at_server :: "'s cluster_client \<Rightarrow> 's \<Rightarrow> 'w cluster_env \<Rightarrow> 'w cluster_env" where
  "at_server CL s E =
     E\<lparr>ceBase := (ceBase E)\<lparr>beCluster := oclReads (ccObjects CL) s\<rparr>, ceGetObject := ccGetObject CL s\<rparr>"

section \<open>Message migration\<close>

definition getenv :: "env \<Rightarrow> string \<Rightarrow> string" where
  "getenv os key = (case os key of Some v \<Rightarrow> v | None \<Rightarrow> '''')"

definition isLocalOnly :: "env \<Rightarrow> bool" where
  "isLocalOnly os \<longleftrightarrow> getenv os ''OPERATOR_NAMESPACE'' = getenv os ''OPERATOR_WATCH_NAMESPACE''"

definition scaledown_annotations :: "env \<Rightarrow> broker_cluster \<Rightarrow> data_map" where
  "scaledown_annotations os cr =
     [(''CRNAMESPACE'', bcNamespace cr), (''CRNAME'', bcName cr), (''HEADLESSSVCNAMEVALUE'', cluster_headless_name cr),
      (''PINGSVCNAMEVALUE'', ping_name cr), (''SERVICE_ACCOUNT'', getenv os ''SERVICE_ACCOUNT''),
      (''SERVICE_ACCOUNT_NAME'', getenv os ''SERVICE_ACCOUNT''),
      (''AMQ_CREDENTIALS_SECRET_NAME'', credentials_name cr)]"

definition cluster_owner :: "broker_cluster \<Rightarrow> owner_ref" where
  "cluster_owner cr =
     \<lparr>orAPIVersion = bcAPIVersion cr, orKind = bcKind cr, orName = bcName cr, orUID = bcUID cr\<rparr>"

definition desired_scaledown :: "env \<Rightarrow> broker_cluster \<Rightarrow> scaledown" where
  "desired_scaledown os cr =
     \<lparr>sdName = bcName cr, sdNamespace = bcNamespace cr, sdLabels = cluster_labels cr,
      sdAnnotations = scaledown_annotations os cr, sdOwners = [cluster_owner cr], sdLocalOnly = isLocalOnly os,
      sdResources = dpResources (bcPlan cr)\<rparr>"

text \<open>Any error of the read counts as absence; the errors of the writes are only logged.\<close>

definition syncMessageMigration :: "'s cluster_client \<Rightarrow> env \<Rightarrow> broker_cluster \<Rightarrow> 's \<Rightarrow> 's" where
  "syncMessageMigration CL os cr s =
     (let found = ccGetScaledown CL s (bcNamespace cr) (bcName cr);
          migrate = (case dpMessageMigration (bcPlan cr) of Some b \<Rightarrow> b | None \<Rightarrow> True)
      in if migrate \<and> isClustered cr
         then (if \<not> dpPersistenceEnabled (bcPlan cr) then s
               else (case found of
                       Inl err \<Rightarrow> snd (ccCreateScaledown CL s (desired_scaledown os cr))
                     | Inr sd \<Rightarrow> s))
         else (case found of Inl err \<Rightarrow> s | Inr sd \<Rightarrow> snd (ccDeleteScaledown CL s sd)))"

definition plan_step ::
  "'s cluster_client \<Rightarrow> env \<Rightarrow> broker_cluster \<Rightarrow> broker_loop \<times> 's \<Rightarrow> plan_action \<Rightarrow> broker_loop \<times> 's" where
  "plan_step CL os cr st action =
     (case action of
        SyncMessageMigration \<Rightarrow> (fst st, syncMessageMigration CL os cr (snd st))
      | ApplyPodDisruptionBudget \<Rightarrow>
          (case dpPodDisruptionBudget (bcPlan cr) of
             Some limits \<Rightarrow> (cluster_applyPodDisruptionBudget cr limits (fst st), snd st)
           | None \<Rightarrow> st))"

text \<open>The plan with what it asks for: the cluster, the replicas, the resources and the server after it.\<close>

definition apply_plan ::
  "'w cluster_env \<Rightarrow> 's cluster_client \<Rightarrow> broker_cluster \<Rightarrow> sts_spec \<Rightarrow> broker_loop \<Rightarrow> 'w session \<Rightarrow> 's \<Rightarrow>
     broker_cluster \<times> sts_spec \<times> broker_loop \<times> 'w session \<times> 's" where
  "apply_plan E CL cr spec L S s =
     (let B = ceBase E
      in case ProcessDeploymentPlan (beMeta B) (oclReads (ccObjects CL) s) (beBrokers B) cr (soReplicas spec) S of
           (cr', replicas, actions, S') \<Rightarrow>
             (case foldl (plan_step CL (beOs B) cr') (L, s) actions of
                (L', s') \<Rightarrow> (cr', spec\<lparr>soReplicas := replicas\<rparr>, L', S', s')))"

section \<open>What is deployed\<close>

definition release_ordinal :: "'s cluster_client \<Rightarrow> broker_cluster \<Rightarrow> 's \<Rightarrow> nat \<Rightarrow> 's" where
  "release_ordinal CL cr s i =
     (case RemovePVCOwnerRef
             (oclGetClaim (ccObjects CL) s (bcNamespace cr) (bcName cr @ ''-'' @ CrToSS (bcName cr) @ ''-'' @ itoa (int i)))
             (bcUID cr) of
        Some pvc \<Rightarrow> snd (oclUpdate (ccObjects CL) s (claim_object pvc))
      | None \<Rightarrow> s)"

definition checkExistingPersistentVolumes :: "'s cluster_client \<Rightarrow> broker_cluster \<Rightarrow> 's \<Rightarrow> 's" where
  "checkExistingPersistentVolumes CL cr s = foldl (release_ordinal CL cr) s (cluster_ordinals cr)"

definition cluster_GetDeployedResources ::
  "'w cluster_env \<Rightarrow> 's cluster_client \<Rightarrow> 's \<Rightarrow> broker_cluster \<Rightarrow> string + (rtype \<Rightarrow> k8s_object list)" where
  "cluster_GetDeployedResources E CL s cr = ccListAll CL s (listed_types (beOnOpenShift (ceBase E))) cr"

text \<open>The second component is whether the objects were listed; if not, the map of deployed ones is \<open>nil\<close>.\<close>

definition cluster_CurrentDeployedResources ::
  "'w cluster_env \<Rightarrow> 's cluster_client \<Rightarrow> broker_cluster \<Rightarrow> broker_loop \<Rightarrow> 's \<Rightarrow> broker_loop \<times> bool \<times> 's" where
  "cluster_CurrentDeployedResources E CL cr L s =
     (let s1 = (if dpPersistenceEnabled (bcPlan cr) then checkExistingPersistentVolumes CL cr s else s)
      in case cluster_GetDeployedResources E CL s1 cr of
           Inl err \<Rightarrow> (L\<lparr>blDeployed := (\<lambda>t. [])\<rparr>, False, s1)
         | Inr objs \<Rightarrow>
             (foldl trackDesired (L\<lparr>blDeployed := objs\<rparr>)
                (filter (\<lambda>obj. has_prefix (object_name obj) ''secret-broker-'') (objs SecretT)), True, s1))"

text \<open>Adopting an object adds it to the deployed ones, and an addition to a \<open>nil\<close> map panics.\<close>

definition nil_map_written :: "bool \<Rightarrow> broker_loop \<Rightarrow> bool" where
  "nil_map_written listed L \<longleftrightarrow> \<not> listed \<and> (blDeployed L SecretT \<noteq> [] \<or> blDeployed L ServiceT \<noteq> [])"

section \<open>Comparison and writes\<close>

fun cluster_stale_owner :: "broker_cluster \<Rightarrow> owner_ref list \<Rightarrow> owner_ref list option" where
  "cluster_stale_owner cr [] = None"
| "cluster_stale_owner cr (r # rs) =
     (if orKind r = ''ActiveMQArtemis'' \<and> orName r = bcName cr \<and> orAPIVersion r \<noteq> bcAPIVersion cr
      then Some (r\<lparr>orAPIVersion := bcAPIVersion cr\<rparr> # rs)
      else map_option ((#) r) (cluster_stale_owner cr rs))"

definition cluster_ensureOwnerReferenceAPIVersion ::
  "broker_cluster \<Rightarrow> k8s_object \<Rightarrow> k8s_object \<Rightarrow> bool \<times> k8s_object" where
  "cluster_ensureOwnerReferenceAPIVersion cr existing candidate =
     (case cluster_stale_owner cr (omOwners (obMeta existing)) of
        None \<Rightarrow> (True, candidate)
      | Some ownerRefs \<Rightarrow> (False, candidate\<lparr>obMeta := (obMeta candidate)\<lparr>omOwners := ownerRefs\<rparr>\<rparr>))"

definition cluster_CompareMetaAndSpec ::
  "object_compare \<Rightarrow> broker_cluster \<Rightarrow> k8s_object \<Rightarrow> k8s_object \<Rightarrow> bool \<times> k8s_object" where
  "cluster_CompareMetaAndSpec CMP cr d r =
     (if object_equalMeta CMP d r \<and> ocEqualSpec CMP (obBody d) (obBody r)
      then cluster_ensureOwnerReferenceAPIVersion cr d r else (False, r))"

definition cluster_CompareSecret ::
  "object_compare \<Rightarrow> broker_cluster \<Rightarrow> k8s_object \<Rightarrow> k8s_object \<Rightarrow> bool \<times> k8s_object" where
  "cluster_CompareSecret CMP cr d r =
     (if object_equalMeta CMP d r
      then (case cluster_ensureOwnerReferenceAPIVersion cr d r of
              (True, r') \<Rightarrow> (ocEqualPair CMP (mergeSecretStringDataToData d) (mergeSecretStringDataToData r'), r')
            | (False, r') \<Rightarrow> (False, r'))
      else (False, r))"

definition cluster_CompareConfigMap :: "broker_cluster \<Rightarrow> k8s_object \<Rightarrow> k8s_object \<Rightarrow> bool \<times> k8s_object" where
  "cluster_CompareConfigMap cr d r =
     (if object_name d = object_name r then cluster_ensureOwnerReferenceAPIVersion cr d r else (False, r))"

definition cluster_comparator ::
  "object_compare \<Rightarrow> broker_cluster \<Rightarrow> rtype \<Rightarrow> k8s_object \<Rightarrow> k8s_object \<Rightarrow> bool \<times> k8s_object" where
  "cluster_comparator CMP cr t =
     (case t of SecretT \<Rightarrow> cluster_CompareSecret CMP cr | ConfigMapT \<Rightarrow> cluster_CompareConfigMap cr
      | _ \<Rightarrow> cluster_CompareMetaAndSpec CMP cr)"

definition cluster_compared :: "object_compare \<Rightarrow> broker_cluster \<Rightarrow> broker_loop \<Rightarrow> k8s_object \<Rightarrow> k8s_object" where
  "cluster_compared CMP cr L r =
     (case getFromDeployed L (rtype_of r) (object_name r) of
        Some d \<Rightarrow> snd (cluster_comparator CMP cr (rtype_of r) d r)
      | None \<Rightarrow> r)"

definition cluster_createRequestedResource ::
  "'s object_client \<Rightarrow> broker_cluster \<Rightarrow> 's \<Rightarrow> k8s_object \<Rightarrow> string option \<times> 's" where
  "cluster_createRequestedResource CL cr s obj =
     (case oclCreate CL s (cluster_SetOwnerAndController cr obj) of (err, s') \<Rightarrow>
       (map_option (\<lambda>e. failed_to ''create new'' obj (client_error_text e)) err, s'))"

fun cluster_template_all ::
  "'w cluster_env \<Rightarrow> broker_cluster \<Rightarrow> requested \<Rightarrow> nat set \<Rightarrow> (string option \<times> requested \<times> nat set) go_result" where
  "cluster_template_all E cr [] matched = Ok (None, [], matched)"
| "cluster_template_all E cr ((key, obj) # rest) matched =
     (case cluster_applyTemplates (beTemplates (ceBase E)) (beOrder (ceBase E)) cr matched
             (in_namespace (bcNamespace cr) obj) of
        Ok (None, matched', obj') \<Rightarrow>
          (case cluster_template_all E cr rest matched' of
             Ok (err, rest', matched'') \<Rightarrow> Ok (err, (key, obj') # rest', matched'')
           | Err e \<Rightarrow> Err e
           | Panic \<Rightarrow> Panic)
      | Ok (Some err, matched', obj') \<Rightarrow> Ok (Some err, (key, obj') # rest, matched')
      | Err e \<Rightarrow> Err e
      | Panic \<Rightarrow> Panic)"

definition cluster_sync_type ::
  "'s object_client \<Rightarrow> object_compare \<Rightarrow> broker_cluster \<Rightarrow> broker_loop \<Rightarrow> object_delta \<Rightarrow>
     string list \<times> 's \<Rightarrow> string list \<times> 's" where
  "cluster_sync_type CL CMP cr L d st =
     apply_each (deleteRequestedResource CL) (odRemoved d)
       (apply_each (updateRequestedResource CL) (map (cluster_compared CMP cr L) (odUpdated d))
         (apply_each (cluster_createRequestedResource CL cr) (odAdded d) st))"

fun cluster_sync_types ::
  "'s object_client \<Rightarrow> object_compare \<Rightarrow> broker_cluster \<Rightarrow> broker_loop \<Rightarrow> (rtype \<Rightarrow> object_delta option) \<Rightarrow>
     rtype list \<Rightarrow> string list \<times> 's \<Rightarrow> string list \<times> 's" where
  "cluster_sync_types CL CMP cr L deltas [] st = st"
| "cluster_sync_types CL CMP cr L deltas (t # ts) st =
     cluster_sync_types CL CMP cr L deltas ts
       (case deltas t of None \<Rightarrow> st | Some d \<Rightarrow> cluster_sync_type CL CMP cr L d st)"

section \<open>ProcessResources\<close>

definition cluster_unmatched :: "broker_cluster \<Rightarrow> nat set \<Rightarrow> nat list" where
  "cluster_unmatched cr matched = filter (\<lambda>i. i \<notin> matched) [0..<length (bcTemplates cr)]"

definition cluster_report_unmatched :: "meta_api \<Rightarrow> nat set \<Rightarrow> broker_cluster \<Rightarrow> broker_cluster" where
  "cluster_report_unmatched M matched cr =
     (case cluster_unmatched cr matched of
        [] \<Rightarrow> cr
      | i # rest \<Rightarrow>
          (if (case FindStatusCondition M (bcConditions cr) ValidConditionType of
                 None \<Rightarrow> True | Some c \<Rightarrow> cStatus c \<noteq> ConditionFalse)
           then SetStatusConditionWithGeneration M
                  (mk_condition ValidConditionType ConditionUnknown ValidConditionUnknownReason
                    (''ResourceTemplate at index '' @ itoa (int i) @ '' did not match any operator-generated resources'')) cr
           else cr))"

definition cluster_deltas ::
  "'w cluster_env \<Rightarrow> object_compare \<Rightarrow> broker_cluster \<Rightarrow> broker_loop \<Rightarrow> rtype \<Rightarrow> object_delta option" where
  "cluster_deltas E CMP cr L =
     ocDeltas CMP (\<lambda>t d r. fst (cluster_comparator CMP cr t d r)) (blDeployed L)
       (map snd (beRange (ceBase E) (blRequested L)))"

definition cluster_ProcessResources ::
  "'w cluster_env \<Rightarrow> 's object_client \<Rightarrow> object_compare \<Rightarrow> broker_cluster \<Rightarrow> broker_loop \<Rightarrow> 's \<Rightarrow>
     (string option \<times> broker_cluster \<times> broker_loop \<times> 's) go_result" where
  "cluster_ProcessResources E CL CMP cr L s =
     (case cluster_template_all E cr (beRange (ceBase E) (blRequested L)) (blMatched L) of
        Panic \<Rightarrow> Panic
      | Err e \<Rightarrow> Err e
      | Ok (Some err, requested, matched) \<Rightarrow> Ok (Some err, cr, L\<lparr>blRequested := requested, blMatched := matched\<rparr>, s)
      | Ok (None, requested, matched) \<Rightarrow>
          (let L1 = L\<lparr>blRequested := requested, blMatched := matched\<rparr>
           in case cluster_sync_types CL CMP cr L1 (cluster_deltas E CMP cr L1) ordered_types ([], s) of
                (compositeError, s') \<Rightarrow>
                  Ok (composite_error compositeError, cluster_report_unmatched (beMeta (ceBase E)) matched cr, L1, s')))"

section \<open>Process\<close>

text \<open>The requested stateful set, with the checksum of the secrets in its environment.\<close>

definition checksummed :: "k8s_object list \<Rightarrow> sts_spec \<Rightarrow> sts_spec" where
  "checksummed requestedResources =
     update_pod_spec (\<lambda>sp. sp\<lparr>spContainers := trackSecretCheckSumInEnvVar requestedResources (spContainers sp)\<rparr>)"

text \<open>Credentials, acceptors and connectors, and the console: an error of one ends the sequence.\<close>

definition process_variables ::
  "'w cluster_env \<Rightarrow> broker_cluster \<Rightarrow> sts_spec \<times> broker_loop \<Rightarrow>
     (string option \<times> sts_spec \<times> broker_loop) go_result \<times> broker_cluster" where
  "process_variables E cr st =
     (case ProcessCredentials E cr st of
        Panic \<Rightarrow> (Panic, cr)
      | Err e \<Rightarrow> (Err e, cr)
      | Ok st1 \<Rightarrow>
          (case ProcessAcceptorsAndConnectors E cr st1 of
             (Ok (None, st2), cr1) \<Rightarrow> (ProcessConsole E cr1 st2, cr1)
           | (r, cr1) \<Rightarrow> (r, cr1)))"

text \<open>What a run of \<open>Process\<close> leaves.\<close>

record ('w, 's) processed =
  poError :: "string option"
  poCluster :: broker_cluster
  poLoop :: broker_loop
  poSession :: "'w session"
  poServer :: 's

text \<open>The writes, once everything is requested.\<close>

definition process_writes ::
  "'w cluster_env \<Rightarrow> 's cluster_client \<Rightarrow> object_compare \<Rightarrow> broker_cluster \<Rightarrow> object_meta \<Rightarrow> sts_spec \<Rightarrow> broker_loop \<Rightarrow>
     'w session \<Rightarrow> 's \<Rightarrow> ('w, 's) processed go_result" where
  "process_writes E CL CMP cr meta spec L S s =
     (let tracked = trackDesired L (set_object meta
            (checksummed (map snd (beRange (ceBase E) (blRequested L))) spec))
      in case cluster_ProcessResources E (ccObjects CL) CMP cr tracked s of
           Panic \<Rightarrow> Panic
         | Err e \<Rightarrow> Err e
         | Ok (err, cr', L', s') \<Rightarrow>
             Ok \<lparr>poError = err, poCluster = cr', poLoop = L', poSession = S, poServer = s'\<rparr>)"

definition process_requested ::
  "'w cluster_env \<Rightarrow> 's cluster_client \<Rightarrow> object_compare \<Rightarrow> bool \<Rightarrow> broker_cluster \<Rightarrow> object_meta \<Rightarrow> sts_spec \<Rightarrow>
     broker_loop \<Rightarrow> 'w session \<Rightarrow> 's \<Rightarrow> ('w, 's) processed go_result" where
  "process_requested E CL CMP listed cr meta spec L S s =
     (case apply_plan E CL cr spec L S s of
        (cr1, spec1, L1, S1, s1) \<Rightarrow>
          (case process_variables (at_server CL s1 E) cr1 (spec1, L1) of
             (Panic, cr2) \<Rightarrow> Panic
           | (Err e, cr2) \<Rightarrow> Err e
           | (Ok (err, spec2, L2), cr2) \<Rightarrow>
               (if nil_map_written listed L2 then Panic
                else case err of
                  Some e \<Rightarrow>
                    Ok \<lparr>poError = Some e, poCluster = cr2, poLoop = L2, poSession = S1, poServer = s1\<rparr>
                | None \<Rightarrow> process_writes E CL CMP cr2 meta spec2 L2 S1 s1)))"

definition cluster_Process ::
  "'w cluster_env \<Rightarrow> 's cluster_client \<Rightarrow> object_compare \<Rightarrow> broker_cluster \<Rightarrow> 'w session \<Rightarrow> 's \<Rightarrow>
     ('w, 's) processed go_result" where
  "cluster_Process E CL CMP cr S s =
     (case cluster_CurrentDeployedResources E CL cr NewBrokerReconcilerImpl s of
        (L0, listed, s0) \<Rightarrow>
          (case cluster_ProcessStatefulSet (at_server CL s0 E) cr L0 of
             (Panic, L1) \<Rightarrow> Panic
           | (Err err, L1) \<Rightarrow>
               Ok \<lparr>poError = Some (''failed to process stateful set, '' @ err), poCluster = cr, poLoop = L1,
                   poSession = S, poServer = s0\<rparr>
           | (Ok (meta, spec), L1) \<Rightarrow> process_requested E CL CMP listed cr meta spec L1 S s0))"

section \<open>Reconcile\<close>

definition cluster_blocked :: "broker_cluster \<Rightarrow> bool" where
  "cluster_blocked cr =
     (case map_of (bcAnnotations cr) BlockReconcileAnnotation of
        None \<Rightarrow> False
      | Some val \<Rightarrow> (case ParseBool val of Some b \<Rightarrow> b | None \<Rightarrow> False))"

definition hasExtraMounts :: "broker_cluster \<Rightarrow> bool" where
  "hasExtraMounts cr \<longleftrightarrow> length (dpExtraConfigMaps (bcPlan cr)) > 0 \<or> length (dpExtraSecrets (bcPlan cr)) > 0"

definition validation_of :: "'w broker_env \<Rightarrow> validation_env" where
  "validation_of B =
     \<lparr>veMeta = beMeta B, veOrder = beOrder B, veKube = beCluster B, veVersions = beVersions B,
      veOnOpenShift = beOnOpenShift B, veParseQuantity = beParseQuantity B, veLoginRegEx = beLoginRegEx B,
      veMatch = beMatch B\<rparr>"

definition status_of :: "'w broker_env \<Rightarrow> broker_loop \<Rightarrow> 'w status_env" where
  "status_of B L =
     \<lparr>teMeta = beMeta B, teOrder = beOrder B, teKube = beCluster B, teBrokers = beBrokers B,
      teVersions = beVersions B, teJson = beJson B, teDesired = tracked_secret L\<rparr>"

text \<open>The outcome of a request.\<close>

record ('w, 's) cluster_outcome =
  coRequeue :: bool
  coError :: "string option"
  coResource :: "broker_cluster option"
  coAnnounced :: "string list"
  coServer :: 's
  coBrokers :: 'w

definition current_cluster_status :: "'s cluster_client \<Rightarrow> 's \<Rightarrow> broker_cluster \<Rightarrow> api_error + cluster_status" where
  "current_cluster_status CL s cr =
     (case ccGetCluster CL s (bcNamespace cr) (bcName cr) of Inl err \<Rightarrow> Inl err | Inr c \<Rightarrow> Inr (bcStatus c))"

text \<open>What follows the resources and the checks: the status, and whether to look again.\<close>

definition finish_cluster ::
  "'w cluster_env \<Rightarrow> 's cluster_client \<Rightarrow> pod_status \<Rightarrow> bool \<Rightarrow> bool \<Rightarrow> string option \<Rightarrow> broker_cluster \<Rightarrow> 's \<Rightarrow> 'w \<Rightarrow>
     ('w, 's) cluster_outcome" where
  "finish_cluster E CL lastStatus blocked requeueRequest err cr s w =
     (let B = (ceBase E)\<lparr>beCluster := oclReads (ccObjects CL) s\<rparr>
      in case ProcessStatus (status_of B NewBrokerReconcilerImpl) (beOs B) (beGoarch B) lastStatus
                (UpdateBlockedStatus (beMeta B) blocked cr) err of
           (cr1, announced) \<Rightarrow>
             (case UpdateBrokerClusterCRStatus (beMeta B) (current_cluster_status CL s cr1)
                     (\<lambda>c. fst (ccUpdateStatus CL s c)) cr1 of
                (cr2, written, crStatusUpdateErr) \<Rightarrow>
                  \<lparr>coRequeue = requeueRequest \<or> crStatusUpdateErr \<noteq> None \<or> (\<not> blocked \<and> hasExtraMounts cr2),
                   coError = err, coResource = Some cr2, coAnnounced = announced,
                   coServer = (if written then snd (ccUpdateStatus CL s cr2) else s), coBrokers = w\<rparr>))"

text \<open>The brokers are asked in the session of the run, with the endpoints and answers it already has.\<close>

definition check_cluster ::
  "'w cluster_env \<Rightarrow> 's cluster_client \<Rightarrow> pod_status \<Rightarrow> bool \<Rightarrow> bool \<Rightarrow> ('w, 's) processed \<Rightarrow>
     ('w, 's) cluster_outcome go_result" where
  "check_cluster E CL lastStatus blocked requeueRequest P =
     (case ProcessBrokerClusterStatus
             (status_of ((ceBase E)\<lparr>beCluster := oclReads (ccObjects CL) (poServer P)\<rparr>) (poLoop P))
             (poCluster P) (poSession P) of
        None \<Rightarrow> Panic
      | Some (retry, cr, S) \<Rightarrow>
          Ok (finish_cluster E CL lastStatus blocked (requeueRequest \<or> retry) (poError P) cr (poServer P) (snWorld S)))"

definition reconcile_cluster ::
  "'w cluster_env \<Rightarrow> 's cluster_client \<Rightarrow> object_compare \<Rightarrow> pod_status \<Rightarrow> broker_cluster \<Rightarrow> 's \<Rightarrow> 'w \<Rightarrow>
     ('w, 's) cluster_outcome go_result" where
  "reconcile_cluster E CL CMP lastStatus cr s w =
     (let blocked = cluster_blocked cr
      in case validate (validation_of ((ceBase E)\<lparr>beCluster := oclReads (ccObjects CL) s\<rparr>)) cr of
           (cr1, valid, requeueRequest) \<Rightarrow>
             (if \<not> valid then Ok (finish_cluster E CL lastStatus blocked requeueRequest None cr1 s w)
              else if blocked
              then check_cluster E CL lastStatus blocked requeueRequest
                     \<lparr>poError = None, poCluster = cr1, poLoop = NewBrokerReconcilerImpl, poSession = new_session w,
                      poServer = s\<rparr>
              else (case cluster_Process E CL CMP cr1 (new_session w) s of
                      Panic \<Rightarrow> Panic
                    | Err e \<Rightarrow> Err e
                    | Ok P \<Rightarrow> check_cluster E CL lastStatus blocked requeueRequest P)))"

definition cluster_Reconcile ::
  "'w cluster_env \<Rightarrow> 's cluster_client \<Rightarrow> object_compare \<Rightarrow> pod_status \<Rightarrow> string \<times> string \<Rightarrow> 's \<Rightarrow> 'w \<Rightarrow>
     ('w, 's) cluster_outcome go_result" where
  "cluster_Reconcile E CL CMP lastStatus request s w =
     (case ccGetCluster CL s (fst request) (snd request) of
        Inl (NotFound err) \<Rightarrow>
          Ok \<lparr>coRequeue = False, coError = None, coResource = None, coAnnounced = [], coServer = s, coBrokers = w\<rparr>
      | Inl (ApiError err) \<Rightarrow>
          Ok \<lparr>coRequeue = False, coError = Some (api_error_text (ApiError err)), coResource = None, coAnnounced = [],
              coServer = s, coBrokers = w\<rparr>
      | Inr cr \<Rightarrow> reconcile_cluster E CL CMP lastStatus cr s w)"

end
