(* ===== verification/Cluster_Sync.thy ===== *)
theory Cluster_Sync
  imports Broker_Sync Cluster_Reconcile
begin

text \<open>
  The synchronisation of a \<open>BrokerCluster\<close> as an \<open>object_sync\<close>, and what the steps before it keep: the deployed
  resources stay listed under their type and name, also those that are adopted on the way.
\<close>

section \<open>The interface\<close>

lemma cluster_owner_key [simp]: "okey (cluster_SetOwnerAndController cr obj) = okey obj"
  by (simp add: okey_def cluster_SetOwnerAndController_def rtype_of_def object_name_def)

lemma cluster_ensure_key: "okey (snd (cluster_ensureOwnerReferenceAPIVersion cr d r)) = okey r"
  by (simp add: cluster_ensureOwnerReferenceAPIVersion_def split: option.split)

lemma cluster_comparator_key: "okey (snd (cluster_comparator CMP cr t d r)) = okey r"
  using cluster_ensure_key [of cr d r]
  by (cases t; cases "cluster_ensureOwnerReferenceAPIVersion cr d r")
    (auto simp: cluster_comparator_def cluster_CompareSecret_def cluster_CompareConfigMap_def
      cluster_CompareMetaAndSpec_def split: bool.split)

lemma cluster_creates: "cluster_createRequestedResource CL cr = create_owned (cluster_SetOwnerAndController cr) CL"
  by (simp add: fun_eq_iff cluster_createRequestedResource_def create_owned_def)

lemma cluster_compares: "cluster_compared CMP cr = compared_with (cluster_comparator CMP cr)"
  by (simp add: fun_eq_iff cluster_compared_def compared_with_def)

interpretation cluster_sync: object_sync "cluster_SetOwnerAndController cr" "cluster_comparator CMP cr"
  "\<lambda>CL. cluster_sync_type CL CMP cr" "\<lambda>CL. cluster_sync_types CL CMP cr" for CMP cr
  by unfold_locales (simp_all add: cluster_comparator_key cluster_sync_type_def cluster_creates cluster_compares)

definition cluster_synced ::
  "object_compare \<Rightarrow> broker_cluster \<Rightarrow> broker_loop \<Rightarrow> k8s_object option \<Rightarrow> rtype \<Rightarrow> string \<Rightarrow> k8s_object option" where
  "cluster_synced CMP cr = sync_result (cluster_SetOwnerAndController cr) (cluster_comparator CMP cr)"

text \<open>Only the identity of the custom resource matters to it.\<close>

definition same_identity :: "broker_cluster \<Rightarrow> broker_cluster \<Rightarrow> bool" where
  "same_identity a b \<longleftrightarrow> bcName a = bcName b \<and> bcNamespace a = bcNamespace b \<and> bcAPIVersion a = bcAPIVersion b \<and>
     bcKind a = bcKind b \<and> bcUID a = bcUID b"

lemma cluster_stale_owner_identity:
  "same_identity a b \<Longrightarrow> cluster_stale_owner a rs = cluster_stale_owner b rs"
  by (induction rs) (simp_all add: same_identity_def)

lemma cluster_comparator_identity: "same_identity a b \<Longrightarrow> cluster_comparator CMP a = cluster_comparator CMP b"
  by (auto simp: fun_eq_iff cluster_comparator_def cluster_CompareMetaAndSpec_def cluster_CompareSecret_def
      cluster_CompareConfigMap_def cluster_ensureOwnerReferenceAPIVersion_def cluster_stale_owner_identity
      split: rtype.split)

lemma cluster_synced_identity: "same_identity a b \<Longrightarrow> cluster_synced CMP a = cluster_synced CMP b"
proof -
  assume i: "same_identity a b"
  have "cluster_SetOwnerAndController a = cluster_SetOwnerAndController b"
    using i by (simp add: fun_eq_iff cluster_SetOwnerAndController_def same_identity_def)
  then show ?thesis by (simp add: cluster_synced_def cluster_comparator_identity [OF i])
qed

lemma cluster_resources_synced:
  assumes "object_client_ok stored CL" "object_compare_ok CMP"
    and "\<forall>rs. mset (beRange (ceBase E) rs) = mset rs" "well_listed L"
    and "cluster_ProcessResources E CL CMP cr L s = Ok (None, cr', L', s')" "well_keyed L'" "t \<in> set ordered_types"
  shows "stored s' (t, n) = cluster_synced CMP cr L' (stored s (t, n)) t n \<or>
    left_over CL L' (stored s (t, n)) t n (stored s' (t, n))"
proof -
  obtain R M where R: "cluster_template_all E cr (beRange (ceBase E) (blRequested L)) (blMatched L) = Ok (None, R, M)"
    and L': "L' = L\<lparr>blRequested := R, blMatched := M\<rparr>"
    using assms(5) by (auto simp: cluster_ProcessResources_def Let_def split: go_result.splits prod.splits option.splits)
  have s: "cluster_sync_types CL CMP cr L' (cluster_deltas E CMP cr L') ordered_types ([], s) = ([], s')"
    using assms(5) R L'
    by (auto simp: cluster_ProcessResources_def Let_def composite_error_def split: go_result.splits prod.splits if_splits)
  have "set (beRange (ceBase E) R) = set R" using assms(3) by (metis set_mset_mset)
  then have objs: "set (map snd (beRange (ceBase E) R)) = snd ` set (blRequested L')" using L' by simp
  have wl: "well_listed L'" using assms(4) L' by (simp add: well_listed_def)
  have s: "cluster_sync_types CL CMP cr L' (ocDeltas CMP (\<lambda>t d r. fst (cluster_comparator CMP cr t d r)) (blDeployed L')
      (map snd (beRange (ceBase E) R))) ordered_types ([], s) = ([], s')"
    using s by (simp add: cluster_deltas_def L')
  show ?thesis unfolding cluster_synced_def by (rule cluster_sync.synced [OF assms(1,2,6) wl objs s assms(7)])
qed

section \<open>Adoption\<close>

text \<open>A read by name returns an object of that type and name.\<close>

definition reads_named :: "(rtype \<Rightarrow> string \<Rightarrow> string \<Rightarrow> api_error + k8s_object) \<Rightarrow> bool" where
  "reads_named get \<longleftrightarrow> (\<forall>t ns n obj. get t ns n = Inr obj \<longrightarrow> okey obj = (t, n))"

lemma adopt_lists:
  assumes "adopt t E cr c L = (c', L')" "reads_named (ceGetObject E)" "well_listed L"
    and "getFromDeployed L t (object_name c) = None"
  shows "well_listed L'"
proof (cases "ceGetObject E t (omNamespace (obMeta c)) (object_name c)")
  case (Inl e)
  with assms show ?thesis by (simp add: adopt_def)
next
  case (Inr x)
  then have "okey x = (t, object_name c)" using assms(2) by (auto simp: reads_named_def)
  then have k: "okey (cluster_SetOwnerAndController cr x) = (t, object_name c)" by simp
  have "object_name c \<notin> object_name ` set (blDeployed L t)" using assms(4) by (simp add: deployed_none)
  with Inr assms(1,3) k show ?thesis
    by (auto simp: adopt_def updateOwnerReferencesAndMatchVersion_def Let_def addToDeployed_def well_listed_def okey_def
        split: if_splits)
qed

lemma service_check_lists:
  "checkExistingService E cr c L = (c', L') \<Longrightarrow> reads_named (ceGetObject E) \<Longrightarrow> well_listed L \<Longrightarrow> well_listed L'"
  by (auto simp: checkExistingService_def split: option.splits intro: adopt_lists)

lemma well_listed_track [simp]: "well_listed (trackDesired L obj) = well_listed L"
  by (simp add: well_listed_def)

lemma foldl_invariant: "(\<And>x y. P x \<Longrightarrow> P (f x y)) \<Longrightarrow> P a \<Longrightarrow> P (foldl f a ys)"
  by (induction ys arbitrary: a) auto

text \<open>The services and the internal secrets adopt under this condition.\<close>

lemma expose_endpoint_lists:
  assumes "reads_named (ceGetObject E)" "well_listed L"
  shows "well_listed (expose_endpoint E cr i L e)"
  using service_check_lists [OF _ assms]
  by (auto simp: expose_endpoint_def Let_def split: prod.split)

lemma expose_endpoints_lists:
  "reads_named (ceGetObject E) \<Longrightarrow> well_listed L \<Longrightarrow> well_listed (expose_endpoints E cr es L)"
  unfolding expose_endpoints_def by (intro foldl_invariant [where P = well_listed] expose_endpoint_lists)

lemma console_exposure_lists:
  assumes "reads_named (ceGetObject E)" "well_listed L"
  shows "well_listed (configureConsoleExposure E cr L)"
proof -
  have "well_listed (expose_console E cr L i)" if "well_listed L" for L i
    using service_check_lists [OF _ assms(1) that] that by (auto simp: expose_console_def Let_def split: prod.split)
  with assms(2) show ?thesis unfolding configureConsoleExposure_def by (intro foldl_invariant [where P = well_listed])
qed

lemma internal_lists:
  assumes "reads_named (ceGetObject E)" "well_listed L"
  shows "well_listed (track_internal E cr vs n L)"
proof -
  have name: "object_name (MakeSecret ns n' d ls) = n'" for ns n' d ls
    by (simp add: MakeSecret_def object_name_def named_meta_def)
  have "well_listed (snd (internal_secret E cr n' d L))" for n' d
    using adopt_lists [OF _ assms] assms(2) name
    by (auto simp: internal_secret_def adoptExistingSecretWithNoOwnerRefForUpdate_def cloneOfDeployed_def
        split: option.split prod.splits)
  then show ?thesis using assms(2) by (simp add: track_internal_def case_prod_beta)
qed

lemma source_lists:
  assumes "sourceEnvVarFromSecret E cr vs n st = Ok st'" "reads_named (ceGetObject E)" "well_listed (snd st)"
  shows "well_listed (snd st')"
  using assms internal_lists [OF assms(2)]
  by (auto simp: sourceEnvVarFromSecret_def Let_def split: go_result.splits option.splits)

section \<open>Acceptors and connectors\<close>

text \<open>The text of acceptors and connectors only tracks secrets.\<close>

lemma ssl_text_deployed: "ssl_text E cr n ts tt st = (r, st') \<Longrightarrow> blDeployed (snd st') = blDeployed (snd st)"
  by (auto simp: ssl_text_def processSSLSecret_def add_pem_secret_def addPemConfigFileSecret_def Let_def
      split: if_splits sum.splits api_error.splits prod.splits)

lemma acceptor_entry_deployed: "acceptor_entry E cr a st = (r, st') \<Longrightarrow> blDeployed (snd st') = blDeployed (snd st)"
  by (auto simp: acceptor_entry_def acceptor_ssl_def dest!: ssl_text_deployed split: if_splits prod.splits sum.splits)

lemma acceptor_entries_deployed:
  "acceptor_entries E cr n as st = (r, as', st') \<Longrightarrow> blDeployed (snd st') = blDeployed (snd st)"
  by (induction E cr n as st arbitrary: r as' st' rule: acceptor_entries.induct)
    (auto simp: Let_def dest!: acceptor_entry_deployed split: prod.splits sum.splits)

lemma connector_entries_deployed:
  "connector_entries E cr cs st = (r, st') \<Longrightarrow> blDeployed (snd st') = blDeployed (snd st)"
  by (induction E cr cs st arbitrary: r st' rule: connector_entries.induct)
    (auto simp: connector_ssl_def dest!: ssl_text_deployed split: if_splits prod.splits sum.splits)

lemma same_deployed_lists: "blDeployed L' = blDeployed L \<Longrightarrow> well_listed L' = well_listed L"
  by (simp add: well_listed_def)

lemma acceptors_string_deployed:
  "generateAcceptorsString E cr st = (r, cr', st') \<Longrightarrow> blDeployed (snd st') = blDeployed (snd st) \<and> same_identity cr' cr"
  by (auto simp: generateAcceptorsString_def same_identity_def dest!: acceptor_entries_deployed
      split: prod.splits sum.splits)

lemma acceptors_lists:
  assumes "ProcessAcceptorsAndConnectors E cr st = (Ok (err, st'), cr')" "reads_named (ceGetObject E)" "well_listed (snd st)"
  shows "well_listed (snd st') \<and> same_identity cr' cr"
proof -
  obtain r cr1 st1 where a: "generateAcceptorsString E cr st = (r, cr1, st1)" by (metis prod_cases3)
  obtain r2 spec L2 where c: "generateConnectorsString E cr1 st1 = (r2, spec, L2)" by (metis prod_cases3)
  note k = acceptors_string_deployed [OF a]
  have 1: "well_listed (snd st1)" "same_identity cr1 cr"
    using k assms(3) same_deployed_lists [OF conjunct1 [OF k]] by blast+
  have 2: "well_listed L2"
    using 1(1) same_deployed_lists [OF connector_entries_deployed [OF c [unfolded generateConnectorsString_def]]] by simp
  let ?L = "configureConnectorsExposure E cr1 (configureAcceptorsExposure E cr1 L2)"
  have 3: "well_listed ?L"
    unfolding configureAcceptorsExposure_def configureConnectorsExposure_def
    by (intro expose_endpoints_lists assms(2) 2)
  show ?thesis
  proof (cases r)
    case (Inl e)
    with assms(1) a 1 show ?thesis by (simp add: ProcessAcceptorsAndConnectors_def)
  next
    case r: (Inr x)
    show ?thesis
    proof (cases r2)
      case (Inl e)
      with assms(1) a c r 1 2 show ?thesis by (auto simp: ProcessAcceptorsAndConnectors_def)
    next
      case (Inr y)
      with assms(1) a c r have "sourced (sourceEnvVarFromSecret E cr1 (netty_values x y) (netty_name cr1) (spec, ?L)) =
          Ok (err, st')" and "cr' = cr1"
        by (auto simp: ProcessAcceptorsAndConnectors_def)
      moreover from this(1) have "sourceEnvVarFromSecret E cr1 (netty_values x y) (netty_name cr1) (spec, ?L) = Ok st'"
        by (simp add: sourced_def split: go_result.splits)
      ultimately show ?thesis using source_lists [OF _ assms(2)] 1 3 by fastforce
    qed
  qed
qed

lemma sourced_ok: "sourced r = Ok (err, st') \<Longrightarrow> err = None \<and> r = Ok st'"
  by (simp add: sourced_def split: go_result.splits)

lemma console_lists:
  assumes "ProcessConsole E cr st = Ok (err, st')" "reads_named (ceGetObject E)" "well_listed (snd st)"
  shows "well_listed (snd st')"
proof -
  note 1 = console_exposure_lists [OF assms(2,3), of cr]
  show ?thesis
  proof (cases "csoleSSLEnabled (bcConsole cr)")
    case False
    with assms(1) 1 show ?thesis by (auto simp: ProcessConsole_def Let_def)
  next
    case True
    then show ?thesis
      using assms(1) 1
      by (auto simp: ProcessConsole_def Let_def addPemConfigFileSecret_def split: sum.splits if_splits
          dest!: sourced_ok source_lists [OF _ assms(2)])
  qed
qed

section \<open>Where the writes lead\<close>

lemma variables_lists:
  assumes "process_variables E cr st = (Ok (err, st'), cr')" "reads_named (ceGetObject E)" "well_listed (snd st)"
  shows "well_listed (snd st') \<and> same_identity cr' cr"
proof -
  obtain st1 where 1: "ProcessCredentials E cr st = Ok st1"
    using assms(1) by (cases "ProcessCredentials E cr st") (auto simp: process_variables_def)
  from source_lists [OF 1 [unfolded ProcessCredentials_def] assms(2,3)] have w1: "well_listed (snd st1)" .
  obtain r cr1 where a: "ProcessAcceptorsAndConnectors E cr st1 = (r, cr1)" by fastforce
  with assms(1) 1 have cr': "cr' = cr1"
    by (auto simp: process_variables_def split: go_result.splits option.splits prod.splits)
  obtain e st2 where r: "r = Ok (e, st2)"
    using assms(1) 1 a by (cases r) (auto simp: process_variables_def)
  note w2 = acceptors_lists [OF a [unfolded r] assms(2) w1]
  show ?thesis
  proof (cases e)
    case None
    with assms(1) 1 a r have "ProcessConsole E cr1 st2 = Ok (err, st')" by (auto simp: process_variables_def)
    from console_lists [OF this assms(2)] w2 cr' show ?thesis by simp
  next
    case (Some x)
    with assms(1) 1 a r have "st' = st2" by (auto simp: process_variables_def)
    with w2 cr' show ?thesis by simp
  qed
qed

lemma plan_identity:
  "ProcessDeploymentPlan M K B cr n S = (cr', n', as, S') \<Longrightarrow> same_identity cr' cr"
  by (auto simp: ProcessDeploymentPlan_def Let_def same_identity_def set_conditions_def split: if_splits prod.splits)

lemma plan_steps_deployed:
  "foldl (plan_step CL os cr) st as = st' \<Longrightarrow> blDeployed (fst st') = blDeployed (fst st)"
proof (induction as arbitrary: st)
  case (Cons a as)
  have "blDeployed (fst (plan_step CL os cr st a)) = blDeployed (fst st)"
    by (cases a) (auto simp: plan_step_def cluster_applyPodDisruptionBudget_def split: option.split)
  with Cons show ?case by fastforce
qed simp

lemma set_spec_deployed: "cluster_ProcessStatefulSet E cr L = (r, L') \<Longrightarrow> blDeployed L' = blDeployed L"
  by (auto simp: cluster_ProcessStatefulSet_def cluster_StatefulSetForCR_def cluster_PodTemplateSpecForCR_def
      cluster_addResourceForBrokerProperties_def track_ping_def track_headless_def Let_def
      split: go_result.splits prod.splits option.splits if_splits)

text \<open>The drainer is no object of the synchronised types.\<close>

definition scaledown_frame :: "('s \<Rightarrow> rtype \<times> string \<Rightarrow> k8s_object option) \<Rightarrow> 's cluster_client \<Rightarrow> bool" where
  "scaledown_frame stored CL \<longleftrightarrow>
     (\<forall>s sd. stored (snd (ccCreateScaledown CL s sd)) = stored s \<and> stored (snd (ccDeleteScaledown CL s sd)) = stored s)"

lemma plan_steps_frame:
  assumes "scaledown_frame stored CL"
  shows "foldl (plan_step CL os cr) st as = st' \<Longrightarrow> stored (snd st') = stored (snd st)"
proof (induction as arbitrary: st)
  case (Cons a as)
  have "stored (snd (plan_step CL os cr st a)) = stored (snd st)"
    using assms by (cases a) (auto simp: plan_step_def syncMessageMigration_def scaledown_frame_def Let_def
        split: option.split sum.split)
  with Cons show ?case by fastforce
qed simp

lemma plan_keeps:
  assumes "apply_plan E CL cr spec L S s = (cr', spec', L', S', s')"
  shows "blDeployed L' = blDeployed L \<and> same_identity cr' cr \<and> (scaledown_frame stored CL \<longrightarrow> stored s' = stored s)"
proof -
  obtain c n as S1 where p: "ProcessDeploymentPlan (beMeta (ceBase E)) (oclReads (ccObjects CL) s) (beBrokers (ceBase E)) cr
      (soReplicas spec) S = (c, n, as, S1)" by (metis prod_cases4)
  with assms have f: "foldl (plan_step CL (beOs (ceBase E)) cr') (L, s) as = (L', s')" "c = cr'"
    by (auto simp: apply_plan_def Let_def split: prod.splits)
  with plan_steps_deployed [OF f(1)] plan_steps_frame [OF _ f(1), of stored] plan_identity [OF p] show ?thesis by simp
qed

lemma same_identity_trans: "same_identity a b \<Longrightarrow> same_identity b c \<Longrightarrow> same_identity a c"
  by (simp add: same_identity_def)

lemma process_ok:
  assumes "cluster_Process E CL CMP cr S s = Ok P" "poError P = None"
    and "cluster_CurrentDeployedResources E CL cr NewBrokerReconcilerImpl s = (L0, listed, s0)"
  obtains meta spec L1 cr1 spec1 L2 S1 s1 spec2 L3 cr2 L4 where
    "cluster_ProcessStatefulSet (at_server CL s0 E) cr L0 = (Ok (meta, spec), L1)"
    "apply_plan E CL cr spec L1 S s0 = (cr1, spec1, L2, S1, s1)"
    "process_variables (at_server CL s1 E) cr1 (spec1, L2) = (Ok (None, spec2, L3), cr2)"
    "L4 = trackDesired L3 (set_object meta (checksummed (map snd (beRange (ceBase E) (blRequested L3))) spec2))"
    "cluster_ProcessResources E (ccObjects CL) CMP cr2 L4 s1 = Ok (None, poCluster P, poLoop P, poServer P)"
proof -
  obtain meta spec L1 where p: "cluster_ProcessStatefulSet (at_server CL s0 E) cr L0 = (Ok (meta, spec), L1)"
    and r: "process_requested E CL CMP listed cr meta spec L1 S s0 = Ok P"
    using assms by (auto simp: cluster_Process_def split: prod.splits go_result.splits)
  obtain cr1 spec1 L2 S1 s1 where a: "apply_plan E CL cr spec L1 S s0 = (cr1, spec1, L2, S1, s1)" by (metis prod_cases5)
  obtain v cr2 where v: "process_variables (at_server CL s1 E) cr1 (spec1, L2) = (v, cr2)" by fastforce
  then obtain err spec2 L3 where ok: "v = Ok (err, spec2, L3)"
    using r a by (cases v) (auto simp: process_requested_def)
  have n: "err = None" and w: "process_writes E CL CMP cr2 meta spec2 L3 S1 s1 = Ok P"
    using r a v ok assms(2) by (auto simp: process_requested_def split: if_splits option.splits)
  let ?L = "trackDesired L3 (set_object meta (checksummed (map snd (beRange (ceBase E) (blRequested L3))) spec2))"
  have "cluster_ProcessResources E (ccObjects CL) CMP cr2 ?L s1 = Ok (None, poCluster P, poLoop P, poServer P)"
    using w assms(2) by (auto simp: process_writes_def Let_def split: go_result.splits)
  with that p a v ok n show thesis by blast
qed

text \<open>From a listing of the deployed resources to what the server holds afterwards.\<close>

lemma process_synced:
  assumes client: "object_client_ok stored (ccObjects CL)" "object_compare_ok CMP"
      "\<forall>rs. mset (beRange (ceBase E) rs) = mset rs" "\<And>s. reads_named (ccGetObject CL s)" "scaledown_frame stored CL"
    and listed: "cluster_CurrentDeployedResources E CL cr NewBrokerReconcilerImpl s = (L0, listed, s0)" "well_listed L0"
    and run: "cluster_Process E CL CMP cr S s = Ok P" "poError P = None" "well_keyed (poLoop P)" "t \<in> set ordered_types"
  shows "stored (poServer P) (t, n) = cluster_synced CMP cr (poLoop P) (stored s0 (t, n)) t n \<or>
    left_over (ccObjects CL) (poLoop P) (stored s0 (t, n)) t n (stored (poServer P) (t, n))"
proof -
  obtain meta spec L1 cr1 spec1 L2 S1 s1 spec2 L3 cr2 L4 where
    p: "cluster_ProcessStatefulSet (at_server CL s0 E) cr L0 = (Ok (meta, spec), L1)" and
    a: "apply_plan E CL cr spec L1 S s0 = (cr1, spec1, L2, S1, s1)" and
    v: "process_variables (at_server CL s1 E) cr1 (spec1, L2) = (Ok (None, spec2, L3), cr2)" and
    t: "L4 = trackDesired L3 (set_object meta (checksummed (map snd (beRange (ceBase E) (blRequested L3))) spec2))" and
    r: "cluster_ProcessResources E (ccObjects CL) CMP cr2 L4 s1 = Ok (None, poCluster P, poLoop P, poServer P)"
    by (rule process_ok [OF run(1,2) listed(1)])
  have "ceGetObject (at_server CL s1 E) = ccGetObject CL s1" by (simp add: at_server_def)
  then have reads: "reads_named (ceGetObject (at_server CL s1 E))" using client(4) by simp
  note k = plan_keeps [OF a, of stored]
  have "blDeployed L2 = blDeployed L0" using set_spec_deployed [OF p] k by simp
  with listed(2) have "well_listed (snd (spec1, L2))" by (simp add: well_listed_def)
  from variables_lists [OF v reads this] have l: "well_listed L4" "same_identity cr2 cr1" by (simp_all add: t)
  then have i: "same_identity cr2 cr" using k same_identity_trans by blast
  have "stored s1 = stored s0" using k client(5) by blast
  with cluster_resources_synced [OF client(1-3) l(1) r run(3,4), of n] cluster_synced_identity [OF i] show ?thesis by simp
qed

section \<open>Requested resources under their keys\<close>

declare well_keyed_track [simp]

lemma set_keyed: "cluster_ProcessStatefulSet E cr L = (Ok r, L') \<Longrightarrow> well_keyed L \<Longrightarrow> well_keyed L'"
  by (auto simp: cluster_ProcessStatefulSet_def cluster_StatefulSetForCR_def cluster_PodTemplateSpecForCR_def
      cluster_addResourceForBrokerProperties_def track_ping_def track_headless_def Let_def
      split: go_result.splits prod.splits option.splits if_splits)

lemma adopt_keyed: "adopt t E cr c L = (c', L') \<Longrightarrow> well_keyed L' = well_keyed L"
  by (auto simp: adopt_def updateOwnerReferencesAndMatchVersion_def addToDeployed_def Let_def well_keyed_def
      split: sum.splits if_splits)

lemma service_check_keyed: "checkExistingService E cr c L = (c', L') \<Longrightarrow> well_keyed L \<Longrightarrow> well_keyed L'"
  by (auto simp: checkExistingService_def adopt_keyed split: option.splits)

lemma expose_endpoints_keyed: "well_keyed L \<Longrightarrow> well_keyed (expose_endpoints E cr es L)"
proof -
  have "well_keyed (expose_endpoint E cr i L e)" if "well_keyed L" for i L e
    by (auto simp: expose_endpoint_def Let_def split: prod.split dest!: service_check_keyed [OF _ that])
  then show "well_keyed L \<Longrightarrow> well_keyed (expose_endpoints E cr es L)"
    unfolding expose_endpoints_def by (intro foldl_invariant [where P = well_keyed])
qed

lemma console_exposure_keyed: "well_keyed L \<Longrightarrow> well_keyed (configureConsoleExposure E cr L)"
proof -
  have "well_keyed (expose_console E cr L i)" if "well_keyed L" for i L
    by (auto simp: expose_console_def Let_def that split: prod.split dest!: service_check_keyed [OF _ that])
  then show "well_keyed L \<Longrightarrow> well_keyed (configureConsoleExposure E cr L)"
    unfolding configureConsoleExposure_def by (intro foldl_invariant [where P = well_keyed])
qed

lemma internal_keyed: "well_keyed L \<Longrightarrow> well_keyed (track_internal E cr vs n L)"
proof -
  have "well_keyed (snd (internal_secret E cr n' d L))" if "well_keyed L" for n' d
    using that
    by (auto simp: internal_secret_def adoptExistingSecretWithNoOwnerRefForUpdate_def dest: adopt_keyed
        split: option.split prod.splits)
  then show "well_keyed L \<Longrightarrow> well_keyed (track_internal E cr vs n L)"
    by (auto simp: track_internal_def case_prod_beta)
qed

lemma source_keyed: "sourceEnvVarFromSecret E cr vs n st = Ok st' \<Longrightarrow> well_keyed (snd st) \<Longrightarrow> well_keyed (snd st')"
  by (auto simp: sourceEnvVarFromSecret_def Let_def internal_keyed split: go_result.splits option.splits)

lemma ssl_text_keyed: "ssl_text E cr n ts tt st = (r, st') \<Longrightarrow> well_keyed (snd st) \<Longrightarrow> well_keyed (snd st')"
  by (auto simp: ssl_text_def processSSLSecret_def add_pem_secret_def addPemConfigFileSecret_def Let_def
      split: if_splits sum.splits api_error.splits prod.splits)

lemma acceptor_entries_keyed:
  "acceptor_entries E cr n as st = (r, as', st') \<Longrightarrow> well_keyed (snd st) \<Longrightarrow> well_keyed (snd st')"
proof (induction E cr n as st arbitrary: r as' st' rule: acceptor_entries.induct)
  case (2 E cr n a as st)
  have "well_keyed (snd st1)" if "acceptor_entry E cr b st = (e, st1)" for b e st1
    using that 2(3) by (auto simp: acceptor_entry_def acceptor_ssl_def dest!: ssl_text_keyed split: if_splits prod.splits sum.splits)
  with 2 show ?case by (auto simp: Let_def split: prod.splits sum.splits)
qed simp

lemma connector_entries_keyed:
  "connector_entries E cr cs st = (r, st') \<Longrightarrow> well_keyed (snd st) \<Longrightarrow> well_keyed (snd st')"
proof (induction E cr cs st arbitrary: r st' rule: connector_entries.induct)
  case (2 E cr c cs st)
  have "well_keyed (snd st1)" if "connector_ssl E cr c st = (e, st1)" for e st1
    using that 2(3) by (auto simp: connector_ssl_def dest!: ssl_text_keyed split: if_splits prod.splits sum.splits)
  with 2 show ?case by (auto split: prod.splits sum.splits)
qed simp

lemma namespaced_keyed:
  assumes "well_keyed L" "blRequested L' = map (\<lambda>(k, obj). (k, in_namespace ns obj)) (blRequested L)"
  shows "well_keyed L'"
  using assms by (auto simp: well_keyed_def comp_def case_prod_beta in_namespace_def okey_def rtype_of_def object_name_def)

lemma variables_keyed:
  assumes "process_variables E cr st = (Ok (None, st'), cr')" "well_keyed (snd st)"
  shows "well_keyed (snd st')"
proof -
  obtain st1 where 1: "ProcessCredentials E cr st = Ok st1"
    using assms(1) by (cases "ProcessCredentials E cr st") (auto simp: process_variables_def)
  from source_keyed [OF 1 [unfolded ProcessCredentials_def] assms(2)] have k1: "well_keyed (snd st1)" .
  obtain st2 cr1 where a: "ProcessAcceptorsAndConnectors E cr st1 = (Ok (None, st2), cr1)"
    and c: "ProcessConsole E cr1 st2 = Ok (None, st')"
    using assms(1) 1 by (auto simp: process_variables_def split: go_result.splits option.splits prod.splits)
  obtain r cr2 st3 where g: "generateAcceptorsString E cr st1 = (r, cr2, st3)" by (metis prod_cases3)
  obtain r2 spec L2 where h: "generateConnectorsString E cr2 st3 = (r2, spec, L2)" by (metis prod_cases3)
  have "well_keyed (snd st3)"
    using g k1 by (auto simp: generateAcceptorsString_def dest!: acceptor_entries_keyed split: prod.splits sum.splits)
  with connector_entries_keyed [OF h [unfolded generateConnectorsString_def]] have k3: "well_keyed L2" by simp
  obtain x where x: "r = Inr x" using a g by (cases r) (auto simp: ProcessAcceptorsAndConnectors_def)
  obtain y where y: "r2 = Inr y" using a g h x by (cases r2) (auto simp: ProcessAcceptorsAndConnectors_def)
  have "sourced (sourceEnvVarFromSecret E cr2 (netty_values x y) (netty_name cr2)
      (spec, configureConnectorsExposure E cr2 (configureAcceptorsExposure E cr2 L2))) = Ok (None, st2)"
    using a g h x y by (auto simp: ProcessAcceptorsAndConnectors_def)
  then have s: "sourceEnvVarFromSecret E cr2 (netty_values x y) (netty_name cr2)
      (spec, configureConnectorsExposure E cr2 (configureAcceptorsExposure E cr2 L2)) = Ok st2"
    by (simp add: sourced_def split: go_result.splits)
  have "well_keyed (configureConnectorsExposure E cr2 (configureAcceptorsExposure E cr2 L2))"
    unfolding configureConnectorsExposure_def configureAcceptorsExposure_def by (intro expose_endpoints_keyed k3)
  with source_keyed [OF s] have k2: "well_keyed (snd st2)" by simp
  note e = console_exposure_keyed [OF k2, of E cr1]
  from c e show ?thesis
    by (auto simp: ProcessConsole_def Let_def addPemConfigFileSecret_def split: sum.splits if_splits
        dest!: sourced_ok source_keyed)
qed

section \<open>Adopted services\<close>

text \<open>An object of that name without an owner is among the deployed ones once it was asked for.\<close>

definition orphan_service :: "(rtype \<Rightarrow> string \<Rightarrow> string \<Rightarrow> api_error + k8s_object) \<Rightarrow> string \<Rightarrow> string \<Rightarrow> bool" where
  "orphan_service get ns n \<longleftrightarrow> (\<exists>x. get ServiceT ns n = Inr x \<and> omOwners (obMeta x) = [])"

definition some_service :: "broker_loop \<Rightarrow> bool" where
  "some_service L \<longleftrightarrow> blDeployed L ServiceT \<noteq> []"

lemma some_service_track [simp]: "some_service (trackDesired L obj) = some_service L"
  by (simp add: some_service_def)

lemma service_check_grows:
  "checkExistingService E cr c L = (c', L') \<Longrightarrow> some_service L \<Longrightarrow> some_service L'"
  by (auto simp: checkExistingService_def adopt_def updateOwnerReferencesAndMatchVersion_def addToDeployed_def Let_def
      some_service_def split: option.splits sum.splits if_splits)

lemma service_check_adopts:
  assumes "checkExistingService E cr c L = (c', L')"
    and "orphan_service (ceGetObject E) (omNamespace (obMeta c)) (object_name c)"
  shows "some_service L'"
  using assms
  by (auto simp: checkExistingService_def adopt_def updateOwnerReferencesAndMatchVersion_def addToDeployed_def Let_def
      some_service_def orphan_service_def getFromDeployed_def find_Some_iff split: option.splits)

lemma expose_endpoint_grows: "some_service L \<Longrightarrow> some_service (expose_endpoint E cr i L e)"
  by (auto simp: expose_endpoint_def Let_def split: prod.split dest: service_check_grows)

lemma expose_endpoint_adopts:
  assumes "orphan_service (ceGetObject E) (bcNamespace cr) (service_name cr (epName e) i)"
  shows "some_service (expose_endpoint E cr i L e)"
proof -
  define svc where "svc = service_object (ServiceDefinitionForCR (bcNamespace cr) (service_name cr (epName e) i)
    (epName e @ ''-'' @ itoa (int i)) (epPort e) (ordinal_labels cr i) (cluster_labels cr) L)"
  have key: "omNamespace (obMeta svc) = bcNamespace cr" "object_name svc = service_name cr (epName e) i"
    by (simp_all add: svc_def service_object_def ServiceDefinitionForCR_def NewServiceDefinitionForCR_def object_name_def
        case_prod_beta)
  obtain svc' L1 where c: "checkExistingService E cr svc L = (svc', L1)" by fastforce
  have "some_service L1" using service_check_adopts [OF c] assms by (simp add: key)
  with c show ?thesis by (simp add: expose_endpoint_def Let_def svc_def)
qed

lemma expose_endpoints_grow: "some_service L \<Longrightarrow> some_service (expose_endpoints E cr es L)"
  unfolding expose_endpoints_def by (intro foldl_invariant [where P = some_service] expose_endpoint_grows)

lemma expose_endpoints_adopt:
  assumes "e \<in> set es" "i < nat (sint (GetDeploymentSize cr))"
    and "orphan_service (ceGetObject E) (bcNamespace cr) (service_name cr (epName e) i)"
  shows "some_service (expose_endpoints E cr es L)"
proof -
  let ?f = "\<lambda>L i. foldl (expose_endpoint E cr i) L es"
  have one: "some_service (?f L i)" for L
  proof -
    obtain xs ys where es: "es = xs @ e # ys" using assms(1) by (auto simp: in_set_conv_decomp)
    show ?thesis
      unfolding es by (simp, intro foldl_invariant [where P = some_service] expose_endpoint_grows
          expose_endpoint_adopts [OF assms(3)])
  qed
  have more: "some_service L \<Longrightarrow> some_service (?f L k)" for L k
    by (intro foldl_invariant [where P = some_service] expose_endpoint_grows)
  have "i \<in> set (cluster_ordinals cr)" using assms(2) by (simp add: cluster_ordinals_def)
  then obtain ks ls where "cluster_ordinals cr = ks @ i # ls" by (meson split_list)
  then show ?thesis
    unfolding expose_endpoints_def by (simp, intro foldl_invariant [where P = some_service] more one)
qed

lemma internal_grows: "some_service L \<Longrightarrow> some_service (track_internal E cr vs n L)"
  by (auto simp: track_internal_def internal_secret_def adoptExistingSecretWithNoOwnerRefForUpdate_def adopt_def
      updateOwnerReferencesAndMatchVersion_def addToDeployed_def Let_def some_service_def
      split: prod.splits option.splits sum.splits if_splits)

lemma source_grows: "sourceEnvVarFromSecret E cr vs n st = Ok st' \<Longrightarrow> some_service (snd st) \<Longrightarrow> some_service (snd st')"
  by (auto simp: sourceEnvVarFromSecret_def Let_def internal_grows split: go_result.splits option.splits)

lemma console_exposure_grows: "some_service L \<Longrightarrow> some_service (configureConsoleExposure E cr L)"
proof -
  have "some_service (expose_console E cr L i)" if "some_service L" for L i
    using that by (auto simp: expose_console_def Let_def split: prod.split dest: service_check_grows)
  then show "some_service L \<Longrightarrow> some_service (configureConsoleExposure E cr L)"
    unfolding configureConsoleExposure_def by (intro foldl_invariant [where P = some_service])
qed

lemma console_grows: "ProcessConsole E cr st = Ok (err, st') \<Longrightarrow> some_service (snd st) \<Longrightarrow> some_service (snd st')"
  by (auto simp: ProcessConsole_def Let_def addPemConfigFileSecret_def console_exposure_grows split: sum.splits if_splits
      dest!: sourced_ok source_grows)

text \<open>The ports that are filled in leave the names and the size.\<close>

lemma acceptor_entries_names:
  "acceptor_entries E cr n as st = (r, as', st') \<Longrightarrow> r = Inr x \<Longrightarrow> map accName as' = map accName as"
  by (induction E cr n as st arbitrary: r x as' st' rule: acceptor_entries.induct)
    (auto simp: Let_def split: prod.splits sum.splits if_splits)

end
