(* ===== verification/Cluster_Pod_Facts.thy ===== *)
theory Cluster_Pod_Facts
  imports Cluster_Sync
begin

text \<open>
  What holds of the pod of a \<open>BrokerCluster\<close> from the template to the requested stateful set: every mount has
  its volume, and the secrets TLS needs are mounted.  The steps in between are a relation on stateful sets.
\<close>

section \<open>Steps on the stateful set\<close>

definition pem_mounted :: "string \<Rightarrow> sts_spec \<Rightarrow> sts_spec" where
  "pem_mounted name spec =
     (let vol = MakeVolumeForSecret name
      in update_pod_spec (\<lambda>sp. sp\<lparr>spContainers := mount_first (MakeVolumeMount (vlName vol)) (spContainers sp)\<rparr>)
           (add_volume vol spec))"

inductive variable_step :: "sts_spec \<Rightarrow> sts_spec \<Rightarrow> bool" where
  pem: "variable_step spec (pem_mounted name spec)"
| reference: "variable_step spec (update_pod_spec (reference_values secretName vs) spec)"
| properties: "variable_step spec (appendSystemPropertiesForConsole args spec)"

abbreviation variable_steps :: "sts_spec \<Rightarrow> sts_spec \<Rightarrow> bool" where
  "variable_steps \<equiv> variable_step\<^sup>*\<^sup>*"

lemma make_secret_name [simp]: "object_name (MakeSecret ns n d ls) = n" "rtype_of (MakeSecret ns n d ls) = SecretT"
  by (simp_all add: MakeSecret_def object_name_def named_meta_def rtype_of_def)

lemma set_data_key [simp]: "object_name (set_data d obj) = object_name obj" "rtype_of (set_data d obj) = rtype_of obj"
  by (simp_all add: set_data_def object_name_def rtype_of_def split: body.split)

lemma pem_secret_name: "object_name (pem_secret ns configs L) = CfgToSecretName (configs ! 0)"
  by (auto simp: pem_secret_def Let_def cloneOfDeployed_def getFromDeployed_def find_Some_iff split: option.split)

lemma pem_spec: "fst (addPemConfigFileSecret ns configs st) = pem_mounted (CfgToSecretName (configs ! 0)) (fst st)"
  by (simp add: addPemConfigFileSecret_def pem_mounted_def pem_secret_name Let_def case_prod_beta)

lemma add_pem_steps: "variable_steps (fst st) (fst (add_pem_secret ns args st))"
  by (auto simp: add_pem_secret_def pem_spec intro: variable_step.pem)

lemma ssl_text_steps: "ssl_text E cr n ts tt st = (r, st') \<Longrightarrow> variable_steps (fst st) (fst st')"
  using add_pem_steps
  by (auto simp: ssl_text_def split: prod.splits sum.splits)

lemma acceptor_entry_steps: "acceptor_entry E cr a st = (r, st') \<Longrightarrow> variable_steps (fst st) (fst st')"
  by (auto simp: acceptor_entry_def acceptor_ssl_def dest!: ssl_text_steps split: if_splits prod.splits sum.splits)

lemma acceptor_entries_steps:
  "acceptor_entries E cr n as st = (r, as', st') \<Longrightarrow> variable_steps (fst st) (fst st')"
proof (induction E cr n as st arbitrary: r as' st' rule: acceptor_entries.induct)
  case (2 E cr n a as st)
  then show ?case
    by (auto simp: Let_def dest!: acceptor_entry_steps split: prod.splits sum.splits intro: rtranclp_trans)
qed simp

lemma connector_entries_steps: "connector_entries E cr cs st = (r, st') \<Longrightarrow> variable_steps (fst st) (fst st')"
proof (induction E cr cs st arbitrary: r st' rule: connector_entries.induct)
  case (2 E cr c cs st)
  then show ?case
    by (auto simp: connector_ssl_def dest!: ssl_text_steps split: if_splits prod.splits sum.splits intro: rtranclp_trans)
qed simp

lemma source_steps: "sourceEnvVarFromSecret E cr vs n st = Ok st' \<Longrightarrow> variable_steps (fst st) (fst st')"
  by (auto simp: sourceEnvVarFromSecret_def Let_def split: go_result.splits
      intro!: r_into_rtranclp variable_step.reference)

lemma sourced_Ok [simp]: "sourced r = Ok (err, st) \<longleftrightarrow> err = None \<and> r = Ok st"
  by (auto simp: sourced_def split: go_result.splits)

lemma acceptors_steps:
  assumes "ProcessAcceptorsAndConnectors E cr st = (Ok (err, st'), cr')"
  shows "variable_steps (fst st) (fst st')"
proof -
  obtain r cr1 st1 where a: "generateAcceptorsString E cr st = (r, cr1, st1)" by (metis prod_cases3)
  obtain r2 spec L2 where c: "generateConnectorsString E cr1 st1 = (r2, spec, L2)" by (metis prod_cases3)
  have 1: "variable_steps (fst st) (fst st1)"
    using a by (auto simp: generateAcceptorsString_def dest!: acceptor_entries_steps split: prod.splits sum.splits)
  have 2: "variable_steps (fst st1) spec"
    using connector_entries_steps [OF c [unfolded generateConnectorsString_def]] by simp
  show ?thesis
    using assms a c 1 rtranclp_trans [OF 1 2]
    by (cases r; cases r2)
      (auto simp: ProcessAcceptorsAndConnectors_def dest!: source_steps intro: rtranclp_trans)
qed

lemma console_steps:
  assumes "ProcessConsole E cr st = Ok (err, st')"
  shows "variable_steps (fst st) (fst st')"
proof -
  let ?L = "configureConsoleExposure E cr (snd st)"
  have p: "variable_steps (fst st) (appendSystemPropertiesForConsole a spec)"
    if "addPemConfigFileSecret ns cfg (fst st, ?L) = (spec, L1)" for a ns cfg spec L1
  proof -
    have "spec = pem_mounted (CfgToSecretName (cfg ! 0)) (fst st)"
      using pem_spec [of ns cfg "(fst st, ?L)"] that by simp
    then have "variable_step (fst st) spec" by (simp add: variable_step.pem)
    then show ?thesis
      by (rule rtranclp.rtrancl_into_rtrancl [OF r_into_rtranclp]) (rule variable_step.properties)
  qed
  show ?thesis
  proof (cases "csoleSSLEnabled (bcConsole cr)")
    case False
    with assms show ?thesis by (auto simp: ProcessConsole_def Let_def)
  next
    case True
    show ?thesis
    proof (cases "generateCommonSSLFlags E cr (console_secret_name cr) (csoleTrustSecret (bcConsole cr)) [] True")
      case (Inl e)
      with assms True show ?thesis by (auto simp: ProcessConsole_def Let_def)
    next
      case (Inr args)
      obtain sa where sa: "sa = (if csoleUseClientAuth (bcConsole cr) then args\<lparr>saNeedClientAuth := True\<rparr> else args)" by simp
      obtain spec L1 where a: "addPemConfigFileSecret (bcNamespace cr) (saPemCfgs sa) (fst st, ?L) = (spec, L1)" by fastforce
      show ?thesis
      proof (cases "length (saPemCfgs sa) > 2")
        case long: True
        with assms True Inr a have "fst st' = appendSystemPropertiesForConsole (ToSystemProperties sa) spec"
          unfolding sa by (auto simp: ProcessConsole_def Let_def)
        then show ?thesis using p [OF a] by simp
      next
        case False
        with assms True Inr sa obtain fl where
          "sourceEnvVarFromSecret E cr (console_values fl) (console_secret_name cr) (fst st, ?L) = Ok st'"
          unfolding sa by (auto simp: ProcessConsole_def Let_def)
        from source_steps [OF this] show ?thesis by simp
      qed
    qed
  qed
qed

lemma variables_steps:
  assumes "process_variables E cr st = (Ok (err, st'), cr')"
  shows "variable_steps (fst st) (fst st')"
proof -
  obtain st1 where 1: "ProcessCredentials E cr st = Ok st1"
    using assms by (cases "ProcessCredentials E cr st") (auto simp: process_variables_def)
  note c = source_steps [OF 1 [unfolded ProcessCredentials_def]]
  obtain e st2 cr1 where a: "ProcessAcceptorsAndConnectors E cr st1 = (Ok (e, st2), cr1)"
    using assms 1 by (auto simp: process_variables_def split: go_result.splits option.splits prod.splits)
  note s = rtranclp_trans [OF c acceptors_steps [OF a]]
  show ?thesis
  proof (cases e)
    case None
    with assms 1 a have "ProcessConsole E cr1 st2 = Ok (err, st')" by (auto simp: process_variables_def)
    from rtranclp_trans [OF s console_steps [OF this]] show ?thesis .
  next
    case (Some x)
    with assms 1 a s show ?thesis by (auto simp: process_variables_def)
  qed
qed

section \<open>Every mount has its volume\<close>

definition pod_of :: "sts_spec \<Rightarrow> pod_spec" where
  "pod_of spec = ptSpec (soTemplate spec)"

lemma pod_of_update [simp]: "pod_of (update_pod_spec f spec) = f (pod_of spec)"
  by (simp add: pod_of_def update_pod_spec_def)

definition pod_mounts_ok :: "pod_spec \<Rightarrow> bool" where
  "pod_mounts_ok sp \<longleftrightarrow>
     (\<forall>ms \<in> set (map ctVolumeMounts (spContainers sp @ spInitContainers sp)). vmName ` set ms \<subseteq> vlName ` set (spVolumes sp))"

lemma pod_mounts_ok_same:
  assumes "map ctVolumeMounts (spContainers sp') = map ctVolumeMounts (spContainers sp)"
    "map ctVolumeMounts (spInitContainers sp') = map ctVolumeMounts (spInitContainers sp)" "spVolumes sp' = spVolumes sp"
  shows "pod_mounts_ok sp' = pod_mounts_ok sp"
  unfolding pod_mounts_ok_def map_append assms ..

lemma create_missing_mounts [simp]: "map ctVolumeMounts (create_missing v cts) = map ctVolumeMounts cts"
  by (simp add: create_missing_def)

lemma reference_values_mounts:
  "map ctVolumeMounts (spContainers (reference_values n vs sp)) = map ctVolumeMounts (spContainers sp)"
  "map ctVolumeMounts (spInitContainers (reference_values n vs sp)) = map ctVolumeMounts (spInitContainers sp)"
  "spVolumes (reference_values n vs sp) = spVolumes sp"
proof -
  have "map ctVolumeMounts (spContainers (foldl (reference_value n) sp kvs)) = map ctVolumeMounts (spContainers sp) \<and>
      map ctVolumeMounts (spInitContainers (foldl (reference_value n) sp kvs)) = map ctVolumeMounts (spInitContainers sp) \<and>
      spVolumes (foldl (reference_value n) sp kvs) = spVolumes sp" for kvs
    by (induction kvs arbitrary: sp) (simp_all add: reference_value_def Let_def)
  then show "map ctVolumeMounts (spContainers (reference_values n vs sp)) = map ctVolumeMounts (spContainers sp)"
    "map ctVolumeMounts (spInitContainers (reference_values n vs sp)) = map ctVolumeMounts (spInitContainers sp)"
    "spVolumes (reference_values n vs sp) = spVolumes sp"
    unfolding reference_values_def by blast+
qed

lemma add_volume_pod:
  "pod_of (add_volume v spec) = (pod_of spec)\<lparr>spVolumes := spVolumes (pod_of spec) @
     (if list_ex (\<lambda>w. vlName w = vlName v) (spVolumes (pod_of spec)) then [] else [v])\<rparr>"
  by (simp add: add_volume_def HasVolumeInStatefulset_def) (simp add: pod_of_def)

lemma added_volume: "vlName ` set (spVolumes (pod_of (add_volume v spec))) = insert (vlName v) (vlName ` set (spVolumes (pod_of spec)))"
proof (cases "list_ex (\<lambda>w. vlName w = vlName v) (spVolumes (pod_of spec))")
  case True
  then have "vlName v \<in> vlName ` set (spVolumes (pod_of spec))"
    unfolding list_ex_iff by (elim bexE) (rule image_eqI, erule sym)
  with True show ?thesis by (simp add: add_volume_pod insert_absorb)
qed (simp add: add_volume_pod)

lemma mount_first_names:
  "ms \<in> set (map ctVolumeMounts (mount_first m cts)) \<Longrightarrow>
     \<exists>ms' \<in> set (map ctVolumeMounts cts). vmName ` set ms \<subseteq> insert (vmName m) (vmName ` set ms')"
  by (cases cts) (auto split: if_splits)

lemma pem_mounted_ok:
  assumes "pod_mounts_ok (pod_of spec)"
  shows "pod_mounts_ok (pod_of (pem_mounted name spec))"
proof -
  let ?v = "MakeVolumeForSecret name"
  let ?s = "add_volume ?v spec"
  have c: "spContainers (pod_of ?s) = spContainers (pod_of spec)" "spInitContainers (pod_of ?s) = spInitContainers (pod_of spec)"
    by (simp_all add: add_volume_pod)
  have p: "pod_of (pem_mounted name spec) = (pod_of ?s)\<lparr>spContainers :=
      mount_first (MakeVolumeMount (vlName ?v)) (spContainers (pod_of spec))\<rparr>"
    by (simp add: pem_mounted_def Let_def c)
  have n: "vmName (MakeVolumeMount (vlName ?v)) = vlName ?v" by (simp add: MakeVolumeMount_def)
  have old: "vmName ` set ms \<subseteq> vlName ` set (spVolumes (pod_of spec))"
    if "ms \<in> set (map ctVolumeMounts (spContainers (pod_of spec))) \<union> set (map ctVolumeMounts (spInitContainers (pod_of spec)))" for ms
    using assms that unfolding pod_mounts_ok_def by auto
  have vols: "vlName ` set (spVolumes (pod_of (pem_mounted name spec))) =
      insert (vlName ?v) (vlName ` set (spVolumes (pod_of spec)))" by (simp add: p added_volume)
  have cts: "spContainers (pod_of (pem_mounted name spec)) = mount_first (MakeVolumeMount (vlName ?v)) (spContainers (pod_of spec))"
    "spInitContainers (pod_of (pem_mounted name spec)) = spInitContainers (pod_of spec)" by (simp_all add: p c)
  show ?thesis
    unfolding pod_mounts_ok_def vols cts map_append set_append ball_Un
  proof (intro conjI ballI)
    fix ms
    assume "ms \<in> set (map ctVolumeMounts (mount_first (MakeVolumeMount (vlName ?v)) (spContainers (pod_of spec))))"
    from mount_first_names [OF this] obtain ms' where
      "ms' \<in> set (map ctVolumeMounts (spContainers (pod_of spec)))" "vmName ` set ms \<subseteq> insert (vlName ?v) (vmName ` set ms')"
      by (auto simp only: n)
    with old [of ms'] show "vmName ` set ms \<subseteq> insert (vlName ?v) (vlName ` set (spVolumes (pod_of spec)))" by blast
  next
    fix ms
    assume "ms \<in> set (map ctVolumeMounts (spInitContainers (pod_of spec)))"
    with old [of ms] show "vmName ` set ms \<subseteq> insert (vlName ?v) (vlName ` set (spVolumes (pod_of spec)))" by blast
  qed
qed

lemma variable_steps_ok:
  assumes "variable_steps spec spec'" "pod_mounts_ok (pod_of spec)"
  shows "pod_mounts_ok (pod_of spec')"
  using assms
proof (induction rule: rtranclp_induct)
  case (step s s')
  from step.hyps(2) step.IH [OF step.prems] show ?case
    by cases (simp_all add: pem_mounted_ok pod_mounts_ok_same [OF reference_values_mounts]
        appendSystemPropertiesForConsole_def pod_mounts_ok_same [of "_\<lparr>spContainers := _\<rparr>" "pod_of s"])
qed

lemma checksummed_ok: "pod_mounts_ok (pod_of (checksummed rs spec)) = pod_mounts_ok (pod_of spec)"
  by (simp add: checksummed_def trackSecretCheckSumInEnvVar_def TrackSecretCheckSumInRollCount_def Update_env_def comp_def
      pod_mounts_ok_same [of "_\<lparr>spContainers := _\<rparr>" "pod_of spec"])

section \<open>The template\<close>

lemma add_new_volumes:
  "set (snd (foldl addNewVolumes (ns, vs) ss)) = set vs \<union> MakeVolume ` (set ss - set ns)"
  by (induction ss arbitrary: ns vs) (auto simp: addNewVolumes_def)

lemma add_new_mounts:
  "set (snd (foldl addNewVolumeMounts (ns, ms) ss)) = set ms \<union> MakeVolumeMount ` (set ss - set ns)"
  by (induction ss arbitrary: ns ms) (auto simp: addNewVolumeMounts_def)

definition tls_volume :: "string \<Rightarrow> string" where
  "tls_volume s = s @ ''-volume''"

lemma cluster_volumes_set:
  "set (cluster_MakeVolumes cr) =
     set (MakeVolumes (bcName cr) (dpPersistenceEnabled (bcPlan cr)) (dpExtraVolumes (bcPlan cr)) (dpExtraClaims (bcPlan cr))) \<union>
     MakeVolume ` set (tls_secrets cr)"
  by (simp add: cluster_MakeVolumes_def Let_def add_new_volumes)

lemma cluster_mounts_set:
  "set (cluster_MakeVolumeMounts cr) =
     set ((if dpPersistenceEnabled (bcPlan cr) then MakePersistentVolumeMount (bcName cr) (global_data_path cr) else []) @
       cluster_MakeExtraVolumeMounts cr) \<union> MakeVolumeMount ` tls_volume ` set (tls_secrets cr)"
  by (simp add: cluster_MakeVolumeMounts_def add_new_mounts image_image tls_volume_def)

lemma extra_mounts_declared:
  "vmName ` set (cluster_MakeExtraVolumeMounts cr) \<subseteq> vlName ` set (cluster_MakeVolumes cr)"
  using claim_volumes [of "dpExtraClaims (bcPlan cr)"]
  by (auto simp: cluster_MakeExtraVolumeMounts_def Let_def MakeExtraVolumeMounts_def cluster_volumes_set
      MakeVolumes_def image_Un)

lemma cluster_mounts_declared_volumes:
  "vmName ` set (cluster_MakeVolumeMounts cr) \<subseteq> vlName ` set (cluster_MakeVolumes cr)"
proof -
  have "vmName ` MakeVolumeMount ` tls_volume ` set (tls_secrets cr) = vlName ` MakeVolume ` set (tls_secrets cr)"
    by (simp add: image_image MakeVolumeMount_def MakeVolume_def tls_volume_def)
  moreover have "vmName ` set (if dpPersistenceEnabled (bcPlan cr) then MakePersistentVolumeMount (bcName cr) (global_data_path cr)
      else []) \<subseteq> vlName ` set (cluster_MakeVolumes cr)"
    by (auto simp: MakePersistentVolumeMount_def cluster_volumes_set MakeVolumes_def MakePersistentVolume_def)
  ultimately show ?thesis
    using extra_mounts_declared [of cr] unfolding cluster_mounts_set set_append image_Un by (auto simp: cluster_volumes_set)
qed

lemma cluster_environment_mounts: "map ctVolumeMounts (cluster_environment cr cts) = map ctVolumeMounts cts"
  by (simp add: cluster_environment_def Let_def split: option.split)

lemma main_container_mounts: "ctVolumeMounts (main_container E cr ms sp) = cluster_MakeVolumeMounts cr @ ms"
  by (simp add: main_container_def Let_def)

lemma add_mounts: "map ctVolumeMounts (map (add_mount m) cts) = map (\<lambda>ms. ms @ [m]) (map ctVolumeMounts cts)"
  by (simp add: add_mount_def)

lemma main_pod_mounts:
  "map ctVolumeMounts (spContainers (main_pod E cr extra sp)) =
     [cluster_MakeVolumeMounts cr @ snd extra @ [cfg_mount]]"
proof -
  have "spContainers (main_pod E cr extra sp) = map (add_mount cfg_mount) (cluster_environment cr
      [main_container E cr (snd extra) (sp\<lparr>spImagePullSecrets := dpImagePullSecrets (bcPlan cr)\<rparr>)])"
    by (simp add: main_pod_def Let_def)
  then show ?thesis by (simp only: add_mounts cluster_environment_mounts) (simp add: main_container_mounts)
qed

lemma main_pod_volumes:
  "vlName ` (set (cluster_MakeVolumes cr) \<union> set (fst extra)) \<union> {cfgVolumeName} \<subseteq> vlName ` set (spVolumes (main_pod E cr extra sp))"
  by (auto simp: main_pod_def Let_def MakeEmptyDirVolumeFor_def)

text \<open>The init container has the directories it works in, the secret of the handler, and the extra mounts.\<close>

lemma handled_mounts:
  "ms \<in> set (map ctVolumeMounts (snd (handled E cr p cts))) \<Longrightarrow>
     \<exists>ms' \<in> set (map ctVolumeMounts cts).
       vmName ` set ms \<subseteq> vmName ` set ms' \<union> vlName ` set (handler_volumes E cr (fst (handled E cr p cts)))"
  by (cases "handler_of E cr"; auto simp: handled_def handler_volumes_def Config_def security_commands_def Let_def
      add_mount_def Create_env_def MakeVolumeMount_def MakeVolume_def; blast)

lemma address_environment_mounts: "map ctVolumeMounts (address_environment cr cts) = map ctVolumeMounts cts"
  by (simp add: address_environment_def)

lemma before_handler_mounts: "map ctVolumeMounts (before_handler cr opts ct) = [[cfg_mount, tool_mount]]"
  by (auto simp: before_handler_def Let_def address_environment_def Create_env_def split: option.split)

lemma init_mounts:
  assumes "init = handled E cr p (before_handler cr opts ct)"
    and "ms \<in> set (map ctVolumeMounts (init_containers cr p extra init))"
  shows "vmName ` set ms \<subseteq> {cfgVolumeName, ''tool-dir''} \<union> vlName ` set (handler_volumes E cr (fst init)) \<union>
    vmName ` set extra \<union> vmName ` set (cluster_MakeExtraVolumeMounts cr)"
proof -
  have "\<exists>m0 \<in> set (map ctVolumeMounts (snd init)). ms = m0 @ extra @ cluster_MakeExtraVolumeMounts cr"
    using assms(2) by (cases init) (auto simp: init_containers_def Create_env_def)
  then obtain m0 where m0: "m0 \<in> set (map ctVolumeMounts (snd init))" "ms = m0 @ extra @ cluster_MakeExtraVolumeMounts cr" by blast
  have "vmName ` set m0 \<subseteq> {cfgVolumeName, ''tool-dir''} \<union> vlName ` set (handler_volumes E cr (fst init))"
    using handled_mounts [of m0 E cr p "before_handler cr opts ct"] m0(1) unfolding assms(1) before_handler_mounts
    by (auto simp: cfg_mount_def tool_mount_def MakeRwVolumeMountForCfg_def MakeVolumeMountForCfg_def)
  then show ?thesis by (auto simp: m0(2))
qed

lemma cluster_security_sel [simp]:
  "spContainers (cluster_configPodSecurity a u sp) = spContainers sp" "spVolumes (cluster_configPodSecurity a u sp) = spVolumes sp"
  "spInitContainers (cluster_configPodSecurity a u sp) = spInitContainers sp"
  "spInitContainers (configurePodSecurityContext c sp) = spInitContainers sp"
  by (simp_all add: cluster_configPodSecurity_def configurePodSecurityContext_def Let_def split: option.split)

lemma finish_pod_ok:
  assumes "map vmName (snd extra) = map vlName (fst extra)"
  shows "pod_mounts_ok (finish_pod E cr p re bp (snd extra) (main_pod E cr extra sp))"
proof -
  let ?main = "main_pod E cr extra sp" and ?sp = "finish_pod E cr p re bp (snd extra) (main_pod E cr extra sp)"
  have names: "vmName ` set (snd extra) = vlName ` set (fst extra)" using assms by (metis list.set_map)
  define init where "init = handled E cr p (before_handler cr (if re then Some bp else None) (init_base E cr ?main))"
  have vols: "vlName ` set (spVolumes ?sp) = vlName ` set (spVolumes ?main) \<union> {''tool-dir''} \<union>
      vlName ` set (handler_volumes E cr (fst init))"
    by (auto simp: finish_pod_def Let_def MakeEmptyDirVolumeFor_def init_def)
  have main: "map ctVolumeMounts (spContainers ?sp) = [cluster_MakeVolumeMounts cr @ snd extra @ [cfg_mount]]"
    by (simp add: finish_pod_def Let_def main_pod_mounts)
  have cfg: "vmName cfg_mount = cfgVolumeName" by (simp add: cfg_mount_def MakeRwVolumeMountForCfg_def MakeVolumeMountForCfg_def)
  define V where "V = vlName ` set (spVolumes ?sp)"
  have sub: "vlName ` set (cluster_MakeVolumes cr) \<subseteq> V" "vmName ` set (snd extra) \<subseteq> V" "cfgVolumeName \<in> V"
    "''tool-dir'' \<in> V" "vlName ` set (handler_volumes E cr (fst init)) \<subseteq> V"
    using main_pod_volumes [of cr extra E sp] unfolding V_def vols names image_Un by blast+
  have own: "vmName ` set (cluster_MakeVolumeMounts cr) \<subseteq> V" "vmName ` set (cluster_MakeExtraVolumeMounts cr) \<subseteq> V"
    using sub(1) cluster_mounts_declared_volumes [of cr] extra_mounts_declared [of cr] by blast+
  have inits: "vmName ` set ms \<subseteq> V" if "ms \<in> set (map ctVolumeMounts (spInitContainers ?sp))" for ms
  proof -
    have "vmName ` set ms \<subseteq> {cfgVolumeName, ''tool-dir''} \<union> vlName ` set (handler_volumes E cr (fst init)) \<union> vmName ` set (snd extra) \<union>
        vmName ` set (cluster_MakeExtraVolumeMounts cr)"
      using that by (intro init_mounts [OF init_def]) (simp add: finish_pod_def Let_def init_def)
    also have "\<dots> \<subseteq> V" using sub own by simp
    finally show ?thesis .
  qed
  have mains: "vmName ` set (cluster_MakeVolumeMounts cr @ snd extra @ [cfg_mount]) \<subseteq> V"
    unfolding set_append image_Un using sub own by (simp add: cfg)
  show ?thesis
    unfolding pod_mounts_ok_def map_append set_append ball_Un main V_def [symmetric]
  proof (intro conjI ballI)
    fix ms
    assume "ms \<in> set [cluster_MakeVolumeMounts cr @ snd extra @ [cfg_mount]]"
    then show "vmName ` set ms \<subseteq> V" using mains by simp
  qed (rule inits)
qed

lemma template_ok_cluster:
  assumes "cluster_PodTemplateSpecForCR E cr current L = (Ok t, L')"
  shows "pod_mounts_ok (ptSpec t) \<and>
    (\<exists>ms. map ctVolumeMounts (spContainers (ptSpec t)) = [cluster_MakeVolumeMounts cr @ ms])"
proof -
  obtain n b d pts where "cluster_template_from E cr (isExistingDeploymentWithJavaOpts current) (n, b, d) pts = Ok t"
    using assms by (auto simp: cluster_PodTemplateSpecForCR_def split: go_result.splits prod.splits)
  then obtain vols mounts p bp where x: "createExtraConfigmapsAndSecretsVolumeMounts (ckGetSecret (beCluster (ceBase E)) (bcNamespace cr))
      (dpExtraConfigMaps (bcPlan cr) @ (if b then [] else [n])) (dpExtraSecrets (bcPlan cr) @ (if b then [n] else [])) n d =
      Inr (vols, mounts)"
    and t: "ptSpec t = finish_pod E cr p (isExistingDeploymentWithJavaOpts current) bp mounts
      (main_pod E cr (vols, mounts) (ptSpec pts))"
    by (auto simp: cluster_template_from_def split: sum.splits)
  from finish_pod_ok [of "(vols, mounts)"] extra_mount_names [OF x] t
  have "pod_mounts_ok (ptSpec t)" by simp
  moreover have "map ctVolumeMounts (spContainers (ptSpec t)) = [cluster_MakeVolumeMounts cr @ mounts @ [cfg_mount]]"
    by (simp add: t finish_pod_def Let_def main_pod_mounts)
  ultimately show ?thesis by (intro conjI exI)
qed

lemma set_ok_cluster:
  assumes "cluster_ProcessStatefulSet E cr L = (Ok (meta, spec), L')"
  shows "pod_mounts_ok (pod_of spec) \<and>
    (\<exists>ms. map ctVolumeMounts (spContainers (pod_of spec)) = [cluster_MakeVolumeMounts cr @ ms])"
proof -
  obtain current L1 t where "cluster_PodTemplateSpecForCR E cr current L = (Ok t, L1)" "soTemplate spec = t"
    using assms by (auto simp: cluster_ProcessStatefulSet_def cluster_StatefulSetForCR_def
        split: go_result.splits prod.splits option.splits)
  with template_ok_cluster show ?thesis unfolding pod_of_def by blast
qed

section \<open>Mounts stay\<close>

text \<open>The mounts of the one container of the broker.\<close>

definition broker_mounts :: "sts_spec \<Rightarrow> volume_mount list list" where
  "broker_mounts spec = map ctVolumeMounts (spContainers (pod_of spec))"

lemma pem_mounted_mounts:
  assumes "broker_mounts spec = [ms]"
  shows "\<exists>ms'. broker_mounts (pem_mounted name spec) = [ms'] \<and> set ms \<subseteq> set ms' \<and> ''secret-'' @ name \<in> vmName ` set ms'"
proof -
  let ?m = "MakeVolumeMount (vlName (MakeVolumeForSecret name))"
  obtain ct where c: "spContainers (pod_of spec) = [ct]" "ctVolumeMounts ct = ms"
    using assms by (auto simp: broker_mounts_def)
  have p: "spContainers (pod_of (pem_mounted name spec)) = mount_first ?m [ct]"
    by (simp add: pem_mounted_def Let_def add_volume_pod c(1))
  have n: "vmName ?m = ''secret-'' @ name" by (simp add: MakeVolumeMount_def MakeVolumeForSecret_def)
  show ?thesis
  proof (cases "HasVolumeMount ct (vmName ?m)")
    case True
    then have "''secret-'' @ name \<in> vmName ` set ms"
      unfolding HasVolumeMount_def list_ex_iff c(2) n by (elim bexE) (rule image_eqI, erule sym)
    with True show ?thesis by (simp add: broker_mounts_def p c(2))
  next
    case False
    then show ?thesis using n by (auto simp: broker_mounts_def p c(2))
  qed
qed

lemma variable_steps_mounts:
  assumes "variable_steps spec spec'" "broker_mounts spec = [ms]"
  shows "\<exists>ms'. broker_mounts spec' = [ms'] \<and> set ms \<subseteq> set ms'"
  using assms
proof (induction rule: rtranclp_induct)
  case (step s s')
  then obtain ms1 where 1: "broker_mounts s = [ms1]" "set ms \<subseteq> set ms1" by blast
  from step.hyps(2) show ?case
  proof cases
    case (pem name)
    with pem_mounted_mounts [OF 1(1), of name] 1(2) show ?thesis by blast
  next
    case (reference n vs)
    with 1 show ?thesis by (simp add: broker_mounts_def reference_values_mounts)
  next
    case (properties args)
    with 1 show ?thesis by (simp add: broker_mounts_def appendSystemPropertiesForConsole_def)
  qed
qed simp

lemma pem_between:
  assumes "variable_steps spec s1" "variable_steps (pem_mounted name s1) spec'" "broker_mounts spec = [ms]"
  shows "\<exists>ms'. broker_mounts spec' = [ms'] \<and> set ms \<subseteq> set ms' \<and> ''secret-'' @ name \<in> vmName ` set ms'"
proof -
  from variable_steps_mounts [OF assms(1,3)] obtain m1 where 1: "broker_mounts s1 = [m1]" "set ms \<subseteq> set m1" by blast
  from pem_mounted_mounts [OF 1(1)] obtain m2 where
    2: "broker_mounts (pem_mounted name s1) = [m2]" "set m1 \<subseteq> set m2" "''secret-'' @ name \<in> vmName ` set m2" by blast
  from variable_steps_mounts [OF assms(2) 2(1)] obtain m3 where "broker_mounts spec' = [m3]" "set m2 \<subseteq> set m3" by blast
  with 1 2 show ?thesis by blast
qed

section \<open>The files of a certificate\<close>

text \<open>The secret the arguments of an item are made from.\<close>

definition ssl_secret_of :: "'w cluster_env \<Rightarrow> broker_cluster \<Rightarrow> string \<Rightarrow> api_error + secret" where
  "ssl_secret_of E cr name =
     (if has_suffix name Cert_provided_secret_suffix then Inr (provided_secret name)
      else ckGetSecret (beCluster (ceBase E)) (bcNamespace cr) name)"

lemma certificate_pem:
  assumes "generateCommonSSLFlags E cr name ca tt c = Inr args" "ssl_secret_of E cr name = Inr sec"
    and "IsSecretFromCert sec = (True, True)"
  shows "saPemCfgs args = [secName sec @ ''.pemcfg'', ''/etc/'' @ secName sec @ ''-volume/tls.key'',
    ''/etc/'' @ secName sec @ ''-volume/tls.crt'']"
  using assms
  by (auto simp: generateCommonSSLFlags_def ssl_secret_of_def GetSslArgumentsFromSecret_def key_store_def Let_def
      secret_trust_store_def split: if_splits sum.splits option.splits)

text \<open>A read by name returns a secret of that name.\<close>

definition secrets_named :: "cluster_kube \<Rightarrow> bool" where
  "secrets_named K \<longleftrightarrow> (\<forall>ns n s. ckGetSecret K ns n = Inr s \<longrightarrow> secName s = n)"

lemma ssl_secret_name:
  "secrets_named (beCluster (ceBase E)) \<Longrightarrow> ssl_secret_of E cr name = Inr sec \<Longrightarrow> secName sec = name"
  by (auto simp: ssl_secret_of_def provided_secret_def secrets_named_def split: if_splits)

lemma ssl_text_pem:
  assumes "ssl_text E cr name ts tt st = (Inr flags, st')" "reads_named (ceGetObject E)"
    and "secrets_named (beCluster (ceBase E))" "ssl_secret_of E cr name = Inr sec" "IsSecretFromCert sec = (True, True)"
  shows "fst st' = pem_mounted (CfgToSecretName (name @ ''.pemcfg'')) (fst st)"
proof -
  have "\<exists>L1 args. generateCommonSSLFlags E cr name ts tt False = Inr args \<and> st' = add_pem_secret (bcNamespace cr) args (fst st, L1)"
    using assms(1,2)
    by (auto simp: ssl_text_def processSSLSecret_def reads_named_def okey_def
        split: prod.splits sum.splits if_splits api_error.splits)
  then obtain L1 args where a: "generateCommonSSLFlags E cr name ts tt False = Inr args"
    and st': "st' = add_pem_secret (bcNamespace cr) args (fst st, L1)" by blast
  from certificate_pem [OF a assms(4,5)] ssl_secret_name [OF assms(3,4)]
  show ?thesis by (simp add: st' add_pem_secret_def pem_spec)
qed

text \<open>Each acceptor with a certificate leaves its configuration file mounted.\<close>

lemma acceptor_entry_pem:
  assumes "acceptor_entry E cr a st = (Inr e, st')" "accSSLEnabled a" "reads_named (ceGetObject E)"
    and "secrets_named (beCluster (ceBase E))"
    and "ssl_secret_of E cr (item_secret cr (accName a) (accSSLSecret a)) = Inr sec" "IsSecretFromCert sec = (True, True)"
  shows "fst st' = pem_mounted (CfgToSecretName (item_secret cr (accName a) (accSSLSecret a) @ ''.pemcfg'')) (fst st)"
  using assms(1,2) ssl_text_pem [OF _ assms(3-6)]
  by (auto simp: acceptor_entry_def acceptor_ssl_def split: prod.splits sum.splits if_splits)

lemma acceptor_entries_pem:
  assumes "acceptor_entries E cr n as st = (Inr tx, as', st')" "a \<in> set as" "accSSLEnabled a"
    "reads_named (ceGetObject E)" "secrets_named (beCluster (ceBase E))"
    "ssl_secret_of E cr (item_secret cr (accName a) (accSSLSecret a)) = Inr sec" "IsSecretFromCert sec = (True, True)"
  shows "\<exists>s1. variable_steps (fst st) s1 \<and>
    variable_steps (pem_mounted (CfgToSecretName (item_secret cr (accName a) (accSSLSecret a) @ ''.pemcfg'')) s1) (fst st')"
  using assms
proof (induction E cr n as st arbitrary: tx as' st' rule: acceptor_entries.induct)
  case (2 E cr n b as st)
  let ?b = "if accPort b = 0 then b\<lparr>accPort := 61626 + n\<rparr> else b"
  let ?n = "if accPort b = 0 then n + 10 else n"
  obtain e st1 where e: "acceptor_entry E cr ?b st = (Inr e, st1)"
    using 2(2) by (auto simp: Let_def split: prod.splits sum.splits)
  obtain t as1 where r: "acceptor_entries E cr ?n as st1 = (Inr t, as1, st')"
    using 2(2) e by (auto simp: Let_def split: prod.splits sum.splits)
  note first = acceptor_entry_steps [OF e]
  show ?case
  proof (cases "a \<in> set as")
    case True
    from 2(1) [OF refl refl e [symmetric] refl r True 2(4-8)] obtain s1 where
      "variable_steps (fst st1) s1"
      "variable_steps (pem_mounted (CfgToSecretName (item_secret cr (accName a) (accSSLSecret a) @ ''.pemcfg'')) s1) (fst st')"
      by blast
    with first show ?thesis by (meson rtranclp_trans)
  next
    case False
    with 2(3) have b: "b = a" by simp
    have "accName ?b = accName a" "accSSLSecret ?b = accSSLSecret a" "accSSLEnabled ?b" using 2(4) by (simp_all add: b)
    with acceptor_entry_pem [OF e _ 2(5,6), of sec] 2(7,8)
    have "fst st1 = pem_mounted (CfgToSecretName (item_secret cr (accName a) (accSSLSecret a) @ ''.pemcfg'')) (fst st)" by simp
    with acceptor_entries_steps [OF r] show ?thesis by auto
  qed
qed simp

lemma plan_template:
  "apply_plan E CL cr spec L S s = (cr', spec', L', S', s') \<Longrightarrow>
     soTemplate spec' = soTemplate spec \<and> bcAcceptors cr' = bcAcceptors cr"
  by (auto simp: apply_plan_def ProcessDeploymentPlan_def Let_def set_conditions_def split: prod.splits if_splits)

text \<open>The loop over the acceptors within a run.\<close>

lemma variables_acceptors:
  assumes "process_variables E cr st = (Ok (None, st'), cr')" "ProcessCredentials E cr st = Ok st1"
  obtains tx as st2 where "acceptor_entries E cr 0 (bcAcceptors cr) st1 = (Inr tx, as, st2)" "variable_steps (fst st2) (fst st')"
proof -
  obtain st3 cr1 where a: "ProcessAcceptorsAndConnectors E cr st1 = (Ok (None, st3), cr1)"
    and c: "ProcessConsole E cr1 st3 = Ok (None, st')"
    using assms by (auto simp: process_variables_def split: go_result.splits option.splits prod.splits)
  obtain r cr2 st2 where g: "generateAcceptorsString E cr st1 = (r, cr2, st2)" by (metis prod_cases3)
  obtain r2 spec L2 where h: "generateConnectorsString E cr2 st2 = (r2, spec, L2)" by (metis prod_cases3)
  obtain x where x: "r = Inr x" using a g by (cases r) (auto simp: ProcessAcceptorsAndConnectors_def)
  obtain y where y: "r2 = Inr y" using a g h x by (cases r2) (auto simp: ProcessAcceptorsAndConnectors_def)
  obtain as tx where as: "acceptor_entries E cr 0 (bcAcceptors cr) st1 = (Inr tx, as, st2)"
    using g x by (auto simp: generateAcceptorsString_def split: prod.splits sum.splits)
  have s: "sourceEnvVarFromSecret E cr2 (netty_values x y) (netty_name cr2)
      (spec, configureConnectorsExposure E cr2 (configureAcceptorsExposure E cr2 L2)) = Ok st3"
    using a g h x y by (auto simp: ProcessAcceptorsAndConnectors_def)
  have "variable_steps (fst st2) spec" using connector_entries_steps [OF h [unfolded generateConnectorsString_def]] by simp
  with source_steps [OF s] console_steps [OF c] have "variable_steps (fst st2) (fst st')"
    unfolding fst_conv by (meson rtranclp_trans)
  with as that show thesis by blast
qed

end
