(* ===== verification/Cluster_Exposure_Facts.thy ===== *)
theory Cluster_Exposure_Facts
  imports Cluster_Pod_Facts
begin

text \<open>
  What a reconcile of a \<open>BrokerCluster\<close> requests besides the stateful set: the services of the endpoints, the
  text of the acceptors, and the secret with the credentials.
\<close>

section \<open>Names of services\<close>

lemma first_dash: "xs @ c # a = ys @ c # b \<Longrightarrow> c \<notin> set xs \<Longrightarrow> c \<notin> set ys \<Longrightarrow> xs = ys \<and> a = b"
proof (induction xs arbitrary: ys)
  case Nil
  then show ?case by (cases ys) auto
next
  case (Cons x xs)
  then show ?case by (cases ys) auto
qed

lemma last_dash:
  assumes "a @ CHR ''-'' # d = b @ CHR ''-'' # e" "CHR ''-'' \<notin> set d" "CHR ''-'' \<notin> set e"
  shows "a = b \<and> d = e"
proof -
  have "rev d @ CHR ''-'' # rev a = rev e @ CHR ''-'' # rev b" using arg_cong [OF assms(1), of rev] by simp
  from first_dash [OF this] assms(2,3) have "rev d = rev e \<and> rev a = rev b" by simp
  then show ?thesis by simp
qed

lemma itoa_nat_no_dash: "CHR ''-'' \<notin> set (itoa (int n))"
  using nat_to_string_digits [of n] digit_not_sign by (auto simp: itoa_def list_all_iff)

lemma service_name_inj: "service_name cr n i = service_name cr m j \<longleftrightarrow> n = m \<and> i = j"
proof
  assume "service_name cr n i = service_name cr m j"
  then have "n @ CHR ''-'' # itoa (int i) = m @ CHR ''-'' # itoa (int j)"
    by (simp add: service_name_def)
  from last_dash [OF this itoa_nat_no_dash itoa_nat_no_dash] show "n = m \<and> i = j" by (auto dest: itoa_inj)
qed simp

section \<open>The service of an endpoint\<close>

text \<open>One port, that of the endpoint, on the one pod of the ordinal.\<close>

definition serves :: "broker_cluster \<Rightarrow> nat \<Rightarrow> endpoint \<Rightarrow> k8s_object \<Rightarrow> bool" where
  "serves cr i e obj \<longleftrightarrow>
     (case obBody obj of
        ServiceBody spec \<Rightarrow>
          sePorts spec = [tcp_port (epName e @ ''-'' @ itoa (int i)) (epPort e) None] \<and>
          map_of (seSelector spec) PodNameLabelKey = Some (cluster_set_name cr @ ''-'' @ itoa (int i)) \<and>
          seType spec = ''ClusterIP''
      | _ \<Rightarrow> False)"

lemma endpoint_service:
  assumes "service_object (ServiceDefinitionForCR ns name (epName e @ ''-'' @ itoa (int i)) (epPort e) (ordinal_labels cr i) ls L) = obj"
  shows "serves cr i e obj \<and> okey obj = (ServiceT, name)"
proof -
  obtain m spec where s: "(case Option.bind (cloneOfDeployed L ServiceT name) service_of of Some s \<Rightarrow> s | None \<Rightarrow> new_service) = (m, spec)"
    by fastforce
  show ?thesis
    using assms s
    by (auto simp: serves_def service_object_def ServiceDefinitionForCR_def NewServiceDefinitionForCR_def ordinal_labels_def
        update_conv' okey_def rtype_of_def object_name_def)
qed

lemma checked_service:
  "checkExistingService E cr c L = (c', L') \<Longrightarrow> obBody c' = obBody c \<and> okey c' = okey c \<and> blRequested L' = blRequested L"
  by (auto simp: checkExistingService_def adopt_def updateOwnerReferencesAndMatchVersion_def Let_def addToDeployed_def
      okey_def rtype_of_def object_name_def split: option.splits sum.splits if_splits)

lemma exposure_type:
  "rtype_of (ExposureDefinitionForCR E cr ls tls h o' n m L) \<in> {IngressT, RouteT}"
  by (auto simp: ExposureDefinitionForCR_def exposed_as_route_def exposed_as_ingress_def Let_def rtype_of_def
      split: prod.split)

lemma desired_of_requested: "blRequested L' = blRequested L \<Longrightarrow> getFromDesired L' t n = getFromDesired L t n"
  by (simp add: getFromDesired_def)

lemma expose_endpoint_services:
  "\<exists>obj. serves cr i e obj \<and> getFromDesired (expose_endpoint E cr i L e) ServiceT n =
     (if n = service_name cr (epName e) i then Some obj else getFromDesired L ServiceT n)"
proof -
  define svc where "svc = service_object (ServiceDefinitionForCR (bcNamespace cr) (service_name cr (epName e) i)
    (epName e @ ''-'' @ itoa (int i)) (epPort e) (ordinal_labels cr i) (cluster_labels cr) L)"
  obtain svc' L1 where c: "checkExistingService E cr svc L = (svc', L1)" by fastforce
  note k = checked_service [OF c] and s = endpoint_service [OF svc_def [symmetric]]
  have key: "rtype_of svc' = ServiceT" "object_name svc' = service_name cr (epName e) i"
    using k s by (simp_all add: okey_def)
  have "serves cr i e svc'" using k s by (simp add: serves_def)
  moreover have "expose_endpoint E cr i L e = (if epExpose e then trackDesired (trackDesired L1 svc')
      (ExposureDefinitionForCR E cr (ordinal_labels cr i) (epTLS e) (epHost e) (itoa (int i)) (epName e) (epMode e)
        (trackDesired L1 svc')) else trackDesired L1 svc')"
    using c by (simp add: expose_endpoint_def Let_def svc_def)
  then have "getFromDesired (expose_endpoint E cr i L e) ServiceT n = getFromDesired (trackDesired L1 svc') ServiceT n"
    using exposure_type [of E cr "ordinal_labels cr i" "epTLS e" "epHost e" "itoa (int i)" "epName e" "epMode e" "trackDesired L1 svc'"]
    by (auto simp: tracked.lookup_track)
  moreover have "getFromDesired L1 ServiceT n = getFromDesired L ServiceT n" using k by (intro desired_of_requested) simp
  ultimately show ?thesis by (intro exI [of _ svc']) (simp add: tracked.lookup_track key)
qed

text \<open>The last endpoint of a name is the one that counts.\<close>

definition last_named :: "endpoint list \<Rightarrow> string \<Rightarrow> endpoint option" where
  "last_named es n = List.find (\<lambda>e. epName e = n) (rev es)"

lemma last_named_snoc [simp]: "last_named (es @ [e]) n = (if epName e = n then Some e else last_named es n)"
  by (simp add: last_named_def)

lemma last_named_append: "last_named (xs @ ys) n = (case last_named ys n of Some e \<Rightarrow> Some e | None \<Rightarrow> last_named xs n)"
  by (induction ys rule: rev_induct) (simp_all add: append_assoc [symmetric] last_named_def del: append_assoc split: option.split)

lemma last_named_name: "last_named es n = Some e \<Longrightarrow> epName e = n"
  unfolding last_named_def by (simp add: find_Some_iff) blast

definition served :: "broker_cluster \<Rightarrow> nat \<Rightarrow> endpoint option \<Rightarrow> k8s_object option \<Rightarrow> k8s_object option \<Rightarrow> bool" where
  "served cr i e before after \<longleftrightarrow>
     (case e of None \<Rightarrow> after = before | Some e' \<Rightarrow> \<exists>obj. after = Some obj \<and> serves cr i e' obj)"

lemma ordinal_services:
  "served cr i (if j = i then last_named es n else None) (getFromDesired L ServiceT (service_name cr n j))
     (getFromDesired (foldl (expose_endpoint E cr i) L es) ServiceT (service_name cr n j))"
proof (induction es rule: rev_induct)
  case Nil
  then show ?case by (simp add: served_def last_named_def)
next
  case (snoc e es)
  let ?L = "foldl (expose_endpoint E cr i) L es"
  obtain obj where "serves cr i e obj" "getFromDesired (expose_endpoint E cr i ?L e) ServiceT (service_name cr n j) =
      (if service_name cr n j = service_name cr (epName e) i then Some obj else getFromDesired ?L ServiceT (service_name cr n j))"
    using expose_endpoint_services by blast
  with snoc show ?case by (auto simp: service_name_inj served_def)
qed

lemma all_services:
  assumes "last_named es n = Some e" "i < nat (sint (GetDeploymentSize cr))"
  shows "\<exists>obj. getFromDesired (expose_endpoints E cr es L) ServiceT (service_name cr n i) = Some obj \<and> serves cr i e obj"
proof -
  have "i < k \<longrightarrow> (\<exists>obj. getFromDesired (foldl (\<lambda>L1 i. foldl (expose_endpoint E cr i) L1 es) L [0..<k]) ServiceT
      (service_name cr n i) = Some obj \<and> serves cr i e obj)" for k
  proof (induction k)
    case (Suc k)
    let ?L = "foldl (\<lambda>L1 i. foldl (expose_endpoint E cr i) L1 es) L [0..<k]"
    show ?case
      using Suc ordinal_services [of cr k i es n ?L E] assms(1) by (cases "i = k") (auto simp: served_def)
  qed simp
  with assms(2) show ?thesis by (simp add: expose_endpoints_def cluster_ordinals_def)
qed

lemma other_services:
  assumes "last_named es n = None"
  shows "getFromDesired (expose_endpoints E cr es L) ServiceT (service_name cr n i) = getFromDesired L ServiceT (service_name cr n i)"
proof -
  have "getFromDesired (foldl (\<lambda>L1 i. foldl (expose_endpoint E cr i) L1 es) L ks) ServiceT (service_name cr n i) =
      getFromDesired L ServiceT (service_name cr n i)" for ks
  proof (induction ks rule: rev_induct)
    case (snoc k ks)
    show ?case
      using snoc ordinal_services [of cr k i es n "foldl (\<lambda>L1 i. foldl (expose_endpoint E cr i) L1 es) L ks" E] assms
      by (simp add: served_def split: if_splits)
  qed simp
  then show ?thesis by (simp add: expose_endpoints_def)
qed

section \<open>The secrets behind variables\<close>

lemma source_effect:
  assumes "sourceEnvVarFromSecret E cr vs name st = Ok st'" "internal_values vs = []"
  obtains tr where "secret_definition E cr vs name = Ok tr"
    "snd st' = (case tr of Some obj \<Rightarrow> trackDesired (snd st) obj | None \<Rightarrow> snd st)"
  using assms by (auto simp: sourceEnvVarFromSecret_def track_internal_def Let_def split: go_result.splits)

lemma secret_definition_type:
  assumes "secret_definition E cr vs name = Ok (Some obj)" "reads_named (ceGetObject E)"
  shows "okey obj = (SecretT, name)"
proof (cases "ceGetObject E SecretT (bcNamespace cr) name")
  case (Inl e)
  with assms(1) show ?thesis by (auto simp: secret_definition_def Let_def okey_def split: if_splits)
next
  case (Inr x)
  with assms(2) have "okey x = (SecretT, name)" by (simp add: reads_named_def)
  with assms(1) Inr show ?thesis
    by (auto simp: secret_definition_def Let_def okey_def split: body.splits go_result.splits if_splits)
qed

lemma no_internal [simp]: "internal_values (netty_values a c) = []" "internal_values (credential_values r cr cts) = []"
  by (simp_all add: internal_values_def plain_values_def netty_values_def given_value_def credential_values_def
      generated_value_def credential_def split: option.split)

lemma source_keeps:
  assumes "sourceEnvVarFromSecret E cr vs name st = Ok st'" "internal_values vs = []" "reads_named (ceGetObject E)" "t \<noteq> SecretT"
  shows "getFromDesired (snd st') t n = getFromDesired (snd st) t n"
proof -
  obtain tr where t: "secret_definition E cr vs name = Ok tr"
    "snd st' = (case tr of Some obj \<Rightarrow> trackDesired (snd st) obj | None \<Rightarrow> snd st)"
    by (rule source_effect [OF assms(1,2)])
  show ?thesis
  proof (cases tr)
    case (Some obj)
    with t secret_definition_type [OF _ assms(3)] assms(4) show ?thesis by (auto simp: tracked.lookup_track okey_def)
  qed (simp add: t(2))
qed

text \<open>The endpoints of a cluster: a connector counts before an acceptor of the same name.\<close>

definition cluster_endpoints :: "broker_cluster \<Rightarrow> endpoint list" where
  "cluster_endpoints cr = map acceptor_endpoint (bcAcceptors cr) @ map connector_endpoint (bcConnectors cr)"

lemma acceptors_services:
  assumes "ProcessAcceptorsAndConnectors E cr st = (Ok (None, st'), cr')" "reads_named (ceGetObject E)"
    and "last_named (cluster_endpoints cr') n = Some e" "i < nat (sint (GetDeploymentSize cr'))"
  shows "\<exists>obj. getFromDesired (snd st') ServiceT (service_name cr' n i) = Some obj \<and> serves cr' i e obj"
proof -
  obtain r cr1 st1 where a: "generateAcceptorsString E cr st = (r, cr1, st1)" by (metis prod_cases3)
  then obtain x where r: "r = Inr x" using assms(1) by (cases r) (auto simp: ProcessAcceptorsAndConnectors_def)
  obtain r2 spec L2 where c: "generateConnectorsString E cr1 st1 = (r2, spec, L2)" by (metis prod_cases3)
  then obtain y where r2: "r2 = Inr y" using assms(1) a r by (cases r2) (auto simp: ProcessAcceptorsAndConnectors_def)
  let ?L = "expose_endpoints E cr' (map acceptor_endpoint (bcAcceptors cr')) L2"
  from assms(1) a r c r2 have cr': "cr' = cr1"
    and s: "sourceEnvVarFromSecret E cr' (netty_values x y) (netty_name cr')
      (spec, expose_endpoints E cr' (map connector_endpoint (bcConnectors cr')) ?L) = Ok st'"
    by (auto simp: ProcessAcceptorsAndConnectors_def configureAcceptorsExposure_def configureConnectorsExposure_def)
  have "\<exists>obj. getFromDesired (expose_endpoints E cr' (map connector_endpoint (bcConnectors cr')) ?L) ServiceT
      (service_name cr' n i) = Some obj \<and> serves cr' i e obj"
  proof (cases "last_named (map connector_endpoint (bcConnectors cr')) n")
    case None
    with assms(3) have "last_named (map acceptor_endpoint (bcAcceptors cr')) n = Some e"
      by (simp add: cluster_endpoints_def last_named_append)
    from all_services [OF this assms(4)] show ?thesis by (simp add: other_services [OF None])
  next
    case (Some e')
    with assms(3) have "e' = e" by (simp add: cluster_endpoints_def last_named_append)
    with all_services [OF Some assms(4)] show ?thesis by simp
  qed
  with source_keeps [OF s no_internal(1) assms(2), of ServiceT] show ?thesis by simp
qed

section \<open>Credentials\<close>

text \<open>What a key holds afterwards: a generated value gives way to the one that is there.\<close>

definition settled_value :: "string \<Rightarrow> value_info \<Rightarrow> string" where
  "settled_value old v = (if viAutoGen v \<and> old \<noteq> '''' then old else viValue v)"

lemma merge_value_lookup:
  "map_of (merge_value data (k, v)) k' = (if k' = k then Some (settled_value (value_of data k) v) else map_of data k')"
proof (cases "replaces data (k, v)")
  case True
  then show ?thesis by (auto simp: merge_value_def replaces_def settled_value_def Let_def update_conv')
next
  case False
  then have "map_of data k = Some (settled_value (value_of data k) v)"
    by (cases "map_of data k") (auto simp: replaces_def settled_value_def Let_def value_of_def split: if_splits)
  with False show ?thesis by (simp add: merge_value_def)
qed

lemma merge_values_lookup:
  assumes "distinct (map fst vs)" "merge_values data vs = Ok d"
  shows "map_of d k = (case map_of vs k of Some v \<Rightarrow> Some (settled_value (value_of data k) v) | None \<Rightarrow> map_of data k)"
proof -
  have "map_of (foldl merge_value data vs) k =
      (case map_of vs k of Some v \<Rightarrow> Some (settled_value (value_of data k) v) | None \<Rightarrow> map_of data k)"
    using assms(1)
  proof (induction vs arbitrary: data)
    case (Cons p vs)
    obtain k0 v where p: "p = (k0, v)" by fastforce
    have "value_of (merge_value data (k0, v)) k = (if k = k0 then settled_value (value_of data k0) v else value_of data k)"
      by (simp add: value_of_def merge_value_lookup)
    moreover have "k = k0 \<Longrightarrow> map_of vs k = None" using Cons.prems p by (simp add: map_of_eq_None_iff)
    ultimately show ?case
      using Cons by (auto simp: p merge_value_lookup split: option.split)
  qed simp
  with assms(2) show ?thesis by (simp add: merge_values_def split: if_splits)
qed

lemma credential_keys:
  "map fst (credential_values r cr cts) = [''AMQ_USER'', ''AMQ_PASSWORD'', ''AMQ_CLUSTER_USER'', ''AMQ_CLUSTER_PASSWORD'']"
  by (simp add: credential_values_def)

lemma credentials_public: "public_values (credential_values r cr cts) = credential_values r cr cts"
  by (simp add: public_values_def credential_values_def credential_def given_value_def generated_value_def split: option.split)

lemma credentials_distinct: "distinct (map fst (credential_values r cr cts))"
  by (simp add: credential_keys)

section \<open>The text of the acceptors\<close>

lemma acceptor_entry_text:
  "acceptor_entry E cr a st = (Inr entry, st') \<Longrightarrow> \<exists>ssl. entry = acceptor_head a @ ssl @ acceptor_tail a \<and> (ssl = '''' \<or> (\<exists>r. ssl = '';'' @ r))"
  by (auto simp: acceptor_entry_def acceptor_ssl_def split: prod.splits sum.splits if_splits)

lemma acceptor_tail_semicolon: "\<exists>r. acceptor_tail a = '';'' @ r"
  by (auto simp: acceptor_tail_def nonempty_flag_def bool_argument_def optional_flag_def split: option.split)

lemma acceptor_entries_text:
  assumes "acceptor_entries E cr n as st = (Inr tx, as', st')" "a \<in> set as'"
  shows "\<exists>before rest. tx = before @ acceptor_head a @ '';'' @ rest"
  using assms
proof (induction E cr n as st arbitrary: tx as' st' rule: acceptor_entries.induct)
  case (2 E cr n b as st)
  let ?b = "if accPort b = 0 then b\<lparr>accPort := 61626 + n\<rparr> else b"
  let ?n = "if accPort b = 0 then n + 10 else n"
  obtain e st1 where e: "acceptor_entry E cr ?b st = (Inr e, st1)"
    using 2(2) by (auto simp: Let_def split: prod.splits sum.splits)
  obtain t as1 where r: "acceptor_entries E cr ?n as st1 = (Inr t, as1, st')" and tx: "tx = e @ t" "as' = ?b # as1"
    using 2(2) e by (auto simp: Let_def split: prod.splits sum.splits)
  show ?case
  proof (cases "a \<in> set as1")
    case True
    from 2(1) [OF refl refl e [symmetric] refl r True] obtain before rest where "t = before @ acceptor_head a @ '';'' @ rest" by blast
    then show ?thesis by (intro exI [of _ "e @ before"] exI [of _ rest]) (simp add: tx)
  next
    case False
    with 2(3) tx have a: "a = ?b" by simp
    from acceptor_entry_text [OF e] obtain ssl where
      ssl: "e = acceptor_head a @ ssl @ acceptor_tail a" "ssl = '''' \<or> (\<exists>r. ssl = '';'' @ r)" unfolding a by blast
    obtain r where "acceptor_tail a = '';'' @ r" using acceptor_tail_semicolon by blast
    with ssl have "\<exists>rest. e = acceptor_head a @ '';'' @ rest" by auto
    then obtain rest where "tx = [] @ acceptor_head a @ '';'' @ (rest @ t)" using tx(1) by auto
    then show ?thesis by (intro exI)
  qed
qed simp

lemma str_contains_self_end: "str_contains (a @ b) b"
  unfolding str_contains_iff by (intro exI [of _ a] exI [of _ "[]"]) simp

lemma core_head:
  assumes "accPort a = 61616"
  shows "\<exists>host protocols. acceptor_head a = xml_open ''acceptor'' (accName a) @ escaped_scheme ''tcp'' @ host @
    '':61616?protocols='' @ protocols \<and> str_contains protocols ''CORE''"
proof -
  have "itoa (sint (61616 :: int32)) = ''61616''" by (simp add: itoa_def nat_to_string.simps digit_chars)
  moreover have "str_contains (served_protocols a) ''CORE''"
  proof (cases "str_contains (to_upper (acceptor_protocols a)) ''CORE''")
    case True
    then show ?thesis using str_contains_appendI1 by (simp add: served_protocols_def Let_def)
  next
    case False
    have "served_protocols a = (to_upper (acceptor_protocols a) @ '','') @ ''CORE''"
      using False assms by (simp add: served_protocols_def Let_def)
    then show ?thesis using str_contains_self_end [of "to_upper (acceptor_protocols a) @ '',''" "''CORE''"] by metis
  qed
  ultimately show ?thesis
    by (intro exI [of _ "if accBindToAllInterfaces a = Some True then ''0.0.0.0'' else ''ACCEPTOR_IP''"]
        exI [of _ "served_protocols a"] conjI) (simp_all add: acceptor_head_def assms)
qed

lemma scale_down_core:
  "\<exists>rest. scale_down_acceptor = xml_open ''acceptor'' ''scaleDown'' @ escaped_scheme ''tcp'' @ ''ACCEPTOR_IP'' @
     '':61616?protocols='' @ ''CORE'' @ '';'' @ rest"
  by (simp add: scale_down_acceptor_def)

text \<open>A run that could not list and needed to adopt a service does not succeed.\<close>

lemma plan_endpoints:
  "apply_plan E CL cr spec L S s = (cr', spec', L', S', s') \<Longrightarrow>
     cluster_endpoints cr' = cluster_endpoints cr \<and> GetDeploymentSize cr' = GetDeploymentSize cr \<and> same_identity cr' cr"
  using plan_keeps [of E CL cr spec L S s cr' spec' L' S' s' "\<lambda>s k. None"]
  by (auto simp: apply_plan_def ProcessDeploymentPlan_def Let_def set_conditions_def cluster_endpoints_def GetDeploymentSize_def
      split: prod.splits if_splits)

lemma acceptor_entries_endpoints:
  "acceptor_entries E cr n as st = (Inr x, as', st') \<Longrightarrow> accName ` set as' = accName ` set as"
  using acceptor_entries_names [of E cr n as st "Inr x" as' st' x] by (metis list.set_map)

lemma variables_adopt:
  assumes "process_variables E cr st = (Ok (None, st'), cr')"
    and "n \<in> epName ` set (cluster_endpoints cr)" "i < nat (sint (GetDeploymentSize cr))"
    and "orphan_service (ceGetObject E) (bcNamespace cr) (service_name cr n i)"
  shows "some_service (snd st')"
proof -
  obtain st1 where 1: "ProcessCredentials E cr st = Ok st1"
    using assms(1) by (cases "ProcessCredentials E cr st") (auto simp: process_variables_def)
  obtain st2 cr1 where a: "ProcessAcceptorsAndConnectors E cr st1 = (Ok (None, st2), cr1)"
    and c: "ProcessConsole E cr1 st2 = Ok (None, st')"
    using assms(1) 1 by (auto simp: process_variables_def split: go_result.splits option.splits prod.splits)
  obtain r cr2 st3 where g: "generateAcceptorsString E cr st1 = (r, cr2, st3)" by (metis prod_cases3)
  obtain r2 spec L2 where h: "generateConnectorsString E cr2 st3 = (r2, spec, L2)" by (metis prod_cases3)
  obtain x where x: "r = Inr x" using a g by (cases r) (auto simp: ProcessAcceptorsAndConnectors_def)
  obtain y where y: "r2 = Inr y" using a g h x by (cases r2) (auto simp: ProcessAcceptorsAndConnectors_def)
  obtain as tx where as: "acceptor_entries E cr 0 (bcAcceptors cr) st1 = (Inr tx, as, st3)" "cr2 = cr\<lparr>bcAcceptors := as\<rparr>"
    using g x by (auto simp: generateAcceptorsString_def split: prod.splits sum.splits)
  let ?A = "expose_endpoints E cr2 (map acceptor_endpoint (bcAcceptors cr2)) L2"
  let ?L = "expose_endpoints E cr2 (map connector_endpoint (bcConnectors cr2)) ?A"
  have s: "sourceEnvVarFromSecret E cr2 (netty_values x y) (netty_name cr2) (spec, ?L) = Ok st2"
    using a g h x y
    by (auto simp: ProcessAcceptorsAndConnectors_def configureAcceptorsExposure_def configureConnectorsExposure_def)
  have orphan: "orphan_service (ceGetObject E) (bcNamespace cr2) (service_name cr2 n i)" "i < nat (sint (GetDeploymentSize cr2))"
    using assms(3,4) by (simp_all add: as(2) service_name_def GetDeploymentSize_def)
  have names: "n \<in> accName ` set as \<or> n \<in> conName ` set (bcConnectors cr)"
    using assms(2) acceptor_entries_endpoints [OF as(1)]
    by (auto simp: cluster_endpoints_def acceptor_endpoint_def connector_endpoint_def)
  have "some_service ?L"
  proof (cases "n \<in> accName ` set as")
    case True
    then obtain b where b: "b \<in> set as" "n = accName b" by blast
    have "some_service ?A"
      using b orphan by (intro expose_endpoints_adopt [of "acceptor_endpoint b"]) (simp_all add: as(2) acceptor_endpoint_def)
    then show ?thesis by (rule expose_endpoints_grow)
  next
    case False
    with names obtain b where b: "b \<in> set (bcConnectors cr)" "n = conName b" by blast
    then show ?thesis
      using orphan by (intro expose_endpoints_adopt [of "connector_endpoint b"]) (simp_all add: as(2) connector_endpoint_def)
  qed
  with source_grows [OF s] console_grows [OF c] show ?thesis by simp
qed

lemma unlisted_adoption:
  assumes "cluster_CurrentDeployedResources E CL cr NewBrokerReconcilerImpl s = (L0, False, s0)"
    and "n \<in> epName ` set (cluster_endpoints cr)" "i < nat (sint (GetDeploymentSize cr))"
    and "\<And>s. orphan_service (ccGetObject CL s) (bcNamespace cr) (service_name cr n i)"
    and "cluster_Process E CL CMP cr S s = Ok P"
  shows "poError P \<noteq> None"
proof
  assume none: "poError P = None"
  obtain meta spec L1 where p: "cluster_ProcessStatefulSet (at_server CL s0 E) cr L0 = (Ok (meta, spec), L1)"
    and r: "process_requested E CL CMP False cr meta spec L1 S s0 = Ok P"
    using assms(1,5) none by (auto simp: cluster_Process_def split: prod.splits go_result.splits)
  obtain cr1 spec1 L2 S1 s1 where a: "apply_plan E CL cr spec L1 S s0 = (cr1, spec1, L2, S1, s1)" by (metis prod_cases5)
  obtain v cr2 where v: "process_variables (at_server CL s1 E) cr1 (spec1, L2) = (v, cr2)" by fastforce
  then obtain err spec2 L3 where ok: "v = Ok (err, spec2, L3)"
    using r a by (cases v) (auto simp: process_requested_def)
  have nil: "\<not> nil_map_written False L3" and n: "err = None"
    using r a v ok none by (auto simp: process_requested_def split: if_splits option.splits)
  note e = plan_endpoints [OF a]
  then have "some_service (snd (spec2, L3))"
    using assms(2-4) e
    by (intro variables_adopt [OF v [unfolded ok n]]) (simp_all add: at_server_def service_name_def same_identity_def)
  with nil show False by (simp add: nil_map_written_def some_service_def)
qed

end
