(* ===== verification/Sample_Resources.thy ===== *)
theory Sample_Resources
  imports Sample_Broker Cluster_Exposure_Facts
begin

text \<open>
  A small \<open>BrokerCluster\<close> with an acceptor over TLS and its surroundings, on which the hypotheses of the
  properties of its resources are shown to be satisfiable.
\<close>

section \<open>The cluster and its surroundings\<close>

definition tls_acceptor :: acceptor where
  "tls_acceptor = zero_acceptor\<lparr>accName := ''amqps'', accSSLEnabled := True, accSSLSecret := ''amqps-ptls'', accExpose := True\<rparr>"

definition plain_acceptor :: acceptor where
  "plain_acceptor = zero_acceptor\<lparr>accName := ''core'', accPort := 61617\<rparr>"

definition tls_plan :: deployment_plan where
  "tls_plan = zero_plan\<lparr>dpSize := Some 2, dpMessageMigration := Some True\<rparr>"

definition tls_cluster :: broker_cluster where
  "tls_cluster = (sample_broker_cluster 2 2)\<lparr>bcPlan := tls_plan, bcBrokerProperties := [''a=b''], bcAcceptors := [tls_acceptor, plain_acceptor]\<rparr>"

definition missing_object :: "rtype \<Rightarrow> string \<Rightarrow> string \<Rightarrow> api_error + k8s_object" where
  "missing_object t ns n = Inl (NotFound ''not found'')"

definition tls_env :: "unit cluster_env" where
  "tls_env = \<lparr>ceBase = sample_broker_env, ceGetObject = missing_object, ceRandom = (\<lambda>i. ''random''), ceHandlers = []\<rparr>"

lemma tls_env_sel [simp]:
  "ceBase tls_env = sample_broker_env" "ceGetObject tls_env = missing_object" "ceHandlers tls_env = []"
  "ceRandom tls_env i = ''random''"
  by (simp_all add: tls_env_def)

lemma missing_named [simp]: "reads_named missing_object"
  by (simp add: reads_named_def missing_object_def)

lemma full_kube_named [simp]: "secrets_named full_kube"
  by (simp add: secrets_named_def sample_secret_def)

lemma tls_cluster_sel [simp]:
  "bcName tls_cluster = ''amq''" "bcNamespace tls_cluster = ''dev''" "bcPlan tls_cluster = tls_plan" "bcStatus tls_cluster = sample_cluster_status 2"
  "\<not> dpPersistenceEnabled tls_plan" "dpExtraClaims tls_plan = []" "dpPodDisruptionBudget tls_plan = None"
  "dpMessageMigration tls_plan = Some True"
  "bcAcceptors tls_cluster = [tls_acceptor, plain_acceptor]" "bcConnectors tls_cluster = []"
  "bcConsole tls_cluster = zero_console" "bcTemplates tls_cluster = []" "bcBrokerProperties tls_cluster = [''a=b'']"
  "GetDeploymentSize tls_cluster = 2" "\<not> CrConfiguredForControllerManagedScaleDown tls_cluster" "isClustered tls_cluster"
  "bcAdminUser tls_cluster = ''''" "bcAdminPassword tls_cluster = ''''"
  by (simp_all add: tls_cluster_def sample_broker_cluster_def GetDeploymentSize_def tls_plan_def isClustered_def
      CrConfiguredForControllerManagedScaleDown_def zero_plan_def)

lemma tls_acceptor_sel [simp]:
  "accName tls_acceptor = ''amqps''" "accSSLEnabled tls_acceptor" "accSSLSecret tls_acceptor = ''amqps-ptls''"
  "accPort tls_acceptor = 0" "accTrustSecret tls_acceptor = None" "accTrustStoreType tls_acceptor = ''''"
  "accName plain_acceptor = ''core''" "\<not> accSSLEnabled plain_acceptor" "accPort plain_acceptor = 61617"
  by (simp_all add: tls_acceptor_def plain_acceptor_def zero_acceptor_def)

lemma provided_suffix [simp]: "has_suffix ''amqps-ptls'' Cert_provided_secret_suffix"
  by (simp add: has_suffix_def)

lemma provided_certificate [simp]: "IsSecretFromCert (provided_secret ''amqps-ptls'') = (True, True)"
  by (simp add: IsSecretFromCert_def provided_secret_def)

section \<open>Acceptors\<close>

text \<open>The cluster with the ports filled in.\<close>

definition filled_cluster :: broker_cluster where
  "filled_cluster = tls_cluster\<lparr>bcAcceptors := [tls_acceptor\<lparr>accPort := 61626\<rparr>, plain_acceptor]\<rparr>"

lemma filled_cluster_sel [simp]:
  "bcName filled_cluster = ''amq''" "bcNamespace filled_cluster = ''dev''" "bcConnectors filled_cluster = []"
  "bcConsole filled_cluster = zero_console" "bcAcceptors filled_cluster = [tls_acceptor\<lparr>accPort := 61626\<rparr>, plain_acceptor]"
  "bcTemplates filled_cluster = []" "GetDeploymentSize filled_cluster = 2"
  by (simp_all add: filled_cluster_def) (simp add: GetDeploymentSize_def tls_plan_def)

lemma tls_flags:
  "\<exists>args. generateCommonSSLFlags tls_env cr ''amqps-ptls'' None '''' False = Inr args"
  by (simp add: generateCommonSSLFlags_def GetSslArgumentsFromSecret_def Let_def)

lemma tls_acceptors_text: "\<exists>tx st'. generateAcceptorsString tls_env tls_cluster st = (Inr tx, filled_cluster, st')"
proof -
  obtain args where a: "generateCommonSSLFlags tls_env tls_cluster ''amqps-ptls'' None '''' False = Inr args"
    using tls_flags by blast
  let ?a = "tls_acceptor\<lparr>accPort := 61626\<rparr>"
  obtain e st1 where 1: "acceptor_entry tls_env tls_cluster ?a st = (Inr e, st1)"
    by (simp add: acceptor_entry_def acceptor_ssl_def ssl_text_def processSSLSecret_def item_secret_def a)
  obtain e2 where 2: "acceptor_entry tls_env tls_cluster plain_acceptor st1 = (Inr e2, st1)"
    by (simp add: acceptor_entry_def acceptor_ssl_def)
  have "acceptor_entries tls_env tls_cluster 0 [tls_acceptor, plain_acceptor] st = (Inr (e @ e2), [?a, plain_acceptor], st1)"
    using 1 2 by (simp only: acceptor_entries.simps Let_def) simp
  then show ?thesis by (simp add: generateAcceptorsString_def filled_cluster_def)
qed

lemma missing_secret_definition:
  "secret_definition tls_env cr vs n = Ok (if length (public_values vs) > 0
     then Some (MakeSecret (bcNamespace cr) n (plain_values (public_values vs)) (cluster_labels cr)) else None)"
  by (simp add: secret_definition_def missing_object_def Let_def)

lemma tls_source: "\<exists>st'. sourceEnvVarFromSecret tls_env cr vs n st = Ok st'"
  by (simp add: sourceEnvVarFromSecret_def missing_secret_definition Let_def)

lemma tls_acceptors:
  "\<exists>st'. ProcessAcceptorsAndConnectors tls_env tls_cluster st = (Ok (None, st'), filled_cluster)"
proof -
  obtain tx spec L where a: "generateAcceptorsString tls_env tls_cluster st = (Inr tx, filled_cluster, spec, L)"
    using tls_acceptors_text [of st] by (metis prod.collapse)
  have c: "generateConnectorsString tls_env filled_cluster (spec, L) = (Inr '''', spec, L)"
    by (simp add: generateConnectorsString_def)
  obtain st' where "sourceEnvVarFromSecret tls_env filled_cluster (netty_values tx '''') (netty_name filled_cluster)
      (spec, configureConnectorsExposure tls_env filled_cluster (configureAcceptorsExposure tls_env filled_cluster L)) = Ok st'"
    using tls_source by blast
  with a c show ?thesis by (simp add: ProcessAcceptorsAndConnectors_def sourced_def)
qed

lemma plain_console:
  "\<not> csoleSSLEnabled (bcConsole cr) \<Longrightarrow> ProcessConsole E cr st = Ok (None, fst st, configureConsoleExposure E cr (snd st))"
  by (simp add: ProcessConsole_def Let_def)

lemma tls_variables: "\<exists>st'. process_variables tls_env tls_cluster st = (Ok (None, st'), filled_cluster)"
proof -
  obtain st1 where 1: "ProcessCredentials tls_env tls_cluster st = Ok st1"
    unfolding ProcessCredentials_def using tls_source by blast
  obtain st2 where 2: "ProcessAcceptorsAndConnectors tls_env tls_cluster st1 = (Ok (None, st2), filled_cluster)"
    using tls_acceptors by blast
  have "\<not> csoleSSLEnabled (bcConsole filled_cluster)" by (simp add: zero_console_def)
  with 1 2 show ?thesis by (simp add: process_variables_def plain_console)
qed

section \<open>The pod\<close>

lemma tls_template: 
  assumes "cloneOfDeployed L ConfigMapT (cluster_map_name tls_cluster) = None"
  shows "\<exists>t L'. cluster_PodTemplateSpecForCR tls_env tls_cluster current L = (Ok t, L')"
proof -
  obtain n d L1 where p: "cluster_addResourceForBrokerProperties meta_instance tls_cluster L = Ok (n, True, d, L1)"
    using assms
    by (auto simp: cluster_addResourceForBrokerProperties_def getPropertiesResourceNsName_def ProcessBrokerProperties_def
        Let_def split: go_result.splits)
  obtain ver where v: "ResolveBrokerVersionFromCR semver_instance (image_spec_of tls_cluster) = Inr ver"
    using latest_resolves by (fastforce simp: image_spec_of_def tls_cluster_def sample_broker_cluster_def)
  obtain vs where s: "\<And>ns p d ss. secret_volumes (ckGetSecret full_kube ns) p d ss = Inr (vs ns p d ss)"
    using full_kube_volumes by blast
  show ?thesis
    by (simp add: cluster_PodTemplateSpecForCR_def p cluster_template_from_def createExtraConfigmapsAndSecretsVolumeMounts_def
        s DetermineCompactVersionToUse_def v Let_def)
qed

lemma tls_set:
  assumes "cloneOfDeployed L ConfigMapT (cluster_map_name tls_cluster) = None"
  shows "\<exists>m spec L'. cluster_ProcessStatefulSet tls_env tls_cluster L = (Ok (m, spec), L')"
proof -
  obtain m0 s0 where m: "MakeStatefulSet (Option.bind (cloneOfDeployed L StatefulSetT (cluster_set_name tls_cluster)) sts_of)
      (cluster_set_name tls_cluster) (cluster_headless_name tls_cluster) (bcNamespace tls_cluster) [] (cluster_labels tls_cluster) =
      (m0, s0)" by fastforce
  obtain t L1 where p: "cluster_PodTemplateSpecForCR tls_env tls_cluster (soTemplate s0) L = (Ok t, L1)"
    using tls_template [OF assms] by blast
  have c: "cluster_claim_templates tls_cluster = []" "\<not> dpPersistenceEnabled (bcPlan tls_cluster)"
    by (simp_all add: cluster_claim_templates_def tls_plan_def zero_plan_def)
  show ?thesis
    using m p by (simp add: cluster_ProcessStatefulSet_def cluster_StatefulSetForCR_def
        cluster_PersistentVolumeClaimArrayForCR_def c)
qed

section \<open>The client\<close>

definition tls_client :: "object_store cluster_client" where
  "tls_client =
     \<lparr>ccObjects = sample_object_client sample_broker_cr (\<lambda>t. []), ccGetCluster = (\<lambda>s ns n. Inr tls_cluster),
      ccGetObject = (\<lambda>s. missing_object), ccListAll = (\<lambda>s ts c. Inr (\<lambda>t. [])), ccUpdateStatus = (\<lambda>s c. (None, s)),
      ccGetScaledown = (\<lambda>s ns n. Inl (NotFound ''not found'')), ccCreateScaledown = (\<lambda>s sd. (None, s)),
      ccDeleteScaledown = (\<lambda>s sd. (None, s))\<rparr>"

lemma tls_client_sel [simp]:
  "ccObjects tls_client = sample_object_client sample_broker_cr (\<lambda>t. [])" "ccGetObject tls_client s = missing_object"
  "ccListAll tls_client s ts c = Inr (\<lambda>t. [])" "oclReads (sample_object_client cr ls) s = full_kube"
  by (simp_all add: tls_client_def sample_object_client_def)

lemma tls_client_frame: "scaledown_frame (\<lambda>s. s) tls_client"
  by (simp add: scaledown_frame_def tls_client_def)

lemma at_tls_server [simp]: "at_server tls_client s tls_env = tls_env"
  by (simp add: at_server_def tls_env_def sample_broker_env_def sample_object_client_def tls_client_def)

definition empty_loop :: broker_loop where
  "empty_loop = NewBrokerReconcilerImpl\<lparr>blDeployed := (\<lambda>t. [])\<rparr>"

lemma empty_loop_sel [simp]:
  "cloneOfDeployed empty_loop t n = None" "well_listed empty_loop" "well_keyed empty_loop" "blDeployed empty_loop t = []"
  by (simp_all add: empty_loop_def cloneOfDeployed_def getFromDeployed_def well_listed_def well_keyed_def
      NewBrokerReconcilerImpl_def)

lemma tls_deployed:
  "cluster_CurrentDeployedResources tls_env tls_client tls_cluster NewBrokerReconcilerImpl s = (empty_loop, True, s)"
  by (simp add: cluster_CurrentDeployedResources_def cluster_GetDeployedResources_def Let_def empty_loop_def)

lemma tls_apply_plan:
  "apply_plan tls_env tls_client tls_cluster spec L S s = (tls_cluster, spec\<lparr>soReplicas := Some 2\<rparr>, L, S, s)"
proof -
  have cr: "tls_cluster\<lparr>bcPlan := (bcPlan tls_cluster)\<lparr>dpMessageMigration := Some True\<rparr>\<rparr> = tls_cluster"
    by (simp add: tls_cluster_def tls_plan_def)
  have "ProcessDeploymentPlan M K B tls_cluster n S = (tls_cluster, Some 2, [SyncMessageMigration], S)" for M K B n
    using cr by (simp add: ProcessDeploymentPlan_def Let_def)
  moreover have "syncMessageMigration tls_client os tls_cluster s = s" for os
    by (simp add: syncMessageMigration_def Let_def tls_client_def)
  ultimately show ?thesis by (simp add: apply_plan_def Let_def plan_step_def)
qed

lemma cluster_template_all_none:
  "bcTemplates cr = [] \<Longrightarrow>
     cluster_template_all E cr rs m = Ok (None, map (\<lambda>(k, obj). (k, in_namespace (bcNamespace cr) obj)) rs, m)"
proof (induction rs)
  case (Cons r rs)
  then show ?case by (cases r) (simp add: cluster_applyTemplates_def)
qed simp

lemma tls_resources:
  "\<exists>L' s'. cluster_ProcessResources tls_env (ccObjects tls_client) sample_object_compare filled_cluster L s =
     Ok (None, filled_cluster, L', s') \<and> blRequested L' = map (\<lambda>(k, obj). (k, in_namespace ''dev'' obj)) (blRequested L)"
proof -
  have r: "fst (cluster_sync_types (ccObjects tls_client) sample_object_compare filled_cluster L deltas ts ([], s)) = []" for L deltas ts
    by (subst cluster_sync.accepts) (simp_all add: sample_object_client_def)
  then show ?thesis
    by (simp add: cluster_ProcessResources_def cluster_template_all_none Let_def case_prod_beta composite_error_def
        cluster_report_unmatched_def cluster_unmatched_def)
qed

text \<open>A run with its parts.\<close>

lemma tls_run:
  obtains meta spec L1 st2 P where
    "cluster_ProcessStatefulSet tls_env tls_cluster empty_loop = (Ok (meta, spec), L1)"
    "process_variables tls_env tls_cluster (spec\<lparr>soReplicas := Some 2\<rparr>, L1) = (Ok (None, st2), filled_cluster)"
    "cluster_Process tls_env tls_client sample_object_compare tls_cluster S s = Ok P" "poError P = None"
    "blRequested (poLoop P) = map (\<lambda>(k, obj). (k, in_namespace ''dev'' obj))
       (blRequested (trackDesired (snd st2) (set_object meta (checksummed (map snd (blRequested (snd st2))) (fst st2)))))"
proof -
  obtain meta spec L1 where p: "cluster_ProcessStatefulSet tls_env tls_cluster empty_loop = (Ok (meta, spec), L1)"
    using tls_set [of empty_loop] by auto
  obtain spec2 L2 where v: "process_variables tls_env tls_cluster (spec\<lparr>soReplicas := Some 2\<rparr>, L1) =
      (Ok (None, spec2, L2), filled_cluster)"
    using tls_variables by (metis prod.collapse)
  let ?L = "trackDesired L2 (set_object meta (checksummed (map snd (blRequested L2)) spec2))"
  obtain L' s' where r: "cluster_ProcessResources tls_env (ccObjects tls_client) sample_object_compare filled_cluster ?L s =
      Ok (None, filled_cluster, L', s')" "blRequested L' = map (\<lambda>(k, obj). (k, in_namespace ''dev'' obj)) (blRequested ?L)"
    using tls_resources by blast
  have "cluster_Process tls_env tls_client sample_object_compare tls_cluster S s = Ok \<lparr>poError = None, poCluster = filled_cluster,
      poLoop = L', poSession = S, poServer = s'\<rparr>"
    using p v r by (simp add: cluster_Process_def tls_deployed process_requested_def tls_apply_plan nil_map_written_def
        process_writes_def Let_def)
  with p v r show thesis by (intro that) auto
qed

lemma tls_container:
  assumes "cluster_ProcessStatefulSet tls_env tls_cluster empty_loop = (Ok (m, spec), L1)"
    and "process_variables tls_env tls_cluster (spec\<lparr>soReplicas := Some 2\<rparr>, L1) = (Ok (None, spec2, L3), filled_cluster)"
  shows "\<exists>ct. ct \<in> set (spContainers (ptSpec (soTemplate (checksummed [] spec2))))"
proof -
  obtain ms where "broker_mounts (spec\<lparr>soReplicas := Some 2\<rparr>) = [ms]"
    using set_ok_cluster [OF assms(1)] by (auto simp: broker_mounts_def pod_of_def)
  from variable_steps_mounts [OF variables_steps [OF assms(2), unfolded fst_conv] this]
  obtain ct where "spContainers (pod_of spec2) = [ct]" by (auto simp: broker_mounts_def)
  then show ?thesis
    by (simp add: checksummed_def update_pod_spec_def trackSecretCheckSumInEnvVar_def TrackSecretCheckSumInRollCount_def
        Update_env_def pod_of_def)
qed

section \<open>A secret that is there\<close>

lemma pemcfg_name: "CfgToSecretName ''amqps-ptls.pemcfg'' = ''amqps-ptls-pemcfg''"
  by (simp add: CfgToSecretName_def replace_all_char)

text \<open>The secret of an earlier run, with a user and an empty password.\<close>

definition kept_secret :: k8s_object where
  "kept_secret =
     (MakeSecret ''dev'' ''amq-credentials-secret'' [(''AMQ_USER'', ''admin''), (''AMQ_PASSWORD'', '''')] [])
       \<lparr>obMeta := (named_meta '''' ''v1'' ''Secret'' ''amq-credentials-secret'' ''dev'')\<lparr>omOwners := [cluster_owner tls_cluster]\<rparr>\<rparr>"

definition kept_env :: "unit cluster_env" where
  "kept_env = tls_env\<lparr>ceGetObject := (\<lambda>t ns n. if t = SecretT \<and> n = ''amq-credentials-secret'' then Inr kept_secret
     else missing_object t ns n)\<rparr>"

definition plain_state :: "sts_spec \<times> broker_loop" where
  "plain_state = (snd (new_stateful_set ''amq-ss'' ''amq-hdls-svc'' ''dev'' []), empty_loop)"

lemma kept_reads [simp]: "reads_named (ceGetObject kept_env)"
  "ceGetObject kept_env SecretT ns ''amq-credentials-secret'' = Inr kept_secret"
  by (auto simp: kept_env_def reads_named_def missing_object_def kept_secret_def okey_def rtype_of_def object_name_def
      MakeSecret_def named_meta_def)

lemma kept_owned: "list_ex (cluster_owns tls_cluster) (omOwners (obMeta kept_secret))"
  by (simp add: kept_secret_def cluster_owns_def cluster_owner_def) (simp add: tls_cluster_def sample_broker_cluster_def)

lemma kept_data: "data_of kept_secret = Some [(''AMQ_USER'', ''admin''), (''AMQ_PASSWORD'', '''')]"
  by (simp add: kept_secret_def data_of_def MakeSecret_def)

lemma kept_values:
  "credential_values (ceRandom kept_env) tls_cluster (spContainers (ptSpec (soTemplate (fst plain_state)))) =
     [(''AMQ_USER'', generated_value ''random''), (''AMQ_PASSWORD'', generated_value ''random''),
      (''AMQ_CLUSTER_USER'', generated_value ''random''), (''AMQ_CLUSTER_PASSWORD'', generated_value ''random'')]"
  by (simp add: credential_values_def credential_def plain_state_def new_stateful_set_def empty_pod_spec_def kept_env_def
      Retrieve_def Let_def)

lemma kept_source: "\<exists>st'. ProcessCredentials kept_env tls_cluster plain_state = Ok st'"
proof -
  have n: "credentials_name tls_cluster = ''amq-credentials-secret''" by (simp add: credentials_name_def Generate_def)
  obtain b where "obBody kept_secret = SecretBody b" "sbData b \<noteq> []" by (simp add: kept_secret_def MakeSecret_def)
  then show ?thesis
    by (simp add: ProcessCredentials_def sourceEnvVarFromSecret_def secret_definition_def n merge_values_def Let_def)
qed

section \<open>A listing that fails\<close>

definition orphan_object :: "rtype \<Rightarrow> string \<Rightarrow> string \<Rightarrow> api_error + k8s_object" where
  "orphan_object t ns n =
     (if t = ServiceT then Inr (service_object (named_meta '''' ''v1'' ''Service'' n ns, snd new_service))
      else missing_object t ns n)"

definition unlisted_client :: "object_store cluster_client" where
  "unlisted_client = tls_client\<lparr>ccListAll := (\<lambda>s ts c. Inl ''timeout''), ccGetObject := (\<lambda>s. orphan_object)\<rparr>"

lemma unlisted_deployed:
  "cluster_CurrentDeployedResources tls_env unlisted_client tls_cluster NewBrokerReconcilerImpl s = (empty_loop, False, s)"
  by (simp add: cluster_CurrentDeployedResources_def cluster_GetDeployedResources_def Let_def empty_loop_def unlisted_client_def)

lemma unlisted_orphans: "orphan_service (ccGetObject unlisted_client s) ns n"
  by (simp add: orphan_service_def unlisted_client_def orphan_object_def service_object_def named_meta_def)

end
