(* ===== verification/Resource_Properties.thy ===== *)
theory Resource_Properties
  imports Sample_Resources
begin

text \<open>
  The properties of the resources of a \<open>BrokerCluster\<close>: where the writes of a reconcile lead, what the pod
  mounts, which secrets, services and acceptors are requested, and when nothing is written.
\<close>

section \<open>Writes\<close>



section \<open>The pod\<close>

text \<open>
  C24: from the template to the requested stateful set, every mount of every container and init container names a
  volume of the pod, whatever volumes, claims, secrets, certificates and security handlers there are.
\<close>

theorem cluster_mounts_declared:
  assumes "cluster_ProcessStatefulSet (at_server CL s0 E) cr L0 = (Ok (meta, spec), L1)"
    and "apply_plan E CL cr spec L1 S s0 = (cr1, spec1, L2, S1, s1)"
    and "process_variables (at_server CL s1 E) cr1 (spec1, L2) = (Ok (None, spec2, L3), cr2)"
    and "ct \<in> set (spContainers sp @ spInitContainers sp)" "sp = ptSpec (soTemplate (checksummed rs spec2))"
  shows "vmName ` set (ctVolumeMounts ct) \<subseteq> vlName ` set (spVolumes sp)"
proof -
  have "pod_mounts_ok (pod_of spec1)"
    using set_ok_cluster [OF assms(1)] plan_template [OF assms(2)] unfolding pod_of_def by metis
  then have "pod_mounts_ok (pod_of spec2)"
    by (rule variable_steps_ok [OF variables_steps [OF assms(3), unfolded fst_conv]])
  then have ok: "pod_mounts_ok (pod_of (checksummed rs spec2))" by (simp only: checksummed_ok)
  have sp: "pod_of (checksummed rs spec2) = sp" by (simp only: assms(5) pod_of_def)
  have "ctVolumeMounts ct \<in> set (map ctVolumeMounts (spContainers sp @ spInitContainers sp))"
    using assms(4) unfolding set_map by (rule imageI)
  with ok [unfolded sp pod_mounts_ok_def] show ?thesis by blast
qed

theorem cluster_mounts_declared_witness:
  "\<exists>m spec L1 spec2 L3 ct sp. cluster_ProcessStatefulSet tls_env tls_cluster empty_loop = (Ok (m, spec), L1) \<and>
     process_variables tls_env tls_cluster (spec\<lparr>soReplicas := Some 2\<rparr>, L1) = (Ok (None, spec2, L3), filled_cluster) \<and>
     sp = ptSpec (soTemplate (checksummed [] spec2)) \<and> ct \<in> set (spContainers sp) \<and>
     vmName ` set (ctVolumeMounts ct) \<subseteq> vlName ` set (spVolumes sp)"
proof -
  obtain m spec L1 st2 P where
    s: "cluster_ProcessStatefulSet tls_env tls_cluster empty_loop = (Ok (m, spec), L1)" and
    v: "process_variables tls_env tls_cluster (spec\<lparr>soReplicas := Some 2\<rparr>, L1) = (Ok (None, fst st2, snd st2), filled_cluster)"
    by (rule tls_run [of "new_session ()" "\<lambda>k. None"]) simp
  let ?sp = "ptSpec (soTemplate (checksummed [] (fst st2)))"
  obtain ct where ct: "ct \<in> set (spContainers ?sp)" using tls_container [OF s v] by blast
  from cluster_mounts_declared [of tls_client "\<lambda>k. None" tls_env, unfolded at_tls_server, OF s tls_apply_plan v, of ct ?sp "[]"] ct
  have "vmName ` set (ctVolumeMounts ct) \<subseteq> vlName ` set (spVolumes ?sp)" by simp
  with s v ct show ?thesis by blast
qed



section \<open>Secrets\<close>

text \<open>
  C15: the credentials.  An existing secret of the cluster is requested with what it holds, except that a given
  value replaces it and a generated one fills what is empty; a secret of someone else is left alone; and when the
  read fails, for whatever reason, the secret is requested with new values.
\<close>

theorem credentials_secret_content:
  assumes "ProcessCredentials E cr st = Ok st'" "reads_named (ceGetObject E)"
  defines "vs \<equiv> credential_values (ceRandom E) cr (spContainers (ptSpec (soTemplate (fst st))))"
    and "found \<equiv> getFromDesired (snd st') SecretT (credentials_name cr)"
  shows "case ceGetObject E SecretT (bcNamespace cr) (credentials_name cr) of
      Inl err \<Rightarrow> found = Some (MakeSecret (bcNamespace cr) (credentials_name cr) (plain_values vs) (cluster_labels cr))
    | Inr obj \<Rightarrow>
        if list_ex (cluster_owns cr) (omOwners (obMeta obj))
        then (\<exists>old d. data_of obj = Some old \<and> found = Some (set_data d obj) \<and>
          map_of d = (\<lambda>k. case map_of vs k of Some v \<Rightarrow> Some (settled_value (value_of old k) v) | None \<Rightarrow> map_of old k))
        else found = getFromDesired (snd st) SecretT (credentials_name cr)"
proof -
  let ?n = "credentials_name cr"
  obtain tr where tr: "secret_definition E cr vs ?n = Ok tr"
    "snd st' = (case tr of Some obj \<Rightarrow> trackDesired (snd st) obj | None \<Rightarrow> snd st)"
    using source_effect [OF assms(1) [unfolded ProcessCredentials_def] no_internal(2)] unfolding vs_def by metis
  have pub: "public_values vs = vs" "distinct (map fst vs)" "vs \<noteq> []"
    by (simp_all add: vs_def credentials_public credentials_distinct) (simp add: credential_values_def)
  show ?thesis
  proof (cases "ceGetObject E SecretT (bcNamespace cr) ?n")
    case (Inl err)
    with tr(1) pub have "tr = Some (MakeSecret (bcNamespace cr) ?n (plain_values vs) (cluster_labels cr))"
      by (auto simp: secret_definition_def Let_def)
    then show ?thesis using Inl by (simp add: found_def tr(2) tracked.lookup_track)
  next
    case (Inr obj)
    with assms(2) have "okey obj = (SecretT, ?n)" by (simp add: reads_named_def)
    then obtain b where b: "obBody obj = SecretBody b" and key: "rtype_of obj = SecretT" "object_name obj = ?n"
      by (auto simp: okey_def secret_typed)
    obtain d where d: "merge_values (sbData b) vs = Ok d"
      using tr(1) Inr b pub by (auto simp: secret_definition_def Let_def split: go_result.splits)
    show ?thesis
    proof (cases "list_ex (cluster_owns cr) (omOwners (obMeta obj))")
      case True
      with tr(1) Inr b d pub have "tr = Some (set_data d obj)" by (simp add: secret_definition_def Let_def)
      then have "found = Some (set_data d obj)" by (simp add: found_def tr(2) tracked.lookup_track key)
      moreover have "map_of d = (\<lambda>k. case map_of vs k of Some v \<Rightarrow> Some (settled_value (value_of (sbData b) k) v)
          | None \<Rightarrow> map_of (sbData b) k)"
        using merge_values_lookup [OF pub(2) d] by (simp add: fun_eq_iff)
      moreover have "data_of obj = Some (sbData b)" by (simp add: data_of_def b)
      ultimately have "\<exists>old d. data_of obj = Some old \<and> found = Some (set_data d obj) \<and>
          map_of d = (\<lambda>k. case map_of vs k of Some v \<Rightarrow> Some (settled_value (value_of old k) v) | None \<Rightarrow> map_of old k)"
        by (intro exI conjI)
      then show ?thesis by (simp only: Inr True sum.case if_True)
    next
      case False
      with tr(1) Inr b d pub have "tr = None" by (simp add: secret_definition_def Let_def)
      with Inr False show ?thesis by (simp add: found_def tr(2))
    qed
  qed
qed

theorem credentials_secret_content_witness:
  "\<exists>st' d. ProcessCredentials kept_env tls_cluster plain_state = Ok st' \<and>
     getFromDesired (snd st') SecretT ''amq-credentials-secret'' = Some (set_data d kept_secret) \<and>
     map_of d ''AMQ_USER'' = Some ''admin'' \<and> map_of d ''AMQ_PASSWORD'' = Some ''random''"
proof -
  obtain st' where p: "ProcessCredentials kept_env tls_cluster plain_state = Ok st'" using kept_source by blast
  have n: "credentials_name tls_cluster = ''amq-credentials-secret''" by (simp add: credentials_name_def Generate_def)
  from credentials_secret_content [OF p kept_reads(1)] obtain d where
    f: "getFromDesired (snd st') SecretT ''amq-credentials-secret'' = Some (set_data d kept_secret)" and
    d: "map_of d = (\<lambda>k. case map_of (credential_values (ceRandom kept_env) tls_cluster
          (spContainers (ptSpec (soTemplate (fst plain_state))))) k of
        Some v \<Rightarrow> Some (settled_value (value_of [(''AMQ_USER'', ''admin''), (''AMQ_PASSWORD'', [])] k) v)
      | None \<Rightarrow> map_of [(''AMQ_USER'', ''admin''), (''AMQ_PASSWORD'', [])] k)"
    by (auto simp: n kept_reads kept_owned kept_data)
  have "map_of d ''AMQ_USER'' = Some ''admin''" "map_of d ''AMQ_PASSWORD'' = Some ''random''"
    by (simp_all add: d kept_values settled_value_def generated_value_def value_of_def)
  with p f show ?thesis by (intro exI conjI)
qed

section \<open>Acceptors and services\<close>

text \<open>
  C25: the text of the acceptors always holds one on port 61616 that serves CORE, the protocol the brokers of a
  cluster and its clients of management speak: the user's own, or the one that is added.
\<close>

theorem core_acceptor_present:
  assumes "generateAcceptorsString E cr st = (Inr tx, cr', st')"
  shows "\<exists>before name host protocols rest. tx = before @ xml_open ''acceptor'' name @ escaped_scheme ''tcp'' @ host @
    '':61616?protocols='' @ protocols @ '';'' @ rest \<and> str_contains protocols ''CORE''"
proof -
  obtain entries as where e: "acceptor_entries E cr 0 (bcAcceptors cr) st = (Inr entries, as, st')"
    and tx: "tx = entries @ (if \<not> list_ex (\<lambda>a. accPort a = 61616) as then scale_down_acceptor else '''')"
    using assms by (auto simp: generateAcceptorsString_def split: prod.splits sum.splits)
  show ?thesis
  proof (cases "list_ex (\<lambda>a. accPort a = 61616) as")
    case True
    then obtain a where a: "a \<in> set as" "accPort a = 61616" by (auto simp: list_ex_iff)
    obtain before rest where b: "entries = before @ acceptor_head a @ '';'' @ rest"
      using acceptor_entries_text [OF e a(1)] by blast
    obtain host protocols where h: "acceptor_head a = xml_open ''acceptor'' (accName a) @ escaped_scheme ''tcp'' @ host @
        '':61616?protocols='' @ protocols" and c: "str_contains protocols ''CORE''"
      using core_head [OF a(2)] by blast
    have "tx = before @ xml_open ''acceptor'' (accName a) @ escaped_scheme ''tcp'' @ host @
        '':61616?protocols='' @ protocols @ '';'' @ rest"
      using True by (simp add: tx b h)
    with c show ?thesis by (intro exI conjI)
  next
    case False
    obtain rest where r: "scale_down_acceptor = xml_open ''acceptor'' ''scaleDown'' @ escaped_scheme ''tcp'' @
        ''ACCEPTOR_IP'' @ '':61616?protocols='' @ ''CORE'' @ '';'' @ rest"
      using scale_down_core by blast
    have "tx = entries @ xml_open ''acceptor'' ''scaleDown'' @ escaped_scheme ''tcp'' @ ''ACCEPTOR_IP'' @
        '':61616?protocols='' @ ''CORE'' @ '';'' @ rest"
      using False by (simp only: tx r) simp
    moreover have "str_contains ''CORE'' ''CORE''" using str_contains_self_end [of "[]" "''CORE''"] by simp
    ultimately show ?thesis by (intro exI conjI)
  qed
qed

theorem core_acceptor_present_witness:
  "\<exists>tx st' before name host protocols rest. generateAcceptorsString tls_env tls_cluster plain_state = (Inr tx, filled_cluster, st') \<and>
     tx = before @ xml_open ''acceptor'' name @ escaped_scheme ''tcp'' @ host @ '':61616?protocols='' @ protocols @ '';'' @ rest \<and>
     str_contains protocols ''CORE''"
proof -
  obtain tx st' where t: "generateAcceptorsString tls_env tls_cluster plain_state = (Inr tx, filled_cluster, st')"
    using tls_acceptors_text by blast
  from core_acceptor_present [OF t] obtain before name host protocols rest where
    "tx = before @ xml_open ''acceptor'' name @ escaped_scheme ''tcp'' @ host @ '':61616?protocols='' @ protocols @ '';'' @ rest"
    "str_contains protocols ''CORE''"
    by (elim exE conjE) rule
  with t show ?thesis by (intro exI conjI)
qed

text \<open>
  Every acceptor and connector has, for every pod, a service of its own with its port and that pod alone behind
  it.  Where two of them have one name, they share the service, and it is that of the last in the order of the
  specification, acceptors before connectors.
\<close>

theorem endpoint_services:
  assumes "ProcessAcceptorsAndConnectors E cr st = (Ok (None, st'), cr')" "reads_named (ceGetObject E)"
    and "last_named (cluster_endpoints cr') n = Some e" "i < nat (sint (GetDeploymentSize cr'))"
  shows "\<exists>obj spec. getFromDesired (snd st') ServiceT (service_name cr' n i) = Some obj \<and> obBody obj = ServiceBody spec \<and>
    sePorts spec = [tcp_port (n @ ''-'' @ itoa (int i)) (epPort e) None] \<and>
    map_of (seSelector spec) PodNameLabelKey = Some (cluster_set_name cr' @ ''-'' @ itoa (int i)) \<and>
    seType spec = ''ClusterIP''"
proof -
  obtain obj where o: "getFromDesired (snd st') ServiceT (service_name cr' n i) = Some obj" "serves cr' i e obj"
    using acceptors_services [OF assms] by blast
  then obtain spec where "obBody obj = ServiceBody spec" by (auto simp: serves_def split: body.splits)
  with o last_named_name [OF assms(3)] show ?thesis by (auto simp: serves_def)
qed

theorem endpoint_services_witness:
  "\<exists>st' obj spec. ProcessAcceptorsAndConnectors tls_env tls_cluster plain_state = (Ok (None, st'), filled_cluster) \<and>
     getFromDesired (snd st') ServiceT (service_name filled_cluster ''amqps'' 1) = Some obj \<and> obBody obj = ServiceBody spec \<and>
     sePorts spec = [tcp_port ''amqps-1'' 61626 None] \<and> map_of (seSelector spec) PodNameLabelKey = Some ''amq-ss-1''"
proof -
  obtain st' where t: "ProcessAcceptorsAndConnectors tls_env tls_cluster plain_state = (Ok (None, st'), filled_cluster)"
    using tls_acceptors by blast
  have one: "itoa 1 = ''1''" by (simp add: itoa_def nat_to_string.simps digit_chars)
  have set: "cluster_set_name filled_cluster = ''amq-ss''" by (simp add: cluster_set_name_def Generate_def)
  obtain e where e: "last_named (cluster_endpoints filled_cluster) ''amqps'' = Some e" "epPort e = 61626"
    by (simp add: cluster_endpoints_def last_named_def acceptor_endpoint_def)
  have "1 < nat (sint (GetDeploymentSize filled_cluster))" by simp
  from endpoint_services [OF t _ e(1) this] obtain obj spec where
    "getFromDesired (snd st') ServiceT (service_name filled_cluster ''amqps'' 1) = Some obj" "obBody obj = ServiceBody spec"
    "sePorts spec = [tcp_port ''amqps-1'' 61626 None]" "map_of (seSelector spec) PodNameLabelKey = Some ''amq-ss-1''"
    by (auto simp: e(2) one set)
  with t show ?thesis by (intro exI conjI)
qed

section \<open>Errors\<close>

text \<open>
  C31: when the deployed resources cannot be listed and a service of an endpoint is there without an owner, no run
  succeeds: adopting the service writes to the map of deployed resources, which the failed listing has left
  unmade.
\<close>

theorem unlisted_orphan_never_succeeds:
  assumes "cluster_CurrentDeployedResources E CL cr NewBrokerReconcilerImpl s = (L0, False, s0)"
    and "n \<in> epName ` set (cluster_endpoints cr)" "i < nat (sint (GetDeploymentSize cr))"
    and "\<forall>s. orphan_service (ccGetObject CL s) (bcNamespace cr) (service_name cr n i)"
  shows "\<nexists>P. cluster_Process E CL CMP cr S s = Ok P \<and> poError P = None"
  using unlisted_adoption [OF assms(1-3)] assms(4) by blast

theorem unlisted_orphan_never_succeeds_witness:
  "\<nexists>P. cluster_Process tls_env unlisted_client sample_object_compare tls_cluster (new_session ()) (\<lambda>k. None) = Ok P \<and>
     poError P = None"
  using unlisted_orphan_never_succeeds [of tls_env unlisted_client tls_cluster "\<lambda>k. None" empty_loop "\<lambda>k. None" "''amqps''" 0]
  by (simp add: unlisted_deployed unlisted_orphans cluster_endpoints_def acceptor_endpoint_def)

end
