(* ===== verification/Drain_Controller.thy ===== *)
theory Drain_Controller
  imports Cluster_Reconcile
begin

text \<open>
  The drain controller (\<open>pkg/draincontroller/controller.go\<close>) and the controller of scale downs that runs it
  (\<open>activemqartemisscaledown_controller.go\<close>).  When a stateful set has been scaled down, the claims of the pods that
  are gone are drained by a pod of the same name; when that pod has succeeded, its claims and the pod are deleted.
  Reads go to the caches of informers, which stand still during the processing of one set; writes go to the server.
  Logging and events are left out.
\<close>

section \<open>What is read\<close>

text \<open>Of a claim the name and whether it is being deleted; of a pod its annotations, phase and conditions.\<close>

record listed_claim =
  lcName :: string
  lcDeleting :: bool

record listed_pod =
  lpAnnotations :: data_map
  lpPod :: pod

record drain_set =
  dsMeta :: object_meta
  dsPodManagementPolicy :: string
  dsSpec :: sts_spec

record drain_cache =
  dcGetSet :: "string \<Rightarrow> string \<Rightarrow> api_error + drain_set"
  dcListClaims :: "string \<Rightarrow> string + listed_claim list"
  dcGetPod :: "string \<Rightarrow> string \<Rightarrow> api_error + listed_pod"

definition drain_name :: "drain_set \<Rightarrow> string" where
  "drain_name sts = omName (dsMeta sts)"

definition drain_namespace :: "drain_set \<Rightarrow> string" where
  "drain_namespace sts = omNamespace (dsMeta sts)"

definition template_names :: "drain_set \<Rightarrow> string list" where
  "template_names sts = map (\<lambda>t. omName (clMeta t)) (soClaims (dsSpec sts))"

section \<open>What is written\<close>

datatype rbac_kind = ServiceAccountKind | RoleKind | RoleBindingKind

record policy_rule =
  plAPIGroups :: "string list"
  plResources :: "string list"
  plVerbs :: "string list"

text \<open>A role with its rules; a binding with the account and the role it binds.\<close>

datatype rbac_object =
    ServiceAccountObject string
  | RoleObject string "policy_rule list"
  | RoleBindingObject string string string

text \<open>A pod to create; its one owner is also its controller.\<close>

record drain_pod =
  npMeta :: object_meta
  npSpec :: pod_spec
  npRestartPolicy :: string

record 's drain_client =
  drGetRbac :: "'s \<Rightarrow> rbac_kind \<Rightarrow> string \<Rightarrow> string \<Rightarrow> api_error option"
  drCreateRbac :: "'s \<Rightarrow> string \<Rightarrow> rbac_object \<Rightarrow> string option \<times> 's"
  drDeleteRbac :: "'s \<Rightarrow> rbac_kind \<Rightarrow> string \<Rightarrow> string \<Rightarrow> string option \<times> 's"
  drCreatePod :: "'s \<Rightarrow> string \<Rightarrow> drain_pod \<Rightarrow> string option \<times> 's"
  drDeletePod :: "'s \<Rightarrow> string \<Rightarrow> string \<Rightarrow> string option \<times> 's"
  drDeleteClaim :: "'s \<Rightarrow> string \<Rightarrow> string \<Rightarrow> string option \<times> 's"

section \<open>Accounts and roles\<close>

text \<open>
  \<open>pkg/rbac/util.go\<close>: an object that is there is kept; an error of the read other than that there is none does not
  stop the creation, or the deletion.  A deletion returns the error of the read, never its own.
\<close>

definition create_rbac ::
  "'s drain_client \<Rightarrow> rbac_kind \<Rightarrow> string \<Rightarrow> string \<Rightarrow> rbac_object \<Rightarrow> 's \<Rightarrow> string option \<times> 's" where
  "create_rbac CL k namespace name obj s =
     (case drGetRbac CL s k namespace name of
        None \<Rightarrow> (None, s)
      | Some err \<Rightarrow> drCreateRbac CL s namespace obj)"

definition delete_rbac ::
  "'s drain_client \<Rightarrow> rbac_kind \<Rightarrow> string \<Rightarrow> string \<Rightarrow> 's \<Rightarrow> string option \<times> 's" where
  "delete_rbac CL k namespace name s =
     (case drGetRbac CL s k namespace name of
        Some (NotFound err) \<Rightarrow> (None, s)
      | r \<Rightarrow> (map_option api_error_text r, snd (drDeleteRbac CL s k namespace name)))"

definition CreateServiceAccount ::
  "'s drain_client \<Rightarrow> string \<Rightarrow> string \<Rightarrow> 's \<Rightarrow> string option \<times> 's" where
  "CreateServiceAccount CL name namespace s =
     create_rbac CL ServiceAccountKind namespace name (ServiceAccountObject name) s"

definition CreateRole ::
  "'s drain_client \<Rightarrow> string \<Rightarrow> string \<Rightarrow> policy_rule list \<Rightarrow> 's \<Rightarrow> string option \<times> 's" where
  "CreateRole CL name namespace rules s = create_rbac CL RoleKind namespace name (RoleObject name rules) s"

definition CreateServiceAccountRoleBinding ::
  "'s drain_client \<Rightarrow> string \<Rightarrow> string \<Rightarrow> string \<Rightarrow> string \<Rightarrow> 's \<Rightarrow> string option \<times> 's" where
  "CreateServiceAccountRoleBinding CL serviceAccountName roleName name namespace s =
     create_rbac CL RoleBindingKind namespace name (RoleBindingObject name serviceAccountName roleName) s"

definition DeleteServiceAccount :: "'s drain_client \<Rightarrow> string \<Rightarrow> string \<Rightarrow> 's \<Rightarrow> string option \<times> 's" where
  "DeleteServiceAccount CL name namespace s = delete_rbac CL ServiceAccountKind namespace name s"

definition DeleteRole :: "'s drain_client \<Rightarrow> string \<Rightarrow> string \<Rightarrow> 's \<Rightarrow> string option \<times> 's" where
  "DeleteRole CL name namespace s = delete_rbac CL RoleKind namespace name s"

definition DeleteRoleBinding :: "'s drain_client \<Rightarrow> string \<Rightarrow> string \<Rightarrow> 's \<Rightarrow> string option \<times> 's" where
  "DeleteRoleBinding CL name namespace s = delete_rbac CL RoleBindingKind namespace name s"

abbreviation "DrainServiceAccountName \<equiv> ''drain-pod-service-account''"
abbreviation "DrainRoleName \<equiv> ''drain-pod-role''"
abbreviation "LabelDrainPod \<equiv> ''drain-pod''"
abbreviation "AnnotationStatefulSet \<equiv> ''statefulsets.kubernetes.io/drainer-pod-owner''"

definition drain_rules :: "policy_rule list" where
  "drain_rules =
     [\<lparr>plAPIGroups = [''''], plResources = [''pods''], plVerbs = [''list'']\<rparr>,
      \<lparr>plAPIGroups = [''''], plResources = [''namespaces''], plVerbs = [''get'']\<rparr>,
      \<lparr>plAPIGroups = [''''], plResources = [''endpoints''], plVerbs = [''get'']\<rparr>]"

definition createDrainRBACResources :: "'s drain_client \<Rightarrow> string \<Rightarrow> 's \<Rightarrow> 's" where
  "createDrainRBACResources CL namespace s =
     snd (CreateServiceAccountRoleBinding CL DrainServiceAccountName DrainRoleName (namespace @ ''-drain-rb'') namespace
       (snd (CreateRole CL DrainRoleName namespace drain_rules
         (snd (CreateServiceAccount CL DrainServiceAccountName namespace s)))))"

definition cleanupDrainRBACResources :: "'s drain_client \<Rightarrow> bool \<Rightarrow> string \<Rightarrow> 's \<Rightarrow> 's" where
  "cleanupDrainRBACResources CL localOnly namespace s =
     (if localOnly then s
      else snd (DeleteServiceAccount CL DrainServiceAccountName namespace
        (snd (DeleteRole CL DrainRoleName namespace
          (snd (DeleteRoleBinding CL (namespace @ ''-drain-rb'') namespace s))))))"

section \<open>The controller\<close>

text \<open>A resource \<open>ActiveMQArtemisScaledown\<close>.\<close>

record drain_instance =
  diMeta :: object_meta
  diLocalOnly :: bool
  diResources :: string

record drain_controller =
  dnName :: string
  dnLocalOnly :: bool
  dnResources :: string
  dnSsNames :: "string \<times> string \<Rightarrow> data_map option"
  dnSsToCr :: "string \<times> string \<Rightarrow> drain_instance option"
  dnSsLabels :: labels

definition NewController :: "string \<Rightarrow> drain_instance \<Rightarrow> drain_controller" where
  "NewController controllerName inst =
     \<lparr>dnName = controllerName, dnLocalOnly = diLocalOnly inst, dnResources = diResources inst,
      dnSsNames = (\<lambda>k. None), dnSsToCr = (\<lambda>k. None), dnSsLabels = omLabels (diMeta inst)\<rparr>"

definition AddInstance :: "drain_instance \<Rightarrow> drain_controller \<Rightarrow> drain_controller" where
  "AddInstance inst c =
     (let annotations = omAnnotations (diMeta inst);
          key = (value_of annotations ''CRNAMESPACE'', CrToSS (value_of annotations ''CRNAME''))
      in c\<lparr>dnSsNames := (dnSsNames c)(key \<mapsto> annotations), dnSsToCr := (dnSsToCr c)(key \<mapsto> inst)\<rparr>)"

section \<open>Names\<close>

definition getPodName :: "drain_set \<Rightarrow> int \<Rightarrow> string" where
  "getPodName sts n = drain_name sts @ ''-'' @ itoa n"

definition getPVCName :: "drain_set \<Rightarrow> string \<Rightarrow> int32 \<Rightarrow> string" where
  "getPVCName sts volumeClaimName n = volumeClaimName @ ''-'' @ drain_name sts @ ''-'' @ itoa (sint n)"

text \<open>The text before the last dash, and the number behind it.\<close>

definition extractNameAndOrdinal :: "string \<Rightarrow> string + string \<times> int" where
  "extractNameAndOrdinal pvcName =
     (let last = rev (takeWhile (\<lambda>c. c \<noteq> CHR ''-'') (rev pvcName))
      in if length last = length pvcName then Inl ''PVC not created by a StatefulSet''
         else (case atoi last of
                 None \<Rightarrow> Inl ''PVC not created by a StatefulSet''
               | Some n \<Rightarrow> Inr (take (length pvcName - length last - 1) pvcName, n)))"

section \<open>Claims\<close>

text \<open>A map from ordinals to claims; the claim is added once for every template of that name.\<close>

definition add_claim :: "int \<Rightarrow> listed_claim \<Rightarrow> (int \<times> listed_claim list) list \<Rightarrow> (int \<times> listed_claim list) list" where
  "add_claim n pvc m = AList.update n ((case map_of m n of Some cs \<Rightarrow> cs | None \<Rightarrow> []) @ [pvc]) m"

definition group_claim ::
  "drain_set \<Rightarrow> (int \<times> listed_claim list) list \<Rightarrow> listed_claim \<Rightarrow> (int \<times> listed_claim list) list" where
  "group_claim sts m pvc =
     (if lcDeleting pvc then m
      else (case extractNameAndOrdinal (lcName pvc) of
              Inl err \<Rightarrow> m
            | Inr (name, n) \<Rightarrow>
                foldl (\<lambda>m t. if name = t @ ''-'' @ drain_name sts then add_claim n pvc m else m) m (template_names sts)))"

definition getClaims :: "drain_cache \<Rightarrow> drain_set \<Rightarrow> string + (int \<times> listed_claim list) list" where
  "getClaims C sts =
     (case dcListClaims C (drain_namespace sts) of
        Inl err \<Rightarrow> Inl err
      | Inr allClaims \<Rightarrow> Inr (foldl (group_claim sts) [] allClaims))"

section \<open>The drain pod\<close>

definition globalPodTemplateJson :: string where
  "globalPodTemplateJson =
     join [newline]
     [''{'',
      '' \"metadata\": {'',
      ''    \"labels\": {'',
      ''      \"app\": \"CRNAME-amq-drainer\"'',
      ''    }'',
      ''  },'',
      ''  \"spec\": {'',
      '' \"serviceAccount\": \"SERVICE_ACCOUNT\",'',
      '' \"serviceAccountName\": \"SERVICE_ACCOUNT_NAME\",'',
      '' \"terminationGracePeriodSeconds\": 5,'',
      ''    \"containers\": ['',
      '' {'',
      ''        \"env\": ['',
      ''          {'',
      ''            \"name\": \"AMQ_EXTRA_ARGS\",'',
      ''            \"value\": \"--no-autotune\"'',
      '' },'',
      ''          {'',
      ''            \"name\": \"HEADLESS_SVC_NAME\",'',
      ''            \"value\": \"HEADLESSSVCNAMEVALUE\"'',
      '' },'',
      ''          {'',
      ''            \"name\": \"PING_SVC_NAME\",'',
      ''            \"value\": \"PINGSVCNAMEVALUE\"'',
      '' },'',
      ''          {'',
      ''            \"name\": \"AMQ_USER\",'',
      '' \"value\": \"admin\"'',
      ''          },'',
      ''          {'',
      ''            \"name\": \"AMQ_PASSWORD\",'',
      ''            \"value\": \"admin\"'',
      '' },'',
      ''          {'',
      ''            \"name\": \"AMQ_ROLE\",'',
      '' \"value\": \"admin\"'',
      ''          },'',
      ''          {'',
      ''            \"name\": \"AMQ_NAME\",'',
      ''            \"value\": \"amq-broker\"'',
      '' },'',
      ''          {'',
      ''            \"name\": \"AMQ_TRANSPORTS\",'',
      '' \"value\": \"openwire,amqp,stomp,mqtt,hornetq\"'',
      ''          },'',
      '' {'',
      ''            \"name\": \"AMQ_GLOBAL_MAX_SIZE\",'',
      ''            \"value\": \"100mb\"'',
      ''          },'',
      ''          {'',
      ''            \"name\": \"AMQ_DATA_DIR\",'',
      ''            \"value\": \"/opt/CRNAME/data\"'',
      ''          },'',
      ''          {'',
      '' \"name\": \"AMQ_DATA_DIR_LOGGING\",'',
      ''            \"value\": \"true\"'',
      ''          },'',
      ''          {'',
      ''            \"name\": \"AMQ_CLUSTERED\",'',
      ''            \"value\": \"true\"'',
      '' },'',
      ''          {'',
      ''            \"name\": \"AMQ_REPLICAS\",'',
      '' \"value\": \"1\"'',
      ''          },'',
      ''          {'',
      ''            \"name\": \"AMQ_CLUSTER_USER\",'',
      ''            \"value\": \"CLUSTERUSER\"'',
      '' },'',
      ''          {'',
      ''            \"name\": \"AMQ_CLUSTER_PASSWORD\",'',
      ''            \"value\": \"CLUSTERPASS\"'',
      ''          },'',
      ''          {'',
      ''            \"name\": \"POD_NAMESPACE\",'',
      ''            \"valueFrom\": {'',
      '' \"fieldRef\": {'',
      ''                \"fieldPath\": \"metadata.namespace\"'',
      ''              }'',
      ''            }'',
      '' },'',
      ''          {'',
      ''            \"name\": \"OPENSHIFT_DNS_PING_SERVICE_PORT\",'',
      ''            \"value\": \"7800\"'',
      ''          }'',
      ''        ],'',
      ''        \"image\": \"SSIMAGE\",'',
      '' \"name\": \"drainer-amq\",'',
      [],
      ''        \"command\": [\"/bin/sh\", \"-c\", \"echo '' @ [CHR 0x5C] @ ''\"Starting the drainer'' @ [CHR 0x5C] @ ''\" ; /opt/amq/bin/drain.sh ; EXIT_CODE=$?  ; echo '' @ [CHR 0x5C] @ ''\"Drain completed! Exit code $?'' @ [CHR 0x5C] @ ''\"; exit $EXIT_CODE\"],'',
      ''        \"volumeMounts\": ['',
      ''          {'',
      ''            \"name\": \"CRNAME\",'',
      '' \"mountPath\": \"/opt/CRNAME/data\"'',
      ''          }'',
      '' ]'',
      ''      }'',
      ''    ]'',
      '' }'',
      ''}'']"

text \<open>The environment: the process's variables, and the decoder of a pod from JSON.\<close>

record drain_env =
  deOs :: env
  deUnmarshal :: "string \<Rightarrow> string + object_meta \<times> pod_spec"

definition named_template :: "data_map \<Rightarrow> string" where
  "named_template ssNames =
     replace_first ''PINGSVCNAMEVALUE'' (value_of ssNames ''PINGSVCNAMEVALUE'')
       (replace_first ''HEADLESSSVCNAMEVALUE'' (value_of ssNames ''HEADLESSSVCNAMEVALUE'')
         (replace_all ''CRNAME'' (value_of ssNames ''CRNAME'') globalPodTemplateJson))"

definition account_template :: "string \<Rightarrow> string \<Rightarrow> string" where
  "account_template account json =
     replace_first ''SERVICE_ACCOUNT_NAME'' account (replace_first ''SERVICE_ACCOUNT'' account json)"

definition drainer_host :: env_var where
  "drainer_host = \<lparr>evName = ''DRAINER_HOST'', evValue = '''', evValueFrom = Some ''fieldRef status.podIP''\<rparr>"

definition from_credentials :: "string \<Rightarrow> env_var \<Rightarrow> env_var" where
  "from_credentials secretName v =
     (if evName v = ''AMQ_CLUSTER_USER'' \<or> evName v = ''AMQ_CLUSTER_PASSWORD''
      then v\<lparr>evValue := '''', evValueFrom := Some (secret_key_ref secretName (evName v))\<rparr> else v)"

definition claim_volume :: "drain_set \<Rightarrow> int \<Rightarrow> string \<Rightarrow> volume" where
  "claim_volume sts n t = \<lparr>vlName = t, vlSource = ClaimVolume (getPVCName sts t (word_of_int n))\<rparr>"

definition controller_ref :: "object_meta \<Rightarrow> owner_ref" where
  "controller_ref m =
     \<lparr>orAPIVersion = (if omGroup m = '''' then omVersion m else omGroup m @ ''/'' @ omVersion m), orKind = omKind m,
      orName = omName m, orUID = omUID m\<rparr>"

definition drain_meta :: "drain_set \<Rightarrow> int \<Rightarrow> drain_instance \<Rightarrow> object_meta \<Rightarrow> object_meta" where
  "drain_meta sts n ownerCr m =
     m\<lparr>omName := getPodName sts n, omNamespace := drain_namespace sts,
       omLabels := AList.update LabelDrainPod (getPodName sts n) (omLabels m),
       omAnnotations := AList.update AnnotationStatefulSet (drain_name sts) (omAnnotations m),
       omOwners := omOwners m @ [controller_ref (diMeta ownerCr)]\<rparr>"

text \<open>The first container gets resources and variables, and every container the security of the set's first.\<close>

definition drain_containers :: "string \<Rightarrow> string \<Rightarrow> container \<Rightarrow> container list \<Rightarrow> container list" where
  "drain_containers resources secretName broker cts =
     map (\<lambda>ct. ct\<lparr>ctSecurityContext := ctSecurityContext broker,
         ctTerminationMessagePolicy := ''FallbackToLogsOnError''\<rparr>)
       ((hd cts)\<lparr>ctResources := resources,
          ctEnv := map (from_credentials secretName) (ctEnv (hd cts) @ [drainer_host])\<rparr> # tl cts)"

definition decoded_pod ::
  "drain_controller \<Rightarrow> drain_set \<Rightarrow> int \<Rightarrow> data_map \<Rightarrow> container \<Rightarrow> object_meta \<times> pod_spec \<Rightarrow> drain_pod go_result" where
  "decoded_pod c sts n ssNames broker p =
     (case p of (m, sp) \<Rightarrow>
       (case dnSsToCr c (drain_namespace sts, drain_name sts) of
          None \<Rightarrow> Panic
        | Some ownerCr \<Rightarrow>
            (if spContainers sp = [] then Panic
             else let tsp = ptSpec (soTemplate (dsSpec sts))
               in Ok \<lparr>npMeta = drain_meta sts n ownerCr m,
                 npSpec = sp\<lparr>
                   spContainers := drain_containers (dnResources c)
                     (value_of ssNames ''AMQ_CREDENTIALS_SECRET_NAME'') broker (spContainers sp),
                   spVolumes := spVolumes sp @ map (claim_volume sts n) (template_names sts),
                   spTolerations := spTolerations tsp, spSecurityContext := spSecurityContext tsp\<rparr>,
                 npRestartPolicy = ''OnFailure''\<rparr>)))"

text \<open>The account and its role are created before the rest is looked at, unless there is no data for the set.\<close>

definition newPod ::
  "drain_env \<Rightarrow> 's drain_client \<Rightarrow> drain_controller \<Rightarrow> drain_set \<Rightarrow> int \<Rightarrow> 's \<Rightarrow> drain_pod go_result \<times> 's" where
  "newPod E CL c sts n s =
     (case dnSsNames c (drain_namespace sts, drain_name sts) of
        None \<Rightarrow> (Err (''No drain pod data for statefulset '' @ drain_name sts), s)
      | Some ssNames \<Rightarrow>
          (let account = (if dnLocalOnly c then getenv (deOs E) ''SERVICE_ACCOUNT'' else DrainServiceAccountName);
               s1 = (if dnLocalOnly c then s else createDrainRBACResources CL (drain_namespace sts) s);
               json = account_template account (named_template ssNames)
           in case spContainers (ptSpec (soTemplate (dsSpec sts))) of
                [] \<Rightarrow> (Panic, s1)
              | broker # cts \<Rightarrow>
                  (if ctImage broker = '''' then (Err (''No drain pod image configured for StatefulSet '' @ drain_name sts), s1)
                   else let podTemplateJson = replace_first ''SSIMAGE'' (ctImage broker) json
                     in if podTemplateJson = ''''
                        then (Err (''No drain pod template configured for StatefulSet '' @ drain_name sts), s1)
                        else (case deUnmarshal E podTemplateJson of
                                Inl err \<Rightarrow>
                                  (Err (''Can't unmarshal DrainerPodTemplate JSON from annotation: '' @ err), s1)
                              | Inr p \<Rightarrow> (decoded_pod c sts n ssNames broker p, s1)))))"

section \<open>Cleaning up\<close>

definition isDrainPod :: "listed_pod option \<Rightarrow> bool" where
  "isDrainPod pod = (case pod of None \<Rightarrow> False | Some p \<Rightarrow> value_of (lpAnnotations p) AnnotationStatefulSet \<noteq> '''')"

fun delete_claims :: "'s drain_client \<Rightarrow> drain_set \<Rightarrow> int \<Rightarrow> string list \<Rightarrow> 's \<Rightarrow> string option \<times> 's" where
  "delete_claims CL sts n [] s = (None, s)"
| "delete_claims CL sts n (t # ts) s =
     (case drDeleteClaim CL s (drain_namespace sts) (getPVCName sts t (word_of_int n)) of
        (Some err, s1) \<Rightarrow> (Some err, s1)
      | (None, s1) \<Rightarrow> delete_claims CL sts n ts s1)"

text \<open>A pod that has ended, with whatever result and whatever follows, takes the account and its role with it.\<close>

definition cleanUpDrainPodIfNeeded ::
  "'s drain_client \<Rightarrow> drain_controller \<Rightarrow> drain_set \<Rightarrow> listed_pod \<Rightarrow> int \<Rightarrow> 's \<Rightarrow> string option \<times> 's" where
  "cleanUpDrainPodIfNeeded CL c sts pod n s =
     (let phase = podPhase (lpPod pod);
          cleanup = cleanupDrainRBACResources CL (dnLocalOnly c) (drain_namespace sts)
      in if phase = ''Succeeded''
         then (case delete_claims CL sts n (template_names sts) s of
                 (Some err, s1) \<Rightarrow> (Some err, cleanup s1)
               | (None, s1) \<Rightarrow>
                   (case drDeletePod CL s1 (drain_namespace sts) (getPodName sts n) of
                      (err, s2) \<Rightarrow> (err, cleanup s2)))
         else if phase = ''Failed'' then (None, cleanup s)
         else (None, s))"

section \<open>One stateful set\<close>

definition pod_ready :: "pod \<Rightarrow> bool" where
  "pod_ready p \<longleftrightarrow> list_ex (\<lambda>c. pcType c = ''Ready'' \<and> pcStatus c = ''True'') (podConditions p)"

text \<open>A claim without a pod beyond the replicas: a drain pod, when the first pod can take the messages.\<close>

definition create_drain_pod ::
  "drain_env \<Rightarrow> drain_cache \<Rightarrow> 's drain_client \<Rightarrow> drain_controller \<Rightarrow> drain_set \<Rightarrow> int \<Rightarrow> 's \<Rightarrow>
     string option go_result \<times> 's" where
  "create_drain_pod E C CL c sts n s =
     (case dcGetPod C (drain_namespace sts) (getPodName sts 0) of
        Inl err \<Rightarrow> (Ok (Some (api_error_text err)), s)
      | Inr ordinalZeroPod \<Rightarrow>
          (if podPhase (lpPod ordinalZeroPod) \<noteq> ''Running'' \<or> \<not> pod_ready (lpPod ordinalZeroPod) then (Ok None, s)
           else (case newPod E CL c sts n s of
                   (Panic, s1) \<Rightarrow> (Panic, s1)
                 | (Err err, s1) \<Rightarrow> (Ok (Some (''can't create drain Pod object: '' @ err)), s1)
                 | (Ok pod, s1) \<Rightarrow> (case drCreatePod CL s1 (drain_namespace sts) pod of (err, s2) \<Rightarrow> (Ok err, s2)))))"

definition orphaned :: "drain_set \<Rightarrow> int32 \<Rightarrow> int \<Rightarrow> listed_pod option \<Rightarrow> bool" where
  "orphaned sts replicas n pod \<longleftrightarrow> sint replicas \<le> sint (word_of_int n :: int32) \<and> pod = None"

fun process_ordinals ::
  "drain_env \<Rightarrow> drain_cache \<Rightarrow> 's drain_client \<Rightarrow> drain_controller \<Rightarrow> drain_set \<Rightarrow> int32 \<Rightarrow> int list \<Rightarrow> 's \<Rightarrow>
     string option go_result \<times> 's" where
  "process_ordinals E C CL c sts replicas [] s = (Ok None, s)"
| "process_ordinals E C CL c sts replicas (n # ns) s =
     (if n = 0 then process_ordinals E C CL c sts replicas ns s
      else (case dcGetPod C (drain_namespace sts) (getPodName sts n) of
              Inl (ApiError err) \<Rightarrow> (Ok (Some err), s)
            | r \<Rightarrow>
                (let pod = (case r of Inr p \<Rightarrow> Some p | Inl err \<Rightarrow> None)
                 in case (case pod of
                            Some p \<Rightarrow> if isDrainPod pod then cleanUpDrainPodIfNeeded CL c sts p n s else (None, s)
                          | None \<Rightarrow> (None, s)) of
                      (Some err, s1) \<Rightarrow> (Ok (Some err), s1)
                    | (None, s1) \<Rightarrow>
                        (if isDrainPod pod \<and> dsPodManagementPolicy sts = ''OrderedReady'' then (Ok None, s1)
                         else if orphaned sts replicas n pod
                         then (case create_drain_pod E C CL c sts n s1 of
                                 (Ok None, s2) \<Rightarrow> process_ordinals E C CL c sts replicas ns s2
                               | r2 \<Rightarrow> r2)
                         else process_ordinals E C CL c sts replicas ns s1))))"

definition processStatefulSet ::
  "drain_env \<Rightarrow> drain_cache \<Rightarrow> 's drain_client \<Rightarrow> drain_controller \<Rightarrow> drain_set \<Rightarrow> 's \<Rightarrow>
     string option go_result \<times> 's" where
  "processStatefulSet E C CL c sts s =
     (case soReplicas (dsSpec sts) of
        None \<Rightarrow> (Panic, s)
      | Some replicas \<Rightarrow>
          (if replicas = 0 \<or> template_names sts = [] then (Ok None, s)
           else (case getClaims C sts of
                   Inl err \<Rightarrow>
                     (Ok (Some (''error while getting list of PVCs in namespace '' @ drain_namespace sts @ '': '' @ err)), s)
                 | Inr claims \<Rightarrow> process_ordinals E C CL c sts replicas (rev (sort (map fst claims))) s)))"

section \<open>The work queue\<close>

text \<open>The queue and the functions on keys are those of \<open>client-go\<close>; a queue that is shut down hands out nothing.\<close>

record 'q work_queue =
  wqAddRateLimited :: "'q \<Rightarrow> string \<Rightarrow> 'q"
  wqGet :: "'q \<Rightarrow> string option \<times> 'q"
  wqForget :: "'q \<Rightarrow> string \<Rightarrow> 'q"
  wqDone :: "'q \<Rightarrow> string \<Rightarrow> 'q"
  wqSplitKey :: "string \<Rightarrow> (string \<times> string) option"
  wqKey :: "object_meta \<Rightarrow> string option"

definition syncHandler ::
  "drain_env \<Rightarrow> drain_cache \<Rightarrow> 's drain_client \<Rightarrow> 'q work_queue \<Rightarrow> drain_controller \<Rightarrow> string \<Rightarrow> 's \<Rightarrow>
     string option go_result \<times> 's" where
  "syncHandler E C CL Q c key s =
     (case wqSplitKey Q key of
        None \<Rightarrow> (Ok None, s)
      | Some (namespace, name) \<Rightarrow>
          (case dcGetSet C namespace name of
             Inl (NotFound err) \<Rightarrow> (Ok None, s)
           | Inl (ApiError err) \<Rightarrow> (Ok (Some err), s)
           | Inr sts \<Rightarrow> processStatefulSet E C CL c sts s))"

text \<open>Whether to go on, the queue and the server; a panic ends the worker.\<close>

definition processNextWorkItem ::
  "drain_env \<Rightarrow> drain_cache \<Rightarrow> 's drain_client \<Rightarrow> 'q work_queue \<Rightarrow> drain_controller \<Rightarrow> 'q \<Rightarrow> 's \<Rightarrow>
     (bool \<times> 'q \<times> 's) go_result" where
  "processNextWorkItem E C CL Q c q s =
     (case wqGet Q q of
        (None, q1) \<Rightarrow> Ok (False, q1, s)
      | (Some key, q1) \<Rightarrow>
          (case syncHandler E C CL Q c key s of
             (Ok None, s1) \<Rightarrow> Ok (True, wqDone Q (wqForget Q q1 key) key, s1)
           | (Ok (Some err), s1) \<Rightarrow> Ok (True, wqDone Q q1 key, s1)
           | (Err err, s1) \<Rightarrow> Panic
           | (Panic, s1) \<Rightarrow> Panic))"

definition enqueueStatefulSet :: "'q work_queue \<Rightarrow> drain_set \<Rightarrow> 'q \<Rightarrow> 'q" where
  "enqueueStatefulSet Q sts q =
     (case wqKey Q (dsMeta sts) of
        None \<Rightarrow> q
      | Some key \<Rightarrow>
          (if value_of (omLabels (dsMeta sts)) ''ActiveMQArtemis'' = '''' then q else wqAddRateLimited Q q key))"

text \<open>A pod of an event, with its controller's kind and name.\<close>

record event_pod =
  epoNamespace :: string
  epoAnnotations :: data_map
  epoController :: "(string \<times> string) option"

definition enqueue_named ::
  "drain_cache \<Rightarrow> 'q work_queue \<Rightarrow> string \<Rightarrow> string \<Rightarrow> 'q \<Rightarrow> 'q go_result" where
  "enqueue_named C Q namespace name q =
     (case dcGetSet C namespace name of
        Inl err \<Rightarrow> Ok q
      | Inr sts \<Rightarrow>
          (case soReplicas (dsSpec sts) of
             None \<Rightarrow> Panic
           | Some replicas \<Rightarrow> Ok (if replicas = 0 then q else enqueueStatefulSet Q sts q)))"

definition handlePod :: "drain_cache \<Rightarrow> 'q work_queue \<Rightarrow> event_pod \<Rightarrow> 'q \<Rightarrow> 'q go_result" where
  "handlePod C Q obj q =
     (let stsNameFromAnnotation = value_of (epoAnnotations obj) AnnotationStatefulSet
      in if stsNameFromAnnotation \<noteq> '''' then enqueue_named C Q (epoNamespace obj) stsNameFromAnnotation q
         else (case epoController obj of
                 None \<Rightarrow> Ok q
               | Some (kind, name) \<Rightarrow>
                   (if kind \<noteq> ''StatefulSet'' then Ok q else enqueue_named C Q (epoNamespace obj) name q)))"

section \<open>The controller of scale downs\<close>

text \<open>
  The drain controllers of the process by namespace, \<open>*\<close> for all of them, and whether the one of a request is new
  and has to be started.  A request without a namespace uses the one of a file.
\<close>

definition controller_key :: "string \<Rightarrow> bool \<Rightarrow> string \<Rightarrow> string" where
  "controller_key namespaceFile localOnly namespace =
     (if localOnly then (if namespace = '''' then namespaceFile else namespace) else ''*'')"

definition getDrainController ::
  "string \<Rightarrow> bool \<Rightarrow> string \<Rightarrow> drain_instance \<Rightarrow> (string \<rightharpoonup> drain_controller) \<Rightarrow> bool \<times> (string \<rightharpoonup> drain_controller)" where
  "getDrainController namespaceFile localOnly namespace inst controllers =
     (let key = controller_key namespaceFile localOnly namespace
      in case controllers key of
           Some c \<Rightarrow> (False, controllers(key \<mapsto> AddInstance inst c))
         | None \<Rightarrow> (True, controllers(key \<mapsto> AddInstance inst (NewController key inst))))"

definition scaledown_Reconcile ::
  "string \<Rightarrow> (string \<Rightarrow> string \<Rightarrow> api_error + drain_instance) \<Rightarrow> string \<times> string \<Rightarrow> (string \<rightharpoonup> drain_controller) \<Rightarrow>
     string option \<times> bool \<times> (string \<rightharpoonup> drain_controller)" where
  "scaledown_Reconcile namespaceFile get request controllers =
     (case get (fst request) (snd request) of
        Inl (NotFound err) \<Rightarrow> (None, False, controllers)
      | Inl (ApiError err) \<Rightarrow> (Some err, False, controllers)
      | Inr inst \<Rightarrow> (None, getDrainController namespaceFile (diLocalOnly inst) (fst request) inst controllers))"

end
