(* ===== verification/Drain_Properties.thy ===== *)
theory Drain_Properties
  imports Drain_Controller Cluster_Exposure_Facts
begin

text \<open>
  The drain controller: which claim belongs to which ordinal, and what the processing of a stateful set asks the
  server to do.
\<close>

section \<open>Names\<close>

lemma last_segment:
  assumes "CHR ''-'' \<notin> set b"
  shows "rev (takeWhile (\<lambda>c. c \<noteq> CHR ''-'') (rev (a @ CHR ''-'' # b))) = b"
proof -
  have "takeWhile (\<lambda>c. c \<noteq> CHR ''-'') (rev b @ [CHR ''-''] @ rev a) = rev b @ takeWhile (\<lambda>c. c \<noteq> CHR ''-'') ([CHR ''-''] @ rev a)"
    using assms by (intro takeWhile_append2) auto
  then show ?thesis by simp
qed

lemma extract_named:
  assumes "0 \<le> n" "n < 2 ^ 31"
  shows "extractNameAndOrdinal (base @ ''-'' @ itoa n) = Inr (base, n)"
proof -
  have dash: "CHR ''-'' \<notin> set (itoa n)" using assms(1) itoa_nat_no_dash [of "nat n"] by simp
  have num: "atoi (itoa n) = Some n" using assms by (intro atoi_itoa) simp_all
  have last: "rev (takeWhile (\<lambda>c. c \<noteq> CHR ''-'') (rev (base @ ''-'' @ itoa n))) = itoa n"
    using last_segment [OF dash, of base] by simp
  show ?thesis unfolding extractNameAndOrdinal_def last Let_def by (simp add: num)
qed

lemma small_ordinal: "0 \<le> n \<Longrightarrow> n < 2 ^ 31 \<Longrightarrow> sint (word_of_int n :: int32) = n"
  by (simp add: signed_of_int signed_take_bit_int_eq_self)

lemma extract_claim:
  assumes "0 \<le> n" "n < 2 ^ 31"
  shows "extractNameAndOrdinal (getPVCName sts t (word_of_int n)) = Inr (t @ ''-'' @ drain_name sts, n)"
  using extract_named [OF assms, of "t @ ''-'' @ drain_name sts"] small_ordinal [OF assms] by (simp add: getPVCName_def)

section \<open>Claims by ordinal\<close>

text \<open>The claim of an ordinal, for some template of the set.\<close>

definition claim_of :: "drain_set \<Rightarrow> int \<Rightarrow> listed_claim \<Rightarrow> bool" where
  "claim_of sts n pvc \<longleftrightarrow> \<not> lcDeleting pvc \<and>
     (\<exists>t \<in> set (template_names sts). extractNameAndOrdinal (lcName pvc) = Inr (t @ ''-'' @ drain_name sts, n))"

definition grouped :: "(int \<times> listed_claim list) list \<Rightarrow> int \<Rightarrow> listed_claim set" where
  "grouped m n = (case map_of m n of Some cs \<Rightarrow> set cs | None \<Rightarrow> {})"

lemma grouped_add: "grouped (add_claim k pvc m) n = (if n = k then insert pvc (grouped m n) else grouped m n)"
  by (auto simp: grouped_def add_claim_def update_conv' split: option.splits)

lemma grouped_templates:
  "grouped (foldl (\<lambda>m t. if name = t @ ''-'' @ drain_name sts then add_claim k pvc m else m) m ts) n =
     grouped m n \<union> (if n = k \<and> (\<exists>t \<in> set ts. name = t @ ''-'' @ drain_name sts) then {pvc} else {})"
  by (induction ts arbitrary: m) (auto simp: grouped_add)

lemma grouped_claim:
  "grouped (group_claim sts m pvc) n = grouped m n \<union> (if claim_of sts n pvc then {pvc} else {})"
proof (cases "lcDeleting pvc")
  case True
  then show ?thesis by (simp add: group_claim_def claim_of_def)
next
  case False
  show ?thesis
  proof (cases "extractNameAndOrdinal (lcName pvc)")
    case (Inl err)
    with False show ?thesis by (simp add: group_claim_def claim_of_def)
  next
    case (Inr a)
    obtain name k where a: "a = (name, k)" by fastforce
    have "group_claim sts m pvc = foldl (\<lambda>m t. if name = t @ ''-'' @ drain_name sts then add_claim k pvc m else m) m (template_names sts)"
      using False Inr a by (simp add: group_claim_def)
    moreover have "claim_of sts n pvc \<longleftrightarrow> n = k \<and> (\<exists>t \<in> set (template_names sts). name = t @ ''-'' @ drain_name sts)"
      using False Inr a by (auto simp: claim_of_def)
    ultimately show ?thesis by (simp only: grouped_templates)
  qed
qed

lemma grouped_claims:
  "grouped (foldl (group_claim sts) m cs) n = grouped m n \<union> {pvc \<in> set cs. claim_of sts n pvc}"
  by (induction cs arbitrary: m) (auto simp: grouped_claim)

text \<open>No ordinal is without a claim.\<close>

definition no_empty :: "(int \<times> listed_claim list) list \<Rightarrow> bool" where
  "no_empty m \<longleftrightarrow> (\<forall>n. map_of m n \<noteq> Some [])"

lemma add_no_empty: "no_empty m \<Longrightarrow> no_empty (add_claim k pvc m)"
  by (simp add: no_empty_def add_claim_def update_conv' split: option.split)

lemma templates_no_empty:
  "no_empty m \<Longrightarrow> no_empty (foldl (\<lambda>m t. if P t then add_claim k pvc m else m) m ts)"
  by (induction ts arbitrary: m) (simp_all add: add_no_empty)

lemma group_no_empty: "no_empty m \<Longrightarrow> no_empty (group_claim sts m pvc)"
  by (simp add: group_claim_def templates_no_empty split: sum.split prod.split)

lemma claims_no_empty: "no_empty m \<Longrightarrow> no_empty (foldl (group_claim sts) m cs)"
  by (induction cs arbitrary: m) (simp_all add: group_no_empty)

lemma key_grouped: "no_empty m \<Longrightarrow> n \<in> fst ` set m \<longleftrightarrow> grouped m n \<noteq> {}"
  using map_of_eq_None_iff [of m n] by (cases "map_of m n") (auto simp: grouped_def no_empty_def)

lemma claim_keys:
  assumes "getClaims C sts = Inr m" "dcListClaims C (drain_namespace sts) = Inr cs"
  shows "grouped m n = {pvc \<in> set cs. claim_of sts n pvc}" "n \<in> fst ` set m \<longleftrightarrow> (\<exists>pvc \<in> set cs. claim_of sts n pvc)"
proof -
  have m: "m = foldl (group_claim sts) [] cs" using assms by (simp add: getClaims_def)
  show g: "grouped m n = {pvc \<in> set cs. claim_of sts n pvc}" unfolding m grouped_claims by (simp add: grouped_def)
  have "no_empty m" unfolding m by (rule claims_no_empty) (simp add: no_empty_def)
  from key_grouped [OF this, of n] g show "n \<in> fst ` set m \<longleftrightarrow> (\<exists>pvc \<in> set cs. claim_of sts n pvc)" by blast
qed

section \<open>What is asked of the server\<close>

text \<open>The requests on pods and claims, whatever the server answers, in the order they are made.\<close>

datatype drain_request =
    CreatePod string drain_pod
  | DeletePod string string
  | DeleteClaim string string

definition logs :: "('s \<Rightarrow> drain_request list) \<Rightarrow> 's drain_client \<Rightarrow> bool" where
  "logs log CL \<longleftrightarrow>
     (\<forall>s ns p. log (snd (drCreatePod CL s ns p)) = log s @ [CreatePod ns p]) \<and>
     (\<forall>s ns n. log (snd (drDeletePod CL s ns n)) = log s @ [DeletePod ns n]) \<and>
     (\<forall>s ns n. log (snd (drDeleteClaim CL s ns n)) = log s @ [DeleteClaim ns n]) \<and>
     (\<forall>s ns obj. log (snd (drCreateRbac CL s ns obj)) = log s) \<and>
     (\<forall>s k ns n. log (snd (drDeleteRbac CL s k ns n)) = log s)"

lemma logs_rbac:
  assumes "logs log CL"
  shows "log (createDrainRBACResources CL ns s) = log s" "log (cleanupDrainRBACResources CL l ns s) = log s"
proof -
  have c: "log (snd (create_rbac CL k ns n obj s)) = log s" for k ns n obj s
    using assms by (simp add: create_rbac_def logs_def split: option.split)
  have d: "log (snd (delete_rbac CL k ns n s)) = log s" for k ns n s
    using assms by (auto simp: delete_rbac_def logs_def split: option.split api_error.split)
  show "log (createDrainRBACResources CL ns s) = log s"
    by (simp add: createDrainRBACResources_def CreateServiceAccountRoleBinding_def CreateRole_def CreateServiceAccount_def c)
  show "log (cleanupDrainRBACResources CL l ns s) = log s"
    by (simp add: cleanupDrainRBACResources_def DeleteServiceAccount_def DeleteRole_def DeleteRoleBinding_def d)
qed

text \<open>What makes requests for an ordinal right: its drain pod has succeeded, or it has none and can have one.\<close>

definition drained :: "drain_cache \<Rightarrow> drain_set \<Rightarrow> int \<Rightarrow> bool" where
  "drained C sts n \<longleftrightarrow> (\<exists>p. dcGetPod C (drain_namespace sts) (getPodName sts n) = Inr p \<and> isDrainPod (Some p) \<and>
     podPhase (lpPod p) = ''Succeeded'')"

definition may_drain :: "drain_cache \<Rightarrow> drain_set \<Rightarrow> int32 \<Rightarrow> int \<Rightarrow> bool" where
  "may_drain C sts replicas n \<longleftrightarrow> sint replicas \<le> sint (word_of_int n :: int32) \<and>
     (\<exists>err. dcGetPod C (drain_namespace sts) (getPodName sts n) = Inl (NotFound err)) \<and>
     (\<exists>z. dcGetPod C (drain_namespace sts) (getPodName sts 0) = Inr z \<and> podPhase (lpPod z) = ''Running'' \<and> pod_ready (lpPod z))"

definition claim_requests :: "drain_set \<Rightarrow> int \<Rightarrow> string list \<Rightarrow> drain_request list" where
  "claim_requests sts n ts = map (\<lambda>t. DeleteClaim (drain_namespace sts) (getPVCName sts t (word_of_int n))) ts"

definition right_requests :: "drain_cache \<Rightarrow> drain_set \<Rightarrow> int32 \<Rightarrow> int \<Rightarrow> drain_request list \<Rightarrow> bool" where
  "right_requests C sts replicas n rs \<longleftrightarrow> rs = [] \<or>
     n \<noteq> 0 \<and> drained C sts n \<and> prefix rs (claim_requests sts n (template_names sts) @ [DeletePod (drain_namespace sts) (getPodName sts n)]) \<or>
     n \<noteq> 0 \<and> may_drain C sts replicas n \<and> (\<exists>pod. rs = [CreatePod (drain_namespace sts) pod] \<and> omName (npMeta pod) = getPodName sts n)"

lemma delete_claims_log:
  assumes "logs log CL" "delete_claims CL sts n ts s = (r, s')"
  shows "\<exists>ds. log s' = log s @ ds \<and> prefix ds (claim_requests sts n ts) \<and> (r = None \<longrightarrow> ds = claim_requests sts n ts)"
  using assms(2)
proof (induction ts arbitrary: s)
  case (Cons t ts)
  obtain e s1 where d: "drDeleteClaim CL s (drain_namespace sts) (getPVCName sts t (word_of_int n)) = (e, s1)" by fastforce
  have l: "log s1 = log s @ [DeleteClaim (drain_namespace sts) (getPVCName sts t (word_of_int n))]"
    using assms(1) d unfolding logs_def by (metis snd_conv)
  show ?case
  proof (cases e)
    case None
    with Cons.prems d have "delete_claims CL sts n ts s1 = (r, s')" by simp
    from Cons.IH [OF this] l show ?thesis by (auto simp: claim_requests_def)
  next
    case (Some err)
    with Cons.prems d have "r = Some err" "s' = s1" by auto
    with l show ?thesis by (intro exI [of _ "[DeleteClaim (drain_namespace sts) (getPVCName sts t (word_of_int n))]"]) (simp add: claim_requests_def)
  qed
qed (simp add: claim_requests_def)

lemma cleanUp_log:
  assumes "logs log CL" "cleanUpDrainPodIfNeeded CL c sts p n s = (r, s')"
    and "dcGetPod C (drain_namespace sts) (getPodName sts n) = Inr p" "isDrainPod (Some p)" "n \<noteq> 0"
  shows "\<exists>rs. log s' = log s @ rs \<and> right_requests C sts replicas n rs"
proof (cases "podPhase (lpPod p) = ''Succeeded''")
  case True
  then have dr: "drained C sts n" using assms(3,4) by (auto simp: drained_def)
  obtain e s1 where d: "delete_claims CL sts n (template_names sts) s = (e, s1)" by fastforce
  obtain ds where l: "log s1 = log s @ ds" "prefix ds (claim_requests sts n (template_names sts))"
      "e = None \<longrightarrow> ds = claim_requests sts n (template_names sts)"
    using delete_claims_log [OF assms(1) d] by blast
  show ?thesis
  proof (cases e)
    case None
    obtain e2 s2 where p: "drDeletePod CL s1 (drain_namespace sts) (getPodName sts n) = (e2, s2)" by fastforce
    have "log s2 = log s1 @ [DeletePod (drain_namespace sts) (getPodName sts n)]"
      using assms(1) p unfolding logs_def by (metis snd_conv)
    moreover have "log s' = log s2"
      using assms(2) True d None p by (auto simp: cleanUpDrainPodIfNeeded_def Let_def logs_rbac [OF assms(1)])
    ultimately show ?thesis
      using l None dr assms(5) by (intro exI [of _ "ds @ [DeletePod (drain_namespace sts) (getPodName sts n)]"]) (simp add: right_requests_def)
  next
    case (Some err)
    have "log s' = log s1"
      using assms(2) True d Some by (auto simp: cleanUpDrainPodIfNeeded_def Let_def logs_rbac [OF assms(1)])
    with l dr assms(5) show ?thesis by (auto simp: right_requests_def)
  qed
next
  case False
  then have "log s' = log s"
    using assms(2) by (auto simp: cleanUpDrainPodIfNeeded_def Let_def logs_rbac [OF assms(1)] split: if_splits)
  then show ?thesis by (auto simp: right_requests_def)
qed

lemma new_pod:
  assumes "logs log CL" "newPod E CL c sts n s = (r, s')"
  shows "log s' = log s" "r = Ok pod \<Longrightarrow> omName (npMeta pod) = getPodName sts n"
  using assms(2)
  by (auto simp: newPod_def decoded_pod_def drain_meta_def Let_def logs_rbac [OF assms(1)]
      split: option.splits list.splits if_splits sum.splits prod.splits)

lemma create_drain_log:
  assumes "logs log CL" "create_drain_pod E C CL c sts n s = (r, s')" "n \<noteq> 0"
    and "sint replicas \<le> sint (word_of_int n :: int32)" "dcGetPod C (drain_namespace sts) (getPodName sts n) = Inl (NotFound err)"
  shows "\<exists>rs. log s' = log s @ rs \<and> right_requests C sts replicas n rs"
proof -
  have none: "log s' = log s \<Longrightarrow> ?thesis" by (auto simp: right_requests_def)
  show ?thesis
  proof (cases "dcGetPod C (drain_namespace sts) (getPodName sts 0)")
    case (Inl e)
    with assms(2) none show ?thesis by (simp add: create_drain_pod_def)
  next
    case (Inr z)
    show ?thesis
    proof (cases "podPhase (lpPod z) \<noteq> ''Running'' \<or> \<not> pod_ready (lpPod z)")
      case True
      with assms(2) Inr none show ?thesis by (auto simp: create_drain_pod_def)
    next
      case False
      obtain q s1 where p: "newPod E CL c sts n s = (q, s1)" by fastforce
      note l = new_pod [OF assms(1) p]
      show ?thesis
      proof (cases q)
        case (Ok pod)
        obtain e2 s2 where k: "drCreatePod CL s1 (drain_namespace sts) pod = (e2, s2)" by fastforce
        have "log s2 = log s1 @ [CreatePod (drain_namespace sts) pod]"
          using assms(1) k unfolding logs_def by (metis snd_conv)
        moreover have "s' = s2" using assms(2) Inr False p Ok k by (simp add: create_drain_pod_def)
        moreover have "may_drain C sts replicas n" using assms(4,5) Inr False by (auto simp: may_drain_def)
        ultimately show ?thesis
          using l Ok assms(3) by (intro exI [of _ "[CreatePod (drain_namespace sts) pod]"]) (simp add: right_requests_def)
      next
        case (Err e)
        with assms(2) Inr False p l none show ?thesis by (simp add: create_drain_pod_def)
      next
        case Panic
        with assms(2) Inr False p l none show ?thesis by (simp add: create_drain_pod_def)
      qed
    qed
  qed
qed


text \<open>The right requests of the ordinals, one after the other.\<close>

definition right_log :: "drain_cache \<Rightarrow> drain_set \<Rightarrow> int32 \<Rightarrow> int list \<Rightarrow> drain_request list \<Rightarrow> bool" where
  "right_log C sts replicas ns rs \<longleftrightarrow> (\<exists>rss. list_all2 (right_requests C sts replicas) ns rss \<and> rs = concat rss)"

lemma right_log_empty [simp]: "right_log C sts replicas ns []"
  unfolding right_log_def
  by (intro exI [of _ "map (\<lambda>n. []) ns"]) (simp add: list_all2_conv_all_nth right_requests_def)

lemma right_log_Cons:
  "right_requests C sts replicas n rs \<Longrightarrow> right_log C sts replicas ns rs' \<Longrightarrow> right_log C sts replicas (n # ns) (rs @ rs')"
  unfolding right_log_def by (metis concat.simps(2) list_all2_Cons)

lemma ordinals_log:
  assumes "logs log CL" "process_ordinals E C CL c sts replicas ns s = (r, s')"
  shows "\<exists>rs. log s' = log s @ rs \<and> right_log C sts replicas ns rs"
  using assms(2)
proof (induction ns arbitrary: s)
  case (Cons n ns)
  have none: "right_requests C sts replicas n []" by (simp add: right_requests_def)
  have stop: ?case if "log s' = log s @ rs" "right_requests C sts replicas n rs" for rs
    using that right_log_Cons [OF that(2) right_log_empty, of ns] by auto
  have go: ?case if "process_ordinals E C CL c sts replicas ns s1 = (r, s')" "log s1 = log s @ rs"
      "right_requests C sts replicas n rs" for s1 rs
    using Cons.IH [OF that(1)] that(2) right_log_Cons [OF that(3)] by auto
  show ?case
  proof (cases "n = 0")
    case True
    then show ?thesis using Cons.prems by (intro go [OF _ _ none, of s]) simp_all
  next
    case n: False
    show ?thesis
    proof (cases "dcGetPod C (drain_namespace sts) (getPodName sts n)")
      case (Inr p)
      obtain e s1 where u: "(if isDrainPod (Some p) then cleanUpDrainPodIfNeeded CL c sts p n s else (None, s)) = (e, s1)"
        by fastforce
      have "\<exists>rs. log s1 = log s @ rs \<and> right_requests C sts replicas n rs"
        using u none cleanUp_log [OF assms(1) _ Inr _ n] by (cases "isDrainPod (Some p)") auto
      then obtain rs where l: "log s1 = log s @ rs" "right_requests C sts replicas n rs" by blast
      show ?thesis
      proof (cases "e \<noteq> None \<or> isDrainPod (Some p) \<and> dsPodManagementPolicy sts = ''OrderedReady''")
        case True
        then have "s' = s1" using Cons.prems n Inr u by (auto simp: Let_def split: option.splits)
        with l show ?thesis by (intro stop) simp_all
      next
        case False
        then have "process_ordinals E C CL c sts replicas ns s1 = (r, s')"
          using Cons.prems n Inr u by (auto simp: Let_def orphaned_def)
        from go [OF this l] show ?thesis .
      qed
    next
      case (Inl err)
      show ?thesis
      proof (cases err)
        case (ApiError m)
        then show ?thesis using Cons.prems n Inl by (intro stop [OF _ none]) simp
      next
        case (NotFound m)
        show ?thesis
        proof (cases "orphaned sts replicas n None")
          case False
          then show ?thesis
            using Cons.prems n Inl NotFound by (intro go [OF _ _ none, of s]) (simp_all add: isDrainPod_def)
        next
          case True
          obtain q s2 where k: "create_drain_pod E C CL c sts n s = (q, s2)" by fastforce
          obtain rs where l: "log s2 = log s @ rs" "right_requests C sts replicas n rs"
            using create_drain_log [OF assms(1) k n _ Inl [unfolded NotFound]] True by (auto simp: orphaned_def)
          show ?thesis
          proof (cases "q = Ok None")
            case True
            then have "process_ordinals E C CL c sts replicas ns s2 = (r, s')"
              using Cons.prems n Inl NotFound k \<open>orphaned sts replicas n None\<close> by (simp add: isDrainPod_def)
            from go [OF this l] show ?thesis .
          next
            case False
            then have "s' = s2"
              using Cons.prems n Inl NotFound k \<open>orphaned sts replicas n None\<close>
              by (auto simp: isDrainPod_def split: go_result.splits option.splits)
            with l show ?thesis by (intro stop) simp_all
          qed
        qed
      qed
    qed
  qed
qed auto

lemma right_log_split:
  assumes "right_log C sts replicas ns rs" "q \<in> set rs"
  obtains n rs1 where "n \<in> set ns" "right_requests C sts replicas n rs1" "q \<in> set rs1" "set rs1 \<subseteq> set rs"
proof -
  obtain rss where l: "list_all2 (right_requests C sts replicas) ns rss" "rs = concat rss"
    using assms(1) by (auto simp: right_log_def)
  then obtain rs1 where r: "rs1 \<in> set rss" "q \<in> set rs1" using assms(2) by auto
  then obtain i where i: "i < length rss" "rs1 = rss ! i" by (metis in_set_conv_nth)
  with l(1) have "i < length ns" "right_requests C sts replicas (ns ! i) rs1" by (auto simp: list_all2_conv_all_nth)
  moreover have "set rs1 \<subseteq> set rs" using r(1) l(2) by auto
  ultimately show thesis using r that nth_mem by blast
qed

section \<open>A set to drain\<close>

text \<open>Two pods are left; the drain pod of the third has succeeded, and its claim is still there.\<close>

definition logging_client :: "drain_request list drain_client" where
  "logging_client =
     \<lparr>drGetRbac = (\<lambda>s k ns n. Some (NotFound ''not found'')), drCreateRbac = (\<lambda>s ns obj. (None, s)),
      drDeleteRbac = (\<lambda>s k ns n. (None, s)), drCreatePod = (\<lambda>s ns p. (None, s @ [CreatePod ns p])),
      drDeletePod = (\<lambda>s ns n. (None, s @ [DeletePod ns n])), drDeleteClaim = (\<lambda>s ns n. (None, s @ [DeleteClaim ns n]))\<rparr>"

definition sample_set :: drain_set where
  "sample_set =
     \<lparr>dsMeta = named_meta ''apps'' ''v1'' ''StatefulSet'' ''amq-ss'' ''dev'', dsPodManagementPolicy = ''OrderedReady'',
      dsSpec = (snd (new_stateful_set ''amq-ss'' ''amq-hdls-svc'' ''dev'' []))
        \<lparr>soReplicas := Some 2, soClaims := [\<lparr>clMeta = named_meta '''' ''v1'' ''PersistentVolumeClaim'' ''amq'' '''',
          clSpec = \<lparr>csAccessModes = [], csStorage = ''2Gi'', csStorageClassName = None, csVolumeMode = None,
            csOther = ''''\<rparr>\<rparr>]\<rparr>\<rparr>"

definition sample_claim :: listed_claim where
  "sample_claim = \<lparr>lcName = ''amq-amq-ss-2'', lcDeleting = False\<rparr>"

definition sample_cache :: drain_cache where
  "sample_cache =
     \<lparr>dcGetSet = (\<lambda>ns n. Inr sample_set), dcListClaims = (\<lambda>ns. Inr [sample_claim]),
      dcGetPod = (\<lambda>ns n. if n = ''amq-ss-2''
        then Inr \<lparr>lpAnnotations = [(AnnotationStatefulSet, ''amq-ss'')], lpPod = \<lparr>podPhase = ''Succeeded'', podConditions = []\<rparr>\<rparr>
        else Inl (NotFound ''not found''))\<rparr>"

definition sample_drain_env :: drain_env where
  "sample_drain_env = \<lparr>deOs = (\<lambda>k. None), deUnmarshal = (\<lambda>t. Inl ''no pod'')\<rparr>"

definition sample_drain :: drain_controller where
  "sample_drain =
     \<lparr>dnName = ''dev'', dnLocalOnly = True, dnResources = '''', dnSsNames = (\<lambda>k. None), dnSsToCr = (\<lambda>k. None), dnSsLabels = []\<rparr>"

lemma logging [simp]: "logs (\<lambda>s. s) logging_client"
  by (simp add: logs_def logging_client_def)

lemma sample_set_sel [simp]:
  "drain_name sample_set = ''amq-ss''" "drain_namespace sample_set = ''dev''" "template_names sample_set = [''amq'']"
  "soReplicas (dsSpec sample_set) = Some 2" "dsPodManagementPolicy sample_set = ''OrderedReady''"
  by (simp_all add: sample_set_def drain_name_def drain_namespace_def template_names_def named_meta_def)

lemma two: "itoa 2 = ''2''"
  by (simp add: itoa_def nat_to_string.simps digit_chars)

lemma sample_names [simp]:
  "getPVCName sample_set ''amq'' 2 = ''amq-amq-ss-2''" "getPodName sample_set 2 = ''amq-ss-2''"
  by (simp_all add: getPVCName_def getPodName_def two)

lemma sample_claims: "getClaims sample_cache sample_set = Inr [(2, [sample_claim])]"
proof -
  have "extractNameAndOrdinal ''amq-amq-ss-2'' = Inr (''amq-amq-ss'', 2)"
    using extract_named [of 2 "''amq-amq-ss''"] by (simp add: two)
  then show ?thesis by (simp add: getClaims_def sample_cache_def group_claim_def sample_claim_def add_claim_def)
qed

lemma sample_drained:
  "processStatefulSet sample_drain_env sample_cache logging_client sample_drain sample_set [] =
     (Ok None, [DeleteClaim ''dev'' ''amq-amq-ss-2'', DeletePod ''dev'' ''amq-ss-2''])"
  by (simp add: processStatefulSet_def sample_claims)
    (simp add: sample_cache_def isDrainPod_def value_of_def cleanUpDrainPodIfNeeded_def logging_client_def sample_drain_def
      cleanupDrainRBACResources_def)

section \<open>Properties\<close>

text \<open>
  C12: what the drain controller deletes and creates.  The processing of a stateful set deletes a claim only when the
  drain pod of its ordinal has succeeded, deletes a pod only after the claims of all templates of that ordinal, and
  creates one only beyond the replicas, where no pod is, while the first pod is running and ready; it never touches
  ordinal 0, and the ordinals are those of claims that are not being deleted.
\<close>

theorem drain_requests_right:
  assumes "logs log CL" "processStatefulSet E C CL c sts s = (r, s')" "soReplicas (dsSpec sts) = Some replicas"
    and "dcListClaims C (drain_namespace sts) = Inr claims"
  shows "\<exists>rs. log s' = log s @ rs \<and> (replicas = 0 \<longrightarrow> rs = []) \<and> (\<forall>q \<in> set rs. \<exists>n. n \<noteq> 0 \<and>
    (\<exists>pvc \<in> set claims. claim_of sts n pvc) \<and>
    (case q of
       DeleteClaim ns name \<Rightarrow> ns = drain_namespace sts \<and> drained C sts n \<and>
         (\<exists>t \<in> set (template_names sts). name = getPVCName sts t (word_of_int n))
     | DeletePod ns name \<Rightarrow> ns = drain_namespace sts \<and> name = getPodName sts n \<and> drained C sts n \<and>
         (\<forall>t \<in> set (template_names sts). DeleteClaim ns (getPVCName sts t (word_of_int n)) \<in> set rs)
     | CreatePod ns pod \<Rightarrow> ns = drain_namespace sts \<and> omName (npMeta pod) = getPodName sts n \<and>
         may_drain C sts replicas n))"
proof -
  have quiet: ?thesis if "s' = s" using that by (intro exI [of _ "[]"]) simp
  show ?thesis
  proof (cases "replicas = 0 \<or> template_names sts = []")
    case True
    with assms(2,3) show ?thesis by (intro quiet) (simp add: processStatefulSet_def)
  next
    case False
    obtain m where m: "getClaims C sts = Inr m" using assms(4) by (simp add: getClaims_def)
    let ?ns = "rev (sort (map fst m))"
    have "process_ordinals E C CL c sts replicas ?ns s = (r, s')"
      using assms(2,3) False m by (simp add: processStatefulSet_def)
    from ordinals_log [OF assms(1) this] obtain rs where l: "log s' = log s @ rs" "right_log C sts replicas ?ns rs" by blast
    have "\<exists>n. n \<noteq> 0 \<and> (\<exists>pvc \<in> set claims. claim_of sts n pvc) \<and>
      (case q of
         DeleteClaim ns name \<Rightarrow> ns = drain_namespace sts \<and> drained C sts n \<and>
           (\<exists>t \<in> set (template_names sts). name = getPVCName sts t (word_of_int n))
       | DeletePod ns name \<Rightarrow> ns = drain_namespace sts \<and> name = getPodName sts n \<and> drained C sts n \<and>
           (\<forall>t \<in> set (template_names sts). DeleteClaim ns (getPVCName sts t (word_of_int n)) \<in> set rs)
       | CreatePod ns pod \<Rightarrow> ns = drain_namespace sts \<and> omName (npMeta pod) = getPodName sts n \<and>
           may_drain C sts replicas n)" if q: "q \<in> set rs" for q
    proof -
      obtain n rs1 where n: "n \<in> set ?ns" "right_requests C sts replicas n rs1" "q \<in> set rs1" "set rs1 \<subseteq> set rs"
        using right_log_split [OF l(2) q] by blast
      have c: "\<exists>pvc \<in> set claims. claim_of sts n pvc" using n(1) claim_keys(2) [OF m assms(4)] by simp
      from n(2) consider "rs1 = []"
        | "n \<noteq> 0" "drained C sts n" "prefix rs1 (claim_requests sts n (template_names sts) @ [DeletePod (drain_namespace sts) (getPodName sts n)])"
        | "n \<noteq> 0" "may_drain C sts replicas n" "\<exists>pod. rs1 = [CreatePod (drain_namespace sts) pod] \<and> omName (npMeta pod) = getPodName sts n"
        unfolding right_requests_def by blast
      then show ?thesis
      proof cases
        case 1
        with n(3) show ?thesis by simp
      next
        case 2
        have "q \<in> set (claim_requests sts n (template_names sts)) \<or>
            q = DeletePod (drain_namespace sts) (getPodName sts n) \<and> set (claim_requests sts n (template_names sts)) \<subseteq> set rs1"
          using 2(3) n(3) by (auto simp: prefix_snoc dest: set_mono_prefix)
        then consider t where "t \<in> set (template_names sts)" "q = DeleteClaim (drain_namespace sts) (getPVCName sts t (word_of_int n))"
          | "q = DeletePod (drain_namespace sts) (getPodName sts n)" "set (claim_requests sts n (template_names sts)) \<subseteq> set rs"
          using n(4) by (auto simp: claim_requests_def)
        then show ?thesis
        proof cases
          case 1
          with 2(1,2) c show ?thesis by (intro exI [of _ n]) auto
        next
          case del: 2
          have "DeleteClaim (drain_namespace sts) (getPVCName sts t (word_of_int n)) \<in> set rs" if "t \<in> set (template_names sts)" for t
            using subsetD [OF del(2)] that by (simp add: claim_requests_def)
          with del(1) 2(1,2) c show ?thesis by (intro exI [of _ n]) simp
        qed
      next
        case 3
        with c n(3) show ?thesis by (intro exI [of _ n]) auto
      qed
    qed
    with l(1) False show ?thesis by blast
  qed
qed

theorem drain_requests_right_witness:
  "\<exists>rs n. processStatefulSet sample_drain_env sample_cache logging_client sample_drain sample_set [] = (Ok None, rs) \<and>
     DeletePod ''dev'' ''amq-ss-2'' \<in> set rs \<and> n \<noteq> 0 \<and> ''amq-ss-2'' = getPodName sample_set n \<and>
     drained sample_cache sample_set n \<and> DeleteClaim ''dev'' (getPVCName sample_set ''amq'' (word_of_int n)) \<in> set rs"
proof -
  let ?q = "DeletePod ''dev'' ''amq-ss-2''"
  have c: "dcListClaims sample_cache (drain_namespace sample_set) = Inr [sample_claim]" by (simp add: sample_cache_def)
  from drain_requests_right [OF logging sample_drained sample_set_sel(4) c]
  obtain rs where "rs = [DeleteClaim ''dev'' ''amq-amq-ss-2'', ?q]" "\<exists>n. n \<noteq> 0 \<and> ''amq-ss-2'' = getPodName sample_set n \<and>
      drained sample_cache sample_set n \<and> DeleteClaim ''dev'' (getPVCName sample_set ''amq'' (word_of_int n)) \<in> set rs"
    by auto
  with sample_drained show ?thesis by auto
qed

text \<open>
  C39: the claims of an ordinal.  A claim of a template that is listed and not being deleted is found under its
  ordinal: the name the stateful set gives it is read back as the name of the template and the ordinal.
\<close>

theorem claims_read_back:
  assumes "0 \<le> n" "n < 2 ^ 31" "t \<in> set (template_names sts)"
    and "dcListClaims C (drain_namespace sts) = Inr claims"
    and "\<lparr>lcName = getPVCName sts t (word_of_int n), lcDeleting = False\<rparr> \<in> set claims"
  shows "extractNameAndOrdinal (getPVCName sts t (word_of_int n)) = Inr (t @ ''-'' @ drain_name sts, n) \<and>
    (\<exists>m cs. getClaims C sts = Inr m \<and> map_of m n = Some cs \<and>
      \<lparr>lcName = getPVCName sts t (word_of_int n), lcDeleting = False\<rparr> \<in> set cs)"
proof -
  let ?pvc = "\<lparr>lcName = getPVCName sts t (word_of_int n), lcDeleting = False\<rparr>"
  note e = extract_claim [OF assms(1,2), of sts t]
  obtain m where m: "getClaims C sts = Inr m" using assms(4) by (simp add: getClaims_def)
  have "claim_of sts n ?pvc" using e assms(3) by (auto simp: claim_of_def)
  with claim_keys(1) [OF m assms(4), of n] assms(5) have "?pvc \<in> grouped m n" by simp
  then have "\<exists>cs. map_of m n = Some cs \<and> ?pvc \<in> set cs" by (auto simp: grouped_def split: option.splits)
  with e m show ?thesis by blast
qed

theorem claims_read_back_witness:
  "\<exists>m cs. getClaims sample_cache sample_set = Inr m \<and> map_of m 2 = Some cs \<and> sample_claim \<in> set cs"
proof -
  have c: "dcListClaims sample_cache (drain_namespace sample_set) = Inr [sample_claim]" by (simp add: sample_cache_def)
  from claims_read_back [of 2 "''amq''", OF _ _ _ c] show ?thesis by (simp add: sample_claim_def)
qed

end
