(* ===== verification/Artemis_Types.thy ===== *)
theory Artemis_Types
  imports Cluster_Types
begin

text \<open>
  The custom resource \<open>ActiveMQArtemis\<close> of \<open>api/v1beta1/activemqartemis_types.go\<close>.  Its types repeat those of
  \<open>BrokerCluster\<close>; parts that are types of Kubernetes, such as probes and volumes, are the same.  The flags of the
  field \<open>Upgrades\<close>, which nothing reads, are left out.
\<close>

section \<open>Address settings\<close>

record address_setting_v1 =
  as1Match :: string
  as1DeadLetterAddress :: "string option"
  as1AutoCreateDeadLetterResources :: "bool option"
  as1DeadLetterQueuePrefix :: "string option"
  as1DeadLetterQueueSuffix :: "string option"
  as1ExpiryAddress :: "string option"
  as1AutoCreateExpiryResources :: "bool option"
  as1ExpiryQueuePrefix :: "string option"
  as1ExpiryQueueSuffix :: "string option"
  as1ExpiryDelay :: "int32 option"
  as1MinExpiryDelay :: "int32 option"
  as1MaxExpiryDelay :: "int32 option"
  as1RedeliveryDelay :: "int32 option"
  as1MaxRedeliveryDelay :: "int32 option"
  as1MaxDeliveryAttempts :: "int32 option"
  as1MaxSizeBytes :: "string option"
  as1MaxSizeBytesRejectThreshold :: "int32 option"
  as1PageSizeBytes :: "string option"
  as1PageMaxCacheSize :: "int32 option"
  as1AddressFullPolicy :: "string option"
  as1MessageCounterHistoryDayLimit :: "int32 option"
  as1LastValueQueue :: "bool option"
  as1DefaultLastValueQueue :: "bool option"
  as1DefaultLastValueKey :: "string option"
  as1DefaultNonDestructive :: "bool option"
  as1DefaultExclusiveQueue :: "bool option"
  as1DefaultGroupRebalance :: "bool option"
  as1DefaultGroupRebalancePauseDispatch :: "bool option"
  as1DefaultGroupBuckets :: "int32 option"
  as1DefaultGroupFirstKey :: "string option"
  as1DefaultConsumersBeforeDispatch :: "int32 option"
  as1DefaultDelayBeforeDispatch :: "int32 option"
  as1RedistributionDelay :: "int32 option"
  as1SendToDlaOnNoRoute :: "bool option"
  as1SlowConsumerThreshold :: "int32 option"
  as1SlowConsumerPolicy :: "string option"
  as1SlowConsumerCheckPeriod :: "int32 option"
  as1AutoCreateJmsQueues :: "bool option"
  as1AutoDeleteJmsQueues :: "bool option"
  as1AutoCreateJmsTopics :: "bool option"
  as1AutoDeleteJmsTopics :: "bool option"
  as1AutoCreateQueues :: "bool option"
  as1AutoDeleteQueues :: "bool option"
  as1AutoDeleteCreatedQueues :: "bool option"
  as1AutoDeleteQueuesDelay :: "int32 option"
  as1AutoDeleteQueuesMessageCount :: "int32 option"
  as1ConfigDeleteQueues :: "string option"
  as1AutoCreateAddresses :: "bool option"
  as1AutoDeleteAddresses :: "bool option"
  as1AutoDeleteAddressesDelay :: "int32 option"
  as1ConfigDeleteAddresses :: "string option"
  as1ManagementBrowsePageSize :: "int32 option"
  as1DefaultPurgeOnNoConsumers :: "bool option"
  as1DefaultMaxConsumers :: "int32 option"
  as1DefaultQueueRoutingType :: "string option"
  as1DefaultAddressRoutingType :: "string option"
  as1DefaultConsumerWindowSize :: "int32 option"
  as1DefaultRingSize :: "int32 option"
  as1RetroactiveMessageCount :: "int32 option"
  as1EnableMetrics :: "bool option"
  as1ManagementMessageAttributeSizeLimit :: "int32 option"
  as1SlowConsumerThresholdMeasurementUnit :: "string option"
  as1EnableIngressTimestamp :: "bool option"
  as1MaxSizeMessages :: "int64 option"
  as1ConfigDeleteDiverts :: "string option"

record address_settings_v1 =
  v1ApplyRule :: "string option"
  v1AddressSetting :: "address_setting_v1 list"

section \<open>Templates\<close>

record claim_template_v1 =
  vt1Name :: string
  vt1Labels :: labels
  vt1Annotations :: data_map
  vt1Spec :: claim_spec

record template_selector_v1 =
  ts1APIGroup :: "string option"
  ts1Kind :: "string option"
  ts1Name :: "string option"

record resource_template_v1 =
  rt1Selector :: "template_selector_v1 option"
  rt1Annotations :: data_map
  rt1Labels :: labels
  rt1Patch :: string

section \<open>The plan\<close>

record affinity_v1 =
  af1PodAffinity :: "string option"
  af1PodAntiAffinity :: "string option"
  af1NodeAffinity :: "string option"

record pod_security_v1 =
  po1ServiceAccountName :: "string option"
  po1RunAsUser :: "int64 option"

record extra_mounts_v1 =
  em1ConfigMaps :: "string list"
  em1Secrets :: "string list"

record storage_v1 =
  sg1Size :: string
  sg1StorageClassName :: string

record deployment_plan_v1 =
  d1Image :: string
  d1InitImage :: string
  d1ImagePullSecrets :: "string list"
  d1Size :: "int32 option"
  d1RequireLogin :: bool
  d1PersistenceEnabled :: bool
  d1JournalType :: string
  d1MessageMigration :: "bool option"
  d1Resources :: string
  d1Storage :: storage_v1
  d1TopologySpread :: "string list"
  d1JolokiaAgentEnabled :: bool
  d1ManagementRBACEnabled :: bool
  d1ExtraMounts :: extra_mounts_v1
  d1Clustered :: "bool option"
  d1PodSecurity :: pod_security_v1
  d1StartupProbe :: "probe option"
  d1LivenessProbe :: "probe option"
  d1ReadinessProbe :: "probe option"
  d1EnableMetricsPlugin :: "bool option"
  d1Tolerations :: "string list"
  d1Labels :: labels
  d1NodeSelector :: labels
  d1Affinity :: affinity_v1
  d1PodSecurityContext :: "pod_security_context option"
  d1Annotations :: data_map
  d1PodDisruptionBudget :: "budget_spec option"
  d1RevisionHistoryLimit :: "int32 option"
  d1ContainerSecurityContext :: "security_context option"
  d1ExtraVolumes :: "volume list"
  d1ExtraVolumeMounts :: "volume_mount list"
  d1ExtraClaims :: "claim_template_v1 list"

section \<open>Endpoints\<close>

record acceptor_v1 =
  ac1Name :: string
  ac1Port :: int32
  ac1Protocols :: string
  ac1SSLEnabled :: bool
  ac1SSLSecret :: string
  ac1EnabledCipherSuites :: string
  ac1EnabledProtocols :: string
  ac1NeedClientAuth :: bool
  ac1WantClientAuth :: bool
  ac1VerifyHost :: bool
  ac1SSLProvider :: string
  ac1SNIHost :: string
  ac1Expose :: bool
  ac1ExposeMode :: "string option"
  ac1AnycastPrefix :: string
  ac1MulticastPrefix :: string
  ac1ConnectionsAllowed :: int
  ac1AMQPMinLargeMessageSize :: int
  ac1SupportAdvisory :: "bool option"
  ac1SuppressInternalManagementObjects :: "bool option"
  ac1BindToAllInterfaces :: "bool option"
  ac1KeyStoreProvider :: string
  ac1TrustStoreType :: string
  ac1TrustStoreProvider :: string
  ac1IngressHost :: string
  ac1TrustSecret :: "string option"

record connector_v1 =
  cn1Name :: string
  cn1Type :: string
  cn1Host :: string
  cn1Port :: int32
  cn1SSLEnabled :: bool
  cn1SSLSecret :: string
  cn1EnabledCipherSuites :: string
  cn1EnabledProtocols :: string
  cn1NeedClientAuth :: bool
  cn1WantClientAuth :: bool
  cn1VerifyHost :: bool
  cn1SSLProvider :: string
  cn1SNIHost :: string
  cn1Expose :: bool
  cn1ExposeMode :: "string option"
  cn1KeyStoreProvider :: string
  cn1TrustStoreType :: string
  cn1TrustStoreProvider :: string
  cn1IngressHost :: string
  cn1TrustSecret :: "string option"

record console_v1 =
  co1Name :: string
  co1Expose :: bool
  co1ExposeMode :: "string option"
  co1SSLEnabled :: bool
  co1SSLSecret :: string
  co1UseClientAuth :: bool
  co1IngressHost :: string
  co1TrustSecret :: "string option"

section \<open>The status\<close>

record upgrade_status_v1 =
  u1SecurityUpdates :: bool
  u1MajorUpdates :: bool
  u1MinorUpdates :: bool
  u1PatchUpdates :: bool

record version_status_v1 =
  v1BrokerVersion :: string
  v1Image :: string
  v1InitImage :: string

record external_config_v1 =
  ec1Name :: string
  ec1ResourceVersion :: string

record artemis_status =
  s1Conditions :: "condition list"
  s1PodStatus :: pod_status
  s1DeploymentPlanSize :: int32
  s1ScaleLabelSelector :: string
  s1ExternalConfigs :: "external_config_v1 list"
  s1Version :: version_status_v1
  s1Upgrade :: upgrade_status_v1

section \<open>The resource\<close>

record artemis_spec =
  a1AdminUser :: string
  a1AdminPassword :: string
  a1Plan :: deployment_plan_v1
  a1Acceptors :: "acceptor_v1 list"
  a1Connectors :: "connector_v1 list"
  a1Console :: console_v1
  a1Version :: string
  a1AddressSettings :: address_settings_v1
  a1BrokerProperties :: "string list"
  a1Env :: "env_var list"
  a1IngressDomain :: string
  a1Templates :: "resource_template_v1 list"
  a1Restricted :: "bool option"

record artemis =
  atNamespace :: string
  atName :: string
  atUID :: string
  atGeneration :: int
  atAnnotations :: data_map
  atSpec :: artemis_spec
  atStatus :: artemis_status

end
