(* ===== verification/Artemis_Conversion.thy ===== *)
theory Artemis_Conversion
  imports Artemis_Types
begin

text \<open>
  The conversion between \<open>ActiveMQArtemis\<close> and \<open>BrokerCluster\<close> (\<open>brokercluster_converter.go\<close>): the resource is
  converted before it is reconciled, and the status is converted back.  A list that is \<open>nil\<close> stays \<open>nil\<close>; a part of
  \<open>BrokerCluster\<close> that its record keeps with the plan is a pair here.
\<close>

section \<open>Address settings\<close>

definition convert_address_setting :: "address_setting_v1 \<Rightarrow> address_setting" where
  "convert_address_setting a =
     \<lparr>adsMatch = as1Match a, adsDeadLetterAddress = as1DeadLetterAddress a,
      adsAutoCreateDeadLetterResources = as1AutoCreateDeadLetterResources a,
      adsDeadLetterQueuePrefix = as1DeadLetterQueuePrefix a, adsDeadLetterQueueSuffix = as1DeadLetterQueueSuffix a,
      adsExpiryAddress = as1ExpiryAddress a, adsAutoCreateExpiryResources = as1AutoCreateExpiryResources a,
      adsExpiryQueuePrefix = as1ExpiryQueuePrefix a, adsExpiryQueueSuffix = as1ExpiryQueueSuffix a,
      adsExpiryDelay = as1ExpiryDelay a, adsMinExpiryDelay = as1MinExpiryDelay a,
      adsMaxExpiryDelay = as1MaxExpiryDelay a, adsRedeliveryDelay = as1RedeliveryDelay a,
      adsMaxRedeliveryDelay = as1MaxRedeliveryDelay a, adsMaxDeliveryAttempts = as1MaxDeliveryAttempts a,
      adsMaxSizeBytes = as1MaxSizeBytes a, adsMaxSizeBytesRejectThreshold = as1MaxSizeBytesRejectThreshold a,
      adsPageSizeBytes = as1PageSizeBytes a, adsPageMaxCacheSize = as1PageMaxCacheSize a,
      adsAddressFullPolicy = as1AddressFullPolicy a,
      adsMessageCounterHistoryDayLimit = as1MessageCounterHistoryDayLimit a,
      adsLastValueQueue = as1LastValueQueue a, adsDefaultLastValueQueue = as1DefaultLastValueQueue a,
      adsDefaultLastValueKey = as1DefaultLastValueKey a, adsDefaultNonDestructive = as1DefaultNonDestructive a,
      adsDefaultExclusiveQueue = as1DefaultExclusiveQueue a, adsDefaultGroupRebalance = as1DefaultGroupRebalance a,
      adsDefaultGroupRebalancePauseDispatch = as1DefaultGroupRebalancePauseDispatch a,
      adsDefaultGroupBuckets = as1DefaultGroupBuckets a, adsDefaultGroupFirstKey = as1DefaultGroupFirstKey a,
      adsDefaultConsumersBeforeDispatch = as1DefaultConsumersBeforeDispatch a,
      adsDefaultDelayBeforeDispatch = as1DefaultDelayBeforeDispatch a,
      adsRedistributionDelay = as1RedistributionDelay a, adsSendToDlaOnNoRoute = as1SendToDlaOnNoRoute a,
      adsSlowConsumerThreshold = as1SlowConsumerThreshold a, adsSlowConsumerPolicy = as1SlowConsumerPolicy a,
      adsSlowConsumerCheckPeriod = as1SlowConsumerCheckPeriod a, adsAutoCreateJmsQueues = as1AutoCreateJmsQueues a,
      adsAutoDeleteJmsQueues = as1AutoDeleteJmsQueues a, adsAutoCreateJmsTopics = as1AutoCreateJmsTopics a,
      adsAutoDeleteJmsTopics = as1AutoDeleteJmsTopics a, adsAutoCreateQueues = as1AutoCreateQueues a,
      adsAutoDeleteQueues = as1AutoDeleteQueues a, adsAutoDeleteCreatedQueues = as1AutoDeleteCreatedQueues a,
      adsAutoDeleteQueuesDelay = as1AutoDeleteQueuesDelay a,
      adsAutoDeleteQueuesMessageCount = as1AutoDeleteQueuesMessageCount a,
      adsConfigDeleteQueues = as1ConfigDeleteQueues a, adsAutoCreateAddresses = as1AutoCreateAddresses a,
      adsAutoDeleteAddresses = as1AutoDeleteAddresses a,
      adsAutoDeleteAddressesDelay = as1AutoDeleteAddressesDelay a,
      adsConfigDeleteAddresses = as1ConfigDeleteAddresses a,
      adsManagementBrowsePageSize = as1ManagementBrowsePageSize a,
      adsDefaultPurgeOnNoConsumers = as1DefaultPurgeOnNoConsumers a,
      adsDefaultMaxConsumers = as1DefaultMaxConsumers a, adsDefaultQueueRoutingType = as1DefaultQueueRoutingType a,
      adsDefaultAddressRoutingType = as1DefaultAddressRoutingType a,
      adsDefaultConsumerWindowSize = as1DefaultConsumerWindowSize a, adsDefaultRingSize = as1DefaultRingSize a,
      adsRetroactiveMessageCount = as1RetroactiveMessageCount a, adsEnableMetrics = as1EnableMetrics a,
      adsManagementMessageAttributeSizeLimit = as1ManagementMessageAttributeSizeLimit a,
      adsSlowConsumerThresholdMeasurementUnit = as1SlowConsumerThresholdMeasurementUnit a,
      adsEnableIngressTimestamp = as1EnableIngressTimestamp a, adsMaxSizeMessages = as1MaxSizeMessages a,
      adsConfigDeleteDiverts = as1ConfigDeleteDiverts a\<rparr>"

definition convertAddressSettingsToBrokerCluster :: "address_settings_v1 \<Rightarrow> address_settings" where
  "convertAddressSettingsToBrokerCluster s =
     \<lparr>ApplyRule = v1ApplyRule s, AddressSetting = map convert_address_setting (v1AddressSetting s)\<rparr>"

section \<open>The plan\<close>

definition convert_claim_template :: "claim_template_v1 \<Rightarrow> claim_template" where
  "convert_claim_template t =
     \<lparr>vtName = vt1Name t, vtLabels = vt1Labels t, vtAnnotations = vt1Annotations t, vtSpec = vt1Spec t\<rparr>"

definition convertVolumeClaimTemplatesToBrokerCluster :: "claim_template_v1 list \<Rightarrow> claim_template list" where
  "convertVolumeClaimTemplatesToBrokerCluster templates = map convert_claim_template templates"

definition convert_selector :: "template_selector_v1 \<Rightarrow> template_selector" where
  "convert_selector s = \<lparr>tsAPIGroup = ts1APIGroup s, tsKind = ts1Kind s, tsName = ts1Name s\<rparr>"

definition convert_resource_template :: "resource_template_v1 \<Rightarrow> resource_template" where
  "convert_resource_template t =
     \<lparr>rtSelector = map_option convert_selector (rt1Selector t), rtAnnotations = rt1Annotations t,
      rtLabels = rt1Labels t, rtPatch = rt1Patch t\<rparr>"

definition convertResourceTemplatesToBrokerCluster :: "resource_template_v1 list \<Rightarrow> resource_template list" where
  "convertResourceTemplatesToBrokerCluster templates = map convert_resource_template templates"

definition convertAffinityToBrokerCluster :: "affinity_v1 \<Rightarrow> affinity" where
  "convertAffinityToBrokerCluster a =
     \<lparr>afPodAffinity = af1PodAffinity a, afPodAntiAffinity = af1PodAntiAffinity a, afNodeAffinity = af1NodeAffinity a\<rparr>"

definition convertPodSecurityToBrokerCluster :: "pod_security_v1 \<Rightarrow> string option \<times> int64 option" where
  "convertPodSecurityToBrokerCluster p = (po1ServiceAccountName p, po1RunAsUser p)"

definition convertExtraMountsToBrokerCluster :: "extra_mounts_v1 \<Rightarrow> string list \<times> string list" where
  "convertExtraMountsToBrokerCluster e = (em1ConfigMaps e, em1Secrets e)"

definition convertStorageToBrokerCluster :: "storage_v1 \<Rightarrow> string \<times> string" where
  "convertStorageToBrokerCluster s = (sg1Size s, sg1StorageClassName s)"

definition convertDeploymentPlanToBrokerCluster :: "deployment_plan_v1 \<Rightarrow> deployment_plan" where
  "convertDeploymentPlanToBrokerCluster d =
     \<lparr>dpImage = d1Image d, dpInitImage = d1InitImage d, dpImagePullSecrets = d1ImagePullSecrets d,
      dpSize = d1Size d, dpRequireLogin = d1RequireLogin d, dpPersistenceEnabled = d1PersistenceEnabled d,
      dpJournalType = d1JournalType d, dpMessageMigration = d1MessageMigration d, dpResources = d1Resources d,
      dpStorageSize = fst (convertStorageToBrokerCluster (d1Storage d)),
      dpStorageClassName = snd (convertStorageToBrokerCluster (d1Storage d)), dpTopologySpread = d1TopologySpread d,
      dpJolokiaAgentEnabled = d1JolokiaAgentEnabled d, dpManagementRBACEnabled = d1ManagementRBACEnabled d,
      dpExtraConfigMaps = fst (convertExtraMountsToBrokerCluster (d1ExtraMounts d)),
      dpExtraSecrets = snd (convertExtraMountsToBrokerCluster (d1ExtraMounts d)), dpClustered = d1Clustered d,
      dpServiceAccountName = fst (convertPodSecurityToBrokerCluster (d1PodSecurity d)),
      dpRunAsUser = snd (convertPodSecurityToBrokerCluster (d1PodSecurity d)), dpStartupProbe = d1StartupProbe d,
      dpLivenessProbe = d1LivenessProbe d, dpReadinessProbe = d1ReadinessProbe d,
      dpEnableMetricsPlugin = d1EnableMetricsPlugin d, dpTolerations = d1Tolerations d, dpLabels = d1Labels d,
      dpNodeSelector = d1NodeSelector d, dpAffinity = convertAffinityToBrokerCluster (d1Affinity d),
      dpPodSecurityContext = d1PodSecurityContext d, dpAnnotations = d1Annotations d,
      dpPodDisruptionBudget = d1PodDisruptionBudget d, dpRevisionHistoryLimit = d1RevisionHistoryLimit d,
      dpContainerSecurityContext = d1ContainerSecurityContext d, dpExtraVolumes = d1ExtraVolumes d,
      dpExtraVolumeMounts = d1ExtraVolumeMounts d,
      dpExtraClaims = convertVolumeClaimTemplatesToBrokerCluster (d1ExtraClaims d)\<rparr>"

section \<open>Endpoints\<close>

definition convert_acceptor :: "acceptor_v1 \<Rightarrow> acceptor" where
  "convert_acceptor a =
     \<lparr>accName = ac1Name a, accPort = ac1Port a, accProtocols = ac1Protocols a, accSSLEnabled = ac1SSLEnabled a,
      accSSLSecret = ac1SSLSecret a, accEnabledCipherSuites = ac1EnabledCipherSuites a,
      accEnabledProtocols = ac1EnabledProtocols a, accNeedClientAuth = ac1NeedClientAuth a,
      accWantClientAuth = ac1WantClientAuth a, accVerifyHost = ac1VerifyHost a, accSSLProvider = ac1SSLProvider a,
      accSNIHost = ac1SNIHost a, accExpose = ac1Expose a, accExposeMode = ac1ExposeMode a,
      accAnycastPrefix = ac1AnycastPrefix a, accMulticastPrefix = ac1MulticastPrefix a,
      accConnectionsAllowed = ac1ConnectionsAllowed a, accAMQPMinLargeMessageSize = ac1AMQPMinLargeMessageSize a,
      accSupportAdvisory = ac1SupportAdvisory a,
      accSuppressInternalManagementObjects = ac1SuppressInternalManagementObjects a,
      accBindToAllInterfaces = ac1BindToAllInterfaces a, accKeyStoreProvider = ac1KeyStoreProvider a,
      accTrustStoreType = ac1TrustStoreType a, accTrustStoreProvider = ac1TrustStoreProvider a,
      accIngressHost = ac1IngressHost a, accTrustSecret = ac1TrustSecret a\<rparr>"

definition convertAcceptorsToBrokerCluster :: "acceptor_v1 list \<Rightarrow> acceptor list" where
  "convertAcceptorsToBrokerCluster acceptors = map convert_acceptor acceptors"

definition convert_connector :: "connector_v1 \<Rightarrow> connector" where
  "convert_connector c =
     \<lparr>conName = cn1Name c, conType = cn1Type c, conHost = cn1Host c, conPort = cn1Port c,
      conSSLEnabled = cn1SSLEnabled c, conSSLSecret = cn1SSLSecret c,
      conEnabledCipherSuites = cn1EnabledCipherSuites c, conEnabledProtocols = cn1EnabledProtocols c,
      conNeedClientAuth = cn1NeedClientAuth c, conWantClientAuth = cn1WantClientAuth c,
      conVerifyHost = cn1VerifyHost c, conSSLProvider = cn1SSLProvider c, conSNIHost = cn1SNIHost c,
      conExpose = cn1Expose c, conExposeMode = cn1ExposeMode c, conKeyStoreProvider = cn1KeyStoreProvider c,
      conTrustStoreType = cn1TrustStoreType c, conTrustStoreProvider = cn1TrustStoreProvider c,
      conIngressHost = cn1IngressHost c, conTrustSecret = cn1TrustSecret c\<rparr>"

definition convertConnectorsToBrokerCluster :: "connector_v1 list \<Rightarrow> connector list" where
  "convertConnectorsToBrokerCluster connectors = map convert_connector connectors"

definition convertConsoleToBrokerCluster :: "console_v1 \<Rightarrow> console" where
  "convertConsoleToBrokerCluster c =
     \<lparr>csoleName = co1Name c, csoleExpose = co1Expose c, csoleExposeMode = co1ExposeMode c,
      csoleSSLEnabled = co1SSLEnabled c, csoleSSLSecret = co1SSLSecret c, csoleUseClientAuth = co1UseClientAuth c,
      csoleIngressHost = co1IngressHost c, csoleTrustSecret = co1TrustSecret c\<rparr>"

section \<open>The status\<close>

text \<open>The record of the version of a \<open>BrokerCluster\<close> holds the flags on upgrades as well.\<close>

definition convertVersionStatusToBrokerCluster :: "version_status_v1 \<Rightarrow> upgrade_status \<Rightarrow> version_status" where
  "convertVersionStatusToBrokerCluster v u =
     \<lparr>vsImage = v1Image v, vsInitImage = v1InitImage v, vsBrokerVersion = v1BrokerVersion v, vsUpgrade = u\<rparr>"

definition convertUpgradeStatusToBrokerCluster :: "upgrade_status_v1 \<Rightarrow> upgrade_status" where
  "convertUpgradeStatusToBrokerCluster u =
     \<lparr>SecurityUpdates = u1SecurityUpdates u, MajorUpdates = u1MajorUpdates u, MinorUpdates = u1MinorUpdates u,
      PatchUpdates = u1PatchUpdates u\<rparr>"

definition convertExternalConfigsToBrokerCluster :: "external_config_v1 list \<Rightarrow> external_config list" where
  "convertExternalConfigsToBrokerCluster configs =
     map (\<lambda>c. \<lparr>ecName = ec1Name c, ecResourceVersion = ec1ResourceVersion c\<rparr>) configs"

definition convertStatusToBrokerCluster :: "artemis_status \<Rightarrow> cluster_status" where
  "convertStatusToBrokerCluster s =
     \<lparr>stConditions = s1Conditions s, stPodStatus = s1PodStatus s, stDeploymentPlanSize = s1DeploymentPlanSize s,
      stScaleLabelSelector = s1ScaleLabelSelector s,
      stExternalConfigs = convertExternalConfigsToBrokerCluster (s1ExternalConfigs s),
      stVersion = convertVersionStatusToBrokerCluster (s1Version s) (convertUpgradeStatusToBrokerCluster (s1Upgrade s))\<rparr>"

definition convertVersionStatusToArtemis :: "version_status \<Rightarrow> version_status_v1" where
  "convertVersionStatusToArtemis v =
     \<lparr>v1BrokerVersion = vsBrokerVersion v, v1Image = vsImage v, v1InitImage = vsInitImage v\<rparr>"

definition convertUpgradeStatusToArtemis :: "upgrade_status \<Rightarrow> upgrade_status_v1" where
  "convertUpgradeStatusToArtemis u =
     \<lparr>u1SecurityUpdates = SecurityUpdates u, u1MajorUpdates = MajorUpdates u, u1MinorUpdates = MinorUpdates u,
      u1PatchUpdates = PatchUpdates u\<rparr>"

definition convertExternalConfigsToArtemis :: "external_config list \<Rightarrow> external_config_v1 list" where
  "convertExternalConfigsToArtemis configs =
     map (\<lambda>c. \<lparr>ec1Name = ecName c, ec1ResourceVersion = ecResourceVersion c\<rparr>) configs"

definition convertStatusToArtemis :: "cluster_status \<Rightarrow> artemis_status" where
  "convertStatusToArtemis s =
     \<lparr>s1Conditions = stConditions s, s1PodStatus = stPodStatus s, s1DeploymentPlanSize = stDeploymentPlanSize s,
      s1ScaleLabelSelector = stScaleLabelSelector s,
      s1ExternalConfigs = convertExternalConfigsToArtemis (stExternalConfigs s),
      s1Version = convertVersionStatusToArtemis (stVersion s),
      s1Upgrade = convertUpgradeStatusToArtemis (vsUpgrade (stVersion s))\<rparr>"

definition ConvertBrokerClusterStatusToArtemis :: "broker_cluster \<Rightarrow> artemis \<Rightarrow> artemis" where
  "ConvertBrokerClusterStatusToArtemis broker artemis = artemis\<lparr>atStatus := convertStatusToArtemis (bcStatus broker)\<rparr>"

section \<open>The resource\<close>

text \<open>
  What \<open>convertSpecToBrokerCluster\<close> sets, on a resource with the rest zero: \<open>Restricted\<close> is not among it.
\<close>

definition zero_cluster :: broker_cluster where
  "zero_cluster =
     \<lparr>bcKind = '''', bcAPIVersion = '''', bcNamespace = '''', bcName = '''', bcUID = '''', bcGeneration = 0,
      bcAnnotations = [], bcRestricted = None, bcVersion = '''', bcAdminUser = '''', bcAdminPassword = '''',
      bcPlan = zero_plan, bcAcceptors = [], bcConnectors = [], bcConsole = zero_console,
      bcAddressSettings = \<lparr>ApplyRule = None, AddressSetting = []\<rparr>, bcBrokerProperties = [], bcEnv = [],
      bcIngressDomain = '''', bcTemplates = [],
      bcStatus = \<lparr>stConditions = [], stPodStatus = \<lparr>psStopped = [], psStarting = [], psReady = []\<rparr>,
        stDeploymentPlanSize = 0, stScaleLabelSelector = '''', stExternalConfigs = [],
        stVersion = \<lparr>vsImage = '''', vsInitImage = '''', vsBrokerVersion = '''',
          vsUpgrade = \<lparr>SecurityUpdates = False, MajorUpdates = False, MinorUpdates = False, PatchUpdates = False\<rparr>\<rparr>\<rparr>\<rparr>"

definition convertSpecToBrokerCluster :: "artemis_spec \<Rightarrow> broker_cluster \<Rightarrow> broker_cluster" where
  "convertSpecToBrokerCluster s cr =
     cr\<lparr>bcAdminUser := a1AdminUser s, bcAdminPassword := a1AdminPassword s,
       bcPlan := convertDeploymentPlanToBrokerCluster (a1Plan s),
       bcAcceptors := convertAcceptorsToBrokerCluster (a1Acceptors s),
       bcConnectors := convertConnectorsToBrokerCluster (a1Connectors s),
       bcConsole := convertConsoleToBrokerCluster (a1Console s), bcVersion := a1Version s,
       bcAddressSettings := convertAddressSettingsToBrokerCluster (a1AddressSettings s),
       bcBrokerProperties := a1BrokerProperties s, bcEnv := a1Env s, bcIngressDomain := a1IngressDomain s,
       bcTemplates := convertResourceTemplatesToBrokerCluster (a1Templates s)\<rparr>"

text \<open>The kind stays, so that owner references point to the \<open>ActiveMQArtemis\<close>.\<close>

definition ConvertArtemisToBrokerCluster :: "artemis \<Rightarrow> broker_cluster" where
  "ConvertArtemisToBrokerCluster artemis =
     (convertSpecToBrokerCluster (atSpec artemis) zero_cluster)
       \<lparr>bcAPIVersion := ''broker.amq.io/v1beta1'', bcKind := ''ActiveMQArtemis'', bcNamespace := atNamespace artemis,
        bcName := atName artemis, bcUID := atUID artemis, bcGeneration := atGeneration artemis,
        bcAnnotations := atAnnotations artemis, bcStatus := convertStatusToBrokerCluster (atStatus artemis)\<rparr>"

end
