(* ===== verification/Artemis_Reconcile.thy ===== *)
theory Artemis_Reconcile
  imports Artemis_Conversion Cluster_Reconcile
begin

text \<open>
  The controller of \<open>ActiveMQArtemis\<close> (\<open>activemqartemis_controller.go\<close>): the resource is converted to a
  \<open>BrokerCluster\<close>, which runs through the steps of the controller of clusters, and the status is converted back
  and written when it differs.  Then the registry of security handlers, whose changes reconcile the resources they
  apply to.
\<close>

section \<open>The status\<close>

definition externalConfigsModified :: "external_config_v1 list \<Rightarrow> external_config_v1 list \<Rightarrow> bool" where
  "externalConfigsModified desiredExternalConfigs currentExternalConfigs =
     list_ex (\<lambda>cfg. list_ex (\<lambda>curCfg. ec1Name curCfg = ec1Name cfg \<and> ec1ResourceVersion curCfg \<noteq> ec1ResourceVersion cfg)
       currentExternalConfigs) desiredExternalConfigs"

definition EqualCRStatus :: "artemis_status \<Rightarrow> artemis_status \<Rightarrow> bool" where
  "EqualCRStatus s1 s2 \<longleftrightarrow>
     \<not> (s1DeploymentPlanSize s1 \<noteq> s1DeploymentPlanSize s2 \<or>
        s1ScaleLabelSelector s1 \<noteq> s1ScaleLabelSelector s2 \<or>
        s1Version s1 \<noteq> s1Version s2 \<or>
        length (s1ExternalConfigs s2) \<noteq> length (s1ExternalConfigs s1) \<or>
        externalConfigsModified (s1ExternalConfigs s2) (s1ExternalConfigs s1) \<or>
        s1PodStatus s1 \<noteq> s1PodStatus s2 \<or>
        length (s1Conditions s1) \<noteq> length (s1Conditions s2) \<or>
        conditionsModified (s1Conditions s2) (s1Conditions s1))"

text \<open>The resource with its summary, whether the status is written, and the error, if any.\<close>

definition UpdateCRStatus ::
  "meta_api \<Rightarrow> (api_error + artemis) \<Rightarrow> (artemis \<Rightarrow> string option) \<Rightarrow> artemis \<Rightarrow> artemis \<times> bool \<times> string option" where
  "UpdateCRStatus M current update a =
     (let a1 = a\<lparr>atStatus := (atStatus a)\<lparr>s1Conditions := SetReadyCondition M (s1Conditions (atStatus a))\<rparr>\<rparr>
      in case current of
           Inl err \<Rightarrow> (a1, False, Some (api_error_text err))
         | Inr cur \<Rightarrow>
             if \<not> EqualCRStatus (atStatus a1) (atStatus cur) then (a1, True, update a1) else (a1, False, None))"

section \<open>Reconcile\<close>

text \<open>The client: that of the controller of clusters, and the reads and writes of the resource itself.\<close>

record 's artemis_client =
  arCluster :: "'s cluster_client"
  arGet :: "'s \<Rightarrow> string \<Rightarrow> string \<Rightarrow> api_error + artemis"
  arUpdateStatus :: "'s \<Rightarrow> artemis \<Rightarrow> string option \<times> 's"

record ('w, 's) artemis_outcome =
  arRequeue :: bool
  arError :: "string option"
  arResource :: "artemis option"
  arAnnounced :: "string list"
  arServer :: 's
  arBrokers :: 'w

definition pods_not_ready :: "meta_api \<Rightarrow> broker_cluster \<Rightarrow> bool" where
  "pods_not_ready M cr =
     (case FindStatusCondition M (bcConditions cr) DeployedConditionType of
        None \<Rightarrow> False
      | Some c \<Rightarrow> cStatus c = ConditionFalse \<and> cReason c = DeployedConditionNotReadyReason)"

text \<open>A request with an error is retried by the queue, and asks for no other retry.\<close>

definition finish_artemis ::
  "'w cluster_env \<Rightarrow> 's artemis_client \<Rightarrow> pod_status \<Rightarrow> string \<times> string \<Rightarrow> artemis \<Rightarrow> bool \<Rightarrow> bool \<Rightarrow> string option \<Rightarrow>
     broker_cluster \<Rightarrow> 's \<Rightarrow> 'w \<Rightarrow> ('w, 's) artemis_outcome" where
  "finish_artemis E AC lastStatus request a blocked requeueRequest err cr s w =
     (let B = (ceBase E)\<lparr>beCluster := oclReads (ccObjects (arCluster AC)) s\<rparr>
      in case ProcessStatus (status_of B NewBrokerReconcilerImpl) (beOs B) (beGoarch B) lastStatus
                (UpdateBlockedStatus (beMeta B) blocked cr) err of
           (cr1, announced) \<Rightarrow>
             (case UpdateCRStatus (beMeta B) (arGet AC s (fst request) (snd request))
                     (\<lambda>x. fst (arUpdateStatus AC s x)) (ConvertBrokerClusterStatusToArtemis cr1 a) of
                (a2, written, crStatusUpdateErr) \<Rightarrow>
                  \<lparr>arRequeue = (requeueRequest \<or> pods_not_ready (beMeta B) cr1 \<or> crStatusUpdateErr \<noteq> None \<or>
                     (\<not> blocked \<and> hasExtraMounts cr1)) \<and> err = None,
                   arError = err, arResource = Some a2, arAnnounced = announced,
                   arServer = (if written then snd (arUpdateStatus AC s a2) else s), arBrokers = w\<rparr>))"

definition check_artemis ::
  "'w cluster_env \<Rightarrow> 's artemis_client \<Rightarrow> pod_status \<Rightarrow> string \<times> string \<Rightarrow> artemis \<Rightarrow> bool \<Rightarrow> bool \<Rightarrow> ('w, 's) processed \<Rightarrow>
     ('w, 's) artemis_outcome go_result" where
  "check_artemis E AC lastStatus request a blocked requeueRequest P =
     (case ProcessBrokerClusterStatus
             (status_of ((ceBase E)\<lparr>beCluster := oclReads (ccObjects (arCluster AC)) (poServer P)\<rparr>) (poLoop P))
             (poCluster P) (poSession P) of
        None \<Rightarrow> Panic
      | Some (retry, cr, S) \<Rightarrow>
          Ok (finish_artemis E AC lastStatus request a blocked (requeueRequest \<or> retry) (poError P) cr (poServer P)
            (snWorld S)))"

definition reconcile_artemis ::
  "'w cluster_env \<Rightarrow> 's artemis_client \<Rightarrow> object_compare \<Rightarrow> pod_status \<Rightarrow> string \<times> string \<Rightarrow> artemis \<Rightarrow> 's \<Rightarrow> 'w \<Rightarrow>
     ('w, 's) artemis_outcome go_result" where
  "reconcile_artemis E AC CMP lastStatus request a s w =
     (let cr = ConvertArtemisToBrokerCluster a;
          blocked = cluster_blocked cr
      in case validate (validation_of ((ceBase E)\<lparr>beCluster := oclReads (ccObjects (arCluster AC)) s\<rparr>)) cr of
           (cr1, valid, requeueRequest) \<Rightarrow>
             (if \<not> valid then Ok (finish_artemis E AC lastStatus request a blocked requeueRequest None cr1 s w)
              else if blocked
              then check_artemis E AC lastStatus request a blocked requeueRequest
                     \<lparr>poError = None, poCluster = cr1, poLoop = NewBrokerReconcilerImpl, poSession = new_session w,
                      poServer = s\<rparr>
              else (case cluster_Process E (arCluster AC) CMP cr1 (new_session w) s of
                      Panic \<Rightarrow> Panic
                    | Err e \<Rightarrow> Err e
                    | Ok P \<Rightarrow> check_artemis E AC lastStatus request a blocked requeueRequest P)))"

definition artemis_Reconcile ::
  "'w cluster_env \<Rightarrow> 's artemis_client \<Rightarrow> object_compare \<Rightarrow> pod_status \<Rightarrow> string \<times> string \<Rightarrow> 's \<Rightarrow> 'w \<Rightarrow>
     ('w, 's) artemis_outcome go_result" where
  "artemis_Reconcile E AC CMP lastStatus request s w =
     (case arGet AC s (fst request) (snd request) of
        Inl (NotFound err) \<Rightarrow>
          Ok \<lparr>arRequeue = False, arError = None, arResource = None, arAnnounced = [], arServer = s, arBrokers = w\<rparr>
      | Inl (ApiError err) \<Rightarrow>
          Ok \<lparr>arRequeue = False, arError = Some (api_error_text (ApiError err)), arResource = None, arAnnounced = [],
              arServer = s, arBrokers = w\<rparr>
      | Inr a \<Rightarrow> reconcile_artemis E AC CMP lastStatus request a s w)"

section \<open>Security handlers\<close>

text \<open>
  The registry is keyed by the resource of the handler; a change asks for the reconcile of every resource in the list
  that the handler applies to, and the result is these with the error of the listing.
\<close>

type_synonym registry = "string \<times> string \<rightharpoonup> security_handler"

definition UpdatePodForSecurity ::
  "(string + artemis list) \<Rightarrow> security_handler \<Rightarrow> artemis list \<times> string option" where
  "UpdatePodForSecurity existingCrs h =
     (case existingCrs of
        Inl err \<Rightarrow> ([], Some err)
      | Inr items \<Rightarrow> (filter (\<lambda>a. IsApplicableFor h (atNamespace a, atName a)) items, None))"

definition RemoveBrokerConfigHandler ::
  "(string + artemis list) \<Rightarrow> string \<times> string \<Rightarrow> registry \<Rightarrow> registry \<times> artemis list" where
  "RemoveBrokerConfigHandler existingCrs key handlers =
     (case handlers key of
        None \<Rightarrow> (handlers, [])
      | Some oldHandler \<Rightarrow> (handlers(key := None), fst (UpdatePodForSecurity existingCrs oldHandler)))"

definition AddBrokerConfigHandler ::
  "(string + artemis list) \<Rightarrow> string \<times> string \<Rightarrow> security_handler \<Rightarrow> bool \<Rightarrow> registry \<Rightarrow>
     registry \<times> artemis list \<times> string option" where
  "AddBrokerConfigHandler existingCrs key h toReconcile handlers =
     (handlers(key \<mapsto> h), if toReconcile then UpdatePodForSecurity existingCrs h else ([], None))"

end
