(* ===== verification/Artemis_Properties.thy ===== *)
theory Artemis_Properties
  imports Artemis_Reconcile Sample_Resources
begin

text \<open>
  The controller of \<open>ActiveMQArtemis\<close> against that of \<open>BrokerCluster\<close>: what the conversion keeps, that the same
  requests are made of the server, and what the conversion loses.
\<close>

section \<open>The conversion of the status\<close>

lemma status_to_artemis [simp]: "convertStatusToArtemis (convertStatusToBrokerCluster s) = s"
  by (cases s)
    (simp add: convertStatusToArtemis_def convertStatusToBrokerCluster_def convertExternalConfigsToArtemis_def
      convertExternalConfigsToBrokerCluster_def convertVersionStatusToArtemis_def convertVersionStatusToBrokerCluster_def
      convertUpgradeStatusToArtemis_def convertUpgradeStatusToBrokerCluster_def comp_def map_idI)

lemma status_to_cluster [simp]: "convertStatusToBrokerCluster (convertStatusToArtemis s) = s"
  by (cases s)
    (simp add: convertStatusToArtemis_def convertStatusToBrokerCluster_def convertExternalConfigsToArtemis_def
      convertExternalConfigsToBrokerCluster_def convertVersionStatusToArtemis_def convertVersionStatusToBrokerCluster_def
      convertUpgradeStatusToArtemis_def convertUpgradeStatusToBrokerCluster_def comp_def map_idI)

lemma status_sel [simp]:
  "s1Conditions (convertStatusToArtemis s) = stConditions s" "s1PodStatus (convertStatusToArtemis s) = stPodStatus s"
  "s1DeploymentPlanSize (convertStatusToArtemis s) = stDeploymentPlanSize s"
  "s1ScaleLabelSelector (convertStatusToArtemis s) = stScaleLabelSelector s"
  "s1ExternalConfigs (convertStatusToArtemis s) = convertExternalConfigsToArtemis (stExternalConfigs s)"
  "s1Version (convertStatusToArtemis s) = convertVersionStatusToArtemis (stVersion s)"
  by (simp_all add: convertStatusToArtemis_def)

lemma modified_configs [simp]:
  "externalConfigsModified (convertExternalConfigsToArtemis d) (convertExternalConfigsToArtemis c) =
     brokerClusterExternalConfigsModified d c"
  by (simp add: externalConfigsModified_def brokerClusterExternalConfigsModified_def convertExternalConfigsToArtemis_def
      list_ex_iff)

lemma length_configs [simp]: "length (convertExternalConfigsToArtemis c) = length c"
  by (simp add: convertExternalConfigsToArtemis_def)

lemma equal_status: "EqualCRStatus (convertStatusToArtemis s1) (convertStatusToArtemis s2) = EqualBrokerClusterCRStatus s1 s2"
  by (simp add: EqualCRStatus_def EqualBrokerClusterCRStatus_def convertVersionStatusToArtemis_def) blast

lemma equal_current: "EqualCRStatus (convertStatusToArtemis s) cur = EqualBrokerClusterCRStatus s (convertStatusToBrokerCluster cur)"
  using equal_status [of s "convertStatusToBrokerCluster cur"] by simp

section \<open>The client\<close>

text \<open>The client of a cluster's controller that reads and writes the \<open>ActiveMQArtemis\<close> of a request.\<close>

definition cluster_view :: "'s artemis_client \<Rightarrow> string \<times> string \<Rightarrow> artemis \<Rightarrow> 's cluster_client" where
  "cluster_view AC request a = (arCluster AC)
     \<lparr>ccGetCluster := (\<lambda>s ns n. map_sum id ConvertArtemisToBrokerCluster (arGet AC s (fst request) (snd request))),
      ccUpdateStatus := (\<lambda>s cr. arUpdateStatus AC s (ConvertBrokerClusterStatusToArtemis cr a))\<rparr>"

lemma view_sel [simp]:
  "ccObjects (cluster_view AC request a) = ccObjects (arCluster AC)"
  "ccGetObject (cluster_view AC request a) = ccGetObject (arCluster AC)"
  "ccListAll (cluster_view AC request a) = ccListAll (arCluster AC)"
  "ccGetScaledown (cluster_view AC request a) = ccGetScaledown (arCluster AC)"
  "ccCreateScaledown (cluster_view AC request a) = ccCreateScaledown (arCluster AC)"
  "ccDeleteScaledown (cluster_view AC request a) = ccDeleteScaledown (arCluster AC)"
  "ccGetCluster (cluster_view AC request a) s ns n = map_sum id ConvertArtemisToBrokerCluster (arGet AC s (fst request) (snd request))"
  "ccUpdateStatus (cluster_view AC request a) s cr = arUpdateStatus AC s (ConvertBrokerClusterStatusToArtemis cr a)"
  by (simp_all add: cluster_view_def)

lemma view_at_server [simp]: "at_server (cluster_view AC request a) s E = at_server (arCluster AC) s E"
  by (simp add: at_server_def)

lemma view_deployed [simp]:
  "cluster_CurrentDeployedResources E (cluster_view AC request a) cr L s = cluster_CurrentDeployedResources E (arCluster AC) cr L s"
proof -
  have "release_ordinal (cluster_view AC request a) = release_ordinal (arCluster AC)"
    by (simp add: fun_eq_iff release_ordinal_def split: option.split)
  then show ?thesis
    by (simp add: cluster_CurrentDeployedResources_def checkExistingPersistentVolumes_def cluster_GetDeployedResources_def)
qed

lemma view_plan [simp]: "apply_plan E (cluster_view AC request a) cr spec L S s = apply_plan E (arCluster AC) cr spec L S s"
proof -
  have "syncMessageMigration (cluster_view AC request a) = syncMessageMigration (arCluster AC)"
    by (simp add: fun_eq_iff syncMessageMigration_def Let_def split: sum.split)
  then have "plan_step (cluster_view AC request a) = plan_step (arCluster AC)" by (simp add: fun_eq_iff plan_step_def split: plan_action.split option.split)
  then show ?thesis by (simp add: apply_plan_def Let_def)
qed

lemma view_process [simp]:
  "cluster_Process E (cluster_view AC request a) CMP cr S s = cluster_Process E (arCluster AC) CMP cr S s"
proof -
  have "process_writes E (cluster_view AC request a) CMP = process_writes E (arCluster AC) CMP"
    by (simp add: fun_eq_iff process_writes_def)
  then have "process_requested E (cluster_view AC request a) CMP = process_requested E (arCluster AC) CMP"
    by (simp add: fun_eq_iff process_requested_def split: prod.split go_result.split option.split)
  then show ?thesis by (simp add: cluster_Process_def split: prod.split go_result.split)
qed

section \<open>The two controllers\<close>

text \<open>The same outcome, but for the retry.\<close>

definition same_outcome :: "artemis \<Rightarrow> ('w, 's) cluster_outcome \<Rightarrow> ('w, 's) artemis_outcome \<Rightarrow> bool" where
  "same_outcome a oc oa \<longleftrightarrow> arServer oa = coServer oc \<and> arBrokers oa = coBrokers oc \<and> arError oa = coError oc \<and>
     arAnnounced oa = coAnnounced oc \<and>
     arResource oa = map_option (\<lambda>cr. ConvertBrokerClusterStatusToArtemis cr a) (coResource oc) \<and>
     (coRequeue oc \<and> coError oc = None \<longrightarrow> arRequeue oa) \<and> (arRequeue oa \<longrightarrow> coError oc = None)"

lemma update_status:
  assumes "UpdateBrokerClusterCRStatus M (map_sum id (\<lambda>x. bcStatus (ConvertArtemisToBrokerCluster x)) cur)
      (\<lambda>c. fst (put (ConvertBrokerClusterStatusToArtemis c a))) cr = (cr2, written, err)"
  shows "UpdateCRStatus M cur (\<lambda>x. fst (put x)) (ConvertBrokerClusterStatusToArtemis cr a) =
    (ConvertBrokerClusterStatusToArtemis cr2 a, written, err)"
proof -
  let ?cr = "set_conditions (SetReadyCondition M (bcConditions cr)) cr"
  have a1: "(ConvertBrokerClusterStatusToArtemis cr a)\<lparr>atStatus := (atStatus (ConvertBrokerClusterStatusToArtemis cr a))
      \<lparr>s1Conditions := SetReadyCondition M (s1Conditions (atStatus (ConvertBrokerClusterStatusToArtemis cr a)))\<rparr>\<rparr> =
      ConvertBrokerClusterStatusToArtemis ?cr a"
    by (simp add: ConvertBrokerClusterStatusToArtemis_def set_conditions_def convertStatusToArtemis_def)
  have st: "atStatus (ConvertBrokerClusterStatusToArtemis c a) = convertStatusToArtemis (bcStatus c)" for c
    by (simp add: ConvertBrokerClusterStatusToArtemis_def)
  have b: "bcStatus (ConvertArtemisToBrokerCluster x) = convertStatusToBrokerCluster (atStatus x)" for x
    by (simp add: ConvertArtemisToBrokerCluster_def)
  show ?thesis
  proof (cases cur)
    case (Inl e)
    with assms show ?thesis unfolding UpdateCRStatus_def UpdateBrokerClusterCRStatus_def Let_def a1 by auto
  next
    case (Inr x)
    with assms show ?thesis
      unfolding UpdateCRStatus_def UpdateBrokerClusterCRStatus_def Let_def a1
      by (auto simp: st b equal_current split: if_splits)
  qed
qed

lemma set_ready_mounts: "UpdateBrokerClusterCRStatus M cur u cr = (cr2, written, err) \<Longrightarrow> hasExtraMounts cr2 = hasExtraMounts cr"
  by (auto simp: UpdateBrokerClusterCRStatus_def Let_def hasExtraMounts_def set_conditions_def split: sum.splits if_splits)

lemma finish_same:
  "same_outcome a (finish_cluster E (cluster_view AC request a) lastStatus blocked requeue err cr s w)
     (finish_artemis E AC lastStatus request a blocked requeue err cr s w)"
proof -
  let ?B = "(ceBase E)\<lparr>beCluster := oclReads (ccObjects (arCluster AC)) s\<rparr>"
  obtain cr1 announced where p: "ProcessStatus (status_of ?B NewBrokerReconcilerImpl) (beOs ?B) (beGoarch ?B) lastStatus
      (UpdateBlockedStatus (beMeta ?B) blocked cr) err = (cr1, announced)" by fastforce
  obtain cr2 written uerr where u: "UpdateBrokerClusterCRStatus (beMeta ?B)
      (map_sum id (\<lambda>x. bcStatus (ConvertArtemisToBrokerCluster x)) (arGet AC s (fst request) (snd request)))
      (\<lambda>c. fst (arUpdateStatus AC s (ConvertBrokerClusterStatusToArtemis c a))) cr1 = (cr2, written, uerr)" by (metis prod_cases3)
  have cur: "current_cluster_status (cluster_view AC request a) s cr1 =
      map_sum id (\<lambda>x. bcStatus (ConvertArtemisToBrokerCluster x)) (arGet AC s (fst request) (snd request))"
    by (cases "arGet AC s (fst request) (snd request)") (simp_all add: current_cluster_status_def)
  note v = update_status [OF u]
  show ?thesis
    using p u v cur set_ready_mounts [OF u]
    by (simp add: finish_cluster_def finish_artemis_def same_outcome_def Let_def) blast
qed

text \<open>A panic or an error is the same.\<close>

fun same_result :: "artemis \<Rightarrow> ('w, 's) cluster_outcome go_result \<Rightarrow> ('w, 's) artemis_outcome go_result \<Rightarrow> bool" where
  "same_result a (Ok oc) (Ok oa) = same_outcome a oc oa"
| "same_result a (Err e) (Err e') = (e = e')"
| "same_result a Panic Panic = True"
| "same_result a _ _ = False"

lemma check_same:
  "same_result a (check_cluster E (cluster_view AC request a) lastStatus blocked requeue P)
     (check_artemis E AC lastStatus request a blocked requeue P)"
  by (simp add: check_cluster_def check_artemis_def finish_same split: option.split)

text \<open>
  C13: an \<open>ActiveMQArtemis\<close> is reconciled as the \<open>BrokerCluster\<close> it is converted to.  The same requests are made of the
  server and the brokers, with the same error and announcements, and the status that is left is that of the cluster;
  a retry the controller of clusters asks for is asked for here as well, unless the request failed.
\<close>

theorem artemis_reconciled_as_cluster:
  assumes "arGet AC s (fst request) (snd request) = Inr a"
  shows "case cluster_Reconcile E (cluster_view AC request a) CMP lastStatus request s w of
      Panic \<Rightarrow> artemis_Reconcile E AC CMP lastStatus request s w = Panic
    | Err e \<Rightarrow> artemis_Reconcile E AC CMP lastStatus request s w = Err e
    | Ok oc \<Rightarrow> (\<exists>oa. artemis_Reconcile E AC CMP lastStatus request s w = Ok oa \<and>
        arServer oa = coServer oc \<and> arBrokers oa = coBrokers oc \<and> arError oa = coError oc \<and>
        arAnnounced oa = coAnnounced oc \<and>
        arResource oa = map_option (\<lambda>cr. ConvertBrokerClusterStatusToArtemis cr a) (coResource oc) \<and>
        (coRequeue oc \<and> coError oc = None \<longrightarrow> arRequeue oa) \<and> (arRequeue oa \<longrightarrow> coError oc = None))"
proof -
  let ?V = "validation_of ((ceBase E)\<lparr>beCluster := oclReads (ccObjects (arCluster AC)) s\<rparr>)"
  obtain cr1 valid requeue where v: "validate ?V (ConvertArtemisToBrokerCluster a) = (cr1, valid, requeue)" by (metis prod_cases3)
  have "same_result a (cluster_Reconcile E (cluster_view AC request a) CMP lastStatus request s w)
      (artemis_Reconcile E AC CMP lastStatus request s w)"
  proof (cases "valid \<and> \<not> cluster_blocked (ConvertArtemisToBrokerCluster a)")
    case True
    with assms v show ?thesis
      by (simp add: cluster_Reconcile_def artemis_Reconcile_def reconcile_cluster_def reconcile_artemis_def Let_def check_same
          split: go_result.split)
  next
    case False
    with assms v show ?thesis
      by (auto simp: cluster_Reconcile_def artemis_Reconcile_def reconcile_cluster_def reconcile_artemis_def Let_def check_same
          finish_same)
  qed
  then show ?thesis
    by (cases "cluster_Reconcile E (cluster_view AC request a) CMP lastStatus request s w";
        cases "artemis_Reconcile E AC CMP lastStatus request s w") (simp_all add: same_outcome_def)
qed

section \<open>A sample\<close>

text \<open>An \<open>ActiveMQArtemis\<close> with an acceptor, restricted, that asks for a config map that is not there.\<close>

definition sample_plan_v1 :: deployment_plan_v1 where
  "sample_plan_v1 =
     \<lparr>d1Image = '''', d1InitImage = '''', d1ImagePullSecrets = [], d1Size = Some 2, d1RequireLogin = False,
      d1PersistenceEnabled = False, d1JournalType = '''', d1MessageMigration = None, d1Resources = '''',
      d1Storage = \<lparr>sg1Size = '''', sg1StorageClassName = ''''\<rparr>, d1TopologySpread = [],
      d1JolokiaAgentEnabled = False, d1ManagementRBACEnabled = False,
      d1ExtraMounts = \<lparr>em1ConfigMaps = [''broker-logging-config''], em1Secrets = []\<rparr>, d1Clustered = None,
      d1PodSecurity = \<lparr>po1ServiceAccountName = None, po1RunAsUser = None\<rparr>, d1StartupProbe = None,
      d1LivenessProbe = None, d1ReadinessProbe = None, d1EnableMetricsPlugin = None, d1Tolerations = [],
      d1Labels = [], d1NodeSelector = [],
      d1Affinity = \<lparr>af1PodAffinity = None, af1PodAntiAffinity = None, af1NodeAffinity = None\<rparr>,
      d1PodSecurityContext = None, d1Annotations = [], d1PodDisruptionBudget = None, d1RevisionHistoryLimit = None,
      d1ContainerSecurityContext = None, d1ExtraVolumes = [], d1ExtraVolumeMounts = [], d1ExtraClaims = []\<rparr>"

definition sample_spec_v1 :: artemis_spec where
  "sample_spec_v1 =
     \<lparr>a1AdminUser = ''admin'', a1AdminPassword = ''secret'', a1Plan = sample_plan_v1, a1Acceptors = [], a1Connectors = [],
      a1Console = \<lparr>co1Name = '''', co1Expose = False, co1ExposeMode = None, co1SSLEnabled = False, co1SSLSecret = '''',
        co1UseClientAuth = False, co1IngressHost = '''', co1TrustSecret = None\<rparr>,
      a1Version = '''', a1AddressSettings = \<lparr>v1ApplyRule = None, v1AddressSetting = []\<rparr>, a1BrokerProperties = [],
      a1Env = [], a1IngressDomain = '''', a1Templates = [], a1Restricted = Some True\<rparr>"

definition sample_artemis :: artemis where
  "sample_artemis =
     \<lparr>atNamespace = ''dev'', atName = ''amq'', atUID = ''u1'', atGeneration = 1, atAnnotations = [],
      atSpec = sample_spec_v1, atStatus = convertStatusToArtemis (bcStatus zero_cluster)\<rparr>"

definition sample_artemis_client :: "object_store artemis_client" where
  "sample_artemis_client =
     \<lparr>arCluster = tls_client, arGet = (\<lambda>s ns n. Inr sample_artemis), arUpdateStatus = (\<lambda>s a. (None, s))\<rparr>"

lemma sample_get: "arGet sample_artemis_client s (fst request) (snd request) = Inr sample_artemis"
  by (simp add: sample_artemis_client_def)

lemma sample_rejected:
  assumes "ckGetConfigMap (veKube V) ''dev'' ''broker-logging-config'' = Inl err"
  shows "\<exists>cr. validate V (ConvertArtemisToBrokerCluster sample_artemis) = (cr, False, True)"
proof -
  let ?cr = "ConvertArtemisToBrokerCluster sample_artemis"
  have c: "bcNamespace ?cr = ''dev''" "dpExtraConfigMaps (bcPlan ?cr) = [''broker-logging-config'']" "\<not> IsRestricted ?cr"
    by (simp_all add: ConvertArtemisToBrokerCluster_def convertSpecToBrokerCluster_def convertDeploymentPlanToBrokerCluster_def
        convertExtraMountsToBrokerCluster_def sample_artemis_def sample_spec_v1_def sample_plan_v1_def zero_cluster_def IsRestricted_def)
  obtain k where e: "check_config_map V ''dev'' ''broker-logging-config'' = Some (k, True)" "cStatus k = ConditionFalse"
    using assms by (simp add: check_config_map_def missing_def valid_failure_def mk_condition_def Let_def)
  then have "fst (validateExtraMounts V ?cr) = Some k" "snd (validateExtraMounts V ?cr)"
    by (simp_all add: validateExtraMounts_def c)
  then have "validation_chain V ?cr = (k, True)"
    using e by (cases "validateExtraMounts V ?cr") (simp add: validation_chain_def link_def link_keep_def)
  with c e show ?thesis by (simp add: validate_def)
qed

definition no_pods :: pod_status where
  "no_pods = \<lparr>psStopped = [], psStarting = [], psReady = []\<rparr>"

theorem artemis_reconciled_as_cluster_witness:
  "\<exists>oa oc. artemis_Reconcile tls_env sample_artemis_client sample_object_compare no_pods (''dev'', ''amq'') (\<lambda>k. None) () = Ok oa \<and>
     cluster_Reconcile tls_env (cluster_view sample_artemis_client (''dev'', ''amq'') sample_artemis) sample_object_compare
       no_pods (''dev'', ''amq'') (\<lambda>k. None) () = Ok oc \<and>
     arServer oa = coServer oc \<and> arError oa = coError oc \<and>
     arResource oa = map_option (\<lambda>cr. ConvertBrokerClusterStatusToArtemis cr sample_artemis) (coResource oc)"
proof -
  let ?CL = "cluster_view sample_artemis_client (''dev'', ''amq'') sample_artemis"
  let ?V = "validation_of (sample_broker_env\<lparr>beCluster := oclReads (ccObjects ?CL) (\<lambda>k. None)\<rparr>)"
  have "ckGetConfigMap (veKube ?V) ''dev'' ''broker-logging-config'' = Inl (NotFound ''not found'')"
    by (simp add: validation_of_def sample_artemis_client_def full_kube_def sample_cluster_kube_def)
  then obtain cr where v: "validate ?V (ConvertArtemisToBrokerCluster sample_artemis) = (cr, False, True)"
    using sample_rejected by blast
  then obtain oc where oc: "cluster_Reconcile tls_env ?CL sample_object_compare no_pods (''dev'', ''amq'') (\<lambda>k. None) () = Ok oc"
    using sample_get [of "\<lambda>k. None" "(''dev'', ''amq'')"] by (simp add: cluster_Reconcile_def reconcile_cluster_def Let_def)
  with artemis_reconciled_as_cluster [OF sample_get, where E = tls_env and request = "(''dev'', ''amq'')"
      and CMP = sample_object_compare and lastStatus = no_pods and s = "\<lambda>k. None" and w = "()"]
  show ?thesis by auto
qed

section \<open>The flag the conversion loses\<close>

text \<open>
  C32: an \<open>ActiveMQArtemis\<close> that asks for the restricted mode is not rejected.  The conversion does not copy the flag, so
  the resource is validated and reconciled as the same one without it, where a \<open>BrokerCluster\<close> with the flag is
  found invalid and left alone, without a retry.
\<close>

theorem restricted_flag_lost:
  "ConvertArtemisToBrokerCluster (a\<lparr>atSpec := (atSpec a)\<lparr>a1Restricted := r\<rparr>\<rparr>) = ConvertArtemisToBrokerCluster a \<and>
   \<not> IsRestricted (ConvertArtemisToBrokerCluster a) \<and>
   snd (validate V ((ConvertArtemisToBrokerCluster a)\<lparr>bcRestricted := Some True\<rparr>)) = (False, False)"
  by (simp add: ConvertArtemisToBrokerCluster_def convertSpecToBrokerCluster_def zero_cluster_def IsRestricted_def validate_def)

end
