(* ===== verification/Spec2Isabelle.thy ===== *)
theory Spec2Isabelle
  imports App_Properties Loop_Properties Service_Properties Support_Properties Cluster_Properties
    Restricted_Properties Resource_Properties Drain_Properties Artemis_Properties
begin

text \<open>
  \<^bold>\<open>The ActiveMQ Artemis operator.\<close>  The operator is a set of Kubernetes controllers, in Go.  A user declares
  broker services (\<open>BrokerService\<close>), applications that want to use a broker (\<open>BrokerApp\<close>) and brokers
  (\<open>Broker\<close>, \<open>BrokerCluster\<close>); every controller compares what is declared with what the server holds and
  writes the difference.  This development models the parts that decide: which service an application
  is bound to and on which port, what a service renders for its applications, when the two report
  readiness, how desired resources reach the server, and how a \<open>BrokerCluster\<close> is validated, scaled down
  and reported on.

  \<^bold>\<open>The parts and their theories.\<close>
  \<^item> \<open>Prelude\<close>, \<open>Go_Strings\<close>: fixed-width integers, the Go functions on strings and numbers the code calls
    (\<open>strings\<close>, \<open>strconv\<close>), the range over a map as a parameter that permutes its keys, error results.
  \<^item> \<open>Conditions\<close>: status conditions (\<open>pkg/utils/common/conditions.go\<close>); the conjunction behind Ready and the
    comparisons that decide whether a status is written.
  \<^item> \<open>Api_Types\<close>: the records of \<open>api/v1beta2\<close>, the errors of \<open>condition_error.go\<close>, and the server as the
    functions the controllers call on it.
  \<^item> \<open>Resource_Names\<close>: names, identities and ordinals (\<open>pkg/utils/namer\<close>, parts of \<open>common.go\<close> and
    \<open>brokerservice_controller.go\<close>); the panics of the ordinal parser are a value.
  \<^item> \<open>Port_Assignment\<close>: \<open>port_assignment.go\<close>, with the locale \<open>port_pool\<close> of what an allocator promises.
  \<^item> \<open>App_Selector\<close>: \<open>pkg/appselector/cel.go\<close>, the compiled selectors and their cache.
  \<^item> \<open>App_Validation\<close>, \<open>App_Placement\<close>, \<open>App_Reconcile\<close>: \<open>brokerapp_controller.go\<close>; the validation of a
    specification, the search for a service, and the reconcile with its conditions and watches.
  \<^item> \<open>App_Cluster\<close>: the applications of a cluster as a step relation; create, edit, delete and reconcile in
    any order, and the invariant on ports.
  \<^item> \<open>Reconciler_Loop\<close>: \<open>reconciler_loop.go\<close> and \<open>pkg/resources/k8s_actions.go\<close>, with the locale
    \<open>resource_tracker\<close> of what tracking a desired resource promises.
  \<^item> \<open>Operator_Secrets\<close>: the environment and the secrets of the operator (\<open>common.go\<close>).
  \<^item> \<open>Service_Provisioning\<close>, \<open>Service_Authority\<close>, \<open>Service_Reconcile\<close>: \<open>brokerservice_controller.go\<close>; the
    tracking of addresses and the text rendered from it, the authority that text grants, and the
    reconcile of a service with its status and the handler of application events.
  \<^item> \<open>Broker_Version\<close>: \<open>version/version.go\<close> and the resolution of versions and images.
  \<^item> \<open>Broker_Properties\<close>: the files of broker properties, their checksums and the check for duplicates
    (\<open>brokercluster_reconciler.go\<close>).
  \<^item> \<open>Cluster_Types\<close>: the resource \<open>BrokerCluster\<close> (\<open>api/v1beta2/brokercluster_types.go\<close>) and the endpoints of its
    brokers (\<open>pkg/utils/jolokia_client\<close>); the calls to a broker are functions on the state of the brokers.
  \<^item> \<open>Broker_Session\<close>, \<open>Config_Projection\<close>: the status checks of \<open>brokercluster_reconciler.go\<close>; the errors and the
    conditions they become, the cache of one reconcile, and the comparison of a projected secret with the
    checksums every broker reports.
  \<^item> \<open>Scale_Down\<close>: the deployment plan and the machine of the condition \<open>ScalingDown\<close>, whose states are its reasons
    (configuration pending, pod to be emptied, pod to be deleted).
  \<^item> \<open>Cluster_Status\<close>: \<open>ProcessBrokerClusterStatus\<close>, the pods and the condition Deployed (\<open>common.go\<close>), and when a
    status is written (\<open>brokercluster_controller.go\<close>).
  \<^item> \<open>Scale_Machine\<close>: the scale down over many reconciles as a step relation, with lost writes, edits and brokers
    that change in between, and the invariant that a pod pending deletion was seen empty.
  \<^item> \<open>Scale_Progress\<close>: rounds of reconcile and status in a healthy cluster; two rounds take one pod off.
  \<^item> \<open>Cluster_Validation\<close>: the chain of checks of a cluster, and for each check what it accepts.
  \<^item> \<open>Pod_Types\<close>, \<open>Environments\<close>, \<open>Pod_Parts\<close>: the Kubernetes objects a broker's pod is made of, the merging of
    environment variables (\<open>pkg/resources/environments\<close>), and the builders of containers, volumes, mounts, probes and
    pod templates (\<open>pkg/resources\<close>).
  \<^item> \<open>Resource_Templates\<close>: the resource templates of a custom resource, the substitution of their placeholders and
    which desired objects they match.
  \<^item> \<open>Broker_Validation\<close>, \<open>Broker_Status\<close>: the checks of a \<open>Broker\<close> and its status (\<open>broker_controller.go\<close>,
    \<open>broker_reconciler.go\<close>), with the map to a cluster of one pod under which both coincide.
  \<^item> \<open>Control_Plane\<close>: the files of the restricted control plane (logins, certificates, Prometheus and Jolokia
    configuration), their overrides, and the secret with the broker properties.
  \<^item> \<open>Broker_Resources\<close>: the pod template, the stateful set, the claims, the service and the disruption budget of a
    \<open>Broker\<close>.
  \<^item> \<open>Broker_Reconcile\<close>: what is deployed, what is requested, the difference written type by type, and the reconcile
    with validation, blocking annotation, status and requeue.
  \<^item> \<open>Kube_Objects\<close>: the objects both controllers request, with one datatype of bodies and one of their types.
  \<^item> \<open>Address_Settings\<close>, \<open>Security_Config\<close>: the configuration the init container of a \<open>BrokerCluster\<close> is given, from its
    address settings (\<open>pkg/utils/cr2jinja2\<close>) and from the handlers of security resources
    (\<open>activemqartemissecurity_controller.go\<close>).
  \<^item> \<open>Ssl_Arguments\<close>, \<open>Acceptor_Text\<close>: the SSL arguments of a secret (\<open>pkg/utils/certutil\<close>) and the text of acceptors and
    connectors; a certificate gets a configuration file in a secret of its own.
  \<^item> \<open>Cluster_Exposure\<close>: services, ingresses and routes of a \<open>BrokerCluster\<close>, and the adoption of objects without an
    owner; \<open>Secret_Variables\<close>: the secrets the environment of its pods refers to; \<open>Cluster_Templates\<close>: its resource
    templates.
  \<^item> \<open>Cluster_Pod\<close>: the stateful set of a \<open>BrokerCluster\<close> with its pod template; \<open>Cluster_Reconcile\<close>: \<open>Process\<close> and
    \<open>Reconcile\<close> (\<open>brokercluster_reconciler.go\<close>, \<open>brokercluster_controller.go\<close>), composed of validation, plan,
    resources, status checks and status.
  \<^item> \<open>Object_Sync\<close>: what the server holds after a synchronisation, proved once in the locale \<open>object_sync\<close> of a
    controller that owns, compares and writes type by type; \<open>Broker_Sync\<close> and \<open>Cluster_Sync\<close> interpret it for the two
    controllers.
  \<^item> \<open>Drain_Controller\<close>: the drain controller (\<open>pkg/draincontroller/controller.go\<close>, \<open>pkg/rbac/util.go\<close>), which empties
    the claims of pods that are gone, and the controller of scale downs that runs it
    (\<open>activemqartemisscaledown_controller.go\<close>); its reads come from caches that stand still while one set is processed.
  \<^item> \<open>Artemis_Types\<close>, \<open>Artemis_Conversion\<close>, \<open>Artemis_Reconcile\<close>: the resource \<open>ActiveMQArtemis\<close> (\<open>api/v1beta1\<close>), its
    conversion to a \<open>BrokerCluster\<close> and back (\<open>brokercluster_converter.go\<close>), and its controller
    (\<open>activemqartemis_controller.go\<close>) with the registry of security handlers.
  \<^item> \<open>Control_Plane_Facts\<close>, \<open>Cluster_Pod_Facts\<close>, \<open>Cluster_Exposure_Facts\<close>: the lemmas on the files of the control plane,
    on the mounts and volumes along the construction of a pod, and on services, secrets and the text of acceptors.
  \<^item> \<open>Sample_Cluster\<close>, \<open>Sample_Broker\<close>, \<open>Sample_Resources\<close>: a small cluster, a small broker and a small cluster with an
    acceptor over TLS, on which hypotheses are shown to be satisfiable; \<open>App_Properties\<close>, \<open>Loop_Properties\<close>,
    \<open>Service_Properties\<close>, \<open>Support_Properties\<close>, \<open>Cluster_Properties\<close>, \<open>Restricted_Properties\<close>, \<open>Resource_Properties\<close>,
    \<open>Drain_Properties\<close>, \<open>Artemis_Properties\<close> and this theory: the properties.

  \<^bold>\<open>How the parts interact.\<close>  The controller of applications binds an application to a service by writing
  its status; the index on that status is how the controller of the service finds its applications.  The
  service writes one secret for all of them and lists in its annotation who is in it; its broker reports
  the version of the secret it applied; the service lists as provisioned whom the applied version names;
  and the application reads that list for its own readiness.  The properties of this theory follow that
  circle; the other theories hold the properties of one part.  A cluster's controller runs validation, the
  deployment plan, its resources and the status on one resource and one session with the brokers: the plan reads the
  condition the last status left, asks a broker for its messages and sets the replicas; then the secrets, acceptors,
  connectors and console add variables, volumes and mounts to the stateful set and services to what is requested,
  and the difference is written; the status reads
  the brokers' configuration, moves the condition on and records the pods, from which the next reconcile
  starts.  The controller of a \<open>Broker\<close> validates the resource, lists what is deployed, builds a pod template from
  the deployed one, from the custom resource and from the secrets of the operator, tracks every object it
  wants, lets the user's templates patch them, writes the difference in a fixed order of types, and asks the broker
  whether it applied its properties; the status follows from the pod and those answers.  The controller of an
  \<open>ActiveMQArtemis\<close> converts the resource, runs the steps of the controller of clusters on it and writes the
  converted status; the resource for a scale down that a cluster's controller creates is what starts the drain controller.

  \<^bold>\<open>How code is modelled.\<close>  A function that returns an error is a function into \<open>error + value\<close>; one that
  writes fields of a receiver returns them; the server is a state the client operations transform.
  \<open>int32\<close> and \<open>int64\<close> are words.  Strings are lists of bytes.  A loop is a recursion on the list it
  ranges over, and the loop over ports a function with a measure; no definition needs fuel.  A panic is the
  value \<open>Panic\<close> or \<open>None\<close>.  The spare capacity of a slice, on which the merging of variables depends, and the order in
  which a map of objects is ranged over are fields of the environment of a reconcile (\<open>beSpare\<close>, \<open>beRange\<close>); the variables
  of the package that outlive a reconcile (\<open>op_vars\<close>) are threaded through it.  What a reconcile keeps between its steps (endpoints and statuses already fetched) is
  the record \<open>session\<close>.  What is not
  in the repository (the Kubernetes client and its \<open>meta\<close> helpers, CEL, the LRU cache, semantic versions, the
  library of deep comparison, the management interface of a broker) is a record of functions with the documented laws as a predicate, and every
  predicate is shown to hold of an instance.  Logging and metrics are left out.

  \<^bold>\<open>Bounds.\<close>  Ports run from 61616 to 65535; memory sums are computed in 64 bits, and a lemma on memory states
  when the sum is exact.  Replicas are \<open>int32\<close>; the progress of a scale down counts its rounds, twice the number
  of pods to remove, which are enough because each pair of rounds takes one pod off.

  \<^bold>\<open>Not modelled.\<close>  The transport of the calls to a running broker over Jolokia, which is I/O; the controller of
  addresses, which drives a running broker for a deprecated kind; the reconcile of security resources and their
  passwords; the comparison of address settings, field by field; the text of address
  settings for the older API versions, the same code again; generated code and the entry point.  Random strings and
  the decoding of JSON beyond valid text are parameters.  The manifest lists the parts with the reason.
\<close>

section \<open>The two controllers together\<close>

text \<open>
  C6: the two controllers agree.  A service the application controller chooses from the list the
  server filtered by the application's label selector is one whose own controller admits the application.
\<close>

theorem placed_app_is_admitted:
  assumes filtered: "\<forall>sel ss. kListServices (cKube C) sel = Inr ss \<longrightarrow> (\<forall>s \<in> set ss. selMatches sel (svcLabels s))"
    and listed: "listed_services C i services"
    and found: "findServiceWithCapacity C i services = Inr (s, p)"
  shows "fst (validateAppForProvisioning C s i)"
proof -
  from find_chosen [OF found] obtain a where s: "s \<in> set services" and c: "considerService C i s = Inr (a, p)"
    by blast
  from considerService_InrD(2) [OF c] have "appMatchesSelector C s i"
    by (auto simp: matchesServiceSelector_def appMatchesSelector_def split: sum.splits)
  moreover from listed obtain sel where "kSelector (cKube C) (appSelector i) = Inr sel"
    "kListServices (cKube C) sel = Inr services" by (auto simp: listed_services_def)
  ultimately show ?thesis
    using filtered s by (auto simp: validate_True split: option.splits)
qed

theorem placed_app_is_admitted_witness:
  "fst (validateAppForProvisioning
     ((sample_controller [] [] [])\<lparr>cKube := (sample_kube [] [bind None sample_app] [])
        \<lparr>kListServices := (\<lambda>sel. Inr (filter (\<lambda>s. selMatches sel (svcLabels s)) [sample_service ''main'' 1000]))\<rparr>\<rparr>)
     (sample_service ''main'' 1000) (bind None sample_app))"
proof -
  let ?C = "(sample_controller [] [] [])\<lparr>cKube := (sample_kube [] [bind None sample_app] [])
        \<lparr>kListServices := (\<lambda>sel. Inr (filter (\<lambda>s. selMatches sel (svcLabels s)) [sample_service ''main'' 1000]))\<rparr>\<rparr>"
  let ?i = "bind None sample_app" and ?s = "sample_service ''main'' 1000"
  have "listOtherAppsForService ?C ?i ?s = Inr []"
    by (simp add: listOtherAppsForService_def app_binding_index_def)
  then have "considerService ?C ?i ?s = Inr (1000, 61616)"
    by (simp add: considerService_def checkAddressClashOnService_def getAvailableMemory_def
        matchesServiceSelector_def)
  then have f: "findServiceWithCapacity ?C ?i [?s] = Inr (?s, 61616)"
    by (simp add: findServiceWithCapacity_def)
  have "listed_services ?C ?i [?s]" by (simp add: listed_services_def sample_selector_def)
  from placed_app_is_admitted [OF _ this f] show ?thesis by auto
qed


definition applied_service :: broker_service where
  "applied_service = (sample_service ''main'' 1000)\<lparr>svcStatus := processServiceStatus meta_instance
     (sample_kube [] [] [app_secret]) (\<lambda>b. []) (sample_service ''main'' 1000) (Some ready_broker) (Some []) None\<rparr>"

lemma status_deployed:
  assumes "meta_ok M" "distinct_types (ssConditions (svcStatus i))"
  shows "FindStatusCondition M (ssConditions (processServiceStatus M K fmt i dep rejected err)) DeployedConditionType =
    Some (service_deployed_condition M fmt dep err)"
  using assms
  by (simp add: processServiceStatus_def setServiceValidCondition_def Let_def SetReady_find meta_find_set
      split: option.split)

lemma applied_service_sel [simp]:
  "svcNamespace applied_service = ''dev''" "svcName applied_service = ''main''"
  "svcMemoryLimit applied_service = quantity_of 1000"
  by (simp_all add: applied_service_def)

lemma applied_considered:
  "considerService (sample_controller ss [bind b sample_app] ks) (bind b' sample_app) applied_service =
     Inr (1000, 61616)"
proof -
  have "distinct_types (ssConditions (svcStatus (sample_service ''main'' 1000)))" by (simp add: distinct_types_def)
  from status_deployed [OF meta_instance_ok this]
  have "\<exists>c. FindStatusCondition meta_instance (ssConditions (svcStatus applied_service)) DeployedConditionType =
      Some c \<and> cStatus c = ConditionTrue"
    using ready_deployed
    by (auto simp: applied_service_def service_deployed_true broker_deployed_def
        meta_true_find [OF meta_instance_ok] split: option.splits)
  then show ?thesis
    by (auto simp: considerService_def checkAddressClashOnService_def getAvailableMemory_def)
qed


text \<open>
  C3: in a reachable cluster two different applications bound to one service have different acceptors:
  their ports differ, and so do the security domains that hold their users and roles.
\<close>

theorem acceptors_are_separate:
  assumes "reachable apps" "a \<in> set apps" "b \<in> set apps" "\<not> same_app a b"
    and "asService (appStatus a) = Some x" "asService (appStatus b) = Some y" "binding_key x = binding_key y"
  shows "sbAssignedPort x \<noteq> sbAssignedPort y \<and> jaasConfigRealmName a \<noteq> jaasConfigRealmName b"
proof -
  note inv = exclusiveD [OF reachable_exclusive [OF assms(1)]]
  have "bound_port a = Some (binding_key x, sbAssignedPort x)" "bound_port b = Some (binding_key y, sbAssignedPort y)"
    using assms(5,6) by (simp_all add: bound_port_def)
  with inv(2,3) assms(2-4,7) have ports: "sbAssignedPort x \<noteq> sbAssignedPort y"
    "sbAssignedPort x \<in> port_range" "sbAssignedPort y \<in> port_range" by force+
  with Unassigned_not_in_range have "sbAssignedPort x \<noteq> UnassignedPort" "sbAssignedPort y \<noteq> UnassignedPort"
    by metis+
  with realm_inj [OF assms(5) _ assms(6)] ports(1) show ?thesis by blast
qed


text \<open>A second application placed beside the first.\<close>

definition mail_app :: broker_app where
  "mail_app = fresh_app ''dev'' ''mail'' [\<lparr>ProducerOf = [plain_local ''mails''], ConsumerOf = []\<rparr>]"

lemma mail_app_sel [simp]:
  "appNamespace mail_app = ''dev''" "appName mail_app = ''mail''" "appSelector mail_app = None"
  "appAddresses mail_app = []" "appSharedAddresses mail_app = []"
  "appCapabilities mail_app = [\<lparr>ProducerOf = [plain_local ''mails''], ConsumerOf = []\<rparr>]"
  "appMemoryRequest mail_app = quantity_of 100" "asService (appStatus mail_app) = None"
  by (simp_all add: mail_app_def fresh_app_def)

lemma mail_valid: "validateSpec mail_app = None"
  by (simp add: validateSpec_None spec_ok_def common_ValidateResourceName_def has_prefix_def capability_ok_def
      producer_ok_def ref_ok_def routing_ok_def app_refs_def declaredAddresses_def)

lemma mail_resolved:
  assumes st: "asService st = Some (new_binding sample_app (sample_service ''main'' 1000) 61616)"
  shows "rsBinding (resolveBrokerService (sample_controller [sample_service ''main'' 1000]
      [mail_app, (bind None sample_app)\<lparr>appStatus := st\<rparr>] []) mail_app) =
    Some (new_binding mail_app (sample_service ''main'' 1000) 61617)"
proof -
  let ?a = "(bind None sample_app)\<lparr>appStatus := st\<rparr>" and ?s = "sample_service ''main'' 1000"
  let ?C = "sample_controller [?s] [mail_app, ?a] []"
  have others: "listOtherAppsForService ?C mail_app ?s = Inr [?a]"
    using st by (simp add: listOtherAppsForService_def app_binding_index_def binding_key_def serviceKey_def
        new_binding_def)
  have owned: "collectOwnedAddresses ?a = [''orders'']" "collectOwnedAddresses mail_app = [''mails'']"
    by (simp_all add: collectOwnedAddresses_def extractBaseAddress_def)
  have refs: "checkAddressRefCapacity ?C mail_app ?s = None"
    by (simp add: checkAddressRefCapacity_def checkAddressRef_def)
  have port: "assignNextAvailablePort (collectUsedPorts [?a] (Some mail_app)) = Inr 61617"
    using st by (simp add: assignNextAvailablePort_def assign_from.simps MaxValidPort_def DefaultStartPort_def
        collectUsedPorts_def same_app_def UnassignedPort_def)
  have "considerService ?C mail_app ?s = Inr (900, 61617)"
    by (simp add: considerService_def checkAddressClashOnService_def owned refs others port
        getAvailableMemory_def)
  then show ?thesis
    by (simp add: resolveBrokerService_def inspectBinding_def findServiceWithCapacity_def new_binding_def)
qed

theorem acceptors_are_separate_witness:
  "\<exists>a b. reachable [b, a] \<and> jaasConfigRealmName a \<noteq> jaasConfigRealmName b"
proof -
  define app where "app = bind None sample_app"
  define s where "s = sample_service ''main'' 1000"
  define st where "st = aoStatus (Reconcile (sample_env [s] [app]) app ())"
  define a where "a = app\<lparr>appStatus := st\<rparr>"
  define st' where "st' = aoStatus (Reconcile (sample_env [s] [mail_app, a]) mail_app ())"
  define b where "b = mail_app\<lparr>appStatus := st'\<rparr>"
  have bound: "asService st = Some (new_binding sample_app s 61616)"
    using sample_spec_ok
    by (simp add: st_def app_def s_def reconciled_binding validateSpec_None sample_resolved)
  have bound': "asService st' = Some (new_binding mail_app s 61617)"
    using mail_resolved [of st] bound
    by (simp add: st'_def reconciled_binding mail_valid a_def app_def s_def)
  have "cluster_step [] [app]" by (rule cluster_step.create) (simp_all add: app_def)
  moreover have "cluster_step [app] (set_status app st [app])"
    unfolding st_def by (rule cluster_step.reconcile) (simp_all add: sample_index)
  moreover have "set_status app st [app] = [a]" by (simp add: set_status_def a_def)
  moreover have "cluster_step [a] [mail_app, a]"
    by (rule cluster_step.create) (simp_all add: a_def app_def same_app_def)
  moreover have "cluster_step [mail_app, a] (set_status mail_app st' [mail_app, a])"
    unfolding st'_def by (rule cluster_step.reconcile) (simp_all add: sample_index)
  moreover have "set_status mail_app st' [mail_app, a] = [b, a]"
    by (simp add: set_status_def b_def a_def app_def same_app_def)
  ultimately have r: "reachable [b, a]"
    unfolding reachable_def by (metis (no_types) rtranclp.rtrancl_into_rtrancl rtranclp.rtrancl_refl)
  have "\<not> same_app a b" by (simp add: same_app_def a_def app_def b_def)
  moreover have "asService (appStatus a) = Some (new_binding sample_app s 61616)"
    "asService (appStatus b) = Some (new_binding mail_app s 61617)"
    using bound bound' by (simp_all add: a_def b_def)
  ultimately have "jaasConfigRealmName a \<noteq> jaasConfigRealmName b"
    using acceptors_are_separate [OF r, of a b "new_binding sample_app s 61616" "new_binding mail_app s 61617"]
    by simp
  with r show ?thesis by blast
qed

end
